(* ===== verification/Prelude.thy ===== *)
theory Prelude
  imports Main "HOL-Library.Word"
begin

text \<open>
  Shared vocabulary of the development: bytes and byte strings, the memory
  representation of fixed-width integers on the little-endian hosts the agent
  is built for, the network byte order helpers (\<^verbatim>\<open>htonl\<close> of the C library and
  \<^verbatim>\<open>htonll\<close> of \<^verbatim>\<open>src/src/inet/htonll.c\<close>), and byte slices of a buffer.
\<close>

unbundle bit_operations_syntax

type_synonym byte = "8 word"
type_synonym bytes = "8 word list"

subsection \<open>Memory representation of integers\<close>

text \<open>
  \<open>le_enc k w\<close> are the \<open>k\<close> bytes of \<open>w\<close> as they lie in memory; \<open>le_dec\<close> reads
  them back.  A \<^verbatim>\<open>memcpy\<close> from or to an integer is one of the two.
\<close>

fun le_enc :: "nat \<Rightarrow> 'a::len word \<Rightarrow> bytes" where
  "le_enc 0 w = []"
| "le_enc (Suc k) w = ucast w # le_enc k (drop_bit 8 w)"

fun le_dec :: "bytes \<Rightarrow> 'a::len word" where
  "le_dec [] = 0"
| "le_dec (b # bs) = ucast b OR push_bit 8 (le_dec bs)"

definition mem32 :: "32 word \<Rightarrow> bytes" where
  "mem32 w = le_enc 4 w"

definition of_mem32 :: "bytes \<Rightarrow> 32 word" where
  "of_mem32 bs = le_dec (take 4 bs)"

definition mem64 :: "64 word \<Rightarrow> bytes" where
  "mem64 w = le_enc 8 w"

definition of_mem64 :: "bytes \<Rightarrow> 64 word" where
  "of_mem64 bs = le_dec (take 8 bs)"

lemma length_le_enc [simp]: "length (le_enc k w) = k"
  by (induction k arbitrary: w) auto

lemma nth_le_enc: "i < k \<Longrightarrow> le_enc k w ! i = ucast (drop_bit (8 * i) w)"
proof (induction k arbitrary: w i)
  case 0
  then show ?case by simp
next
  case (Suc k)
  then show ?case by (cases i) (simp_all add: algebra_simps)
qed

lemma bit_le_dec:
  "bit (le_dec bs :: 'a::len word) n \<longleftrightarrow>
     n < LENGTH('a) \<and> n < 8 * length bs \<and> bit (bs ! (n div 8)) (n mod 8)"
proof (induction bs arbitrary: n)
  case Nil
  then show ?case by simp
next
  case (Cons b bs)
  show ?case
  proof (cases "n < 8")
    case True
    then show ?thesis by (auto simp: bit_or_iff bit_push_bit_iff bit_ucast_iff Cons.IH)
  next
    case False
    then have "n div 8 = Suc ((n - 8) div 8)" "n mod 8 = (n - 8) mod 8"
      by (simp_all add: le_div_geq le_mod_geq)
    moreover have "\<not> bit b n"
      using False bit_imp_le_length [of b n] by auto
    ultimately show ?thesis
      using False by (auto simp: bit_or_iff bit_push_bit_iff bit_ucast_iff Cons.IH)
  qed
qed

lemma le_dec_enc:
  assumes "LENGTH('a) \<le> 8 * k"
  shows "le_dec (le_enc k w) = (w :: 'a::len word)"
proof (rule bit_word_eqI)
  fix n assume n: "n < LENGTH('a)"
  then have "n div 8 < k" using assms by (simp add: less_mult_imp_div_less)
  then have "bit (le_enc k w ! (n div 8)) (n mod 8) = bit w n"
    using n by (simp add: nth_le_enc bit_ucast_iff bit_drop_bit_eq)
  then show "bit (le_dec (le_enc k w) :: 'a word) n = bit w n"
    using n assms by (simp add: bit_le_dec)
qed

lemma le_enc_dec:
  assumes "8 * length bs \<le> LENGTH('a)"
  shows "le_enc (length bs) (le_dec bs :: 'a::len word) = bs"
proof (rule nth_equalityI)
  show "length (le_enc (length bs) (le_dec bs :: 'a word)) = length bs" by simp
next
  fix i assume "i < length (le_enc (length bs) (le_dec bs :: 'a word))"
  then have i: "i < length bs" by simp
  show "le_enc (length bs) (le_dec bs :: 'a word) ! i = bs ! i"
  proof (rule bit_word_eqI)
    fix n assume "n < LENGTH(8)"
    then have n: "n < 8" by simp
    then have "8 * i + n < 8 * length bs" using i by linarith
    then show "bit (le_enc (length bs) (le_dec bs :: 'a word) ! i) n = bit (bs ! i) n"
      using i n assms by (simp add: nth_le_enc bit_ucast_iff bit_drop_bit_eq bit_le_dec add.commute)
  qed
qed

lemma length_mem32 [simp]: "length (mem32 w) = 4"
  by (simp add: mem32_def)

lemma length_mem64 [simp]: "length (mem64 w) = 8"
  by (simp add: mem64_def)

lemma of_mem32_mem32 [simp]: "of_mem32 (mem32 w @ r) = w"
  using le_dec_enc [where 'a = 32 and k = 4 and w = w] by (simp add: mem32_def of_mem32_def)

lemma of_mem32_mem32' [simp]: "of_mem32 (mem32 w) = w"
  using of_mem32_mem32 [of w "[]"] by simp

lemma of_mem64_mem64 [simp]: "of_mem64 (mem64 w @ r) = w"
  using le_dec_enc [where 'a = 64 and k = 8 and w = w] by (simp add: mem64_def of_mem64_def)

lemma of_mem64_mem64' [simp]: "of_mem64 (mem64 w) = w"
  using of_mem64_mem64 [of w "[]"] by simp

lemma mem32_of_mem32: "length bs = 4 \<Longrightarrow> mem32 (of_mem32 bs) = bs"
  using le_enc_dec [where 'a = 32 and bs = bs] by (simp add: mem32_def of_mem32_def)

lemma mem64_of_mem64: "length bs = 8 \<Longrightarrow> mem64 (of_mem64 bs) = bs"
  using le_enc_dec [where 'a = 64 and bs = bs] by (simp add: mem64_def of_mem64_def)

lemma mem32_inject [simp]: "mem32 a = mem32 b \<longleftrightarrow> a = b"
  by (metis of_mem32_mem32')

lemma mem64_inject [simp]: "mem64 a = mem64 b \<longleftrightarrow> a = b"
  by (metis of_mem64_mem64')

subsection \<open>Network byte order\<close>

text \<open>\<^verbatim>\<open>htonl\<close> and \<^verbatim>\<open>ntohl\<close> of the C library on a little-endian host.\<close>

definition htonl :: "32 word \<Rightarrow> 32 word" where
  "htonl w = le_dec (rev (mem32 w))"

abbreviation ntohl :: "32 word \<Rightarrow> 32 word" where
  "ntohl \<equiv> htonl"

text \<open>\<^verbatim>\<open>htonll\<close> of the repository; \<^verbatim>\<open>ntohll\<close> is a macro for the same function.\<close>

definition htonll :: "64 word \<Rightarrow> 64 word" where
  "htonll val =
     push_bit 56 (val AND 0x00000000000000FF) OR
     push_bit 40 (val AND 0x000000000000FF00) OR
     push_bit 24 (val AND 0x0000000000FF0000) OR
     push_bit 8 (val AND 0x00000000FF000000) OR
     drop_bit 8 (val AND 0x000000FF00000000) OR
     drop_bit 24 (val AND 0x0000FF0000000000) OR
     drop_bit 40 (val AND 0x00FF000000000000) OR
     drop_bit 56 (val AND 0xFF00000000000000)"

abbreviation ntohll :: "64 word \<Rightarrow> 64 word" where
  "ntohll \<equiv> htonll"

lemma mem32_htonl: "mem32 (htonl w) = rev (mem32 w)"
  unfolding htonl_def using mem32_of_mem32 [of "rev (mem32 w)"] by (simp add: of_mem32_def)

lemma htonl_htonl [simp]: "htonl (htonl w) = w"
proof -
  have "mem32 (htonl (htonl w)) = mem32 w" by (simp add: mem32_htonl)
  then show ?thesis by simp
qed

lemma htonl_inject [simp]: "htonl a = htonl b \<longleftrightarrow> a = b"
  by (metis htonl_htonl)

lemma htonll_masks:
  "htonll val =
     push_bit 56 (val AND mask 8) OR push_bit 40 (val AND push_bit 8 (mask 8)) OR
     push_bit 24 (val AND push_bit 16 (mask 8)) OR push_bit 8 (val AND push_bit 24 (mask 8)) OR
     drop_bit 8 (val AND push_bit 32 (mask 8)) OR drop_bit 24 (val AND push_bit 40 (mask 8)) OR
     drop_bit 40 (val AND push_bit 48 (mask 8)) OR drop_bit 56 (val AND push_bit 56 (mask 8))"
  by (simp add: htonll_def mask_eq_exp_minus_1 push_bit_eq_mult)


lemmas htonll_bit_simps = htonll_masks bit_or_iff bit_and_iff bit_push_bit_iff bit_drop_bit_eq bit_mask_iff bit_ucast_iff

lemma htonll_byte:
  "ucast (htonll w) = (ucast (drop_bit 56 w) :: byte)"
  "ucast (drop_bit 8 (htonll w)) = (ucast (drop_bit 48 w) :: byte)"
  "ucast (drop_bit 16 (htonll w)) = (ucast (drop_bit 40 w) :: byte)"
  "ucast (drop_bit 24 (htonll w)) = (ucast (drop_bit 32 w) :: byte)"
  "ucast (drop_bit 32 (htonll w)) = (ucast (drop_bit 24 w) :: byte)"
  "ucast (drop_bit 40 (htonll w)) = (ucast (drop_bit 16 w) :: byte)"
  "ucast (drop_bit 48 (htonll w)) = (ucast (drop_bit 8 w) :: byte)"
  "ucast (drop_bit 56 (htonll w)) = (ucast w :: byte)"
  by (rule bit_word_eqI, simp add: htonll_bit_simps)+


lemma le_enc_4: "le_enc 4 w = [ucast w, ucast (drop_bit 8 w), ucast (drop_bit 16 w), ucast (drop_bit 24 w)]"
proof -
  have "le_enc (Suc (Suc (Suc (Suc 0)))) w = [ucast w, ucast (drop_bit 8 w), ucast (drop_bit 16 w), ucast (drop_bit 24 w)]"
    by simp
  moreover have "Suc (Suc (Suc (Suc 0))) = 4" by simp
  ultimately show ?thesis by (simp only:)
qed

lemma le_enc_8: "le_enc 8 w = le_enc 4 w @ le_enc 4 (drop_bit 32 w)"
proof -
  have "le_enc (Suc (Suc (Suc (Suc 4)))) w = le_enc 4 w @ le_enc 4 (drop_bit 32 w)"
    by (simp only: le_enc.simps le_enc_4 [of w]) simp
  moreover have "Suc (Suc (Suc (Suc 4))) = (8::nat)" by simp
  ultimately show ?thesis by (simp only:)
qed
lemma mem64_htonll: "mem64 (htonll w) = rev (mem64 w)"
  by (simp add: mem64_def le_enc_8 le_enc_4 htonll_byte)

lemma htonll_htonll [simp]: "htonll (htonll w) = w"
proof -
  have "mem64 (htonll (htonll w)) = mem64 w" by (simp add: mem64_htonll)
  then show ?thesis by simp
qed

lemma htonll_inject [simp]: "htonll a = htonll b \<longleftrightarrow> a = b"
  by (metis htonll_htonll)

lemma htonll_0 [simp]: "htonll 0 = 0"
  by (simp add: htonll_def)

lemma htonl_0 [simp]: "htonl 0 = 0"
  by (simp add: htonl_def mem32_def le_enc_4)

text \<open>
  The bytes the C code puts on the wire with \<^verbatim>\<open>uint32_t n = htonl(x); memcpy(p, &n, 4)\<close>
  and the matching read.
\<close>

definition net32 :: "32 word \<Rightarrow> bytes" where
  "net32 w = mem32 (htonl w)"

definition of_net32 :: "bytes \<Rightarrow> 32 word" where
  "of_net32 bs = ntohl (of_mem32 bs)"

definition net64 :: "64 word \<Rightarrow> bytes" where
  "net64 w = mem64 (htonll w)"

definition of_net64 :: "bytes \<Rightarrow> 64 word" where
  "of_net64 bs = ntohll (of_mem64 bs)"

lemma length_net32 [simp]: "length (net32 w) = 4"
  by (simp add: net32_def)

lemma length_net64 [simp]: "length (net64 w) = 8"
  by (simp add: net64_def)

lemma of_net32_net32 [simp]: "of_net32 (net32 w @ r) = w" "of_net32 (net32 w) = w"
  by (simp_all add: net32_def of_net32_def)

lemma of_net64_net64 [simp]: "of_net64 (net64 w @ r) = w" "of_net64 (net64 w) = w"
  by (simp_all add: net64_def of_net64_def)

lemma net32_of_net32: "length bs = 4 \<Longrightarrow> net32 (of_net32 bs) = bs"
  by (simp add: net32_def of_net32_def mem32_of_mem32)

lemma net64_of_net64: "length bs = 8 \<Longrightarrow> net64 (of_net64 bs) = bs"
  by (simp add: net64_def of_net64_def mem64_of_mem64)

lemma net32_inject [simp]: "net32 a = net32 b \<longleftrightarrow> a = b"
  by (simp add: net32_def)

lemma net64_inject [simp]: "net64 a = net64 b \<longleftrightarrow> a = b"
  by (simp add: net64_def)

text \<open>Big-endian order: the most significant byte goes first.\<close>

lemma net32_big_endian: "net32 w = rev (le_enc 4 w)"
  unfolding net32_def mem32_htonl by (simp add: mem32_def)

lemma net64_big_endian: "net64 w = rev (le_enc 8 w)"
  unfolding net64_def mem64_htonll by (simp add: mem64_def)

lemma net32_code [code]:
  "net32 w = [ucast (drop_bit 24 w), ucast (drop_bit 16 w), ucast (drop_bit 8 w), ucast w]"
  by (simp add: net32_big_endian le_enc_4)

lemma net64_code [code]: "net64 w = net32 (ucast (drop_bit 32 w)) @ net32 (ucast w)"
proof -
  have "le_enc 4 (ucast w :: 32 word) = le_enc 4 w"
    by (simp add: le_enc_4, intro conjI; rule bit_word_eqI; simp add: bit_ucast_iff bit_drop_bit_eq)
  moreover have "le_enc 4 (ucast (drop_bit 32 w) :: 32 word) = le_enc 4 (drop_bit 32 w)"
    by (simp add: le_enc_4, intro conjI; rule bit_word_eqI; simp add: bit_ucast_iff bit_drop_bit_eq)
  ultimately show ?thesis by (simp add: net64_big_endian net32_big_endian le_enc_8)
qed

subsection \<open>Byte slices\<close>

text \<open>\<open>slice off n b\<close> are the \<open>n\<close> bytes at offset \<open>off\<close> of the buffer \<open>b\<close>.\<close>

definition slice :: "nat \<Rightarrow> nat \<Rightarrow> 'a list \<Rightarrow> 'a list" where
  "slice off n b = take n (drop off b)"

lemma length_slice [simp]: "length (slice off n b) = min n (length b - off)"
  by (simp add: slice_def)

lemma slice_append_left [simp]: "off + n \<le> length a \<Longrightarrow> slice off n (a @ b) = slice off n a"
  by (simp add: slice_def)

lemma slice_append_right [simp]: "length a \<le> off \<Longrightarrow> slice off n (a @ b) = slice (off - length a) n b"
  by (simp add: slice_def)

lemma slice_full [simp]: "length a \<le> n \<Longrightarrow> slice 0 n a = a"
  by (simp add: slice_def)

lemma slice_zero_append [simp]: "length a = n \<Longrightarrow> slice 0 n (a @ b) = a"
  by (simp add: slice_def)

lemma slice_take [simp]: "off + n \<le> k \<Longrightarrow> slice off n (take k b) = slice off n b"
  by (simp add: slice_def drop_take min_def)

lemma slice_concat: "slice off m b @ slice (off + m) n b = slice off (m + n) b"
  by (simp add: slice_def take_add add.commute)

text \<open>\<^verbatim>\<open>memcpy(b + off, v, sizeof(v))\<close> within the buffer \<open>b\<close>.\<close>

definition store_at :: "nat \<Rightarrow> 'a list \<Rightarrow> 'a list \<Rightarrow> 'a list" where
  "store_at off v b = take off b @ v @ drop (off + length v) b"

lemma length_store_at [simp]: "off + length v \<le> length b \<Longrightarrow> length (store_at off v b) = length b"
  by (simp add: store_at_def)

lemma slice_store_at_same [simp]:
  "off + n \<le> length b \<Longrightarrow> length v = n \<Longrightarrow> slice off n (store_at off v b) = v"
  by (simp add: slice_def store_at_def)

lemma slice_store_at_below [simp]:
  "off + length v \<le> length b \<Longrightarrow> o' + n \<le> off \<Longrightarrow> slice o' n (store_at off v b) = slice o' n b"
  by (simp add: store_at_def)

lemma slice_store_at_above [simp]:
  "off + length v \<le> length b \<Longrightarrow> off + length v \<le> o' \<Longrightarrow> slice o' n (store_at off v b) = slice o' n b"
  by (simp add: slice_def store_at_def)

lemma drop_store_at [simp]:
  "off + length v \<le> length b \<Longrightarrow> off + length v \<le> n \<Longrightarrow> drop n (store_at off v b) = drop n b"
  by (simp add: store_at_def)

subsection \<open>Properties\<close>

text \<open>
  \<^verbatim>\<open>htonll\<close> puts the most significant byte first, and applying it twice gives
  the value back, so that \<^verbatim>\<open>ntohll\<close> can be the same function.
\<close>

theorem htonll_network_order:
  "htonll (htonll w) = w \<and> mem64 (htonll w) = rev (mem64 w) \<and>
   mem64 (htonll w) = map (\<lambda>i. ucast (drop_bit (8 * (7 - i)) w)) [0..<8]"
proof -
  have "[0..<8] = [0, 1, 2, 3, 4, 5, 6, 7]" by (simp add: upt_rec)
  then show ?thesis by (simp add: mem64_htonll mem64_def le_enc_8 le_enc_4 htonll_byte)
qed

end
