(* ===== verification/Bitcap.thy ===== *)
theory Bitcap
  imports Prelude
begin

text \<open>
  Capability bit sets: the macros of \<^verbatim>\<open>src/include/agentd/bitcap.h\<close> over an array
  of 32-bit words, and the interface \<open>capability_set\<close> that the context code
  relies on.
\<close>

type_synonym bitcap = "32 word list"

definition BITCAP_WORDS :: "nat \<Rightarrow> nat" where
  "BITCAP_WORDS bitsize = bitsize div 32 + (if bitsize mod 32 > 0 then 1 else 0)"

definition BITCAP_OFFSET :: "nat \<Rightarrow> nat" where
  "BITCAP_OFFSET b = b div 32"

definition BITCAP_SHIFT :: "nat \<Rightarrow> nat" where
  "BITCAP_SHIFT b = b mod 32"

definition BITCAP_INIT_FALSE :: "bitcap \<Rightarrow> bitcap" where
  "BITCAP_INIT_FALSE x = replicate (length x) 0"

definition BITCAP_INIT_TRUE :: "bitcap \<Rightarrow> bitcap" where
  "BITCAP_INIT_TRUE x = replicate (length x) 0xFFFFFFFF"

definition BITCAP_SET_TRUE :: "bitcap \<Rightarrow> nat \<Rightarrow> bitcap" where
  "BITCAP_SET_TRUE cap b =
     cap[BITCAP_OFFSET b := cap ! BITCAP_OFFSET b OR push_bit (BITCAP_SHIFT b) 1]"

definition BITCAP_SET_FALSE :: "bitcap \<Rightarrow> nat \<Rightarrow> bitcap" where
  "BITCAP_SET_FALSE cap b =
     cap[BITCAP_OFFSET b := cap ! BITCAP_OFFSET b AND NOT (push_bit (BITCAP_SHIFT b) 1)]"

definition BITCAP_ISSET :: "bitcap \<Rightarrow> nat \<Rightarrow> bool" where
  "BITCAP_ISSET cap b \<longleftrightarrow> cap ! BITCAP_OFFSET b AND push_bit (BITCAP_SHIFT b) 1 \<noteq> 0"

definition BITCAP_INTERSECT :: "bitcap \<Rightarrow> bitcap \<Rightarrow> bitcap" where
  "BITCAP_INTERSECT A B = map2 (AND) A B"

definition BITCAP_UNION :: "bitcap \<Rightarrow> bitcap \<Rightarrow> bitcap" where
  "BITCAP_UNION A B = map2 (OR) A B"

lemma and_exp_eq_0: "(w :: 'a::len word) AND 2 ^ n = 0 \<longleftrightarrow> \<not> bit w n"
proof
  assume 0: "w AND 2 ^ n = 0"
  show "\<not> bit w n"
  proof
    assume b: "bit w n"
    then have "n < LENGTH('a)" by (rule bit_imp_le_length)
    with b have "bit (w AND 2 ^ n) n" by (simp add: bit_and_iff bit_exp_iff possible_bit_word)
    with 0 show False by simp
  qed
next
  assume "\<not> bit w n"
  then show "w AND 2 ^ n = 0"
    by (intro bit_word_eqI) (auto simp: bit_and_iff bit_exp_iff)
qed

lemma BITCAP_ISSET_bit: "BITCAP_ISSET cap b \<longleftrightarrow> bit (cap ! (b div 32)) (b mod 32)"
  by (simp add: BITCAP_ISSET_def BITCAP_OFFSET_def BITCAP_SHIFT_def and_exp_eq_0)

lemma bit_position_eq: "(b::nat) = c \<longleftrightarrow> b div 32 = c div 32 \<and> b mod 32 = c mod 32"
  by (metis div_mult_mod_eq)

lemma BITCAP_ISSET_SET_TRUE:
  assumes "b div 32 < length cap"
  shows "BITCAP_ISSET (BITCAP_SET_TRUE cap b) c \<longleftrightarrow> c = b \<or> BITCAP_ISSET cap c"
  using assms bit_position_eq [of c b]
  by (cases "c div 32 = b div 32")
    (auto simp: BITCAP_ISSET_bit BITCAP_SET_TRUE_def BITCAP_OFFSET_def BITCAP_SHIFT_def
      nth_list_update bit_or_iff bit_exp_iff possible_bit_word)

lemma BITCAP_ISSET_SET_FALSE:
  assumes "b div 32 < length cap"
  shows "BITCAP_ISSET (BITCAP_SET_FALSE cap b) c \<longleftrightarrow> c \<noteq> b \<and> BITCAP_ISSET cap c"
proof (cases "c div 32 = b div 32")
  case True
  then show ?thesis
    using assms bit_position_eq [of c b]
    by (auto simp: BITCAP_ISSET_bit BITCAP_SET_FALSE_def BITCAP_OFFSET_def BITCAP_SHIFT_def
        nth_list_update bit_and_iff bit_not_iff bit_exp_iff possible_bit_word)
next
  case False
  then show ?thesis
    using assms bit_position_eq [of c b]
    by (auto simp: BITCAP_ISSET_bit BITCAP_SET_FALSE_def BITCAP_OFFSET_def nth_list_update)
qed

lemma BITCAP_ISSET_INTERSECT:
  assumes "length A = length B" and "b div 32 < length A"
  shows "BITCAP_ISSET (BITCAP_INTERSECT A B) b \<longleftrightarrow> BITCAP_ISSET A b \<and> BITCAP_ISSET B b"
  using assms by (simp add: BITCAP_ISSET_bit BITCAP_INTERSECT_def bit_and_iff)

lemma BITCAP_ISSET_UNION:
  assumes "length A = length B" and "b div 32 < length A"
  shows "BITCAP_ISSET (BITCAP_UNION A B) b \<longleftrightarrow> BITCAP_ISSET A b \<or> BITCAP_ISSET B b"
  using assms by (simp add: BITCAP_ISSET_bit BITCAP_UNION_def bit_or_iff)

lemma BITCAP_ISSET_INIT_TRUE:
  "b div 32 < length x \<Longrightarrow> BITCAP_ISSET (BITCAP_INIT_TRUE x) b"
proof -
  assume b: "b div 32 < length x"
  have ones: "(0xFFFFFFFF :: 32 word) = -1" by simp
  have "bit (0xFFFFFFFF :: 32 word) (b mod 32)"
    unfolding ones by (simp add: bit_minus_1_iff possible_bit_word)
  then show ?thesis using b by (simp add: BITCAP_ISSET_bit BITCAP_INIT_TRUE_def)
qed

lemma BITCAP_ISSET_INIT_FALSE:
  "b div 32 < length x \<Longrightarrow> \<not> BITCAP_ISSET (BITCAP_INIT_FALSE x) b"
  by (simp add: BITCAP_ISSET_bit BITCAP_INIT_FALSE_def)

lemma length_bitcap [simp]:
  "length (BITCAP_SET_TRUE cap b) = length cap"
  "length (BITCAP_SET_FALSE cap b) = length cap"
  "length (BITCAP_INTERSECT A B) = min (length A) (length B)"
  "length (BITCAP_UNION A B) = min (length A) (length B)"
  "length (BITCAP_INIT_TRUE x) = length x"
  "length (BITCAP_INIT_FALSE x) = length x"
  by (simp_all add: BITCAP_SET_TRUE_def BITCAP_SET_FALSE_def BITCAP_INTERSECT_def
      BITCAP_UNION_def BITCAP_INIT_TRUE_def BITCAP_INIT_FALSE_def)

subsection \<open>The interface of a capability set\<close>

text \<open>
  What the context code relies on: sets over the bits below a bound, with
  granting, revoking and intersecting.  The lemmas of the locale are the
  reduction laws of the service: a reduced set grants no more than what it was
  reduced from, and a revoked bit stays revoked under further reduction.
\<close>

locale capability_set =
  fixes isset :: "'c \<Rightarrow> nat \<Rightarrow> bool"
    and grant :: "'c \<Rightarrow> nat \<Rightarrow> 'c"
    and revoke :: "'c \<Rightarrow> nat \<Rightarrow> 'c"
    and meet :: "'c \<Rightarrow> 'c \<Rightarrow> 'c"
    and valid :: "'c \<Rightarrow> bool"
    and bound :: nat
  assumes isset_grant: "valid c \<Longrightarrow> b < bound \<Longrightarrow> isset (grant c b) d \<longleftrightarrow> d = b \<or> isset c d"
    and isset_revoke: "valid c \<Longrightarrow> b < bound \<Longrightarrow> isset (revoke c b) d \<longleftrightarrow> d \<noteq> b \<and> isset c d"
    and isset_meet: "valid c \<Longrightarrow> valid c' \<Longrightarrow> b < bound \<Longrightarrow> isset (meet c c') b \<longleftrightarrow> isset c b \<and> isset c' b"
    and valid_grant: "valid c \<Longrightarrow> valid (grant c b)"
    and valid_revoke: "valid c \<Longrightarrow> valid (revoke c b)"
    and valid_meet: "valid c \<Longrightarrow> valid c' \<Longrightarrow> valid (meet c c')"
begin

lemma meet_no_more:
  "valid c \<Longrightarrow> valid d \<Longrightarrow> b < bound \<Longrightarrow> isset (meet c d) b \<Longrightarrow> isset c b"
  by (simp add: isset_meet)

lemma meet_keeps_revoked:
  "valid c \<Longrightarrow> valid d \<Longrightarrow> b < bound \<Longrightarrow> \<not> isset c b \<Longrightarrow> \<not> isset (meet c d) b"
  by (simp add: isset_meet)

lemma reduced_child:
  assumes "valid root" and "valid caps" and "k < bound" and "b < bound"
  shows "isset (revoke (meet root caps) k) b \<longleftrightarrow> b \<noteq> k \<and> isset root b \<and> isset caps b"
  using assms by (simp add: isset_revoke isset_meet valid_meet)

lemma meet_chain:
  "valid c \<Longrightarrow> (\<forall>d \<in> set ds. valid d) \<Longrightarrow> b < bound \<Longrightarrow>
     isset (foldl meet c ds) b \<longleftrightarrow> isset c b \<and> (\<forall>d \<in> set ds. isset d b)"
  by (induction ds arbitrary: c) (auto simp: isset_meet valid_meet)

end

interpretation bitcap32: capability_set BITCAP_ISSET BITCAP_SET_TRUE BITCAP_SET_FALSE
  BITCAP_INTERSECT "\<lambda>c. length c = 1" 32
  by unfold_locales
    (auto simp: BITCAP_ISSET_SET_TRUE BITCAP_ISSET_SET_FALSE BITCAP_ISSET_INTERSECT)

end
