(* ===== verification/Status.thy ===== *)
theory Status
  imports Prelude
begin

text \<open>
  Status codes (\<^verbatim>\<open>src/include/agentd/status_codes.h\<close> and the files below
  \<^verbatim>\<open>status_codes/\<close>).  A status is the 32-bit value that the services return and
  put on the wire; each code is an abbreviation of its value, and
  \<open>status_codes_from_macro\<close> checks the values against the error macro.
\<close>

type_synonym status = "32 word"

definition AGENTD_STATUS_ERROR_MACRO :: "32 word \<Rightarrow> 32 word \<Rightarrow> status" where
  "AGENTD_STATUS_ERROR_MACRO service reason =
     (0x8000000 OR push_bit 16 (service AND 0xFF) OR (reason AND 0xFFFF))"

abbreviation (input) AGENTD_SERVICE_GENERAL :: "32 word" where "AGENTD_SERVICE_GENERAL \<equiv> 0x00"
abbreviation (input) AGENTD_SERVICE_IPC :: "32 word" where "AGENTD_SERVICE_IPC \<equiv> 0x01"
abbreviation (input) AGENTD_SERVICE_DATASERVICE :: "32 word" where "AGENTD_SERVICE_DATASERVICE \<equiv> 0x03"

abbreviation (input) AGENTD_STATUS_SUCCESS :: status where "AGENTD_STATUS_SUCCESS \<equiv> 0"
abbreviation (input) AGENTD_ERROR_GENERAL_OUT_OF_MEMORY :: status where
  "AGENTD_ERROR_GENERAL_OUT_OF_MEMORY \<equiv> 0x8000001"
abbreviation (input) AGENTD_ERROR_DATASERVICE_NOT_FOUND :: status where
  "AGENTD_ERROR_DATASERVICE_NOT_FOUND \<equiv> 0x8030001"
abbreviation (input) AGENTD_ERROR_DATASERVICE_NOT_AUTHORIZED :: status where
  "AGENTD_ERROR_DATASERVICE_NOT_AUTHORIZED \<equiv> 0x8030003"
abbreviation (input) AGENTD_ERROR_DATASERVICE_IPC_READ_DATA_FAILURE :: status where
  "AGENTD_ERROR_DATASERVICE_IPC_READ_DATA_FAILURE \<equiv> 0x8030004"
abbreviation (input) AGENTD_ERROR_DATASERVICE_RECVRESP_UNEXPECTED_DATA_PACKET_SIZE :: status where
  "AGENTD_ERROR_DATASERVICE_RECVRESP_UNEXPECTED_DATA_PACKET_SIZE \<equiv> 0x8030005"
abbreviation (input) AGENTD_ERROR_DATASERVICE_RECVRESP_UNEXPECTED_METHOD_CODE :: status where
  "AGENTD_ERROR_DATASERVICE_RECVRESP_UNEXPECTED_METHOD_CODE \<equiv> 0x8030006"
abbreviation (input) AGENTD_ERROR_DATASERVICE_RECVRESP_MALFORMED_PAYLOAD_DATA :: status where
  "AGENTD_ERROR_DATASERVICE_RECVRESP_MALFORMED_PAYLOAD_DATA \<equiv> 0x8030007"
abbreviation (input) AGENTD_ERROR_DATASERVICE_IPC_WRITE_DATA_FAILURE :: status where
  "AGENTD_ERROR_DATASERVICE_IPC_WRITE_DATA_FAILURE \<equiv> 0x8030008"
abbreviation (input) AGENTD_ERROR_DATASERVICE_NO_CHILD_TRANSACTIONS :: status where
  "AGENTD_ERROR_DATASERVICE_NO_CHILD_TRANSACTIONS \<equiv> 0x803000C"
abbreviation (input) AGENTD_ERROR_DATASERVICE_BLOCK_MAKE_BLOCK_INSERTION_FAILURE :: status where
  "AGENTD_ERROR_DATASERVICE_BLOCK_MAKE_BLOCK_INSERTION_FAILURE \<equiv> 0x803000E"
abbreviation (input) AGENTD_ERROR_DATASERVICE_BLOCK_MAKE_CHILD_TRANSACTION_FAILURE :: status where
  "AGENTD_ERROR_DATASERVICE_BLOCK_MAKE_CHILD_TRANSACTION_FAILURE \<equiv> 0x803000F"
abbreviation (input) AGENTD_ERROR_DATASERVICE_REQUEST_PACKET_INVALID_SIZE :: status where
  "AGENTD_ERROR_DATASERVICE_REQUEST_PACKET_INVALID_SIZE \<equiv> 0x8030010"
abbreviation (input) AGENTD_ERROR_DATASERVICE_CHILD_CONTEXT_BAD_INDEX :: status where
  "AGENTD_ERROR_DATASERVICE_CHILD_CONTEXT_BAD_INDEX \<equiv> 0x8030011"
abbreviation (input) AGENTD_ERROR_DATASERVICE_CHILD_CONTEXT_INVALID :: status where
  "AGENTD_ERROR_DATASERVICE_CHILD_CONTEXT_INVALID \<equiv> 0x8030012"
abbreviation (input) AGENTD_ERROR_DATASERVICE_CHILD_CONTEXT_MAX_REACHED :: status where
  "AGENTD_ERROR_DATASERVICE_CHILD_CONTEXT_MAX_REACHED \<equiv> 0x8030013"
abbreviation (input) AGENTD_ERROR_DATASERVICE_REQUEST_PACKET_BAD :: status where
  "AGENTD_ERROR_DATASERVICE_REQUEST_PACKET_BAD \<equiv> 0x8030014"
abbreviation (input) AGENTD_ERROR_DATASERVICE_CHILD_DETAILS_DELETE_FAILURE :: status where
  "AGENTD_ERROR_DATASERVICE_CHILD_DETAILS_DELETE_FAILURE \<equiv> 0x803001E"
abbreviation (input) AGENTD_ERROR_DATASERVICE_INSTANCE_CREATE_FAILURE :: status where
  "AGENTD_ERROR_DATASERVICE_INSTANCE_CREATE_FAILURE \<equiv> 0x803001F"
abbreviation (input) AGENTD_ERROR_DATASERVICE_IPC_MAKE_NOBLOCK_FAILURE :: status where
  "AGENTD_ERROR_DATASERVICE_IPC_MAKE_NOBLOCK_FAILURE \<equiv> 0x8030020"
abbreviation (input) AGENTD_ERROR_DATASERVICE_IPC_EVENT_LOOP_INIT_FAILURE :: status where
  "AGENTD_ERROR_DATASERVICE_IPC_EVENT_LOOP_INIT_FAILURE \<equiv> 0x8030021"
abbreviation (input) AGENTD_ERROR_DATASERVICE_IPC_EVENT_LOOP_ADD_FAILURE :: status where
  "AGENTD_ERROR_DATASERVICE_IPC_EVENT_LOOP_ADD_FAILURE \<equiv> 0x8030022"
abbreviation (input) AGENTD_ERROR_DATASERVICE_IPC_EVENT_LOOP_RUN_FAILURE :: status where
  "AGENTD_ERROR_DATASERVICE_IPC_EVENT_LOOP_RUN_FAILURE \<equiv> 0x8030023"
abbreviation (input) AGENTD_ERROR_DATASERVICE_CHILD_CONTEXT_CREATE_FAILURE :: status where
  "AGENTD_ERROR_DATASERVICE_CHILD_CONTEXT_CREATE_FAILURE \<equiv> 0x8030024"
abbreviation (input) AGENTD_ERROR_DATASERVICE_MDB_ENV_CREATE_FAILURE :: status where
  "AGENTD_ERROR_DATASERVICE_MDB_ENV_CREATE_FAILURE \<equiv> 0x8030025"
abbreviation (input) AGENTD_ERROR_DATASERVICE_MDB_ENV_SET_MAPSIZE_FAILURE :: status where
  "AGENTD_ERROR_DATASERVICE_MDB_ENV_SET_MAPSIZE_FAILURE \<equiv> 0x8030026"
abbreviation (input) AGENTD_ERROR_DATASERVICE_MDB_ENV_SET_MAXDBS_FAILURE :: status where
  "AGENTD_ERROR_DATASERVICE_MDB_ENV_SET_MAXDBS_FAILURE \<equiv> 0x8030027"
abbreviation (input) AGENTD_ERROR_DATASERVICE_MDB_ENV_OPEN_FAILURE :: status where
  "AGENTD_ERROR_DATASERVICE_MDB_ENV_OPEN_FAILURE \<equiv> 0x8030028"
abbreviation (input) AGENTD_ERROR_DATASERVICE_MDB_TXN_BEGIN_FAILURE :: status where
  "AGENTD_ERROR_DATASERVICE_MDB_TXN_BEGIN_FAILURE \<equiv> 0x8030029"
abbreviation (input) AGENTD_ERROR_DATASERVICE_MDB_DBI_OPEN_FAILURE :: status where
  "AGENTD_ERROR_DATASERVICE_MDB_DBI_OPEN_FAILURE \<equiv> 0x803002A"
abbreviation (input) AGENTD_ERROR_DATASERVICE_MDB_TXN_COMMIT_FAILURE :: status where
  "AGENTD_ERROR_DATASERVICE_MDB_TXN_COMMIT_FAILURE \<equiv> 0x803002B"
abbreviation (input) AGENTD_ERROR_DATASERVICE_INVALID_STORED_TRANSACTION_NODE :: status where
  "AGENTD_ERROR_DATASERVICE_INVALID_STORED_TRANSACTION_NODE \<equiv> 0x803002C"
abbreviation (input) AGENTD_ERROR_DATASERVICE_MDB_GET_FAILURE :: status where
  "AGENTD_ERROR_DATASERVICE_MDB_GET_FAILURE \<equiv> 0x803002D"
abbreviation (input) AGENTD_ERROR_DATASERVICE_MDB_PUT_FAILURE :: status where
  "AGENTD_ERROR_DATASERVICE_MDB_PUT_FAILURE \<equiv> 0x803002E"
abbreviation (input) AGENTD_ERROR_DATASERVICE_MDB_DEL_FAILURE :: status where
  "AGENTD_ERROR_DATASERVICE_MDB_DEL_FAILURE \<equiv> 0x803002F"
abbreviation (input) AGENTD_ERROR_DATASERVICE_INVALID_ARTIFACT_NODE_SIZE :: status where
  "AGENTD_ERROR_DATASERVICE_INVALID_ARTIFACT_NODE_SIZE \<equiv> 0x8030030"
abbreviation (input) AGENTD_ERROR_DATASERVICE_INVALID_STORED_BLOCK_NODE :: status where
  "AGENTD_ERROR_DATASERVICE_INVALID_STORED_BLOCK_NODE \<equiv> 0x8030031"
abbreviation (input) AGENTD_ERROR_DATASERVICE_INVALID_INDEX_ENTRY :: status where
  "AGENTD_ERROR_DATASERVICE_INVALID_INDEX_ENTRY \<equiv> 0x8030032"
abbreviation (input) AGENTD_ERROR_DATASERVICE_VCCRYPT_SUITE_OPTIONS_INIT_FAILURE :: status where
  "AGENTD_ERROR_DATASERVICE_VCCRYPT_SUITE_OPTIONS_INIT_FAILURE \<equiv> 0x8030033"
abbreviation (input) AGENTD_ERROR_DATASERVICE_VCCERT_PARSER_OPTIONS_INIT_FAILURE :: status where
  "AGENTD_ERROR_DATASERVICE_VCCERT_PARSER_OPTIONS_INIT_FAILURE \<equiv> 0x8030034"
abbreviation (input) AGENTD_ERROR_DATASERVICE_VCCERT_PARSER_INIT_FAILURE :: status where
  "AGENTD_ERROR_DATASERVICE_VCCERT_PARSER_INIT_FAILURE \<equiv> 0x8030035"
abbreviation (input) AGENTD_ERROR_DATASERVICE_MISSING_BLOCK_HEIGHT :: status where
  "AGENTD_ERROR_DATASERVICE_MISSING_BLOCK_HEIGHT \<equiv> 0x8030036"
abbreviation (input) AGENTD_ERROR_DATASERVICE_INVALID_BLOCK_HEIGHT :: status where
  "AGENTD_ERROR_DATASERVICE_INVALID_BLOCK_HEIGHT \<equiv> 0x8030037"
abbreviation (input) AGENTD_ERROR_DATASERVICE_MISSING_PREVIOUS_BLOCK_UUID :: status where
  "AGENTD_ERROR_DATASERVICE_MISSING_PREVIOUS_BLOCK_UUID \<equiv> 0x8030038"
abbreviation (input) AGENTD_ERROR_DATASERVICE_INVALID_PREVIOUS_BLOCK_UUID :: status where
  "AGENTD_ERROR_DATASERVICE_INVALID_PREVIOUS_BLOCK_UUID \<equiv> 0x8030039"
abbreviation (input) AGENTD_ERROR_DATASERVICE_MISSING_BLOCK_UUID :: status where
  "AGENTD_ERROR_DATASERVICE_MISSING_BLOCK_UUID \<equiv> 0x803003A"
abbreviation (input) AGENTD_ERROR_DATASERVICE_INVALID_BLOCK_UUID :: status where
  "AGENTD_ERROR_DATASERVICE_INVALID_BLOCK_UUID \<equiv> 0x803003B"
abbreviation (input) AGENTD_ERROR_DATASERVICE_MISSING_CHILD_TRANSACTION_UUID :: status where
  "AGENTD_ERROR_DATASERVICE_MISSING_CHILD_TRANSACTION_UUID \<equiv> 0x803003C"
abbreviation (input) AGENTD_ERROR_DATASERVICE_MISSING_CHILD_PREVIOUS_TRANSACTION_UUID :: status where
  "AGENTD_ERROR_DATASERVICE_MISSING_CHILD_PREVIOUS_TRANSACTION_UUID \<equiv> 0x803003D"
abbreviation (input) AGENTD_ERROR_DATASERVICE_MISSING_CHILD_ARTIFACT_UUID :: status where
  "AGENTD_ERROR_DATASERVICE_MISSING_CHILD_ARTIFACT_UUID \<equiv> 0x803003E"
abbreviation (input) AGENTD_ERROR_DATASERVICE_MISSING_CHILD_STATE :: status where
  "AGENTD_ERROR_DATASERVICE_MISSING_CHILD_STATE \<equiv> 0x803003F"
abbreviation (input) AGENTD_ERROR_DATASERVICE_OUT_OF_CHILD_INSTANCES :: status where
  "AGENTD_ERROR_DATASERVICE_OUT_OF_CHILD_INSTANCES \<equiv> 0x8030040"
abbreviation (input) AGENTD_ERROR_DATASERVICE_WOULD_TRUNCATE :: status where
  "AGENTD_ERROR_DATASERVICE_WOULD_TRUNCATE \<equiv> 0x8030041"
abbreviation (input) AGENTD_ERROR_DATASERVICE_RESPONSE_PACKET_INVALID_SIZE :: status where
  "AGENTD_ERROR_DATASERVICE_RESPONSE_PACKET_INVALID_SIZE \<equiv> 0x8030042"
abbreviation (input) AGENTD_ERROR_DATASERVICE_RESPONSE_INVALID_PARAMETER :: status where
  "AGENTD_ERROR_DATASERVICE_RESPONSE_INVALID_PARAMETER \<equiv> 0x8030043"
abbreviation (input) AGENTD_ERROR_DATASERVICE_INVALID_PARAMETER :: status where
  "AGENTD_ERROR_DATASERVICE_INVALID_PARAMETER \<equiv> 0x8030045"

subsection \<open>The status packet\<close>

text \<open>
  Every service answers a request with its code, the request offset, a status and
  possibly data.
\<close>

definition response_packet :: "32 word \<Rightarrow> 32 word \<Rightarrow> 32 word \<Rightarrow> bytes option \<Rightarrow> bytes" where
  "response_packet method offset st data =
     net32 method @ net32 offset @ net32 st @ (case data of None \<Rightarrow> [] | Some d \<Rightarrow> d)"

lemma status_codes_from_macro:
  "AGENTD_STATUS_ERROR_MACRO AGENTD_SERVICE_GENERAL 0x0001 = AGENTD_ERROR_GENERAL_OUT_OF_MEMORY"
  "AGENTD_STATUS_ERROR_MACRO AGENTD_SERVICE_DATASERVICE 0x0001 = AGENTD_ERROR_DATASERVICE_NOT_FOUND"
  "AGENTD_STATUS_ERROR_MACRO AGENTD_SERVICE_DATASERVICE 0x0003 = AGENTD_ERROR_DATASERVICE_NOT_AUTHORIZED"
  "AGENTD_STATUS_ERROR_MACRO AGENTD_SERVICE_DATASERVICE 0x0004 = AGENTD_ERROR_DATASERVICE_IPC_READ_DATA_FAILURE"
  "AGENTD_STATUS_ERROR_MACRO AGENTD_SERVICE_DATASERVICE 0x0005 = AGENTD_ERROR_DATASERVICE_RECVRESP_UNEXPECTED_DATA_PACKET_SIZE"
  "AGENTD_STATUS_ERROR_MACRO AGENTD_SERVICE_DATASERVICE 0x0006 = AGENTD_ERROR_DATASERVICE_RECVRESP_UNEXPECTED_METHOD_CODE"
  "AGENTD_STATUS_ERROR_MACRO AGENTD_SERVICE_DATASERVICE 0x0007 = AGENTD_ERROR_DATASERVICE_RECVRESP_MALFORMED_PAYLOAD_DATA"
  "AGENTD_STATUS_ERROR_MACRO AGENTD_SERVICE_DATASERVICE 0x0008 = AGENTD_ERROR_DATASERVICE_IPC_WRITE_DATA_FAILURE"
  "AGENTD_STATUS_ERROR_MACRO AGENTD_SERVICE_DATASERVICE 0x000C = AGENTD_ERROR_DATASERVICE_NO_CHILD_TRANSACTIONS"
  "AGENTD_STATUS_ERROR_MACRO AGENTD_SERVICE_DATASERVICE 0x000E = AGENTD_ERROR_DATASERVICE_BLOCK_MAKE_BLOCK_INSERTION_FAILURE"
  "AGENTD_STATUS_ERROR_MACRO AGENTD_SERVICE_DATASERVICE 0x000F = AGENTD_ERROR_DATASERVICE_BLOCK_MAKE_CHILD_TRANSACTION_FAILURE"
  "AGENTD_STATUS_ERROR_MACRO AGENTD_SERVICE_DATASERVICE 0x0010 = AGENTD_ERROR_DATASERVICE_REQUEST_PACKET_INVALID_SIZE"
  "AGENTD_STATUS_ERROR_MACRO AGENTD_SERVICE_DATASERVICE 0x0011 = AGENTD_ERROR_DATASERVICE_CHILD_CONTEXT_BAD_INDEX"
  "AGENTD_STATUS_ERROR_MACRO AGENTD_SERVICE_DATASERVICE 0x0012 = AGENTD_ERROR_DATASERVICE_CHILD_CONTEXT_INVALID"
  "AGENTD_STATUS_ERROR_MACRO AGENTD_SERVICE_DATASERVICE 0x0013 = AGENTD_ERROR_DATASERVICE_CHILD_CONTEXT_MAX_REACHED"
  "AGENTD_STATUS_ERROR_MACRO AGENTD_SERVICE_DATASERVICE 0x0014 = AGENTD_ERROR_DATASERVICE_REQUEST_PACKET_BAD"
  "AGENTD_STATUS_ERROR_MACRO AGENTD_SERVICE_DATASERVICE 0x001E = AGENTD_ERROR_DATASERVICE_CHILD_DETAILS_DELETE_FAILURE"
  "AGENTD_STATUS_ERROR_MACRO AGENTD_SERVICE_DATASERVICE 0x001F = AGENTD_ERROR_DATASERVICE_INSTANCE_CREATE_FAILURE"
  "AGENTD_STATUS_ERROR_MACRO AGENTD_SERVICE_DATASERVICE 0x0020 = AGENTD_ERROR_DATASERVICE_IPC_MAKE_NOBLOCK_FAILURE"
  "AGENTD_STATUS_ERROR_MACRO AGENTD_SERVICE_DATASERVICE 0x0021 = AGENTD_ERROR_DATASERVICE_IPC_EVENT_LOOP_INIT_FAILURE"
  "AGENTD_STATUS_ERROR_MACRO AGENTD_SERVICE_DATASERVICE 0x0022 = AGENTD_ERROR_DATASERVICE_IPC_EVENT_LOOP_ADD_FAILURE"
  "AGENTD_STATUS_ERROR_MACRO AGENTD_SERVICE_DATASERVICE 0x0023 = AGENTD_ERROR_DATASERVICE_IPC_EVENT_LOOP_RUN_FAILURE"
  "AGENTD_STATUS_ERROR_MACRO AGENTD_SERVICE_DATASERVICE 0x0024 = AGENTD_ERROR_DATASERVICE_CHILD_CONTEXT_CREATE_FAILURE"
  "AGENTD_STATUS_ERROR_MACRO AGENTD_SERVICE_DATASERVICE 0x0025 = AGENTD_ERROR_DATASERVICE_MDB_ENV_CREATE_FAILURE"
  "AGENTD_STATUS_ERROR_MACRO AGENTD_SERVICE_DATASERVICE 0x0026 = AGENTD_ERROR_DATASERVICE_MDB_ENV_SET_MAPSIZE_FAILURE"
  "AGENTD_STATUS_ERROR_MACRO AGENTD_SERVICE_DATASERVICE 0x0027 = AGENTD_ERROR_DATASERVICE_MDB_ENV_SET_MAXDBS_FAILURE"
  "AGENTD_STATUS_ERROR_MACRO AGENTD_SERVICE_DATASERVICE 0x0028 = AGENTD_ERROR_DATASERVICE_MDB_ENV_OPEN_FAILURE"
  "AGENTD_STATUS_ERROR_MACRO AGENTD_SERVICE_DATASERVICE 0x0029 = AGENTD_ERROR_DATASERVICE_MDB_TXN_BEGIN_FAILURE"
  "AGENTD_STATUS_ERROR_MACRO AGENTD_SERVICE_DATASERVICE 0x002A = AGENTD_ERROR_DATASERVICE_MDB_DBI_OPEN_FAILURE"
  "AGENTD_STATUS_ERROR_MACRO AGENTD_SERVICE_DATASERVICE 0x002B = AGENTD_ERROR_DATASERVICE_MDB_TXN_COMMIT_FAILURE"
  "AGENTD_STATUS_ERROR_MACRO AGENTD_SERVICE_DATASERVICE 0x002C = AGENTD_ERROR_DATASERVICE_INVALID_STORED_TRANSACTION_NODE"
  "AGENTD_STATUS_ERROR_MACRO AGENTD_SERVICE_DATASERVICE 0x002D = AGENTD_ERROR_DATASERVICE_MDB_GET_FAILURE"
  "AGENTD_STATUS_ERROR_MACRO AGENTD_SERVICE_DATASERVICE 0x002E = AGENTD_ERROR_DATASERVICE_MDB_PUT_FAILURE"
  "AGENTD_STATUS_ERROR_MACRO AGENTD_SERVICE_DATASERVICE 0x002F = AGENTD_ERROR_DATASERVICE_MDB_DEL_FAILURE"
  "AGENTD_STATUS_ERROR_MACRO AGENTD_SERVICE_DATASERVICE 0x0030 = AGENTD_ERROR_DATASERVICE_INVALID_ARTIFACT_NODE_SIZE"
  "AGENTD_STATUS_ERROR_MACRO AGENTD_SERVICE_DATASERVICE 0x0031 = AGENTD_ERROR_DATASERVICE_INVALID_STORED_BLOCK_NODE"
  "AGENTD_STATUS_ERROR_MACRO AGENTD_SERVICE_DATASERVICE 0x0032 = AGENTD_ERROR_DATASERVICE_INVALID_INDEX_ENTRY"
  "AGENTD_STATUS_ERROR_MACRO AGENTD_SERVICE_DATASERVICE 0x0033 = AGENTD_ERROR_DATASERVICE_VCCRYPT_SUITE_OPTIONS_INIT_FAILURE"
  "AGENTD_STATUS_ERROR_MACRO AGENTD_SERVICE_DATASERVICE 0x0034 = AGENTD_ERROR_DATASERVICE_VCCERT_PARSER_OPTIONS_INIT_FAILURE"
  "AGENTD_STATUS_ERROR_MACRO AGENTD_SERVICE_DATASERVICE 0x0035 = AGENTD_ERROR_DATASERVICE_VCCERT_PARSER_INIT_FAILURE"
  "AGENTD_STATUS_ERROR_MACRO AGENTD_SERVICE_DATASERVICE 0x0036 = AGENTD_ERROR_DATASERVICE_MISSING_BLOCK_HEIGHT"
  "AGENTD_STATUS_ERROR_MACRO AGENTD_SERVICE_DATASERVICE 0x0037 = AGENTD_ERROR_DATASERVICE_INVALID_BLOCK_HEIGHT"
  "AGENTD_STATUS_ERROR_MACRO AGENTD_SERVICE_DATASERVICE 0x0038 = AGENTD_ERROR_DATASERVICE_MISSING_PREVIOUS_BLOCK_UUID"
  "AGENTD_STATUS_ERROR_MACRO AGENTD_SERVICE_DATASERVICE 0x0039 = AGENTD_ERROR_DATASERVICE_INVALID_PREVIOUS_BLOCK_UUID"
  "AGENTD_STATUS_ERROR_MACRO AGENTD_SERVICE_DATASERVICE 0x003A = AGENTD_ERROR_DATASERVICE_MISSING_BLOCK_UUID"
  "AGENTD_STATUS_ERROR_MACRO AGENTD_SERVICE_DATASERVICE 0x003B = AGENTD_ERROR_DATASERVICE_INVALID_BLOCK_UUID"
  "AGENTD_STATUS_ERROR_MACRO AGENTD_SERVICE_DATASERVICE 0x003C = AGENTD_ERROR_DATASERVICE_MISSING_CHILD_TRANSACTION_UUID"
  "AGENTD_STATUS_ERROR_MACRO AGENTD_SERVICE_DATASERVICE 0x003D = AGENTD_ERROR_DATASERVICE_MISSING_CHILD_PREVIOUS_TRANSACTION_UUID"
  "AGENTD_STATUS_ERROR_MACRO AGENTD_SERVICE_DATASERVICE 0x003E = AGENTD_ERROR_DATASERVICE_MISSING_CHILD_ARTIFACT_UUID"
  "AGENTD_STATUS_ERROR_MACRO AGENTD_SERVICE_DATASERVICE 0x003F = AGENTD_ERROR_DATASERVICE_MISSING_CHILD_STATE"
  "AGENTD_STATUS_ERROR_MACRO AGENTD_SERVICE_DATASERVICE 0x0040 = AGENTD_ERROR_DATASERVICE_OUT_OF_CHILD_INSTANCES"
  "AGENTD_STATUS_ERROR_MACRO AGENTD_SERVICE_DATASERVICE 0x0041 = AGENTD_ERROR_DATASERVICE_WOULD_TRUNCATE"
  "AGENTD_STATUS_ERROR_MACRO AGENTD_SERVICE_DATASERVICE 0x0042 = AGENTD_ERROR_DATASERVICE_RESPONSE_PACKET_INVALID_SIZE"
  "AGENTD_STATUS_ERROR_MACRO AGENTD_SERVICE_DATASERVICE 0x0043 = AGENTD_ERROR_DATASERVICE_RESPONSE_INVALID_PARAMETER"
  "AGENTD_STATUS_ERROR_MACRO AGENTD_SERVICE_DATASERVICE 0x0045 = AGENTD_ERROR_DATASERVICE_INVALID_PARAMETER"
  by (simp_all add: AGENTD_STATUS_ERROR_MACRO_def)

lemma drop_response_packet [simp]:
  "drop 12 (response_packet method offset st data) = (case data of None \<Rightarrow> [] | Some d \<Rightarrow> d)"
  by (simp add: response_packet_def)

lemma length_response_packet [simp]:
  "length (response_packet method offset st data) = 12 + (case data of None \<Rightarrow> 0 | Some d \<Rightarrow> length d)"
  by (simp add: response_packet_def split: option.splits)

end
