(* ===== verification/Lmdb.thy ===== *)
theory Lmdb
  imports Prelude
begin

text \<open>
  The key/value store the data service is written against.  LMDB is not part of
  the repository, so its calls are a parameter of the model: a record of
  functions over an opaque environment state \<open>'e\<close> and an opaque transaction
  state \<open>'t\<close>.  The locale \<open>lmdb_store\<close> states what the LMDB documentation
  promises of the calls the service makes, in terms of the key/value maps that
  an environment and a transaction show; \<open>lmdb_reliable\<close> adds that the calls
  do not fail for lack of resources.  \<open>mem_lmdb\<close> is an executable store that
  meets both.
\<close>

text \<open>The six database handles of \<^verbatim>\<open>dataservice_database_details_t\<close>.\<close>

datatype mdb_dbi = global_db | block_db | txn_db | pq_db | artifact_db | height_db

type_synonym kv = "bytes \<rightharpoonup> bytes"
type_synonym kvs = "mdb_dbi \<Rightarrow> kv"

text \<open>Return codes and flags of \<^verbatim>\<open>lmdb.h\<close>.\<close>

abbreviation (input) MDB_KEYEXIST :: int where "MDB_KEYEXIST \<equiv> -30799"
abbreviation (input) MDB_NOTFOUND :: int where "MDB_NOTFOUND \<equiv> -30798"
abbreviation (input) MDB_NOOVERWRITE :: nat where "MDB_NOOVERWRITE \<equiv> 0x10"
abbreviation (input) MDB_CREATE :: nat where "MDB_CREATE \<equiv> 0x40000"
abbreviation (input) MDB_RDONLY :: nat where "MDB_RDONLY \<equiv> 0x20000"

text \<open>
  The calls.  A transaction is begun below an environment and an optional parent
  transaction and writes back to the parent, or to the environment when there is
  none; both are passed to and returned from commit and abort.
\<close>

record ('e, 't) lmdb =
  mdb_env_create :: "int \<times> 'e"
  mdb_env_set_mapsize :: "'e \<Rightarrow> 64 word \<Rightarrow> int \<times> 'e"
  mdb_env_set_maxdbs :: "'e \<Rightarrow> nat \<Rightarrow> int \<times> 'e"
  mdb_env_open :: "'e \<Rightarrow> bytes \<Rightarrow> int \<times> 'e"
  mdb_dbi_open :: "'t \<Rightarrow> string \<Rightarrow> nat \<Rightarrow> int \<times> 't"
  mdb_txn_begin :: "'e \<Rightarrow> 't option \<Rightarrow> nat \<Rightarrow> int \<times> 't"
  mdb_get :: "'t \<Rightarrow> mdb_dbi \<Rightarrow> bytes \<Rightarrow> int \<times> bytes"
  mdb_put :: "'t \<Rightarrow> mdb_dbi \<Rightarrow> bytes \<Rightarrow> bytes \<Rightarrow> nat \<Rightarrow> int \<times> 't"
  mdb_del :: "'t \<Rightarrow> mdb_dbi \<Rightarrow> bytes \<Rightarrow> int \<times> 't"
  mdb_txn_commit :: "'e \<Rightarrow> 't option \<Rightarrow> 't \<Rightarrow> int \<times> 'e \<times> 't option"
  mdb_txn_abort :: "'e \<Rightarrow> 't option \<Rightarrow> 't \<Rightarrow> 'e \<times> 't option"

text \<open>
  \<^verbatim>\<open>memset(&lval, 0, sizeof(lval)); rc = mdb_get(txn, dbi, &lkey, &lval);\<close>: the value
  stays empty unless the call succeeds.
\<close>

definition mdb_get_lval :: "('e, 't) lmdb \<Rightarrow> 't \<Rightarrow> mdb_dbi \<Rightarrow> bytes \<Rightarrow> int \<times> bytes" where
  "mdb_get_lval ops t d k = (case mdb_get ops t d k of (rc, v) \<Rightarrow> (rc, if rc = 0 then v else []))"

text \<open>What a caller sees before it begins a transaction.\<close>

definition base_view :: "('e \<Rightarrow> kvs) \<Rightarrow> ('t \<Rightarrow> kvs) \<Rightarrow> 'e \<Rightarrow> 't option \<Rightarrow> kvs" where
  "base_view ev tv e p = (case p of None \<Rightarrow> ev e | Some t \<Rightarrow> tv t)"

lemma base_view_simps [simp]:
  "base_view ev tv e None = ev e"
  "base_view ev tv e (Some t) = tv t"
  by (simp_all add: base_view_def)

subsection \<open>The interface\<close>

locale lmdb_store =
  fixes ops :: "('e, 't) lmdb"
    and ev :: "'e \<Rightarrow> kvs"
    and tv :: "'t \<Rightarrow> kvs"
  assumes begin_view: "mdb_txn_begin ops e p f = (0, t) \<Longrightarrow> tv t = base_view ev tv e p"
    and get_found: "mdb_get ops t d k = (0, v) \<Longrightarrow> tv t d k = Some v"
    and get_notfound: "mdb_get ops t d k = (MDB_NOTFOUND, v) \<Longrightarrow> tv t d k = None"
    and put_view: "mdb_put ops t d k v f = (0, t') \<Longrightarrow> tv t' = (tv t)(d := (tv t d)(k \<mapsto> v))"
    and put_nooverwrite: "mdb_put ops t d k v MDB_NOOVERWRITE = (0, t') \<Longrightarrow> tv t d k = None"
    and del_view: "mdb_del ops t d k = (0, t') \<Longrightarrow> tv t' = (tv t)(d := (tv t d)(k := None))"
    and commit_view: "mdb_txn_commit ops e p t = (0, e', p') \<Longrightarrow> base_view ev tv e' p' = tv t"
    and commit_env: "mdb_txn_commit ops e (Some q) t = (rc, e', p') \<Longrightarrow> ev e' = ev e"
    and commit_fail: "mdb_txn_commit ops e p t = (rc, e', p') \<Longrightarrow> rc \<noteq> 0 \<Longrightarrow>
                        base_view ev tv e' p' = base_view ev tv e p"
    and commit_parent: "mdb_txn_commit ops e p t = (rc, e', p') \<Longrightarrow> p' = None \<longleftrightarrow> p = None"
    and abort_view: "mdb_txn_abort ops e p t = (e', p') \<Longrightarrow> base_view ev tv e' p' = base_view ev tv e p"
    and abort_env: "mdb_txn_abort ops e (Some q) t = (e', p') \<Longrightarrow> ev e' = ev e"
    and abort_parent: "mdb_txn_abort ops e p t = (e', p') \<Longrightarrow> p' = None \<longleftrightarrow> p = None"
begin

abbreviation view :: "'e \<Rightarrow> 't option \<Rightarrow> kvs" where
  "view \<equiv> base_view ev tv"

text \<open>A zero-initialised read returns the stored value, or nothing and a nonzero code.\<close>

lemma lval_found: "mdb_get_lval ops t d k = (0, v) \<Longrightarrow> tv t d k = Some v"
  by (auto simp: mdb_get_lval_def split: prod.splits dest: get_found)

lemma lval_notfound: "mdb_get_lval ops t d k = (MDB_NOTFOUND, v) \<Longrightarrow> tv t d k = None"
  by (auto simp: mdb_get_lval_def split: prod.splits if_splits dest: get_notfound)

lemma lval_failed: "mdb_get_lval ops t d k = (rc, v) \<Longrightarrow> rc \<noteq> 0 \<Longrightarrow> v = []"
  by (auto simp: mdb_get_lval_def split: prod.splits if_splits)

lemma abort_None:
  obtains e' where "mdb_txn_abort ops e None t = (e', None)" and "ev e' = ev e"
proof -
  obtain e' p' where "mdb_txn_abort ops e None t = (e', p')" by fastforce
  moreover from this have "p' = None" using abort_parent by blast
  ultimately show thesis using abort_view that by fastforce
qed

end

locale lmdb_reliable = lmdb_store +
  assumes begin_ok: "fst (mdb_txn_begin ops e p f) = 0"
    and get_ok: "fst (mdb_get ops t d k) = 0 \<or> fst (mdb_get ops t d k) = MDB_NOTFOUND"
    and put_ok: "f = 0 \<or> tv t d k = None \<Longrightarrow> fst (mdb_put ops t d k v f) = 0"
    and del_ok: "tv t d k \<noteq> None \<Longrightarrow> fst (mdb_del ops t d k) = 0"
    and commit_ok: "fst (mdb_txn_commit ops e p t) = 0"
begin

lemma begin_reliable:
  obtains t where "mdb_txn_begin ops e p f = (0, t)" and "tv t = base_view ev tv e p"
  using begin_ok [of e p f] begin_view [of e p f] by (metis prod.collapse)

lemma lval_Some: "tv t d k = Some v \<Longrightarrow> mdb_get_lval ops t d k = (0, v)"
  using get_ok [of t d k] get_found [of t d k] get_notfound [of t d k]
  by (auto simp: mdb_get_lval_def split: prod.splits)

lemma lval_None: "tv t d k = None \<Longrightarrow> mdb_get_lval ops t d k = (MDB_NOTFOUND, [])"
  using get_ok [of t d k] get_found [of t d k] get_notfound [of t d k]
  by (auto simp: mdb_get_lval_def split: prod.splits)

lemma put_reliable:
  assumes "f = 0 \<or> tv t d k = None"
  obtains t' where "mdb_put ops t d k v f = (0, t')" and "tv t' = (tv t)(d := (tv t d)(k \<mapsto> v))"
  using put_ok [OF assms, of v] put_view [of t d k v f] by (metis prod.collapse)

lemma put_zero: "\<exists>t'. mdb_put ops t d k v 0 = (0, t')"
  using put_reliable [of 0] by blast

lemma put_new: "tv t d k = None \<Longrightarrow> \<exists>t'. mdb_put ops t d k v f = (0, t')"
  using put_reliable by blast

lemma del_reliable:
  assumes "tv t d k \<noteq> None"
  obtains t' where "mdb_del ops t d k = (0, t')" and "tv t' = (tv t)(d := (tv t d)(k := None))"
  using del_ok [OF assms] del_view [of t d k] by (metis prod.collapse)

lemma commit_reliable:
  obtains e' p' where "mdb_txn_commit ops e p t = (0, e', p')" and "base_view ev tv e' p' = tv t"
  using commit_ok [of e p t] commit_view [of e p t] by (metis prod.collapse)

end

subsection \<open>An executable store\<close>

type_synonym mem_db = kvs

definition mem_lmdb :: "(mem_db, mem_db) lmdb" where
  "mem_lmdb =
     \<lparr> mdb_env_create = (0, \<lambda>d. Map.empty),
       mdb_env_set_mapsize = (\<lambda>e n. (0, e)),
       mdb_env_set_maxdbs = (\<lambda>e n. (0, e)),
       mdb_env_open = (\<lambda>e path. (0, e)),
       mdb_dbi_open = (\<lambda>t name f. (0, t)),
       mdb_txn_begin = (\<lambda>e p f. (0, case p of None \<Rightarrow> e | Some t \<Rightarrow> t)),
       mdb_get = (\<lambda>t d k. case t d k of None \<Rightarrow> (MDB_NOTFOUND, []) | Some v \<Rightarrow> (0, v)),
       mdb_put = (\<lambda>t d k v f. if f = MDB_NOOVERWRITE \<and> t d k \<noteq> None then (MDB_KEYEXIST, t)
                             else (0, t(d := (t d)(k \<mapsto> v)))),
       mdb_del = (\<lambda>t d k. if t d k = None then (MDB_NOTFOUND, t) else (0, t(d := (t d)(k := None)))),
       mdb_txn_commit = (\<lambda>e p t. case p of None \<Rightarrow> (0, t, None) | Some q \<Rightarrow> (0, e, Some t)),
       mdb_txn_abort = (\<lambda>e p t. (e, p)) \<rparr>"

lemma mem_lmdb_simps [simp]:
  "mdb_env_create mem_lmdb = (0, \<lambda>d. Map.empty)"
  "mdb_env_set_mapsize mem_lmdb e n = (0, e)"
  "mdb_env_set_maxdbs mem_lmdb e m = (0, e)"
  "mdb_env_open mem_lmdb e path = (0, e)"
  "mdb_dbi_open mem_lmdb t name f = (0, t)"
  "mdb_txn_begin mem_lmdb e p f = (0, case p of None \<Rightarrow> e | Some t \<Rightarrow> t)"
  "mdb_get mem_lmdb t d k = (case t d k of None \<Rightarrow> (MDB_NOTFOUND, []) | Some v \<Rightarrow> (0, v))"
  "mdb_put mem_lmdb t d k v f = (if f = MDB_NOOVERWRITE \<and> t d k \<noteq> None then (MDB_KEYEXIST, t)
                             else (0, t(d := (t d)(k \<mapsto> v))))"
  "mdb_del mem_lmdb t d k = (if t d k = None then (MDB_NOTFOUND, t) else (0, t(d := (t d)(k := None))))"
  "mdb_txn_commit mem_lmdb e p t = (case p of None \<Rightarrow> (0, t, None) | Some q \<Rightarrow> (0, e, Some t))"
  "mdb_txn_abort mem_lmdb e p t = (e, p)"
  by (simp_all add: mem_lmdb_def)

interpretation mem: lmdb_reliable mem_lmdb "\<lambda>e. e" "\<lambda>t. t"
  by unfold_locales (auto simp: base_view_def split: option.splits if_splits)

end
