(* ===== verification/Ds_Data.thy ===== *)
theory Ds_Data
  imports Status Lmdb
begin

text \<open>
  The records the data service stores (\<^verbatim>\<open>src/include/agentd/dataservice/data.h\<close>)
  and their layout in memory: transaction nodes (96 bytes with 4 bytes of tail
  padding), artifact records (72 bytes, also padded) and block nodes (80 bytes).
  A stored value is such a structure followed by a certificate; \<open>..._of\<close> is the
  pointer cast the C code reads a structure with, \<open>..._bytes\<close> the structure as
  it is copied into a buffer.
\<close>

abbreviation (input) zero_uuid :: bytes where "zero_uuid \<equiv> replicate 16 0x00"
abbreviation (input) ff_uuid :: bytes where "ff_uuid \<equiv> replicate 16 0xFF"

abbreviation (input) DATASERVICE_TRANSACTION_NODE_STATE_SUBMITTED :: "32 word" where
  "DATASERVICE_TRANSACTION_NODE_STATE_SUBMITTED \<equiv> 1"
abbreviation (input) DATASERVICE_TRANSACTION_NODE_STATE_ATTESTED :: "32 word" where
  "DATASERVICE_TRANSACTION_NODE_STATE_ATTESTED \<equiv> 2"
abbreviation (input) DATASERVICE_TRANSACTION_NODE_STATE_CANONIZED :: "32 word" where
  "DATASERVICE_TRANSACTION_NODE_STATE_CANONIZED \<equiv> 3"

subsection \<open>Transaction nodes\<close>

record data_transaction_node =
  node_key :: bytes
  node_prev :: bytes
  node_next :: bytes
  node_artifact_id :: bytes
  node_block_id :: bytes
  net_txn_cert_size :: "64 word"
  net_txn_state :: "32 word"
  node_pad :: bytes

abbreviation (input) sizeof_txn_node :: nat where "sizeof_txn_node \<equiv> 96"

definition txn_node_wf :: "data_transaction_node \<Rightarrow> bool" where
  "txn_node_wf n \<longleftrightarrow> length (node_key n) = 16 \<and> length (node_prev n) = 16 \<and>
     length (node_next n) = 16 \<and> length (node_artifact_id n) = 16 \<and>
     length (node_block_id n) = 16 \<and> length (node_pad n) = 4"

definition txn_node_bytes :: "data_transaction_node \<Rightarrow> bytes" where
  "txn_node_bytes n = node_key n @ node_prev n @ node_next n @ node_artifact_id n @
     node_block_id n @ mem64 (net_txn_cert_size n) @ mem32 (net_txn_state n) @ node_pad n"

definition txn_node_of :: "bytes \<Rightarrow> data_transaction_node" where
  "txn_node_of b =
     \<lparr> node_key = slice 0 16 b, node_prev = slice 16 16 b, node_next = slice 32 16 b,
       node_artifact_id = slice 48 16 b, node_block_id = slice 64 16 b,
       net_txn_cert_size = of_mem64 (slice 80 8 b), net_txn_state = of_mem32 (slice 88 4 b),
       node_pad = slice 92 4 b \<rparr>"

text \<open>\<^verbatim>\<open>memset(node, 0, sizeof(node))\<close>\<close>

definition txn_node_zero :: data_transaction_node where
  "txn_node_zero = \<lparr> node_key = zero_uuid, node_prev = zero_uuid, node_next = zero_uuid,
     node_artifact_id = zero_uuid, node_block_id = zero_uuid, net_txn_cert_size = 0,
     net_txn_state = 0, node_pad = replicate 4 0 \<rparr>"

lemma txn_node_wf_zero [simp]: "txn_node_wf txn_node_zero"
  by (simp add: txn_node_wf_def txn_node_zero_def)

lemma length_txn_node_bytes [simp]: "txn_node_wf n \<Longrightarrow> length (txn_node_bytes n) = 96"
  by (simp add: txn_node_wf_def txn_node_bytes_def)

lemma txn_node_of_bytes [simp]: "txn_node_wf n \<Longrightarrow> txn_node_of (txn_node_bytes n @ r) = n"
  by (simp add: txn_node_wf_def txn_node_bytes_def txn_node_of_def)

lemma txn_node_of_bytes' [simp]: "txn_node_wf n \<Longrightarrow> txn_node_of (txn_node_bytes n) = n"
  using txn_node_of_bytes [of n "[]"] by simp

lemma txn_node_wf_of [simp]: "96 \<le> length b \<Longrightarrow> txn_node_wf (txn_node_of b)"
  by (simp add: txn_node_wf_def txn_node_of_def)

lemma txn_node_bytes_of: "96 \<le> length b \<Longrightarrow> txn_node_bytes (txn_node_of b) = take 96 b"
  by (simp add: txn_node_bytes_def txn_node_of_def mem64_of_mem64 mem32_of_mem32)
    (simp add: slice_def take_add [symmetric] drop_take [symmetric] flip: append_assoc)

lemma txn_node_of_take [simp]: "txn_node_of (take 96 b @ r) = txn_node_of (take 96 b)" if "96 \<le> length b"
  using that by (metis txn_node_bytes_of txn_node_of_bytes txn_node_of_bytes' txn_node_wf_of)

text \<open>The fields a list operation writes keep a node well-formed.\<close>

lemma txn_node_wf_update [simp]:
  "txn_node_wf n \<Longrightarrow> length u = 16 \<Longrightarrow> txn_node_wf (n\<lparr>node_next := u\<rparr>)"
  "txn_node_wf n \<Longrightarrow> length u = 16 \<Longrightarrow> txn_node_wf (n\<lparr>node_prev := u\<rparr>)"
  "txn_node_wf n \<Longrightarrow> length u = 16 \<Longrightarrow> txn_node_wf (n\<lparr>node_key := u\<rparr>)"
  "txn_node_wf n \<Longrightarrow> txn_node_wf (n\<lparr>net_txn_state := st\<rparr>)"
  by (simp_all add: txn_node_wf_def)

lemma txn_node_wfD:
  "txn_node_wf n \<Longrightarrow> length (node_key n) = 16" "txn_node_wf n \<Longrightarrow> length (node_prev n) = 16"
  "txn_node_wf n \<Longrightarrow> length (node_next n) = 16" "txn_node_wf n \<Longrightarrow> length (node_artifact_id n) = 16"
  by (simp_all add: txn_node_wf_def)

text \<open>
  Assigning a member of a structure that lies at the start of a buffer, by the
  member's offset.
\<close>

abbreviation (input) offsetof_node_prev :: nat where "offsetof_node_prev \<equiv> 16"
abbreviation (input) offsetof_node_next :: nat where "offsetof_node_next \<equiv> 32"
abbreviation (input) offsetof_net_txn_cert_size :: nat where "offsetof_net_txn_cert_size \<equiv> 80"
abbreviation (input) offsetof_net_txn_state :: nat where "offsetof_net_txn_state \<equiv> 88"

lemma txn_node_of_store [simp]:
  assumes "96 \<le> length b"
  shows "length u = 16 \<Longrightarrow> txn_node_of (store_at offsetof_node_prev u b) = (txn_node_of b)\<lparr>node_prev := u\<rparr>"
    and "length u = 16 \<Longrightarrow> txn_node_of (store_at offsetof_node_next u b) = (txn_node_of b)\<lparr>node_next := u\<rparr>"
    and "txn_node_of (store_at offsetof_net_txn_state (mem32 w) b) = (txn_node_of b)\<lparr>net_txn_state := w\<rparr>"
  using assms by (simp_all add: txn_node_of_def)

subsection \<open>Artifact records\<close>

record data_artifact_record =
  artifact_key :: bytes
  txn_first :: bytes
  txn_latest :: bytes
  net_height_first :: "64 word"
  net_height_latest :: "64 word"
  net_state_latest :: "32 word"
  artifact_pad :: bytes

abbreviation (input) sizeof_artifact_record :: nat where "sizeof_artifact_record \<equiv> 72"

definition artifact_record_wf :: "data_artifact_record \<Rightarrow> bool" where
  "artifact_record_wf r \<longleftrightarrow> length (artifact_key r) = 16 \<and> length (txn_first r) = 16 \<and>
     length (txn_latest r) = 16 \<and> length (artifact_pad r) = 4"

definition artifact_record_bytes :: "data_artifact_record \<Rightarrow> bytes" where
  "artifact_record_bytes r = artifact_key r @ txn_first r @ txn_latest r @
     mem64 (net_height_first r) @ mem64 (net_height_latest r) @ mem32 (net_state_latest r) @
     artifact_pad r"

definition artifact_record_of :: "bytes \<Rightarrow> data_artifact_record" where
  "artifact_record_of b =
     \<lparr> artifact_key = slice 0 16 b, txn_first = slice 16 16 b, txn_latest = slice 32 16 b,
       net_height_first = of_mem64 (slice 48 8 b), net_height_latest = of_mem64 (slice 56 8 b),
       net_state_latest = of_mem32 (slice 64 4 b), artifact_pad = slice 68 4 b \<rparr>"

lemma length_artifact_record_bytes [simp]:
  "artifact_record_wf r \<Longrightarrow> length (artifact_record_bytes r) = 72"
  by (simp add: artifact_record_wf_def artifact_record_bytes_def)

lemma artifact_record_of_bytes [simp]:
  "artifact_record_wf r \<Longrightarrow> artifact_record_of (artifact_record_bytes r) = r"
  by (simp add: artifact_record_wf_def artifact_record_bytes_def artifact_record_of_def)

lemma artifact_record_wf_of [simp]: "length b = 72 \<Longrightarrow> artifact_record_wf (artifact_record_of b)"
  by (simp add: artifact_record_wf_def artifact_record_of_def)

subsection \<open>Block nodes\<close>

record data_block_node =
  block_key :: bytes
  block_prev :: bytes
  block_next :: bytes
  first_transaction_id :: bytes
  net_block_height :: "64 word"
  net_block_cert_size :: "64 word"

abbreviation (input) sizeof_block_node :: nat where "sizeof_block_node \<equiv> 80"

definition block_node_wf :: "data_block_node \<Rightarrow> bool" where
  "block_node_wf n \<longleftrightarrow> length (block_key n) = 16 \<and> length (block_prev n) = 16 \<and>
     length (block_next n) = 16 \<and> length (first_transaction_id n) = 16"

definition block_node_bytes :: "data_block_node \<Rightarrow> bytes" where
  "block_node_bytes n = block_key n @ block_prev n @ block_next n @ first_transaction_id n @
     mem64 (net_block_height n) @ mem64 (net_block_cert_size n)"

definition block_node_of :: "bytes \<Rightarrow> data_block_node" where
  "block_node_of b =
     \<lparr> block_key = slice 0 16 b, block_prev = slice 16 16 b, block_next = slice 32 16 b,
       first_transaction_id = slice 48 16 b, net_block_height = of_mem64 (slice 64 8 b),
       net_block_cert_size = of_mem64 (slice 72 8 b) \<rparr>"

definition block_node_zero :: data_block_node where
  "block_node_zero = \<lparr> block_key = zero_uuid, block_prev = zero_uuid, block_next = zero_uuid,
     first_transaction_id = zero_uuid, net_block_height = 0, net_block_cert_size = 0 \<rparr>"

lemma block_node_wf_zero [simp]: "block_node_wf block_node_zero"
  by (simp add: block_node_wf_def block_node_zero_def)

lemma length_block_node_bytes [simp]: "block_node_wf n \<Longrightarrow> length (block_node_bytes n) = 80"
  by (simp add: block_node_wf_def block_node_bytes_def)

lemma block_node_of_bytes [simp]: "block_node_wf n \<Longrightarrow> block_node_of (block_node_bytes n @ r) = n"
  by (simp add: block_node_wf_def block_node_bytes_def block_node_of_def)

lemma block_node_of_bytes' [simp]: "block_node_wf n \<Longrightarrow> block_node_of (block_node_bytes n) = n"
  using block_node_of_bytes [of n "[]"] by simp

lemma block_node_wf_of [simp]: "80 \<le> length b \<Longrightarrow> block_node_wf (block_node_of b)"
  by (simp add: block_node_wf_def block_node_of_def)

lemma block_node_wf_update [simp]:
  "block_node_wf n \<Longrightarrow> length u = 16 \<Longrightarrow> block_node_wf (n\<lparr>block_next := u\<rparr>)"
  "block_node_wf n \<Longrightarrow> length u = 16 \<Longrightarrow> block_node_wf (n\<lparr>block_prev := u\<rparr>)"
  "block_node_wf n \<Longrightarrow> length u = 16 \<Longrightarrow> block_node_wf (n\<lparr>block_key := u\<rparr>)"
  "block_node_wf n \<Longrightarrow> block_node_wf (n\<lparr>net_block_height := h\<rparr>)"
  by (simp_all add: block_node_wf_def)

lemma block_node_wfD:
  "block_node_wf n \<Longrightarrow> length (block_key n) = 16" "block_node_wf n \<Longrightarrow> length (block_prev n) = 16"
  "block_node_wf n \<Longrightarrow> length (block_next n) = 16"
  "block_node_wf n \<Longrightarrow> length (first_transaction_id n) = 16"
  by (simp_all add: block_node_wf_def)

abbreviation (input) offsetof_block_next :: nat where "offsetof_block_next \<equiv> 32"
abbreviation (input) offsetof_net_block_cert_size :: nat where "offsetof_net_block_cert_size \<equiv> 72"

lemma block_node_of_store [simp]:
  "80 \<le> length b \<Longrightarrow> length u = 16 \<Longrightarrow>
     block_node_of (store_at offsetof_block_next u b) = (block_node_of b)\<lparr>block_next := u\<rparr>"
  by (simp add: block_node_of_def)

end
