(* ===== verification/Ds_Context.thy ===== *)
theory Ds_Context
  imports Bitcap Ds_Data
begin

text \<open>
  Root and child contexts of the data service: the capability bits
  (\<^verbatim>\<open>src/include/agentd/dataservice.h\<close>), opening the database, the instance with
  its 1024 child slots kept on a free list, and the operations that create,
  reduce, look up and close contexts.  A result \<open>None\<close> of an operation stands
  for undefined behaviour of the C code (an access outside an object or through
  an invalid pointer).  \<open>malloc_ok n\<close> says whether the \<open>n\<close>-th allocation of the
  call succeeds.
\<close>

subsection \<open>Capability bits\<close>

abbreviation (input) DATASERVICE_API_CAP_LL_ROOT_CONTEXT_CREATE :: nat where
  "DATASERVICE_API_CAP_LL_ROOT_CONTEXT_CREATE \<equiv> 0"
abbreviation (input) DATASERVICE_API_CAP_LL_ROOT_CONTEXT_REDUCE_CAPS :: nat where
  "DATASERVICE_API_CAP_LL_ROOT_CONTEXT_REDUCE_CAPS \<equiv> 1"
abbreviation (input) DATASERVICE_API_CAP_LL_CHILD_CONTEXT_CREATE :: nat where
  "DATASERVICE_API_CAP_LL_CHILD_CONTEXT_CREATE \<equiv> 2"
abbreviation (input) DATASERVICE_API_CAP_LL_CHILD_CONTEXT_CLOSE :: nat where
  "DATASERVICE_API_CAP_LL_CHILD_CONTEXT_CLOSE \<equiv> 3"
abbreviation (input) DATASERVICE_API_CAP_APP_GLOBAL_SETTING_READ :: nat where
  "DATASERVICE_API_CAP_APP_GLOBAL_SETTING_READ \<equiv> 7"
abbreviation (input) DATASERVICE_API_CAP_APP_GLOBAL_SETTING_WRITE :: nat where
  "DATASERVICE_API_CAP_APP_GLOBAL_SETTING_WRITE \<equiv> 8"
abbreviation (input) DATASERVICE_API_CAP_APP_BLOCK_ID_LATEST_READ :: nat where
  "DATASERVICE_API_CAP_APP_BLOCK_ID_LATEST_READ \<equiv> 9"
abbreviation (input) DATASERVICE_API_CAP_APP_BLOCK_READ :: nat where
  "DATASERVICE_API_CAP_APP_BLOCK_READ \<equiv> 13"
abbreviation (input) DATASERVICE_API_CAP_APP_TRANSACTION_READ :: nat where
  "DATASERVICE_API_CAP_APP_TRANSACTION_READ \<equiv> 14"
abbreviation (input) DATASERVICE_API_CAP_APP_PQ_TRANSACTION_SUBMIT :: nat where
  "DATASERVICE_API_CAP_APP_PQ_TRANSACTION_SUBMIT \<equiv> 15"
abbreviation (input) DATASERVICE_API_CAP_APP_PQ_TRANSACTION_PROMOTE :: nat where
  "DATASERVICE_API_CAP_APP_PQ_TRANSACTION_PROMOTE \<equiv> 16"
abbreviation (input) DATASERVICE_API_CAP_APP_PQ_TRANSACTION_FIRST_READ :: nat where
  "DATASERVICE_API_CAP_APP_PQ_TRANSACTION_FIRST_READ \<equiv> 17"
abbreviation (input) DATASERVICE_API_CAP_APP_PQ_TRANSACTION_READ :: nat where
  "DATASERVICE_API_CAP_APP_PQ_TRANSACTION_READ \<equiv> 18"
abbreviation (input) DATASERVICE_API_CAP_APP_PQ_TRANSACTION_DROP :: nat where
  "DATASERVICE_API_CAP_APP_PQ_TRANSACTION_DROP \<equiv> 19"
abbreviation (input) DATASERVICE_API_CAP_APP_ARTIFACT_READ :: nat where
  "DATASERVICE_API_CAP_APP_ARTIFACT_READ \<equiv> 20"
abbreviation (input) DATASERVICE_API_CAP_APP_BLOCK_WRITE :: nat where
  "DATASERVICE_API_CAP_APP_BLOCK_WRITE \<equiv> 21"
abbreviation (input) DATASERVICE_API_CAP_APP_BLOCK_ID_BY_HEIGHT_READ :: nat where
  "DATASERVICE_API_CAP_APP_BLOCK_ID_BY_HEIGHT_READ \<equiv> 22"
abbreviation (input) DATASERVICE_API_CAP_BITS_MAX :: nat where
  "DATASERVICE_API_CAP_BITS_MAX \<equiv> 23"

lemma BITCAP_WORDS_dataservice [simp]: "BITCAP_WORDS DATASERVICE_API_CAP_BITS_MAX = 1"
  by (simp add: BITCAP_WORDS_def)

subsection \<open>State\<close>

text \<open>
  \<open>details\<close> is the opened environment; \<open>None\<close> stands for \<^verbatim>\<open>NULL\<close> and for the
  pointer left behind once the structure it points to is freed.
\<close>

record 'e dataservice_root_context =
  root_dispose :: bool
  apicaps :: bitcap
  details :: "'e option"

record dataservice_child_context =
  child_root :: bool
  childcaps :: bitcap

record dataservice_child_details =
  child_dispose :: bool
  child_next :: "nat option"
  child_ctx :: dataservice_child_context

record 'e dataservice_instance =
  inst_ctx :: "'e dataservice_root_context"
  children :: "dataservice_child_details list"
  child_head :: "nat option"
  dataservice_force_exit :: bool

abbreviation (input) DATASERVICE_MAX_CHILD_CONTEXTS :: nat where
  "DATASERVICE_MAX_CHILD_CONTEXTS \<equiv> 1024"

definition root_context_zero :: "'e dataservice_root_context" where
  "root_context_zero = \<lparr> root_dispose = False, apicaps = [0], details = None \<rparr>"

definition child_context_zero :: dataservice_child_context where
  "child_context_zero = \<lparr> child_root = False, childcaps = [0] \<rparr>"

definition child_details_zero :: dataservice_child_details where
  "child_details_zero = \<lparr> child_dispose = False, child_next = None, child_ctx = child_context_zero \<rparr>"

subsection \<open>Opening and closing the database\<close>

fun dataservice_open_dbis :: "('e, 't) lmdb \<Rightarrow> 't \<Rightarrow> string list \<Rightarrow> int \<times> 't" where
  "dataservice_open_dbis ops txn [] = (0, txn)"
| "dataservice_open_dbis ops txn (name # names) =
     (case mdb_dbi_open ops txn name MDB_CREATE of (rc, txn) \<Rightarrow>
      if rc \<noteq> 0 then (rc, txn) else dataservice_open_dbis ops txn names)"

text \<open>The status and the \<^verbatim>\<open>details\<close> pointer afterwards.\<close>

definition dataservice_database_open ::
  "('e, 't) lmdb \<Rightarrow> (nat \<Rightarrow> bool) \<Rightarrow> 64 word \<Rightarrow> bytes \<Rightarrow> status \<times> 'e option" where
  "dataservice_database_open ops malloc_ok max_database_size datadir =
     (if \<not> malloc_ok 0 then (AGENTD_ERROR_GENERAL_OUT_OF_MEMORY, None) else
      case mdb_env_create ops of (rc, env) \<Rightarrow>
      if rc \<noteq> 0 then (AGENTD_ERROR_DATASERVICE_MDB_ENV_CREATE_FAILURE, None) else
      case mdb_env_set_mapsize ops env max_database_size of (rc, env) \<Rightarrow>
      if rc \<noteq> 0 then (AGENTD_ERROR_DATASERVICE_MDB_ENV_SET_MAPSIZE_FAILURE, None) else
      case mdb_env_set_maxdbs ops env 6 of (rc, env) \<Rightarrow>
      if rc \<noteq> 0 then (AGENTD_ERROR_DATASERVICE_MDB_ENV_SET_MAXDBS_FAILURE, None) else
      case mdb_env_open ops env datadir of (rc, env) \<Rightarrow>
      if rc \<noteq> 0 then (AGENTD_ERROR_DATASERVICE_MDB_ENV_OPEN_FAILURE, None) else
      case mdb_txn_begin ops env None 0 of (rc, txn) \<Rightarrow>
      if rc \<noteq> 0 then (AGENTD_ERROR_DATASERVICE_MDB_TXN_BEGIN_FAILURE, None) else
      case dataservice_open_dbis ops txn
             [''global.db'', ''block.db'', ''txn.db'', ''pq.db'', ''artifact.db'', ''height.db'']
      of (rc, txn) \<Rightarrow>
      if rc \<noteq> 0 then (AGENTD_ERROR_DATASERVICE_MDB_DBI_OPEN_FAILURE, None) else
      case mdb_txn_commit ops env None txn of (rc, env, _) \<Rightarrow>
      if rc \<noteq> 0 then (AGENTD_ERROR_DATASERVICE_MDB_TXN_COMMIT_FAILURE, None)
      else (AGENTD_STATUS_SUCCESS, Some env))"

text \<open>Closing reads the handles through \<^verbatim>\<open>ctx->details\<close> and frees the structure.\<close>

definition dataservice_database_close ::
  "'e dataservice_root_context \<Rightarrow> 'e dataservice_root_context option" where
  "dataservice_database_close ctx =
     (case details ctx of None \<Rightarrow> None | Some _ \<Rightarrow> Some (ctx\<lparr>details := None\<rparr>))"

subsection \<open>Root context\<close>

definition dataservice_root_context_init ::
  "('e, 't) lmdb \<Rightarrow> (nat \<Rightarrow> bool) \<Rightarrow> 'e dataservice_root_context \<Rightarrow> 64 word \<Rightarrow> bytes \<Rightarrow>
     status \<times> 'e dataservice_root_context" where
  "dataservice_root_context_init ops malloc_ok ctx max_database_size datadir =
     (if \<not> BITCAP_ISSET (apicaps ctx) DATASERVICE_API_CAP_LL_ROOT_CONTEXT_CREATE
      then (AGENTD_ERROR_DATASERVICE_NOT_AUTHORIZED, ctx)
      else
        let ctx = root_context_zero;
            ctx = ctx\<lparr>apicaps := BITCAP_INIT_TRUE (apicaps ctx)\<rparr>;
            ctx = ctx\<lparr>apicaps := BITCAP_SET_FALSE (apicaps ctx)
                                  DATASERVICE_API_CAP_LL_ROOT_CONTEXT_CREATE\<rparr>;
            ctx = ctx\<lparr>root_dispose := True\<rparr>
        in case dataservice_database_open ops malloc_ok max_database_size datadir of
             (st, det) \<Rightarrow> (st, ctx\<lparr>details := det\<rparr>))"

definition dataservice_root_context_dispose ::
  "'e dataservice_root_context \<Rightarrow> 'e dataservice_root_context option" where
  "dataservice_root_context_dispose ctx =
     (case dataservice_database_close ctx of None \<Rightarrow> None | Some _ \<Rightarrow> Some root_context_zero)"

definition dataservice_root_context_reduce_capabilities ::
  "'e dataservice_root_context \<Rightarrow> bitcap \<Rightarrow> status \<times> 'e dataservice_root_context" where
  "dataservice_root_context_reduce_capabilities ctx caps =
     (if \<not> BITCAP_ISSET (apicaps ctx) DATASERVICE_API_CAP_LL_ROOT_CONTEXT_REDUCE_CAPS
      then (AGENTD_ERROR_DATASERVICE_NOT_AUTHORIZED, ctx)
      else (AGENTD_STATUS_SUCCESS, ctx\<lparr>apicaps := BITCAP_INTERSECT (apicaps ctx) caps\<rparr>))"

subsection \<open>Child contexts\<close>

definition dataservice_child_context_create ::
  "'e dataservice_root_context \<Rightarrow> dataservice_child_context \<Rightarrow> bitcap \<Rightarrow>
     status \<times> dataservice_child_context" where
  "dataservice_child_context_create root child caps =
     (if \<not> BITCAP_ISSET (apicaps root) DATASERVICE_API_CAP_LL_CHILD_CONTEXT_CREATE
      then (AGENTD_ERROR_DATASERVICE_NOT_AUTHORIZED, child)
      else if \<not> BITCAP_ISSET (childcaps child) DATASERVICE_API_CAP_LL_CHILD_CONTEXT_CREATE
      then (AGENTD_ERROR_DATASERVICE_NOT_AUTHORIZED, child)
      else
        let child = child_context_zero\<lparr>child_root := True\<rparr>;
            child = child\<lparr>childcaps := BITCAP_INTERSECT (apicaps root) caps\<rparr>;
            child = child\<lparr>childcaps := BITCAP_SET_FALSE (childcaps child)
                                        DATASERVICE_API_CAP_LL_CHILD_CONTEXT_CREATE\<rparr>
        in (AGENTD_STATUS_SUCCESS, child))"

definition dataservice_child_context_close ::
  "dataservice_child_context \<Rightarrow> status \<times> dataservice_child_context" where
  "dataservice_child_context_close child =
     (if \<not> BITCAP_ISSET (childcaps child) DATASERVICE_API_CAP_LL_CHILD_CONTEXT_CLOSE
      then (AGENTD_ERROR_DATASERVICE_NOT_AUTHORIZED, child)
      else (AGENTD_STATUS_SUCCESS, child_context_zero))"

subsection \<open>The instance and its child slots\<close>

text \<open>The body of the loop of \<^verbatim>\<open>dataservice_instance_create\<close>.\<close>

definition link_slot :: "nat \<Rightarrow> 'e dataservice_instance \<Rightarrow> 'e dataservice_instance" where
  "link_slot i inst = inst\<lparr>children := (children inst)[i := (children inst ! i)\<lparr>child_next := child_head inst\<rparr>],
                           child_head := Some i\<rparr>"

definition dataservice_instance_create :: "bool \<Rightarrow> 'e dataservice_instance option" where
  "dataservice_instance_create malloc_ok =
     (if \<not> malloc_ok then None else
      let instance0 = \<lparr> inst_ctx = root_context_zero,
                        children = replicate DATASERVICE_MAX_CHILD_CONTEXTS child_details_zero,
                        child_head = None, dataservice_force_exit = False \<rparr>;
          instance1 = instance0\<lparr>inst_ctx := (inst_ctx instance0)\<lparr>apicaps :=
                        BITCAP_SET_TRUE (apicaps (inst_ctx instance0))
                          DATASERVICE_API_CAP_LL_ROOT_CONTEXT_CREATE\<rparr>\<rparr>
      in Some (fold link_slot [0..<DATASERVICE_MAX_CHILD_CONTEXTS] instance1))"

definition dataservice_child_details_create ::
  "'e dataservice_instance \<Rightarrow> status \<times> 'e dataservice_instance \<times> nat" where
  "dataservice_child_details_create inst =
     (case child_head inst of
        None \<Rightarrow> (AGENTD_ERROR_DATASERVICE_OUT_OF_CHILD_INSTANCES, inst, 0)
      | Some child \<Rightarrow>
          (AGENTD_STATUS_SUCCESS,
           inst\<lparr>child_head := child_next (children inst ! child),
                children := (children inst)[child := child_details_zero\<lparr>child_dispose := True\<rparr>]\<rparr>,
           child))"

text \<open>Disposing calls the slot's dispose method, which an open slot has.\<close>

definition dataservice_child_details_delete ::
  "'e dataservice_instance \<Rightarrow> nat \<Rightarrow> 'e dataservice_instance option" where
  "dataservice_child_details_delete inst offset =
     (if length (children inst) \<le> offset \<or> \<not> child_dispose (children inst ! offset) then None else
      Some (inst\<lparr>children := (children inst)[offset := child_details_zero\<lparr>child_next := child_head inst\<rparr>],
                 child_head := Some offset\<rparr>))"

definition dataservice_child_context_lookup ::
  "'e dataservice_instance \<Rightarrow> 32 word \<Rightarrow> status + dataservice_child_context" where
  "dataservice_child_context_lookup inst offset =
     (if unat offset \<ge> DATASERVICE_MAX_CHILD_CONTEXTS
      then Inl AGENTD_ERROR_DATASERVICE_CHILD_CONTEXT_BAD_INDEX
      else if \<not> child_dispose (children inst ! unat offset)
      then Inl AGENTD_ERROR_DATASERVICE_CHILD_CONTEXT_INVALID
      else Inr (child_ctx (children inst ! unat offset)))"

text \<open>
  Disposing the instance: the root context is closed when its dispose method is
  set, whatever state its \<^verbatim>\<open>details\<close> pointer is in.
\<close>

definition dataservice_instance_dispose ::
  "'e dataservice_instance \<Rightarrow> 'e dataservice_instance option" where
  "dataservice_instance_dispose inst =
     (let inst = inst\<lparr>children := map (\<lambda>c. if child_dispose c then child_details_zero else c) (children inst)\<rparr>
      in if root_dispose (inst_ctx inst)
         then (case dataservice_root_context_dispose (inst_ctx inst) of
                 None \<Rightarrow> None
               | Some ctx \<Rightarrow> Some (inst\<lparr>inst_ctx := root_context_zero, children := map (\<lambda>_. child_details_zero) (children inst),
                                        child_head := None, dataservice_force_exit := False\<rparr>))
         else Some (inst\<lparr>inst_ctx := root_context_zero, children := map (\<lambda>_. child_details_zero) (children inst),
                         child_head := None, dataservice_force_exit := False\<rparr>))"

subsection \<open>The free list of child slots\<close>

text \<open>
  \<open>free_chain cs h fs\<close>: following the \<^verbatim>\<open>next\<close> pointers from \<open>h\<close> visits exactly the
  slots \<open>fs\<close>, all of them closed.
\<close>

fun free_chain :: "dataservice_child_details list \<Rightarrow> nat option \<Rightarrow> nat list \<Rightarrow> bool" where
  "free_chain cs h [] \<longleftrightarrow> h = None"
| "free_chain cs h (i # fs) \<longleftrightarrow> h = Some i \<and> i < length cs \<and> \<not> child_dispose (cs ! i) \<and>
     free_chain cs (child_next (cs ! i)) fs"

definition child_ctx_ok :: "dataservice_child_context \<Rightarrow> bool" where
  "child_ctx_ok c \<longleftrightarrow> child_root c \<and> length (childcaps c) = 1 \<and>
     \<not> BITCAP_ISSET (childcaps c) DATASERVICE_API_CAP_LL_CHILD_CONTEXT_CREATE"

definition slots_inv :: "'e dataservice_instance \<Rightarrow> nat list \<Rightarrow> bool" where
  "slots_inv inst fs \<longleftrightarrow> length (children inst) = DATASERVICE_MAX_CHILD_CONTEXTS \<and>
     free_chain (children inst) (child_head inst) fs \<and> distinct fs \<and>
     (\<forall>i < DATASERVICE_MAX_CHILD_CONTEXTS. child_dispose (children inst ! i) \<longleftrightarrow> i \<notin> set fs)"

definition opened_slots :: "'e dataservice_instance \<Rightarrow> nat set" where
  "opened_slots inst = {i. i < length (children inst) \<and> child_dispose (children inst ! i)}"

lemma free_chain_frame:
  "j \<notin> set fs \<Longrightarrow> free_chain (cs[j := c]) h fs = free_chain cs h fs"
  by (induction fs arbitrary: h) auto

lemma free_chain_bound: "free_chain cs h fs \<Longrightarrow> i \<in> set fs \<Longrightarrow> i < length cs"
  by (induction fs arbitrary: h) auto

lemma free_chain_closed: "free_chain cs h fs \<Longrightarrow> i \<in> set fs \<Longrightarrow> \<not> child_dispose (cs ! i)"
  by (induction fs arbitrary: h) auto

lemma opened_slots_free: "slots_inv inst fs \<Longrightarrow> opened_slots inst = {..<1024} - set fs"
  by (auto simp: slots_inv_def opened_slots_def)

lemma child_details_create_None:
  "slots_inv inst fs \<Longrightarrow> child_head inst = None \<longleftrightarrow> fs = []"
  by (cases fs) (auto simp: slots_inv_def)

lemma child_details_create_inv:
  assumes "slots_inv inst fs" and "child_head inst = Some i"
  defines "inst' \<equiv> fst (snd (dataservice_child_details_create inst))"
  shows "\<exists>fs'. fs = i # fs' \<and> slots_inv inst' fs'"
    and "opened_slots inst' = insert i (opened_slots inst)"
    and "i \<notin> opened_slots inst"
proof -
  obtain fs' where fs: "fs = i # fs'"
    using assms(1,2) by (cases fs) (auto simp: slots_inv_def)
  have inst': "children inst' = (children inst)[i := child_details_zero\<lparr>child_dispose := True\<rparr>]"
    "child_head inst' = child_next (children inst ! i)"
    using assms(2) by (simp_all add: inst'_def dataservice_child_details_create_def)
  have i: "i < 1024" "i \<notin> set fs'"
    using assms(1) fs by (auto simp: slots_inv_def)
  have "slots_inv inst' fs'"
    using assms(1) fs i
    by (auto simp: slots_inv_def inst' free_chain_frame nth_list_update child_details_zero_def)
  then show "\<exists>fs'. fs = i # fs' \<and> slots_inv inst' fs'" using fs by blast
  show "i \<notin> opened_slots inst" using assms(1) fs by (auto simp: opened_slots_free)
  show "opened_slots inst' = insert i (opened_slots inst)"
    using assms(1) i by (auto simp: opened_slots_def inst' slots_inv_def nth_list_update child_details_zero_def split: if_splits)
qed

lemma child_details_delete_inv:
  assumes inv: "slots_inv inst fs" and "offset \<in> opened_slots inst"
  obtains inst' where "dataservice_child_details_delete inst offset = Some inst'"
    and "slots_inv inst' (offset # fs)"
    and "opened_slots inst' = opened_slots inst - {offset}"
proof -
  have off: "offset < 1024" "child_dispose (children inst ! offset)" "offset \<notin> set fs"
    using assms by (auto simp: opened_slots_def slots_inv_def)
  define inst' where "inst' = inst\<lparr>children := (children inst)[offset := child_details_zero\<lparr>child_next := child_head inst\<rparr>],
                 child_head := Some offset\<rparr>"
  have del: "dataservice_child_details_delete inst offset = Some inst'"
    using off inv by (simp add: dataservice_child_details_delete_def inst'_def slots_inv_def)
  have "slots_inv inst' (offset # fs)"
    using inv off
    by (auto simp: slots_inv_def inst'_def free_chain_frame nth_list_update child_details_zero_def)
  moreover have "opened_slots inst' = opened_slots inst - {offset}"
    using off inv by (auto simp: opened_slots_def inst'_def slots_inv_def nth_list_update child_details_zero_def split: if_splits)
  ultimately show thesis using del that by blast
qed

text \<open>A fresh instance: the loop chains all slots, the last one first.\<close>

lemma link_slots_chain:
  assumes "child_head inst = None" and "n \<le> length (children inst)"
    and "\<And>i. i < length (children inst) \<Longrightarrow> \<not> child_dispose (children inst ! i)"
  defines "inst' \<equiv> fold link_slot [0..<n] inst"
  shows "free_chain (children inst') (child_head inst') (rev [0..<n]) \<and>
     length (children inst') = length (children inst) \<and> inst_ctx inst' = inst_ctx inst \<and>
     (\<forall>i < length (children inst). \<not> child_dispose (children inst' ! i))"
  using assms(2) unfolding inst'_def
proof (induction n)
  case 0
  then show ?case using assms(1,3) by simp
next
  case (Suc n)
  let ?i = "fold link_slot [0..<n] inst"
  from Suc have IH: "free_chain (children ?i) (child_head ?i) (rev [0..<n])"
    "length (children ?i) = length (children inst)" "inst_ctx ?i = inst_ctx inst"
    "\<forall>i < length (children inst). \<not> child_dispose (children ?i ! i)"
    by auto
  define j where "j = ?i"
  have "free_chain (children (link_slot n j)) (child_head (link_slot n j)) (n # rev [0..<n]) \<and>
     length (children (link_slot n j)) = length (children inst) \<and> inst_ctx (link_slot n j) = inst_ctx inst \<and>
     (\<forall>i < length (children inst). \<not> child_dispose (children (link_slot n j) ! i))"
    using IH Suc.prems
    by (auto simp: link_slot_def free_chain_frame nth_list_update simp flip: j_def)
  then show ?case by (simp add: j_def)
qed

lemma dataservice_instance_create_Some:
  obtains inst :: "'e dataservice_instance" where "dataservice_instance_create True = Some inst"
    and "slots_inv inst (rev [0..<1024])"
    and "inst_ctx inst = root_context_zero\<lparr>apicaps := [1]\<rparr>"
proof -
  define inst0 :: "'e dataservice_instance" where
    "inst0 = \<lparr> inst_ctx = root_context_zero\<lparr>apicaps := [1]\<rparr>,
       children = replicate 1024 child_details_zero, child_head = None, dataservice_force_exit = False \<rparr>"
  define inst where "inst = fold link_slot [0..<1024] inst0"
  have "dataservice_instance_create True = Some inst"
    by (simp add: dataservice_instance_create_def inst_def inst0_def Let_def
        root_context_zero_def BITCAP_SET_TRUE_def BITCAP_OFFSET_def BITCAP_SHIFT_def del: upt_Suc)
  moreover have "free_chain (children inst) (child_head inst) (rev [0..<1024]) \<and>
     length (children inst) = 1024 \<and> inst_ctx inst = inst_ctx inst0 \<and>
     (\<forall>i < 1024. \<not> child_dispose (children inst ! i))"
    using link_slots_chain [of inst0 1024] by (simp add: inst_def inst0_def child_details_zero_def del: upt_Suc)
  ultimately show thesis
    using that [of inst] by (simp add: slots_inv_def inst0_def del: upt_Suc)
qed

subsection \<open>The slots as a pool\<close>

text \<open>
  The interface that the dispatcher uses: slots are acquired and released, a
  slot is never handed out twice, and the pool is exhausted only when every slot
  is open.
\<close>

fun acquire_many :: "('s \<Rightarrow> (nat \<times> 's) option) \<Rightarrow> nat \<Rightarrow> 's \<Rightarrow> (nat list \<times> 's) option" where
  "acquire_many acq 0 s = Some ([], s)"
| "acquire_many acq (Suc n) s =
     (case acq s of None \<Rightarrow> None
      | Some (i, s') \<Rightarrow> (case acquire_many acq n s' of None \<Rightarrow> None
                         | Some (xs, s'') \<Rightarrow> Some (i # xs, s'')))"

locale slot_pool =
  fixes acquire :: "'s \<Rightarrow> (nat \<times> 's) option"
    and release :: "'s \<Rightarrow> nat \<Rightarrow> 's option"
    and opened :: "'s \<Rightarrow> nat set"
    and inv :: "'s \<Rightarrow> bool"
    and capacity :: nat
  assumes opened_bound: "inv s \<Longrightarrow> opened s \<subseteq> {..<capacity}"
    and acquire_None: "inv s \<Longrightarrow> acquire s = None \<longleftrightarrow> opened s = {..<capacity}"
    and acquire_Some: "inv s \<Longrightarrow> acquire s = Some (i, s') \<Longrightarrow>
                         i \<notin> opened s \<and> opened s' = insert i (opened s) \<and> inv s'"
    and release_Some: "inv s \<Longrightarrow> i \<in> opened s \<Longrightarrow>
                         \<exists>s'. release s i = Some s' \<and> opened s' = opened s - {i} \<and> inv s'"
begin

lemma finite_opened: "inv s \<Longrightarrow> finite (opened s)"
  using opened_bound finite_subset by blast

lemma acquire_fresh_below:
  assumes "inv s" and "acquire s = Some (i, s')"
  shows "i < capacity"
proof -
  have "inv s'" "opened s' = insert i (opened s)" using assms acquire_Some by blast+
  then show ?thesis using opened_bound by blast
qed

lemma acquire_many_ok:
  assumes "inv s" and "card (opened s) + n \<le> capacity"
  shows "\<exists>xs s'. acquire_many acquire n s = Some (xs, s') \<and> inv s' \<and> length xs = n \<and> distinct xs \<and>
           set xs \<inter> opened s = {} \<and> opened s' = opened s \<union> set xs"
  using assms
proof (induction n arbitrary: s)
  case 0
  then show ?case by simp
next
  case (Suc n)
  have "card (opened s) \<noteq> card {..<capacity}" using Suc.prems(2) by simp
  then have "opened s \<noteq> {..<capacity}" by metis
  then obtain i s1 where a: "acquire s = Some (i, s1)"
    using acquire_None [OF Suc.prems(1)] by (cases "acquire s") auto
  from acquire_Some [OF Suc.prems(1) a]
  have i: "i \<notin> opened s" "opened s1 = insert i (opened s)" "inv s1" by auto
  then have "card (opened s1) + n \<le> capacity"
    using Suc.prems finite_opened by simp
  from Suc.IH [OF i(3) this] obtain xs s' where
    r: "acquire_many acquire n s1 = Some (xs, s')" "inv s'" "length xs = n" "distinct xs"
    "set xs \<inter> opened s1 = {}" "opened s' = opened s1 \<union> set xs" by blast
  have "acquire_many acquire (Suc n) s = Some (i # xs, s')" using a r(1) by simp
  moreover have "set (i # xs) \<inter> opened s = {}" "distinct (i # xs)"
    "opened s' = opened s \<union> set (i # xs)" using r i by auto
  ultimately show ?case using r(2,3) by (metis length_Cons)
qed

lemma exhausted:
  assumes "inv s" and "card (opened s) = capacity"
  shows "acquire s = None"
proof -
  have "opened s = {..<capacity}"
    using assms opened_bound by (intro card_subset_eq) auto
  then show ?thesis using acquire_None assms(1) by blast
qed

lemma release_then_acquire:
  assumes "inv s" and "i \<in> opened s"
  shows "\<exists>s' j s''. release s i = Some s' \<and> acquire s' = Some (j, s'') \<and> j \<notin> opened s'"
proof -
  obtain s' where r: "release s i = Some s'" "opened s' = opened s - {i}" "inv s'"
    using release_Some assms by blast
  then have "opened s' \<noteq> {..<capacity}" using assms opened_bound by blast
  then obtain j s'' where "acquire s' = Some (j, s'')"
    using acquire_None [OF r(3)] by (cases "acquire s'") auto
  then show ?thesis using r acquire_Some by blast
qed

end

text \<open>The child details of the instance are such a pool.\<close>

definition details_acquire :: "'e dataservice_instance \<Rightarrow> (nat \<times> 'e dataservice_instance) option" where
  "details_acquire inst = (case dataservice_child_details_create inst of (st, inst', offset) \<Rightarrow>
     if st = AGENTD_STATUS_SUCCESS then Some (offset, inst') else None)"

definition slots_ok :: "'e dataservice_instance \<Rightarrow> bool" where
  "slots_ok inst \<longleftrightarrow> (\<exists>fs. slots_inv inst fs)"

lemma details_acquire_Some_iff:
  "details_acquire inst = Some (i, inst') \<longleftrightarrow>
     child_head inst = Some i \<and> inst' = fst (snd (dataservice_child_details_create inst))"
  by (auto simp: details_acquire_def dataservice_child_details_create_def split: option.splits)

lemma details_acquire_None_iff: "details_acquire inst = None \<longleftrightarrow> child_head inst = None"
  by (auto simp: details_acquire_def dataservice_child_details_create_def split: option.splits)

lemma diff_full: "B \<subseteq> A \<Longrightarrow> A - B = A \<longleftrightarrow> B = {}"
  by blast

lemma slots_full: "slots_inv inst fs \<Longrightarrow> fs = [] \<longleftrightarrow> opened_slots inst = {..<1024}"
proof -
  assume inv: "slots_inv inst fs"
  then have "set fs \<subseteq> {..<1024}"
    using free_chain_bound [of "children inst" "child_head inst" fs] by (auto simp: slots_inv_def)
  then have "{..<1024} - set fs = {..<1024} \<longleftrightarrow> set fs = {}" by (rule diff_full)
  then show ?thesis using opened_slots_free [OF inv] by simp
qed

interpretation details_pool: slot_pool details_acquire dataservice_child_details_delete
  opened_slots slots_ok 1024
proof unfold_locales
  fix s :: "'e dataservice_instance" and i s'
  assume inv: "slots_ok s"
  then obtain fs where fs: "slots_inv s fs" by (auto simp: slots_ok_def)
  show "opened_slots s \<subseteq> {..<1024}" using fs by (auto simp: opened_slots_free)
  show "details_acquire s = None \<longleftrightarrow> opened_slots s = {..<1024}"
    using fs by (simp add: details_acquire_None_iff child_details_create_None slots_full)
  show "i \<notin> opened_slots s \<and> opened_slots s' = insert i (opened_slots s) \<and> slots_ok s'"
    if "details_acquire s = Some (i, s')"
    using that child_details_create_inv [OF fs, of i]
    by (auto simp: details_acquire_Some_iff slots_ok_def)
  show "\<exists>s'. dataservice_child_details_delete s i = Some s' \<and> opened_slots s' = opened_slots s - {i} \<and> slots_ok s'"
    if "i \<in> opened_slots s"
    using child_details_delete_inv [OF fs that] by (metis slots_ok_def)
qed


subsection \<open>A fully authorised child\<close>

text \<open>A child context with every capability.\<close>

definition full_child :: dataservice_child_context where
  "full_child = \<lparr> child_root = True, childcaps = [0x7FFFFF] \<rparr>"

lemma full_child_caps: "n < 23 \<Longrightarrow> BITCAP_ISSET (childcaps full_child) n"
proof -
  assume "n < 23"
  then have "bit (mask 23 :: 32 word) n" by (simp add: bit_mask_iff)
  then have "bit (0x7FFFFF :: 32 word) n" by (simp add: mask_eq_exp_minus_1)
  then show ?thesis using \<open>n < 23\<close> by (simp add: full_child_def BITCAP_ISSET_bit)
qed

subsection \<open>Properties\<close>

text \<open>
  C40. A fresh instance has 1024 child slots: 1024 contexts can be opened, each in
  a slot of its own, and the next attempt fails with
  \<^verbatim>\<open>AGENTD_ERROR_DATASERVICE_OUT_OF_CHILD_INSTANCES\<close> and changes nothing.
\<close>

theorem child_slots_exhausted:
  "\<exists>inst xs inst'. dataservice_instance_create True = Some (inst :: 'e dataservice_instance) \<and>
     acquire_many details_acquire DATASERVICE_MAX_CHILD_CONTEXTS inst = Some (xs, inst') \<and>
     distinct xs \<and> set xs = {..<DATASERVICE_MAX_CHILD_CONTEXTS} \<and>
     dataservice_child_details_create inst' = (AGENTD_ERROR_DATASERVICE_OUT_OF_CHILD_INSTANCES, inst', 0)"
proof -
  obtain inst :: "'e dataservice_instance" where c: "dataservice_instance_create True = Some inst"
    and inv: "slots_inv inst (rev [0..<1024])" by (rule dataservice_instance_create_Some)
  have op: "opened_slots inst = {}"
    by (simp only: opened_slots_free [OF inv] set_rev set_upt atLeast0LessThan Diff_cancel)
  have ok: "slots_ok inst" using inv unfolding slots_ok_def by blast
  obtain xs inst' where a: "acquire_many details_acquire 1024 inst = Some (xs, inst')" "slots_ok inst'"
    "length xs = 1024" "distinct xs" "opened_slots inst' = set xs"
    using details_pool.acquire_many_ok [OF ok, of 1024] op by auto
  have card: "card (set xs) = 1024" using a(3,4) distinct_card by fastforce
  then have "details_acquire inst' = None" using details_pool.exhausted [OF a(2)] a(5) by simp
  then have "dataservice_child_details_create inst' = (AGENTD_ERROR_DATASERVICE_OUT_OF_CHILD_INSTANCES, inst', 0)"
    by (simp add: details_acquire_None_iff dataservice_child_details_create_def)
  moreover have "set xs = {..<1024}"
    using details_pool.opened_bound [OF a(2)] a(5) card by (intro card_subset_eq) auto
  ultimately show ?thesis using c a(1,4) by blast
qed

text \<open>
  Creating a child context succeeds exactly when both contexts have the
  capability to do so; the child then has the capabilities that the root has and
  the request asks for, except the one to create children.  Otherwise the status
  is "not authorized" and the child is left as it was.
\<close>

theorem child_context_capabilities:
  assumes "length (apicaps root) = 1" and "length caps = 1" and "b < 32"
    and "dataservice_child_context_create root child caps = (st, child')"
  shows "(st = AGENTD_STATUS_SUCCESS \<longleftrightarrow>
       BITCAP_ISSET (apicaps root) DATASERVICE_API_CAP_LL_CHILD_CONTEXT_CREATE \<and>
       BITCAP_ISSET (childcaps child) DATASERVICE_API_CAP_LL_CHILD_CONTEXT_CREATE) \<and>
     (if st = AGENTD_STATUS_SUCCESS
      then child_root child' \<and> (BITCAP_ISSET (childcaps child') b \<longleftrightarrow>
             b \<noteq> DATASERVICE_API_CAP_LL_CHILD_CONTEXT_CREATE \<and> BITCAP_ISSET (apicaps root) b \<and> BITCAP_ISSET caps b)
      else st = AGENTD_ERROR_DATASERVICE_NOT_AUTHORIZED \<and> child' = child)"
  using assms bitcap32.reduced_child [of "apicaps root" caps 2 b]
  by (auto simp: dataservice_child_context_create_def Let_def split: if_splits)

theorem child_context_capabilities_witness:
  "childcaps (snd (dataservice_child_context_create (root_context_zero\<lparr>apicaps := [0xFFFFFFFE]\<rparr>)
     (child_context_zero\<lparr>childcaps := [4]\<rparr>) [0xFF])) = [0xFA] \<and> BITCAP_ISSET [0xFA] 7"
proof -
  obtain st c where "dataservice_child_context_create (root_context_zero\<lparr>apicaps := [0xFFFFFFFE]\<rparr>)
     (child_context_zero\<lparr>childcaps := [4]\<rparr>) [0xFF] = (st, c)" by fastforce
  with child_context_capabilities [of "root_context_zero\<lparr>apicaps := [0xFFFFFFFE]\<rparr>" "[0xFF]" 7
      "child_context_zero\<lparr>childcaps := [4]\<rparr>" st c]
  show ?thesis by (auto simp: dataservice_child_context_create_def BITCAP_ISSET_def BITCAP_OFFSET_def BITCAP_SHIFT_def
      BITCAP_INTERSECT_def BITCAP_SET_FALSE_def Let_def child_context_zero_def)
qed

text \<open>A sequence of reductions of the root context.\<close>

definition reduce_all :: "'e dataservice_root_context \<Rightarrow> bitcap list \<Rightarrow> 'e dataservice_root_context" where
  "reduce_all ctx capss = foldl (\<lambda>c caps. snd (dataservice_root_context_reduce_capabilities c caps)) ctx capss"

lemma reduce_step:
  assumes "length (apicaps ctx) = 1" and "length caps = 1"
  shows "length (apicaps (snd (dataservice_root_context_reduce_capabilities ctx caps))) = 1"
    and "b < 32 \<Longrightarrow> BITCAP_ISSET (apicaps (snd (dataservice_root_context_reduce_capabilities ctx caps))) b \<longleftrightarrow>
       BITCAP_ISSET (apicaps ctx) b \<and>
       (BITCAP_ISSET (apicaps ctx) DATASERVICE_API_CAP_LL_ROOT_CONTEXT_REDUCE_CAPS \<longrightarrow> BITCAP_ISSET caps b)"
  using assms by (auto simp: dataservice_root_context_reduce_capabilities_def bitcap32.isset_meet)

lemma reduce_all_no_more:
  "length (apicaps ctx) = 1 \<Longrightarrow> \<forall>caps \<in> set capss. length caps = 1 \<Longrightarrow> b < 32 \<Longrightarrow>
     BITCAP_ISSET (apicaps (reduce_all ctx capss)) b \<Longrightarrow> BITCAP_ISSET (apicaps ctx) b"
proof (induction capss arbitrary: ctx)
  case Nil
  then show ?case by (simp add: reduce_all_def)
next
  case (Cons caps capss)
  let ?c = "snd (dataservice_root_context_reduce_capabilities ctx caps)"
  have "BITCAP_ISSET (apicaps ?c) b"
    using Cons.IH [of ?c] Cons.prems reduce_step(1) [of ctx caps] by (simp add: reduce_all_def)
  then show ?case using reduce_step(2) [of ctx caps b] Cons.prems by simp
qed

text \<open>
  No sequence of reductions gives the root context a capability it did not
  have, and once an authorised reduction has been requested, only capabilities of
  the requested set remain, whatever is requested later.
\<close>

theorem root_capabilities_reduced:
  assumes "length (apicaps ctx) = 1" and "\<forall>caps \<in> set (caps0 # capss). length caps = 1" and "b < 32"
    and "BITCAP_ISSET (apicaps (reduce_all ctx (caps0 # capss))) b"
  shows "BITCAP_ISSET (apicaps ctx) b \<and>
    (BITCAP_ISSET (apicaps ctx) DATASERVICE_API_CAP_LL_ROOT_CONTEXT_REDUCE_CAPS \<longrightarrow> BITCAP_ISSET caps0 b)"
proof -
  let ?c = "snd (dataservice_root_context_reduce_capabilities ctx caps0)"
  have "BITCAP_ISSET (apicaps ?c) b"
    using reduce_all_no_more [of ?c capss b] assms reduce_step(1) [of ctx caps0] by (simp add: reduce_all_def)
  then show ?thesis using reduce_step(2) [of ctx caps0 b] assms by simp
qed

theorem root_capabilities_reduced_witness:
  "BITCAP_ISSET (apicaps (reduce_all (root_context_zero\<lparr>apicaps := [0xFFFFFFFE]\<rparr>) [[0x8002], [0xFFFFFFFF]])) 15 \<and>
   BITCAP_ISSET [0x8002] 15"
proof -
  have "BITCAP_ISSET (apicaps (reduce_all (root_context_zero\<lparr>apicaps := [0xFFFFFFFE]\<rparr>) [[0x8002], [0xFFFFFFFF]])) 15"
    by (simp add: reduce_all_def dataservice_root_context_reduce_capabilities_def BITCAP_ISSET_def BITCAP_INTERSECT_def
        BITCAP_OFFSET_def BITCAP_SHIFT_def)
  moreover from this have "BITCAP_ISSET [0x8002] 15"
    using root_capabilities_reduced [of "root_context_zero\<lparr>apicaps := [0xFFFFFFFE]\<rparr>" "[0x8002]" "[[0xFFFFFFFF]]" 15]
    by (simp add: BITCAP_ISSET_def BITCAP_OFFSET_def BITCAP_SHIFT_def)
  ultimately show ?thesis ..
qed

lemma database_open_status:
  "dataservice_database_open ops m n dir = (st, det) \<Longrightarrow> st = AGENTD_STATUS_SUCCESS \<longleftrightarrow> det \<noteq> None"
  by (auto simp: dataservice_database_open_def split: if_splits prod.splits)

lemma root_init_capabilities:
  assumes "BITCAP_ISSET (apicaps ctx) DATASERVICE_API_CAP_LL_ROOT_CONTEXT_CREATE"
    and "dataservice_root_context_init ops m ctx n dir = (st, ctx')"
  shows "apicaps ctx' = BITCAP_SET_FALSE [0xFFFFFFFF] 0" and "root_dispose ctx'"
    and "dataservice_database_open ops m n dir = (st, details ctx')"
  using assms by (auto simp: dataservice_root_context_init_def Let_def root_context_zero_def BITCAP_INIT_TRUE_def
      split: prod.splits)

text \<open>
  The root context is created at most once: an authorised call leaves every
  capability but the one to create a root context, whether or not the database
  could be opened, so a second call is refused; the database is open exactly when
  the call succeeded.
\<close>

theorem root_context_created_once:
  assumes "BITCAP_ISSET (apicaps ctx) DATASERVICE_API_CAP_LL_ROOT_CONTEXT_CREATE"
    and "dataservice_root_context_init ops m ctx n dir = (st, ctx')"
  shows "(st = AGENTD_STATUS_SUCCESS \<longleftrightarrow> details ctx' \<noteq> None) \<and>
    (BITCAP_ISSET (apicaps ctx') b \<longleftrightarrow> b \<noteq> DATASERVICE_API_CAP_LL_ROOT_CONTEXT_CREATE \<and> BITCAP_ISSET [0xFFFFFFFF] b) \<and>
    dataservice_root_context_init ops m' ctx' n' dir' = (AGENTD_ERROR_DATASERVICE_NOT_AUTHORIZED, ctx')"
proof -
  note r = root_init_capabilities [OF assms]
  have "BITCAP_ISSET (apicaps ctx') b' \<longleftrightarrow> b' \<noteq> 0 \<and> BITCAP_ISSET [0xFFFFFFFF] b'" for b'
    unfolding r(1) by (simp add: bitcap32.isset_revoke)
  then show ?thesis using database_open_status [OF r(3)] by (simp add: dataservice_root_context_init_def)
qed

theorem root_context_created_once_witness:
  "dataservice_root_context_init mem_lmdb (\<lambda>_. True)
     (snd (dataservice_root_context_init mem_lmdb (\<lambda>_. True) (root_context_zero\<lparr>apicaps := [1]\<rparr>) 4096 [47]))
     4096 [47] =
   (AGENTD_ERROR_DATASERVICE_NOT_AUTHORIZED,
    snd (dataservice_root_context_init mem_lmdb (\<lambda>_. True) (root_context_zero\<lparr>apicaps := [1]\<rparr>) 4096 [47]))"
proof -
  let ?ctx = "root_context_zero\<lparr>apicaps := [1]\<rparr> :: mem_db dataservice_root_context"
  have "BITCAP_ISSET (apicaps ?ctx) 0" by (simp add: BITCAP_ISSET_def BITCAP_OFFSET_def BITCAP_SHIFT_def)
  from root_context_created_once [OF this prod.collapse [symmetric], of mem_lmdb "\<lambda>_. True" 4096 "[47]"]
  show ?thesis by blast
qed

text \<open>
  An instance whose root context was created successfully is disposed without
  undefined behaviour, and nothing of it is left.
\<close>

theorem instance_disposed:
  assumes "BITCAP_ISSET (apicaps ctx) DATASERVICE_API_CAP_LL_ROOT_CONTEXT_CREATE"
    and "dataservice_root_context_init ops m ctx n dir = (AGENTD_STATUS_SUCCESS, inst_ctx inst)"
  shows "\<exists>inst'. dataservice_instance_dispose inst = Some inst' \<and> inst_ctx inst' = root_context_zero \<and>
    opened_slots inst' = {} \<and> child_head inst' = None"
proof -
  note r = root_init_capabilities [OF assms]
  obtain e where "details (inst_ctx inst) = Some e" using database_open_status [OF r(3)] by auto
  then show ?thesis using r(2)
    by (simp add: dataservice_instance_dispose_def dataservice_root_context_dispose_def dataservice_database_close_def
        Let_def opened_slots_def child_details_zero_def)
qed

text \<open>
  When the database cannot be opened the root context is still marked for
  disposal although its details were freed: disposing the instance then reads
  through the stale pointer.
\<close>

theorem failed_root_context_dispose_undefined:
  assumes "BITCAP_ISSET (apicaps ctx) DATASERVICE_API_CAP_LL_ROOT_CONTEXT_CREATE"
    and "dataservice_root_context_init ops m ctx n dir = (st, inst_ctx inst)" and "st \<noteq> AGENTD_STATUS_SUCCESS"
  shows "dataservice_instance_dispose inst = None"
proof -
  note r = root_init_capabilities [OF assms(1,2)]
  have "details (inst_ctx inst) = None" using database_open_status [OF r(3)] assms(3) by auto
  then show ?thesis using r(2)
    by (simp add: dataservice_instance_dispose_def dataservice_root_context_dispose_def dataservice_database_close_def Let_def)
qed

text \<open>An instance whose root context is created over the executable store, with or without memory.\<close>

definition demo_instance :: "bool \<Rightarrow> mem_db dataservice_instance" where
  "demo_instance mem = \<lparr> inst_ctx = snd (dataservice_root_context_init mem_lmdb (\<lambda>_. mem)
       (root_context_zero\<lparr>apicaps := [1]\<rparr>) 4096 [47]),
     children = replicate DATASERVICE_MAX_CHILD_CONTEXTS child_details_zero, child_head = None, dataservice_force_exit = False \<rparr>"

lemma demo_root: "BITCAP_ISSET (apicaps (root_context_zero\<lparr>apicaps := [1]\<rparr>)) 0"
  by (simp add: BITCAP_ISSET_def BITCAP_OFFSET_def BITCAP_SHIFT_def)

lemma demo_init:
  "dataservice_root_context_init mem_lmdb (\<lambda>_. mem) (root_context_zero\<lparr>apicaps := [1]\<rparr>) 4096 [47] =
     (if mem then AGENTD_STATUS_SUCCESS else AGENTD_ERROR_GENERAL_OUT_OF_MEMORY, inst_ctx (demo_instance mem))"
  using demo_root by (simp add: demo_instance_def dataservice_root_context_init_def dataservice_database_open_def Let_def)

theorem instance_disposed_witness:
  "\<exists>inst'. dataservice_instance_dispose (demo_instance True) = Some inst' \<and> inst_ctx inst' = root_context_zero \<and>
    opened_slots inst' = {} \<and> child_head inst' = None"
  using instance_disposed [OF demo_root, of mem_lmdb "\<lambda>_. True" 4096 "[47]" "demo_instance True"] demo_init [of True]
  by simp

theorem failed_root_context_dispose_undefined_witness:
  "dataservice_instance_dispose (demo_instance False) = None"
  using failed_root_context_dispose_undefined [OF demo_root demo_init [of False]] by simp

end
