(* ===== verification/Ds_Protocol.thy ===== *)
theory Ds_Protocol
  imports Ds_Context
begin

text \<open>
  The wire protocol of the data service: the request packets the client encodes
  (\<^verbatim>\<open>dataservice_encode_request_*.c\<close>) and the server decodes
  (\<^verbatim>\<open>dataservice_decode_request_*.c\<close>).  A request structure extends the header as the
  C structures embed it.  The method number is the capability number of the
  call.  Encoding allocates a buffer with \<^verbatim>\<open>vccrypt_buffer_init\<close> of the crypto
  library, whose status is the parameter \<open>buf_st\<close>.
\<close>

subsection \<open>Method numbers\<close>

text \<open>The enumeration of \<^verbatim>\<open>src/include/agentd/dataservice.h\<close>.\<close>

abbreviation (input) DATASERVICE_API_METHOD_LL_ROOT_CONTEXT_CREATE :: "32 word" where
  "DATASERVICE_API_METHOD_LL_ROOT_CONTEXT_CREATE \<equiv> 0"
abbreviation (input) DATASERVICE_API_METHOD_LL_ROOT_CONTEXT_REDUCE_CAPS :: "32 word" where
  "DATASERVICE_API_METHOD_LL_ROOT_CONTEXT_REDUCE_CAPS \<equiv> 1"
abbreviation (input) DATASERVICE_API_METHOD_LL_CHILD_CONTEXT_CREATE :: "32 word" where
  "DATASERVICE_API_METHOD_LL_CHILD_CONTEXT_CREATE \<equiv> 2"
abbreviation (input) DATASERVICE_API_METHOD_LL_CHILD_CONTEXT_CLOSE :: "32 word" where
  "DATASERVICE_API_METHOD_LL_CHILD_CONTEXT_CLOSE \<equiv> 3"
abbreviation (input) DATASERVICE_API_METHOD_APP_GLOBAL_SETTING_READ :: "32 word" where
  "DATASERVICE_API_METHOD_APP_GLOBAL_SETTING_READ \<equiv> 7"
abbreviation (input) DATASERVICE_API_METHOD_APP_GLOBAL_SETTING_WRITE :: "32 word" where
  "DATASERVICE_API_METHOD_APP_GLOBAL_SETTING_WRITE \<equiv> 8"
abbreviation (input) DATASERVICE_API_METHOD_APP_BLOCK_ID_LATEST_READ :: "32 word" where
  "DATASERVICE_API_METHOD_APP_BLOCK_ID_LATEST_READ \<equiv> 9"
abbreviation (input) DATASERVICE_API_METHOD_APP_BLOCK_READ :: "32 word" where
  "DATASERVICE_API_METHOD_APP_BLOCK_READ \<equiv> 13"
abbreviation (input) DATASERVICE_API_METHOD_APP_TRANSACTION_READ :: "32 word" where
  "DATASERVICE_API_METHOD_APP_TRANSACTION_READ \<equiv> 14"
abbreviation (input) DATASERVICE_API_METHOD_APP_PQ_TRANSACTION_SUBMIT :: "32 word" where
  "DATASERVICE_API_METHOD_APP_PQ_TRANSACTION_SUBMIT \<equiv> 15"
abbreviation (input) DATASERVICE_API_METHOD_APP_PQ_TRANSACTION_PROMOTE :: "32 word" where
  "DATASERVICE_API_METHOD_APP_PQ_TRANSACTION_PROMOTE \<equiv> 16"
abbreviation (input) DATASERVICE_API_METHOD_APP_PQ_TRANSACTION_FIRST_READ :: "32 word" where
  "DATASERVICE_API_METHOD_APP_PQ_TRANSACTION_FIRST_READ \<equiv> 17"
abbreviation (input) DATASERVICE_API_METHOD_APP_PQ_TRANSACTION_READ :: "32 word" where
  "DATASERVICE_API_METHOD_APP_PQ_TRANSACTION_READ \<equiv> 18"
abbreviation (input) DATASERVICE_API_METHOD_APP_PQ_TRANSACTION_DROP :: "32 word" where
  "DATASERVICE_API_METHOD_APP_PQ_TRANSACTION_DROP \<equiv> 19"
abbreviation (input) DATASERVICE_API_METHOD_APP_ARTIFACT_READ :: "32 word" where
  "DATASERVICE_API_METHOD_APP_ARTIFACT_READ \<equiv> 20"
abbreviation (input) DATASERVICE_API_METHOD_APP_BLOCK_WRITE :: "32 word" where
  "DATASERVICE_API_METHOD_APP_BLOCK_WRITE \<equiv> 21"
abbreviation (input) DATASERVICE_API_METHOD_APP_BLOCK_ID_BY_HEIGHT_READ :: "32 word" where
  "DATASERVICE_API_METHOD_APP_BLOCK_ID_BY_HEIGHT_READ \<equiv> 22"

subsection \<open>Request structures\<close>

record dataservice_request_header =
  child_index :: "32 word"

record dataservice_request_txn_id = dataservice_request_header +
  req_txn_id :: bytes

record dataservice_request_canonized_transaction_get = dataservice_request_header +
  canon_txn_id :: bytes
  canon_read_cert :: bool

record dataservice_request_transaction_submit = dataservice_request_header +
  submit_txn_id :: bytes
  submit_artifact_id :: bytes
  submit_cert :: bytes

record dataservice_request_block_id_by_height_read = dataservice_request_header +
  req_block_height :: "64 word"

record dataservice_request_block_make = dataservice_request_header +
  make_block_id :: bytes
  make_cert :: bytes

record dataservice_request_block_read = dataservice_request_header +
  read_block_id :: bytes
  block_read_cert :: bool

record dataservice_request_payload_artifact_read = dataservice_request_header +
  req_artifact_id :: bytes

record dataservice_request_caps = dataservice_request_header +
  req_caps :: bitcap

record dataservice_request_global_setting_get = dataservice_request_header +
  setting_get_key :: "64 word"

record dataservice_request_global_setting_set = dataservice_request_header +
  setting_set_key :: "64 word"
  setting_set_val :: bytes

record dataservice_request_payload_root_context_init = dataservice_request_header +
  req_max_database_size :: "64 word"
  req_datadir :: bytes

subsection \<open>Decoding requests\<close>

text \<open>The index of the child context comes first; the rest of the request is returned.\<close>

definition dataservice_request_init :: "bytes \<Rightarrow> status + dataservice_request_header \<times> bytes" where
  "dataservice_request_init req =
     (if length req < 4 then Inl AGENTD_ERROR_DATASERVICE_REQUEST_PACKET_INVALID_SIZE
      else Inr (\<lparr> child_index = ntohl (of_mem32 (take 4 req)) \<rparr>, drop 4 req))"

definition dataservice_request_init_empty :: "bytes \<Rightarrow> status + dataservice_request_header \<times> bytes" where
  "dataservice_request_init_empty req = Inr (\<lparr> child_index = 0 \<rparr>, req)"

definition invalid_size :: "status + 'a" where
  "invalid_size = Inl AGENTD_ERROR_DATASERVICE_REQUEST_PACKET_INVALID_SIZE"

text \<open>Decode the header, then the rest.\<close>

definition with_header ::
  "(status + dataservice_request_header \<times> bytes) \<Rightarrow> (32 word \<Rightarrow> bytes \<Rightarrow> status + 'r) \<Rightarrow> status + 'r" where
  "with_header h k = (case h of Inl st \<Rightarrow> Inl st | Inr (hdr, breq) \<Rightarrow> k (child_index hdr) breq)"

definition dataservice_decode_request_block_id_by_height_read ::
  "bytes \<Rightarrow> status + dataservice_request_block_id_by_height_read" where
  "dataservice_decode_request_block_id_by_height_read req =
     with_header (dataservice_request_init req) (\<lambda>i breq.
       if length breq \<noteq> 8 then invalid_size
       else Inr \<lparr> child_index = i, req_block_height = ntohll (of_mem64 breq) \<rparr>)"

definition dataservice_decode_request_block_id_latest_read :: "bytes \<Rightarrow> status + dataservice_request_header" where
  "dataservice_decode_request_block_id_latest_read req =
     with_header (dataservice_request_init req) (\<lambda>i breq. Inr \<lparr> child_index = i \<rparr>)"

definition dataservice_decode_request_block_make :: "bytes \<Rightarrow> status + dataservice_request_block_make" where
  "dataservice_decode_request_block_make req =
     with_header (dataservice_request_init req) (\<lambda>i breq.
       if length breq < 16 then invalid_size
       else Inr \<lparr> child_index = i, make_block_id = take 16 breq, make_cert = drop 16 breq \<rparr>)"

definition dataservice_decode_request_block_read :: "bytes \<Rightarrow> status + dataservice_request_block_read" where
  "dataservice_decode_request_block_read req =
     with_header (dataservice_request_init req) (\<lambda>i breq.
       if length breq \<noteq> 16 + 1 then invalid_size
       else Inr \<lparr> child_index = i, read_block_id = take 16 breq, block_read_cert = (breq ! 16 \<noteq> 0) \<rparr>)"

definition dataservice_decode_request_canonized_transaction_get ::
  "bytes \<Rightarrow> status + dataservice_request_canonized_transaction_get" where
  "dataservice_decode_request_canonized_transaction_get req =
     with_header (dataservice_request_init req) (\<lambda>i breq.
       if length breq \<noteq> 16 + 1 then invalid_size
       else Inr \<lparr> child_index = i, canon_txn_id = take 16 breq, canon_read_cert = (breq ! 16 \<noteq> 0) \<rparr>)"

definition dataservice_decode_request_child_context_close :: "bytes \<Rightarrow> status + dataservice_request_header" where
  "dataservice_decode_request_child_context_close req =
     with_header (dataservice_request_init req) (\<lambda>i breq. Inr \<lparr> child_index = i \<rparr>)"

definition dataservice_decode_request_child_context_create :: "bytes \<Rightarrow> status + dataservice_request_caps" where
  "dataservice_decode_request_child_context_create req =
     with_header (dataservice_request_init_empty req) (\<lambda>i breq.
       if length breq \<noteq> 4 then invalid_size
       else Inr \<lparr> child_index = i, req_caps = [of_mem32 breq] \<rparr>)"

definition dataservice_decode_request_global_setting_get ::
  "bytes \<Rightarrow> status + dataservice_request_global_setting_get" where
  "dataservice_decode_request_global_setting_get req =
     with_header (dataservice_request_init req) (\<lambda>i breq.
       if length breq \<noteq> 8 then invalid_size
       else Inr \<lparr> child_index = i, setting_get_key = ntohll (of_mem64 breq) \<rparr>)"

definition dataservice_decode_request_global_setting_set ::
  "bytes \<Rightarrow> status + dataservice_request_global_setting_set" where
  "dataservice_decode_request_global_setting_set req =
     with_header (dataservice_request_init req) (\<lambda>i breq.
       if length breq \<le> 8 then invalid_size
       else Inr \<lparr> child_index = i, setting_set_key = ntohll (of_mem64 (take 8 breq)),
                  setting_set_val = drop 8 breq \<rparr>)"

definition dataservice_decode_request_payload_artifact_read ::
  "bytes \<Rightarrow> status + dataservice_request_payload_artifact_read" where
  "dataservice_decode_request_payload_artifact_read req =
     with_header (dataservice_request_init req) (\<lambda>i breq.
       if length breq \<noteq> 16 then invalid_size
       else Inr \<lparr> child_index = i, req_artifact_id = breq \<rparr>)"

text \<open>The one request that allocates: the copy of the data directory, \<^verbatim>\<open>NUL\<close>-terminated.\<close>

definition dataservice_decode_request_root_context_init ::
  "bool \<Rightarrow> bytes \<Rightarrow> status + dataservice_request_payload_root_context_init" where
  "dataservice_decode_request_root_context_init alloc_ok req =
     (if length req \<le> 8 then invalid_size else
      if \<not> alloc_ok then Inl AGENTD_ERROR_GENERAL_OUT_OF_MEMORY else
      Inr \<lparr> child_index = 0, req_max_database_size = ntohll (of_mem64 (take 8 req)),
            req_datadir = drop 8 req \<rparr>)"

definition dataservice_decode_request_root_context_reduce_caps :: "bytes \<Rightarrow> status + dataservice_request_caps" where
  "dataservice_decode_request_root_context_reduce_caps req =
     with_header (dataservice_request_init_empty req) (\<lambda>i breq.
       if length breq \<noteq> 4 then invalid_size
       else Inr \<lparr> child_index = i, req_caps = [of_mem32 breq] \<rparr>)"

definition dataservice_decode_request_transaction_drop :: "bytes \<Rightarrow> status + dataservice_request_txn_id" where
  "dataservice_decode_request_transaction_drop req =
     with_header (dataservice_request_init req) (\<lambda>i breq.
       if length breq \<noteq> 16 then invalid_size
       else Inr \<lparr> child_index = i, req_txn_id = breq \<rparr>)"

definition dataservice_decode_request_transaction_get :: "bytes \<Rightarrow> status + dataservice_request_txn_id" where
  "dataservice_decode_request_transaction_get req =
     with_header (dataservice_request_init req) (\<lambda>i breq.
       if length breq \<noteq> 16 then invalid_size
       else Inr \<lparr> child_index = i, req_txn_id = breq \<rparr>)"

definition dataservice_decode_request_transaction_get_first :: "bytes \<Rightarrow> status + dataservice_request_header" where
  "dataservice_decode_request_transaction_get_first req =
     with_header (dataservice_request_init req) (\<lambda>i breq. Inr \<lparr> child_index = i \<rparr>)"

definition dataservice_decode_request_transaction_promote :: "bytes \<Rightarrow> status + dataservice_request_txn_id" where
  "dataservice_decode_request_transaction_promote req =
     with_header (dataservice_request_init req) (\<lambda>i breq.
       if length breq \<noteq> 16 then invalid_size
       else Inr \<lparr> child_index = i, req_txn_id = breq \<rparr>)"

definition dataservice_decode_request_transaction_submit ::
  "bytes \<Rightarrow> status + dataservice_request_transaction_submit" where
  "dataservice_decode_request_transaction_submit req =
     with_header (dataservice_request_init req) (\<lambda>i breq.
       if length breq \<le> 16 + 16 then invalid_size
       else Inr \<lparr> child_index = i, submit_txn_id = take 16 breq,
                  submit_artifact_id = take 16 (drop 16 breq), submit_cert = drop 32 breq \<rparr>)"

subsection \<open>Encoding requests\<close>

definition request_buffer :: "status \<Rightarrow> bytes \<Rightarrow> status + bytes" where
  "request_buffer buf_st b = (if buf_st \<noteq> AGENTD_STATUS_SUCCESS then Inl buf_st else Inr b)"

definition dataservice_encode_request_artifact_get :: "status \<Rightarrow> 32 word \<Rightarrow> bytes \<Rightarrow> status + bytes" where
  "dataservice_encode_request_artifact_get buf_st child artifact_id =
     request_buffer buf_st (net32 DATASERVICE_API_METHOD_APP_ARTIFACT_READ @ net32 child @ artifact_id)"

definition dataservice_encode_request_block_get :: "status \<Rightarrow> 32 word \<Rightarrow> bytes \<Rightarrow> bool \<Rightarrow> status + bytes" where
  "dataservice_encode_request_block_get buf_st child block_id read_cert =
     request_buffer buf_st (net32 DATASERVICE_API_METHOD_APP_BLOCK_READ @ net32 child @ block_id @ [of_bool read_cert])"

definition dataservice_encode_request_block_id_by_height_get :: "status \<Rightarrow> 32 word \<Rightarrow> 64 word \<Rightarrow> status + bytes" where
  "dataservice_encode_request_block_id_by_height_get buf_st child height =
     request_buffer buf_st (net32 DATASERVICE_API_METHOD_APP_BLOCK_ID_BY_HEIGHT_READ @ net32 child @ net64 height)"

definition dataservice_encode_request_block_make :: "status \<Rightarrow> 32 word \<Rightarrow> bytes \<Rightarrow> bytes \<Rightarrow> status + bytes" where
  "dataservice_encode_request_block_make buf_st child block_id block_cert =
     request_buffer buf_st (net32 DATASERVICE_API_METHOD_APP_BLOCK_WRITE @ net32 child @ block_id @ block_cert)"

definition dataservice_encode_request_canonized_transaction_get ::
  "status \<Rightarrow> 32 word \<Rightarrow> bytes \<Rightarrow> bool \<Rightarrow> status + bytes" where
  "dataservice_encode_request_canonized_transaction_get buf_st child txn_id read_cert =
     request_buffer buf_st (net32 DATASERVICE_API_METHOD_APP_TRANSACTION_READ @ net32 child @ txn_id @ [of_bool read_cert])"

definition dataservice_encode_request_child_context_close :: "status \<Rightarrow> 32 word \<Rightarrow> status + bytes" where
  "dataservice_encode_request_child_context_close buf_st child =
     request_buffer buf_st (net32 DATASERVICE_API_METHOD_LL_CHILD_CONTEXT_CLOSE @ net32 child)"

definition dataservice_encode_request_child_context_create :: "status \<Rightarrow> bitcap \<Rightarrow> status + bytes" where
  "dataservice_encode_request_child_context_create buf_st caps =
     request_buffer buf_st (net32 DATASERVICE_API_METHOD_LL_CHILD_CONTEXT_CREATE @ concat (map mem32 caps))"

definition dataservice_encode_request_global_settings_get :: "status \<Rightarrow> 32 word \<Rightarrow> 64 word \<Rightarrow> status + bytes" where
  "dataservice_encode_request_global_settings_get buf_st child key =
     request_buffer buf_st (net32 DATASERVICE_API_METHOD_APP_GLOBAL_SETTING_READ @ net32 child @ net64 key)"

definition dataservice_encode_request_global_settings_set ::
  "status \<Rightarrow> 32 word \<Rightarrow> 64 word \<Rightarrow> bytes \<Rightarrow> status + bytes" where
  "dataservice_encode_request_global_settings_set buf_st child key val =
     request_buffer buf_st (net32 DATASERVICE_API_METHOD_APP_GLOBAL_SETTING_WRITE @ net32 child @ net64 key @ val)"

definition dataservice_encode_request_latest_block_id_get :: "status \<Rightarrow> 32 word \<Rightarrow> status + bytes" where
  "dataservice_encode_request_latest_block_id_get buf_st child =
     request_buffer buf_st (net32 DATASERVICE_API_METHOD_APP_BLOCK_ID_LATEST_READ @ net32 child)"

definition dataservice_encode_request_root_context_init :: "status \<Rightarrow> 64 word \<Rightarrow> bytes \<Rightarrow> status + bytes" where
  "dataservice_encode_request_root_context_init buf_st max_database_size datadir =
     request_buffer buf_st (net32 DATASERVICE_API_METHOD_LL_ROOT_CONTEXT_CREATE @ net64 max_database_size @ datadir)"

definition dataservice_encode_request_root_context_reduce_caps :: "status \<Rightarrow> bitcap \<Rightarrow> status + bytes" where
  "dataservice_encode_request_root_context_reduce_caps buf_st caps =
     request_buffer buf_st (net32 DATASERVICE_API_METHOD_LL_ROOT_CONTEXT_REDUCE_CAPS @ concat (map mem32 caps))"

definition dataservice_encode_request_transaction_drop :: "status \<Rightarrow> 32 word \<Rightarrow> bytes \<Rightarrow> status + bytes" where
  "dataservice_encode_request_transaction_drop buf_st child txn_id =
     request_buffer buf_st (net32 DATASERVICE_API_METHOD_APP_PQ_TRANSACTION_DROP @ net32 child @ txn_id)"

definition dataservice_encode_request_transaction_get :: "status \<Rightarrow> 32 word \<Rightarrow> bytes \<Rightarrow> status + bytes" where
  "dataservice_encode_request_transaction_get buf_st child txn_id =
     request_buffer buf_st (net32 DATASERVICE_API_METHOD_APP_PQ_TRANSACTION_READ @ net32 child @ txn_id)"

definition dataservice_encode_request_transaction_get_first :: "status \<Rightarrow> 32 word \<Rightarrow> status + bytes" where
  "dataservice_encode_request_transaction_get_first buf_st child =
     request_buffer buf_st (net32 DATASERVICE_API_METHOD_APP_PQ_TRANSACTION_FIRST_READ @ net32 child)"

definition dataservice_encode_request_transaction_promote :: "status \<Rightarrow> 32 word \<Rightarrow> bytes \<Rightarrow> status + bytes" where
  "dataservice_encode_request_transaction_promote buf_st child txn_id =
     request_buffer buf_st (net32 DATASERVICE_API_METHOD_APP_PQ_TRANSACTION_PROMOTE @ net32 child @ txn_id)"

definition dataservice_encode_request_transaction_submit ::
  "status \<Rightarrow> 32 word \<Rightarrow> bytes \<Rightarrow> bytes \<Rightarrow> bytes \<Rightarrow> status + bytes" where
  "dataservice_encode_request_transaction_submit buf_st child txn_id artifact_id val =
     request_buffer buf_st (net32 DATASERVICE_API_METHOD_APP_PQ_TRANSACTION_SUBMIT @ net32 child @ txn_id @ artifact_id @ val)"

end
