(* ===== verification/Ds_Response.thy ===== *)
theory Ds_Response
  imports Ds_Protocol
begin

text \<open>
  Response packets: method, offset and status in network order, then the payload
  that the server encodes (\<^verbatim>\<open>dataservice_encode_response_*.c\<close>) and the client decodes
  (\<^verbatim>\<open>dataservice_decode_response_*.c\<close>).  A decoder returns the header and, when the
  status is success, the body; the bookkeeping of structure sizes for disposal is
  left out.  \<open>malloc_ok\<close> is the allocation of the payload.
\<close>

record dataservice_response_header =
  method_code :: "32 word"
  resp_offset :: "32 word"
  resp_status :: "32 word"

subsection \<open>Encoding payloads\<close>

definition response_payload :: "bool \<Rightarrow> bytes \<Rightarrow> status + bytes" where
  "response_payload malloc_ok b = (if \<not> malloc_ok then Inl AGENTD_ERROR_GENERAL_OUT_OF_MEMORY else Inr b)"

definition dataservice_encode_response_block_id_by_height_read :: "bool \<Rightarrow> bytes \<Rightarrow> status + bytes" where
  "dataservice_encode_response_block_id_by_height_read malloc_ok block_id = response_payload malloc_ok block_id"

definition dataservice_encode_response_block_id_latest_read :: "bool \<Rightarrow> bytes \<Rightarrow> status + bytes" where
  "dataservice_encode_response_block_id_latest_read malloc_ok block_id = response_payload malloc_ok block_id"

definition dataservice_encode_response_block_read ::
  "bool \<Rightarrow> bytes \<Rightarrow> bytes \<Rightarrow> bytes \<Rightarrow> bytes \<Rightarrow> 64 word \<Rightarrow> bool \<Rightarrow> bytes \<Rightarrow> status + bytes" where
  "dataservice_encode_response_block_read malloc_ok block_id prev_id next_id first_txn_id block_height write_cert cert =
     response_payload malloc_ok
       (block_id @ prev_id @ next_id @ first_txn_id @ net64 block_height @ (if write_cert then cert else []))"

definition dataservice_encode_response_canonized_transaction_get ::
  "bool \<Rightarrow> bytes \<Rightarrow> bytes \<Rightarrow> bytes \<Rightarrow> bytes \<Rightarrow> bytes \<Rightarrow> 32 word \<Rightarrow> bool \<Rightarrow> bytes \<Rightarrow> status + bytes" where
  "dataservice_encode_response_canonized_transaction_get malloc_ok txn_id prev_id next_id artifact_id block_id
       net_state write_cert cert =
     response_payload malloc_ok
       (txn_id @ prev_id @ next_id @ artifact_id @ block_id @ mem32 net_state @ (if write_cert then cert else []))"

definition dataservice_encode_response_child_context_create :: "bool \<Rightarrow> 32 word \<Rightarrow> status + bytes" where
  "dataservice_encode_response_child_context_create malloc_ok child_offset =
     response_payload malloc_ok (net32 child_offset)"

definition dataservice_encode_response_payload_artifact_read ::
  "bool \<Rightarrow> bytes \<Rightarrow> bytes \<Rightarrow> bytes \<Rightarrow> 64 word \<Rightarrow> 64 word \<Rightarrow> 32 word \<Rightarrow> status + bytes" where
  "dataservice_encode_response_payload_artifact_read malloc_ok artifact_id first latest height_first height_latest state_latest =
     response_payload malloc_ok
       (artifact_id @ first @ latest @ net64 height_first @ net64 height_latest @ net32 state_latest)"

definition dataservice_encode_response_transaction_get ::
  "bool \<Rightarrow> bytes \<Rightarrow> bytes \<Rightarrow> bytes \<Rightarrow> bytes \<Rightarrow> 32 word \<Rightarrow> bytes \<Rightarrow> status + bytes" where
  "dataservice_encode_response_transaction_get malloc_ok txn_id prev_id next_id artifact_id net_state cert =
     response_payload malloc_ok (txn_id @ prev_id @ next_id @ artifact_id @ mem32 net_state @ cert)"

definition dataservice_encode_response_transaction_get_first ::
  "bool \<Rightarrow> bytes \<Rightarrow> bytes \<Rightarrow> bytes \<Rightarrow> bytes \<Rightarrow> 32 word \<Rightarrow> bytes \<Rightarrow> status + bytes" where
  "dataservice_encode_response_transaction_get_first malloc_ok txn_id prev_id next_id artifact_id net_state cert =
     response_payload malloc_ok (txn_id @ prev_id @ next_id @ artifact_id @ mem32 net_state @ cert)"

subsection \<open>Decoding responses\<close>

definition response_header_of :: "bytes \<Rightarrow> dataservice_response_header" where
  "response_header_of resp =
     \<lparr> method_code = ntohl (of_mem32 (slice 0 4 resp)), resp_offset = ntohl (of_mem32 (slice 4 4 resp)),
       resp_status = ntohl (of_mem32 (slice 8 4 resp)) \<rparr>"

text \<open>The checks every decoder starts with: room for the three words and the expected method.\<close>

definition with_response ::
  "bool \<Rightarrow> 32 word \<Rightarrow> bytes \<Rightarrow> (dataservice_response_header \<Rightarrow> status + 'a) \<Rightarrow> status + 'a" where
  "with_response size_ok method resp k =
     (if \<not> size_ok then Inl AGENTD_ERROR_DATASERVICE_RESPONSE_PACKET_INVALID_SIZE else
      let hdr = response_header_of resp in
      if method_code hdr \<noteq> method then Inl AGENTD_ERROR_DATASERVICE_RECVRESP_UNEXPECTED_METHOD_CODE
      else k hdr)"

text \<open>The responses that carry a status only.\<close>

definition dataservice_decode_response_block_make :: "bytes \<Rightarrow> status + dataservice_response_header" where
  "dataservice_decode_response_block_make resp =
     with_response (length resp = 12) DATASERVICE_API_METHOD_APP_BLOCK_WRITE resp Inr"

definition dataservice_decode_response_child_context_close :: "bytes \<Rightarrow> status + dataservice_response_header" where
  "dataservice_decode_response_child_context_close resp =
     with_response (length resp = 12) DATASERVICE_API_METHOD_LL_CHILD_CONTEXT_CLOSE resp Inr"

definition dataservice_decode_response_global_settings_set :: "bytes \<Rightarrow> status + dataservice_response_header" where
  "dataservice_decode_response_global_settings_set resp =
     with_response (length resp = 12) DATASERVICE_API_METHOD_APP_GLOBAL_SETTING_WRITE resp Inr"

definition dataservice_decode_response_root_context_init :: "bytes \<Rightarrow> status + dataservice_response_header" where
  "dataservice_decode_response_root_context_init resp =
     with_response (length resp = 12) DATASERVICE_API_METHOD_LL_ROOT_CONTEXT_CREATE resp Inr"

definition dataservice_decode_response_root_context_reduce_caps :: "bytes \<Rightarrow> status + dataservice_response_header" where
  "dataservice_decode_response_root_context_reduce_caps resp =
     with_response (length resp = 12) DATASERVICE_API_METHOD_LL_ROOT_CONTEXT_REDUCE_CAPS resp Inr"

definition dataservice_decode_response_transaction_drop :: "bytes \<Rightarrow> status + dataservice_response_header" where
  "dataservice_decode_response_transaction_drop resp =
     with_response (length resp = 12) DATASERVICE_API_METHOD_APP_PQ_TRANSACTION_DROP resp Inr"

definition dataservice_decode_response_transaction_promote :: "bytes \<Rightarrow> status + dataservice_response_header" where
  "dataservice_decode_response_transaction_promote resp =
     with_response (length resp = 12) DATASERVICE_API_METHOD_APP_PQ_TRANSACTION_PROMOTE resp Inr"

definition dataservice_decode_response_transaction_submit :: "bytes \<Rightarrow> status + dataservice_response_header" where
  "dataservice_decode_response_transaction_submit resp =
     with_response (length resp = 12) DATASERVICE_API_METHOD_APP_PQ_TRANSACTION_SUBMIT resp Inr"

definition dataservice_decode_response_child_context_create ::
  "bytes \<Rightarrow> status + dataservice_response_header \<times> 32 word option" where
  "dataservice_decode_response_child_context_create resp =
     with_response (12 \<le> length resp) DATASERVICE_API_METHOD_LL_CHILD_CONTEXT_CREATE resp (\<lambda>hdr.
       if resp_status hdr \<noteq> AGENTD_STATUS_SUCCESS then Inr (hdr, None) else
       if length resp < 12 + 4 then Inl AGENTD_ERROR_DATASERVICE_RECVRESP_UNEXPECTED_DATA_PACKET_SIZE
       else Inr (hdr, Some (ntohl (of_mem32 (slice 12 4 resp)))))"

definition dataservice_decode_response_global_settings_get ::
  "bytes \<Rightarrow> status + dataservice_response_header \<times> bytes" where
  "dataservice_decode_response_global_settings_get resp =
     with_response (12 \<le> length resp) DATASERVICE_API_METHOD_APP_GLOBAL_SETTING_READ resp (\<lambda>hdr.
       Inr (hdr, drop 12 resp))"

definition dataservice_decode_response_block_id_by_height_get ::
  "bytes \<Rightarrow> status + dataservice_response_header \<times> bytes option" where
  "dataservice_decode_response_block_id_by_height_get resp =
     with_response (12 \<le> length resp) DATASERVICE_API_METHOD_APP_BLOCK_ID_BY_HEIGHT_READ resp (\<lambda>hdr.
       if resp_status hdr \<noteq> AGENTD_STATUS_SUCCESS then Inr (hdr, None) else
       if length resp < 12 + 16 then Inl AGENTD_ERROR_DATASERVICE_RESPONSE_PACKET_INVALID_SIZE
       else Inr (hdr, Some (slice 12 16 resp)))"

definition dataservice_decode_response_latest_block_id_get ::
  "bytes \<Rightarrow> status + dataservice_response_header \<times> bytes option" where
  "dataservice_decode_response_latest_block_id_get resp =
     with_response (12 \<le> length resp) DATASERVICE_API_METHOD_APP_BLOCK_ID_LATEST_READ resp (\<lambda>hdr.
       if resp_status hdr \<noteq> AGENTD_STATUS_SUCCESS then Inr (hdr, None) else
       if length resp < 12 + 16 then Inl AGENTD_ERROR_DATASERVICE_RESPONSE_PACKET_INVALID_SIZE
       else Inr (hdr, Some (slice 12 16 resp)))"

text \<open>Sizes of the data are computed in 32 bits: \<^verbatim>\<open>uint32_t dat_size = size; dat_size -= n;\<close>\<close>

definition dat_size :: "nat \<Rightarrow> bytes \<Rightarrow> 32 word" where
  "dat_size n resp = of_nat (length resp) - of_nat n"

definition dataservice_decode_response_artifact_get ::
  "bytes \<Rightarrow> status + dataservice_response_header \<times> data_artifact_record option" where
  "dataservice_decode_response_artifact_get resp =
     with_response (12 \<le> length resp) DATASERVICE_API_METHOD_APP_ARTIFACT_READ resp (\<lambda>hdr.
       if resp_status hdr \<noteq> AGENTD_STATUS_SUCCESS then Inr (hdr, None) else
       if dat_size 12 resp \<noteq> 68 then Inl AGENTD_ERROR_DATASERVICE_RESPONSE_PACKET_INVALID_SIZE
       else let bval = drop 12 resp in
         Inr (hdr, Some \<lparr> artifact_key = slice 0 16 bval, txn_first = slice 16 16 bval, txn_latest = slice 32 16 bval,
                          net_height_first = of_mem64 (slice 48 8 bval), net_height_latest = of_mem64 (slice 56 8 bval),
                          net_state_latest = of_mem32 (slice 64 4 bval), artifact_pad = replicate 4 0 \<rparr>))"

definition dataservice_decode_response_block_get ::
  "bytes \<Rightarrow> status + dataservice_response_header \<times> (data_block_node \<times> bytes) option" where
  "dataservice_decode_response_block_get resp =
     with_response (12 \<le> length resp) DATASERVICE_API_METHOD_APP_BLOCK_READ resp (\<lambda>hdr.
       if resp_status hdr \<noteq> AGENTD_STATUS_SUCCESS then Inr (hdr, None) else
       if length resp < 12 + 72 then Inl AGENTD_ERROR_DATASERVICE_RESPONSE_PACKET_INVALID_SIZE
       else let bval = drop 12 resp; n = dat_size (12 + 72) resp in
         Inr (hdr, Some (\<lparr> block_key = slice 0 16 bval, block_prev = slice 16 16 bval, block_next = slice 32 16 bval,
                           first_transaction_id = slice 48 16 bval, net_block_height = of_mem64 (slice 64 8 bval),
                           net_block_cert_size = htonll (ucast n) \<rparr>, take (unat n) (drop 72 bval))))"

definition decode_response_txn_node ::
  "32 word \<Rightarrow> bytes \<Rightarrow> status + dataservice_response_header \<times> (data_transaction_node \<times> bytes) option" where
  "decode_response_txn_node method resp =
     with_response (12 \<le> length resp) method resp (\<lambda>hdr.
       if resp_status hdr \<noteq> AGENTD_STATUS_SUCCESS then Inr (hdr, None) else
       if length resp < 12 + 68 then Inl AGENTD_ERROR_DATASERVICE_RESPONSE_PACKET_INVALID_SIZE
       else let bval = drop 12 resp; n = dat_size (12 + 68) resp in
         Inr (hdr, Some (txn_node_zero\<lparr>node_key := slice 0 16 bval, node_prev := slice 16 16 bval,
                           node_next := slice 32 16 bval, node_artifact_id := slice 48 16 bval,
                           net_txn_state := of_mem32 (slice 64 4 bval),
                           net_txn_cert_size := htonll (ucast n)\<rparr>, take (unat n) (drop 68 bval))))"

definition dataservice_decode_response_transaction_get ::
  "bytes \<Rightarrow> status + dataservice_response_header \<times> (data_transaction_node \<times> bytes) option" where
  "dataservice_decode_response_transaction_get resp =
     decode_response_txn_node DATASERVICE_API_METHOD_APP_PQ_TRANSACTION_READ resp"

definition dataservice_decode_response_transaction_get_first ::
  "bytes \<Rightarrow> status + dataservice_response_header \<times> (data_transaction_node \<times> bytes) option" where
  "dataservice_decode_response_transaction_get_first resp =
     decode_response_txn_node DATASERVICE_API_METHOD_APP_PQ_TRANSACTION_FIRST_READ resp"

definition dataservice_decode_response_canonized_transaction_get ::
  "bytes \<Rightarrow> status + dataservice_response_header \<times> (data_transaction_node \<times> bytes) option" where
  "dataservice_decode_response_canonized_transaction_get resp =
     with_response (12 \<le> length resp) DATASERVICE_API_METHOD_APP_TRANSACTION_READ resp (\<lambda>hdr.
       if resp_status hdr \<noteq> AGENTD_STATUS_SUCCESS then Inr (hdr, None) else
       if length resp < 12 + 84 then Inl AGENTD_ERROR_DATASERVICE_RESPONSE_PACKET_INVALID_SIZE
       else let bval = drop 12 resp; n = dat_size (12 + 84) resp in
         Inr (hdr, Some (txn_node_zero\<lparr>node_key := slice 0 16 bval, node_prev := slice 16 16 bval,
                           node_next := slice 32 16 bval, node_artifact_id := slice 48 16 bval,
                           node_block_id := slice 64 16 bval,
                           net_txn_state := of_mem32 (slice 80 4 bval),
                           net_txn_cert_size := htonll (ucast n)\<rparr>, take (unat n) (drop 84 bval))))"

subsection \<open>Round trips\<close>

lemma response_header_packet [simp]:
  "response_header_of (response_packet method offset st data) =
     \<lparr> method_code = method, resp_offset = offset, resp_status = st \<rparr>"
  by (simp add: response_header_of_def response_packet_def flip: of_net32_def)

lemma dat_size_packet:
  assumes "length d = n + m"
  shows "dat_size (12 + n) (response_packet method offset st (Some d)) = of_nat m"
  using assms by (simp add: dat_size_def)

lemma mem64_htonll_net: "of_mem64 (net64 h) = htonll h"
  by (simp add: net64_def)

end
