(* ===== verification/Ds_Codec.thy ===== *)
theory Ds_Codec
  imports Ds_Response
begin

text \<open>
  The request encoders of the client and the decoders of the server agree: the
  locale \<open>request_codec\<close> states the contract of one method, and every method of
  the data service is an instance.
\<close>

locale request_codec =
  fixes api_method :: "32 word"
    and enc :: "'r \<Rightarrow> status + bytes"
    and dec :: "bytes \<Rightarrow> status + 'r"
    and ok :: "'r \<Rightarrow> bool"
  assumes enc_method: "ok r \<Longrightarrow> \<exists>b. enc r = Inr (net32 api_method @ b)"
    and dec_enc: "ok r \<Longrightarrow> enc r = Inr (net32 api_method @ b) \<Longrightarrow> dec b = Inr r"
begin

text \<open>A packet names its method and decodes to the request it was made from.\<close>

lemma roundtrip:
  assumes "ok r"
  obtains b where "enc r = Inr b" and "of_net32 (take 4 b) = api_method" and "dec (drop 4 b) = Inr r"
proof -
  obtain b where b: "enc r = Inr (net32 api_method @ b)" using enc_method [OF assms] by blast
  show thesis using that [of "net32 api_method @ b"] b dec_enc [OF assms b] by simp
qed

lemma enc_inject: "ok r \<Longrightarrow> ok r' \<Longrightarrow> enc r = enc r' \<Longrightarrow> r = r'"
  using enc_method dec_enc by (metis sum.inject(2))

end

lemmas codec_defs = with_header_def dataservice_request_init_def dataservice_request_init_empty_def
  request_buffer_def invalid_size_def

text \<open>The encoder of a method as a function of the request structure.\<close>

definition enc_submit :: "dataservice_request_transaction_submit \<Rightarrow> status + bytes" where
  "enc_submit r = dataservice_encode_request_transaction_submit AGENTD_STATUS_SUCCESS (child_index r)
     (submit_txn_id r) (submit_artifact_id r) (submit_cert r)"

definition submit_req_ok :: "dataservice_request_transaction_submit \<Rightarrow> bool" where
  "submit_req_ok r \<longleftrightarrow> length (submit_txn_id r) = 16 \<and> length (submit_artifact_id r) = 16 \<and> submit_cert r \<noteq> []"

lemma of_mem32_net32 [simp]: "ntohl (of_mem32 (net32 w)) = w"
  by (simp add: net32_def)

lemma of_mem64_net64 [simp]: "ntohll (of_mem64 (net64 w)) = w"
  by (simp add: net64_def)

interpretation submit_codec: request_codec DATASERVICE_API_METHOD_APP_PQ_TRANSACTION_SUBMIT enc_submit
  dataservice_decode_request_transaction_submit submit_req_ok
  by unfold_locales
    (auto simp: enc_submit_def dataservice_encode_request_transaction_submit_def submit_req_ok_def
      dataservice_decode_request_transaction_submit_def codec_defs)

text \<open>The methods whose only argument is a transaction identifier.\<close>

definition txn_id_req_ok :: "dataservice_request_txn_id \<Rightarrow> bool" where
  "txn_id_req_ok r \<longleftrightarrow> length (req_txn_id r) = 16"

interpretation drop_codec: request_codec DATASERVICE_API_METHOD_APP_PQ_TRANSACTION_DROP
  "\<lambda>r. dataservice_encode_request_transaction_drop AGENTD_STATUS_SUCCESS (child_index r) (req_txn_id r)"
  dataservice_decode_request_transaction_drop txn_id_req_ok
  by unfold_locales
    (auto simp: dataservice_encode_request_transaction_drop_def txn_id_req_ok_def
      dataservice_decode_request_transaction_drop_def codec_defs)

interpretation get_codec: request_codec DATASERVICE_API_METHOD_APP_PQ_TRANSACTION_READ
  "\<lambda>r. dataservice_encode_request_transaction_get AGENTD_STATUS_SUCCESS (child_index r) (req_txn_id r)"
  dataservice_decode_request_transaction_get txn_id_req_ok
  by unfold_locales
    (auto simp: dataservice_encode_request_transaction_get_def txn_id_req_ok_def
      dataservice_decode_request_transaction_get_def codec_defs)

interpretation promote_codec: request_codec DATASERVICE_API_METHOD_APP_PQ_TRANSACTION_PROMOTE
  "\<lambda>r. dataservice_encode_request_transaction_promote AGENTD_STATUS_SUCCESS (child_index r) (req_txn_id r)"
  dataservice_decode_request_transaction_promote txn_id_req_ok
  by unfold_locales
    (auto simp: dataservice_encode_request_transaction_promote_def txn_id_req_ok_def
      dataservice_decode_request_transaction_promote_def codec_defs)

text \<open>The methods without arguments.\<close>

interpretation get_first_codec: request_codec DATASERVICE_API_METHOD_APP_PQ_TRANSACTION_FIRST_READ
  "\<lambda>r. dataservice_encode_request_transaction_get_first AGENTD_STATUS_SUCCESS (child_index r)"
  dataservice_decode_request_transaction_get_first "\<lambda>_. True"
  by unfold_locales
    (auto simp: dataservice_encode_request_transaction_get_first_def
      dataservice_decode_request_transaction_get_first_def codec_defs)

interpretation close_codec: request_codec DATASERVICE_API_METHOD_LL_CHILD_CONTEXT_CLOSE
  "\<lambda>r. dataservice_encode_request_child_context_close AGENTD_STATUS_SUCCESS (child_index r)"
  dataservice_decode_request_child_context_close "\<lambda>_. True"
  by unfold_locales
    (auto simp: dataservice_encode_request_child_context_close_def
      dataservice_decode_request_child_context_close_def codec_defs)

interpretation latest_codec: request_codec DATASERVICE_API_METHOD_APP_BLOCK_ID_LATEST_READ
  "\<lambda>r. dataservice_encode_request_latest_block_id_get AGENTD_STATUS_SUCCESS (child_index r)"
  dataservice_decode_request_block_id_latest_read "\<lambda>_. True"
  by unfold_locales
    (auto simp: dataservice_encode_request_latest_block_id_get_def
      dataservice_decode_request_block_id_latest_read_def codec_defs)

text \<open>Settings, heights and artifacts.\<close>

interpretation setting_get_codec: request_codec DATASERVICE_API_METHOD_APP_GLOBAL_SETTING_READ
  "\<lambda>r. dataservice_encode_request_global_settings_get AGENTD_STATUS_SUCCESS (child_index r) (setting_get_key r)"
  dataservice_decode_request_global_setting_get "\<lambda>_. True"
  by unfold_locales
    (auto simp: dataservice_encode_request_global_settings_get_def
      dataservice_decode_request_global_setting_get_def codec_defs)

interpretation setting_set_codec: request_codec DATASERVICE_API_METHOD_APP_GLOBAL_SETTING_WRITE
  "\<lambda>r. dataservice_encode_request_global_settings_set AGENTD_STATUS_SUCCESS (child_index r)
         (setting_set_key r) (setting_set_val r)"
  dataservice_decode_request_global_setting_set "\<lambda>r. setting_set_val r \<noteq> []"
  by unfold_locales
    (auto simp: dataservice_encode_request_global_settings_set_def
      dataservice_decode_request_global_setting_set_def codec_defs)

interpretation height_codec: request_codec DATASERVICE_API_METHOD_APP_BLOCK_ID_BY_HEIGHT_READ
  "\<lambda>r. dataservice_encode_request_block_id_by_height_get AGENTD_STATUS_SUCCESS (child_index r) (req_block_height r)"
  dataservice_decode_request_block_id_by_height_read "\<lambda>_. True"
  by unfold_locales
    (auto simp: dataservice_encode_request_block_id_by_height_get_def
      dataservice_decode_request_block_id_by_height_read_def codec_defs)

interpretation artifact_codec: request_codec DATASERVICE_API_METHOD_APP_ARTIFACT_READ
  "\<lambda>r. dataservice_encode_request_artifact_get AGENTD_STATUS_SUCCESS (child_index r) (req_artifact_id r)"
  dataservice_decode_request_payload_artifact_read "\<lambda>r. length (req_artifact_id r) = 16"
  by unfold_locales
    (auto simp: dataservice_encode_request_artifact_get_def
      dataservice_decode_request_payload_artifact_read_def codec_defs)

text \<open>Blocks and canonized transactions.\<close>

interpretation block_make_codec: request_codec DATASERVICE_API_METHOD_APP_BLOCK_WRITE
  "\<lambda>r. dataservice_encode_request_block_make AGENTD_STATUS_SUCCESS (child_index r) (make_block_id r) (make_cert r)"
  dataservice_decode_request_block_make "\<lambda>r. length (make_block_id r) = 16"
  by unfold_locales
    (auto simp: dataservice_encode_request_block_make_def
      dataservice_decode_request_block_make_def codec_defs)

interpretation block_read_codec: request_codec DATASERVICE_API_METHOD_APP_BLOCK_READ
  "\<lambda>r. dataservice_encode_request_block_get AGENTD_STATUS_SUCCESS (child_index r) (read_block_id r) (block_read_cert r)"
  dataservice_decode_request_block_read "\<lambda>r. length (read_block_id r) = 16"
  by unfold_locales
    (auto simp: dataservice_encode_request_block_get_def
      dataservice_decode_request_block_read_def codec_defs nth_append)

interpretation canonized_codec: request_codec DATASERVICE_API_METHOD_APP_TRANSACTION_READ
  "\<lambda>r. dataservice_encode_request_canonized_transaction_get AGENTD_STATUS_SUCCESS (child_index r)
         (canon_txn_id r) (canon_read_cert r)"
  dataservice_decode_request_canonized_transaction_get "\<lambda>r. length (canon_txn_id r) = 16"
  by unfold_locales
    (auto simp: dataservice_encode_request_canonized_transaction_get_def
      dataservice_decode_request_canonized_transaction_get_def codec_defs nth_append)

text \<open>
  Contexts.  These requests carry no child index; the decoder sets it to 0.
\<close>

definition caps_req_ok :: "dataservice_request_caps \<Rightarrow> bool" where
  "caps_req_ok r \<longleftrightarrow> child_index r = 0 \<and> length (req_caps r) = 1"

lemma caps_bytes:
  "length c = Suc 0 \<Longrightarrow> length (concat (map mem32 c)) = 4"
  "length c = Suc 0 \<Longrightarrow> [of_mem32 (concat (map mem32 c))] = c"
  by (cases c; auto)+

interpretation child_create_codec: request_codec DATASERVICE_API_METHOD_LL_CHILD_CONTEXT_CREATE
  "\<lambda>r. dataservice_encode_request_child_context_create AGENTD_STATUS_SUCCESS (req_caps r)"
  dataservice_decode_request_child_context_create caps_req_ok
  by unfold_locales
    (auto simp: dataservice_encode_request_child_context_create_def caps_req_ok_def
      dataservice_decode_request_child_context_create_def codec_defs caps_bytes)

interpretation reduce_caps_codec: request_codec DATASERVICE_API_METHOD_LL_ROOT_CONTEXT_REDUCE_CAPS
  "\<lambda>r. dataservice_encode_request_root_context_reduce_caps AGENTD_STATUS_SUCCESS (req_caps r)"
  dataservice_decode_request_root_context_reduce_caps caps_req_ok
  by unfold_locales
    (auto simp: dataservice_encode_request_root_context_reduce_caps_def caps_req_ok_def
      dataservice_decode_request_root_context_reduce_caps_def codec_defs caps_bytes)

interpretation root_create_codec: request_codec DATASERVICE_API_METHOD_LL_ROOT_CONTEXT_CREATE
  "\<lambda>r. dataservice_encode_request_root_context_init AGENTD_STATUS_SUCCESS (req_max_database_size r) (req_datadir r)"
  "dataservice_decode_request_root_context_init True" "\<lambda>r. child_index r = 0 \<and> req_datadir r \<noteq> []"
  by unfold_locales
    (auto simp: dataservice_encode_request_root_context_init_def
      dataservice_decode_request_root_context_init_def codec_defs)

subsection \<open>Responses\<close>

text \<open>What the client decodes is what the server's reader found, as long as a packet fits in 32 bits.\<close>

lemma unat_of_nat32: "n < 2 ^ 32 \<Longrightarrow> unat (of_nat n :: 32 word) = n"
  by (simp add: unat_of_nat)

text \<open>The payload of a response that succeeded, decoded by the client.\<close>

lemma transaction_get_first_response:
  assumes "txn_node_wf n" and "length cert < 2 ^ 32"
    and "dataservice_encode_response_transaction_get_first True (node_key n) (node_prev n) (node_next n)
           (node_artifact_id n) (net_txn_state n) cert = Inr payload"
  shows "\<exists>n'. dataservice_decode_response_transaction_get_first
       (response_packet DATASERVICE_API_METHOD_APP_PQ_TRANSACTION_FIRST_READ i AGENTD_STATUS_SUCCESS (Some payload)) =
     Inr (\<lparr> method_code = DATASERVICE_API_METHOD_APP_PQ_TRANSACTION_FIRST_READ, resp_offset = i,
            resp_status = AGENTD_STATUS_SUCCESS \<rparr>, Some (n', cert)) \<and>
     node_key n' = node_key n \<and> node_prev n' = node_prev n \<and> node_next n' = node_next n \<and>
     node_artifact_id n' = node_artifact_id n \<and> net_txn_state n' = net_txn_state n"
proof -
  have p: "payload = node_key n @ node_prev n @ node_next n @ node_artifact_id n @ mem32 (net_txn_state n) @ cert"
    using assms(3) by (simp add: dataservice_encode_response_transaction_get_first_def response_payload_def)
  have "length payload = 68 + length cert" using assms(1) by (simp add: p txn_node_wf_def)
  then have "dat_size (12 + 68) (response_packet m i st (Some payload)) = of_nat (length cert)" for m st
    by (rule dat_size_packet)
  then show ?thesis using assms(1,2)
    by (simp add: dataservice_decode_response_transaction_get_first_def decode_response_txn_node_def with_response_def
        Let_def unat_of_nat32 p txn_node_wf_def)
qed

lemma block_id_response:
  assumes "length block_id = 16"
  shows "dataservice_decode_response_block_id_by_height_get
       (response_packet DATASERVICE_API_METHOD_APP_BLOCK_ID_BY_HEIGHT_READ i AGENTD_STATUS_SUCCESS (Some block_id)) =
     Inr (\<lparr> method_code = DATASERVICE_API_METHOD_APP_BLOCK_ID_BY_HEIGHT_READ, resp_offset = i,
            resp_status = AGENTD_STATUS_SUCCESS \<rparr>, Some block_id)"
    and "dataservice_decode_response_latest_block_id_get
       (response_packet DATASERVICE_API_METHOD_APP_BLOCK_ID_LATEST_READ i AGENTD_STATUS_SUCCESS (Some block_id)) =
     Inr (\<lparr> method_code = DATASERVICE_API_METHOD_APP_BLOCK_ID_LATEST_READ, resp_offset = i,
            resp_status = AGENTD_STATUS_SUCCESS \<rparr>, Some block_id)"
  using assms by (simp_all add: dataservice_decode_response_block_id_by_height_get_def
      dataservice_decode_response_latest_block_id_get_def with_response_def Let_def)
    (simp_all add: response_packet_def)

lemma child_context_create_response:
  "dataservice_decode_response_child_context_create
       (response_packet DATASERVICE_API_METHOD_LL_CHILD_CONTEXT_CREATE i AGENTD_STATUS_SUCCESS (Some (net32 c))) =
     Inr (\<lparr> method_code = DATASERVICE_API_METHOD_LL_CHILD_CONTEXT_CREATE, resp_offset = i,
            resp_status = AGENTD_STATUS_SUCCESS \<rparr>, Some c)"
  by (simp add: dataservice_decode_response_child_context_create_def with_response_def Let_def)
    (simp add: response_packet_def)

lemma global_settings_get_response:
  "dataservice_decode_response_global_settings_get
       (response_packet DATASERVICE_API_METHOD_APP_GLOBAL_SETTING_READ i st (Some v)) =
     Inr (\<lparr> method_code = DATASERVICE_API_METHOD_APP_GLOBAL_SETTING_READ, resp_offset = i,
            resp_status = st \<rparr>, v)"
  by (simp add: dataservice_decode_response_global_settings_get_def with_response_def Let_def)

text \<open>A failure is reported to the client with its status.\<close>

lemmas response_error_defs = dataservice_decode_response_child_context_create_def
  dataservice_decode_response_block_id_by_height_get_def dataservice_decode_response_latest_block_id_get_def
  dataservice_decode_response_artifact_get_def dataservice_decode_response_block_get_def
  dataservice_decode_response_transaction_get_def dataservice_decode_response_transaction_get_first_def
  decode_response_txn_node_def dataservice_decode_response_canonized_transaction_get_def
  dataservice_decode_response_block_make_def dataservice_decode_response_child_context_close_def
  dataservice_decode_response_global_settings_set_def dataservice_decode_response_root_context_init_def
  dataservice_decode_response_root_context_reduce_caps_def dataservice_decode_response_transaction_drop_def
  dataservice_decode_response_transaction_promote_def dataservice_decode_response_transaction_submit_def
  with_response_def

subsection \<open>Properties\<close>

text \<open>A packet names its method and decodes to the request.\<close>

definition packet_roundtrip :: "32 word \<Rightarrow> status + bytes \<Rightarrow> (bytes \<Rightarrow> status + 'r) \<Rightarrow> 'r \<Rightarrow> bool" where
  "packet_roundtrip method packet dec r \<longleftrightarrow>
     (case packet of Inl _ \<Rightarrow> False | Inr b \<Rightarrow> of_net32 (take 4 b) = method \<and> dec (drop 4 b) = Inr r)"

context request_codec
begin

lemma packet: "ok r \<Longrightarrow> packet_roundtrip api_method (enc r) dec r"
  by (rule roundtrip [of r]) (simp_all add: packet_roundtrip_def)

end

text \<open>
  The requests to the process queue: what the client encodes names the method
  and decodes on the server to the same child index, identifiers and certificate.
\<close>

theorem queue_requests_roundtrip:
  assumes "length txn_id = 16" and "length artifact_id = 16" and "cert \<noteq> []"
  shows "packet_roundtrip DATASERVICE_API_METHOD_APP_PQ_TRANSACTION_SUBMIT
      (dataservice_encode_request_transaction_submit AGENTD_STATUS_SUCCESS i txn_id artifact_id cert)
      dataservice_decode_request_transaction_submit
      \<lparr> child_index = i, submit_txn_id = txn_id, submit_artifact_id = artifact_id, submit_cert = cert \<rparr> \<and>
    packet_roundtrip DATASERVICE_API_METHOD_APP_PQ_TRANSACTION_DROP
      (dataservice_encode_request_transaction_drop AGENTD_STATUS_SUCCESS i txn_id)
      dataservice_decode_request_transaction_drop \<lparr> child_index = i, req_txn_id = txn_id \<rparr> \<and>
    packet_roundtrip DATASERVICE_API_METHOD_APP_PQ_TRANSACTION_READ
      (dataservice_encode_request_transaction_get AGENTD_STATUS_SUCCESS i txn_id)
      dataservice_decode_request_transaction_get \<lparr> child_index = i, req_txn_id = txn_id \<rparr> \<and>
    packet_roundtrip DATASERVICE_API_METHOD_APP_PQ_TRANSACTION_PROMOTE
      (dataservice_encode_request_transaction_promote AGENTD_STATUS_SUCCESS i txn_id)
      dataservice_decode_request_transaction_promote \<lparr> child_index = i, req_txn_id = txn_id \<rparr> \<and>
    packet_roundtrip DATASERVICE_API_METHOD_APP_PQ_TRANSACTION_FIRST_READ
      (dataservice_encode_request_transaction_get_first AGENTD_STATUS_SUCCESS i)
      dataservice_decode_request_transaction_get_first \<lparr> child_index = i \<rparr>"
  using assms
    submit_codec.packet [of "\<lparr> child_index = i, submit_txn_id = txn_id, submit_artifact_id = artifact_id, submit_cert = cert \<rparr>"]
    drop_codec.packet [of "\<lparr> child_index = i, req_txn_id = txn_id \<rparr>"]
    get_codec.packet [of "\<lparr> child_index = i, req_txn_id = txn_id \<rparr>"]
    promote_codec.packet [of "\<lparr> child_index = i, req_txn_id = txn_id \<rparr>"]
    get_first_codec.packet [of "\<lparr> child_index = i \<rparr>"]
  by (simp add: enc_submit_def submit_req_ok_def txn_id_req_ok_def)

theorem queue_requests_roundtrip_witness:
  "packet_roundtrip 15 (dataservice_encode_request_transaction_submit 0 3 (replicate 16 1) (replicate 16 2) [9])
     dataservice_decode_request_transaction_submit
     \<lparr> child_index = 3, submit_txn_id = replicate 16 1, submit_artifact_id = replicate 16 2, submit_cert = [9] \<rparr>"
  using queue_requests_roundtrip [of "replicate 16 1" "replicate 16 2" "[9]" 3] by simp

text \<open>
  The requests for blocks, artifacts and canonized transactions round trip in
  the same way, the flag for the certificate and the height included.
\<close>

theorem block_requests_roundtrip:
  assumes "length uuid = 16"
  shows "packet_roundtrip DATASERVICE_API_METHOD_APP_BLOCK_WRITE
      (dataservice_encode_request_block_make AGENTD_STATUS_SUCCESS i uuid cert)
      dataservice_decode_request_block_make \<lparr> child_index = i, make_block_id = uuid, make_cert = cert \<rparr> \<and>
    packet_roundtrip DATASERVICE_API_METHOD_APP_BLOCK_READ
      (dataservice_encode_request_block_get AGENTD_STATUS_SUCCESS i uuid flag)
      dataservice_decode_request_block_read \<lparr> child_index = i, read_block_id = uuid, block_read_cert = flag \<rparr> \<and>
    packet_roundtrip DATASERVICE_API_METHOD_APP_TRANSACTION_READ
      (dataservice_encode_request_canonized_transaction_get AGENTD_STATUS_SUCCESS i uuid flag)
      dataservice_decode_request_canonized_transaction_get \<lparr> child_index = i, canon_txn_id = uuid, canon_read_cert = flag \<rparr> \<and>
    packet_roundtrip DATASERVICE_API_METHOD_APP_ARTIFACT_READ
      (dataservice_encode_request_artifact_get AGENTD_STATUS_SUCCESS i uuid)
      dataservice_decode_request_payload_artifact_read \<lparr> child_index = i, req_artifact_id = uuid \<rparr> \<and>
    packet_roundtrip DATASERVICE_API_METHOD_APP_BLOCK_ID_BY_HEIGHT_READ
      (dataservice_encode_request_block_id_by_height_get AGENTD_STATUS_SUCCESS i height)
      dataservice_decode_request_block_id_by_height_read \<lparr> child_index = i, req_block_height = height \<rparr> \<and>
    packet_roundtrip DATASERVICE_API_METHOD_APP_BLOCK_ID_LATEST_READ
      (dataservice_encode_request_latest_block_id_get AGENTD_STATUS_SUCCESS i)
      dataservice_decode_request_block_id_latest_read \<lparr> child_index = i \<rparr>"
  using assms
    block_make_codec.packet [of "\<lparr> child_index = i, make_block_id = uuid, make_cert = cert \<rparr>"]
    block_read_codec.packet [of "\<lparr> child_index = i, read_block_id = uuid, block_read_cert = flag \<rparr>"]
    canonized_codec.packet [of "\<lparr> child_index = i, canon_txn_id = uuid, canon_read_cert = flag \<rparr>"]
    artifact_codec.packet [of "\<lparr> child_index = i, req_artifact_id = uuid \<rparr>"]
    height_codec.packet [of "\<lparr> child_index = i, req_block_height = height \<rparr>"]
    latest_codec.packet [of "\<lparr> child_index = i \<rparr>"]
  by simp

theorem block_requests_roundtrip_witness:
  "packet_roundtrip 13 (dataservice_encode_request_block_get 0 2 (replicate 16 5) True)
     dataservice_decode_request_block_read \<lparr> child_index = 2, read_block_id = replicate 16 5, block_read_cert = True \<rparr>"
  using block_requests_roundtrip [of "replicate 16 5" 2 "[]" True 0] by simp

text \<open>
  The requests for settings and contexts round trip: keys and values of
  settings, capability sets, and the size and directory of the database.
\<close>

theorem context_requests_roundtrip:
  assumes "val \<noteq> []" and "length caps = 1" and "datadir \<noteq> []"
  shows "packet_roundtrip DATASERVICE_API_METHOD_APP_GLOBAL_SETTING_READ
      (dataservice_encode_request_global_settings_get AGENTD_STATUS_SUCCESS i key)
      dataservice_decode_request_global_setting_get \<lparr> child_index = i, setting_get_key = key \<rparr> \<and>
    packet_roundtrip DATASERVICE_API_METHOD_APP_GLOBAL_SETTING_WRITE
      (dataservice_encode_request_global_settings_set AGENTD_STATUS_SUCCESS i key val)
      dataservice_decode_request_global_setting_set \<lparr> child_index = i, setting_set_key = key, setting_set_val = val \<rparr> \<and>
    packet_roundtrip DATASERVICE_API_METHOD_LL_CHILD_CONTEXT_CREATE
      (dataservice_encode_request_child_context_create AGENTD_STATUS_SUCCESS caps)
      dataservice_decode_request_child_context_create \<lparr> child_index = 0, req_caps = caps \<rparr> \<and>
    packet_roundtrip DATASERVICE_API_METHOD_LL_ROOT_CONTEXT_REDUCE_CAPS
      (dataservice_encode_request_root_context_reduce_caps AGENTD_STATUS_SUCCESS caps)
      dataservice_decode_request_root_context_reduce_caps \<lparr> child_index = 0, req_caps = caps \<rparr> \<and>
    packet_roundtrip DATASERVICE_API_METHOD_LL_CHILD_CONTEXT_CLOSE
      (dataservice_encode_request_child_context_close AGENTD_STATUS_SUCCESS i)
      dataservice_decode_request_child_context_close \<lparr> child_index = i \<rparr> \<and>
    packet_roundtrip DATASERVICE_API_METHOD_LL_ROOT_CONTEXT_CREATE
      (dataservice_encode_request_root_context_init AGENTD_STATUS_SUCCESS max_size datadir)
      (dataservice_decode_request_root_context_init True)
      \<lparr> child_index = 0, req_max_database_size = max_size, req_datadir = datadir \<rparr>"
  using assms
    setting_get_codec.packet [of "\<lparr> child_index = i, setting_get_key = key \<rparr>"]
    setting_set_codec.packet [of "\<lparr> child_index = i, setting_set_key = key, setting_set_val = val \<rparr>"]
    child_create_codec.packet [of "\<lparr> child_index = 0, req_caps = caps \<rparr>"]
    reduce_caps_codec.packet [of "\<lparr> child_index = 0, req_caps = caps \<rparr>"]
    close_codec.packet [of "\<lparr> child_index = i \<rparr>"]
    root_create_codec.packet [of "\<lparr> child_index = 0, req_max_database_size = max_size, req_datadir = datadir \<rparr>"]
  by (simp add: caps_req_ok_def)

theorem context_requests_roundtrip_witness:
  "packet_roundtrip 2 (dataservice_encode_request_child_context_create 0 [0x7FFFFF])
     dataservice_decode_request_child_context_create \<lparr> child_index = 0, req_caps = [0x7FFFFF] \<rparr>"
  using context_requests_roundtrip [of "[1]" "[0x7FFFFF]" "[47]"] by simp

text \<open>
  The responses that carry a transaction of the process queue: the client
  decodes the identifiers, the links, the state and the certificate that the
  server encoded, for certificates below 4 GB.
\<close>

theorem transaction_responses_roundtrip:
  assumes "txn_node_wf n" and "length cert < 2 ^ 32"
    and "dataservice_encode_response_transaction_get True (node_key n) (node_prev n) (node_next n)
           (node_artifact_id n) (net_txn_state n) cert = Inr payload"
    and "dataservice_encode_response_transaction_get_first True (node_key n) (node_prev n) (node_next n)
           (node_artifact_id n) (net_txn_state n) cert = Inr payload'"
  shows "\<exists>n'. dataservice_decode_response_transaction_get
       (response_packet DATASERVICE_API_METHOD_APP_PQ_TRANSACTION_READ i AGENTD_STATUS_SUCCESS (Some payload)) =
     Inr (\<lparr> method_code = DATASERVICE_API_METHOD_APP_PQ_TRANSACTION_READ, resp_offset = i,
            resp_status = AGENTD_STATUS_SUCCESS \<rparr>, Some (n', cert)) \<and>
     dataservice_decode_response_transaction_get_first
       (response_packet DATASERVICE_API_METHOD_APP_PQ_TRANSACTION_FIRST_READ i AGENTD_STATUS_SUCCESS (Some payload')) =
     Inr (\<lparr> method_code = DATASERVICE_API_METHOD_APP_PQ_TRANSACTION_FIRST_READ, resp_offset = i,
            resp_status = AGENTD_STATUS_SUCCESS \<rparr>, Some (n', cert)) \<and>
     node_key n' = node_key n \<and> node_prev n' = node_prev n \<and> node_next n' = node_next n \<and>
     node_artifact_id n' = node_artifact_id n \<and> net_txn_state n' = net_txn_state n"
proof -
  have p: "payload' = node_key n @ node_prev n @ node_next n @ node_artifact_id n @ mem32 (net_txn_state n) @ cert" "payload = payload'"
    using assms(3,4) by (simp_all add: dataservice_encode_response_transaction_get_def
        dataservice_encode_response_transaction_get_first_def response_payload_def)
  have "length payload' = 68 + length cert" using assms(1) by (simp add: p(1) txn_node_wf_def)
  then have "dat_size (12 + 68) (response_packet m i st (Some payload')) = of_nat (length cert)" for m st
    by (rule dat_size_packet)
  then show ?thesis using assms(1,2)
    by (simp add: dataservice_decode_response_transaction_get_def dataservice_decode_response_transaction_get_first_def
        decode_response_txn_node_def with_response_def Let_def unat_of_nat32 p txn_node_wf_def)
qed

theorem transaction_responses_roundtrip_witness:
  "\<exists>n'. dataservice_decode_response_transaction_get (response_packet 18 3 0
       (Some (zero_uuid @ zero_uuid @ zero_uuid @ zero_uuid @ mem32 0 @ [1, 2]))) =
     Inr (\<lparr> method_code = 18, resp_offset = 3, resp_status = 0 \<rparr>, Some (n', [1, 2])) \<and> node_key n' = zero_uuid"
proof -
  let ?p = "zero_uuid @ zero_uuid @ zero_uuid @ zero_uuid @ mem32 0 @ [1, 2]"
  have e: "dataservice_encode_response_transaction_get True (node_key txn_node_zero) (node_prev txn_node_zero)
      (node_next txn_node_zero) (node_artifact_id txn_node_zero) (net_txn_state txn_node_zero) [1, 2] = Inr ?p"
    "dataservice_encode_response_transaction_get_first True (node_key txn_node_zero) (node_prev txn_node_zero)
      (node_next txn_node_zero) (node_artifact_id txn_node_zero) (net_txn_state txn_node_zero) [1, 2] = Inr ?p"
    by (simp_all add: dataservice_encode_response_transaction_get_def dataservice_encode_response_transaction_get_first_def
        response_payload_def txn_node_zero_def)
  have k: "node_key txn_node_zero = zero_uuid" by (simp add: txn_node_zero_def)
  from transaction_responses_roundtrip [OF txn_node_wf_zero _ e, of 3] show ?thesis unfolding k by auto
qed

text \<open>
  The response that carries a canonized transaction: the client decodes what
  the server encoded, with the identifier of the block, and the certificate
  exactly when it was asked for.
\<close>

theorem canonized_response_roundtrip:
  assumes "txn_node_wf n" and "length cert < 2 ^ 32"
    and "dataservice_encode_response_canonized_transaction_get True (node_key n) (node_prev n) (node_next n)
           (node_artifact_id n) (node_block_id n) (net_txn_state n) write_cert cert = Inr payload"
  shows "\<exists>n'. dataservice_decode_response_canonized_transaction_get
       (response_packet DATASERVICE_API_METHOD_APP_TRANSACTION_READ i AGENTD_STATUS_SUCCESS (Some payload)) =
     Inr (\<lparr> method_code = DATASERVICE_API_METHOD_APP_TRANSACTION_READ, resp_offset = i,
            resp_status = AGENTD_STATUS_SUCCESS \<rparr>, Some (n', if write_cert then cert else [])) \<and>
     node_key n' = node_key n \<and> node_prev n' = node_prev n \<and> node_next n' = node_next n \<and>
     node_artifact_id n' = node_artifact_id n \<and> node_block_id n' = node_block_id n \<and>
     net_txn_state n' = net_txn_state n"
proof -
  let ?c = "if write_cert then cert else []"
  have p: "payload = node_key n @ node_prev n @ node_next n @ node_artifact_id n @ node_block_id n @
      mem32 (net_txn_state n) @ ?c"
    using assms(3) by (simp add: dataservice_encode_response_canonized_transaction_get_def response_payload_def)
  have "length payload = 84 + length ?c" using assms(1) by (simp add: p txn_node_wf_def)
  then have d: "dat_size (12 + 84) (response_packet m i st (Some payload)) = of_nat (length ?c)" for m st
    by (rule dat_size_packet)
  have "length ?c < 2 ^ 32" using assms(2) by simp
  then show ?thesis using assms(1) d
    by (simp add: dataservice_decode_response_canonized_transaction_get_def with_response_def
        Let_def unat_of_nat32 p txn_node_wf_def)
qed

theorem canonized_response_roundtrip_witness:
  "\<exists>n'. dataservice_decode_response_canonized_transaction_get (response_packet 14 3 0
       (Some (zero_uuid @ zero_uuid @ zero_uuid @ zero_uuid @ zero_uuid @ mem32 0 @ [1, 2]))) =
     Inr (\<lparr> method_code = 14, resp_offset = 3, resp_status = 0 \<rparr>, Some (n', [1, 2])) \<and> node_block_id n' = zero_uuid"
proof -
  let ?p = "zero_uuid @ zero_uuid @ zero_uuid @ zero_uuid @ zero_uuid @ mem32 0 @ [1, 2]"
  have e: "dataservice_encode_response_canonized_transaction_get True (node_key txn_node_zero) (node_prev txn_node_zero)
      (node_next txn_node_zero) (node_artifact_id txn_node_zero) (node_block_id txn_node_zero)
      (net_txn_state txn_node_zero) True [1, 2] = Inr ?p"
    by (simp add: dataservice_encode_response_canonized_transaction_get_def response_payload_def txn_node_zero_def)
  have k: "node_block_id txn_node_zero = zero_uuid" by (simp add: txn_node_zero_def)
  from canonized_response_roundtrip [OF txn_node_wf_zero _ e, of 3] show ?thesis unfolding k by auto
qed

text \<open>
  The response that carries a block: the client decodes the identifiers of the
  block and its neighbours, its first transaction and its height, and the
  certificate exactly when it was asked for.
\<close>

theorem block_response_roundtrip:
  assumes "block_node_wf n" and "length cert < 2 ^ 32"
    and "dataservice_encode_response_block_read True (block_key n) (block_prev n) (block_next n)
           (first_transaction_id n) (ntohll (net_block_height n)) write_cert cert = Inr payload"
  shows "\<exists>n'. dataservice_decode_response_block_get
       (response_packet DATASERVICE_API_METHOD_APP_BLOCK_READ i AGENTD_STATUS_SUCCESS (Some payload)) =
     Inr (\<lparr> method_code = DATASERVICE_API_METHOD_APP_BLOCK_READ, resp_offset = i,
            resp_status = AGENTD_STATUS_SUCCESS \<rparr>, Some (n', if write_cert then cert else [])) \<and>
     block_key n' = block_key n \<and> block_prev n' = block_prev n \<and> block_next n' = block_next n \<and>
     first_transaction_id n' = first_transaction_id n \<and> net_block_height n' = net_block_height n"
proof -
  let ?c = "if write_cert then cert else []"
  have p: "payload = block_key n @ block_prev n @ block_next n @ first_transaction_id n @
      mem64 (net_block_height n) @ ?c"
    using assms(3) by (simp add: dataservice_encode_response_block_read_def response_payload_def net64_def)
  have "length payload = 72 + length ?c" using assms(1) by (simp add: p block_node_wf_def)
  then have d: "dat_size (12 + 72) (response_packet m i st (Some payload)) = of_nat (length ?c)" for m st
    by (rule dat_size_packet)
  have "length ?c < 2 ^ 32" using assms(2) by simp
  then show ?thesis using assms(1) d
    by (simp add: dataservice_decode_response_block_get_def with_response_def
        Let_def unat_of_nat32 p block_node_wf_def)
qed

theorem block_response_roundtrip_witness:
  "\<exists>n'. dataservice_decode_response_block_get (response_packet 13 3 0
       (Some (zero_uuid @ zero_uuid @ zero_uuid @ zero_uuid @ net64 0))) =
     Inr (\<lparr> method_code = 13, resp_offset = 3, resp_status = 0 \<rparr>, Some (n', [])) \<and> net_block_height n' = 0"
proof -
  let ?p = "zero_uuid @ zero_uuid @ zero_uuid @ zero_uuid @ net64 0"
  have e: "dataservice_encode_response_block_read True (block_key block_node_zero) (block_prev block_node_zero)
      (block_next block_node_zero) (first_transaction_id block_node_zero) (ntohll (net_block_height block_node_zero))
      False [1, 2] = Inr ?p"
    by (simp add: dataservice_encode_response_block_read_def response_payload_def block_node_zero_def)
  have k: "net_block_height block_node_zero = 0" "block_node_wf block_node_zero"
    by (simp_all add: block_node_zero_def block_node_wf_def)
  from block_response_roundtrip [OF k(2) _ e, of 3] show ?thesis unfolding k(1) by auto
qed

text \<open>
  The response that carries an artifact decodes to the record the server read.
\<close>

theorem artifact_response_roundtrip:
  assumes "artifact_record_wf r" and "artifact_pad r = replicate 4 0"
    and "dataservice_encode_response_payload_artifact_read True (artifact_key r) (txn_first r) (txn_latest r)
           (ntohll (net_height_first r)) (ntohll (net_height_latest r)) (ntohl (net_state_latest r)) = Inr payload"
  shows "dataservice_decode_response_artifact_get
       (response_packet DATASERVICE_API_METHOD_APP_ARTIFACT_READ i AGENTD_STATUS_SUCCESS (Some payload)) =
     Inr (\<lparr> method_code = DATASERVICE_API_METHOD_APP_ARTIFACT_READ, resp_offset = i,
            resp_status = AGENTD_STATUS_SUCCESS \<rparr>, Some r)"
proof -
  have p: "payload = artifact_key r @ txn_first r @ txn_latest r @ mem64 (net_height_first r) @
      mem64 (net_height_latest r) @ mem32 (net_state_latest r)"
    using assms(3) by (simp add: dataservice_encode_response_payload_artifact_read_def response_payload_def
        net64_def net32_def)
  have "length payload = 0 + 68" using assms(1) by (simp add: p artifact_record_wf_def)
  then have "dat_size (12 + 0) (response_packet m i st (Some payload)) = of_nat 68" for m st
    by (rule dat_size_packet)
  then show ?thesis using assms(1,2)
    by (simp add: dataservice_decode_response_artifact_get_def with_response_def Let_def p artifact_record_wf_def)
qed

theorem artifact_response_roundtrip_witness:
  "dataservice_decode_response_artifact_get (response_packet 20 3 0
      (Some (zero_uuid @ zero_uuid @ zero_uuid @ net64 0 @ net64 0 @ net32 0))) =
    Inr (\<lparr> method_code = 20, resp_offset = 3, resp_status = 0 \<rparr>,
      Some \<lparr> artifact_key = zero_uuid, txn_first = zero_uuid, txn_latest = zero_uuid, net_height_first = 0,
             net_height_latest = 0, net_state_latest = 0, artifact_pad = replicate 4 0 \<rparr>)"
  by (rule artifact_response_roundtrip)
    (simp_all add: artifact_record_wf_def dataservice_encode_response_payload_artifact_read_def response_payload_def)

end
