(* ===== verification/Ds_Txn.thy ===== *)
theory Ds_Txn
  imports Ds_Context
begin

text \<open>
  The transaction frame of the data service operations: an operation begins a
  transaction below an environment \<open>e\<close> and, where the caller passes a
  \<^verbatim>\<open>dtxn_ctx\<close>, below a parent transaction, and ends it by an abort or a commit;
  both are returned as the call leaves them.  \<open>atomic_update\<close> states that a call
  either leaves what its caller sees unchanged or succeeds with one of the
  intended new contents.
\<close>

subsection \<open>Beginning and ending\<close>

text \<open>\<^verbatim>\<open>maybe_transaction_abort\<close> after a transaction that was begun below the parent.\<close>

definition abort_with :: "('e, 't) lmdb \<Rightarrow> 'e \<Rightarrow> 't option \<Rightarrow> 't \<Rightarrow> status \<Rightarrow> status \<times> 'e \<times> 't option" where
  "abort_with ops e parent txn st = (case mdb_txn_abort ops e parent txn of (e', p') \<Rightarrow> (st, e', p'))"

text \<open>\<^verbatim>\<open>mdb_txn_commit(txn)\<close> with its result ignored.\<close>

definition commit_with :: "('e, 't) lmdb \<Rightarrow> 'e \<Rightarrow> 't option \<Rightarrow> 't \<Rightarrow> status \<Rightarrow> status \<times> 'e \<times> 't option" where
  "commit_with ops e parent txn st = (case mdb_txn_commit ops e parent txn of (rc, e', p') \<Rightarrow> (st, e', p'))"

text \<open>
  The other shape: a transaction is begun only when there is no parent, and the
  parent itself is used otherwise.
\<close>

definition begin_or_parent :: "('e, 't) lmdb \<Rightarrow> 'e \<Rightarrow> 't option \<Rightarrow> nat \<Rightarrow> int \<times> 't" where
  "begin_or_parent ops e parent f =
     (case parent of None \<Rightarrow> mdb_txn_begin ops e None f | Some t \<Rightarrow> (0, t))"

definition abort_or_parent :: "('e, 't) lmdb \<Rightarrow> 'e \<Rightarrow> 't option \<Rightarrow> 't \<Rightarrow> status \<Rightarrow> status \<times> 'e \<times> 't option" where
  "abort_or_parent ops e parent txn st =
     (case parent of None \<Rightarrow> abort_with ops e None txn st | Some _ \<Rightarrow> (st, e, Some txn))"

definition commit_or_parent :: "('e, 't) lmdb \<Rightarrow> 'e \<Rightarrow> 't option \<Rightarrow> 't \<Rightarrow> status \<Rightarrow> status \<times> 'e \<times> 't option" where
  "commit_or_parent ops e parent txn st =
     (case parent of None \<Rightarrow> commit_with ops e None txn st | Some _ \<Rightarrow> (st, e, Some txn))"

text \<open>
  A read-only operation: begin or use the parent, run the query \<open>f\<close> and end the
  transaction again.  \<open>r0\<close> is what the caller is left with when the transaction
  cannot be begun.
\<close>

definition query :: "('e, 't) lmdb \<Rightarrow> 'e \<Rightarrow> 't option \<Rightarrow> 'r \<Rightarrow> ('t \<Rightarrow> status \<times> 'r) \<Rightarrow>
    (status \<times> 'e \<times> 't option) \<times> 'r" where
  "query ops e parent r0 f =
     (case begin_or_parent ops e parent MDB_RDONLY of (rc, query_txn) \<Rightarrow>
      if rc \<noteq> 0 then ((AGENTD_ERROR_DATASERVICE_MDB_TXN_BEGIN_FAILURE, e, parent), r0) else
      case f query_txn of (st, res) \<Rightarrow> (abort_or_parent ops e parent query_txn st, res))"

lemma or_parent_simps [simp]:
  "begin_or_parent ops e None f = mdb_txn_begin ops e None f"
  "begin_or_parent ops e (Some t) f = (0, t)"
  "abort_or_parent ops e None txn st = abort_with ops e None txn st"
  "abort_or_parent ops e (Some t) txn st = (st, e, Some txn)"
  "commit_or_parent ops e None txn st = commit_with ops e None txn st"
  "commit_or_parent ops e (Some t) txn st = (st, e, Some txn)"
  by (simp_all add: begin_or_parent_def abort_or_parent_def commit_or_parent_def)

subsection \<open>Atomicity\<close>

text \<open>A call whose behaviour is defined, with a result that satisfies \<open>P\<close>.\<close>

fun returns :: "('a \<Rightarrow> bool) \<Rightarrow> 'a option \<Rightarrow> bool" where
  "returns P None \<longleftrightarrow> False"
| "returns P (Some r) \<longleftrightarrow> P r"

lemma returns_iff: "returns P x \<longleftrightarrow> (\<exists>r. x = Some r \<and> P r)"
  by (cases x) auto

fun atomic_update :: "('e \<Rightarrow> kvs) \<Rightarrow> ('t \<Rightarrow> kvs) \<Rightarrow> 'e \<Rightarrow> 't option \<Rightarrow> (kvs \<Rightarrow> bool) \<Rightarrow>
    status \<times> 'e \<times> 't option \<Rightarrow> bool" where
  "atomic_update ev tv e p Q (st, e', p') \<longleftrightarrow> (p' = None \<longleftrightarrow> p = None) \<and>
     (base_view ev tv e' p' = base_view ev tv e p \<or>
      st = AGENTD_STATUS_SUCCESS \<and> Q (base_view ev tv e' p'))"

text \<open>A call that only reads.\<close>

fun unchanged :: "('e \<Rightarrow> kvs) \<Rightarrow> ('t \<Rightarrow> kvs) \<Rightarrow> 'e \<Rightarrow> 't option \<Rightarrow> status \<times> 'e \<times> 't option \<Rightarrow> bool" where
  "unchanged ev tv e p (st, e', p') \<longleftrightarrow>
     (p' = None \<longleftrightarrow> p = None) \<and> base_view ev tv e' p' = base_view ev tv e p"

lemma atomic_update_kept [simp]: "atomic_update ev tv e p Q (st, e, p)"
  by simp

lemma unchanged_atomic: "unchanged ev tv e p r \<Longrightarrow> atomic_update ev tv e p Q r"
  by (cases r) auto

lemma atomic_update_failed:
  "atomic_update ev tv e p Q (st, e', p') \<Longrightarrow> st \<noteq> AGENTD_STATUS_SUCCESS \<Longrightarrow>
     base_view ev tv e' p' = base_view ev tv e p"
  by simp

context lmdb_store
begin

lemma abort_with_view:
  assumes "abort_with ops e p t st = (st', e', p')"
  shows "st' = st" "view e' p' = view e p" "p' = None \<longleftrightarrow> p = None"
  using assms abort_view [of e p t] abort_parent [of e p t]
  by (auto simp: abort_with_def split: prod.splits)

lemma commit_with_view:
  assumes "commit_with ops e p t st = (st', e', p')"
  shows "st' = st" "view e' p' = tv t \<or> view e' p' = view e p" "p' = None \<longleftrightarrow> p = None"
  using assms commit_view [of e p t] commit_fail [of e p t] commit_parent [of e p t]
  by (auto simp: commit_with_def split: prod.splits)

lemma fst_abort_with [simp]: "fst (abort_with ops e p t st) = st"
  by (simp add: abort_with_def split: prod.splits)

lemma fst_commit_with [simp]: "fst (commit_with ops e p t st) = st"
  by (simp add: commit_with_def split: prod.splits)

lemma unchanged_abort [simp]: "unchanged ev tv e p (abort_with ops e p t st)"
  by (cases "abort_with ops e p t st") (simp add: abort_with_view)

lemma atomic_abort [simp]: "atomic_update ev tv e p Q (abort_with ops e p t st)"
  by (rule unchanged_atomic) simp

lemma atomic_commit:
  assumes "Q (tv t)"
  shows "atomic_update ev tv e p Q (commit_with ops e p t AGENTD_STATUS_SUCCESS)"
proof (cases "commit_with ops e p t AGENTD_STATUS_SUCCESS")
  case (fields st' e' p')
  then show ?thesis using commit_with_view [OF fields] assms by auto
qed

lemma unchanged_abort_or_parent [simp]:
  "begin_or_parent ops e p f = (0, t) \<Longrightarrow> unchanged ev tv e p (abort_or_parent ops e p t st)"
  by (cases p) simp_all

lemma fst_abort_or_parent [simp]: "fst (abort_or_parent ops e p t st) = st"
  by (cases p) simp_all

lemma unchanged_query [simp]: "unchanged ev tv e p (fst (query ops e p r0 f))"
proof -
  obtain rc t where beg: "begin_or_parent ops e p MDB_RDONLY = (rc, t)" by fastforce
  obtain st res where "f t = (st, res)" by fastforce
  then show ?thesis using beg by (cases "rc = 0") (simp_all add: query_def)
qed

lemma begin_or_parent_view: "begin_or_parent ops e p f = (0, t) \<Longrightarrow> tv t = view e p"
  by (cases p) (auto dest: begin_view)

end

context lmdb_reliable
begin

lemma begin_or_parent_reliable:
  obtains t where "begin_or_parent ops e p f = (0, t)" and "tv t = view e p"
proof (cases p)
  case None
  then show ?thesis using begin_reliable [of e None f] that by auto
next
  case (Some t)
  then show ?thesis using that by simp
qed

text \<open>A query on a store that does not fail sees the caller's contents.\<close>

lemma query_reliable:
  obtains t e' p' where "tv t = view e p"
    and "query ops e p r0 f = ((fst (f t), e', p'), snd (f t))"
proof -
  obtain t where t: "begin_or_parent ops e p MDB_RDONLY = (0, t)" "tv t = view e p"
    by (rule begin_or_parent_reliable)
  obtain e' p' where "abort_or_parent ops e p t (fst (f t)) = (fst (f t), e', p')"
    using fst_abort_or_parent [of e p t "fst (f t)"] by (metis prod.collapse)
  then show thesis using t that [of t e' p'] by (cases "f t") (simp add: query_def)
qed

lemma query_result:
  assumes "\<And>t. tv t = view e p \<Longrightarrow> f t = (st, r)"
  shows "\<exists>e' p'. query ops e p r0 f = ((st, e', p'), r)"
  using query_reliable [of e p r0 f] assms by (metis fst_conv snd_conv)

text \<open>A commit that cannot fail makes the transaction's view the caller's.\<close>

lemma commit_with_reliable:
  obtains e' p' where "commit_with ops e p t st = (st, e', p')" and "view e' p' = tv t"
    and "p' = None \<longleftrightarrow> p = None"
proof -
  obtain e' p' where "mdb_txn_commit ops e p t = (0, e', p')" and "view e' p' = tv t"
    by (rule commit_reliable)
  then show thesis using that commit_parent by (simp add: commit_with_def)
qed

lemma commit_or_parent_reliable:
  obtains e' p' where "commit_or_parent ops e p t st = (st, e', p')" and "view e' p' = tv t"
    and "p' = None \<longleftrightarrow> p = None"
proof (cases p)
  case None
  then show ?thesis using commit_with_reliable [of e None t st] that by auto
next
  case (Some q)
  then show ?thesis using that by simp
qed

end

end
