(* ===== verification/Ds_Queue.thy ===== *)
theory Ds_Queue
  imports Ds_Txn
begin

text \<open>
  The process queue of the data service: a doubly linked list of transaction
  nodes kept in the \<open>pq_db\<close> database, with a sentinel under the all-zero key at
  its start and one under the all-0xFF key at its end.  The operations are those
  of \<^verbatim>\<open>dataservice_transaction_submit.c\<close>, \<^verbatim>\<open>_drop.c\<close>, \<^verbatim>\<open>_promote.c\<close>, \<^verbatim>\<open>_get.c\<close> and
  \<^verbatim>\<open>_get_first.c\<close>.
  A value read from the store is used as it was read.  The C code keeps a pointer into the
  memory map: in a submission that of the end node, which it follows after later updates of
  the same transaction, although LMDB documents it as valid only until the next update.
\<close>

subsection \<open>Submitting\<close>

definition dataservice_transaction_submit_create_queue ::
  "('e, 't) lmdb \<Rightarrow> mdb_dbi \<Rightarrow> 't \<Rightarrow> bytes \<Rightarrow> status \<times> 't" where
  "dataservice_transaction_submit_create_queue ops pq txn txn_id =
     (let start_node = txn_node_zero\<lparr>node_next := txn_id\<rparr>;
          end_node = txn_node_zero\<lparr>node_key := ff_uuid, node_next := ff_uuid, node_prev := txn_id\<rparr>
      in case mdb_put ops txn pq (node_key start_node) (txn_node_bytes start_node) 0 of (rc, txn) \<Rightarrow>
         if rc \<noteq> 0 then (AGENTD_ERROR_DATASERVICE_MDB_PUT_FAILURE, txn) else
         case mdb_put ops txn pq (node_key end_node) (txn_node_bytes end_node) 0 of (rc, txn) \<Rightarrow>
         if rc \<noteq> 0 then (AGENTD_ERROR_DATASERVICE_MDB_PUT_FAILURE, txn)
         else (AGENTD_STATUS_SUCCESS, txn))"

text \<open>
  The size of the copy is taken from the size field of the stored node, not from
  the size of the stored value; an access outside the value or the copy is
  undefined (\<open>None\<close>).
\<close>

definition dataservice_transaction_submit_update_prev ::
  "('e, 't) lmdb \<Rightarrow> bool \<Rightarrow> mdb_dbi \<Rightarrow> 't \<Rightarrow> bytes \<Rightarrow> bytes \<Rightarrow> (status \<times> 't) option" where
  "dataservice_transaction_submit_update_prev ops malloc_ok pq txn txn_id prev =
     (case mdb_get_lval ops txn pq prev of (rc, lval) \<Rightarrow>
      if rc \<noteq> 0 then Some (AGENTD_ERROR_DATASERVICE_MDB_GET_FAILURE, txn) else
      if length lval < offsetof_net_txn_cert_size + 8 then None else
      let prev_size = unat (of_nat sizeof_txn_node + ntohll (of_mem64 (slice offsetof_net_txn_cert_size 8 lval))) in
      if \<not> malloc_ok then Some (AGENTD_ERROR_GENERAL_OUT_OF_MEMORY, txn) else
      if length lval < prev_size \<or> prev_size < offsetof_node_next + 16 then None else
      let node = store_at offsetof_node_next txn_id (take prev_size lval) in
      case mdb_put ops txn pq prev node 0 of (rc, txn) \<Rightarrow>
      Some (if rc \<noteq> 0 then AGENTD_ERROR_DATASERVICE_MDB_PUT_FAILURE else AGENTD_STATUS_SUCCESS, txn))"

definition dataservice_transaction_submit_update_end ::
  "('e, 't) lmdb \<Rightarrow> mdb_dbi \<Rightarrow> 't \<Rightarrow> bytes \<Rightarrow> data_transaction_node \<Rightarrow> status \<times> 't" where
  "dataservice_transaction_submit_update_end ops pq txn txn_id curr_end =
     (let end_node = curr_end\<lparr>node_prev := txn_id\<rparr>
      in case mdb_put ops txn pq (node_key end_node) (txn_node_bytes end_node) 0 of (rc, txn) \<Rightarrow>
         if rc \<noteq> 0 then (AGENTD_ERROR_DATASERVICE_MDB_PUT_FAILURE, txn)
         else (AGENTD_STATUS_SUCCESS, txn))"

text \<open>The node that is inserted; \<open>attestation\<close> is the build option of that name.\<close>

definition submit_newnode :: "bool \<Rightarrow> bytes \<Rightarrow> bytes \<Rightarrow> bytes \<Rightarrow> bytes \<Rightarrow> data_transaction_node" where
  "submit_newnode attestation txn_id artifact_id prev txn_bytes =
     txn_node_zero\<lparr>node_key := txn_id, node_next := ff_uuid, node_artifact_id := artifact_id,
       net_txn_cert_size := htonll (of_nat (length txn_bytes)),
       net_txn_state := htonl (if attestation then DATASERVICE_TRANSACTION_NODE_STATE_SUBMITTED
                               else DATASERVICE_TRANSACTION_NODE_STATE_ATTESTED),
       node_prev := prev\<rparr>"

definition dataservice_transaction_submit ::
  "('e, 't) lmdb \<Rightarrow> bool \<Rightarrow> (nat \<Rightarrow> bool) \<Rightarrow> dataservice_child_context \<Rightarrow> 'e \<Rightarrow> 't option \<Rightarrow>
     bytes \<Rightarrow> bytes \<Rightarrow> bytes \<Rightarrow> (status \<times> 'e \<times> 't option) option" where
  "dataservice_transaction_submit ops attestation malloc_ok child e parent txn_id artifact_id txn_bytes =
     (if \<not> BITCAP_ISSET (childcaps child) DATASERVICE_API_CAP_APP_PQ_TRANSACTION_SUBMIT
      then Some (AGENTD_ERROR_DATASERVICE_NOT_AUTHORIZED, e, parent) else
      case mdb_txn_begin ops e parent 0 of (rc, txn) \<Rightarrow>
      if rc \<noteq> 0 then Some (AGENTD_ERROR_DATASERVICE_MDB_TXN_BEGIN_FAILURE, e, parent) else
      case mdb_get_lval ops txn pq_db ff_uuid of (rc, lval) \<Rightarrow>
      let queue_initialized = (rc = 0); end_node = txn_node_of lval in
      if rc = 0 \<and> length lval < sizeof_txn_node
      then Some (abort_with ops e parent txn AGENTD_ERROR_DATASERVICE_INVALID_STORED_TRANSACTION_NODE) else
      if rc \<noteq> 0 \<and> rc \<noteq> MDB_NOTFOUND
      then Some (abort_with ops e parent txn AGENTD_ERROR_DATASERVICE_MDB_GET_FAILURE) else
      if \<not> malloc_ok 0 then Some (abort_with ops e parent txn AGENTD_ERROR_GENERAL_OUT_OF_MEMORY) else
      let prev = (if queue_initialized then node_prev end_node else zero_uuid);
          newnode = submit_newnode attestation txn_id artifact_id prev txn_bytes in
      case mdb_put ops txn pq_db (node_key newnode) (txn_node_bytes newnode @ txn_bytes) MDB_NOOVERWRITE of (rc, txn) \<Rightarrow>
      if rc \<noteq> 0 then Some (abort_with ops e parent txn AGENTD_ERROR_DATASERVICE_MDB_PUT_FAILURE) else
      if \<not> queue_initialized then
        (case dataservice_transaction_submit_create_queue ops pq_db txn txn_id of (st, txn) \<Rightarrow>
         if st \<noteq> AGENTD_STATUS_SUCCESS then Some (abort_with ops e parent txn st)
         else Some (commit_with ops e parent txn AGENTD_STATUS_SUCCESS))
      else
        (case dataservice_transaction_submit_update_prev ops (malloc_ok 1) pq_db txn txn_id (node_prev end_node) of
           None \<Rightarrow> None
         | Some (st, txn) \<Rightarrow>
             if st \<noteq> AGENTD_STATUS_SUCCESS then Some (abort_with ops e parent txn st) else
             (case dataservice_transaction_submit_update_end ops pq_db txn txn_id end_node of (st, txn) \<Rightarrow>
              if st \<noteq> AGENTD_STATUS_SUCCESS then Some (abort_with ops e parent txn st)
              else Some (commit_with ops e parent txn AGENTD_STATUS_SUCCESS))))"

subsection \<open>Dropping\<close>

definition dataservice_transaction_drop_fixup_prev_next ::
  "('e, 't) lmdb \<Rightarrow> (nat \<Rightarrow> bool) \<Rightarrow> 't \<Rightarrow> mdb_dbi \<Rightarrow> data_transaction_node \<Rightarrow> status \<times> 't" where
  "dataservice_transaction_drop_fixup_prev_next ops malloc_ok del_txn pq node =
     (case mdb_get_lval ops del_txn pq (node_prev node) of (rc, lval) \<Rightarrow>
      if rc \<noteq> 0 \<or> length lval < sizeof_txn_node then (AGENTD_ERROR_DATASERVICE_MDB_GET_FAILURE, del_txn) else
      if \<not> malloc_ok 0 then (AGENTD_ERROR_GENERAL_OUT_OF_MEMORY, del_txn) else
      let prev_buffer = store_at offsetof_node_next (node_next node) lval in
      case mdb_put ops del_txn pq (node_prev node) prev_buffer 0 of (rc, del_txn) \<Rightarrow>
      if rc \<noteq> 0 then (AGENTD_ERROR_DATASERVICE_MDB_PUT_FAILURE, del_txn) else
      case mdb_get_lval ops del_txn pq (node_next node) of (rc, lval) \<Rightarrow>
      if rc \<noteq> 0 \<or> length lval < sizeof_txn_node then (AGENTD_ERROR_DATASERVICE_MDB_GET_FAILURE, del_txn) else
      if \<not> malloc_ok 1 then (AGENTD_ERROR_GENERAL_OUT_OF_MEMORY, del_txn) else
      let next_buffer = store_at offsetof_node_prev (node_prev node) lval in
      case mdb_put ops del_txn pq (node_next node) next_buffer 0 of (rc, del_txn) \<Rightarrow>
      if rc \<noteq> 0 then (AGENTD_ERROR_DATASERVICE_MDB_PUT_FAILURE, del_txn)
      else (AGENTD_STATUS_SUCCESS, del_txn))"

definition dataservice_transaction_drop_internal ::
  "('e, 't) lmdb \<Rightarrow> (nat \<Rightarrow> bool) \<Rightarrow> 'e \<Rightarrow> 't option \<Rightarrow> bytes \<Rightarrow> status \<times> 'e \<times> 't option" where
  "dataservice_transaction_drop_internal ops malloc_ok e parent txn_id =
     (if txn_id = zero_uuid \<or> txn_id = ff_uuid
      then (AGENTD_ERROR_DATASERVICE_NOT_FOUND, e, parent) else
      case begin_or_parent ops e parent 0 of (rc, del_txn) \<Rightarrow>
      if rc \<noteq> 0 then (AGENTD_ERROR_DATASERVICE_MDB_TXN_BEGIN_FAILURE, e, parent) else
      case mdb_get_lval ops del_txn pq_db txn_id of (rc, lval) \<Rightarrow>
      if rc = MDB_NOTFOUND \<or> length lval < sizeof_txn_node
      then abort_or_parent ops e parent del_txn AGENTD_ERROR_DATASERVICE_NOT_FOUND else
      if rc \<noteq> 0 then abort_or_parent ops e parent del_txn AGENTD_ERROR_DATASERVICE_MDB_GET_FAILURE else
      let node = txn_node_of lval in
      case mdb_del ops del_txn pq_db txn_id of (rc, del_txn) \<Rightarrow>
      if rc = MDB_NOTFOUND
      then abort_or_parent ops e parent del_txn AGENTD_ERROR_DATASERVICE_NOT_FOUND else
      if rc \<noteq> 0 then abort_or_parent ops e parent del_txn AGENTD_ERROR_DATASERVICE_MDB_DEL_FAILURE else
      case dataservice_transaction_drop_fixup_prev_next ops malloc_ok del_txn pq_db node of (st, del_txn) \<Rightarrow>
      if st \<noteq> AGENTD_STATUS_SUCCESS then abort_or_parent ops e parent del_txn st
      else commit_or_parent ops e parent del_txn AGENTD_STATUS_SUCCESS)"

definition dataservice_transaction_drop ::
  "('e, 't) lmdb \<Rightarrow> (nat \<Rightarrow> bool) \<Rightarrow> dataservice_child_context \<Rightarrow> 'e \<Rightarrow> 't option \<Rightarrow> bytes \<Rightarrow>
     status \<times> 'e \<times> 't option" where
  "dataservice_transaction_drop ops malloc_ok child e parent txn_id =
     (if \<not> BITCAP_ISSET (childcaps child) DATASERVICE_API_CAP_APP_PQ_TRANSACTION_DROP
      then (AGENTD_ERROR_DATASERVICE_NOT_AUTHORIZED, e, parent)
      else dataservice_transaction_drop_internal ops malloc_ok e parent txn_id)"

subsection \<open>Promoting\<close>

definition dataservice_transaction_promote_internal ::
  "('e, 't) lmdb \<Rightarrow> bool \<Rightarrow> 'e \<Rightarrow> 't option \<Rightarrow> bytes \<Rightarrow> status \<times> 'e \<times> 't option" where
  "dataservice_transaction_promote_internal ops malloc_ok e parent txn_id =
     (if txn_id = zero_uuid \<or> txn_id = ff_uuid
      then (AGENTD_ERROR_DATASERVICE_NOT_FOUND, e, parent) else
      case begin_or_parent ops e parent 0 of (rc, update_txn) \<Rightarrow>
      if rc \<noteq> 0 then (AGENTD_ERROR_DATASERVICE_MDB_TXN_BEGIN_FAILURE, e, parent) else
      case mdb_get_lval ops update_txn pq_db txn_id of (rc, lval) \<Rightarrow>
      if rc = MDB_NOTFOUND \<or> length lval < sizeof_txn_node
      then abort_or_parent ops e parent update_txn AGENTD_ERROR_DATASERVICE_NOT_FOUND else
      if rc \<noteq> 0 then abort_or_parent ops e parent update_txn AGENTD_ERROR_DATASERVICE_MDB_GET_FAILURE else
      if \<not> malloc_ok then abort_or_parent ops e parent update_txn AGENTD_ERROR_GENERAL_OUT_OF_MEMORY else
      let new_buffer = store_at offsetof_net_txn_state
                         (mem32 (htonl DATASERVICE_TRANSACTION_NODE_STATE_ATTESTED)) lval in
      case mdb_put ops update_txn pq_db txn_id new_buffer 0 of (rc, update_txn) \<Rightarrow>
      if rc \<noteq> 0 then abort_or_parent ops e parent update_txn AGENTD_ERROR_DATASERVICE_MDB_PUT_FAILURE
      else commit_or_parent ops e parent update_txn AGENTD_STATUS_SUCCESS)"

definition dataservice_transaction_promote ::
  "('e, 't) lmdb \<Rightarrow> bool \<Rightarrow> dataservice_child_context \<Rightarrow> 'e \<Rightarrow> 't option \<Rightarrow> bytes \<Rightarrow>
     status \<times> 'e \<times> 't option" where
  "dataservice_transaction_promote ops malloc_ok child e parent txn_id =
     (if \<not> BITCAP_ISSET (childcaps child) DATASERVICE_API_CAP_APP_PQ_TRANSACTION_PROMOTE
      then (AGENTD_ERROR_DATASERVICE_NOT_AUTHORIZED, e, parent)
      else dataservice_transaction_promote_internal ops malloc_ok e parent txn_id)"

subsection \<open>Reading\<close>

text \<open>
  What the three node readers share once the entry has been read with result
  \<open>rc\<close>, \<open>lval\<close>: the checks of the stored value and the copy to the caller.  The
  copy is allocated only when there is no parent transaction.
\<close>

definition decode_txn_entry ::
  "bool \<Rightarrow> 't option \<Rightarrow> int \<times> bytes \<Rightarrow> status \<times> (data_transaction_node \<times> bytes) option" where
  "decode_txn_entry malloc_ok parent entry =
     (case entry of (rc, lval) \<Rightarrow>
      if rc = MDB_NOTFOUND then (AGENTD_ERROR_DATASERVICE_NOT_FOUND, None) else
      if rc \<noteq> 0 then (AGENTD_ERROR_DATASERVICE_MDB_GET_FAILURE, None) else
      if length lval \<le> sizeof_txn_node
      then (AGENTD_ERROR_DATASERVICE_INVALID_STORED_TRANSACTION_NODE, None) else
      let data_size = unat (ntohll (net_txn_cert_size (txn_node_of lval)));
          txn_size = length lval - sizeof_txn_node in
      if txn_size \<noteq> data_size
      then (AGENTD_ERROR_DATASERVICE_INVALID_STORED_TRANSACTION_NODE, None) else
      if parent = None \<and> \<not> malloc_ok then (AGENTD_ERROR_GENERAL_OUT_OF_MEMORY, None) else
      (AGENTD_STATUS_SUCCESS, Some (txn_node_of lval, drop sizeof_txn_node lval)))"

definition read_txn_node ::
  "('e, 't) lmdb \<Rightarrow> bool \<Rightarrow> mdb_dbi \<Rightarrow> 'e \<Rightarrow> 't option \<Rightarrow> bytes \<Rightarrow>
     (status \<times> 'e \<times> 't option) \<times> (data_transaction_node \<times> bytes) option" where
  "read_txn_node ops malloc_ok d e parent txn_id =
     query ops e parent None
       (\<lambda>txn. decode_txn_entry malloc_ok parent (mdb_get_lval ops txn d txn_id))"

definition dataservice_transaction_get ::
  "('e, 't) lmdb \<Rightarrow> bool \<Rightarrow> dataservice_child_context \<Rightarrow> 'e \<Rightarrow> 't option \<Rightarrow> bytes \<Rightarrow>
     (status \<times> 'e \<times> 't option) \<times> (data_transaction_node \<times> bytes) option" where
  "dataservice_transaction_get ops malloc_ok child e parent txn_id =
     (if \<not> BITCAP_ISSET (childcaps child) DATASERVICE_API_CAP_APP_PQ_TRANSACTION_READ
      then ((AGENTD_ERROR_DATASERVICE_NOT_AUTHORIZED, e, parent), None)
      else read_txn_node ops malloc_ok pq_db e parent txn_id)"

definition dataservice_transaction_get_first ::
  "('e, 't) lmdb \<Rightarrow> bool \<Rightarrow> dataservice_child_context \<Rightarrow> 'e \<Rightarrow> 't option \<Rightarrow>
     (status \<times> 'e \<times> 't option) \<times> (data_transaction_node \<times> bytes) option" where
  "dataservice_transaction_get_first ops malloc_ok child e parent =
     (if \<not> BITCAP_ISSET (childcaps child) DATASERVICE_API_CAP_APP_PQ_TRANSACTION_FIRST_READ
      then ((AGENTD_ERROR_DATASERVICE_NOT_AUTHORIZED, e, parent), None) else
      case mdb_txn_begin ops e parent (if parent \<noteq> None then 0 else MDB_RDONLY) of (rc, txn) \<Rightarrow>
      if rc \<noteq> 0 then ((AGENTD_ERROR_DATASERVICE_MDB_TXN_BEGIN_FAILURE, e, parent), None) else
      case mdb_get_lval ops txn pq_db zero_uuid of (rc, lval) \<Rightarrow>
      if rc = MDB_NOTFOUND
      then (abort_with ops e parent txn AGENTD_ERROR_DATASERVICE_NOT_FOUND, None) else
      if rc \<noteq> 0 then (abort_with ops e parent txn AGENTD_ERROR_DATASERVICE_MDB_GET_FAILURE, None) else
      if length lval < sizeof_txn_node
      then (abort_with ops e parent txn AGENTD_ERROR_DATASERVICE_INVALID_STORED_TRANSACTION_NODE, None) else
      let first_node = txn_node_of lval in
      if node_next first_node = ff_uuid
      then (abort_with ops e parent txn AGENTD_ERROR_DATASERVICE_NOT_FOUND, None) else
      case mdb_txn_abort ops e parent txn of (e, parent) \<Rightarrow>
      read_txn_node ops malloc_ok pq_db e parent (node_next first_node))"

end
