(* ===== verification/Ds_Read.thy ===== *)
theory Ds_Read
  imports Ds_Queue
begin

text \<open>
  Global settings, the readers of the block, transaction, artifact and height
  databases, and the transaction contexts handed to callers.  The identifier of
  the root block, \<^verbatim>\<open>vccert_certificate_type_uuid_root_block\<close>, is defined in the
  certificate library and is the parameter \<open>root_block\<close>.
\<close>

subsection \<open>Global settings\<close>

text \<open>
  The key is stored in host order.  The result is the status, the size written
  back to the caller and the value copied into the buffer.
\<close>

definition dataservice_global_settings_get ::
  "('e, 't) lmdb \<Rightarrow> dataservice_child_context \<Rightarrow> 'e \<Rightarrow> 64 word \<Rightarrow> nat \<Rightarrow>
     (status \<times> 'e \<times> 't option) \<times> nat \<times> bytes option" where
  "dataservice_global_settings_get ops child e key size0 =
     (if \<not> BITCAP_ISSET (childcaps child) DATASERVICE_API_CAP_APP_GLOBAL_SETTING_READ
      then ((AGENTD_ERROR_DATASERVICE_NOT_AUTHORIZED, e, None), size0, None)
      else query ops e None (size0, None)
        (\<lambda>txn. case mdb_get_lval ops txn global_db (mem64 key) of (rc, lval) \<Rightarrow>
          if rc = MDB_NOTFOUND then (AGENTD_ERROR_DATASERVICE_NOT_FOUND, size0, None) else
          if rc \<noteq> 0 then (AGENTD_ERROR_DATASERVICE_MDB_GET_FAILURE, size0, None) else
          if size0 < length lval then (AGENTD_ERROR_DATASERVICE_WOULD_TRUNCATE, length lval, None)
          else (AGENTD_STATUS_SUCCESS, length lval, Some lval)))"

text \<open>
  A failed commit is followed by an abort of the same handle, which LMDB has
  already freed: undefined behaviour (\<open>None\<close>).
\<close>

definition dataservice_global_settings_set ::
  "('e, 't) lmdb \<Rightarrow> dataservice_child_context \<Rightarrow> 'e \<Rightarrow> 64 word \<Rightarrow> bytes \<Rightarrow>
     (status \<times> 'e \<times> 't option) option" where
  "dataservice_global_settings_set ops child e key buffer =
     (if \<not> BITCAP_ISSET (childcaps child) DATASERVICE_API_CAP_APP_GLOBAL_SETTING_WRITE
      then Some (AGENTD_ERROR_DATASERVICE_NOT_AUTHORIZED, e, None) else
      case mdb_txn_begin ops e None 0 of (rc, txn) \<Rightarrow>
      if rc \<noteq> 0 then Some (AGENTD_ERROR_DATASERVICE_MDB_TXN_BEGIN_FAILURE, e, None) else
      case mdb_put ops txn global_db (mem64 key) buffer 0 of (rc, txn) \<Rightarrow>
      if rc \<noteq> 0 then Some (abort_with ops e None txn AGENTD_ERROR_DATASERVICE_MDB_PUT_FAILURE) else
      case mdb_txn_commit ops e None txn of (rc, e', p') \<Rightarrow>
      if rc \<noteq> 0 then None else Some (AGENTD_STATUS_SUCCESS, e', p'))"

subsection \<open>Canonized transactions\<close>

definition dataservice_block_transaction_get ::
  "('e, 't) lmdb \<Rightarrow> bool \<Rightarrow> dataservice_child_context \<Rightarrow> 'e \<Rightarrow> 't option \<Rightarrow> bytes \<Rightarrow>
     (status \<times> 'e \<times> 't option) \<times> (data_transaction_node \<times> bytes) option" where
  "dataservice_block_transaction_get ops malloc_ok child e parent txn_id =
     (if \<not> BITCAP_ISSET (childcaps child) DATASERVICE_API_CAP_APP_TRANSACTION_READ
      then ((AGENTD_ERROR_DATASERVICE_NOT_AUTHORIZED, e, parent), None)
      else read_txn_node ops malloc_ok txn_db e parent txn_id)"

definition dataservice_canonized_transaction_get ::
  "('e, 't) lmdb \<Rightarrow> bool \<Rightarrow> dataservice_child_context \<Rightarrow> 'e \<Rightarrow> 't option \<Rightarrow> bytes \<Rightarrow>
     (status \<times> 'e \<times> 't option) \<times> (data_transaction_node \<times> bytes) option" where
  "dataservice_canonized_transaction_get ops malloc_ok child e parent txn_id =
     (if \<not> BITCAP_ISSET (childcaps child) DATASERVICE_API_CAP_APP_TRANSACTION_READ
      then ((AGENTD_ERROR_DATASERVICE_NOT_AUTHORIZED, e, parent), None)
      else read_txn_node ops malloc_ok txn_db e parent txn_id)"

subsection \<open>Artifacts\<close>

definition dataservice_artifact_get ::
  "('e, 't) lmdb \<Rightarrow> dataservice_child_context \<Rightarrow> 'e \<Rightarrow> 't option \<Rightarrow> bytes \<Rightarrow>
     (status \<times> 'e \<times> 't option) \<times> data_artifact_record option" where
  "dataservice_artifact_get ops child e parent artifact_id =
     (if \<not> BITCAP_ISSET (childcaps child) DATASERVICE_API_CAP_APP_ARTIFACT_READ
      then ((AGENTD_ERROR_DATASERVICE_NOT_AUTHORIZED, e, parent), None)
      else query ops e parent None
        (\<lambda>txn. case mdb_get_lval ops txn artifact_db artifact_id of (rc, lval) \<Rightarrow>
          if rc = MDB_NOTFOUND then (AGENTD_ERROR_DATASERVICE_NOT_FOUND, None) else
          if rc \<noteq> 0 then (AGENTD_ERROR_DATASERVICE_MDB_GET_FAILURE, None) else
          if length lval \<noteq> sizeof_artifact_record
          then (AGENTD_ERROR_DATASERVICE_INVALID_ARTIFACT_NODE_SIZE, None)
          else (AGENTD_STATUS_SUCCESS, Some (artifact_record_of lval))))"

subsection \<open>Blocks\<close>

definition dataservice_block_get ::
  "('e, 't) lmdb \<Rightarrow> bytes \<Rightarrow> bool \<Rightarrow> dataservice_child_context \<Rightarrow> 'e \<Rightarrow> 't option \<Rightarrow> bytes \<Rightarrow>
     (status \<times> 'e \<times> 't option) \<times> (data_block_node \<times> bytes) option" where
  "dataservice_block_get ops root_block malloc_ok child e parent block_id =
     (if \<not> BITCAP_ISSET (childcaps child) DATASERVICE_API_CAP_APP_BLOCK_READ
      then ((AGENTD_ERROR_DATASERVICE_NOT_AUTHORIZED, e, parent), None)
      else query ops e parent None
        (\<lambda>txn. case mdb_get_lval ops txn block_db block_id of (rc, lval) \<Rightarrow>
          let skip_cert = (rc = MDB_NOTFOUND \<and> block_id = root_block) in
          case (if skip_cert then mdb_get_lval ops txn block_db zero_uuid else (rc, lval)) of (rc, lval) \<Rightarrow>
          if rc = MDB_NOTFOUND then (AGENTD_ERROR_DATASERVICE_NOT_FOUND, None) else
          if rc \<noteq> 0 then (AGENTD_ERROR_DATASERVICE_MDB_GET_FAILURE, None) else
          if (\<not> skip_cert \<and> length lval \<le> sizeof_block_node) \<or> (skip_cert \<and> length lval < sizeof_block_node)
          then (AGENTD_ERROR_DATASERVICE_INVALID_STORED_BLOCK_NODE, None) else
          let data_size = unat (ntohll (net_block_cert_size (block_node_of lval)));
              block_size = length lval - sizeof_block_node in
          if block_size \<noteq> data_size then (AGENTD_ERROR_DATASERVICE_INVALID_STORED_BLOCK_NODE, None) else
          if parent = None \<and> \<not> malloc_ok then (AGENTD_ERROR_GENERAL_OUT_OF_MEMORY, None) else
          (AGENTD_STATUS_SUCCESS, Some (block_node_of lval, drop sizeof_block_node lval))))"

definition dataservice_block_id_by_height_get ::
  "('e, 't) lmdb \<Rightarrow> dataservice_child_context \<Rightarrow> 'e \<Rightarrow> 't option \<Rightarrow> 64 word \<Rightarrow>
     (status \<times> 'e \<times> 't option) \<times> bytes option" where
  "dataservice_block_id_by_height_get ops child e parent height =
     (if \<not> BITCAP_ISSET (childcaps child) DATASERVICE_API_CAP_APP_BLOCK_ID_BY_HEIGHT_READ
      then ((AGENTD_ERROR_DATASERVICE_NOT_AUTHORIZED, e, parent), None)
      else query ops e parent None
        (\<lambda>txn. case mdb_get_lval ops txn height_db (mem64 (htonll height)) of (rc, lval) \<Rightarrow>
          if rc = MDB_NOTFOUND then (AGENTD_ERROR_DATASERVICE_NOT_FOUND, None) else
          if rc \<noteq> 0 then (AGENTD_ERROR_DATASERVICE_MDB_GET_FAILURE, None) else
          if length lval \<noteq> 16 then (AGENTD_ERROR_DATASERVICE_INVALID_INDEX_ENTRY, None)
          else (AGENTD_STATUS_SUCCESS, Some lval)))"

definition dataservice_latest_block_id_get ::
  "('e, 't) lmdb \<Rightarrow> bytes \<Rightarrow> dataservice_child_context \<Rightarrow> 'e \<Rightarrow> 't option \<Rightarrow>
     (status \<times> 'e \<times> 't option) \<times> bytes option" where
  "dataservice_latest_block_id_get ops root_block child e parent =
     (if \<not> BITCAP_ISSET (childcaps child) DATASERVICE_API_CAP_APP_BLOCK_ID_LATEST_READ
      then ((AGENTD_ERROR_DATASERVICE_NOT_AUTHORIZED, e, parent), None)
      else query ops e parent None
        (\<lambda>txn. case mdb_get_lval ops txn block_db ff_uuid of (rc, lval) \<Rightarrow>
          if rc = MDB_NOTFOUND then (AGENTD_STATUS_SUCCESS, Some root_block) else
          if rc \<noteq> 0 then (AGENTD_ERROR_DATASERVICE_MDB_GET_FAILURE, None) else
          if length lval \<noteq> sizeof_block_node then (AGENTD_ERROR_DATASERVICE_INVALID_INDEX_ENTRY, None)
          else (AGENTD_STATUS_SUCCESS, Some (block_prev (block_node_of lval)))))"

subsection \<open>Transaction contexts\<close>

text \<open>
  The structure is cleared before the transaction is begun, and the status is
  set to success whatever \<^verbatim>\<open>mdb_txn_begin\<close> returned.
\<close>

definition dataservice_data_txn_begin ::
  "('e, 't) lmdb \<Rightarrow> 'e \<Rightarrow> 't option \<Rightarrow> bool \<Rightarrow> status \<times> 't option" where
  "dataservice_data_txn_begin ops e ptxn read_only =
     (case (if ptxn = None \<and> read_only then mdb_txn_begin ops e None MDB_RDONLY
            else mdb_txn_begin ops e ptxn 0) of (rc, t) \<Rightarrow>
      let txn = (if rc = 0 then Some t else None);
          retval = (if rc \<noteq> 0 then AGENTD_ERROR_DATASERVICE_MDB_TXN_BEGIN_FAILURE else 0);
          retval = AGENTD_STATUS_SUCCESS
      in if retval \<noteq> AGENTD_STATUS_SUCCESS then (retval, None) else (retval, txn))"

definition dataservice_data_txn_commit :: "('e, 't) lmdb \<Rightarrow> 'e \<Rightarrow> 't option \<Rightarrow> 't \<Rightarrow> 'e \<times> 't option" where
  "dataservice_data_txn_commit ops e parent txn = snd (mdb_txn_commit ops e parent txn)"

definition dataservice_data_txn_abort :: "('e, 't) lmdb \<Rightarrow> 'e \<Rightarrow> 't option \<Rightarrow> 't \<Rightarrow> 'e \<times> 't option" where
  "dataservice_data_txn_abort ops e parent txn = mdb_txn_abort ops e parent txn"

subsection \<open>Settings behave like a map\<close>

context lmdb_store
begin

lemma settings_set_returned:
  assumes "dataservice_global_settings_set ops child e key b = Some (AGENTD_STATUS_SUCCESS, e', p')"
  shows "p' = None \<and> ev e' = (ev e)(global_db := (ev e global_db)(mem64 key \<mapsto> b))"
proof -
  obtain rc0 t0 where beg: "mdb_txn_begin ops e None 0 = (rc0, t0)" by fastforce
  obtain rc1 t1 where put: "mdb_put ops t0 global_db (mem64 key) b 0 = (rc1, t1)" by fastforce
  obtain rc2 e2 p2 where cm: "mdb_txn_commit ops e None t1 = (rc2, e2, p2)" by (metis prod.collapse)
  have ok: "rc0 = 0" "rc1 = 0" "rc2 = 0" "e2 = e'" "p2 = p'"
    using assms by (auto simp: dataservice_global_settings_set_def beg put cm abort_with_def
        split: if_splits prod.splits)
  have t0: "tv t0 = ev e" using begin_view [of e None 0 t0] beg ok by simp
  have "tv t1 = (ev e)(global_db := (ev e global_db)(mem64 key \<mapsto> b))"
    using put_view [of t0 global_db "mem64 key" b 0 t1] put ok t0 by simp
  moreover have "p' = None" using commit_parent [OF cm] ok by simp
  moreover have "base_view ev tv e' p' = tv t1" using commit_view [of e None t1 e' p'] cm ok by simp
  ultimately show ?thesis by simp
qed

lemma settings_get_unchanged: "unchanged ev tv e None (fst (dataservice_global_settings_get ops child e key n))"
  by (simp add: dataservice_global_settings_get_def)

end

context lmdb_reliable
begin

lemma settings_get_Some:
  assumes "ev e global_db (mem64 key) = Some b"
    and cap: "BITCAP_ISSET (childcaps child) DATASERVICE_API_CAP_APP_GLOBAL_SETTING_READ"
  shows "\<exists>e' p'. dataservice_global_settings_get ops child e key n =
     (if length b \<le> n then ((AGENTD_STATUS_SUCCESS, e', p'), length b, Some b)
      else ((AGENTD_ERROR_DATASERVICE_WOULD_TRUNCATE, e', p'), length b, None))"
proof -
  have "mdb_get_lval ops t global_db (mem64 key) = (0, b)" if "tv t = view e None" for t
    using assms(1) that by (simp add: lval_Some)
  then show ?thesis unfolding dataservice_global_settings_get_def using cap
    by (cases "length b \<le> n") (simp_all add: query_result)
qed

lemma settings_set_reliable:
  assumes "BITCAP_ISSET (childcaps child) DATASERVICE_API_CAP_APP_GLOBAL_SETTING_WRITE"
  shows "\<exists>e'. dataservice_global_settings_set ops child e key b = Some (AGENTD_STATUS_SUCCESS, e', None)"
proof -
  obtain t0 where beg: "mdb_txn_begin ops e None 0 = (0, t0)" by (rule begin_reliable)
  obtain t1 where put: "mdb_put ops t0 global_db (mem64 key) b 0 = (0, t1)" using put_zero by blast
  obtain e' p' where cm: "mdb_txn_commit ops e None t1 = (0, e', p')" by (rule commit_reliable)
  then have "p' = None" using commit_parent by blast
  then show ?thesis using assms beg put cm by (simp add: dataservice_global_settings_set_def)
qed

end

subsection \<open>Properties\<close>

text \<open>
  On a store that does not fail, a setting that was written is read back:
  its value when the caller's buffer has room for it, and otherwise
  \<^verbatim>\<open>AGENTD_ERROR_DATASERVICE_WOULD_TRUNCATE\<close> with the size that is needed.  The other
  settings keep their values.
\<close>

theorem settings_roundtrip:
  assumes "lmdb_reliable ops ev tv"
    and "BITCAP_ISSET (childcaps child) DATASERVICE_API_CAP_APP_GLOBAL_SETTING_READ"
    and "BITCAP_ISSET (childcaps child) DATASERVICE_API_CAP_APP_GLOBAL_SETTING_WRITE"
  shows "\<exists>e' e'' p''. dataservice_global_settings_set ops child e key val = Some (AGENTD_STATUS_SUCCESS, e', None) \<and>
     dataservice_global_settings_get ops child e' key len =
       (if length val \<le> len then ((AGENTD_STATUS_SUCCESS, e'', p''), length val, Some val)
        else ((AGENTD_ERROR_DATASERVICE_WOULD_TRUNCATE, e'', p''), length val, None)) \<and>
     (other \<noteq> key \<longrightarrow> ev e' global_db (mem64 other) = ev e global_db (mem64 other))"
proof -
  note st = lmdb_reliable.axioms(1) [OF assms(1)]
  obtain e' where s: "dataservice_global_settings_set ops child e key val = Some (AGENTD_STATUS_SUCCESS, e', None)"
    using lmdb_reliable.settings_set_reliable [OF assms(1,3)] by blast
  have v: "ev e' = (ev e)(global_db := (ev e global_db)(mem64 key \<mapsto> val))"
    using lmdb_store.settings_set_returned [OF st s] by blast
  have "ev e' global_db (mem64 key) = Some val" by (simp add: v)
  from lmdb_reliable.settings_get_Some [OF assms(1) this assms(2), of len] s v show ?thesis by auto
qed

theorem settings_roundtrip_witness:
  "\<exists>e' e'' p''. dataservice_global_settings_set mem_lmdb full_child (\<lambda>_. Map.empty) 7 [1, 2, 3] =
       Some (AGENTD_STATUS_SUCCESS, e', None) \<and>
     dataservice_global_settings_get mem_lmdb full_child e' 7 16384 = ((AGENTD_STATUS_SUCCESS, e'', p''), 3, Some [1, 2, 3])"
  using settings_roundtrip [OF mem.lmdb_reliable_axioms full_child_caps full_child_caps,
      of "\<lambda>_. Map.empty" 7 "[1, 2, 3]" 16384 8] by (auto simp: numeral_3_eq_3)

text \<open>
  \<^verbatim>\<open>dataservice_data_txn_begin\<close> reports success even when LMDB cannot begin the
  transaction; the caller is left with a context that has none.
\<close>

theorem data_txn_begin_failure_hidden:
  assumes "\<And>p f. fst (mdb_txn_begin ops e p f) \<noteq> 0"
  shows "dataservice_data_txn_begin ops e ptxn read_only = (AGENTD_STATUS_SUCCESS, None)"
  using assms [of None MDB_RDONLY] assms [of ptxn 0]
  by (auto simp: dataservice_data_txn_begin_def split: prod.splits)

theorem data_txn_begin_failure_hidden_witness:
  "dataservice_data_txn_begin (mem_lmdb\<lparr>mdb_txn_begin := \<lambda>e p f. (12, e)\<rparr>) (\<lambda>_. Map.empty) None False =
     (AGENTD_STATUS_SUCCESS, None)"
  by (rule data_txn_begin_failure_hidden) simp

text \<open>
  When the commit of a new setting fails, the call aborts the transaction that
  the commit has already freed: the behaviour is undefined.
\<close>

theorem settings_commit_failure_undefined:
  assumes "BITCAP_ISSET (childcaps child) DATASERVICE_API_CAP_APP_GLOBAL_SETTING_WRITE"
    and "mdb_txn_begin ops e None 0 = (0, t)" and "mdb_put ops t global_db (mem64 key) val 0 = (0, t')"
    and "fst (mdb_txn_commit ops e None t') \<noteq> 0"
  shows "dataservice_global_settings_set ops child e key val = None"
  using assms by (auto simp: dataservice_global_settings_set_def split: prod.splits)

theorem settings_commit_failure_undefined_witness:
  "dataservice_global_settings_set (mem_lmdb\<lparr>mdb_txn_commit := \<lambda>e p t. (28, e, p)\<rparr>) full_child (\<lambda>_. Map.empty) 7 [1] = None"
  by (rule settings_commit_failure_undefined [OF full_child_caps]) simp_all

end
