(* ===== verification/Ds_Block.thy ===== *)
theory Ds_Block
  imports Ds_Read
begin

text \<open>
  Making a block (\<^verbatim>\<open>src/src/dataservice/dataservice_block_make.c\<close>): the constraints
  the block certificate must meet, the insertion of the block into the chain of
  blocks and the height index, and, for each wrapped transaction, its move from
  the process queue to the transaction database with the update of its artifact.

  The certificate parser and the crypto suite are libraries outside the
  repository: \<open>vccert\<close> holds whether their initialisers succeed and, for a
  certificate and a field, the values of that field in the order in which
  \<^verbatim>\<open>vccert_parser_find_short\<close> and \<^verbatim>\<open>vccert_parser_find_next\<close> deliver them.

  The end node of the chain is used as it was read.  The C code keeps a pointer into the
  memory map and follows it after later updates of the same transaction, although LMDB
  documents it as valid only until the next update.
\<close>

datatype vccert_field =
    VCCERT_FIELD_TYPE_BLOCK_UUID
  | VCCERT_FIELD_TYPE_BLOCK_HEIGHT
  | VCCERT_FIELD_TYPE_PREVIOUS_BLOCK_UUID
  | VCCERT_FIELD_TYPE_WRAPPED_TRANSACTION_TUPLE
  | VCCERT_FIELD_TYPE_CERTIFICATE_ID
  | VCCERT_FIELD_TYPE_PREVIOUS_CERTIFICATE_ID
  | VCCERT_FIELD_TYPE_ARTIFACT_ID
  | VCCERT_FIELD_TYPE_NEW_ARTIFACT_STATE
  | VCCERT_FIELD_TYPE_CERTIFICATE_VERSION
  | VCCERT_FIELD_TYPE_CERTIFICATE_VALID_FROM
  | VCCERT_FIELD_TYPE_CERTIFICATE_CRYPTO_SUITE
  | VCCERT_FIELD_TYPE_CERTIFICATE_TYPE
  | VCCERT_FIELD_TYPE_PREVIOUS_BLOCK_HASH
  | VCCERT_FIELD_TYPE_SIGNER_ID
  | VCCERT_FIELD_TYPE_SIGNATURE

record vccert =
  vccrypt_suite_options_init_ok :: bool
  vccert_parser_options_simple_init_ok :: bool
  vccert_parser_init_ok :: "bytes \<Rightarrow> bool"
  vccert_fields :: "bytes \<Rightarrow> vccert_field \<Rightarrow> bytes list"

text \<open>\<^verbatim>\<open>vccert_parser_find_short\<close>: the first value of a field.\<close>

definition vccert_parser_find_short :: "vccert \<Rightarrow> bytes \<Rightarrow> vccert_field \<Rightarrow> bytes option" where
  "vccert_parser_find_short vc cert f =
     (case vccert_fields vc cert f of [] \<Rightarrow> None | x # _ \<Rightarrow> Some x)"

text \<open>A field that must be present with exactly \<open>n\<close> bytes.\<close>

definition find_sized :: "vccert \<Rightarrow> bytes \<Rightarrow> vccert_field \<Rightarrow> nat \<Rightarrow> bytes option" where
  "find_sized vc cert f n =
     (case vccert_parser_find_short vc cert f of None \<Rightarrow> None | Some x \<Rightarrow> if length x \<noteq> n then None else Some x)"

subsection \<open>Constraints\<close>

text \<open>The end node, when there is one, and the status.\<close>

definition query_end_node ::
  "('e, 't) lmdb \<Rightarrow> 't \<Rightarrow> mdb_dbi \<Rightarrow> status \<times> data_block_node option" where
  "query_end_node ops txn blocks =
     (case mdb_get_lval ops txn blocks ff_uuid of (rc, lval) \<Rightarrow>
      if rc = MDB_NOTFOUND then (AGENTD_STATUS_SUCCESS, None) else
      if rc = 0 then
        (if length lval < sizeof_block_node then (AGENTD_ERROR_DATASERVICE_INVALID_STORED_BLOCK_NODE, None)
         else (AGENTD_STATUS_SUCCESS, Some (block_node_of lval)))
      else (AGENTD_ERROR_DATASERVICE_MDB_GET_FAILURE, None))"

definition constraint_matching_block_height ::
  "vccert \<Rightarrow> bytes \<Rightarrow> data_block_node option \<Rightarrow> status \<times> 64 word" where
  "constraint_matching_block_height vc cert end_node =
     (let expected_block_height =
            (case end_node of Some n \<Rightarrow> 1 + ntohll (net_block_height n) | None \<Rightarrow> 1)
      in case find_sized vc cert VCCERT_FIELD_TYPE_BLOCK_HEIGHT 8 of
           None \<Rightarrow> (AGENTD_ERROR_DATASERVICE_MISSING_BLOCK_HEIGHT, expected_block_height)
         | Some block_height_raw \<Rightarrow>
             if ntohll (of_mem64 block_height_raw) \<noteq> expected_block_height
             then (AGENTD_ERROR_DATASERVICE_INVALID_BLOCK_HEIGHT, expected_block_height)
             else (AGENTD_STATUS_SUCCESS, expected_block_height))"

definition constraint_matching_prev_uuid ::
  "vccert \<Rightarrow> bytes \<Rightarrow> bytes \<Rightarrow> data_block_node option \<Rightarrow> status \<times> bytes" where
  "constraint_matching_prev_uuid vc root_block cert end_node =
     (let expected_prev_block_id = (case end_node of Some n \<Rightarrow> block_prev n | None \<Rightarrow> root_block)
      in case find_sized vc cert VCCERT_FIELD_TYPE_PREVIOUS_BLOCK_UUID 16 of
           None \<Rightarrow> (AGENTD_ERROR_DATASERVICE_MISSING_PREVIOUS_BLOCK_UUID, [])
         | Some block_prev_uuid \<Rightarrow>
             if block_prev_uuid \<noteq> expected_prev_block_id
             then (AGENTD_ERROR_DATASERVICE_INVALID_PREVIOUS_BLOCK_UUID, block_prev_uuid)
             else (AGENTD_STATUS_SUCCESS, block_prev_uuid))"

definition constraint_sane_block_uuid :: "vccert \<Rightarrow> bytes \<Rightarrow> bytes \<Rightarrow> bytes \<Rightarrow> status" where
  "constraint_sane_block_uuid vc root_block cert block_id =
     (case find_sized vc cert VCCERT_FIELD_TYPE_BLOCK_UUID 16 of
        None \<Rightarrow> AGENTD_ERROR_DATASERVICE_MISSING_BLOCK_UUID
      | Some cert_block_id \<Rightarrow>
          if block_id \<noteq> cert_block_id then AGENTD_ERROR_DATASERVICE_INVALID_BLOCK_UUID else
          if block_id = root_block then AGENTD_ERROR_DATASERVICE_INVALID_BLOCK_UUID else
          if block_id = zero_uuid then AGENTD_ERROR_DATASERVICE_INVALID_BLOCK_UUID else
          if block_id = ff_uuid then AGENTD_ERROR_DATASERVICE_INVALID_BLOCK_UUID else
          AGENTD_STATUS_SUCCESS)"

subsection \<open>The chain of blocks\<close>

definition dataservice_create_child_trasaction ::
  "('e, 't) lmdb \<Rightarrow> 'e \<Rightarrow> 't option \<Rightarrow> status \<times> 't option" where
  "dataservice_create_child_trasaction ops e parent =
     (case mdb_txn_begin ops e parent 0 of (rc, txn) \<Rightarrow>
      if rc \<noteq> 0 then (AGENTD_ERROR_DATASERVICE_MDB_TXN_BEGIN_FAILURE, None)
      else (AGENTD_STATUS_SUCCESS, Some txn))"

definition dataservice_block_make_create_queue ::
  "('e, 't) lmdb \<Rightarrow> mdb_dbi \<Rightarrow> 't \<Rightarrow> bytes \<Rightarrow> 64 word \<Rightarrow> status \<times> 't" where
  "dataservice_block_make_create_queue ops blocks txn block_id height =
     (let start = block_node_zero\<lparr>block_next := block_id\<rparr>;
          end_node = block_node_zero\<lparr>block_key := ff_uuid, block_next := ff_uuid, block_prev := block_id,
                                     net_block_height := htonll height\<rparr>
      in case mdb_put ops txn blocks (block_key start) (block_node_bytes start) 0 of (rc, txn) \<Rightarrow>
         if rc \<noteq> 0 then (AGENTD_ERROR_DATASERVICE_MDB_PUT_FAILURE, txn) else
         case mdb_put ops txn blocks (block_key end_node) (block_node_bytes end_node) 0 of (rc, txn) \<Rightarrow>
         if rc \<noteq> 0 then (AGENTD_ERROR_DATASERVICE_MDB_PUT_FAILURE, txn)
         else (AGENTD_STATUS_SUCCESS, txn))"

text \<open>As for the process queue, the copy's size comes from the stored size field.\<close>

definition dataservice_block_make_update_prev ::
  "('e, 't) lmdb \<Rightarrow> bool \<Rightarrow> mdb_dbi \<Rightarrow> 't \<Rightarrow> bytes \<Rightarrow> bytes \<Rightarrow> (status \<times> 't) option" where
  "dataservice_block_make_update_prev ops malloc_ok blocks txn block_id prev =
     (case mdb_get_lval ops txn blocks prev of (rc, lval) \<Rightarrow>
      if rc \<noteq> 0 then Some (AGENTD_ERROR_DATASERVICE_MDB_GET_FAILURE, txn) else
      if length lval < offsetof_net_block_cert_size + 8 then None else
      let prev_size = unat (of_nat sizeof_block_node + ntohll (of_mem64 (slice offsetof_net_block_cert_size 8 lval))) in
      if \<not> malloc_ok then Some (AGENTD_ERROR_GENERAL_OUT_OF_MEMORY, txn) else
      if length lval < prev_size \<or> prev_size < offsetof_block_next + 16 then None else
      let node = store_at offsetof_block_next block_id (take prev_size lval) in
      case mdb_put ops txn blocks prev node 0 of (rc, txn) \<Rightarrow>
      Some (if rc \<noteq> 0 then AGENTD_ERROR_DATASERVICE_MDB_PUT_FAILURE else AGENTD_STATUS_SUCCESS, txn))"

definition dataservice_block_make_update_end ::
  "('e, 't) lmdb \<Rightarrow> mdb_dbi \<Rightarrow> 't \<Rightarrow> bytes \<Rightarrow> 64 word \<Rightarrow> data_block_node \<Rightarrow> status \<times> 't" where
  "dataservice_block_make_update_end ops blocks txn block_id height curr_end =
     (let end_node = curr_end\<lparr>block_prev := block_id, net_block_height := htonll height\<rparr>
      in case mdb_put ops txn blocks (block_key end_node) (block_node_bytes end_node) 0 of (rc, txn) \<Rightarrow>
         if rc \<noteq> 0 then (AGENTD_ERROR_DATASERVICE_MDB_PUT_FAILURE, txn)
         else (AGENTD_STATUS_SUCCESS, txn))"

definition make_blocknode :: "bytes \<Rightarrow> bytes \<Rightarrow> bytes \<Rightarrow> 64 word \<Rightarrow> bytes \<Rightarrow> data_block_node" where
  "make_blocknode block_id block_prev_id first_child_txn_id block_height block_data =
     block_node_zero\<lparr>block_key := block_id, block_next := ff_uuid, block_prev := block_prev_id,
       first_transaction_id := first_child_txn_id, net_block_height := htonll block_height,
       net_block_cert_size := htonll (of_nat (length block_data))\<rparr>"

definition dataservice_make_block_insert_block ::
  "('e, 't) lmdb \<Rightarrow> bool \<Rightarrow> mdb_dbi \<Rightarrow> mdb_dbi \<Rightarrow> 't \<Rightarrow> bytes \<Rightarrow> bytes \<Rightarrow> bytes \<Rightarrow> 64 word \<Rightarrow> bytes \<Rightarrow>
     status \<times> 't" where
  "dataservice_make_block_insert_block ops malloc_ok blocks heights txn block_id block_prev_id
       first_child_txn_id block_height block_data =
     (if \<not> malloc_ok then (AGENTD_ERROR_GENERAL_OUT_OF_MEMORY, txn) else
      let blocknode = make_blocknode block_id block_prev_id first_child_txn_id block_height block_data in
      case mdb_put ops txn blocks (block_key blocknode) (block_node_bytes blocknode @ block_data)
             MDB_NOOVERWRITE of (rc, txn) \<Rightarrow>
      if rc \<noteq> 0 then (AGENTD_ERROR_DATASERVICE_MDB_PUT_FAILURE, txn) else
      case mdb_put ops txn heights (mem64 (net_block_height blocknode)) (block_key blocknode)
             MDB_NOOVERWRITE of (rc, txn) \<Rightarrow>
      if rc \<noteq> 0 then (AGENTD_ERROR_DATASERVICE_MDB_PUT_FAILURE, txn)
      else (AGENTD_STATUS_SUCCESS, txn))"

subsection \<open>The transactions of a block\<close>

definition dataservice_make_block_get_first_transaction_id :: "vccert \<Rightarrow> bytes \<Rightarrow> status \<times> bytes" where
  "dataservice_make_block_get_first_transaction_id vc txn_cert =
     (if \<not> vccert_parser_init_ok vc txn_cert
      then (AGENTD_ERROR_DATASERVICE_VCCERT_PARSER_INIT_FAILURE, [])
      else case find_sized vc txn_cert VCCERT_FIELD_TYPE_CERTIFICATE_ID 16 of
             None \<Rightarrow> (AGENTD_ERROR_DATASERVICE_MISSING_CHILD_TRANSACTION_UUID, [])
           | Some transaction_id \<Rightarrow> (AGENTD_STATUS_SUCCESS, transaction_id))"

definition dataservice_block_make_update_prev_txn ::
  "('e, 't) lmdb \<Rightarrow> bool \<Rightarrow> mdb_dbi \<Rightarrow> 't \<Rightarrow> bytes \<Rightarrow> bytes \<Rightarrow> status \<times> 't" where
  "dataservice_block_make_update_prev_txn ops malloc_ok txns txn txn_id next_txn_id =
     (case mdb_get_lval ops txn txns txn_id of (rc, lval) \<Rightarrow>
      if rc \<noteq> 0 \<or> length lval < sizeof_txn_node then (AGENTD_ERROR_DATASERVICE_MDB_GET_FAILURE, txn) else
      if \<not> malloc_ok then (AGENTD_ERROR_GENERAL_OUT_OF_MEMORY, txn) else
      let rec0 = store_at offsetof_node_next next_txn_id lval in
      case mdb_put ops txn txns txn_id rec0 0 of (rc, txn) \<Rightarrow>
      if rc \<noteq> 0 then (AGENTD_ERROR_DATASERVICE_MDB_PUT_FAILURE, txn)
      else (AGENTD_STATUS_SUCCESS, txn))"

definition dataservice_block_make_update_artifact ::
  "('e, 't) lmdb \<Rightarrow> mdb_dbi \<Rightarrow> 't \<Rightarrow> bytes \<Rightarrow> bytes \<Rightarrow> 64 word \<Rightarrow> 32 word \<Rightarrow> status \<times> 't" where
  "dataservice_block_make_update_artifact ops artifacts txn artifact_id transaction_id height state =
     (case mdb_get_lval ops txn artifacts artifact_id of (rc, lval) \<Rightarrow>
      if rc = MDB_NOTFOUND then
        let record0 = \<lparr> artifact_key = artifact_id, txn_first = transaction_id, txn_latest = transaction_id,
                        net_height_first = htonll height, net_height_latest = htonll height,
                        net_state_latest = htonl state, artifact_pad = replicate 4 0 \<rparr>
        in case mdb_put ops txn artifacts (artifact_key record0) (artifact_record_bytes record0)
                  MDB_NOOVERWRITE of (rc, txn) \<Rightarrow>
           if rc \<noteq> 0 then (AGENTD_ERROR_DATASERVICE_MDB_PUT_FAILURE, txn)
           else (AGENTD_STATUS_SUCCESS, txn)
      else if rc = 0 \<and> length lval = sizeof_artifact_record then
        let record0 = (artifact_record_of lval)\<lparr>txn_latest := transaction_id,
                        net_height_latest := htonll height, net_state_latest := htonl state\<rparr>
        in case mdb_put ops txn artifacts (artifact_key record0) (artifact_record_bytes record0) 0 of (rc, txn) \<Rightarrow>
           if rc \<noteq> 0 then (AGENTD_ERROR_DATASERVICE_MDB_PUT_FAILURE, txn)
           else (AGENTD_STATUS_SUCCESS, txn)
      else if rc = 0 then (AGENTD_ERROR_DATASERVICE_INVALID_ARTIFACT_NODE_SIZE, txn)
      else (AGENTD_ERROR_DATASERVICE_MDB_GET_FAILURE, txn))"

definition canonized_node :: "bytes \<Rightarrow> bytes \<Rightarrow> bytes \<Rightarrow> bytes \<Rightarrow> bytes \<Rightarrow> data_transaction_node" where
  "canonized_node transaction_id prev_transaction_id artifact_id block_id txn_cert =
     txn_node_zero\<lparr>node_key := transaction_id, node_prev := prev_transaction_id, node_next := ff_uuid,
       node_artifact_id := artifact_id, node_block_id := block_id,
       net_txn_cert_size := htonll (of_nat (length txn_cert)),
       net_txn_state := htonl DATASERVICE_TRANSACTION_NODE_STATE_CANONIZED\<rparr>"

text \<open>
  The drop runs below the transaction of the block; \<open>m 0\<close> is the allocation of
  the record, \<open>m 1\<close> and \<open>m 2\<close> those of the drop, \<open>m 3\<close> that of the previous
  transaction.
\<close>

definition dataservice_block_make_process_child ::
  "('e, 't) lmdb \<Rightarrow> vccert \<Rightarrow> (nat \<Rightarrow> bool) \<Rightarrow> 'e \<Rightarrow> 't \<Rightarrow> 64 word \<Rightarrow> bytes \<Rightarrow> bytes \<Rightarrow> status \<times> 't" where
  "dataservice_block_make_process_child ops vc m e txn height block_id txn_cert =
     (if \<not> vccert_parser_init_ok vc txn_cert
      then (AGENTD_ERROR_DATASERVICE_VCCERT_PARSER_INIT_FAILURE, txn) else
      case find_sized vc txn_cert VCCERT_FIELD_TYPE_CERTIFICATE_ID 16 of
        None \<Rightarrow> (AGENTD_ERROR_DATASERVICE_MISSING_CHILD_TRANSACTION_UUID, txn)
      | Some transaction_id \<Rightarrow>
      case find_sized vc txn_cert VCCERT_FIELD_TYPE_PREVIOUS_CERTIFICATE_ID 16 of
        None \<Rightarrow> (AGENTD_ERROR_DATASERVICE_MISSING_CHILD_PREVIOUS_TRANSACTION_UUID, txn)
      | Some prev_transaction_id \<Rightarrow>
      case find_sized vc txn_cert VCCERT_FIELD_TYPE_ARTIFACT_ID 16 of
        None \<Rightarrow> (AGENTD_ERROR_DATASERVICE_MISSING_CHILD_ARTIFACT_UUID, txn)
      | Some artifact_id \<Rightarrow>
      case find_sized vc txn_cert VCCERT_FIELD_TYPE_NEW_ARTIFACT_STATE 4 of
        None \<Rightarrow> (AGENTD_ERROR_DATASERVICE_MISSING_CHILD_STATE, txn)
      | Some state_raw \<Rightarrow>
      let state = ntohl (of_mem32 state_raw) in
      if \<not> m 0 then (AGENTD_ERROR_GENERAL_OUT_OF_MEMORY, txn) else
      let txn_rec = canonized_node transaction_id prev_transaction_id artifact_id block_id txn_cert in
      case mdb_put ops txn txn_db transaction_id (txn_node_bytes txn_rec @ txn_cert) MDB_NOOVERWRITE of (rc, txn) \<Rightarrow>
      if rc \<noteq> 0 then (AGENTD_ERROR_DATASERVICE_MDB_PUT_FAILURE, txn) else
      case dataservice_transaction_drop_internal ops (\<lambda>i. m (Suc i)) e (Some txn) transaction_id of (st, _, p) \<Rightarrow>
      let txn = the p in
      if st \<noteq> AGENTD_STATUS_SUCCESS then (st, txn) else
      case (if prev_transaction_id \<noteq> zero_uuid
            then dataservice_block_make_update_prev_txn ops (m 3) txn_db txn prev_transaction_id transaction_id
            else (AGENTD_STATUS_SUCCESS, txn)) of (st, txn) \<Rightarrow>
      if st \<noteq> AGENTD_STATUS_SUCCESS then (st, txn) else
      dataservice_block_make_update_artifact ops artifact_db txn artifact_id transaction_id height state)"

text \<open>The loop over the wrapped transactions, the \<open>i\<close>-th with its own allocations.\<close>

fun block_make_process_children ::
  "('e, 't) lmdb \<Rightarrow> vccert \<Rightarrow> (nat \<Rightarrow> nat \<Rightarrow> bool) \<Rightarrow> 'e \<Rightarrow> 't \<Rightarrow> 64 word \<Rightarrow> bytes \<Rightarrow> nat \<Rightarrow> bytes list \<Rightarrow>
     status \<times> 't" where
  "block_make_process_children ops vc m e txn height block_id i [] = (AGENTD_STATUS_SUCCESS, txn)"
| "block_make_process_children ops vc m e txn height block_id i (c # cs) =
     (case dataservice_block_make_process_child ops vc (m i) e txn height block_id c of (st, txn) \<Rightarrow>
      if st \<noteq> AGENTD_STATUS_SUCCESS then (st, txn)
      else block_make_process_children ops vc m e txn height block_id (Suc i) cs)"

subsection \<open>Making a block\<close>

text \<open>
  When the block's parser cannot be initialised, control reaches
  \<^verbatim>\<open>dispose((disposable_t*)&parser)\<close> for the parser that was not: undefined
  behaviour (\<open>None\<close>).  \<open>m 0 0\<close> and \<open>m 0 1\<close> are the allocations of the block node and
  of the previous block, \<open>m (i + 1)\<close> those of the \<open>i\<close>-th transaction.
\<close>

definition dataservice_block_make ::
  "('e, 't) lmdb \<Rightarrow> vccert \<Rightarrow> bytes \<Rightarrow> (nat \<Rightarrow> nat \<Rightarrow> bool) \<Rightarrow> dataservice_child_context \<Rightarrow> 'e \<Rightarrow> 't option \<Rightarrow>
     bytes \<Rightarrow> bytes \<Rightarrow> (status \<times> 'e \<times> 't option) option" where
  "dataservice_block_make ops vc root_block m child e parent block_id block_data =
     (if \<not> BITCAP_ISSET (childcaps child) DATASERVICE_API_CAP_APP_BLOCK_WRITE
      then Some (AGENTD_ERROR_DATASERVICE_NOT_AUTHORIZED, e, parent) else
      if \<not> vccrypt_suite_options_init_ok vc
      then Some (AGENTD_ERROR_DATASERVICE_VCCRYPT_SUITE_OPTIONS_INIT_FAILURE, e, parent) else
      if \<not> vccert_parser_options_simple_init_ok vc
      then Some (AGENTD_ERROR_DATASERVICE_VCCERT_PARSER_OPTIONS_INIT_FAILURE, e, parent) else
      if \<not> vccert_parser_init_ok vc block_data then None else
      case dataservice_create_child_trasaction ops e parent of
        (st, None) \<Rightarrow> Some (st, e, parent)
      | (_, Some txn) \<Rightarrow>
      case query_end_node ops txn block_db of (st, end_node) \<Rightarrow>
      if st \<noteq> AGENTD_STATUS_SUCCESS then Some (abort_with ops e parent txn st) else
      case constraint_matching_block_height vc block_data end_node of (st, expected_block_height) \<Rightarrow>
      if st \<noteq> AGENTD_STATUS_SUCCESS then Some (abort_with ops e parent txn st) else
      case constraint_matching_prev_uuid vc root_block block_data end_node of (st, block_prev_uuid) \<Rightarrow>
      if st \<noteq> AGENTD_STATUS_SUCCESS then Some (abort_with ops e parent txn st) else
      let st = constraint_sane_block_uuid vc root_block block_data block_id in
      if st \<noteq> AGENTD_STATUS_SUCCESS then Some (abort_with ops e parent txn st) else
      case vccert_fields vc block_data VCCERT_FIELD_TYPE_WRAPPED_TRANSACTION_TUPLE of
        [] \<Rightarrow> Some (abort_with ops e parent txn AGENTD_ERROR_DATASERVICE_NO_CHILD_TRANSACTIONS)
      | wrapped # others \<Rightarrow>
      case dataservice_make_block_get_first_transaction_id vc wrapped of (st, first_child_txn_id) \<Rightarrow>
      if st \<noteq> AGENTD_STATUS_SUCCESS then Some (abort_with ops e parent txn st) else
      case dataservice_make_block_insert_block ops (m 0 0) block_db height_db txn block_id block_prev_uuid
             first_child_txn_id expected_block_height block_data of (st, txn) \<Rightarrow>
      if st \<noteq> AGENTD_STATUS_SUCCESS then Some (abort_with ops e parent txn st) else
      case (case end_node of
              None \<Rightarrow> Some (dataservice_block_make_create_queue ops block_db txn block_id expected_block_height)
            | Some end_node \<Rightarrow>
                (case dataservice_block_make_update_prev ops (m 0 1) block_db txn block_id (block_prev end_node) of
                   None \<Rightarrow> None
                 | Some (st, txn) \<Rightarrow>
                     Some (if st \<noteq> AGENTD_STATUS_SUCCESS then (st, txn)
                           else dataservice_block_make_update_end ops block_db txn block_id
                                  expected_block_height end_node))) of
        None \<Rightarrow> None
      | Some (st, txn) \<Rightarrow>
      if st \<noteq> AGENTD_STATUS_SUCCESS then Some (abort_with ops e parent txn st) else
      case block_make_process_children ops vc (\<lambda>i. m (Suc i)) e txn expected_block_height block_id 0
             (wrapped # others) of (st, txn) \<Rightarrow>
      if st \<noteq> AGENTD_STATUS_SUCCESS then Some (abort_with ops e parent txn st)
      else Some (commit_with ops e parent txn AGENTD_STATUS_SUCCESS))"

end
