(* ===== verification/Ds_Dispatch.thy ===== *)
theory Ds_Dispatch
  imports Ds_Codec Ds_Block
begin

text \<open>
  The dispatcher of the data service (\<^verbatim>\<open>dataservice_decode_and_dispatch*.c\<close>): a
  request packet is decoded, the child context looked up, the operation run and a
  status packet with the payload written.  A handler returns the status of the
  write, the packets written to the socket and the instance afterwards; \<open>None\<close> is
  undefined behaviour.  The writes go through \<^verbatim>\<open>ipc_write_data_noblock\<close>, of which
  only success is a parameter.
\<close>

record request_env =
  op_malloc :: "nat \<Rightarrow> bool"
  block_malloc :: "nat \<Rightarrow> nat \<Rightarrow> bool"
  payload_malloc :: bool
  resp_malloc :: bool
  ipc_write_ok :: bool

definition env_ok :: request_env where
  "env_ok = \<lparr> op_malloc = \<lambda>_. True, block_malloc = \<lambda>_ _. True, payload_malloc = True, resp_malloc = True,
              ipc_write_ok = True \<rparr>"

type_synonym 'e reply = "status \<times> bytes list \<times> 'e dataservice_instance"

subsection \<open>Writing the status\<close>

definition dataservice_decode_and_dispatch_write_status ::
  "request_env \<Rightarrow> 32 word \<Rightarrow> 32 word \<Rightarrow> status \<Rightarrow> bytes option \<Rightarrow> status \<times> bytes list" where
  "dataservice_decode_and_dispatch_write_status env method offset st data =
     (if \<not> resp_malloc env then (AGENTD_ERROR_GENERAL_OUT_OF_MEMORY, []) else
      let resp = response_packet method offset st data in
      if \<not> ipc_write_ok env then (AGENTD_ERROR_DATASERVICE_IPC_WRITE_DATA_FAILURE, [])
      else (AGENTD_STATUS_SUCCESS, [resp]))"

definition reply_with ::
  "request_env \<Rightarrow> 32 word \<Rightarrow> 32 word \<Rightarrow> status \<Rightarrow> bytes option \<Rightarrow> 'e dataservice_instance \<Rightarrow> 'e reply" where
  "reply_with env method offset st data inst =
     (case dataservice_decode_and_dispatch_write_status env method offset st data of (r, out) \<Rightarrow> (r, out, inst))"

subsection \<open>The frame of a handler\<close>

text \<open>
  Decode, look the child context up, run, reply.  When decoding fails the request
  structure has been cleared, so the offset of the reply is 0.
\<close>

definition run_request ::
  "request_env \<Rightarrow> 32 word \<Rightarrow> 'e dataservice_instance \<Rightarrow> status + 'r dataservice_request_header_scheme \<Rightarrow>
     (dataservice_child_context \<Rightarrow> 'r dataservice_request_header_scheme \<Rightarrow>
        (status \<times> bytes option \<times> 'e dataservice_instance) option) \<Rightarrow> 'e reply option" where
  "run_request env method inst dreq body =
     (case dreq of
        Inl st \<Rightarrow> Some (reply_with env method 0 st None inst)
      | Inr r \<Rightarrow>
          (case dataservice_child_context_lookup inst (child_index r) of
             Inl st \<Rightarrow> Some (reply_with env method (child_index r) st None inst)
           | Inr ctx \<Rightarrow>
               (case body ctx r of
                  None \<Rightarrow> None
                | Some (st, payload, inst') \<Rightarrow>
                    Some (reply_with env method (child_index r) st payload inst'))))"

text \<open>
  Every operation checks its capability first and then reaches the database
  through \<^verbatim>\<open>child->root->details\<close>.
\<close>

definition with_details ::
  "'e dataservice_instance \<Rightarrow> dataservice_child_context \<Rightarrow> nat \<Rightarrow>
     ('e \<Rightarrow> ((status \<times> 'e \<times> 't option) \<times> bytes option) option) \<Rightarrow>
     (status \<times> bytes option \<times> 'e dataservice_instance) option" where
  "with_details inst ctx cap f =
     (case details (inst_ctx inst) of
        None \<Rightarrow> if BITCAP_ISSET (childcaps ctx) cap then None
                else Some (AGENTD_ERROR_DATASERVICE_NOT_AUTHORIZED, None, inst)
      | Some e \<Rightarrow>
          (case f e of
             None \<Rightarrow> None
           | Some ((st, e', _), payload) \<Rightarrow>
               Some (st, payload, inst\<lparr>inst_ctx := (inst_ctx inst)\<lparr>details := Some e'\<rparr>\<rparr>)))"

text \<open>Encode what a reader found, when it found something.\<close>

definition encode_found ::
  "(status \<times> 'e \<times> 't option) \<times> 'a option \<Rightarrow> ('a \<Rightarrow> status + bytes) \<Rightarrow>
     ((status \<times> 'e \<times> 't option) \<times> bytes option) option" where
  "encode_found r enc =
     Some (case r of
       (res, None) \<Rightarrow> (res, None)
     | ((st, e, p), Some x) \<Rightarrow> (case enc x of Inl st' \<Rightarrow> ((st', e, p), None) | Inr b \<Rightarrow> ((st, e, p), Some b)))"

subsection \<open>Contexts\<close>

definition dataservice_decode_and_dispatch_root_context_create ::
  "('e, 't) lmdb \<Rightarrow> request_env \<Rightarrow> 'e dataservice_instance \<Rightarrow> bytes \<Rightarrow> 'e reply option" where
  "dataservice_decode_and_dispatch_root_context_create ops env inst req =
     (case dataservice_decode_request_root_context_init (payload_malloc env) req of
        Inl st \<Rightarrow> Some (st, [], inst)
      | Inr dreq \<Rightarrow>
          (case dataservice_root_context_init ops (op_malloc env) (inst_ctx inst) (req_max_database_size dreq)
                  (takeWhile (\<lambda>b. b \<noteq> 0) (req_datadir dreq)) of (st, ctx) \<Rightarrow>
           Some (reply_with env DATASERVICE_API_METHOD_LL_ROOT_CONTEXT_CREATE 0 st None (inst\<lparr>inst_ctx := ctx\<rparr>))))"

definition dataservice_decode_and_dispatch_root_context_reduce_caps ::
  "request_env \<Rightarrow> 'e dataservice_instance \<Rightarrow> bytes \<Rightarrow> 'e reply option" where
  "dataservice_decode_and_dispatch_root_context_reduce_caps env inst req =
     (case dataservice_decode_request_root_context_reduce_caps req of
        Inl st \<Rightarrow> Some (reply_with env DATASERVICE_API_METHOD_LL_ROOT_CONTEXT_REDUCE_CAPS 0 st None inst)
      | Inr dreq \<Rightarrow>
          (case dataservice_root_context_reduce_capabilities (inst_ctx inst) (req_caps dreq) of (st, ctx) \<Rightarrow>
           Some (reply_with env DATASERVICE_API_METHOD_LL_ROOT_CONTEXT_REDUCE_CAPS 0 st None (inst\<lparr>inst_ctx := ctx\<rparr>))))"

definition set_child_ctx :: "'e dataservice_instance \<Rightarrow> nat \<Rightarrow> dataservice_child_context \<Rightarrow> 'e dataservice_instance" where
  "set_child_ctx inst i c = inst\<lparr>children := (children inst)[i := (children inst ! i)\<lparr>child_ctx := c\<rparr>]\<rparr>"

definition dataservice_decode_and_dispatch_child_context_create ::
  "request_env \<Rightarrow> 'e dataservice_instance \<Rightarrow> bytes \<Rightarrow> 'e reply option" where
  "dataservice_decode_and_dispatch_child_context_create env inst req =
     (let done = reply_with env DATASERVICE_API_METHOD_LL_CHILD_CONTEXT_CREATE 0;
          cleanup = (\<lambda>st inst child_offset. map_option (done st None) (dataservice_child_details_delete inst child_offset))
      in case dataservice_decode_request_child_context_create req of
        Inl st \<Rightarrow> Some (done st None inst)
      | Inr dreq \<Rightarrow>
          (case dataservice_child_details_create inst of (st, inst, child_offset) \<Rightarrow>
           if st \<noteq> 0 then Some (done AGENTD_ERROR_DATASERVICE_CHILD_CONTEXT_MAX_REACHED None inst) else
           let ctx = child_ctx (children inst ! child_offset);
               ctx = ctx\<lparr>childcaps := BITCAP_SET_TRUE (childcaps ctx) DATASERVICE_API_CAP_LL_CHILD_CONTEXT_CREATE\<rparr>
           in case dataservice_child_context_create (inst_ctx inst) ctx (req_caps dreq) of (st, ctx) \<Rightarrow>
              let inst = set_child_ctx inst child_offset ctx in
              if st \<noteq> AGENTD_STATUS_SUCCESS
              then cleanup AGENTD_ERROR_DATASERVICE_CHILD_CONTEXT_CREATE_FAILURE inst child_offset
              else case dataservice_encode_response_child_context_create (payload_malloc env) (of_nat child_offset) of
                     Inl st \<Rightarrow> cleanup st inst child_offset
                   | Inr payload \<Rightarrow> Some (done AGENTD_STATUS_SUCCESS (Some payload) inst)))"

definition dataservice_decode_and_dispatch_child_context_close ::
  "request_env \<Rightarrow> 'e dataservice_instance \<Rightarrow> bytes \<Rightarrow> 'e reply option" where
  "dataservice_decode_and_dispatch_child_context_close env inst req =
     run_request env DATASERVICE_API_METHOD_LL_CHILD_CONTEXT_CLOSE inst
       (dataservice_decode_request_child_context_close req)
       (\<lambda>ctx dreq. case dataservice_child_context_close ctx of (st, ctx) \<Rightarrow>
          let inst = set_child_ctx inst (unat (child_index dreq)) ctx in
          if st \<noteq> AGENTD_STATUS_SUCCESS
          then Some (AGENTD_ERROR_DATASERVICE_CHILD_DETAILS_DELETE_FAILURE, None, inst)
          else map_option (\<lambda>inst. (st, None, inst)) (dataservice_child_details_delete inst (unat (child_index dreq))))"

subsection \<open>Settings\<close>

definition dataservice_decode_and_dispatch_global_setting_get ::
  "('e, 't) lmdb \<Rightarrow> request_env \<Rightarrow> 'e dataservice_instance \<Rightarrow> bytes \<Rightarrow> 'e reply option" where
  "dataservice_decode_and_dispatch_global_setting_get ops env inst req =
     run_request env DATASERVICE_API_METHOD_APP_GLOBAL_SETTING_READ inst
       (dataservice_decode_request_global_setting_get req)
       (\<lambda>ctx dreq. with_details inst ctx DATASERVICE_API_CAP_APP_GLOBAL_SETTING_READ
          (\<lambda>e. case dataservice_global_settings_get ops ctx e (setting_get_key dreq) 16384 of (res, _, buffer) \<Rightarrow>
             Some (res, buffer)))"

definition dataservice_decode_and_dispatch_global_setting_set ::
  "('e, 't) lmdb \<Rightarrow> request_env \<Rightarrow> 'e dataservice_instance \<Rightarrow> bytes \<Rightarrow> 'e reply option" where
  "dataservice_decode_and_dispatch_global_setting_set ops env inst req =
     run_request env DATASERVICE_API_METHOD_APP_GLOBAL_SETTING_WRITE inst
       (dataservice_decode_request_global_setting_set req)
       (\<lambda>ctx dreq. with_details inst ctx DATASERVICE_API_CAP_APP_GLOBAL_SETTING_WRITE
          (\<lambda>e. map_option (\<lambda>res. (res, None))
             (dataservice_global_settings_set ops ctx e (setting_set_key dreq) (setting_set_val dreq))))"

subsection \<open>The process queue\<close>

definition dataservice_decode_and_dispatch_transaction_submit ::
  "('e, 't) lmdb \<Rightarrow> bool \<Rightarrow> request_env \<Rightarrow> 'e dataservice_instance \<Rightarrow> bytes \<Rightarrow> 'e reply option" where
  "dataservice_decode_and_dispatch_transaction_submit ops att env inst req =
     run_request env DATASERVICE_API_METHOD_APP_PQ_TRANSACTION_SUBMIT inst
       (dataservice_decode_request_transaction_submit req)
       (\<lambda>ctx dreq. with_details inst ctx DATASERVICE_API_CAP_APP_PQ_TRANSACTION_SUBMIT
          (\<lambda>e. map_option (\<lambda>res. (res, None))
             (dataservice_transaction_submit ops att (op_malloc env) ctx e None (submit_txn_id dreq)
                (submit_artifact_id dreq) (submit_cert dreq))))"

definition dataservice_decode_and_dispatch_transaction_get_first ::
  "('e, 't) lmdb \<Rightarrow> request_env \<Rightarrow> 'e dataservice_instance \<Rightarrow> bytes \<Rightarrow> 'e reply option" where
  "dataservice_decode_and_dispatch_transaction_get_first ops env inst req =
     run_request env DATASERVICE_API_METHOD_APP_PQ_TRANSACTION_FIRST_READ inst
       (dataservice_decode_request_transaction_get_first req)
       (\<lambda>ctx dreq. with_details inst ctx DATASERVICE_API_CAP_APP_PQ_TRANSACTION_FIRST_READ
          (\<lambda>e. encode_found (dataservice_transaction_get_first ops (op_malloc env 0) ctx e None)
             (\<lambda>(node, txn_bytes). dataservice_encode_response_transaction_get_first (payload_malloc env)
                (node_key node) (node_prev node) (node_next node) (node_artifact_id node) (net_txn_state node) txn_bytes)))"

definition dataservice_decode_and_dispatch_transaction_get ::
  "('e, 't) lmdb \<Rightarrow> request_env \<Rightarrow> 'e dataservice_instance \<Rightarrow> bytes \<Rightarrow> 'e reply option" where
  "dataservice_decode_and_dispatch_transaction_get ops env inst req =
     run_request env DATASERVICE_API_METHOD_APP_PQ_TRANSACTION_READ inst
       (dataservice_decode_request_transaction_get req)
       (\<lambda>ctx dreq. with_details inst ctx DATASERVICE_API_CAP_APP_PQ_TRANSACTION_READ
          (\<lambda>e. encode_found (dataservice_transaction_get ops (op_malloc env 0) ctx e None (req_txn_id dreq))
             (\<lambda>(node, txn_bytes). dataservice_encode_response_transaction_get (payload_malloc env)
                (node_key node) (node_prev node) (node_next node) (node_artifact_id node) (net_txn_state node) txn_bytes)))"

definition dataservice_decode_and_dispatch_transaction_drop ::
  "('e, 't) lmdb \<Rightarrow> request_env \<Rightarrow> 'e dataservice_instance \<Rightarrow> bytes \<Rightarrow> 'e reply option" where
  "dataservice_decode_and_dispatch_transaction_drop ops env inst req =
     run_request env DATASERVICE_API_METHOD_APP_PQ_TRANSACTION_DROP inst
       (dataservice_decode_request_transaction_drop req)
       (\<lambda>ctx dreq. with_details inst ctx DATASERVICE_API_CAP_APP_PQ_TRANSACTION_DROP
          (\<lambda>e. Some (dataservice_transaction_drop ops (op_malloc env) ctx e None (req_txn_id dreq), None)))"

definition dataservice_decode_and_dispatch_transaction_promote ::
  "('e, 't) lmdb \<Rightarrow> request_env \<Rightarrow> 'e dataservice_instance \<Rightarrow> bytes \<Rightarrow> 'e reply option" where
  "dataservice_decode_and_dispatch_transaction_promote ops env inst req =
     run_request env DATASERVICE_API_METHOD_APP_PQ_TRANSACTION_PROMOTE inst
       (dataservice_decode_request_transaction_promote req)
       (\<lambda>ctx dreq. with_details inst ctx DATASERVICE_API_CAP_APP_PQ_TRANSACTION_PROMOTE
          (\<lambda>e. Some (dataservice_transaction_promote ops (op_malloc env 0) ctx e None (req_txn_id dreq), None)))"

subsection \<open>Artifacts, blocks and canonized transactions\<close>

definition dataservice_decode_and_dispatch_artifact_read ::
  "('e, 't) lmdb \<Rightarrow> request_env \<Rightarrow> 'e dataservice_instance \<Rightarrow> bytes \<Rightarrow> 'e reply option" where
  "dataservice_decode_and_dispatch_artifact_read ops env inst req =
     run_request env DATASERVICE_API_METHOD_APP_ARTIFACT_READ inst
       (dataservice_decode_request_payload_artifact_read req)
       (\<lambda>ctx dreq. with_details inst ctx DATASERVICE_API_CAP_APP_ARTIFACT_READ
          (\<lambda>e. encode_found (dataservice_artifact_get ops ctx e None (req_artifact_id dreq))
             (\<lambda>r. dataservice_encode_response_payload_artifact_read (payload_malloc env)
                (artifact_key r) (txn_first r) (txn_latest r) (ntohll (net_height_first r))
                (ntohll (net_height_latest r)) (ntohl (net_state_latest r)))))"

definition dataservice_decode_and_dispatch_block_make ::
  "('e, 't) lmdb \<Rightarrow> vccert \<Rightarrow> bytes \<Rightarrow> request_env \<Rightarrow> 'e dataservice_instance \<Rightarrow> bytes \<Rightarrow> 'e reply option" where
  "dataservice_decode_and_dispatch_block_make ops vc root_block env inst req =
     run_request env DATASERVICE_API_METHOD_APP_BLOCK_WRITE inst
       (dataservice_decode_request_block_make req)
       (\<lambda>ctx dreq. with_details inst ctx DATASERVICE_API_CAP_APP_BLOCK_WRITE
          (\<lambda>e. map_option (\<lambda>res. (res, None))
             (dataservice_block_make ops vc root_block (block_malloc env) ctx e None (make_block_id dreq) (make_cert dreq))))"

definition dataservice_decode_and_dispatch_block_read ::
  "('e, 't) lmdb \<Rightarrow> bytes \<Rightarrow> request_env \<Rightarrow> 'e dataservice_instance \<Rightarrow> bytes \<Rightarrow> 'e reply option" where
  "dataservice_decode_and_dispatch_block_read ops root_block env inst req =
     run_request env DATASERVICE_API_METHOD_APP_BLOCK_READ inst
       (dataservice_decode_request_block_read req)
       (\<lambda>ctx dreq. with_details inst ctx DATASERVICE_API_CAP_APP_BLOCK_READ
          (\<lambda>e. encode_found (dataservice_block_get ops root_block (op_malloc env 0) ctx e None (read_block_id dreq))
             (\<lambda>(node, block_bytes). dataservice_encode_response_block_read (payload_malloc env)
                (block_key node) (block_prev node) (block_next node) (first_transaction_id node)
                (ntohll (net_block_height node)) (block_read_cert dreq) block_bytes)))"

definition dataservice_decode_and_dispatch_block_id_by_height_read ::
  "('e, 't) lmdb \<Rightarrow> request_env \<Rightarrow> 'e dataservice_instance \<Rightarrow> bytes \<Rightarrow> 'e reply option" where
  "dataservice_decode_and_dispatch_block_id_by_height_read ops env inst req =
     run_request env DATASERVICE_API_METHOD_APP_BLOCK_ID_BY_HEIGHT_READ inst
       (dataservice_decode_request_block_id_by_height_read req)
       (\<lambda>ctx dreq. with_details inst ctx DATASERVICE_API_CAP_APP_BLOCK_ID_BY_HEIGHT_READ
          (\<lambda>e. encode_found (dataservice_block_id_by_height_get ops ctx e None (req_block_height dreq))
             (dataservice_encode_response_block_id_by_height_read (payload_malloc env))))"

definition dataservice_decode_and_dispatch_block_id_latest_read ::
  "('e, 't) lmdb \<Rightarrow> bytes \<Rightarrow> request_env \<Rightarrow> 'e dataservice_instance \<Rightarrow> bytes \<Rightarrow> 'e reply option" where
  "dataservice_decode_and_dispatch_block_id_latest_read ops root_block env inst req =
     run_request env DATASERVICE_API_METHOD_APP_BLOCK_ID_LATEST_READ inst
       (dataservice_decode_request_block_id_latest_read req)
       (\<lambda>ctx dreq. with_details inst ctx DATASERVICE_API_CAP_APP_BLOCK_ID_LATEST_READ
          (\<lambda>e. encode_found (dataservice_latest_block_id_get ops root_block ctx e None)
             (dataservice_encode_response_block_id_latest_read (payload_malloc env))))"

definition dataservice_decode_and_dispatch_canonized_transaction_get ::
  "('e, 't) lmdb \<Rightarrow> request_env \<Rightarrow> 'e dataservice_instance \<Rightarrow> bytes \<Rightarrow> 'e reply option" where
  "dataservice_decode_and_dispatch_canonized_transaction_get ops env inst req =
     run_request env DATASERVICE_API_METHOD_APP_TRANSACTION_READ inst
       (dataservice_decode_request_canonized_transaction_get req)
       (\<lambda>ctx dreq. with_details inst ctx DATASERVICE_API_CAP_APP_TRANSACTION_READ
          (\<lambda>e. encode_found (dataservice_canonized_transaction_get ops (op_malloc env 0) ctx e None (canon_txn_id dreq))
             (\<lambda>(node, txn_bytes). dataservice_encode_response_canonized_transaction_get (payload_malloc env)
                (node_key node) (node_prev node) (node_next node) (node_artifact_id node) (node_block_id node)
                (net_txn_state node) (canon_read_cert dreq) txn_bytes)))"

subsection \<open>The dispatcher\<close>

definition dataservice_decode_and_dispatch ::
  "('e, 't) lmdb \<Rightarrow> vccert \<Rightarrow> bytes \<Rightarrow> bool \<Rightarrow> request_env \<Rightarrow> 'e dataservice_instance \<Rightarrow> bytes \<Rightarrow> 'e reply option" where
  "dataservice_decode_and_dispatch ops vc root_block att env inst req =
     (if length req < 4 then Some (AGENTD_ERROR_DATASERVICE_REQUEST_PACKET_INVALID_SIZE, [], inst) else
      let method = ntohl (of_mem32 (take 4 req)); breq = drop 4 req in
      if method = DATASERVICE_API_METHOD_LL_ROOT_CONTEXT_CREATE
      then dataservice_decode_and_dispatch_root_context_create ops env inst breq else
      if method = DATASERVICE_API_METHOD_LL_ROOT_CONTEXT_REDUCE_CAPS
      then dataservice_decode_and_dispatch_root_context_reduce_caps env inst breq else
      if method = DATASERVICE_API_METHOD_LL_CHILD_CONTEXT_CREATE
      then dataservice_decode_and_dispatch_child_context_create env inst breq else
      if method = DATASERVICE_API_METHOD_LL_CHILD_CONTEXT_CLOSE
      then dataservice_decode_and_dispatch_child_context_close env inst breq else
      if method = DATASERVICE_API_METHOD_APP_GLOBAL_SETTING_READ
      then dataservice_decode_and_dispatch_global_setting_get ops env inst breq else
      if method = DATASERVICE_API_METHOD_APP_GLOBAL_SETTING_WRITE
      then dataservice_decode_and_dispatch_global_setting_set ops env inst breq else
      if method = DATASERVICE_API_METHOD_APP_PQ_TRANSACTION_SUBMIT
      then dataservice_decode_and_dispatch_transaction_submit ops att env inst breq else
      if method = DATASERVICE_API_METHOD_APP_PQ_TRANSACTION_FIRST_READ
      then dataservice_decode_and_dispatch_transaction_get_first ops env inst breq else
      if method = DATASERVICE_API_METHOD_APP_PQ_TRANSACTION_READ
      then dataservice_decode_and_dispatch_transaction_get ops env inst breq else
      if method = DATASERVICE_API_METHOD_APP_PQ_TRANSACTION_DROP
      then dataservice_decode_and_dispatch_transaction_drop ops env inst breq else
      if method = DATASERVICE_API_METHOD_APP_PQ_TRANSACTION_PROMOTE
      then dataservice_decode_and_dispatch_transaction_promote ops env inst breq else
      if method = DATASERVICE_API_METHOD_APP_ARTIFACT_READ
      then dataservice_decode_and_dispatch_artifact_read ops env inst breq else
      if method = DATASERVICE_API_METHOD_APP_BLOCK_WRITE
      then dataservice_decode_and_dispatch_block_make ops vc root_block env inst breq else
      if method = DATASERVICE_API_METHOD_APP_BLOCK_READ
      then dataservice_decode_and_dispatch_block_read ops root_block env inst breq else
      if method = DATASERVICE_API_METHOD_APP_BLOCK_ID_BY_HEIGHT_READ
      then dataservice_decode_and_dispatch_block_id_by_height_read ops env inst breq else
      if method = DATASERVICE_API_METHOD_APP_BLOCK_ID_LATEST_READ
      then dataservice_decode_and_dispatch_block_id_latest_read ops root_block env inst breq else
      if method = DATASERVICE_API_METHOD_APP_TRANSACTION_READ
      then dataservice_decode_and_dispatch_canonized_transaction_get ops env inst breq else
      Some (AGENTD_ERROR_DATASERVICE_REQUEST_PACKET_BAD,
            snd (dataservice_decode_and_dispatch_write_status env method 0
                   AGENTD_ERROR_DATASERVICE_REQUEST_PACKET_BAD None), inst))"

end
