(* ===== verification/Ds_Queue_Rep.thy ===== *)
theory Ds_Queue_Rep
  imports Ds_Queue
begin

text \<open>
  The process queue as an abstract sequence.  \<open>pq_rep v ids\<close> relates the contents
  of the \<open>pq_db\<close> map to the list of queued transaction identifiers; the lemmas
  show that the map updates a submission and a drop perform append to, and remove
  from, that list.
\<close>

subsection \<open>The queue as a list of identifiers\<close>

text \<open>
  \<open>pq_rep v ids\<close>: the \<open>pq_db\<close> map \<open>v\<close> holds the queue with the identifiers \<open>ids\<close>,
  oldest first.  Before the first submission the map is empty.
\<close>

definition node_at :: "kv \<Rightarrow> bytes \<Rightarrow> data_transaction_node" where
  "node_at v k = txn_node_of (the (v k))"

definition entry_ok :: "kv \<Rightarrow> bytes \<Rightarrow> bool" where
  "entry_ok v k \<longleftrightarrow> (case v k of None \<Rightarrow> False | Some b \<Rightarrow>
     96 \<le> length b \<and> length b < 2 ^ 64 \<and> node_key (txn_node_of b) = k \<and>
     unat (ntohll (net_txn_cert_size (txn_node_of b))) = length b - 96)"

definition chain :: "kv \<Rightarrow> bytes list \<Rightarrow> bool" where
  "chain v xs \<longleftrightarrow> successively (\<lambda>a b. node_next (node_at v a) = b \<and> node_prev (node_at v b) = a) xs"

definition pq_rep :: "kv \<Rightarrow> bytes list \<Rightarrow> bool" where
  "pq_rep v ids \<longleftrightarrow>
     v = Map.empty \<and> ids = [] \<or>
     dom v = set (zero_uuid # ids @ [ff_uuid]) \<and> distinct (zero_uuid # ids @ [ff_uuid]) \<and>
     (\<forall>k \<in> dom v. entry_ok v k) \<and> length (the (v ff_uuid)) = 96 \<and>
     chain v (zero_uuid # ids @ [ff_uuid])"

lemma zero_ff_neq [simp]: "zero_uuid \<noteq> ff_uuid" "ff_uuid \<noteq> zero_uuid"
  by simp_all

lemma entry_okD:
  assumes "entry_ok v k"
  shows "\<exists>b. v k = Some b \<and> 96 \<le> length b \<and> length b < 2 ^ 64 \<and> node_at v k = txn_node_of b \<and>
     node_key (txn_node_of b) = k \<and>
     unat (ntohll (net_txn_cert_size (txn_node_of b))) = length b - 96"
  using assms by (auto simp: entry_ok_def node_at_def split: option.splits)

lemma entry_ok_length: "entry_ok v k \<Longrightarrow> length k = 16"
  by (drule entry_okD) (metis txn_node_wf_of txn_node_wfD(1))

lemma entry_ok_links:
  assumes "entry_ok v k"
  shows "length (node_next (node_at v k)) = 16" "length (node_prev (node_at v k)) = 16"
  using entry_okD [OF assms] txn_node_wfD txn_node_wf_of by (metis, metis)

lemma chain_append:
  "xs \<noteq> [] \<Longrightarrow> ys \<noteq> [] \<Longrightarrow> chain v (xs @ ys) \<longleftrightarrow> chain v xs \<and> chain v ys \<and>
     node_next (node_at v (last xs)) = hd ys \<and> node_prev (node_at v (hd ys)) = last xs"
  by (auto simp: chain_def successively_append_iff)

lemma chain_cong:
  "(\<And>a. a \<in> set (butlast xs) \<Longrightarrow> node_next (node_at v' a) = node_next (node_at v a)) \<Longrightarrow>
   (\<And>b. b \<in> set (tl xs) \<Longrightarrow> node_prev (node_at v' b) = node_prev (node_at v b)) \<Longrightarrow>
     chain v' xs = chain v xs"
proof (induction xs rule: induct_list012)
  case (3 x y zs)
  have "chain v' (y # zs) = chain v (y # zs)"
    using "3.prems" by (intro "3.IH"(2)) (auto simp: in_set_butlast_appendI dest: in_set_butlastD list.set_sel(2) split: if_splits)
  then show ?case
    using "3.prems"(1)[of x] "3.prems"(2)[of y] by (simp add: chain_def)
qed (simp_all add: chain_def)

lemma chain_single [simp]: "chain v [x]"
  by (simp add: chain_def)

text \<open>
  A run of nodes stays linked when only the outgoing link of its last node, or
  only the incoming link of its first node, is rewritten.
\<close>

lemma chain_keep_left:
  assumes "chain v xs" and "distinct xs" and "xs \<noteq> []"
    and "\<And>k. k \<in> set xs \<Longrightarrow> k \<noteq> last xs \<Longrightarrow> node_at v' k = node_at v k"
    and "node_prev (node_at v' (last xs)) = node_prev (node_at v (last xs))"
  shows "chain v' xs"
proof -
  have "a \<noteq> last xs" if "a \<in> set (butlast xs)" for a
    using that assms(2,3) by (metis append_butlast_last_id distinct_butlast not_distinct_conv_prefix)
  then have "chain v' xs = chain v xs"
    using assms(3-5) by (intro chain_cong) (metis in_set_butlastD, metis list.set_sel(2))
  then show ?thesis using assms(1) by simp
qed

lemma chain_keep_right:
  assumes "chain v xs" and "distinct xs" and "xs \<noteq> []"
    and "\<And>k. k \<in> set xs \<Longrightarrow> k \<noteq> hd xs \<Longrightarrow> node_at v' k = node_at v k"
    and "node_next (node_at v' (hd xs)) = node_next (node_at v (hd xs))"
  shows "chain v' xs"
proof -
  have "hd xs \<notin> set (tl xs)" using assms(2,3) by (metis distinct.simps(2) list.collapse)
  then have "chain v' xs = chain v xs"
    using assms(3-5) by (intro chain_cong) (metis in_set_butlastD, metis list.set_sel(2))
  then show ?thesis using assms(1) by simp
qed

text \<open>Rewriting one link of a stored node.\<close>

lemma entry_ok_store:
  assumes "entry_ok v k" and "length u = 16" and "off = 16 \<or> off = 32"
  shows "entry_ok (v(k \<mapsto> store_at off u (the (v k)))) k"
    and "node_at (v(k \<mapsto> store_at off u (the (v k)))) k =
       (if off = 16 then (node_at v k)\<lparr>node_prev := u\<rparr> else (node_at v k)\<lparr>node_next := u\<rparr>)"
  using entry_okD [OF assms(1)] assms(2,3) by (auto simp: entry_ok_def node_at_def)

lemma entry_ok_other: "k \<noteq> j \<Longrightarrow> entry_ok (v(j := x)) k = entry_ok v k"
  by (simp add: entry_ok_def)

lemma node_at_other: "k \<noteq> j \<Longrightarrow> node_at (v(j := x)) k = node_at v k"
  by (simp add: node_at_def)

text \<open>What an initialised queue gives about its last element.\<close>

lemma pq_rep_initialised:
  assumes "pq_rep v ids" and "v ff_uuid \<noteq> None"
  shows "dom v = set (zero_uuid # ids @ [ff_uuid])" "distinct (zero_uuid # ids @ [ff_uuid])"
    "\<And>k. k \<in> dom v \<Longrightarrow> entry_ok v k" "length (the (v ff_uuid)) = 96"
    "chain v (zero_uuid # ids @ [ff_uuid])"
  using assms by (auto simp: pq_rep_def)

lemma pq_rep_last:
  assumes "pq_rep v ids" and "v ff_uuid \<noteq> None"
  shows "node_prev (node_at v ff_uuid) = last (zero_uuid # ids)"
  using chain_append [of "zero_uuid # ids" "[ff_uuid]" v] pq_rep_initialised [OF assms] by simp

lemma pq_rep_uninitialised: "pq_rep v ids \<Longrightarrow> v ff_uuid = None \<Longrightarrow> v = Map.empty \<and> ids = []"
  by (auto simp: pq_rep_def domIff)

subsection \<open>The effect of the operations on the map\<close>

definition submit_create_kv :: "kv \<Rightarrow> bytes \<Rightarrow> bytes \<Rightarrow> kv" where
  "submit_create_kv v txn_id nb =
     v(txn_id \<mapsto> nb,
       zero_uuid \<mapsto> txn_node_bytes (txn_node_zero\<lparr>node_next := txn_id\<rparr>),
       ff_uuid \<mapsto> txn_node_bytes (txn_node_zero\<lparr>node_key := ff_uuid, node_next := ff_uuid, node_prev := txn_id\<rparr>))"

definition submit_append_kv :: "kv \<Rightarrow> bytes \<Rightarrow> bytes \<Rightarrow> kv" where
  "submit_append_kv v txn_id nb =
     (let p = node_prev (node_at v ff_uuid) in
      v(txn_id \<mapsto> nb,
        p \<mapsto> store_at offsetof_node_next txn_id (the (v p)),
        ff_uuid \<mapsto> txn_node_bytes ((node_at v ff_uuid)\<lparr>node_prev := txn_id\<rparr>)))"

definition drop_kv :: "kv \<Rightarrow> bytes \<Rightarrow> kv" where
  "drop_kv v txn_id =
     (let n = node_at v txn_id;
          v1 = v(txn_id := None);
          v2 = v1(node_prev n \<mapsto> store_at offsetof_node_next (node_next n) (the (v1 (node_prev n))))
      in v2(node_next n \<mapsto> store_at offsetof_node_prev (node_prev n) (the (v2 (node_next n)))))"

text \<open>A new entry as \<^verbatim>\<open>dataservice_transaction_submit\<close> builds it.\<close>

definition submit_entry :: "bool \<Rightarrow> bytes \<Rightarrow> bytes \<Rightarrow> bytes \<Rightarrow> bytes \<Rightarrow> bytes" where
  "submit_entry attestation txn_id artifact_id prev txn_bytes =
     txn_node_bytes (submit_newnode attestation txn_id artifact_id prev txn_bytes) @ txn_bytes"

lemma submit_newnode_wf [simp]:
  "length txn_id = 16 \<Longrightarrow> length artifact_id = 16 \<Longrightarrow> length prev = 16 \<Longrightarrow>
     txn_node_wf (submit_newnode att txn_id artifact_id prev txn_bytes)"
  by (simp add: submit_newnode_def txn_node_wf_def txn_node_zero_def)

lemma submit_entry_simps:
  assumes "length txn_id = 16" "length artifact_id = 16" "length prev = 16"
  shows "txn_node_of (submit_entry att txn_id artifact_id prev txn_bytes) =
           submit_newnode att txn_id artifact_id prev txn_bytes"
    and "length (submit_entry att txn_id artifact_id prev txn_bytes) = 96 + length txn_bytes"
    and "drop 96 (submit_entry att txn_id artifact_id prev txn_bytes) = txn_bytes"
  using assms by (simp_all add: submit_entry_def)

lemma submit_entry_ok:
  assumes "length txn_id = 16" "length artifact_id = 16" "length prev = 16"
    and "length txn_bytes + 96 < 2 ^ 64"
    and "v txn_id = Some (submit_entry att txn_id artifact_id prev txn_bytes)"
  shows "entry_ok v txn_id"
  using assms by (simp add: entry_ok_def submit_entry_simps) (simp add: submit_newnode_def unat_of_nat)

lemma submit_create_rep:
  assumes "length txn_id = 16" "length artifact_id = 16" "txn_id \<noteq> zero_uuid" "txn_id \<noteq> ff_uuid"
    and "length txn_bytes + 96 < 2 ^ 64"
  shows "pq_rep (submit_create_kv Map.empty txn_id (submit_entry att txn_id artifact_id zero_uuid txn_bytes)) [txn_id]"
proof -
  let ?v = "submit_create_kv Map.empty txn_id (submit_entry att txn_id artifact_id zero_uuid txn_bytes)"
  have wf: "txn_node_wf (txn_node_zero\<lparr>node_next := txn_id\<rparr>)"
    "txn_node_wf (txn_node_zero\<lparr>node_key := ff_uuid, node_next := ff_uuid, node_prev := txn_id\<rparr>)"
    using assms by (simp_all add: txn_node_wf_def txn_node_zero_def)
  have at: "node_at ?v zero_uuid = txn_node_zero\<lparr>node_next := txn_id\<rparr>"
    "node_at ?v ff_uuid = txn_node_zero\<lparr>node_key := ff_uuid, node_next := ff_uuid, node_prev := txn_id\<rparr>"
    "node_at ?v txn_id = submit_newnode att txn_id artifact_id zero_uuid txn_bytes"
    using assms wf by (simp_all add: node_at_def submit_create_kv_def submit_entry_simps)
  have "entry_ok ?v txn_id"
    using assms by (intro submit_entry_ok) (simp_all add: submit_create_kv_def)
  moreover have "entry_ok ?v zero_uuid" "entry_ok ?v ff_uuid"
    using wf by (simp_all add: entry_ok_def submit_create_kv_def) (simp_all add: txn_node_zero_def)
  moreover have "dom ?v = {zero_uuid, txn_id, ff_uuid}"
    by (auto simp: submit_create_kv_def)
  moreover have "chain ?v [zero_uuid, txn_id, ff_uuid]"
    by (simp add: chain_def at) (simp add: submit_newnode_def txn_node_zero_def)
  moreover have "length (the (?v ff_uuid)) = 96"
    using wf by (simp add: submit_create_kv_def)
  ultimately show ?thesis using assms by (simp add: pq_rep_def)
qed

lemma submit_append_rep:
  assumes rep: "pq_rep v ids" "v ff_uuid \<noteq> None"
    and len: "length txn_id = 16" "length artifact_id = 16" "length txn_bytes + 96 < 2 ^ 64"
    and fresh: "v txn_id = None"
    and nb: "nb = submit_entry att txn_id artifact_id (node_prev (node_at v ff_uuid)) txn_bytes"
  shows "pq_rep (submit_append_kv v txn_id nb) (ids @ [txn_id])"
proof -
  note q = pq_rep_initialised [OF rep]
  define p where "p = last (zero_uuid # ids)"
  let ?v = "submit_append_kv v txn_id nb"
  have prev: "node_prev (node_at v ff_uuid) = p" using pq_rep_last [OF rep] by (simp add: p_def)
  have pset: "p \<in> set (zero_uuid # ids)" unfolding p_def by (rule last_in_set) simp
  then have pne: "p \<noteq> ff_uuid" "p \<noteq> txn_id" "p \<in> dom v"
    using q(1,2) fresh by (auto simp: domIff)
  have idne: "txn_id \<noteq> ff_uuid" "txn_id \<notin> set (zero_uuid # ids @ [ff_uuid])"
    using fresh q(1) rep(2) by (auto simp: domIff)
  have okp: "entry_ok v p" and okff: "entry_ok v ff_uuid" using q(3) pne(3) rep(2) by auto
  have lenp: "length p = 16" using okp by (rule entry_ok_length)
  have wfend: "txn_node_wf ((node_at v ff_uuid)\<lparr>node_prev := txn_id\<rparr>)"
    using entry_okD [OF okff] len by auto
  have v: "?v = v(txn_id \<mapsto> nb, p \<mapsto> store_at 32 txn_id (the (v p)),
                 ff_uuid \<mapsto> txn_node_bytes ((node_at v ff_uuid)\<lparr>node_prev := txn_id\<rparr>))"
    by (simp add: submit_append_kv_def prev Let_def)
  have v_id: "?v txn_id = Some nb" using pne idne by (simp add: v)
  have nb': "nb = submit_entry att txn_id artifact_id p txn_bytes" by (simp only: nb prev)
  have at_p: "node_at ?v p = (node_at v p)\<lparr>node_next := txn_id\<rparr>"
    using entry_ok_store(2) [OF okp len(1), of 32] pne by (simp add: v node_at_def)
  have at_id: "node_at ?v txn_id = submit_newnode att txn_id artifact_id p txn_bytes"
    using v_id nb' len lenp by (simp add: node_at_def submit_entry_simps)
  have at_ff: "node_at ?v ff_uuid = (node_at v ff_uuid)\<lparr>node_prev := txn_id\<rparr>"
    using wfend by (simp add: v node_at_def)
  have at: "node_at ?v k = node_at v k" if "k \<noteq> txn_id" "k \<noteq> p" "k \<noteq> ff_uuid" for k
    using that by (simp add: v node_at_other)
  have left: "chain v (zero_uuid # ids)" "distinct (zero_uuid # ids)"
    using q(2,5) chain_append [of "zero_uuid # ids" "[ff_uuid]" v] by simp_all
  have "chain ?v (zero_uuid # ids)"
  proof (rule chain_keep_left [OF left])
    show "node_at ?v k = node_at v k" if "k \<in> set (zero_uuid # ids)" "k \<noteq> last (zero_uuid # ids)" for k
      using that q(2) idne by (intro at) (auto simp: p_def)
    show "node_prev (node_at ?v (last (zero_uuid # ids))) = node_prev (node_at v (last (zero_uuid # ids)))"
      unfolding p_def [symmetric] by (simp add: at_p)
  qed simp
  moreover have "chain ?v [txn_id, ff_uuid]"
    by (simp add: chain_def at_id at_ff) (simp add: submit_newnode_def)
  moreover have "node_next (node_at ?v p) = txn_id" "node_prev (node_at ?v txn_id) = p"
    by (simp add: at_p, simp add: at_id submit_newnode_def)
  ultimately have chain: "chain ?v ((zero_uuid # ids) @ [txn_id, ff_uuid])"
    by (subst chain_append) (simp_all add: p_def)
  have oks: "entry_ok ?v k" if "k \<in> dom v" for k
  proof -
    consider "k = ff_uuid" | "k = p" | "k \<noteq> p" "k \<noteq> ff_uuid" by blast
    then show ?thesis
    proof cases
      case 1
      have "entry_ok v ff_uuid" by (rule okff)
      then show ?thesis using 1 wfend entry_okD [OF okff] q(4)
        by (auto simp: v entry_ok_def node_at_def)
    next
      case 2
      then show ?thesis
        using entry_ok_store(1) [OF okp len(1), of 32] pne by (simp add: v entry_ok_def)
    next
      case 3
      then show ?thesis using that fresh q(3) by (auto simp: v entry_ok_def)
    qed
  qed
  have okid: "entry_ok ?v txn_id"
  proof (rule submit_entry_ok)
    show "?v txn_id = Some (submit_entry att txn_id artifact_id p txn_bytes)"
      using v_id nb' by metis
  qed (use len lenp in simp_all)
  have "dom ?v = insert txn_id (dom v)" using pne rep(2) by (auto simp: v)
  then show ?thesis
    using chain oks okid q(1,2) idne wfend by (auto simp: pq_rep_def v)
qed

lemma drop_rep:
  assumes rep: "pq_rep v ids" and id: "txn_id \<in> set ids"
  shows "pq_rep (drop_kv v txn_id) (remove1 txn_id ids)"
    and "node_prev (node_at v txn_id) \<in> dom v - {txn_id}"
    and "node_next (node_at v txn_id) \<in> dom v - {txn_id}"
    and "node_prev (node_at v txn_id) \<noteq> node_next (node_at v txn_id)"
proof -
  have init: "v ff_uuid \<noteq> None" using rep id pq_rep_uninitialised by fastforce
  note q = pq_rep_initialised [OF rep init]
  obtain xs ys where ids: "ids = xs @ txn_id # ys" using id by (meson split_list)
  have notin: "txn_id \<notin> set xs" using q(2) by (auto simp: ids)
  have rem: "remove1 txn_id ids = xs @ ys" using notin by (simp add: ids remove1_append)
  let ?L = "zero_uuid # xs" and ?R = "ys @ [ff_uuid]"
  define p where "p = last ?L"
  define n where "n = hd ?R"
  let ?v = "drop_kv v txn_id"
  have "chain v (?L @ txn_id # ?R)" using q(5) by (simp add: ids)
  then have parts: "chain v ?L" "chain v ?R" "node_prev (node_at v txn_id) = p" "node_next (node_at v txn_id) = n"
    using chain_append [of ?L "[txn_id] @ ?R" v] chain_append [of "[txn_id]" ?R v]
    by (simp_all add: p_def n_def)
  have pL: "p \<in> set ?L" unfolding p_def by (rule last_in_set) simp
  have nR: "n \<in> set ?R" unfolding n_def by (rule hd_in_set) simp
  have dist: "distinct (?L @ txn_id # ?R)" using q(2) by (simp add: ids)
  have disj: "set ?L \<inter> set ?R = {}" "txn_id \<notin> set ?L" "txn_id \<notin> set ?R" "distinct ?L" "distinct ?R"
    using dist by auto
  have dom: "dom v = set ?L \<union> {txn_id} \<union> set ?R" using q(1) by (auto simp: ids)
  have ne: "p \<noteq> n" "p \<noteq> txn_id" "n \<noteq> txn_id" using pL nR disj by auto
  have okp: "entry_ok v p" and okn: "entry_ok v n" and okid: "entry_ok v txn_id"
    using q(3) dom pL nR by auto
  have lens: "length n = 16" "length p = 16" using okp okn entry_ok_length by auto
  have v: "?v = v(txn_id := None, p \<mapsto> store_at 32 n (the (v p)), n \<mapsto> store_at 16 p (the (v n)))"
    using ne by (simp add: drop_kv_def Let_def parts)
  have at_p: "node_at ?v p = (node_at v p)\<lparr>node_next := n\<rparr>"
    using entry_ok_store(2) [OF okp lens(1), of 32] ne by (simp add: v node_at_def)
  have at_n: "node_at ?v n = (node_at v n)\<lparr>node_prev := p\<rparr>"
    using entry_ok_store(2) [OF okn lens(2), of 16] ne by (simp add: v node_at_def)
  have at: "node_at ?v k = node_at v k" if "k \<noteq> txn_id" "k \<noteq> p" "k \<noteq> n" for k
    using that by (simp add: v node_at_other)
  have "chain ?v ?L"
  proof (rule chain_keep_left [OF parts(1) disj(4)])
    show "node_at ?v k = node_at v k" if "k \<in> set ?L" "k \<noteq> last ?L" for k
      using that nR disj by (intro at) (auto simp: p_def)
    show "node_prev (node_at ?v (last ?L)) = node_prev (node_at v (last ?L))"
      unfolding p_def [symmetric] by (simp add: at_p)
  qed simp
  moreover have "chain ?v ?R"
  proof (rule chain_keep_right [OF parts(2) disj(5)])
    show "node_at ?v k = node_at v k" if "k \<in> set ?R" "k \<noteq> hd ?R" for k
      using that pL disj by (intro at) (auto simp: n_def)
    show "node_next (node_at ?v (hd ?R)) = node_next (node_at v (hd ?R))"
      unfolding n_def [symmetric] by (simp add: at_n)
  qed simp
  ultimately have ch: "chain ?v (?L @ ?R)"
    using chain_append [of ?L ?R ?v] unfolding p_def [symmetric] n_def [symmetric]
    by (simp add: at_p at_n)
  have oks: "entry_ok ?v k" if "k \<in> set ?L \<union> set ?R" for k
  proof -
    have k: "k \<noteq> txn_id" "entry_ok v k" using that disj q(3) dom by auto
    consider "k = p" | "k = n" | "k \<noteq> p" "k \<noteq> n" by blast
    then show ?thesis
    proof cases
      case 1
      then show ?thesis using entry_ok_store(1) [OF okp lens(1), of 32] ne by (simp add: v entry_ok_def)
    next
      case 2
      then show ?thesis using entry_ok_store(1) [OF okn lens(2), of 16] ne by (simp add: v entry_ok_def)
    next
      case 3
      then show ?thesis using k by (simp add: v entry_ok_other)
    qed
  qed
  have dom': "dom ?v = set ?L \<union> set ?R"
    using dom pL nR disj ne by (auto simp: v)
  have len: "length (the (?v ff_uuid)) = 96"
  proof -
    have "ff_uuid \<noteq> txn_id" "ff_uuid \<noteq> p" using disj pL by auto
    moreover have "entry_ok v ff_uuid" using q(3) dom by auto
    ultimately show ?thesis using q(4) lens by (auto simp: v)
  qed
  show "pq_rep ?v (remove1 txn_id ids)"
    using ch oks dom' len disj unfolding rem by (simp add: pq_rep_def insert_commute)
  show "node_prev (node_at v txn_id) \<in> dom v - {txn_id}" "node_next (node_at v txn_id) \<in> dom v - {txn_id}"
    "node_prev (node_at v txn_id) \<noteq> node_next (node_at v txn_id)"
    using parts ne pL nR dom by auto
qed

end
