(* ===== verification/Ds_Queue_Correct.thy ===== *)
theory Ds_Queue_Correct
  imports Ds_Queue_Rep
begin

subsection \<open>Submission against the store\<close>

definition submit_kv :: "bool \<Rightarrow> bytes \<Rightarrow> bytes \<Rightarrow> bytes \<Rightarrow> kv \<Rightarrow> kv" where
  "submit_kv att txn_id artifact_id txn_bytes v =
     (if v ff_uuid = None
      then submit_create_kv v txn_id (submit_entry att txn_id artifact_id zero_uuid txn_bytes)
      else submit_append_kv v txn_id
             (submit_entry att txn_id artifact_id (node_prev (node_at v ff_uuid)) txn_bytes))"

text \<open>The arguments of a submission: 16-byte identifiers and a certificate that fits in memory.\<close>

definition submit_args :: "bytes \<Rightarrow> bytes \<Rightarrow> bytes \<Rightarrow> bool" where
  "submit_args txn_id artifact_id txn_bytes \<longleftrightarrow>
     length txn_id = 16 \<and> length artifact_id = 16 \<and> length txn_bytes + 96 < 2 ^ 64"

lemma submit_rep:
  assumes "pq_rep v ids" and "v txn_id = None" and "submit_args txn_id artifact_id txn_bytes"
    and "txn_id \<noteq> zero_uuid" "txn_id \<noteq> ff_uuid"
  shows "pq_rep (submit_kv att txn_id artifact_id txn_bytes v) (ids @ [txn_id])"
  using assms submit_create_rep [of txn_id artifact_id txn_bytes att]
    submit_append_rep [of v ids txn_id artifact_id txn_bytes _ att]
    pq_rep_uninitialised [OF assms(1)]
  by (auto simp: submit_kv_def submit_args_def)

lemma pq_rep_fresh:
  "pq_rep v ids \<Longrightarrow> txn_id \<noteq> zero_uuid \<Longrightarrow> txn_id \<noteq> ff_uuid \<Longrightarrow> v txn_id = None \<longleftrightarrow> txn_id \<notin> set ids"
  by (auto simp: pq_rep_def domIff dest: equalityD2)

lemma submit_newnode_key: "node_key (submit_newnode att txn_id artifact_id prev txn_bytes) = txn_id"
  by (simp add: submit_newnode_def)

context lmdb_store
begin

lemma submit_create_queue_outcome:
  assumes "dataservice_transaction_submit_create_queue ops d t txn_id = (AGENTD_STATUS_SUCCESS, t')"
  shows "tv t' = (tv t)(d := (tv t d)(
     zero_uuid \<mapsto> txn_node_bytes (txn_node_zero\<lparr>node_next := txn_id\<rparr>),
     ff_uuid \<mapsto> txn_node_bytes (txn_node_zero\<lparr>node_key := ff_uuid, node_next := ff_uuid, node_prev := txn_id\<rparr>)))"
  using assms put_view
  by (fastforce simp: dataservice_transaction_submit_create_queue_def Let_def txn_node_zero_def
      split: prod.splits if_splits)

lemma submit_update_end_outcome:
  assumes "dataservice_transaction_submit_update_end ops d t txn_id n = (AGENTD_STATUS_SUCCESS, t')"
  shows "tv t' = (tv t)(d := (tv t d)(node_key n \<mapsto> txn_node_bytes (n\<lparr>node_prev := txn_id\<rparr>)))"
  using assms put_view
  by (fastforce simp: dataservice_transaction_submit_update_end_def Let_def split: prod.splits if_splits)

lemma submit_update_prev_outcome:
  assumes ok: "entry_ok (tv t d) prev" and "length txn_id = 16"
  obtains st t' where
    "dataservice_transaction_submit_update_prev ops malloc_ok d t txn_id prev = Some (st, t')"
    and "st = AGENTD_STATUS_SUCCESS \<Longrightarrow>
      tv t' = (tv t)(d := (tv t d)(prev \<mapsto> store_at offsetof_node_next txn_id (the (tv t d prev))))"
proof -
  obtain b where b: "tv t d prev = Some b" "96 \<le> length b" "length b < 2 ^ 64"
    "unat (ntohll (net_txn_cert_size (txn_node_of b))) = length b - 96"
    using entry_okD [OF ok] by blast
  have size: "unat (96 + ntohll (of_mem64 (slice 80 8 b))) = length b"
    using b by (simp add: txn_node_of_def unat_word_ariths)
  obtain rc lval where g: "mdb_get_lval ops t d prev = (rc, lval)" by fastforce
  have lval: "rc = 0 \<Longrightarrow> lval = b" using g b(1) lval_found by fastforce
  obtain rc' t' where put: "mdb_put ops t d prev (store_at 32 txn_id b) 0 = (rc', t')" by fastforce
  then have "rc' = 0 \<Longrightarrow> tv t' = (tv t)(d := (tv t d)(prev \<mapsto> store_at 32 txn_id b))"
    using put_view by blast
  then have v: "tv t' = (tv t)(d := (tv t d)(prev \<mapsto> store_at 32 txn_id (the (tv t d prev))))" if "rc' = 0"
    using that b(1) by simp
  have "dataservice_transaction_submit_update_prev ops malloc_ok d t txn_id prev = Some
      (if rc \<noteq> 0 then (AGENTD_ERROR_DATASERVICE_MDB_GET_FAILURE, t) else
       if \<not> malloc_ok then (AGENTD_ERROR_GENERAL_OUT_OF_MEMORY, t) else
       if rc' \<noteq> 0 then (AGENTD_ERROR_DATASERVICE_MDB_PUT_FAILURE, t') else (AGENTD_STATUS_SUCCESS, t'))"
    using b lval put size
    by (simp add: dataservice_transaction_submit_update_prev_def g Let_def)
  then show thesis using v that by (auto split: if_splits)
qed

text \<open>The three ways a submission ends: before its transaction, aborting it, committing it.\<close>

lemma submit_created:
  assumes "tv t0 = view e p" and "view e p pq_db ff_uuid = None"
    and "mdb_put ops t0 pq_db txn_id (submit_entry att txn_id artifact_id zero_uuid txn_bytes) f = (0, t1)"
    and "dataservice_transaction_submit_create_queue ops pq_db t1 txn_id = (AGENTD_STATUS_SUCCESS, t2)"
  shows "tv t2 = (view e p)(pq_db := submit_kv att txn_id artifact_id txn_bytes (view e p pq_db))"
  using submit_create_queue_outcome [OF assms(4)] put_view [OF assms(3)] assms(1,2)
  by (simp add: submit_kv_def submit_create_kv_def)

lemma submit_prev_entry:
  assumes t0: "tv t0 = view e p" and rep: "pq_rep (view e p pq_db) ids"
    and lval: "view e p pq_db ff_uuid = Some lval"
    and put: "mdb_put ops t0 pq_db txn_id b f = (0, t1)"
    and fresh: "view e p pq_db txn_id = None"
  shows "entry_ok (tv t1 pq_db) (node_prev (txn_node_of lval))"
    and "node_prev (txn_node_of lval) \<noteq> txn_id" and "node_key (txn_node_of lval) = ff_uuid"
proof -
  let ?v = "view e p pq_db" and ?p = "node_prev (txn_node_of lval)"
  have init: "?v ff_uuid \<noteq> None" using lval by simp
  note q = pq_rep_initialised [OF rep init]
  have at: "node_at ?v ff_uuid = txn_node_of lval" using lval by (simp add: node_at_def)
  show "node_key (txn_node_of lval) = ff_uuid"
    using entry_okD [OF q(3) [of ff_uuid]] lval by auto
  have "?p = last (zero_uuid # ids)" using pq_rep_last [OF rep init] at by simp
  then have "?p \<in> set (zero_uuid # ids)" by (metis last_in_set list.distinct(1))
  then have p: "?p \<in> dom ?v" and ne: "?p \<noteq> txn_id" using q(1) fresh by (auto simp: domIff)
  show "?p \<noteq> txn_id" by (rule ne)
  show "entry_ok (tv t1 pq_db) ?p"
    using q(3) [OF p] ne t0 put_view [OF put] by (simp add: entry_ok_def)
qed

lemma submit_appended:
  assumes t0: "tv t0 = view e p" and rep: "pq_rep (view e p pq_db) ids"
    and lval: "view e p pq_db ff_uuid = Some lval"
    and put: "mdb_put ops t0 pq_db txn_id
           (submit_entry att txn_id artifact_id (node_prev (txn_node_of lval)) txn_bytes) f = (0, t1)"
    and fresh: "view e p pq_db txn_id = None" and len: "length txn_id = 16"
  obtains st t2 where
    "dataservice_transaction_submit_update_prev ops malloc_ok pq_db t1 txn_id (node_prev (txn_node_of lval)) = Some (st, t2)"
    and "\<And>t3. st = AGENTD_STATUS_SUCCESS \<Longrightarrow>
      dataservice_transaction_submit_update_end ops pq_db t2 txn_id (txn_node_of lval) = (AGENTD_STATUS_SUCCESS, t3) \<Longrightarrow>
      tv t3 = (view e p)(pq_db := submit_kv att txn_id artifact_id txn_bytes (view e p pq_db))"
proof -
  let ?v = "view e p pq_db" and ?p = "node_prev (txn_node_of lval)"
  have at: "node_at ?v ff_uuid = txn_node_of lval" using lval by (simp add: node_at_def)
  note e = submit_prev_entry [OF t0 rep lval put fresh]
  have t1: "tv t1 = (tv t0)(pq_db := (tv t0 pq_db)(txn_id \<mapsto> submit_entry att txn_id artifact_id ?p txn_bytes))"
    by (rule put_view [OF put])
  from submit_update_prev_outcome [OF e(1) len, of malloc_ok] obtain st t2 where
    u: "dataservice_transaction_submit_update_prev ops malloc_ok pq_db t1 txn_id ?p = Some (st, t2)"
    "st = AGENTD_STATUS_SUCCESS \<Longrightarrow> tv t2 = (tv t1)(pq_db := (tv t1 pq_db)(?p \<mapsto> store_at 32 txn_id (the (tv t1 pq_db ?p))))"
    by metis
  show thesis
  proof (rule that [OF u(1)])
    fix t3 assume st: "st = AGENTD_STATUS_SUCCESS"
      and "dataservice_transaction_submit_update_end ops pq_db t2 txn_id (txn_node_of lval) = (AGENTD_STATUS_SUCCESS, t3)"
    from submit_update_end_outcome [OF this(2)] u(2) [OF st] t1 t0 e(2) lval
    show "tv t3 = (view e p)(pq_db := submit_kv att txn_id artifact_id txn_bytes ?v)"
      by (simp add: submit_kv_def submit_append_kv_def at e(3) Let_def)
  qed
qed

lemma submit_outcome:
  assumes rep: "pq_rep (view e p pq_db) ids" and args: "submit_args txn_id artifact_id txn_bytes"
    and id: "txn_id \<noteq> zero_uuid" "txn_id \<noteq> ff_uuid"
  shows "returns (atomic_update ev tv e p (\<lambda>w. txn_id \<notin> set ids \<and>
       w = (view e p)(pq_db := submit_kv att txn_id artifact_id txn_bytes (view e p pq_db))))
     (dataservice_transaction_submit ops att malloc_ok child e p txn_id artifact_id txn_bytes)"
proof -
  obtain rc0 t0 where beg: "mdb_txn_begin ops e p 0 = (rc0, t0)" by fastforce
  obtain rc1 lval where g: "mdb_get_lval ops t0 pq_db ff_uuid = (rc1, lval)" by fastforce
  define prev where "prev = (if rc1 = 0 then node_prev (txn_node_of lval) else zero_uuid)"
  obtain rc2 t1 where put: "mdb_put ops t0 pq_db txn_id
      (submit_entry att txn_id artifact_id prev txn_bytes) MDB_NOOVERWRITE = (rc2, t1)" by fastforce
  have put0: "rc1 = 0 \<Longrightarrow> mdb_put ops t0 pq_db txn_id
      (submit_entry att txn_id artifact_id (node_prev (txn_node_of lval)) txn_bytes) 16 = (rc2, t1)"
    and put1: "rc1 \<noteq> 0 \<Longrightarrow> mdb_put ops t0 pq_db txn_id
      (submit_entry att txn_id artifact_id zero_uuid txn_bytes) 16 = (rc2, t1)"
    using put by (simp_all add: prev_def)
  note S = dataservice_transaction_submit_def Let_def beg g submit_newnode_key
    submit_entry_def [symmetric] put0 put1
  show ?thesis
  proof (cases "BITCAP_ISSET (childcaps child) DATASERVICE_API_CAP_APP_PQ_TRANSACTION_SUBMIT \<and> rc0 = 0 \<and>
        (rc1 = 0 \<and> 96 \<le> length lval \<or> rc1 = MDB_NOTFOUND) \<and> malloc_ok 0 \<and> rc2 = 0")
    case False
    then consider "\<not> BITCAP_ISSET (childcaps child) DATASERVICE_API_CAP_APP_PQ_TRANSACTION_SUBMIT" | "rc0 \<noteq> 0"
      | "rc1 = 0" "length lval < 96" | "rc1 \<noteq> 0" "rc1 \<noteq> MDB_NOTFOUND" | "\<not> malloc_ok 0" | "rc2 \<noteq> 0" by fastforce
    then show ?thesis by cases (simp_all add: S atomic_commit)
  next
    case True
    then have ok: "BITCAP_ISSET (childcaps child) 15" "rc0 = 0" "malloc_ok 0" "rc2 = 0" by auto
    have t0: "tv t0 = view e p" using begin_view beg ok by simp
    have fresh: "view e p pq_db txn_id = None" using put_nooverwrite put ok t0 by metis
    then have notin: "txn_id \<notin> set ids" using pq_rep_fresh [OF rep id] by simp
    from True consider (new) "rc1 = MDB_NOTFOUND" | (old) "rc1 = 0" "96 \<le> length lval" by auto
    then show ?thesis
    proof cases
      case new
      then have none: "view e p pq_db ff_uuid = None" using lval_notfound g t0 by metis
      obtain st t2 where c: "dataservice_transaction_submit_create_queue ops pq_db t1 txn_id = (st, t2)"
        by fastforce
      have "tv t2 = (view e p)(pq_db := submit_kv att txn_id artifact_id txn_bytes (view e p pq_db))"
        if "st = AGENTD_STATUS_SUCCESS"
        using submit_created [OF t0 none] put c that ok new by (simp add: prev_def)
      then show ?thesis using ok new notin by (simp add: S c atomic_commit)
    next
      case old
      then have some: "view e p pq_db ff_uuid = Some lval" using lval_found g t0 by metis
      have prev: "prev = node_prev (txn_node_of lval)" using old by (simp add: prev_def)
      from submit_appended [OF t0 rep some put [unfolded prev, unfolded ok(4)] fresh, of "malloc_ok 1"] args
      obtain st t2 where u: "dataservice_transaction_submit_update_prev ops (malloc_ok 1) pq_db t1 txn_id prev = Some (st, t2)"
        "\<And>t3. st = AGENTD_STATUS_SUCCESS \<Longrightarrow>
          dataservice_transaction_submit_update_end ops pq_db t2 txn_id (txn_node_of lval) = (AGENTD_STATUS_SUCCESS, t3) \<Longrightarrow>
          tv t3 = (view e p)(pq_db := submit_kv att txn_id artifact_id txn_bytes (view e p pq_db))"
        unfolding prev submit_args_def by metis
      obtain st' t3 where v: "dataservice_transaction_submit_update_end ops pq_db t2 txn_id (txn_node_of lval) = (st', t3)"
        by fastforce
      show ?thesis using ok old notin u v
        by (simp add: S prev atomic_commit)
    qed
  qed
qed

end


subsection \<open>Outcomes of drop and promote\<close>

definition promote_kv :: "kv \<Rightarrow> bytes \<Rightarrow> kv" where
  "promote_kv v txn_id = v(txn_id \<mapsto> store_at offsetof_net_txn_state
     (mem32 (htonl DATASERVICE_TRANSACTION_NODE_STATE_ATTESTED)) (the (v txn_id)))"

text \<open>The map after the neighbours of a deleted node are joined.\<close>

definition fixup_kv :: "kv \<Rightarrow> data_transaction_node \<Rightarrow> kv" where
  "fixup_kv v n =
     (let v2 = v(node_prev n \<mapsto> store_at offsetof_node_next (node_next n) (the (v (node_prev n))))
      in v2(node_next n \<mapsto> store_at offsetof_node_prev (node_prev n) (the (v2 (node_next n)))))"

lemma drop_kv_fixup: "drop_kv v txn_id = fixup_kv (v(txn_id := None)) (node_at v txn_id)"
  by (simp add: drop_kv_def fixup_kv_def Let_def)

lemma pq_rep_member:
  assumes "pq_rep v ids" and "v txn_id = Some b" and "txn_id \<noteq> zero_uuid" and "txn_id \<noteq> ff_uuid"
  shows "txn_id \<in> set ids"
  using assms pq_rep_fresh by fastforce

lemma pq_rep_entry:
  assumes "pq_rep v ids" and "txn_id \<in> set ids"
  obtains b where "v txn_id = Some b" and "96 \<le> length b" and "node_at v txn_id = txn_node_of b"
    and "txn_id \<noteq> zero_uuid" and "txn_id \<noteq> ff_uuid" and "entry_ok v txn_id"
    and "unat (ntohll (net_txn_cert_size (txn_node_of b))) = length b - 96"
proof -
  have init: "v ff_uuid \<noteq> None" using assms pq_rep_uninitialised by fastforce
  note q = pq_rep_initialised [OF assms(1) init]
  have ok: "entry_ok v txn_id" using q(1,3) assms(2) by auto
  have "txn_id \<noteq> zero_uuid" "txn_id \<noteq> ff_uuid" using q(2) assms(2) by auto
  then show thesis using entry_okD [OF ok] ok that by blast
qed

lemma promote_rep:
  assumes rep: "pq_rep v ids" and id: "txn_id \<in> set ids"
  shows "pq_rep (promote_kv v txn_id) ids"
    and "node_at (promote_kv v txn_id) k =
       (if k = txn_id then (node_at v k)\<lparr>net_txn_state := htonl DATASERVICE_TRANSACTION_NODE_STATE_ATTESTED\<rparr>
        else node_at v k)"
proof -
  obtain b where b: "v txn_id = Some b" "96 \<le> length b" "entry_ok v txn_id" "txn_id \<noteq> ff_uuid"
    using pq_rep_entry [OF assms] by metis
  let ?v = "promote_kv v txn_id"
  show at: "node_at ?v k = (if k = txn_id then (node_at v k)\<lparr>net_txn_state := htonl 2\<rparr> else node_at v k)" for k
    using b by (simp add: promote_kv_def node_at_def)
  have ok: "entry_ok ?v k" if "entry_ok v k" for k
    using that b by (cases "k = txn_id") (auto simp: promote_kv_def entry_ok_def)
  have ch: "chain ?v xs = chain v xs" for xs
    by (rule chain_cong) (simp_all add: at)
  have init: "v ff_uuid \<noteq> None" using rep id pq_rep_uninitialised by fastforce
  note q = pq_rep_initialised [OF rep init]
  have "dom ?v = dom v" using b by (auto simp: promote_kv_def)
  moreover have "length (the (?v ff_uuid)) = 96" using q(4) b by (simp add: promote_kv_def)
  ultimately show "pq_rep ?v ids" using q ok ch by (auto simp: pq_rep_def)
qed

context lmdb_store
begin

lemma fixup_outcome:
  assumes "dataservice_transaction_drop_fixup_prev_next ops m t d node = (AGENTD_STATUS_SUCCESS, t')"
  shows "tv t' = (tv t)(d := fixup_kv (tv t d) node)"
proof -
  obtain rc1 b1 where g1: "mdb_get_lval ops t d (node_prev node) = (rc1, b1)" by fastforce
  obtain rc2 t1 where p1: "mdb_put ops t d (node_prev node) (store_at 32 (node_next node) b1) 0 = (rc2, t1)" by fastforce
  obtain rc3 b2 where g2: "mdb_get_lval ops t1 d (node_next node) = (rc3, b2)" by fastforce
  obtain rc4 t2 where p2: "mdb_put ops t1 d (node_next node) (store_at 16 (node_prev node) b2) 0 = (rc4, t2)" by fastforce
  have ok: "rc1 = 0" "rc2 = 0" "rc3 = 0" "rc4 = 0" "t2 = t'"
    using assms g1 p1 g2 p2
    by (auto simp: dataservice_transaction_drop_fixup_prev_next_def Let_def split: if_splits)
  have "tv t d (node_prev node) = Some b1" "tv t1 d (node_next node) = Some b2"
    using g1 g2 ok lval_found by auto
  moreover have "tv t1 = (tv t)(d := (tv t d)(node_prev node \<mapsto> store_at 32 (node_next node) b1))"
    "tv t' = (tv t1)(d := (tv t1 d)(node_next node \<mapsto> store_at 16 (node_prev node) b2))"
    using p1 p2 ok put_view by blast+
  ultimately show ?thesis by (simp add: fixup_kv_def Let_def)
qed

lemma drop_atomic:
  assumes rep: "pq_rep (ev e pq_db) ids"
  shows "atomic_update ev tv e None (\<lambda>w. txn_id \<in> set ids \<and>
       w = (ev e)(pq_db := drop_kv (ev e pq_db) txn_id))
     (dataservice_transaction_drop ops malloc_ok child e None txn_id)"
proof -
  obtain rc0 t0 where beg: "mdb_txn_begin ops e None 0 = (rc0, t0)" by fastforce
  obtain rc1 b where g: "mdb_get_lval ops t0 pq_db txn_id = (rc1, b)" by fastforce
  obtain rc2 t1 where d: "mdb_del ops t0 pq_db txn_id = (rc2, t1)" by fastforce
  obtain st t2 where f: "dataservice_transaction_drop_fixup_prev_next ops malloc_ok t1 pq_db (txn_node_of b) = (st, t2)"
    by fastforce
  note D = dataservice_transaction_drop_def dataservice_transaction_drop_internal_def beg g d f Let_def
  show ?thesis
  proof (cases "rc0 = 0 \<and> rc1 = 0 \<and> rc2 = 0 \<and> st = AGENTD_STATUS_SUCCESS \<and> txn_id \<noteq> zero_uuid \<and> txn_id \<noteq> ff_uuid")
    case False
    then consider "rc0 \<noteq> 0" | "rc1 \<noteq> 0" | "rc2 \<noteq> 0" | "st \<noteq> AGENTD_STATUS_SUCCESS"
      | "txn_id = zero_uuid \<or> txn_id = ff_uuid" by fastforce
    then show ?thesis by cases (simp_all add: D del: atomic_update.simps)
  next
    case True
    then have t0: "tv t0 = ev e" using beg begin_view [of e None 0 t0] by simp
    then have b: "ev e pq_db txn_id = Some b" using g True lval_found by metis
    have "tv t1 = (ev e)(pq_db := (ev e pq_db)(txn_id := None))" using d True del_view t0 by metis
    then have "tv t2 = (ev e)(pq_db := drop_kv (ev e pq_db) txn_id)"
      using fixup_outcome [of malloc_ok t1 pq_db "txn_node_of b" t2] f True b
      by (simp add: drop_kv_fixup node_at_def)
    moreover have "txn_id \<in> set ids" using pq_rep_member [OF rep b] True by blast
    ultimately show ?thesis using True by (simp add: D atomic_commit del: atomic_update.simps)
  qed
qed

lemma promote_atomic:
  assumes rep: "pq_rep (ev e pq_db) ids"
  shows "atomic_update ev tv e None (\<lambda>w. txn_id \<in> set ids \<and>
       w = (ev e)(pq_db := promote_kv (ev e pq_db) txn_id))
     (dataservice_transaction_promote ops malloc_ok child e None txn_id)"
proof -
  obtain rc0 t0 where beg: "mdb_txn_begin ops e None 0 = (rc0, t0)" by fastforce
  obtain rc1 b where g: "mdb_get_lval ops t0 pq_db txn_id = (rc1, b)" by fastforce
  obtain rc2 t1 where d: "mdb_put ops t0 pq_db txn_id (store_at 88 (mem32 (htonl 2)) b) 0 = (rc2, t1)" by fastforce
  note D = dataservice_transaction_promote_def dataservice_transaction_promote_internal_def beg g d Let_def
  show ?thesis
  proof (cases "rc0 = 0 \<and> rc1 = 0 \<and> rc2 = 0 \<and> txn_id \<noteq> zero_uuid \<and> txn_id \<noteq> ff_uuid")
    case False
    then consider "rc0 \<noteq> 0" | "rc1 \<noteq> 0" | "rc2 \<noteq> 0" | "txn_id = zero_uuid \<or> txn_id = ff_uuid" by fastforce
    then show ?thesis by cases (simp_all add: D del: atomic_update.simps)
  next
    case True
    then have t0: "tv t0 = ev e" using beg begin_view [of e None 0 t0] by simp
    then have b: "ev e pq_db txn_id = Some b" using g True lval_found by metis
    have "tv t1 = (ev e)(pq_db := promote_kv (ev e pq_db) txn_id)"
      using d True put_view t0 b by (metis promote_kv_def option.sel)
    moreover have "txn_id \<in> set ids" using pq_rep_member [OF rep b] True by blast
    ultimately show ?thesis using True by (simp add: D atomic_commit del: atomic_update.simps)
  qed
qed

end


subsection \<open>The operations when the store does not fail\<close>

context lmdb_reliable
begin

lemma submit_create_queue_reliable:
  obtains t' where "dataservice_transaction_submit_create_queue ops d t txn_id = (AGENTD_STATUS_SUCCESS, t')"
proof -
  let ?s = "txn_node_zero\<lparr>node_next := txn_id\<rparr>"
  let ?f = "txn_node_zero\<lparr>node_key := ff_uuid, node_next := ff_uuid, node_prev := txn_id\<rparr>"
  obtain t1 where p1: "mdb_put ops t d (node_key ?s) (txn_node_bytes ?s) 0 = (0, t1)"
    using put_zero by blast
  obtain t2 where p2: "mdb_put ops t1 d (node_key ?f) (txn_node_bytes ?f) 0 = (0, t2)"
    using put_zero by blast
  show thesis
    using that [of t2] p1 p2 by (simp add: dataservice_transaction_submit_create_queue_def Let_def)
qed

lemma submit_update_prev_reliable:
  assumes "entry_ok (tv t d) prev" and "length txn_id = 16"
  obtains t' where "dataservice_transaction_submit_update_prev ops True d t txn_id prev = Some (AGENTD_STATUS_SUCCESS, t')"
proof -
  obtain b where b: "tv t d prev = Some b" "96 \<le> length b" "length b < 2 ^ 64"
    "unat (ntohll (net_txn_cert_size (txn_node_of b))) = length b - 96"
    using entry_okD [OF assms(1)] by blast
  have size: "unat (96 + ntohll (of_mem64 (slice 80 8 b))) = length b"
    using b by (simp add: txn_node_of_def unat_word_ariths)
  obtain t' where "mdb_put ops t d prev (store_at 32 txn_id b) 0 = (0, t')"
    using put_zero by blast
  then show thesis using b size that [of t']
    by (simp add: dataservice_transaction_submit_update_prev_def lval_Some Let_def)
qed

lemma submit_update_end_reliable:
  obtains t' where "dataservice_transaction_submit_update_end ops d t txn_id n = (AGENTD_STATUS_SUCCESS, t')"
proof -
  obtain t' where "mdb_put ops t d (node_key n) (txn_node_bytes (n\<lparr>node_prev := txn_id\<rparr>)) 0 = (0, t')"
    using put_zero by blast
  then show thesis using that by (simp add: dataservice_transaction_submit_update_end_def Let_def)
qed

lemma submit_reliable:
  assumes rep: "pq_rep (view e p pq_db) ids" and args: "submit_args txn_id artifact_id txn_bytes"
    and id: "txn_id \<noteq> zero_uuid" "txn_id \<noteq> ff_uuid" "txn_id \<notin> set ids"
    and cap: "BITCAP_ISSET (childcaps child) DATASERVICE_API_CAP_APP_PQ_TRANSACTION_SUBMIT"
    and mem: "malloc_ok 0" "malloc_ok 1"
  obtains e' p' where
    "dataservice_transaction_submit ops att malloc_ok child e p txn_id artifact_id txn_bytes =
       Some (AGENTD_STATUS_SUCCESS, e', p')"
    and "view e' p' = (view e p)(pq_db := submit_kv att txn_id artifact_id txn_bytes (view e p pq_db))"
    and "p' = None \<longleftrightarrow> p = None"
proof -
  obtain t0 where beg: "mdb_txn_begin ops e p 0 = (0, t0)" and t0: "tv t0 = view e p"
    by (rule begin_reliable)
  have fresh: "view e p pq_db txn_id = None" using pq_rep_fresh [OF rep] id by blast
  note S = dataservice_transaction_submit_def Let_def beg cap mem submit_newnode_key submit_entry_def [symmetric]
  show thesis
  proof (cases "view e p pq_db ff_uuid")
    case None
    obtain t1 where put: "mdb_put ops t0 pq_db txn_id
        (submit_entry att txn_id artifact_id zero_uuid txn_bytes) MDB_NOOVERWRITE = (0, t1)"
      using put_new fresh t0 by metis
    obtain t2 where c: "dataservice_transaction_submit_create_queue ops pq_db t1 txn_id = (AGENTD_STATUS_SUCCESS, t2)"
      by (rule submit_create_queue_reliable)
    obtain e' p' where cm: "commit_with ops e p t2 AGENTD_STATUS_SUCCESS = (AGENTD_STATUS_SUCCESS, e', p')"
      "view e' p' = tv t2" "p' = None \<longleftrightarrow> p = None" by (rule commit_with_reliable)
    have "mdb_get_lval ops t0 pq_db ff_uuid = (MDB_NOTFOUND, [])" using None t0 by (simp add: lval_None)
    then show ?thesis using that [of e' p'] cm put c submit_created [OF t0 None put c] by (simp add: S)
  next
    case (Some b)
    have init: "view e p pq_db ff_uuid \<noteq> None" using Some by simp
    obtain t1 where put: "mdb_put ops t0 pq_db txn_id
        (submit_entry att txn_id artifact_id (node_prev (txn_node_of b)) txn_bytes) MDB_NOOVERWRITE = (0, t1)"
      using put_new fresh t0 by metis
    from submit_appended [OF t0 rep Some put fresh, of True] args
    obtain st t2 where u: "dataservice_transaction_submit_update_prev ops True pq_db t1 txn_id (node_prev (txn_node_of b)) = Some (st, t2)"
      "\<And>t3. st = AGENTD_STATUS_SUCCESS \<Longrightarrow>
        dataservice_transaction_submit_update_end ops pq_db t2 txn_id (txn_node_of b) = (AGENTD_STATUS_SUCCESS, t3) \<Longrightarrow>
        tv t3 = (view e p)(pq_db := submit_kv att txn_id artifact_id txn_bytes (view e p pq_db))"
      unfolding submit_args_def by metis
    have st: "st = AGENTD_STATUS_SUCCESS"
      using submit_update_prev_reliable [OF submit_prev_entry(1) [OF t0 rep Some put fresh]] args u(1)
      by (metis Pair_inject option.inject submit_args_def)
    obtain t3 where v: "dataservice_transaction_submit_update_end ops pq_db t2 txn_id (txn_node_of b) = (AGENTD_STATUS_SUCCESS, t3)"
      by (rule submit_update_end_reliable)
    obtain e' p' where cm: "commit_with ops e p t3 AGENTD_STATUS_SUCCESS = (AGENTD_STATUS_SUCCESS, e', p')"
      "view e' p' = tv t3" "p' = None \<longleftrightarrow> p = None" by (rule commit_with_reliable)
    have "mdb_get_lval ops t0 pq_db ff_uuid = (0, b)" using Some t0 by (simp add: lval_Some)
    moreover have "96 \<le> length b" using pq_rep_initialised(4) [OF rep init] Some by simp
    ultimately show ?thesis using that [of e' p'] cm put u v st by (simp add: S del: One_nat_def)
  qed
qed

lemma fixup_reliable:
  assumes "tv t d (node_prev n) = Some b1" "96 \<le> length b1" "tv t d (node_next n) = Some b2" "96 \<le> length b2"
    and "node_prev n \<noteq> node_next n" and "m 0" "m 1"
  obtains t' where "dataservice_transaction_drop_fixup_prev_next ops m t d n = (AGENTD_STATUS_SUCCESS, t')"
proof -
  obtain t1 where p1: "mdb_put ops t d (node_prev n) (store_at 32 (node_next n) b1) 0 = (0, t1)"
    and t1: "tv t1 = (tv t)(d := (tv t d)(node_prev n \<mapsto> store_at 32 (node_next n) b1))"
    using put_reliable [of 0] by blast
  have g2: "mdb_get_lval ops t1 d (node_next n) = (0, b2)" using assms t1 by (simp add: lval_Some)
  obtain t2 where p2: "mdb_put ops t1 d (node_next n) (store_at 16 (node_prev n) b2) 0 = (0, t2)"
    using put_zero by blast
  show thesis using that [of t2] assms p1 g2 p2
    by (simp add: dataservice_transaction_drop_fixup_prev_next_def lval_Some Let_def)
qed

lemma drop_reliable:
  assumes rep: "pq_rep (view e p pq_db) ids" and id: "txn_id \<in> set ids" and mem: "m 0" "m 1"
  obtains e' p' where
    "dataservice_transaction_drop_internal ops m e p txn_id = (AGENTD_STATUS_SUCCESS, e', p')"
    and "view e' p' = (view e p)(pq_db := drop_kv (view e p pq_db) txn_id)"
    and "p' = None \<longleftrightarrow> p = None"
proof -
  let ?v = "view e p pq_db" and ?n = "node_at (view e p pq_db) txn_id"
  obtain b where b: "?v txn_id = Some b" "96 \<le> length b" "txn_id \<noteq> zero_uuid" "txn_id \<noteq> ff_uuid" "?n = txn_node_of b"
    using pq_rep_entry [OF rep id] by metis
  obtain t0 where beg: "begin_or_parent ops e p 0 = (0, t0)" and t0: "tv t0 = view e p"
    by (rule begin_or_parent_reliable)
  obtain t1 where del: "mdb_del ops t0 pq_db txn_id = (0, t1)"
    and t1: "tv t1 = (view e p)(pq_db := ?v(txn_id := None))"
    using del_reliable [of t0 pq_db txn_id] b t0 by (metis option.distinct(1))
  have nb: "node_prev ?n \<in> dom ?v" "node_prev ?n \<noteq> txn_id" "node_next ?n \<in> dom ?v" "node_next ?n \<noteq> txn_id"
    "node_prev ?n \<noteq> node_next ?n"
    using drop_rep(2-4) [OF rep id] by auto
  have init: "?v ff_uuid \<noteq> None" using rep id pq_rep_uninitialised by fastforce
  note ok = pq_rep_initialised(3) [OF rep init]
  obtain b1 b2 where "?v (node_prev ?n) = Some b1" "96 \<le> length b1" "?v (node_next ?n) = Some b2" "96 \<le> length b2"
    using entry_okD [OF ok [OF nb(1)]] entry_okD [OF ok [OF nb(3)]] by blast
  then obtain t2 where f: "dataservice_transaction_drop_fixup_prev_next ops m t1 pq_db ?n = (AGENTD_STATUS_SUCCESS, t2)"
    using fixup_reliable [of t1 pq_db ?n b1 b2 m] t1 nb mem by auto
  then have t2: "tv t2 = (view e p)(pq_db := drop_kv ?v txn_id)"
    using fixup_outcome [OF f] t1 by (simp add: drop_kv_fixup)
  obtain e' p' where cm: "commit_or_parent ops e p t2 AGENTD_STATUS_SUCCESS = (AGENTD_STATUS_SUCCESS, e', p')"
    "view e' p' = tv t2" "p' = None \<longleftrightarrow> p = None" by (rule commit_or_parent_reliable)
  have "mdb_get_lval ops t0 pq_db txn_id = (0, b)" using b t0 by (simp add: lval_Some)
  then show thesis using that [of e' p'] cm t2 b del f beg
    by (simp add: dataservice_transaction_drop_internal_def Let_def)
qed

lemma promote_reliable:
  assumes rep: "pq_rep (view e p pq_db) ids" and id: "txn_id \<in> set ids"
  obtains e' p' where
    "dataservice_transaction_promote_internal ops True e p txn_id = (AGENTD_STATUS_SUCCESS, e', p')"
    and "view e' p' = (view e p)(pq_db := promote_kv (view e p pq_db) txn_id)"
    and "p' = None \<longleftrightarrow> p = None"
proof -
  let ?v = "view e p pq_db"
  obtain b where b: "?v txn_id = Some b" "96 \<le> length b" "txn_id \<noteq> zero_uuid" "txn_id \<noteq> ff_uuid"
    using pq_rep_entry [OF rep id] by metis
  obtain t0 where beg: "begin_or_parent ops e p 0 = (0, t0)" and t0: "tv t0 = view e p"
    by (rule begin_or_parent_reliable)
  obtain t1 where put: "mdb_put ops t0 pq_db txn_id (store_at 88 (mem32 (htonl 2)) b) 0 = (0, t1)"
    and t1: "tv t1 = (tv t0)(pq_db := (tv t0 pq_db)(txn_id \<mapsto> store_at 88 (mem32 (htonl 2)) b))"
    using put_reliable by blast
  obtain e' p' where cm: "commit_or_parent ops e p t1 AGENTD_STATUS_SUCCESS = (AGENTD_STATUS_SUCCESS, e', p')"
    "view e' p' = tv t1" "p' = None \<longleftrightarrow> p = None" by (rule commit_or_parent_reliable)
  have "mdb_get_lval ops t0 pq_db txn_id = (0, b)" using b t0 by (simp add: lval_Some)
  then show thesis using that [of e' p'] cm t1 t0 b put beg
    by (simp add: dataservice_transaction_promote_internal_def promote_kv_def Let_def)
qed

end


subsection \<open>Readers\<close>

text \<open>What is stored for a queued transaction: its artifact and its certificate.\<close>

definition content :: "kv \<Rightarrow> bytes \<Rightarrow> bytes \<times> bytes" where
  "content v k = (node_artifact_id (node_at v k), drop sizeof_txn_node (the (v k)))"

context lmdb_store
begin

lemma unchanged_read_txn_node: "unchanged ev tv e p (fst (read_txn_node ops m d e p k))"
  by (simp add: read_txn_node_def)

lemma get_unchanged: "unchanged ev tv e p (fst (dataservice_transaction_get ops m child e p k))"
  by (simp add: dataservice_transaction_get_def unchanged_read_txn_node)

lemma unchanged_trans:
  "unchanged ev tv e p (st, e1, p1) \<Longrightarrow> unchanged ev tv e1 p1 r \<Longrightarrow> unchanged ev tv e p r"
  by (cases r) auto

lemma get_first_unchanged: "unchanged ev tv e p (fst (dataservice_transaction_get_first ops m child e p))"
proof -
  obtain rc t where beg: "mdb_txn_begin ops e p (if p \<noteq> None then 0 else MDB_RDONLY) = (rc, t)" by fastforce
  obtain rc1 b where g: "mdb_get_lval ops t pq_db zero_uuid = (rc1, b)" by fastforce
  obtain e1 p1 where a: "mdb_txn_abort ops e p t = (e1, p1)" by fastforce
  have "unchanged ev tv e p (0, e1, p1)"
    using abort_view [OF a] abort_parent [OF a] by simp
  then have "unchanged ev tv e p (fst (read_txn_node ops m pq_db e1 p1 k))" for k
    using unchanged_read_txn_node unchanged_trans by blast
  then show ?thesis using beg g a
    by (simp add: dataservice_transaction_get_first_def Let_def)
qed

end

context lmdb_reliable
begin

lemma decode_txn_entry_ok:
  assumes "entry_ok v k" and "v k = Some b" and "96 < length b"
  shows "decode_txn_entry True p (0, b) = (AGENTD_STATUS_SUCCESS, Some (node_at v k, drop 96 (the (v k))))"
  using assms entry_okD [OF assms(1)] by (auto simp: decode_txn_entry_def Let_def)

lemma read_txn_node_reliable:
  assumes ok: "entry_ok (view e p d) k" and cert: "96 < length (the (view e p d k))"
  shows "\<exists>e' p'. read_txn_node ops True d e p k =
     ((AGENTD_STATUS_SUCCESS, e', p'), Some (node_at (view e p d) k, drop 96 (the (view e p d k))))"
proof -
  obtain b where b: "view e p d k = Some b" using entry_okD [OF ok] by blast
  show ?thesis unfolding read_txn_node_def
  proof (rule query_result)
    fix t assume "tv t = view e p"
    then have "mdb_get_lval ops t d k = (0, b)" using b by (simp add: lval_Some)
    then show "decode_txn_entry True p (mdb_get_lval ops t d k) =
        (AGENTD_STATUS_SUCCESS, Some (node_at (view e p d) k, drop 96 (the (view e p d k))))"
      using decode_txn_entry_ok [OF ok b, of p] cert b by simp
  qed
qed

lemma read_txn_node_missing:
  assumes "view e p d k = None"
  shows "\<exists>e' p'. read_txn_node ops m d e p k = ((AGENTD_ERROR_DATASERVICE_NOT_FOUND, e', p'), None)"
  unfolding read_txn_node_def
  by (rule query_result) (simp add: assms lval_None decode_txn_entry_def)

lemma get_reliable:
  assumes rep: "pq_rep (view e p pq_db) ids" and id: "k \<in> set ids"
    and cap: "BITCAP_ISSET (childcaps child) DATASERVICE_API_CAP_APP_PQ_TRANSACTION_READ"
    and cert: "snd (content (view e p pq_db) k) \<noteq> []"
  shows "\<exists>e' p'. dataservice_transaction_get ops True child e p k =
     ((AGENTD_STATUS_SUCCESS, e', p'),
      Some (node_at (view e p pq_db) k, snd (content (view e p pq_db) k)))"
proof -
  obtain b where b: "view e p pq_db k = Some b" "96 \<le> length b" "entry_ok (view e p pq_db) k"
    using pq_rep_entry [OF rep id] by metis
  then have "96 < length (the (view e p pq_db k))" using cert by (auto simp: content_def)
  then show ?thesis using read_txn_node_reliable [OF b(3)] cap
    by (simp add: dataservice_transaction_get_def content_def)
qed

lemma get_first_empty:
  assumes rep: "pq_rep (view e p pq_db) []"
    and cap: "BITCAP_ISSET (childcaps child) DATASERVICE_API_CAP_APP_PQ_TRANSACTION_FIRST_READ"
  shows "\<exists>e' p'. dataservice_transaction_get_first ops m child e p =
     ((AGENTD_ERROR_DATASERVICE_NOT_FOUND, e', p'), None)"
proof -
  obtain t where t: "mdb_txn_begin ops e p (if p \<noteq> None then 0 else MDB_RDONLY) = (0, t)" "tv t = view e p"
    by (rule begin_reliable)
  obtain e' p' where a:
    "abort_with ops e p t AGENTD_ERROR_DATASERVICE_NOT_FOUND = (AGENTD_ERROR_DATASERVICE_NOT_FOUND, e', p')"
    using fst_abort_with [of e p t AGENTD_ERROR_DATASERVICE_NOT_FOUND] by (metis prod.collapse)
  show ?thesis
  proof (cases "view e p pq_db ff_uuid")
    case None
    then have "view e p pq_db = Map.empty" using pq_rep_uninitialised [OF rep] by simp
    then show ?thesis using t a cap by (simp add: dataservice_transaction_get_first_def lval_None)
  next
    case (Some f)
    have init: "view e p pq_db ff_uuid \<noteq> None" using Some by simp
    note q = pq_rep_initialised [OF rep init]
    have ok: "entry_ok (view e p pq_db) zero_uuid" using q(1,3) by simp
    obtain b where b: "view e p pq_db zero_uuid = Some b" "96 \<le> length b" "node_at (view e p pq_db) zero_uuid = txn_node_of b"
      using entry_okD [OF ok] by blast
    moreover have "node_next (txn_node_of b) = ff_uuid" using q(5) b(3) by (simp add: chain_def)
    ultimately show ?thesis using t a cap
      by (simp add: dataservice_transaction_get_first_def lval_Some Let_def)
  qed
qed

lemma get_first_reliable:
  assumes rep: "pq_rep (view e p pq_db) (k # ids)"
    and cap: "BITCAP_ISSET (childcaps child) DATASERVICE_API_CAP_APP_PQ_TRANSACTION_FIRST_READ"
    and cert: "snd (content (view e p pq_db) k) \<noteq> []"
  shows "\<exists>e' p'. dataservice_transaction_get_first ops True child e p =
     ((AGENTD_STATUS_SUCCESS, e', p'),
      Some (node_at (view e p pq_db) k, snd (content (view e p pq_db) k)))"
proof -
  let ?v = "view e p pq_db"
  obtain t where t: "mdb_txn_begin ops e p (if p \<noteq> None then 0 else MDB_RDONLY) = (0, t)" "tv t = view e p"
    by (rule begin_reliable)
  obtain e1 p1 where a: "mdb_txn_abort ops e p t = (e1, p1)" by fastforce
  have init: "?v ff_uuid \<noteq> None" using rep pq_rep_uninitialised by fastforce
  note q = pq_rep_initialised [OF rep init]
  have ok: "entry_ok ?v zero_uuid" "entry_ok ?v k" "k \<noteq> ff_uuid" using q(1-3) by auto
  obtain z where z: "?v zero_uuid = Some z" "96 \<le> length z" "node_at ?v zero_uuid = txn_node_of z"
    using entry_okD [OF ok(1)] by blast
  have nx: "node_next (txn_node_of z) = k" using q(5) z(3) by (simp add: chain_def)
  obtain b where b: "?v k = Some b" "96 \<le> length b" using entry_okD [OF ok(2)] by blast
  have v1: "view e1 p1 = view e p" using abort_view [OF a] .
  have "96 < length (the (view e1 p1 pq_db k))" using cert b v1 by (auto simp: content_def)
  then show ?thesis
    using read_txn_node_reliable [of e1 p1 pq_db k] t a cap z nx ok v1
    by (simp add: dataservice_transaction_get_first_def lval_Some Let_def content_def)
qed

end

subsection \<open>Requests the queue rejects\<close>

context lmdb_store
begin

text \<open>A transaction that is pending already is not submitted again, whatever the store does.\<close>

lemma submit_duplicate:
  assumes rep: "pq_rep (view e p pq_db) ids" and id: "txn_id \<in> set ids"
    and r: "dataservice_transaction_submit ops att m child e p txn_id artifact_id txn_bytes = Some (st, e', p')"
  shows "st \<noteq> AGENTD_STATUS_SUCCESS \<and> unchanged ev tv e p (st, e', p')"
proof -
  obtain rc0 t0 where beg: "mdb_txn_begin ops e p 0 = (rc0, t0)" by fastforce
  obtain rc1 b where get: "mdb_get_lval ops t0 pq_db ff_uuid = (rc1, b)" by fastforce
  define prev where "prev = (if rc1 = 0 then node_prev (txn_node_of b) else zero_uuid)"
  let ?n = "submit_newnode att txn_id artifact_id prev txn_bytes"
  obtain rc2 t1 where put: "mdb_put ops t0 pq_db txn_id (txn_node_bytes ?n @ txn_bytes) MDB_NOOVERWRITE = (rc2, t1)" by fastforce
  have rc2: "rc2 \<noteq> 0" if "rc0 = 0"
  proof
    assume "rc2 = 0"
    then have "view e p pq_db txn_id = None" using put_nooverwrite put begin_view beg that by metis
    then show False using pq_rep_entry [OF rep id] by auto
  qed
  have "st \<noteq> AGENTD_STATUS_SUCCESS \<and> view e' p' = view e p \<and> (p' = None \<longleftrightarrow> p = None)"
    using r rc2 unfolding dataservice_transaction_submit_def Let_def beg get prod.case prev_def [symmetric] submit_newnode_key put
    by (auto split: if_splits dest: abort_with_view)
  then show ?thesis by simp
qed

end

context lmdb_reliable
begin

text \<open>A transaction that is not pending can neither be dropped nor promoted.\<close>

lemma drop_unknown:
  assumes rep: "pq_rep (view e p pq_db) ids" and id: "txn_id \<notin> set ids"
  shows "\<exists>e' p'. dataservice_transaction_drop_internal ops m e p txn_id = (AGENTD_ERROR_DATASERVICE_NOT_FOUND, e', p') \<and>
     unchanged ev tv e p (AGENTD_ERROR_DATASERVICE_NOT_FOUND, e', p')"
proof (cases "txn_id = zero_uuid \<or> txn_id = ff_uuid")
  case True
  then show ?thesis by (auto simp: dataservice_transaction_drop_internal_def)
next
  case False
  obtain t where t: "begin_or_parent ops e p 0 = (0, t)" "tv t = view e p" by (rule begin_or_parent_reliable)
  have "tv t pq_db txn_id = None" using pq_rep_fresh [OF rep] False id t(2) by simp
  then have g: "mdb_get_lval ops t pq_db txn_id = (MDB_NOTFOUND, [])" by (rule lval_None)
  obtain e' p' where a: "abort_or_parent ops e p t AGENTD_ERROR_DATASERVICE_NOT_FOUND = (AGENTD_ERROR_DATASERVICE_NOT_FOUND, e', p')"
    using fst_abort_or_parent by (metis prod.collapse)
  have "unchanged ev tv e p (AGENTD_ERROR_DATASERVICE_NOT_FOUND, e', p')"
    using unchanged_abort_or_parent [OF t(1), of AGENTD_ERROR_DATASERVICE_NOT_FOUND] by (simp only: a)
  then show ?thesis using False g t(1) a by (auto simp: dataservice_transaction_drop_internal_def)
qed

lemma promote_unknown:
  assumes rep: "pq_rep (view e p pq_db) ids" and id: "txn_id \<notin> set ids"
  shows "\<exists>e' p'. dataservice_transaction_promote_internal ops m e p txn_id = (AGENTD_ERROR_DATASERVICE_NOT_FOUND, e', p') \<and>
     unchanged ev tv e p (AGENTD_ERROR_DATASERVICE_NOT_FOUND, e', p')"
proof (cases "txn_id = zero_uuid \<or> txn_id = ff_uuid")
  case True
  then show ?thesis by (auto simp: dataservice_transaction_promote_internal_def)
next
  case False
  obtain t where t: "begin_or_parent ops e p 0 = (0, t)" "tv t = view e p" by (rule begin_or_parent_reliable)
  have "tv t pq_db txn_id = None" using pq_rep_fresh [OF rep] False id t(2) by simp
  then have g: "mdb_get_lval ops t pq_db txn_id = (MDB_NOTFOUND, [])" by (rule lval_None)
  obtain e' p' where a: "abort_or_parent ops e p t AGENTD_ERROR_DATASERVICE_NOT_FOUND = (AGENTD_ERROR_DATASERVICE_NOT_FOUND, e', p')"
    using fst_abort_or_parent by (metis prod.collapse)
  have "unchanged ev tv e p (AGENTD_ERROR_DATASERVICE_NOT_FOUND, e', p')"
    using unchanged_abort_or_parent [OF t(1), of AGENTD_ERROR_DATASERVICE_NOT_FOUND] by (simp only: a)
  then show ?thesis using False g t(1) a by (auto simp: dataservice_transaction_promote_internal_def)
qed

end


end
