(* ===== verification/Ds_Block_Rep.thy ===== *)
theory Ds_Block_Rep
  imports Ds_Block Ds_Queue_Correct
begin

text \<open>
  The block database and the height index as an abstract chain.
  \<open>block_rep root w ids\<close>: the contents \<open>w\<close> hold the blocks \<open>ids\<close>, in order; every
  block carries the identifier of its predecessor (the root block for the first),
  of its successor and its height, and the height index maps each height to its
  block.
\<close>

definition block_at :: "kv \<Rightarrow> bytes \<Rightarrow> data_block_node" where
  "block_at v k = block_node_of (the (v k))"

definition block_entry_ok :: "kv \<Rightarrow> bytes \<Rightarrow> bool" where
  "block_entry_ok v k \<longleftrightarrow> (case v k of None \<Rightarrow> False | Some b \<Rightarrow>
     80 \<le> length b \<and> length b < 2 ^ 64 \<and> block_key (block_node_of b) = k \<and>
     unat (ntohll (net_block_cert_size (block_node_of b))) = length b - 80)"

definition block_links :: "bytes \<Rightarrow> kv \<Rightarrow> bytes list \<Rightarrow> bool" where
  "block_links root v ids \<longleftrightarrow> (\<forall>i < length ids.
     block_prev (block_at v (ids ! i)) = (root # ids) ! i \<and>
     block_next (block_at v (ids ! i)) = (ids @ [ff_uuid]) ! Suc i \<and>
     net_block_height (block_at v (ids ! i)) = htonll (of_nat (Suc i)))"

definition height_index :: "kv \<Rightarrow> bytes list \<Rightarrow> bool" where
  "height_index hv ids \<longleftrightarrow> (\<forall>h :: 64 word. hv (net64 h) =
     (if 0 < unat h \<and> unat h \<le> length ids then Some (ids ! (unat h - 1)) else None))"

definition block_rep :: "bytes \<Rightarrow> kvs \<Rightarrow> bytes list \<Rightarrow> bool" where
  "block_rep root w ids \<longleftrightarrow> height_index (w height_db) ids \<and>
     (ids = [] \<and> w block_db = Map.empty \<or>
      ids \<noteq> [] \<and> root \<notin> set ids \<and> distinct (zero_uuid # ids @ [ff_uuid]) \<and>
      dom (w block_db) = set (zero_uuid # ids @ [ff_uuid]) \<and>
      (\<forall>k \<in> dom (w block_db). block_entry_ok (w block_db) k) \<and> length (the (w block_db ff_uuid)) = 80 \<and>
      block_links root (w block_db) ids \<and>
      block_next (block_at (w block_db) zero_uuid) = hd ids \<and>
      block_prev (block_at (w block_db) ff_uuid) = last ids \<and>
      net_block_height (block_at (w block_db) ff_uuid) = htonll (of_nat (length ids)))"

lemma block_entry_okD:
  assumes "block_entry_ok v k"
  shows "\<exists>b. v k = Some b \<and> 80 \<le> length b \<and> length b < 2 ^ 64 \<and> block_at v k = block_node_of b \<and>
     block_key (block_node_of b) = k \<and>
     unat (ntohll (net_block_cert_size (block_node_of b))) = length b - 80"
  using assms by (auto simp: block_entry_ok_def block_at_def split: option.splits)

lemma block_entry_ok_store:
  assumes "block_entry_ok v k" and "length u = 16"
  shows "block_entry_ok (v(k \<mapsto> store_at offsetof_block_next u (the (v k)))) k"
    and "block_at (v(k \<mapsto> store_at offsetof_block_next u (the (v k)))) k = (block_at v k)\<lparr>block_next := u\<rparr>"
  using block_entry_okD [OF assms(1)] assms(2) by (auto simp: block_entry_ok_def block_at_def)

lemma block_at_other: "k \<noteq> j \<Longrightarrow> block_at (v(j := x)) k = block_at v k"
  by (simp add: block_at_def)

lemma block_entry_ok_other: "k \<noteq> j \<Longrightarrow> block_entry_ok (v(j := x)) k = block_entry_ok v k"
  by (simp add: block_entry_ok_def)

lemma block_rep_uninitialised:
  "block_rep root w ids \<Longrightarrow> w block_db ff_uuid = None \<Longrightarrow> w block_db = Map.empty \<and> ids = []"
  by (auto simp: block_rep_def domIff)

lemma block_rep_initialised:
  assumes "block_rep root w ids" and "w block_db ff_uuid \<noteq> None"
  shows "ids \<noteq> []" "root \<notin> set ids" "distinct (zero_uuid # ids @ [ff_uuid])"
    "dom (w block_db) = set (zero_uuid # ids @ [ff_uuid])"
    "\<And>k. k \<in> dom (w block_db) \<Longrightarrow> block_entry_ok (w block_db) k" "length (the (w block_db ff_uuid)) = 80"
    "block_links root (w block_db) ids" "block_next (block_at (w block_db) zero_uuid) = hd ids"
    "block_prev (block_at (w block_db) ff_uuid) = last ids"
    "net_block_height (block_at (w block_db) ff_uuid) = htonll (of_nat (length ids))"
  using assms by (auto simp: block_rep_def)

text \<open>The contents after a block is inserted: new entry, links and index.\<close>

definition blocks_kv :: "kv \<Rightarrow> bytes \<Rightarrow> bytes \<Rightarrow> 64 word \<Rightarrow> kv" where
  "blocks_kv v block_id nb h =
     (if v ff_uuid = None
      then v(block_id \<mapsto> nb,
             zero_uuid \<mapsto> block_node_bytes (block_node_zero\<lparr>block_next := block_id\<rparr>),
             ff_uuid \<mapsto> block_node_bytes (block_node_zero\<lparr>block_key := ff_uuid, block_next := ff_uuid,
                          block_prev := block_id, net_block_height := htonll h\<rparr>))
      else let p = block_prev (block_at v ff_uuid) in
           v(block_id \<mapsto> nb,
             p \<mapsto> store_at offsetof_block_next block_id (the (v p)),
             ff_uuid \<mapsto> block_node_bytes ((block_at v ff_uuid)\<lparr>block_prev := block_id, net_block_height := htonll h\<rparr>)))"

definition block_entry :: "bytes \<Rightarrow> bytes \<Rightarrow> bytes \<Rightarrow> 64 word \<Rightarrow> bytes \<Rightarrow> bytes" where
  "block_entry block_id prev first h data = block_node_bytes (make_blocknode block_id prev first h data) @ data"

lemma make_blocknode_wf [simp]:
  "length block_id = 16 \<Longrightarrow> length prev = 16 \<Longrightarrow> length first = 16 \<Longrightarrow>
     block_node_wf (make_blocknode block_id prev first h data)"
  by (simp add: make_blocknode_def block_node_wf_def block_node_zero_def)

lemma block_entry_simps:
  assumes "length block_id = 16" "length prev = 16" "length first = 16"
  shows "block_node_of (block_entry block_id prev first h data) = make_blocknode block_id prev first h data"
    and "length (block_entry block_id prev first h data) = 80 + length data"
    and "drop 80 (block_entry block_id prev first h data) = data"
  using assms by (simp_all add: block_entry_def)

lemma block_entry_new_ok:
  assumes "length block_id = 16" "length prev = 16" "length first = 16" and "length data + 80 < 2 ^ 64"
    and "v block_id = Some (block_entry block_id prev first h data)"
  shows "block_entry_ok v block_id"
  using assms by (simp add: block_entry_ok_def block_entry_simps) (simp add: make_blocknode_def unat_of_nat)

lemma height_index_append:
  assumes "height_index hv ids" and "Suc (length ids) < 2 ^ 64"
  shows "height_index (hv(net64 (of_nat (Suc (length ids))) \<mapsto> block_id)) (ids @ [block_id])"
proof -
  let ?n = "of_nat (Suc (length ids)) :: 64 word"
  have u: "unat ?n = Suc (length ids)" using assms(2) by (simp add: unat_of_nat del: of_nat_Suc)
  then have "(h = ?n) = (unat h = Suc (length ids))" for h
    by (metis word_unat_eq_iff)
  then show ?thesis using assms(1) unfolding height_index_def
    by (auto simp: nth_append less_Suc_eq le_Suc_eq simp del: of_nat_Suc)
qed

lemma blocks_kv_rep_first:
  assumes rep: "block_rep root w []"
    and len: "length block_id = 16" "length root = 16" "length first = 16" "length data + 80 < 2 ^ 64"
    and id: "block_id \<noteq> zero_uuid" "block_id \<noteq> ff_uuid" "block_id \<noteq> root"
    and bv: "w' block_db = blocks_kv (w block_db) block_id (block_entry block_id root first 1 data) 1"
    and hv: "w' height_db = (w height_db)(net64 1 \<mapsto> block_id)"
  shows "block_rep root w' [block_id]"
proof -
  have "w block_db = Map.empty" using rep by (simp add: block_rep_def)
  then have v: "w' block_db = [block_id \<mapsto> block_entry block_id root first 1 data,
      zero_uuid \<mapsto> block_node_bytes (block_node_zero\<lparr>block_next := block_id\<rparr>),
      ff_uuid \<mapsto> block_node_bytes (block_node_zero\<lparr>block_key := ff_uuid, block_next := ff_uuid,
                          block_prev := block_id, net_block_height := htonll 1\<rparr>)]"
    by (simp add: bv blocks_kv_def)
  have wf: "block_node_wf (block_node_zero\<lparr>block_next := block_id\<rparr>)"
    "block_node_wf (block_node_zero\<lparr>block_key := ff_uuid, block_next := ff_uuid,
                          block_prev := block_id, net_block_height := htonll 1\<rparr>)"
    using len by (simp_all add: block_node_wf_def block_node_zero_def)
  have at: "block_at (w' block_db) zero_uuid = block_node_zero\<lparr>block_next := block_id\<rparr>"
    "block_at (w' block_db) ff_uuid = block_node_zero\<lparr>block_key := ff_uuid, block_next := ff_uuid,
                          block_prev := block_id, net_block_height := htonll 1\<rparr>"
    "block_at (w' block_db) block_id = make_blocknode block_id root first 1 data"
    using len id wf by (simp_all add: v block_at_def block_entry_simps)
  have "block_entry_ok (w' block_db) block_id"
    using len id by (intro block_entry_new_ok) (simp_all add: v)
  moreover have "block_entry_ok (w' block_db) zero_uuid" "block_entry_ok (w' block_db) ff_uuid"
    using wf by (simp_all add: v block_entry_ok_def) (simp_all add: block_node_zero_def)
  moreover have "dom (w' block_db) = {zero_uuid, block_id, ff_uuid}" by (auto simp: v)
  moreover have "block_links root (w' block_db) [block_id]"
    by (simp add: block_links_def at) (simp add: make_blocknode_def)
  moreover have "length (the (w' block_db ff_uuid)) = 80" using wf by (simp add: v)
  moreover have "height_index (w' height_db) [block_id]"
    using height_index_append [of "w height_db" "[]" block_id] rep by (simp add: hv block_rep_def)
  ultimately show ?thesis using id at by (simp add: block_rep_def)
qed

lemma blocks_kv_rep_next:
  assumes rep: "block_rep root w ids" and init: "w block_db ff_uuid \<noteq> None"
    and len: "length block_id = 16" "length first = 16" "length data + 80 < 2 ^ 64" "Suc (length ids) < 2 ^ 64"
    and fresh: "w block_db block_id = None" and ne_root: "block_id \<noteq> root"
    and bv: "w' block_db = blocks_kv (w block_db) block_id
               (block_entry block_id (last ids) first (of_nat (Suc (length ids))) data) (of_nat (Suc (length ids)))"
    and hv: "w' height_db = (w height_db)(net64 (of_nat (Suc (length ids))) \<mapsto> block_id)"
  shows "block_rep root w' (ids @ [block_id])"
proof -
  let ?v = "w block_db" and ?v' = "w' block_db" and ?h = "of_nat (Suc (length ids)) :: 64 word"
  note q = block_rep_initialised [OF rep init]
  define p where "p = last ids"
  have pin: "p \<in> set ids" using q(1) by (simp add: p_def)
  have idne: "block_id \<notin> set (zero_uuid # ids @ [ff_uuid])" using fresh q(4) by (auto simp: domIff)
  have pne: "p \<noteq> ff_uuid" "p \<noteq> block_id" "p \<noteq> zero_uuid" using pin idne q(3) by auto
  have okp: "block_entry_ok ?v p" and okff: "block_entry_ok ?v ff_uuid" using q(4,5) pin by auto
  have lenp: "length p = 16" using block_entry_okD [OF okp] block_node_wfD(1) [OF block_node_wf_of] by metis
  have wfend: "block_node_wf ((block_at ?v ff_uuid)\<lparr>block_prev := block_id, net_block_height := htonll ?h\<rparr>)"
    using block_entry_okD [OF okff] len by auto
  have v: "?v' = ?v(block_id \<mapsto> block_entry block_id p first ?h data,
       p \<mapsto> store_at 32 block_id (the (?v p)),
       ff_uuid \<mapsto> block_node_bytes ((block_at ?v ff_uuid)\<lparr>block_prev := block_id, net_block_height := htonll ?h\<rparr>))"
    unfolding bv blocks_kv_def if_not_P [OF init] by (simp add: q(9) Let_def p_def del: of_nat_Suc)
  have v_id: "?v' block_id = Some (block_entry block_id p first ?h data)" using pne idne by (simp add: v del: of_nat_Suc)
  have at_id: "block_at ?v' block_id = make_blocknode block_id p first ?h data"
    using v_id len lenp by (simp add: block_at_def block_entry_simps del: of_nat_Suc)
  have at_p: "block_at ?v' p = (block_at ?v p)\<lparr>block_next := block_id\<rparr>"
    using block_entry_ok_store(2) [OF okp len(1)] pne by (simp add: v block_at_def)
  have at_ff: "block_at ?v' ff_uuid = (block_at ?v ff_uuid)\<lparr>block_prev := block_id, net_block_height := htonll ?h\<rparr>"
    using wfend by (simp add: v block_at_def del: of_nat_Suc)
  have at: "block_at ?v' k = block_at ?v k" if "k \<noteq> block_id" "k \<noteq> p" "k \<noteq> ff_uuid" for k
    using that by (simp add: v block_at_other)
  have "block_links root ?v' (ids @ [block_id])"
    unfolding block_links_def
  proof (intro allI impI)
    fix i assume "i < length (ids @ [block_id])"
    then consider "i = length ids" | "i < length ids" "ids ! i = p" | "i < length ids" "ids ! i \<noteq> p" by fastforce
    then show "block_prev (block_at ?v' ((ids @ [block_id]) ! i)) = (root # ids @ [block_id]) ! i \<and>
      block_next (block_at ?v' ((ids @ [block_id]) ! i)) = ((ids @ [block_id]) @ [ff_uuid]) ! Suc i \<and>
      net_block_height (block_at ?v' ((ids @ [block_id]) ! i)) = htonll (of_nat (Suc i))"
    proof cases
      case 1
      then show ?thesis using q(1)
        by (simp add: at_id nth_append nth_Cons' del: of_nat_Suc) (simp add: make_blocknode_def p_def last_conv_nth)
    next
      case 2
      then have "Suc i = length ids"
        using q(1,3) by (simp add: p_def last_conv_nth nth_eq_iff_index_eq)
      then show ?thesis using 2 q(7)
        by (auto simp: block_links_def at_p nth_append nth_Cons' simp del: of_nat_Suc)
    next
      case 3
      then have "Suc i \<noteq> length ids" using q(1) by (metis p_def last_conv_nth diff_Suc_1)
      moreover have "k \<in> set ids \<Longrightarrow> k \<noteq> p \<Longrightarrow> block_at ?v' k = block_at ?v k" for k
        using idne q(3) by (intro at) auto
      then have "block_at ?v' (ids ! i) = block_at ?v (ids ! i)" using 3 nth_mem by blast
      ultimately show ?thesis using 3 q(7)
        by (auto simp: block_links_def nth_append nth_Cons' simp del: of_nat_Suc)
    qed
  qed
  moreover have "block_entry_ok ?v' k" if "k \<in> dom ?v" for k
    using that q(5) block_entry_ok_store(1) [OF okp len(1)] wfend fresh block_entry_okD [OF okff] q(6) pne
    by (cases "k = ff_uuid"; cases "k = p") (auto simp: v block_entry_ok_def block_at_def simp del: of_nat_Suc)
  moreover have "block_entry_ok ?v' block_id"
    using v_id len lenp by (intro block_entry_new_ok) simp_all
  moreover have "dom ?v' = insert block_id (dom ?v)" using init okp by (auto simp: v block_entry_ok_def split: option.splits)
  moreover have "height_index (w' height_db) (ids @ [block_id])"
    using height_index_append [OF _ len(4)] rep by (simp add: hv block_rep_def del: of_nat_Suc)
  moreover have "length (the (?v' ff_uuid)) = 80" using wfend by (simp add: v del: of_nat_Suc)
  moreover have "block_next (block_at ?v' zero_uuid) = hd (ids @ [block_id])"
    using at [of zero_uuid] q(1,8) idne pne by force
  ultimately show ?thesis
    using q(1-4) idne ne_root at_ff by (auto simp: block_rep_def simp del: of_nat_Suc)
qed

end
