(* ===== verification/Ds_Block_Correct.thy ===== *)
theory Ds_Block_Correct
  imports Ds_Block_Rep
begin

text \<open>
  Making a block against the store: what each helper of
  \<^verbatim>\<open>dataservice_block_make\<close> does to the contents when it succeeds, and that the
  whole call either leaves the contents unchanged or appends the block, moves its
  transactions out of the process queue and records them as canonized.
\<close>

lemma find_sized_length: "find_sized vc cert f n = Some x \<Longrightarrow> length x = n"
  by (auto simp: find_sized_def split: option.splits if_splits)

subsection \<open>Inserting the block\<close>

context lmdb_store
begin

lemma insert_block_outcome:
  assumes "dataservice_make_block_insert_block ops m block_db height_db t block_id prev first h data =
      (AGENTD_STATUS_SUCCESS, t')"
  shows "tv t' = (tv t)(block_db := (tv t block_db)(block_id \<mapsto> block_entry block_id prev first h data),
                       height_db := (tv t height_db)(net64 h \<mapsto> block_id))"
    and "tv t block_db block_id = None"
proof -
  let ?n = "make_blocknode block_id prev first h data"
  have n: "block_key ?n = block_id" "net_block_height ?n = htonll h" by (simp_all add: make_blocknode_def)
  obtain rc1 t1 where p1: "mdb_put ops t block_db block_id (block_entry block_id prev first h data) 16 = (rc1, t1)"
    by fastforce
  obtain rc2 t2 where p2: "mdb_put ops t1 height_db (net64 h) block_id 16 = (rc2, t2)" by fastforce
  have ok: "rc1 = 0" "rc2 = 0" "t2 = t'"
    using assms p1 p2 unfolding dataservice_make_block_insert_block_def Let_def n
      block_entry_def [symmetric] net64_def [symmetric] by (auto split: if_splits)
  show "tv t block_db block_id = None" using put_nooverwrite p1 ok by blast
  show "tv t' = (tv t)(block_db := (tv t block_db)(block_id \<mapsto> block_entry block_id prev first h data),
                       height_db := (tv t height_db)(net64 h \<mapsto> block_id))"
    using put_view p1 p2 ok by fastforce
qed

lemma block_create_queue_outcome:
  assumes "dataservice_block_make_create_queue ops d t block_id h = (AGENTD_STATUS_SUCCESS, t')"
  shows "tv t' = (tv t)(d := (tv t d)(
     zero_uuid \<mapsto> block_node_bytes (block_node_zero\<lparr>block_next := block_id\<rparr>),
     ff_uuid \<mapsto> block_node_bytes (block_node_zero\<lparr>block_key := ff_uuid, block_next := ff_uuid,
                  block_prev := block_id, net_block_height := htonll h\<rparr>)))"
  using assms put_view
  by (fastforce simp: dataservice_block_make_create_queue_def Let_def block_node_zero_def
      split: prod.splits if_splits)

lemma block_update_end_outcome:
  assumes "dataservice_block_make_update_end ops d t block_id h n = (AGENTD_STATUS_SUCCESS, t')"
  shows "tv t' = (tv t)(d := (tv t d)(block_key n \<mapsto>
     block_node_bytes (n\<lparr>block_prev := block_id, net_block_height := htonll h\<rparr>)))"
  using assms put_view
  by (fastforce simp: dataservice_block_make_update_end_def Let_def split: prod.splits if_splits)

lemma block_update_prev_outcome:
  assumes ok: "block_entry_ok (tv t d) prev" and "length block_id = 16"
  obtains st t' where
    "dataservice_block_make_update_prev ops malloc_ok d t block_id prev = Some (st, t')"
    and "st = AGENTD_STATUS_SUCCESS \<Longrightarrow>
      tv t' = (tv t)(d := (tv t d)(prev \<mapsto> store_at offsetof_block_next block_id (the (tv t d prev))))"
proof -
  obtain b where b: "tv t d prev = Some b" "80 \<le> length b" "length b < 2 ^ 64"
    "unat (ntohll (net_block_cert_size (block_node_of b))) = length b - 80"
    using block_entry_okD [OF ok] by blast
  have size: "unat (80 + ntohll (of_mem64 (slice 72 8 b))) = length b"
    using b by (simp add: block_node_of_def unat_word_ariths)
  obtain rc lval where g: "mdb_get_lval ops t d prev = (rc, lval)" by fastforce
  have lval: "rc = 0 \<Longrightarrow> lval = b" using g b(1) lval_found by fastforce
  obtain rc' t' where put: "mdb_put ops t d prev (store_at 32 block_id b) 0 = (rc', t')" by fastforce
  then have "rc' = 0 \<Longrightarrow> tv t' = (tv t)(d := (tv t d)(prev \<mapsto> store_at 32 block_id b))"
    using put_view by blast
  then have v: "tv t' = (tv t)(d := (tv t d)(prev \<mapsto> store_at 32 block_id (the (tv t d prev))))" if "rc' = 0"
    using that b(1) by simp
  have "dataservice_block_make_update_prev ops malloc_ok d t block_id prev = Some
      (if rc \<noteq> 0 then (AGENTD_ERROR_DATASERVICE_MDB_GET_FAILURE, t) else
       if \<not> malloc_ok then (AGENTD_ERROR_GENERAL_OUT_OF_MEMORY, t) else
       if rc' \<noteq> 0 then (AGENTD_ERROR_DATASERVICE_MDB_PUT_FAILURE, t') else (AGENTD_STATUS_SUCCESS, t'))"
    using b lval put size by (simp add: dataservice_block_make_update_prev_def g Let_def)
  then show thesis using v that by (auto split: if_splits)
qed

end

text \<open>The second half of the insertion: create the queue, or update the last block and the end.\<close>

definition block_make_link ::
  "('e, 't) lmdb \<Rightarrow> bool \<Rightarrow> 't \<Rightarrow> bytes \<Rightarrow> 64 word \<Rightarrow> data_block_node option \<Rightarrow> (status \<times> 't) option" where
  "block_make_link ops malloc_ok txn block_id h end_node =
     (case end_node of
        None \<Rightarrow> Some (dataservice_block_make_create_queue ops block_db txn block_id h)
      | Some end_node \<Rightarrow>
          (case dataservice_block_make_update_prev ops malloc_ok block_db txn block_id (block_prev end_node) of
             None \<Rightarrow> None
           | Some (st, txn) \<Rightarrow>
               Some (if st \<noteq> AGENTD_STATUS_SUCCESS then (st, txn)
                     else dataservice_block_make_update_end ops block_db txn block_id h end_node)))"

text \<open>The end node as \<^verbatim>\<open>query_end_node\<close> reports it.\<close>

definition end_node_of :: "kvs \<Rightarrow> data_block_node option" where
  "end_node_of w = map_option block_node_of (w block_db ff_uuid)"

context lmdb_store
begin

lemma query_end_node_outcome:
  "query_end_node ops t block_db = (AGENTD_STATUS_SUCCESS, n) \<Longrightarrow> n = end_node_of (tv t)"
  using lval_found [of t block_db ff_uuid] lval_notfound [of t block_db ff_uuid]
  by (auto simp: query_end_node_def end_node_of_def split: prod.splits if_splits)

lemma block_insert_outcome:
  assumes rep: "block_rep root (tv t) ids" and len: "length block_id = 16"
    and ins: "dataservice_make_block_insert_block ops m block_db height_db t block_id prev first h data =
      (AGENTD_STATUS_SUCCESS, t1)"
  obtains st t2 where "block_make_link ops m' t1 block_id h (end_node_of (tv t)) = Some (st, t2)"
    and "st = AGENTD_STATUS_SUCCESS \<Longrightarrow>
      tv t2 = (tv t)(block_db := blocks_kv (tv t block_db) block_id (block_entry block_id prev first h data) h,
                     height_db := (tv t height_db)(net64 h \<mapsto> block_id))"
proof (cases "tv t block_db ff_uuid")
  case None
  obtain st t2 where c: "dataservice_block_make_create_queue ops block_db t1 block_id h = (st, t2)" by fastforce
  then show ?thesis
    using that [of st t2] None block_create_queue_outcome [of block_db t1 block_id h t2] insert_block_outcome(1) [OF ins]
    by (auto simp: block_make_link_def end_node_of_def blocks_kv_def fun_upd_twist)
next
  case (Some f)
  have init: "tv t block_db ff_uuid \<noteq> None" using Some by simp
  note q = block_rep_initialised [OF rep init] and i = insert_block_outcome [OF ins]
  have at: "block_at (tv t block_db) ff_uuid = block_node_of f" using Some by (simp add: block_at_def)
  have p: "block_prev (block_node_of f) = last ids" using q(9) at by simp
  have pin: "last ids \<in> dom (tv t block_db)" using q(1,4) by auto
  have ne: "last ids \<noteq> block_id" using pin i(2) by auto
  have key: "block_key (block_node_of f) = ff_uuid" using block_entry_okD [OF q(5) [of ff_uuid]] Some by auto
  have "block_entry_ok (tv t1 block_db) (last ids)" using q(5) [OF pin] ne i(1) by (simp add: block_entry_ok_def)
  from block_update_prev_outcome [OF this len, of m'] obtain st t2 where
    u: "dataservice_block_make_update_prev ops m' block_db t1 block_id (last ids) = Some (st, t2)"
    "st = AGENTD_STATUS_SUCCESS \<Longrightarrow> tv t2 = (tv t1)(block_db := (tv t1 block_db)(last ids \<mapsto>
        store_at 32 block_id (the (tv t1 block_db (last ids)))))" by metis
  obtain st' t3 where e: "dataservice_block_make_update_end ops block_db t2 block_id h (block_node_of f) = (st', t3)"
    by fastforce
  have v: "tv t3 = (tv t)(block_db := blocks_kv (tv t block_db) block_id (block_entry block_id prev first h data) h,
                     height_db := (tv t height_db)(net64 h \<mapsto> block_id))"
    if "st = AGENTD_STATUS_SUCCESS" "st' = AGENTD_STATUS_SUCCESS"
    unfolding blocks_kv_def if_not_P [OF init]
    using block_update_end_outcome [of block_db t2 block_id h "block_node_of f" t3] e that u(2) i(1) ne
    by (simp add: at p key Let_def fun_upd_twist)
  have link: "block_make_link ops m' t1 block_id h (end_node_of (tv t)) =
      Some (if st \<noteq> AGENTD_STATUS_SUCCESS then (st, t2) else (st', t3))"
    using u(1) e Some p by (simp add: block_make_link_def end_node_of_def)
  show ?thesis
  proof (cases "st = AGENTD_STATUS_SUCCESS")
    case True
    then show ?thesis using that [of st' t3] link v by simp
  next
    case False
    then show ?thesis using that [of st t2] link by simp
  qed
qed

end

subsection \<open>Moving a transaction into a block\<close>

text \<open>
  \<open>canonized v block_id txn_id cert\<close>: the transaction database \<open>v\<close> holds the
  certificate under its identifier, marked as canonized in the block.
\<close>

definition canonized :: "kv \<Rightarrow> bytes \<Rightarrow> bytes \<Rightarrow> bytes \<Rightarrow> bool" where
  "canonized v block_id txn_id cert \<longleftrightarrow> (case v txn_id of None \<Rightarrow> False | Some b \<Rightarrow>
     length b = 96 + length cert \<and> drop 96 b = cert \<and> node_key (txn_node_of b) = txn_id \<and>
     node_block_id (txn_node_of b) = block_id \<and>
     ntohl (net_txn_state (txn_node_of b)) = DATASERVICE_TRANSACTION_NODE_STATE_CANONIZED \<and>
     unat (ntohll (net_txn_cert_size (txn_node_of b))) = length cert)"

definition artifacts_ok :: "kv \<Rightarrow> bool" where
  "artifacts_ok v \<longleftrightarrow> (\<forall>k b. v k = Some b \<longrightarrow> length b = 72 \<and> artifact_key (artifact_record_of b) = k)"

text \<open>The artifact's record names the transaction as its latest.\<close>

definition artifact_latest :: "kv \<Rightarrow> bytes \<Rightarrow> bytes \<Rightarrow> 64 word \<Rightarrow> 32 word \<Rightarrow> bool" where
  "artifact_latest v artifact_id txn_id h state \<longleftrightarrow> (case v artifact_id of None \<Rightarrow> False | Some b \<Rightarrow>
     length b = 72 \<and> artifact_key (artifact_record_of b) = artifact_id \<and>
     txn_latest (artifact_record_of b) = txn_id \<and>
     net_height_latest (artifact_record_of b) = htonll h \<and>
     net_state_latest (artifact_record_of b) = htonl state)"

lemma canonized_node_wf:
  "length i = 16 \<Longrightarrow> length p = 16 \<Longrightarrow> length a = 16 \<Longrightarrow> length b = 16 \<Longrightarrow> txn_node_wf (canonized_node i p a b c)"
  by (simp add: canonized_node_def txn_node_wf_def txn_node_zero_def)

lemma canonized_new:
  assumes "length i = 16" "length p = 16" "length a = 16" "length b = 16" "length c + 96 < 2 ^ 64"
  shows "canonized (v(i \<mapsto> txn_node_bytes (canonized_node i p a b c) @ c)) b i c"
  using assms by (simp add: canonized_def canonized_node_wf) (simp add: canonized_node_def unat_of_nat)

lemma canonized_other: "k \<noteq> i \<Longrightarrow> canonized (v(k := x)) b i c = canonized v b i c"
  by (simp add: canonized_def)

lemma canonized_next:
  assumes "canonized v b i c" and "length u = 16"
  shows "canonized (v(k \<mapsto> store_at offsetof_node_next u (the (v k)))) b i c"
  using assms by (cases "k = i") (auto simp: canonized_def split: option.splits)

context lmdb_store
begin

lemma drop_internal_below: "\<exists>st t'. dataservice_transaction_drop_internal ops m e (Some t) txn_id = (st, e, Some t')"
  by (simp add: dataservice_transaction_drop_internal_def Let_def split: prod.split)

lemma drop_internal_outcome:
  assumes "dataservice_transaction_drop_internal ops m e (Some t) txn_id = (AGENTD_STATUS_SUCCESS, e', Some t')"
    and rep: "pq_rep (tv t pq_db) q"
  shows "txn_id \<in> set q" and "tv t' = (tv t)(pq_db := drop_kv (tv t pq_db) txn_id)"
proof -
  obtain rc1 b where g: "mdb_get_lval ops t pq_db txn_id = (rc1, b)" by fastforce
  obtain rc2 t1 where d: "mdb_del ops t pq_db txn_id = (rc2, t1)" by fastforce
  obtain st t2 where f: "dataservice_transaction_drop_fixup_prev_next ops m t1 pq_db (txn_node_of b) = (st, t2)"
    by fastforce
  have ok: "txn_id \<noteq> zero_uuid" "txn_id \<noteq> ff_uuid" "rc1 = 0" "rc2 = 0" "st = 0" "t2 = t'"
    using assms(1) by (auto simp: dataservice_transaction_drop_internal_def Let_def g d f split: if_splits)
  have b: "tv t pq_db txn_id = Some b" using g ok lval_found by blast
  show "txn_id \<in> set q" using pq_rep_member [OF rep b] ok by blast
  have "tv t1 = (tv t)(pq_db := (tv t pq_db)(txn_id := None))" using d ok del_view by blast
  then show "tv t' = (tv t)(pq_db := drop_kv (tv t pq_db) txn_id)"
    using fixup_outcome [of m t1 pq_db "txn_node_of b" t2] f ok b by (simp add: drop_kv_fixup node_at_def)
qed

lemma update_prev_txn_outcome:
  assumes "dataservice_block_make_update_prev_txn ops m d t k nxt = (AGENTD_STATUS_SUCCESS, t')"
  shows "tv t' = (tv t)(d := (tv t d)(k \<mapsto> store_at offsetof_node_next nxt (the (tv t d k))))"
    and "\<exists>b. tv t d k = Some b \<and> 96 \<le> length b"
proof -
  obtain rc b where g: "mdb_get_lval ops t d k = (rc, b)" by fastforce
  obtain rc' t1 where p: "mdb_put ops t d k (store_at 32 nxt b) 0 = (rc', t1)" by fastforce
  have ok: "rc = 0" "rc' = 0" "t1 = t'" "96 \<le> length b"
    using assms by (auto simp: dataservice_block_make_update_prev_txn_def Let_def g p split: if_splits)
  have b: "tv t d k = Some b" using g ok lval_found by blast
  have "tv t' = (tv t)(d := (tv t d)(k \<mapsto> store_at 32 nxt b))" using p ok put_view by blast
  then show "tv t' = (tv t)(d := (tv t d)(k \<mapsto> store_at 32 nxt (the (tv t d k))))" using b by simp
  show "\<exists>b. tv t d k = Some b \<and> 96 \<le> length b" using b ok by simp
qed

lemma update_artifact_outcome:
  assumes u: "dataservice_block_make_update_artifact ops d t art i h s = (AGENTD_STATUS_SUCCESS, t')"
    and ok: "artifacts_ok (tv t d)" and len: "length art = 16" "length i = 16"
  shows "\<exists>v. tv t' = (tv t)(d := v) \<and> artifacts_ok v \<and> artifact_latest v art i h s"
proof -
  obtain rc b where g: "mdb_get_lval ops t d art = (rc, b)" by fastforce
  let ?new = "\<lparr> artifact_key = art, txn_first = i, txn_latest = i, net_height_first = htonll h,
    net_height_latest = htonll h, net_state_latest = htonl s, artifact_pad = replicate 4 0 \<rparr>"
  let ?old = "(artifact_record_of b)\<lparr>txn_latest := i, net_height_latest := htonll h, net_state_latest := htonl s\<rparr>"
  define r where "r = (if rc = 0 then ?old else ?new)"
  define f where "f = (if rc = 0 then 0 else MDB_NOOVERWRITE)"
  obtain rc' t1 where p: "mdb_put ops t d (artifact_key r) (artifact_record_bytes r) f = (rc', t1)" by fastforce
  have c: "rc = MDB_NOTFOUND \<or> rc = 0 \<and> length b = 72" "rc' = 0" "t1 = t'"
    using u p by (auto simp: dataservice_block_make_update_artifact_def Let_def g r_def f_def split: if_splits)
  have "rc = 0 \<Longrightarrow> tv t d art = Some b" using g lval_found by blast
  then have key: "artifact_key r = art" using ok by (auto simp: r_def artifacts_ok_def)
  have wf: "artifact_record_wf r"
    using c len artifact_record_wf_of [of b] by (auto simp: r_def artifact_record_wf_def)
  have t': "tv t' = (tv t)(d := (tv t d)(art \<mapsto> artifact_record_bytes r))" using p c put_view key by metis
  have "artifacts_ok ((tv t d)(art \<mapsto> artifact_record_bytes r))" using ok wf key by (simp add: artifacts_ok_def)
  moreover have "artifact_latest ((tv t d)(art \<mapsto> artifact_record_bytes r)) art i h s"
    using wf key by (simp add: artifact_latest_def) (simp add: r_def)
  ultimately show ?thesis using t' by blast
qed

end

text \<open>
  The effect of one transaction of a block, from contents \<open>w\<close> to \<open>w'\<close>, with the
  identifiers its certificate carries.
\<close>

definition txns_ok :: "kv \<Rightarrow> bool" where
  "txns_ok v \<longleftrightarrow> (\<forall>k b. v k = Some b \<longrightarrow> 96 \<le> length b)"

definition child_effect :: "vccert \<Rightarrow> 64 word \<Rightarrow> bytes \<Rightarrow> bytes \<Rightarrow> bytes \<Rightarrow> kvs \<Rightarrow> kvs \<Rightarrow> bool" where
  "child_effect vc h block_id cert txn_id w w' \<longleftrightarrow>
     find_sized vc cert VCCERT_FIELD_TYPE_CERTIFICATE_ID 16 = Some txn_id \<and>
     w txn_db txn_id = None \<and> canonized (w' txn_db) block_id txn_id cert \<and>
     (\<forall>b i c. canonized (w txn_db) b i c \<longrightarrow> canonized (w' txn_db) b i c) \<and>
     dom (w' txn_db) = insert txn_id (dom (w txn_db)) \<and> (txns_ok (w txn_db) \<longrightarrow> txns_ok (w' txn_db)) \<and>
     w' pq_db = drop_kv (w pq_db) txn_id \<and>
     w' block_db = w block_db \<and> w' height_db = w height_db \<and> w' global_db = w global_db \<and>
     artifacts_ok (w' artifact_db) \<and>
     (\<exists>art s. find_sized vc cert VCCERT_FIELD_TYPE_ARTIFACT_ID 16 = Some art \<and>
        find_sized vc cert VCCERT_FIELD_TYPE_NEW_ARTIFACT_STATE 4 = Some s \<and>
        artifact_latest (w' artifact_db) art txn_id h (of_net32 s))"

context lmdb_store
begin

lemma process_child_outcome:
  assumes p: "dataservice_block_make_process_child ops vc m e t h block_id cert = (AGENTD_STATUS_SUCCESS, t')"
    and rep: "pq_rep (tv t pq_db) q" and art_ok: "artifacts_ok (tv t artifact_db)"
    and len: "length block_id = 16" "length cert + 96 < 2 ^ 64"
  shows "\<exists>txn_id. txn_id \<in> set q \<and> child_effect vc h block_id cert txn_id (tv t) (tv t')"
proof -
  obtain i where i: "find_sized vc cert VCCERT_FIELD_TYPE_CERTIFICATE_ID 16 = Some i"
    using p by (auto simp: dataservice_block_make_process_child_def split: if_splits option.splits)
  obtain pr where pr: "find_sized vc cert VCCERT_FIELD_TYPE_PREVIOUS_CERTIFICATE_ID 16 = Some pr"
    using p by (auto simp: dataservice_block_make_process_child_def split: if_splits option.splits)
  obtain art where art: "find_sized vc cert VCCERT_FIELD_TYPE_ARTIFACT_ID 16 = Some art"
    using p by (auto simp: dataservice_block_make_process_child_def split: if_splits option.splits)
  obtain s where s: "find_sized vc cert VCCERT_FIELD_TYPE_NEW_ARTIFACT_STATE 4 = Some s"
    using p by (auto simp: dataservice_block_make_process_child_def split: if_splits option.splits)
  note lens = find_sized_length [OF i] find_sized_length [OF pr] find_sized_length [OF art]
  let ?n = "txn_node_bytes (canonized_node i pr art block_id cert) @ cert"
  obtain rc t1 where put: "mdb_put ops t txn_db i ?n MDB_NOOVERWRITE = (rc, t1)" by fastforce
  obtain st2 t2 where dr: "dataservice_transaction_drop_internal ops (\<lambda>i. m (Suc i)) e (Some t1) i = (st2, e, Some t2)"
    using drop_internal_below by blast
  obtain st3 t3 where up: "(if pr \<noteq> zero_uuid
      then dataservice_block_make_update_prev_txn ops (m 3) txn_db t2 pr i else (AGENTD_STATUS_SUCCESS, t2)) = (st3, t3)"
    by (metis surj_pair)
  have r: "rc = 0" "st2 = 0" "st3 = 0"
    "dataservice_block_make_update_artifact ops artifact_db t3 art i h (ntohl (of_mem32 s)) = (0, t')"
    using p unfolding dataservice_block_make_process_child_def Let_def i pr art s option.case put prod.case dr option.sel up
    by (auto split: if_splits)
  have none: "tv t txn_db i = None" using put r(1) put_nooverwrite by blast
  have t1: "tv t1 = (tv t)(txn_db := (tv t txn_db)(i \<mapsto> ?n))" using put r(1) put_view by blast
  have rep1: "pq_rep (tv t1 pq_db) q" using rep t1 by simp
  have iq: "i \<in> set q" and t2: "tv t2 = (tv t1)(pq_db := drop_kv (tv t1 pq_db) i)"
    using drop_internal_outcome [OF dr [unfolded r(2)] rep1] by auto
  obtain tx where t3: "tv t3 = (tv t2)(txn_db := tx)"
    and tx: "tx = tv t2 txn_db \<or> tx = (tv t2 txn_db)(pr \<mapsto> store_at 32 i (the (tv t2 txn_db pr))) \<and>
      (\<exists>b. tv t2 txn_db pr = Some b \<and> 96 \<le> length b)"
  proof (cases "pr = zero_uuid")
    case True
    then show ?thesis using that [of "tv t2 txn_db"] up r(3) by simp
  next
    case False
    then show ?thesis using that up r(3) update_prev_txn_outcome [of "m 3" txn_db t2 pr i t3] by auto
  qed
  obtain av where av: "tv t' = (tv t3)(artifact_db := av)" "artifacts_ok av"
    "artifact_latest av art i h (ntohl (of_mem32 s))"
    using update_artifact_outcome [OF r(4) _ lens(3,1)] t3 t2 t1 art_ok by auto
  have new: "canonized (tv t2 txn_db) block_id i cert"
    using canonized_new lens len t2 t1 by simp
  have old: "canonized (tv t2 txn_db) b k c" if "canonized (tv t txn_db) b k c" for b k c
  proof -
    have "k \<noteq> i" using that none by (auto simp: canonized_def)
    then show ?thesis using that t1 t2 canonized_other [of i k] by simp
  qed
  have next0: "canonized tx b k c" if "canonized (tv t2 txn_db) b k c" for b k c
    using tx that canonized_next [OF that lens(1)] by auto
  have dom: "dom tx = insert i (dom (tv t txn_db))" using tx t2 t1 by (auto split: if_splits)
  have "96 \<le> length (store_at 32 i b)" if "96 \<le> length b" for b using that lens(1) by simp
  then have "txns_ok tx" if "txns_ok (tv t2 txn_db)"
    using tx that unfolding txns_ok_def by (auto split: if_splits)
  moreover have "txns_ok (tv t2 txn_db)" if "txns_ok (tv t txn_db)"
    using t2 t1 that lens len by (auto simp: txns_ok_def canonized_node_wf split: if_splits)
  ultimately have "child_effect vc h block_id cert i (tv t) (tv t')"
    using i none art s av t3 t2 t1 new old next0 dom
    by (auto simp: child_effect_def of_net32_def)
  then show ?thesis using iq by blast
qed

end

text \<open>The effects of a list of transactions, one after the other.\<close>

fun children_effect :: "vccert \<Rightarrow> 64 word \<Rightarrow> bytes \<Rightarrow> bytes list \<Rightarrow> bytes list \<Rightarrow> kvs \<Rightarrow> kvs \<Rightarrow> bool" where
  "children_effect vc h block_id [] txn_ids w w' \<longleftrightarrow> txn_ids = [] \<and> w' = w"
| "children_effect vc h block_id (c # cs) txn_ids w w' \<longleftrightarrow>
     (\<exists>i is w1. txn_ids = i # is \<and> child_effect vc h block_id c i w w1 \<and>
        children_effect vc h block_id cs is w1 w')"

lemma children_effect_frame:
  "children_effect vc h block_id cs is w w' \<Longrightarrow>
     w' block_db = w block_db \<and> w' height_db = w height_db \<and> w' global_db = w global_db \<and>
     (txns_ok (w txn_db) \<longrightarrow> txns_ok (w' txn_db)) \<and>
     (\<forall>b i c. canonized (w txn_db) b i c \<longrightarrow> canonized (w' txn_db) b i c)"
  by (induction cs arbitrary: "is" w) (force simp: child_effect_def)+

lemma children_effect_canonized:
  "children_effect vc h block_id cs is w w' \<Longrightarrow> length is = length cs \<and>
     (\<forall>j < length cs. canonized (w' txn_db) block_id (is ! j) (cs ! j))"
proof (induction cs arbitrary: "is" w)
  case Nil
  then show ?case by simp
next
  case (Cons c cs)
  then obtain i "is'" w1 where c: "is = i # is'" "child_effect vc h block_id c i w w1"
    "children_effect vc h block_id cs is' w1 w'" by auto
  have "canonized (w' txn_db) block_id i c"
    using c(2) children_effect_frame [OF c(3)] by (auto simp: child_effect_def)
  then show ?case using Cons.IH [OF c(3)] c(1) by (auto simp: nth_Cons')
qed

lemma children_effect_queue:
  assumes "children_effect vc h block_id cs is w w'" and "pq_rep (w pq_db) q" and "set is \<subseteq> set q \<and> distinct is"
  shows "pq_rep (w' pq_db) (filter (\<lambda>i. i \<notin> set is) q)"
  using assms
proof (induction cs arbitrary: "is" w q)
  case Nil
  then show ?case by simp
next
  case (Cons c cs)
  then obtain i "is'" w1 where c: "is = i # is'" "child_effect vc h block_id c i w w1"
    "children_effect vc h block_id cs is' w1 w'" by auto
  have dist: "distinct q" using Cons.prems(2) by (auto simp: pq_rep_def)
  have "pq_rep (w1 pq_db) (remove1 i q)"
    using drop_rep(1) [OF Cons.prems(2), of i] c(1,2) Cons.prems(3) by (simp add: child_effect_def)
  moreover have "set is' \<subseteq> set (remove1 i q)" "distinct is'" using Cons.prems(3) c(1) dist by auto
  ultimately have "pq_rep (w' pq_db) (filter (\<lambda>i. i \<notin> set is') (remove1 i q))"
    using Cons.IH [OF c(3)] by blast
  moreover have "filter (\<lambda>i. i \<notin> set is') (remove1 i q) = filter (\<lambda>i. i \<notin> set is) q"
    using dist by (simp add: c(1) distinct_remove1_removeAll removeAll_filter_not_eq)
      (metis (mono_tags, lifting) filter_cong)
  ultimately show ?case by simp
qed

context lmdb_store
begin

lemma process_children_outcome:
  assumes "block_make_process_children ops vc m e t h block_id n cs = (AGENTD_STATUS_SUCCESS, t')"
    and "pq_rep (tv t pq_db) q" and "artifacts_ok (tv t artifact_db)"
    and "length block_id = 16" and "\<forall>c \<in> set cs. length c + 96 < 2 ^ 64"
  shows "\<exists>is. set is \<subseteq> set q \<and> distinct is \<and> children_effect vc h block_id cs is (tv t) (tv t') \<and>
     artifacts_ok (tv t' artifact_db)"
  using assms
proof (induction cs arbitrary: t n q)
  case Nil
  then show ?case by simp
next
  case (Cons c cs)
  obtain st t1 where p: "dataservice_block_make_process_child ops vc (m n) e t h block_id c = (st, t1)" by fastforce
  have st: "st = 0" and rest: "block_make_process_children ops vc m e t1 h block_id (Suc n) cs = (0, t')"
    using Cons.prems(1) p by (auto split: if_splits)
  obtain i where i: "i \<in> set q" "child_effect vc h block_id c i (tv t) (tv t1)"
    using process_child_outcome [OF p [unfolded st] Cons.prems(2-4)] Cons.prems(5) by auto
  have q1: "pq_rep (tv t1 pq_db) (remove1 i q)"
    using drop_rep(1) [OF Cons.prems(2) i(1)] i(2) by (simp add: child_effect_def)
  have a1: "artifacts_ok (tv t1 artifact_db)" using i(2) by (simp add: child_effect_def)
  obtain "is" where "is": "set is \<subseteq> set (remove1 i q)" "distinct is"
    "children_effect vc h block_id cs is (tv t1) (tv t')" "artifacts_ok (tv t' artifact_db)"
    using Cons.IH [OF rest q1 a1 Cons.prems(4)] Cons.prems(5) by auto
  have "distinct q" using Cons.prems(2) by (auto simp: pq_rep_def)
  then have "i \<notin> set is" "set is \<subseteq> set q" using "is"(1) by auto
  then have "set (i # is) \<subseteq> set q" "distinct (i # is)" using i(1) "is"(2) by auto
  moreover have "children_effect vc h block_id (c # cs) (i # is) (tv t) (tv t')" using i(2) "is"(3) by auto
  ultimately show ?case using "is"(4) by blast
qed

end

subsection \<open>Making a block is atomic\<close>

text \<open>
  What a committed block leaves: the chain is one longer, the block's
  certificate is stored, its transactions have left the process queue and are
  canonized in this block.
\<close>

definition block_added :: "vccert \<Rightarrow> bytes \<Rightarrow> bytes list \<Rightarrow> bytes list \<Rightarrow> bytes \<Rightarrow> bytes \<Rightarrow> kvs \<Rightarrow> bool" where
  "block_added vc root ids q block_id block_data w \<longleftrightarrow>
     block_rep root w (ids @ [block_id]) \<and> drop 80 (the (w block_db block_id)) = block_data \<and>
     artifacts_ok (w artifact_db) \<and> txns_ok (w txn_db) \<and>
     (let certs = vccert_fields vc block_data VCCERT_FIELD_TYPE_WRAPPED_TRANSACTION_TUPLE in
      \<exists>txn_ids. distinct txn_ids \<and> set txn_ids \<subseteq> set q \<and> length txn_ids = length certs \<and>
        (\<forall>j < length certs. canonized (w txn_db) block_id (txn_ids ! j) (certs ! j)) \<and>
        pq_rep (w pq_db) (filter (\<lambda>i. i \<notin> set txn_ids) q))"

lemma constraint_height_SUCCESS:
  "constraint_matching_block_height vc cert n = (AGENTD_STATUS_SUCCESS, h) \<Longrightarrow>
     h = (case n of Some n \<Rightarrow> 1 + ntohll (net_block_height n) | None \<Rightarrow> 1)"
  by (auto simp: constraint_matching_block_height_def Let_def split: option.splits if_splits)

lemma constraint_prev_SUCCESS:
  "constraint_matching_prev_uuid vc root cert n = (AGENTD_STATUS_SUCCESS, u) \<Longrightarrow>
     u = (case n of Some n \<Rightarrow> block_prev n | None \<Rightarrow> root) \<and> length u = 16"
  by (auto simp: constraint_matching_prev_uuid_def Let_def find_sized_length split: option.splits if_splits)

lemma constraint_sane_SUCCESS:
  "constraint_sane_block_uuid vc root cert i = AGENTD_STATUS_SUCCESS \<Longrightarrow>
     i \<noteq> root \<and> i \<noteq> zero_uuid \<and> i \<noteq> ff_uuid \<and> length i = 16"
  by (auto simp: constraint_sane_block_uuid_def find_sized_length split: option.splits if_splits)

lemma first_txn_SUCCESS:
  "dataservice_make_block_get_first_transaction_id vc c = (AGENTD_STATUS_SUCCESS, i) \<Longrightarrow> length i = 16"
  by (auto simp: dataservice_make_block_get_first_transaction_id_def find_sized_length split: option.splits if_splits)

text \<open>The contents after the insertion hold the longer chain.\<close>

lemma block_rep_insert:
  assumes rep: "block_rep root w ids"
    and h: "h = (case end_node_of w of Some n \<Rightarrow> 1 + ntohll (net_block_height n) | None \<Rightarrow> 1)"
    and u: "u = (case end_node_of w of Some n \<Rightarrow> block_prev n | None \<Rightarrow> root)" "length u = 16"
    and sane: "i \<noteq> root" "i \<noteq> zero_uuid" "i \<noteq> ff_uuid" "length i = 16"
    and len: "length f = 16" "length data + 80 < 2 ^ 64" "Suc (length ids) < 2 ^ 64"
    and fresh: "w block_db i = None"
    and w': "w' = w(block_db := blocks_kv (w block_db) i (block_entry i u f h data) h,
                    height_db := (w height_db)(net64 h \<mapsto> i))"
  shows "block_rep root w' (ids @ [i])" and "drop 80 (the (w' block_db i)) = data"
proof -
  show "block_rep root w' (ids @ [i])"
  proof (cases "w block_db ff_uuid")
    case None
    then have "ids = []" "h = 1" "u = root" using block_rep_uninitialised [OF rep] h u by (simp_all add: end_node_of_def)
    then show ?thesis using blocks_kv_rep_first [of root w i f data w'] rep sane len u w' by simp
  next
    case (Some b)
    have init: "w block_db ff_uuid \<noteq> None" using Some by simp
    note q = block_rep_initialised(9,10) [OF rep init]
    have "block_at (w block_db) ff_uuid = block_node_of b" using Some by (simp add: block_at_def)
    then have "h = of_nat (Suc (length ids))" "u = last ids"
      using h u(1) Some q by (simp_all add: end_node_of_def)
    then show ?thesis
      using blocks_kv_rep_next [OF rep init sane(4) len fresh sane(1), of w'] w' by (simp del: of_nat_Suc)
  qed
  show "drop 80 (the (w' block_db i)) = data"
  proof (cases "w block_db ff_uuid")
    case None
    then show ?thesis using w' sane u(2) len by (simp add: blocks_kv_def block_entry_simps)
  next
    case (Some b)
    have init: "w block_db ff_uuid \<noteq> None" using Some by simp
    note q = block_rep_initialised [OF rep init]
    have "last ids \<noteq> i" using q(1,4) fresh by (metis domIff last_in_set list.set_intros(2) in_set_conv_decomp append_Cons append_assoc set_append Un_iff)
    moreover have "w' block_db = blocks_kv (w block_db) i (block_entry i u f h data) h" by (simp add: w')
    ultimately show ?thesis
      using sane u(2) len q(9) unfolding blocks_kv_def if_not_P [OF init]
      by (simp add: Let_def block_entry_simps)
  qed
qed

context lmdb_store
begin

lemma block_make_atomic:
  assumes rep: "block_rep root (view e p) ids" and pq: "pq_rep (view e p pq_db) q"
    and art: "artifacts_ok (view e p artifact_db)" and txns: "txns_ok (view e p txn_db)"
    and parse: "vccert_parser_init_ok vc block_data"
    and len: "length block_id = 16" "length block_data + 80 < 2 ^ 64" "Suc (length ids) < 2 ^ 64"
    and wrapped: "\<forall>c \<in> set (vccert_fields vc block_data VCCERT_FIELD_TYPE_WRAPPED_TRANSACTION_TUPLE).
        length c + 96 < 2 ^ 64"
  shows "returns (atomic_update ev tv e p (block_added vc root ids q block_id block_data))
     (dataservice_block_make ops vc root m child e p block_id block_data)"
proof -
  obtain rc0 t0 where beg: "mdb_txn_begin ops e p 0 = (rc0, t0)" by fastforce
  obtain s1 n where qe: "query_end_node ops t0 block_db = (s1, n)" by fastforce
  obtain s2 h where ch: "constraint_matching_block_height vc block_data n = (s2, h)" by fastforce
  obtain s3 u where cp: "constraint_matching_prev_uuid vc root block_data n = (s3, u)" by fastforce
  define s4 where "s4 = constraint_sane_block_uuid vc root block_data block_id"
  define cs where "cs = vccert_fields vc block_data VCCERT_FIELD_TYPE_WRAPPED_TRANSACTION_TUPLE"
  obtain s5 f where ft: "dataservice_make_block_get_first_transaction_id vc (hd cs) = (s5, f)" by fastforce
  obtain s6 t1 where ins: "dataservice_make_block_insert_block ops (m 0 0) block_db height_db t0 block_id u f h block_data = (s6, t1)"
    by fastforce
  note B = dataservice_block_make_def Let_def dataservice_create_child_trasaction_def beg qe ch cp
    s4_def [symmetric] cs_def [symmetric] parse block_make_link_def [symmetric]
  let ?ok = "BITCAP_ISSET (childcaps child) DATASERVICE_API_CAP_APP_BLOCK_WRITE \<and>
    vccrypt_suite_options_init_ok vc \<and> vccert_parser_options_simple_init_ok vc \<and> rc0 = 0"
  show ?thesis
  proof (cases "?ok \<and> s1 = 0 \<and> s2 = 0 \<and> s3 = 0 \<and> s4 = 0 \<and> cs \<noteq> [] \<and> s5 = 0 \<and> s6 = 0")
    case False
    then consider "\<not> ?ok" | "s1 \<noteq> 0" | "s2 \<noteq> 0" | "s3 \<noteq> 0" | "s4 \<noteq> 0" | "cs = []" | "cs \<noteq> []" "s5 \<noteq> 0"
      | "cs \<noteq> []" "s6 \<noteq> 0" by blast
    then show ?thesis using ft ins by cases (auto simp: B neq_Nil_conv)
  next
    case True
    then obtain c0 others where cs: "cs = c0 # others" by (auto simp: neq_Nil_conv)
    have t0: "tv t0 = view e p" using begin_view beg True by simp
    have n: "n = end_node_of (view e p)" using query_end_node_outcome [of t0 n] qe True t0 by simp
    have rep0: "block_rep root (tv t0) ids" using rep t0 by simp
    obtain s7 t2 where link: "block_make_link ops (m 0 1) t1 block_id h n = Some (s7, t2)"
      and t2: "s7 = 0 \<Longrightarrow> tv t2 = (view e p)(block_db := blocks_kv (view e p block_db) block_id
            (block_entry block_id u f h block_data) h, height_db := (view e p height_db)(net64 h \<mapsto> block_id))"
      using block_insert_outcome [OF rep0 len(1), of "m 0 0" u f h block_data t1 "m 0 1"] ins True t0 n by auto
    obtain s8 t3 where ch8: "block_make_process_children ops vc (\<lambda>i. m (Suc i)) e t2 h block_id 0 cs = (s8, t3)"
      by fastforce
    have added: "block_added vc root ids q block_id block_data (tv t3)" if ok78: "s7 = 0" "s8 = 0"
    proof -
      have fresh: "view e p block_db block_id = None" using insert_block_outcome(2) ins True t0 by metis
      note r = block_rep_insert [OF rep _ _ _ _ _ _ _ _ len(2,3) fresh t2 [OF ok78(1)]]
      have b: "block_rep root (tv t2) (ids @ [block_id])" "drop 80 (the (tv t2 block_db block_id)) = block_data"
        using r constraint_height_SUCCESS [of vc block_data n h] constraint_prev_SUCCESS [of vc root block_data n u]
          constraint_sane_SUCCESS [of vc root block_data block_id] first_txn_SUCCESS [of vc "hd cs" f]
          ch cp ft True by (auto simp: n s4_def)
      obtain "is" where "is": "set is \<subseteq> set q" "distinct is" "children_effect vc h block_id cs is (tv t2) (tv t3)"
        "artifacts_ok (tv t3 artifact_db)"
        using process_children_outcome [of vc "\<lambda>i. m (Suc i)" e t2 h block_id 0 cs t3 q] ch8 ok78(2) t2 [OF ok78(1)] pq art len(1) wrapped
        by (auto simp: cs_def)
      have q2: "pq_rep (tv t2 pq_db) q" using t2 [OF ok78(1)] pq by simp
      note fr = children_effect_frame [OF "is"(3)] and can = children_effect_canonized [OF "is"(3)]
        and queue = children_effect_queue [OF "is"(3) q2]
      have "txns_ok (tv t2 txn_db)" using txns t2 [OF ok78(1)] by simp
      then show ?thesis using b "is" fr can queue unfolding block_added_def Let_def cs_def [symmetric]
        by (auto simp: block_rep_def)
    qed
    show ?thesis using True ft ins link ch8 added cs by (auto simp: B atomic_commit)
  qed
qed

end

subsection \<open>Reading the chain\<close>

context lmdb_reliable
begin

lemma block_id_by_height_reliable:
  assumes rep: "block_rep root (view e p) ids" and ids: "\<forall>i \<in> set ids. length i = 16"
    and cap: "BITCAP_ISSET (childcaps child) DATASERVICE_API_CAP_APP_BLOCK_ID_BY_HEIGHT_READ"
  shows "\<exists>e' p'. dataservice_block_id_by_height_get ops child e p h =
     (if 0 < unat h \<and> unat h \<le> length ids
      then ((AGENTD_STATUS_SUCCESS, e', p'), Some (ids ! (unat h - 1)))
      else ((AGENTD_ERROR_DATASERVICE_NOT_FOUND, e', p'), None))"
proof -
  have idx: "height_index (view e p height_db) ids" using rep by (simp add: block_rep_def)
  show ?thesis
  proof (cases "0 < unat h \<and> unat h \<le> length ids")
    case True
    then have "view e p height_db (net64 h) = Some (ids ! (unat h - 1))" using idx by (simp add: height_index_def)
    then have "mdb_get_lval ops t height_db (mem64 (htonll h)) = (0, ids ! (unat h - 1))" if "tv t = view e p" for t
      using that by (simp add: lval_Some net64_def)
    moreover have "length (ids ! (unat h - 1)) = 16" using True ids nth_mem [of "unat h - 1" ids] by auto
    ultimately show ?thesis using cap True by (simp add: dataservice_block_id_by_height_get_def query_result)
  next
    case False
    then have "view e p height_db (net64 h) = None" using idx by (auto simp: height_index_def)
    then have "mdb_get_lval ops t height_db (mem64 (htonll h)) = (MDB_NOTFOUND, [])" if "tv t = view e p" for t
      using that by (simp add: lval_None net64_def)
    then show ?thesis unfolding if_not_P [OF False] using cap
      by (simp add: dataservice_block_id_by_height_get_def query_result)
  qed
qed

lemma latest_block_id_reliable:
  assumes rep: "block_rep root (view e p) ids"
    and cap: "BITCAP_ISSET (childcaps child) DATASERVICE_API_CAP_APP_BLOCK_ID_LATEST_READ"
  shows "\<exists>e' p'. dataservice_latest_block_id_get ops root child e p =
     ((AGENTD_STATUS_SUCCESS, e', p'), Some (last (root # ids)))"
proof -
  show ?thesis
  proof (cases "view e p block_db ff_uuid")
    case None
    then have "mdb_get_lval ops t block_db ff_uuid = (MDB_NOTFOUND, [])" if "tv t = view e p" for t
      using that by (simp add: lval_None)
    moreover have "ids = []" using block_rep_uninitialised [OF rep None] by simp
    ultimately show ?thesis using cap by (simp add: dataservice_latest_block_id_get_def query_result)
  next
    case (Some b)
    have init: "view e p block_db ff_uuid \<noteq> None" using Some by simp
    note r = block_rep_initialised(1,6,9) [OF rep init]
    have "mdb_get_lval ops t block_db ff_uuid = (0, b)" if "tv t = view e p" for t
      using that Some by (simp add: lval_Some)
    moreover have "length b = 80" "block_prev (block_node_of b) = last ids"
      using r(2,3) Some by (simp_all add: block_at_def)
    ultimately show ?thesis using cap r(1) by (simp add: dataservice_latest_block_id_get_def query_result)
  qed
qed

lemma block_get_reliable:
  assumes rep: "block_rep root (view e p) ids" and i: "i < length ids"
    and cap: "BITCAP_ISSET (childcaps child) DATASERVICE_API_CAP_APP_BLOCK_READ"
    and cert: "80 < length (the (view e p block_db (ids ! i)))"
  shows "\<exists>e' p'. dataservice_block_get ops root True child e p (ids ! i) =
     ((AGENTD_STATUS_SUCCESS, e', p'),
      Some (block_at (view e p block_db) (ids ! i), drop 80 (the (view e p block_db (ids ! i)))))"
proof -
  have init: "view e p block_db ff_uuid \<noteq> None" using i block_rep_uninitialised [OF rep] by fastforce
  note r = block_rep_initialised [OF rep init]
  have "ids ! i \<in> dom (view e p block_db)" using i r(4) by auto
  then obtain b where b: "view e p block_db (ids ! i) = Some b"
    "unat (ntohll (net_block_cert_size (block_node_of b))) = length b - 80"
    "block_at (view e p block_db) (ids ! i) = block_node_of b"
    using block_entry_okD [OF r(5)] by blast
  have "80 < length b" using cert b(1) by simp
  have g: "mdb_get_lval ops t block_db (ids ! i) = (0, b)" if "tv t = view e p" for t
    using that b(1) by (simp add: lval_Some)
  show ?thesis unfolding dataservice_block_get_def
    using cap g b \<open>80 < length b\<close> by (simp add: Let_def query_result)
qed

end

end
