(* ===== verification/Ds_Queue_Fifo.thy ===== *)
theory Ds_Queue_Fifo
  imports Ds_Queue_Correct
begin

text \<open>
  The process queue as a first-in first-out queue of submissions.  The locale
  \<open>fifo_queue\<close> is the contract the canonization and attestation services rely
  on; \<open>pq_client\<close> is a child context with the queue capabilities over a store
  that does not fail, and the operations of the data service meet the contract
  there.
\<close>

subsection \<open>The contract\<close>

fun enqueue_all :: "('s \<Rightarrow> 'a \<Rightarrow> 's option) \<Rightarrow> 's \<Rightarrow> 'a list \<Rightarrow> 's option" where
  "enqueue_all enq s [] = Some s"
| "enqueue_all enq s (x # xs) = (case enq s x of None \<Rightarrow> None | Some s' \<Rightarrow> enqueue_all enq s' xs)"

text \<open>Take the first entry and drop it, until the queue is empty or \<open>n\<close> entries are taken.\<close>

fun drain :: "('s \<Rightarrow> ('a \<times> 's) option) \<Rightarrow> ('s \<Rightarrow> 'k \<Rightarrow> 's option) \<Rightarrow> ('a \<Rightarrow> 'k) \<Rightarrow> nat \<Rightarrow> 's \<Rightarrow>
    ('a list \<times> 's) option" where
  "drain first del key 0 s = Some ([], s)"
| "drain first del key (Suc n) s =
     (case first s of
        None \<Rightarrow> Some ([], s)
      | Some (x, s1) \<Rightarrow>
          (case del s1 (key x) of
             None \<Rightarrow> None
           | Some s2 \<Rightarrow> (case drain first del key n s2 of None \<Rightarrow> None | Some (xs, s3) \<Rightarrow> Some (x # xs, s3))))"

locale fifo_queue =
  fixes enq :: "'s \<Rightarrow> 'a \<Rightarrow> 's option"
    and first :: "'s \<Rightarrow> ('a \<times> 's) option"
    and del :: "'s \<Rightarrow> 'k \<Rightarrow> 's option"
    and key :: "'a \<Rightarrow> 'k"
    and ok :: "'a \<Rightarrow> bool"
    and holds :: "'s \<Rightarrow> 'a list \<Rightarrow> bool"
  assumes holds_distinct: "holds s q \<Longrightarrow> distinct (map key q)"
    and enq_ok: "holds s q \<Longrightarrow> ok x \<Longrightarrow> key x \<notin> key ` set q \<Longrightarrow> \<exists>s'. enq s x = Some s' \<and> holds s' (q @ [x])"
    and first_Nil: "holds s [] \<Longrightarrow> first s = None"
    and first_Cons: "holds s (x # q) \<Longrightarrow> \<exists>s'. first s = Some (x, s') \<and> holds s' (x # q)"
    and del_ok: "holds s q \<Longrightarrow> x \<in> set q \<Longrightarrow> \<exists>s'. del s (key x) = Some s' \<and> holds s' (remove1 x q)"
begin

lemma enqueue_all_ok:
  assumes "holds s q" and "\<forall>x \<in> set xs. ok x" and "distinct (map key (q @ xs))"
  shows "\<exists>s'. enqueue_all enq s xs = Some s' \<and> holds s' (q @ xs)"
  using assms
proof (induction xs arbitrary: s q)
  case Nil
  then show ?case by simp
next
  case (Cons x xs)
  obtain s1 where s1: "enq s x = Some s1" "holds s1 (q @ [x])"
    using enq_ok [OF Cons.prems(1), of x] Cons.prems(2,3) by auto
  have "\<exists>s'. enqueue_all enq s1 xs = Some s' \<and> holds s' ((q @ [x]) @ xs)"
    using Cons.IH [OF s1(2)] Cons.prems(2,3) by simp
  then show ?case using s1(1) by simp
qed

lemma drain_ok:
  assumes "holds s q" and "length q \<le> n"
  shows "\<exists>s'. drain first del key n s = Some (q, s') \<and> holds s' []"
  using assms
proof (induction q arbitrary: s n)
  case Nil
  then show ?case by (cases n) (simp_all add: first_Nil)
next
  case (Cons x q)
  obtain m where n: "n = Suc m" "length q \<le> m" using Cons.prems(2) by (cases n) auto
  obtain s1 where s1: "first s = Some (x, s1)" "holds s1 (x # q)" using first_Cons [OF Cons.prems(1)] by blast
  obtain s2 where s2: "del s1 (key x) = Some s2" "holds s2 (remove1 x (x # q))"
    using del_ok [OF s1(2), of x] by auto
  then have "holds s2 q" by simp
  then show ?case using Cons.IH [of s2 m] n s1 s2 by auto
qed

text \<open>What is submitted to an empty queue is taken from it, complete and in order.\<close>

lemma fifo:
  assumes "holds s []" and "\<forall>x \<in> set xs. ok x" and "distinct (map key xs)"
  shows "\<exists>s' s''. enqueue_all enq s xs = Some s' \<and> drain first del key (length xs) s' = Some (xs, s'') \<and> holds s'' []"
  using enqueue_all_ok [OF assms(1,2)] assms(3) drain_ok by fastforce

end

subsection \<open>Submissions and what the queue holds\<close>

text \<open>A submission: transaction identifier, artifact identifier and certificate.\<close>

type_synonym submission = "bytes \<times> bytes \<times> bytes"

definition submission_ok :: "submission \<Rightarrow> bool" where
  "submission_ok x \<longleftrightarrow> (case x of (txn_id, artifact_id, cert) \<Rightarrow>
     submit_args txn_id artifact_id cert \<and> txn_id \<noteq> zero_uuid \<and> txn_id \<noteq> ff_uuid \<and> cert \<noteq> [])"

definition pq_holds :: "kv \<Rightarrow> submission list \<Rightarrow> bool" where
  "pq_holds v q \<longleftrightarrow> pq_rep v (map fst q) \<and> (\<forall>x \<in> set q. content v (fst x) = snd x \<and> snd (snd x) \<noteq> [])"

lemma content_other: "k \<noteq> j \<Longrightarrow> content (v(j := x)) k = content v k"
  by (simp add: content_def node_at_other)

lemma content_store:
  assumes "entry_ok v k" and "length u = 16" and "off = 16 \<or> off = 32"
  shows "content (v(k \<mapsto> store_at off u (the (v k)))) k = content v k"
  using entry_okD [OF assms(1)] entry_ok_store(2) [OF assms] assms(2,3)
  by (auto simp: content_def)

lemma submit_kv_initialised:
  "v ff_uuid \<noteq> None \<Longrightarrow> submit_kv att i a c v =
     submit_append_kv v i (submit_entry att i a (node_prev (node_at v ff_uuid)) c)"
  by (simp only: submit_kv_def if_False)

lemma submit_content_new:
  assumes rep: "pq_rep v ids" and fresh: "v txn_id = None" and args: "submit_args txn_id artifact_id cert"
    and id: "txn_id \<noteq> zero_uuid" "txn_id \<noteq> ff_uuid"
  shows "content (submit_kv att txn_id artifact_id cert v) txn_id = (artifact_id, cert)"
proof -
  have len: "length txn_id = 16" "length artifact_id = 16" using args by (simp_all add: submit_args_def)
  show ?thesis
  proof (cases "v ff_uuid = None")
    case True
    then show ?thesis using id len
      by (simp add: submit_kv_def submit_create_kv_def content_def node_at_def submit_entry_simps)
        (simp add: submit_newnode_def)
  next
    case False
    note q = pq_rep_initialised [OF rep False]
    let ?p = "node_prev (node_at v ff_uuid)"
    have p: "?p = last (zero_uuid # ids)" by (rule pq_rep_last [OF rep False])
    then have "?p \<in> dom v" using q(1) by (metis last_in_set list.distinct(1) in_set_conv_decomp append_Cons set_append Un_iff)
    then have "?p \<noteq> txn_id" "length ?p = 16" using fresh q(3) entry_ok_length by (auto simp: domIff)
    then show ?thesis unfolding submit_kv_initialised [of v, OF False] using id len
      by (simp add: submit_append_kv_def Let_def content_def node_at_def submit_entry_simps)
        (simp add: submit_newnode_def)
  qed
qed

lemma submit_content_old:
  assumes rep: "pq_rep v ids" and k: "k \<in> set ids" and args: "submit_args txn_id artifact_id cert"
    and id: "txn_id \<notin> set ids"
  shows "content (submit_kv att txn_id artifact_id cert v) k = content v k"
proof -
  have init: "v ff_uuid \<noteq> None" using rep k pq_rep_uninitialised by fastforce
  note q = pq_rep_initialised [OF rep init]
  have ne: "k \<noteq> txn_id" "k \<noteq> ff_uuid" and ok: "entry_ok v k" using k id q by auto
  show ?thesis
  proof (cases "k = node_prev (node_at v ff_uuid)")
    case True
    then show ?thesis unfolding submit_kv_initialised [of v, OF init]
      using ne content_store [OF ok, of txn_id 32] args
      by (simp add: submit_append_kv_def Let_def submit_args_def content_def node_at_def)
  next
    case False
    then show ?thesis unfolding submit_kv_initialised [of v, OF init] using ne
      by (simp add: submit_append_kv_def Let_def content_other)
  qed
qed

lemma drop_content:
  assumes rep: "pq_rep v ids" and id: "txn_id \<in> set ids" and k: "k \<in> set ids" "k \<noteq> txn_id"
  shows "content (drop_kv v txn_id) k = content v k"
proof -
  let ?n = "node_at v txn_id"
  have init: "v ff_uuid \<noteq> None" using rep k pq_rep_uninitialised by fastforce
  note q = pq_rep_initialised [OF rep init]
  have ok: "entry_ok v k" and okid: "entry_ok v txn_id" using k id q by auto
  note links = entry_ok_links [OF okid] and ne = drop_rep(2-4) [OF rep id]
  consider "k = node_prev ?n" | "k = node_next ?n" "k \<noteq> node_prev ?n" | "k \<noteq> node_prev ?n" "k \<noteq> node_next ?n"
    by blast
  then show ?thesis
  proof cases
    case 1
    then show ?thesis using ne k content_store [OF ok links(1), of 32]
      by (simp add: drop_kv_def Let_def content_def node_at_def)
  next
    case 2
    then show ?thesis using ne k content_store [OF ok links(2), of 16]
      by (simp add: drop_kv_def Let_def content_def node_at_def)
  next
    case 3
    then show ?thesis using k by (simp add: drop_kv_def Let_def content_other)
  qed
qed

lemma pq_holds_empty [simp]: "pq_holds Map.empty []"
  by (simp add: pq_holds_def pq_rep_def)

lemma pq_holds_submit:
  assumes h: "pq_holds v q" and ok: "submission_ok (i, a, c)" and fresh: "i \<notin> fst ` set q"
  shows "pq_holds (submit_kv att i a c v) (q @ [(i, a, c)])"
proof -
  have rep: "pq_rep v (map fst q)" using h by (simp add: pq_holds_def)
  have args: "submit_args i a c" "i \<noteq> zero_uuid" "i \<noteq> ff_uuid" "c \<noteq> []" using ok by (simp_all add: submission_ok_def)
  have none: "v i = None" using pq_rep_fresh [OF rep args(2,3)] fresh by simp
  have "content (submit_kv att i a c v) (fst x) = content v (fst x)" if "x \<in> set q" for x
    using that fresh by (intro submit_content_old [OF rep _ args(1)]) auto
  moreover have "content (submit_kv att i a c v) i = (a, c)"
    by (rule submit_content_new [OF rep none args(1-3)])
  ultimately show ?thesis
    using submit_rep [OF rep none args(1-3), of att] h args(4) by (auto simp: pq_holds_def)
qed

lemma pq_holds_drop:
  assumes h: "pq_holds v q" and x: "x \<in> set q"
  shows "pq_holds (drop_kv v (fst x)) (remove1 x q)"
proof -
  have rep: "pq_rep v (map fst q)" using h by (simp add: pq_holds_def)
  have dist: "distinct (map fst q)" using rep by (auto simp: pq_rep_def)
  have ne: "fst y \<noteq> fst x" if "y \<in> set (remove1 x q)" for y
    using that x dist by (metis distinct_map distinct_remove1 inj_onD notin_set_remove1 remove1_idem
        set_remove1_eq Diff_iff singletonI)
  have "content (drop_kv v (fst x)) (fst y) = content v (fst y)" if "y \<in> set (remove1 x q)" for y
    using that x ne [OF that] notin_set_remove1 [of y q x] by (intro drop_content [OF rep]) auto
  moreover have "map fst (remove1 x q) = remove1 (fst x) (map fst q)"
    using x dist by (induction q) (auto simp: image_iff)
  moreover have "set (remove1 x q) \<subseteq> set q" by (rule set_remove1_subset)
  ultimately show ?thesis
    using drop_rep(1) [OF rep, of "fst x"] x h by (auto simp: pq_holds_def)
qed



subsection \<open>The data service as such a queue\<close>

definition pq_submit :: "('e, 't) lmdb \<Rightarrow> bool \<Rightarrow> dataservice_child_context \<Rightarrow> 'e \<Rightarrow> submission \<Rightarrow> 'e option" where
  "pq_submit ops att child e x = (case x of (txn_id, artifact_id, cert) \<Rightarrow>
     case dataservice_transaction_submit ops att (\<lambda>_. True) child e None txn_id artifact_id cert of
       None \<Rightarrow> None
     | Some (st, e', _) \<Rightarrow> if st = AGENTD_STATUS_SUCCESS then Some e' else None)"

definition pq_first :: "('e, 't) lmdb \<Rightarrow> dataservice_child_context \<Rightarrow> 'e \<Rightarrow> (submission \<times> 'e) option" where
  "pq_first ops child e = (case dataservice_transaction_get_first ops True child e None of
     ((st, e', _), res) \<Rightarrow> map_option (\<lambda>(n, cert). ((node_key n, node_artifact_id n, cert), e')) res)"

definition pq_drop :: "('e, 't) lmdb \<Rightarrow> dataservice_child_context \<Rightarrow> 'e \<Rightarrow> bytes \<Rightarrow> 'e option" where
  "pq_drop ops child e txn_id = (case dataservice_transaction_drop ops (\<lambda>_. True) child e None txn_id of
     (st, e', _) \<Rightarrow> if st = AGENTD_STATUS_SUCCESS then Some e' else None)"

definition pq_caps :: "dataservice_child_context \<Rightarrow> bool" where
  "pq_caps child \<longleftrightarrow>
     BITCAP_ISSET (childcaps child) DATASERVICE_API_CAP_APP_PQ_TRANSACTION_SUBMIT \<and>
     BITCAP_ISSET (childcaps child) DATASERVICE_API_CAP_APP_PQ_TRANSACTION_FIRST_READ \<and>
     BITCAP_ISSET (childcaps child) DATASERVICE_API_CAP_APP_PQ_TRANSACTION_DROP"

locale pq_client = lmdb_reliable +
  fixes att :: bool and child :: dataservice_child_context
  assumes caps: "pq_caps child"
begin

lemma pq_submit_holds:
  assumes h: "pq_holds (ev e pq_db) q" and ok: "submission_ok x" and fresh: "fst x \<notin> fst ` set q"
  shows "\<exists>e'. pq_submit ops att child e x = Some e' \<and> pq_holds (ev e' pq_db) (q @ [x])"
proof -
  obtain i a c where x: "x = (i, a, c)" by (cases x)
  have rep: "pq_rep (view e None pq_db) (map fst q)" using h by (simp add: pq_holds_def)
  have args: "submit_args i a c" "i \<noteq> zero_uuid" "i \<noteq> ff_uuid" "i \<notin> set (map fst q)"
    using ok fresh x by (simp_all add: submission_ok_def)
  obtain e' p' where s: "dataservice_transaction_submit ops att (\<lambda>_. True) child e None i a c =
      Some (AGENTD_STATUS_SUCCESS, e', p')"
    "view e' p' = (view e None)(pq_db := submit_kv att i a c (view e None pq_db))" "p' = None"
    using submit_reliable [OF rep args, of child "\<lambda>_. True" att] caps by (auto simp: pq_caps_def)
  then have "ev e' pq_db = submit_kv att i a c (ev e pq_db)" by simp
  then have "pq_holds (ev e' pq_db) (q @ [x])"
    using pq_holds_submit [OF h, of i a c att] ok fresh x by simp
  then show ?thesis using s by (simp add: pq_submit_def x)
qed

lemma pq_drop_holds:
  assumes h: "pq_holds (ev e pq_db) q" and x: "x \<in> set q"
  shows "\<exists>e'. pq_drop ops child e (fst x) = Some e' \<and> pq_holds (ev e' pq_db) (remove1 x q)"
proof -
  have rep: "pq_rep (view e None pq_db) (map fst q)" using h by (simp add: pq_holds_def)
  obtain e' p' where s: "dataservice_transaction_drop_internal ops (\<lambda>_. True) e None (fst x) =
      (AGENTD_STATUS_SUCCESS, e', p')"
    "view e' p' = (view e None)(pq_db := drop_kv (view e None pq_db) (fst x))" "p' = None"
    using drop_reliable [OF rep, of "fst x" "\<lambda>_. True"] x by auto
  then have "ev e' pq_db = drop_kv (ev e pq_db) (fst x)" by simp
  then show ?thesis
    using pq_holds_drop [OF h x] s caps
    by (simp add: pq_drop_def dataservice_transaction_drop_def pq_caps_def)
qed

lemma pq_first_Nil: "pq_holds (ev e pq_db) [] \<Longrightarrow> pq_first ops child e = None"
  using get_first_empty [of e None child True] caps by (auto simp: pq_first_def pq_holds_def pq_caps_def)

lemma pq_first_Cons:
  assumes h: "pq_holds (ev e pq_db) (x # q)"
  shows "\<exists>e'. pq_first ops child e = Some (x, e') \<and> pq_holds (ev e' pq_db) (x # q)"
proof -
  let ?v = "ev e pq_db"
  have rep: "pq_rep (view e None pq_db) (fst x # map fst q)" using h by (simp add: pq_holds_def)
  have c: "content ?v (fst x) = snd x" "snd (snd x) \<noteq> []" using h by (simp_all add: pq_holds_def)
  obtain e' p' where g: "dataservice_transaction_get_first ops True child e None =
      ((AGENTD_STATUS_SUCCESS, e', p'), Some (node_at ?v (fst x), snd (snd x)))"
    using get_first_reliable [OF rep, of child] c caps by (auto simp: pq_caps_def)
  have "unchanged ev tv e None (AGENTD_STATUS_SUCCESS, e', p')"
    using get_first_unchanged [of e None True child] by (simp only: g fst_conv)
  then have ev: "ev e' = ev e" by (cases p') simp_all
  have "entry_ok ?v (fst x)" by (rule pq_rep_entry [OF rep, of "fst x"]) simp_all
  then have "node_key (node_at ?v (fst x)) = fst x" using entry_okD by force
  moreover have "node_artifact_id (node_at ?v (fst x)) = fst (snd x)" using c(1) by (metis content_def fst_conv)
  ultimately show ?thesis using g h ev by (simp add: pq_first_def)
qed

end

sublocale pq_client \<subseteq> pq: fifo_queue "pq_submit ops att child" "pq_first ops child" "pq_drop ops child"
  fst submission_ok "\<lambda>e q. pq_holds (ev e pq_db) q"
proof unfold_locales
  show "distinct (map fst q)" if "pq_holds (ev s pq_db) q" for s q
    using that by (auto simp: pq_holds_def pq_rep_def)
qed (use pq_submit_holds pq_first_Nil pq_first_Cons pq_drop_holds in auto)

interpretation mem_pq: pq_client mem_lmdb "\<lambda>e. e" "\<lambda>t. t" att full_child for att
  by unfold_locales (simp add: pq_caps_def full_child_caps)

subsection \<open>Properties\<close>

text \<open>An empty store, an identifier and a queue of one transaction.\<close>

abbreviation (input) empty_db :: mem_db where
  "empty_db \<equiv> \<lambda>_. Map.empty"

definition demo_id :: "byte \<Rightarrow> bytes" where
  "demo_id n = n # replicate 15 1"

lemma demo_id_simps [simp]: "length (demo_id n) = 16" "demo_id n \<noteq> zero_uuid" "demo_id n \<noteq> ff_uuid"
  "demo_id n = demo_id m \<longleftrightarrow> n = m"
proof -
  have "replicate 16 (x :: byte) = x # replicate 15 x" for x by (metis replicate_Suc numeral_eq_Suc pred_numeral_simps(2) pred_numeral_simps(3) BitM.simps(1) BitM.simps(2))
  then show "demo_id n \<noteq> zero_uuid" "demo_id n \<noteq> ff_uuid" by (auto simp: demo_id_def)
qed (auto simp: demo_id_def)

lemma demo_args: "submit_args (demo_id n) (demo_id m) [7]"
  by (simp add: submit_args_def)

definition demo_queue :: kv where
  "demo_queue = submit_kv True (demo_id 1) (demo_id 2) [7] Map.empty"

lemma demo_queue_holds: "pq_holds demo_queue [(demo_id 1, demo_id 2, [7])]"
  using pq_holds_submit [OF pq_holds_empty, of "demo_id 1" "demo_id 2" "[7]" True] demo_args
  by (simp add: demo_queue_def submission_ok_def)

lemma demo_queue_rep: "pq_rep demo_queue [demo_id 1]"
  using demo_queue_holds by (simp add: pq_holds_def)

text \<open>
  C27. Submitting a transaction, other than with one of the two reserved identifiers (all
  zero or all one bits), to a well-formed queue has defined behaviour and is
  all or nothing, whichever calls of the store and allocations fail: either the
  contents are unchanged, or the call reports success, the transaction was not
  pending, and the contents are those of the queue with the transaction appended.
\<close>

theorem submit_all_or_nothing:
  assumes "lmdb_store ops ev tv" and "pq_rep (base_view ev tv e p pq_db) ids"
    and "submit_args txn_id artifact_id txn_bytes" and "txn_id \<noteq> zero_uuid" and "txn_id \<noteq> ff_uuid"
  shows "returns (atomic_update ev tv e p (\<lambda>w. txn_id \<notin> set ids \<and> pq_rep (w pq_db) (ids @ [txn_id]) \<and>
       w = (base_view ev tv e p)(pq_db := submit_kv att txn_id artifact_id txn_bytes (base_view ev tv e p pq_db))))
     (dataservice_transaction_submit ops att malloc_ok child e p txn_id artifact_id txn_bytes)"
proof -
  obtain st e' p' where r: "dataservice_transaction_submit ops att malloc_ok child e p txn_id artifact_id txn_bytes = Some (st, e', p')"
    and a: "atomic_update ev tv e p (\<lambda>w. txn_id \<notin> set ids \<and>
       w = (base_view ev tv e p)(pq_db := submit_kv att txn_id artifact_id txn_bytes (base_view ev tv e p pq_db))) (st, e', p')"
    using lmdb_store.submit_outcome [OF assms, of att malloc_ok child] by (auto simp: returns_iff)
  have "pq_rep (submit_kv att txn_id artifact_id txn_bytes (base_view ev tv e p pq_db)) (ids @ [txn_id])" if "txn_id \<notin> set ids"
    using submit_rep [OF assms(2) _ assms(3-5)] pq_rep_fresh [OF assms(2,4,5)] that by blast
  then show ?thesis using r a by auto
qed

theorem submit_all_or_nothing_witness:
  "returns (atomic_update (\<lambda>e. e) (\<lambda>t. t) empty_db None (\<lambda>w. demo_id 1 \<notin> set [] \<and> pq_rep (w pq_db) ([] @ [demo_id 1]) \<and>
       w = empty_db(pq_db := submit_kv True (demo_id 1) (demo_id 2) [7] Map.empty)))
     (dataservice_transaction_submit mem_lmdb True (\<lambda>_. False) full_child empty_db None (demo_id 1) (demo_id 2) [7])"
  using submit_all_or_nothing [OF mem.lmdb_store_axioms, of empty_db None "[]" "demo_id 1" "demo_id 2" "[7]" True "\<lambda>_. False" full_child]
    demo_args by (simp add: pq_rep_def)




text \<open>
  C33. On a store that does not fail, an authorised drop of a pending transaction
  succeeds and takes it out of the queue; the order and the contents of the others
  are kept.
\<close>

theorem drop_removes:
  assumes "lmdb_reliable ops ev tv" and "pq_rep (base_view ev tv e p pq_db) ids" and "txn_id \<in> set ids"
    and "BITCAP_ISSET (childcaps child) DATASERVICE_API_CAP_APP_PQ_TRANSACTION_DROP"
    and "malloc_ok 0" and "malloc_ok 1"
  shows "\<exists>e' p'. dataservice_transaction_drop ops malloc_ok child e p txn_id = (AGENTD_STATUS_SUCCESS, e', p') \<and>
     pq_rep (base_view ev tv e' p' pq_db) (remove1 txn_id ids) \<and>
     (\<forall>k \<in> set ids - {txn_id}. content (base_view ev tv e' p' pq_db) k = content (base_view ev tv e p pq_db) k)"
proof -
  let ?v = "base_view ev tv e p pq_db"
  obtain e' p' where r: "dataservice_transaction_drop_internal ops malloc_ok e p txn_id = (AGENTD_STATUS_SUCCESS, e', p')"
    and v: "base_view ev tv e' p' = (base_view ev tv e p)(pq_db := drop_kv ?v txn_id)"
    by (rule lmdb_reliable.drop_reliable [OF assms(1-3,5,6)])
  have "base_view ev tv e' p' pq_db = drop_kv ?v txn_id" using v by simp
  then show ?thesis using r assms(4) drop_rep(1) [OF assms(2,3)] drop_content [OF assms(2,3)]
    by (auto simp: dataservice_transaction_drop_def)
qed

theorem drop_removes_witness:
  "\<exists>e' p'. dataservice_transaction_drop mem_lmdb (\<lambda>_. True) full_child (empty_db(pq_db := demo_queue)) None (demo_id 1) =
     (AGENTD_STATUS_SUCCESS, e', p') \<and> pq_rep (base_view (\<lambda>e. e) (\<lambda>t. t) e' p' pq_db) []"
  using drop_removes [OF mem.lmdb_reliable_axioms, of "empty_db(pq_db := demo_queue)" None "[demo_id 1]" "demo_id 1" full_child "\<lambda>_. True"]
    demo_queue_rep full_child_caps [of 19] by auto

text \<open>
  A drop outside a parent transaction is all or nothing under any failure: the
  contents are unchanged, or the call reports success and the transaction, which
  was pending, has left the queue.
\<close>

theorem drop_all_or_nothing:
  assumes "lmdb_store ops ev tv" and "pq_rep (ev e pq_db) ids"
  shows "atomic_update ev tv e None (\<lambda>w. txn_id \<in> set ids \<and> pq_rep (w pq_db) (remove1 txn_id ids) \<and>
       w = (ev e)(pq_db := drop_kv (ev e pq_db) txn_id))
     (dataservice_transaction_drop ops malloc_ok child e None txn_id)"
proof -
  obtain st e' p' where r: "dataservice_transaction_drop ops malloc_ok child e None txn_id = (st, e', p')" by (metis prod.collapse)
  show ?thesis using lmdb_store.drop_atomic [OF assms, of txn_id malloc_ok child] drop_rep(1) [OF assms(2), of txn_id]
    unfolding r by auto
qed

theorem drop_all_or_nothing_witness:
  "atomic_update (\<lambda>e. e) (\<lambda>t. t) (empty_db(pq_db := demo_queue)) None (\<lambda>w. demo_id 1 \<in> set [demo_id 1] \<and>
       pq_rep (w pq_db) (remove1 (demo_id 1) [demo_id 1]) \<and>
       w = (empty_db(pq_db := demo_queue))(pq_db := drop_kv ((empty_db(pq_db := demo_queue)) pq_db) (demo_id 1)))
     (dataservice_transaction_drop mem_lmdb (\<lambda>_. False) full_child (empty_db(pq_db := demo_queue)) None (demo_id 1))"
  by (rule drop_all_or_nothing [OF mem.lmdb_store_axioms]) (simp add: demo_queue_rep)

text \<open>
  C34. On a store that does not fail, an authorised promotion of a pending
  transaction succeeds: the queue keeps its order, the node's state becomes
  "attested", and nothing else of any node changes.
\<close>

theorem promote_attests:
  assumes "lmdb_reliable ops ev tv" and "pq_rep (base_view ev tv e p pq_db) ids" and "txn_id \<in> set ids"
    and "BITCAP_ISSET (childcaps child) DATASERVICE_API_CAP_APP_PQ_TRANSACTION_PROMOTE"
  shows "\<exists>e' p'. dataservice_transaction_promote ops True child e p txn_id = (AGENTD_STATUS_SUCCESS, e', p') \<and>
     pq_rep (base_view ev tv e' p' pq_db) ids \<and>
     node_at (base_view ev tv e' p' pq_db) k =
       (if k = txn_id
        then (node_at (base_view ev tv e p pq_db) k)\<lparr>net_txn_state := htonl DATASERVICE_TRANSACTION_NODE_STATE_ATTESTED\<rparr>
        else node_at (base_view ev tv e p pq_db) k)"
proof -
  let ?v = "base_view ev tv e p pq_db"
  obtain e' p' where r: "dataservice_transaction_promote_internal ops True e p txn_id = (AGENTD_STATUS_SUCCESS, e', p')"
    and v: "base_view ev tv e' p' = (base_view ev tv e p)(pq_db := promote_kv ?v txn_id)"
    by (rule lmdb_reliable.promote_reliable [OF assms(1-3)])
  have "base_view ev tv e' p' pq_db = promote_kv ?v txn_id" using v by simp
  then show ?thesis using r assms(4) promote_rep [OF assms(2,3)] by (auto simp: dataservice_transaction_promote_def)
qed

theorem promote_attests_witness:
  "\<exists>e' p'. dataservice_transaction_promote mem_lmdb True full_child (empty_db(pq_db := demo_queue)) None (demo_id 1) =
     (AGENTD_STATUS_SUCCESS, e', p') \<and>
     net_txn_state (node_at (base_view (\<lambda>e. e) (\<lambda>t. t) e' p' pq_db) (demo_id 1)) = htonl DATASERVICE_TRANSACTION_NODE_STATE_ATTESTED"
  using promote_attests [OF mem.lmdb_reliable_axioms, of "empty_db(pq_db := demo_queue)" None "[demo_id 1]" "demo_id 1" full_child "demo_id 1"]
    demo_queue_rep full_child_caps [of 16] by auto

text \<open>
  What was submitted can be read: on a store that does not fail, a submission
  followed by a read of the same transaction returns its identifier, artifact
  identifier and certificate, and a transaction that was not submitted is not
  found.
\<close>

theorem submit_then_get:
  assumes "lmdb_reliable ops ev tv" and "pq_rep (ev e pq_db) ids"
    and "submission_ok (txn_id, artifact_id, cert)" and "txn_id \<notin> set ids"
    and "BITCAP_ISSET (childcaps child) DATASERVICE_API_CAP_APP_PQ_TRANSACTION_SUBMIT"
    and "BITCAP_ISSET (childcaps child) DATASERVICE_API_CAP_APP_PQ_TRANSACTION_READ"
  shows "\<exists>e1 e2 p2 n. dataservice_transaction_submit ops att (\<lambda>_. True) child e None txn_id artifact_id cert =
       Some (AGENTD_STATUS_SUCCESS, e1, None) \<and>
     dataservice_transaction_get ops True child e1 None txn_id = ((AGENTD_STATUS_SUCCESS, e2, p2), Some (n, cert)) \<and>
     node_key n = txn_id \<and> node_artifact_id n = artifact_id \<and>
     (k \<notin> set (zero_uuid # ff_uuid # txn_id # ids) \<longrightarrow>
       (\<exists>e3 p3. dataservice_transaction_get ops True child e1 None k = ((AGENTD_ERROR_DATASERVICE_NOT_FOUND, e3, p3), None)))"
proof -
  have args: "submit_args txn_id artifact_id cert" "txn_id \<noteq> zero_uuid" "txn_id \<noteq> ff_uuid" "cert \<noteq> []"
    using assms(3) by (simp_all add: submission_ok_def)
  have rep: "pq_rep (base_view ev tv e None pq_db) ids" using assms(2) by simp
  obtain e1 p1 where s: "dataservice_transaction_submit ops att (\<lambda>_. True) child e None txn_id artifact_id cert =
      Some (AGENTD_STATUS_SUCCESS, e1, p1)"
    "base_view ev tv e1 p1 = (base_view ev tv e None)(pq_db := submit_kv att txn_id artifact_id cert (base_view ev tv e None pq_db))"
    "p1 = None"
    using lmdb_reliable.submit_reliable [OF assms(1) rep args(1-3) assms(4,5), of "\<lambda>_. True" att] by blast
  let ?v = "base_view ev tv e1 None pq_db"
  have v: "?v = submit_kv att txn_id artifact_id cert (ev e pq_db)" and p1: "p1 = None" using s(2,3) by simp_all
  have fresh: "ev e pq_db txn_id = None" using pq_rep_fresh [OF assms(2) args(2,3)] assms(4) by blast
  have rep1: "pq_rep ?v (ids @ [txn_id])" unfolding v by (rule submit_rep [OF assms(2) fresh args(1-3)])
  have c: "content ?v txn_id = (artifact_id, cert)" unfolding v by (rule submit_content_new [OF assms(2) fresh args(1-3)])
  obtain e2 p2 where g: "dataservice_transaction_get ops True child e1 None txn_id =
      ((AGENTD_STATUS_SUCCESS, e2, p2), Some (node_at ?v txn_id, cert))"
    using lmdb_reliable.get_reliable [OF assms(1) rep1 _ assms(6), of txn_id] c args(4) by auto
  have "entry_ok ?v txn_id" by (rule pq_rep_entry [OF rep1, of txn_id]) simp_all
  then have n: "node_key (node_at ?v txn_id) = txn_id" "node_artifact_id (node_at ?v txn_id) = artifact_id"
    using entry_okD c by (force simp: content_def)+
  have "\<exists>e3 p3. dataservice_transaction_get ops True child e1 None k = ((AGENTD_ERROR_DATASERVICE_NOT_FOUND, e3, p3), None)"
    if "k \<notin> set (zero_uuid # ff_uuid # txn_id # ids)"
  proof -
    have "?v k = None" using pq_rep_fresh [OF rep1, of k] that by auto
    then show ?thesis using lmdb_reliable.read_txn_node_missing [OF assms(1)] assms(6)
      by (simp add: dataservice_transaction_get_def)
  qed
  then show ?thesis using s(1) p1 g n by auto
qed

theorem submit_then_get_witness:
  "\<exists>e1 e2 p2 n. dataservice_transaction_submit mem_lmdb True (\<lambda>_. True) full_child (empty_db(pq_db := demo_queue)) None
       (demo_id 3) (demo_id 4) [7] = Some (AGENTD_STATUS_SUCCESS, e1, None) \<and>
     dataservice_transaction_get mem_lmdb True full_child e1 None (demo_id 3) = ((AGENTD_STATUS_SUCCESS, e2, p2), Some (n, [7])) \<and>
     node_artifact_id n = demo_id 4"
  using submit_then_get [OF mem.lmdb_reliable_axioms, of "empty_db(pq_db := demo_queue)" "[demo_id 1]" "demo_id 3" "demo_id 4" "[7]"
      full_child True "demo_id 5"] demo_queue_rep demo_args full_child_caps [of 15] full_child_caps [of 18]
  by (fastforce simp: submission_ok_def)

text \<open>
  C35. A transaction that is already pending is never submitted again: whatever the
  store does, the call reports an error and the contents are unchanged.
\<close>

theorem duplicate_submit_rejected:
  assumes "lmdb_store ops ev tv" and "pq_rep (base_view ev tv e p pq_db) ids" and "txn_id \<in> set ids"
    and "dataservice_transaction_submit ops att malloc_ok child e p txn_id artifact_id txn_bytes = Some (st, e', p')"
  shows "st \<noteq> AGENTD_STATUS_SUCCESS \<and> base_view ev tv e' p' = base_view ev tv e p"
  using lmdb_store.submit_duplicate [OF assms] by simp

theorem duplicate_submit_rejected_witness:
  "dataservice_transaction_submit mem_lmdb True (\<lambda>_. True) full_child (empty_db(pq_db := demo_queue)) None
       (demo_id 1) (demo_id 2) [7] \<noteq> None \<and>
   fst (the (dataservice_transaction_submit mem_lmdb True (\<lambda>_. True) full_child (empty_db(pq_db := demo_queue)) None
       (demo_id 1) (demo_id 2) [7])) \<noteq> AGENTD_STATUS_SUCCESS"
proof -
  have "returns (\<lambda>_. True) (dataservice_transaction_submit mem_lmdb True (\<lambda>_. True) full_child (empty_db(pq_db := demo_queue)) None
       (demo_id 1) (demo_id 2) [7])"
    using mem.submit_outcome [of "empty_db(pq_db := demo_queue)" None "[demo_id 1]" "demo_id 1" "demo_id 2" "[7]" True "\<lambda>_. True" full_child]
      demo_queue_rep demo_args by (auto simp: returns_iff)
  then obtain st e' p' where r: "dataservice_transaction_submit mem_lmdb True (\<lambda>_. True) full_child (empty_db(pq_db := demo_queue)) None
       (demo_id 1) (demo_id 2) [7] = Some (st, e', p')" by (auto simp: returns_iff)
  from duplicate_submit_rejected [OF mem.lmdb_store_axioms _ _ r, of "[demo_id 1]"] show ?thesis
    by (simp add: r demo_queue_rep)
qed

text \<open>
  A transaction that is not pending can neither be dropped nor promoted: the
  status is "not found" and the contents are unchanged.
\<close>

theorem unknown_transaction_not_found:
  assumes "lmdb_reliable ops ev tv" and "pq_rep (base_view ev tv e p pq_db) ids" and "txn_id \<notin> set ids"
    and "BITCAP_ISSET (childcaps child) DATASERVICE_API_CAP_APP_PQ_TRANSACTION_DROP"
    and "BITCAP_ISSET (childcaps child) DATASERVICE_API_CAP_APP_PQ_TRANSACTION_PROMOTE"
  shows "\<exists>e1 p1 e2 p2.
     dataservice_transaction_drop ops m child e p txn_id = (AGENTD_ERROR_DATASERVICE_NOT_FOUND, e1, p1) \<and>
     base_view ev tv e1 p1 = base_view ev tv e p \<and>
     dataservice_transaction_promote ops m' child e p txn_id = (AGENTD_ERROR_DATASERVICE_NOT_FOUND, e2, p2) \<and>
     base_view ev tv e2 p2 = base_view ev tv e p"
  using lmdb_reliable.drop_unknown [OF assms(1-3), of m] lmdb_reliable.promote_unknown [OF assms(1-3), of m'] assms(4,5)
  by (auto simp: dataservice_transaction_drop_def dataservice_transaction_promote_def)

theorem unknown_transaction_not_found_witness:
  "fst (dataservice_transaction_drop mem_lmdb (\<lambda>_. True) full_child (empty_db(pq_db := demo_queue)) None (demo_id 9)) =
     AGENTD_ERROR_DATASERVICE_NOT_FOUND"
  using unknown_transaction_not_found [OF mem.lmdb_reliable_axioms, of "empty_db(pq_db := demo_queue)" None "[demo_id 1]" "demo_id 9"
      full_child "\<lambda>_. True" True] demo_queue_rep full_child_caps [of 19] full_child_caps [of 16] by auto

text \<open>
  The result of \<^verbatim>\<open>mdb_txn_commit\<close> is not looked at: when the commit fails, the
  submission still reports success although nothing was stored.
\<close>

theorem failed_commit_reported_as_success:
  assumes "lmdb_store ops ev tv" and "\<And>e p t. fst (mdb_txn_commit ops e p t) \<noteq> 0"
    and "dataservice_transaction_submit ops att malloc_ok child e p txn_id artifact_id txn_bytes =
      Some (AGENTD_STATUS_SUCCESS, e', p')"
  shows "base_view ev tv e' p' = base_view ev tv e p"
proof -
  have c: "base_view ev tv e' p' = base_view ev tv e p" if "commit_with ops e p t AGENTD_STATUS_SUCCESS = (AGENTD_STATUS_SUCCESS, e', p')" for t
    using that lmdb_store.commit_fail [OF assms(1), of e p t] assms(2) [of e p t]
    by (auto simp: commit_with_def split: prod.splits)
  show ?thesis using assms(3) c unfolding dataservice_transaction_submit_def Let_def
    by (auto simp: abort_with_def split: if_splits prod.splits option.splits)
qed

theorem failed_commit_reported_as_success_witness:
  "dataservice_transaction_submit (mem_lmdb\<lparr>mdb_txn_commit := \<lambda>e p t. (5, e, p)\<rparr>) True (\<lambda>_. True) full_child empty_db None
     (demo_id 1) (demo_id 2) [7] = Some (AGENTD_STATUS_SUCCESS, empty_db, None)"
proof -
  let ?ops = "mem_lmdb\<lparr>mdb_txn_commit := \<lambda>e p t. (5, e, p)\<rparr> :: (mem_db, mem_db) lmdb"
  have s: "lmdb_store ?ops (\<lambda>e. e) (\<lambda>t. t)"
    by unfold_locales (auto simp: base_view_def split: option.splits if_splits)
  have "\<exists>e' p'. dataservice_transaction_submit ?ops True (\<lambda>_. True) full_child empty_db None (demo_id 1) (demo_id 2) [7] =
      Some (AGENTD_STATUS_SUCCESS, e', p') \<and> p' = None"
    using full_child_caps [of 15] by (simp add: dataservice_transaction_submit_def Let_def mdb_get_lval_def submit_newnode_key
        dataservice_transaction_submit_create_queue_def commit_with_def)
  then obtain e' where r: "dataservice_transaction_submit ?ops True (\<lambda>_. True) full_child empty_db None (demo_id 1) (demo_id 2) [7] =
      Some (AGENTD_STATUS_SUCCESS, e', None)" by blast
  then show ?thesis using failed_commit_reported_as_success [OF s _ r] by simp
qed

context lmdb_reliable
begin

lemma submit_to_empty:
  assumes "ev e pq_db = Map.empty"
    and "BITCAP_ISSET (childcaps child) DATASERVICE_API_CAP_APP_PQ_TRANSACTION_SUBMIT"
  shows "\<exists>e'. dataservice_transaction_submit ops att (\<lambda>_. True) child e None i a c = Some (AGENTD_STATUS_SUCCESS, e', None) \<and>
    ev e' pq_db = submit_create_kv Map.empty i (submit_entry att i a zero_uuid c)"
proof -
  obtain t0 where t0: "mdb_txn_begin ops e None 0 = (0, t0)" "tv t0 = view e None" by (rule begin_reliable)
  then have v0: "tv t0 pq_db = Map.empty" using assms(1) by simp
  have g: "mdb_get_lval ops t0 pq_db ff_uuid = (MDB_NOTFOUND, [])" using lval_None v0 by simp
  obtain t1 where p: "mdb_put ops t0 pq_db i (submit_entry att i a zero_uuid c) MDB_NOOVERWRITE = (0, t1)"
    "tv t1 = (tv t0)(pq_db := (tv t0 pq_db)(i \<mapsto> submit_entry att i a zero_uuid c))"
    using put_reliable [of MDB_NOOVERWRITE t0 pq_db i "submit_entry att i a zero_uuid c"] v0 by auto
  obtain t2 where q: "dataservice_transaction_submit_create_queue ops pq_db t1 i = (AGENTD_STATUS_SUCCESS, t2)"
    by (rule submit_create_queue_reliable)
  obtain e' p' where cm: "commit_with ops e None t2 AGENTD_STATUS_SUCCESS = (AGENTD_STATUS_SUCCESS, e', p')"
    "view e' p' = tv t2" "p' = None"
    using commit_with_reliable [of e None t2 AGENTD_STATUS_SUCCESS] by auto
  have "ev e' pq_db = submit_create_kv Map.empty i (submit_entry att i a zero_uuid c)"
    using cm(2,3) submit_create_queue_outcome [OF q] p(2) v0 by (simp add: submit_create_kv_def)
  moreover have "dataservice_transaction_submit ops att (\<lambda>_. True) child e None i a c = Some (AGENTD_STATUS_SUCCESS, e', None)"
    using assms(2) t0(1) g p(1) q cm by (simp add: dataservice_transaction_submit_def Let_def submit_newnode_key submit_entry_def)
  ultimately show ?thesis by blast
qed

end

lemma reserved_kv:
  "\<not> pq_rep (submit_create_kv Map.empty zero_uuid nb) ids"
  "the (submit_create_kv Map.empty zero_uuid nb zero_uuid) = txn_node_bytes txn_node_zero"
proof -
  let ?v = "submit_create_kv Map.empty zero_uuid nb"
  have z: "txn_node_zero\<lparr>node_next := zero_uuid\<rparr> = txn_node_zero" by (simp add: txn_node_zero_def)
  show v: "the (?v zero_uuid) = txn_node_bytes txn_node_zero" by (simp add: submit_create_kv_def z)
  have n: "node_next (node_at ?v zero_uuid) = zero_uuid" by (simp add: node_at_def v) (simp add: txn_node_zero_def)
  show "\<not> pq_rep ?v ids"
  proof
    assume rep: "pq_rep ?v ids"
    have i: "?v ff_uuid \<noteq> None" by (simp add: submit_create_kv_def)
    note q = pq_rep_initialised [OF rep i]
    have "dom ?v = {zero_uuid, ff_uuid}" by (auto simp: submit_create_kv_def)
    then have "set ids \<subseteq> {zero_uuid, ff_uuid}" using q(1) by auto
    then have "ids = []" using q(2) by (cases ids) auto
    then have "node_next (node_at ?v zero_uuid) = ff_uuid" using q(5) by (simp add: chain_def)
    then show False using n by simp
  qed
qed

text \<open>
  The two reserved identifiers are not rejected: submitting the all-zero
  identifier to an empty queue reports success, but the node of the transaction is
  overwritten by the start of the queue, and what is stored is not a queue.
\<close>

theorem reserved_submit_lost:
  assumes "lmdb_reliable ops ev tv" and "ev e pq_db = Map.empty"
    and "BITCAP_ISSET (childcaps child) DATASERVICE_API_CAP_APP_PQ_TRANSACTION_SUBMIT"
  shows "\<exists>e'. dataservice_transaction_submit ops att (\<lambda>_. True) child e None zero_uuid artifact_id cert =
       Some (AGENTD_STATUS_SUCCESS, e', None) \<and> \<not> pq_rep (ev e' pq_db) ids \<and>
     the (ev e' pq_db zero_uuid) = txn_node_bytes txn_node_zero"
  using lmdb_reliable.submit_to_empty [OF assms, of att zero_uuid artifact_id cert] reserved_kv by metis

theorem reserved_submit_lost_witness:
  "\<exists>e'. dataservice_transaction_submit mem_lmdb True (\<lambda>_. True) full_child empty_db None zero_uuid (demo_id 2) [7] =
     Some (AGENTD_STATUS_SUCCESS, e', None) \<and> \<not> pq_rep (e' pq_db) [zero_uuid]"
  using reserved_submit_lost [OF mem.lmdb_reliable_axioms _ full_child_caps, of empty_db True "demo_id 2" "[7]" "[zero_uuid]"] by auto

end
