(* ===== verification/Ds_Dispatch_Correct.thy ===== *)
theory Ds_Dispatch_Correct
  imports Ds_Dispatch Ds_Block_Correct Ds_Queue_Fifo
begin

text \<open>
  Invariants of the dispatcher over any sequence of requests: the child slots stay
  consistent, contexts never gain capabilities, and a request without the
  capability of its method changes nothing.
\<close>

subsection \<open>What a request may change\<close>

text \<open>The operations on the database leave the contexts alone.\<close>

definition db_frame :: "'e dataservice_instance \<Rightarrow> 'e dataservice_instance \<Rightarrow> bool" where
  "db_frame inst inst' \<longleftrightarrow> children inst' = children inst \<and> child_head inst' = child_head inst \<and>
     apicaps (inst_ctx inst') = apicaps (inst_ctx inst) \<and>
     root_dispose (inst_ctx inst') = root_dispose (inst_ctx inst) \<and>
     (details (inst_ctx inst') = None \<longleftrightarrow> details (inst_ctx inst) = None)"

lemma db_frame_refl [simp]: "db_frame inst inst"
  by (simp add: db_frame_def)

lemma reply_with_inst [simp]: "snd (snd (reply_with env m i st d inst)) = inst"
  by (simp add: reply_with_def split: prod.split)

lemma reply_with_Pair: "reply_with env m i st d inst = (st', out, inst') \<Longrightarrow> inst' = inst"
  by (metis reply_with_inst snd_conv)

lemma with_details_frame:
  "with_details inst ctx cap f = Some (st, p, inst') \<Longrightarrow> db_frame inst inst'"
  by (auto simp: with_details_def db_frame_def split: option.splits if_splits prod.splits)

lemma run_request_frame:
  assumes "run_request env m inst dreq body = Some (st, out, inst')"
    and "\<And>ctx r st p inst'. body ctx r = Some (st, p, inst') \<Longrightarrow> db_frame inst inst'"
  shows "db_frame inst inst'"
  using assms by (auto simp: run_request_def dest!: reply_with_Pair split: sum.splits option.splits)

lemmas db_handler_defs =
  dataservice_decode_and_dispatch_global_setting_get_def dataservice_decode_and_dispatch_global_setting_set_def
  dataservice_decode_and_dispatch_transaction_submit_def dataservice_decode_and_dispatch_transaction_get_first_def
  dataservice_decode_and_dispatch_transaction_get_def dataservice_decode_and_dispatch_transaction_drop_def
  dataservice_decode_and_dispatch_transaction_promote_def dataservice_decode_and_dispatch_artifact_read_def
  dataservice_decode_and_dispatch_block_make_def dataservice_decode_and_dispatch_block_read_def
  dataservice_decode_and_dispatch_block_id_by_height_read_def dataservice_decode_and_dispatch_block_id_latest_read_def
  dataservice_decode_and_dispatch_canonized_transaction_get_def

text \<open>Creating and closing a child context.\<close>

definition child_caps_sub :: "'e dataservice_instance \<Rightarrow> dataservice_child_context \<Rightarrow> bool" where
  "child_caps_sub inst c \<longleftrightarrow> child_ctx_ok c \<and>
     (\<forall>b < 32. BITCAP_ISSET (childcaps c) b \<longrightarrow> BITCAP_ISSET (apicaps (inst_ctx inst)) b)"

definition child_step :: "'e dataservice_instance \<Rightarrow> 'e dataservice_instance \<Rightarrow> bool" where
  "child_step inst inst' \<longleftrightarrow> inst_ctx inst' = inst_ctx inst \<and> slots_ok inst' \<and>
     (\<forall>i \<in> opened_slots inst'. child_ctx (children inst' ! i) = child_ctx (children inst ! i) \<and> i \<in> opened_slots inst \<or>
        BITCAP_ISSET (apicaps (inst_ctx inst)) DATASERVICE_API_CAP_LL_CHILD_CONTEXT_CREATE \<and>
        child_caps_sub inst (child_ctx (children inst' ! i)))"

lemma child_step_refl: "slots_ok inst \<Longrightarrow> child_step inst inst"
  by (simp add: child_step_def)

lemma slots_ok_set_child_ctx:
  assumes "slots_ok inst" and "i < length (children inst)"
  shows "slots_ok (set_child_ctx inst i c)" and "opened_slots (set_child_ctx inst i c) = opened_slots inst"
proof -
  have "free_chain ((children inst)[i := (children inst ! i)\<lparr>child_ctx := c\<rparr>]) h fs = free_chain (children inst) h fs" for h fs
    using assms(2) by (induction fs arbitrary: h) (auto simp: nth_list_update)
  then show "slots_ok (set_child_ctx inst i c)"
    using assms by (auto simp: slots_ok_def slots_inv_def set_child_ctx_def nth_list_update)
  show "opened_slots (set_child_ctx inst i c) = opened_slots inst"
    using assms by (auto simp: opened_slots_def set_child_ctx_def nth_list_update split: if_splits)
qed

lemma slots_ok_length: "slots_ok inst \<Longrightarrow> length (children inst) = 1024"
  by (auto simp: slots_ok_def slots_inv_def)

lemma delete_child_step:
  assumes ok: "slots_ok inst" and d: "dataservice_child_details_delete inst i = Some inst'"
  shows "slots_ok inst'" and "opened_slots inst' = opened_slots inst - {i}" and "inst_ctx inst' = inst_ctx inst"
    and "\<And>j. j \<noteq> i \<Longrightarrow> children inst' ! j = children inst ! j"
proof -
  have op: "i \<in> opened_slots inst" using d by (auto simp: dataservice_child_details_delete_def opened_slots_def split: if_splits)
  show "slots_ok inst'" "opened_slots inst' = opened_slots inst - {i}"
    using details_pool.release_Some [OF ok op] d by auto
  show "inst_ctx inst' = inst_ctx inst" "\<And>j. j \<noteq> i \<Longrightarrow> children inst' ! j = children inst ! j"
    using d by (auto simp: dataservice_child_details_delete_def split: if_splits)
qed

lemma create_child_step:
  assumes ok: "slots_ok inst" and d: "dataservice_child_details_create inst = (0, inst', i)"
  shows "slots_ok inst'" and "opened_slots inst' = insert i (opened_slots inst)" and "i \<notin> opened_slots inst"
    and "inst_ctx inst' = inst_ctx inst" and "\<And>j. j \<noteq> i \<Longrightarrow> children inst' ! j = children inst ! j"
    and "i < 1024" and "child_ctx (children inst' ! i) = child_context_zero"
proof -
  have a: "details_acquire inst = Some (i, inst')" using d by (simp add: details_acquire_def)
  then show "slots_ok inst'" "opened_slots inst' = insert i (opened_slots inst)" "i \<notin> opened_slots inst"
    using details_pool.acquire_Some [OF ok a] by auto
  show i: "i < 1024" using details_pool.acquire_fresh_below [OF ok a] .
  show "inst_ctx inst' = inst_ctx inst" "\<And>j. j \<noteq> i \<Longrightarrow> children inst' ! j = children inst ! j"
    "child_ctx (children inst' ! i) = child_context_zero"
    using d i slots_ok_length [OF ok]
    by (auto simp: dataservice_child_details_create_def child_details_zero_def split: option.splits)
qed

lemma child_context_create_sub:
  assumes "dataservice_child_context_create (inst_ctx inst) c caps = (0, c')"
    and "length (apicaps (inst_ctx inst)) = 1" and "length caps = 1"
  shows "child_caps_sub inst c'"
    and "BITCAP_ISSET (apicaps (inst_ctx inst)) DATASERVICE_API_CAP_LL_CHILD_CONTEXT_CREATE"
proof -
  let ?a = "apicaps (inst_ctx inst)"
  show "BITCAP_ISSET ?a DATASERVICE_API_CAP_LL_CHILD_CONTEXT_CREATE"
    using assms(1) by (auto simp: dataservice_child_context_create_def split: if_splits)
  have c': "c' = \<lparr> child_root = True, childcaps =
      BITCAP_SET_FALSE (BITCAP_INTERSECT ?a caps) DATASERVICE_API_CAP_LL_CHILD_CONTEXT_CREATE \<rparr>"
    using assms(1) by (auto simp: dataservice_child_context_create_def Let_def child_context_zero_def split: if_splits)
  show "child_caps_sub inst c'"
    using assms(2,3) bitcap32.reduced_child [of ?a caps 2]
    unfolding c' child_caps_sub_def child_ctx_ok_def by auto
qed

lemma child_create_handler_step:
  assumes h: "dataservice_decode_and_dispatch_child_context_create env inst req = Some (st, out, inst')"
    and ok: "slots_ok inst" and caps: "length (apicaps (inst_ctx inst)) = 1"
  shows "child_step inst inst'"
proof (cases "dataservice_decode_request_child_context_create req")
  case (Inl st')
  then show ?thesis using h ok
    by (auto simp: dataservice_decode_and_dispatch_child_context_create_def Let_def child_step_refl dest!: reply_with_Pair)
next
  case (Inr dreq)
  have dcaps: "length (req_caps dreq) = 1"
    using Inr by (auto simp: dataservice_decode_request_child_context_create_def codec_defs split: if_splits)
  obtain s1 inst1 i where c: "dataservice_child_details_create inst = (s1, inst1, i)" by (metis prod.collapse)
  show ?thesis
  proof (cases "s1 = 0")
    case False
    then have "inst1 = inst" using c by (auto simp: dataservice_child_details_create_def split: option.splits)
    then show ?thesis using h ok False Inr c
      by (auto simp: dataservice_decode_and_dispatch_child_context_create_def Let_def child_step_refl dest!: reply_with_Pair)
  next
    case True
    note cr = create_child_step [OF ok c [unfolded True]]
    let ?ctx = "child_context_zero\<lparr>childcaps := BITCAP_SET_TRUE (childcaps child_context_zero) 2\<rparr>"
    obtain s2 ctx where cc: "dataservice_child_context_create (inst_ctx inst1) ?ctx (req_caps dreq) = (s2, ctx)" by fastforce
    let ?inst2 = "set_child_ctx inst1 i ctx"
    have len1: "i < length (children inst1)" using cr(6) slots_ok_length [OF cr(1)] by simp
    note sc = slots_ok_set_child_ctx [OF cr(1) len1, of ctx]
    have other: "children ?inst2 ! j = children inst ! j" if "j \<noteq> i" for j
      using cr(5) that by (simp add: set_child_ctx_def)
    have deleted: "child_step inst inst'" if "dataservice_child_details_delete ?inst2 i = Some inst'"
    proof -
      note dl = delete_child_step [OF sc(1) that]
      have "opened_slots inst' = opened_slots inst" using dl(2) sc(2) cr(2,3) by auto
      moreover have "children inst' ! j = children inst ! j" if "j \<in> opened_slots inst" for j
        using that cr(3) dl(4) other by metis
      ultimately show ?thesis using dl(1,3) cr(4) by (simp add: child_step_def set_child_ctx_def)
    qed
    have kept: "child_step inst ?inst2" if "s2 = 0"
    proof -
      have "child_caps_sub inst ctx" "BITCAP_ISSET (apicaps (inst_ctx inst)) 2"
        using child_context_create_sub [of inst ?ctx "req_caps dreq" ctx] cc that caps dcaps cr(4) by auto
      moreover have "child_ctx (children ?inst2 ! i) = ctx" using len1 by (simp add: set_child_ctx_def)
      moreover have "inst_ctx ?inst2 = inst_ctx inst" using cr(4) by (simp add: set_child_ctx_def)
      moreover have "children ?inst2 ! j = children inst ! j" if "j \<in> opened_slots inst" for j
        using that cr(3) other by metis
      ultimately show ?thesis using sc cr(2) by (auto simp: child_step_def)
    qed
    show ?thesis using h kept deleted Inr c True cr(7) cc
      by (auto simp: dataservice_decode_and_dispatch_child_context_create_def Let_def
          dataservice_encode_response_child_context_create_def response_payload_def
          dest!: reply_with_Pair split: if_splits)
  qed
qed

lemma child_close_handler_step:
  assumes h: "dataservice_decode_and_dispatch_child_context_close env inst req = Some (st, out, inst')"
    and ok: "slots_ok inst"
  shows "child_step inst inst'"
proof -
  have body: "child_step inst inst''"
    if l: "dataservice_child_context_lookup inst i = Inr ctx"
      and b: "(case dataservice_child_context_close ctx of (st, ctx) \<Rightarrow>
          let inst = set_child_ctx inst (unat i) ctx in
          if st \<noteq> AGENTD_STATUS_SUCCESS
          then Some (AGENTD_ERROR_DATASERVICE_CHILD_DETAILS_DELETE_FAILURE, None, inst)
          else map_option (\<lambda>inst. (st, None, inst)) (dataservice_child_details_delete inst (unat i))) = Some (s, p, inst'')"
    for i ctx s p inst''
  proof -
    have i: "unat i < 1024" "ctx = child_ctx (children inst ! unat i)"
      using l by (auto simp: dataservice_child_context_lookup_def split: if_splits)
    obtain s1 c1 where c: "dataservice_child_context_close ctx = (s1, c1)" by fastforce
    have len: "unat i < length (children inst)" using i slots_ok_length [OF ok] by simp
    note sc = slots_ok_set_child_ctx [OF ok len, of c1]
    show ?thesis
    proof (cases "s1 = 0")
      case False
      then have "c1 = ctx" using c by (auto simp: dataservice_child_context_close_def split: if_splits)
      then have "set_child_ctx inst (unat i) c1 = inst" using i by (simp add: set_child_ctx_def)
      then show ?thesis using b c False child_step_refl [OF ok] by auto
    next
      case True
      then have "dataservice_child_details_delete (set_child_ctx inst (unat i) c1) (unat i) = Some inst''"
        using b c by (auto simp: Let_def)
      note dl = delete_child_step [OF sc(1) this]
      show ?thesis using dl sc(2) by (auto simp: child_step_def set_child_ctx_def nth_list_update)
    qed
  qed
  show ?thesis using h child_step_refl [OF ok] body
    unfolding dataservice_decode_and_dispatch_child_context_close_def run_request_def
    by (auto dest!: reply_with_Pair split: sum.splits option.splits)
qed


subsection \<open>What any request may change\<close>

definition root_created :: "'e dataservice_instance \<Rightarrow> 'e dataservice_instance \<Rightarrow> bool" where
  "root_created inst inst' \<longleftrightarrow> BITCAP_ISSET (apicaps (inst_ctx inst)) DATASERVICE_API_CAP_LL_ROOT_CONTEXT_CREATE \<and>
     children inst' = children inst \<and> child_head inst' = child_head inst \<and>
     apicaps (inst_ctx inst') = BITCAP_SET_FALSE [0xFFFFFFFF] DATASERVICE_API_CAP_LL_ROOT_CONTEXT_CREATE"

definition root_reduced :: "'e dataservice_instance \<Rightarrow> 'e dataservice_instance \<Rightarrow> bool" where
  "root_reduced inst inst' \<longleftrightarrow> (\<exists>caps. length caps = 1 \<and> inst' = inst\<lparr>inst_ctx := (inst_ctx inst)
     \<lparr>apicaps := BITCAP_INTERSECT (apicaps (inst_ctx inst)) caps\<rparr>\<rparr>)"

definition dispatch_effect :: "'e dataservice_instance \<Rightarrow> 'e dataservice_instance \<Rightarrow> bool" where
  "dispatch_effect inst inst' \<longleftrightarrow>
     db_frame inst inst' \<or> root_created inst inst' \<or> root_reduced inst inst' \<or> child_step inst inst'"

lemma db_handler_frame:
  "run_request env m inst dreq (\<lambda>ctx r. with_details inst ctx cap (f ctx r)) = Some (st, out, inst') \<Longrightarrow>
     db_frame inst inst'"
  by (erule run_request_frame) (rule with_details_frame)

lemma root_create_handler_step:
  assumes "dataservice_decode_and_dispatch_root_context_create ops env inst req = Some (st, out, inst')"
  shows "inst' = inst \<or> root_created inst inst'"
  using assms
  by (auto simp: dataservice_decode_and_dispatch_root_context_create_def dataservice_root_context_init_def Let_def
      root_created_def root_context_zero_def BITCAP_INIT_TRUE_def dest!: reply_with_Pair split: sum.splits if_splits prod.splits)

lemma reduce_handler_step:
  assumes "dataservice_decode_and_dispatch_root_context_reduce_caps env inst req = Some (st, out, inst')"
  shows "inst' = inst \<or> root_reduced inst inst'"
proof (cases "dataservice_decode_request_root_context_reduce_caps req")
  case (Inl s)
  then show ?thesis using assms
    by (auto simp: dataservice_decode_and_dispatch_root_context_reduce_caps_def dest!: reply_with_Pair)
next
  case (Inr dreq)
  have "length (req_caps dreq) = 1"
    using Inr by (auto simp: dataservice_decode_request_root_context_reduce_caps_def codec_defs split: if_splits)
  then show ?thesis using assms Inr
    by (auto simp: dataservice_decode_and_dispatch_root_context_reduce_caps_def root_reduced_def
        dataservice_root_context_reduce_capabilities_def dest!: reply_with_Pair split: if_splits)
qed

lemma db_handler_frames:
  "dataservice_decode_and_dispatch_global_setting_get ops env inst req = Some (st, out, inst') \<Longrightarrow> db_frame inst inst'"
  "dataservice_decode_and_dispatch_global_setting_set ops env inst req = Some (st, out, inst') \<Longrightarrow> db_frame inst inst'"
  "dataservice_decode_and_dispatch_transaction_submit ops att env inst req = Some (st, out, inst') \<Longrightarrow> db_frame inst inst'"
  "dataservice_decode_and_dispatch_transaction_get_first ops env inst req = Some (st, out, inst') \<Longrightarrow> db_frame inst inst'"
  "dataservice_decode_and_dispatch_transaction_get ops env inst req = Some (st, out, inst') \<Longrightarrow> db_frame inst inst'"
  "dataservice_decode_and_dispatch_transaction_drop ops env inst req = Some (st, out, inst') \<Longrightarrow> db_frame inst inst'"
  "dataservice_decode_and_dispatch_transaction_promote ops env inst req = Some (st, out, inst') \<Longrightarrow> db_frame inst inst'"
  "dataservice_decode_and_dispatch_artifact_read ops env inst req = Some (st, out, inst') \<Longrightarrow> db_frame inst inst'"
  "dataservice_decode_and_dispatch_block_make ops vc root_block env inst req = Some (st, out, inst') \<Longrightarrow> db_frame inst inst'"
  "dataservice_decode_and_dispatch_block_read ops root_block env inst req = Some (st, out, inst') \<Longrightarrow> db_frame inst inst'"
  "dataservice_decode_and_dispatch_block_id_by_height_read ops env inst req = Some (st, out, inst') \<Longrightarrow> db_frame inst inst'"
  "dataservice_decode_and_dispatch_block_id_latest_read ops root_block env inst req = Some (st, out, inst') \<Longrightarrow> db_frame inst inst'"
  "dataservice_decode_and_dispatch_canonized_transaction_get ops env inst req = Some (st, out, inst') \<Longrightarrow> db_frame inst inst'"
  unfolding db_handler_defs by (fact db_handler_frame)+

lemma if_SomeE: "(if c then A else B) = Some x \<Longrightarrow> (c \<Longrightarrow> A = Some x \<Longrightarrow> P) \<Longrightarrow> (\<not> c \<Longrightarrow> B = Some x \<Longrightarrow> P) \<Longrightarrow> P"
  by (simp split: if_splits)

lemma dispatch_step:
  assumes d: "dataservice_decode_and_dispatch ops vc root_block att env inst req = Some (st, out, inst')"
    and ok: "slots_ok inst" and caps: "length (apicaps (inst_ctx inst)) = 1"
  shows "dispatch_effect inst inst'"
proof -
  have "db_frame inst inst' \<or> inst' = inst \<or> root_created inst inst' \<or> root_reduced inst inst' \<or> child_step inst inst'"
    using d unfolding dataservice_decode_and_dispatch_def Let_def
    by (elim if_SomeE)
      (simp, (drule root_create_handler_step reduce_handler_step child_create_handler_step [OF _ ok caps]
        child_close_handler_step [OF _ ok] db_handler_frames, blast)+, simp)
  then show ?thesis by (auto simp: dispatch_effect_def)
qed


subsection \<open>A request without the capability of its method\<close>

text \<open>
  The methods that a child context calls; the capability of such a method has the
  number of the method.
\<close>

definition child_methods :: "32 word list" where
  "child_methods = [3, 7, 8, 9, 13, 14, 15, 16, 17, 18, 19, 20, 21, 22]"

text \<open>The index of the child context in a request packet.\<close>

definition request_child :: "bytes \<Rightarrow> 32 word" where
  "request_child req = of_net32 (slice 4 4 req)"

text \<open>The request is refused: an error status without payload, and no change of state.\<close>

definition refused :: "request_env \<Rightarrow> 32 word \<Rightarrow> 'e dataservice_instance \<Rightarrow> 'e reply option \<Rightarrow> bool" where
  "refused env method inst r \<longleftrightarrow> (\<exists>offset st. st \<noteq> AGENTD_STATUS_SUCCESS \<and> r = Some (reply_with env method offset st None inst))"

lemma decoded_child_index:
  "dataservice_decode_request_global_setting_get req = Inr r0 \<Longrightarrow> child_index r0 = of_net32 (take 4 req)"
  "dataservice_decode_request_global_setting_set req = Inr r1 \<Longrightarrow> child_index r1 = of_net32 (take 4 req)"
  "dataservice_decode_request_transaction_submit req = Inr r2 \<Longrightarrow> child_index r2 = of_net32 (take 4 req)"
  "dataservice_decode_request_transaction_get_first req = Inr r3 \<Longrightarrow> child_index r3 = of_net32 (take 4 req)"
  "dataservice_decode_request_transaction_get req = Inr r4 \<Longrightarrow> child_index r4 = of_net32 (take 4 req)"
  "dataservice_decode_request_transaction_drop req = Inr r5 \<Longrightarrow> child_index r5 = of_net32 (take 4 req)"
  "dataservice_decode_request_transaction_promote req = Inr r6 \<Longrightarrow> child_index r6 = of_net32 (take 4 req)"
  "dataservice_decode_request_payload_artifact_read req = Inr r7 \<Longrightarrow> child_index r7 = of_net32 (take 4 req)"
  "dataservice_decode_request_block_make req = Inr r8 \<Longrightarrow> child_index r8 = of_net32 (take 4 req)"
  "dataservice_decode_request_block_read req = Inr r9 \<Longrightarrow> child_index r9 = of_net32 (take 4 req)"
  "dataservice_decode_request_block_id_by_height_read req = Inr r10 \<Longrightarrow> child_index r10 = of_net32 (take 4 req)"
  "dataservice_decode_request_block_id_latest_read req = Inr r11 \<Longrightarrow> child_index r11 = of_net32 (take 4 req)"
  "dataservice_decode_request_canonized_transaction_get req = Inr r12 \<Longrightarrow> child_index r12 = of_net32 (take 4 req)"
  "dataservice_decode_request_child_context_close req = Inr r13 \<Longrightarrow> child_index r13 = of_net32 (take 4 req)"
  by (auto simp: of_net32_def codec_defs
  dataservice_decode_request_global_setting_get_def
  dataservice_decode_request_global_setting_set_def
  dataservice_decode_request_transaction_submit_def
  dataservice_decode_request_transaction_get_first_def
  dataservice_decode_request_transaction_get_def
  dataservice_decode_request_transaction_drop_def
  dataservice_decode_request_transaction_promote_def
  dataservice_decode_request_payload_artifact_read_def
  dataservice_decode_request_block_make_def
  dataservice_decode_request_block_read_def
  dataservice_decode_request_block_id_by_height_read_def
  dataservice_decode_request_block_id_latest_read_def
  dataservice_decode_request_canonized_transaction_get_def
  dataservice_decode_request_child_context_close_def
  split: if_splits)

lemma decode_error_status:
  "dataservice_decode_request_global_setting_get req = Inl st \<Longrightarrow> st \<noteq> AGENTD_STATUS_SUCCESS"
  "dataservice_decode_request_global_setting_set req = Inl st \<Longrightarrow> st \<noteq> AGENTD_STATUS_SUCCESS"
  "dataservice_decode_request_transaction_submit req = Inl st \<Longrightarrow> st \<noteq> AGENTD_STATUS_SUCCESS"
  "dataservice_decode_request_transaction_get_first req = Inl st \<Longrightarrow> st \<noteq> AGENTD_STATUS_SUCCESS"
  "dataservice_decode_request_transaction_get req = Inl st \<Longrightarrow> st \<noteq> AGENTD_STATUS_SUCCESS"
  "dataservice_decode_request_transaction_drop req = Inl st \<Longrightarrow> st \<noteq> AGENTD_STATUS_SUCCESS"
  "dataservice_decode_request_transaction_promote req = Inl st \<Longrightarrow> st \<noteq> AGENTD_STATUS_SUCCESS"
  "dataservice_decode_request_payload_artifact_read req = Inl st \<Longrightarrow> st \<noteq> AGENTD_STATUS_SUCCESS"
  "dataservice_decode_request_block_make req = Inl st \<Longrightarrow> st \<noteq> AGENTD_STATUS_SUCCESS"
  "dataservice_decode_request_block_read req = Inl st \<Longrightarrow> st \<noteq> AGENTD_STATUS_SUCCESS"
  "dataservice_decode_request_block_id_by_height_read req = Inl st \<Longrightarrow> st \<noteq> AGENTD_STATUS_SUCCESS"
  "dataservice_decode_request_block_id_latest_read req = Inl st \<Longrightarrow> st \<noteq> AGENTD_STATUS_SUCCESS"
  "dataservice_decode_request_canonized_transaction_get req = Inl st \<Longrightarrow> st \<noteq> AGENTD_STATUS_SUCCESS"
  "dataservice_decode_request_child_context_close req = Inl st \<Longrightarrow> st \<noteq> AGENTD_STATUS_SUCCESS"
  by (auto simp: codec_defs
  dataservice_decode_request_global_setting_get_def
  dataservice_decode_request_global_setting_set_def
  dataservice_decode_request_transaction_submit_def
  dataservice_decode_request_transaction_get_first_def
  dataservice_decode_request_transaction_get_def
  dataservice_decode_request_transaction_drop_def
  dataservice_decode_request_transaction_promote_def
  dataservice_decode_request_payload_artifact_read_def
  dataservice_decode_request_block_make_def
  dataservice_decode_request_block_read_def
  dataservice_decode_request_block_id_by_height_read_def
  dataservice_decode_request_block_id_latest_read_def
  dataservice_decode_request_canonized_transaction_get_def
  dataservice_decode_request_child_context_close_def
  split: if_splits)

lemma with_details_refused:
  assumes "\<not> BITCAP_ISSET (childcaps ctx) cap"
    and "\<And>e. \<exists>p. f e = Some ((AGENTD_ERROR_DATASERVICE_NOT_AUTHORIZED, e, p), None)"
  shows "with_details inst ctx cap f = Some (AGENTD_ERROR_DATASERVICE_NOT_AUTHORIZED, None, inst)"
proof (cases "details (inst_ctx inst)")
  case None
  then show ?thesis using assms(1) by (simp add: with_details_def)
next
  case (Some e)
  then have "(inst_ctx inst)\<lparr>details := Some e\<rparr> = inst_ctx inst" by simp
  moreover obtain p where "f e = Some ((AGENTD_ERROR_DATASERVICE_NOT_AUTHORIZED, e, p), None)" using assms(2) by blast
  ultimately show ?thesis using Some by (simp add: with_details_def)
qed

lemma run_request_refused:
  assumes "\<And>st. dreq = Inl st \<Longrightarrow> st \<noteq> AGENTD_STATUS_SUCCESS"
    and "\<And>r. dreq = Inr r \<Longrightarrow> dataservice_child_context_lookup inst (child_index r) = Inr ctx"
    and "\<And>r. \<exists>st. st \<noteq> AGENTD_STATUS_SUCCESS \<and> body ctx r = Some (st, None, inst)"
  shows "refused env m inst (run_request env m inst dreq body)"
proof (cases dreq)
  case (Inl st)
  then show ?thesis using assms(1) by (auto simp: refused_def run_request_def)
next
  case (Inr r)
  then show ?thesis using assms(2) [OF Inr] assms(3) [of r] by (fastforce simp: refused_def run_request_def)
qed

lemma run_details_refused:
  assumes "\<not> BITCAP_ISSET (childcaps ctx) cap"
    and "\<And>st. dreq = Inl st \<Longrightarrow> st \<noteq> AGENTD_STATUS_SUCCESS"
    and "\<And>r. dreq = Inr r \<Longrightarrow> dataservice_child_context_lookup inst (child_index r) = Inr ctx"
    and "\<And>r e. \<exists>p. f ctx r e = Some ((AGENTD_ERROR_DATASERVICE_NOT_AUTHORIZED, e, p), None)"
  shows "refused env m inst (run_request env m inst dreq (\<lambda>ctx r. with_details inst ctx cap (f ctx r)))"
  using assms(1,4) by (intro run_request_refused [where ctx = ctx] assms(2,3)) (auto simp: with_details_refused)

lemma set_child_ctx_same:
  "dataservice_child_context_lookup inst i = Inr ctx \<Longrightarrow> set_child_ctx inst (unat i) ctx = inst"
  by (auto simp: dataservice_child_context_lookup_def set_child_ctx_def split: if_splits)

lemmas operation_auth_defs =
  dataservice_global_settings_get_def dataservice_global_settings_set_def dataservice_transaction_submit_def
  dataservice_transaction_get_first_def dataservice_transaction_get_def dataservice_transaction_drop_def
  dataservice_transaction_promote_def dataservice_artifact_get_def dataservice_block_make_def dataservice_block_get_def
  dataservice_block_id_by_height_get_def dataservice_latest_block_id_get_def dataservice_canonized_transaction_get_def

lemma child_close_refused:
  assumes "dataservice_child_context_lookup inst (of_net32 (take 4 req)) = Inr ctx"
    and "\<not> BITCAP_ISSET (childcaps ctx) DATASERVICE_API_CAP_LL_CHILD_CONTEXT_CLOSE"
  shows "refused env DATASERVICE_API_METHOD_LL_CHILD_CONTEXT_CLOSE inst
           (dataservice_decode_and_dispatch_child_context_close env inst req)"
proof (cases "dataservice_decode_request_child_context_close req")
  case (Inl st)
  then show ?thesis using decode_error_status(14) [OF Inl]
    by (fastforce simp: dataservice_decode_and_dispatch_child_context_close_def run_request_def refused_def)
next
  case (Inr r)
  then have "child_index r = of_net32 (take 4 req)" by (rule decoded_child_index)
  then have "dataservice_decode_and_dispatch_child_context_close env inst req =
      Some (reply_with env DATASERVICE_API_METHOD_LL_CHILD_CONTEXT_CLOSE (child_index r)
              AGENTD_ERROR_DATASERVICE_CHILD_DETAILS_DELETE_FAILURE None inst)"
    using Inr assms set_child_ctx_same [OF assms(1)]
    by (simp add: dataservice_decode_and_dispatch_child_context_close_def run_request_def
        dataservice_child_context_close_def)
  moreover have "AGENTD_ERROR_DATASERVICE_CHILD_DETAILS_DELETE_FAILURE \<noteq> AGENTD_STATUS_SUCCESS" by simp
  ultimately show ?thesis unfolding refused_def by blast
qed

lemma child_handlers_refused:
  assumes l: "dataservice_child_context_lookup inst (of_net32 (take 4 req)) = Inr ctx"
  shows
  "\<not> BITCAP_ISSET (childcaps ctx) 7 \<Longrightarrow> refused env 7 inst (dataservice_decode_and_dispatch_global_setting_get ops env inst req)"
  "\<not> BITCAP_ISSET (childcaps ctx) 8 \<Longrightarrow> refused env 8 inst (dataservice_decode_and_dispatch_global_setting_set ops env inst req)"
  "\<not> BITCAP_ISSET (childcaps ctx) 15 \<Longrightarrow> refused env 15 inst (dataservice_decode_and_dispatch_transaction_submit ops att env inst req)"
  "\<not> BITCAP_ISSET (childcaps ctx) 17 \<Longrightarrow> refused env 17 inst (dataservice_decode_and_dispatch_transaction_get_first ops env inst req)"
  "\<not> BITCAP_ISSET (childcaps ctx) 18 \<Longrightarrow> refused env 18 inst (dataservice_decode_and_dispatch_transaction_get ops env inst req)"
  "\<not> BITCAP_ISSET (childcaps ctx) 19 \<Longrightarrow> refused env 19 inst (dataservice_decode_and_dispatch_transaction_drop ops env inst req)"
  "\<not> BITCAP_ISSET (childcaps ctx) 16 \<Longrightarrow> refused env 16 inst (dataservice_decode_and_dispatch_transaction_promote ops env inst req)"
  "\<not> BITCAP_ISSET (childcaps ctx) 20 \<Longrightarrow> refused env 20 inst (dataservice_decode_and_dispatch_artifact_read ops env inst req)"
  "\<not> BITCAP_ISSET (childcaps ctx) 21 \<Longrightarrow> refused env 21 inst (dataservice_decode_and_dispatch_block_make ops vc root_block env inst req)"
  "\<not> BITCAP_ISSET (childcaps ctx) 13 \<Longrightarrow> refused env 13 inst (dataservice_decode_and_dispatch_block_read ops root_block env inst req)"
  "\<not> BITCAP_ISSET (childcaps ctx) 22 \<Longrightarrow> refused env 22 inst (dataservice_decode_and_dispatch_block_id_by_height_read ops env inst req)"
  "\<not> BITCAP_ISSET (childcaps ctx) 9 \<Longrightarrow> refused env 9 inst (dataservice_decode_and_dispatch_block_id_latest_read ops root_block env inst req)"
  "\<not> BITCAP_ISSET (childcaps ctx) 14 \<Longrightarrow> refused env 14 inst (dataservice_decode_and_dispatch_canonized_transaction_get ops env inst req)"
  "\<not> BITCAP_ISSET (childcaps ctx) 3 \<Longrightarrow> refused env 3 inst (dataservice_decode_and_dispatch_child_context_close  env inst req)"
  unfolding db_handler_defs
  by (rule run_details_refused [where ctx = ctx], assumption, erule decode_error_status,
      drule decoded_child_index, simp add: l, simp add: operation_auth_defs encode_found_def)+
    (simp add: child_close_refused l)

lemma dispatch_unauthorized:
  assumes "4 \<le> length req" and "of_net32 (take 4 req) \<in> set child_methods"
    and "dataservice_child_context_lookup inst (request_child req) = Inr ctx"
    and "\<not> BITCAP_ISSET (childcaps ctx) (unat (of_net32 (take 4 req)))"
  shows "refused env (of_net32 (take 4 req)) inst
           (dataservice_decode_and_dispatch ops vc root_block att env inst req)"
proof -
  have l: "dataservice_child_context_lookup inst (of_net32 (take 4 (drop 4 req))) = Inr ctx"
    using assms(3) by (simp add: request_child_def slice_def)
  have four: "\<not> length req < 4" using assms(1) by simp
  show ?thesis using assms(2,4) four
    unfolding child_methods_def list.set insert_iff empty_iff simp_thms dataservice_decode_and_dispatch_def Let_def
      of_net32_def [symmetric]
    by (elim disjE) (simp_all add: child_handlers_refused [OF l])
qed


subsection \<open>Sequences of requests\<close>

text \<open>
  The instance the service process starts with and every instance a sequence of
  requests leads to, whatever the requests are and whichever allocations, writes
  and store calls fail on the way.
\<close>

inductive ds_run ::
  "('e, 't) lmdb \<Rightarrow> vccert \<Rightarrow> bytes \<Rightarrow> bool \<Rightarrow> 'e dataservice_instance \<Rightarrow> 'e dataservice_instance \<Rightarrow> bool"
  for ops vc root_block att where
  run_refl: "ds_run ops vc root_block att inst inst"
| run_step: "ds_run ops vc root_block att inst inst' \<Longrightarrow>
     dataservice_decode_and_dispatch ops vc root_block att env inst' req = Some (st, out, inst'') \<Longrightarrow>
     ds_run ops vc root_block att inst inst''"

inductive_cases ds_runE: "ds_run ops vc root_block att inst inst'"

definition ds_reachable ::
  "('e, 't) lmdb \<Rightarrow> vccert \<Rightarrow> bytes \<Rightarrow> bool \<Rightarrow> 'e dataservice_instance \<Rightarrow> bool" where
  "ds_reachable ops vc root_block att inst \<longleftrightarrow>
     (\<exists>inst0. dataservice_instance_create True = Some inst0 \<and> ds_run ops vc root_block att inst0 inst)"

lemma ds_run_trans:
  "ds_run ops vc root_block att inst' inst'' \<Longrightarrow> ds_run ops vc root_block att inst inst' \<Longrightarrow>
     ds_run ops vc root_block att inst inst''"
  by (induction rule: ds_run.induct) (auto intro: ds_run.intros)

text \<open>
  The invariant: the slots form a pool; while the root context may still be
  created nothing else exists; a child context holds a single word of
  capabilities, without those to create contexts.
\<close>

abbreviation root_has :: "'e dataservice_instance \<Rightarrow> nat \<Rightarrow> bool" where
  "root_has inst b \<equiv> BITCAP_ISSET (apicaps (inst_ctx inst)) b"

abbreviation child_has :: "'e dataservice_instance \<Rightarrow> nat \<Rightarrow> nat \<Rightarrow> bool" where
  "child_has inst i b \<equiv> BITCAP_ISSET (childcaps (child_ctx (children inst ! i))) b"

definition inst_inv :: "'e dataservice_instance \<Rightarrow> bool" where
  "inst_inv inst \<longleftrightarrow> slots_ok inst \<and> length (apicaps (inst_ctx inst)) = 1 \<and>
     (root_has inst DATASERVICE_API_CAP_LL_ROOT_CONTEXT_CREATE \<longrightarrow>
        opened_slots inst = {} \<and> \<not> root_has inst DATASERVICE_API_CAP_LL_CHILD_CONTEXT_CREATE) \<and>
     (\<forall>i \<in> opened_slots inst. child_ctx_ok (child_ctx (children inst ! i)) \<and>
        \<not> child_has inst i DATASERVICE_API_CAP_LL_ROOT_CONTEXT_CREATE)"

definition confined :: "nat \<Rightarrow> 'e dataservice_instance \<Rightarrow> bool" where
  "confined b inst \<longleftrightarrow> \<not> root_has inst b \<and> (\<forall>i \<in> opened_slots inst. \<not> child_has inst i b)"

lemma created_inv:
  assumes "dataservice_instance_create True = Some inst"
  shows "inst_inv inst"
proof -
  from dataservice_instance_create_Some obtain inst1 :: "'a dataservice_instance" where
    c: "dataservice_instance_create True = Some inst1"
    "slots_inv inst1 (rev [0..<1024])" "inst_ctx inst1 = root_context_zero\<lparr>apicaps := [1]\<rparr>" by blast
  have "inst1 = inst" using assms c(1) by simp
  moreover have "opened_slots inst1 = {}"
    by (simp only: opened_slots_free [OF c(2)] set_rev set_upt atLeast0LessThan Diff_cancel)
  moreover have "slots_ok inst1" using c(2) unfolding slots_ok_def by blast
  ultimately show ?thesis using c(3)
    by (simp add: inst_inv_def BITCAP_ISSET_bit)
qed

text \<open>Slots and contexts of the children depend on these two fields only.\<close>

lemma slots_cong:
  assumes "children inst' = children inst" and "child_head inst' = child_head inst"
  shows "slots_ok inst' = slots_ok inst" and "opened_slots inst' = opened_slots inst"
  using assms by (simp_all add: slots_ok_def slots_inv_def opened_slots_def)

lemma created_caps: "BITCAP_ISSET (BITCAP_SET_FALSE [0xFFFFFFFF] 0) 0 = False" "length (BITCAP_SET_FALSE [0xFFFFFFFF] 0) = 1"
  by (simp_all add: bitcap32.isset_revoke)

lemma effect_inv:
  assumes "dispatch_effect inst inst'" and inv: "inst_inv inst"
  shows "inst_inv inst'"
  using assms(1) unfolding dispatch_effect_def
proof (elim disjE)
  assume "db_frame inst inst'"
  then show ?thesis using inv slots_cong [of inst' inst] by (simp add: db_frame_def inst_inv_def)
next
  assume "root_created inst inst'"
  then show ?thesis using inv slots_cong [of inst' inst] created_caps
    by (simp add: root_created_def inst_inv_def)
next
  assume "root_reduced inst inst'"
  then obtain caps where "length caps = 1"
    and i: "inst' = inst\<lparr>inst_ctx := (inst_ctx inst)\<lparr>apicaps := BITCAP_INTERSECT (apicaps (inst_ctx inst)) caps\<rparr>\<rparr>"
    by (auto simp: root_reduced_def)
  then show ?thesis using inv slots_cong [of inst' inst]
    by (auto simp: inst_inv_def bitcap32.isset_meet)
next
  assume "child_step inst inst'"
  then show ?thesis using inv by (fastforce simp: child_step_def child_caps_sub_def inst_inv_def)
qed

lemma effect_confined:
  assumes "dispatch_effect inst inst'" and inv: "inst_inv inst" and b: "b < 32" "confined b inst"
    and live: "\<not> root_has inst DATASERVICE_API_CAP_LL_ROOT_CONTEXT_CREATE"
  shows "confined b inst'"
  using assms(1) unfolding dispatch_effect_def
proof (elim disjE)
  assume "db_frame inst inst'"
  then show ?thesis using b slots_cong [of inst' inst] by (simp add: db_frame_def confined_def)
next
  assume "root_created inst inst'"
  then show ?thesis using live by (simp add: root_created_def)
next
  assume "root_reduced inst inst'"
  then obtain caps where "length caps = 1"
    and i: "inst' = inst\<lparr>inst_ctx := (inst_ctx inst)\<lparr>apicaps := BITCAP_INTERSECT (apicaps (inst_ctx inst)) caps\<rparr>\<rparr>"
    by (auto simp: root_reduced_def)
  then show ?thesis using inv b slots_cong [of inst' inst]
    by (auto simp: inst_inv_def confined_def bitcap32.isset_meet)
next
  assume "child_step inst inst'"
  then show ?thesis using b by (fastforce simp: child_step_def child_caps_sub_def confined_def)
qed

lemma run_inv: "ds_run ops vc root_block att inst inst' \<Longrightarrow> inst_inv inst \<Longrightarrow> inst_inv inst'"
proof (induction rule: ds_run.induct)
  case (run_step inst inst' env req st out inst'')
  then have "inst_inv inst'" by blast
  then show ?case using dispatch_step [OF run_step(2)] effect_inv by (auto simp: inst_inv_def)
qed

lemma run_confined:
  "ds_run ops vc root_block att inst inst' \<Longrightarrow> inst_inv inst \<Longrightarrow> b < 32 \<Longrightarrow> confined b inst \<Longrightarrow>
     confined DATASERVICE_API_CAP_LL_ROOT_CONTEXT_CREATE inst \<Longrightarrow>
     confined b inst' \<and> confined DATASERVICE_API_CAP_LL_ROOT_CONTEXT_CREATE inst'"
proof (induction rule: ds_run.induct)
  case (run_step inst inst' env req st out inst'')
  have inv: "inst_inv inst'" using run_step run_inv by blast
  have eff: "dispatch_effect inst' inst''"
    using dispatch_step [OF run_step(2)] inv by (simp add: inst_inv_def)
  have "\<not> root_has inst' DATASERVICE_API_CAP_LL_ROOT_CONTEXT_CREATE"
    using run_step by (simp add: confined_def)
  then show ?case using effect_confined [OF eff inv] run_step by auto
qed blast


subsection \<open>Every request is answered\<close>

definition answered :: "request_env \<Rightarrow> 32 word \<Rightarrow> 'e reply option \<Rightarrow> bool" where
  "answered env method r \<longleftrightarrow> (\<exists>offset st data inst. r = Some (reply_with env method offset st data inst))"

lemma run_request_answered: "run_request env m inst dreq body = Some r \<Longrightarrow> answered env m (Some r)"
  by (auto simp: run_request_def answered_def split: sum.splits option.splits prod.splits)

lemma handlers_answered:
  "dataservice_decode_and_dispatch_root_context_reduce_caps env inst req = Some r \<Longrightarrow> answered env 1 (Some r)"
  "dataservice_decode_and_dispatch_child_context_create env inst req = Some r \<Longrightarrow> answered env 2 (Some r)"
  "dataservice_decode_and_dispatch_child_context_close env inst req = Some r \<Longrightarrow> answered env 3 (Some r)"
  by (auto simp: dataservice_decode_and_dispatch_root_context_reduce_caps_def answered_def Let_def
      dataservice_decode_and_dispatch_child_context_create_def dataservice_decode_and_dispatch_child_context_close_def
      split: sum.splits option.splits prod.splits if_splits dest!: run_request_answered)

lemma reply_with_packet:
  "resp_malloc env \<Longrightarrow> ipc_write_ok env \<Longrightarrow>
     reply_with env m offset st data inst = (AGENTD_STATUS_SUCCESS, [response_packet m offset st data], inst)"
  by (simp add: reply_with_def dataservice_decode_and_dispatch_write_status_def Let_def)

lemma dispatch_answered:
  assumes d: "dataservice_decode_and_dispatch ops vc root_block att env inst req = Some (st, out, inst')"
    and env: "resp_malloc env" "ipc_write_ok env" and len: "4 \<le> length req"
    and m: "of_net32 (take 4 req) \<noteq> DATASERVICE_API_METHOD_LL_ROOT_CONTEXT_CREATE"
  shows "\<exists>offset status data. out = [response_packet (of_net32 (take 4 req)) offset status data]"
proof -
  let ?m = "of_net32 (take 4 req)"
  have "answered env ?m (Some (st, out, inst')) \<or>
      out = snd (dataservice_decode_and_dispatch_write_status env ?m 0 AGENTD_ERROR_DATASERVICE_REQUEST_PACKET_BAD None)"
    using d len m unfolding dataservice_decode_and_dispatch_def Let_def db_handler_defs of_net32_def [symmetric]
    by (elim if_SomeE) (simp, simp, (drule handlers_answered run_request_answered, simp)+, simp)
  then show ?thesis using env
    by (auto simp: answered_def reply_with_packet dataservice_decode_and_dispatch_write_status_def Let_def)
qed


subsection \<open>A service in use\<close>

text \<open>The dispatcher on the methods for contexts.\<close>

lemma dispatch_context_methods:
  "dataservice_decode_and_dispatch ops vc root_block att env inst (net32 0 @ b) =
     dataservice_decode_and_dispatch_root_context_create ops env inst b"
  "dataservice_decode_and_dispatch ops vc root_block att env inst (net32 1 @ b) =
     dataservice_decode_and_dispatch_root_context_reduce_caps env inst b"
  "dataservice_decode_and_dispatch ops vc root_block att env inst (net32 2 @ b) =
     dataservice_decode_and_dispatch_child_context_create env inst b"
  by (simp_all add: dataservice_decode_and_dispatch_def Let_def)

lemma reply_env_ok [simp]:
  "reply_with env_ok m i st d inst = (AGENTD_STATUS_SUCCESS, [response_packet m i st d], inst)"
  by (simp add: reply_with_def dataservice_decode_and_dispatch_write_status_def env_ok_def Let_def)

lemma env_ok_sel [simp]: "op_malloc env_ok n" "payload_malloc env_ok" "block_malloc env_ok j n" "resp_malloc env_ok" "ipc_write_ok env_ok"
  by (simp_all add: env_ok_def)

text \<open>
  Over the executable store: the root context is created and reduced to creating
  children and submitting transactions (bits 2 and 15), and a child is opened.
\<close>

lemma demo_service:
  obtains inst inst' :: "mem_db dataservice_instance" where "ds_reachable mem_lmdb vc root_block att inst"
    and "details (inst_ctx inst) = Some (\<lambda>_. Map.empty)" and "apicaps (inst_ctx inst) = [0x8004]"
    and "opened_slots inst = {}" and "ds_run mem_lmdb vc root_block att inst inst'"
    and "inst_ctx inst' = inst_ctx inst" and "dataservice_child_context_lookup inst' 1023 = Inr \<lparr> child_root = True, childcaps = [0x8000] \<rparr>"
proof -
  obtain inst0 :: "mem_db dataservice_instance" where c: "dataservice_instance_create True = Some inst0"
    and s: "slots_inv inst0 (rev [0..<1024])" and x: "inst_ctx inst0 = root_context_zero\<lparr>apicaps := [1]\<rparr>"
    by (rule dataservice_instance_create_Some)
  let ?D = "dataservice_decode_and_dispatch mem_lmdb vc root_block att env_ok"
  define c1 :: "mem_db dataservice_root_context" where
    "c1 = \<lparr> root_dispose = True, apicaps = [0xFFFFFFFE], details = Some (\<lambda>_. Map.empty) \<rparr>"
  define i1 where "i1 = inst0\<lparr>inst_ctx := c1\<rparr>"
  define i2 where "i2 = inst0\<lparr>inst_ctx := c1\<lparr>apicaps := [0x8004]\<rparr>\<rparr>"
  have d1: "?D inst0 (net32 0 @ net64 4096 @ [47]) = Some (0, [response_packet 0 0 0 None], i1)"
    by (simp add: dispatch_context_methods dataservice_decode_and_dispatch_root_context_create_def
        dataservice_decode_request_root_context_init_def dataservice_root_context_init_def x Let_def
        BITCAP_ISSET_def BITCAP_OFFSET_def BITCAP_SHIFT_def BITCAP_INIT_TRUE_def BITCAP_SET_FALSE_def
        dataservice_database_open_def root_context_zero_def i1_def c1_def)
  have d2: "?D i1 (net32 1 @ mem32 0x8004) = Some (0, [response_packet 1 0 0 None], i2)"
    by (simp add: dispatch_context_methods dataservice_decode_and_dispatch_root_context_reduce_caps_def
        dataservice_decode_request_root_context_reduce_caps_def codec_defs dataservice_root_context_reduce_capabilities_def
        BITCAP_ISSET_def BITCAP_OFFSET_def BITCAP_SHIFT_def BITCAP_INTERSECT_def i1_def i2_def c1_def)
  have r: "ds_run mem_lmdb vc root_block att inst0 i2" using run_step [OF run_step [OF run_refl d1] d2] .
  have suc: "Suc 1023 = 1024" by simp
  have "rev [0..<1024] = 1023 # rev [0..<1023]"
    unfolding upt_Suc_append [of 0 1023, unfolded suc, OF zero_le] rev_append by (simp only: rev.simps append.simps)
  then have len: "length (children i2) = 1024" and head: "child_head i2 = Some 1023"
    using s unfolding slots_inv_def by (simp_all only: i2_def free_chain.simps) simp_all
  let ?ctx = "\<lparr> child_root = True, childcaps = [0x8000] \<rparr>"
  define i3 where "i3 = set_child_ctx (fst (snd (dataservice_child_details_create i2))) 1023 ?ctx"
  have d3: "?D i2 (net32 2 @ mem32 0xFFFFFFFF) = Some (0, [response_packet 2 0 0 (Some (net32 1023))], i3)"
    using len by (simp add: dispatch_context_methods dataservice_decode_and_dispatch_child_context_create_def
        dataservice_decode_request_child_context_create_def codec_defs dataservice_child_details_create_def head
        dataservice_child_context_create_def Let_def BITCAP_ISSET_def BITCAP_OFFSET_def BITCAP_SHIFT_def BITCAP_INTERSECT_def
        BITCAP_SET_TRUE_def BITCAP_SET_FALSE_def child_details_zero_def child_context_zero_def i3_def
        dataservice_encode_response_child_context_create_def response_payload_def)
      (simp add: i2_def c1_def)
  have "opened_slots i2 = opened_slots inst0" by (simp add: opened_slots_def i2_def)
  also have "\<dots> = {}" by (simp only: opened_slots_free [OF s] set_rev set_upt atLeast0LessThan Diff_cancel)
  finally have op: "opened_slots i2 = {}" .
  have l: "dataservice_child_context_lookup i3 1023 = Inr ?ctx"
    using len by (simp add: dataservice_child_context_lookup_def i3_def set_child_ctx_def dataservice_child_details_create_def head
        child_details_zero_def)
  have ic: "inst_ctx i3 = inst_ctx i2" by (simp add: i3_def set_child_ctx_def dataservice_child_details_create_def head)
  show thesis
    using that [of i2 i3] c r op l ic run_step [OF run_refl d3] by (auto simp: ds_reachable_def i2_def c1_def)
qed


subsection \<open>Properties\<close>

text \<open>A certificate parser that cannot be set up, for requests that parse no certificate.\<close>

definition no_vccert :: vccert where
  "no_vccert = \<lparr> vccrypt_suite_options_init_ok = False, vccert_parser_options_simple_init_ok = False,
     vccert_parser_init_ok = \<lambda>_. False, vccert_fields = \<lambda>_ _. [] \<rparr>"

text \<open>
  C29. In every state the service can reach, whatever was requested and whatever
  failed: the child slots form a consistent pool; as long as the root context may
  still be created no child is open and none can be opened; and no child context
  holds the capability to create a root or a child context.
\<close>

theorem reachable_invariant:
  assumes "ds_reachable ops vc root_block att inst"
  shows "slots_ok inst \<and> length (apicaps (inst_ctx inst)) = 1 \<and>
     (root_has inst DATASERVICE_API_CAP_LL_ROOT_CONTEXT_CREATE \<longrightarrow>
        opened_slots inst = {} \<and> \<not> root_has inst DATASERVICE_API_CAP_LL_CHILD_CONTEXT_CREATE) \<and>
     (\<forall>i \<in> opened_slots inst. child_root (child_ctx (children inst ! i)) \<and>
        \<not> child_has inst i DATASERVICE_API_CAP_LL_ROOT_CONTEXT_CREATE \<and>
        \<not> child_has inst i DATASERVICE_API_CAP_LL_CHILD_CONTEXT_CREATE)"
proof -
  have "inst_inv inst" using assms created_inv run_inv unfolding ds_reachable_def by blast
  then show ?thesis by (simp add: inst_inv_def child_ctx_ok_def)
qed

theorem reachable_invariant_witness:
  "\<exists>inst :: mem_db dataservice_instance. ds_reachable mem_lmdb no_vccert zero_uuid True inst \<and> slots_ok inst \<and> opened_slots inst \<noteq> {} \<and>
     (\<forall>i \<in> opened_slots inst. \<not> child_has inst i DATASERVICE_API_CAP_LL_CHILD_CONTEXT_CREATE)"
proof -
  obtain inst inst' :: "mem_db dataservice_instance" where "ds_reachable mem_lmdb no_vccert zero_uuid True inst"
    and "ds_run mem_lmdb no_vccert zero_uuid True inst inst'"
    and l: "dataservice_child_context_lookup inst' 1023 = Inr \<lparr> child_root = True, childcaps = [0x8000] \<rparr>"
    using demo_service [of no_vccert zero_uuid True] by metis
  then have r: "ds_reachable mem_lmdb no_vccert zero_uuid True inst'" using ds_run_trans unfolding ds_reachable_def by blast
  note p = reachable_invariant [OF r]
  then have "1023 \<in> opened_slots inst'"
    using l slots_ok_length [of inst'] by (auto simp: dataservice_child_context_lookup_def opened_slots_def split: if_splits)
  then show ?thesis using r p by blast
qed

text \<open>
  C30. Capabilities are confined: once the root context exists, a capability that
  neither the root nor an open child holds is never obtained again, by any sequence
  of requests.
\<close>

theorem capabilities_confined:
  assumes "ds_reachable ops vc root_block att inst"
    and "\<not> root_has inst DATASERVICE_API_CAP_LL_ROOT_CONTEXT_CREATE" and "b < 32" and "confined b inst"
    and "ds_run ops vc root_block att inst inst'"
  shows "confined b inst'"
proof -
  have inv: "inst_inv inst" using assms(1) created_inv run_inv unfolding ds_reachable_def by blast
  then have "confined DATASERVICE_API_CAP_LL_ROOT_CONTEXT_CREATE inst" using assms(2) by (simp add: confined_def inst_inv_def)
  then show ?thesis using run_confined [OF assms(5) inv assms(3,4)] by blast
qed

theorem capabilities_confined_witness:
  "\<exists>inst inst' :: mem_db dataservice_instance. ds_reachable mem_lmdb no_vccert zero_uuid True inst \<and> confined 21 inst \<and>
     ds_run mem_lmdb no_vccert zero_uuid True inst inst' \<and> confined 21 inst' \<and>
     dataservice_child_context_lookup inst' 1023 = Inr \<lparr> child_root = True, childcaps = [0x8000] \<rparr>"
proof -
  obtain inst inst' :: "mem_db dataservice_instance" where r: "ds_reachable mem_lmdb no_vccert zero_uuid True inst"
    and a: "apicaps (inst_ctx inst) = [0x8004]" "opened_slots inst = {}" and run: "ds_run mem_lmdb no_vccert zero_uuid True inst inst'"
    and l: "dataservice_child_context_lookup inst' 1023 = Inr \<lparr> child_root = True, childcaps = [0x8000] \<rparr>"
    using demo_service [of no_vccert zero_uuid True] by metis
  have c: "\<not> root_has inst 0" "confined 21 inst"
    using a by (simp_all add: confined_def BITCAP_ISSET_def BITCAP_OFFSET_def BITCAP_SHIFT_def)
  have "confined 21 inst'" by (rule capabilities_confined [OF r c(1) _ c(2) run]) simp
  then show ?thesis using r c run l by blast
qed

text \<open>
  C31. A request on behalf of a child context that lacks the capability of the
  method, which has the number of the method, is refused: the instance and its
  database are unchanged, there is no undefined behaviour, and the reply carries
  an error status and no data.
\<close>

theorem unauthorized_request_refused:
  assumes "4 \<le> length req" and "of_net32 (take 4 req) \<in> set child_methods"
    and "dataservice_child_context_lookup inst (request_child req) = Inr ctx"
    and "\<not> BITCAP_ISSET (childcaps ctx) (unat (of_net32 (take 4 req)))"
  shows "\<exists>offset st. st \<noteq> AGENTD_STATUS_SUCCESS \<and>
     dataservice_decode_and_dispatch ops vc root_block att env inst req =
       Some (reply_with env (of_net32 (take 4 req)) offset st None inst)"
  using dispatch_unauthorized [OF assms, of env ops vc root_block att] by (simp add: refused_def)

theorem unauthorized_request_refused_witness:
  "\<exists>inst :: mem_db dataservice_instance. \<exists>offset st. st \<noteq> AGENTD_STATUS_SUCCESS \<and>
     dataservice_decode_and_dispatch mem_lmdb no_vccert zero_uuid True env_ok inst (net32 21 @ net32 1023 @ replicate 20 1) =
       Some (AGENTD_STATUS_SUCCESS, [response_packet 21 offset st None], inst)"
proof -
  obtain inst :: "mem_db dataservice_instance" where
    l: "dataservice_child_context_lookup inst 1023 = Inr \<lparr> child_root = True, childcaps = [0x8000] \<rparr>"
    using demo_service [of no_vccert zero_uuid True] by metis
  let ?req = "net32 21 @ net32 1023 @ replicate 20 (1 :: byte)"
  have m: "of_net32 (take 4 ?req) = 21" and c: "request_child ?req = 1023" by (simp_all add: request_child_def)
  show ?thesis using unauthorized_request_refused [of ?req inst "\<lparr> child_root = True, childcaps = [0x8000] \<rparr>" mem_lmdb no_vccert zero_uuid True env_ok]
    l unfolding m c by (simp add: child_methods_def BITCAP_ISSET_def BITCAP_OFFSET_def BITCAP_SHIFT_def) blast
qed

text \<open>
  Every request of at least four bytes that is served is answered by exactly
  one packet, which names the method, when the reply can be allocated and written;
  the one exception is a request to create the root context, which is not answered
  when it cannot be decoded.
\<close>

theorem every_request_answered:
  assumes "dataservice_decode_and_dispatch ops vc root_block att env inst req = Some (st, out, inst')"
    and "resp_malloc env" and "ipc_write_ok env" and "4 \<le> length req"
    and "of_net32 (take 4 req) = DATASERVICE_API_METHOD_LL_ROOT_CONTEXT_CREATE \<longrightarrow> payload_malloc env \<and> 12 < length req"
  shows "\<exists>offset status data. out = [response_packet (of_net32 (take 4 req)) offset status data]"
proof (cases "of_net32 (take 4 req) = DATASERVICE_API_METHOD_LL_ROOT_CONTEXT_CREATE")
  case False
  then show ?thesis using dispatch_answered [OF assms(1-4)] by blast
next
  case True
  then have m: "ntohl (of_mem32 (take 4 req)) = 0" by (simp add: of_net32_def)
  have "\<exists>r. dataservice_decode_request_root_context_init (payload_malloc env) (drop 4 req) = Inr r"
    using assms(5) True by (auto simp: dataservice_decode_request_root_context_init_def invalid_size_def)
  then show ?thesis using assms(1,4) True
    by (auto simp: dataservice_decode_and_dispatch_def m dataservice_decode_and_dispatch_root_context_create_def
        reply_with_packet [OF assms(2,3)] split: prod.splits) blast
qed

theorem every_request_answered_witness:
  "\<exists>inst :: mem_db dataservice_instance. \<exists>st out inst'.
     dataservice_decode_and_dispatch mem_lmdb no_vccert zero_uuid True env_ok inst (net32 99 @ [0]) = Some (st, out, inst') \<and>
     (\<exists>offset status data. out = [response_packet 99 offset status data])"
proof -
  obtain inst :: "mem_db dataservice_instance" where "slots_ok inst" using dataservice_instance_create_Some slots_ok_def by metis
  let ?req = "net32 99 @ [0 :: byte]"
  have m: "of_net32 (take 4 ?req) = 99" by simp
  obtain st out inst' where d: "dataservice_decode_and_dispatch mem_lmdb no_vccert zero_uuid True env_ok inst ?req = Some (st, out, inst')"
    by (simp add: dataservice_decode_and_dispatch_def Let_def)
  from every_request_answered [OF d] have "\<exists>offset status data. out = [response_packet 99 offset status data]"
    unfolding m by simp
  then show ?thesis using d by blast
qed

end
