(* ===== verification/Ds_Wire.thy ===== *)
theory Ds_Wire
  imports Ds_Dispatch_Correct
begin

text \<open>
  Client and server together: the client encodes a request, the dispatcher of the
  service decodes and executes it, and the client decodes the response.  Seen
  through the wire the process queue is the same FIFO queue.
\<close>

subsection \<open>Calls over the wire\<close>

definition wire_call ::
  "('e, 't) lmdb \<Rightarrow> vccert \<Rightarrow> bytes \<Rightarrow> bool \<Rightarrow> 'e dataservice_instance \<Rightarrow> status + bytes \<Rightarrow>
     (bytes \<times> 'e dataservice_instance) option" where
  "wire_call ops vc root_block att inst packet =
     (case packet of
        Inl st \<Rightarrow> None
      | Inr req \<Rightarrow>
          (case dataservice_decode_and_dispatch ops vc root_block att env_ok inst req of
             Some (st, [resp], inst') \<Rightarrow> Some (resp, inst')
           | _ \<Rightarrow> None))"

text \<open>The client's view of a response that carries a status only.\<close>

definition wire_done :: "(bytes \<Rightarrow> status + dataservice_response_header) \<Rightarrow>
    (bytes \<times> 'e dataservice_instance) option \<Rightarrow> 'e dataservice_instance option" where
  "wire_done dec r =
     (case r of
        None \<Rightarrow> None
      | Some (resp, inst) \<Rightarrow>
          (case dec resp of
             Inl st \<Rightarrow> None
           | Inr hdr \<Rightarrow> if resp_status hdr = AGENTD_STATUS_SUCCESS then Some inst else None))"

definition wire_submit ::
  "('e, 't) lmdb \<Rightarrow> vccert \<Rightarrow> bytes \<Rightarrow> bool \<Rightarrow> 32 word \<Rightarrow> 'e dataservice_instance \<Rightarrow> submission \<Rightarrow>
     'e dataservice_instance option" where
  "wire_submit ops vc root_block att i inst x =
     (case x of (txn_id, artifact_id, cert) \<Rightarrow>
      wire_done dataservice_decode_response_transaction_submit
        (wire_call ops vc root_block att inst
           (dataservice_encode_request_transaction_submit AGENTD_STATUS_SUCCESS i txn_id artifact_id cert)))"

definition wire_drop ::
  "('e, 't) lmdb \<Rightarrow> vccert \<Rightarrow> bytes \<Rightarrow> bool \<Rightarrow> 32 word \<Rightarrow> 'e dataservice_instance \<Rightarrow> bytes \<Rightarrow>
     'e dataservice_instance option" where
  "wire_drop ops vc root_block att i inst txn_id =
     wire_done dataservice_decode_response_transaction_drop
       (wire_call ops vc root_block att inst
          (dataservice_encode_request_transaction_drop AGENTD_STATUS_SUCCESS i txn_id))"

definition wire_first ::
  "('e, 't) lmdb \<Rightarrow> vccert \<Rightarrow> bytes \<Rightarrow> bool \<Rightarrow> 32 word \<Rightarrow> 'e dataservice_instance \<Rightarrow>
     (submission \<times> 'e dataservice_instance) option" where
  "wire_first ops vc root_block att i inst =
     (case wire_call ops vc root_block att inst
             (dataservice_encode_request_transaction_get_first AGENTD_STATUS_SUCCESS i) of
        None \<Rightarrow> None
      | Some (resp, inst') \<Rightarrow>
          (case dataservice_decode_response_transaction_get_first resp of
             Inr (hdr, Some (n, cert)) \<Rightarrow> Some ((node_key n, node_artifact_id n, cert), inst')
           | _ \<Rightarrow> None))"

text \<open>
  What the service holds for the child context \<open>i\<close>; certificates are below 4 GB,
  the range of the size fields of the protocol.
\<close>

definition wire_holds ::
  "('e \<Rightarrow> kvs) \<Rightarrow> dataservice_child_context \<Rightarrow> 32 word \<Rightarrow> 'e dataservice_instance \<Rightarrow> submission list \<Rightarrow> bool" where
  "wire_holds ev child i inst q \<longleftrightarrow>
     dataservice_child_context_lookup inst i = Inr child \<and>
     (\<exists>e. details (inst_ctx inst) = Some e \<and> pq_holds (ev e pq_db) q) \<and>
     (\<forall>x \<in> set q. length (snd (snd x)) < 2 ^ 32)"

definition wire_ok :: "submission \<Rightarrow> bool" where
  "wire_ok x \<longleftrightarrow> submission_ok x \<and> length (snd (snd x)) < 2 ^ 32"

abbreviation set_details :: "'e dataservice_instance \<Rightarrow> 'e \<Rightarrow> 'e dataservice_instance" where
  "set_details inst e \<equiv> inst\<lparr>inst_ctx := (inst_ctx inst)\<lparr>details := Some e\<rparr>\<rparr>"

lemma lookup_set_details [simp]:
  "dataservice_child_context_lookup (set_details inst e) i = dataservice_child_context_lookup inst i"
  by (simp add: dataservice_child_context_lookup_def)

lemma dispatch_queue_methods:
  "dataservice_decode_and_dispatch ops vc root_block att env inst (net32 15 @ b) =
     dataservice_decode_and_dispatch_transaction_submit ops att env inst b"
  "dataservice_decode_and_dispatch ops vc root_block att env inst (net32 17 @ b) =
     dataservice_decode_and_dispatch_transaction_get_first ops env inst b"
  "dataservice_decode_and_dispatch ops vc root_block att env inst (net32 19 @ b) =
     dataservice_decode_and_dispatch_transaction_drop ops env inst b"
  by (simp_all add: dataservice_decode_and_dispatch_def Let_def)

lemma status_responses:
  "dataservice_decode_response_transaction_submit (response_packet 15 i st None) =
     Inr \<lparr> method_code = 15, resp_offset = i, resp_status = st \<rparr>"
  "dataservice_decode_response_transaction_drop (response_packet 19 i st None) =
     Inr \<lparr> method_code = 19, resp_offset = i, resp_status = st \<rparr>"
  by (simp_all add: dataservice_decode_response_transaction_submit_def dataservice_decode_response_transaction_drop_def
      with_response_def Let_def)

text \<open>A handler on the database, with the child context found and the database open.\<close>

lemma run_details_Some:
  assumes "dataservice_child_context_lookup inst (child_index r) = Inr ctx" and "details (inst_ctx inst) = Some e"
    and "f ctx r e = Some ((st, e', p'), payload)"
  shows "run_request env m inst (Inr r) (\<lambda>ctx r. with_details inst ctx cap (f ctx r)) =
     Some (reply_with env m (child_index r) st payload (set_details inst e'))"
  using assms by (simp add: run_request_def with_details_def)

subsection \<open>The queue through the wire\<close>

locale wire_client = pq_client +
  fixes vc :: vccert and root_block :: bytes and index :: "32 word"
begin

lemma submit_reply:
  assumes h: "wire_holds ev child index inst q" and ok: "wire_ok x" and fresh: "fst x \<notin> fst ` set q"
  shows "\<exists>e'. dataservice_decode_and_dispatch ops vc root_block att env_ok inst (net32 15 @ net32 index @ fst x @ fst (snd x) @ snd (snd x)) =
      Some (AGENTD_STATUS_SUCCESS, [response_packet 15 index AGENTD_STATUS_SUCCESS None], set_details inst e') \<and>
    wire_holds ev child index (set_details inst e') (q @ [x])"
proof -
  obtain i a c where x: "x = (i, a, c)" by (cases x)
  obtain e where e: "details (inst_ctx inst) = Some e" "pq_holds (ev e pq_db) q" using h by (auto simp: wire_holds_def)
  have look: "dataservice_child_context_lookup inst index = Inr child" using h by (simp add: wire_holds_def)
  have sok: "submission_ok (i, a, c)" using ok x by (simp add: wire_ok_def)
  then have args: "submit_args i a c" "i \<noteq> zero_uuid" "i \<noteq> ff_uuid" "c \<noteq> []" by (simp_all add: submission_ok_def)
  have rep: "pq_rep (view e None pq_db) (map fst q)" using e by (simp add: pq_holds_def)
  obtain e' p' where s: "dataservice_transaction_submit ops att (op_malloc env_ok) child e None i a c =
      Some (AGENTD_STATUS_SUCCESS, e', p')"
    "view e' p' = (view e None)(pq_db := submit_kv att i a c (view e None pq_db))" "p' = None"
    using submit_reliable [OF rep args(1-3), of child "op_malloc env_ok" att] caps fresh x by (auto simp: pq_caps_def)
  let ?r = "\<lparr> child_index = index, submit_txn_id = i, submit_artifact_id = a, submit_cert = c \<rparr>"
  have dec: "dataservice_decode_request_transaction_submit (net32 index @ i @ a @ c) = Inr ?r"
    using args by (simp add: dataservice_decode_request_transaction_submit_def codec_defs submit_args_def)
  have "dataservice_decode_and_dispatch_transaction_submit ops att env_ok inst (net32 index @ i @ a @ c) =
      Some (AGENTD_STATUS_SUCCESS, [response_packet 15 index AGENTD_STATUS_SUCCESS None], set_details inst e')"
    unfolding dataservice_decode_and_dispatch_transaction_submit_def dec
    by (subst run_details_Some [where ctx = child and e = e and e' = e' and p' = p' and st = 0 and payload = None])
      (use look e(1) s(1) in simp_all)
  then have "dataservice_decode_and_dispatch ops vc root_block att env_ok inst (net32 15 @ net32 index @ fst x @ fst (snd x) @ snd (snd x)) =
      Some (AGENTD_STATUS_SUCCESS, [response_packet 15 index AGENTD_STATUS_SUCCESS None], set_details inst e')"
    by (simp add: x dispatch_queue_methods)
  moreover have "pq_holds (ev e' pq_db) (q @ [x])"
    using pq_holds_submit [OF e(2) sok, of att] fresh x s(2,3) by simp
  ultimately show ?thesis using h ok look by (auto simp: wire_holds_def wire_ok_def)
qed

lemma wire_submit_holds:
  assumes "wire_holds ev child index inst q" and "wire_ok x" and "fst x \<notin> fst ` set q"
  shows "\<exists>inst'. wire_submit ops vc root_block att index inst x = Some inst' \<and> wire_holds ev child index inst' (q @ [x])"
  using submit_reply [OF assms] by (auto simp: wire_submit_def wire_call_def wire_done_def split_beta
      dataservice_encode_request_transaction_submit_def request_buffer_def status_responses)

lemma drop_reply:
  assumes h: "wire_holds ev child index inst q" and x: "x \<in> set q"
  shows "length (fst x) = 16 \<and> (\<exists>e'. dataservice_decode_and_dispatch ops vc root_block att env_ok inst (net32 19 @ net32 index @ fst x) =
      Some (AGENTD_STATUS_SUCCESS, [response_packet 19 index AGENTD_STATUS_SUCCESS None], set_details inst e') \<and>
    wire_holds ev child index (set_details inst e') (remove1 x q))"
proof -
  obtain e where e: "details (inst_ctx inst) = Some e" "pq_holds (ev e pq_db) q" using h by (auto simp: wire_holds_def)
  have look: "dataservice_child_context_lookup inst index = Inr child" using h by (simp add: wire_holds_def)
  have rep: "pq_rep (view e None pq_db) (map fst q)" using e by (simp add: pq_holds_def)
  have "entry_ok (view e None pq_db) (fst x)" using x by (auto intro: pq_rep_entry [OF rep, of "fst x"])
  then have len: "length (fst x) = 16" by (rule entry_ok_length)
  obtain e' p' where s: "dataservice_transaction_drop_internal ops (op_malloc env_ok) e None (fst x) =
      (AGENTD_STATUS_SUCCESS, e', p')"
    "view e' p' = (view e None)(pq_db := drop_kv (view e None pq_db) (fst x))" "p' = None"
    using drop_reliable [OF rep, of "fst x" "op_malloc env_ok"] x by auto
  let ?r = "\<lparr> child_index = index, req_txn_id = fst x \<rparr>"
  have dec: "dataservice_decode_request_transaction_drop (net32 index @ fst x) = Inr ?r"
    using len by (simp add: dataservice_decode_request_transaction_drop_def codec_defs)
  have "dataservice_decode_and_dispatch_transaction_drop ops env_ok inst (net32 index @ fst x) =
      Some (AGENTD_STATUS_SUCCESS, [response_packet 19 index AGENTD_STATUS_SUCCESS None], set_details inst e')"
    unfolding dataservice_decode_and_dispatch_transaction_drop_def dec
    by (subst run_details_Some [where ctx = child and e = e and e' = e' and p' = p' and st = 0 and payload = None])
      (use look e(1) s(1) caps in \<open>simp_all add: dataservice_transaction_drop_def pq_caps_def\<close>)
  then have "dataservice_decode_and_dispatch ops vc root_block att env_ok inst (net32 19 @ net32 index @ fst x) =
      Some (AGENTD_STATUS_SUCCESS, [response_packet 19 index AGENTD_STATUS_SUCCESS None], set_details inst e')"
    by (simp add: dispatch_queue_methods)
  moreover have "pq_holds (ev e' pq_db) (remove1 x q)"
    using pq_holds_drop [OF e(2) x] s(2,3) by simp
  ultimately show ?thesis using h look len set_remove1_subset [of x q] by (auto simp: wire_holds_def)
qed

lemma wire_drop_holds:
  assumes "wire_holds ev child index inst q" and "x \<in> set q"
  shows "\<exists>inst'. wire_drop ops vc root_block att index inst (fst x) = Some inst' \<and>
    wire_holds ev child index inst' (remove1 x q)"
  using drop_reply [OF assms] by (auto simp: wire_drop_def wire_call_def wire_done_def
      dataservice_encode_request_transaction_drop_def request_buffer_def status_responses)

text \<open>The reply to a request for the first transaction of the queue.\<close>

lemma first_handler:
  assumes look: "dataservice_child_context_lookup inst index = Inr child" and e: "details (inst_ctx inst) = Some e"
    and g: "dataservice_transaction_get_first ops True child e None = ((st, e', p'), r)"
  shows "dataservice_decode_and_dispatch ops vc root_block att env_ok inst (net32 17 @ net32 index) =
    Some (AGENTD_STATUS_SUCCESS, [response_packet 17 index st (map_option (\<lambda>(n, c).
      node_key n @ node_prev n @ node_next n @ node_artifact_id n @ mem32 (net_txn_state n) @ c) r)], set_details inst e')"
proof -
  have dec: "dataservice_decode_request_transaction_get_first (net32 index) = Inr \<lparr> child_index = index \<rparr>"
    by (simp add: dataservice_decode_request_transaction_get_first_def codec_defs)
  show ?thesis
    unfolding dispatch_queue_methods dataservice_decode_and_dispatch_transaction_get_first_def dec
    by (subst run_details_Some [where ctx = child and e = e and e' = e' and p' = p' and st = st])
      (use look e g in \<open>auto simp: encode_found_def dataservice_encode_response_transaction_get_first_def
        response_payload_def split: option.splits\<close>)
qed

end

context wire_client
begin

lemma first_reply_Nil:
  assumes h: "wire_holds ev child index inst []"
  shows "\<exists>e'. dataservice_decode_and_dispatch ops vc root_block att env_ok inst (net32 17 @ net32 index) =
    Some (AGENTD_STATUS_SUCCESS, [response_packet 17 index AGENTD_ERROR_DATASERVICE_NOT_FOUND None], set_details inst e')"
proof -
  obtain e where e: "details (inst_ctx inst) = Some e" "pq_holds (ev e pq_db) []" using h by (auto simp: wire_holds_def)
  have look: "dataservice_child_context_lookup inst index = Inr child" using h by (simp add: wire_holds_def)
  obtain e' p' where "dataservice_transaction_get_first ops True child e None =
      ((AGENTD_ERROR_DATASERVICE_NOT_FOUND, e', p'), None)"
    using get_first_empty [of e None child True] e caps by (auto simp: pq_holds_def pq_caps_def)
  from first_handler [OF look e(1) this] show ?thesis by auto
qed

lemma not_found_response:
  "dataservice_decode_response_transaction_get_first (response_packet 17 i AGENTD_ERROR_DATASERVICE_NOT_FOUND None) =
     Inr (\<lparr> method_code = 17, resp_offset = i, resp_status = AGENTD_ERROR_DATASERVICE_NOT_FOUND \<rparr>, None)"
  by (simp add: dataservice_decode_response_transaction_get_first_def decode_response_txn_node_def with_response_def Let_def)

lemma wire_first_Nil:
  assumes "wire_holds ev child index inst []"
  shows "wire_first ops vc root_block att index inst = None"
  using first_reply_Nil [OF assms] by (auto simp: wire_first_def wire_call_def not_found_response
      dataservice_encode_request_transaction_get_first_def request_buffer_def)

lemma first_reply_Cons:
  assumes h: "wire_holds ev child index inst (x # q)"
  shows "\<exists>e' resp n. dataservice_decode_and_dispatch ops vc root_block att env_ok inst (net32 17 @ net32 index) =
      Some (AGENTD_STATUS_SUCCESS, [resp], set_details inst e') \<and> length resp = 80 + length (snd (snd x)) \<and>
    dataservice_decode_response_transaction_get_first resp =
      Inr (\<lparr> method_code = 17, resp_offset = index, resp_status = AGENTD_STATUS_SUCCESS \<rparr>, Some (n, snd (snd x))) \<and>
    node_key n = fst x \<and> node_artifact_id n = fst (snd x) \<and> wire_holds ev child index (set_details inst e') (x # q)"
proof -
  obtain e where e: "details (inst_ctx inst) = Some e" "pq_holds (ev e pq_db) (x # q)"
    using h by (auto simp: wire_holds_def)
  let ?v = "ev e pq_db"
  let ?n = "node_at ?v (fst x)"
  have look: "dataservice_child_context_lookup inst index = Inr child" using h by (simp add: wire_holds_def)
  have rep: "pq_rep (view e None pq_db) (fst x # map fst q)" using e by (simp add: pq_holds_def)
  have c: "content ?v (fst x) = snd x" "snd (snd x) \<noteq> []" using e by (simp_all add: pq_holds_def)
  obtain e' p' where g: "dataservice_transaction_get_first ops True child e None =
      ((AGENTD_STATUS_SUCCESS, e', p'), Some (?n, snd (snd x)))"
    using get_first_reliable [OF rep, of child] c caps by (auto simp: pq_caps_def)
  have ev: "ev e' = ev e" using get_first_unchanged [of e None True child] unfolding g by (cases p') simp_all
  have ok: "entry_ok ?v (fst x)" by (rule pq_rep_entry [OF rep, of "fst x"]) simp_all
  have key: "node_key ?n = fst x" and wf: "txn_node_wf ?n" using entry_okD [OF ok] by auto
  have art: "node_artifact_id ?n = fst (snd x)" using c(1) by (metis content_def fst_conv)
  have "length (snd (snd x)) < 2 ^ 32" using h by (simp add: wire_holds_def)
  from transaction_get_first_response [OF wf this, of _ index] obtain n' where
    r: "dataservice_decode_response_transaction_get_first (response_packet 17 index AGENTD_STATUS_SUCCESS
        (Some (node_key ?n @ node_prev ?n @ node_next ?n @ node_artifact_id ?n @ mem32 (net_txn_state ?n) @ snd (snd x)))) =
      Inr (\<lparr> method_code = 17, resp_offset = index, resp_status = AGENTD_STATUS_SUCCESS \<rparr>, Some (n', snd (snd x)))"
    "node_key n' = node_key ?n" "node_artifact_id n' = node_artifact_id ?n"
    by (auto simp: dataservice_encode_response_transaction_get_first_def response_payload_def)
  have "wire_holds ev child index (set_details inst e') (x # q)" using h e ev by (simp add: wire_holds_def)
  moreover have "length (node_key ?n @ node_prev ?n @ node_next ?n @ node_artifact_id ?n @ mem32 (net_txn_state ?n) @ snd (snd x)) =
      68 + length (snd (snd x))" using wf by (simp add: txn_node_wf_def)
  ultimately show ?thesis using first_handler [OF look e(1) g] r key art by (auto simp del: length_append)
qed

lemma wire_first_Cons:
  assumes "wire_holds ev child index inst (x # q)"
  shows "\<exists>inst'. wire_first ops vc root_block att index inst = Some (x, inst') \<and> wire_holds ev child index inst' (x # q)"
  using first_reply_Cons [OF assms] by (auto simp: wire_first_def wire_call_def
      dataservice_encode_request_transaction_get_first_def request_buffer_def)

end

sublocale wire_client \<subseteq> wire: fifo_queue "wire_submit ops vc root_block att index" "wire_first ops vc root_block att index"
  "wire_drop ops vc root_block att index" fst wire_ok "wire_holds ev child index"
proof unfold_locales
  show "distinct (map fst q)" if "wire_holds ev child index s q" for s q
    using that by (auto simp: wire_holds_def pq_holds_def pq_rep_def)
qed (use wire_submit_holds wire_first_Nil wire_first_Cons wire_drop_holds in auto)

context wire_client
begin

lemmas wire_fifo = wire.fifo

end

interpretation mem_wire: wire_client mem_lmdb "\<lambda>e. e" "\<lambda>t. t" att full_child vc root_block index
  for att vc root_block index
  by unfold_locales

end
