(* ===== verification/Ds_Block_Live.thy ===== *)
theory Ds_Block_Live
  imports Ds_Block_Correct Ds_Queue_Fifo
begin

text \<open>
  On a store that does not fail, a block whose certificate extends the chain and
  whose transactions are all pending is made: \<open>dataservice_block_make\<close> returns
  success and the contents are those of \<open>block_added\<close>.
\<close>

subsection \<open>Blocks that can be made\<close>

text \<open>
  The transactions of a block, in order, against the identifiers \<open>q\<close> that are
  pending and those \<open>known\<close> to be canonized: each is pending, and follows either
  nothing or a canonized transaction.
\<close>

fun children_valid :: "vccert \<Rightarrow> bytes list \<Rightarrow> bytes set \<Rightarrow> bytes list \<Rightarrow> bool" where
  "children_valid vc q known [] \<longleftrightarrow> True"
| "children_valid vc q known (c # cs) \<longleftrightarrow> vccert_parser_init_ok vc c \<and>
     find_sized vc c VCCERT_FIELD_TYPE_ARTIFACT_ID 16 \<noteq> None \<and>
     find_sized vc c VCCERT_FIELD_TYPE_NEW_ARTIFACT_STATE 4 \<noteq> None \<and>
     (case find_sized vc c VCCERT_FIELD_TYPE_CERTIFICATE_ID 16 of None \<Rightarrow> False | Some i \<Rightarrow>
        i \<in> set q \<and> i \<notin> known \<and>
        (case find_sized vc c VCCERT_FIELD_TYPE_PREVIOUS_CERTIFICATE_ID 16 of None \<Rightarrow> False | Some pr \<Rightarrow>
           pr = zero_uuid \<or> pr \<in> known) \<and>
        children_valid vc (remove1 i q) (insert i known) cs)"

definition block_valid :: "vccert \<Rightarrow> bytes \<Rightarrow> bytes list \<Rightarrow> bytes list \<Rightarrow> bytes set \<Rightarrow> bytes \<Rightarrow> bytes \<Rightarrow> bool" where
  "block_valid vc root ids q known block_id block_data \<longleftrightarrow>
     vccrypt_suite_options_init_ok vc \<and> vccert_parser_options_simple_init_ok vc \<and>
     vccert_parser_init_ok vc block_data \<and>
     find_sized vc block_data VCCERT_FIELD_TYPE_BLOCK_UUID 16 = Some block_id \<and>
     find_sized vc block_data VCCERT_FIELD_TYPE_BLOCK_HEIGHT 8 = Some (net64 (of_nat (Suc (length ids)))) \<and>
     find_sized vc block_data VCCERT_FIELD_TYPE_PREVIOUS_BLOCK_UUID 16 = Some (last (root # ids)) \<and>
     block_id \<notin> set (root # zero_uuid # ff_uuid # ids) \<and>
     vccert_fields vc block_data VCCERT_FIELD_TYPE_WRAPPED_TRANSACTION_TUPLE \<noteq> [] \<and>
     children_valid vc q known (vccert_fields vc block_data VCCERT_FIELD_TYPE_WRAPPED_TRANSACTION_TUPLE)"

subsection \<open>The transactions\<close>

context lmdb_reliable
begin

lemma update_artifact_reliable:
  assumes "artifacts_ok (tv t d)"
  shows "\<exists>t'. dataservice_block_make_update_artifact ops d t art i h s = (AGENTD_STATUS_SUCCESS, t')"
proof (cases "tv t d art")
  case None
  then have g: "mdb_get_lval ops t d art = (MDB_NOTFOUND, [])" by (rule lval_None)
  let ?r = "\<lparr> artifact_key = art, txn_first = i, txn_latest = i, net_height_first = htonll h,
    net_height_latest = htonll h, net_state_latest = htonl s, artifact_pad = replicate 4 0 \<rparr>"
  obtain t' where "mdb_put ops t d art (artifact_record_bytes ?r) 16 = (0, t')" using put_new None by blast
  then show ?thesis using g by (simp add: dataservice_block_make_update_artifact_def Let_def)
next
  case (Some b)
  then have g: "mdb_get_lval ops t d art = (0, b)" and len: "length b = 72"
    using lval_Some assms by (auto simp: artifacts_ok_def)
  let ?r = "(artifact_record_of b)\<lparr>txn_latest := i, net_height_latest := htonll h, net_state_latest := htonl s\<rparr>"
  obtain t' where "mdb_put ops t d (artifact_key ?r) (artifact_record_bytes ?r) 0 = (0, t')" using put_zero by blast
  then show ?thesis using g len by (simp add: dataservice_block_make_update_artifact_def Let_def)
qed

lemma update_prev_txn_reliable:
  assumes "tv t d k = Some b" and "96 \<le> length b"
  shows "\<exists>t'. dataservice_block_make_update_prev_txn ops True d t k nxt = (AGENTD_STATUS_SUCCESS, t') \<and>
     (\<forall>d'. d' \<noteq> d \<longrightarrow> tv t' d' = tv t d')"
proof -
  have g: "mdb_get_lval ops t d k = (0, b)" using assms lval_Some by blast
  obtain t' where "mdb_put ops t d k (store_at offsetof_node_next nxt b) 0 = (0, t')"
    and "tv t' = (tv t)(d := (tv t d)(k \<mapsto> store_at offsetof_node_next nxt b))"
    using put_reliable [of 0 t d k] by blast
  then show ?thesis using g assms(2) by (simp add: dataservice_block_make_update_prev_txn_def Let_def)
qed

lemma process_child_reliable:
  assumes rep: "pq_rep (tv t pq_db) q" and txns: "txns_ok (tv t txn_db)" and arts: "artifacts_ok (tv t artifact_db)"
    and valid: "children_valid vc q (dom (tv t txn_db)) [c]" and mem: "\<And>i. m i"
  shows "\<exists>t'. dataservice_block_make_process_child ops vc m e t h block_id c = (AGENTD_STATUS_SUCCESS, t')"
proof -
  obtain i pr art s where f: "find_sized vc c VCCERT_FIELD_TYPE_CERTIFICATE_ID 16 = Some i"
    "find_sized vc c VCCERT_FIELD_TYPE_PREVIOUS_CERTIFICATE_ID 16 = Some pr"
    "find_sized vc c VCCERT_FIELD_TYPE_ARTIFACT_ID 16 = Some art"
    "find_sized vc c VCCERT_FIELD_TYPE_NEW_ARTIFACT_STATE 4 = Some s"
    and v: "vccert_parser_init_ok vc c" "i \<in> set q" "tv t txn_db i = None" "pr = zero_uuid \<or> pr \<in> dom (tv t txn_db)"
    using valid by (fastforce split: option.splits)
  let ?n = "txn_node_bytes (canonized_node i pr art block_id c) @ c"
  obtain t1 where put: "mdb_put ops t txn_db i ?n MDB_NOOVERWRITE = (0, t1)"
    "tv t1 = (tv t)(txn_db := (tv t txn_db)(i \<mapsto> ?n))"
    using put_reliable [of MDB_NOOVERWRITE t txn_db i ?n] v(3) by auto
  have rep1: "pq_rep (base_view ev tv e (Some t1) pq_db) q" using rep put(2) by simp
  obtain e' p' where dr: "dataservice_transaction_drop_internal ops (\<lambda>i. m (Suc i)) e (Some t1) i = (AGENTD_STATUS_SUCCESS, e', p')"
    "base_view ev tv e' p' = (tv t1)(pq_db := drop_kv (tv t1 pq_db) i)" "p' = None \<longleftrightarrow> False"
    using drop_reliable [OF rep1 v(2), of "\<lambda>i. m (Suc i)"] mem by auto
  then obtain t2 where t2: "p' = Some t2" "tv t2 = (tv t1)(pq_db := drop_kv (tv t1 pq_db) i)" by (cases p') auto
  obtain t3 where up: "(if pr \<noteq> zero_uuid
      then dataservice_block_make_update_prev_txn ops (m 3) txn_db t2 pr i else (AGENTD_STATUS_SUCCESS, t2)) = (0, t3)"
    and t3: "tv t3 artifact_db = tv t2 artifact_db"
  proof (cases "pr = zero_uuid")
    case False
    then obtain b where b: "tv t txn_db pr = Some b" using v(4) by auto
    moreover have "pr \<noteq> i" using b v(3) by auto
    ultimately have "tv t2 txn_db pr = Some b" "96 \<le> length b" using t2 put(2) txns by (auto simp: txns_ok_def)
    then show ?thesis using update_prev_txn_reliable [of t2 txn_db pr b i] that False mem by auto
  qed (use that in simp)
  have "artifacts_ok (tv t3 artifact_db)" using arts t3 t2 put(2) by simp
  then obtain t4 where "dataservice_block_make_update_artifact ops artifact_db t3 art i h (ntohl (of_mem32 s)) = (0, t4)"
    using update_artifact_reliable by blast
  then show ?thesis unfolding dataservice_block_make_process_child_def Let_def f option.case put(1) prod.case dr(1) t2(1) option.sel up
    using v(1) mem by auto
qed

lemma process_children_reliable:
  assumes "pq_rep (tv t pq_db) q" and "txns_ok (tv t txn_db)" and "artifacts_ok (tv t artifact_db)"
    and "children_valid vc q (dom (tv t txn_db)) cs" and "\<And>j i. m j i"
    and "length block_id = 16" and "\<forall>c \<in> set cs. length c + 96 < 2 ^ 64"
  shows "\<exists>t'. block_make_process_children ops vc m e t h block_id n cs = (AGENTD_STATUS_SUCCESS, t')"
  using assms
proof (induction cs arbitrary: t n q)
  case (Cons c cs)
  have one: "children_valid vc q (dom (tv t txn_db)) [c]" using Cons.prems(4) by (auto split: option.splits)
  obtain t1 where p: "dataservice_block_make_process_child ops vc (m n) e t h block_id c = (0, t1)"
    using process_child_reliable [OF Cons.prems(1-3) one, of "m n"] Cons.prems(5) by blast
  obtain i where i: "i \<in> set q" "child_effect vc h block_id c i (tv t) (tv t1)"
    using process_child_outcome [OF p Cons.prems(1,3,6)] Cons.prems(7) by auto
  have fi: "find_sized vc c VCCERT_FIELD_TYPE_CERTIFICATE_ID 16 = Some i" using i(2) by (simp add: child_effect_def)
  have "pq_rep (tv t1 pq_db) (remove1 i q)"
    using drop_rep(1) [OF Cons.prems(1) i(1)] i(2) by (simp add: child_effect_def)
  moreover have "txns_ok (tv t1 txn_db)" "artifacts_ok (tv t1 artifact_db)" "dom (tv t1 txn_db) = insert i (dom (tv t txn_db))"
    using i(2) Cons.prems(2) by (simp_all add: child_effect_def)
  moreover have "children_valid vc (remove1 i q) (insert i (dom (tv t txn_db))) cs"
    using Cons.prems(4) fi by simp
  ultimately have "\<exists>t'. block_make_process_children ops vc m e t1 h block_id (Suc n) cs = (AGENTD_STATUS_SUCCESS, t')"
    by (intro Cons.IH [of t1 "remove1 i q" "Suc n"]) (use Cons.prems(5-7) in simp_all)
  then show ?case using p by simp
qed simp

end

subsection \<open>The block\<close>

text \<open>The end node carries the height and the last block of the chain.\<close>

lemma block_rep_end:
  assumes rep: "block_rep root w ids"
  shows "(case end_node_of w of Some n \<Rightarrow> 1 + ntohll (net_block_height n) | None \<Rightarrow> 1) = of_nat (Suc (length ids)) \<and>
    (case end_node_of w of Some n \<Rightarrow> block_prev n | None \<Rightarrow> root) = last (root # ids)"
proof (cases "w block_db ff_uuid")
  case None
  then show ?thesis using block_rep_uninitialised [OF rep] by (simp add: end_node_of_def)
next
  case (Some b)
  then show ?thesis using block_rep_initialised(1,9,10) [OF rep] by (simp add: end_node_of_def block_at_def)
qed

text \<open>The constraints on a valid block hold, with the expected values.\<close>

lemma block_valid_constraints:
  assumes rep: "block_rep root w ids" and valid: "block_valid vc root ids q known block_id data"
  shows "constraint_matching_block_height vc data (end_node_of w) = (AGENTD_STATUS_SUCCESS, of_nat (Suc (length ids)))"
    and "constraint_matching_prev_uuid vc root data (end_node_of w) = (AGENTD_STATUS_SUCCESS, last (root # ids))"
    and "constraint_sane_block_uuid vc root data block_id = AGENTD_STATUS_SUCCESS"
proof -
  note block_rep_end [OF rep]
  then show "constraint_matching_block_height vc data (end_node_of w) = (AGENTD_STATUS_SUCCESS, of_nat (Suc (length ids)))"
    "constraint_matching_prev_uuid vc root data (end_node_of w) = (AGENTD_STATUS_SUCCESS, last (root # ids))"
    using valid by (simp_all add: constraint_matching_block_height_def constraint_matching_prev_uuid_def
        block_valid_def Let_def net64_def del: of_nat_Suc)
  show "constraint_sane_block_uuid vc root data block_id = AGENTD_STATUS_SUCCESS"
    using valid by (simp add: constraint_sane_block_uuid_def block_valid_def)
qed

lemma block_valid_fresh:
  assumes rep: "block_rep root w ids" and valid: "block_valid vc root ids q known block_id data"
  shows "w block_db block_id = None"
proof (cases "w block_db ff_uuid")
  case None
  then show ?thesis using block_rep_uninitialised [OF rep] by simp
next
  case (Some b)
  then have "dom (w block_db) = set (zero_uuid # ids @ [ff_uuid])" using block_rep_initialised(4) [OF rep] by simp
  then show ?thesis using valid by (auto simp: block_valid_def)
qed

lemma block_valid_first:
  assumes "block_valid vc root ids q known block_id data"
    and "vccert_fields vc data VCCERT_FIELD_TYPE_WRAPPED_TRANSACTION_TUPLE = c # cs"
  shows "\<exists>i. dataservice_make_block_get_first_transaction_id vc c = (AGENTD_STATUS_SUCCESS, i)"
  using assms by (auto simp: block_valid_def dataservice_make_block_get_first_transaction_id_def split: option.splits)

context lmdb_reliable
begin

lemma query_end_reliable:
  assumes rep: "block_rep root (tv t) ids"
  shows "query_end_node ops t block_db = (AGENTD_STATUS_SUCCESS, end_node_of (tv t))"
proof (cases "tv t block_db ff_uuid")
  case None
  then show ?thesis using lval_None [of t block_db ff_uuid] by (simp add: query_end_node_def end_node_of_def)
next
  case (Some b)
  then show ?thesis using lval_Some [of t block_db ff_uuid b] block_rep_initialised(6) [OF rep]
    by (simp add: query_end_node_def end_node_of_def)
qed

lemma insert_block_reliable:
  assumes "tv t block_db block_id = None" and "tv t height_db (net64 h) = None"
  shows "\<exists>t'. dataservice_make_block_insert_block ops True block_db height_db t block_id prev first h data =
     (AGENTD_STATUS_SUCCESS, t')"
proof -
  let ?n = "make_blocknode block_id prev first h data"
  have n: "block_key ?n = block_id" "net_block_height ?n = htonll h" by (simp_all add: make_blocknode_def)
  obtain t1 where p: "mdb_put ops t block_db block_id (block_entry block_id prev first h data) 16 = (0, t1)"
    "tv t1 = (tv t)(block_db := (tv t block_db)(block_id \<mapsto> block_entry block_id prev first h data))"
    using put_reliable [of 16 t block_db block_id "block_entry block_id prev first h data"] assms(1) by auto
  obtain t2 where "mdb_put ops t1 height_db (net64 h) block_id 16 = (0, t2)"
    using put_new [of t1 height_db "net64 h" block_id 16] p(2) assms(2) by auto
  then show ?thesis using p(1) unfolding dataservice_make_block_insert_block_def Let_def n
      block_entry_def [symmetric] net64_def [symmetric] by simp
qed

lemma block_update_prev_reliable:
  assumes ok: "block_entry_ok (tv t d) prev"
  shows "\<exists>t'. dataservice_block_make_update_prev ops True d t block_id prev = Some (AGENTD_STATUS_SUCCESS, t')"
proof -
  obtain b where b: "tv t d prev = Some b" "80 \<le> length b" "length b < 2 ^ 64"
    "unat (ntohll (net_block_cert_size (block_node_of b))) = length b - 80"
    using block_entry_okD [OF ok] by blast
  have size: "unat (80 + ntohll (of_mem64 (slice 72 8 b))) = length b"
    using b by (simp add: block_node_of_def unat_word_ariths)
  have g: "mdb_get_lval ops t d prev = (0, b)" using b(1) by (rule lval_Some)
  obtain t' where "mdb_put ops t d prev (store_at 32 block_id b) 0 = (0, t')" using put_zero by blast
  then show ?thesis using b(2) size by (simp add: dataservice_block_make_update_prev_def g Let_def)
qed

lemma block_link_reliable:
  assumes rep: "block_rep root w ids" and fresh: "w block_db block_id = None"
    and t1: "tv t1 block_db = (w block_db)(block_id \<mapsto> b)"
  shows "\<exists>t2. block_make_link ops True t1 block_id h (end_node_of w) = Some (AGENTD_STATUS_SUCCESS, t2)"
proof (cases "w block_db ff_uuid")
  case None
  obtain t2 t3 where "mdb_put ops t1 block_db zero_uuid (block_node_bytes (block_node_zero\<lparr>block_next := block_id\<rparr>)) 0 = (0, t2)"
    "mdb_put ops t2 block_db ff_uuid (block_node_bytes (block_node_zero\<lparr>block_key := ff_uuid, block_next := ff_uuid,
       block_prev := block_id, net_block_height := htonll h\<rparr>)) 0 = (0, t3)"
    using put_zero by meson
  then show ?thesis using None
    by (simp add: block_make_link_def end_node_of_def dataservice_block_make_create_queue_def Let_def block_node_zero_def)
next
  case (Some f)
  have init: "w block_db ff_uuid \<noteq> None" using Some by simp
  note q = block_rep_initialised [OF rep init]
  have pin: "last ids \<in> dom (w block_db)" using q(1,4) by auto
  then have "last ids \<noteq> block_id" using fresh by auto
  then have "block_entry_ok (tv t1 block_db) (last ids)" using q(5) [OF pin] t1 by (simp add: block_entry_ok_def)
  then obtain t2 where u: "dataservice_block_make_update_prev ops True block_db t1 block_id (last ids) = Some (AGENTD_STATUS_SUCCESS, t2)"
    using block_update_prev_reliable by blast
  obtain t3 where "mdb_put ops t2 block_db (block_key (block_node_of f))
      (block_node_bytes ((block_node_of f)\<lparr>block_prev := block_id, net_block_height := htonll h\<rparr>)) 0 = (0, t3)"
    using put_zero by blast
  moreover have "block_prev (block_node_of f) = last ids" using q(9) Some by (simp add: block_at_def)
  ultimately show ?thesis using u Some
    by (simp add: block_make_link_def end_node_of_def dataservice_block_make_update_end_def Let_def)
qed

end

text \<open>What the store is required to hold before a block is made.\<close>

definition chain_state :: "bytes \<Rightarrow> kvs \<Rightarrow> bytes list \<Rightarrow> bytes list \<Rightarrow> bool" where
  "chain_state root w ids q \<longleftrightarrow> block_rep root w ids \<and> pq_rep (w pq_db) q \<and> artifacts_ok (w artifact_db) \<and>
     txns_ok (w txn_db) \<and> length root = 16"

definition block_sizes_ok :: "vccert \<Rightarrow> bytes list \<Rightarrow> bytes \<Rightarrow> bytes \<Rightarrow> bool" where
  "block_sizes_ok vc ids block_id data \<longleftrightarrow> length block_id = 16 \<and> length data + 80 < 2 ^ 64 \<and>
     Suc (length ids) < 2 ^ 64 \<and>
     (\<forall>c \<in> set (vccert_fields vc data VCCERT_FIELD_TYPE_WRAPPED_TRANSACTION_TUPLE). length c + 96 < 2 ^ 64)"

context lmdb_reliable
begin

lemma block_make_committed:
  assumes st: "chain_state root (view e p) ids q"
    and valid: "block_valid vc root ids q (dom (view e p txn_db)) block_id data"
    and sizes: "block_sizes_ok vc ids block_id data"
    and cap: "BITCAP_ISSET (childcaps child) DATASERVICE_API_CAP_APP_BLOCK_WRITE"
  shows "\<exists>t. dataservice_block_make ops vc root (\<lambda>_ _. True) child e p block_id data =
     Some (commit_with ops e p t AGENTD_STATUS_SUCCESS) \<and> tv t block_db block_id \<noteq> None"
proof -
  have rep: "block_rep root (view e p) ids" and pq: "pq_rep (view e p pq_db) q"
    and art: "artifacts_ok (view e p artifact_db)" and txns: "txns_ok (view e p txn_db)"
    using st by (simp_all add: chain_state_def)
  have len: "length block_id = 16" "Suc (length ids) < 2 ^ 64" using sizes by (simp_all add: block_sizes_ok_def)
  let ?h = "of_nat (Suc (length ids)) :: 64 word"
  obtain c cs where cs: "vccert_fields vc data VCCERT_FIELD_TYPE_WRAPPED_TRANSACTION_TUPLE = c # cs"
    using valid by (auto simp: block_valid_def neq_Nil_conv)
  obtain f where f: "dataservice_make_block_get_first_transaction_id vc c = (AGENTD_STATUS_SUCCESS, f)"
    using block_valid_first [OF valid cs] by blast
  obtain t0 where t0: "mdb_txn_begin ops e p 0 = (0, t0)" "tv t0 = view e p" by (rule begin_reliable)
  have qe: "query_end_node ops t0 block_db = (AGENTD_STATUS_SUCCESS, end_node_of (view e p))"
    using query_end_reliable [of root t0 ids] rep t0(2) by simp
  have fresh: "tv t0 block_db block_id = None" using block_valid_fresh [OF rep valid] t0(2) by simp
  have unatS: "unat ?h = Suc (length ids)" using len(2) by (simp add: unat_of_nat del: of_nat_Suc)
  have hfree: "tv t0 height_db (net64 ?h) = None"
    using rep t0(2) unatS by (simp add: block_rep_def height_index_def del: of_nat_Suc)
  obtain t1 where ins: "dataservice_make_block_insert_block ops True block_db height_db t0 block_id (last (root # ids)) f ?h data =
      (AGENTD_STATUS_SUCCESS, t1)" using insert_block_reliable [OF fresh hfree] by blast
  note t1 = insert_block_outcome(1) [OF ins]
  have rep0: "block_rep root (tv t0) ids" using rep t0 by simp
  obtain s2 t2 where link0: "block_make_link ops True t1 block_id ?h (end_node_of (tv t0)) = Some (s2, t2)"
    and t2': "s2 = AGENTD_STATUS_SUCCESS \<Longrightarrow> tv t2 = (tv t0)(block_db := blocks_kv (tv t0 block_db) block_id
        (block_entry block_id (last (root # ids)) f ?h data) ?h, height_db := (tv t0 height_db)(net64 ?h \<mapsto> block_id))"
    by (rule block_insert_outcome [OF rep0 len(1) ins, where m' = True], rule that, assumption, blast)
  have "tv t1 block_db = (tv t0 block_db)(block_id \<mapsto> block_entry block_id (last (root # ids)) f ?h data)"
    unfolding t1 by simp
  from block_link_reliable [OF rep0 fresh this] link0 have s2: "s2 = AGENTD_STATUS_SUCCESS" by (metis option.inject prod.inject)
  note link = link0 [unfolded s2] and t2 = t2' [OF s2]
  obtain t3 where ch: "block_make_process_children ops vc (\<lambda>_ _. True) e t2 ?h block_id 0 (c # cs) = (AGENTD_STATUS_SUCCESS, t3)"
    using process_children_reliable [of t2 q vc "c # cs" "\<lambda>_ _. True" block_id e ?h 0] t2 t0(2) pq txns art valid cs sizes
    by (auto simp: block_valid_def block_sizes_ok_def simp del: of_nat_Suc)
  obtain "is" where "children_effect vc ?h block_id (c # cs) is (tv t2) (tv t3)"
    using process_children_outcome [OF ch, of q] t2 t0(2) pq art sizes cs by (auto simp: block_sizes_ok_def simp del: of_nat_Suc)
  then have "tv t3 block_db = tv t2 block_db" using children_effect_frame by blast
  moreover have "blocks_kv (tv t0 block_db) block_id b' h' block_id \<noteq> None" for b' h'
    by (simp add: blocks_kv_def Let_def)
  ultimately have "tv t3 block_db block_id \<noteq> None" using t2 by simp
  moreover have "dataservice_block_make ops vc root (\<lambda>_ _. True) child e p block_id data =
     Some (commit_with ops e p t3 AGENTD_STATUS_SUCCESS)"
    using cap valid block_valid_constraints [OF rep valid] qe cs f ins link ch t0
    unfolding dataservice_block_make_def Let_def dataservice_create_child_trasaction_def block_make_link_def [symmetric]
    by (simp add: block_valid_def del: of_nat_Suc)
  ultimately show ?thesis by blast
qed

lemma block_make_reliable:
  assumes st: "chain_state root (view e p) ids q"
    and valid: "block_valid vc root ids q (dom (view e p txn_db)) block_id data"
    and sizes: "block_sizes_ok vc ids block_id data"
    and cap: "BITCAP_ISSET (childcaps child) DATASERVICE_API_CAP_APP_BLOCK_WRITE"
  shows "\<exists>e' p'. dataservice_block_make ops vc root (\<lambda>_ _. True) child e p block_id data =
     Some (AGENTD_STATUS_SUCCESS, e', p') \<and> block_added vc root ids q block_id data (view e' p')"
proof -
  obtain t where t: "dataservice_block_make ops vc root (\<lambda>_ _. True) child e p block_id data =
     Some (commit_with ops e p t AGENTD_STATUS_SUCCESS)" "tv t block_db block_id \<noteq> None"
    using block_make_committed [OF assms] by blast
  obtain e' p' where c: "commit_with ops e p t AGENTD_STATUS_SUCCESS = (AGENTD_STATUS_SUCCESS, e', p')" "view e' p' = tv t"
    by (rule commit_with_reliable)
  have "atomic_update ev tv e p (block_added vc root ids q block_id data) (AGENTD_STATUS_SUCCESS, e', p')"
    using block_make_atomic [of root e p ids q vc data block_id "\<lambda>_ _. True" child] st valid sizes t(1) c(1)
    by (auto simp: chain_state_def block_sizes_ok_def block_valid_def)
  moreover have "view e p block_db block_id = None"
    using block_valid_fresh [OF _ valid] st by (simp add: chain_state_def)
  ultimately show ?thesis using t c by auto
qed

end


subsection \<open>Only matching blocks are made\<close>

text \<open>Success implies that the certificate names the block and continues the chain.\<close>

context lmdb_store
begin

lemma block_make_checked:
  assumes rep: "block_rep root (view e p) ids"
    and r: "dataservice_block_make ops vc root m child e p block_id data = Some (AGENTD_STATUS_SUCCESS, e', p')"
  shows "find_sized vc data VCCERT_FIELD_TYPE_BLOCK_UUID 16 = Some block_id \<and> block_id \<notin> {root, zero_uuid, ff_uuid} \<and>
     find_sized vc data VCCERT_FIELD_TYPE_PREVIOUS_BLOCK_UUID 16 = Some (last (root # ids)) \<and>
     map_option of_net64 (find_sized vc data VCCERT_FIELD_TYPE_BLOCK_HEIGHT 8) = Some (of_nat (Suc (length ids)))"
proof -
  obtain rc0 t0 where beg: "mdb_txn_begin ops e p 0 = (rc0, t0)" by fastforce
  obtain s1 n where qe: "query_end_node ops t0 block_db = (s1, n)" by fastforce
  obtain s2 h where ch: "constraint_matching_block_height vc data n = (s2, h)" by fastforce
  obtain s3 u where cp: "constraint_matching_prev_uuid vc root data n = (s3, u)" by fastforce
  define s4 where "s4 = constraint_sane_block_uuid vc root data block_id"
  have ok: "rc0 = 0 \<and> s1 = 0 \<and> s2 = 0 \<and> s3 = 0 \<and> s4 = 0"
    using r unfolding dataservice_block_make_def Let_def dataservice_create_child_trasaction_def beg qe ch cp s4_def [symmetric]
    by (auto split: if_splits option.splits dest: abort_with_view(1) simp: qe ch cp)
  have "n = end_node_of (view e p)" using query_end_node_outcome [of t0 n] qe ok begin_view beg by simp
  then have "(case n of Some n \<Rightarrow> 1 + ntohll (net_block_height n) | None \<Rightarrow> 1) = of_nat (Suc (length ids)) \<and>
    (case n of Some n \<Rightarrow> block_prev n | None \<Rightarrow> root) = last (root # ids)"
    using block_rep_end [OF rep] by simp
  then show ?thesis using ch cp ok
    by (auto simp: s4_def constraint_matching_block_height_def constraint_matching_prev_uuid_def
        constraint_sane_block_uuid_def Let_def of_net64_def simp del: of_nat_Suc split: option.splits if_splits)
qed

end


subsection \<open>A concrete block\<close>

text \<open>A parser that knows one block certificate with one wrapped transaction.\<close>

definition demo_txn_cert :: bytes where
  "demo_txn_cert = replicate 16 7"

definition demo_block_cert :: bytes where
  "demo_block_cert = replicate 16 9"

definition demo_fields :: "bytes \<Rightarrow> vccert_field \<Rightarrow> bytes list" where
  "demo_fields cert f =
     (if cert = demo_block_cert then
        (case f of VCCERT_FIELD_TYPE_BLOCK_UUID \<Rightarrow> [demo_id 5]
         | VCCERT_FIELD_TYPE_BLOCK_HEIGHT \<Rightarrow> [net64 1]
         | VCCERT_FIELD_TYPE_PREVIOUS_BLOCK_UUID \<Rightarrow> [demo_id 4]
         | VCCERT_FIELD_TYPE_WRAPPED_TRANSACTION_TUPLE \<Rightarrow> [demo_txn_cert]
         | _ \<Rightarrow> [])
      else if cert = demo_txn_cert then
        (case f of VCCERT_FIELD_TYPE_CERTIFICATE_ID \<Rightarrow> [demo_id 1]
         | VCCERT_FIELD_TYPE_PREVIOUS_CERTIFICATE_ID \<Rightarrow> [zero_uuid]
         | VCCERT_FIELD_TYPE_ARTIFACT_ID \<Rightarrow> [demo_id 2]
         | VCCERT_FIELD_TYPE_NEW_ARTIFACT_STATE \<Rightarrow> [net32 3]
         | _ \<Rightarrow> [])
      else [])"

definition demo_vccert :: vccert where
  "demo_vccert = \<lparr> vccrypt_suite_options_init_ok = True, vccert_parser_options_simple_init_ok = True,
     vccert_parser_init_ok = \<lambda>_. True, vccert_fields = demo_fields \<rparr>"

definition demo_store :: mem_db where
  "demo_store = empty_db(pq_db := demo_queue)"

lemma demo_fields_simps:
  "find_sized demo_vccert demo_block_cert VCCERT_FIELD_TYPE_BLOCK_UUID 16 = Some (demo_id 5)"
  "find_sized demo_vccert demo_block_cert VCCERT_FIELD_TYPE_BLOCK_HEIGHT 8 = Some (net64 1)"
  "find_sized demo_vccert demo_block_cert VCCERT_FIELD_TYPE_PREVIOUS_BLOCK_UUID 16 = Some (demo_id 4)"
  "vccert_fields demo_vccert demo_block_cert VCCERT_FIELD_TYPE_WRAPPED_TRANSACTION_TUPLE = [demo_txn_cert]"
  "find_sized demo_vccert demo_txn_cert VCCERT_FIELD_TYPE_CERTIFICATE_ID 16 = Some (demo_id 1)"
  "find_sized demo_vccert demo_txn_cert VCCERT_FIELD_TYPE_PREVIOUS_CERTIFICATE_ID 16 = Some zero_uuid"
  "find_sized demo_vccert demo_txn_cert VCCERT_FIELD_TYPE_ARTIFACT_ID 16 = Some (demo_id 2)"
  "find_sized demo_vccert demo_txn_cert VCCERT_FIELD_TYPE_NEW_ARTIFACT_STATE 4 = Some (net32 3)"
  by (simp_all add: find_sized_def vccert_parser_find_short_def demo_vccert_def demo_fields_def
      demo_block_cert_def demo_txn_cert_def)

lemma demo_state: "chain_state (demo_id 4) demo_store [] [demo_id 1]"
  by (auto simp: chain_state_def demo_store_def demo_queue_rep block_rep_def height_index_def artifacts_ok_def txns_ok_def)

lemma demo_valid: "block_valid demo_vccert (demo_id 4) [] [demo_id 1] (dom (demo_store txn_db)) (demo_id 5) demo_block_cert"
  by (simp add: block_valid_def demo_fields_simps demo_store_def)
    (simp add: demo_vccert_def)

lemma demo_sizes: "block_sizes_ok demo_vccert [] (demo_id 5) demo_block_cert"
  by (simp add: block_sizes_ok_def demo_fields_simps) (simp add: demo_block_cert_def demo_txn_cert_def)

text \<open>The store with the block made.\<close>

lemma demo_chain:
  obtains w :: mem_db where "block_rep (demo_id 4) w [demo_id 5]" and "drop 80 (the (w block_db (demo_id 5))) = demo_block_cert"
proof -
  obtain e' p' where "dataservice_block_make mem_lmdb demo_vccert (demo_id 4) (\<lambda>_ _. True) full_child demo_store None (demo_id 5)
      demo_block_cert = Some (AGENTD_STATUS_SUCCESS, e', p')"
    and "block_added demo_vccert (demo_id 4) [] [demo_id 1] (demo_id 5) demo_block_cert (base_view (\<lambda>e. e) (\<lambda>t. t) e' p')"
    using mem.block_make_reliable [of "demo_id 4" demo_store None "[]" "[demo_id 1]" demo_vccert "demo_id 5" demo_block_cert full_child]
      demo_state demo_valid demo_sizes full_child_caps [of 21] by auto
  then show thesis using that by (auto simp: block_added_def)
qed

subsection \<open>Properties\<close>

text \<open>
  C25. On a store that does not fail, a block that continues the chain and whose
  transactions are all pending is made: the call succeeds, the chain has the block
  at its end with its certificate, the height index knows it, its transactions are
  canonized in it and have left the process queue, and the artifacts are
  well-formed.
\<close>

theorem block_make_extends_chain:
  assumes "lmdb_reliable ops ev tv" and "chain_state root (base_view ev tv e p) ids q"
    and "block_valid vc root ids q (dom (base_view ev tv e p txn_db)) block_id data"
    and "block_sizes_ok vc ids block_id data"
    and "BITCAP_ISSET (childcaps child) DATASERVICE_API_CAP_APP_BLOCK_WRITE"
  shows "\<exists>e' p'. dataservice_block_make ops vc root (\<lambda>_ _. True) child e p block_id data =
     Some (AGENTD_STATUS_SUCCESS, e', p') \<and> block_added vc root ids q block_id data (base_view ev tv e' p')"
  by (rule lmdb_reliable.block_make_reliable [OF assms])

theorem block_make_extends_chain_witness:
  "\<exists>e' p'. dataservice_block_make mem_lmdb demo_vccert (demo_id 4) (\<lambda>_ _. True) full_child demo_store None (demo_id 5) demo_block_cert =
     Some (AGENTD_STATUS_SUCCESS, e', p') \<and>
     block_added demo_vccert (demo_id 4) [] [demo_id 1] (demo_id 5) demo_block_cert (base_view (\<lambda>e. e) (\<lambda>t. t) e' p')"
  by (rule block_make_extends_chain [OF mem.lmdb_reliable_axioms])
    (use demo_state demo_valid demo_sizes full_child_caps [of 21] in simp_all)

text \<open>
  C26. Making a block is all or nothing under any failure of the store, of an
  allocation or of a constraint: the contents are unchanged, or the call reports
  success and the contents are those with the block added.
\<close>

theorem block_make_all_or_nothing:
  assumes "lmdb_store ops ev tv" and "chain_state root (base_view ev tv e p) ids q"
    and "vccert_parser_init_ok vc data" and "block_sizes_ok vc ids block_id data"
  shows "returns (atomic_update ev tv e p (block_added vc root ids q block_id data))
     (dataservice_block_make ops vc root malloc_ok child e p block_id data)"
  using assms by (intro lmdb_store.block_make_atomic) (simp_all add: chain_state_def block_sizes_ok_def)

theorem block_make_all_or_nothing_witness:
  "returns (atomic_update (\<lambda>e. e) (\<lambda>t. t) demo_store None (block_added demo_vccert (demo_id 4) [] [demo_id 1] (demo_id 5) demo_block_cert))
     (dataservice_block_make mem_lmdb demo_vccert (demo_id 4) (\<lambda>_ i. i < 3) full_child demo_store None (demo_id 5) demo_block_cert)"
  by (rule block_make_all_or_nothing [OF mem.lmdb_store_axioms])
    (use demo_state demo_sizes in \<open>simp_all add: demo_vccert_def\<close>)

text \<open>
  Only blocks that continue the chain are made: when the call reports success
  the certificate names the block, its predecessor is the last block of the chain
  and its height is one above it, and the identifier is none of the reserved ones.
\<close>

theorem only_matching_blocks_made:
  assumes "lmdb_store ops ev tv" and "block_rep root (base_view ev tv e p) ids"
    and "dataservice_block_make ops vc root malloc_ok child e p block_id data = Some (AGENTD_STATUS_SUCCESS, e', p')"
  shows "find_sized vc data VCCERT_FIELD_TYPE_BLOCK_UUID 16 = Some block_id \<and> block_id \<notin> {root, zero_uuid, ff_uuid} \<and>
     find_sized vc data VCCERT_FIELD_TYPE_PREVIOUS_BLOCK_UUID 16 = Some (last (root # ids)) \<and>
     map_option of_net64 (find_sized vc data VCCERT_FIELD_TYPE_BLOCK_HEIGHT 8) = Some (of_nat (Suc (length ids)))"
  by (rule lmdb_store.block_make_checked [OF assms])

theorem only_matching_blocks_made_witness:
  "find_sized demo_vccert demo_block_cert VCCERT_FIELD_TYPE_PREVIOUS_BLOCK_UUID 16 = Some (last [demo_id 4])"
proof -
  obtain e' p' where "dataservice_block_make mem_lmdb demo_vccert (demo_id 4) (\<lambda>_ _. True) full_child demo_store None (demo_id 5)
      demo_block_cert = Some (AGENTD_STATUS_SUCCESS, e', p')"
    using mem.block_make_reliable [of "demo_id 4" demo_store None "[]" "[demo_id 1]" demo_vccert "demo_id 5" demo_block_cert full_child]
      demo_state demo_valid demo_sizes full_child_caps [of 21] by auto
  moreover have "block_rep (demo_id 4) (base_view (\<lambda>e. e) (\<lambda>t. t) demo_store None) []" using demo_state by (simp add: chain_state_def)
  ultimately show ?thesis using only_matching_blocks_made [OF mem.lmdb_store_axioms] by blast
qed

text \<open>
  Reading a block identifier by height from a well-formed chain returns the
  block at that height, counted from 1, and "not found" for every other height,
  up to the largest 64-bit number.
\<close>

theorem block_found_by_height:
  assumes "lmdb_reliable ops ev tv" and "block_rep root (base_view ev tv e p) ids" and "\<forall>i \<in> set ids. length i = 16"
    and "BITCAP_ISSET (childcaps child) DATASERVICE_API_CAP_APP_BLOCK_ID_BY_HEIGHT_READ"
  shows "\<exists>e' p'. dataservice_block_id_by_height_get ops child e p h =
     (if 0 < unat h \<and> unat h \<le> length ids
      then ((AGENTD_STATUS_SUCCESS, e', p'), Some (ids ! (unat h - 1)))
      else ((AGENTD_ERROR_DATASERVICE_NOT_FOUND, e', p'), None))"
  by (rule lmdb_reliable.block_id_by_height_reliable [OF assms])

theorem block_found_by_height_witness:
  "\<exists>w e' p'. dataservice_block_id_by_height_get mem_lmdb full_child w None 1 = ((AGENTD_STATUS_SUCCESS, e', p'), Some (demo_id 5))"
proof -
  obtain w where w: "block_rep (demo_id 4) w [demo_id 5]" by (rule demo_chain)
  show ?thesis
    using block_found_by_height [OF mem.lmdb_reliable_axioms, of "demo_id 4" w None "[demo_id 5]" full_child 1] w full_child_caps [of 22]
    by auto
qed

text \<open>
  The latest block identifier of a well-formed chain is that of its last
  block, and the root block's when no block was made.
\<close>

theorem latest_block_is_last:
  assumes "lmdb_reliable ops ev tv" and "block_rep root (base_view ev tv e p) ids"
    and "BITCAP_ISSET (childcaps child) DATASERVICE_API_CAP_APP_BLOCK_ID_LATEST_READ"
  shows "\<exists>e' p'. dataservice_latest_block_id_get ops root child e p =
     ((AGENTD_STATUS_SUCCESS, e', p'), Some (last (root # ids)))"
  by (rule lmdb_reliable.latest_block_id_reliable [OF assms])

theorem latest_block_is_last_witness:
  "\<exists>w e' p'. dataservice_latest_block_id_get mem_lmdb (demo_id 4) full_child w None = ((AGENTD_STATUS_SUCCESS, e', p'), Some (demo_id 5))"
proof -
  obtain w where w: "block_rep (demo_id 4) w [demo_id 5]" by (rule demo_chain)
  show ?thesis
    using latest_block_is_last [OF mem.lmdb_reliable_axioms, of "demo_id 4" w None "[demo_id 5]" full_child] w full_child_caps [of 9]
    by auto
qed

text \<open>
  A block of a well-formed chain is read back with its node, whose links and
  height are those of its place in the chain, and its certificate.
\<close>

theorem block_read_back:
  assumes "lmdb_reliable ops ev tv" and "block_rep root (base_view ev tv e p) ids" and "i < length ids"
    and "BITCAP_ISSET (childcaps child) DATASERVICE_API_CAP_APP_BLOCK_READ"
    and "drop 80 (the (base_view ev tv e p block_db (ids ! i))) = cert" and "cert \<noteq> []"
  shows "\<exists>e' p' n. dataservice_block_get ops root True child e p (ids ! i) =
     ((AGENTD_STATUS_SUCCESS, e', p'), Some (n, cert)) \<and>
     block_prev n = (root # ids) ! i \<and> block_next n = (ids @ [ff_uuid]) ! Suc i \<and>
     net_block_height n = htonll (of_nat (Suc i))"
proof -
  have len: "80 < length (the (base_view ev tv e p block_db (ids ! i)))" using assms(5,6) by auto
  have "block_links root (base_view ev tv e p block_db) ids" using assms(2,3) by (auto simp: block_rep_def)
  then show ?thesis using lmdb_reliable.block_get_reliable [OF assms(1-4) len] assms(3,5) unfolding block_links_def by blast
qed

theorem block_read_back_witness:
  "\<exists>w e' p' n. dataservice_block_get mem_lmdb (demo_id 4) True full_child w None (demo_id 5) =
     ((AGENTD_STATUS_SUCCESS, e', p'), Some (n, demo_block_cert)) \<and> block_prev n = demo_id 4"
proof -
  obtain w where w: "block_rep (demo_id 4) w [demo_id 5]" "drop 80 (the (w block_db (demo_id 5))) = demo_block_cert" by (rule demo_chain)
  have "demo_block_cert \<noteq> []" by (simp add: demo_block_cert_def)
  then show ?thesis
    using block_read_back [OF mem.lmdb_reliable_axioms, of "demo_id 4" w None "[demo_id 5]" 0 full_child demo_block_cert]
      w full_child_caps [of 13] by auto
qed

text \<open>
  When the parser of the block certificate cannot be initialised, the clean-up
  disposes the parser all the same: the behaviour is undefined.
\<close>

theorem block_make_parser_failure_undefined:
  assumes "BITCAP_ISSET (childcaps child) DATASERVICE_API_CAP_APP_BLOCK_WRITE"
    and "vccrypt_suite_options_init_ok vc" and "vccert_parser_options_simple_init_ok vc"
    and "\<not> vccert_parser_init_ok vc data"
  shows "dataservice_block_make ops vc root malloc_ok child e p block_id data = None"
  using assms by (simp add: dataservice_block_make_def)

theorem block_make_parser_failure_undefined_witness:
  "dataservice_block_make mem_lmdb (demo_vccert\<lparr>vccert_parser_init_ok := \<lambda>_. False\<rparr>) (demo_id 4) (\<lambda>_ _. True) full_child demo_store None
     (demo_id 5) demo_block_cert = None"
  by (rule block_make_parser_failure_undefined [OF full_child_caps]) (simp_all add: demo_vccert_def)

end
