(* ===== verification/Ds_Service.thy ===== *)
theory Ds_Service
  imports Ds_Wire Ds_Block_Live
begin

text \<open>
  The service as a whole: serving any request is free of undefined behaviour and
  keeps the database well-formed, with a chain of blocks that only grows.  The
  conditions are those the code relies on without checking them: the certificate
  parser initialises and yields parts of the certificate, a commit does not fail,
  and the two reserved identifiers are not submitted as transactions.
\<close>

subsection \<open>Conditions\<close>

definition vccert_slices :: "vccert \<Rightarrow> bool" where
  "vccert_slices vc \<longleftrightarrow> (\<forall>cert f. \<forall>x \<in> set (vccert_fields vc cert f). length x \<le> length cert)"

definition submits_reserved :: "bytes \<Rightarrow> bool" where
  "submits_reserved req \<longleftrightarrow> of_net32 (take 4 req) = DATASERVICE_API_METHOD_APP_PQ_TRANSACTION_SUBMIT \<and>
     slice 8 16 req \<in> {zero_uuid, ff_uuid}"

text \<open>The database below an instance holds the chain \<open>ids\<close> or one block more.\<close>

definition extends_chain :: "bytes \<Rightarrow> bytes list \<Rightarrow> kvs \<Rightarrow> bool" where
  "extends_chain root ids w \<longleftrightarrow> (\<exists>more q. chain_state root w (ids @ more) q \<and> length more \<le> 1)"

definition serving :: "('e \<Rightarrow> kvs) \<Rightarrow> bytes \<Rightarrow> bytes list \<Rightarrow> 'e dataservice_instance \<Rightarrow> bool" where
  "serving ev root ids inst \<longleftrightarrow>
     (case details (inst_ctx inst) of None \<Rightarrow> False | Some e \<Rightarrow> extends_chain root ids (ev e))"

lemma extends_chain_self: "chain_state root w ids q \<Longrightarrow> extends_chain root ids w"
  unfolding extends_chain_def by (metis append_Nil2 list.size(3) zero_le)

lemma chain_state_update:
  "chain_state root w ids q \<Longrightarrow> pq_rep v q' \<Longrightarrow> chain_state root (w(pq_db := v)) ids q'"
  "chain_state root w ids q \<Longrightarrow> chain_state root (w(global_db := g)) ids q"
  by (simp_all add: chain_state_def block_rep_def)

subsection \<open>The frame of a handler\<close>

lemma run_request_returns:
  assumes "\<And>st out. P (st, out, inst)"
    and "\<And>r ctx. dreq = Inr r \<Longrightarrow> dataservice_child_context_lookup inst (child_index r) = Inr ctx \<Longrightarrow>
       returns (\<lambda>(_, _, inst'). \<forall>st out. P (st, out, inst')) (body ctx r)"
  shows "returns P (run_request env m inst dreq body)"
proof (cases dreq)
  case (Inl st)
  then show ?thesis using assms(1) by (cases "reply_with env m 0 st None inst") (auto simp: run_request_def dest!: reply_with_Pair)
next
  case (Inr r)
  show ?thesis
  proof (cases "dataservice_child_context_lookup inst (child_index r)")
    case (Inl st)
    then show ?thesis using Inr assms(1)
      by (cases "reply_with env m (child_index r) st None inst") (auto simp: run_request_def dest!: reply_with_Pair)
  next
    case ctx: (Inr ctx)
    obtain st pl inst' where b: "body ctx r = Some (st, pl, inst')" "\<forall>st out. P (st, out, inst')"
      using assms(2) [OF Inr ctx] by (auto simp: returns_iff)
    then show ?thesis using Inr ctx
      by (cases "reply_with env m (child_index r) st pl inst'") (auto simp: run_request_def dest!: reply_with_Pair)
  qed
qed

lemma run_details_serving:
  assumes e: "details (inst_ctx inst) = Some e" and s: "extends_chain root ids (ev e)"
    and f: "\<And>r ctx. dreq = Inr r \<Longrightarrow> returns (\<lambda>((_, e', _), _). extends_chain root ids (ev e')) (f ctx r e)"
  shows "returns (\<lambda>(_, _, inst'). serving ev root ids inst')
     (run_request env m inst dreq (\<lambda>ctx r. with_details inst ctx cap (f ctx r)))"
proof (rule run_request_returns)
  fix r ctx assume r: "dreq = Inr r"
  obtain st e' p' pl where "f ctx r e = Some ((st, e', p'), pl)" "extends_chain root ids (ev e')"
    using f [OF r, of ctx] by (auto simp: returns_iff)
  then show "returns (\<lambda>(_, _, inst'). \<forall>st out. case (st, out, inst') of (_, _, inst') \<Rightarrow> serving ev root ids inst')
      (with_details inst ctx cap (f ctx r))"
    using e by (simp add: with_details_def serving_def)
qed (use e s in \<open>simp add: serving_def\<close>)

lemma encode_found_returns: "\<exists>st pl. encode_found ((s, e, p), x) enc = Some ((st, e, p), pl)"
  by (simp add: encode_found_def split: option.splits sum.splits)

context lmdb_store
begin

lemma unchanged_None: "unchanged ev tv e None (st, e', p') \<Longrightarrow> ev e' = ev e"
  by (cases p') simp_all

lemma found_serving:
  assumes "unchanged ev tv e None (fst r)" and "extends_chain root ids (ev e)"
  shows "returns (\<lambda>((_, e', _), _). extends_chain root ids (ev e')) (encode_found r enc)"
proof -
  obtain s e' p' x where r: "r = ((s, e', p'), x)" by (metis prod.collapse)
  obtain st pl where "encode_found r enc = Some ((st, e', p'), pl)" using encode_found_returns r by metis
  moreover have "ev e' = ev e" using assms(1) unfolding r fst_conv by (rule unchanged_None)
  ultimately show ?thesis using assms(2) by simp
qed

lemma atomic_serving:
  assumes "atomic_update ev tv e None Q (st, e', p')" and "extends_chain root ids (ev e)"
    and "\<And>w. Q w \<Longrightarrow> extends_chain root ids w"
  shows "extends_chain root ids (ev e')"
  using assms by (cases p') auto

end


subsection \<open>The handlers\<close>

lemma decoded_submit:
  "dataservice_decode_request_transaction_submit b = Inr r \<Longrightarrow>
     length (submit_txn_id r) = 16 \<and> length (submit_artifact_id r) = 16 \<and>
     submit_txn_id r = slice 4 16 b \<and> length (submit_cert r) \<le> length b"
  by (auto simp: dataservice_decode_request_transaction_submit_def codec_defs slice_def split: if_splits)

lemma decoded_block_make:
  "dataservice_decode_request_block_make b = Inr r \<Longrightarrow>
     length (make_block_id r) = 16 \<and> length (make_cert r) \<le> length b"
  by (auto simp: dataservice_decode_request_block_make_def codec_defs split: if_splits)

lemma block_added_chain:
  "block_added vc root ids q i data w \<Longrightarrow> length root = 16 \<Longrightarrow> extends_chain root ids w"
  unfolding block_added_def Let_def extends_chain_def chain_state_def by (metis length_Cons list.size(3) One_nat_def order_refl)

locale ds_server = lmdb_store +
  fixes vc :: vccert and root :: bytes
  assumes slices: "vccert_slices vc"
    and parser: "vccert_parser_init_ok vc cert"
    and committed: "fst (mdb_txn_commit ops e None t) = 0"
begin

lemma submit_serving:
  assumes st: "chain_state root (ev e) ids q" and len: "length b < 2 ^ 63"
    and r: "dataservice_decode_request_transaction_submit b = Inr r" and id: "slice 4 16 b \<notin> {zero_uuid, ff_uuid}"
  shows "returns (\<lambda>((_, e', _), _). extends_chain root ids (ev e'))
     (map_option (\<lambda>res. (res, None)) (dataservice_transaction_submit ops att m ctx e None
        (submit_txn_id r) (submit_artifact_id r) (submit_cert r)))"
proof -
  note d = decoded_submit [OF r]
  have args: "submit_args (submit_txn_id r) (submit_artifact_id r) (submit_cert r)"
  proof -
    have "length (submit_txn_id r) = 16" "length (submit_artifact_id r) = 16" "length (submit_cert r) < 2 ^ 63"
      using d len by auto
    then show ?thesis by (simp add: submit_args_def)
  qed
  have ids: "submit_txn_id r \<noteq> zero_uuid" "submit_txn_id r \<noteq> ff_uuid" using d id by auto
  have rep: "pq_rep (view e None pq_db) q" using st by (simp add: chain_state_def)
  obtain s e' p' where x: "dataservice_transaction_submit ops att m ctx e None (submit_txn_id r) (submit_artifact_id r)
      (submit_cert r) = Some (s, e', p')"
    and a: "atomic_update ev tv e None (\<lambda>w. submit_txn_id r \<notin> set q \<and>
       w = (ev e)(pq_db := submit_kv att (submit_txn_id r) (submit_artifact_id r) (submit_cert r) (ev e pq_db))) (s, e', p')"
    using submit_outcome [OF rep args ids, of att m ctx] by (auto simp: returns_iff)
  have "extends_chain root ids (ev e')"
  proof (rule atomic_serving [OF a extends_chain_self [OF st]])
    fix w assume w: "submit_txn_id r \<notin> set q \<and>
       w = (ev e)(pq_db := submit_kv att (submit_txn_id r) (submit_artifact_id r) (submit_cert r) (ev e pq_db))"
    then have "pq_rep (w pq_db) (q @ [submit_txn_id r])"
      using submit_rep [of "ev e pq_db" q "submit_txn_id r"] rep pq_rep_fresh [OF rep ids] args ids by simp
    then show "extends_chain root ids w" using w chain_state_update(1) [OF st] extends_chain_self by fastforce
  qed
  then show ?thesis using x by simp
qed

lemma drop_serving:
  assumes st: "chain_state root (ev e) ids q"
  shows "returns (\<lambda>((_, e', _), _). extends_chain root ids (ev e')) (Some (dataservice_transaction_drop ops m ctx e None i, None))"
proof -
  have rep: "pq_rep (ev e pq_db) q" using st by (simp add: chain_state_def)
  obtain s e' p' where x: "dataservice_transaction_drop ops m ctx e None i = (s, e', p')" by (metis prod.collapse)
  have "extends_chain root ids (ev e')"
    using atomic_serving [OF drop_atomic [OF rep, of i m ctx, unfolded x] extends_chain_self [OF st]]
      drop_rep(1) [OF rep] chain_state_update(1) [OF st] extends_chain_self by blast
  then show ?thesis using x by simp
qed

lemma promote_serving:
  assumes st: "chain_state root (ev e) ids q"
  shows "returns (\<lambda>((_, e', _), _). extends_chain root ids (ev e')) (Some (dataservice_transaction_promote ops m ctx e None i, None))"
proof -
  have rep: "pq_rep (ev e pq_db) q" using st by (simp add: chain_state_def)
  obtain s e' p' where x: "dataservice_transaction_promote ops m ctx e None i = (s, e', p')" by (metis prod.collapse)
  have "extends_chain root ids (ev e')"
    using atomic_serving [OF promote_atomic [OF rep, of i m ctx, unfolded x] extends_chain_self [OF st]]
      promote_rep(1) [OF rep] chain_state_update(1) [OF st] extends_chain_self by blast
  then show ?thesis using x by simp
qed

lemma block_make_serving:
  assumes st: "chain_state root (ev e) ids q" and len: "length b < 2 ^ 63" "Suc (length ids) < 2 ^ 64"
    and r: "dataservice_decode_request_block_make b = Inr r"
  shows "returns (\<lambda>((_, e', _), _). extends_chain root ids (ev e'))
     (map_option (\<lambda>res. (res, None)) (dataservice_block_make ops vc root m ctx e None (make_block_id r) (make_cert r)))"
proof -
  note d = decoded_block_make [OF r]
  have sizes: "length (make_cert r) + 80 < 2 ^ 64"
    "\<forall>c \<in> set (vccert_fields vc (make_cert r) VCCERT_FIELD_TYPE_WRAPPED_TRANSACTION_TUPLE). length c + 96 < 2 ^ 64"
    using d len slices unfolding vccert_slices_def by fastforce+
  have "returns (atomic_update ev tv e None (block_added vc root ids q (make_block_id r) (make_cert r)))
      (dataservice_block_make ops vc root m ctx e None (make_block_id r) (make_cert r))"
    using st d sizes len(2) parser by (intro block_make_atomic) (simp_all add: chain_state_def)
  then obtain s e' p' where x: "dataservice_block_make ops vc root m ctx e None (make_block_id r) (make_cert r) = Some (s, e', p')"
    and a: "atomic_update ev tv e None (block_added vc root ids q (make_block_id r) (make_cert r)) (s, e', p')"
    by (auto simp: returns_iff)
  have "extends_chain root ids (ev e')"
    using atomic_serving [OF a extends_chain_self [OF st] block_added_chain] st by (simp add: chain_state_def)
  then show ?thesis using x by simp
qed

lemma setting_set_serving:
  assumes st: "chain_state root (ev e) ids q"
  shows "returns (\<lambda>((_, e', _), _). extends_chain root ids (ev e'))
     (map_option (\<lambda>res. (res, None)) (dataservice_global_settings_set ops ctx e k v))"
proof -
  obtain rc0 t0 where beg: "mdb_txn_begin ops e None 0 = (rc0, t0)" by fastforce
  obtain rc1 t1 where put: "mdb_put ops t0 global_db (mem64 k) v 0 = (rc1, t1)" by fastforce
  obtain e2 p2 where cm: "mdb_txn_commit ops e None t1 = (0, e2, p2)" using committed by (metis prod.collapse)
  obtain e3 where ab: "mdb_txn_abort ops e None t1 = (e3, None)" "ev e3 = ev e" by (rule abort_None)
  note D = dataservice_global_settings_set_def beg put cm ab(1) abort_with_def
  note self = extends_chain_self [OF st]
  consider "\<not> BITCAP_ISSET (childcaps ctx) DATASERVICE_API_CAP_APP_GLOBAL_SETTING_WRITE \<or> rc0 \<noteq> 0 \<or> rc1 \<noteq> 0"
    | "BITCAP_ISSET (childcaps ctx) DATASERVICE_API_CAP_APP_GLOBAL_SETTING_WRITE" "rc0 = 0" "rc1 = 0" by blast
  then show ?thesis
  proof cases
    case 1
    then show ?thesis using self ab(2) by (auto simp: D)
  next
    case 2
    then have ok: "dataservice_global_settings_set ops ctx e k v = Some (AGENTD_STATUS_SUCCESS, e2, p2)" by (simp add: D)
    have "ev e2 = (ev e)(global_db := (ev e global_db)(mem64 k \<mapsto> v))" using settings_set_returned [OF ok] by blast
    then have "extends_chain root ids (ev e2)" using chain_state_update(2) [OF st] extends_chain_self by metis
    then show ?thesis using ok by simp
  qed
qed

end

subsection \<open>Any request\<close>

lemma child_create_returns:
  assumes ok: "slots_ok inst"
  shows "dataservice_decode_and_dispatch_child_context_create env inst req \<noteq> None"
proof (cases "dataservice_decode_request_child_context_create req")
  case (Inl st)
  then show ?thesis by (simp add: dataservice_decode_and_dispatch_child_context_create_def Let_def)
next
  case (Inr dreq)
  obtain s1 inst1 i where c: "dataservice_child_details_create inst = (s1, inst1, i)" by (metis prod.collapse)
  show ?thesis
  proof (cases "s1 = 0")
    case True
    note cr = create_child_step [OF ok c [unfolded True]]
    have len: "i < length (children inst1)" using cr(6) slots_ok_length [OF cr(1)] by simp
    have "dataservice_child_details_delete (set_child_ctx inst1 i ctx) i \<noteq> None" for ctx
      using details_pool.release_Some [OF slots_ok_set_child_ctx(1) [OF cr(1) len], of i ctx]
        slots_ok_set_child_ctx(2) [OF cr(1) len] cr(2) by blast
    then show ?thesis using Inr c True
      by (simp add: dataservice_decode_and_dispatch_child_context_create_def Let_def del: not_None_eq
          split: sum.split prod.split)
  qed (use Inr c in \<open>simp add: dataservice_decode_and_dispatch_child_context_create_def Let_def\<close>)
qed

lemma child_close_returns:
  assumes ok: "slots_ok inst"
  shows "returns (\<lambda>_. True) (dataservice_decode_and_dispatch_child_context_close env inst req)"
  unfolding dataservice_decode_and_dispatch_child_context_close_def
proof (rule run_request_returns)
  fix r ctx assume l: "dataservice_child_context_lookup inst (child_index r) = Inr ctx"
  let ?i = "unat (child_index r)"
  have i: "?i < length (children inst)" "?i \<in> opened_slots inst"
    using l slots_ok_length [OF ok] by (auto simp: dataservice_child_context_lookup_def opened_slots_def split: if_splits)
  have "\<exists>inst'. dataservice_child_details_delete (set_child_ctx inst ?i c) ?i = Some inst'" for c
    using details_pool.release_Some [OF slots_ok_set_child_ctx(1) [OF ok i(1)], of ?i c]
      slots_ok_set_child_ctx(2) [OF ok i(1)] i(2) by blast
  then show "returns (\<lambda>(_, _, inst'). \<forall>st out. True) (case dataservice_child_context_close ctx of (st, ctx) \<Rightarrow>
      let inst = set_child_ctx inst ?i ctx in
      if st \<noteq> AGENTD_STATUS_SUCCESS then Some (AGENTD_ERROR_DATASERVICE_CHILD_DETAILS_DELETE_FAILURE, None, inst)
      else map_option (\<lambda>inst. (st, None, inst)) (dataservice_child_details_delete inst ?i))"
    by (force simp: returns_iff Let_def split: prod.splits)
qed simp

context lmdb_store
begin

lemma readers_unchanged:
  "unchanged ev tv e None (fst (dataservice_artifact_get ops ctx e None i))"
  "unchanged ev tv e None (fst (dataservice_block_get ops root m ctx e None i))"
  "unchanged ev tv e None (fst (dataservice_block_id_by_height_get ops ctx e None h))"
  "unchanged ev tv e None (fst (dataservice_latest_block_id_get ops root ctx e None))"
  "unchanged ev tv e None (fst (dataservice_canonized_transaction_get ops m ctx e None i))"
  "unchanged ev tv e None (fst (dataservice_global_settings_get ops ctx e k n))"
  "unchanged ev tv e None (fst (dataservice_transaction_get ops m ctx e None i))"
  "unchanged ev tv e None (fst (dataservice_transaction_get_first ops m ctx e None))"
  by (simp_all add: get_first_unchanged get_unchanged)
    (simp_all add: operation_auth_defs read_txn_node_def)

end

text \<open>The handlers of contexts keep the database open.\<close>

lemma context_handlers_serving:
  assumes s: "serving ev root ids inst" and inv: "inst_inv inst"
    and live: "\<not> root_has inst DATASERVICE_API_CAP_LL_ROOT_CONTEXT_CREATE"
  shows "returns (\<lambda>(_, _, inst'). serving ev root ids inst') (dataservice_decode_and_dispatch_root_context_create ops env inst req)"
    and "returns (\<lambda>(_, _, inst'). serving ev root ids inst') (dataservice_decode_and_dispatch_root_context_reduce_caps env inst req)"
    and "returns (\<lambda>(_, _, inst'). serving ev root ids inst') (dataservice_decode_and_dispatch_child_context_create env inst req)"
    and "returns (\<lambda>(_, _, inst'). serving ev root ids inst') (dataservice_decode_and_dispatch_child_context_close env inst req)"
proof -
  have ok: "slots_ok inst" "length (apicaps (inst_ctx inst)) = 1" using inv by (simp_all add: inst_inv_def)
  have kept: "serving ev root ids inst'" if "details (inst_ctx inst') = details (inst_ctx inst)" for inst'
    using s that by (simp add: serving_def)
  have "dataservice_decode_and_dispatch_root_context_create ops env inst req \<noteq> None"
    by (simp add: dataservice_decode_and_dispatch_root_context_create_def del: not_None_eq split: sum.split prod.split)
  then show "returns (\<lambda>(_, _, inst'). serving ev root ids inst') (dataservice_decode_and_dispatch_root_context_create ops env inst req)"
    using root_create_handler_step [of ops env inst req] s live by (fastforce simp: returns_iff root_created_def)
  have "dataservice_decode_and_dispatch_root_context_reduce_caps env inst req \<noteq> None"
    by (simp add: dataservice_decode_and_dispatch_root_context_reduce_caps_def del: not_None_eq split: sum.split prod.split)
  then show "returns (\<lambda>(_, _, inst'). serving ev root ids inst') (dataservice_decode_and_dispatch_root_context_reduce_caps env inst req)"
    using reduce_handler_step [of env inst req] kept by (fastforce simp: returns_iff root_reduced_def)
  show "returns (\<lambda>(_, _, inst'). serving ev root ids inst') (dataservice_decode_and_dispatch_child_context_create env inst req)"
    using child_create_returns [OF ok(1), of env req] child_create_handler_step [OF _ ok, of env req] kept
    by (fastforce simp: returns_iff child_step_def)
  show "returns (\<lambda>(_, _, inst'). serving ev root ids inst') (dataservice_decode_and_dispatch_child_context_close env inst req)"
    using child_close_returns [OF ok(1), of env req] child_close_handler_step [OF _ ok(1), of env req] kept
    by (fastforce simp: returns_iff child_step_def)
qed

context ds_server
begin

lemma db_handlers_serving:
  assumes e: "details (inst_ctx inst) = Some e" and st: "chain_state root (ev e) ids q"
  shows "returns (\<lambda>(_, _, inst'). serving ev root ids inst') (dataservice_decode_and_dispatch_global_setting_get ops env inst req)"
    and "returns (\<lambda>(_, _, inst'). serving ev root ids inst') (dataservice_decode_and_dispatch_transaction_get_first ops env inst req)"
    and "returns (\<lambda>(_, _, inst'). serving ev root ids inst') (dataservice_decode_and_dispatch_transaction_get ops env inst req)"
    and "returns (\<lambda>(_, _, inst'). serving ev root ids inst') (dataservice_decode_and_dispatch_artifact_read ops env inst req)"
    and "returns (\<lambda>(_, _, inst'). serving ev root ids inst') (dataservice_decode_and_dispatch_block_read ops root env inst req)"
    and "returns (\<lambda>(_, _, inst'). serving ev root ids inst') (dataservice_decode_and_dispatch_block_id_by_height_read ops env inst req)"
    and "returns (\<lambda>(_, _, inst'). serving ev root ids inst') (dataservice_decode_and_dispatch_block_id_latest_read ops root env inst req)"
    and "returns (\<lambda>(_, _, inst'). serving ev root ids inst') (dataservice_decode_and_dispatch_canonized_transaction_get ops env inst req)"
proof -
  note self = extends_chain_self [OF st]
  note frame = run_details_serving [where ev = ev, OF e self]
  have g: "returns (\<lambda>((_, e', _), _). extends_chain root ids (ev e')) (Some (r, b))" if "unchanged ev tv e None r" for r and b :: "bytes option"
    using that self unchanged_None by (cases r) (metis (no_types, lifting) prod.case returns.simps(2))
  show "returns (\<lambda>(_, _, inst'). serving ev root ids inst') (dataservice_decode_and_dispatch_global_setting_get ops env inst req)"
    unfolding db_handler_defs
  proof (rule frame)
    fix ctx and r :: dataservice_request_global_setting_get
    obtain res n b where x: "dataservice_global_settings_get ops ctx e (setting_get_key r) 16384 = (res, n, b)"
      by (metis prod.collapse)
    show "returns (\<lambda>((_, e', _), _). extends_chain root ids (ev e'))
      (case dataservice_global_settings_get ops ctx e (setting_get_key r) 16384 of (res, _, buffer) \<Rightarrow> Some (res, buffer))"
      using g [of res b] readers_unchanged(6) [of e ctx "setting_get_key r" 16384] by (simp add: x)
  qed
qed (unfold db_handler_defs, (rule run_details_serving [where ev = ev, OF e extends_chain_self [OF st]],
      rule found_serving [OF _ extends_chain_self [OF st]], simp add: readers_unchanged)+)

lemma db_writers_serving:
  assumes e: "details (inst_ctx inst) = Some e" and st: "chain_state root (ev e) ids q"
  shows "returns (\<lambda>(_, _, inst'). serving ev root ids inst') (dataservice_decode_and_dispatch_transaction_drop ops env inst req)"
    and "returns (\<lambda>(_, _, inst'). serving ev root ids inst') (dataservice_decode_and_dispatch_transaction_promote ops env inst req)"
    and "returns (\<lambda>(_, _, inst'). serving ev root ids inst') (dataservice_decode_and_dispatch_global_setting_set ops env inst req)"
    and "length req < 2 ^ 63 \<Longrightarrow> slice 4 16 req \<notin> {zero_uuid, ff_uuid} \<Longrightarrow>
      returns (\<lambda>(_, _, inst'). serving ev root ids inst') (dataservice_decode_and_dispatch_transaction_submit ops att env inst req)"
    and "length req < 2 ^ 63 \<Longrightarrow> Suc (length ids) < 2 ^ 64 \<Longrightarrow>
      returns (\<lambda>(_, _, inst'). serving ev root ids inst') (dataservice_decode_and_dispatch_block_make ops vc root env inst req)"
  unfolding db_handler_defs
  by (rule run_details_serving [where ev = ev, OF e extends_chain_self [OF st]],
      rule drop_serving [OF st] promote_serving [OF st] setting_set_serving [OF st] submit_serving [OF st]
        block_make_serving [OF st]; assumption)+

text \<open>
  The main result on the service: a request is served without undefined behaviour
  and the database holds a well-formed chain that extends the previous one.
\<close>

lemma dispatch_serving:
  assumes e: "details (inst_ctx inst) = Some e" and st: "chain_state root (ev e) ids q"
    and inv: "inst_inv inst" and live: "\<not> root_has inst DATASERVICE_API_CAP_LL_ROOT_CONTEXT_CREATE"
    and len: "length req < 2 ^ 63" "Suc (length ids) < 2 ^ 64" and res: "\<not> submits_reserved req"
  shows "returns (\<lambda>(_, _, inst'). serving ev root ids inst') (dataservice_decode_and_dispatch ops vc root att env inst req)"
proof -
  have s: "serving ev root ids inst" using e extends_chain_self [OF st] by (simp add: serving_def)
  have len4: "length (drop 4 req) < 2 ^ 63" using len(1) by simp
  have res4: "slice 4 16 (drop 4 req) \<notin> {zero_uuid, ff_uuid}" if "ntohl (of_mem32 (take 4 req)) = 15"
    using res that by (simp add: submits_reserved_def of_net32_def slice_def add.commute)
  show ?thesis
    unfolding dataservice_decode_and_dispatch_def Let_def
    by (simp only: context_handlers_serving [OF s inv live] db_handlers_serving [OF e st] db_writers_serving(1-3) [OF e st]
        db_writers_serving(4) [OF e st len4 res4] db_writers_serving(5) [OF e st len4 len(2)] returns.simps prod.case s
        simp_thms if_split) (use db_writers_serving(4) [OF e st len4 res4] in blast)
qed

end

subsection \<open>Any sequence of requests\<close>

fun serve_all ::
  "('e, 't) lmdb \<Rightarrow> vccert \<Rightarrow> bytes \<Rightarrow> bool \<Rightarrow> 'e dataservice_instance \<Rightarrow> (request_env \<times> bytes) list \<Rightarrow>
     'e dataservice_instance option" where
  "serve_all ops vc root att inst [] = Some inst"
| "serve_all ops vc root att inst (r # rs) =
     (case dataservice_decode_and_dispatch ops vc root att (fst r) inst (snd r) of
        None \<Rightarrow> None
      | Some (_, _, inst') \<Rightarrow> serve_all ops vc root att inst' rs)"

definition request_ok :: "bytes \<Rightarrow> bool" where
  "request_ok req \<longleftrightarrow> length req < 2 ^ 63 \<and> \<not> submits_reserved req"

context ds_server
begin

lemma serve_all_serving:
  assumes "details (inst_ctx inst) = Some e" and "chain_state root (ev e) ids q"
    and "inst_inv inst" and "\<not> root_has inst DATASERVICE_API_CAP_LL_ROOT_CONTEXT_CREATE"
    and "\<forall>r \<in> set rs. request_ok (snd r)" and "length ids + length rs < 2 ^ 64"
  shows "\<exists>inst' e' more q'. serve_all ops vc root att inst rs = Some inst' \<and> details (inst_ctx inst') = Some e' \<and>
     chain_state root (ev e') (ids @ more) q' \<and> length more \<le> length rs"
  using assms
proof (induction rs arbitrary: inst e ids q)
  case Nil
  then show ?case by (metis append_Nil2 list.size(3) le_refl serve_all.simps(1))
next
  case (Cons r rs)
  have "length (snd r) < 2 ^ 63" "Suc (length ids) < 2 ^ 64" "\<not> submits_reserved (snd r)"
    using Cons.prems(5,6) by (simp_all add: request_ok_def)
  then obtain st out inst1 where d: "dataservice_decode_and_dispatch ops vc root att (fst r) inst (snd r) = Some (st, out, inst1)"
    and s: "serving ev root ids inst1"
    using dispatch_serving [OF Cons.prems(1-4), of "snd r" att "fst r"] by (auto simp: returns_iff)
  obtain e1 more q1 where c: "details (inst_ctx inst1) = Some e1" "chain_state root (ev e1) (ids @ more) q1" "length more \<le> 1"
    using s by (auto simp: serving_def extends_chain_def split: option.splits)
  have eff: "dispatch_effect inst inst1" using dispatch_step [OF d] Cons.prems(3) by (simp add: inst_inv_def)
  have inv: "inst_inv inst1" using effect_inv [OF eff Cons.prems(3)] .
  have "confined DATASERVICE_API_CAP_LL_ROOT_CONTEXT_CREATE inst1"
    using effect_confined [OF eff Cons.prems(3) _ _ Cons.prems(4)] Cons.prems(3,4) by (simp add: confined_def inst_inv_def)
  then have live: "\<not> root_has inst1 DATASERVICE_API_CAP_LL_ROOT_CONTEXT_CREATE" by (simp add: confined_def)
  have "\<forall>r \<in> set rs. request_ok (snd r)" "length (ids @ more) + length rs < 2 ^ 64" using Cons.prems(5,6) c(3) by auto
  from Cons.IH [OF c(1,2) inv live this] obtain inst' e' more' q' where
    "serve_all ops vc root att inst1 rs = Some inst'" "details (inst_ctx inst') = Some e'"
    "chain_state root (ev e') (ids @ (more @ more')) q'" "length more' \<le> length rs" by auto
  then show ?case using d c(3) by (intro exI [of _ inst'] exI [of _ e'] exI [of _ "more @ more'"] exI [of _ q']) simp
qed

end

subsection \<open>The executable service\<close>

lemma demo_slices: "vccert_slices demo_vccert"
  by (auto simp: vccert_slices_def demo_vccert_def demo_fields_def demo_block_cert_def demo_txn_cert_def demo_id_def
      split: vccert_field.splits if_splits)

interpretation mem_server: ds_server mem_lmdb "\<lambda>e. e" "\<lambda>t. t" demo_vccert root for root
  by unfold_locales (rule demo_slices, simp_all add: demo_vccert_def)


end
