(* ===== verification/Ipc.thy ===== *)
theory Ipc
  imports Status
begin

text \<open>
  Typed packets over blocking sockets (\<^verbatim>\<open>src/src/ipc/ipc_*_block.c\<close>).  Every value
  is preceded by its type; strings and data packets also by their size.  A socket is
  what the peer has sent and not yet been read, what has been written to it, and,
  for the successive \<^verbatim>\<open>read\<close> and \<^verbatim>\<open>write\<close> calls, how many bytes the system lets
  through at most (\<open>None\<close>: the call fails); calls beyond the list are not limited.

  The locale \<open>ipc_codec\<close> states what a pair of write and read functions for one
  type of value promises; it is interpreted for the six types of values.
\<close>

subsection \<open>Constants\<close>

abbreviation (input) IPC_DATA_TYPE_INT64 :: "32 word" where "IPC_DATA_TYPE_INT64 \<equiv> 0x10"
abbreviation (input) IPC_DATA_TYPE_UINT64 :: "32 word" where "IPC_DATA_TYPE_UINT64 \<equiv> 0x11"
abbreviation (input) IPC_DATA_TYPE_INT8 :: "32 word" where "IPC_DATA_TYPE_INT8 \<equiv> 0x16"
abbreviation (input) IPC_DATA_TYPE_UINT8 :: "32 word" where "IPC_DATA_TYPE_UINT8 \<equiv> 0x17"
abbreviation (input) IPC_DATA_TYPE_STRING :: "32 word" where "IPC_DATA_TYPE_STRING \<equiv> 0x20"
abbreviation (input) IPC_DATA_TYPE_DATA_PACKET :: "32 word" where "IPC_DATA_TYPE_DATA_PACKET \<equiv> 0x22"
abbreviation (input) IPC_DATA_TYPE_AUTHED_PACKET :: "32 word" where "IPC_DATA_TYPE_AUTHED_PACKET \<equiv> 0x30"

abbreviation (input) AGENTD_ERROR_IPC_WOULD_BLOCK :: status where
  "AGENTD_ERROR_IPC_WOULD_BLOCK \<equiv> 0x8010001"
abbreviation (input) AGENTD_ERROR_IPC_READ_BLOCK_FAILURE :: status where
  "AGENTD_ERROR_IPC_READ_BLOCK_FAILURE \<equiv> 0x8010002"
abbreviation (input) AGENTD_ERROR_IPC_WRITE_BLOCK_FAILURE :: status where
  "AGENTD_ERROR_IPC_WRITE_BLOCK_FAILURE \<equiv> 0x8010003"
abbreviation (input) AGENTD_ERROR_IPC_WRITE_NONBLOCK_FAILURE :: status where
  "AGENTD_ERROR_IPC_WRITE_NONBLOCK_FAILURE \<equiv> 0x8010005"
abbreviation (input) AGENTD_ERROR_IPC_READ_UNEXPECTED_DATA_TYPE :: status where
  "AGENTD_ERROR_IPC_READ_UNEXPECTED_DATA_TYPE \<equiv> 0x8010007"
abbreviation (input) AGENTD_ERROR_IPC_READ_UNEXPECTED_DATA_SIZE :: status where
  "AGENTD_ERROR_IPC_READ_UNEXPECTED_DATA_SIZE \<equiv> 0x8010008"
abbreviation (input) AGENTD_ERROR_IPC_READ_BUFFER_DRAIN_FAILURE :: status where
  "AGENTD_ERROR_IPC_READ_BUFFER_DRAIN_FAILURE \<equiv> 0x8010009"
abbreviation (input) AGENTD_ERROR_IPC_READ_BUFFER_REMOVE_FAILURE :: status where
  "AGENTD_ERROR_IPC_READ_BUFFER_REMOVE_FAILURE \<equiv> 0x801000A"
abbreviation (input) AGENTD_ERROR_IPC_WRITE_BUFFER_TYPE_ADD_FAILURE :: status where
  "AGENTD_ERROR_IPC_WRITE_BUFFER_TYPE_ADD_FAILURE \<equiv> 0x801000B"
abbreviation (input) AGENTD_ERROR_IPC_WRITE_BUFFER_SIZE_ADD_FAILURE :: status where
  "AGENTD_ERROR_IPC_WRITE_BUFFER_SIZE_ADD_FAILURE \<equiv> 0x801000C"
abbreviation (input) AGENTD_ERROR_IPC_WRITE_BUFFER_PAYLOAD_ADD_FAILURE :: status where
  "AGENTD_ERROR_IPC_WRITE_BUFFER_PAYLOAD_ADD_FAILURE \<equiv> 0x801000D"
abbreviation (input) AGENTD_ERROR_IPC_EVBUFFER_READ_FAILURE :: status where
  "AGENTD_ERROR_IPC_EVBUFFER_READ_FAILURE \<equiv> 0x8010016"
abbreviation (input) AGENTD_ERROR_IPC_CRYPTO_FAILURE :: status where
  "AGENTD_ERROR_IPC_CRYPTO_FAILURE \<equiv> 0x8010019"
abbreviation (input) AGENTD_ERROR_IPC_UNAUTHORIZED_PACKET :: status where
  "AGENTD_ERROR_IPC_UNAUTHORIZED_PACKET \<equiv> 0x801001A"
abbreviation (input) AGENTD_ERROR_IPC_EVBUFFER_EOF :: status where
  "AGENTD_ERROR_IPC_EVBUFFER_EOF \<equiv> 0x801001B"

lemma ipc_status_codes_from_macro:
  "AGENTD_STATUS_ERROR_MACRO AGENTD_SERVICE_IPC 0x0001 = AGENTD_ERROR_IPC_WOULD_BLOCK"
  "AGENTD_STATUS_ERROR_MACRO AGENTD_SERVICE_IPC 0x0002 = AGENTD_ERROR_IPC_READ_BLOCK_FAILURE"
  "AGENTD_STATUS_ERROR_MACRO AGENTD_SERVICE_IPC 0x0003 = AGENTD_ERROR_IPC_WRITE_BLOCK_FAILURE"
  "AGENTD_STATUS_ERROR_MACRO AGENTD_SERVICE_IPC 0x0005 = AGENTD_ERROR_IPC_WRITE_NONBLOCK_FAILURE"
  "AGENTD_STATUS_ERROR_MACRO AGENTD_SERVICE_IPC 0x0007 = AGENTD_ERROR_IPC_READ_UNEXPECTED_DATA_TYPE"
  "AGENTD_STATUS_ERROR_MACRO AGENTD_SERVICE_IPC 0x0008 = AGENTD_ERROR_IPC_READ_UNEXPECTED_DATA_SIZE"
  "AGENTD_STATUS_ERROR_MACRO AGENTD_SERVICE_IPC 0x0009 = AGENTD_ERROR_IPC_READ_BUFFER_DRAIN_FAILURE"
  "AGENTD_STATUS_ERROR_MACRO AGENTD_SERVICE_IPC 0x000A = AGENTD_ERROR_IPC_READ_BUFFER_REMOVE_FAILURE"
  "AGENTD_STATUS_ERROR_MACRO AGENTD_SERVICE_IPC 0x000B = AGENTD_ERROR_IPC_WRITE_BUFFER_TYPE_ADD_FAILURE"
  "AGENTD_STATUS_ERROR_MACRO AGENTD_SERVICE_IPC 0x000C = AGENTD_ERROR_IPC_WRITE_BUFFER_SIZE_ADD_FAILURE"
  "AGENTD_STATUS_ERROR_MACRO AGENTD_SERVICE_IPC 0x000D = AGENTD_ERROR_IPC_WRITE_BUFFER_PAYLOAD_ADD_FAILURE"
  "AGENTD_STATUS_ERROR_MACRO AGENTD_SERVICE_IPC 0x0016 = AGENTD_ERROR_IPC_EVBUFFER_READ_FAILURE"
  "AGENTD_STATUS_ERROR_MACRO AGENTD_SERVICE_IPC 0x0019 = AGENTD_ERROR_IPC_CRYPTO_FAILURE"
  "AGENTD_STATUS_ERROR_MACRO AGENTD_SERVICE_IPC 0x001A = AGENTD_ERROR_IPC_UNAUTHORIZED_PACKET"
  "AGENTD_STATUS_ERROR_MACRO AGENTD_SERVICE_IPC 0x001B = AGENTD_ERROR_IPC_EVBUFFER_EOF"
  by (simp_all add: AGENTD_STATUS_ERROR_MACRO_def)

subsection \<open>Blocking sockets\<close>

record ipc_fd =
  rx :: bytes
  tx :: bytes
  rd_limits :: "nat option list"
  wr_limits :: "nat option list"

text \<open>\<^verbatim>\<open>read\<close> and \<^verbatim>\<open>write\<close> of POSIX.\<close>

definition sys_read :: "nat \<Rightarrow> ipc_fd \<Rightarrow> int \<times> bytes \<times> ipc_fd" where
  "sys_read n fd =
     (case rd_limits fd of
        None # ls \<Rightarrow> (-1, [], fd\<lparr>rd_limits := ls\<rparr>)
      | Some k # ls \<Rightarrow> (int (min (min n k) (length (rx fd))), take (min n k) (rx fd),
                        fd\<lparr>rx := drop (min n k) (rx fd), rd_limits := ls\<rparr>)
      | [] \<Rightarrow> (int (min n (length (rx fd))), take n (rx fd), fd\<lparr>rx := drop n (rx fd)\<rparr>))"

definition sys_write :: "bytes \<Rightarrow> ipc_fd \<Rightarrow> int \<times> ipc_fd" where
  "sys_write b fd =
     (case wr_limits fd of
        None # ls \<Rightarrow> (-1, fd\<lparr>wr_limits := ls\<rparr>)
      | Some k # ls \<Rightarrow> (int (min k (length b)), fd\<lparr>tx := tx fd @ take k b, wr_limits := ls\<rparr>)
      | [] \<Rightarrow> (int (length b), fd\<lparr>tx := tx fd @ b\<rparr>))"

text \<open>\<^verbatim>\<open>if (n != read(sock, ...)) return AGENTD_ERROR_IPC_READ_BLOCK_FAILURE;\<close> and its counterpart.\<close>

definition read_block :: "nat \<Rightarrow> ipc_fd \<Rightarrow> (bytes \<Rightarrow> ipc_fd \<Rightarrow> (status + 'a) \<times> ipc_fd) \<Rightarrow> (status + 'a) \<times> ipc_fd" where
  "read_block n fd k =
     (case sys_read n fd of (r, b, fd) \<Rightarrow>
      if int n \<noteq> r then (Inl AGENTD_ERROR_IPC_READ_BLOCK_FAILURE, fd) else k b fd)"

definition write_block :: "bytes \<Rightarrow> ipc_fd \<Rightarrow> (ipc_fd \<Rightarrow> status \<times> ipc_fd) \<Rightarrow> status \<times> ipc_fd" where
  "write_block b fd k =
     (case sys_write b fd of (r, fd) \<Rightarrow>
      if int (length b) \<noteq> r then (AGENTD_ERROR_IPC_WRITE_BLOCK_FAILURE, fd) else k fd)"

subsection \<open>Writing\<close>

definition ipc_write_int64_block :: "64 word \<Rightarrow> ipc_fd \<Rightarrow> status \<times> ipc_fd" where
  "ipc_write_int64_block val sock =
     write_block (net32 IPC_DATA_TYPE_INT64) sock (\<lambda>sock.
     write_block (net64 val) sock (\<lambda>sock. (AGENTD_STATUS_SUCCESS, sock)))"

definition ipc_write_uint64_block :: "64 word \<Rightarrow> ipc_fd \<Rightarrow> status \<times> ipc_fd" where
  "ipc_write_uint64_block val sock =
     write_block (net32 IPC_DATA_TYPE_UINT64) sock (\<lambda>sock.
     write_block (net64 val) sock (\<lambda>sock. (AGENTD_STATUS_SUCCESS, sock)))"

definition ipc_write_int8_block :: "8 word \<Rightarrow> ipc_fd \<Rightarrow> status \<times> ipc_fd" where
  "ipc_write_int8_block val sock =
     write_block (net32 IPC_DATA_TYPE_INT8) sock (\<lambda>sock.
     write_block [val] sock (\<lambda>sock. (AGENTD_STATUS_SUCCESS, sock)))"

definition ipc_write_uint8_block :: "8 word \<Rightarrow> ipc_fd \<Rightarrow> status \<times> ipc_fd" where
  "ipc_write_uint8_block val sock =
     write_block (net32 IPC_DATA_TYPE_UINT8) sock (\<lambda>sock.
     write_block [val] sock (\<lambda>sock. (AGENTD_STATUS_SUCCESS, sock)))"

text \<open>
  A C string is the bytes before the first zero.  The size of a packet is a 32-bit
  integer: the caller's \<^verbatim>\<open>size_t\<close> is truncated, and so is the length of a string.
\<close>

abbreviation c_string :: "bytes \<Rightarrow> bytes" where
  "c_string val \<equiv> takeWhile (\<lambda>b. b \<noteq> 0) val"

definition ipc_write_string_block :: "bytes \<Rightarrow> ipc_fd \<Rightarrow> status \<times> ipc_fd" where
  "ipc_write_string_block val sock =
     (let len = of_nat (length (c_string val)) :: 32 word in
     write_block (net32 IPC_DATA_TYPE_STRING) sock (\<lambda>sock.
     write_block (net32 len) sock (\<lambda>sock.
     write_block (take (unat len) (c_string val)) sock (\<lambda>sock. (AGENTD_STATUS_SUCCESS, sock)))))"

definition ipc_write_data_block :: "bytes \<Rightarrow> ipc_fd \<Rightarrow> status \<times> ipc_fd" where
  "ipc_write_data_block val sock =
     (let size = of_nat (length val) :: 32 word in
     write_block (net32 IPC_DATA_TYPE_DATA_PACKET) sock (\<lambda>sock.
     write_block (net32 size) sock (\<lambda>sock.
     write_block (take (unat size) val) sock (\<lambda>sock. (AGENTD_STATUS_SUCCESS, sock)))))"

subsection \<open>Reading\<close>

definition ipc_read_int64_block :: "ipc_fd \<Rightarrow> (status + 64 word) \<times> ipc_fd" where
  "ipc_read_int64_block sock =
     read_block 4 sock (\<lambda>type sock.
     if of_net32 type \<noteq> IPC_DATA_TYPE_INT64 then (Inl AGENTD_ERROR_IPC_READ_UNEXPECTED_DATA_TYPE, sock) else
     read_block 8 sock (\<lambda>nval sock. (Inr (of_net64 nval), sock)))"

definition ipc_read_uint64_block :: "ipc_fd \<Rightarrow> (status + 64 word) \<times> ipc_fd" where
  "ipc_read_uint64_block sock =
     read_block 4 sock (\<lambda>type sock.
     if of_net32 type \<noteq> IPC_DATA_TYPE_UINT64 then (Inl AGENTD_ERROR_IPC_READ_UNEXPECTED_DATA_TYPE, sock) else
     read_block 8 sock (\<lambda>nval sock. (Inr (of_net64 nval), sock)))"

definition ipc_read_int8_block :: "ipc_fd \<Rightarrow> (status + 8 word) \<times> ipc_fd" where
  "ipc_read_int8_block sock =
     read_block 4 sock (\<lambda>type sock.
     if of_net32 type \<noteq> IPC_DATA_TYPE_INT8 then (Inl AGENTD_ERROR_IPC_READ_UNEXPECTED_DATA_TYPE, sock) else
     read_block 1 sock (\<lambda>val sock. (Inr (hd val), sock)))"

definition ipc_read_uint8_block :: "ipc_fd \<Rightarrow> (status + 8 word) \<times> ipc_fd" where
  "ipc_read_uint8_block sock =
     read_block 4 sock (\<lambda>type sock.
     if of_net32 type \<noteq> IPC_DATA_TYPE_UINT8 then (Inl AGENTD_ERROR_IPC_READ_UNEXPECTED_DATA_TYPE, sock) else
     read_block 1 sock (\<lambda>val sock. (Inr (hd val), sock)))"

text \<open>A string is returned with its terminating zero; \<open>malloc_ok\<close> is the allocation of the value.\<close>

definition ipc_read_string_block :: "bool \<Rightarrow> ipc_fd \<Rightarrow> (status + bytes) \<times> ipc_fd" where
  "ipc_read_string_block malloc_ok sock =
     read_block 4 sock (\<lambda>type sock.
     if of_net32 type \<noteq> IPC_DATA_TYPE_STRING then (Inl AGENTD_ERROR_IPC_READ_UNEXPECTED_DATA_TYPE, sock) else
     read_block 4 sock (\<lambda>nsize sock.
     let size = of_net32 nsize in
     if size > 10 * 1024 * 1024 then (Inl AGENTD_ERROR_IPC_READ_UNEXPECTED_DATA_SIZE, sock) else
     if \<not> malloc_ok then (Inl AGENTD_ERROR_GENERAL_OUT_OF_MEMORY, sock) else
     read_block (unat size) sock (\<lambda>val sock. (Inr (val @ [0]), sock))))"

definition ipc_read_data_block :: "bool \<Rightarrow> ipc_fd \<Rightarrow> (status + bytes) \<times> ipc_fd" where
  "ipc_read_data_block malloc_ok sock =
     read_block 4 sock (\<lambda>type sock.
     if of_net32 type \<noteq> IPC_DATA_TYPE_DATA_PACKET then (Inl AGENTD_ERROR_IPC_READ_UNEXPECTED_DATA_TYPE, sock) else
     read_block 4 sock (\<lambda>nsize sock.
     let size = of_net32 nsize in
     if \<not> malloc_ok then (Inl AGENTD_ERROR_GENERAL_OUT_OF_MEMORY, sock) else
     read_block (unat size) sock (\<lambda>val sock. (Inr val, sock))))"

subsection \<open>Exact transfers\<close>

lemma sys_read_simps [simp]:
  "rd_limits fd = [] \<Longrightarrow> sys_read n fd = (int (min n (length (rx fd))), take n (rx fd), fd\<lparr>rx := drop n (rx fd)\<rparr>)"
  by (simp add: sys_read_def)

lemma read_block_ok:
  "rd_limits fd = [] \<Longrightarrow> rx fd = b @ rest \<Longrightarrow> length b = n \<Longrightarrow> read_block n fd k = k b (fd\<lparr>rx := rest\<rparr>)"
  by (simp add: read_block_def)

lemma read_block_sound:
  assumes "read_block n fd k = (Inr y, fd')"
  obtains b fd1 where "rx fd = b @ rx fd1" and "length b = n" and "k b fd1 = (Inr y, fd')"
proof -
  obtain r b fd1 where s: "sys_read n fd = (r, b, fd1)" by (metis prod.collapse)
  then have k: "int n = r" "k b fd1 = (Inr y, fd')" using assms by (auto simp: read_block_def split: if_splits)
  then have "rx fd = b @ rx fd1 \<and> length b = n"
    using s by (auto simp: sys_read_def min_def split: list.splits option.splits if_splits)
  then show thesis using that k(2) by blast
qed

lemma write_block_ok: "wr_limits fd = [] \<Longrightarrow> write_block b fd k = k (fd\<lparr>tx := tx fd @ b\<rparr>)"
  by (simp add: write_block_def sys_write_def)

lemma append_same_length: "a @ x = b @ y \<Longrightarrow> length a = length b \<Longrightarrow> a = b \<and> x = y"
  by simp

subsection \<open>Writers and readers\<close>

fun write_all :: "('a \<Rightarrow> ipc_fd \<Rightarrow> status \<times> ipc_fd) \<Rightarrow> ipc_fd \<Rightarrow> 'a list \<Rightarrow> status \<times> ipc_fd" where
  "write_all wr fd [] = (AGENTD_STATUS_SUCCESS, fd)"
| "write_all wr fd (x # xs) =
     (case wr x fd of (st, fd) \<Rightarrow> if st \<noteq> AGENTD_STATUS_SUCCESS then (st, fd) else write_all wr fd xs)"

text \<open>Read values of the given kinds until one cannot be read.\<close>

fun read_all :: "('k \<Rightarrow> ipc_fd \<Rightarrow> (status + 'b) \<times> ipc_fd) \<Rightarrow> ipc_fd \<Rightarrow> 'k list \<Rightarrow> 'b list \<times> ipc_fd" where
  "read_all rd fd [] = ([], fd)"
| "read_all rd fd (k # ks) =
     (case rd k fd of
        (Inl _, fd) \<Rightarrow> ([], fd)
      | (Inr y, fd) \<Rightarrow> (case read_all rd fd ks of (ys, fd) \<Rightarrow> (y # ys, fd)))"

locale ipc_codec =
  fixes wr :: "'a \<Rightarrow> ipc_fd \<Rightarrow> status \<times> ipc_fd"
    and rd :: "'k \<Rightarrow> ipc_fd \<Rightarrow> (status + 'b) \<times> ipc_fd"
    and kind :: "'a \<Rightarrow> 'k"
    and enc :: "'a \<Rightarrow> bytes"
    and res :: "'a \<Rightarrow> 'b"
    and ok :: "'a \<Rightarrow> bool"
  assumes wr_ok: "wr_limits fd = [] \<Longrightarrow> ok x \<Longrightarrow> wr x fd = (AGENTD_STATUS_SUCCESS, fd\<lparr>tx := tx fd @ enc x\<rparr>)"
    and rd_ok: "rd_limits fd = [] \<Longrightarrow> ok x \<Longrightarrow> rx fd = enc x @ rest \<Longrightarrow> rd (kind x) fd = (Inr (res x), fd\<lparr>rx := rest\<rparr>)"
    and rd_sound: "ok x \<Longrightarrow> rx fd = enc x @ rest \<Longrightarrow> rd (kind x) fd = (Inr y, fd') \<Longrightarrow> y = res x \<and> rx fd' = rest"
begin

lemma write_all_ok:
  "wr_limits fd = [] \<Longrightarrow> \<forall>x \<in> set xs. ok x \<Longrightarrow>
     write_all wr fd xs = (AGENTD_STATUS_SUCCESS, fd\<lparr>tx := tx fd @ concat (map enc xs)\<rparr>)"
  by (induction xs arbitrary: fd) (simp_all add: wr_ok)

lemma read_all_ok:
  "rd_limits fd = [] \<Longrightarrow> \<forall>x \<in> set xs. ok x \<Longrightarrow> rx fd = concat (map enc xs) @ rest \<Longrightarrow>
     read_all rd fd (map kind xs) = (map res xs, fd\<lparr>rx := rest\<rparr>)"
  by (induction xs arbitrary: fd) (simp_all add: rd_ok)

text \<open>Whatever \<^verbatim>\<open>read\<close> does, what is read is what was sent, as far as it goes.\<close>

lemma read_all_prefix:
  "\<forall>x \<in> set xs. ok x \<Longrightarrow> rx fd = concat (map enc xs) @ rest \<Longrightarrow>
     \<exists>n. fst (read_all rd fd (map kind xs)) = take n (map res xs)"
proof (induction xs arbitrary: fd)
  case Nil
  then show ?case by simp
next
  case (Cons x xs)
  obtain r fd1 where r: "rd (kind x) fd = (r, fd1)" by fastforce
  show ?case
  proof (cases r)
    case (Inl st)
    then show ?thesis using r by (intro exI [of _ 0]) simp
  next
    case (Inr y)
    have "rx fd = enc x @ (concat (map enc xs) @ rest)" using Cons.prems(2) by simp
    from rd_sound [OF _ this] have "y = res x" "rx fd1 = concat (map enc xs) @ rest"
      using r Inr Cons.prems(1) by auto
    moreover obtain n where "fst (read_all rd fd1 (map kind xs)) = take n (map res xs)"
      using Cons.IH [of fd1] Cons.prems(1) calculation(2) by auto
    ultimately show ?thesis using r Inr by (intro exI [of _ "Suc n"]) (simp add: case_prod_beta)
  qed
qed

end

subsection \<open>The six types of values\<close>

definition sized_ok :: "bytes \<Rightarrow> bool" where
  "sized_ok b \<longleftrightarrow> length b < 2 ^ 32"

lemma sized_unat: "sized_ok b \<Longrightarrow> unat (of_nat (length b) :: 32 word) = length b"
  by (simp add: sized_ok_def unat_of_nat)

lemmas ipc_writers = ipc_write_int64_block_def ipc_write_uint64_block_def ipc_write_int8_block_def ipc_write_uint8_block_def
  ipc_write_string_block_def ipc_write_data_block_def

lemmas ipc_readers = ipc_read_int64_block_def ipc_read_uint64_block_def ipc_read_int8_block_def ipc_read_uint8_block_def
  ipc_read_string_block_def ipc_read_data_block_def

text \<open>Readers of a value of fixed size after its type.\<close>

definition read_typed :: "32 word \<Rightarrow> nat \<Rightarrow> (bytes \<Rightarrow> 'a) \<Rightarrow> ipc_fd \<Rightarrow> (status + 'a) \<times> ipc_fd" where
  "read_typed ty n f sock =
     read_block 4 sock (\<lambda>type sock.
     if of_net32 type \<noteq> ty then (Inl AGENTD_ERROR_IPC_READ_UNEXPECTED_DATA_TYPE, sock) else
     read_block n sock (\<lambda>val sock. (Inr (f val), sock)))"

lemma fixed_readers:
  "ipc_read_int64_block = read_typed IPC_DATA_TYPE_INT64 8 of_net64"
  "ipc_read_uint64_block = read_typed IPC_DATA_TYPE_UINT64 8 of_net64"
  "ipc_read_int8_block = read_typed IPC_DATA_TYPE_INT8 1 hd"
  "ipc_read_uint8_block = read_typed IPC_DATA_TYPE_UINT8 1 hd"
  unfolding ipc_readers read_typed_def by (rule ext, rule refl)+

lemma read_typed_ok:
  "rd_limits fd = [] \<Longrightarrow> rx fd = net32 ty @ b @ rest \<Longrightarrow> length b = n \<Longrightarrow>
     read_typed ty n f fd = (Inr (f b), fd\<lparr>rx := rest\<rparr>)"
  by (simp add: read_typed_def read_block_ok [where b = "net32 ty"] read_block_ok [where b = b])

lemma read_typed_sound:
  assumes "rx fd = net32 ty @ b @ rest" and "length b = n" and "read_typed ty n f fd = (Inr y, fd')"
  shows "y = f b \<and> rx fd' = rest"
proof -
  obtain t fd1 where t: "rx fd = t @ rx fd1" "length t = 4"
    and k: "(if of_net32 t \<noteq> ty then (Inl AGENTD_ERROR_IPC_READ_UNEXPECTED_DATA_TYPE, fd1)
      else read_block n fd1 (\<lambda>val sock. (Inr (f val), sock))) = (Inr y, fd')"
    using assms(3) unfolding read_typed_def by (rule read_block_sound)
  have r: "rx fd1 = b @ rest" using append_same_length [of "net32 ty" "b @ rest" t "rx fd1"] assms(1) t by simp
  obtain v fd2 where "rx fd1 = v @ rx fd2" "length v = n" "(Inr (f v), fd2) = (Inr y, fd')"
    using k by (auto split: if_splits elim: read_block_sound)
  then show ?thesis using r assms(2) by auto
qed

lemma fixed_codec:
  assumes "\<And>x fd. wr x fd = write_block (net32 ty) fd (\<lambda>fd. write_block (e x) fd (\<lambda>fd. (AGENTD_STATUS_SUCCESS, fd)))"
    and "\<And>x. length (e x) = n" and "\<And>x. f (e x) = x"
  shows "ipc_codec wr (\<lambda>_. read_typed ty n f) (\<lambda>_. ()) (\<lambda>x. net32 ty @ e x) (\<lambda>x. x) (\<lambda>_. True)"
proof
  fix fd rest y fd' x assume "rx fd = (net32 ty @ e x) @ rest" "read_typed ty n f fd = (Inr y, fd')"
  then show "y = x \<and> rx fd' = rest" using read_typed_sound [of fd ty "e x" rest n f y fd'] assms(2,3) by simp
qed (simp_all add: assms write_block_ok read_typed_ok)

interpretation int64_codec: ipc_codec ipc_write_int64_block "\<lambda>_. ipc_read_int64_block" "\<lambda>_. ()"
  "\<lambda>x. net32 IPC_DATA_TYPE_INT64 @ net64 x" "\<lambda>x. x" "\<lambda>_. True"
  unfolding fixed_readers by (rule fixed_codec) (simp_all add: ipc_writers)

interpretation uint64_codec: ipc_codec ipc_write_uint64_block "\<lambda>_. ipc_read_uint64_block" "\<lambda>_. ()"
  "\<lambda>x. net32 IPC_DATA_TYPE_UINT64 @ net64 x" "\<lambda>x. x" "\<lambda>_. True"
  unfolding fixed_readers by (rule fixed_codec) (simp_all add: ipc_writers)

interpretation int8_codec: ipc_codec ipc_write_int8_block "\<lambda>_. ipc_read_int8_block" "\<lambda>_. ()"
  "\<lambda>x. net32 IPC_DATA_TYPE_INT8 @ [x]" "\<lambda>x. x" "\<lambda>_. True"
  unfolding fixed_readers by (rule fixed_codec) (simp_all add: ipc_writers)

interpretation uint8_codec: ipc_codec ipc_write_uint8_block "\<lambda>_. ipc_read_uint8_block" "\<lambda>_. ()"
  "\<lambda>x. net32 IPC_DATA_TYPE_UINT8 @ [x]" "\<lambda>x. x" "\<lambda>_. True"
  unfolding fixed_readers by (rule fixed_codec) (simp_all add: ipc_writers)

text \<open>Readers of a value whose size follows its type; \<open>bad\<close> are the sizes and allocations refused.\<close>

definition read_sized ::
  "32 word \<Rightarrow> (32 word \<Rightarrow> status option) \<Rightarrow> (bytes \<Rightarrow> 'a) \<Rightarrow> ipc_fd \<Rightarrow> (status + 'a) \<times> ipc_fd" where
  "read_sized ty bad f sock =
     read_block 4 sock (\<lambda>type sock.
     if of_net32 type \<noteq> ty then (Inl AGENTD_ERROR_IPC_READ_UNEXPECTED_DATA_TYPE, sock) else
     read_block 4 sock (\<lambda>nsize sock.
     case bad (of_net32 nsize) of
       Some st \<Rightarrow> (Inl st, sock)
     | None \<Rightarrow> read_block (unat (of_net32 nsize)) sock (\<lambda>val sock. (Inr (f val), sock))))"

lemma sized_readers:
  "ipc_read_string_block m = read_sized IPC_DATA_TYPE_STRING
     (\<lambda>size. if size > 10 * 1024 * 1024 then Some AGENTD_ERROR_IPC_READ_UNEXPECTED_DATA_SIZE
             else if \<not> m then Some AGENTD_ERROR_GENERAL_OUT_OF_MEMORY else None) (\<lambda>val. val @ [0])"
  "ipc_read_data_block m = read_sized IPC_DATA_TYPE_DATA_PACKET
     (\<lambda>size. if \<not> m then Some AGENTD_ERROR_GENERAL_OUT_OF_MEMORY else None) (\<lambda>val. val)"
  by (auto simp: fun_eq_iff ipc_readers read_sized_def Let_def intro!: arg_cong [where f = "read_block 4 _"])

lemma read_sized_ok:
  assumes "rd_limits fd = []" and "rx fd = net32 ty @ net32 (of_nat (length b)) @ b @ rest" and "sized_ok b"
    and "bad (of_nat (length b)) = None"
  shows "read_sized ty bad f fd = (Inr (f b), fd\<lparr>rx := rest\<rparr>)"
  using assms by (simp add: read_sized_def read_block_ok [where b = "net32 ty"]
      read_block_ok [where b = "net32 (of_nat (length b))"] read_block_ok [where b = b] sized_unat)

lemma read_sized_sound:
  assumes "rx fd = net32 ty @ net32 (of_nat (length b)) @ b @ rest" and "sized_ok b"
    and "read_sized ty bad f fd = (Inr y, fd')"
  shows "y = f b \<and> rx fd' = rest"
proof -
  obtain t fd1 where t: "rx fd = t @ rx fd1" "length t = 4"
    and k: "(if of_net32 t \<noteq> ty then (Inl AGENTD_ERROR_IPC_READ_UNEXPECTED_DATA_TYPE, fd1) else
      read_block 4 fd1 (\<lambda>nsize sock. case bad (of_net32 nsize) of Some st \<Rightarrow> (Inl st, sock)
        | None \<Rightarrow> read_block (unat (of_net32 nsize)) sock (\<lambda>val sock. (Inr (f val), sock)))) = (Inr y, fd')"
    using assms(3) unfolding read_sized_def by (rule read_block_sound)
  have r: "rx fd1 = net32 (of_nat (length b)) @ b @ rest"
    using append_same_length [of "net32 ty" _ t "rx fd1"] assms(1) t by simp
  obtain s fd2 where s: "rx fd1 = s @ rx fd2" "length s = 4"
    and k2: "(case bad (of_net32 s) of Some st \<Rightarrow> (Inl st, fd2)
        | None \<Rightarrow> read_block (unat (of_net32 s)) fd2 (\<lambda>val sock. (Inr (f val), sock))) = (Inr y, fd')"
    using k by (auto split: if_splits elim: read_block_sound)
  have e: "s = net32 (of_nat (length b))" "rx fd2 = b @ rest"
    using append_same_length [of "net32 (of_nat (length b))" _ s "rx fd2"] r s by simp_all
  obtain v fd3 where "rx fd2 = v @ rx fd3" "length v = length b" "(Inr (f v), fd3) = (Inr y, fd')"
    using k2 e(1) sized_unat [OF assms(2)] by (auto split: option.splits elim: read_block_sound)
  then show ?thesis using e(2) by auto
qed

lemma sized_codec:
  assumes "\<And>x fd. ok x \<Longrightarrow> wr x fd = write_block (net32 ty) fd (\<lambda>fd. write_block (net32 (of_nat (length x))) fd
      (\<lambda>fd. write_block x fd (\<lambda>fd. (AGENTD_STATUS_SUCCESS, fd))))"
    and "\<And>x. ok x \<Longrightarrow> sized_ok x \<and> bad (of_nat (length x)) = None"
  shows "ipc_codec wr (\<lambda>_. read_sized ty bad f) (\<lambda>_. ()) (\<lambda>x. net32 ty @ net32 (of_nat (length x)) @ x) f ok"
proof
  fix fd rest y fd' x assume "ok x" "rx fd = (net32 ty @ net32 (of_nat (length x)) @ x) @ rest"
    "read_sized ty bad f fd = (Inr y, fd')"
  then show "y = f x \<and> rx fd' = rest" using read_sized_sound [of fd ty x rest bad f y fd'] assms(2) by simp
qed (simp_all add: assms write_block_ok read_sized_ok)

definition string_ok :: "bytes \<Rightarrow> bool" where
  "string_ok b \<longleftrightarrow> 0 \<notin> set b \<and> length b \<le> 10 * 1024 * 1024"

lemma string_ok_simps: "string_ok b \<Longrightarrow> c_string b = b" "string_ok b \<Longrightarrow> sized_ok b"
  "string_ok b \<Longrightarrow> (of_nat (length b) :: 32 word) \<le> 10485760"
  by (auto simp: string_ok_def sized_ok_def takeWhile_eq_all_conv word_le_nat_alt unat_of_nat)

interpretation string_codec: ipc_codec ipc_write_string_block "\<lambda>_. ipc_read_string_block True" "\<lambda>_. ()"
  "\<lambda>x. net32 IPC_DATA_TYPE_STRING @ net32 (of_nat (length x)) @ x" "\<lambda>x. x @ [0]" string_ok
  unfolding sized_readers by (rule sized_codec) (simp_all add: ipc_writers string_ok_simps sized_unat not_less)

interpretation data_codec: ipc_codec ipc_write_data_block "\<lambda>_. ipc_read_data_block True" "\<lambda>_. ()"
  "\<lambda>x. net32 IPC_DATA_TYPE_DATA_PACKET @ net32 (of_nat (length x)) @ x" "\<lambda>x. x" sized_ok
  unfolding sized_readers by (rule sized_codec) (simp_all add: ipc_writers sized_unat)

subsection \<open>Streams of mixed values\<close>

datatype ipc_kind = Int64 | Uint64 | Int8 | Uint8 | String | Data

datatype ipc_value = Int64_val "64 word" | Uint64_val "64 word" | Int8_val "8 word" | Uint8_val "8 word"
  | String_val bytes | Data_val bytes

fun kind_of :: "ipc_value \<Rightarrow> ipc_kind" where
  "kind_of (Int64_val _) = Int64" | "kind_of (Uint64_val _) = Uint64" | "kind_of (Int8_val _) = Int8"
| "kind_of (Uint8_val _) = Uint8" | "kind_of (String_val _) = String" | "kind_of (Data_val _) = Data"

fun value_ok :: "ipc_value \<Rightarrow> bool" where
  "value_ok (String_val b) = string_ok b" | "value_ok (Data_val b) = sized_ok b" | "value_ok _ = True"

fun ipc_write_value :: "ipc_value \<Rightarrow> ipc_fd \<Rightarrow> status \<times> ipc_fd" where
  "ipc_write_value (Int64_val x) = ipc_write_int64_block x" | "ipc_write_value (Uint64_val x) = ipc_write_uint64_block x"
| "ipc_write_value (Int8_val x) = ipc_write_int8_block x" | "ipc_write_value (Uint8_val x) = ipc_write_uint8_block x"
| "ipc_write_value (String_val x) = ipc_write_string_block x" | "ipc_write_value (Data_val x) = ipc_write_data_block x"

definition read_as :: "('a \<Rightarrow> 'b) \<Rightarrow> (ipc_fd \<Rightarrow> (status + 'a) \<times> ipc_fd) \<Rightarrow> ipc_fd \<Rightarrow> (status + 'b) \<times> ipc_fd" where
  "read_as f rd sock = (case rd sock of (Inl st, sock) \<Rightarrow> (Inl st, sock) | (Inr x, sock) \<Rightarrow> (Inr (f x), sock))"

fun ipc_read_value :: "ipc_kind \<Rightarrow> ipc_fd \<Rightarrow> (status + ipc_value) \<times> ipc_fd" where
  "ipc_read_value Int64 = read_as Int64_val ipc_read_int64_block"
| "ipc_read_value Uint64 = read_as Uint64_val ipc_read_uint64_block"
| "ipc_read_value Int8 = read_as Int8_val ipc_read_int8_block"
| "ipc_read_value Uint8 = read_as Uint8_val ipc_read_uint8_block"
| "ipc_read_value String = read_as (\<lambda>b. String_val (butlast b)) (ipc_read_string_block True)"
| "ipc_read_value Data = read_as Data_val (ipc_read_data_block True)"

fun value_bytes :: "ipc_value \<Rightarrow> bytes" where
  "value_bytes (Int64_val x) = net32 IPC_DATA_TYPE_INT64 @ net64 x"
| "value_bytes (Uint64_val x) = net32 IPC_DATA_TYPE_UINT64 @ net64 x"
| "value_bytes (Int8_val x) = net32 IPC_DATA_TYPE_INT8 @ [x]"
| "value_bytes (Uint8_val x) = net32 IPC_DATA_TYPE_UINT8 @ [x]"
| "value_bytes (String_val x) = net32 IPC_DATA_TYPE_STRING @ net32 (of_nat (length x)) @ x"
| "value_bytes (Data_val x) = net32 IPC_DATA_TYPE_DATA_PACKET @ net32 (of_nat (length x)) @ x"

lemma read_as_Inr: "read_as f rd fd = (Inr y, fd') \<longleftrightarrow> (\<exists>x. rd fd = (Inr x, fd') \<and> y = f x)"
  by (auto simp: read_as_def split: prod.splits sum.splits)

interpretation value_codec: ipc_codec ipc_write_value ipc_read_value kind_of value_bytes "\<lambda>x. x" value_ok
proof
  fix fd :: ipc_fd and x assume "wr_limits fd = []" "value_ok x"
  then show "ipc_write_value x fd = (AGENTD_STATUS_SUCCESS, fd\<lparr>tx := tx fd @ value_bytes x\<rparr>)"
    by (cases x) (simp_all add: int64_codec.wr_ok uint64_codec.wr_ok int8_codec.wr_ok uint8_codec.wr_ok
        string_codec.wr_ok data_codec.wr_ok)
next
  fix fd :: ipc_fd and x rest assume "rd_limits fd = []" "value_ok x" "rx fd = value_bytes x @ rest"
  then show "ipc_read_value (kind_of x) fd = (Inr x, fd\<lparr>rx := rest\<rparr>)"
    by (cases x) (simp_all add: read_as_def int64_codec.rd_ok uint64_codec.rd_ok int8_codec.rd_ok uint8_codec.rd_ok
        string_codec.rd_ok data_codec.rd_ok)
next
  fix fd fd' :: ipc_fd and x rest y
  assume a: "value_ok x" "rx fd = value_bytes x @ rest" "ipc_read_value (kind_of x) fd = (Inr y, fd')"
  show "y = x \<and> rx fd' = rest"
  proof (cases x)
    case (Int64_val v)
    then show ?thesis using a int64_codec.rd_sound [of fd v rest _ fd'] by (auto simp: read_as_Inr)
  next
    case (Uint64_val v)
    then show ?thesis using a uint64_codec.rd_sound [of fd v rest _ fd'] by (auto simp: read_as_Inr)
  next
    case (Int8_val v)
    then show ?thesis using a int8_codec.rd_sound [of fd v rest _ fd'] by (auto simp: read_as_Inr)
  next
    case (Uint8_val v)
    then show ?thesis using a uint8_codec.rd_sound [of fd v rest _ fd'] by (auto simp: read_as_Inr)
  next
    case (String_val v)
    then show ?thesis using a string_codec.rd_sound [of v fd rest _ fd'] by (auto simp: read_as_Inr)
  next
    case (Data_val v)
    then show ?thesis using a data_codec.rd_sound [of v fd rest _ fd'] by (auto simp: read_as_Inr)
  qed
qed

subsection \<open>Properties\<close>

text \<open>
  C39. What is written to a blocking socket is what the peer reads: any sequence of
  values (strings of at most 10 MB without a zero byte, blocks of data below 4 GB) for
  which \<^verbatim>\<open>write\<close> takes all bytes is read back by readers of the same types, in order
  and complete, and leaves the rest of the stream alone; when \<^verbatim>\<open>read\<close> fails or
  returns less than was asked for at any point, the values read before that are still
  the first ones that were written.
\<close>

theorem ipc_stream_delivered:
  assumes "wr_limits out = []" and "tx out = []" and "\<forall>v \<in> set vs. value_ok v"
    and "rx peer = tx (snd (write_all ipc_write_value out vs)) @ rest"
  shows "fst (write_all ipc_write_value out vs) = AGENTD_STATUS_SUCCESS \<and>
     (rd_limits peer = [] \<longrightarrow> read_all ipc_read_value peer (map kind_of vs) = (vs, peer\<lparr>rx := rest\<rparr>)) \<and>
     (\<exists>n. fst (read_all ipc_read_value peer (map kind_of vs)) = take n vs)"
proof -
  have w: "write_all ipc_write_value out vs = (AGENTD_STATUS_SUCCESS, out\<lparr>tx := concat (map value_bytes vs)\<rparr>)"
    using value_codec.write_all_ok [OF assms(1,3)] assms(2) by simp
  then have "rx peer = concat (map value_bytes vs) @ rest" using assms(4) by simp
  then show ?thesis using w value_codec.read_all_ok [of peer vs rest] value_codec.read_all_prefix [OF assms(3), of peer rest] assms(3)
    by simp
qed

theorem ipc_stream_delivered_witness:
  "fst (read_all ipc_read_value \<lparr> rx = tx (snd (write_all ipc_write_value \<lparr> rx = [], tx = [], rd_limits = [], wr_limits = [] \<rparr>
       [Uint8_val 7, String_val [97, 98], Int64_val (-1)])), tx = [], rd_limits = [], wr_limits = [] \<rparr> [Uint8, String, Int64]) =
     [Uint8_val 7, String_val [97, 98], Int64_val (-1)]"
  using ipc_stream_delivered [of "\<lparr> rx = [], tx = [], rd_limits = [], wr_limits = [] \<rparr>" "[Uint8_val 7, String_val [97, 98], Int64_val (-1)]"
      "\<lparr> rx = tx (snd (write_all ipc_write_value \<lparr> rx = [], tx = [], rd_limits = [], wr_limits = [] \<rparr>
       [Uint8_val 7, String_val [97, 98], Int64_val (-1)])), tx = [], rd_limits = [], wr_limits = [] \<rparr>" "[]"]
  by (simp del: write_all.simps read_all.simps add: string_ok_def)

lemma type_mismatch:
  assumes "rd_limits fd = []" and "rx fd = net32 ty' @ rest" and "ty' \<noteq> ty"
  shows "read_typed ty n f fd = (Inl AGENTD_ERROR_IPC_READ_UNEXPECTED_DATA_TYPE, fd\<lparr>rx := rest\<rparr>)"
    and "read_sized ty bad f fd = (Inl AGENTD_ERROR_IPC_READ_UNEXPECTED_DATA_TYPE, fd\<lparr>rx := rest\<rparr>)"
  using assms by (simp_all add: read_typed_def read_sized_def read_block_ok [where b = "net32 ty'"])

text \<open>The type that precedes a value.\<close>

fun ipc_type :: "ipc_kind \<Rightarrow> 32 word" where
  "ipc_type Int64 = IPC_DATA_TYPE_INT64" | "ipc_type Uint64 = IPC_DATA_TYPE_UINT64" | "ipc_type Int8 = IPC_DATA_TYPE_INT8"
| "ipc_type Uint8 = IPC_DATA_TYPE_UINT8" | "ipc_type String = IPC_DATA_TYPE_STRING" | "ipc_type Data = IPC_DATA_TYPE_DATA_PACKET"

lemma ipc_type_inj: "ipc_type k = ipc_type k' \<longleftrightarrow> k = k'"
  by (cases k; cases k') simp_all

lemma value_bytes_type: "\<exists>p. value_bytes v = net32 (ipc_type (kind_of v)) @ p"
  by (cases v) auto

lemma read_value_mismatch:
  "rd_limits fd = [] \<Longrightarrow> rx fd = net32 ty @ rest \<Longrightarrow> ty \<noteq> ipc_type k \<Longrightarrow>
     ipc_read_value k fd = (Inl AGENTD_ERROR_IPC_READ_UNEXPECTED_DATA_TYPE, fd\<lparr>rx := rest\<rparr>)"
  by (cases k) (simp_all add: read_as_def fixed_readers sized_readers type_mismatch)

text \<open>
  A value is never taken for one of another type: reading it with a reader of
  another type reports an unexpected data type and consumes the type only.
\<close>

theorem ipc_wrong_type_rejected:
  assumes "rd_limits fd = []" and "rx fd = value_bytes v @ rest" and "kind_of v \<noteq> k"
  shows "ipc_read_value k fd = (Inl AGENTD_ERROR_IPC_READ_UNEXPECTED_DATA_TYPE, fd\<lparr>rx := drop 4 (rx fd)\<rparr>)"
proof -
  obtain p where p: "value_bytes v = net32 (ipc_type (kind_of v)) @ p" using value_bytes_type by blast
  then show ?thesis using read_value_mismatch [OF assms(1), of "ipc_type (kind_of v)" "p @ rest" k] assms(2,3)
    by (simp add: ipc_type_inj)
qed

theorem ipc_wrong_type_rejected_witness:
  "ipc_read_value Int8 \<lparr> rx = value_bytes (Uint8_val 7), tx = [], rd_limits = [], wr_limits = [] \<rparr> =
     (Inl AGENTD_ERROR_IPC_READ_UNEXPECTED_DATA_TYPE, \<lparr> rx = [7], tx = [], rd_limits = [], wr_limits = [] \<rparr>)"
  using ipc_wrong_type_rejected [of "\<lparr> rx = value_bytes (Uint8_val 7), tx = [], rd_limits = [], wr_limits = [] \<rparr>" "Uint8_val 7" "[]" Int8]
  by simp

end
