(* ===== verification/Ipc_Noblock.thy ===== *)
theory Ipc_Noblock
  imports Ipc
begin

text \<open>
  Typed packets over non-blocking sockets (\<^verbatim>\<open>src/src/ipc/ipc_*_noblock.c\<close> and
  \<^verbatim>\<open>ipc_socket_*.c\<close>).  The buffers of a socket are evbuffers of libevent; the
  library is a parameter, the record \<open>evsock\<close> of its operations on the state \<open>'s\<close>
  of a socket with its read buffer, its write buffer and its descriptor.  The locale
  \<open>ev_socket\<close> states what the libevent documentation promises of the calls, in
  terms of the bytes in the buffers, on their way to the socket and sent by it;
  \<open>ev_reliable\<close> adds that they do not fail.  \<open>mem_evsock\<close> meets both.
\<close>

subsection \<open>The buffers\<close>

text \<open>
  \<open>evbuffer_read s howmuch\<close> returns the result and whether \<^verbatim>\<open>errno\<close> is \<^verbatim>\<open>EAGAIN\<close> or
  \<^verbatim>\<open>EWOULDBLOCK\<close> (\<open>None\<close> is the argument -1); \<open>evbuffer_add\<close>, \<open>evbuffer_write\<close> and
  \<open>writebuf_length\<close> act on the write buffer, the other operations on the read buffer.
\<close>

record 's evsock =
  evbuffer_read :: "'s \<Rightarrow> nat option \<Rightarrow> (int \<times> bool) \<times> 's"
  evbuffer_pullup :: "'s \<Rightarrow> nat \<Rightarrow> bytes option"
  evbuffer_get_length :: "'s \<Rightarrow> nat"
  evbuffer_drain :: "'s \<Rightarrow> nat \<Rightarrow> int \<times> 's"
  evbuffer_remove :: "'s \<Rightarrow> nat \<Rightarrow> int \<times> bytes \<times> 's"
  evbuffer_add :: "'s \<Rightarrow> bytes \<Rightarrow> int \<times> 's"
  evbuffer_write :: "'s \<Rightarrow> int \<times> 's"
  writebuf_length :: "'s \<Rightarrow> nat"

locale ev_socket =
  fixes ev :: "'s evsock"
    and rbuf :: "'s \<Rightarrow> bytes" and wbuf :: "'s \<Rightarrow> bytes"
    and incoming :: "'s \<Rightarrow> bytes" and sent :: "'s \<Rightarrow> bytes"
  assumes read_some: "evbuffer_read ev s h = ((r, w), s') \<Longrightarrow> 0 < r \<Longrightarrow>
      \<exists>d. d \<noteq> [] \<and> incoming s = d @ incoming s' \<and> rbuf s' = rbuf s @ d \<and> wbuf s' = wbuf s \<and> sent s' = sent s"
    and read_none: "evbuffer_read ev s h = ((r, w), s') \<Longrightarrow> r \<le> 0 \<Longrightarrow>
      incoming s' = incoming s \<and> rbuf s' = rbuf s \<and> wbuf s' = wbuf s \<and> sent s' = sent s"
    and pullup_prefix: "evbuffer_pullup ev s n = Some b \<Longrightarrow> n \<le> length (rbuf s) \<and> b = take n (rbuf s)"
    and length_rbuf: "evbuffer_get_length ev s = length (rbuf s)"
    and length_wbuf: "writebuf_length ev s = length (wbuf s)"
    and drain_result: "fst (evbuffer_drain ev s n) \<in> {0, -1}"
    and drain_ok: "evbuffer_drain ev s n = (0, s') \<Longrightarrow>
      rbuf s' = drop n (rbuf s) \<and> incoming s' = incoming s \<and> wbuf s' = wbuf s \<and> sent s' = sent s"
    and remove_ok: "evbuffer_remove ev s n = (int n, b, s') \<Longrightarrow>
      b = take n (rbuf s) \<and> rbuf s' = drop n (rbuf s) \<and> incoming s' = incoming s \<and> wbuf s' = wbuf s \<and> sent s' = sent s"
    and add_ok: "evbuffer_add ev s b = (0, s') \<Longrightarrow>
      wbuf s' = wbuf s @ b \<and> rbuf s' = rbuf s \<and> incoming s' = incoming s \<and> sent s' = sent s"
    and write_ok: "evbuffer_write ev s = (r, s') \<Longrightarrow>
      rbuf s' = rbuf s \<and> incoming s' = incoming s \<and> sent s' @ wbuf s' = sent s @ wbuf s"

locale ev_reliable = ev_socket +
  assumes read_would_block: "fst (fst (evbuffer_read ev s h)) \<le> 0 \<Longrightarrow>
      incoming s = [] \<and> fst (fst (evbuffer_read ev s h)) < 0 \<and> snd (fst (evbuffer_read ev s h))"
    and pullup_some: "n \<le> length (rbuf s) \<Longrightarrow> evbuffer_pullup ev s n \<noteq> None"
    and drain_zero: "fst (evbuffer_drain ev s n) = 0"
    and remove_all: "n \<le> length (rbuf s) \<Longrightarrow> fst (evbuffer_remove ev s n) = int n"
    and add_zero: "fst (evbuffer_add ev s b) = 0"
    and write_nonneg: "0 \<le> fst (evbuffer_write ev s)"

subsection \<open>Reading\<close>

definition ipc_socket_read_to_buffer :: "'s evsock \<Rightarrow> 's \<Rightarrow> (int \<times> bool) \<times> 's" where
  "ipc_socket_read_to_buffer ev sock = evbuffer_read ev sock None"

definition ipc_socket_readbuffer_size :: "'s evsock \<Rightarrow> 's \<Rightarrow> nat" where
  "ipc_socket_readbuffer_size ev sock = evbuffer_get_length ev sock"

text \<open>
  A would-block result is not final: the buffer may already hold a packet.  The
  sizes 0 and 1 GB or more are refused.
\<close>

definition ipc_read_data_noblock :: "'s evsock \<Rightarrow> bool \<Rightarrow> 's \<Rightarrow> (status + bytes) \<times> 's" where
  "ipc_read_data_noblock ev malloc_ok sock =
     (case evbuffer_read ev sock None of ((r, would_block), sock) \<Rightarrow>
      if r < 0 \<and> \<not> would_block then (Inl AGENTD_ERROR_IPC_EVBUFFER_READ_FAILURE, sock) else
      if r = 0 then (Inl AGENTD_ERROR_IPC_EVBUFFER_EOF, sock) else
      case evbuffer_pullup ev sock 8 of
        None \<Rightarrow> (Inl AGENTD_ERROR_IPC_WOULD_BLOCK, sock)
      | Some mem \<Rightarrow>
      if of_net32 (take 4 mem) \<noteq> IPC_DATA_TYPE_DATA_PACKET
      then (Inl AGENTD_ERROR_IPC_READ_UNEXPECTED_DATA_TYPE, sock) else
      let size = of_net32 (take 4 (drop 4 mem)) in
      if size \<le> 0 \<or> size \<ge> 1024 * 1024 * 1024
      then (Inl AGENTD_ERROR_IPC_READ_UNEXPECTED_DATA_SIZE, sock) else
      if evbuffer_get_length ev sock < unat size + 8 then (Inl AGENTD_ERROR_IPC_WOULD_BLOCK, sock) else
      if \<not> malloc_ok then (Inl AGENTD_ERROR_GENERAL_OUT_OF_MEMORY, sock) else
      case evbuffer_drain ev sock 8 of (r, sock) \<Rightarrow>
      if r \<noteq> 0 then (Inl AGENTD_ERROR_IPC_READ_BUFFER_DRAIN_FAILURE, sock) else
      case evbuffer_remove ev sock (unat size) of (r, val, sock) \<Rightarrow>
      if r \<noteq> int (unat size) then (Inl AGENTD_ERROR_IPC_READ_BUFFER_REMOVE_FAILURE, sock) else
      (Inr val, sock))"

text \<open>
  The readers of integers treat every failed \<^verbatim>\<open>evbuffer_read\<close> as an error; the reader
  of \<^verbatim>\<open>int8_t\<close> does not look at the type.
\<close>

definition read_int_noblock ::
  "'s evsock \<Rightarrow> 32 word option \<Rightarrow> nat \<Rightarrow> (bytes \<Rightarrow> 'a) \<Rightarrow> 's \<Rightarrow> (status + 'a) \<times> 's" where
  "read_int_noblock ev ty n f sock =
     (case evbuffer_read ev sock None of ((r, _), sock) \<Rightarrow>
      if r < 0 then (Inl AGENTD_ERROR_IPC_EVBUFFER_READ_FAILURE, sock) else
      case evbuffer_pullup ev sock 4 of
        None \<Rightarrow> (Inl AGENTD_ERROR_IPC_WOULD_BLOCK, sock)
      | Some mem \<Rightarrow>
      if ty \<noteq> None \<and> of_net32 (take 4 mem) \<noteq> the ty
      then (Inl AGENTD_ERROR_IPC_READ_UNEXPECTED_DATA_TYPE, sock) else
      if evbuffer_get_length ev sock < n + 4 then (Inl AGENTD_ERROR_IPC_WOULD_BLOCK, sock) else
      case evbuffer_drain ev sock 4 of (r, sock) \<Rightarrow>
      if r \<noteq> 0 then (Inl AGENTD_ERROR_IPC_READ_BUFFER_DRAIN_FAILURE, sock) else
      case evbuffer_remove ev sock n of (r, val, sock) \<Rightarrow>
      if r \<noteq> int n then (Inl AGENTD_ERROR_IPC_READ_BUFFER_REMOVE_FAILURE, sock) else
      (Inr (f val), sock))"

definition ipc_read_int64_noblock :: "'s evsock \<Rightarrow> 's \<Rightarrow> (status + 64 word) \<times> 's" where
  "ipc_read_int64_noblock ev sock = read_int_noblock ev (Some IPC_DATA_TYPE_INT64) 8 of_net64 sock"

definition ipc_read_uint64_noblock :: "'s evsock \<Rightarrow> 's \<Rightarrow> (status + 64 word) \<times> 's" where
  "ipc_read_uint64_noblock ev sock = read_int_noblock ev (Some IPC_DATA_TYPE_UINT64) 8 of_net64 sock"

definition ipc_read_uint8_noblock :: "'s evsock \<Rightarrow> 's \<Rightarrow> (status + 8 word) \<times> 's" where
  "ipc_read_uint8_noblock ev sock = read_int_noblock ev (Some IPC_DATA_TYPE_UINT8) 1 hd sock"

definition ipc_read_int8_noblock :: "'s evsock \<Rightarrow> 's \<Rightarrow> (status + 8 word) \<times> 's" where
  "ipc_read_int8_noblock ev sock = read_int_noblock ev None 1 hd sock"

text \<open>
  The reader of strings compares the result of \<^verbatim>\<open>evbuffer_drain\<close> with the size of the
  header, and would then write its zero outside of the string (\<open>None\<close>).
\<close>

definition ipc_read_string_noblock :: "'s evsock \<Rightarrow> bool \<Rightarrow> 's \<Rightarrow> ((status + bytes) \<times> 's) option" where
  "ipc_read_string_noblock ev malloc_ok sock =
     (case evbuffer_pullup ev sock 8 of
        None \<Rightarrow> Some (Inl AGENTD_ERROR_IPC_WOULD_BLOCK, sock)
      | Some mem \<Rightarrow>
      if of_net32 (take 4 mem) \<noteq> IPC_DATA_TYPE_STRING
      then Some (Inl AGENTD_ERROR_IPC_READ_UNEXPECTED_DATA_TYPE, sock) else
      let size = of_net32 (take 4 (drop 4 mem)) in
      if size \<le> 0 \<or> size \<ge> 1024 * 1024 * 1024
      then Some (Inl AGENTD_ERROR_IPC_READ_UNEXPECTED_DATA_SIZE, sock) else
      if evbuffer_get_length ev sock < unat size + 8 then Some (Inl AGENTD_ERROR_IPC_WOULD_BLOCK, sock) else
      if \<not> malloc_ok then Some (Inl AGENTD_ERROR_GENERAL_OUT_OF_MEMORY, sock) else
      case evbuffer_drain ev sock 8 of (r, sock) \<Rightarrow>
      if 8 \<noteq> r then Some (Inl AGENTD_ERROR_IPC_READ_BUFFER_DRAIN_FAILURE, sock) else
      case evbuffer_remove ev sock (unat size) of (r, val, sock) \<Rightarrow>
      if r \<noteq> int (unat size) then Some (Inl AGENTD_ERROR_IPC_READ_BUFFER_REMOVE_FAILURE, sock) else None)"

subsection \<open>Writing\<close>

definition ipc_socket_write_from_buffer :: "'s evsock \<Rightarrow> 's \<Rightarrow> int \<times> 's" where
  "ipc_socket_write_from_buffer ev sock = evbuffer_write ev sock"

definition ipc_socket_writebuffer_size :: "'s evsock \<Rightarrow> 's \<Rightarrow> nat" where
  "ipc_socket_writebuffer_size ev sock = writebuf_length ev sock"

text \<open>\<^verbatim>\<open>if (0 != evbuffer_add(...)) return error;\<close>\<close>

definition add_or :: "'s evsock \<Rightarrow> status \<Rightarrow> bytes \<Rightarrow> 's \<Rightarrow> ('s \<Rightarrow> status \<times> 's) \<Rightarrow> status \<times> 's" where
  "add_or ev st b sock k = (case evbuffer_add ev sock b of (r, sock) \<Rightarrow> if r \<noteq> 0 then (st, sock) else k sock)"

definition ipc_write_data_noblock :: "'s evsock \<Rightarrow> bytes \<Rightarrow> 's \<Rightarrow> status \<times> 's" where
  "ipc_write_data_noblock ev val sock =
     (let size = of_nat (length val) :: 32 word in
      add_or ev AGENTD_ERROR_IPC_WRITE_BUFFER_TYPE_ADD_FAILURE (net32 IPC_DATA_TYPE_DATA_PACKET) sock (\<lambda>sock.
      add_or ev AGENTD_ERROR_IPC_WRITE_BUFFER_SIZE_ADD_FAILURE (net32 size) sock (\<lambda>sock.
      add_or ev AGENTD_ERROR_IPC_WRITE_BUFFER_PAYLOAD_ADD_FAILURE (take (unat size) val) sock (\<lambda>sock.
      case ipc_socket_write_from_buffer ev sock of (r, sock) \<Rightarrow>
      if r < 0 then (AGENTD_ERROR_IPC_WRITE_NONBLOCK_FAILURE, sock) else (AGENTD_STATUS_SUCCESS, sock)))))"

definition ipc_write_string_noblock :: "'s evsock \<Rightarrow> bytes \<Rightarrow> 's \<Rightarrow> status \<times> 's" where
  "ipc_write_string_noblock ev val sock =
     (let size = of_nat (length (c_string val)) :: 32 word in
      add_or ev AGENTD_ERROR_IPC_WRITE_BUFFER_TYPE_ADD_FAILURE (net32 IPC_DATA_TYPE_STRING) sock (\<lambda>sock.
      add_or ev AGENTD_ERROR_IPC_WRITE_BUFFER_SIZE_ADD_FAILURE (net32 size) sock (\<lambda>sock.
      add_or ev AGENTD_ERROR_IPC_WRITE_BUFFER_PAYLOAD_ADD_FAILURE (take (unat size) (c_string val)) sock (\<lambda>sock.
      (AGENTD_STATUS_SUCCESS, sock)))))"

definition ipc_write_int64_noblock :: "'s evsock \<Rightarrow> 64 word \<Rightarrow> 's \<Rightarrow> status \<times> 's" where
  "ipc_write_int64_noblock ev val sock =
     add_or ev AGENTD_ERROR_IPC_WRITE_BUFFER_TYPE_ADD_FAILURE (net32 IPC_DATA_TYPE_INT64) sock (\<lambda>sock.
     add_or ev AGENTD_ERROR_IPC_WRITE_BUFFER_PAYLOAD_ADD_FAILURE (net64 val) sock (\<lambda>sock. (AGENTD_STATUS_SUCCESS, sock)))"

definition ipc_write_uint64_noblock :: "'s evsock \<Rightarrow> 64 word \<Rightarrow> 's \<Rightarrow> status \<times> 's" where
  "ipc_write_uint64_noblock ev val sock =
     add_or ev AGENTD_ERROR_IPC_WRITE_BUFFER_TYPE_ADD_FAILURE (net32 IPC_DATA_TYPE_UINT64) sock (\<lambda>sock.
     add_or ev AGENTD_ERROR_IPC_WRITE_BUFFER_PAYLOAD_ADD_FAILURE (net64 val) sock (\<lambda>sock. (AGENTD_STATUS_SUCCESS, sock)))"

text \<open>
  The writers of bytes pass the value through \<^verbatim>\<open>htonll\<close>, as a 64-bit integer, and keep
  the low byte of the result; that of \<^verbatim>\<open>int8_t\<close> writes its type in host byte order.
\<close>

definition ipc_write_uint8_noblock :: "'s evsock \<Rightarrow> 8 word \<Rightarrow> 's \<Rightarrow> status \<times> 's" where
  "ipc_write_uint8_noblock ev val sock =
     add_or ev AGENTD_ERROR_IPC_WRITE_BUFFER_TYPE_ADD_FAILURE (net32 IPC_DATA_TYPE_UINT8) sock (\<lambda>sock.
     add_or ev AGENTD_ERROR_IPC_WRITE_BUFFER_PAYLOAD_ADD_FAILURE [ucast (htonll (ucast val :: 64 word))] sock
       (\<lambda>sock. (AGENTD_STATUS_SUCCESS, sock)))"

definition ipc_write_int8_noblock :: "'s evsock \<Rightarrow> 8 word \<Rightarrow> 's \<Rightarrow> status \<times> 's" where
  "ipc_write_int8_noblock ev val sock =
     add_or ev AGENTD_ERROR_IPC_WRITE_BUFFER_TYPE_ADD_FAILURE (mem32 IPC_DATA_TYPE_INT8) sock (\<lambda>sock.
     add_or ev AGENTD_ERROR_IPC_WRITE_BUFFER_PAYLOAD_ADD_FAILURE [ucast (htonll (scast val :: 64 word))] sock
       (\<lambda>sock. (AGENTD_STATUS_SUCCESS, sock)))"

subsection \<open>Packets in the stream\<close>

text \<open>A data packet on the wire, and the sizes both sides accept.\<close>

definition framed :: "bytes \<Rightarrow> bytes" where
  "framed p = net32 IPC_DATA_TYPE_DATA_PACKET @ net32 (of_nat (length p)) @ p"

definition packet_ok :: "bytes \<Rightarrow> bool" where
  "packet_ok p \<longleftrightarrow> 0 < length p \<and> length p < 1024 * 1024 * 1024"

lemma length_framed [simp]: "length (framed p) = length p + 8"
  by (simp add: framed_def)

lemma framed_not_Nil [simp]: "framed p \<noteq> []"
  by (metis length_framed add_is_0 list.size(3) zero_neq_numeral)

lemma framed_header:
  "take 4 (take 8 (framed p @ rest)) = net32 IPC_DATA_TYPE_DATA_PACKET"
  "take 4 (drop 4 (take 8 (framed p @ rest))) = net32 (of_nat (length p))"
  by (simp_all add: framed_def)

lemma packet_size:
  assumes "packet_ok p"
  shows "unat (of_nat (length p) :: 32 word) = length p" and "\<not> (of_nat (length p) :: 32 word) \<le> 0"
    and "\<not> (of_nat (length p) :: 32 word) \<ge> 0x40000000"
  using assms by (simp_all add: packet_ok_def unat_of_nat word_le_nat_alt)

context ev_socket
begin

abbreviation stream :: "'s \<Rightarrow> bytes" where
  "stream s \<equiv> rbuf s @ incoming s"

text \<open>What a call of the reader leaves when it does not return a packet.\<close>

lemma read_stream: "evbuffer_read ev s h = ((r, w), s') \<Longrightarrow>
    stream s' = stream s \<and> wbuf s' = wbuf s \<and> sent s' = sent s \<and> length (rbuf s) \<le> length (rbuf s')"
  using read_some [of s h r w s'] read_none [of s h r w s'] by (cases "0 < r") auto

lemma take_rbuf: "n \<le> length (rbuf s) \<Longrightarrow> take n (rbuf s) = take n (stream s)"
  by simp

text \<open>
  Whatever has arrived, a reader that returns a packet returns the first packet of
  the stream and takes exactly it from the stream.
\<close>

lemma read_data_sound:
  assumes s: "stream s = framed p @ rest" and ok: "packet_ok p"
    and r: "ipc_read_data_noblock ev m s = (Inr q, s')"
  shows "q = p \<and> stream s' = rest \<and> wbuf s' = wbuf s \<and> sent s' = sent s"
proof -
  obtain r0 w s1 where e: "evbuffer_read ev s None = ((r0, w), s1)" by (metis prod.collapse)
  note st = read_stream [OF e]
  obtain mem where mem: "evbuffer_pullup ev s1 8 = Some mem"
    using r e by (auto simp: ipc_read_data_noblock_def split: if_splits option.splits)
  have m: "mem = take 8 (framed p @ rest)" using pullup_prefix [OF mem] st s take_rbuf by metis
  note h = framed_header [of p rest, folded m]
  note sz = packet_size [OF ok]
  obtain r2 s2 where d: "evbuffer_drain ev s1 8 = (r2, s2)" by fastforce
  obtain r3 v s3 where x: "evbuffer_remove ev s2 (length p) = (r3, v, s3)" by (metis prod.collapse)
  have len: "length p + 8 \<le> length (rbuf s1)" and z: "r2 = 0" "r3 = int (length p)" and q: "q = v" "s' = s3"
    using r e mem h sz d x by (auto simp: ipc_read_data_noblock_def Let_def length_rbuf split: if_splits)
  note dr = drain_ok [OF d [unfolded z(1)]] and rm = remove_ok [OF x [unfolded z(2)]]
  have "take (length p + 8) (rbuf s1) = framed p" using take_rbuf [OF len] s st by simp
  then obtain t where r1: "rbuf s1 = framed p @ t" by (metis append_take_drop_id)
  then have "rbuf s2 = p @ t" using dr by (simp add: framed_def)
  moreover have "t @ incoming s1 = rest" using s st r1 by simp
  ultimately show ?thesis using dr rm q st by simp
qed

text \<open>A reader that returns no packet and does not fail half way loses nothing.\<close>

lemma read_data_kept:
  assumes r: "ipc_read_data_noblock ev m s = (Inl st, s')"
    and "st \<notin> {AGENTD_ERROR_IPC_READ_BUFFER_DRAIN_FAILURE, AGENTD_ERROR_IPC_READ_BUFFER_REMOVE_FAILURE}"
  shows "stream s' = stream s \<and> wbuf s' = wbuf s \<and> sent s' = sent s"
proof -
  obtain r0 w s1 where e: "evbuffer_read ev s None = ((r0, w), s1)" by (metis prod.collapse)
  then have "s' = s1" using r assms(2)
    by (auto simp: ipc_read_data_noblock_def Let_def split: if_splits option.splits prod.splits)
  then show ?thesis using read_stream [OF e] by simp
qed

lemma write_data_sent:
  assumes "packet_ok p" and "ipc_write_data_noblock ev p s = (AGENTD_STATUS_SUCCESS, s')"
  shows "sent s' @ wbuf s' = (sent s @ wbuf s) @ framed p \<and> rbuf s' = rbuf s \<and> incoming s' = incoming s"
proof -
  obtain r1 s1 where a1: "evbuffer_add ev s (net32 IPC_DATA_TYPE_DATA_PACKET) = (r1, s1)" by fastforce
  obtain r2 s2 where a2: "evbuffer_add ev s1 (net32 (of_nat (length p))) = (r2, s2)" by fastforce
  obtain r3 s3 where a3: "evbuffer_add ev s2 p = (r3, s3)" by fastforce
  obtain r4 s4 where w: "evbuffer_write ev s3 = (r4, s4)" by fastforce
  have z: "r1 = 0" "r2 = 0" "r3 = 0" "s' = s4"
    using assms a1 a2 a3 w packet_size(1) [OF assms(1)]
    by (auto simp: ipc_write_data_noblock_def Let_def add_or_def ipc_socket_write_from_buffer_def split: if_splits)
  show ?thesis using add_ok [OF a1 [unfolded z(1)]] add_ok [OF a2 [unfolded z(2)]] add_ok [OF a3 [unfolded z(3)]]
      write_ok [OF w] z(4) by (simp add: framed_def)
qed

end

context ev_reliable
begin

lemma reliable_read:
  obtains r w s' where "evbuffer_read ev s h = ((r, w), s')" and "stream s' = stream s" and "wbuf s' = wbuf s" and "sent s' = sent s"
    and "0 < r \<or> (r < 0 \<and> w)" and "\<exists>d. rbuf s' = rbuf s @ d" and "incoming s \<noteq> [] \<longrightarrow> length (rbuf s) < length (rbuf s')"
proof -
  obtain r w s' where e: "evbuffer_read ev s h = ((r, w), s')" by (metis prod.collapse)
  have x: "incoming s = [] \<and> r < 0 \<and> w" if "r \<le> 0" using read_would_block [of s h] e that by simp
  note st = read_stream [OF e]
  show thesis
  proof (cases "0 < r")
    case True
    obtain d where d: "d \<noteq> []" "rbuf s' = rbuf s @ d" using read_some [OF e True] by blast
    show thesis by (rule that [OF e]) (use st d True in auto)
  next
    case False
    show thesis by (rule that [OF e]) (use st x read_none [OF e] False in auto)
  qed
qed

text \<open>A packet that is complete in the buffer is returned, whatever else arrives.\<close>

lemma read_data_complete:
  assumes b: "rbuf s = framed p @ t" and ok: "packet_ok p"
  shows "\<exists>s'. ipc_read_data_noblock ev True s = (Inr p, s')"
proof -
  obtain r w s1 where e: "evbuffer_read ev s None = ((r, w), s1)" and rw: "0 < r \<or> (r < 0 \<and> w)" and d: "\<exists>d. rbuf s1 = rbuf s @ d"
    by (rule reliable_read [of s None])
  obtain d where r1: "rbuf s1 = framed p @ t @ d" using d b by auto
  obtain mem where mem: "evbuffer_pullup ev s1 8 = Some mem" using pullup_some [of 8 s1] r1 by auto
  have "mem = take 8 (framed p @ t @ d)" using pullup_prefix [OF mem] r1 by simp
  note h = framed_header [of p "t @ d", folded this]
  obtain s2 where dr: "evbuffer_drain ev s1 8 = (0, s2)" using drain_zero by (metis prod.collapse)
  have r2: "rbuf s2 = p @ t @ d" using drain_ok [OF dr] r1 by (simp add: framed_def)
  obtain v s3 where rm: "evbuffer_remove ev s2 (length p) = (int (length p), v, s3)"
    using remove_all [of "length p" s2] r2 by (metis length_append le_add1 prod.collapse)
  have "v = p" using remove_ok [OF rm] r2 by simp
  then show ?thesis using e rw mem h packet_size [OF ok] dr rm r1
    by (auto simp: ipc_read_data_noblock_def Let_def length_rbuf)
qed

text \<open>Before that, the reader asks to be called again and has taken in more of the stream.\<close>

lemma read_data_waits:
  assumes st: "stream s = framed p @ rest" and ok: "packet_ok p"
  shows "\<exists>s'. ipc_read_data_noblock ev True s = (Inr p, s') \<or>
     (ipc_read_data_noblock ev True s = (Inl AGENTD_ERROR_IPC_WOULD_BLOCK, s') \<and> length (rbuf s') < length p + 8)"
proof -
  obtain r w s1 where e: "evbuffer_read ev s None = ((r, w), s1)" and rw: "0 < r \<or> (r < 0 \<and> w)" and s1: "stream s1 = stream s"
    by (rule reliable_read [of s None])
  show ?thesis
  proof (cases "evbuffer_pullup ev s1 8")
    case None
    then have "length (rbuf s1) < 8" using pullup_some [of 8 s1] by force
    then show ?thesis using None e rw by (auto simp: ipc_read_data_noblock_def)
  next
    case (Some mem)
    have "mem = take 8 (framed p @ rest)" using pullup_prefix [OF Some] s1 st take_rbuf by metis
    note h = framed_header [of p rest, folded this]
    show ?thesis
    proof (cases "length (rbuf s1) < length p + 8")
      case True
      then show ?thesis using e rw Some h packet_size [OF ok] by (auto simp: ipc_read_data_noblock_def Let_def length_rbuf)
    next
      case False
      obtain s2 where dr: "evbuffer_drain ev s1 8 = (0, s2)" using drain_zero by (metis prod.collapse)
      have "length p \<le> length (rbuf s2)" using drain_ok [OF dr] False by simp
      then obtain v s3 where rm: "evbuffer_remove ev s2 (length p) = (int (length p), v, s3)"
        using remove_all by (metis prod.collapse)
      have x: "ipc_read_data_noblock ev True s = (Inr v, s3)"
        using e rw Some h packet_size [OF ok] False dr rm by (auto simp: ipc_read_data_noblock_def Let_def length_rbuf)
      then show ?thesis using read_data_sound [OF st ok x] by blast
    qed
  qed
qed

lemma read_data_incoming:
  assumes "ipc_read_data_noblock ev m s = (r, s')"
  shows "length (incoming s') \<le> length (incoming s) \<and> (incoming s \<noteq> [] \<longrightarrow> length (incoming s') < length (incoming s))"
proof -
  obtain r0 w s1 where e: "evbuffer_read ev s None = ((r0, w), s1)" and st: "stream s1 = stream s"
    and g: "\<exists>d. rbuf s1 = rbuf s @ d" "incoming s \<noteq> [] \<longrightarrow> length (rbuf s) < length (rbuf s1)"
    by (rule reliable_read [of s None])
  have l: "length (rbuf s1) + length (incoming s1) = length (rbuf s) + length (incoming s)" using st by (metis length_append)
  have "length (rbuf s) \<le> length (rbuf s1)" using g(1) by auto
  then have i1: "length (incoming s1) \<le> length (incoming s) \<and> (incoming s \<noteq> [] \<longrightarrow> length (incoming s1) < length (incoming s))"
    using g(2) l by linarith
  obtain s2 where d: "evbuffer_drain ev s1 8 = (0, s2)" using drain_zero by (metis prod.collapse)
  have i2: "incoming s2 = incoming s1" "rbuf s2 = drop 8 (rbuf s1)" using drain_ok [OF d] by auto
  have "incoming s3 = incoming s1" if "evbuffer_remove ev s2 n = (x, v, s3)" and "n + 8 \<le> length (rbuf s1)" for n x v s3
    using remove_all [of n s2] remove_ok [of s2 n v s3] that i2 by simp
  then have "incoming s' = incoming s1" using assms e d
    by (auto simp: ipc_read_data_noblock_def Let_def length_rbuf split: if_splits option.splits prod.splits)
  then show ?thesis using i1 by simp
qed

lemma read_data_empty:
  assumes "stream s = []"
  shows "\<exists>s'. ipc_read_data_noblock ev True s = (Inl AGENTD_ERROR_IPC_WOULD_BLOCK, s')"
proof -
  obtain r w s1 where e: "evbuffer_read ev s None = ((r, w), s1)" and rw: "0 < r \<or> (r < 0 \<and> w)" and s1: "stream s1 = stream s"
    by (rule reliable_read [of s None])
  then have "evbuffer_pullup ev s1 8 = None" using pullup_prefix [of s1 8] assms by (cases "evbuffer_pullup ev s1 8") auto
  then show ?thesis using e rw by (auto simp: ipc_read_data_noblock_def)
qed

lemma write_data_success:
  "\<exists>s'. ipc_write_data_noblock ev p s = (AGENTD_STATUS_SUCCESS, s')"
proof -
  have a: "\<exists>s'. evbuffer_add ev s b = (0, s')" for s b using add_zero by (metis prod.collapse)
  obtain s1 where 1: "evbuffer_add ev s (net32 IPC_DATA_TYPE_DATA_PACKET) = (0, s1)" using a by blast
  let ?n = "of_nat (length p) :: 32 word"
  obtain s2 where 2: "evbuffer_add ev s1 (net32 ?n) = (0, s2)" using a by blast
  obtain s3 where 3: "evbuffer_add ev s2 (take (unat ?n) p) = (0, s3)" using a by blast
  obtain r s4 where "evbuffer_write ev s3 = (r, s4)" "0 \<le> r" using write_nonneg [of s3] by (metis prod.collapse)
  then show ?thesis using 1 2 3 by (simp add: ipc_write_data_noblock_def Let_def add_or_def ipc_socket_write_from_buffer_def)
qed

end

subsection \<open>Buffers in memory\<close>

text \<open>Each read delivers the next fragment, or the part of it that was asked for; a write sends everything.\<close>

record mem_sock =
  m_rbuf :: bytes
  m_wbuf :: bytes
  m_fragments :: "bytes list"
  m_sent :: bytes

fun mem_read :: "bytes list \<Rightarrow> nat option \<Rightarrow> bytes \<times> bytes list" where
  "mem_read [] h = ([], [])"
| "mem_read ([] # fs) h = mem_read fs h"
| "mem_read (f # fs) None = (f, fs)"
| "mem_read (f # fs) (Some n) = (if n = 0 then (f, fs) else (take n f, drop n f # fs))"

definition mem_evsock :: "mem_sock evsock" where
  "mem_evsock =
     \<lparr> evbuffer_read = \<lambda>s h. case mem_read (m_fragments s) h of (d, fs) \<Rightarrow>
         if d = [] then ((-1, True), s)
         else ((int (length d), False), s\<lparr>m_rbuf := m_rbuf s @ d, m_fragments := fs\<rparr>),
       evbuffer_pullup = \<lambda>s n. if n \<le> length (m_rbuf s) then Some (take n (m_rbuf s)) else None,
       evbuffer_get_length = \<lambda>s. length (m_rbuf s),
       evbuffer_drain = \<lambda>s n. (0, s\<lparr>m_rbuf := drop n (m_rbuf s)\<rparr>),
       evbuffer_remove = \<lambda>s n. (int (min n (length (m_rbuf s))), take n (m_rbuf s), s\<lparr>m_rbuf := drop n (m_rbuf s)\<rparr>),
       evbuffer_add = \<lambda>s b. (0, s\<lparr>m_wbuf := m_wbuf s @ b\<rparr>),
       evbuffer_write = \<lambda>s. (int (length (m_wbuf s)), s\<lparr>m_sent := m_sent s @ m_wbuf s, m_wbuf := []\<rparr>),
       writebuf_length = \<lambda>s. length (m_wbuf s) \<rparr>"

lemma mem_read_concat: "mem_read fs h = (d, fs') \<Longrightarrow> concat fs = d @ concat fs' \<and> (d = [] \<longrightarrow> concat fs = [])"
  by (induction fs h rule: mem_read.induct) (auto simp del: concat_eq_Nil_conv Nil_eq_concat_conv split: if_splits)

interpretation mem_ev: ev_reliable mem_evsock m_rbuf m_wbuf "\<lambda>s. concat (m_fragments s)" m_sent
  by unfold_locales
    (auto simp: mem_evsock_def dest: mem_read_concat split: prod.splits if_splits)

subsection \<open>Properties\<close>

text \<open>
  The non-blocking reader of strings never returns a string: it takes the result
  of a successful \<^verbatim>\<open>evbuffer_drain\<close>, which is zero, for an error.
\<close>

theorem string_never_read:
  assumes "ev_socket ev rbuf wbuf incoming sent"
  shows "\<exists>st sock'. ipc_read_string_noblock ev malloc_ok sock = Some (Inl st, sock')"
proof -
  have d: "evbuffer_drain ev sock 8 \<noteq> (8, sock')" for sock' using ev_socket.drain_result [OF assms, of sock 8] by auto
  show ?thesis by (auto simp: ipc_read_string_noblock_def Let_def d split: option.splits prod.splits)
qed

theorem string_never_read_witness:
  "\<exists>st sock'. ipc_read_string_noblock mem_evsock True
     \<lparr> m_rbuf = value_bytes (String_val [97]), m_wbuf = [], m_fragments = [], m_sent = [] \<rparr> = Some (Inl st, sock')"
  by (rule string_never_read [OF mem_ev.ev_socket_axioms])

lemma low_byte_htonll: "ucast (htonll (ucast (v :: byte))) = (0 :: byte)"
  unfolding htonll_byte(1) by (rule bit_word_eqI) (auto simp: bit_ucast_iff bit_drop_bit_eq dest: bit_imp_le_length)

text \<open>
  The non-blocking writer of \<^verbatim>\<open>uint8_t\<close> reports success and sends the value zero,
  whatever the value: \<^verbatim>\<open>htonll\<close> moves the only significant byte to the upper end of
  the 64-bit integer, and the lower end is sent.
\<close>

theorem uint8_written_as_zero:
  assumes "ev_reliable ev rbuf wbuf incoming sent"
  shows "\<exists>sock'. ipc_write_uint8_noblock ev v sock = (AGENTD_STATUS_SUCCESS, sock') \<and>
     wbuf sock' = wbuf sock @ value_bytes (Uint8_val 0)"
proof -
  have a: "\<exists>s'. evbuffer_add ev s b = (0, s')" for s b using ev_reliable.add_zero [OF assms] by (metis prod.collapse)
  have e: "ev_socket ev rbuf wbuf incoming sent" using assms by (rule ev_reliable.axioms)
  obtain s1 where 1: "evbuffer_add ev sock (net32 IPC_DATA_TYPE_UINT8) = (0, s1)" using a by blast
  obtain s2 where 2: "evbuffer_add ev s1 [0] = (0, s2)" using a by blast
  have "ipc_write_uint8_noblock ev v sock = (AGENTD_STATUS_SUCCESS, s2)"
    using 1 2 by (simp add: ipc_write_uint8_noblock_def add_or_def low_byte_htonll)
  then show ?thesis using ev_socket.add_ok [OF e 1] ev_socket.add_ok [OF e 2] by simp
qed

theorem uint8_written_as_zero_witness:
  "\<exists>sock'. ipc_write_uint8_noblock mem_evsock 255 \<lparr> m_rbuf = [], m_wbuf = [], m_fragments = [], m_sent = [] \<rparr> =
     (AGENTD_STATUS_SUCCESS, sock') \<and> m_wbuf sock' = value_bytes (Uint8_val 0)"
  using uint8_written_as_zero [OF mem_ev.ev_reliable_axioms, of 255 "\<lparr> m_rbuf = [], m_wbuf = [], m_fragments = [], m_sent = [] \<rparr>"]
  by simp

end
