(* ===== verification/Service_Loop.thy ===== *)
theory Service_Loop
  imports Ipc_Noblock
begin

text \<open>
  The socket callbacks that the services share.  A service handles a request packet by
  a function of its instance; the read callback reads packets until none is complete,
  hands each to the service and leaves the replies in the write buffer.  The handler
  \<open>h i w inst req\<close> gets the number \<open>i\<close> of the request, on which its allocations may
  depend, and whether writing its reply succeeds; \<open>None\<close> is undefined behaviour.
  \<open>serve_packets\<close> is the reference: the requests handled one after the other, with the
  replies in order; the callback is shown to do this however the requests arrive.
\<close>

record ('i, 's) service_loop =
  loop_inst :: 'i
  loop_sock :: 's
  write_cb :: bool
  loop_exit :: bool

type_synonym 'i handler = "nat \<Rightarrow> bool \<Rightarrow> 'i \<Rightarrow> bytes \<Rightarrow> (status \<times> bytes list \<times> 'i) option"

text \<open>Setting the exit flag of the instance, by \<open>quit\<close>, and telling the event loop to exit.\<close>

definition exit_event_loop :: "('i \<Rightarrow> 'i) \<Rightarrow> ('i, 's) service_loop \<Rightarrow> ('i, 's) service_loop" where
  "exit_event_loop quit st = st\<lparr>loop_inst := quit (loop_inst st), loop_exit := True\<rparr>"

text \<open>
  Handling a request and writing its reply to the socket.  The handler takes
  the outcome of the write as a parameter, which it only reports: it is run with the
  outcome that writing its reply has.
\<close>

definition dispatch_on_socket ::
  "'i handler \<Rightarrow> 's evsock \<Rightarrow> nat \<Rightarrow> ('i, 's) service_loop \<Rightarrow> bytes \<Rightarrow> (status \<times> ('i, 's) service_loop) option" where
  "dispatch_on_socket h ev i st req =
     (case h i True (loop_inst st) req of
        None \<Rightarrow> None
      | Some (r, [], inst) \<Rightarrow> Some (r, st\<lparr>loop_inst := inst\<rparr>)
      | Some (r, resp # _, inst) \<Rightarrow>
          (case ipc_write_data_noblock ev resp (loop_sock st) of (w, s) \<Rightarrow>
           if w = AGENTD_STATUS_SUCCESS then Some (r, st\<lparr>loop_inst := inst, loop_sock := s\<rparr>) else
           map_option (\<lambda>(r, _, inst). (r, st\<lparr>loop_inst := inst, loop_sock := s\<rparr>)) (h i False (loop_inst st) req)))"

text \<open>
  The loop of the read callback; \<open>malloc i\<close> is the allocation of the \<open>i\<close>-th packet,
  and \<open>i\<close> counts the requests that have been read.
\<close>

partial_function (option) ipc_read_loop ::
  "'i handler \<Rightarrow> ('i \<Rightarrow> 'i) \<Rightarrow> 's evsock \<Rightarrow> (nat \<Rightarrow> bool) \<Rightarrow> nat \<Rightarrow> ('i, 's) service_loop \<Rightarrow>
     (nat \<times> ('i, 's) service_loop) option" where
  "ipc_read_loop h quit ev malloc i st =
     (case ipc_read_data_noblock ev (malloc i) (loop_sock st) of
        (Inl e, s) \<Rightarrow>
          Some (i, if e = AGENTD_ERROR_IPC_WOULD_BLOCK then st\<lparr>loop_sock := s\<rparr>
                   else exit_event_loop quit (st\<lparr>loop_sock := s\<rparr>))
      | (Inr req, s) \<Rightarrow>
          (case dispatch_on_socket h ev i (st\<lparr>loop_sock := s\<rparr>) req of
             None \<Rightarrow> None
           | Some (r, st) \<Rightarrow>
               let st = (if r \<noteq> AGENTD_STATUS_SUCCESS then exit_event_loop quit st else st) in
               if ipc_socket_readbuffer_size ev (loop_sock st) > 0
               then ipc_read_loop h quit ev malloc (Suc i) st
               else Some (Suc i, st)))"

definition service_ipc_read ::
  "'i handler \<Rightarrow> ('i \<Rightarrow> bool) \<Rightarrow> ('i \<Rightarrow> 'i) \<Rightarrow> 's evsock \<Rightarrow> (nat \<Rightarrow> bool) \<Rightarrow> nat \<Rightarrow> ('i, 's) service_loop \<Rightarrow>
     (nat \<times> ('i, 's) service_loop) option" where
  "service_ipc_read h exiting quit ev malloc i st =
     (if exiting (loop_inst st) then Some (i, st) else
      map_option (\<lambda>(i, st). (i, if ipc_socket_writebuffer_size ev (loop_sock st) > 0 then st\<lparr>write_cb := True\<rparr> else st))
        (ipc_read_loop h quit ev malloc i st))"

text \<open>The write callback; \<open>would_block\<close> is whether \<^verbatim>\<open>errno\<close> is \<^verbatim>\<open>EAGAIN\<close> or \<^verbatim>\<open>EWOULDBLOCK\<close>.\<close>

definition service_ipc_write :: "('i \<Rightarrow> 'i) \<Rightarrow> 's evsock \<Rightarrow> bool \<Rightarrow> ('i, 's) service_loop \<Rightarrow> ('i, 's) service_loop" where
  "service_ipc_write quit ev would_block st =
     (if ipc_socket_writebuffer_size ev (loop_sock st) > 0 then
        (case ipc_socket_write_from_buffer ev (loop_sock st) of (r, s) \<Rightarrow>
         let st = st\<lparr>loop_sock := s\<rparr> in
         if r = 0 then exit_event_loop quit st else
         if r < 0 then (if \<not> would_block then exit_event_loop quit st else st) else
         if ipc_socket_writebuffer_size ev s > 0 then st\<lparr>write_cb := True\<rparr> else st)
      else st\<lparr>write_cb := False\<rparr>)"

text \<open>The read callback invoked \<open>n\<close> times, as the event loop does when the socket becomes readable.\<close>

fun read_callbacks ::
  "(nat \<Rightarrow> ('i, 's) service_loop \<Rightarrow> (nat \<times> ('i, 's) service_loop) option) \<Rightarrow> nat \<Rightarrow> nat \<times> ('i, 's) service_loop \<Rightarrow>
     (nat \<times> ('i, 's) service_loop) option" where
  "read_callbacks rd 0 x = Some x"
| "read_callbacks rd (Suc n) (i, st) = Option.bind (rd i st) (read_callbacks rd n)"

subsection \<open>The reference\<close>

fun serve_packets ::
  "'i handler \<Rightarrow> ('i \<Rightarrow> 'i) \<Rightarrow> nat \<Rightarrow> 'i \<Rightarrow> bytes list \<Rightarrow> ('i \<times> bytes list) option" where
  "serve_packets h quit i inst [] = Some (inst, [])"
| "serve_packets h quit i inst (req # reqs) =
     (case h i True inst req of
        None \<Rightarrow> None
      | Some (r, out, inst) \<Rightarrow>
          map_option (\<lambda>(inst, outs). (inst, out @ outs))
            (serve_packets h quit (Suc i) (if r \<noteq> AGENTD_STATUS_SUCCESS then quit inst else inst) reqs))"

subsection \<open>Serving requests\<close>

locale packet_service = ev_reliable +
  fixes h :: "'i handler" and exiting :: "'i \<Rightarrow> bool" and quit :: "'i \<Rightarrow> 'i"
  assumes one_reply: "h i True inst req = Some (r, out, inst') \<Longrightarrow> length out \<le> 1"
begin

lemma dispatch_on_socket_reply:
  assumes d: "h i True (loop_inst st) req =
      Some (r, out, inst)" and ok: "\<forall>p \<in> set out. packet_ok p"
  obtains s where "dispatch_on_socket h ev i st req = Some (r, st\<lparr>loop_inst := inst, loop_sock := s\<rparr>)"
    and "sent s @ wbuf s = (sent (loop_sock st) @ wbuf (loop_sock st)) @ concat (map framed out)"
    and "rbuf s = rbuf (loop_sock st)" and "incoming s = incoming (loop_sock st)"
proof (cases out)
  case Nil
  have "st\<lparr>loop_inst := inst\<rparr> = st\<lparr>loop_inst := inst, loop_sock := loop_sock st\<rparr>" by simp
  then show thesis using that [of "loop_sock st"] d Nil by (simp add: dispatch_on_socket_def)
next
  case (Cons p ps)
  then have out: "out = [p]" using one_reply [OF d] by (cases ps) simp_all
  obtain s where w: "ipc_write_data_noblock ev p (loop_sock st) = (AGENTD_STATUS_SUCCESS, s)" using write_data_success by blast
  show thesis using that [of s] d out w write_data_sent [OF _ w] ok by (simp add: dispatch_on_socket_def)
qed

text \<open>The read callback handles the first requests of the stream, and all of them when they have arrived.\<close>

lemma read_loop_serves:
  assumes "stream (loop_sock st) = concat (map framed reqs)" and "\<forall>q \<in> set reqs. packet_ok q" and "\<forall>i. malloc i"
    and "serve_packets h quit i (loop_inst st) reqs = Some (inst, outs)" and "\<forall>p \<in> set outs. packet_ok p"
  shows "\<exists>k st' outs'. ipc_read_loop h quit ev malloc i st = Some (i + k, st') \<and> k \<le> length reqs \<and>
     serve_packets h quit i (loop_inst st) (take k reqs) = Some (loop_inst st', outs') \<and>
     stream (loop_sock st') = concat (map framed (drop k reqs)) \<and>
     sent (loop_sock st') @ wbuf (loop_sock st') = (sent (loop_sock st) @ wbuf (loop_sock st)) @ concat (map framed outs') \<and>
     (incoming (loop_sock st) = [] \<longrightarrow> k = length reqs) \<and> length (incoming (loop_sock st')) \<le> length (incoming (loop_sock st)) \<and>
     (incoming (loop_sock st) \<noteq> [] \<longrightarrow> length (incoming (loop_sock st')) < length (incoming (loop_sock st)))"
  using assms
proof (induction reqs arbitrary: i st outs)
  case Nil
  then obtain s where r: "ipc_read_data_noblock ev True (loop_sock st) = (Inl AGENTD_ERROR_IPC_WOULD_BLOCK, s)"
    using read_data_empty [of "loop_sock st"] by auto
  have "ipc_read_loop h quit ev malloc i st = Some (i, st\<lparr>loop_sock := s\<rparr>)"
    using r Nil.prems(3) by (subst ipc_read_loop.simps) simp
  then show ?case using read_data_kept [OF r] Nil.prems(1) by simp
next
  case (Cons q reqs)
  let ?s = "loop_sock st"
  have st: "stream ?s = framed q @ concat (map framed reqs)" and q: "packet_ok q" using Cons.prems(1,2) by simp_all
  obtain r out inst1 outs1 where d: "h i True (loop_inst st) q = Some (r, out, inst1)"
    and sp: "serve_packets h quit (Suc i)
      (if r \<noteq> AGENTD_STATUS_SUCCESS then quit inst1 else inst1) reqs = Some (inst, outs1)"
    and o: "outs = out @ outs1"
    using Cons.prems(4) by (auto split: option.splits prod.splits)
  obtain s1 where "ipc_read_data_noblock ev True ?s = (Inr q, s1) \<or>
     (ipc_read_data_noblock ev True ?s = (Inl AGENTD_ERROR_IPC_WOULD_BLOCK, s1) \<and> length (rbuf s1) < length q + 8)"
    using read_data_waits [OF st q] by blast
  then show ?case
  proof
    assume w: "ipc_read_data_noblock ev True ?s = (Inl AGENTD_ERROR_IPC_WOULD_BLOCK, s1) \<and> length (rbuf s1) < length q + 8"
    then have r1: "ipc_read_data_noblock ev True ?s = (Inl AGENTD_ERROR_IPC_WOULD_BLOCK, s1)" ..
    have l: "ipc_read_loop h quit ev malloc i st = Some (i, st\<lparr>loop_sock := s1\<rparr>)"
      using r1 Cons.prems(3) by (subst ipc_read_loop.simps) simp
    have k: "stream s1 = stream ?s" "wbuf s1 = wbuf ?s" "sent s1 = sent ?s" using read_data_kept [OF r1] by simp_all
    note inc = read_data_incoming [OF r1]
    have "incoming ?s \<noteq> []"
    proof
      assume "incoming ?s = []"
      then have "length (stream s1) < length q + 8" using w inc by simp
      then show False using k(1) st by simp
    qed
    then show ?thesis using l k Cons.prems(1) inc
      by (intro exI [of _ 0] exI [of _ "st\<lparr>loop_sock := s1\<rparr>"] exI [of _ "[]"]) simp
  next
    assume r1: "ipc_read_data_noblock ev True ?s = (Inr q, s1)"
    note k = read_data_sound [OF st q r1] and inc = read_data_incoming [OF r1]
    obtain s2 where ds: "dispatch_on_socket h ev i (st\<lparr>loop_sock := s1\<rparr>) q =
        Some (r, st\<lparr>loop_inst := inst1, loop_sock := s2\<rparr>)"
      and s2: "sent s2 @ wbuf s2 = (sent s1 @ wbuf s1) @ concat (map framed out)" "rbuf s2 = rbuf s1" "incoming s2 = incoming s1"
      using dispatch_on_socket_reply [of i "st\<lparr>loop_sock := s1\<rparr>" q r out inst1] d o Cons.prems(5)
      by auto
    define st2 where "st2 = (if r \<noteq> AGENTD_STATUS_SUCCESS then exit_event_loop quit (st\<lparr>loop_inst := inst1, loop_sock := s2\<rparr>)
      else st\<lparr>loop_inst := inst1, loop_sock := s2\<rparr>)"
    have sel: "loop_sock st2 = s2"
      "loop_inst st2 = (if r \<noteq> AGENTD_STATUS_SUCCESS then quit inst1 else inst1)"
      by (simp_all add: st2_def exit_event_loop_def)
    have str: "stream s2 = concat (map framed reqs)" using s2 k by simp
    have l: "ipc_read_loop h quit ev malloc i st =
        (if rbuf s2 \<noteq> [] then ipc_read_loop h quit ev malloc (Suc i) st2 else Some (Suc i, st2))"
      using r1 ds Cons.prems(3) sel(1) by (subst ipc_read_loop.simps)
        (simp add: Let_def st2_def [symmetric] ipc_socket_readbuffer_size_def length_rbuf)
    show ?thesis
    proof (cases "rbuf s2 = []")
      case True
      have "reqs = []" if "incoming ?s = []"
        using str True s2(3) inc that by (cases reqs) auto
      then show ?thesis using l True sel d o str s2 k inc
        by (intro exI [of _ 1] exI [of _ st2] exI [of _ out]) auto
    next
      case False
      obtain n st' outs' where ih: "ipc_read_loop h quit ev malloc (Suc i) st2 = Some (Suc i + n, st')"
        "n \<le> length reqs" "serve_packets h quit (Suc i) (loop_inst st2) (take n reqs) = Some (loop_inst st', outs')"
        "stream (loop_sock st') = concat (map framed (drop n reqs))"
        "sent (loop_sock st') @ wbuf (loop_sock st') = (sent s2 @ wbuf s2) @ concat (map framed outs')"
        "incoming s2 = [] \<longrightarrow> n = length reqs" "length (incoming (loop_sock st')) \<le> length (incoming s2)"
        using Cons.IH [of st2 "Suc i" outs1, OF _ _ Cons.prems(3)] str sp sel Cons.prems(2,5) o by auto
      show ?thesis using l False ih d sel s2 k inc
        by (intro exI [of _ "Suc n"] exI [of _ st'] exI [of _ "out @ outs'"]) auto
    qed
  qed
qed

lemma ipc_read_serves:
  assumes "\<not> exiting (loop_inst st)" and "stream (loop_sock st) = concat (map framed reqs)"
    and "\<forall>q \<in> set reqs. packet_ok q" and "\<forall>i. malloc i"
    and "serve_packets h quit i (loop_inst st) reqs = Some (inst, outs)" and "\<forall>p \<in> set outs. packet_ok p"
  obtains k st' outs' where "service_ipc_read h exiting quit ev malloc i st = Some (i + k, st')" and "k \<le> length reqs"
    and "serve_packets h quit i (loop_inst st) (take k reqs) = Some (loop_inst st', outs')"
    and "stream (loop_sock st') = concat (map framed (drop k reqs))"
    and "sent (loop_sock st') @ wbuf (loop_sock st') = (sent (loop_sock st) @ wbuf (loop_sock st)) @ concat (map framed outs')"
    and "incoming (loop_sock st) = [] \<longrightarrow> k = length reqs"
    and "incoming (loop_sock st) \<noteq> [] \<longrightarrow> length (incoming (loop_sock st')) < length (incoming (loop_sock st))"
    and "wbuf (loop_sock st') \<noteq> [] \<longrightarrow> write_cb st'"
proof -
  obtain k st1 outs' where l: "ipc_read_loop h quit ev malloc i st = Some (i + k, st1)" "k \<le> length reqs"
    "serve_packets h quit i (loop_inst st) (take k reqs) = Some (loop_inst st1, outs')"
    "stream (loop_sock st1) = concat (map framed (drop k reqs))"
    "sent (loop_sock st1) @ wbuf (loop_sock st1) = (sent (loop_sock st) @ wbuf (loop_sock st)) @ concat (map framed outs')"
    "incoming (loop_sock st) = [] \<longrightarrow> k = length reqs"
    "incoming (loop_sock st) \<noteq> [] \<longrightarrow> length (incoming (loop_sock st1)) < length (incoming (loop_sock st))"
    using read_loop_serves [OF assms(2-6)] by blast
  define st' where "st' = (if wbuf (loop_sock st1) \<noteq> [] then st1\<lparr>write_cb := True\<rparr> else st1)"
  have "service_ipc_read h exiting quit ev malloc i st = Some (i + k, st')"
    using l(1) assms(1) by (simp add: service_ipc_read_def ipc_socket_writebuffer_size_def st'_def length_wbuf)
  moreover have "loop_inst st' = loop_inst st1" "loop_sock st' = loop_sock st1" "wbuf (loop_sock st') \<noteq> [] \<longrightarrow> write_cb st'"
    by (simp_all add: st'_def)
  ultimately show thesis using that [of k st' outs'] l by simp
qed

end

lemma serve_packets_append:
  "serve_packets h quit i inst (xs @ ys) =
     Option.bind (serve_packets h quit i inst xs)
       (\<lambda>(inst1, outs). map_option (\<lambda>(inst2, outs'). (inst2, outs @ outs'))
          (serve_packets h quit (i + length xs) inst1 ys))"
  by (induction xs arbitrary: i inst)
    (auto simp: option.map_comp o_def option.map_ident bind_map_option case_prod_beta' split: option.splits Option.bind_splits)

lemma read_callbacks_exit:
  "exiting (loop_inst st) \<Longrightarrow> read_callbacks (service_ipc_read h exiting quit ev malloc) n (i, st) = Some (i, st)"
  by (induction n) (simp_all add: service_ipc_read_def)

context packet_service
begin

text \<open>Every callback takes at least one byte from the connection, so finitely many of them serve all requests.\<close>

lemma read_callbacks_serve:
  assumes "length (incoming (loop_sock st)) < n" and "stream (loop_sock st) = concat (map framed reqs)"
    and "\<forall>q \<in> set reqs. packet_ok q" and "\<forall>i. malloc i"
    and "serve_packets h quit i (loop_inst st) reqs = Some (inst, outs)" and "\<forall>p \<in> set outs. packet_ok p"
    and "\<forall>k < length reqs. \<forall>inst1 outs1. serve_packets h quit i (loop_inst st) (take k reqs) = Some (inst1, outs1) \<longrightarrow>
       \<not> exiting inst1"
  shows "\<exists>st'. read_callbacks (service_ipc_read h exiting quit ev malloc) n (i, st) = Some (i + length reqs, st') \<and> loop_inst st' = inst \<and>
     stream (loop_sock st') = [] \<and>
     sent (loop_sock st') @ wbuf (loop_sock st') = (sent (loop_sock st) @ wbuf (loop_sock st)) @ concat (map framed outs)"
  using assms
proof (induction n arbitrary: i st reqs outs)
  case 0
  then show ?case by simp
next
  case (Suc n)
  note prems = Suc.prems
  show ?case
  proof (cases "exiting (loop_inst st)")
    case True
    then have "reqs = []" using prems(7) by (cases reqs) force+
    then show ?thesis using read_callbacks_exit [of exiting st h quit ev malloc "Suc n" i, OF True] prems(2,5) by auto
  next
    case False
    obtain k st1 outs1 where c: "service_ipc_read h exiting quit ev malloc i st = Some (i + k, st1)" "k \<le> length reqs"
      "serve_packets h quit i (loop_inst st) (take k reqs) = Some (loop_inst st1, outs1)"
      "stream (loop_sock st1) = concat (map framed (drop k reqs))"
      "sent (loop_sock st1) @ wbuf (loop_sock st1) = (sent (loop_sock st) @ wbuf (loop_sock st)) @ concat (map framed outs1)"
      "incoming (loop_sock st) = [] \<longrightarrow> k = length reqs"
      "incoming (loop_sock st) \<noteq> [] \<longrightarrow> length (incoming (loop_sock st1)) < length (incoming (loop_sock st))"
      by (rule ipc_read_serves [OF False prems(2-6)]) blast
    have sp: "serve_packets h quit i (loop_inst st) (take (k + j) reqs) =
        map_option (\<lambda>(inst2, outs'). (inst2, outs1 @ outs'))
          (serve_packets h quit (i + k) (loop_inst st1) (take j (drop k reqs)))" for j
      using serve_packets_append [of h quit i "loop_inst st" "take k reqs" "take j (drop k reqs)"] c(2,3)
      by (simp add: take_add)
    obtain outs2 where rest: "serve_packets h quit (i + k) (loop_inst st1) (drop k reqs) = Some (inst, outs2)"
      and outs: "outs = outs1 @ outs2"
      using sp [of "length reqs - k"] prems(5) c(2) by (auto dest: sym)
    show ?thesis
    proof (cases "length (incoming (loop_sock st1)) < n")
      case True
      have live: "\<forall>j < length (drop k reqs). \<forall>inst1 o1.
          serve_packets h quit (i + k) (loop_inst st1) (take j (drop k reqs)) = Some (inst1, o1) \<longrightarrow>
          \<not> exiting inst1"
      proof (intro allI impI)
        fix j inst1 o1 assume j: "j < length (drop k reqs)"
          and s: "serve_packets h quit (i + k) (loop_inst st1) (take j (drop k reqs)) = Some (inst1, o1)"
        have "k + j < length reqs" using j by simp
        then show "\<not> exiting inst1" using prems(7) sp [of j] s by auto
      qed
      obtain st' where st': "read_callbacks (service_ipc_read h exiting quit ev malloc) n (i + k, st1) = Some (i + k + length (drop k reqs), st')"
        "loop_inst st' = inst" "stream (loop_sock st') = []"
        "sent (loop_sock st') @ wbuf (loop_sock st') = (sent (loop_sock st1) @ wbuf (loop_sock st1)) @ concat (map framed outs2)"
        using Suc.IH [OF True c(4) _ prems(4) rest _ live] prems(3,6) outs by (auto dest: in_set_dropD)
      then show ?thesis using c outs by simp
    next
      case False
      then have "incoming (loop_sock st) = []" using prems(1) c(7) by linarith
      moreover from this have "n = 0" using False c(4,6) by simp
      ultimately show ?thesis using c rest outs by simp
    qed
  qed
qed

end

end
