(* ===== verification/Ds_Loop.thy ===== *)
theory Ds_Loop
  imports Ds_Dispatch_Correct Service_Loop
begin

text \<open>
  The callbacks of the data service's socket (\<^verbatim>\<open>dataservice_ipc_read.c\<close>,
  \<^verbatim>\<open>dataservice_ipc_write.c\<close> and \<^verbatim>\<open>dataservice_exit_event_loop.c\<close> below
  \<^verbatim>\<open>src/src/dataservice\<close>).  The state is the instance, the socket, whether the write
  callback is set and whether the event loop has been told to exit.
\<close>

type_synonym ('e, 's) ds_loop = "('e dataservice_instance, 's) service_loop"

definition dataservice_force_quit :: "'e dataservice_instance \<Rightarrow> 'e dataservice_instance" where
  "dataservice_force_quit inst = inst\<lparr>dataservice_force_exit := True\<rparr>"

definition dataservice_exit_event_loop :: "('e, 's) ds_loop \<Rightarrow> ('e, 's) ds_loop" where
  "dataservice_exit_event_loop st = exit_event_loop dataservice_force_quit st"

text \<open>The dispatcher as a handler; \<open>envs i\<close> are the allocations of the \<open>i\<close>-th request.\<close>

definition ds_handler ::
  "('e, 't) lmdb \<Rightarrow> vccert \<Rightarrow> bytes \<Rightarrow> bool \<Rightarrow> (nat \<Rightarrow> request_env) \<Rightarrow> 'e dataservice_instance handler" where
  "ds_handler ops vc root_block att envs i w inst req =
     dataservice_decode_and_dispatch ops vc root_block att ((envs i)\<lparr>ipc_write_ok := w\<rparr>) inst req"

definition dataservice_ipc_read ::
  "('e, 't) lmdb \<Rightarrow> vccert \<Rightarrow> bytes \<Rightarrow> bool \<Rightarrow> 's evsock \<Rightarrow> (nat \<Rightarrow> request_env) \<Rightarrow> (nat \<Rightarrow> bool) \<Rightarrow> nat \<Rightarrow> ('e, 's) ds_loop \<Rightarrow>
     (nat \<times> ('e, 's) ds_loop) option" where
  "dataservice_ipc_read ops vc root_block att ev envs malloc i st =
     service_ipc_read (ds_handler ops vc root_block att envs) dataservice_force_exit dataservice_force_quit ev malloc i st"

definition dataservice_ipc_write :: "'s evsock \<Rightarrow> bool \<Rightarrow> ('e, 's) ds_loop \<Rightarrow> ('e, 's) ds_loop" where
  "dataservice_ipc_write ev would_block st = service_ipc_write dataservice_force_quit ev would_block st"

subsection \<open>At most one reply\<close>

lemma write_status_one: "length (snd (dataservice_decode_and_dispatch_write_status env m i st d)) \<le> 1"
  by (simp add: dataservice_decode_and_dispatch_write_status_def Let_def)

lemma reply_with_one: "reply_with env m i st d inst = (r, out, inst') \<Longrightarrow> length out \<le> 1"
  using write_status_one [of env m i st d] by (auto simp: reply_with_def split: prod.splits)

lemma answered_one: "answered env m (Some (r, out, inst')) \<Longrightarrow> length out \<le> 1"
  by (auto simp: answered_def dest!: sym [of _ "reply_with _ _ _ _ _ _"] reply_with_one)

lemma root_create_one:
  "dataservice_decode_and_dispatch_root_context_create ops env inst req = Some (r, out, inst') \<Longrightarrow> length out \<le> 1"
  by (auto simp: dataservice_decode_and_dispatch_root_context_create_def dest: reply_with_one split: sum.splits prod.splits)

lemma dispatch_one_reply:
  assumes d: "dataservice_decode_and_dispatch ops vc root_block att env inst req = Some (r, out, inst')"
  shows "length out \<le> 1"
  using d unfolding dataservice_decode_and_dispatch_def Let_def db_handler_defs
  by (elim if_SomeE) (simp, (drule root_create_one handlers_answered run_request_answered, (erule answered_one | assumption))+,
      use write_status_one in auto)

lemma ds_handler_one: "ds_handler ops vc root_block att envs i w inst req = Some (r, out, inst') \<Longrightarrow> length out \<le> 1"
  unfolding ds_handler_def by (rule dispatch_one_reply)

sublocale ev_reliable \<subseteq> ds: packet_service ev rbuf wbuf incoming sent "ds_handler ops vc root_block att envs"
    dataservice_force_exit dataservice_force_quit for ops vc root_block att envs
  by unfold_locales (rule ds_handler_one)

context ev_reliable
begin

lemmas ds_read_serves = ds.ipc_read_serves [folded dataservice_ipc_read_def]
lemmas ds_callbacks_serve = ds.read_callbacks_serve [folded dataservice_ipc_read_def]

end

subsection \<open>Properties\<close>

text \<open>
  The read callback of the data service handles the requests in the stream in
  their order, each exactly once, however the bytes of the stream are cut into
  fragments: it leaves the instance as handling the first requests one after the
  other does, their replies have been sent or are in the write buffer in the same
  order, the remaining requests are still in the stream, and none remains when all
  bytes have arrived.
\<close>

theorem requests_served_in_order:
  assumes "ev_reliable ev rbuf wbuf incoming sent" and "\<not> dataservice_force_exit (loop_inst st)"
    and "rbuf (loop_sock st) @ incoming (loop_sock st) = concat (map framed reqs)" and "\<forall>q \<in> set reqs. packet_ok q"
    and "\<forall>i. malloc i" and "serve_packets (ds_handler ops vc root_block att envs) dataservice_force_quit i (loop_inst st) reqs = Some (inst, outs)"
    and "\<forall>p \<in> set outs. packet_ok p"
  shows "\<exists>k st' outs'. dataservice_ipc_read ops vc root_block att ev envs malloc i st = Some (i + k, st') \<and> k \<le> length reqs \<and>
     serve_packets (ds_handler ops vc root_block att envs) dataservice_force_quit i (loop_inst st) (take k reqs) = Some (loop_inst st', outs') \<and>
     rbuf (loop_sock st') @ incoming (loop_sock st') = concat (map framed (drop k reqs)) \<and>
     sent (loop_sock st') @ wbuf (loop_sock st') =
       (sent (loop_sock st) @ wbuf (loop_sock st)) @ concat (map framed outs') \<and>
     (incoming (loop_sock st) = [] \<longrightarrow> k = length reqs) \<and>
     (wbuf (loop_sock st') \<noteq> [] \<longrightarrow> write_cb st')"
  by (rule ev_reliable.ds_read_serves [OF assms]) (unfold dataservice_ipc_read_def, blast)

text \<open>
  C32. The data service serves every request it is sent.  Whatever fragments the
  requests arrive in, after finitely many invocations of the read callback, one more
  than there are bytes under way at most, every request of the stream has been
  handled, in order and exactly once, the instance is the one that handling them one
  after the other gives, and all replies have been sent or are in the write buffer in
  that order; provided no request before the last makes the service exit.
\<close>

theorem all_requests_served:
  assumes "ev_reliable ev rbuf wbuf incoming sent" and "length (incoming (loop_sock st)) < n"
    and "rbuf (loop_sock st) @ incoming (loop_sock st) = concat (map framed reqs)" and "\<forall>q \<in> set reqs. packet_ok q"
    and "\<forall>i. malloc i" and "serve_packets (ds_handler ops vc root_block att envs) dataservice_force_quit i (loop_inst st) reqs = Some (inst, outs)"
    and "\<forall>p \<in> set outs. packet_ok p"
    and "\<forall>k < length reqs. \<forall>inst1 outs1.
       serve_packets (ds_handler ops vc root_block att envs) dataservice_force_quit i (loop_inst st) (take k reqs) = Some (inst1, outs1) \<longrightarrow>
       \<not> dataservice_force_exit inst1"
  shows "\<exists>st'. read_callbacks (dataservice_ipc_read ops vc root_block att ev envs malloc) n (i, st) = Some (i + length reqs, st') \<and>
     loop_inst st' = inst \<and> rbuf (loop_sock st') @ incoming (loop_sock st') = [] \<and>
     sent (loop_sock st') @ wbuf (loop_sock st') =
       (sent (loop_sock st) @ wbuf (loop_sock st)) @ concat (map framed outs)"
  using ev_reliable.ds_callbacks_serve [OF assms] by (simp add: dataservice_ipc_read_def [abs_def])

lemma dispatch_unknown:
  "ds_handler ops vc root_block att (\<lambda>_. env_ok) i True inst (net32 99 @ b) =
     Some (AGENTD_ERROR_DATASERVICE_REQUEST_PACKET_BAD, [response_packet 99 0 AGENTD_ERROR_DATASERVICE_REQUEST_PACKET_BAD None], inst)"
  by (simp add: ds_handler_def dataservice_decode_and_dispatch_def dataservice_decode_and_dispatch_write_status_def env_ok_def Let_def)

theorem all_requests_served_witness:
  "\<exists>st'. read_callbacks (dataservice_ipc_read mem_lmdb no_vccert zero_uuid True mem_evsock (\<lambda>_. env_ok) (\<lambda>_. True)) 14 (0,
      \<lparr> loop_inst = demo_instance True, loop_sock = \<lparr> m_rbuf = [], m_wbuf = [],
          m_fragments = [take 5 (framed (net32 99 @ [0])), drop 5 (framed (net32 99 @ [0]))], m_sent = [] \<rparr>,
        write_cb = False, loop_exit = False \<rparr>) = Some (1, st') \<and>
     m_sent (loop_sock st') @ m_wbuf (loop_sock st') =
       framed (response_packet 99 0 AGENTD_ERROR_DATASERVICE_REQUEST_PACKET_BAD None)"
proof -
  let ?st = "\<lparr> loop_inst = demo_instance True, loop_sock = \<lparr> m_rbuf = [], m_wbuf = [],
          m_fragments = [take 5 (framed (net32 99 @ [0])), drop 5 (framed (net32 99 @ [0]))], m_sent = [] \<rparr>,
        write_cb = False, loop_exit = False \<rparr>"
  let ?h = "ds_handler mem_lmdb no_vccert zero_uuid True (\<lambda>_. env_ok)"
  have p: "packet_ok (net32 99 @ [0])" "packet_ok (response_packet 99 0 AGENTD_ERROR_DATASERVICE_REQUEST_PACKET_BAD None)"
    by (simp_all add: packet_ok_def response_packet_def)
  have l: "length (concat (m_fragments (loop_sock ?st))) < 14" by (simp add: framed_def)
  obtain inst where s: "serve_packets ?h dataservice_force_quit 0 (loop_inst ?st) [net32 99 @ [0]] =
      Some (inst, [response_packet 99 0 AGENTD_ERROR_DATASERVICE_REQUEST_PACKET_BAD None])"
    by (simp add: dispatch_unknown)
  have "\<exists>st'. read_callbacks (dataservice_ipc_read mem_lmdb no_vccert zero_uuid True mem_evsock (\<lambda>_. env_ok) (\<lambda>_. True)) 14 (0, ?st) =
       Some (0 + length [net32 99 @ [0 :: byte]], st') \<and> loop_inst st' = inst \<and>
     m_rbuf (loop_sock st') @ concat (m_fragments (loop_sock st')) = [] \<and>
     m_sent (loop_sock st') @ m_wbuf (loop_sock st') = (m_sent (loop_sock ?st) @ m_wbuf (loop_sock ?st)) @
       concat (map framed [response_packet 99 0 AGENTD_ERROR_DATASERVICE_REQUEST_PACKET_BAD None])"
    by (rule all_requests_served [OF mem_ev.ev_reliable_axioms l _ _ _ s]) (use p in \<open>simp_all add: demo_instance_def\<close>)
  then show ?thesis by auto
qed

end
