(* ===== verification/Connection.thy ===== *)
theory Connection
  imports Service_Loop
begin

text \<open>
  The client calls that the services share, and a client and a service at the two ends
  of a connection.  A client call writes a request to its socket; the matching call
  polls for the response.  In between the event loop of the service runs its read
  callback while bytes arrive, and then its write callback.  The connection delivers
  the bytes in order, cut into fragments by an arbitrary function \<open>chop\<close>.
\<close>

text \<open>
  The result of a call: its status, what it writes to \<^verbatim>\<open>*offset\<close> and \<^verbatim>\<open>*status\<close>, and
  what it writes to the parameters of the payload; \<open>None\<close> where it writes nothing.
\<close>

record 'p api_result =
  api_retval :: status
  api_header :: "(32 word \<times> 32 word) option"
  api_payload :: "'p option"

definition api_error :: "status \<Rightarrow> 'p api_result" where
  "api_error st = \<lparr> api_retval = st, api_header = None, api_payload = None \<rparr>"

text \<open>
  The sockets of the process runtime library, which is third-party code: writing and
  reading a packet, and releasing the memory of a packet that was read.
\<close>

record 's psock_ops =
  psock_write_boxed_data :: "bytes \<Rightarrow> 's \<Rightarrow> status \<times> 's"
  psock_read_boxed_data :: "'s \<Rightarrow> (status + bytes) \<times> 's"
  rcpr_allocator_reclaim :: "'s \<Rightarrow> status \<times> 's"

text \<open>
  Writing a request to a non-blocking socket, and reading and processing a response
  from it; a would-block status is passed on, every other failure is reported by one
  status.
\<close>

definition write_request :: "status \<Rightarrow> 's evsock \<Rightarrow> bytes \<Rightarrow> 's \<Rightarrow> status \<times> 's" where
  "write_request failure ev b sock =
     (case ipc_write_data_noblock ev b sock of (r, sock) \<Rightarrow>
      (if r \<noteq> AGENTD_ERROR_IPC_WOULD_BLOCK \<and> r \<noteq> AGENTD_STATUS_SUCCESS then failure else r, sock))"

definition read_response ::
  "status \<Rightarrow> 's evsock \<Rightarrow> bool \<Rightarrow> (bytes \<Rightarrow> 'p api_result) \<Rightarrow> 's \<Rightarrow> 'p api_result \<times> 's" where
  "read_response failure ev read_malloc process sock =
     (case ipc_read_data_noblock ev read_malloc sock of
        (Inl st, sock) \<Rightarrow> (api_error (if st = AGENTD_ERROR_IPC_WOULD_BLOCK then st else failure), sock)
      | (Inr val, sock) \<Rightarrow> (process val, sock))"

fun poll :: "nat \<Rightarrow> ('s \<Rightarrow> 'p api_result \<times> 's) \<Rightarrow> 's \<Rightarrow> 'p api_result \<times> 's" where
  "poll 0 recv s = recv s"
| "poll (Suc n) recv s =
     (case recv s of (r, s) \<Rightarrow> if api_retval r = AGENTD_ERROR_IPC_WOULD_BLOCK then poll n recv s else (r, s))"

subsection \<open>The connection\<close>

record 'i rpc =
  rpc_client :: mem_sock
  rpc_server :: "('i, mem_sock) service_loop"

definition cuts :: "(bytes \<Rightarrow> bytes list) \<Rightarrow> bool" where
  "cuts chop \<longleftrightarrow> (\<forall>b. concat (chop b) = b)"

definition deliver :: "(bytes \<Rightarrow> bytes list) \<Rightarrow> mem_sock \<Rightarrow> mem_sock \<Rightarrow> mem_sock \<times> mem_sock" where
  "deliver chop s t = (s\<lparr>m_sent := []\<rparr>, t\<lparr>m_fragments := m_fragments t @ chop (m_sent s)\<rparr>)"

text \<open>
  One call: the read callback \<open>rd\<close> runs as often as there are bytes under way, and
  once more; then the write callback \<open>wr\<close> runs, and the client polls.
\<close>

definition exchange ::
  "(nat \<Rightarrow> ('i, mem_sock) service_loop \<Rightarrow> (nat \<times> ('i, mem_sock) service_loop) option) \<Rightarrow>
     (('i, mem_sock) service_loop \<Rightarrow> ('i, mem_sock) service_loop) \<Rightarrow> (bytes \<Rightarrow> bytes list) \<Rightarrow>
     (mem_sock \<Rightarrow> status \<times> mem_sock) \<Rightarrow> (mem_sock \<Rightarrow> 'p api_result \<times> mem_sock) \<Rightarrow> 'i rpc \<Rightarrow> ('p api_result \<times> 'i rpc) option" where
  "exchange rd wr chop send recv st =
     (case send (rpc_client st) of (r, c) \<Rightarrow>
      if r \<noteq> AGENTD_STATUS_SUCCESS then Some (api_error r, st\<lparr>rpc_client := c\<rparr>) else
      case deliver chop c (loop_sock (rpc_server st)) of (c, s) \<Rightarrow>
      case read_callbacks rd (Suc (length (concat (m_fragments s)))) (0, (rpc_server st)\<lparr>loop_sock := s\<rparr>) of
        None \<Rightarrow> None
      | Some (_, srv) \<Rightarrow>
          let srv = wr srv in
          (case deliver chop (loop_sock srv) c of (s, c) \<Rightarrow>
           case poll (length (concat (m_fragments c))) recv c of (res, c) \<Rightarrow>
           Some (res, \<lparr> rpc_client = c, rpc_server = srv\<lparr>loop_sock := s\<rparr> \<rparr>)))"

text \<open>Nothing is under way in either direction and the service is running.\<close>

definition sock_idle :: "mem_sock \<Rightarrow> bool" where
  "sock_idle s \<longleftrightarrow> m_rbuf s = [] \<and> m_wbuf s = [] \<and> concat (m_fragments s) = [] \<and> m_sent s = []"

definition rpc_idle :: "('i \<Rightarrow> bool) \<Rightarrow> 'i rpc \<Rightarrow> bool" where
  "rpc_idle exiting st \<longleftrightarrow> sock_idle (rpc_client st) \<and> sock_idle (loop_sock (rpc_server st)) \<and>
     \<not> exiting (loop_inst (rpc_server st))"

lemma cuts_bytes: "cuts (map (\<lambda>b. [b]))"
  by (simp add: cuts_def)

subsection \<open>One call\<close>

context ev_reliable
begin

lemma poll_response:
  assumes "stream s = framed p" and "packet_ok p" and "length (incoming s) \<le> n"
    and "api_retval (process p) \<noteq> AGENTD_ERROR_IPC_WOULD_BLOCK"
  shows "\<exists>s'. poll n (read_response failure ev True process) s = (process p, s') \<and> stream s' = [] \<and> wbuf s' = wbuf s \<and> sent s' = sent s"
  using assms
proof (induction n arbitrary: s)
  case (0 s)
  have st: "stream s = framed p @ []" using 0(1) by simp
  obtain s' where r: "ipc_read_data_noblock ev True s = (Inr p, s')" using read_data_complete [of s p "[]"] 0 by auto
  show ?case using r read_data_sound [OF st 0(2) r] by (simp add: read_response_def)
next
  case (Suc n s)
  have st: "stream s = framed p @ []" using Suc.prems(1) by simp
  obtain s1 where "ipc_read_data_noblock ev True s = (Inr p, s1) \<or>
     (ipc_read_data_noblock ev True s = (Inl AGENTD_ERROR_IPC_WOULD_BLOCK, s1) \<and> length (rbuf s1) < length p + 8)"
    using read_data_waits [OF st Suc.prems(2)] by blast
  then show ?case
  proof
    assume r: "ipc_read_data_noblock ev True s = (Inr p, s1)"
    then show ?thesis using read_data_sound [OF st Suc.prems(2) r] Suc.prems(4) by (simp add: read_response_def)
  next
    assume w: "ipc_read_data_noblock ev True s = (Inl AGENTD_ERROR_IPC_WOULD_BLOCK, s1) \<and> length (rbuf s1) < length p + 8"
    then have r: "ipc_read_data_noblock ev True s = (Inl AGENTD_ERROR_IPC_WOULD_BLOCK, s1)" ..
    have k: "stream s1 = framed p" "wbuf s1 = wbuf s" "sent s1 = sent s" using read_data_kept [OF r] st by simp_all
    have "incoming s \<noteq> []"
    proof
      assume "incoming s = []"
      then have "length (stream s1) < length p + 8" using w read_data_incoming [OF r] by simp
      then show False using k(1) by simp
    qed
    then have "length (incoming s1) \<le> n" using read_data_incoming [OF r] Suc.prems(3) by simp
    then show ?thesis using Suc.IH [OF k(1) Suc.prems(2) _ Suc.prems(4)] r k by (simp add: read_response_def api_error_def)
  qed
qed

end

lemma mem_write_data:
  assumes "packet_ok p" and "sock_idle s"
  shows "ipc_write_data_noblock mem_evsock p s = (AGENTD_STATUS_SUCCESS, s\<lparr>m_sent := framed p, m_wbuf := []\<rparr>)"
  using assms packet_size(1) [OF assms(1)]
  by (simp add: ipc_write_data_noblock_def add_or_def ipc_socket_write_from_buffer_def mem_evsock_def sock_idle_def framed_def)

text \<open>
  The laws of a service for this: its handler gives at most one reply, and its write
  callback sends what is in the write buffer and changes nothing else.
\<close>

definition mem_flushes :: "(('i, mem_sock) service_loop \<Rightarrow> ('i, mem_sock) service_loop) \<Rightarrow> bool" where
  "mem_flushes wr \<longleftrightarrow> (\<forall>st. loop_inst (wr st) = loop_inst st \<and>
     loop_sock (wr st) = (loop_sock st)\<lparr>m_sent := m_sent (loop_sock st) @ m_wbuf (loop_sock st), m_wbuf := []\<rparr>)"

lemma service_ipc_write_flushes: "mem_flushes (service_ipc_write quit mem_evsock would_block)"
  by (simp add: mem_flushes_def service_ipc_write_def ipc_socket_writebuffer_size_def ipc_socket_write_from_buffer_def
      mem_evsock_def Let_def)

locale mem_service =
  fixes h :: "'i handler" and exiting :: "'i \<Rightarrow> bool" and quit :: "'i \<Rightarrow> 'i"
    and wr :: "('i, mem_sock) service_loop \<Rightarrow> ('i, mem_sock) service_loop"
  assumes one_reply: "h i True inst req = Some (r, out, inst') \<Longrightarrow> length out \<le> 1"
    and flushes: "mem_flushes wr"

sublocale mem_service \<subseteq> mem: packet_service mem_evsock m_rbuf m_wbuf "\<lambda>s. concat (m_fragments s)" m_sent h exiting quit
  by unfold_locales (rule one_reply)

context mem_service
begin

text \<open>The client gets the response of the handler, whatever the fragments are.\<close>

lemma exchange_reply:
  assumes chop: "cuts chop" and idle: "rpc_idle exiting st" and req: "packet_ok req" and malloc: "\<forall>i. malloc i"
    and d: "h 0 True (loop_inst (rpc_server st)) req = Some (AGENTD_STATUS_SUCCESS, [resp], inst')"
    and resp: "packet_ok resp" and run: "\<not> exiting inst'"
    and p: "api_retval (process resp) \<noteq> AGENTD_ERROR_IPC_WOULD_BLOCK"
  shows "\<exists>st'. exchange (service_ipc_read h exiting quit mem_evsock malloc) wr chop
      (write_request wfail mem_evsock req) (read_response rfail mem_evsock True process) st =
      Some (process resp, st') \<and> rpc_idle exiting st' \<and> loop_inst (rpc_server st') = inst'"
proof -
  let ?c = "rpc_client st" and ?srv = "rpc_server st" and ?rd = "service_ipc_read h exiting quit mem_evsock malloc"
  let ?s = "(loop_sock ?srv)\<lparr>m_fragments := m_fragments (loop_sock ?srv) @ chop (framed req)\<rparr>"
  have ic: "sock_idle ?c" and isv: "sock_idle (loop_sock ?srv)" and run0: "\<not> exiting (loop_inst ?srv)"
    using idle by (simp_all add: rpc_idle_def)
  have send: "write_request wfail mem_evsock req ?c = (AGENTD_STATUS_SUCCESS, ?c\<lparr>m_sent := framed req, m_wbuf := []\<rparr>)"
    using mem_write_data [OF req ic] by (simp add: write_request_def)
  have conc: "concat (m_fragments ?s) = framed req" using chop isv by (simp add: cuts_def sock_idle_def)
  have sp: "serve_packets h quit 0 (loop_inst (?srv\<lparr>loop_sock := ?s\<rparr>)) [req] = Some (inst', [resp])"
    using d by simp
  have "\<exists>srv'. read_callbacks ?rd (Suc (length (concat (m_fragments ?s)))) (0, ?srv\<lparr>loop_sock := ?s\<rparr>) =
      Some (0 + length [req], srv') \<and> loop_inst srv' = inst' \<and>
    m_rbuf (loop_sock srv') @ concat (m_fragments (loop_sock srv')) = [] \<and>
    m_sent (loop_sock srv') @ m_wbuf (loop_sock srv') =
      (m_sent (loop_sock (?srv\<lparr>loop_sock := ?s\<rparr>)) @ m_wbuf (loop_sock (?srv\<lparr>loop_sock := ?s\<rparr>))) @ concat (map framed [resp])"
    by (rule mem.read_callbacks_serve [OF _ _ _ malloc sp]) (use isv req resp run0 conc in \<open>simp_all add: sock_idle_def\<close>)
  then obtain srv' where rd: "read_callbacks ?rd (Suc (length (framed req))) (0, ?srv\<lparr>loop_sock := ?s\<rparr>) = Some (1, srv')"
    and inst: "loop_inst srv' = inst'"
    and rest: "m_rbuf (loop_sock srv') = []" "concat (m_fragments (loop_sock srv')) = []"
    and out: "m_sent (loop_sock srv') @ m_wbuf (loop_sock srv') = framed resp"
    unfolding conc using isv by (auto simp: sock_idle_def simp del: read_callbacks.simps length_framed)
  let ?w = "wr srv'"
  have w: "m_sent (loop_sock ?w) = framed resp" "m_wbuf (loop_sock ?w) = []" "m_rbuf (loop_sock ?w) = []"
    "concat (m_fragments (loop_sock ?w)) = []" "loop_inst ?w = inst'"
    using flushes rest out inst unfolding mem_flushes_def by auto
  let ?d = "?c\<lparr>m_wbuf := [], m_sent := [], m_fragments := m_fragments ?c @ chop (framed resp)\<rparr>"
  have cd: "concat (m_fragments ?d) = framed resp" using chop ic by (simp add: cuts_def sock_idle_def)
  have "\<exists>s'. poll (length (concat (m_fragments ?d))) (read_response rfail mem_evsock True process) ?d = (process resp, s') \<and>
     m_rbuf s' @ concat (m_fragments s') = [] \<and> m_wbuf s' = m_wbuf ?d \<and> m_sent s' = m_sent ?d"
    by (rule mem_ev.poll_response) (use cd ic resp p in \<open>simp_all add: sock_idle_def\<close>)
  then obtain c' where pl: "poll (length (framed resp)) (read_response rfail mem_evsock True process) ?d = (process resp, c')"
    and c': "sock_idle c'" unfolding cd by (auto simp: sock_idle_def)
  let ?st = "\<lparr> rpc_client = c', rpc_server = ?w\<lparr>loop_sock := (loop_sock ?w)\<lparr>m_sent := []\<rparr>\<rparr> \<rparr>"
  have "exchange ?rd wr chop (write_request wfail mem_evsock req) (read_response rfail mem_evsock True process) st =
      Some (process resp, ?st)"
    unfolding exchange_def send using rd pl w(1) cd conc
    by (simp add: deliver_def Let_def del: read_callbacks.simps length_framed concat_append)
  moreover have "rpc_idle exiting ?st" using c' w run by (simp add: rpc_idle_def sock_idle_def)
  ultimately show ?thesis using w(5) by auto
qed

end

end
