(* ===== verification/Ds_Api.thy ===== *)
theory Ds_Api
  imports Ds_Loop Ds_Wire Connection
begin

text \<open>
  The client calls of the data service: \<^verbatim>\<open>dataservice_api_sendreq_*\<close> encodes a request
  and writes it to a socket, \<^verbatim>\<open>dataservice_api_recvresp_*\<close> reads a packet from it,
  decodes the response and fills the output parameters (files
  \<^verbatim>\<open>dataservice_api_*.c\<close> below \<^verbatim>\<open>src/src/dataservice\<close>).  A call exists for up to three
  kinds of sockets: those of the process runtime library (no suffix), whose reads,
  writes and allocator are the parameter \<open>psock_ops\<close>; the non-blocking sockets of
  \<open>Ipc_Noblock\<close> (suffix \<open>_old\<close>); and the blocking ones of \<open>Ipc\<close> (suffix \<open>_block\<close>).
  The results of the allocations are parameters.
\<close>

subsection \<open>Node references\<close>

definition dataservice_api_node_ref_is_beginning :: "bytes \<Rightarrow> bool" where
  "dataservice_api_node_ref_is_beginning idref \<longleftrightarrow> take 16 idref = replicate 16 0"

definition dataservice_api_node_ref_is_end :: "bytes \<Rightarrow> bool" where
  "dataservice_api_node_ref_is_end idref \<longleftrightarrow> take 16 idref = replicate 16 0xff"

subsection \<open>Encode and write\<close>

text \<open>
  A request that cannot be encoded is not written; a failed write is reported by one
  status.  The non-blocking calls, and one of the others, let a would-block status
  through.
\<close>

definition sendreq_psock :: "'s psock_ops \<Rightarrow> status + bytes \<Rightarrow> 's \<Rightarrow> status \<times> 's" where
  "sendreq_psock ps reqbuf sock =
     (case reqbuf of
        Inl st \<Rightarrow> (st, sock)
      | Inr b \<Rightarrow>
          (case psock_write_boxed_data ps b sock of (r, sock) \<Rightarrow>
           (if r \<noteq> AGENTD_STATUS_SUCCESS then AGENTD_ERROR_DATASERVICE_IPC_WRITE_DATA_FAILURE else r, sock)))"

definition sendreq_psock_nonblocking :: "'s psock_ops \<Rightarrow> status + bytes \<Rightarrow> 's \<Rightarrow> status \<times> 's" where
  "sendreq_psock_nonblocking ps reqbuf sock =
     (case reqbuf of
        Inl st \<Rightarrow> (st, sock)
      | Inr b \<Rightarrow>
          (case psock_write_boxed_data ps b sock of (r, sock) \<Rightarrow>
           (if r \<noteq> AGENTD_ERROR_IPC_WOULD_BLOCK \<and> r \<noteq> AGENTD_STATUS_SUCCESS
            then AGENTD_ERROR_DATASERVICE_IPC_WRITE_DATA_FAILURE else r, sock)))"

definition sendreq_old :: "'s evsock \<Rightarrow> status + bytes \<Rightarrow> 's \<Rightarrow> status \<times> 's" where
  "sendreq_old ev reqbuf sock =
     (case reqbuf of
        Inl st \<Rightarrow> (st, sock)
      | Inr b \<Rightarrow> write_request AGENTD_ERROR_DATASERVICE_IPC_WRITE_DATA_FAILURE ev b sock)"

definition sendreq_block :: "status + bytes \<Rightarrow> ipc_fd \<Rightarrow> status \<times> ipc_fd" where
  "sendreq_block reqbuf sock =
     (case reqbuf of
        Inl st \<Rightarrow> (st, sock)
      | Inr b \<Rightarrow>
          (case ipc_write_data_block b sock of (r, sock) \<Rightarrow>
           (if r \<noteq> AGENTD_STATUS_SUCCESS then AGENTD_ERROR_DATASERVICE_IPC_WRITE_DATA_FAILURE else r, sock)))"

subsection \<open>Sending requests\<close>

subsubsection \<open>Over sockets of the process runtime\<close>

definition dataservice_api_sendreq_root_context_init ::
  "'s psock_ops \<Rightarrow> status \<Rightarrow> 64 word \<Rightarrow> bytes \<Rightarrow> 's \<Rightarrow> status \<times> 's" where
  "dataservice_api_sendreq_root_context_init ps buf_st max_database_size datadir sock =
     sendreq_psock ps (dataservice_encode_request_root_context_init buf_st max_database_size datadir) sock"

definition dataservice_api_sendreq_root_context_reduce_caps ::
  "'s psock_ops \<Rightarrow> status \<Rightarrow> bitcap \<Rightarrow> 's \<Rightarrow> status \<times> 's" where
  "dataservice_api_sendreq_root_context_reduce_caps ps buf_st caps sock =
     sendreq_psock ps (dataservice_encode_request_root_context_reduce_caps buf_st caps) sock"

definition dataservice_api_sendreq_child_context_create ::
  "'s psock_ops \<Rightarrow> status \<Rightarrow> bitcap \<Rightarrow> 's \<Rightarrow> status \<times> 's" where
  "dataservice_api_sendreq_child_context_create ps buf_st caps sock =
     sendreq_psock ps (dataservice_encode_request_child_context_create buf_st caps) sock"

definition dataservice_api_sendreq_child_context_close ::
  "'s psock_ops \<Rightarrow> status \<Rightarrow> 32 word \<Rightarrow> 's \<Rightarrow> status \<times> 's" where
  "dataservice_api_sendreq_child_context_close ps buf_st child sock =
     sendreq_psock ps (dataservice_encode_request_child_context_close buf_st child) sock"

definition dataservice_api_sendreq_global_settings_get ::
  "'s psock_ops \<Rightarrow> status \<Rightarrow> 32 word \<Rightarrow> 64 word \<Rightarrow> 's \<Rightarrow> status \<times> 's" where
  "dataservice_api_sendreq_global_settings_get ps buf_st child key sock =
     sendreq_psock ps (dataservice_encode_request_global_settings_get buf_st child key) sock"

definition dataservice_api_sendreq_global_settings_set ::
  "'s psock_ops \<Rightarrow> status \<Rightarrow> 32 word \<Rightarrow> 64 word \<Rightarrow> bytes \<Rightarrow> 's \<Rightarrow> status \<times> 's" where
  "dataservice_api_sendreq_global_settings_set ps buf_st child key val sock =
     sendreq_psock ps (dataservice_encode_request_global_settings_set buf_st child key val) sock"

definition dataservice_api_sendreq_transaction_submit ::
  "'s psock_ops \<Rightarrow> status \<Rightarrow> 32 word \<Rightarrow> bytes \<Rightarrow> bytes \<Rightarrow> bytes \<Rightarrow> 's \<Rightarrow> status \<times> 's" where
  "dataservice_api_sendreq_transaction_submit ps buf_st child txn_id artifact_id val sock =
     sendreq_psock ps (dataservice_encode_request_transaction_submit buf_st child txn_id artifact_id val) sock"

definition dataservice_api_sendreq_transaction_get_first ::
  "'s psock_ops \<Rightarrow> status \<Rightarrow> 32 word \<Rightarrow> 's \<Rightarrow> status \<times> 's" where
  "dataservice_api_sendreq_transaction_get_first ps buf_st child sock =
     sendreq_psock_nonblocking ps (dataservice_encode_request_transaction_get_first buf_st child) sock"

definition dataservice_api_sendreq_transaction_get ::
  "'s psock_ops \<Rightarrow> status \<Rightarrow> 32 word \<Rightarrow> bytes \<Rightarrow> 's \<Rightarrow> status \<times> 's" where
  "dataservice_api_sendreq_transaction_get ps buf_st child txn_id sock =
     sendreq_psock ps (dataservice_encode_request_transaction_get buf_st child txn_id) sock"

definition dataservice_api_sendreq_transaction_drop ::
  "'s psock_ops \<Rightarrow> status \<Rightarrow> 32 word \<Rightarrow> bytes \<Rightarrow> 's \<Rightarrow> status \<times> 's" where
  "dataservice_api_sendreq_transaction_drop ps buf_st child txn_id sock =
     sendreq_psock ps (dataservice_encode_request_transaction_drop buf_st child txn_id) sock"

definition dataservice_api_sendreq_transaction_promote ::
  "'s psock_ops \<Rightarrow> status \<Rightarrow> 32 word \<Rightarrow> bytes \<Rightarrow> 's \<Rightarrow> status \<times> 's" where
  "dataservice_api_sendreq_transaction_promote ps buf_st child txn_id sock =
     sendreq_psock ps (dataservice_encode_request_transaction_promote buf_st child txn_id) sock"

definition dataservice_api_sendreq_artifact_get ::
  "'s psock_ops \<Rightarrow> status \<Rightarrow> 32 word \<Rightarrow> bytes \<Rightarrow> 's \<Rightarrow> status \<times> 's" where
  "dataservice_api_sendreq_artifact_get ps buf_st child artifact_id sock =
     sendreq_psock ps (dataservice_encode_request_artifact_get buf_st child artifact_id) sock"

definition dataservice_api_sendreq_block_make ::
  "'s psock_ops \<Rightarrow> status \<Rightarrow> 32 word \<Rightarrow> bytes \<Rightarrow> bytes \<Rightarrow> 's \<Rightarrow> status \<times> 's" where
  "dataservice_api_sendreq_block_make ps buf_st child block_id block_cert sock =
     sendreq_psock ps (dataservice_encode_request_block_make buf_st child block_id block_cert) sock"

definition dataservice_api_sendreq_block_get ::
  "'s psock_ops \<Rightarrow> status \<Rightarrow> 32 word \<Rightarrow> bytes \<Rightarrow> bool \<Rightarrow> 's \<Rightarrow> status \<times> 's" where
  "dataservice_api_sendreq_block_get ps buf_st child block_id read_cert sock =
     sendreq_psock ps (dataservice_encode_request_block_get buf_st child block_id read_cert) sock"

definition dataservice_api_sendreq_block_id_by_height_get ::
  "'s psock_ops \<Rightarrow> status \<Rightarrow> 32 word \<Rightarrow> 64 word \<Rightarrow> 's \<Rightarrow> status \<times> 's" where
  "dataservice_api_sendreq_block_id_by_height_get ps buf_st child height sock =
     sendreq_psock ps (dataservice_encode_request_block_id_by_height_get buf_st child height) sock"

definition dataservice_api_sendreq_latest_block_id_get ::
  "'s psock_ops \<Rightarrow> status \<Rightarrow> 32 word \<Rightarrow> 's \<Rightarrow> status \<times> 's" where
  "dataservice_api_sendreq_latest_block_id_get ps buf_st child sock =
     sendreq_psock ps (dataservice_encode_request_latest_block_id_get buf_st child) sock"

definition dataservice_api_sendreq_canonized_transaction_get ::
  "'s psock_ops \<Rightarrow> status \<Rightarrow> 32 word \<Rightarrow> bytes \<Rightarrow> bool \<Rightarrow> 's \<Rightarrow> status \<times> 's" where
  "dataservice_api_sendreq_canonized_transaction_get ps buf_st child txn_id read_cert sock =
     sendreq_psock ps (dataservice_encode_request_canonized_transaction_get buf_st child txn_id read_cert) sock"

subsubsection \<open>Over non-blocking sockets\<close>

definition dataservice_api_sendreq_root_context_init_old ::
  "'s evsock \<Rightarrow> status \<Rightarrow> 64 word \<Rightarrow> bytes \<Rightarrow> 's \<Rightarrow> status \<times> 's" where
  "dataservice_api_sendreq_root_context_init_old ev buf_st max_database_size datadir sock =
     sendreq_old ev (dataservice_encode_request_root_context_init buf_st max_database_size datadir) sock"

definition dataservice_api_sendreq_root_context_reduce_caps_old ::
  "'s evsock \<Rightarrow> status \<Rightarrow> bitcap \<Rightarrow> 's \<Rightarrow> status \<times> 's" where
  "dataservice_api_sendreq_root_context_reduce_caps_old ev buf_st caps sock =
     sendreq_old ev (dataservice_encode_request_root_context_reduce_caps buf_st caps) sock"

definition dataservice_api_sendreq_child_context_create_old ::
  "'s evsock \<Rightarrow> status \<Rightarrow> bitcap \<Rightarrow> 's \<Rightarrow> status \<times> 's" where
  "dataservice_api_sendreq_child_context_create_old ev buf_st caps sock =
     sendreq_old ev (dataservice_encode_request_child_context_create buf_st caps) sock"

definition dataservice_api_sendreq_child_context_close_old ::
  "'s evsock \<Rightarrow> status \<Rightarrow> 32 word \<Rightarrow> 's \<Rightarrow> status \<times> 's" where
  "dataservice_api_sendreq_child_context_close_old ev buf_st child sock =
     sendreq_old ev (dataservice_encode_request_child_context_close buf_st child) sock"

definition dataservice_api_sendreq_global_settings_get_old ::
  "'s evsock \<Rightarrow> status \<Rightarrow> 32 word \<Rightarrow> 64 word \<Rightarrow> 's \<Rightarrow> status \<times> 's" where
  "dataservice_api_sendreq_global_settings_get_old ev buf_st child key sock =
     sendreq_old ev (dataservice_encode_request_global_settings_get buf_st child key) sock"

definition dataservice_api_sendreq_global_settings_set_old ::
  "'s evsock \<Rightarrow> status \<Rightarrow> 32 word \<Rightarrow> 64 word \<Rightarrow> bytes \<Rightarrow> 's \<Rightarrow> status \<times> 's" where
  "dataservice_api_sendreq_global_settings_set_old ev buf_st child key val sock =
     sendreq_old ev (dataservice_encode_request_global_settings_set buf_st child key val) sock"

definition dataservice_api_sendreq_transaction_submit_old ::
  "'s evsock \<Rightarrow> status \<Rightarrow> 32 word \<Rightarrow> bytes \<Rightarrow> bytes \<Rightarrow> bytes \<Rightarrow> 's \<Rightarrow> status \<times> 's" where
  "dataservice_api_sendreq_transaction_submit_old ev buf_st child txn_id artifact_id val sock =
     sendreq_old ev (dataservice_encode_request_transaction_submit buf_st child txn_id artifact_id val) sock"

definition dataservice_api_sendreq_transaction_get_first_old ::
  "'s evsock \<Rightarrow> status \<Rightarrow> 32 word \<Rightarrow> 's \<Rightarrow> status \<times> 's" where
  "dataservice_api_sendreq_transaction_get_first_old ev buf_st child sock =
     sendreq_old ev (dataservice_encode_request_transaction_get_first buf_st child) sock"

definition dataservice_api_sendreq_transaction_get_old ::
  "'s evsock \<Rightarrow> status \<Rightarrow> 32 word \<Rightarrow> bytes \<Rightarrow> 's \<Rightarrow> status \<times> 's" where
  "dataservice_api_sendreq_transaction_get_old ev buf_st child txn_id sock =
     sendreq_old ev (dataservice_encode_request_transaction_get buf_st child txn_id) sock"

definition dataservice_api_sendreq_transaction_drop_old ::
  "'s evsock \<Rightarrow> status \<Rightarrow> 32 word \<Rightarrow> bytes \<Rightarrow> 's \<Rightarrow> status \<times> 's" where
  "dataservice_api_sendreq_transaction_drop_old ev buf_st child txn_id sock =
     sendreq_old ev (dataservice_encode_request_transaction_drop buf_st child txn_id) sock"

definition dataservice_api_sendreq_transaction_promote_old ::
  "'s evsock \<Rightarrow> status \<Rightarrow> 32 word \<Rightarrow> bytes \<Rightarrow> 's \<Rightarrow> status \<times> 's" where
  "dataservice_api_sendreq_transaction_promote_old ev buf_st child txn_id sock =
     sendreq_old ev (dataservice_encode_request_transaction_promote buf_st child txn_id) sock"

definition dataservice_api_sendreq_artifact_get_old ::
  "'s evsock \<Rightarrow> status \<Rightarrow> 32 word \<Rightarrow> bytes \<Rightarrow> 's \<Rightarrow> status \<times> 's" where
  "dataservice_api_sendreq_artifact_get_old ev buf_st child artifact_id sock =
     sendreq_old ev (dataservice_encode_request_artifact_get buf_st child artifact_id) sock"

definition dataservice_api_sendreq_block_make_old ::
  "'s evsock \<Rightarrow> status \<Rightarrow> 32 word \<Rightarrow> bytes \<Rightarrow> bytes \<Rightarrow> 's \<Rightarrow> status \<times> 's" where
  "dataservice_api_sendreq_block_make_old ev buf_st child block_id block_cert sock =
     sendreq_old ev (dataservice_encode_request_block_make buf_st child block_id block_cert) sock"

definition dataservice_api_sendreq_block_get_old ::
  "'s evsock \<Rightarrow> status \<Rightarrow> 32 word \<Rightarrow> bytes \<Rightarrow> bool \<Rightarrow> 's \<Rightarrow> status \<times> 's" where
  "dataservice_api_sendreq_block_get_old ev buf_st child block_id read_cert sock =
     sendreq_old ev (dataservice_encode_request_block_get buf_st child block_id read_cert) sock"

definition dataservice_api_sendreq_block_id_by_height_get_old ::
  "'s evsock \<Rightarrow> status \<Rightarrow> 32 word \<Rightarrow> 64 word \<Rightarrow> 's \<Rightarrow> status \<times> 's" where
  "dataservice_api_sendreq_block_id_by_height_get_old ev buf_st child height sock =
     sendreq_old ev (dataservice_encode_request_block_id_by_height_get buf_st child height) sock"

definition dataservice_api_sendreq_latest_block_id_get_old ::
  "'s evsock \<Rightarrow> status \<Rightarrow> 32 word \<Rightarrow> 's \<Rightarrow> status \<times> 's" where
  "dataservice_api_sendreq_latest_block_id_get_old ev buf_st child sock =
     sendreq_old ev (dataservice_encode_request_latest_block_id_get buf_st child) sock"

definition dataservice_api_sendreq_canonized_transaction_get_old ::
  "'s evsock \<Rightarrow> status \<Rightarrow> 32 word \<Rightarrow> bytes \<Rightarrow> bool \<Rightarrow> 's \<Rightarrow> status \<times> 's" where
  "dataservice_api_sendreq_canonized_transaction_get_old ev buf_st child txn_id read_cert sock =
     sendreq_old ev (dataservice_encode_request_canonized_transaction_get buf_st child txn_id read_cert) sock"

subsubsection \<open>Over blocking sockets\<close>

definition dataservice_api_sendreq_root_context_init_block ::
  "status \<Rightarrow> 64 word \<Rightarrow> bytes \<Rightarrow> ipc_fd \<Rightarrow> status \<times> ipc_fd" where
  "dataservice_api_sendreq_root_context_init_block buf_st max_database_size datadir sock =
     sendreq_block (dataservice_encode_request_root_context_init buf_st max_database_size datadir) sock"

definition dataservice_api_sendreq_root_context_reduce_caps_block ::
  "status \<Rightarrow> bitcap \<Rightarrow> ipc_fd \<Rightarrow> status \<times> ipc_fd" where
  "dataservice_api_sendreq_root_context_reduce_caps_block buf_st caps sock =
     sendreq_block (dataservice_encode_request_root_context_reduce_caps buf_st caps) sock"

definition dataservice_api_sendreq_child_context_create_block ::
  "status \<Rightarrow> bitcap \<Rightarrow> ipc_fd \<Rightarrow> status \<times> ipc_fd" where
  "dataservice_api_sendreq_child_context_create_block buf_st caps sock =
     sendreq_block (dataservice_encode_request_child_context_create buf_st caps) sock"

definition dataservice_api_sendreq_child_context_close_block ::
  "status \<Rightarrow> 32 word \<Rightarrow> ipc_fd \<Rightarrow> status \<times> ipc_fd" where
  "dataservice_api_sendreq_child_context_close_block buf_st child sock =
     sendreq_block (dataservice_encode_request_child_context_close buf_st child) sock"

definition dataservice_api_sendreq_global_settings_get_block ::
  "status \<Rightarrow> 32 word \<Rightarrow> 64 word \<Rightarrow> ipc_fd \<Rightarrow> status \<times> ipc_fd" where
  "dataservice_api_sendreq_global_settings_get_block buf_st child key sock =
     sendreq_block (dataservice_encode_request_global_settings_get buf_st child key) sock"

definition dataservice_api_sendreq_global_settings_set_block ::
  "status \<Rightarrow> 32 word \<Rightarrow> 64 word \<Rightarrow> bytes \<Rightarrow> ipc_fd \<Rightarrow> status \<times> ipc_fd" where
  "dataservice_api_sendreq_global_settings_set_block buf_st child key val sock =
     sendreq_block (dataservice_encode_request_global_settings_set buf_st child key val) sock"

subsection \<open>Receiving responses\<close>

text \<open>Read a packet, process it, release it.\<close>

definition recvresp_psock :: "'s psock_ops \<Rightarrow> (bytes \<Rightarrow> 'p api_result) \<Rightarrow> 's \<Rightarrow> 'p api_result \<times> 's" where
  "recvresp_psock ps process sock =
     (case psock_read_boxed_data ps sock of
        (Inl st, sock) \<Rightarrow> (api_error AGENTD_ERROR_DATASERVICE_IPC_READ_DATA_FAILURE, sock)
      | (Inr val, sock) \<Rightarrow>
          (case rcpr_allocator_reclaim ps sock of (release_retval, sock) \<Rightarrow>
           (if release_retval \<noteq> AGENTD_STATUS_SUCCESS then (process val)\<lparr>api_retval := release_retval\<rparr> else process val, sock)))"

text \<open>One of these calls assigns the status of a failed release the wrong way round, and does not report it.\<close>

definition recvresp_psock_unreported :: "'s psock_ops \<Rightarrow> (bytes \<Rightarrow> 'p api_result) \<Rightarrow> 's \<Rightarrow> 'p api_result \<times> 's" where
  "recvresp_psock_unreported ps process sock =
     (case psock_read_boxed_data ps sock of
        (Inl st, sock) \<Rightarrow> (api_error AGENTD_ERROR_DATASERVICE_IPC_READ_DATA_FAILURE, sock)
      | (Inr val, sock) \<Rightarrow> (case rcpr_allocator_reclaim ps sock of (_, sock) \<Rightarrow> (process val, sock)))"

definition recvresp_old :: "'s evsock \<Rightarrow> bool \<Rightarrow> (bytes \<Rightarrow> 'p api_result) \<Rightarrow> 's \<Rightarrow> 'p api_result \<times> 's" where
  "recvresp_old ev read_malloc process sock =
     read_response AGENTD_ERROR_DATASERVICE_IPC_READ_DATA_FAILURE ev read_malloc process sock"

definition recvresp_block :: "bool \<Rightarrow> (bytes \<Rightarrow> 'p api_result) \<Rightarrow> ipc_fd \<Rightarrow> 'p api_result \<times> ipc_fd" where
  "recvresp_block read_malloc process sock =
     (case ipc_read_data_block read_malloc sock of
        (Inl st, sock) \<Rightarrow> (api_error AGENTD_ERROR_DATASERVICE_IPC_READ_DATA_FAILURE, sock)
      | (Inr val, sock) \<Rightarrow> (process val, sock))"

text \<open>Responses that carry a status only.\<close>

definition recv_status :: "(bytes \<Rightarrow> status + dataservice_response_header) \<Rightarrow> bytes \<Rightarrow> unit api_result" where
  "recv_status decode val =
     (case decode val of
        Inl st \<Rightarrow> api_error st
      | Inr hdr \<Rightarrow>
          \<lparr> api_retval = AGENTD_STATUS_SUCCESS, api_header = Some (resp_offset hdr, resp_status hdr), api_payload = None \<rparr>)"

text \<open>Responses with a value, which is only written when the status is success.\<close>

definition recv_value :: "(bytes \<Rightarrow> status + dataservice_response_header \<times> 'p option) \<Rightarrow> bytes \<Rightarrow> 'p api_result" where
  "recv_value decode val =
     (case decode val of
        Inl st \<Rightarrow> api_error st
      | Inr (hdr, v) \<Rightarrow>
          \<lparr> api_retval = AGENTD_STATUS_SUCCESS, api_header = Some (resp_offset hdr, resp_status hdr),
            api_payload = (if resp_status hdr \<noteq> AGENTD_STATUS_SUCCESS then None else v) \<rparr>)"

text \<open>A setting must fit the buffer of the caller, whatever the status is.\<close>

definition recv_setting :: "nat \<Rightarrow> bytes \<Rightarrow> bytes api_result" where
  "recv_setting data_size val =
     (case dataservice_decode_response_global_settings_get val of
        Inl st \<Rightarrow> api_error st
      | Inr (hdr, data) \<Rightarrow>
          if data_size < length data then api_error AGENTD_ERROR_DATASERVICE_RECVRESP_MALFORMED_PAYLOAD_DATA else
          \<lparr> api_retval = AGENTD_STATUS_SUCCESS, api_header = Some (resp_offset hdr, resp_status hdr),
            api_payload = (if resp_status hdr = AGENTD_STATUS_SUCCESS then Some data else None) \<rparr>)"

text \<open>The node structures are cleared and filled field by field.\<close>

definition copy_txn_node :: "data_transaction_node \<Rightarrow> data_transaction_node" where
  "copy_txn_node n = txn_node_zero\<lparr>node_key := node_key n, node_prev := node_prev n, node_next := node_next n,
     node_artifact_id := node_artifact_id n, net_txn_cert_size := net_txn_cert_size n, net_txn_state := net_txn_state n\<rparr>"

definition copy_canonized_node :: "data_transaction_node \<Rightarrow> data_transaction_node" where
  "copy_canonized_node n = txn_node_zero\<lparr>node_key := node_key n, node_prev := node_prev n, node_next := node_next n,
     node_artifact_id := node_artifact_id n, node_block_id := node_block_id n,
     net_txn_cert_size := net_txn_cert_size n, net_txn_state := net_txn_state n\<rparr>"

definition copy_block_node :: "data_block_node \<Rightarrow> data_block_node" where
  "copy_block_node n = block_node_zero\<lparr>block_key := block_key n, block_prev := block_prev n, block_next := block_next n,
     first_transaction_id := first_transaction_id n, net_block_height := net_block_height n,
     net_block_cert_size := net_block_cert_size n\<rparr>"

text \<open>
  A node, copied when the caller wants it, and a certificate in a new buffer.  The
  calls for transactions of the process queue always allocate the buffer, the others
  only for a certificate that is not empty.
\<close>

definition recv_node ::
  "(bytes \<Rightarrow> status + dataservice_response_header \<times> ('n \<times> bytes) option) \<Rightarrow> ('n \<Rightarrow> 'n) \<Rightarrow> bool \<Rightarrow> (bytes \<Rightarrow> bool) \<Rightarrow> bytes \<Rightarrow>
     ('n option \<times> bytes option) api_result" where
  "recv_node decode copy node_wanted data_malloc val =
     (case decode val of
        Inl st \<Rightarrow> api_error st
      | Inr (hdr, v) \<Rightarrow>
          (case (if resp_status hdr \<noteq> AGENTD_STATUS_SUCCESS then None else v) of
             None \<Rightarrow> \<lparr> api_retval = AGENTD_STATUS_SUCCESS,
                        api_header = Some (resp_offset hdr, resp_status hdr), api_payload = None \<rparr>
           | Some (node, data) \<Rightarrow>
               let n = (if node_wanted then Some (copy node) else None) in
               if \<not> data_malloc data
               then \<lparr> api_retval = AGENTD_ERROR_GENERAL_OUT_OF_MEMORY,
                      api_header = Some (resp_offset hdr, resp_status hdr), api_payload = Some (n, None) \<rparr>
               else \<lparr> api_retval = AGENTD_STATUS_SUCCESS,
                      api_header = Some (resp_offset hdr, resp_status hdr), api_payload = Some (n, Some data) \<rparr>))"

subsubsection \<open>Over sockets of the process runtime\<close>

definition dataservice_api_recvresp_root_context_init ::
  "'s psock_ops \<Rightarrow> 's \<Rightarrow> unit api_result \<times> 's" where
  "dataservice_api_recvresp_root_context_init ps sock =
     recvresp_psock ps (recv_status dataservice_decode_response_root_context_init) sock"

definition dataservice_api_recvresp_root_context_reduce_caps ::
  "'s psock_ops \<Rightarrow> 's \<Rightarrow> unit api_result \<times> 's" where
  "dataservice_api_recvresp_root_context_reduce_caps ps sock =
     recvresp_psock ps (recv_status dataservice_decode_response_root_context_reduce_caps) sock"

definition dataservice_api_recvresp_child_context_create ::
  "'s psock_ops \<Rightarrow> 's \<Rightarrow> (32 word) api_result \<times> 's" where
  "dataservice_api_recvresp_child_context_create ps sock =
     recvresp_psock ps (recv_value dataservice_decode_response_child_context_create) sock"

definition dataservice_api_recvresp_child_context_close ::
  "'s psock_ops \<Rightarrow> 's \<Rightarrow> unit api_result \<times> 's" where
  "dataservice_api_recvresp_child_context_close ps sock =
     recvresp_psock ps (recv_status dataservice_decode_response_child_context_close) sock"

definition dataservice_api_recvresp_global_settings_get ::
  "'s psock_ops \<Rightarrow> nat \<Rightarrow> 's \<Rightarrow> bytes api_result \<times> 's" where
  "dataservice_api_recvresp_global_settings_get ps data_size sock =
     recvresp_psock ps (recv_setting data_size) sock"

definition dataservice_api_recvresp_global_settings_set ::
  "'s psock_ops \<Rightarrow> 's \<Rightarrow> unit api_result \<times> 's" where
  "dataservice_api_recvresp_global_settings_set ps sock =
     recvresp_psock ps (recv_status dataservice_decode_response_global_settings_set) sock"

definition dataservice_api_recvresp_transaction_submit ::
  "'s psock_ops \<Rightarrow> 's \<Rightarrow> unit api_result \<times> 's" where
  "dataservice_api_recvresp_transaction_submit ps sock =
     recvresp_psock ps (recv_status dataservice_decode_response_transaction_submit) sock"

definition dataservice_api_recvresp_transaction_get_first ::
  "'s psock_ops \<Rightarrow> bool \<Rightarrow> bool \<Rightarrow> 's \<Rightarrow> (data_transaction_node option \<times> bytes option) api_result \<times> 's" where
  "dataservice_api_recvresp_transaction_get_first ps node_wanted data_malloc sock =
     recvresp_psock ps (recv_node dataservice_decode_response_transaction_get_first copy_txn_node node_wanted (\<lambda>_. data_malloc)) sock"

definition dataservice_api_recvresp_transaction_get ::
  "'s psock_ops \<Rightarrow> bool \<Rightarrow> bool \<Rightarrow> 's \<Rightarrow> (data_transaction_node option \<times> bytes option) api_result \<times> 's" where
  "dataservice_api_recvresp_transaction_get ps node_wanted data_malloc sock =
     recvresp_psock ps (recv_node dataservice_decode_response_transaction_get copy_txn_node node_wanted (\<lambda>_. data_malloc)) sock"

definition dataservice_api_recvresp_transaction_drop ::
  "'s psock_ops \<Rightarrow> 's \<Rightarrow> unit api_result \<times> 's" where
  "dataservice_api_recvresp_transaction_drop ps sock =
     recvresp_psock ps (recv_status dataservice_decode_response_transaction_drop) sock"

definition dataservice_api_recvresp_transaction_promote ::
  "'s psock_ops \<Rightarrow> 's \<Rightarrow> unit api_result \<times> 's" where
  "dataservice_api_recvresp_transaction_promote ps sock =
     recvresp_psock ps (recv_status dataservice_decode_response_transaction_promote) sock"

definition dataservice_api_recvresp_artifact_get ::
  "'s psock_ops \<Rightarrow> 's \<Rightarrow> data_artifact_record api_result \<times> 's" where
  "dataservice_api_recvresp_artifact_get ps sock =
     recvresp_psock ps (recv_value dataservice_decode_response_artifact_get) sock"

definition dataservice_api_recvresp_block_make ::
  "'s psock_ops \<Rightarrow> 's \<Rightarrow> unit api_result \<times> 's" where
  "dataservice_api_recvresp_block_make ps sock =
     recvresp_psock_unreported ps (recv_status dataservice_decode_response_block_make) sock"

definition dataservice_api_recvresp_block_get ::
  "'s psock_ops \<Rightarrow> bool \<Rightarrow> bool \<Rightarrow> 's \<Rightarrow> (data_block_node option \<times> bytes option) api_result \<times> 's" where
  "dataservice_api_recvresp_block_get ps node_wanted data_malloc sock =
     recvresp_psock ps (recv_node dataservice_decode_response_block_get copy_block_node node_wanted (\<lambda>data. data = [] \<or> data_malloc)) sock"

definition dataservice_api_recvresp_block_id_by_height_get ::
  "'s psock_ops \<Rightarrow> 's \<Rightarrow> bytes api_result \<times> 's" where
  "dataservice_api_recvresp_block_id_by_height_get ps sock =
     recvresp_psock ps (recv_value dataservice_decode_response_block_id_by_height_get) sock"

definition dataservice_api_recvresp_latest_block_id_get ::
  "'s psock_ops \<Rightarrow> 's \<Rightarrow> bytes api_result \<times> 's" where
  "dataservice_api_recvresp_latest_block_id_get ps sock =
     recvresp_psock ps (recv_value dataservice_decode_response_latest_block_id_get) sock"

definition dataservice_api_recvresp_canonized_transaction_get ::
  "'s psock_ops \<Rightarrow> bool \<Rightarrow> bool \<Rightarrow> 's \<Rightarrow> (data_transaction_node option \<times> bytes option) api_result \<times> 's" where
  "dataservice_api_recvresp_canonized_transaction_get ps node_wanted data_malloc sock =
     recvresp_psock ps (recv_node dataservice_decode_response_canonized_transaction_get copy_canonized_node node_wanted (\<lambda>data. data = [] \<or> data_malloc)) sock"

subsubsection \<open>Over non-blocking sockets\<close>

definition dataservice_api_recvresp_root_context_init_old ::
  "'s evsock \<Rightarrow> bool \<Rightarrow> 's \<Rightarrow> unit api_result \<times> 's" where
  "dataservice_api_recvresp_root_context_init_old ev read_malloc sock =
     recvresp_old ev read_malloc (recv_status dataservice_decode_response_root_context_init) sock"

definition dataservice_api_recvresp_root_context_reduce_caps_old ::
  "'s evsock \<Rightarrow> bool \<Rightarrow> 's \<Rightarrow> unit api_result \<times> 's" where
  "dataservice_api_recvresp_root_context_reduce_caps_old ev read_malloc sock =
     recvresp_old ev read_malloc (recv_status dataservice_decode_response_root_context_reduce_caps) sock"

definition dataservice_api_recvresp_child_context_create_old ::
  "'s evsock \<Rightarrow> bool \<Rightarrow> 's \<Rightarrow> (32 word) api_result \<times> 's" where
  "dataservice_api_recvresp_child_context_create_old ev read_malloc sock =
     recvresp_old ev read_malloc (recv_value dataservice_decode_response_child_context_create) sock"

definition dataservice_api_recvresp_child_context_close_old ::
  "'s evsock \<Rightarrow> bool \<Rightarrow> 's \<Rightarrow> unit api_result \<times> 's" where
  "dataservice_api_recvresp_child_context_close_old ev read_malloc sock =
     recvresp_old ev read_malloc (recv_status dataservice_decode_response_child_context_close) sock"

definition dataservice_api_recvresp_global_settings_get_old ::
  "'s evsock \<Rightarrow> bool \<Rightarrow> nat \<Rightarrow> 's \<Rightarrow> bytes api_result \<times> 's" where
  "dataservice_api_recvresp_global_settings_get_old ev read_malloc data_size sock =
     recvresp_old ev read_malloc (recv_setting data_size) sock"

definition dataservice_api_recvresp_global_settings_set_old ::
  "'s evsock \<Rightarrow> bool \<Rightarrow> 's \<Rightarrow> unit api_result \<times> 's" where
  "dataservice_api_recvresp_global_settings_set_old ev read_malloc sock =
     recvresp_old ev read_malloc (recv_status dataservice_decode_response_global_settings_set) sock"

definition dataservice_api_recvresp_transaction_submit_old ::
  "'s evsock \<Rightarrow> bool \<Rightarrow> 's \<Rightarrow> unit api_result \<times> 's" where
  "dataservice_api_recvresp_transaction_submit_old ev read_malloc sock =
     recvresp_old ev read_malloc (recv_status dataservice_decode_response_transaction_submit) sock"

definition dataservice_api_recvresp_transaction_get_first_old ::
  "'s evsock \<Rightarrow> bool \<Rightarrow> bool \<Rightarrow> bool \<Rightarrow> 's \<Rightarrow> (data_transaction_node option \<times> bytes option) api_result \<times> 's" where
  "dataservice_api_recvresp_transaction_get_first_old ev read_malloc node_wanted data_malloc sock =
     recvresp_old ev read_malloc (recv_node dataservice_decode_response_transaction_get_first copy_txn_node node_wanted (\<lambda>_. data_malloc)) sock"

definition dataservice_api_recvresp_transaction_get_old ::
  "'s evsock \<Rightarrow> bool \<Rightarrow> bool \<Rightarrow> bool \<Rightarrow> 's \<Rightarrow> (data_transaction_node option \<times> bytes option) api_result \<times> 's" where
  "dataservice_api_recvresp_transaction_get_old ev read_malloc node_wanted data_malloc sock =
     recvresp_old ev read_malloc (recv_node dataservice_decode_response_transaction_get copy_txn_node node_wanted (\<lambda>_. data_malloc)) sock"

definition dataservice_api_recvresp_transaction_drop_old ::
  "'s evsock \<Rightarrow> bool \<Rightarrow> 's \<Rightarrow> unit api_result \<times> 's" where
  "dataservice_api_recvresp_transaction_drop_old ev read_malloc sock =
     recvresp_old ev read_malloc (recv_status dataservice_decode_response_transaction_drop) sock"

definition dataservice_api_recvresp_transaction_promote_old ::
  "'s evsock \<Rightarrow> bool \<Rightarrow> 's \<Rightarrow> unit api_result \<times> 's" where
  "dataservice_api_recvresp_transaction_promote_old ev read_malloc sock =
     recvresp_old ev read_malloc (recv_status dataservice_decode_response_transaction_promote) sock"

definition dataservice_api_recvresp_artifact_get_old ::
  "'s evsock \<Rightarrow> bool \<Rightarrow> 's \<Rightarrow> data_artifact_record api_result \<times> 's" where
  "dataservice_api_recvresp_artifact_get_old ev read_malloc sock =
     recvresp_old ev read_malloc (recv_value dataservice_decode_response_artifact_get) sock"

definition dataservice_api_recvresp_block_make_old ::
  "'s evsock \<Rightarrow> bool \<Rightarrow> 's \<Rightarrow> unit api_result \<times> 's" where
  "dataservice_api_recvresp_block_make_old ev read_malloc sock =
     recvresp_old ev read_malloc (recv_status dataservice_decode_response_block_make) sock"

definition dataservice_api_recvresp_block_get_old ::
  "'s evsock \<Rightarrow> bool \<Rightarrow> bool \<Rightarrow> bool \<Rightarrow> 's \<Rightarrow> (data_block_node option \<times> bytes option) api_result \<times> 's" where
  "dataservice_api_recvresp_block_get_old ev read_malloc node_wanted data_malloc sock =
     recvresp_old ev read_malloc (recv_node dataservice_decode_response_block_get copy_block_node node_wanted (\<lambda>data. data = [] \<or> data_malloc)) sock"

definition dataservice_api_recvresp_block_id_by_height_get_old ::
  "'s evsock \<Rightarrow> bool \<Rightarrow> 's \<Rightarrow> bytes api_result \<times> 's" where
  "dataservice_api_recvresp_block_id_by_height_get_old ev read_malloc sock =
     recvresp_old ev read_malloc (recv_value dataservice_decode_response_block_id_by_height_get) sock"

definition dataservice_api_recvresp_latest_block_id_get_old ::
  "'s evsock \<Rightarrow> bool \<Rightarrow> 's \<Rightarrow> bytes api_result \<times> 's" where
  "dataservice_api_recvresp_latest_block_id_get_old ev read_malloc sock =
     recvresp_old ev read_malloc (recv_value dataservice_decode_response_latest_block_id_get) sock"

definition dataservice_api_recvresp_canonized_transaction_get_old ::
  "'s evsock \<Rightarrow> bool \<Rightarrow> bool \<Rightarrow> bool \<Rightarrow> 's \<Rightarrow> (data_transaction_node option \<times> bytes option) api_result \<times> 's" where
  "dataservice_api_recvresp_canonized_transaction_get_old ev read_malloc node_wanted data_malloc sock =
     recvresp_old ev read_malloc (recv_node dataservice_decode_response_canonized_transaction_get copy_canonized_node node_wanted (\<lambda>data. data = [] \<or> data_malloc)) sock"

subsubsection \<open>Over blocking sockets\<close>

definition dataservice_api_recvresp_root_context_init_block ::
  "bool \<Rightarrow> ipc_fd \<Rightarrow> unit api_result \<times> ipc_fd" where
  "dataservice_api_recvresp_root_context_init_block read_malloc sock =
     recvresp_block read_malloc (recv_status dataservice_decode_response_root_context_init) sock"

definition dataservice_api_recvresp_root_context_reduce_caps_block ::
  "bool \<Rightarrow> ipc_fd \<Rightarrow> unit api_result \<times> ipc_fd" where
  "dataservice_api_recvresp_root_context_reduce_caps_block read_malloc sock =
     recvresp_block read_malloc (recv_status dataservice_decode_response_root_context_reduce_caps) sock"

definition dataservice_api_recvresp_child_context_create_block ::
  "bool \<Rightarrow> ipc_fd \<Rightarrow> (32 word) api_result \<times> ipc_fd" where
  "dataservice_api_recvresp_child_context_create_block read_malloc sock =
     recvresp_block read_malloc (recv_value dataservice_decode_response_child_context_create) sock"

definition dataservice_api_recvresp_child_context_close_block ::
  "bool \<Rightarrow> ipc_fd \<Rightarrow> unit api_result \<times> ipc_fd" where
  "dataservice_api_recvresp_child_context_close_block read_malloc sock =
     recvresp_block read_malloc (recv_status dataservice_decode_response_child_context_close) sock"

definition dataservice_api_recvresp_global_settings_get_block ::
  "bool \<Rightarrow> nat \<Rightarrow> ipc_fd \<Rightarrow> bytes api_result \<times> ipc_fd" where
  "dataservice_api_recvresp_global_settings_get_block read_malloc data_size sock =
     recvresp_block read_malloc (recv_setting data_size) sock"

definition dataservice_api_recvresp_global_settings_set_block ::
  "bool \<Rightarrow> ipc_fd \<Rightarrow> unit api_result \<times> ipc_fd" where
  "dataservice_api_recvresp_global_settings_set_block read_malloc sock =
     recvresp_block read_malloc (recv_status dataservice_decode_response_global_settings_set) sock"

end
