(* ===== verification/Ds_Rpc.thy ===== *)
theory Ds_Rpc
  imports Ds_Api
begin

text \<open>
  A client and the data service at the two ends of a connection.  The client sends
  a request with one of the \<open>_old\<close> calls, the event loop of the service runs its read
  callback while bytes arrive, and the client polls the matching call until it has
  the response.
\<close>

type_synonym 'e ds_rpc = "'e dataservice_instance rpc"

definition rpc_call ::
  "('e, 't) lmdb \<Rightarrow> vccert \<Rightarrow> bytes \<Rightarrow> bool \<Rightarrow> (bytes \<Rightarrow> bytes list) \<Rightarrow> (mem_sock \<Rightarrow> status \<times> mem_sock) \<Rightarrow>
     (mem_sock \<Rightarrow> 'p api_result \<times> mem_sock) \<Rightarrow> 'e ds_rpc \<Rightarrow> ('p api_result \<times> 'e ds_rpc) option" where
  "rpc_call ops vc root_block att chop send recv st =
     exchange (dataservice_ipc_read ops vc root_block att mem_evsock (\<lambda>_. env_ok) (\<lambda>_. True))
       (dataservice_ipc_write mem_evsock False) chop send recv st"

lemma env_ok_write [simp]: "env_ok\<lparr>ipc_write_ok := True\<rparr> = env_ok"
  by (simp add: env_ok_def)

interpretation mem_ds: mem_service "ds_handler ops vc root_block att envs" dataservice_force_exit dataservice_force_quit
    "dataservice_ipc_write mem_evsock False" for ops vc root_block att envs
  by unfold_locales (auto simp: dataservice_ipc_write_def [abs_def] service_ipc_write_flushes dest: ds_handler_one)

lemma rpc_call_reply:
  assumes "cuts chop" and "rpc_idle dataservice_force_exit st" and "packet_ok req"
    and d: "dataservice_decode_and_dispatch ops vc root_block att env_ok (loop_inst (rpc_server st)) req =
      Some (AGENTD_STATUS_SUCCESS, [resp], inst')"
    and "packet_ok resp" and "\<not> dataservice_force_exit inst'"
    and "api_retval (process resp) \<noteq> AGENTD_ERROR_IPC_WOULD_BLOCK"
  shows "\<exists>st'. rpc_call ops vc root_block att chop (sendreq_old mem_evsock (Inr req)) (recvresp_old mem_evsock True process) st =
      Some (process resp, st') \<and> rpc_idle dataservice_force_exit st' \<and> loop_inst (rpc_server st') = inst'"
proof -
  have "ds_handler ops vc root_block att (\<lambda>_. env_ok) 0 True (loop_inst (rpc_server st)) req =
      Some (AGENTD_STATUS_SUCCESS, [resp], inst')"
    using d by (simp add: ds_handler_def)
  from mem_ds.exchange_reply [where malloc = "\<lambda>_. True" and process = process, OF assms(1-3) _ this assms(5-7)] show ?thesis
    by (simp add: rpc_call_def dataservice_ipc_read_def [abs_def] sendreq_old_def [abs_def] recvresp_old_def [abs_def])
qed

subsection \<open>The process queue over the connection\<close>

definition rpc_submit ::
  "('e, 't) lmdb \<Rightarrow> vccert \<Rightarrow> bytes \<Rightarrow> bool \<Rightarrow> (bytes \<Rightarrow> bytes list) \<Rightarrow> 32 word \<Rightarrow> 'e ds_rpc \<Rightarrow> submission \<Rightarrow> 'e ds_rpc option" where
  "rpc_submit ops vc root_block att chop i st x =
     (case x of (txn_id, artifact_id, cert) \<Rightarrow>
      case rpc_call ops vc root_block att chop
             (dataservice_api_sendreq_transaction_submit_old mem_evsock AGENTD_STATUS_SUCCESS i txn_id artifact_id cert)
             (dataservice_api_recvresp_transaction_submit_old mem_evsock True) st of
        None \<Rightarrow> None
      | Some (r, st) \<Rightarrow>
          if api_retval r = AGENTD_STATUS_SUCCESS \<and> api_header r = Some (i, AGENTD_STATUS_SUCCESS) then Some st else None)"

definition rpc_drop ::
  "('e, 't) lmdb \<Rightarrow> vccert \<Rightarrow> bytes \<Rightarrow> bool \<Rightarrow> (bytes \<Rightarrow> bytes list) \<Rightarrow> 32 word \<Rightarrow> 'e ds_rpc \<Rightarrow> bytes \<Rightarrow> 'e ds_rpc option" where
  "rpc_drop ops vc root_block att chop i st txn_id =
     (case rpc_call ops vc root_block att chop
             (dataservice_api_sendreq_transaction_drop_old mem_evsock AGENTD_STATUS_SUCCESS i txn_id)
             (dataservice_api_recvresp_transaction_drop_old mem_evsock True) st of
        None \<Rightarrow> None
      | Some (r, st) \<Rightarrow>
          if api_retval r = AGENTD_STATUS_SUCCESS \<and> api_header r = Some (i, AGENTD_STATUS_SUCCESS) then Some st else None)"

definition rpc_first ::
  "('e, 't) lmdb \<Rightarrow> vccert \<Rightarrow> bytes \<Rightarrow> bool \<Rightarrow> (bytes \<Rightarrow> bytes list) \<Rightarrow> 32 word \<Rightarrow> 'e ds_rpc \<Rightarrow> (submission \<times> 'e ds_rpc) option" where
  "rpc_first ops vc root_block att chop i st =
     (case rpc_call ops vc root_block att chop
             (dataservice_api_sendreq_transaction_get_first_old mem_evsock AGENTD_STATUS_SUCCESS i)
             (dataservice_api_recvresp_transaction_get_first_old mem_evsock True True True) st of
        Some (r, st) \<Rightarrow>
          (case api_payload r of
             Some (Some node, Some data) \<Rightarrow> Some ((node_key node, node_artifact_id node, data), st)
           | _ \<Rightarrow> None)
      | None \<Rightarrow> None)"

text \<open>Packets are below 1 GB, so the certificates have to be a little smaller.\<close>

definition rpc_ok :: "submission \<Rightarrow> bool" where
  "rpc_ok x \<longleftrightarrow> submission_ok x \<and> length (snd (snd x)) < 2 ^ 30 - 80"

definition rpc_holds ::
  "('e \<Rightarrow> kvs) \<Rightarrow> dataservice_child_context \<Rightarrow> 32 word \<Rightarrow> 'e ds_rpc \<Rightarrow> submission list \<Rightarrow> bool" where
  "rpc_holds ev child i st q \<longleftrightarrow> rpc_idle dataservice_force_exit st \<and> wire_holds ev child i (loop_inst (rpc_server st)) q \<and>
     (\<forall>x \<in> set q. length (snd (snd x)) < 2 ^ 30 - 80)"

lemma queue_calls:
  "dataservice_api_sendreq_transaction_submit_old ev 0 i t a c = sendreq_old ev (Inr (net32 15 @ net32 i @ t @ a @ c))"
  "dataservice_api_recvresp_transaction_submit_old ev m = recvresp_old ev m (recv_status dataservice_decode_response_transaction_submit)"
  "dataservice_api_sendreq_transaction_drop_old ev 0 i t = sendreq_old ev (Inr (net32 19 @ net32 i @ t))"
  "dataservice_api_recvresp_transaction_drop_old ev m = recvresp_old ev m (recv_status dataservice_decode_response_transaction_drop)"
  "dataservice_api_sendreq_transaction_get_first_old ev 0 i = sendreq_old ev (Inr (net32 17 @ net32 i))"
  "dataservice_api_recvresp_transaction_get_first_old ev m True True =
     recvresp_old ev m (recv_node dataservice_decode_response_transaction_get_first copy_txn_node True (\<lambda>_. True))"
  by (simp_all add: fun_eq_iff dataservice_api_sendreq_transaction_submit_old_def dataservice_api_recvresp_transaction_submit_old_def
      dataservice_api_sendreq_transaction_drop_old_def dataservice_api_recvresp_transaction_drop_old_def
      dataservice_api_sendreq_transaction_get_first_old_def dataservice_api_recvresp_transaction_get_first_old_def
      dataservice_encode_request_transaction_submit_def dataservice_encode_request_transaction_drop_def
      dataservice_encode_request_transaction_get_first_def request_buffer_def)

lemma packet_ok_status [simp]: "packet_ok (response_packet m i st None)"
  by (simp add: packet_ok_def)

locale rpc_connection = wire_client +
  fixes chop :: "bytes \<Rightarrow> bytes list"
  assumes chop: "cuts chop"
begin

lemma rpc_submit_holds:
  assumes h: "rpc_holds ev child index st q" and ok: "rpc_ok x" and fresh: "fst x \<notin> fst ` set q"
  shows "\<exists>st'. rpc_submit ops vc root_block att chop index st x = Some st' \<and> rpc_holds ev child index st' (q @ [x])"
proof -
  obtain i a c where x: "x = (i, a, c)" by (cases x)
  have w: "wire_holds ev child index (loop_inst (rpc_server st)) q" and idle: "rpc_idle dataservice_force_exit st" using h by (simp_all add: rpc_holds_def)
  have wok: "wire_ok x" and len: "length i = 16" "length a = 16" "length c < 2 ^ 30 - 80"
    using ok by (auto simp: rpc_ok_def wire_ok_def submission_ok_def submit_args_def x)
  obtain e' where d: "dataservice_decode_and_dispatch ops vc root_block att env_ok (loop_inst (rpc_server st))
        (net32 15 @ net32 index @ i @ a @ c) = Some (AGENTD_STATUS_SUCCESS, [response_packet 15 index AGENTD_STATUS_SUCCESS None],
        set_details (loop_inst (rpc_server st)) e')"
    and w': "wire_holds ev child index (set_details (loop_inst (rpc_server st)) e') (q @ [x])"
    using submit_reply [OF w wok fresh] x by auto
  have req: "packet_ok (net32 15 @ net32 index @ i @ a @ c)" using len by (simp add: packet_ok_def)
  have run: "\<not> dataservice_force_exit (set_details (loop_inst (rpc_server st)) e')" using idle by (simp add: rpc_idle_def)
  show ?thesis
    using rpc_call_reply [OF chop idle req d _ run, of "recv_status dataservice_decode_response_transaction_submit"] w' h len(3)
    by (auto simp: rpc_submit_def x queue_calls recv_status_def status_responses rpc_holds_def)
qed

lemma rpc_drop_holds:
  assumes h: "rpc_holds ev child index st q" and x: "x \<in> set q"
  shows "\<exists>st'. rpc_drop ops vc root_block att chop index st (fst x) = Some st' \<and> rpc_holds ev child index st' (remove1 x q)"
proof -
  have w: "wire_holds ev child index (loop_inst (rpc_server st)) q" and idle: "rpc_idle dataservice_force_exit st" using h by (simp_all add: rpc_holds_def)
  obtain e' where d: "dataservice_decode_and_dispatch ops vc root_block att env_ok (loop_inst (rpc_server st))
        (net32 19 @ net32 index @ fst x) = Some (AGENTD_STATUS_SUCCESS, [response_packet 19 index AGENTD_STATUS_SUCCESS None],
        set_details (loop_inst (rpc_server st)) e')"
    and w': "wire_holds ev child index (set_details (loop_inst (rpc_server st)) e') (remove1 x q)" and len: "length (fst x) = 16"
    using drop_reply [OF w x] by auto
  have small: "\<forall>y \<in> set (remove1 x q). length (snd (snd y)) < 2 ^ 30 - 80"
    using h set_remove1_subset [of x q] unfolding rpc_holds_def by blast
  have req: "packet_ok (net32 19 @ net32 index @ fst x)" using len by (simp add: packet_ok_def)
  have run: "\<not> dataservice_force_exit (set_details (loop_inst (rpc_server st)) e')" using idle by (simp add: rpc_idle_def)
  show ?thesis
    using rpc_call_reply [OF chop idle req d _ run, of "recv_status dataservice_decode_response_transaction_drop"] w' small
    by (auto simp: rpc_drop_def queue_calls recv_status_def status_responses rpc_holds_def)
qed

lemma rpc_first_Nil:
  assumes h: "rpc_holds ev child index st []"
  shows "rpc_first ops vc root_block att chop index st = None"
proof -
  have w: "wire_holds ev child index (loop_inst (rpc_server st)) []" and idle: "rpc_idle dataservice_force_exit st" using h by (simp_all add: rpc_holds_def)
  obtain e' where d: "dataservice_decode_and_dispatch ops vc root_block att env_ok (loop_inst (rpc_server st))
        (net32 17 @ net32 index) = Some (AGENTD_STATUS_SUCCESS, [response_packet 17 index AGENTD_ERROR_DATASERVICE_NOT_FOUND None],
        set_details (loop_inst (rpc_server st)) e')"
    using first_reply_Nil [OF w] by blast
  have req: "packet_ok (net32 17 @ net32 index)" by (simp add: packet_ok_def)
  have run: "\<not> dataservice_force_exit (set_details (loop_inst (rpc_server st)) e')" using idle by (simp add: rpc_idle_def)
  show ?thesis
    using rpc_call_reply [OF chop idle req d _ run, of "recv_node dataservice_decode_response_transaction_get_first copy_txn_node True (\<lambda>_. True)"]
    by (auto simp: rpc_first_def queue_calls recv_node_def not_found_response)
qed

lemma rpc_first_Cons:
  assumes h: "rpc_holds ev child index st (x # q)"
  shows "\<exists>st'. rpc_first ops vc root_block att chop index st = Some (x, st') \<and> rpc_holds ev child index st' (x # q)"
proof -
  have w: "wire_holds ev child index (loop_inst (rpc_server st)) (x # q)" and idle: "rpc_idle dataservice_force_exit st" using h by (simp_all add: rpc_holds_def)
  obtain e' resp n where d: "dataservice_decode_and_dispatch ops vc root_block att env_ok (loop_inst (rpc_server st))
        (net32 17 @ net32 index) = Some (AGENTD_STATUS_SUCCESS, [resp], set_details (loop_inst (rpc_server st)) e')"
    and len: "length resp = 80 + length (snd (snd x))"
    and dec: "dataservice_decode_response_transaction_get_first resp =
      Inr (\<lparr> method_code = 17, resp_offset = index, resp_status = AGENTD_STATUS_SUCCESS \<rparr>, Some (n, snd (snd x)))"
    and n: "node_key n = fst x" "node_artifact_id n = fst (snd x)"
    and w': "wire_holds ev child index (set_details (loop_inst (rpc_server st)) e') (x # q)"
    using first_reply_Cons [OF w] by blast
  have req: "packet_ok (net32 17 @ net32 index)" by (simp add: packet_ok_def)
  have run: "\<not> dataservice_force_exit (set_details (loop_inst (rpc_server st)) e')" using idle by (simp add: rpc_idle_def)
  have resp: "packet_ok resp" using len h by (simp add: packet_ok_def rpc_holds_def)
  show ?thesis
    using rpc_call_reply [OF chop idle req d resp run, of "recv_node dataservice_decode_response_transaction_get_first copy_txn_node True (\<lambda>_. True)"]
      dec n w' h
    by (auto simp: rpc_first_def queue_calls recv_node_def copy_txn_node_def rpc_holds_def Let_def)
qed

end

sublocale rpc_connection \<subseteq> rpc: fifo_queue "rpc_submit ops vc root_block att chop index" "rpc_first ops vc root_block att chop index"
  "rpc_drop ops vc root_block att chop index" fst rpc_ok "rpc_holds ev child index"
proof unfold_locales
  show "distinct (map fst q)" if "rpc_holds ev child index s q" for s q
    using that by (auto simp: rpc_holds_def wire_holds_def pq_holds_def pq_rep_def)
qed (use rpc_submit_holds rpc_first_Nil rpc_first_Cons rpc_drop_holds in auto)

context rpc_connection
begin

lemmas rpc_fifo = rpc.fifo

end

text \<open>Single bytes, as an instance.\<close>

interpretation mem_rpc: rpc_connection mem_lmdb "\<lambda>e. e" "\<lambda>t. t" att full_child vc root_block index "map (\<lambda>b. [b])"
  for att vc root_block index
  by unfold_locales (rule cuts_bytes)

end
