(* ===== verification/Service_Status.thy ===== *)
theory Service_Status
  imports Status
begin

text \<open>
  The status codes of the services other than the data service
  (\<^verbatim>\<open>src/include/agentd/status_codes\<close>), checked against the error macro by
  \<open>service_status_codes_from_macro\<close>.
\<close>

abbreviation (input) AGENTD_SERVICE_RANDOM :: "32 word" where "AGENTD_SERVICE_RANDOM \<equiv> 0x0C"
abbreviation (input) AGENTD_SERVICE_AUTHSERVICE :: "32 word" where "AGENTD_SERVICE_AUTHSERVICE \<equiv> 0x05"
abbreviation (input) AGENTD_SERVICE_CANONIZATION :: "32 word" where "AGENTD_SERVICE_CANONIZATION \<equiv> 0x07"
abbreviation (input) AGENTD_SERVICE_NOTIFICATION :: "32 word" where "AGENTD_SERVICE_NOTIFICATION \<equiv> 0x0F"
abbreviation (input) AGENTD_SERVICE_PROTOCOL :: "32 word" where "AGENTD_SERVICE_PROTOCOL \<equiv> 0x0A"
abbreviation (input) AGENTD_SERVICE_CONFIG :: "32 word" where "AGENTD_SERVICE_CONFIG \<equiv> 0x04"
abbreviation (input) AGENTD_SERVICE_ATTESTATION :: "32 word" where "AGENTD_SERVICE_ATTESTATION \<equiv> 0x0E"

abbreviation (input) AGENTD_ERROR_GENERAL_PATH_NOT_FOUND :: status where
  "AGENTD_ERROR_GENERAL_PATH_NOT_FOUND \<equiv> 0x8000002"
abbreviation (input) AGENTD_ERROR_RANDOMSERVICE_REQUEST_PACKET_INVALID_SIZE :: status where
  "AGENTD_ERROR_RANDOMSERVICE_REQUEST_PACKET_INVALID_SIZE \<equiv> 0x80C0006"
abbreviation (input) AGENTD_ERROR_RANDOMSERVICE_REQUEST_PACKET_BAD :: status where
  "AGENTD_ERROR_RANDOMSERVICE_REQUEST_PACKET_BAD \<equiv> 0x80C0007"
abbreviation (input) AGENTD_ERROR_RANDOMSERVICE_IPC_WRITE_DATA_FAILURE :: status where
  "AGENTD_ERROR_RANDOMSERVICE_IPC_WRITE_DATA_FAILURE \<equiv> 0x80C0008"
abbreviation (input) AGENTD_ERROR_RANDOMSERVICE_IPC_READ_DATA_FAILURE :: status where
  "AGENTD_ERROR_RANDOMSERVICE_IPC_READ_DATA_FAILURE \<equiv> 0x80C0009"
abbreviation (input) AGENTD_ERROR_RANDOMSERVICE_GET_RANDOM_BYTES_INVALID_SIZE :: status where
  "AGENTD_ERROR_RANDOMSERVICE_GET_RANDOM_BYTES_INVALID_SIZE \<equiv> 0x80C000A"
abbreviation (input) AGENTD_ERROR_RANDOMSERVICE_GET_RANDOM_BYTES_READ_FAILED :: status where
  "AGENTD_ERROR_RANDOMSERVICE_GET_RANDOM_BYTES_READ_FAILED \<equiv> 0x80C000B"
abbreviation (input) AGENTD_ERROR_AUTHSERVICE_IPC_MAKE_NOBLOCK_FAILURE :: status where
  "AGENTD_ERROR_AUTHSERVICE_IPC_MAKE_NOBLOCK_FAILURE \<equiv> 0x8050001"
abbreviation (input) AGENTD_ERROR_AUTHSERVICE_IPC_EVENT_LOOP_INIT_FAILURE :: status where
  "AGENTD_ERROR_AUTHSERVICE_IPC_EVENT_LOOP_INIT_FAILURE \<equiv> 0x8050004"
abbreviation (input) AGENTD_ERROR_AUTHSERVICE_PUBKEY_BUFFER_INIT_FAILURE :: status where
  "AGENTD_ERROR_AUTHSERVICE_PUBKEY_BUFFER_INIT_FAILURE \<equiv> 0x8050005"
abbreviation (input) AGENTD_ERROR_AUTHSERVICE_PRIVKEY_BUFFER_INIT_FAILURE :: status where
  "AGENTD_ERROR_AUTHSERVICE_PRIVKEY_BUFFER_INIT_FAILURE \<equiv> 0x8050006"
abbreviation (input) AGENTD_ERROR_AUTHSERVICE_REQUEST_PACKET_INVALID_SIZE :: status where
  "AGENTD_ERROR_AUTHSERVICE_REQUEST_PACKET_INVALID_SIZE \<equiv> 0x8050007"
abbreviation (input) AGENTD_ERROR_AUTHSERVICE_REQUEST_PACKET_BAD :: status where
  "AGENTD_ERROR_AUTHSERVICE_REQUEST_PACKET_BAD \<equiv> 0x8050008"
abbreviation (input) AGENTD_ERROR_AUTHSERVICE_IPC_WRITE_DATA_FAILURE :: status where
  "AGENTD_ERROR_AUTHSERVICE_IPC_WRITE_DATA_FAILURE \<equiv> 0x8050012"
abbreviation (input) AGENTD_ERROR_AUTHSERVICE_IPC_READ_DATA_FAILURE :: status where
  "AGENTD_ERROR_AUTHSERVICE_IPC_READ_DATA_FAILURE \<equiv> 0x8050013"
abbreviation (input) AGENTD_ERROR_AUTHSERVICE_RECVRESP_UNEXPECTED_DATA_PACKET_SIZE :: status where
  "AGENTD_ERROR_AUTHSERVICE_RECVRESP_UNEXPECTED_DATA_PACKET_SIZE \<equiv> 0x8050014"
abbreviation (input) AGENTD_ERROR_AUTHSERVICE_RECVRESP_UNEXPECTED_METHOD_CODE :: status where
  "AGENTD_ERROR_AUTHSERVICE_RECVRESP_UNEXPECTED_METHOD_CODE \<equiv> 0x8050015"
abbreviation (input) AGENTD_ERROR_CANONIZATIONSERVICE_IPC_WRITE_DATA_FAILURE :: status where
  "AGENTD_ERROR_CANONIZATIONSERVICE_IPC_WRITE_DATA_FAILURE \<equiv> 0x807000B"
abbreviation (input) AGENTD_ERROR_CANONIZATIONSERVICE_IPC_READ_DATA_FAILURE :: status where
  "AGENTD_ERROR_CANONIZATIONSERVICE_IPC_READ_DATA_FAILURE \<equiv> 0x807000C"
abbreviation (input) AGENTD_ERROR_CANONIZATIONSERVICE_REQUEST_PACKET_INVALID_SIZE :: status where
  "AGENTD_ERROR_CANONIZATIONSERVICE_REQUEST_PACKET_INVALID_SIZE \<equiv> 0x8070010"
abbreviation (input) AGENTD_ERROR_CANONIZATIONSERVICE_REQUEST_PACKET_BAD :: status where
  "AGENTD_ERROR_CANONIZATIONSERVICE_REQUEST_PACKET_BAD \<equiv> 0x8070011"
abbreviation (input) AGENTD_ERROR_CANONIZATIONSERVICE_RESPONSE_PACKET_INVALID_SIZE :: status where
  "AGENTD_ERROR_CANONIZATIONSERVICE_RESPONSE_PACKET_INVALID_SIZE \<equiv> 0x8070012"
abbreviation (input) AGENTD_ERROR_CANONIZATIONSERVICE_RECVRESP_UNEXPECTED_METHOD_CODE :: status where
  "AGENTD_ERROR_CANONIZATIONSERVICE_RECVRESP_UNEXPECTED_METHOD_CODE \<equiv> 0x8070013"
abbreviation (input) AGENTD_ERROR_CANONIZATIONSERVICE_START_BEFORE_CONFIGURE :: status where
  "AGENTD_ERROR_CANONIZATIONSERVICE_START_BEFORE_CONFIGURE \<equiv> 0x8070014"
abbreviation (input) AGENTD_ERROR_CANONIZATIONSERVICE_ALREADY_RUNNING :: status where
  "AGENTD_ERROR_CANONIZATIONSERVICE_ALREADY_RUNNING \<equiv> 0x8070015"
abbreviation (input) AGENTD_ERROR_CANONIZATIONSERVICE_BAD_PARAMETER :: status where
  "AGENTD_ERROR_CANONIZATIONSERVICE_BAD_PARAMETER \<equiv> 0x8070016"
abbreviation (input) AGENTD_ERROR_CANONIZATIONSERVICE_ALREADY_CONFIGURED :: status where
  "AGENTD_ERROR_CANONIZATIONSERVICE_ALREADY_CONFIGURED \<equiv> 0x8070017"
abbreviation (input) AGENTD_ERROR_CANONIZATIONSERVICE_PRIVATE_KEY_ALREADY_SET :: status where
  "AGENTD_ERROR_CANONIZATIONSERVICE_PRIVATE_KEY_ALREADY_SET \<equiv> 0x8070019"
abbreviation (input) AGENTD_ERROR_CANONIZATIONSERVICE_START_BEFORE_PRIVATE_KEY_SET :: status where
  "AGENTD_ERROR_CANONIZATIONSERVICE_START_BEFORE_PRIVATE_KEY_SET \<equiv> 0x807001A"
abbreviation (input) AGENTD_ERROR_NOTIFICATIONSERVICE_API_BAD_ARGUMENT :: status where
  "AGENTD_ERROR_NOTIFICATIONSERVICE_API_BAD_ARGUMENT \<equiv> 0x80F000A"
abbreviation (input) AGENTD_ERROR_NOTIFICATIONSERVICE_INVALID_REQUEST_ID :: status where
  "AGENTD_ERROR_NOTIFICATIONSERVICE_INVALID_REQUEST_ID \<equiv> 0x80F000B"
abbreviation (input) AGENTD_ERROR_NOTIFICATIONSERVICE_NOT_AUTHORIZED :: status where
  "AGENTD_ERROR_NOTIFICATIONSERVICE_NOT_AUTHORIZED \<equiv> 0x80F000C"
abbreviation (input) AGENTD_ERROR_NOTIFICATIONSERVICE_MALFORMED_REQUEST :: status where
  "AGENTD_ERROR_NOTIFICATIONSERVICE_MALFORMED_REQUEST \<equiv> 0x80F000D"
abbreviation (input) AGENTD_ERROR_PROTOCOLSERVICE_IPC_MAKE_NOBLOCK_FAILURE :: status where
  "AGENTD_ERROR_PROTOCOLSERVICE_IPC_MAKE_NOBLOCK_FAILURE \<equiv> 0x80A0001"
abbreviation (input) AGENTD_ERROR_PROTOCOLSERVICE_IPC_EVENT_LOOP_ADD_FAILURE :: status where
  "AGENTD_ERROR_PROTOCOLSERVICE_IPC_EVENT_LOOP_ADD_FAILURE \<equiv> 0x80A0002"
abbreviation (input) AGENTD_ERROR_PROTOCOLSERVICE_IPC_EVENT_LOOP_RUN_FAILURE :: status where
  "AGENTD_ERROR_PROTOCOLSERVICE_IPC_EVENT_LOOP_RUN_FAILURE \<equiv> 0x80A0003"
abbreviation (input) AGENTD_ERROR_PROTOCOLSERVICE_PROC_RUNSECURE_ROOT_USER_REQUIRED :: status where
  "AGENTD_ERROR_PROTOCOLSERVICE_PROC_RUNSECURE_ROOT_USER_REQUIRED \<equiv> 0x80A0004"
abbreviation (input) AGENTD_ERROR_PROTOCOLSERVICE_IPC_SOCKETPAIR_FAILURE :: status where
  "AGENTD_ERROR_PROTOCOLSERVICE_IPC_SOCKETPAIR_FAILURE \<equiv> 0x80A0005"
abbreviation (input) AGENTD_ERROR_PROTOCOLSERVICE_FORK_FAILURE :: status where
  "AGENTD_ERROR_PROTOCOLSERVICE_FORK_FAILURE \<equiv> 0x80A0006"
abbreviation (input) AGENTD_ERROR_PROTOCOLSERVICE_PRIVSEP_LOOKUP_USERGROUP_FAILURE :: status where
  "AGENTD_ERROR_PROTOCOLSERVICE_PRIVSEP_LOOKUP_USERGROUP_FAILURE \<equiv> 0x80A0007"
abbreviation (input) AGENTD_ERROR_PROTOCOLSERVICE_PRIVSEP_CHROOT_FAILURE :: status where
  "AGENTD_ERROR_PROTOCOLSERVICE_PRIVSEP_CHROOT_FAILURE \<equiv> 0x80A0008"
abbreviation (input) AGENTD_ERROR_PROTOCOLSERVICE_PRIVSEP_DROP_PRIVILEGES_FAILURE :: status where
  "AGENTD_ERROR_PROTOCOLSERVICE_PRIVSEP_DROP_PRIVILEGES_FAILURE \<equiv> 0x80A0009"
abbreviation (input) AGENTD_ERROR_PROTOCOLSERVICE_PRIVSEP_SETFDS_FAILURE :: status where
  "AGENTD_ERROR_PROTOCOLSERVICE_PRIVSEP_SETFDS_FAILURE \<equiv> 0x80A000A"
abbreviation (input) AGENTD_ERROR_PROTOCOLSERVICE_PRIVSEP_EXEC_PRIVATE_FAILURE :: status where
  "AGENTD_ERROR_PROTOCOLSERVICE_PRIVSEP_EXEC_PRIVATE_FAILURE \<equiv> 0x80A000B"
abbreviation (input) AGENTD_ERROR_PROTOCOLSERVICE_PRIVSEP_EXEC_SURVIVAL_WEIRDNESS :: status where
  "AGENTD_ERROR_PROTOCOLSERVICE_PRIVSEP_EXEC_SURVIVAL_WEIRDNESS \<equiv> 0x80A000C"
abbreviation (input) AGENTD_ERROR_PROTOCOLSERVICE_IPC_EVENT_LOOP_INIT_FAILURE :: status where
  "AGENTD_ERROR_PROTOCOLSERVICE_IPC_EVENT_LOOP_INIT_FAILURE \<equiv> 0x80A000D"
abbreviation (input) AGENTD_ERROR_PROTOCOLSERVICE_MALFORMED_REQUEST :: status where
  "AGENTD_ERROR_PROTOCOLSERVICE_MALFORMED_REQUEST \<equiv> 0x80A000E"
abbreviation (input) AGENTD_ERROR_PROTOCOLSERVICE_MALFORMED_RESPONSE :: status where
  "AGENTD_ERROR_PROTOCOLSERVICE_MALFORMED_RESPONSE \<equiv> 0x80A000F"
abbreviation (input) AGENTD_ERROR_PROTOCOLSERVICE_UNAUTHORIZED :: status where
  "AGENTD_ERROR_PROTOCOLSERVICE_UNAUTHORIZED \<equiv> 0x80A0010"
abbreviation (input) AGENTD_ERROR_PROTOCOLSERVICE_PRNG_REQUEST_FAILURE :: status where
  "AGENTD_ERROR_PROTOCOLSERVICE_PRNG_REQUEST_FAILURE \<equiv> 0x80A0011"
abbreviation (input) AGENTD_ERROR_PROTOCOLSERVICE_TRANSACTION_VERIFICATION :: status where
  "AGENTD_ERROR_PROTOCOLSERVICE_TRANSACTION_VERIFICATION \<equiv> 0x80A0012"
abbreviation (input) AGENTD_ERROR_PROTOCOLSERVICE_PRIVSEP_CLOSE_OTHER_FDS :: status where
  "AGENTD_ERROR_PROTOCOLSERVICE_PRIVSEP_CLOSE_OTHER_FDS \<equiv> 0x80A0013"
abbreviation (input) AGENTD_ERROR_PROTOCOLSERVICE_REQUEST_PACKET_INVALID_SIZE :: status where
  "AGENTD_ERROR_PROTOCOLSERVICE_REQUEST_PACKET_INVALID_SIZE \<equiv> 0x80A0014"
abbreviation (input) AGENTD_ERROR_PROTOCOLSERVICE_REQUEST_PACKET_BAD :: status where
  "AGENTD_ERROR_PROTOCOLSERVICE_REQUEST_PACKET_BAD \<equiv> 0x80A0015"
abbreviation (input) AGENTD_ERROR_PROTOCOLSERVICE_IPC_WRITE_DATA_FAILURE :: status where
  "AGENTD_ERROR_PROTOCOLSERVICE_IPC_WRITE_DATA_FAILURE \<equiv> 0x80A0016"
abbreviation (input) AGENTD_ERROR_PROTOCOLSERVICE_PRIVATE_KEY_ALREADY_SET :: status where
  "AGENTD_ERROR_PROTOCOLSERVICE_PRIVATE_KEY_ALREADY_SET \<equiv> 0x80A0017"
abbreviation (input) AGENTD_ERROR_PROTOCOLSERVICE_MISSING_PRIVATE_KEY :: status where
  "AGENTD_ERROR_PROTOCOLSERVICE_MISSING_PRIVATE_KEY \<equiv> 0x80A0018"
abbreviation (input) AGENTD_ERROR_PROTOCOLSERVICE_INVALID_REQUEST_ID :: status where
  "AGENTD_ERROR_PROTOCOLSERVICE_INVALID_REQUEST_ID \<equiv> 0x80A0019"
abbreviation (input) AGENTD_ERROR_PROTOCOLSERVICE_DATASERVICE_INVALID_RESPONSE_ID :: status where
  "AGENTD_ERROR_PROTOCOLSERVICE_DATASERVICE_INVALID_RESPONSE_ID \<equiv> 0x80A001A"
abbreviation (input) AGENTD_ERROR_PROTOCOLSERVICE_CONTROL_ENTITY_NOT_FOUND :: status where
  "AGENTD_ERROR_PROTOCOLSERVICE_CONTROL_ENTITY_NOT_FOUND \<equiv> 0x80A001B"
abbreviation (input) AGENTD_ERROR_PROTOCOLSERVICE_BLOCK_ASSERTION_ALREADY_SET :: status where
  "AGENTD_ERROR_PROTOCOLSERVICE_BLOCK_ASSERTION_ALREADY_SET \<equiv> 0x80A001C"
abbreviation (input) AGENTD_ERROR_PROTOCOLSERVICE_BLOCK_ASSERTION_NOT_SET :: status where
  "AGENTD_ERROR_PROTOCOLSERVICE_BLOCK_ASSERTION_NOT_SET \<equiv> 0x80A001D"
abbreviation (input) AGENTD_ERROR_PROTOCOLSERVICE_EXTENDED_API_ALREADY_ENABLED :: status where
  "AGENTD_ERROR_PROTOCOLSERVICE_EXTENDED_API_ALREADY_ENABLED \<equiv> 0x80A001E"
abbreviation (input) AGENTD_ERROR_PROTOCOLSERVICE_EXTENDED_API_UNKNOWN_ENTITY :: status where
  "AGENTD_ERROR_PROTOCOLSERVICE_EXTENDED_API_UNKNOWN_ENTITY \<equiv> 0x80A001F"
abbreviation (input) AGENTD_ERROR_CONFIG_IPC_WRITE_DATA_FAILURE :: status where
  "AGENTD_ERROR_CONFIG_IPC_WRITE_DATA_FAILURE \<equiv> 0x8040000"
abbreviation (input) AGENTD_ERROR_CONFIG_IPC_READ_DATA_FAILURE :: status where
  "AGENTD_ERROR_CONFIG_IPC_READ_DATA_FAILURE \<equiv> 0x8040001"
abbreviation (input) AGENTD_ERROR_CONFIG_INET_PTON_FAILURE :: status where
  "AGENTD_ERROR_CONFIG_INET_PTON_FAILURE \<equiv> 0x8040003"
abbreviation (input) AGENTD_ERROR_CONFIG_INVALID_STREAM :: status where
  "AGENTD_ERROR_CONFIG_INVALID_STREAM \<equiv> 0x8040010"
abbreviation (input) AGENTD_ERROR_ATTESTATIONSERVICE_PROC_RUNSECURE_ROOT_USER_REQUIRED :: status where
  "AGENTD_ERROR_ATTESTATIONSERVICE_PROC_RUNSECURE_ROOT_USER_REQUIRED \<equiv> 0x80E0001"
abbreviation (input) AGENTD_ERROR_ATTESTATIONSERVICE_FORK_FAILURE :: status where
  "AGENTD_ERROR_ATTESTATIONSERVICE_FORK_FAILURE \<equiv> 0x80E0002"
abbreviation (input) AGENTD_ERROR_ATTESTATIONSERVICE_PRIVSEP_LOOKUP_USERGROUP_FAILURE :: status where
  "AGENTD_ERROR_ATTESTATIONSERVICE_PRIVSEP_LOOKUP_USERGROUP_FAILURE \<equiv> 0x80E0003"
abbreviation (input) AGENTD_ERROR_ATTESTATIONSERVICE_PRIVSEP_CHROOT_FAILURE :: status where
  "AGENTD_ERROR_ATTESTATIONSERVICE_PRIVSEP_CHROOT_FAILURE \<equiv> 0x80E0004"
abbreviation (input) AGENTD_ERROR_ATTESTATIONSERVICE_PRIVSEP_DROP_PRIVILEGES_FAILURE :: status where
  "AGENTD_ERROR_ATTESTATIONSERVICE_PRIVSEP_DROP_PRIVILEGES_FAILURE \<equiv> 0x80E0005"
abbreviation (input) AGENTD_ERROR_ATTESTATIONSERVICE_PRIVSEP_SETFDS_FAILURE :: status where
  "AGENTD_ERROR_ATTESTATIONSERVICE_PRIVSEP_SETFDS_FAILURE \<equiv> 0x80E0006"
abbreviation (input) AGENTD_ERROR_ATTESTATIONSERVICE_PRIVSEP_CLOSE_OTHER_FDS :: status where
  "AGENTD_ERROR_ATTESTATIONSERVICE_PRIVSEP_CLOSE_OTHER_FDS \<equiv> 0x80E0007"
abbreviation (input) AGENTD_ERROR_ATTESTATIONSERVICE_PRIVSEP_EXEC_PRIVATE_FAILURE :: status where
  "AGENTD_ERROR_ATTESTATIONSERVICE_PRIVSEP_EXEC_PRIVATE_FAILURE \<equiv> 0x80E0008"
abbreviation (input) AGENTD_ERROR_ATTESTATIONSERVICE_PRIVSEP_EXEC_SURVIVAL_WEIRDNESS :: status where
  "AGENTD_ERROR_ATTESTATIONSERVICE_PRIVSEP_EXEC_SURVIVAL_WEIRDNESS \<equiv> 0x80E0009"

lemma service_status_codes_from_macro:
  "AGENTD_STATUS_ERROR_MACRO AGENTD_SERVICE_GENERAL 0x0002 = AGENTD_ERROR_GENERAL_PATH_NOT_FOUND"
  "AGENTD_STATUS_ERROR_MACRO AGENTD_SERVICE_RANDOM 0x0006 = AGENTD_ERROR_RANDOMSERVICE_REQUEST_PACKET_INVALID_SIZE"
  "AGENTD_STATUS_ERROR_MACRO AGENTD_SERVICE_RANDOM 0x0007 = AGENTD_ERROR_RANDOMSERVICE_REQUEST_PACKET_BAD"
  "AGENTD_STATUS_ERROR_MACRO AGENTD_SERVICE_RANDOM 0x0008 = AGENTD_ERROR_RANDOMSERVICE_IPC_WRITE_DATA_FAILURE"
  "AGENTD_STATUS_ERROR_MACRO AGENTD_SERVICE_RANDOM 0x0009 = AGENTD_ERROR_RANDOMSERVICE_IPC_READ_DATA_FAILURE"
  "AGENTD_STATUS_ERROR_MACRO AGENTD_SERVICE_RANDOM 0x000A = AGENTD_ERROR_RANDOMSERVICE_GET_RANDOM_BYTES_INVALID_SIZE"
  "AGENTD_STATUS_ERROR_MACRO AGENTD_SERVICE_RANDOM 0x000B = AGENTD_ERROR_RANDOMSERVICE_GET_RANDOM_BYTES_READ_FAILED"
  "AGENTD_STATUS_ERROR_MACRO AGENTD_SERVICE_AUTHSERVICE 0x0001 = AGENTD_ERROR_AUTHSERVICE_IPC_MAKE_NOBLOCK_FAILURE"
  "AGENTD_STATUS_ERROR_MACRO AGENTD_SERVICE_AUTHSERVICE 0x0004 = AGENTD_ERROR_AUTHSERVICE_IPC_EVENT_LOOP_INIT_FAILURE"
  "AGENTD_STATUS_ERROR_MACRO AGENTD_SERVICE_AUTHSERVICE 0x0005 = AGENTD_ERROR_AUTHSERVICE_PUBKEY_BUFFER_INIT_FAILURE"
  "AGENTD_STATUS_ERROR_MACRO AGENTD_SERVICE_AUTHSERVICE 0x0006 = AGENTD_ERROR_AUTHSERVICE_PRIVKEY_BUFFER_INIT_FAILURE"
  "AGENTD_STATUS_ERROR_MACRO AGENTD_SERVICE_AUTHSERVICE 0x0007 = AGENTD_ERROR_AUTHSERVICE_REQUEST_PACKET_INVALID_SIZE"
  "AGENTD_STATUS_ERROR_MACRO AGENTD_SERVICE_AUTHSERVICE 0x0008 = AGENTD_ERROR_AUTHSERVICE_REQUEST_PACKET_BAD"
  "AGENTD_STATUS_ERROR_MACRO AGENTD_SERVICE_AUTHSERVICE 0x0012 = AGENTD_ERROR_AUTHSERVICE_IPC_WRITE_DATA_FAILURE"
  "AGENTD_STATUS_ERROR_MACRO AGENTD_SERVICE_AUTHSERVICE 0x0013 = AGENTD_ERROR_AUTHSERVICE_IPC_READ_DATA_FAILURE"
  "AGENTD_STATUS_ERROR_MACRO AGENTD_SERVICE_AUTHSERVICE 0x0014 = AGENTD_ERROR_AUTHSERVICE_RECVRESP_UNEXPECTED_DATA_PACKET_SIZE"
  "AGENTD_STATUS_ERROR_MACRO AGENTD_SERVICE_AUTHSERVICE 0x0015 = AGENTD_ERROR_AUTHSERVICE_RECVRESP_UNEXPECTED_METHOD_CODE"
  "AGENTD_STATUS_ERROR_MACRO AGENTD_SERVICE_CANONIZATION 0x000B = AGENTD_ERROR_CANONIZATIONSERVICE_IPC_WRITE_DATA_FAILURE"
  "AGENTD_STATUS_ERROR_MACRO AGENTD_SERVICE_CANONIZATION 0x000C = AGENTD_ERROR_CANONIZATIONSERVICE_IPC_READ_DATA_FAILURE"
  "AGENTD_STATUS_ERROR_MACRO AGENTD_SERVICE_CANONIZATION 0x0010 = AGENTD_ERROR_CANONIZATIONSERVICE_REQUEST_PACKET_INVALID_SIZE"
  "AGENTD_STATUS_ERROR_MACRO AGENTD_SERVICE_CANONIZATION 0x0011 = AGENTD_ERROR_CANONIZATIONSERVICE_REQUEST_PACKET_BAD"
  "AGENTD_STATUS_ERROR_MACRO AGENTD_SERVICE_CANONIZATION 0x0012 = AGENTD_ERROR_CANONIZATIONSERVICE_RESPONSE_PACKET_INVALID_SIZE"
  "AGENTD_STATUS_ERROR_MACRO AGENTD_SERVICE_CANONIZATION 0x0013 = AGENTD_ERROR_CANONIZATIONSERVICE_RECVRESP_UNEXPECTED_METHOD_CODE"
  "AGENTD_STATUS_ERROR_MACRO AGENTD_SERVICE_CANONIZATION 0x0014 = AGENTD_ERROR_CANONIZATIONSERVICE_START_BEFORE_CONFIGURE"
  "AGENTD_STATUS_ERROR_MACRO AGENTD_SERVICE_CANONIZATION 0x0015 = AGENTD_ERROR_CANONIZATIONSERVICE_ALREADY_RUNNING"
  "AGENTD_STATUS_ERROR_MACRO AGENTD_SERVICE_CANONIZATION 0x0016 = AGENTD_ERROR_CANONIZATIONSERVICE_BAD_PARAMETER"
  "AGENTD_STATUS_ERROR_MACRO AGENTD_SERVICE_CANONIZATION 0x0017 = AGENTD_ERROR_CANONIZATIONSERVICE_ALREADY_CONFIGURED"
  "AGENTD_STATUS_ERROR_MACRO AGENTD_SERVICE_CANONIZATION 0x0019 = AGENTD_ERROR_CANONIZATIONSERVICE_PRIVATE_KEY_ALREADY_SET"
  "AGENTD_STATUS_ERROR_MACRO AGENTD_SERVICE_CANONIZATION 0x001A = AGENTD_ERROR_CANONIZATIONSERVICE_START_BEFORE_PRIVATE_KEY_SET"
  "AGENTD_STATUS_ERROR_MACRO AGENTD_SERVICE_NOTIFICATION 0x000A = AGENTD_ERROR_NOTIFICATIONSERVICE_API_BAD_ARGUMENT"
  "AGENTD_STATUS_ERROR_MACRO AGENTD_SERVICE_NOTIFICATION 0x000B = AGENTD_ERROR_NOTIFICATIONSERVICE_INVALID_REQUEST_ID"
  "AGENTD_STATUS_ERROR_MACRO AGENTD_SERVICE_NOTIFICATION 0x000C = AGENTD_ERROR_NOTIFICATIONSERVICE_NOT_AUTHORIZED"
  "AGENTD_STATUS_ERROR_MACRO AGENTD_SERVICE_NOTIFICATION 0x000D = AGENTD_ERROR_NOTIFICATIONSERVICE_MALFORMED_REQUEST"
  "AGENTD_STATUS_ERROR_MACRO AGENTD_SERVICE_PROTOCOL 0x0001 = AGENTD_ERROR_PROTOCOLSERVICE_IPC_MAKE_NOBLOCK_FAILURE"
  "AGENTD_STATUS_ERROR_MACRO AGENTD_SERVICE_PROTOCOL 0x0002 = AGENTD_ERROR_PROTOCOLSERVICE_IPC_EVENT_LOOP_ADD_FAILURE"
  "AGENTD_STATUS_ERROR_MACRO AGENTD_SERVICE_PROTOCOL 0x0003 = AGENTD_ERROR_PROTOCOLSERVICE_IPC_EVENT_LOOP_RUN_FAILURE"
  "AGENTD_STATUS_ERROR_MACRO AGENTD_SERVICE_PROTOCOL 0x0004 = AGENTD_ERROR_PROTOCOLSERVICE_PROC_RUNSECURE_ROOT_USER_REQUIRED"
  "AGENTD_STATUS_ERROR_MACRO AGENTD_SERVICE_PROTOCOL 0x0005 = AGENTD_ERROR_PROTOCOLSERVICE_IPC_SOCKETPAIR_FAILURE"
  "AGENTD_STATUS_ERROR_MACRO AGENTD_SERVICE_PROTOCOL 0x0006 = AGENTD_ERROR_PROTOCOLSERVICE_FORK_FAILURE"
  "AGENTD_STATUS_ERROR_MACRO AGENTD_SERVICE_PROTOCOL 0x0007 = AGENTD_ERROR_PROTOCOLSERVICE_PRIVSEP_LOOKUP_USERGROUP_FAILURE"
  "AGENTD_STATUS_ERROR_MACRO AGENTD_SERVICE_PROTOCOL 0x0008 = AGENTD_ERROR_PROTOCOLSERVICE_PRIVSEP_CHROOT_FAILURE"
  "AGENTD_STATUS_ERROR_MACRO AGENTD_SERVICE_PROTOCOL 0x0009 = AGENTD_ERROR_PROTOCOLSERVICE_PRIVSEP_DROP_PRIVILEGES_FAILURE"
  "AGENTD_STATUS_ERROR_MACRO AGENTD_SERVICE_PROTOCOL 0x000A = AGENTD_ERROR_PROTOCOLSERVICE_PRIVSEP_SETFDS_FAILURE"
  "AGENTD_STATUS_ERROR_MACRO AGENTD_SERVICE_PROTOCOL 0x000B = AGENTD_ERROR_PROTOCOLSERVICE_PRIVSEP_EXEC_PRIVATE_FAILURE"
  "AGENTD_STATUS_ERROR_MACRO AGENTD_SERVICE_PROTOCOL 0x000C = AGENTD_ERROR_PROTOCOLSERVICE_PRIVSEP_EXEC_SURVIVAL_WEIRDNESS"
  "AGENTD_STATUS_ERROR_MACRO AGENTD_SERVICE_PROTOCOL 0x000D = AGENTD_ERROR_PROTOCOLSERVICE_IPC_EVENT_LOOP_INIT_FAILURE"
  "AGENTD_STATUS_ERROR_MACRO AGENTD_SERVICE_PROTOCOL 0x000E = AGENTD_ERROR_PROTOCOLSERVICE_MALFORMED_REQUEST"
  "AGENTD_STATUS_ERROR_MACRO AGENTD_SERVICE_PROTOCOL 0x000F = AGENTD_ERROR_PROTOCOLSERVICE_MALFORMED_RESPONSE"
  "AGENTD_STATUS_ERROR_MACRO AGENTD_SERVICE_PROTOCOL 0x0010 = AGENTD_ERROR_PROTOCOLSERVICE_UNAUTHORIZED"
  "AGENTD_STATUS_ERROR_MACRO AGENTD_SERVICE_PROTOCOL 0x0011 = AGENTD_ERROR_PROTOCOLSERVICE_PRNG_REQUEST_FAILURE"
  "AGENTD_STATUS_ERROR_MACRO AGENTD_SERVICE_PROTOCOL 0x0012 = AGENTD_ERROR_PROTOCOLSERVICE_TRANSACTION_VERIFICATION"
  "AGENTD_STATUS_ERROR_MACRO AGENTD_SERVICE_PROTOCOL 0x0013 = AGENTD_ERROR_PROTOCOLSERVICE_PRIVSEP_CLOSE_OTHER_FDS"
  "AGENTD_STATUS_ERROR_MACRO AGENTD_SERVICE_PROTOCOL 0x0014 = AGENTD_ERROR_PROTOCOLSERVICE_REQUEST_PACKET_INVALID_SIZE"
  "AGENTD_STATUS_ERROR_MACRO AGENTD_SERVICE_PROTOCOL 0x0015 = AGENTD_ERROR_PROTOCOLSERVICE_REQUEST_PACKET_BAD"
  "AGENTD_STATUS_ERROR_MACRO AGENTD_SERVICE_PROTOCOL 0x0016 = AGENTD_ERROR_PROTOCOLSERVICE_IPC_WRITE_DATA_FAILURE"
  "AGENTD_STATUS_ERROR_MACRO AGENTD_SERVICE_PROTOCOL 0x0017 = AGENTD_ERROR_PROTOCOLSERVICE_PRIVATE_KEY_ALREADY_SET"
  "AGENTD_STATUS_ERROR_MACRO AGENTD_SERVICE_PROTOCOL 0x0018 = AGENTD_ERROR_PROTOCOLSERVICE_MISSING_PRIVATE_KEY"
  "AGENTD_STATUS_ERROR_MACRO AGENTD_SERVICE_PROTOCOL 0x0019 = AGENTD_ERROR_PROTOCOLSERVICE_INVALID_REQUEST_ID"
  "AGENTD_STATUS_ERROR_MACRO AGENTD_SERVICE_PROTOCOL 0x001A = AGENTD_ERROR_PROTOCOLSERVICE_DATASERVICE_INVALID_RESPONSE_ID"
  "AGENTD_STATUS_ERROR_MACRO AGENTD_SERVICE_PROTOCOL 0x001B = AGENTD_ERROR_PROTOCOLSERVICE_CONTROL_ENTITY_NOT_FOUND"
  "AGENTD_STATUS_ERROR_MACRO AGENTD_SERVICE_PROTOCOL 0x001C = AGENTD_ERROR_PROTOCOLSERVICE_BLOCK_ASSERTION_ALREADY_SET"
  "AGENTD_STATUS_ERROR_MACRO AGENTD_SERVICE_PROTOCOL 0x001D = AGENTD_ERROR_PROTOCOLSERVICE_BLOCK_ASSERTION_NOT_SET"
  "AGENTD_STATUS_ERROR_MACRO AGENTD_SERVICE_PROTOCOL 0x001E = AGENTD_ERROR_PROTOCOLSERVICE_EXTENDED_API_ALREADY_ENABLED"
  "AGENTD_STATUS_ERROR_MACRO AGENTD_SERVICE_PROTOCOL 0x001F = AGENTD_ERROR_PROTOCOLSERVICE_EXTENDED_API_UNKNOWN_ENTITY"
  "AGENTD_STATUS_ERROR_MACRO AGENTD_SERVICE_CONFIG 0x0000 = AGENTD_ERROR_CONFIG_IPC_WRITE_DATA_FAILURE"
  "AGENTD_STATUS_ERROR_MACRO AGENTD_SERVICE_CONFIG 0x0001 = AGENTD_ERROR_CONFIG_IPC_READ_DATA_FAILURE"
  "AGENTD_STATUS_ERROR_MACRO AGENTD_SERVICE_CONFIG 0x0003 = AGENTD_ERROR_CONFIG_INET_PTON_FAILURE"
  "AGENTD_STATUS_ERROR_MACRO AGENTD_SERVICE_CONFIG 0x0010 = AGENTD_ERROR_CONFIG_INVALID_STREAM"
  "AGENTD_STATUS_ERROR_MACRO AGENTD_SERVICE_ATTESTATION 0x0001 = AGENTD_ERROR_ATTESTATIONSERVICE_PROC_RUNSECURE_ROOT_USER_REQUIRED"
  "AGENTD_STATUS_ERROR_MACRO AGENTD_SERVICE_ATTESTATION 0x0002 = AGENTD_ERROR_ATTESTATIONSERVICE_FORK_FAILURE"
  "AGENTD_STATUS_ERROR_MACRO AGENTD_SERVICE_ATTESTATION 0x0003 = AGENTD_ERROR_ATTESTATIONSERVICE_PRIVSEP_LOOKUP_USERGROUP_FAILURE"
  "AGENTD_STATUS_ERROR_MACRO AGENTD_SERVICE_ATTESTATION 0x0004 = AGENTD_ERROR_ATTESTATIONSERVICE_PRIVSEP_CHROOT_FAILURE"
  "AGENTD_STATUS_ERROR_MACRO AGENTD_SERVICE_ATTESTATION 0x0005 = AGENTD_ERROR_ATTESTATIONSERVICE_PRIVSEP_DROP_PRIVILEGES_FAILURE"
  "AGENTD_STATUS_ERROR_MACRO AGENTD_SERVICE_ATTESTATION 0x0006 = AGENTD_ERROR_ATTESTATIONSERVICE_PRIVSEP_SETFDS_FAILURE"
  "AGENTD_STATUS_ERROR_MACRO AGENTD_SERVICE_ATTESTATION 0x0007 = AGENTD_ERROR_ATTESTATIONSERVICE_PRIVSEP_CLOSE_OTHER_FDS"
  "AGENTD_STATUS_ERROR_MACRO AGENTD_SERVICE_ATTESTATION 0x0008 = AGENTD_ERROR_ATTESTATIONSERVICE_PRIVSEP_EXEC_PRIVATE_FAILURE"
  "AGENTD_STATUS_ERROR_MACRO AGENTD_SERVICE_ATTESTATION 0x0009 = AGENTD_ERROR_ATTESTATIONSERVICE_PRIVSEP_EXEC_SURVIVAL_WEIRDNESS"
  by (simp_all add: AGENTD_STATUS_ERROR_MACRO_def)

end
