(* ===== verification/Random_Service.thy ===== *)
theory Random_Service
  imports Connection Service_Status
begin

text \<open>
  The random service (\<^verbatim>\<open>src/src/randomservice\<close>): it reads bytes from the random device for
  the other services, which cannot open it.  The device behind the descriptor is the
  parameter \<open>rd\<close>: \<open>rd n dev\<close> is the result of \<^verbatim>\<open>read(2)\<close> for \<open>n\<close> bytes, the bytes it puts
  into the buffer and the device afterwards.  Requests are served by the callbacks of
  \<open>Service_Loop\<close>; \<open>malloc i\<close> is the allocation of the \<open>i\<close>-th response.
\<close>

record 'r randomservice_root_context =
  random_fd :: 'r
  randomservice_force_exit :: bool

type_synonym 'r random_dev = "nat \<Rightarrow> 'r \<Rightarrow> (int \<times> bytes) \<times> 'r"

abbreviation (input) RANDOMSERVICE_API_METHOD_GET_RANDOM_BYTES :: "32 word" where
  "RANDOMSERVICE_API_METHOD_GET_RANDOM_BYTES \<equiv> 1"

definition randomservice_instance_create :: "bool \<Rightarrow> 'r \<Rightarrow> 'r randomservice_root_context option" where
  "randomservice_instance_create malloc_ok random =
     (if \<not> malloc_ok then None else Some \<lparr> random_fd = random, randomservice_force_exit = False \<rparr>)"

definition randomservice_force_quit :: "'r randomservice_root_context \<Rightarrow> 'r randomservice_root_context" where
  "randomservice_force_quit inst = inst\<lparr>randomservice_force_exit := True\<rparr>"

definition randomservice_exit_event_loop ::
  "('r randomservice_root_context, 's) service_loop \<Rightarrow> ('r randomservice_root_context, 's) service_loop" where
  "randomservice_exit_event_loop st = exit_event_loop randomservice_force_quit st"

subsection \<open>Requests\<close>

definition randomservice_decode_and_dispatch_write_status ::
  "bool \<Rightarrow> bool \<Rightarrow> 32 word \<Rightarrow> 32 word \<Rightarrow> status \<Rightarrow> bytes option \<Rightarrow> status \<times> bytes list" where
  "randomservice_decode_and_dispatch_write_status malloc_ok write_ok method offset st data =
     (if \<not> malloc_ok then (AGENTD_ERROR_GENERAL_OUT_OF_MEMORY, []) else
      if \<not> write_ok then (AGENTD_ERROR_RANDOMSERVICE_IPC_WRITE_DATA_FAILURE, []) else
      (AGENTD_STATUS_SUCCESS, [response_packet method offset st data]))"

text \<open>
  The outcome of a request: the status, the value of \<^verbatim>\<open>rndsize\<close> and the buffer when it
  is answered.  A request of the wrong size leaves both integers 0.
\<close>

definition random_bytes_outcome ::
  "'r random_dev \<Rightarrow> 'r \<Rightarrow> bytes \<Rightarrow> status \<times> 32 word \<times> nat \<times> bytes \<times> 'r" where
  "random_bytes_outcome rd dev req =
     (let buffer = replicate 1024 0 in
      if length req \<noteq> 8 then (AGENTD_ERROR_RANDOMSERVICE_REQUEST_PACKET_INVALID_SIZE, 0, 0, buffer, dev) else
      let offset = of_net32 (take 4 req);
          rndsize = unat (of_net32 (drop 4 req))
      in if rndsize = 0 \<or> rndsize > 1024
         then (AGENTD_ERROR_RANDOMSERVICE_GET_RANDOM_BYTES_INVALID_SIZE, offset, 0, buffer, dev) else
         case rd rndsize dev of ((n, b), dev) \<Rightarrow>
         let buffer = b @ drop (length b) buffer in
         if n < int rndsize then (AGENTD_ERROR_RANDOMSERVICE_GET_RANDOM_BYTES_READ_FAILED, offset, 0, buffer, dev)
         else (AGENTD_STATUS_SUCCESS, offset, rndsize, buffer, dev))"

definition randomservice_decode_and_dispatch_get_random_bytes ::
  "'r random_dev \<Rightarrow> bool \<Rightarrow> bool \<Rightarrow> 'r randomservice_root_context \<Rightarrow> bytes \<Rightarrow>
     status \<times> bytes list \<times> 'r randomservice_root_context" where
  "randomservice_decode_and_dispatch_get_random_bytes rd malloc_ok write_ok inst req =
     (case random_bytes_outcome rd (random_fd inst) req of (st, offset, rndsize, buffer, dev) \<Rightarrow>
      case randomservice_decode_and_dispatch_write_status malloc_ok write_ok RANDOMSERVICE_API_METHOD_GET_RANDOM_BYTES
             offset st (Some (take rndsize buffer)) of (r, out) \<Rightarrow>
      (r, out, inst\<lparr>random_fd := dev\<rparr>))"

definition randomservice_decode_and_dispatch ::
  "'r random_dev \<Rightarrow> bool \<Rightarrow> bool \<Rightarrow> 'r randomservice_root_context \<Rightarrow> bytes \<Rightarrow>
     status \<times> bytes list \<times> 'r randomservice_root_context" where
  "randomservice_decode_and_dispatch rd malloc_ok write_ok inst req =
     (if length req < 4 then (AGENTD_ERROR_RANDOMSERVICE_REQUEST_PACKET_INVALID_SIZE, [], inst) else
      let method = of_net32 (take 4 req) in
      if method = RANDOMSERVICE_API_METHOD_GET_RANDOM_BYTES
      then randomservice_decode_and_dispatch_get_random_bytes rd malloc_ok write_ok inst (drop 4 req)
      else (AGENTD_ERROR_RANDOMSERVICE_REQUEST_PACKET_BAD,
            snd (randomservice_decode_and_dispatch_write_status malloc_ok write_ok method 0
                   AGENTD_ERROR_RANDOMSERVICE_REQUEST_PACKET_BAD None), inst))"

subsection \<open>Callbacks\<close>

definition random_handler :: "'r random_dev \<Rightarrow> (nat \<Rightarrow> bool) \<Rightarrow> 'r randomservice_root_context handler" where
  "random_handler rd malloc i w inst req = Some (randomservice_decode_and_dispatch rd (malloc i) w inst req)"

definition randomservice_ipc_read ::
  "'r random_dev \<Rightarrow> 's evsock \<Rightarrow> (nat \<Rightarrow> bool) \<Rightarrow> (nat \<Rightarrow> bool) \<Rightarrow> nat \<Rightarrow> ('r randomservice_root_context, 's) service_loop \<Rightarrow>
     (nat \<times> ('r randomservice_root_context, 's) service_loop) option" where
  "randomservice_ipc_read rd ev resp_malloc malloc i st =
     service_ipc_read (random_handler rd resp_malloc) randomservice_force_exit randomservice_force_quit ev malloc i st"

text \<open>This write callback keeps itself enabled when the write would block.\<close>

definition randomservice_ipc_write ::
  "'s evsock \<Rightarrow> bool \<Rightarrow> ('r randomservice_root_context, 's) service_loop \<Rightarrow> ('r randomservice_root_context, 's) service_loop" where
  "randomservice_ipc_write ev would_block st =
     (if ipc_socket_writebuffer_size ev (loop_sock st) > 0 then
        (case ipc_socket_write_from_buffer ev (loop_sock st) of (r, s) \<Rightarrow>
         let st = st\<lparr>loop_sock := s\<rparr> in
         if r = 0 then randomservice_exit_event_loop st else
         if r < 0 \<and> \<not> would_block then randomservice_exit_event_loop st else
         if ipc_socket_writebuffer_size ev s > 0 then st\<lparr>write_cb := True\<rparr> else st)
      else st\<lparr>write_cb := False\<rparr>)"

subsection \<open>Client calls\<close>

definition random_request :: "32 word \<Rightarrow> 32 word \<Rightarrow> bytes" where
  "random_request offset count = net32 RANDOMSERVICE_API_METHOD_GET_RANDOM_BYTES @ net32 offset @ net32 count"

definition random_service_api_sendreq_random_bytes_get :: "'s psock_ops \<Rightarrow> 32 word \<Rightarrow> 32 word \<Rightarrow> 's \<Rightarrow> status \<times> 's" where
  "random_service_api_sendreq_random_bytes_get ps offset count sock =
     (case psock_write_boxed_data ps (random_request offset count) sock of (r, sock) \<Rightarrow>
      (if r \<noteq> AGENTD_STATUS_SUCCESS then AGENTD_ERROR_RANDOMSERVICE_IPC_WRITE_DATA_FAILURE else r, sock))"

definition random_service_api_sendreq_random_bytes_get_old :: "'s evsock \<Rightarrow> 32 word \<Rightarrow> 32 word \<Rightarrow> 's \<Rightarrow> status \<times> 's" where
  "random_service_api_sendreq_random_bytes_get_old ev offset count sock =
     write_request AGENTD_ERROR_RANDOMSERVICE_IPC_WRITE_DATA_FAILURE ev (random_request offset count) sock"

text \<open>The payload is what is written to \<^verbatim>\<open>*bytes_size\<close> and, where it is, to \<^verbatim>\<open>*bytes\<close>.\<close>

definition random_response :: "bool \<Rightarrow> bytes \<Rightarrow> (nat \<times> bytes option) api_result" where
  "random_response malloc_ok resp =
     (if length resp < 12 then api_error AGENTD_ERROR_RANDOMSERVICE_REQUEST_PACKET_INVALID_SIZE else
      let st = of_net32 (slice 8 4 resp); data = drop 12 resp;
          bad = (of_net32 (take 4 resp) \<noteq> RANDOMSERVICE_API_METHOD_GET_RANDOM_BYTES \<or> st \<noteq> AGENTD_STATUS_SUCCESS \<or> data = [])
      in \<lparr> api_retval = (if bad then AGENTD_ERROR_RANDOMSERVICE_REQUEST_PACKET_BAD else
                         if \<not> malloc_ok then AGENTD_ERROR_GENERAL_OUT_OF_MEMORY else AGENTD_STATUS_SUCCESS),
           api_header = Some (of_net32 (slice 4 4 resp), st),
           api_payload = Some (length data, if bad \<or> \<not> malloc_ok then None else Some data) \<rparr>)"

definition random_service_api_recvresp_random_bytes_get ::
  "'s psock_ops \<Rightarrow> bool \<Rightarrow> 's \<Rightarrow> (nat \<times> bytes option) api_result \<times> 's" where
  "random_service_api_recvresp_random_bytes_get ps malloc_ok sock =
     (case psock_read_boxed_data ps sock of
        (Inl st, sock) \<Rightarrow> (api_error AGENTD_ERROR_RANDOMSERVICE_IPC_READ_DATA_FAILURE, sock)
      | (Inr resp, sock) \<Rightarrow>
          (case rcpr_allocator_reclaim ps sock of (release_retval, sock) \<Rightarrow>
           (if release_retval \<noteq> AGENTD_STATUS_SUCCESS then (random_response malloc_ok resp)\<lparr>api_retval := release_retval\<rparr>
            else random_response malloc_ok resp, sock)))"

definition random_service_api_recvresp_random_bytes_get_old ::
  "'s evsock \<Rightarrow> bool \<Rightarrow> bool \<Rightarrow> 's \<Rightarrow> (nat \<times> bytes option) api_result \<times> 's" where
  "random_service_api_recvresp_random_bytes_get_old ev read_malloc malloc_ok sock =
     read_response AGENTD_ERROR_RANDOMSERVICE_IPC_READ_DATA_FAILURE ev read_malloc (random_response malloc_ok) sock"

subsection \<open>Serving requests\<close>

lemma random_handler_one: "random_handler rd malloc i w inst req = Some (r, out, inst') \<Longrightarrow> length out \<le> 1"
  by (auto simp: random_handler_def randomservice_decode_and_dispatch_def randomservice_decode_and_dispatch_get_random_bytes_def
      randomservice_decode_and_dispatch_write_status_def Let_def split: prod.splits if_splits)

lemma randomservice_ipc_write_flushes: "mem_flushes (randomservice_ipc_write mem_evsock would_block)"
  by (simp add: mem_flushes_def randomservice_ipc_write_def ipc_socket_writebuffer_size_def ipc_socket_write_from_buffer_def
      mem_evsock_def Let_def)

interpretation mem_random: mem_service "random_handler rd resp_malloc" randomservice_force_exit randomservice_force_quit
    "randomservice_ipc_write mem_evsock would_block" for rd resp_malloc would_block
  by unfold_locales (auto simp: randomservice_ipc_write_flushes dest: random_handler_one)

text \<open>What a request is answered with, and that the service goes on.\<close>

lemma random_dispatch:
  "random_handler rd (\<lambda>_. True) i True inst (random_request offset count) =
     (case random_bytes_outcome rd (random_fd inst) (net32 offset @ net32 count) of (st, _, n, buffer, dev) \<Rightarrow>
      Some (AGENTD_STATUS_SUCCESS, [response_packet RANDOMSERVICE_API_METHOD_GET_RANDOM_BYTES offset st (Some (take n buffer))],
        inst\<lparr>random_fd := dev\<rparr>))"
  by (simp add: random_handler_def randomservice_decode_and_dispatch_def random_request_def Let_def
      randomservice_decode_and_dispatch_get_random_bytes_def randomservice_decode_and_dispatch_write_status_def
      random_bytes_outcome_def split: prod.splits)

lemma random_response_packet:
  "random_response True (response_packet 1 offset st (Some d)) =
     (let bad = (st \<noteq> AGENTD_STATUS_SUCCESS \<or> d = [])
      in \<lparr> api_retval = (if bad then AGENTD_ERROR_RANDOMSERVICE_REQUEST_PACKET_BAD else AGENTD_STATUS_SUCCESS),
           api_header = Some (offset, st), api_payload = Some (length d, if bad then None else Some d) \<rparr>)"
  by (simp add: random_response_def response_packet_def Let_def)

definition random_call ::
  "'r random_dev \<Rightarrow> (bytes \<Rightarrow> bytes list) \<Rightarrow> 32 word \<Rightarrow> 32 word \<Rightarrow> 'r randomservice_root_context rpc \<Rightarrow>
     ((nat \<times> bytes option) api_result \<times> 'r randomservice_root_context rpc) option" where
  "random_call rd chop offset count st =
     exchange (randomservice_ipc_read rd mem_evsock (\<lambda>_. True) (\<lambda>_. True)) (randomservice_ipc_write mem_evsock False) chop
       (random_service_api_sendreq_random_bytes_get_old mem_evsock offset count)
       (random_service_api_recvresp_random_bytes_get_old mem_evsock True True) st"

text \<open>
  A device that delivers the bytes of an infinite sequence, which \<open>sv\<close> reads off, in order
  and never fewer than it is asked for.
\<close>

definition sequence_device :: "'r random_dev \<Rightarrow> ('r \<Rightarrow> nat \<Rightarrow> byte) \<Rightarrow> bool" where
  "sequence_device rd sv \<longleftrightarrow> (\<forall>n dev. \<exists>dev'. rd n dev = ((int n, map (sv dev) [0..<n]), dev') \<and> (\<forall>i. sv dev' i = sv dev (n + i)))"

lemma packet_ok_random [simp]:
  "packet_ok (random_request offset count)" "n \<le> 1024 \<Longrightarrow> packet_ok (response_packet m offset st (Some (take n b)))"
  by (simp_all add: packet_ok_def random_request_def)

lemma random_call_outcome:
  assumes "cuts chop" and "rpc_idle randomservice_force_exit st"
    and o: "random_bytes_outcome rd (random_fd (loop_inst (rpc_server st))) (net32 offset @ net32 count) = (sc, off, n, buffer, dev)"
    and n: "n \<le> 1024"
  shows "\<exists>st'. random_call rd chop offset count st = Some (random_response True (response_packet 1 offset sc (Some (take n buffer))), st') \<and>
     rpc_idle randomservice_force_exit st' \<and> loop_inst (rpc_server st') = (loop_inst (rpc_server st))\<lparr>random_fd := dev\<rparr>"
proof -
  have h: "random_handler rd (\<lambda>_. True) 0 True (loop_inst (rpc_server st)) (random_request offset count) =
      Some (AGENTD_STATUS_SUCCESS, [response_packet 1 offset sc (Some (take n buffer))], (loop_inst (rpc_server st))\<lparr>random_fd := dev\<rparr>)"
    by (simp add: random_dispatch o)
  have x: "\<not> randomservice_force_exit ((loop_inst (rpc_server st))\<lparr>random_fd := dev\<rparr>)" using assms(2) by (simp add: rpc_idle_def)
  have "api_retval (random_response True (response_packet 1 offset sc (Some (take n buffer)))) \<noteq> AGENTD_ERROR_IPC_WOULD_BLOCK"
    by (simp add: random_response_packet Let_def)
  from mem_random.exchange_reply [where malloc = "\<lambda>_. True" and process = "random_response True", OF assms(1,2) packet_ok_random(1) _ h packet_ok_random(2) [OF n] x this]
  show ?thesis
    by (simp add: random_call_def randomservice_ipc_read_def [abs_def] random_service_api_sendreq_random_bytes_get_old_def [abs_def]
        random_service_api_recvresp_random_bytes_get_old_def [abs_def])
qed

text \<open>A sequence of calls, with the bytes they return; a call that fails returns none.\<close>

fun random_calls ::
  "'r random_dev \<Rightarrow> (bytes \<Rightarrow> bytes list) \<Rightarrow> (32 word \<times> 32 word) list \<Rightarrow> 'r randomservice_root_context rpc \<Rightarrow>
     (bytes list \<times> 'r randomservice_root_context rpc) option" where
  "random_calls rd chop [] st = Some ([], st)"
| "random_calls rd chop ((offset, count) # rs) st =
     (case random_call rd chop offset count st of
        None \<Rightarrow> None
      | Some (r, st) \<Rightarrow>
          map_option (\<lambda>(bs, st). ((case api_payload r of Some (_, Some b) \<Rightarrow> b | _ \<Rightarrow> []) # bs, st)) (random_calls rd chop rs st))"

definition served_count :: "32 word \<Rightarrow> nat" where
  "served_count count = (if unat count \<le> 1024 then unat count else 0)"

lemma sequence_outcome:
  assumes "sequence_device rd sv"
  obtains sc dev' buffer where "random_bytes_outcome rd dev (net32 offset @ net32 count) = (sc, offset, served_count count, buffer, dev')"
    and "take (served_count count) buffer = map (sv dev) [0..<served_count count]"
    and "\<forall>i. sv dev' i = sv dev (served_count count + i)"
    and "served_count count \<noteq> 0 \<longrightarrow> sc = AGENTD_STATUS_SUCCESS"
proof -
  obtain dev' where d: "rd (unat count) dev = ((int (unat count), map (sv dev) [0..<unat count]), dev')" "\<forall>i. sv dev' i = sv dev (unat count + i)"
    using assms unfolding sequence_device_def by blast
  show thesis
  proof (cases "unat count = 0 \<or> 1024 < unat count")
    case True
    then have "served_count count = 0" by (auto simp: served_count_def)
    moreover have "random_bytes_outcome rd dev (net32 offset @ net32 count) =
        (AGENTD_ERROR_RANDOMSERVICE_GET_RANDOM_BYTES_INVALID_SIZE, offset, 0, replicate 1024 0, dev)"
      using True by (simp add: random_bytes_outcome_def Let_def)
    ultimately show ?thesis using that by simp
  next
    case False
    then have "served_count count = unat count" by (simp add: served_count_def)
    moreover have "random_bytes_outcome rd dev (net32 offset @ net32 count) =
        (AGENTD_STATUS_SUCCESS, offset, unat count, map (sv dev) [0..<unat count] @ drop (unat count) (replicate 1024 0), dev')"
      using False d(1) by (simp add: random_bytes_outcome_def Let_def)
    ultimately show ?thesis using that d(2) by simp
  qed
qed

lemma upt_shift_map: "map f [0..<m] @ map (\<lambda>i. f (m + i)) [0..<n] = map f [0..<m + n]"
  by (rule nth_equalityI) (auto simp: nth_append)

lemma random_calls_sequence:
  assumes "sequence_device rd sv" and "cuts chop" and "rpc_idle randomservice_force_exit st"
  shows "\<exists>bs st'. random_calls rd chop rs st = Some (bs, st') \<and> rpc_idle randomservice_force_exit st' \<and>
     map length bs = map (\<lambda>(_, c). served_count c) rs \<and>
     concat bs = map (sv (random_fd (loop_inst (rpc_server st)))) [0..<sum_list (map length bs)]"
  using assms(3)
proof (induction rs arbitrary: st)
  case Nil
  then show ?case by simp
next
  case (Cons r rs)
  obtain offset count where r: "r = (offset, count)" by (cases r)
  let ?dev = "random_fd (loop_inst (rpc_server st))" and ?n = "served_count count"
  have n: "?n \<le> 1024" by (simp add: served_count_def)
  obtain sc dev' buffer where o: "random_bytes_outcome rd ?dev (net32 offset @ net32 count) = (sc, offset, ?n, buffer, dev')"
    "take ?n buffer = map (sv ?dev) [0..<?n]" "\<forall>i. sv dev' i = sv ?dev (?n + i)" "?n \<noteq> 0 \<longrightarrow> sc = AGENTD_STATUS_SUCCESS"
    by (rule sequence_outcome [OF assms(1)])
  obtain st1 where c: "random_call rd chop offset count st =
      Some (random_response True (response_packet 1 offset sc (Some (take ?n buffer))), st1)"
    "rpc_idle randomservice_force_exit st1" "random_fd (loop_inst (rpc_server st1)) = dev'"
    using random_call_outcome [OF assms(2) Cons.prems o(1) n] by auto
  obtain bs st' where ih: "random_calls rd chop rs st1 = Some (bs, st')" "rpc_idle randomservice_force_exit st'"
    "map length bs = map (\<lambda>(_, c). served_count c) rs" "concat bs = map (sv dev') [0..<sum_list (map length bs)]"
    using Cons.IH [OF c(2)] c(3) by auto
  have "sv dev' = (\<lambda>i. sv ?dev (?n + i))" using o(3) by auto
  then show ?case using r c(1) ih o(2,4) upt_shift_map [of "sv ?dev" ?n "sum_list (map length bs)"]
    by (cases "?n = 0") (simp_all add: random_response_packet Let_def)
qed

subsection \<open>Properties\<close>

text \<open>
  C6. The random service hands out each byte of its device at most once and in order.
  Whatever calls its clients make, and however the packets are cut into fragments,
  every call is answered and the service goes on; a call for 1 to 1024 bytes returns
  exactly that many, any other returns none; and the bytes that the calls return are,
  one after the other, the first bytes of the device's sequence.
\<close>

theorem random_bytes_in_sequence:
  assumes "sequence_device rd sv" and "cuts chop" and "rpc_idle randomservice_force_exit st"
  shows "\<exists>bs st'. random_calls rd chop rs st = Some (bs, st') \<and> rpc_idle randomservice_force_exit st' \<and>
     map length bs = map (\<lambda>(_, c). if unat c \<le> 1024 then unat c else 0) rs \<and>
     concat bs = map (sv (random_fd (loop_inst (rpc_server st)))) [0..<sum_list (map length bs)]"
  using random_calls_sequence [OF assms, of rs] unfolding served_count_def .

text \<open>The device that counts, as an instance.\<close>

definition counting_device :: "nat random_dev" where
  "counting_device n dev = ((int n, map (\<lambda>i. of_nat (dev + i)) [0..<n]), dev + n)"

lemma counting_sequence: "sequence_device counting_device (\<lambda>dev i. of_nat (dev + i))"
  by (simp add: sequence_device_def counting_device_def add.assoc)

definition idle_sock :: mem_sock where
  "idle_sock = \<lparr> m_rbuf = [], m_wbuf = [], m_fragments = [], m_sent = [] \<rparr>"

theorem random_bytes_in_sequence_witness:
  "\<exists>bs st'. random_calls counting_device (map (\<lambda>b. [b])) [(0, 2), (1, 2000), (2, 3)]
      \<lparr> rpc_client = idle_sock, rpc_server = \<lparr> loop_inst = \<lparr> random_fd = 5, randomservice_force_exit = False \<rparr>,
          loop_sock = idle_sock, write_cb = False, loop_exit = False \<rparr> \<rparr> = Some (bs, st') \<and>
     map length bs = [2, 0, 3] \<and> concat bs = [5, 6, 7, 8, 9]"
proof -
  let ?st = "\<lparr> rpc_client = idle_sock, rpc_server = \<lparr> loop_inst = \<lparr> random_fd = 5 :: nat, randomservice_force_exit = False \<rparr>,
          loop_sock = idle_sock, write_cb = False, loop_exit = False \<rparr> \<rparr>"
  have i: "rpc_idle randomservice_force_exit ?st" by (simp add: rpc_idle_def sock_idle_def idle_sock_def)
  obtain bs st' where r: "random_calls counting_device (map (\<lambda>b. [b])) [(0, 2), (1, 2000), (2, 3)] ?st = Some (bs, st')"
    and l: "map length bs = [2, 0, 3]" and c: "concat bs = map (\<lambda>i. of_nat (5 + i)) [0..<sum_list (map length bs)]"
    using random_bytes_in_sequence [OF counting_sequence cuts_bytes i, of "[(0, 2), (1, 2000), (2, 3)]"] by (auto simp del: random_calls.simps)
  have "concat bs = [5, 6, 7, 8, 9]" unfolding c l by (simp add: upt_rec)
  with r l show ?thesis by (intro exI conjI)
qed

end
