(* ===== verification/Auth_Service.thy ===== *)
theory Auth_Service
  imports Connection Service_Status
begin

text \<open>
  The authentication service (\<^verbatim>\<open>src/src/authservice\<close>), which holds the identity and the keys
  of the agent.  The sizes of the key buffers are fixed when the instance is
  initialised, by the crypto suite, which is third-party code: \<open>auth_init_env\<close> holds the
  results of its calls and of the other calls of the initialisation.
\<close>

record auth_service_instance =
  auth_service_force_exit :: bool
  agent_id :: bytes
  agent_pubkey :: bytes
  agent_privkey :: bytes

abbreviation (input) AUTHSERVICE_API_METHOD_INITIALIZE :: "32 word" where
  "AUTHSERVICE_API_METHOD_INITIALIZE \<equiv> 0"

record auth_init_env =
  suite_init_ok :: bool
  pubkey_buffer :: "bytes option"
  privkey_buffer :: "bytes option"
  make_noblock_ok :: bool
  loop_malloc_ok :: bool
  loop_init_ok :: bool

definition auth_service_instance_init :: "auth_init_env \<Rightarrow> status + auth_service_instance" where
  "auth_service_instance_init env =
     (if \<not> suite_init_ok env then Inl AGENTD_ERROR_AUTHSERVICE_IPC_EVENT_LOOP_INIT_FAILURE else
      case pubkey_buffer env of
        None \<Rightarrow> Inl AGENTD_ERROR_AUTHSERVICE_PUBKEY_BUFFER_INIT_FAILURE
      | Some pub \<Rightarrow>
      case privkey_buffer env of
        None \<Rightarrow> Inl AGENTD_ERROR_AUTHSERVICE_PRIVKEY_BUFFER_INIT_FAILURE
      | Some priv \<Rightarrow>
      if \<not> make_noblock_ok env then Inl AGENTD_ERROR_AUTHSERVICE_IPC_MAKE_NOBLOCK_FAILURE else
      if \<not> loop_malloc_ok env then Inl AGENTD_ERROR_GENERAL_OUT_OF_MEMORY else
      if \<not> loop_init_ok env then Inl AGENTD_ERROR_AUTHSERVICE_IPC_MAKE_NOBLOCK_FAILURE else
      Inr \<lparr> auth_service_force_exit = False, agent_id = replicate 16 0, agent_pubkey = pub, agent_privkey = priv \<rparr>)"

definition auth_service_force_quit :: "auth_service_instance \<Rightarrow> auth_service_instance" where
  "auth_service_force_quit inst = inst\<lparr>auth_service_force_exit := True\<rparr>"

definition auth_service_exit_event_loop ::
  "(auth_service_instance, 's) service_loop \<Rightarrow> (auth_service_instance, 's) service_loop" where
  "auth_service_exit_event_loop st = exit_event_loop auth_service_force_quit st"

subsection \<open>Requests\<close>

definition auth_service_decode_and_dispatch_write_status ::
  "bool \<Rightarrow> bool \<Rightarrow> 32 word \<Rightarrow> 32 word \<Rightarrow> status \<Rightarrow> bytes option \<Rightarrow> status \<times> bytes list" where
  "auth_service_decode_and_dispatch_write_status malloc_ok write_ok method offset st data =
     (if \<not> malloc_ok then (AGENTD_ERROR_GENERAL_OUT_OF_MEMORY, []) else
      if \<not> write_ok then (AGENTD_ERROR_AUTHSERVICE_IPC_WRITE_DATA_FAILURE, []) else
      (AGENTD_STATUS_SUCCESS, [response_packet method offset st data]))"

definition auth_service_decode_and_dispatch_initialize ::
  "bool \<Rightarrow> bool \<Rightarrow> auth_service_instance \<Rightarrow> bytes \<Rightarrow> status \<times> bytes list \<times> auth_service_instance" where
  "auth_service_decode_and_dispatch_initialize malloc_ok write_ok inst req =
     (let npub = length (agent_pubkey inst); npriv = length (agent_privkey inst);
          (st, inst) =
            (if length req \<noteq> 16 + npub + npriv then (AGENTD_ERROR_AUTHSERVICE_REQUEST_PACKET_INVALID_SIZE, inst)
             else (AGENTD_STATUS_SUCCESS, inst\<lparr>agent_id := slice 0 16 req, agent_pubkey := slice 16 npub req,
                     agent_privkey := slice (16 + npub) npriv req\<rparr>));
          (r, out) = auth_service_decode_and_dispatch_write_status malloc_ok write_ok AUTHSERVICE_API_METHOD_INITIALIZE 0 st None
      in (r, out, inst))"

definition auth_service_decode_and_dispatch ::
  "bool \<Rightarrow> bool \<Rightarrow> auth_service_instance \<Rightarrow> bytes \<Rightarrow> status \<times> bytes list \<times> auth_service_instance" where
  "auth_service_decode_and_dispatch malloc_ok write_ok inst req =
     (if length req < 4 then (AGENTD_ERROR_AUTHSERVICE_REQUEST_PACKET_INVALID_SIZE, [], inst) else
      let method = of_net32 (take 4 req) in
      if method = AUTHSERVICE_API_METHOD_INITIALIZE
      then auth_service_decode_and_dispatch_initialize malloc_ok write_ok inst (drop 4 req)
      else (AGENTD_ERROR_AUTHSERVICE_REQUEST_PACKET_BAD,
            snd (auth_service_decode_and_dispatch_write_status malloc_ok write_ok method 0
                   AGENTD_ERROR_AUTHSERVICE_REQUEST_PACKET_BAD None), inst))"

subsection \<open>Callbacks\<close>

definition auth_handler :: "(nat \<Rightarrow> bool) \<Rightarrow> auth_service_instance handler" where
  "auth_handler malloc i w inst req = Some (auth_service_decode_and_dispatch (malloc i) w inst req)"

definition auth_service_ipc_read ::
  "'s evsock \<Rightarrow> (nat \<Rightarrow> bool) \<Rightarrow> (nat \<Rightarrow> bool) \<Rightarrow> nat \<Rightarrow> (auth_service_instance, 's) service_loop \<Rightarrow>
     (nat \<times> (auth_service_instance, 's) service_loop) option" where
  "auth_service_ipc_read ev resp_malloc malloc i st =
     service_ipc_read (auth_handler resp_malloc) auth_service_force_exit auth_service_force_quit ev malloc i st"

definition auth_service_ipc_write ::
  "'s evsock \<Rightarrow> bool \<Rightarrow> (auth_service_instance, 's) service_loop \<Rightarrow> (auth_service_instance, 's) service_loop" where
  "auth_service_ipc_write ev would_block st = service_ipc_write auth_service_force_quit ev would_block st"

subsection \<open>Client calls\<close>

definition auth_initialize_request :: "bytes \<Rightarrow> bytes \<Rightarrow> bytes \<Rightarrow> bytes" where
  "auth_initialize_request ident pub_key priv_key = net32 AUTHSERVICE_API_METHOD_INITIALIZE @ ident @ pub_key @ priv_key"

definition auth_service_api_sendreq_initialize ::
  "'s evsock \<Rightarrow> bool \<Rightarrow> bytes \<Rightarrow> bytes \<Rightarrow> bytes \<Rightarrow> 's \<Rightarrow> status \<times> 's" where
  "auth_service_api_sendreq_initialize ev malloc_ok ident pub_key priv_key sock =
     (if \<not> malloc_ok then (AGENTD_ERROR_GENERAL_OUT_OF_MEMORY, sock) else
      write_request AGENTD_ERROR_AUTHSERVICE_IPC_WRITE_DATA_FAILURE ev (auth_initialize_request ident pub_key priv_key) sock)"

definition auth_service_api_sendreq_initialize_block ::
  "bool \<Rightarrow> bytes \<Rightarrow> bytes \<Rightarrow> bytes \<Rightarrow> ipc_fd \<Rightarrow> status \<times> ipc_fd" where
  "auth_service_api_sendreq_initialize_block malloc_ok ident pub_key priv_key sock =
     (if \<not> malloc_ok then (AGENTD_ERROR_GENERAL_OUT_OF_MEMORY, sock) else
      case ipc_write_data_block (auth_initialize_request ident pub_key priv_key) sock of (r, sock) \<Rightarrow>
      (if r \<noteq> AGENTD_STATUS_SUCCESS then AGENTD_ERROR_AUTHSERVICE_IPC_WRITE_DATA_FAILURE else r, sock))"

definition auth_initialize_response :: "bytes \<Rightarrow> unit api_result" where
  "auth_initialize_response val =
     (if length val \<noteq> 12 then api_error AGENTD_ERROR_AUTHSERVICE_RECVRESP_UNEXPECTED_DATA_PACKET_SIZE else
      if of_net32 (take 4 val) \<noteq> AUTHSERVICE_API_METHOD_INITIALIZE
      then api_error AGENTD_ERROR_AUTHSERVICE_RECVRESP_UNEXPECTED_METHOD_CODE else
      \<lparr> api_retval = AGENTD_STATUS_SUCCESS, api_header = Some (of_net32 (slice 4 4 val), of_net32 (slice 8 4 val)),
        api_payload = None \<rparr>)"

definition auth_service_api_recvresp_initialize :: "'s evsock \<Rightarrow> bool \<Rightarrow> 's \<Rightarrow> unit api_result \<times> 's" where
  "auth_service_api_recvresp_initialize ev read_malloc sock =
     read_response AGENTD_ERROR_AUTHSERVICE_IPC_READ_DATA_FAILURE ev read_malloc auth_initialize_response sock"

definition auth_service_api_recvresp_initialize_block :: "bool \<Rightarrow> ipc_fd \<Rightarrow> unit api_result \<times> ipc_fd" where
  "auth_service_api_recvresp_initialize_block read_malloc sock =
     (case ipc_read_data_block read_malloc sock of
        (Inl st, sock) \<Rightarrow> (api_error AGENTD_ERROR_AUTHSERVICE_IPC_READ_DATA_FAILURE, sock)
      | (Inr val, sock) \<Rightarrow> (auth_initialize_response val, sock))"

subsection \<open>Initialising the service over a connection\<close>

lemma auth_handler_one: "auth_handler malloc i w inst req = Some (r, out, inst') \<Longrightarrow> length out \<le> 1"
  by (auto simp: auth_handler_def auth_service_decode_and_dispatch_def auth_service_decode_and_dispatch_initialize_def
      auth_service_decode_and_dispatch_write_status_def Let_def split: prod.splits if_splits)

interpretation mem_auth: mem_service "auth_handler resp_malloc" auth_service_force_exit auth_service_force_quit
    "auth_service_ipc_write mem_evsock would_block" for resp_malloc would_block
  by unfold_locales (auto simp: auth_service_ipc_write_def [abs_def] service_ipc_write_flushes dest: auth_handler_one)

definition auth_initialize_call ::
  "(bytes \<Rightarrow> bytes list) \<Rightarrow> bytes \<Rightarrow> bytes \<Rightarrow> bytes \<Rightarrow> auth_service_instance rpc \<Rightarrow>
     (unit api_result \<times> auth_service_instance rpc) option" where
  "auth_initialize_call chop ident pub_key priv_key st =
     exchange (auth_service_ipc_read mem_evsock (\<lambda>_. True) (\<lambda>_. True)) (auth_service_ipc_write mem_evsock False) chop
       (auth_service_api_sendreq_initialize mem_evsock True ident pub_key priv_key)
       (auth_service_api_recvresp_initialize mem_evsock True) st"

definition auth_initialized :: "bytes \<Rightarrow> bytes \<Rightarrow> bytes \<Rightarrow> auth_service_instance \<Rightarrow> auth_service_instance" where
  "auth_initialized ident pub_key priv_key inst =
     inst\<lparr>agent_id := ident, agent_pubkey := pub_key, agent_privkey := priv_key\<rparr>"

lemma auth_dispatch:
  assumes "length ident = 16" and "length pub_key = length (agent_pubkey inst)" and "length priv_key = length (agent_privkey inst)"
  shows "auth_handler (\<lambda>_. True) i True inst (auth_initialize_request ident pub_key priv_key) =
     Some (AGENTD_STATUS_SUCCESS, [response_packet 0 0 AGENTD_STATUS_SUCCESS None], auth_initialized ident pub_key priv_key inst)"
  using assms by (simp add: auth_handler_def auth_service_decode_and_dispatch_def auth_initialize_request_def Let_def
      auth_service_decode_and_dispatch_initialize_def auth_service_decode_and_dispatch_write_status_def auth_initialized_def slice_append_right)

lemma auth_dispatch_size:
  assumes "length ident + length pub_key + length priv_key \<noteq> 16 + length (agent_pubkey inst) + length (agent_privkey inst)"
  shows "auth_handler (\<lambda>_. True) i True inst (auth_initialize_request ident pub_key priv_key) =
     Some (AGENTD_STATUS_SUCCESS, [response_packet 0 0 AGENTD_ERROR_AUTHSERVICE_REQUEST_PACKET_INVALID_SIZE None], inst)"
  using assms by (simp add: auth_handler_def auth_service_decode_and_dispatch_def auth_initialize_request_def Let_def
      auth_service_decode_and_dispatch_initialize_def auth_service_decode_and_dispatch_write_status_def)

lemma auth_call:
  assumes "cuts chop" and idle: "rpc_idle auth_service_force_exit st"
    and size: "length ident + length pub_key + length priv_key < 2 ^ 30 - 4"
    and h: "auth_handler (\<lambda>_. True) 0 True (loop_inst (rpc_server st)) (auth_initialize_request ident pub_key priv_key) =
      Some (AGENTD_STATUS_SUCCESS, [response_packet 0 0 sc None], inst')" and run: "\<not> auth_service_force_exit inst'"
  shows "\<exists>st'. auth_initialize_call chop ident pub_key priv_key st =
      Some (\<lparr> api_retval = AGENTD_STATUS_SUCCESS, api_header = Some (0, sc), api_payload = None \<rparr>, st') \<and>
     rpc_idle auth_service_force_exit st' \<and> loop_inst (rpc_server st') = inst'"
proof -
  have p: "packet_ok (auth_initialize_request ident pub_key priv_key)" "packet_ok (response_packet 0 0 sc None)"
    using size by (simp_all add: packet_ok_def auth_initialize_request_def)
  have r: "auth_initialize_response (response_packet 0 0 sc None) =
      \<lparr> api_retval = AGENTD_STATUS_SUCCESS, api_header = Some (0, sc), api_payload = None \<rparr>"
    by (simp add: auth_initialize_response_def response_packet_def)
  have "api_retval (auth_initialize_response (response_packet 0 0 sc None)) \<noteq> AGENTD_ERROR_IPC_WOULD_BLOCK" by (simp add: r)
  from mem_auth.exchange_reply [where malloc = "\<lambda>_. True" and process = auth_initialize_response, OF assms(1) idle p(1) _ h p(2) run this]
  show ?thesis
    by (simp add: auth_initialize_call_def auth_service_ipc_read_def [abs_def] auth_service_api_sendreq_initialize_def [abs_def]
        auth_service_api_recvresp_initialize_def [abs_def] r)
qed

subsection \<open>Properties\<close>

text \<open>
  C7. Initialising the authentication service over a connection stores exactly the
  identity and the two keys the client sent and reports success, when they have the
  sizes the crypto suite fixed; when the total size is another one the service reports
  an invalid size and keeps what it had.  In both cases the service goes on, however
  the packets are cut into fragments.
\<close>

theorem auth_initialize_stores_keys:
  assumes "cuts chop" and "rpc_idle auth_service_force_exit st" and "loop_inst (rpc_server st) = inst"
    and "length ident + length pub_key + length priv_key < 2 ^ 30 - 4"
  shows "(length ident = 16 \<and> length pub_key = length (agent_pubkey inst) \<and> length priv_key = length (agent_privkey inst) \<longrightarrow>
      (\<exists>st'. auth_initialize_call chop ident pub_key priv_key st =
        Some (\<lparr> api_retval = AGENTD_STATUS_SUCCESS, api_header = Some (0, AGENTD_STATUS_SUCCESS), api_payload = None \<rparr>, st') \<and>
       rpc_idle auth_service_force_exit st' \<and>
       loop_inst (rpc_server st') = inst\<lparr>agent_id := ident, agent_pubkey := pub_key, agent_privkey := priv_key\<rparr>)) \<and>
     (length ident + length pub_key + length priv_key \<noteq> 16 + length (agent_pubkey inst) + length (agent_privkey inst) \<longrightarrow>
      (\<exists>st'. auth_initialize_call chop ident pub_key priv_key st =
        Some (\<lparr> api_retval = AGENTD_STATUS_SUCCESS, api_header = Some (0, AGENTD_ERROR_AUTHSERVICE_REQUEST_PACKET_INVALID_SIZE),
          api_payload = None \<rparr>, st') \<and>
       rpc_idle auth_service_force_exit st' \<and> loop_inst (rpc_server st') = inst))"
proof -
  have "\<not> auth_service_force_exit inst" using assms(2,3) by (simp add: rpc_idle_def)
  then show ?thesis
    using auth_call [OF assms(1,2,4)] auth_dispatch [of ident pub_key inst priv_key] auth_dispatch_size [of ident pub_key priv_key inst] assms(3)
    by (auto simp: auth_initialized_def)
qed

theorem auth_initialize_stores_keys_witness:
  "\<exists>st'. auth_initialize_call (map (\<lambda>b. [b])) (replicate 16 7) [1, 2] [3]
      \<lparr> rpc_client = \<lparr> m_rbuf = [], m_wbuf = [], m_fragments = [], m_sent = [] \<rparr>,
        rpc_server = \<lparr> loop_inst = \<lparr> auth_service_force_exit = False, agent_id = replicate 16 0, agent_pubkey = [0, 0], agent_privkey = [0] \<rparr>,
          loop_sock = \<lparr> m_rbuf = [], m_wbuf = [], m_fragments = [], m_sent = [] \<rparr>, write_cb = False, loop_exit = False \<rparr> \<rparr> =
      Some (\<lparr> api_retval = AGENTD_STATUS_SUCCESS, api_header = Some (0, AGENTD_STATUS_SUCCESS), api_payload = None \<rparr>, st') \<and>
     agent_privkey (loop_inst (rpc_server st')) = [3]"
proof -
  let ?sock = "\<lparr> m_rbuf = [], m_wbuf = [], m_fragments = [], m_sent = [] \<rparr>"
  let ?inst = "\<lparr> auth_service_force_exit = False, agent_id = replicate 16 0, agent_pubkey = [0, 0], agent_privkey = [0] \<rparr>"
  let ?st = "\<lparr> rpc_client = ?sock, rpc_server = \<lparr> loop_inst = ?inst, loop_sock = ?sock, write_cb = False, loop_exit = False \<rparr> \<rparr>"
  have i: "rpc_idle auth_service_force_exit ?st" "loop_inst (rpc_server ?st) = ?inst" by (simp_all add: rpc_idle_def sock_idle_def)
  have l: "length (replicate 16 (7 :: byte)) + length [1 :: byte, 2] + length [3 :: byte] < 2 ^ 30 - 4" by simp
  have "length (replicate 16 (7 :: byte)) = 16 \<and> length [1 :: byte, 2] = length (agent_pubkey ?inst) \<and>
      length [3 :: byte] = length (agent_privkey ?inst)" by simp
  from auth_initialize_stores_keys [OF cuts_bytes i l, THEN conjunct1, rule_format, OF this]
  obtain st' where "auth_initialize_call (map (\<lambda>b. [b])) (replicate 16 7) [1, 2] [3] ?st =
      Some (\<lparr> api_retval = AGENTD_STATUS_SUCCESS, api_header = Some (0, AGENTD_STATUS_SUCCESS), api_payload = None \<rparr>, st')"
    and "agent_privkey (loop_inst (rpc_server st')) = [3]" by auto
  then show ?thesis by blast
qed

end
