(* ===== verification/Notify_Codec.thy ===== *)
theory Notify_Codec
  imports Connection Service_Status Bitcap
begin

text \<open>
  The protocol of the notification service (\<^verbatim>\<open>src/src/notificationservice\<close>): the encoders
  and decoders of requests and responses, and the client calls.  \<open>alloc_st\<close> is the status
  of the allocation of a buffer; pointer arguments are valid.
\<close>

abbreviation (input) AGENTD_NOTIFICATIONSERVICE_API_METHOD_ID_REDUCE_CAPS :: "32 word" where
  "AGENTD_NOTIFICATIONSERVICE_API_METHOD_ID_REDUCE_CAPS \<equiv> 0"
abbreviation (input) AGENTD_NOTIFICATIONSERVICE_API_METHOD_ID_BLOCK_UPDATE :: "32 word" where
  "AGENTD_NOTIFICATIONSERVICE_API_METHOD_ID_BLOCK_UPDATE \<equiv> 1"
abbreviation (input) AGENTD_NOTIFICATIONSERVICE_API_METHOD_ID_BLOCK_ASSERTION :: "32 word" where
  "AGENTD_NOTIFICATIONSERVICE_API_METHOD_ID_BLOCK_ASSERTION \<equiv> 2"
abbreviation (input) AGENTD_NOTIFICATIONSERVICE_API_METHOD_ID_BLOCK_ASSERTION_CANCEL :: "32 word" where
  "AGENTD_NOTIFICATIONSERVICE_API_METHOD_ID_BLOCK_ASSERTION_CANCEL \<equiv> 3"

abbreviation (input) NOTIFICATIONSERVICE_API_CAP_REDUCE_CAPS :: nat where "NOTIFICATIONSERVICE_API_CAP_REDUCE_CAPS \<equiv> 0"
abbreviation (input) NOTIFICATIONSERVICE_API_CAP_BLOCK_UPDATE :: nat where "NOTIFICATIONSERVICE_API_CAP_BLOCK_UPDATE \<equiv> 1"
abbreviation (input) NOTIFICATIONSERVICE_API_CAP_BLOCK_ASSERTION :: nat where "NOTIFICATIONSERVICE_API_CAP_BLOCK_ASSERTION \<equiv> 2"
abbreviation (input) NOTIFICATIONSERVICE_API_CAP_BLOCK_ASSERTION_CANCEL :: nat where
  "NOTIFICATIONSERVICE_API_CAP_BLOCK_ASSERTION_CANCEL \<equiv> 3"
abbreviation (input) NOTIFICATIONSERVICE_API_CAP_BITS_MAX :: nat where "NOTIFICATIONSERVICE_API_CAP_BITS_MAX \<equiv> 4"

subsection \<open>Encoding and decoding\<close>

definition notificationservice_api_encode_request :: "status \<Rightarrow> 32 word \<Rightarrow> 64 word \<Rightarrow> bytes \<Rightarrow> status + bytes" where
  "notificationservice_api_encode_request alloc_st method_id offset payload =
     (if alloc_st \<noteq> AGENTD_STATUS_SUCCESS then Inl alloc_st else Inr (net32 method_id @ net64 offset @ payload))"

definition notificationservice_api_decode_request :: "bytes \<Rightarrow> status + 32 word \<times> 64 word \<times> bytes" where
  "notificationservice_api_decode_request buf =
     (if length buf < 12 then Inl AGENTD_ERROR_NOTIFICATIONSERVICE_API_BAD_ARGUMENT
      else Inr (of_net32 (slice 0 4 buf), of_net64 (slice 4 8 buf), drop 12 buf))"

definition notificationservice_api_encode_response ::
  "status \<Rightarrow> 32 word \<Rightarrow> 32 word \<Rightarrow> 64 word \<Rightarrow> bytes \<Rightarrow> status + bytes" where
  "notificationservice_api_encode_response alloc_st method_id status_code offset payload =
     (if alloc_st \<noteq> AGENTD_STATUS_SUCCESS then Inl alloc_st
      else Inr (net32 method_id @ net64 offset @ net32 status_code @ payload))"

definition notificationservice_api_decode_response :: "bytes \<Rightarrow> status + 32 word \<times> 32 word \<times> 64 word \<times> bytes" where
  "notificationservice_api_decode_response buf =
     (if length buf < 16 then Inl AGENTD_ERROR_NOTIFICATIONSERVICE_API_BAD_ARGUMENT
      else Inr (of_net32 (slice 0 4 buf), of_net32 (slice 12 4 buf), of_net64 (slice 4 8 buf), drop 16 buf))"

subsection \<open>Client calls\<close>

text \<open>Encode, write and release the buffer.\<close>

definition notify_sendreq :: "'s psock_ops \<Rightarrow> status \<Rightarrow> 32 word \<Rightarrow> 64 word \<Rightarrow> bytes \<Rightarrow> 's \<Rightarrow> status \<times> 's" where
  "notify_sendreq ps alloc_st method_id offset payload sock =
     (case notificationservice_api_encode_request alloc_st method_id offset payload of
        Inl st \<Rightarrow> (st, sock)
      | Inr buf \<Rightarrow>
          (case psock_write_boxed_data ps buf sock of (r, sock) \<Rightarrow>
           case rcpr_allocator_reclaim ps sock of (release_retval, sock) \<Rightarrow>
           (if release_retval \<noteq> AGENTD_STATUS_SUCCESS then release_retval else r, sock)))"

definition notificationservice_api_sendreq_reduce_caps ::
  "'s psock_ops \<Rightarrow> status \<Rightarrow> 64 word \<Rightarrow> bytes \<Rightarrow> 's \<Rightarrow> status \<times> 's" where
  "notificationservice_api_sendreq_reduce_caps ps alloc_st offset caps sock =
     (if length caps \<noteq> 4 then (AGENTD_ERROR_NOTIFICATIONSERVICE_API_BAD_ARGUMENT, sock) else
      notify_sendreq ps alloc_st AGENTD_NOTIFICATIONSERVICE_API_METHOD_ID_REDUCE_CAPS offset caps sock)"

definition notificationservice_api_sendreq_block_update ::
  "'s psock_ops \<Rightarrow> status \<Rightarrow> 64 word \<Rightarrow> bytes \<Rightarrow> 's \<Rightarrow> status \<times> 's" where
  "notificationservice_api_sendreq_block_update ps alloc_st offset block_id sock =
     notify_sendreq ps alloc_st AGENTD_NOTIFICATIONSERVICE_API_METHOD_ID_BLOCK_UPDATE offset block_id sock"

definition notificationservice_api_sendreq_block_assertion ::
  "'s psock_ops \<Rightarrow> status \<Rightarrow> 64 word \<Rightarrow> bytes \<Rightarrow> 's \<Rightarrow> status \<times> 's" where
  "notificationservice_api_sendreq_block_assertion ps alloc_st offset block_id sock =
     notify_sendreq ps alloc_st AGENTD_NOTIFICATIONSERVICE_API_METHOD_ID_BLOCK_ASSERTION offset block_id sock"

definition notificationservice_api_sendreq_assertion_cancel ::
  "'s psock_ops \<Rightarrow> status \<Rightarrow> 64 word \<Rightarrow> 's \<Rightarrow> status \<times> 's" where
  "notificationservice_api_sendreq_assertion_cancel ps alloc_st offset sock =
     notify_sendreq ps alloc_st AGENTD_NOTIFICATIONSERVICE_API_METHOD_ID_BLOCK_ASSERTION_CANCEL offset [] sock"

definition notificationservice_api_recvresp :: "'s psock_ops \<Rightarrow> 's \<Rightarrow> (status + bytes) \<times> 's" where
  "notificationservice_api_recvresp ps sock = psock_read_boxed_data ps sock"

subsection \<open>Round trips\<close>

text \<open>
  Requests and responses of the notification service survive encoding and
  decoding: the decoder gives back the method, the offset, the status and the payload
  that the encoder was given, and encoding what was decoded gives the packet back.
\<close>

theorem notify_codec_roundtrip:
  "(case notificationservice_api_encode_request 0 m off p of Inl _ \<Rightarrow> False | Inr b \<Rightarrow>
      notificationservice_api_decode_request b = Inr (m, off, p)) \<and>
   (case notificationservice_api_encode_response 0 m st off p of Inl _ \<Rightarrow> False | Inr b \<Rightarrow>
      notificationservice_api_decode_response b = Inr (m, st, off, p)) \<and>
   (case notificationservice_api_decode_request buf of Inl _ \<Rightarrow> length buf < 12 | Inr (m, off, p) \<Rightarrow>
      notificationservice_api_encode_request 0 m off p = Inr buf) \<and>
   (case notificationservice_api_decode_response buf of Inl _ \<Rightarrow> length buf < 16 | Inr (m, st, off, p) \<Rightarrow>
      notificationservice_api_encode_response 0 m st off p = Inr buf)"
proof -
  have q: "slice 0 4 buf @ slice 4 8 buf @ drop 12 buf = buf" if "12 \<le> length buf"
    using slice_concat [of 0 4 buf 8] that by (simp add: slice_def flip: append_assoc)
  have r: "slice 0 4 buf @ slice 4 8 buf @ slice 12 4 buf @ drop 16 buf = buf" if "16 \<le> length buf"
    using slice_concat [of 0 4 buf 8] slice_concat [of 0 12 buf 4] that by (simp add: slice_def flip: append_assoc)
  show ?thesis using q r
    by (simp add: notificationservice_api_encode_request_def notificationservice_api_decode_request_def
        notificationservice_api_encode_response_def notificationservice_api_decode_response_def net32_of_net32 net64_of_net64 min_def)
qed

end
