(* ===== verification/Notify_Service.thy ===== *)
theory Notify_Service
  imports Notify_Codec "HOL-Library.RBT"
begin

text \<open>
  The notification service (\<^verbatim>\<open>src/src/notificationservice\<close>).  The canonization service
  tells it the identifier of the latest block; the protocol service asserts what it
  believes the latest block to be, and is told when that is wrong, at once or when
  a later block is made.  An instance is one end of the service: its capabilities, the
  offsets of the assertions that wait, in a red-black tree, and its outbound mailbox,
  whose packets a fiber writes to the socket in order.

  A handler reads and changes what the fibers share before it sends its first
  response, and a fiber can only be resumed when another sends or reads; a handler is
  therefore one function of the context.  Trees, lists, allocators and messages are
  those of the process runtime library.  The calls of the tree are the parameter
  \<open>rbtree_ops\<close>; the results of the other calls of a request are in \<open>notify_env\<close>, whose
  functions take the number of the response, or of the instance, within the request.
\<close>

record 't rbtree_ops =
  rbtree_create :: "status + 't"
  rbtree_insert :: "64 word \<Rightarrow> 't \<Rightarrow> status \<times> 't"
  rbtree_delete :: "64 word \<Rightarrow> 't \<Rightarrow> status \<times> 't"
  rbtree_inorder :: "'t \<Rightarrow> 64 word list"
  ERROR_RBTREE_NOT_FOUND :: status

record send_env =
  encode_st :: status
  payload_st :: status
  message_st :: status
  send_st :: status
  release_st :: status

record notify_env =
  resp_env :: "nat \<Rightarrow> send_env"
  entry_alloc_st :: status
  entry_release_st :: status
  slist_create_st :: status
  slist_head_st :: status
  slist_node_child_st :: "nat \<Rightarrow> status"
  slist_append_tail_st :: "nat \<Rightarrow> status"
  slist_node_next_st :: "nat \<Rightarrow> status"
  work_head_st :: status
  work_child_st :: "nat \<Rightarrow> status"
  work_next_st :: "nat \<Rightarrow> status"
  tree_release_st :: status
  list_release_st :: status
  buf_reclaim_st :: status

record 't notificationservice_instance =
  notify_caps :: bitcap
  assertions :: 't
  outbound :: "bytes list"

record 't notificationservice_context =
  latest_block_id :: bytes
  instances :: "'t notificationservice_instance list"
  quiesce :: bool
  terminate :: bool

text \<open>A failed release replaces the status.\<close>

definition released :: "status \<Rightarrow> status \<Rightarrow> status" where
  "released release_retval retval = (if release_retval \<noteq> AGENTD_STATUS_SUCCESS then release_retval else retval)"

subsection \<open>Creation\<close>

definition notificationservice_context_create :: "status \<Rightarrow> status \<Rightarrow> status \<Rightarrow> status + 't notificationservice_context" where
  "notificationservice_context_create alloc_st list_st release_retval =
     (if alloc_st \<noteq> AGENTD_STATUS_SUCCESS then Inl alloc_st else
      if list_st \<noteq> AGENTD_STATUS_SUCCESS then Inl (released release_retval list_st) else
      Inr \<lparr> latest_block_id = replicate 16 0, instances = [], quiesce = False, terminate = False \<rparr>)"

definition notificationservice_assertion_rbtree_create :: "'t rbtree_ops \<Rightarrow> status + 't" where
  "notificationservice_assertion_rbtree_create ops = rbtree_create ops"

definition notificationservice_instance_create :: "'t rbtree_ops \<Rightarrow> status \<Rightarrow> status \<Rightarrow> status + 't notificationservice_instance" where
  "notificationservice_instance_create ops alloc_st release_retval =
     (if alloc_st \<noteq> AGENTD_STATUS_SUCCESS then Inl alloc_st else
      case notificationservice_assertion_rbtree_create ops of
        Inl st \<Rightarrow> Inl (released release_retval st)
      | Inr t \<Rightarrow>
          Inr \<lparr> notify_caps = BITCAP_INIT_TRUE (replicate (BITCAP_WORDS NOTIFICATIONSERVICE_API_CAP_BITS_MAX) 0),
                assertions = t, outbound = [] \<rparr>)"

definition notificationservice_context_add_instance ::
  "status \<Rightarrow> 't notificationservice_context \<Rightarrow> 't notificationservice_instance \<Rightarrow> status \<times> 't notificationservice_context" where
  "notificationservice_context_add_instance append_st ctx inst =
     (append_st, if append_st = AGENTD_STATUS_SUCCESS then ctx\<lparr>instances := instances ctx @ [inst]\<rparr> else ctx)"

subsection \<open>Responses\<close>

text \<open>
  A response is a packet in a payload in a message; what has been created is released
  again on an error, in reverse order.  \<open>i\<close> is the instance that gets the response and
  \<open>k\<close> the number of the response.
\<close>

definition notificationservice_protocol_outbound_endpoint_message_payload_create :: "status \<Rightarrow> bytes \<Rightarrow> status + bytes" where
  "notificationservice_protocol_outbound_endpoint_message_payload_create alloc_st data =
     (if alloc_st \<noteq> AGENTD_STATUS_SUCCESS then Inl alloc_st else Inr data)"

definition mailbox_append :: "nat \<Rightarrow> bytes \<Rightarrow> 't notificationservice_context \<Rightarrow> 't notificationservice_context" where
  "mailbox_append i buf ctx =
     ctx\<lparr>instances := (instances ctx)[i := (instances ctx ! i)\<lparr>outbound := outbound (instances ctx ! i) @ [buf]\<rparr>]\<rparr>"

definition notificationservice_protocol_send_response ::
  "send_env \<Rightarrow> nat \<Rightarrow> 32 word \<Rightarrow> 64 word \<Rightarrow> status \<Rightarrow> 't notificationservice_context \<Rightarrow> status \<times> 't notificationservice_context" where
  "notificationservice_protocol_send_response env i method_id offset status_code ctx =
     (case notificationservice_api_encode_response (encode_st env) method_id status_code offset [] of
        Inl st \<Rightarrow> (st, ctx)
      | Inr buf \<Rightarrow>
      case notificationservice_protocol_outbound_endpoint_message_payload_create (payload_st env) buf of
        Inl st \<Rightarrow> (released (release_st env) st, ctx)
      | Inr payload \<Rightarrow>
      if message_st env \<noteq> AGENTD_STATUS_SUCCESS then (released (release_st env) (message_st env), ctx) else
      if send_st env \<noteq> AGENTD_STATUS_SUCCESS then (released (release_st env) (send_st env), ctx) else
      (AGENTD_STATUS_SUCCESS, mailbox_append i payload ctx))"

text \<open>The end of a handler: the status is sent, and returned unless sending it fails.\<close>

definition report_status ::
  "send_env \<Rightarrow> nat \<Rightarrow> 32 word \<Rightarrow> 64 word \<Rightarrow> status \<Rightarrow> 't notificationservice_context \<Rightarrow> status \<times> 't notificationservice_context" where
  "report_status env i method_id offset retval ctx =
     (case notificationservice_protocol_send_response env i method_id offset retval ctx of (status_retval, ctx) \<Rightarrow>
      (if status_retval \<noteq> AGENTD_STATUS_SUCCESS then status_retval else retval, ctx))"

subsection \<open>Handlers\<close>

definition notificationservice_protocol_dispatch_reduce_caps ::
  "notify_env \<Rightarrow> nat \<Rightarrow> 64 word \<Rightarrow> bytes \<Rightarrow> 't notificationservice_context \<Rightarrow> status \<times> 't notificationservice_context" where
  "notificationservice_protocol_dispatch_reduce_caps env i offset payload ctx =
     (let inst = instances ctx ! i;
          (retval, ctx) =
            (if \<not> BITCAP_ISSET (notify_caps inst) NOTIFICATIONSERVICE_API_CAP_REDUCE_CAPS
             then (AGENTD_ERROR_NOTIFICATIONSERVICE_NOT_AUTHORIZED, ctx) else
             if length payload \<noteq> 4 then (AGENTD_ERROR_NOTIFICATIONSERVICE_MALFORMED_REQUEST, ctx) else
             (AGENTD_STATUS_SUCCESS,
              ctx\<lparr>instances := (instances ctx)[i := inst\<lparr>notify_caps := BITCAP_INTERSECT (notify_caps inst) [of_mem32 payload]\<rparr>]\<rparr>))
      in report_status (resp_env env 0) i AGENTD_NOTIFICATIONSERVICE_API_METHOD_ID_REDUCE_CAPS offset retval ctx)"

definition notificationservice_assertion_entry_add ::
  "'t rbtree_ops \<Rightarrow> notify_env \<Rightarrow> nat \<Rightarrow> 64 word \<Rightarrow> 't notificationservice_context \<Rightarrow> status \<times> 't notificationservice_context" where
  "notificationservice_assertion_entry_add ops env i offset ctx =
     (if entry_alloc_st env \<noteq> AGENTD_STATUS_SUCCESS then (entry_alloc_st env, ctx) else
      case rbtree_insert ops offset (assertions (instances ctx ! i)) of (st, t) \<Rightarrow>
      let ctx = ctx\<lparr>instances := (instances ctx)[i := (instances ctx ! i)\<lparr>assertions := t\<rparr>]\<rparr> in
      if st \<noteq> AGENTD_STATUS_SUCCESS then (released (entry_release_st env) st, ctx) else (AGENTD_STATUS_SUCCESS, ctx))"

text \<open>An assertion that is added gets no response yet.\<close>

definition notificationservice_protocol_dispatch_block_assertion ::
  "'t rbtree_ops \<Rightarrow> notify_env \<Rightarrow> nat \<Rightarrow> 64 word \<Rightarrow> bytes \<Rightarrow> 't notificationservice_context \<Rightarrow> status \<times> 't notificationservice_context" where
  "notificationservice_protocol_dispatch_block_assertion ops env i offset payload ctx =
     (let report = report_status (resp_env env 0) i AGENTD_NOTIFICATIONSERVICE_API_METHOD_ID_BLOCK_ASSERTION offset in
      if \<not> BITCAP_ISSET (notify_caps (instances ctx ! i)) NOTIFICATIONSERVICE_API_CAP_BLOCK_ASSERTION
      then report AGENTD_ERROR_NOTIFICATIONSERVICE_NOT_AUTHORIZED ctx else
      if length payload \<noteq> 16 then report AGENTD_ERROR_NOTIFICATIONSERVICE_MALFORMED_REQUEST ctx else
      if payload \<noteq> latest_block_id ctx then report AGENTD_STATUS_SUCCESS ctx else
      case notificationservice_assertion_entry_add ops env i offset ctx of (st, ctx) \<Rightarrow>
      if st \<noteq> AGENTD_STATUS_SUCCESS then report st ctx else (AGENTD_STATUS_SUCCESS, ctx))"

definition notificationservice_protocol_dispatch_block_assertion_cancel ::
  "'t rbtree_ops \<Rightarrow> notify_env \<Rightarrow> nat \<Rightarrow> 64 word \<Rightarrow> bytes \<Rightarrow> 't notificationservice_context \<Rightarrow> status \<times> 't notificationservice_context" where
  "notificationservice_protocol_dispatch_block_assertion_cancel ops env i offset payload ctx =
     (let report = report_status (resp_env env 0) i AGENTD_NOTIFICATIONSERVICE_API_METHOD_ID_BLOCK_ASSERTION_CANCEL offset in
      if \<not> BITCAP_ISSET (notify_caps (instances ctx ! i)) NOTIFICATIONSERVICE_API_CAP_BLOCK_ASSERTION
      then report AGENTD_ERROR_NOTIFICATIONSERVICE_NOT_AUTHORIZED ctx else
      if payload \<noteq> [] then report AGENTD_ERROR_NOTIFICATIONSERVICE_MALFORMED_REQUEST ctx else
      case rbtree_delete ops offset (assertions (instances ctx ! i)) of (st, t) \<Rightarrow>
      let ctx = ctx\<lparr>instances := (instances ctx)[i := (instances ctx ! i)\<lparr>assertions := t\<rparr>]\<rparr> in
      report (if st \<noteq> AGENTD_STATUS_SUCCESS \<and> st \<noteq> ERROR_RBTREE_NOT_FOUND ops then st else AGENTD_STATUS_SUCCESS) ctx)"

text \<open>
  A block update takes the tree of every instance away, leaving an empty one, and then
  answers the assertions of each tree in the order of their offsets.  \<open>j\<close> counts the
  instances; the trees taken before an error stay taken.
\<close>

fun take_assertions ::
  "'t rbtree_ops \<Rightarrow> notify_env \<Rightarrow> nat \<Rightarrow> 't notificationservice_instance list \<Rightarrow>
     status \<times> 't list \<times> 't notificationservice_instance list" where
  "take_assertions ops env j [] = (AGENTD_STATUS_SUCCESS, [], [])"
| "take_assertions ops env j (inst # insts) =
     (if slist_node_child_st env j \<noteq> AGENTD_STATUS_SUCCESS then (slist_node_child_st env j, [], inst # insts) else
      case notificationservice_assertion_rbtree_create ops of
        Inl st \<Rightarrow> (st, [], inst # insts)
      | Inr t \<Rightarrow>
          let taken = assertions inst; inst = inst\<lparr>assertions := t\<rparr> in
          if slist_append_tail_st env j \<noteq> AGENTD_STATUS_SUCCESS
          then (released (tree_release_st env) (slist_append_tail_st env j), [], inst # insts) else
          if slist_node_next_st env j \<noteq> AGENTD_STATUS_SUCCESS
          then (slist_node_next_st env j, [taken], inst # insts) else
          case take_assertions ops env (Suc j) insts of (st, ts, insts) \<Rightarrow> (st, taken # ts, inst # insts))"

fun notify_offsets ::
  "notify_env \<Rightarrow> nat \<Rightarrow> nat \<Rightarrow> 64 word list \<Rightarrow> 't notificationservice_context \<Rightarrow> status \<times> nat \<times> 't notificationservice_context" where
  "notify_offsets env k j [] ctx = (AGENTD_STATUS_SUCCESS, k, ctx)"
| "notify_offsets env k j (off # offs) ctx =
     (case notificationservice_protocol_send_response (resp_env env k) j
             AGENTD_NOTIFICATIONSERVICE_API_METHOD_ID_BLOCK_ASSERTION off AGENTD_STATUS_SUCCESS ctx of (st, ctx) \<Rightarrow>
      if st \<noteq> AGENTD_STATUS_SUCCESS then (st, Suc k, ctx) else notify_offsets env (Suc k) j offs ctx)"

fun notify_assertions ::
  "'t rbtree_ops \<Rightarrow> notify_env \<Rightarrow> nat \<Rightarrow> nat \<Rightarrow> 't list \<Rightarrow> 't notificationservice_context \<Rightarrow>
     status \<times> nat \<times> 't notificationservice_context" where
  "notify_assertions ops env k j [] ctx = (AGENTD_STATUS_SUCCESS, k, ctx)"
| "notify_assertions ops env k j (t # ts) ctx =
     (if work_child_st env j \<noteq> AGENTD_STATUS_SUCCESS then (work_child_st env j, k, ctx) else
      case notify_offsets env k j (rbtree_inorder ops t) ctx of (st, k, ctx) \<Rightarrow>
      if st \<noteq> AGENTD_STATUS_SUCCESS then (st, k, ctx) else
      if work_next_st env j \<noteq> AGENTD_STATUS_SUCCESS then (work_next_st env j, k, ctx) else
      notify_assertions ops env k (Suc j) ts ctx)"

definition notificationservice_protocol_dispatch_block_update ::
  "'t rbtree_ops \<Rightarrow> notify_env \<Rightarrow> nat \<Rightarrow> 64 word \<Rightarrow> bytes \<Rightarrow> 't notificationservice_context \<Rightarrow> status \<times> 't notificationservice_context" where
  "notificationservice_protocol_dispatch_block_update ops env i offset payload ctx =
     (let report = (\<lambda>k. report_status (resp_env env k) i AGENTD_NOTIFICATIONSERVICE_API_METHOD_ID_BLOCK_UPDATE offset) in
      if \<not> BITCAP_ISSET (notify_caps (instances ctx ! i)) NOTIFICATIONSERVICE_API_CAP_BLOCK_UPDATE
      then report 0 AGENTD_ERROR_NOTIFICATIONSERVICE_NOT_AUTHORIZED ctx else
      if length payload \<noteq> 16 then report 0 AGENTD_ERROR_NOTIFICATIONSERVICE_MALFORMED_REQUEST ctx else
      let ctx = ctx\<lparr>latest_block_id := payload\<rparr> in
      if slist_create_st env \<noteq> AGENTD_STATUS_SUCCESS then report 0 (slist_create_st env) ctx else
      if slist_head_st env \<noteq> AGENTD_STATUS_SUCCESS then report 0 (released (list_release_st env) (slist_head_st env)) ctx else
      case take_assertions ops env 0 (instances ctx) of (st, ts, insts) \<Rightarrow>
      let ctx = ctx\<lparr>instances := insts\<rparr> in
      if st \<noteq> AGENTD_STATUS_SUCCESS then report 0 (released (list_release_st env) st) ctx else
      if work_head_st env \<noteq> AGENTD_STATUS_SUCCESS then report 0 (released (list_release_st env) (work_head_st env)) ctx else
      case notify_assertions ops env 0 0 ts ctx of (st, k, ctx) \<Rightarrow>
      report k (released (list_release_st env) st) ctx)"

text \<open>\<open>read\<close> is the result of reading a packet from the socket of instance \<open>i\<close>.\<close>

definition notificationservice_protocol_read_decode_and_dispatch_packet ::
  "'t rbtree_ops \<Rightarrow> notify_env \<Rightarrow> nat \<Rightarrow> status + bytes \<Rightarrow> 't notificationservice_context \<Rightarrow> status \<times> 't notificationservice_context" where
  "notificationservice_protocol_read_decode_and_dispatch_packet ops env i read ctx =
     (case read of
        Inl st \<Rightarrow> (st, ctx)
      | Inr buf \<Rightarrow>
          (case notificationservice_api_decode_request buf of
             Inl st \<Rightarrow> (released (buf_reclaim_st env) st, ctx)
           | Inr (method_id, offset, payload) \<Rightarrow>
               (case (if method_id = AGENTD_NOTIFICATIONSERVICE_API_METHOD_ID_REDUCE_CAPS
                      then notificationservice_protocol_dispatch_reduce_caps env i offset payload ctx else
                      if method_id = AGENTD_NOTIFICATIONSERVICE_API_METHOD_ID_BLOCK_UPDATE
                      then notificationservice_protocol_dispatch_block_update ops env i offset payload ctx else
                      if method_id = AGENTD_NOTIFICATIONSERVICE_API_METHOD_ID_BLOCK_ASSERTION
                      then notificationservice_protocol_dispatch_block_assertion ops env i offset payload ctx else
                      if method_id = AGENTD_NOTIFICATIONSERVICE_API_METHOD_ID_BLOCK_ASSERTION_CANCEL
                      then notificationservice_protocol_dispatch_block_assertion_cancel ops env i offset payload ctx else
                      case notificationservice_protocol_send_response (resp_env env 0) i method_id offset
                             AGENTD_ERROR_NOTIFICATIONSERVICE_INVALID_REQUEST_ID ctx of (st, ctx) \<Rightarrow>
                      (if st = AGENTD_STATUS_SUCCESS then AGENTD_ERROR_NOTIFICATIONSERVICE_INVALID_REQUEST_ID else st, ctx))
                of (st, ctx) \<Rightarrow> (released (buf_reclaim_st env) st, ctx))))"

text \<open>
  The loop of the protocol fiber of instance \<open>i\<close> over the packets it reads; a status is
  returned when the loop is left, and then the process is asked to terminate.
\<close>

fun notificationservice_protocol_fiber_entry ::
  "'t rbtree_ops \<Rightarrow> (nat \<Rightarrow> notify_env) \<Rightarrow> nat \<Rightarrow> nat \<Rightarrow> (status + bytes) list \<Rightarrow> 't notificationservice_context \<Rightarrow>
     status option \<times> 't notificationservice_context" where
  "notificationservice_protocol_fiber_entry ops envs n i [] ctx =
     (if quiesce ctx \<or> terminate ctx then Some AGENTD_STATUS_SUCCESS else None, ctx)"
| "notificationservice_protocol_fiber_entry ops envs n i (r # rs) ctx =
     (if quiesce ctx \<or> terminate ctx then (Some AGENTD_STATUS_SUCCESS, ctx) else
      case notificationservice_protocol_read_decode_and_dispatch_packet ops (envs n) i r ctx of (st, ctx) \<Rightarrow>
      if st \<noteq> AGENTD_STATUS_SUCCESS then (Some st, ctx)
      else notificationservice_protocol_fiber_entry ops envs (Suc n) i rs ctx)"

text \<open>
  The fiber that writes the messages of a mailbox to the socket, over the results of
  receiving them, with the statuses of releasing a message and the context.
\<close>

fun notificationservice_protocol_outbound_endpoint_fiber_entry ::
  "'s psock_ops \<Rightarrow> status \<Rightarrow> status \<Rightarrow> bool \<Rightarrow> (status + bytes) list \<Rightarrow> 's \<Rightarrow> status option \<times> 's" where
  "notificationservice_protocol_outbound_endpoint_fiber_entry ps msg_release ctx_release terminating [] sock =
     (if terminating then Some (released ctx_release AGENTD_STATUS_SUCCESS) else None, sock)"
| "notificationservice_protocol_outbound_endpoint_fiber_entry ps msg_release ctx_release terminating (m # ms) sock =
     (if terminating then (Some (released ctx_release AGENTD_STATUS_SUCCESS), sock) else
      case m of
        Inl st \<Rightarrow> (Some (released ctx_release st), sock)
      | Inr payload \<Rightarrow>
          (case psock_write_boxed_data ps payload sock of (st, sock) \<Rightarrow>
           if st \<noteq> AGENTD_STATUS_SUCCESS then (Some (released ctx_release (released msg_release st)), sock) else
           if msg_release \<noteq> AGENTD_STATUS_SUCCESS then (Some (released ctx_release msg_release), sock) else
           notificationservice_protocol_outbound_endpoint_fiber_entry ps msg_release ctx_release terminating ms sock))"

text \<open>\<open>management\<close> and \<open>quiescing\<close> are the comparisons of the discipline and of the event.\<close>

definition notificationservice_fiber_unexpected_handler ::
  "status \<Rightarrow> bool \<Rightarrow> bool \<Rightarrow> 't notificationservice_context option \<Rightarrow> status \<times> 't notificationservice_context option" where
  "notificationservice_fiber_unexpected_handler invalid_state management quiescing ctx =
     (if management \<and> quiescing then (AGENTD_STATUS_SUCCESS, map_option (\<lambda>c. c\<lparr>quiesce := True\<rparr>) ctx)
      else (invalid_state, ctx))"

subsection \<open>The library's trees\<close>

text \<open>
  What the service relies on: a tree is traversed in the order of its keys, each once;
  inserting a key that is there fails; a call that fails changes nothing; deleting a
  key that is not there is reported as such.
\<close>

locale rbtree_container =
  fixes ops :: "'t rbtree_ops"
  assumes inorder: "sorted (rbtree_inorder ops t) \<and> distinct (rbtree_inorder ops t)"
    and create_empty: "rbtree_create ops = Inr t \<Longrightarrow> rbtree_inorder ops t = []"
    and insert_new: "rbtree_insert ops k t = (AGENTD_STATUS_SUCCESS, t') \<Longrightarrow>
      k \<notin> set (rbtree_inorder ops t) \<and> set (rbtree_inorder ops t') = insert k (set (rbtree_inorder ops t))"
    and insert_failed: "rbtree_insert ops k t = (st, t') \<Longrightarrow> st \<noteq> AGENTD_STATUS_SUCCESS \<Longrightarrow>
      rbtree_inorder ops t' = rbtree_inorder ops t"
    and delete_found: "rbtree_delete ops k t = (AGENTD_STATUS_SUCCESS, t') \<Longrightarrow>
      k \<in> set (rbtree_inorder ops t) \<and> set (rbtree_inorder ops t') = set (rbtree_inorder ops t) - {k}"
    and delete_failed: "rbtree_delete ops k t = (st, t') \<Longrightarrow> st \<noteq> AGENTD_STATUS_SUCCESS \<Longrightarrow>
      rbtree_inorder ops t' = rbtree_inorder ops t"
    and delete_absent: "rbtree_delete ops k t = (ERROR_RBTREE_NOT_FOUND ops, t') \<Longrightarrow> k \<notin> set (rbtree_inorder ops t)"
    and not_found: "ERROR_RBTREE_NOT_FOUND ops \<noteq> AGENTD_STATUS_SUCCESS"

text \<open>A library whose allocations succeed.\<close>

locale rbtree_reliable = rbtree_container +
  assumes create_ok: "\<exists>t. rbtree_create ops = Inr t"
    and insert_ok: "k \<notin> set (rbtree_inorder ops t) \<Longrightarrow> \<exists>t'. rbtree_insert ops k t = (AGENTD_STATUS_SUCCESS, t')"
    and delete_ok: "k \<in> set (rbtree_inorder ops t) \<Longrightarrow> \<exists>t'. rbtree_delete ops k t = (AGENTD_STATUS_SUCCESS, t')"
    and delete_missing: "k \<notin> set (rbtree_inorder ops t) \<Longrightarrow> \<exists>t'. rbtree_delete ops k t = (ERROR_RBTREE_NOT_FOUND ops, t')"

text \<open>The red-black trees of the HOL library, as an instance.\<close>

definition hol_rbtree :: "(64 word, unit) rbt rbtree_ops" where
  "hol_rbtree = \<lparr> rbtree_create = Inr RBT.empty,
     rbtree_insert = (\<lambda>k t. if RBT.lookup t k = None then (AGENTD_STATUS_SUCCESS, RBT.insert k () t) else (1, t)),
     rbtree_delete = (\<lambda>k t. if RBT.lookup t k = None then (2, t) else (AGENTD_STATUS_SUCCESS, RBT.delete k t)),
     rbtree_inorder = RBT.keys, ERROR_RBTREE_NOT_FOUND = 2 \<rparr>"

lemma rbt_keys_lookup: "k \<in> set (RBT.keys t) \<longleftrightarrow> RBT.lookup t k \<noteq> None"
  by (metis RBT.lookup_keys domIff)

interpretation hol_rb: rbtree_reliable hol_rbtree
  by unfold_locales
    (auto simp: hol_rbtree_def RBT.sorted_keys RBT.distinct_keys rbt_keys_lookup set_eq_iff split: if_splits)

end
