(* ===== verification/Notify_Correct.thy ===== *)
theory Notify_Correct
  imports Notify_Service
begin

text \<open>
  What the notification service promises its clients, as an abstract service: the latest
  block and the set of assertions that wait.  The handlers are shown to refine it,
  with the responses they put into every mailbox; from this, every assertion is
  answered exactly once.
\<close>

datatype notify_req =
    Block_update "64 word" bytes
  | Block_assertion "64 word" bytes
  | Assertion_cancel "64 word"

fun req_packet :: "notify_req \<Rightarrow> bytes" where
  "req_packet (Block_update off b) = net32 1 @ net64 off @ b"
| "req_packet (Block_assertion off b) = net32 2 @ net64 off @ b"
| "req_packet (Assertion_cancel off) = net32 3 @ net64 off"

definition resp_packet :: "32 word \<times> 64 word \<times> status \<Rightarrow> bytes" where
  "resp_packet r = (case r of (m, off, st) \<Rightarrow> net32 m @ net64 off @ net32 st)"

type_synonym notify_state = "bytes \<times> (nat \<times> 64 word) set"

fun spec_step :: "nat \<times> notify_req \<Rightarrow> notify_state \<Rightarrow> notify_state" where
  "spec_step (i, Block_update off b) (latest, W) = (b, {})"
| "spec_step (i, Block_assertion off b) (latest, W) = (latest, if b = latest then insert (i, off) W else W)"
| "spec_step (i, Assertion_cancel off) (latest, W) = (latest, W - {(i, off)})"

text \<open>The responses that instance \<open>j\<close> gets.\<close>

fun spec_out :: "nat \<Rightarrow> nat \<times> notify_req \<Rightarrow> notify_state \<Rightarrow> (32 word \<times> 64 word \<times> status) list" where
  "spec_out j (i, Block_update off b) (latest, W) =
     map (\<lambda>off. (2, off, 0)) (sorted_list_of_set {off. (j, off) \<in> W}) @ (if j = i then [(1, off, 0)] else [])"
| "spec_out j (i, Block_assertion off b) (latest, W) = (if j = i \<and> b \<noteq> latest then [(2, off, 0)] else [])"
| "spec_out j (i, Assertion_cancel off) (latest, W) = (if j = i then [(3, off, 0)] else [])"

text \<open>
  The requests the handlers serve: with the capability they check, a block identifier of
  16 bytes, and not the offset of an assertion that waits.  The handler of a cancel
  request checks the capability of an assertion; what the interface documents for it is
  \<open>doc_allowed\<close> below.
\<close>

fun spec_allowed :: "bitcap list \<Rightarrow> nat \<times> notify_req \<Rightarrow> notify_state \<Rightarrow> bool" where
  "spec_allowed caps (i, Block_update off b) (latest, W) \<longleftrightarrow>
     i < length caps \<and> BITCAP_ISSET (caps ! i) NOTIFICATIONSERVICE_API_CAP_BLOCK_UPDATE \<and> length b = 16"
| "spec_allowed caps (i, Block_assertion off b) (latest, W) \<longleftrightarrow>
     i < length caps \<and> BITCAP_ISSET (caps ! i) NOTIFICATIONSERVICE_API_CAP_BLOCK_ASSERTION \<and> length b = 16 \<and> (i, off) \<notin> W"
| "spec_allowed caps (i, Assertion_cancel off) (latest, W) \<longleftrightarrow>
     i < length caps \<and> BITCAP_ISSET (caps ! i) NOTIFICATIONSERVICE_API_CAP_BLOCK_ASSERTION"

definition waiting :: "'t rbtree_ops \<Rightarrow> 't notificationservice_context \<Rightarrow> (nat \<times> 64 word) set" where
  "waiting ops ctx = {(j, off). j < length (instances ctx) \<and> off \<in> set (rbtree_inorder ops (assertions (instances ctx ! j)))}"

definition notify_abs :: "'t rbtree_ops \<Rightarrow> 't notificationservice_context \<Rightarrow> notify_state" where
  "notify_abs ops ctx = (latest_block_id ctx, waiting ops ctx)"

definition all_caps :: "'t notificationservice_context \<Rightarrow> bitcap list" where
  "all_caps ctx = map notify_caps (instances ctx)"

definition send_ok :: send_env where
  "send_ok = \<lparr> encode_st = 0, payload_st = 0, message_st = 0, send_st = 0, release_st = 0 \<rparr>"

definition notify_ok :: notify_env where
  "notify_ok = \<lparr> resp_env = (\<lambda>_. send_ok), entry_alloc_st = 0, entry_release_st = 0, slist_create_st = 0, slist_head_st = 0,
     slist_node_child_st = (\<lambda>_. 0), slist_append_tail_st = (\<lambda>_. 0), slist_node_next_st = (\<lambda>_. 0), work_head_st = 0,
     work_child_st = (\<lambda>_. 0), work_next_st = (\<lambda>_. 0), tree_release_st = 0, list_release_st = 0, buf_reclaim_st = 0 \<rparr>"

subsection \<open>Responses\<close>

definition post :: "nat \<Rightarrow> (32 word \<times> 64 word \<times> status) list \<Rightarrow> 't notificationservice_context \<Rightarrow> 't notificationservice_context" where
  "post j rs ctx = ctx\<lparr>instances := (instances ctx)[j := (instances ctx ! j)\<lparr>outbound := outbound (instances ctx ! j) @ map resp_packet rs\<rparr>]\<rparr>"

lemma send_response_ok:
  "notificationservice_protocol_send_response send_ok i m off st ctx = (AGENTD_STATUS_SUCCESS, post i [(m, off, st)] ctx)"
  by (simp add: notificationservice_protocol_send_response_def send_ok_def notificationservice_api_encode_response_def
      notificationservice_protocol_outbound_endpoint_message_payload_create_def mailbox_append_def post_def resp_packet_def)

lemma report_status_ok: "report_status send_ok i m off st ctx = (st, post i [(m, off, st)] ctx)"
  by (simp add: report_status_def send_response_ok)

lemma post_post: "j < length (instances ctx) \<Longrightarrow> post j rs' (post j rs ctx) = post j (rs @ rs') ctx"
  by (simp add: post_def)

lemma nth_update_if: "xs[i := x] ! j = (if i = j \<and> i < length xs then x else xs ! j)"
  by (cases "i < length xs") (simp_all add: nth_list_update list_update_beyond)

lemma post_length [simp]: "length (instances (post j rs ctx)) = length (instances ctx)"
  by (simp add: post_def)

lemma post_latest [simp]: "latest_block_id (post j rs ctx) = latest_block_id ctx"
  by (simp add: post_def)

lemma post_caps [simp]: "all_caps (post j rs ctx) = all_caps ctx"
  unfolding all_caps_def by (rule nth_equalityI) (auto simp: post_def nth_update_if)

lemma post_waiting [simp]: "waiting ops (post j rs ctx) = waiting ops ctx"
  by (auto simp: waiting_def post_def nth_update_if split: if_splits)

lemma post_out:
  "k < length (instances ctx) \<Longrightarrow>
     outbound (instances (post j rs ctx) ! k) = outbound (instances ctx ! k) @ (if k = j then map resp_packet rs else [])"
  by (auto simp: post_def nth_list_update)

lemma notify_offsets_ok:
  "j < length (instances ctx) \<Longrightarrow>
     \<exists>k'. notify_offsets notify_ok k j offs ctx = (AGENTD_STATUS_SUCCESS, k', post j (map (\<lambda>off. (2, off, 0)) offs) ctx)"
proof (induction offs arbitrary: k ctx)
  case Nil
  then show ?case by (simp add: post_def)
next
  case (Cons off offs)
  have "j < length (instances (post j [(2, off, 0)] ctx))" using Cons.prems by simp
  from Cons.IH [OF this, of "Suc k"] show ?case
    using Cons.prems by (auto simp: notify_ok_def send_response_ok post_post)
qed

lemma notify_assertions_ok:
  assumes "j + length ts \<le> length (instances ctx)"
  shows "\<exists>k' ctx'. notify_assertions ops notify_ok k j ts ctx = (AGENTD_STATUS_SUCCESS, k', ctx') \<and>
     length (instances ctx') = length (instances ctx) \<and> latest_block_id ctx' = latest_block_id ctx \<and>
     all_caps ctx' = all_caps ctx \<and> waiting ops ctx' = waiting ops ctx \<and>
     (\<forall>m < length (instances ctx). outbound (instances ctx' ! m) = outbound (instances ctx ! m) @
        (if j \<le> m \<and> m < j + length ts then map (\<lambda>off. resp_packet (2, off, 0)) (rbtree_inorder ops (ts ! (m - j))) else []))"
  using assms
proof (induction ts arbitrary: j k ctx)
  case Nil
  then show ?case by (auto simp: not_le)
next
  case (Cons t ts)
  let ?c = "post j (map (\<lambda>off. (2, off, 0)) (rbtree_inorder ops t)) ctx"
  obtain k1 where o: "notify_offsets notify_ok k j (rbtree_inorder ops t) ctx = (AGENTD_STATUS_SUCCESS, k1, ?c)"
    using notify_offsets_ok [of j ctx k "rbtree_inorder ops t"] Cons.prems by auto
  obtain k' ctx' where ih: "notify_assertions ops notify_ok k1 (Suc j) ts ?c = (AGENTD_STATUS_SUCCESS, k', ctx')"
    "length (instances ctx') = length (instances ctx)" "latest_block_id ctx' = latest_block_id ctx"
    "all_caps ctx' = all_caps ctx" "waiting ops ctx' = waiting ops ctx"
    "\<forall>m < length (instances ctx). outbound (instances ctx' ! m) = outbound (instances ?c ! m) @
        (if Suc j \<le> m \<and> m < Suc j + length ts then map (\<lambda>off. resp_packet (2, off, 0)) (rbtree_inorder ops (ts ! (m - Suc j))) else [])"
    using Cons.IH [of "Suc j" ?c k1] Cons.prems by auto
  have "notify_assertions ops notify_ok k j (t # ts) ctx = (AGENTD_STATUS_SUCCESS, k', ctx')"
    using o ih(1) by (simp add: notify_ok_def)
  moreover have "outbound (instances ctx' ! m) = outbound (instances ctx ! m) @
        (if j \<le> m \<and> m < j + length (t # ts) then map (\<lambda>off. resp_packet (2, off, 0)) (rbtree_inorder ops ((t # ts) ! (m - j))) else [])"
    if "m < length (instances ctx)" for m
    using ih(6) that by (cases "m = j") (auto simp: post_out o_def nth_Cons' not_le)
  ultimately show ?case using ih by blast
qed

subsection \<open>One request\<close>

definition serve :: "'t rbtree_ops \<Rightarrow> nat \<times> notify_req \<Rightarrow> 't notificationservice_context \<Rightarrow> status \<times> 't notificationservice_context" where
  "serve ops r ctx = notificationservice_protocol_read_decode_and_dispatch_packet ops notify_ok (fst r) (Inr (req_packet (snd r))) ctx"

lemma released_ok [simp]: "released 0 st = st"
  by (simp add: released_def)

lemma notify_ok_sel [simp]:
  "resp_env notify_ok k = send_ok" "entry_alloc_st notify_ok = 0" "entry_release_st notify_ok = 0" "slist_create_st notify_ok = 0"
  "slist_head_st notify_ok = 0" "slist_node_child_st notify_ok k = 0" "slist_append_tail_st notify_ok k = 0"
  "slist_node_next_st notify_ok k = 0" "work_head_st notify_ok = 0" "work_child_st notify_ok k = 0" "work_next_st notify_ok k = 0"
  "tree_release_st notify_ok = 0" "list_release_st notify_ok = 0" "buf_reclaim_st notify_ok = 0"
  by (simp_all add: notify_ok_def)

lemma serve_simps:
  "serve ops (i, Block_update off b) ctx = notificationservice_protocol_dispatch_block_update ops notify_ok i off b ctx"
  "serve ops (i, Block_assertion off b) ctx = notificationservice_protocol_dispatch_block_assertion ops notify_ok i off b ctx"
  "serve ops (i, Assertion_cancel off) ctx = notificationservice_protocol_dispatch_block_assertion_cancel ops notify_ok i off [] ctx"
  by (simp_all add: serve_def notificationservice_protocol_read_decode_and_dispatch_packet_def
      notificationservice_api_decode_request_def split: prod.splits)

lemma take_assertions_ok:
  "rbtree_create ops = Inr t \<Longrightarrow>
     take_assertions ops notify_ok j insts = (AGENTD_STATUS_SUCCESS, map assertions insts, map (\<lambda>inst. inst\<lparr>assertions := t\<rparr>) insts)"
  by (induction insts arbitrary: j) (simp_all add: notificationservice_assertion_rbtree_create_def Let_def)

text \<open>Replacing the tree of one instance.\<close>

definition set_tree :: "nat \<Rightarrow> 't \<Rightarrow> 't notificationservice_context \<Rightarrow> 't notificationservice_context" where
  "set_tree i t ctx = ctx\<lparr>instances := (instances ctx)[i := (instances ctx ! i)\<lparr>assertions := t\<rparr>]\<rparr>"

lemma set_tree_sel [simp]:
  "length (instances (set_tree i t ctx)) = length (instances ctx)" "latest_block_id (set_tree i t ctx) = latest_block_id ctx"
  "outbound (instances (set_tree i t ctx) ! k) = outbound (instances ctx ! k)"
  by (simp_all add: set_tree_def nth_update_if)

lemma set_tree_caps [simp]: "all_caps (set_tree i t ctx) = all_caps ctx"
  unfolding all_caps_def by (rule nth_equalityI) (auto simp: set_tree_def nth_update_if)

lemma set_tree_assertions:
  "i < length (instances ctx) \<Longrightarrow> assertions (instances (set_tree i t ctx) ! k) = (if k = i then t else assertions (instances ctx ! k))"
  by (simp add: set_tree_def nth_update_if)

lemma set_tree_waiting:
  assumes "i < length (instances ctx)"
  shows "(j, off) \<in> waiting ops (set_tree i t ctx) \<longleftrightarrow>
     (if j = i then off \<in> set (rbtree_inorder ops t) else (j, off) \<in> waiting ops ctx)"
  using assms by (simp add: waiting_def set_tree_assertions)

lemma waiting_iff: "i < length (instances ctx) \<Longrightarrow>
  (i, off) \<in> waiting ops ctx \<longleftrightarrow> off \<in> set (rbtree_inorder ops (assertions (instances ctx ! i)))"
  by (simp add: waiting_def)

lemma waiting_of: "i < length (instances ctx) \<Longrightarrow>
  {off. (i, off) \<in> waiting ops ctx} = set (rbtree_inorder ops (assertions (instances ctx ! i)))"
  by (simp add: waiting_def)

definition step_ok :: "'t rbtree_ops \<Rightarrow> nat \<times> notify_req \<Rightarrow> 't notificationservice_context \<Rightarrow> 't notificationservice_context \<Rightarrow> bool" where
  "step_ok ops r ctx ctx' \<longleftrightarrow> notify_abs ops ctx' = spec_step r (notify_abs ops ctx) \<and> all_caps ctx' = all_caps ctx \<and>
     (\<forall>j < length (instances ctx).
        outbound (instances ctx' ! j) = outbound (instances ctx ! j) @ map resp_packet (spec_out j r (notify_abs ops ctx)))"

lemma all_caps_length: "all_caps ctx' = all_caps ctx \<Longrightarrow> length (instances ctx') = length (instances ctx)"
  by (metis all_caps_def length_map)

context rbtree_reliable
begin

lemma serve_update:
  assumes a: "spec_allowed (all_caps ctx) (i, Block_update off b) (notify_abs ops ctx)"
  shows "\<exists>ctx'. serve ops (i, Block_update off b) ctx = (AGENTD_STATUS_SUCCESS, ctx') \<and> step_ok ops (i, Block_update off b) ctx ctx'"
proof -
  have i: "i < length (instances ctx)" and cap: "BITCAP_ISSET (notify_caps (instances ctx ! i)) 1" and b: "length b = 16"
    using a by (auto simp: notify_abs_def all_caps_def)
  obtain t where t: "rbtree_create ops = Inr t" using create_ok by blast
  let ?n = "length (instances ctx)"
  let ?c = "ctx\<lparr>latest_block_id := b, instances := map (\<lambda>inst. inst\<lparr>assertions := t\<rparr>) (instances ctx)\<rparr>"
  obtain k ctx1 where na: "notify_assertions ops notify_ok 0 0 (map assertions (instances ctx)) ?c = (AGENTD_STATUS_SUCCESS, k, ctx1)"
    and len: "length (instances ctx1) = ?n" and lat: "latest_block_id ctx1 = b" and caps: "all_caps ctx1 = all_caps ?c"
    and w: "waiting ops ctx1 = waiting ops ?c"
    and out: "\<forall>m < ?n. outbound (instances ctx1 ! m) = outbound (instances ctx ! m) @
       map (\<lambda>off. resp_packet (2, off, 0)) (rbtree_inorder ops (assertions (instances ctx ! m)))"
    using notify_assertions_ok [of 0 "map assertions (instances ctx)" ?c ops 0] by auto
  have s: "serve ops (i, Block_update off b) ctx = (AGENTD_STATUS_SUCCESS, post i [(1, off, 0)] ctx1)"
    using cap b na by (simp add: serve_simps notificationservice_protocol_dispatch_block_update_def take_assertions_ok [OF t]
        report_status_ok Let_def)
  have "waiting ops ?c = {}" using create_empty [OF t] by (auto simp: waiting_def)
  moreover have "all_caps ?c = all_caps ctx" by (simp add: all_caps_def o_def)
  moreover have "sorted_list_of_set {off. (j, off) \<in> waiting ops ctx} = rbtree_inorder ops (assertions (instances ctx ! j))"
    if "j < ?n" for j
    using inorder that by (simp add: waiting_of sorted_list_of_set.idem_if_sorted_distinct)
  ultimately have "step_ok ops (i, Block_update off b) ctx (post i [(1, off, 0)] ctx1)"
    using w caps lat out i len by (simp add: step_ok_def notify_abs_def post_out o_def)
  with s show ?thesis by blast
qed

lemma serve_assertion:
  assumes a: "spec_allowed (all_caps ctx) (i, Block_assertion off b) (notify_abs ops ctx)"
  shows "\<exists>ctx'. serve ops (i, Block_assertion off b) ctx = (AGENTD_STATUS_SUCCESS, ctx') \<and> step_ok ops (i, Block_assertion off b) ctx ctx'"
proof -
  have i: "i < length (instances ctx)" and cap: "BITCAP_ISSET (notify_caps (instances ctx ! i)) 2" and b: "length b = 16"
    and new: "off \<notin> set (rbtree_inorder ops (assertions (instances ctx ! i)))"
    using a by (auto simp: notify_abs_def all_caps_def waiting_def)
  show ?thesis
  proof (cases "b = latest_block_id ctx")
    case True
    obtain t where t: "rbtree_insert ops off (assertions (instances ctx ! i)) = (AGENTD_STATUS_SUCCESS, t)"
      using insert_ok [OF new] by blast
    have s: "serve ops (i, Block_assertion off b) ctx = (AGENTD_STATUS_SUCCESS, set_tree i t ctx)"
      using cap b True t by (simp add: serve_simps notificationservice_protocol_dispatch_block_assertion_def
          notificationservice_assertion_entry_add_def set_tree_def Let_def)
    have "waiting ops (set_tree i t ctx) = insert (i, off) (waiting ops ctx)"
      using insert_new [OF t] by (auto simp: set_tree_waiting [OF i] waiting_iff [OF i] split: if_splits)
    then have "step_ok ops (i, Block_assertion off b) ctx (set_tree i t ctx)"
      using True by (simp add: step_ok_def notify_abs_def)
    with s show ?thesis by blast
  next
    case False
    have s: "serve ops (i, Block_assertion off b) ctx = (AGENTD_STATUS_SUCCESS, post i [(2, off, 0)] ctx)"
      using cap b False by (simp add: serve_simps notificationservice_protocol_dispatch_block_assertion_def report_status_ok Let_def)
    have "step_ok ops (i, Block_assertion off b) ctx (post i [(2, off, 0)] ctx)"
      using False by (simp add: step_ok_def notify_abs_def post_out)
    with s show ?thesis by blast
  qed
qed

lemma serve_cancel:
  assumes a: "spec_allowed (all_caps ctx) (i, Assertion_cancel off) (notify_abs ops ctx)"
  shows "\<exists>ctx'. serve ops (i, Assertion_cancel off) ctx = (AGENTD_STATUS_SUCCESS, ctx') \<and> step_ok ops (i, Assertion_cancel off) ctx ctx'"
proof -
  let ?t = "assertions (instances ctx ! i)"
  have i: "i < length (instances ctx)" and cap: "BITCAP_ISSET (notify_caps (instances ctx ! i)) 2"
    using a by (auto simp: notify_abs_def all_caps_def)
  obtain st t where t: "rbtree_delete ops off ?t = (st, t)" "st = AGENTD_STATUS_SUCCESS \<or> st = ERROR_RBTREE_NOT_FOUND ops"
    and set: "set (rbtree_inorder ops t) = set (rbtree_inorder ops ?t) - {off}"
  proof (cases "off \<in> set (rbtree_inorder ops ?t)")
    case True
    then show ?thesis using delete_ok [OF True] delete_found that by blast
  next
    case False
    obtain t where t: "rbtree_delete ops off ?t = (ERROR_RBTREE_NOT_FOUND ops, t)" using delete_missing [OF False] by blast
    then show ?thesis using delete_failed [OF t not_found] False that by simp
  qed
  have s: "serve ops (i, Assertion_cancel off) ctx = (AGENTD_STATUS_SUCCESS, post i [(3, off, 0)] (set_tree i t ctx))"
    using cap t by (auto simp: serve_simps notificationservice_protocol_dispatch_block_assertion_cancel_def report_status_ok set_tree_def Let_def)
  have "waiting ops (set_tree i t ctx) = waiting ops ctx - {(i, off)}"
  proof (rule set_eqI)
    fix x :: "nat \<times> 64 word"
    show "x \<in> waiting ops (set_tree i t ctx) \<longleftrightarrow> x \<in> waiting ops ctx - {(i, off)}"
      by (cases x, cases "fst x = i") (simp_all add: set_tree_waiting [OF i] waiting_iff [OF i] set)
  qed
  then have "step_ok ops (i, Assertion_cancel off) ctx (post i [(3, off, 0)] (set_tree i t ctx))"
    by (simp add: step_ok_def notify_abs_def post_out)
  with s show ?thesis by blast
qed

lemma serve_refines:
  assumes "spec_allowed (all_caps ctx) r (notify_abs ops ctx)"
  shows "\<exists>ctx'. serve ops r ctx = (AGENTD_STATUS_SUCCESS, ctx') \<and> step_ok ops r ctx ctx'"
proof -
  obtain i q where r: "r = (i, q)" by (cases r)
  show ?thesis using assms serve_update serve_assertion serve_cancel unfolding r by (cases q) blast+
qed

end

subsection \<open>Any sequence of requests\<close>

fun serve_requests ::
  "'t rbtree_ops \<Rightarrow> (nat \<times> notify_req) list \<Rightarrow> 't notificationservice_context \<Rightarrow> 't notificationservice_context option" where
  "serve_requests ops [] ctx = Some ctx"
| "serve_requests ops (r # rs) ctx =
     (case serve ops r ctx of (st, ctx) \<Rightarrow> if st \<noteq> AGENTD_STATUS_SUCCESS then None else serve_requests ops rs ctx)"

fun spec_run :: "(nat \<times> notify_req) list \<Rightarrow> notify_state \<Rightarrow> notify_state" where
  "spec_run [] s = s"
| "spec_run (r # rs) s = spec_run rs (spec_step r s)"

fun spec_outs :: "nat \<Rightarrow> (nat \<times> notify_req) list \<Rightarrow> notify_state \<Rightarrow> (32 word \<times> 64 word \<times> status) list" where
  "spec_outs j [] s = []"
| "spec_outs j (r # rs) s = spec_out j r s @ spec_outs j rs (spec_step r s)"

fun all_allowed :: "bitcap list \<Rightarrow> (nat \<times> notify_req) list \<Rightarrow> notify_state \<Rightarrow> bool" where
  "all_allowed caps [] s = True"
| "all_allowed caps (r # rs) s = (spec_allowed caps r s \<and> all_allowed caps rs (spec_step r s))"

context rbtree_reliable
begin

lemma serve_requests_refines:
  assumes "all_allowed (all_caps ctx) rs (notify_abs ops ctx)"
  shows "\<exists>ctx'. serve_requests ops rs ctx = Some ctx' \<and> notify_abs ops ctx' = spec_run rs (notify_abs ops ctx) \<and>
     all_caps ctx' = all_caps ctx \<and>
     (\<forall>j < length (instances ctx).
        outbound (instances ctx' ! j) = outbound (instances ctx ! j) @ map resp_packet (spec_outs j rs (notify_abs ops ctx)))"
  using assms
proof (induction rs arbitrary: ctx)
  case Nil
  then show ?case by simp
next
  case (Cons r rs)
  obtain ctx1 where s: "serve ops r ctx = (AGENTD_STATUS_SUCCESS, ctx1)" and k: "step_ok ops r ctx ctx1"
    using serve_refines [of ctx r] Cons.prems by auto
  then have "all_allowed (all_caps ctx1) rs (notify_abs ops ctx1)" and len: "length (instances ctx1) = length (instances ctx)"
    using Cons.prems all_caps_length by (auto simp: step_ok_def)
  from Cons.IH [OF this(1)] show ?case using s k len by (auto simp: step_ok_def)
qed

end

subsection \<open>Assertions and their answers\<close>

definition is_update :: "nat \<times> notify_req \<Rightarrow> bool" where
  "is_update r \<longleftrightarrow> (case snd r of Block_update _ _ \<Rightarrow> True | _ \<Rightarrow> False)"

definition asserts :: "nat \<Rightarrow> 64 word \<Rightarrow> nat \<times> notify_req \<Rightarrow> bool" where
  "asserts j off r \<longleftrightarrow> fst r = j \<and> (case snd r of Block_assertion o' _ \<Rightarrow> o' = off | _ \<Rightarrow> False)"

lemma count_answers: "distinct xs \<Longrightarrow> count_list (map (\<lambda>x. (2, x, 0)) xs) (2, off, 0) = (if off \<in> set xs then 1 else 0)"
  by (induction xs) auto

lemma finite_step: "finite (snd s) \<Longrightarrow> finite (snd (spec_step r s))"
  by (cases "(r, s)" rule: spec_step.cases) auto

lemma finite_waiting: "finite (waiting ops ctx)"
proof (rule finite_subset)
  show "waiting ops ctx \<subseteq> (SIGMA j : {..<length (instances ctx)}. set (rbtree_inorder ops (assertions (instances ctx ! j))))"
    by (auto simp: waiting_def)
qed simp

lemma answers_balance:
  assumes "all_allowed caps rs s" and "finite (snd s)" and "(j, Assertion_cancel off) \<notin> set rs"
  shows "length (filter (asserts j off) rs) + (if (j, off) \<in> snd s then 1 else 0) =
     count_list (spec_outs j rs s) (2, off, 0) + (if (j, off) \<in> snd (spec_run rs s) then 1 else 0)"
  using assms
proof (induction rs arbitrary: s)
  case Nil
  then show ?case by simp
next
  case (Cons r rs)
  have ih: "length (filter (asserts j off) rs) + (if (j, off) \<in> snd (spec_step r s) then 1 else 0) =
     count_list (spec_outs j rs (spec_step r s)) (2, off, 0) + (if (j, off) \<in> snd (spec_run rs (spec_step r s)) then 1 else 0)"
    using Cons.IH [of "spec_step r s"] Cons.prems finite_step by auto
  have "(if asserts j off r then 1 else 0) + (if (j, off) \<in> snd s then 1 else 0 :: nat) =
      count_list (spec_out j r s) (2, off, 0) + (if (j, off) \<in> snd (spec_step r s) then 1 else 0)"
    using Cons.prems
  proof (cases "(r, s)" rule: spec_step.cases)
    case (1 i o' b latest W)
    have "finite {off. (j, off) \<in> W}" using Cons.prems(2) 1 by (auto intro: finite_subset [of _ "snd ` W"] simp: image_iff)
    then show ?thesis using 1 by (simp add: asserts_def count_answers)
  qed (auto simp: asserts_def)
  moreover have "length (filter (asserts j off) (r # rs)) = (if asserts j off r then 1 else 0) + length (filter (asserts j off) rs)"
    by simp
  ultimately show ?case using ih by (simp only: spec_outs.simps spec_run.simps count_list_append)
qed

lemma waiting_since:
  assumes "(j, off) \<in> snd (spec_run rs s)"
  shows "((j, off) \<in> snd s \<and> (\<forall>r \<in> set rs. \<not> is_update r) \<and> fst (spec_run rs s) = fst s) \<or>
    (\<exists>pre post. rs = pre @ (j, Block_assertion off (fst (spec_run rs s))) # post \<and> (\<forall>r \<in> set post. \<not> is_update r))"
  using assms
proof (induction rs arbitrary: s)
  case Nil
  then show ?case by simp
next
  case (Cons r rs)
  let ?s = "spec_step r s"
  consider (old) "(j, off) \<in> snd ?s" "\<forall>r \<in> set rs. \<not> is_update r" "fst (spec_run rs ?s) = fst ?s"
    | (new) pre post where "rs = pre @ (j, Block_assertion off (fst (spec_run rs ?s))) # post" "\<forall>r \<in> set post. \<not> is_update r"
    using Cons.IH [of ?s] Cons.prems by auto
  then show ?case
  proof cases
    case old
    show ?thesis
    proof (cases "asserts j off r \<and> (j, off) \<notin> snd s")
      case True
      then have "r = (j, Block_assertion off (fst ?s))"
        using old(1) by (cases "(r, s)" rule: spec_step.cases) (auto simp: asserts_def split: if_splits)
      then show ?thesis using old(2,3) by (intro disjI2 exI [of _ "[]"] exI [of _ rs]) simp
    next
      case False
      then show ?thesis
        using old by (cases "(r, s)" rule: spec_step.cases) (auto simp: is_update_def asserts_def split: if_splits)
    qed
  next
    case new
    then show ?thesis by (intro disjI2 exI [of _ "r # pre"] exI [of _ post]) simp
  qed
qed

lemma resp_packet_inject [simp]: "resp_packet r = resp_packet r' \<longleftrightarrow> r = r'"
  by (auto simp: resp_packet_def net64_inject split: prod.splits)

lemma count_packets: "count_list (map resp_packet rs) (resp_packet r) = count_list rs r"
  by (induction rs) auto

subsection \<open>The documented service\<close>

text \<open>
  The service as the interface (\<^verbatim>\<open>src/include/agentd/notificationservice/api.h\<close>)
  documents it: beside the latest block and the waiting assertions it has the set of
  capabilities each instance holds, which a request to reduce them intersects with a given
  set, and every request has a capability of its own.
\<close>

datatype client_req = Reduce_caps "64 word" "32 word" | Notify_req notify_req

fun client_packet :: "client_req \<Rightarrow> bytes" where
  "client_packet (Reduce_caps off keep) = net32 0 @ net64 off @ mem32 keep"
| "client_packet (Notify_req q) = req_packet q"

type_synonym client_state = "nat set list \<times> notify_state"

fun instance_step :: "nat \<times> client_req \<Rightarrow> client_state \<Rightarrow> client_state" where
  "instance_step (i, Reduce_caps off keep) (H, s) = (H[i := H ! i \<inter> {c. bit keep c}], s)"
| "instance_step (i, Notify_req q) (H, s) = (H, spec_step (i, q) s)"

fun client_out :: "nat \<Rightarrow> nat \<times> client_req \<Rightarrow> client_state \<Rightarrow> (32 word \<times> 64 word \<times> status) list" where
  "client_out j (i, Reduce_caps off keep) (H, s) = (if j = i then [(0, off, 0)] else [])"
| "client_out j (i, Notify_req q) (H, s) = spec_out j (i, q) s"

fun doc_allowed :: "nat \<times> client_req \<Rightarrow> client_state \<Rightarrow> bool" where
  "doc_allowed (i, Reduce_caps off keep) (H, s) \<longleftrightarrow> i < length H \<and> NOTIFICATIONSERVICE_API_CAP_REDUCE_CAPS \<in> H ! i"
| "doc_allowed (i, Notify_req (Block_update off b)) (H, s) \<longleftrightarrow>
     i < length H \<and> NOTIFICATIONSERVICE_API_CAP_BLOCK_UPDATE \<in> H ! i \<and> length b = 16"
| "doc_allowed (i, Notify_req (Block_assertion off b)) (H, s) \<longleftrightarrow>
     i < length H \<and> NOTIFICATIONSERVICE_API_CAP_BLOCK_ASSERTION \<in> H ! i \<and> length b = 16 \<and> (i, off) \<notin> snd s"
| "doc_allowed (i, Notify_req (Assertion_cancel off)) (H, s) \<longleftrightarrow>
     i < length H \<and> NOTIFICATIONSERVICE_API_CAP_BLOCK_ASSERTION_CANCEL \<in> H ! i"

text \<open>Who cancels can also assert: the capability the handler of the cancel request checks.\<close>

fun cancel_covered :: "nat \<times> client_req \<Rightarrow> client_state \<Rightarrow> bool" where
  "cancel_covered (i, Notify_req (Assertion_cancel off)) (H, s) \<longleftrightarrow> NOTIFICATIONSERVICE_API_CAP_BLOCK_ASSERTION \<in> H ! i"
| "cancel_covered _ _ \<longleftrightarrow> True"

definition held :: "bitcap \<Rightarrow> nat set" where
  "held caps = {c. c < NOTIFICATIONSERVICE_API_CAP_BITS_MAX \<and> BITCAP_ISSET caps c}"

definition client_abs :: "'t rbtree_ops \<Rightarrow> 't notificationservice_context \<Rightarrow> client_state" where
  "client_abs ops ctx = (map held (all_caps ctx), notify_abs ops ctx)"

definition caps_sized :: "'t notificationservice_context \<Rightarrow> bool" where
  "caps_sized ctx \<longleftrightarrow> (\<forall>inst \<in> set (instances ctx). length (notify_caps inst) = BITCAP_WORDS NOTIFICATIONSERVICE_API_CAP_BITS_MAX)"

definition serve_client ::
  "'t rbtree_ops \<Rightarrow> nat \<times> client_req \<Rightarrow> 't notificationservice_context \<Rightarrow> status \<times> 't notificationservice_context" where
  "serve_client ops r ctx =
     notificationservice_protocol_read_decode_and_dispatch_packet ops notify_ok (fst r) (Inr (client_packet (snd r))) ctx"

fun serve_clients ::
  "'t rbtree_ops \<Rightarrow> (nat \<times> client_req) list \<Rightarrow> 't notificationservice_context \<Rightarrow> 't notificationservice_context option" where
  "serve_clients ops [] ctx = Some ctx"
| "serve_clients ops (r # rs) ctx =
     (case serve_client ops r ctx of (st, ctx) \<Rightarrow> if st \<noteq> AGENTD_STATUS_SUCCESS then None else serve_clients ops rs ctx)"

fun client_run :: "(nat \<times> client_req) list \<Rightarrow> client_state \<Rightarrow> client_state" where
  "client_run [] s = s"
| "client_run (r # rs) s = client_run rs (instance_step r s)"

fun client_outs :: "nat \<Rightarrow> (nat \<times> client_req) list \<Rightarrow> client_state \<Rightarrow> (32 word \<times> 64 word \<times> status) list" where
  "client_outs j [] s = []"
| "client_outs j (r # rs) s = client_out j r s @ client_outs j rs (instance_step r s)"

text \<open>A predicate that holds of every request of a sequence, in the state the request meets.\<close>

fun each_request :: "(nat \<times> client_req \<Rightarrow> client_state \<Rightarrow> bool) \<Rightarrow> (nat \<times> client_req) list \<Rightarrow> client_state \<Rightarrow> bool" where
  "each_request P [] s \<longleftrightarrow> True"
| "each_request P (r # rs) s \<longleftrightarrow> P r s \<and> each_request P rs (instance_step r s)"

definition client_step_ok ::
  "'t rbtree_ops \<Rightarrow> nat \<times> client_req \<Rightarrow> 't notificationservice_context \<Rightarrow> 't notificationservice_context \<Rightarrow> bool" where
  "client_step_ok ops r ctx ctx' \<longleftrightarrow> client_abs ops ctx' = instance_step r (client_abs ops ctx) \<and> caps_sized ctx' \<and>
     length (instances ctx') = length (instances ctx) \<and>
     (\<forall>j < length (instances ctx).
        outbound (instances ctx' ! j) = outbound (instances ctx ! j) @ map resp_packet (client_out j r (client_abs ops ctx)))"

lemma caps_sized_caps: "caps_sized ctx \<longleftrightarrow> (\<forall>c \<in> set (all_caps ctx). length c = 1)"
  by (simp add: caps_sized_def all_caps_def BITCAP_WORDS_def)

lemma held_reduced: "length caps = 1 \<Longrightarrow> held (BITCAP_INTERSECT caps [keep]) = held caps \<inter> {c. bit keep c}"
  by (auto simp: held_def BITCAP_ISSET_INTERSECT) (auto simp: BITCAP_ISSET_bit)

lemma client_notify: "serve_client ops (i, Notify_req q) ctx = serve ops (i, q) ctx"
  by (simp add: serve_client_def serve_def)

text \<open>Replacing the capabilities of one instance.\<close>

definition set_caps :: "nat \<Rightarrow> bitcap \<Rightarrow> 't notificationservice_context \<Rightarrow> 't notificationservice_context" where
  "set_caps i c ctx = ctx\<lparr>instances := (instances ctx)[i := (instances ctx ! i)\<lparr>notify_caps := c\<rparr>]\<rparr>"

lemma set_caps_sel [simp]:
  "length (instances (set_caps i c ctx)) = length (instances ctx)" "latest_block_id (set_caps i c ctx) = latest_block_id ctx"
  "outbound (instances (set_caps i c ctx) ! k) = outbound (instances ctx ! k)"
  "assertions (instances (set_caps i c ctx) ! k) = assertions (instances ctx ! k)"
  by (simp_all add: set_caps_def nth_update_if)

lemma set_caps_abs: "notify_abs ops (set_caps i c ctx) = notify_abs ops ctx"
  by (simp add: notify_abs_def waiting_def)

lemma set_caps_all: "all_caps (set_caps i c ctx) = (all_caps ctx)[i := c]"
  by (simp add: all_caps_def set_caps_def map_update)

lemma serve_reduce:
  assumes a: "doc_allowed (i, Reduce_caps off keep) (client_abs ops ctx)" and sz: "caps_sized ctx"
  shows "\<exists>ctx'. serve_client ops (i, Reduce_caps off keep) ctx = (AGENTD_STATUS_SUCCESS, ctx') \<and>
     client_step_ok ops (i, Reduce_caps off keep) ctx ctx'"
proof -
  let ?c = "BITCAP_INTERSECT (notify_caps (instances ctx ! i)) [keep]"
  have i: "i < length (instances ctx)" and cap: "BITCAP_ISSET (notify_caps (instances ctx ! i)) 0"
    using a by (auto simp: client_abs_def all_caps_def held_def)
  have l: "length (notify_caps (instances ctx ! i)) = 1" using sz i by (simp add: caps_sized_def BITCAP_WORDS_def)
  have "serve_client ops (i, Reduce_caps off keep) ctx = (AGENTD_STATUS_SUCCESS, post i [(0, off, 0)] (set_caps i ?c ctx))"
    using cap by (simp add: serve_client_def notificationservice_protocol_read_decode_and_dispatch_packet_def
        notificationservice_api_decode_request_def notificationservice_protocol_dispatch_reduce_caps_def report_status_ok
        set_caps_def Let_def split: prod.splits)
  moreover have "notify_abs ops (post i [(0, off, 0)] (set_caps i ?c ctx)) = notify_abs ops ctx"
    using set_caps_abs [of ops i ?c ctx] by (simp add: notify_abs_def)
  moreover have "caps_sized (post i [(0, off, 0)] (set_caps i ?c ctx))"
    using sz l by (auto simp: caps_sized_caps set_caps_all dest!: set_update_subset_insert [THEN subsetD])
  moreover have "map held ((all_caps ctx)[i := ?c]) = (map held (all_caps ctx))[i := held (all_caps ctx ! i) \<inter> {c. bit keep c}]"
    using i held_reduced [OF l] by (simp add: map_update all_caps_def)
  moreover have "i < length (all_caps ctx)" using i by (simp add: all_caps_def)
  ultimately show ?thesis
    using i by (simp add: client_step_ok_def client_abs_def set_caps_all post_out)
qed

lemma doc_allowed_served:
  "doc_allowed (i, Notify_req q) (client_abs ops ctx) \<Longrightarrow> cancel_covered (i, Notify_req q) (client_abs ops ctx) \<Longrightarrow>
     spec_allowed (all_caps ctx) (i, q) (notify_abs ops ctx)"
  by (cases q) (auto simp: client_abs_def notify_abs_def held_def all_caps_def)

context rbtree_reliable
begin

lemma serve_client_refines:
  assumes "doc_allowed r (client_abs ops ctx)" and "cancel_covered r (client_abs ops ctx)" and "caps_sized ctx"
  shows "\<exists>ctx'. serve_client ops r ctx = (AGENTD_STATUS_SUCCESS, ctx') \<and> client_step_ok ops r ctx ctx'"
proof (cases "snd r")
  case (Reduce_caps off keep)
  then show ?thesis using serve_reduce [of "fst r" off keep ops ctx] assms(1,3) by (cases r) simp
next
  case (Notify_req q)
  then have r: "r = (fst r, Notify_req q)" by (cases r) simp
  obtain ctx' where s: "serve ops (fst r, q) ctx = (AGENTD_STATUS_SUCCESS, ctx')" and k: "step_ok ops (fst r, q) ctx ctx'"
    using serve_refines doc_allowed_served [of "fst r" q ops ctx] assms(1,2) r by metis
  then have "client_step_ok ops (fst r, Notify_req q) ctx ctx'"
    using assms(3) all_caps_length [of ctx' ctx] by (simp add: client_step_ok_def step_ok_def client_abs_def caps_sized_caps)
  then show ?thesis using s r client_notify [of ops "fst r" q ctx] by metis
qed

lemma serve_clients_refines:
  assumes "each_request doc_allowed rs (client_abs ops ctx)" and "each_request cancel_covered rs (client_abs ops ctx)"
    and "caps_sized ctx"
  shows "\<exists>ctx'. serve_clients ops rs ctx = Some ctx' \<and> client_abs ops ctx' = client_run rs (client_abs ops ctx) \<and>
     (\<forall>j < length (instances ctx).
        outbound (instances ctx' ! j) = outbound (instances ctx ! j) @ map resp_packet (client_outs j rs (client_abs ops ctx)))"
  using assms
proof (induction rs arbitrary: ctx)
  case Nil
  then show ?case by simp
next
  case (Cons r rs)
  obtain ctx1 where s: "serve_client ops r ctx = (AGENTD_STATUS_SUCCESS, ctx1)" and k: "client_step_ok ops r ctx ctx1"
    using serve_client_refines [of r ctx] Cons.prems by auto
  obtain ctx' where "serve_clients ops rs ctx1 = Some ctx'" "client_abs ops ctx' = client_run rs (client_abs ops ctx1)"
    "\<forall>j < length (instances ctx1).
        outbound (instances ctx' ! j) = outbound (instances ctx1 ! j) @ map resp_packet (client_outs j rs (client_abs ops ctx1))"
    using Cons.IH [of ctx1] Cons.prems k by (auto simp: client_step_ok_def)
  then show ?case using s k by (intro exI [of _ ctx']) (simp add: client_step_ok_def)
qed

end

text \<open>
  Without the condition on cancel requests the handlers do not implement the documented
  capabilities: an instance that holds the capability to cancel, but not the one to
  assert, is refused; one that holds the capability to assert, but not the one to cancel,
  is served.
\<close>

lemma cancel_capability_ignored:
  assumes "i < length (instances ctx)"
  shows "BITCAP_ISSET (notify_caps (instances ctx ! i)) NOTIFICATIONSERVICE_API_CAP_BLOCK_ASSERTION_CANCEL \<Longrightarrow>
      \<not> BITCAP_ISSET (notify_caps (instances ctx ! i)) NOTIFICATIONSERVICE_API_CAP_BLOCK_ASSERTION \<Longrightarrow>
      serve_client ops (i, Notify_req (Assertion_cancel off)) ctx =
        (AGENTD_ERROR_NOTIFICATIONSERVICE_NOT_AUTHORIZED, post i [(3, off, AGENTD_ERROR_NOTIFICATIONSERVICE_NOT_AUTHORIZED)] ctx)"
    and "rbtree_reliable ops \<Longrightarrow>
      \<not> BITCAP_ISSET (notify_caps (instances ctx ! i)) NOTIFICATIONSERVICE_API_CAP_BLOCK_ASSERTION_CANCEL \<Longrightarrow>
      BITCAP_ISSET (notify_caps (instances ctx ! i)) NOTIFICATIONSERVICE_API_CAP_BLOCK_ASSERTION \<Longrightarrow>
      \<exists>ctx'. serve_client ops (i, Notify_req (Assertion_cancel off)) ctx = (AGENTD_STATUS_SUCCESS, ctx') \<and>
        waiting ops ctx' = waiting ops ctx - {(i, off)}"
proof -
  show "serve_client ops (i, Notify_req (Assertion_cancel off)) ctx =
      (AGENTD_ERROR_NOTIFICATIONSERVICE_NOT_AUTHORIZED, post i [(3, off, AGENTD_ERROR_NOTIFICATIONSERVICE_NOT_AUTHORIZED)] ctx)"
    if "\<not> BITCAP_ISSET (notify_caps (instances ctx ! i)) NOTIFICATIONSERVICE_API_CAP_BLOCK_ASSERTION"
    using that by (simp add: client_notify serve_simps notificationservice_protocol_dispatch_block_assertion_cancel_def
        report_status_ok Let_def)
  show "\<exists>ctx'. serve_client ops (i, Notify_req (Assertion_cancel off)) ctx = (AGENTD_STATUS_SUCCESS, ctx') \<and>
      waiting ops ctx' = waiting ops ctx - {(i, off)}"
    if "rbtree_reliable ops" "BITCAP_ISSET (notify_caps (instances ctx ! i)) NOTIFICATIONSERVICE_API_CAP_BLOCK_ASSERTION"
    using rbtree_reliable.serve_cancel [OF that(1), of ctx i off] that(2) assms
    by (auto simp: client_notify notify_abs_def all_caps_def step_ok_def)
qed

subsection \<open>Properties\<close>

text \<open>
  C10. The handlers of the notification service refine the documented service.  Any
  sequence of requests of any instances, to reduce the own capabilities, to update the
  block, to assert or to cancel, each of which the instance holds the documented
  capability for at that moment, is served without an error; the capabilities of the
  instances, the latest block and the waiting assertions afterwards are those of the
  documented service, and every instance has been sent exactly the responses that service
  gives it, in the same order.  The requests have 16-byte block identifiers and do not
  assert with the offset of an assertion that still waits, the calls of the runtime
  library succeed, and, because the handler of a cancel request checks the capability to
  assert in place of the documented capability to cancel, an instance that cancels holds
  both (cancel_capability_ignored shows what happens otherwise).
\<close>

theorem notification_refines_spec:
  assumes "rbtree_reliable ops" and "caps_sized ctx" and "each_request doc_allowed rs (client_abs ops ctx)"
    and "each_request cancel_covered rs (client_abs ops ctx)"
  shows "\<exists>ctx'. serve_clients ops rs ctx = Some ctx' \<and> client_abs ops ctx' = client_run rs (client_abs ops ctx) \<and>
     (\<forall>j < length (instances ctx).
        outbound (instances ctx' ! j) = outbound (instances ctx ! j) @ map resp_packet (client_outs j rs (client_abs ops ctx)))"
  by (rule rbtree_reliable.serve_clients_refines [OF assms(1,3,4,2)])

text \<open>
  C11. Every block assertion is answered exactly once.  After any sequence of requests
  that the handlers allow, an instance that did not cancel the assertion with some offset has been sent
  as many answers for it as it made assertions with it, one fewer when the last still
  waits; and an assertion waits only when the block it named is still the latest one
  and no block update has been received since it was made.
\<close>

theorem assertions_answered_once:
  assumes "rbtree_reliable ops" and "all_allowed (all_caps ctx) rs (notify_abs ops ctx)" and "waiting ops ctx = {}"
    and "j < length (instances ctx)" and "outbound (instances ctx ! j) = []" and "(j, Assertion_cancel off) \<notin> set rs"
  shows "\<exists>ctx'. serve_requests ops rs ctx = Some ctx' \<and>
     length (filter (asserts j off) rs) = count_list (outbound (instances ctx' ! j)) (resp_packet (2, off, 0)) +
       (if (j, off) \<in> waiting ops ctx' then 1 else 0) \<and>
     ((j, off) \<in> waiting ops ctx' \<longrightarrow> (\<exists>pre post. rs = pre @ (j, Block_assertion off (latest_block_id ctx')) # post \<and>
        (\<forall>r \<in> set post. \<not> is_update r)))"
proof -
  obtain ctx' where run: "serve_requests ops rs ctx = Some ctx'" and abs: "notify_abs ops ctx' = spec_run rs (notify_abs ops ctx)"
    and out: "outbound (instances ctx' ! j) = map resp_packet (spec_outs j rs (notify_abs ops ctx))"
    using rbtree_reliable.serve_requests_refines [OF assms(1,2)] assms(4,5) by auto
  have s: "snd (notify_abs ops ctx) = {}" using assms(3) by (simp add: notify_abs_def)
  have a: "waiting ops ctx' = snd (spec_run rs (notify_abs ops ctx))" "latest_block_id ctx' = fst (spec_run rs (notify_abs ops ctx))"
    using abs by (simp_all add: notify_abs_def prod_eq_iff)
  show ?thesis
    using run out answers_balance [OF assms(2) _ assms(6)] waiting_since [of j off rs "notify_abs ops ctx"] s
    by (simp add: a count_packets)
qed

text \<open>Two instances, the first told of a block while the second asserts.\<close>

definition demo_notify :: "(64 word, unit) rbt notificationservice_context" where
  "demo_notify = \<lparr> latest_block_id = replicate 16 0,
     instances = replicate 2 \<lparr> notify_caps = [0xFFFFFFFF], assertions = RBT.empty, outbound = [] \<rparr>, quiesce = False, terminate = False \<rparr>"

definition demo_requests :: "(nat \<times> notify_req) list" where
  "demo_requests = [(1, Block_assertion 7 (replicate 16 0)), (0, Block_update 1 (replicate 16 9)), (1, Block_assertion 7 (replicate 16 9))]"

lemma demo_abs: "notify_abs hol_rbtree demo_notify = (replicate 16 0, {})" "waiting hol_rbtree demo_notify = {}"
  by (auto simp: notify_abs_def waiting_def demo_notify_def hol_rbtree_def)

lemma demo_caps: "all_caps demo_notify = [[0xFFFFFFFF], [0xFFFFFFFF]]"
  by (simp add: all_caps_def demo_notify_def numeral_2_eq_2)

lemma demo_allowed: "all_allowed (all_caps demo_notify) demo_requests (notify_abs hol_rbtree demo_notify)"
  by (simp add: demo_abs demo_caps demo_requests_def BITCAP_ISSET_def BITCAP_OFFSET_def BITCAP_SHIFT_def)

definition demo_client :: "(nat \<times> client_req) list" where
  "demo_client = [(1, Notify_req (Block_assertion 7 (replicate 16 0))), (1, Notify_req (Block_assertion 8 (replicate 16 0))),
     (1, Notify_req (Assertion_cancel 8)), (1, Reduce_caps 9 0x4), (0, Notify_req (Block_update 1 (replicate 16 9))),
     (1, Notify_req (Block_assertion 7 (replicate 16 9)))]"

lemma held_all: "held [0xFFFFFFFF] = {0, 1, 2, 3}"
proof -
  have ones: "(0xFFFFFFFF :: 32 word) = -1" by simp
  show ?thesis unfolding ones by (auto simp: held_def BITCAP_ISSET_bit)
qed

lemma demo_client_abs: "client_abs hol_rbtree demo_notify = ([{0, 1, 2, 3}, {0, 1, 2, 3}], replicate 16 0, {})"
  by (simp add: client_abs_def demo_caps demo_abs held_all)

lemma demo_client_allowed:
  "caps_sized demo_notify" "each_request doc_allowed demo_client (client_abs hol_rbtree demo_notify)"
  "each_request cancel_covered demo_client (client_abs hol_rbtree demo_notify)"
  by (simp add: caps_sized_caps demo_caps)
    (simp_all add: demo_client_abs demo_client_def bit_numeral_rec)

theorem notification_refines_spec_witness:
  "\<exists>ctx'. serve_clients hol_rbtree demo_client demo_notify = Some ctx' \<and>
     client_abs hol_rbtree ctx' = ([{0, 1, 2, 3}, {2}], replicate 16 9, {(1, 7)}) \<and>
     outbound (instances ctx' ! 1) = map resp_packet [(3, 8, 0), (0, 9, 0), (2, 7, 0)]"
proof -
  have "1 < length (instances demo_notify)" "outbound (instances demo_notify ! 1) = []" by (simp_all add: demo_notify_def)
  moreover have "client_run demo_client (client_abs hol_rbtree demo_notify) = ([{0, 1, 2, 3}, {2}], replicate 16 9, {(1, 7)})"
    by (simp add: demo_client_abs demo_client_def bit_numeral_rec)
  moreover have "client_outs 1 demo_client (client_abs hol_rbtree demo_notify) = [(3, 8, 0), (0, 9, 0), (2, 7, 0)]"
    by (simp add: demo_client_abs demo_client_def)
  ultimately show ?thesis
    using notification_refines_spec [OF hol_rb.rbtree_reliable_axioms demo_client_allowed] by force
qed

theorem assertions_answered_once_witness:
  "\<exists>ctx'. serve_requests hol_rbtree demo_requests demo_notify = Some ctx' \<and>
     2 = count_list (outbound (instances ctx' ! 1)) (resp_packet (2, 7, 0)) + (if (1, 7) \<in> waiting hol_rbtree ctx' then 1 else 0)"
proof -
  have l: "1 < length (instances demo_notify)" "outbound (instances demo_notify ! 1) = []" by (simp_all add: demo_notify_def)
  have n: "(1, Assertion_cancel 7) \<notin> set demo_requests" "length (filter (asserts 1 7) demo_requests) = 2"
    by (simp_all add: demo_requests_def asserts_def)
  show ?thesis
    using assertions_answered_once [OF hol_rb.rbtree_reliable_axioms demo_allowed demo_abs(2) l n(1)] n(2) by auto
qed

end
