(* ===== verification/Canon.thy ===== *)
theory Canon
  imports Ds_Api Notify_Codec
begin

text \<open>
  The canonization service (\<^verbatim>\<open>src/src/canonization\<close>): a state machine that, each time its
  timer fires, asks the random service for a block identifier, opens a child context
  of the data service, reads the latest block and the attested transactions at the
  head of the process queue, builds and signs a block certificate, has the data service
  make the block, tells the notification service and closes the context.

  Every callback is a function of the instance, which holds the sockets of the three
  services (over the buffers \<open>evsock\<close>) and whether their write callbacks are set; \<open>None\<close> is
  a NULL pointer that is followed.  The certificate builder, the signatures and the
  sizes of keys come from third-party libraries and are the parameters
  \<open>vccert_builder\<close> and \<open>key_sizes\<close>; \<open>canon_env\<close> holds the results of the allocations and of
  the other calls a callback makes, at most one of each.
\<close>

datatype canonizationservice_state =
    CANONIZATIONSERVICE_STATE_IDLE
  | CANONIZATIONSERVICE_STATE_WAITRESP_GET_RANDOM_BYTES
  | CANONIZATIONSERVICE_STATE_WAITRESP_CHILD_CONTEXT_CREATE
  | CANONIZATIONSERVICE_STATE_WAITRESP_LATEST_BLOCK_ID_GET
  | CANONIZATIONSERVICE_STATE_WAITRESP_BLOCK_GET
  | CANONIZATIONSERVICE_STATE_WAITRESP_PQ_TXN_FIRST_GET
  | CANONIZATIONSERVICE_STATE_WAITRESP_PQ_TXN_GET
  | CANONIZATIONSERVICE_STATE_WAITRESP_BLOCK_MAKE
  | CANONIZATIONSERVICE_STATE_WAITRESP_NOTIFY_BLOCK_UPDATE
  | CANONIZATIONSERVICE_STATE_WAITRESP_CHILD_CONTEXT_CLOSE

record canonizationservice_private_key =
  key_id :: bytes
  enc_pubkey :: bytes
  enc_privkey :: bytes
  sign_pubkey :: bytes
  sign_privkey :: bytes

record canonizationservice_transaction =
  canon_node :: data_transaction_node
  canon_cert :: bytes

text \<open>
  The instance.  \<open>canon_timer\<close> is the number of milliseconds of the armed timer;
  \<open>transaction_list\<close> is \<open>None\<close> for the NULL pointer.
\<close>

record 's canonizationservice_instance =
  configured :: bool
  running :: bool
  force_exit :: bool
  first_time :: bool
  block_max_milliseconds :: "64 word"
  block_max_transactions :: "64 word"
  private_key :: "canonizationservice_private_key option"
  loop_exited :: bool
  data_sock :: 's
  data_cb :: bool
  random_sock :: 's
  random_cb :: bool
  notify_sock :: 's
  notify_cb :: bool
  data_child_context :: "32 word"
  canon_timer :: "64 word option"
  canon_state :: canonizationservice_state
  canon_block_id :: bytes
  previous_block_id :: bytes
  previous_block_signature :: bytes
  canon_block_height :: "64 word"
  transaction_list :: "canonizationservice_transaction list option"

record key_sizes =
  enc_pubkey_size :: nat
  enc_privkey_size :: nat
  sign_pubkey_size :: nat
  sign_privkey_size :: nat
  signature_size :: nat

record 'b vccert_builder =
  FIELD_TYPE_SIZE :: nat
  FIELD_SIZE_SIZE :: nat
  vccert_builder_init :: "nat \<Rightarrow> status + 'b"
  vccert_builder_add_short_uint16 :: "vccert_field \<Rightarrow> 16 word \<Rightarrow> 'b \<Rightarrow> status \<times> 'b"
  vccert_builder_add_short_uint32 :: "vccert_field \<Rightarrow> 32 word \<Rightarrow> 'b \<Rightarrow> status \<times> 'b"
  vccert_builder_add_short_uint64 :: "vccert_field \<Rightarrow> 64 word \<Rightarrow> 'b \<Rightarrow> status \<times> 'b"
  vccert_builder_add_short_buffer :: "vccert_field \<Rightarrow> bytes \<Rightarrow> 'b \<Rightarrow> status \<times> 'b"
  vccert_builder_sign :: "bytes \<Rightarrow> bytes \<Rightarrow> 'b \<Rightarrow> status \<times> 'b"
  vccert_builder_emit :: "'b \<Rightarrow> bytes option"

record canon_env =
  read_malloc :: bool
  list_malloc :: bool
  list_init_st :: status
  txn_malloc :: bool
  list_insert_st :: status
  req_buf_st :: status
  notify_alloc_st :: status
  timer_init_st :: status
  timer_add_st :: status
  time_now :: int
  status_malloc :: bool
  status_write_ok :: bool
  key_malloc :: bool
  key_buffer_st :: "nat \<Rightarrow> status"

definition canonizationservice_exit_event_loop :: "'s canonizationservice_instance \<Rightarrow> 's canonizationservice_instance" where
  "canonizationservice_exit_event_loop inst = inst\<lparr>force_exit := True, loop_exited := True\<rparr>"

text \<open>Creation; the four flags are the results of the initialisers of the libraries.\<close>

definition canonizationservice_instance_create ::
  "bool \<Rightarrow> bool \<Rightarrow> bool \<Rightarrow> bool \<Rightarrow> bool \<Rightarrow> 's \<Rightarrow> 's \<Rightarrow> 's \<Rightarrow> 's canonizationservice_instance option" where
  "canonizationservice_instance_create malloc_ok alloc_ok suite_ok builder_ok list_ok data random notify =
     (if malloc_ok \<and> alloc_ok \<and> suite_ok \<and> builder_ok \<and> list_ok then
        Some \<lparr> configured = False, running = False, force_exit = False, first_time = False, block_max_milliseconds = 0,
               block_max_transactions = 0, private_key = None, loop_exited = False, data_sock = data, data_cb = False,
               random_sock = random, random_cb = False, notify_sock = notify, notify_cb = False, data_child_context = 0,
               canon_timer = None, canon_state = CANONIZATIONSERVICE_STATE_IDLE, canon_block_id = replicate 16 0,
               previous_block_id = replicate 16 0, previous_block_signature = replicate 64 0, canon_block_height = 0,
               transaction_list = None \<rparr>
      else None)"

subsection \<open>Requests to the other services\<close>

definition canonizationservice_write_block_id_request ::
  "'s evsock \<Rightarrow> 's canonizationservice_instance \<Rightarrow> status \<times> 's canonizationservice_instance" where
  "canonizationservice_write_block_id_request ev inst =
     (case ipc_write_data_noblock ev (net32 1 @ net32 0 @ net32 16) (random_sock inst) of (r, s) \<Rightarrow>
      let inst = inst\<lparr>random_sock := s\<rparr> in
      if r \<noteq> AGENTD_STATUS_SUCCESS then (r, inst) else
      (AGENTD_STATUS_SUCCESS,
       inst\<lparr>canon_state := CANONIZATIONSERVICE_STATE_WAITRESP_GET_RANDOM_BYTES, random_cb := True\<rparr>))"

text \<open>Writing a request to the data service and setting the write callback of its socket.\<close>

definition data_request ::
  "('s \<Rightarrow> status \<times> 's) \<Rightarrow> 's canonizationservice_instance \<Rightarrow> status \<times> 's canonizationservice_instance" where
  "data_request send inst =
     (case send (data_sock inst) of (r, s) \<Rightarrow>
      let inst = inst\<lparr>data_sock := s\<rparr> in
      if r \<noteq> AGENTD_STATUS_SUCCESS then (r, inst) else (AGENTD_STATUS_SUCCESS, inst\<lparr>data_cb := True\<rparr>))"

definition canon_caps :: bitcap where
  "canon_caps =
     BITCAP_SET_TRUE (BITCAP_SET_TRUE (BITCAP_SET_TRUE (BITCAP_SET_TRUE (BITCAP_SET_TRUE (BITCAP_SET_TRUE
       (BITCAP_INIT_FALSE (replicate (BITCAP_WORDS DATASERVICE_API_CAP_BITS_MAX) 0))
       DATASERVICE_API_CAP_APP_PQ_TRANSACTION_FIRST_READ) DATASERVICE_API_CAP_APP_PQ_TRANSACTION_READ)
       DATASERVICE_API_CAP_APP_BLOCK_ID_LATEST_READ) DATASERVICE_API_CAP_APP_BLOCK_READ)
       DATASERVICE_API_CAP_APP_BLOCK_WRITE) DATASERVICE_API_CAP_LL_CHILD_CONTEXT_CLOSE"

definition canonizationservice_dataservice_sendreq_child_context_create ::
  "'s evsock \<Rightarrow> canon_env \<Rightarrow> 's canonizationservice_instance \<Rightarrow> status \<times> 's canonizationservice_instance" where
  "canonizationservice_dataservice_sendreq_child_context_create ev env inst =
     (case data_request (dataservice_api_sendreq_child_context_create_old ev (req_buf_st env) canon_caps)
             (inst\<lparr>canon_state := CANONIZATIONSERVICE_STATE_WAITRESP_CHILD_CONTEXT_CREATE\<rparr>) of (r, inst) \<Rightarrow>
      (r, if r \<noteq> AGENTD_STATUS_SUCCESS then canonizationservice_exit_event_loop inst else inst))"

definition canonizationservice_dataservice_sendreq_block_id_latest_get ::
  "'s evsock \<Rightarrow> canon_env \<Rightarrow> 's canonizationservice_instance \<Rightarrow> status \<times> 's canonizationservice_instance" where
  "canonizationservice_dataservice_sendreq_block_id_latest_get ev env inst =
     data_request (dataservice_api_sendreq_latest_block_id_get_old ev (req_buf_st env) (data_child_context inst))
       (inst\<lparr>canon_state := CANONIZATIONSERVICE_STATE_WAITRESP_LATEST_BLOCK_ID_GET\<rparr>)"

definition canonizationservice_dataservice_sendreq_block_get ::
  "'s evsock \<Rightarrow> canon_env \<Rightarrow> 's canonizationservice_instance \<Rightarrow> status \<times> 's canonizationservice_instance" where
  "canonizationservice_dataservice_sendreq_block_get ev env inst =
     data_request (dataservice_api_sendreq_block_get_old ev (req_buf_st env) (data_child_context inst) (previous_block_id inst) True)
       (inst\<lparr>canon_state := CANONIZATIONSERVICE_STATE_WAITRESP_BLOCK_GET\<rparr>)"

definition canonizationservice_dataservice_sendreq_transaction_get_first ::
  "'s evsock \<Rightarrow> canon_env \<Rightarrow> 's canonizationservice_instance \<Rightarrow> status \<times> 's canonizationservice_instance" where
  "canonizationservice_dataservice_sendreq_transaction_get_first ev env inst =
     data_request (dataservice_api_sendreq_transaction_get_first_old ev (req_buf_st env) (data_child_context inst))
       (inst\<lparr>canon_state := CANONIZATIONSERVICE_STATE_WAITRESP_PQ_TXN_FIRST_GET\<rparr>)"

text \<open>The handlers end the service when their request cannot be sent.\<close>

definition exit_unless_sent :: "status \<times> 's canonizationservice_instance \<Rightarrow> 's canonizationservice_instance" where
  "exit_unless_sent res = (case res of (r, inst) \<Rightarrow> if r \<noteq> AGENTD_STATUS_SUCCESS then canonizationservice_exit_event_loop inst else inst)"

definition canonizationservice_child_context_close ::
  "'s evsock \<Rightarrow> canon_env \<Rightarrow> 's canonizationservice_instance \<Rightarrow> 's canonizationservice_instance" where
  "canonizationservice_child_context_close ev env inst =
     (case data_request (dataservice_api_sendreq_child_context_close_old ev (req_buf_st env) (data_child_context inst)) inst of (r, inst) \<Rightarrow>
      if r \<noteq> AGENTD_STATUS_SUCCESS then canonizationservice_exit_event_loop inst
      else inst\<lparr>canon_state := CANONIZATIONSERVICE_STATE_WAITRESP_CHILD_CONTEXT_CLOSE\<rparr>)"

definition canonizationservice_notify_block_update ::
  "'s evsock \<Rightarrow> canon_env \<Rightarrow> 's canonizationservice_instance \<Rightarrow> 's canonizationservice_instance" where
  "canonizationservice_notify_block_update ev env inst =
     (case notificationservice_api_encode_request (notify_alloc_st env) AGENTD_NOTIFICATIONSERVICE_API_METHOD_ID_BLOCK_UPDATE
             7474 (canon_block_id inst) of
        Inl st \<Rightarrow> canonizationservice_exit_event_loop inst
      | Inr buf \<Rightarrow>
          (case ipc_write_data_noblock ev buf (notify_sock inst) of (r, s) \<Rightarrow>
           let inst = inst\<lparr>notify_sock := s\<rparr> in
           if r \<noteq> AGENTD_STATUS_SUCCESS then canonizationservice_exit_event_loop inst else
           inst\<lparr>canon_state := CANONIZATIONSERVICE_STATE_WAITRESP_NOTIFY_BLOCK_UPDATE, notify_cb := True\<rparr>))"

definition canonizationservice_complete_update ::
  "'s evsock \<Rightarrow> canon_env \<Rightarrow> 's canonizationservice_instance \<Rightarrow> 's canonizationservice_instance" where
  "canonizationservice_complete_update ev env inst =
     (if first_time inst
      then canonizationservice_notify_block_update ev env (inst\<lparr>first_time := False, canon_block_id := previous_block_id inst\<rparr>)
      else canonizationservice_child_context_close ev env inst)"

subsection \<open>Making a block\<close>

definition block_cert_size :: "'b vccert_builder \<Rightarrow> key_sizes \<Rightarrow> canonizationservice_transaction list \<Rightarrow> nat" where
  "block_cert_size bo ks txns =
     10 * (FIELD_TYPE_SIZE bo + FIELD_SIZE_SIZE bo) + 4 + 8 + 2 + 16 + 16 + 16 + signature_size ks + 8 + 16 + signature_size ks +
     sum_list (map (\<lambda>txn. FIELD_TYPE_SIZE bo + FIELD_SIZE_SIZE bo + length (canon_cert txn)) txns)"

text \<open>
  The fields of the certificate, in order, each added unless an earlier one failed;
  the time is read after the first.
\<close>

definition add_or_stop :: "('b \<Rightarrow> status \<times> 'b) \<Rightarrow> status \<times> 'b \<Rightarrow> status \<times> 'b" where
  "add_or_stop f res = (case res of (r, b) \<Rightarrow> if r \<noteq> AGENTD_STATUS_SUCCESS then (r, b) else f b)"

fun add_transactions :: "'b vccert_builder \<Rightarrow> canonizationservice_transaction list \<Rightarrow> 'b \<Rightarrow> status \<times> 'b" where
  "add_transactions bo [] b = (AGENTD_STATUS_SUCCESS, b)"
| "add_transactions bo (txn # txns) b =
     (case vccert_builder_add_short_buffer bo VCCERT_FIELD_TYPE_WRAPPED_TRANSACTION_TUPLE (canon_cert txn) b of (r, b) \<Rightarrow>
      if r \<noteq> AGENTD_STATUS_SUCCESS then (r, b) else add_transactions bo txns b)"

definition build_block ::
  "'b vccert_builder \<Rightarrow> bytes \<Rightarrow> canon_env \<Rightarrow> 's canonizationservice_instance \<Rightarrow> canonizationservice_transaction list \<Rightarrow> 'b \<Rightarrow>
     status \<times> 'b" where
  "build_block bo txn_block_type env inst txns b =
     add_or_stop (add_transactions bo txns)
     (add_or_stop (vccert_builder_add_short_uint64 bo VCCERT_FIELD_TYPE_BLOCK_HEIGHT (canon_block_height inst))
     (add_or_stop (vccert_builder_add_short_buffer bo VCCERT_FIELD_TYPE_PREVIOUS_BLOCK_HASH (previous_block_signature inst))
     (add_or_stop (vccert_builder_add_short_buffer bo VCCERT_FIELD_TYPE_PREVIOUS_BLOCK_UUID (previous_block_id inst))
     (add_or_stop (vccert_builder_add_short_buffer bo VCCERT_FIELD_TYPE_BLOCK_UUID (canon_block_id inst))
     (add_or_stop (vccert_builder_add_short_buffer bo VCCERT_FIELD_TYPE_CERTIFICATE_TYPE txn_block_type)
     (add_or_stop (vccert_builder_add_short_uint16 bo VCCERT_FIELD_TYPE_CERTIFICATE_CRYPTO_SUITE 1)
     (add_or_stop (vccert_builder_add_short_uint64 bo VCCERT_FIELD_TYPE_CERTIFICATE_VALID_FROM (word_of_int (time_now env)))
     (add_or_stop (\<lambda>b. (if time_now env < 0 then 1 else AGENTD_STATUS_SUCCESS, b))
     (vccert_builder_add_short_uint32 bo VCCERT_FIELD_TYPE_CERTIFICATE_VERSION 0x00010000 b)))))))))"

text \<open>The callers ignore the status; on every failure the event loop is left.\<close>

definition canonizationservice_block_make ::
  "'b vccert_builder \<Rightarrow> key_sizes \<Rightarrow> bytes \<Rightarrow> 's evsock \<Rightarrow> canon_env \<Rightarrow> 's canonizationservice_instance \<Rightarrow>
     's canonizationservice_instance option" where
  "canonizationservice_block_make bo ks txn_block_type ev env inst =
     (case transaction_list inst of
        None \<Rightarrow> None
      | Some txns \<Rightarrow>
      if txns = [] then Some (canonizationservice_complete_update ev env inst) else
      case vccert_builder_init bo (block_cert_size bo ks txns) of
        Inl st \<Rightarrow> Some (canonizationservice_exit_event_loop inst)
      | Inr b \<Rightarrow>
      case build_block bo txn_block_type env inst txns b of (r, b) \<Rightarrow>
      if r \<noteq> AGENTD_STATUS_SUCCESS then Some (canonizationservice_exit_event_loop inst) else
      case private_key inst of
        None \<Rightarrow> None
      | Some key \<Rightarrow>
      case vccert_builder_sign bo (key_id key) (sign_privkey key) b of (r, b) \<Rightarrow>
      if r \<noteq> AGENTD_STATUS_SUCCESS then Some (canonizationservice_exit_event_loop inst) else
      case vccert_builder_emit bo b of
        None \<Rightarrow> Some (canonizationservice_exit_event_loop inst)
      | Some cert \<Rightarrow>
      case data_request (dataservice_api_sendreq_block_make_old ev (req_buf_st env) (data_child_context inst) (canon_block_id inst) cert) inst of
        (r, inst) \<Rightarrow>
      Some (if r \<noteq> AGENTD_STATUS_SUCCESS then canonizationservice_exit_event_loop inst
            else inst\<lparr>canon_state := CANONIZATIONSERVICE_STATE_WAITRESP_BLOCK_MAKE\<rparr>))"

subsection \<open>The timer\<close>

definition canonizationservice_timer_cb ::
  "'s evsock \<Rightarrow> canon_env \<Rightarrow> 's canonizationservice_instance \<Rightarrow> 's canonizationservice_instance" where
  "canonizationservice_timer_cb ev env inst =
     (if force_exit inst then inst else
      if \<not> list_malloc env then canonizationservice_exit_event_loop (inst\<lparr>transaction_list := None\<rparr>) else
      if list_init_st env \<noteq> AGENTD_STATUS_SUCCESS
      then (canonizationservice_exit_event_loop inst)\<lparr>transaction_list := None\<rparr> else
      case canonizationservice_write_block_id_request ev (inst\<lparr>transaction_list := Some []\<rparr>) of (r, inst) \<Rightarrow>
      if r \<noteq> AGENTD_STATUS_SUCCESS then (canonizationservice_exit_event_loop inst)\<lparr>transaction_list := None\<rparr> else inst)"

definition canonizationservice_reset ::
  "'s evsock \<Rightarrow> canon_env \<Rightarrow> bool \<Rightarrow> 's canonizationservice_instance \<Rightarrow> 's canonizationservice_instance option" where
  "canonizationservice_reset ev env should_sleep inst =
     (case transaction_list inst of
        None \<Rightarrow> None
      | Some _ \<Rightarrow>
          let inst = inst\<lparr>canon_state := CANONIZATIONSERVICE_STATE_IDLE, canon_block_id := replicate 16 0, transaction_list := None\<rparr> in
          Some (if should_sleep then
                  (let inst = inst\<lparr>canon_timer := None\<rparr> in
                   if timer_init_st env \<noteq> AGENTD_STATUS_SUCCESS then canonizationservice_exit_event_loop inst else
                   if timer_add_st env \<noteq> AGENTD_STATUS_SUCCESS then canonizationservice_exit_event_loop inst else
                   inst\<lparr>canon_timer := Some (block_max_milliseconds inst)\<rparr>)
                else canonizationservice_timer_cb ev env inst))"

subsection \<open>The random service\<close>

text \<open>What the callback does with a packet.\<close>

definition canon_random_response ::
  "'s evsock \<Rightarrow> canon_env \<Rightarrow> bytes \<Rightarrow> 's canonizationservice_instance \<Rightarrow> 's canonizationservice_instance" where
  "canon_random_response ev env resp inst =
     (if canon_state inst \<noteq> CANONIZATIONSERVICE_STATE_WAITRESP_GET_RANDOM_BYTES then canonizationservice_exit_event_loop inst else
      if length resp < 12 then canonizationservice_exit_event_loop inst else
      if of_net32 (slice 0 4 resp) \<noteq> 1 \<or> of_net32 (slice 8 4 resp) \<noteq> AGENTD_STATUS_SUCCESS \<or> length resp - 12 \<noteq> 16
      then canonizationservice_exit_event_loop inst else
      exit_unless_sent (canonizationservice_dataservice_sendreq_child_context_create ev env
        (inst\<lparr>canon_block_id := slice 12 16 resp\<rparr>)))"

text \<open>A read callback: one packet is read and handled, if there is one.\<close>

definition read_one_packet ::
  "'s evsock \<Rightarrow> canon_env \<Rightarrow> ('s canonizationservice_instance \<Rightarrow> 's) \<Rightarrow>
     ('s \<Rightarrow> 's canonizationservice_instance \<Rightarrow> 's canonizationservice_instance) \<Rightarrow>
     (bytes \<Rightarrow> 's canonizationservice_instance \<Rightarrow> 's canonizationservice_instance option) \<Rightarrow>
     's canonizationservice_instance \<Rightarrow> 's canonizationservice_instance option" where
  "read_one_packet ev env get put handle inst =
     (if force_exit inst then Some inst else
      case ipc_read_data_noblock ev (read_malloc env) (get inst) of
        (Inl e, s) \<Rightarrow>
          Some (if e = AGENTD_ERROR_IPC_WOULD_BLOCK then put s inst else canonizationservice_exit_event_loop (put s inst))
      | (Inr resp, s) \<Rightarrow> handle resp (put s inst))"

definition canonizationservice_random_read ::
  "'s evsock \<Rightarrow> canon_env \<Rightarrow> 's canonizationservice_instance \<Rightarrow> 's canonizationservice_instance option" where
  "canonizationservice_random_read ev env inst =
     read_one_packet ev env random_sock (\<lambda>s. random_sock_update (\<lambda>_. s)) (\<lambda>resp inst. Some (canon_random_response ev env resp inst)) inst"

subsection \<open>The notification service\<close>

definition canon_notify_response ::
  "'s evsock \<Rightarrow> canon_env \<Rightarrow> bytes \<Rightarrow> 's canonizationservice_instance \<Rightarrow> 's canonizationservice_instance" where
  "canon_notify_response ev env resp inst =
     (if canon_state inst \<noteq> CANONIZATIONSERVICE_STATE_WAITRESP_NOTIFY_BLOCK_UPDATE then canonizationservice_exit_event_loop inst else
      case notificationservice_api_decode_response resp of
        Inl st \<Rightarrow> canonizationservice_exit_event_loop inst
      | Inr (method_id, status_code, offset, payload) \<Rightarrow>
          if method_id \<noteq> of_nat NOTIFICATIONSERVICE_API_CAP_BLOCK_UPDATE \<or> status_code \<noteq> AGENTD_STATUS_SUCCESS
          then canonizationservice_exit_event_loop inst
          else canonizationservice_child_context_close ev env inst)"

definition canonizationservice_notify_read ::
  "'s evsock \<Rightarrow> canon_env \<Rightarrow> 's canonizationservice_instance \<Rightarrow> 's canonizationservice_instance option" where
  "canonizationservice_notify_read ev env inst =
     read_one_packet ev env notify_sock (\<lambda>s. notify_sock_update (\<lambda>_. s)) (\<lambda>resp inst. Some (canon_notify_response ev env resp inst)) inst"

subsection \<open>The data service\<close>

definition canonizationservice_dataservice_response_child_context_create ::
  "'s evsock \<Rightarrow> canon_env \<Rightarrow> bytes \<Rightarrow> 's canonizationservice_instance \<Rightarrow> 's canonizationservice_instance" where
  "canonizationservice_dataservice_response_child_context_create ev env resp inst =
     (case dataservice_decode_response_child_context_create resp of
        Inr (hdr, Some child) \<Rightarrow>
          if resp_status hdr \<noteq> AGENTD_STATUS_SUCCESS then canonizationservice_exit_event_loop inst else
          exit_unless_sent (canonizationservice_dataservice_sendreq_block_id_latest_get ev env (inst\<lparr>data_child_context := child\<rparr>))
      | _ \<Rightarrow> canonizationservice_exit_event_loop inst)"

text \<open>\<open>root_block\<close> is \<^verbatim>\<open>vccert_certificate_type_uuid_root_block\<close>.\<close>

definition canonizationservice_dataservice_response_latest_block_id_read ::
  "bytes \<Rightarrow> 's evsock \<Rightarrow> canon_env \<Rightarrow> bytes \<Rightarrow> 's canonizationservice_instance \<Rightarrow> 's canonizationservice_instance" where
  "canonizationservice_dataservice_response_latest_block_id_read root_block ev env resp inst =
     (case dataservice_decode_response_latest_block_id_get resp of
        Inr (hdr, Some bid) \<Rightarrow>
          if resp_status hdr \<noteq> AGENTD_STATUS_SUCCESS then canonizationservice_exit_event_loop inst else
          let inst = inst\<lparr>previous_block_id := bid\<rparr> in
          if bid = root_block
          then exit_unless_sent (canonizationservice_dataservice_sendreq_transaction_get_first ev env (inst\<lparr>canon_block_height := 1\<rparr>))
          else exit_unless_sent (canonizationservice_dataservice_sendreq_block_get ev env inst)
      | _ \<Rightarrow> canonizationservice_exit_event_loop inst)"

text \<open>
  Reading the signature of the previous block.  The first component is whether the
  status is success, as it is when the signature has the wrong size and is not copied.
\<close>

definition parse_block :: "vccert \<Rightarrow> bytes \<Rightarrow> 's canonizationservice_instance \<Rightarrow> bool \<times> 's canonizationservice_instance" where
  "parse_block vc cert inst =
     (if \<not> vccert_parser_options_simple_init_ok vc then (False, inst) else
      if \<not> vccert_parser_init_ok vc cert then (False, inst) else
      case vccert_parser_find_short vc cert VCCERT_FIELD_TYPE_SIGNATURE of
        None \<Rightarrow> (False, inst)
      | Some signature \<Rightarrow>
          if length signature \<noteq> 64 then (True, inst) else (True, inst\<lparr>previous_block_signature := signature\<rparr>))"

definition canonizationservice_dataservice_response_block_read ::
  "vccert \<Rightarrow> 's evsock \<Rightarrow> canon_env \<Rightarrow> bytes \<Rightarrow> 's canonizationservice_instance \<Rightarrow> 's canonizationservice_instance" where
  "canonizationservice_dataservice_response_block_read vc ev env resp inst =
     (case dataservice_decode_response_block_get resp of
        Inr (hdr, Some (node, cert)) \<Rightarrow>
          if resp_status hdr \<noteq> AGENTD_STATUS_SUCCESS then canonizationservice_exit_event_loop inst else
          (case parse_block vc cert (inst\<lparr>canon_block_height := ntohll (net_block_height node) + 1\<rparr>) of (ok, inst) \<Rightarrow>
           if \<not> ok then canonizationservice_exit_event_loop inst
           else exit_unless_sent (canonizationservice_dataservice_sendreq_transaction_get_first ev env inst))
      | _ \<Rightarrow> canonizationservice_exit_event_loop inst)"

text \<open>
  A transaction of the process queue.  The handlers of the first and of the later
  transactions differ in what they do when there is none or it is not attested; both
  then keep it, and ask for the next one unless the block is full or the queue ends.
\<close>

definition keep_transaction ::
  "'b vccert_builder \<Rightarrow> key_sizes \<Rightarrow> bytes \<Rightarrow> 's evsock \<Rightarrow> canon_env \<Rightarrow> data_transaction_node \<Rightarrow> bytes \<Rightarrow>
     's canonizationservice_instance \<Rightarrow> 's canonizationservice_instance option" where
  "keep_transaction bo ks txn_block_type ev env node cert inst =
     (if \<not> txn_malloc env then Some (canonizationservice_exit_event_loop inst) else
      case transaction_list inst of
        None \<Rightarrow> None
      | Some txns \<Rightarrow>
      if list_insert_st env \<noteq> AGENTD_STATUS_SUCCESS then Some (canonizationservice_exit_event_loop inst) else
      let txns = txns @ [\<lparr> canon_node = node, canon_cert = cert \<rparr>]; inst = inst\<lparr>transaction_list := Some txns\<rparr> in
      if of_nat (length txns) = block_max_transactions inst then canonizationservice_block_make bo ks txn_block_type ev env inst else
      if dataservice_api_node_ref_is_end (node_next node) then canonizationservice_block_make bo ks txn_block_type ev env inst else
      Some (exit_unless_sent (data_request
        (dataservice_api_sendreq_transaction_get_old ev (req_buf_st env) (data_child_context inst) (node_next node)) inst)))"

definition transaction_response ::
  "(bytes \<Rightarrow> status + dataservice_response_header \<times> (data_transaction_node \<times> bytes) option) \<Rightarrow>
     ('s canonizationservice_instance \<Rightarrow> 's canonizationservice_instance option) \<Rightarrow>
     'b vccert_builder \<Rightarrow> key_sizes \<Rightarrow> bytes \<Rightarrow> 's evsock \<Rightarrow> canon_env \<Rightarrow> bytes \<Rightarrow>
     's canonizationservice_instance \<Rightarrow> 's canonizationservice_instance option" where
  "transaction_response decode finish bo ks txn_block_type ev env resp inst =
     (case decode resp of
        Inl st \<Rightarrow> Some (canonizationservice_exit_event_loop inst)
      | Inr (hdr, payload) \<Rightarrow>
          if resp_status hdr \<noteq> AGENTD_STATUS_SUCCESS \<and> resp_status hdr \<noteq> AGENTD_ERROR_DATASERVICE_NOT_FOUND
          then Some (canonizationservice_exit_event_loop inst) else
          if resp_status hdr = AGENTD_ERROR_DATASERVICE_NOT_FOUND then finish inst else
          (case payload of
             None \<Rightarrow> None
           | Some (node, cert) \<Rightarrow>
               if ntohl (net_txn_state node) \<noteq> DATASERVICE_TRANSACTION_NODE_STATE_ATTESTED then finish inst
               else keep_transaction bo ks txn_block_type ev env node cert inst))"

definition canonizationservice_dataservice_response_transaction_first_read ::
  "'b vccert_builder \<Rightarrow> key_sizes \<Rightarrow> bytes \<Rightarrow> 's evsock \<Rightarrow> canon_env \<Rightarrow> bytes \<Rightarrow>
     's canonizationservice_instance \<Rightarrow> 's canonizationservice_instance option" where
  "canonizationservice_dataservice_response_transaction_first_read bo ks txn_block_type ev env resp inst =
     transaction_response dataservice_decode_response_transaction_get_first
       (\<lambda>inst. Some (canonizationservice_complete_update ev env inst)) bo ks txn_block_type ev env resp inst"

definition canonizationservice_dataservice_response_transaction_read ::
  "'b vccert_builder \<Rightarrow> key_sizes \<Rightarrow> bytes \<Rightarrow> 's evsock \<Rightarrow> canon_env \<Rightarrow> bytes \<Rightarrow>
     's canonizationservice_instance \<Rightarrow> 's canonizationservice_instance option" where
  "canonizationservice_dataservice_response_transaction_read bo ks txn_block_type ev env resp inst =
     transaction_response dataservice_decode_response_transaction_get
       (canonizationservice_block_make bo ks txn_block_type ev env) bo ks txn_block_type ev env resp inst"

text \<open>The response to making a block, whose status is not looked at.\<close>

definition canonizationservice_dataservice_response_block_write ::
  "'s evsock \<Rightarrow> canon_env \<Rightarrow> 's canonizationservice_instance \<Rightarrow> 's canonizationservice_instance" where
  "canonizationservice_dataservice_response_block_write ev env inst = canonizationservice_notify_block_update ev env inst"

definition canonizationservice_dataservice_response_child_context_close ::
  "'s evsock \<Rightarrow> canon_env \<Rightarrow> 's canonizationservice_instance \<Rightarrow> 's canonizationservice_instance option" where
  "canonizationservice_dataservice_response_child_context_close ev env inst =
     (case transaction_list inst of
        None \<Rightarrow> None
      | Some txns \<Rightarrow> canonizationservice_reset ev env (of_nat (length txns) \<noteq> block_max_transactions inst) inst)"

text \<open>What the read callback of the data service's socket does with a packet.\<close>

definition canon_data_response ::
  "'b vccert_builder \<Rightarrow> key_sizes \<Rightarrow> vccert \<Rightarrow> bytes \<Rightarrow> bytes \<Rightarrow> 's evsock \<Rightarrow> canon_env \<Rightarrow> bytes \<Rightarrow>
     's canonizationservice_instance \<Rightarrow> 's canonizationservice_instance option" where
  "canon_data_response bo ks vc root_block txn_block_type ev env resp inst =
     (if length resp < 4 then Some (canonizationservice_exit_event_loop inst) else
      let method = of_net32 (slice 0 4 resp) in
      if method = DATASERVICE_API_METHOD_LL_CHILD_CONTEXT_CREATE
      then Some (canonizationservice_dataservice_response_child_context_create ev env resp inst) else
      if method = DATASERVICE_API_METHOD_LL_CHILD_CONTEXT_CLOSE
      then canonizationservice_dataservice_response_child_context_close ev env inst else
      if method = DATASERVICE_API_METHOD_APP_PQ_TRANSACTION_FIRST_READ
      then canonizationservice_dataservice_response_transaction_first_read bo ks txn_block_type ev env resp inst else
      if method = DATASERVICE_API_METHOD_APP_PQ_TRANSACTION_READ
      then canonizationservice_dataservice_response_transaction_read bo ks txn_block_type ev env resp inst else
      if method = DATASERVICE_API_METHOD_APP_BLOCK_ID_LATEST_READ
      then Some (canonizationservice_dataservice_response_latest_block_id_read root_block ev env resp inst) else
      if method = DATASERVICE_API_METHOD_APP_BLOCK_READ
      then Some (canonizationservice_dataservice_response_block_read vc ev env resp inst) else
      if method = DATASERVICE_API_METHOD_APP_BLOCK_WRITE
      then Some (canonizationservice_dataservice_response_block_write ev env inst)
      else Some (canonizationservice_exit_event_loop inst))"

definition canonizationservice_data_read ::
  "'b vccert_builder \<Rightarrow> key_sizes \<Rightarrow> vccert \<Rightarrow> bytes \<Rightarrow> bytes \<Rightarrow> 's evsock \<Rightarrow> canon_env \<Rightarrow>
     's canonizationservice_instance \<Rightarrow> 's canonizationservice_instance option" where
  "canonizationservice_data_read bo ks vc root_block txn_block_type ev env inst =
     read_one_packet ev env data_sock (\<lambda>s. data_sock_update (\<lambda>_. s)) (canon_data_response bo ks vc root_block txn_block_type ev env) inst"

end
