(* ===== verification/Canon_Control.thy ===== *)
theory Canon_Control
  imports Canon
begin

text \<open>
  The write callbacks of the canonization service, its control socket and the calls with
  which the supervisor configures and starts it (files \<^verbatim>\<open>canonizationservice_*_write.c\<close>,
  \<^verbatim>\<open>canonizationservice_control_*.c\<close>, \<^verbatim>\<open>canonizationservice_decode_and_dispatch_*.c\<close> and
  \<^verbatim>\<open>canonization_api_*.c\<close> below \<^verbatim>\<open>src/src/canonization\<close>).
\<close>

subsection \<open>Write callbacks\<close>

definition socket_write ::
  "'s evsock \<Rightarrow> bool \<Rightarrow> ('s canonizationservice_instance \<Rightarrow> 's) \<Rightarrow>
     ('s \<Rightarrow> 's canonizationservice_instance \<Rightarrow> 's canonizationservice_instance) \<Rightarrow>
     (bool \<Rightarrow> 's canonizationservice_instance \<Rightarrow> 's canonizationservice_instance) \<Rightarrow>
     's canonizationservice_instance \<Rightarrow> 's canonizationservice_instance" where
  "socket_write ev would_block get put set_cb inst =
     (if ipc_socket_writebuffer_size ev (get inst) > 0 then
        (case ipc_socket_write_from_buffer ev (get inst) of (r, s) \<Rightarrow>
         let inst = put s inst in
         if r = 0 \<or> (r < 0 \<and> \<not> would_block) then canonizationservice_exit_event_loop inst else
         if ipc_socket_writebuffer_size ev s > 0 then set_cb True inst else inst)
      else set_cb False inst)"

definition canonizationservice_data_write :: "'s evsock \<Rightarrow> bool \<Rightarrow> 's canonizationservice_instance \<Rightarrow> 's canonizationservice_instance" where
  "canonizationservice_data_write ev would_block inst =
     socket_write ev would_block data_sock (\<lambda>s. data_sock_update (\<lambda>_. s)) (\<lambda>b. data_cb_update (\<lambda>_. b)) inst"

definition canonizationservice_random_write :: "'s evsock \<Rightarrow> bool \<Rightarrow> 's canonizationservice_instance \<Rightarrow> 's canonizationservice_instance" where
  "canonizationservice_random_write ev would_block inst =
     socket_write ev would_block random_sock (\<lambda>s. random_sock_update (\<lambda>_. s)) (\<lambda>b. random_cb_update (\<lambda>_. b)) inst"

definition canonizationservice_notify_write :: "'s evsock \<Rightarrow> bool \<Rightarrow> 's canonizationservice_instance \<Rightarrow> 's canonizationservice_instance" where
  "canonizationservice_notify_write ev would_block inst =
     socket_write ev would_block notify_sock (\<lambda>s. notify_sock_update (\<lambda>_. s)) (\<lambda>b. notify_cb_update (\<lambda>_. b)) inst"

subsection \<open>Control commands\<close>

abbreviation (input) CANONIZATIONSERVICE_API_METHOD_CONFIGURE :: "32 word" where "CANONIZATIONSERVICE_API_METHOD_CONFIGURE \<equiv> 0"
abbreviation (input) CANONIZATIONSERVICE_API_METHOD_PRIVATE_KEY_SET :: "32 word" where
  "CANONIZATIONSERVICE_API_METHOD_PRIVATE_KEY_SET \<equiv> 1"
abbreviation (input) CANONIZATIONSERVICE_API_METHOD_START :: "32 word" where "CANONIZATIONSERVICE_API_METHOD_START \<equiv> 2"

text \<open>Commands return a status, the packets written to the control socket and the instance.\<close>

type_synonym 's control_reply = "status \<times> bytes list \<times> 's canonizationservice_instance"

definition canonizationservice_decode_and_dispatch_write_status ::
  "canon_env \<Rightarrow> 32 word \<Rightarrow> 32 word \<Rightarrow> status \<Rightarrow> bytes option \<Rightarrow> status \<times> bytes list" where
  "canonizationservice_decode_and_dispatch_write_status env method offset st data =
     (if \<not> status_malloc env then (AGENTD_ERROR_GENERAL_OUT_OF_MEMORY, []) else
      if \<not> status_write_ok env then (AGENTD_ERROR_CANONIZATIONSERVICE_IPC_WRITE_DATA_FAILURE, []) else
      (AGENTD_STATUS_SUCCESS, [response_packet method offset st data]))"

definition canonizationservice_decode_and_dispatch_control_command_configure ::
  "canon_env \<Rightarrow> bytes \<Rightarrow> 's canonizationservice_instance \<Rightarrow> 's control_reply" where
  "canonizationservice_decode_and_dispatch_control_command_configure env req inst =
     (let reply = (\<lambda>st. snd (canonizationservice_decode_and_dispatch_write_status env CANONIZATIONSERVICE_API_METHOD_CONFIGURE 0 st None)) in
      if configured inst
      then (AGENTD_STATUS_SUCCESS, reply AGENTD_ERROR_CANONIZATIONSERVICE_ALREADY_CONFIGURED, inst) else
      if length req \<noteq> 16
      then (AGENTD_ERROR_CANONIZATIONSERVICE_REQUEST_PACKET_INVALID_SIZE,
            reply AGENTD_ERROR_CANONIZATIONSERVICE_REQUEST_PACKET_INVALID_SIZE, inst) else
      (AGENTD_STATUS_SUCCESS, reply AGENTD_STATUS_SUCCESS,
       inst\<lparr>block_max_milliseconds := of_net64 (slice 0 8 req), block_max_transactions := of_net64 (slice 8 8 req), configured := True\<rparr>))"

text \<open>
  Storing the key: a buffer is allocated for each of its four parts, with the sizes of
  the crypto suite, which the caller has checked.
\<close>

definition canonizationservice_private_key_set ::
  "canon_env \<Rightarrow> bytes \<Rightarrow> bytes \<Rightarrow> bytes \<Rightarrow> bytes \<Rightarrow> bytes \<Rightarrow> 's canonizationservice_instance \<Rightarrow>
     status \<times> 's canonizationservice_instance" where
  "canonizationservice_private_key_set env entity_id encpub encpriv signpub signpriv inst =
     (if private_key inst \<noteq> None then (AGENTD_ERROR_CANONIZATIONSERVICE_PRIVATE_KEY_ALREADY_SET, inst) else
      if \<not> key_malloc env then (AGENTD_ERROR_GENERAL_OUT_OF_MEMORY, inst) else
      if key_buffer_st env 0 \<noteq> AGENTD_STATUS_SUCCESS then (key_buffer_st env 0, inst) else
      if key_buffer_st env 1 \<noteq> AGENTD_STATUS_SUCCESS then (key_buffer_st env 1, inst) else
      if key_buffer_st env 2 \<noteq> AGENTD_STATUS_SUCCESS then (key_buffer_st env 2, inst) else
      if key_buffer_st env 3 \<noteq> AGENTD_STATUS_SUCCESS then (key_buffer_st env 3, inst) else
      (AGENTD_STATUS_SUCCESS,
       inst\<lparr>private_key := Some \<lparr> key_id = entity_id, enc_pubkey = encpub, enc_privkey = encpriv, sign_pubkey = signpub,
              sign_privkey = signpriv \<rparr>\<rparr>))"

definition canonizationservice_decode_and_dispatch_control_command_private_key_set ::
  "key_sizes \<Rightarrow> canon_env \<Rightarrow> bytes \<Rightarrow> 's canonizationservice_instance \<Rightarrow> 's control_reply" where
  "canonizationservice_decode_and_dispatch_control_command_private_key_set ks env req inst =
     (let reply = (\<lambda>st. snd (canonizationservice_decode_and_dispatch_write_status env CANONIZATIONSERVICE_API_METHOD_PRIVATE_KEY_SET 0 st None));
          invalid = (AGENTD_ERROR_CANONIZATIONSERVICE_REQUEST_PACKET_INVALID_SIZE,
                     reply AGENTD_ERROR_CANONIZATIONSERVICE_REQUEST_PACKET_INVALID_SIZE, inst) in
      if length req < 20 then invalid else
      let encpub_size = unat (of_net32 (slice 4 4 req)); encpriv_size = unat (of_net32 (slice 8 4 req));
          signpub_size = unat (of_net32 (slice 12 4 req)); signpriv_size = unat (of_net32 (slice 16 4 req)) in
      if enc_pubkey_size ks \<noteq> encpub_size \<or> enc_privkey_size ks \<noteq> encpriv_size \<or>
         sign_pubkey_size ks \<noteq> signpub_size \<or> sign_privkey_size ks \<noteq> signpriv_size then invalid else
      if length req - 20 < 16 + encpub_size + encpriv_size + signpub_size + signpriv_size then invalid else
      let b = drop 20 req in
      case canonizationservice_private_key_set env (slice 0 16 b) (slice 16 encpub_size b)
             (slice (16 + encpub_size) encpriv_size b) (slice (16 + encpub_size + encpriv_size) signpub_size b)
             (slice (16 + encpub_size + encpriv_size + signpub_size) signpriv_size b) inst of (r, inst) \<Rightarrow>
      (r, reply r, inst))"

text \<open>Starting twice is refused; a timer that cannot be set gets no reply, but the service counts as running.\<close>

definition canonizationservice_decode_and_dispatch_control_command_start ::
  "canon_env \<Rightarrow> 's canonizationservice_instance \<Rightarrow> 's control_reply" where
  "canonizationservice_decode_and_dispatch_control_command_start env inst =
     (let reply = (\<lambda>st inst. case canonizationservice_decode_and_dispatch_write_status env CANONIZATIONSERVICE_API_METHOD_START 0 st None of
                     (r, out) \<Rightarrow> (r, out, inst)) in
      if \<not> configured inst then reply AGENTD_ERROR_CANONIZATIONSERVICE_START_BEFORE_CONFIGURE inst else
      if private_key inst = None then reply AGENTD_ERROR_CANONIZATIONSERVICE_START_BEFORE_PRIVATE_KEY_SET inst else
      if running inst then reply AGENTD_ERROR_CANONIZATIONSERVICE_ALREADY_RUNNING inst else
      let inst = inst\<lparr>running := True, first_time := True\<rparr> in
      if timer_init_st env \<noteq> AGENTD_STATUS_SUCCESS then (timer_init_st env, [], inst) else
      if timer_add_st env \<noteq> AGENTD_STATUS_SUCCESS then (timer_add_st env, [], inst) else
      reply AGENTD_STATUS_SUCCESS (inst\<lparr>canon_timer := Some 10\<rparr>))"

definition canonizationservice_decode_and_dispatch_control_command ::
  "key_sizes \<Rightarrow> canon_env \<Rightarrow> bytes \<Rightarrow> 's canonizationservice_instance \<Rightarrow> 's control_reply" where
  "canonizationservice_decode_and_dispatch_control_command ks env req inst =
     (if length req < 4 then (AGENTD_ERROR_CANONIZATIONSERVICE_REQUEST_PACKET_INVALID_SIZE, [], inst) else
      let method = of_net32 (slice 0 4 req); payload = drop 4 req in
      if method = CANONIZATIONSERVICE_API_METHOD_CONFIGURE
      then canonizationservice_decode_and_dispatch_control_command_configure env payload inst else
      if method = CANONIZATIONSERVICE_API_METHOD_PRIVATE_KEY_SET
      then canonizationservice_decode_and_dispatch_control_command_private_key_set ks env payload inst else
      if method = CANONIZATIONSERVICE_API_METHOD_START
      then canonizationservice_decode_and_dispatch_control_command_start env inst
      else (AGENTD_ERROR_CANONIZATIONSERVICE_REQUEST_PACKET_BAD,
            snd (canonizationservice_decode_and_dispatch_write_status env method 0
                   AGENTD_ERROR_CANONIZATIONSERVICE_REQUEST_PACKET_BAD None), inst))"

text \<open>
  The read callback of the control socket: one command, which ends the service when it
  fails.  The socket is not part of the instance; \<open>status_write_ok\<close> is set to the
  outcome that writing the reply has.
\<close>

definition canonizationservice_control_read ::
  "key_sizes \<Rightarrow> 's evsock \<Rightarrow> canon_env \<Rightarrow> 's \<times> bool \<Rightarrow> 's canonizationservice_instance \<Rightarrow> ('s \<times> bool) \<times> 's canonizationservice_instance" where
  "canonizationservice_control_read ks ev env ctl inst =
     (if force_exit inst then (ctl, inst) else
      case (case ipc_read_data_noblock ev (read_malloc env) (fst ctl) of
              (Inl e, s) \<Rightarrow> (s, if e = AGENTD_ERROR_IPC_WOULD_BLOCK then inst else canonizationservice_exit_event_loop inst)
            | (Inr req, s) \<Rightarrow>
                (case canonizationservice_decode_and_dispatch_control_command ks (env\<lparr>status_write_ok := True\<rparr>) req inst of
                   (r, [], inst') \<Rightarrow> (s, if r \<noteq> AGENTD_STATUS_SUCCESS then canonizationservice_exit_event_loop inst' else inst')
                 | (r, resp # _, inst') \<Rightarrow>
                     (case ipc_write_data_noblock ev resp s of (w, s) \<Rightarrow>
                      case canonizationservice_decode_and_dispatch_control_command ks
                             (env\<lparr>status_write_ok := w = AGENTD_STATUS_SUCCESS\<rparr>) req inst of (r, _, inst') \<Rightarrow>
                      (s, if r \<noteq> AGENTD_STATUS_SUCCESS then canonizationservice_exit_event_loop inst' else inst'))))
      of (s, inst) \<Rightarrow> ((s, snd ctl \<or> ipc_socket_writebuffer_size ev s > 0), inst))"

definition canonizationservice_control_write ::
  "'s evsock \<Rightarrow> bool \<Rightarrow> 's \<times> bool \<Rightarrow> 's canonizationservice_instance \<Rightarrow> ('s \<times> bool) \<times> 's canonizationservice_instance" where
  "canonizationservice_control_write ev would_block ctl inst =
     (if ipc_socket_writebuffer_size ev (fst ctl) > 0 then
        (case ipc_socket_write_from_buffer ev (fst ctl) of (r, s) \<Rightarrow>
         if r = 0 then ((s, snd ctl), canonizationservice_exit_event_loop inst) else
         if r < 0 then ((s, snd ctl), if \<not> would_block then canonizationservice_exit_event_loop inst else inst) else
         ((s, snd ctl \<or> ipc_socket_writebuffer_size ev s > 0), inst))
      else ((fst ctl, False), inst))"

subsection \<open>The supervisor's calls\<close>

text \<open>The configuration is \<open>None\<close> for NULL; its two values may be unset.\<close>

definition canonization_api_sendreq_configure ::
  "bool \<Rightarrow> (64 word option \<times> 64 word option) option \<Rightarrow> ipc_fd \<Rightarrow> status \<times> ipc_fd" where
  "canonization_api_sendreq_configure malloc_ok conf sock =
     (case conf of
        Some (Some max_milliseconds, Some max_transactions) \<Rightarrow>
          if \<not> malloc_ok then (AGENTD_ERROR_GENERAL_OUT_OF_MEMORY, sock) else
          (case ipc_write_data_block (net32 CANONIZATIONSERVICE_API_METHOD_CONFIGURE @ net64 max_milliseconds @ net64 max_transactions) sock of
            (r, sock) \<Rightarrow> (if r \<noteq> AGENTD_STATUS_SUCCESS then AGENTD_ERROR_CANONIZATIONSERVICE_IPC_WRITE_DATA_FAILURE else r, sock))
      | _ \<Rightarrow> (AGENTD_ERROR_CANONIZATIONSERVICE_BAD_PARAMETER, sock))"

definition canonization_api_sendreq_private_key_set ::
  "bool \<Rightarrow> canonizationservice_private_key \<Rightarrow> ipc_fd \<Rightarrow> status \<times> ipc_fd" where
  "canonization_api_sendreq_private_key_set malloc_ok key sock =
     (if \<not> malloc_ok then (AGENTD_ERROR_GENERAL_OUT_OF_MEMORY, sock) else
      ipc_write_data_block (net32 CANONIZATIONSERVICE_API_METHOD_PRIVATE_KEY_SET @ net32 0 @
        net32 (of_nat (length (enc_pubkey key))) @ net32 (of_nat (length (enc_privkey key))) @
        net32 (of_nat (length (sign_pubkey key))) @ net32 (of_nat (length (sign_privkey key))) @
        key_id key @ enc_pubkey key @ enc_privkey key @ sign_pubkey key @ sign_privkey key) sock)"

definition canonization_api_sendreq_start :: "bool \<Rightarrow> ipc_fd \<Rightarrow> status \<times> ipc_fd" where
  "canonization_api_sendreq_start malloc_ok sock =
     (if \<not> malloc_ok then (AGENTD_ERROR_GENERAL_OUT_OF_MEMORY, sock) else
      case ipc_write_data_block (net32 CANONIZATIONSERVICE_API_METHOD_START) sock of (r, sock) \<Rightarrow>
      (if r \<noteq> AGENTD_STATUS_SUCCESS then AGENTD_ERROR_CANONIZATIONSERVICE_IPC_WRITE_DATA_FAILURE else r, sock))"

text \<open>
  The responses.  The calls for configure and start clear twelve bytes of the packet
  whatever its size is, so for a shorter packet they write past its end: \<open>None\<close>.
\<close>

definition control_response :: "32 word \<Rightarrow> status \<Rightarrow> status \<Rightarrow> bytes \<Rightarrow> unit api_result" where
  "control_response method size_st method_st val =
     (if length val \<noteq> 12 then api_error size_st else
      if of_net32 (slice 0 4 val) \<noteq> method then api_error method_st else
      \<lparr> api_retval = AGENTD_STATUS_SUCCESS, api_header = Some (of_net32 (slice 4 4 val), of_net32 (slice 8 4 val)), api_payload = None \<rparr>)"

definition canonization_api_recvresp_configure :: "bool \<Rightarrow> ipc_fd \<Rightarrow> (unit api_result \<times> ipc_fd) option" where
  "canonization_api_recvresp_configure malloc_ok sock =
     (case ipc_read_data_block malloc_ok sock of
        (Inl st, sock) \<Rightarrow> Some (api_error AGENTD_ERROR_CANONIZATIONSERVICE_IPC_READ_DATA_FAILURE, sock)
      | (Inr val, sock) \<Rightarrow>
          if length val < 12 then None else
          Some (control_response CANONIZATIONSERVICE_API_METHOD_CONFIGURE AGENTD_ERROR_CANONIZATIONSERVICE_RESPONSE_PACKET_INVALID_SIZE
            AGENTD_ERROR_CANONIZATIONSERVICE_RECVRESP_UNEXPECTED_METHOD_CODE val, sock))"

definition canonization_api_recvresp_start :: "bool \<Rightarrow> ipc_fd \<Rightarrow> (unit api_result \<times> ipc_fd) option" where
  "canonization_api_recvresp_start malloc_ok sock =
     (case ipc_read_data_block malloc_ok sock of
        (Inl st, sock) \<Rightarrow> Some (api_error AGENTD_ERROR_CANONIZATIONSERVICE_IPC_READ_DATA_FAILURE, sock)
      | (Inr val, sock) \<Rightarrow>
          if length val < 12 then None else
          Some (control_response CANONIZATIONSERVICE_API_METHOD_START AGENTD_ERROR_CANONIZATIONSERVICE_RESPONSE_PACKET_INVALID_SIZE
            AGENTD_ERROR_CANONIZATIONSERVICE_RECVRESP_UNEXPECTED_METHOD_CODE val, sock))"

definition canonization_api_recvresp_private_key_set :: "bool \<Rightarrow> ipc_fd \<Rightarrow> unit api_result \<times> ipc_fd" where
  "canonization_api_recvresp_private_key_set malloc_ok sock =
     (case ipc_read_data_block malloc_ok sock of
        (Inl st, sock) \<Rightarrow> (api_error st, sock)
      | (Inr val, sock) \<Rightarrow>
          (control_response CANONIZATIONSERVICE_API_METHOD_PRIVATE_KEY_SET AGENTD_ERROR_IPC_READ_UNEXPECTED_DATA_SIZE
            AGENTD_ERROR_IPC_READ_UNEXPECTED_DATA_TYPE val, sock))"

end
