(* ===== verification/Canon_Correct.thy ===== *)
theory Canon_Correct
  imports Canon_Control
begin

text \<open>
  The canonization service as a state machine: its events, the states it can reach and
  the invariant that they keep.  The supervisor, the random service and the
  notification service may send any packet at any time.  The service does not compare
  a packet of the data service with the request it has sent, so here the data service
  is assumed to send only answers to the request that is outstanding.
\<close>

datatype 's canon_event =
    Control canon_env bytes
  | Timer canon_env
  | Random canon_env bytes
  | Data canon_env bytes
  | Notify canon_env bytes
  | Sockets 's 's 's bool

text \<open>The parameters of the model.\<close>

record ('b, 's) canon_params =
  p_builder :: "'b vccert_builder"
  p_keys :: key_sizes
  p_vccert :: vccert
  p_root_block :: bytes
  p_txn_block :: bytes
  p_ev :: "'s evsock"

text \<open>
  Reads that complete no packet and write callbacks change the sockets only, or end the
  service: \<open>Sockets\<close> covers them.
\<close>

fun canon_handle :: "('b, 's) canon_params \<Rightarrow> 's canon_event \<Rightarrow> 's canonizationservice_instance \<Rightarrow> 's canonizationservice_instance option" where
  "canon_handle P (Control env req) inst =
     (if force_exit inst then Some inst else
      case canonizationservice_decode_and_dispatch_control_command (p_keys P) env req inst of (r, _, inst) \<Rightarrow>
      Some (if r \<noteq> AGENTD_STATUS_SUCCESS then canonizationservice_exit_event_loop inst else inst))"
| "canon_handle P (Timer env) inst = Some (canonizationservice_timer_cb (p_ev P) env (inst\<lparr>canon_timer := None\<rparr>))"
| "canon_handle P (Random env resp) inst = Some (if force_exit inst then inst else canon_random_response (p_ev P) env resp inst)"
| "canon_handle P (Data env resp) inst =
     (if force_exit inst then Some inst else
      canon_data_response (p_builder P) (p_keys P) (p_vccert P) (p_root_block P) (p_txn_block P) (p_ev P) env resp inst)"
| "canon_handle P (Notify env resp) inst = Some (if force_exit inst then inst else canon_notify_response (p_ev P) env resp inst)"
| "canon_handle P (Sockets d r n stop) inst =
     Some (let inst = inst\<lparr>data_sock := d, random_sock := r, notify_sock := n\<rparr> in
           if stop then canonizationservice_exit_event_loop inst else inst)"

text \<open>The answers to the outstanding request.  The state while the transactions are read is that of reading the first one.\<close>

fun data_answers :: "canonizationservice_state \<Rightarrow> 32 word \<Rightarrow> bool" where
  "data_answers CANONIZATIONSERVICE_STATE_WAITRESP_CHILD_CONTEXT_CREATE m \<longleftrightarrow> m = DATASERVICE_API_METHOD_LL_CHILD_CONTEXT_CREATE"
| "data_answers CANONIZATIONSERVICE_STATE_WAITRESP_LATEST_BLOCK_ID_GET m \<longleftrightarrow> m = DATASERVICE_API_METHOD_APP_BLOCK_ID_LATEST_READ"
| "data_answers CANONIZATIONSERVICE_STATE_WAITRESP_BLOCK_GET m \<longleftrightarrow> m = DATASERVICE_API_METHOD_APP_BLOCK_READ"
| "data_answers CANONIZATIONSERVICE_STATE_WAITRESP_PQ_TXN_FIRST_GET m \<longleftrightarrow>
     m = DATASERVICE_API_METHOD_APP_PQ_TRANSACTION_FIRST_READ \<or> m = DATASERVICE_API_METHOD_APP_PQ_TRANSACTION_READ"
| "data_answers CANONIZATIONSERVICE_STATE_WAITRESP_BLOCK_MAKE m \<longleftrightarrow> m = DATASERVICE_API_METHOD_APP_BLOCK_WRITE"
| "data_answers CANONIZATIONSERVICE_STATE_WAITRESP_CHILD_CONTEXT_CLOSE m \<longleftrightarrow> m = DATASERVICE_API_METHOD_LL_CHILD_CONTEXT_CLOSE"
| "data_answers _ m \<longleftrightarrow> False"

fun event_possible :: "'s canon_event \<Rightarrow> 's canonizationservice_instance \<Rightarrow> bool" where
  "event_possible (Timer env) inst \<longleftrightarrow> canon_timer inst \<noteq> None"
| "event_possible (Data env resp) inst \<longleftrightarrow> length resp < 4 \<or> data_answers (canon_state inst) (of_net32 (slice 0 4 resp))"
| "event_possible _ inst \<longleftrightarrow> True"

inductive canon_reachable :: "('b, 's) canon_params \<Rightarrow> 's canonizationservice_instance \<Rightarrow> bool" for P where
  created: "canonizationservice_instance_create True True True True True d r n = Some inst \<Longrightarrow> canon_reachable P inst"
| event: "canon_reachable P inst \<Longrightarrow> event_possible e inst \<Longrightarrow> canon_handle P e inst = Some inst' \<Longrightarrow> canon_reachable P inst'"

definition attested :: "canonizationservice_transaction \<Rightarrow> bool" where
  "attested txn \<longleftrightarrow> ntohl (net_txn_state (canon_node txn)) = DATASERVICE_TRANSACTION_NODE_STATE_ATTESTED"

text \<open>What holds of the list of transactions in a state, with the maximal number \<open>mx\<close> of them.\<close>

definition list_ok :: "canonizationservice_state \<Rightarrow> 64 word \<Rightarrow> canonizationservice_transaction list \<Rightarrow> bool" where
  "list_ok st mx txns \<longleftrightarrow> (\<forall>t \<in> set txns. attested t) \<and>
     (mx \<noteq> 0 \<longrightarrow> length txns \<le> unat mx) \<and>
     (mx \<noteq> 0 \<and> st = CANONIZATIONSERVICE_STATE_WAITRESP_PQ_TXN_FIRST_GET \<longrightarrow> length txns < unat mx) \<and>
     (st = CANONIZATIONSERVICE_STATE_WAITRESP_BLOCK_MAKE \<longrightarrow> txns \<noteq> []) \<and>
     (st \<in> {CANONIZATIONSERVICE_STATE_WAITRESP_GET_RANDOM_BYTES, CANONIZATIONSERVICE_STATE_WAITRESP_CHILD_CONTEXT_CREATE,
            CANONIZATIONSERVICE_STATE_WAITRESP_LATEST_BLOCK_ID_GET, CANONIZATIONSERVICE_STATE_WAITRESP_BLOCK_GET} \<longrightarrow> txns = [])"

definition canon_inv :: "'s canonizationservice_instance \<Rightarrow> bool" where
  "canon_inv inst \<longleftrightarrow> force_exit inst \<or>
     ((transaction_list inst = None \<longleftrightarrow> canon_state inst = CANONIZATIONSERVICE_STATE_IDLE) \<and>
      (canon_state inst \<noteq> CANONIZATIONSERVICE_STATE_IDLE \<longrightarrow> running inst) \<and>
      (running inst \<longrightarrow> configured inst \<and> private_key inst \<noteq> None) \<and>
      (canon_timer inst \<noteq> None \<longrightarrow> canon_state inst = CANONIZATIONSERVICE_STATE_IDLE \<and> running inst) \<and>
      (\<forall>txns. transaction_list inst = Some txns \<longrightarrow> list_ok (canon_state inst) (block_max_transactions inst) txns))"

subsection \<open>The invariant\<close>

lemma exit_inv [simp]: "canon_inv (canonizationservice_exit_event_loop inst)"
  by (simp add: canon_inv_def canonizationservice_exit_event_loop_def)

lemma exit_list_inv [simp]: "canon_inv ((canonizationservice_exit_event_loop inst)\<lparr>transaction_list := l\<rparr>)"
  by (simp add: canon_inv_def canonizationservice_exit_event_loop_def)

text \<open>The sockets and write callbacks do not matter.\<close>

lemma inv_sockets [simp]:
  "canon_inv (inst\<lparr>data_sock := s\<rparr>) = canon_inv inst" "canon_inv (inst\<lparr>data_cb := b\<rparr>) = canon_inv inst"
  "canon_inv (inst\<lparr>random_sock := s\<rparr>) = canon_inv inst" "canon_inv (inst\<lparr>random_cb := b\<rparr>) = canon_inv inst"
  "canon_inv (inst\<lparr>notify_sock := s\<rparr>) = canon_inv inst" "canon_inv (inst\<lparr>notify_cb := b\<rparr>) = canon_inv inst"
  "canon_inv (inst\<lparr>data_child_context := c\<rparr>) = canon_inv inst" "canon_inv (inst\<lparr>canon_block_id := i\<rparr>) = canon_inv inst"
  "canon_inv (inst\<lparr>previous_block_id := i\<rparr>) = canon_inv inst" "canon_inv (inst\<lparr>previous_block_signature := i\<rparr>) = canon_inv inst"
  "canon_inv (inst\<lparr>canon_block_height := h\<rparr>) = canon_inv inst" "canon_inv (inst\<lparr>first_time := f\<rparr>) = canon_inv inst"
  by (simp_all add: canon_inv_def)

lemma data_request_inv:
  assumes "canon_inv inst"
  shows "canon_inv (exit_unless_sent (data_request send inst))"
  using assms by (auto simp: exit_unless_sent_def data_request_def Let_def split: prod.splits)

text \<open>Moving on to another state of a round.\<close>

lemma state_inv:
  assumes "canon_inv inst" and "canon_state inst \<noteq> CANONIZATIONSERVICE_STATE_IDLE" and "st \<noteq> CANONIZATIONSERVICE_STATE_IDLE"
    and "\<not> force_exit inst \<Longrightarrow> \<forall>txns. transaction_list inst = Some txns \<longrightarrow> list_ok st (block_max_transactions inst) txns"
  shows "canon_inv (inst\<lparr>canon_state := st\<rparr>)"
  using assms by (auto simp: canon_inv_def)

lemma sendreq_inv:
  assumes "canon_inv inst" and "canon_state inst \<noteq> CANONIZATIONSERVICE_STATE_IDLE"
    and "\<not> force_exit inst \<Longrightarrow> \<forall>txns. transaction_list inst = Some txns \<longrightarrow> txns = []"
  shows "canon_inv (exit_unless_sent (canonizationservice_dataservice_sendreq_child_context_create ev env inst))"
    and "canon_inv (exit_unless_sent (canonizationservice_dataservice_sendreq_block_id_latest_get ev env inst))"
    and "canon_inv (exit_unless_sent (canonizationservice_dataservice_sendreq_block_get ev env inst))"
    and "canon_inv (exit_unless_sent (canonizationservice_dataservice_sendreq_transaction_get_first ev env inst))"
proof -
  have st: "canon_inv (inst\<lparr>canon_state := st\<rparr>)"
    if "st \<noteq> CANONIZATIONSERVICE_STATE_IDLE" "st \<noteq> CANONIZATIONSERVICE_STATE_WAITRESP_BLOCK_MAKE" for st
    using that assms(3) by (intro state_inv [OF assms(1,2)]) (auto simp: list_ok_def unat_gt_0)
  note d = data_request_inv [OF st]
  show "canon_inv (exit_unless_sent (canonizationservice_dataservice_sendreq_block_id_latest_get ev env inst))"
    "canon_inv (exit_unless_sent (canonizationservice_dataservice_sendreq_block_get ev env inst))"
    "canon_inv (exit_unless_sent (canonizationservice_dataservice_sendreq_transaction_get_first ev env inst))"
    unfolding canonizationservice_dataservice_sendreq_block_id_latest_get_def canonizationservice_dataservice_sendreq_block_get_def
      canonizationservice_dataservice_sendreq_transaction_get_first_def by (rule d; simp)+
  show "canon_inv (exit_unless_sent (canonizationservice_dataservice_sendreq_child_context_create ev env inst))"
    using d [of CANONIZATIONSERVICE_STATE_WAITRESP_CHILD_CONTEXT_CREATE "dataservice_api_sendreq_child_context_create_old ev (req_buf_st env) canon_caps"]
    by (auto simp: canonizationservice_dataservice_sendreq_child_context_create_def exit_unless_sent_def split: prod.splits)
qed

text \<open>
  Closing the context, notifying and making the block, from any state of a round:
  \<open>canon_late\<close> leaves room for a list that is full.
\<close>

definition canon_late :: "'s canonizationservice_instance \<Rightarrow> bool" where
  "canon_late inst \<longleftrightarrow> canon_inv (inst\<lparr>canon_state := CANONIZATIONSERVICE_STATE_WAITRESP_CHILD_CONTEXT_CLOSE\<rparr>)"

lemma list_ok_late:
  assumes "list_ok st mx txns"
  shows "list_ok CANONIZATIONSERVICE_STATE_WAITRESP_CHILD_CONTEXT_CLOSE mx txns"
    and "list_ok CANONIZATIONSERVICE_STATE_WAITRESP_NOTIFY_BLOCK_UPDATE mx txns"
    and "txns \<noteq> [] \<Longrightarrow> list_ok CANONIZATIONSERVICE_STATE_WAITRESP_BLOCK_MAKE mx txns"
  using assms by (simp_all add: list_ok_def)

lemma inv_list: "canon_inv inst \<Longrightarrow> \<not> force_exit inst \<Longrightarrow> transaction_list inst = Some txns \<Longrightarrow>
    list_ok (canon_state inst) (block_max_transactions inst) txns"
  by (simp add: canon_inv_def)

lemma late_of_inv: "canon_inv inst \<Longrightarrow> canon_state inst \<noteq> CANONIZATIONSERVICE_STATE_IDLE \<Longrightarrow> canon_late inst"
  unfolding canon_late_def by (rule state_inv) (auto intro: list_ok_late inv_list)

lemma late_states:
  assumes "canon_late inst"
  shows "canon_inv (inst\<lparr>canon_state := CANONIZATIONSERVICE_STATE_WAITRESP_CHILD_CONTEXT_CLOSE\<rparr>)"
    and "canon_inv (inst\<lparr>canon_state := CANONIZATIONSERVICE_STATE_WAITRESP_NOTIFY_BLOCK_UPDATE\<rparr>)"
    and "transaction_list inst \<noteq> Some [] \<Longrightarrow> canon_inv (inst\<lparr>canon_state := CANONIZATIONSERVICE_STATE_WAITRESP_BLOCK_MAKE\<rparr>)"
  using assms state_inv [of "inst\<lparr>canon_state := CANONIZATIONSERVICE_STATE_WAITRESP_CHILD_CONTEXT_CLOSE\<rparr>"]
    inv_list [of "inst\<lparr>canon_state := CANONIZATIONSERVICE_STATE_WAITRESP_CHILD_CONTEXT_CLOSE\<rparr>"]
  by (auto simp: canon_late_def intro!: list_ok_late)

lemma inv_sockets_state [simp]:
  "canon_inv (inst\<lparr>data_sock := s, canon_state := st\<rparr>) = canon_inv (inst\<lparr>canon_state := st\<rparr>)"
  "canon_inv (inst\<lparr>data_sock := s, data_cb := b, canon_state := st\<rparr>) = canon_inv (inst\<lparr>canon_state := st\<rparr>)"
  "canon_inv (inst\<lparr>notify_sock := s, canon_state := st\<rparr>) = canon_inv (inst\<lparr>canon_state := st\<rparr>)"
  by (simp_all add: canon_inv_def)

lemma late_fields [simp]:
  "canon_late (inst\<lparr>first_time := f\<rparr>) = canon_late inst" "canon_late (inst\<lparr>canon_block_id := i\<rparr>) = canon_late inst"
  by (simp_all add: canon_late_def canon_inv_def)

lemma close_inv: "canon_late inst \<Longrightarrow> canon_inv (canonizationservice_child_context_close ev env inst)"
  by (auto simp: canonizationservice_child_context_close_def data_request_def Let_def dest: late_states split: prod.splits)

lemma notify_inv: "canon_late inst \<Longrightarrow> canon_inv (canonizationservice_notify_block_update ev env inst)"
  by (auto simp: canonizationservice_notify_block_update_def Let_def dest: late_states split: prod.splits sum.splits)

lemma complete_inv: "canon_late inst \<Longrightarrow> canon_inv (canonizationservice_complete_update ev env inst)"
  by (simp add: canonizationservice_complete_update_def close_inv notify_inv)

lemma block_make_inv:
  assumes late: "canon_late inst" and run: "\<not> force_exit inst"
  shows "\<exists>inst'. canonizationservice_block_make bo ks tb ev env inst = Some inst' \<and> canon_inv inst'"
proof -
  obtain txns key where l: "transaction_list inst = Some txns" "private_key inst = Some key"
    using late run by (auto simp: canon_late_def canon_inv_def)
  have m: "canon_inv (inst'\<lparr>canon_state := CANONIZATIONSERVICE_STATE_WAITRESP_BLOCK_MAKE\<rparr>)"
    if "txns \<noteq> []" "data_request send inst = (AGENTD_STATUS_SUCCESS, inst')" for send inst'
    using late_states(3) [OF late] l that by (auto simp: data_request_def Let_def split: prod.splits if_splits)
  show ?thesis
    using l m complete_inv [OF late]
    by (auto simp: canonizationservice_block_make_def split: sum.splits prod.splits option.splits)
qed

lemma keep_inv:
  assumes i: "canon_inv inst" and st: "canon_state inst = CANONIZATIONSERVICE_STATE_WAITRESP_PQ_TXN_FIRST_GET" and run: "\<not> force_exit inst"
    and a: "ntohl (net_txn_state node) = DATASERVICE_TRANSACTION_NODE_STATE_ATTESTED"
  shows "\<exists>inst'. keep_transaction bo ks tb ev env node cert inst = Some inst' \<and> canon_inv inst'"
proof -
  obtain txns where l: "transaction_list inst = Some txns" using i st run by (auto simp: canon_inv_def)
  let ?txns = "txns @ [\<lparr> canon_node = node, canon_cert = cert \<rparr>]" and ?mx = "block_max_transactions inst"
  let ?inst = "inst\<lparr>transaction_list := Some ?txns\<rparr>"
  have lo: "list_ok CANONIZATIONSERVICE_STATE_WAITRESP_PQ_TXN_FIRST_GET ?mx txns" using inv_list [OF i run l] st by simp
  have late: "canon_late ?inst"
    using lo i st run l a by (auto simp: canon_late_def canon_inv_def list_ok_def attested_def Suc_le_eq)
  have "length ?txns < unat ?mx" if "?mx \<noteq> 0" "of_nat (length ?txns) \<noteq> ?mx"
  proof -
    have "length ?txns \<le> unat ?mx" using lo that(1) by (simp add: list_ok_def)
    moreover have "length ?txns \<noteq> unat ?mx" using that(2) by (metis of_nat_unat ucast_id)
    ultimately show ?thesis by simp
  qed
  then have more: "canon_inv ?inst" if "of_nat (length ?txns) \<noteq> ?mx"
    using that lo i st run l a by (auto simp: canon_inv_def list_ok_def attested_def)
  have b: "\<exists>inst'. canonizationservice_block_make bo ks tb ev env ?inst = Some inst' \<and> canon_inv inst'"
    using block_make_inv [OF late] run by simp
  show ?thesis using b data_request_inv [OF more] l by (simp add: keep_transaction_def Let_def)
qed

lemma transaction_inv:
  assumes i: "canon_inv inst" and st: "canon_state inst = CANONIZATIONSERVICE_STATE_WAITRESP_PQ_TXN_FIRST_GET" and run: "\<not> force_exit inst"
    and d: "\<And>hdr. decode resp = Inr (hdr, None) \<Longrightarrow> resp_status hdr \<noteq> AGENTD_STATUS_SUCCESS"
    and f: "\<exists>inst'. finish inst = Some inst' \<and> canon_inv inst'"
  shows "\<exists>inst'. transaction_response decode finish bo ks tb ev env resp inst = Some inst' \<and> canon_inv inst'"
  using d f keep_inv [OF i st run] by (auto simp: transaction_response_def split: sum.splits option.splits)

lemma decode_txn_none:
  "decode_response_txn_node m resp = Inr (hdr, None) \<Longrightarrow> resp_status hdr \<noteq> AGENTD_STATUS_SUCCESS"
  by (auto simp: decode_response_txn_node_def with_response_def Let_def split: if_splits)

lemma timer_inv:
  assumes "canon_inv inst" and "canon_state inst = CANONIZATIONSERVICE_STATE_IDLE" and "running inst" and "canon_timer inst = None"
  shows "canon_inv (canonizationservice_timer_cb ev env inst)"
  using assms by (auto simp: canonizationservice_timer_cb_def canonizationservice_write_block_id_request_def canon_inv_def
      canonizationservice_exit_event_loop_def list_ok_def Let_def unat_gt_0 split: prod.splits)

lemma closed_inv:
  assumes "canon_inv inst" and "canon_state inst \<noteq> CANONIZATIONSERVICE_STATE_IDLE" and "\<not> force_exit inst"
  shows "\<exists>inst'. canonizationservice_dataservice_response_child_context_close ev env inst = Some inst' \<and> canon_inv inst'"
proof -
  let ?inst = "inst\<lparr>canon_state := CANONIZATIONSERVICE_STATE_IDLE, canon_block_id := replicate 16 0, transaction_list := None\<rparr>"
  obtain txns where l: "transaction_list inst = Some txns" using assms by (auto simp: canon_inv_def)
  have r: "running inst" "configured inst" "private_key inst \<noteq> None" "canon_timer inst = None"
    using assms by (auto simp: canon_inv_def)
  have "canon_inv ?inst" using r by (simp add: canon_inv_def)
  then have "canon_inv (canonizationservice_timer_cb ev env ?inst)" by (rule timer_inv) (simp_all add: r)
  moreover have "canon_inv (?inst\<lparr>canon_timer := t\<rparr>)" for t using r by (simp add: canon_inv_def)
  ultimately show ?thesis using l
    by (simp add: canonizationservice_dataservice_response_child_context_close_def canonizationservice_reset_def Let_def)
qed

text \<open>The list is empty until the first transaction is read.\<close>

lemma inv_empty:
  assumes "canon_inv inst"
    and "canon_state inst \<in> {CANONIZATIONSERVICE_STATE_WAITRESP_GET_RANDOM_BYTES, CANONIZATIONSERVICE_STATE_WAITRESP_CHILD_CONTEXT_CREATE,
            CANONIZATIONSERVICE_STATE_WAITRESP_LATEST_BLOCK_ID_GET, CANONIZATIONSERVICE_STATE_WAITRESP_BLOCK_GET}"
  shows "\<not> force_exit inst \<Longrightarrow> \<forall>txns. transaction_list inst = Some txns \<longrightarrow> txns = []"
    and "canon_state inst \<noteq> CANONIZATIONSERVICE_STATE_IDLE"
  using assms by (auto simp: canon_inv_def list_ok_def)

lemma random_inv:
  assumes "canon_inv inst"
  shows "canon_inv (canon_random_response ev env resp inst)"
proof (cases "canon_state inst = CANONIZATIONSERVICE_STATE_WAITRESP_GET_RANDOM_BYTES")
  case True
  then show ?thesis
    using inv_empty [OF assms] assms by (auto simp: canon_random_response_def intro!: sendreq_inv)
qed (simp add: canon_random_response_def)

lemma notified_inv:
  assumes "canon_inv inst"
  shows "canon_inv (canon_notify_response ev env resp inst)"
  using assms by (auto simp: canon_notify_response_def intro!: close_inv late_of_inv split: sum.splits)

lemma create_inv:
  assumes "canon_inv inst" and "canon_state inst = CANONIZATIONSERVICE_STATE_WAITRESP_CHILD_CONTEXT_CREATE"
  shows "canon_inv (canonizationservice_dataservice_response_child_context_create ev env resp inst)"
  using assms inv_empty [OF assms(1)]
  by (auto simp: canonizationservice_dataservice_response_child_context_create_def intro!: sendreq_inv split: sum.splits option.splits)

lemma latest_inv:
  assumes "canon_inv inst" and "canon_state inst = CANONIZATIONSERVICE_STATE_WAITRESP_LATEST_BLOCK_ID_GET"
  shows "canon_inv (canonizationservice_dataservice_response_latest_block_id_read root ev env resp inst)"
  using assms inv_empty [OF assms(1)]
  by (auto simp: canonizationservice_dataservice_response_latest_block_id_read_def Let_def intro!: sendreq_inv split: sum.splits option.splits)

lemma block_read_inv:
  assumes "canon_inv inst" and "canon_state inst = CANONIZATIONSERVICE_STATE_WAITRESP_BLOCK_GET"
  shows "canon_inv (canonizationservice_dataservice_response_block_read vc ev env resp inst)"
  using assms inv_empty [OF assms(1)]
  by (auto simp: canonizationservice_dataservice_response_block_read_def parse_block_def Let_def intro!: sendreq_inv
      split: sum.splits option.splits if_splits)

text \<open>Every packet of the data service that answers the outstanding request.\<close>

lemma data_inv:
  assumes i: "canon_inv inst" and run: "\<not> force_exit inst" and p: "event_possible (Data env resp) inst"
  shows "\<exists>inst'. canon_data_response bo ks vc root tb ev env resp inst = Some inst' \<and> canon_inv inst'"
proof (cases "length resp < 4")
  case False
  with p have d: "data_answers (canon_state inst) (of_net32 (slice 0 4 resp))" by simp
  then have ni: "canon_state inst \<noteq> CANONIZATIONSERVICE_STATE_IDLE" by (cases "canon_state inst") simp_all
  have late: "canon_late inst" by (rule late_of_inv [OF i ni])
  note t = transaction_inv [OF i _ run]
  have t1: "\<exists>inst'. canonizationservice_dataservice_response_transaction_first_read bo ks tb ev env resp inst = Some inst' \<and> canon_inv inst'"
    if "canon_state inst = CANONIZATIONSERVICE_STATE_WAITRESP_PQ_TXN_FIRST_GET"
    unfolding canonizationservice_dataservice_response_transaction_first_read_def dataservice_decode_response_transaction_get_first_def
    by (rule t [OF that]) (auto dest: decode_txn_none intro: complete_inv [OF late])
  have t2: "\<exists>inst'. canonizationservice_dataservice_response_transaction_read bo ks tb ev env resp inst = Some inst' \<and> canon_inv inst'"
    if "canon_state inst = CANONIZATIONSERVICE_STATE_WAITRESP_PQ_TXN_FIRST_GET"
    unfolding canonizationservice_dataservice_response_transaction_read_def dataservice_decode_response_transaction_get_def
    by (rule t [OF that]) (auto dest: decode_txn_none intro: block_make_inv [OF late run])
  show ?thesis
    using d False t1 t2 closed_inv [OF i ni run] create_inv [OF i] latest_inv [OF i] block_read_inv [OF i] notify_inv [OF late]
    by (cases "canon_state inst")
      (auto simp: canon_data_response_def Let_def canonizationservice_dataservice_response_block_write_def)
qed (simp add: canon_data_response_def)

text \<open>The commands of the supervisor.\<close>

lemma control_inv:
  assumes "canon_inv inst" and "\<not> force_exit inst"
    and "canonizationservice_decode_and_dispatch_control_command ks env req inst = (AGENTD_STATUS_SUCCESS, out, inst')"
  shows "canon_inv inst'"
proof -
  have k: "canon_inv inst''" if "canonizationservice_private_key_set env eid a b c d inst = (r, inst'')" for eid a b c d r inst''
    using that assms(1,2) by (auto simp: canonizationservice_private_key_set_def canon_inv_def split: if_splits)
  have c: "canon_inv inst''" if "canonizationservice_decode_and_dispatch_control_command_configure env r inst = (AGENTD_STATUS_SUCCESS, out, inst'')" for r inst''
    using that assms(1,2) by (auto simp: canonizationservice_decode_and_dispatch_control_command_configure_def canon_inv_def Let_def split: if_splits)
  have p: "canon_inv inst''" if "canonizationservice_decode_and_dispatch_control_command_private_key_set ks env r inst = (AGENTD_STATUS_SUCCESS, out, inst'')" for r inst''
    using that assms(1) k by (auto simp: canonizationservice_decode_and_dispatch_control_command_private_key_set_def Let_def split: if_splits prod.splits)
  have s: "canon_inv inst''" if "canonizationservice_decode_and_dispatch_control_command_start env inst = (AGENTD_STATUS_SUCCESS, out, inst'')" for inst''
    using that assms(1,2) by (auto simp: canonizationservice_decode_and_dispatch_control_command_start_def canon_inv_def Let_def split: if_splits prod.splits)
  show ?thesis
    using assms(3) c p s by (auto simp: canonizationservice_decode_and_dispatch_control_command_def Let_def split: if_splits)
qed

lemma canon_handle_inv:
  assumes i: "canon_inv inst" and p: "event_possible e inst"
  shows "\<exists>inst'. canon_handle P e inst = Some inst' \<and> canon_inv inst'"
proof (cases e)
  case (Control env req)
  then show ?thesis using i control_inv [OF i] by (auto split: prod.splits)
next
  case (Timer env)
  then have "canon_inv (canonizationservice_timer_cb (p_ev P) env (inst\<lparr>canon_timer := None\<rparr>))"
  proof (cases "force_exit inst")
    case True
    then show ?thesis by (simp add: canonizationservice_timer_cb_def canon_inv_def)
  next
    case False
    then show ?thesis using p i Timer by (intro timer_inv) (auto simp: canon_inv_def)
  qed
  with Timer show ?thesis by simp
next
  case (Data env resp)
  then show ?thesis using i p data_inv [OF i, of env resp] by auto
qed (use i random_inv notified_inv in \<open>auto simp: Let_def\<close>)

text \<open>
  C9. A canonization service that is created, told by the supervisor what to do, and
  answered by the three services, keeps its invariant: the list of transactions exists exactly while a
  block is being made, only a configured service with a private key makes blocks, the
  timer is armed only in between, every collected transaction is attested, there are
  never more than the configured maximum, and a block is made only of at least one.  No
  event follows a NULL pointer or reads a list that is gone.
\<close>

theorem canonization_reachable_safe:
  assumes "canon_reachable P inst"
  shows "canon_inv inst \<and> (\<forall>e. event_possible e inst \<longrightarrow> canon_handle P e inst \<noteq> None)"
  using assms
proof (induction rule: canon_reachable.induct)
  case (created d r n inst)
  then have "canon_inv inst" by (auto simp: canonizationservice_instance_create_def canon_inv_def)
  then show ?case using canon_handle_inv by blast
next
  case (event inst e inst')
  then have "canon_inv inst'" using canon_handle_inv [of inst e P] by auto
  then show ?case using canon_handle_inv by blast
qed

text \<open>A builder that writes the values one after another.\<close>

definition plain_builder :: "bytes vccert_builder" where
  "plain_builder = \<lparr> FIELD_TYPE_SIZE = 2, FIELD_SIZE_SIZE = 2, vccert_builder_init = \<lambda>n. Inr [],
     vccert_builder_add_short_uint16 = \<lambda>f v b. (0, b), vccert_builder_add_short_uint32 = \<lambda>f v b. (0, b @ net32 v),
     vccert_builder_add_short_uint64 = \<lambda>f v b. (0, b @ net64 v), vccert_builder_add_short_buffer = \<lambda>f v b. (0, b @ v),
     vccert_builder_sign = \<lambda>i k b. (0, b @ i), vccert_builder_emit = Some \<rparr>"

definition sample_env :: canon_env where
  "sample_env = \<lparr> read_malloc = True, list_malloc = True, list_init_st = 0, txn_malloc = True, list_insert_st = 0, req_buf_st = 0,
     notify_alloc_st = 0, timer_init_st = 0, timer_add_st = 0, time_now = 7, status_malloc = True, status_write_ok = True,
     key_malloc = True, key_buffer_st = \<lambda>_. 0 \<rparr>"

definition sample_sock :: mem_sock where
  "sample_sock = \<lparr> m_rbuf = [], m_wbuf = [], m_fragments = [], m_sent = [] \<rparr>"

definition sample_key :: canonizationservice_private_key where
  "sample_key = \<lparr> key_id = replicate 16 3, enc_pubkey = [1], enc_privkey = [2], sign_pubkey = [3], sign_privkey = [4] \<rparr>"

definition sample_params :: "(bytes, mem_sock) canon_params" where
  "sample_params = \<lparr> p_builder = plain_builder,
     p_keys = \<lparr> enc_pubkey_size = 1, enc_privkey_size = 1, sign_pubkey_size = 1, sign_privkey_size = 1, signature_size = 64 \<rparr>,
     p_vccert = \<lparr> vccrypt_suite_options_init_ok = True, vccert_parser_options_simple_init_ok = True, vccert_parser_init_ok = \<lambda>_. True,
       vccert_fields = \<lambda>_ _. [] \<rparr>,
     p_root_block = replicate 16 1, p_txn_block = replicate 16 2, p_ev = mem_evsock \<rparr>"


definition sample_new :: "mem_sock canonizationservice_instance" where
  "sample_new = the (canonizationservice_instance_create True True True True True sample_sock sample_sock sample_sock)"

definition sample_events :: "mem_sock canon_event list" where
  "sample_events = [Control sample_env (net32 0 @ net64 1000 @ net64 5),
     Control sample_env (net32 1 @ net32 0 @ net32 1 @ net32 1 @ net32 1 @ net32 1 @ replicate 16 3 @ [1, 2, 3, 4]),
     Control sample_env (net32 2), Timer sample_env]"

fun canon_run :: "('b, 's) canon_params \<Rightarrow> 's canon_event list \<Rightarrow> 's canonizationservice_instance \<Rightarrow> 's canonizationservice_instance option" where
  "canon_run P [] inst = Some inst"
| "canon_run P (e # es) inst =
     (if event_possible e inst then (case canon_handle P e inst of None \<Rightarrow> None | Some inst' \<Rightarrow> canon_run P es inst') else None)"

lemma run_reachable: "canon_run P es inst = Some inst' \<Longrightarrow> canon_reachable P inst \<Longrightarrow> canon_reachable P inst'"
  by (induction es arbitrary: inst) (auto split: if_splits option.splits intro: canon_reachable.event)

theorem canonization_reachable_safe_witness:
  "\<exists>inst. canon_run sample_params sample_events sample_new = Some inst \<and>
     canon_state inst = CANONIZATIONSERVICE_STATE_WAITRESP_GET_RANDOM_BYTES \<and> canon_inv inst \<and>
     canon_handle sample_params (Random sample_env []) inst \<noteq> None"
proof -
  have "\<exists>inst. canon_run sample_params sample_events sample_new = Some inst \<and>
     canon_state inst = CANONIZATIONSERVICE_STATE_WAITRESP_GET_RANDOM_BYTES"
    by (simp add: sample_events_def sample_new_def sample_params_def sample_env_def canonizationservice_instance_create_def
        canonizationservice_decode_and_dispatch_control_command_def canonizationservice_decode_and_dispatch_control_command_configure_def
        canonizationservice_decode_and_dispatch_control_command_private_key_set_def canonizationservice_private_key_set_def
        canonizationservice_decode_and_dispatch_control_command_start_def canonizationservice_decode_and_dispatch_write_status_def
        canonizationservice_timer_cb_def canonizationservice_write_block_id_request_def ipc_write_data_noblock_def add_or_def
        ipc_socket_write_from_buffer_def mem_evsock_def sample_sock_def Let_def)
  then obtain inst where i: "canon_run sample_params sample_events sample_new = Some inst"
    "canon_state inst = CANONIZATIONSERVICE_STATE_WAITRESP_GET_RANDOM_BYTES" by blast
  have "canon_reachable sample_params sample_new"
    by (rule canon_reachable.created) (simp add: sample_new_def canonizationservice_instance_create_def)
  from canonization_reachable_safe [OF run_reachable [OF i(1) this]] show ?thesis using i by (intro exI [of _ inst]) simp
qed

end
