(* ===== verification/Canon_Round.thy ===== *)
theory Canon_Round
  imports Canon_Correct Ds_Codec
begin

text \<open>
  One round of the canonization service against the process queue of the data service:
  which transactions go into the block, and the request that makes it.
\<close>

subsection \<open>The answers of the data service\<close>

definition queue_packet :: "32 word \<Rightarrow> 32 word \<Rightarrow> canonizationservice_transaction \<Rightarrow> bytes" where
  "queue_packet m i t = response_packet m i AGENTD_STATUS_SUCCESS
     (Some (node_key (canon_node t) @ node_prev (canon_node t) @ node_next (canon_node t) @ node_artifact_id (canon_node t) @
            mem32 (net_txn_state (canon_node t)) @ canon_cert t))"

definition reading_queue :: "'s canonizationservice_instance \<Rightarrow> bool" where
  "reading_queue inst \<longleftrightarrow> \<not> force_exit inst \<and> canon_state inst = CANONIZATIONSERVICE_STATE_WAITRESP_PQ_TXN_FIRST_GET"

text \<open>
  The data service answers the request it was sent: for the first transaction with the
  head of the queue, for a transaction with the one of the key in the request.
\<close>

definition queue_answer :: "canonizationservice_transaction list \<Rightarrow> bytes \<Rightarrow> bytes" where
  "queue_answer q req =
     (let m = of_net32 (slice 0 4 req); i = of_net32 (slice 4 4 req); key = slice 8 16 req;
          found = (if m = DATASERVICE_API_METHOD_APP_PQ_TRANSACTION_FIRST_READ then (case q of [] \<Rightarrow> None | t # _ \<Rightarrow> Some t)
                   else find (\<lambda>t. node_key (canon_node t) = key) q) in
      case found of
        None \<Rightarrow> response_packet m i AGENTD_ERROR_DATASERVICE_NOT_FOUND None
      | Some t \<Rightarrow> queue_packet m i t)"

text \<open>
  The exchange, for at most \<open>n\<close> answers: the packet the service has written to its socket (\<open>written\<close> is
  everything written so far) is answered, as long as the service goes on reading the queue.
\<close>

fun serve_queue ::
  "nat \<Rightarrow> ('b, 's) canon_params \<Rightarrow> canon_env \<Rightarrow> ('s \<Rightarrow> bytes) \<Rightarrow> canonizationservice_transaction list \<Rightarrow> bytes \<Rightarrow>
     's canonizationservice_instance \<Rightarrow> 's canonizationservice_instance option" where
  "serve_queue 0 P env written q before inst = None"
| "serve_queue (Suc n) P env written q before inst =
     (case canon_handle P (Data env (queue_answer q (drop (length before + 8) (written (data_sock inst))))) inst of
        None \<Rightarrow> None
      | Some inst' \<Rightarrow>
          if reading_queue inst' then serve_queue n P env written q (written (data_sock inst)) inst' else Some inst')"

definition queue_entry :: "canonizationservice_transaction \<Rightarrow> bool" where
  "queue_entry t \<longleftrightarrow> length (canon_cert t) < 2 ^ 32 \<and> txn_node_wf (canon_node t) \<and>
     node_block_id (canon_node t) = node_block_id txn_node_zero \<and> node_pad (canon_node t) = node_pad txn_node_zero \<and>
     net_txn_cert_size (canon_node t) = htonll (of_nat (length (canon_cert t)))"

text \<open>The queue is linked by the keys of the transactions, which are distinct, and ends.\<close>

fun queue_linked :: "canonizationservice_transaction list \<Rightarrow> bool" where
  "queue_linked [] \<longleftrightarrow> True"
| "queue_linked [t] \<longleftrightarrow> dataservice_api_node_ref_is_end (node_next (canon_node t))"
| "queue_linked (t # u # ts) \<longleftrightarrow> node_next (canon_node t) = node_key (canon_node u) \<and>
     \<not> dataservice_api_node_ref_is_end (node_next (canon_node t)) \<and> queue_linked (u # ts)"

definition queue_ok :: "canonizationservice_transaction list \<Rightarrow> bool" where
  "queue_ok q \<longleftrightarrow> (\<forall>t \<in> set q. queue_entry t) \<and> queue_linked q \<and> distinct (map (\<lambda>t. node_key (canon_node t)) q) \<and> length q < 2 ^ 64"

text \<open>The transactions of the block: the attested ones at the head of the queue, at most \<open>mx\<close> unless that is zero.\<close>

definition block_of :: "64 word \<Rightarrow> canonizationservice_transaction list \<Rightarrow> canonizationservice_transaction list" where
  "block_of mx ts = takeWhile attested (if mx = 0 then ts else take (unat mx) ts)"

text \<open>
  The certificate of a block: its fields in order, the transactions last and in the order of the list.
\<close>

datatype cert_field =
    Uint16 vccert_field "16 word"
  | Uint32 vccert_field "32 word"
  | Uint64 vccert_field "64 word"
  | Buffer vccert_field bytes

definition block_fields ::
  "bytes \<Rightarrow> 64 word \<Rightarrow> bytes \<Rightarrow> bytes \<Rightarrow> bytes \<Rightarrow> 64 word \<Rightarrow> bytes list \<Rightarrow> cert_field list" where
  "block_fields txn_block_type now block_id prev_id prev_signature height certs =
     [Uint32 VCCERT_FIELD_TYPE_CERTIFICATE_VERSION 0x00010000,
      Uint64 VCCERT_FIELD_TYPE_CERTIFICATE_VALID_FROM now,
      Uint16 VCCERT_FIELD_TYPE_CERTIFICATE_CRYPTO_SUITE 1,
      Buffer VCCERT_FIELD_TYPE_CERTIFICATE_TYPE txn_block_type,
      Buffer VCCERT_FIELD_TYPE_BLOCK_UUID block_id,
      Buffer VCCERT_FIELD_TYPE_PREVIOUS_BLOCK_UUID prev_id,
      Buffer VCCERT_FIELD_TYPE_PREVIOUS_BLOCK_HASH prev_signature,
      Uint64 VCCERT_FIELD_TYPE_BLOCK_HEIGHT height] @
     map (Buffer VCCERT_FIELD_TYPE_WRAPPED_TRANSACTION_TUPLE) certs"

text \<open>
  The certificate builder of the library: fields are appended to what it contains, and signing
  and emitting gives the certificate with these fields, signed with this key.  No call fails.
\<close>

locale certificate_builder =
  fixes bo :: "'b vccert_builder" and contents :: "'b \<Rightarrow> cert_field list" and certificate :: "cert_field list \<Rightarrow> bytes \<Rightarrow> bytes \<Rightarrow> bytes"
  assumes init_law: "\<exists>b. vccert_builder_init bo n = Inr b \<and> contents b = []"
    and uint16_law: "\<exists>b'. vccert_builder_add_short_uint16 bo f v16 b = (AGENTD_STATUS_SUCCESS, b') \<and> contents b' = contents b @ [Uint16 f v16]"
    and uint32_law: "\<exists>b'. vccert_builder_add_short_uint32 bo f v32 b = (AGENTD_STATUS_SUCCESS, b') \<and> contents b' = contents b @ [Uint32 f v32]"
    and uint64_law: "\<exists>b'. vccert_builder_add_short_uint64 bo f v64 b = (AGENTD_STATUS_SUCCESS, b') \<and> contents b' = contents b @ [Uint64 f v64]"
    and buffer_law: "\<exists>b'. vccert_builder_add_short_buffer bo f v b = (AGENTD_STATUS_SUCCESS, b') \<and> contents b' = contents b @ [Buffer f v]"
    and sign_law: "\<exists>b'. vccert_builder_sign bo signer key b = (AGENTD_STATUS_SUCCESS, b') \<and>
                        vccert_builder_emit bo b' = Some (certificate (contents b) signer key)"
begin

lemma transactions_added:
  "\<exists>b'. add_transactions bo txns b = (AGENTD_STATUS_SUCCESS, b') \<and>
     contents b' = contents b @ map (Buffer VCCERT_FIELD_TYPE_WRAPPED_TRANSACTION_TUPLE) (map canon_cert txns)"
proof (induction txns arbitrary: b)
  case (Cons t txns)
  obtain b1 where "vccert_builder_add_short_buffer bo VCCERT_FIELD_TYPE_WRAPPED_TRANSACTION_TUPLE (canon_cert t) b = (AGENTD_STATUS_SUCCESS, b1)"
    "contents b1 = contents b @ [Buffer VCCERT_FIELD_TYPE_WRAPPED_TRANSACTION_TUPLE (canon_cert t)]" using buffer_law by blast
  then show ?case using Cons [of b1] by simp
qed simp

lemma block_built:
  assumes "0 \<le> time_now env"
  shows "\<exists>b b'. vccert_builder_init bo n = Inr b \<and> build_block bo tb env inst txns b = (AGENTD_STATUS_SUCCESS, b') \<and>
     contents b' = block_fields tb (word_of_int (time_now env)) (canon_block_id inst) (previous_block_id inst) (previous_block_signature inst)
       (canon_block_height inst) (map canon_cert txns)"
proof -
  obtain b0 where b0: "vccert_builder_init bo n = Inr b0" "contents b0 = []" using init_law by blast
  obtain b1 where b1: "vccert_builder_add_short_uint32 bo VCCERT_FIELD_TYPE_CERTIFICATE_VERSION 0x00010000 b0 = (AGENTD_STATUS_SUCCESS, b1)"
    "contents b1 = contents b0 @ [Uint32 VCCERT_FIELD_TYPE_CERTIFICATE_VERSION 0x00010000]" using uint32_law by blast
  obtain b2 where b2: "vccert_builder_add_short_uint64 bo VCCERT_FIELD_TYPE_CERTIFICATE_VALID_FROM (word_of_int (time_now env)) b1 = (AGENTD_STATUS_SUCCESS, b2)"
    "contents b2 = contents b1 @ [Uint64 VCCERT_FIELD_TYPE_CERTIFICATE_VALID_FROM (word_of_int (time_now env))]" using uint64_law by blast
  obtain b3 where b3: "vccert_builder_add_short_uint16 bo VCCERT_FIELD_TYPE_CERTIFICATE_CRYPTO_SUITE 1 b2 = (AGENTD_STATUS_SUCCESS, b3)"
    "contents b3 = contents b2 @ [Uint16 VCCERT_FIELD_TYPE_CERTIFICATE_CRYPTO_SUITE 1]" using uint16_law by blast
  obtain b4 where b4: "vccert_builder_add_short_buffer bo VCCERT_FIELD_TYPE_CERTIFICATE_TYPE tb b3 = (AGENTD_STATUS_SUCCESS, b4)"
    "contents b4 = contents b3 @ [Buffer VCCERT_FIELD_TYPE_CERTIFICATE_TYPE tb]" using buffer_law by blast
  obtain b5 where b5: "vccert_builder_add_short_buffer bo VCCERT_FIELD_TYPE_BLOCK_UUID (canon_block_id inst) b4 = (AGENTD_STATUS_SUCCESS, b5)"
    "contents b5 = contents b4 @ [Buffer VCCERT_FIELD_TYPE_BLOCK_UUID (canon_block_id inst)]" using buffer_law by blast
  obtain b6 where b6: "vccert_builder_add_short_buffer bo VCCERT_FIELD_TYPE_PREVIOUS_BLOCK_UUID (previous_block_id inst) b5 = (AGENTD_STATUS_SUCCESS, b6)"
    "contents b6 = contents b5 @ [Buffer VCCERT_FIELD_TYPE_PREVIOUS_BLOCK_UUID (previous_block_id inst)]" using buffer_law by blast
  obtain b7 where b7: "vccert_builder_add_short_buffer bo VCCERT_FIELD_TYPE_PREVIOUS_BLOCK_HASH (previous_block_signature inst) b6 = (AGENTD_STATUS_SUCCESS, b7)"
    "contents b7 = contents b6 @ [Buffer VCCERT_FIELD_TYPE_PREVIOUS_BLOCK_HASH (previous_block_signature inst)]" using buffer_law by blast
  obtain b8 where b8: "vccert_builder_add_short_uint64 bo VCCERT_FIELD_TYPE_BLOCK_HEIGHT (canon_block_height inst) b7 = (AGENTD_STATUS_SUCCESS, b8)"
    "contents b8 = contents b7 @ [Uint64 VCCERT_FIELD_TYPE_BLOCK_HEIGHT (canon_block_height inst)]" using uint64_law by blast
  obtain b9 where b9: "add_transactions bo txns b8 = (AGENTD_STATUS_SUCCESS, b9)"
    "contents b9 = contents b8 @ map (Buffer VCCERT_FIELD_TYPE_WRAPPED_TRANSACTION_TUPLE) (map canon_cert txns)" using transactions_added by blast
  have "build_block bo tb env inst txns b0 = (AGENTD_STATUS_SUCCESS, b9)"
    using assms by (simp add: build_block_def add_or_stop_def b1 b2 b3 b4 b5 b6 b7 b8 b9)
  moreover have "contents b9 = block_fields tb (word_of_int (time_now env)) (canon_block_id inst) (previous_block_id inst) (previous_block_signature inst)
       (canon_block_height inst) (map canon_cert txns)"
    by (simp add: block_fields_def b9(2) b8(2) b7(2) b6(2) b5(2) b4(2) b3(2) b2(2) b1(2) b0(2))
  ultimately show ?thesis using b0(1) by blast
qed

end

definition canon_env_ok :: "canon_env \<Rightarrow> bool" where
  "canon_env_ok env \<longleftrightarrow> txn_malloc env \<and> list_insert_st env = AGENTD_STATUS_SUCCESS \<and> req_buf_st env = AGENTD_STATUS_SUCCESS \<and>
     0 \<le> time_now env"

subsection \<open>One answer\<close>

lemma queue_packet_decoded:
  assumes "queue_entry t"
  shows "decode_response_txn_node m (queue_packet m i t) =
     Inr (\<lparr> method_code = m, resp_offset = i, resp_status = AGENTD_STATUS_SUCCESS \<rparr>, Some (canon_node t, canon_cert t))"
proof -
  let ?n = "canon_node t"
  let ?p = "node_key ?n @ node_prev ?n @ node_next ?n @ node_artifact_id ?n @ mem32 (net_txn_state ?n) @ canon_cert t"
  have l: "length (canon_cert t) < 2 ^ 32" and w: "txn_node_wf ?n" using assms by (simp_all add: queue_entry_def)
  have "length ?p = 68 + length (canon_cert t)" using w by (simp add: txn_node_wf_def)
  then have "dat_size (12 + 68) (response_packet m i st (Some ?p)) = of_nat (length (canon_cert t))" for st
    by (rule dat_size_packet)
  moreover have "(ucast (of_nat (length (canon_cert t)) :: 32 word) :: 64 word) = of_nat (length (canon_cert t))"
    using l by (simp add: unsigned_of_nat take_bit_nat_eq_self)
  ultimately show ?thesis using assms l w
    by (cases ?n) (simp add: queue_packet_def decode_response_txn_node_def with_response_def Let_def unat_of_nat32 txn_node_wf_def
        queue_entry_def txn_node_zero_def)
qed

lemma missing_decoded:
  "decode_response_txn_node m (response_packet m i AGENTD_ERROR_DATASERVICE_NOT_FOUND None) =
     Inr (\<lparr> method_code = m, resp_offset = i, resp_status = AGENTD_ERROR_DATASERVICE_NOT_FOUND \<rparr>, None)"
  by (simp add: decode_response_txn_node_def with_response_def Let_def)

text \<open>Finishing with no transaction collected completes the update, as the handler of the first transaction does.\<close>

lemma queue_handled:
  assumes "\<not> force_exit inst" and "m = DATASERVICE_API_METHOD_APP_PQ_TRANSACTION_READ \<or>
      (m = DATASERVICE_API_METHOD_APP_PQ_TRANSACTION_FIRST_READ \<and> transaction_list inst = Some [])"
  shows "canon_handle P (Data env (response_packet m i st data)) inst =
     transaction_response (decode_response_txn_node m)
       (canonizationservice_block_make (p_builder P) (p_keys P) (p_txn_block P) (p_ev P) env)
       (p_builder P) (p_keys P) (p_txn_block P) (p_ev P) env (response_packet m i st data) inst"
proof -
  have r: "of_net32 (slice 0 4 (response_packet m i st data)) = m" "\<not> length (response_packet m i st data) < 4"
    by (simp_all add: response_packet_def)
  from assms(2) show ?thesis
  proof
    assume "m = DATASERVICE_API_METHOD_APP_PQ_TRANSACTION_READ"
    then show ?thesis using r assms(1)
      by (simp add: canon_data_response_def canonizationservice_dataservice_response_transaction_read_def
          dataservice_decode_response_transaction_get_def [abs_def])
  next
    assume m: "m = DATASERVICE_API_METHOD_APP_PQ_TRANSACTION_FIRST_READ \<and> transaction_list inst = Some []"
    then have "canonizationservice_block_make (p_builder P) (p_keys P) (p_txn_block P) (p_ev P) env inst =
        Some (canonizationservice_complete_update (p_ev P) env inst)"
      by (simp add: canonizationservice_block_make_def)
    with m r assms(1) show ?thesis
      by (simp add: canon_data_response_def canonizationservice_dataservice_response_transaction_first_read_def
          dataservice_decode_response_transaction_get_first_def [abs_def] transaction_response_def split: sum.splits option.splits)
  qed
qed

lemma data_request_sent:
  assumes ev: "ev_reliable (p_ev P) rbuf wbuf incoming sent" and ok: "packet_ok b"
  shows "\<exists>s. data_request (sendreq_old (p_ev P) (Inr b)) inst = (AGENTD_STATUS_SUCCESS, inst\<lparr>data_sock := s, data_cb := True\<rparr>) \<and>
     sent s @ wbuf s = (sent (data_sock inst) @ wbuf (data_sock inst)) @ framed b"
proof -
  obtain s where w: "ipc_write_data_noblock (p_ev P) b (data_sock inst) = (AGENTD_STATUS_SUCCESS, s)"
    using ev_reliable.write_data_success [OF ev] by blast
  then show ?thesis using ev_socket.write_data_sent [OF ev_reliable.axioms(1) [OF ev] ok w]
    by (auto simp: data_request_def sendreq_old_def write_request_def)
qed

text \<open>The request for the transaction with a key.\<close>

definition transaction_get_request :: "32 word \<Rightarrow> bytes \<Rightarrow> bytes" where
  "transaction_get_request child key = net32 DATASERVICE_API_METHOD_APP_PQ_TRANSACTION_READ @ net32 child @ key"

lemma transaction_kept:
  assumes ev: "ev_reliable (p_ev P) rbuf wbuf incoming sent" and "canon_env_ok env" and t: "queue_entry t" and "attested t"
    and "transaction_list inst = Some acc"
  shows "\<exists>s. transaction_response (decode_response_txn_node m) finish (p_builder P) (p_keys P) (p_txn_block P) (p_ev P) env (queue_packet m i t) inst =
    (if of_nat (length acc + 1) = block_max_transactions inst \<or> dataservice_api_node_ref_is_end (node_next (canon_node t))
     then canonizationservice_block_make (p_builder P) (p_keys P) (p_txn_block P) (p_ev P) env (inst\<lparr>transaction_list := Some (acc @ [t])\<rparr>)
     else Some (inst\<lparr>transaction_list := Some (acc @ [t]), data_sock := s, data_cb := True\<rparr>)) \<and>
    sent s @ wbuf s = (sent (data_sock inst) @ wbuf (data_sock inst)) @
      framed (transaction_get_request (data_child_context inst) (node_next (canon_node t)))"
proof -
  have [simp]: "\<lparr> canon_node = canon_node t, canon_cert = canon_cert t \<rparr> = t" by simp
  have ok: "packet_ok (transaction_get_request (data_child_context inst) (node_next (canon_node t)))"
    using t by (simp add: packet_ok_def transaction_get_request_def queue_entry_def txn_node_wf_def)
  obtain s where s: "data_request (dataservice_api_sendreq_transaction_get_old (p_ev P) AGENTD_STATUS_SUCCESS (data_child_context inst)
      (node_next (canon_node t))) (inst\<lparr>transaction_list := Some (acc @ [t])\<rparr>) =
    (AGENTD_STATUS_SUCCESS, inst\<lparr>transaction_list := Some (acc @ [t]), data_sock := s, data_cb := True\<rparr>)"
    "sent s @ wbuf s = (sent (data_sock inst) @ wbuf (data_sock inst)) @
       framed (transaction_get_request (data_child_context inst) (node_next (canon_node t)))"
    using data_request_sent [OF ev ok, of "inst\<lparr>transaction_list := Some (acc @ [t])\<rparr>"]
    unfolding dataservice_api_sendreq_transaction_get_old_def dataservice_encode_request_transaction_get_def request_buffer_def transaction_get_request_def
    by auto
  then show ?thesis using assms(2-5)
    by (intro exI [of _ s]) (auto simp: transaction_response_def queue_packet_decoded attested_def keep_transaction_def canon_env_ok_def exit_unless_sent_def Let_def)
qed

lemma block_make_done:
  "canonizationservice_block_make bo ks tb ev env inst = Some inst' \<Longrightarrow> \<not> reading_queue inst'"
  by (auto simp: canonizationservice_block_make_def canonizationservice_complete_update_def canonizationservice_notify_block_update_def
      canonizationservice_child_context_close_def data_request_def reading_queue_def canonizationservice_exit_event_loop_def Let_def
      split: option.splits sum.splits prod.splits if_splits)

lemma same_list: "transaction_list inst = Some acc \<Longrightarrow> inst\<lparr>transaction_list := Some acc\<rparr> = inst"
  by simp

text \<open>What the data service is asked.\<close>

lemma framed_dropped: "drop 8 (framed b) = b"
  by (simp add: framed_def)

lemma answer_by_key:
  assumes "u \<in> set q" and "queue_ok q"
  shows "queue_answer q (transaction_get_request child (node_key (canon_node u))) = queue_packet DATASERVICE_API_METHOD_APP_PQ_TRANSACTION_READ child u"
proof -
  let ?r = "transaction_get_request child (node_key (canon_node u))"
  have "length (node_key (canon_node u)) = 16" using assms by (auto simp: queue_ok_def queue_entry_def txn_node_wf_def)
  then have r: "of_net32 (slice 0 4 ?r) = DATASERVICE_API_METHOD_APP_PQ_TRANSACTION_READ" "of_net32 (slice 4 4 ?r) = child" "slice 8 16 ?r = node_key (canon_node u)"
    by (simp_all add: transaction_get_request_def slice_def)
  have "distinct (map (\<lambda>t. node_key (canon_node t)) q)" using assms(2) by (simp add: queue_ok_def)
  then have "find (\<lambda>t. node_key (canon_node t) = node_key (canon_node u)) q = Some u"
    using assms(1) by (induction q) (auto simp: rev_image_eqI)
  then show ?thesis by (simp add: queue_answer_def Let_def r)
qed

definition head_answer :: "32 word \<Rightarrow> 32 word \<Rightarrow> canonizationservice_transaction list \<Rightarrow> bytes" where
  "head_answer m i ts = (case ts of [] \<Rightarrow> response_packet m i AGENTD_ERROR_DATASERVICE_NOT_FOUND None | t # _ \<Rightarrow> queue_packet m i t)"

lemma queue_linked_suffix: "queue_linked (pre @ ts) \<Longrightarrow> queue_linked ts"
proof (induction pre)
  case (Cons t pre)
  then show ?case by (cases "pre @ ts") auto
qed simp

lemma block_full:
  fixes mx :: "64 word"
  assumes "n + 1 < 2 ^ 64"
  shows "of_nat (n + 1) = mx \<longleftrightarrow> mx \<noteq> 0 \<and> n + 1 = unat mx"
proof -
  have u: "unat (of_nat (n + 1) :: 64 word) = n + 1" by (subst unat_of_nat) (use assms in simp)
  moreover have "of_nat (unat mx) = mx" by simp
  ultimately show ?thesis by (metis add_is_0 one_neq_zero unat_0)
qed

text \<open>Reading the queue ends in making a block of the transactions collected.\<close>

lemma queue_read:
  assumes ev: "ev_reliable (p_ev P) rbuf wbuf incoming sent" and env: "canon_env_ok env" and ok: "queue_ok q"
  defines "written \<equiv> \<lambda>s. sent s @ wbuf s"
  assumes r: "reading_queue inst" and l: "transaction_list inst = Some acc"
    and m: "m = DATASERVICE_API_METHOD_APP_PQ_TRANSACTION_READ \<or> (m = DATASERVICE_API_METHOD_APP_PQ_TRANSACTION_FIRST_READ \<and> acc = [])"
    and mx: "block_max_transactions inst \<noteq> 0 \<longrightarrow> length acc < unat (block_max_transactions inst)"
    and q: "q = pre @ ts" "length acc + length ts < 2 ^ 64"
    and asked: "queue_answer q (drop (length before + 8) (written (data_sock inst))) = head_answer m i ts"
    and n: "length ts < n"
  shows "\<exists>s b. serve_queue n P env written q before inst = canonizationservice_block_make (p_builder P) (p_keys P) (p_txn_block P) (p_ev P) env
     (inst\<lparr>data_sock := s, data_cb := b, transaction_list := Some (acc @ takeWhile attested
       (if block_max_transactions inst = 0 then ts else take (unat (block_max_transactions inst) - length acc) ts))\<rparr>)"
  using r l m mx q asked n
proof (induction ts arbitrary: inst acc m pre before i n)
  case Nil
  have h: "\<not> force_exit inst" using Nil.prems(1) by (simp add: reading_queue_def)
  obtain n' where n: "n = Suc n'" using Nil.prems(8) by (cases n) simp_all
  have "canon_handle P (Data env (response_packet m i AGENTD_ERROR_DATASERVICE_NOT_FOUND None)) inst =
      canonizationservice_block_make (p_builder P) (p_keys P) (p_txn_block P) (p_ev P) env inst"
    using queue_handled [OF h, of m P env i AGENTD_ERROR_DATASERVICE_NOT_FOUND None] Nil.prems(2,3) missing_decoded [of m i]
    by (auto simp: transaction_response_def)
  then have "serve_queue n P env written q before inst = canonizationservice_block_make (p_builder P) (p_keys P) (p_txn_block P) (p_ev P) env inst"
    using Nil.prems(7) unfolding n by (auto simp: head_answer_def split: option.splits dest: block_make_done)
  then show ?case using same_list [OF Nil.prems(2)]
    by (intro exI [of _ "data_sock inst"] exI [of _ "data_cb inst"]) simp
next
  case (Cons t ts)
  let ?mx = "block_max_transactions inst" and ?make = "canonizationservice_block_make (p_builder P) (p_keys P) (p_txn_block P) (p_ev P) env"
  obtain n' where n: "n = Suc n'" using Cons.prems(8) by (cases n) simp_all
  have h: "\<not> force_exit inst" using Cons.prems(1) by (simp add: reading_queue_def)
  have t: "queue_entry t" and link: "queue_linked (t # ts)" using Cons.prems(5) ok queue_linked_suffix [of pre "t # ts"] by (simp_all add: queue_ok_def)
  have eq: "canon_handle P (Data env (queue_packet m i t)) inst = transaction_response (decode_response_txn_node m) ?make
       (p_builder P) (p_keys P) (p_txn_block P) (p_ev P) env (queue_packet m i t) inst"
    using queue_handled [OF h] Cons.prems(2,3) unfolding queue_packet_def by blast
  have asked: "queue_answer q (drop (length before + 8) (written (data_sock inst))) = queue_packet m i t" using Cons.prems(7) by (simp add: head_answer_def)
  have made: "serve_queue n P env written q before inst = ?make inst'" if "canon_handle P (Data env (queue_packet m i t)) inst = ?make inst'" for inst'
    using that unfolding n by (auto simp: asked split: option.splits dest: block_make_done)
  have first: "takeWhile attested (if ?mx = 0 then t # ts else take (unat ?mx - length acc) (t # ts)) =
      (if attested t then t # takeWhile attested (if ?mx = 0 then ts else take (unat ?mx - length (acc @ [t])) ts) else [])"
    using Cons.prems(4) by (auto simp: take_Cons' Suc_diff_Suc)
  show ?case
  proof (cases "attested t")
    case False
    then have "canon_handle P (Data env (queue_packet m i t)) inst = ?make inst"
      unfolding eq by (simp add: transaction_response_def queue_packet_decoded [OF t] attested_def)
    then show ?thesis using made same_list [OF Cons.prems(2)] False unfolding first
      by (intro exI [of _ "data_sock inst"] exI [of _ "data_cb inst"]) simp
  next
    case True
    obtain s where k: "canon_handle P (Data env (queue_packet m i t)) inst =
       (if of_nat (length acc + 1) = ?mx \<or> dataservice_api_node_ref_is_end (node_next (canon_node t))
        then ?make (inst\<lparr>transaction_list := Some (acc @ [t])\<rparr>)
        else Some (inst\<lparr>transaction_list := Some (acc @ [t]), data_sock := s, data_cb := True\<rparr>))"
      and s: "written s = written (data_sock inst) @ framed (transaction_get_request (data_child_context inst) (node_next (canon_node t)))"
      unfolding eq written_def using transaction_kept [OF ev env t True Cons.prems(2)] by blast
    have full: "of_nat (length acc + 1) = ?mx \<longleftrightarrow> ?mx \<noteq> 0 \<and> length acc + 1 = unat ?mx"
      by (rule block_full) (use Cons.prems(6) in simp)
    show ?thesis
    proof (cases "of_nat (length acc + 1) = ?mx \<or> dataservice_api_node_ref_is_end (node_next (canon_node t))")
      case d: True
      have "dataservice_api_node_ref_is_end (node_next (canon_node t)) \<Longrightarrow> ts = []" using link by (cases ts) auto
      then have e: "takeWhile attested (if ?mx = 0 then ts else take (unat ?mx - length (acc @ [t])) ts) = []"
        using full d by auto
      have "serve_queue n P env written q before inst = ?make (inst\<lparr>transaction_list := Some (acc @ [t])\<rparr>)"
        by (rule made) (use k d in simp)
      then show ?thesis unfolding first e if_P [OF True]
        by (intro exI [of _ "data_sock inst"] exI [of _ "data_cb inst"]) simp
    next
      case False
      then obtain u us where u: "ts = u # us" "node_next (canon_node t) = node_key (canon_node u)" using link by (cases ts) auto
      let ?inst = "inst\<lparr>transaction_list := Some (acc @ [t]), data_sock := s, data_cb := True\<rparr>"
      have r: "reading_queue ?inst" using Cons.prems(1) by (simp add: reading_queue_def)
      have go: "serve_queue n P env written q before inst = serve_queue n' P env written q (written (data_sock inst)) ?inst"
        using k False r unfolding n by (simp add: asked)
      have "queue_answer q (drop (length (written (data_sock inst)) + 8) (written (data_sock ?inst))) =
          head_answer DATASERVICE_API_METHOD_APP_PQ_TRANSACTION_READ (data_child_context inst) ts"
        using answer_by_key [OF _ ok, of u] Cons.prems(5) u by (simp add: s framed_dropped head_answer_def)
      moreover have "block_max_transactions ?inst \<noteq> 0 \<longrightarrow> length (acc @ [t]) < unat (block_max_transactions ?inst)"
        using False full Cons.prems(4) by auto
      ultimately show ?thesis
        using Cons.IH [OF r, of "acc @ [t]" DATASERVICE_API_METHOD_APP_PQ_TRANSACTION_READ "pre @ [t]" "written (data_sock inst)" "data_child_context inst" n']
          Cons.prems(5,6,8) n unfolding first if_P [OF True] go
        by (cases "?mx = 0") (simp_all del: serve_queue.simps)
    qed
  qed
qed

subsection \<open>The request that makes the block\<close>

lemma block_make_request:
  assumes ev: "ev_reliable (p_ev P) rbuf wbuf incoming sent" and env: "canon_env_ok env"
    and builder: "certificate_builder (p_builder P) contents certificate"
    and l: "transaction_list inst = Some txns" "txns \<noteq> []" and k: "private_key inst = Some key"
    and c: "cert = certificate (block_fields (p_txn_block P) (word_of_int (time_now env)) (canon_block_id inst) (previous_block_id inst)
        (previous_block_signature inst) (canon_block_height inst) (map canon_cert txns)) (key_id key) (sign_privkey key)"
    and p: "packet_ok req" "req = net32 DATASERVICE_API_METHOD_APP_BLOCK_WRITE @ net32 (data_child_context inst) @ canon_block_id inst @ cert"
  shows "\<exists>s. canonizationservice_block_make (p_builder P) (p_keys P) (p_txn_block P) (p_ev P) env inst =
       Some (inst\<lparr>data_sock := s, data_cb := True, canon_state := CANONIZATIONSERVICE_STATE_WAITRESP_BLOCK_MAKE\<rparr>) \<and>
     sent s @ wbuf s = (sent (data_sock inst) @ wbuf (data_sock inst)) @ framed req"
proof -
  have e: "0 \<le> time_now env" "req_buf_st env = AGENTD_STATUS_SUCCESS" using env by (simp_all add: canon_env_ok_def)
  obtain b b' where b: "vccert_builder_init (p_builder P) (block_cert_size (p_builder P) (p_keys P) txns) = Inr b"
    "build_block (p_builder P) (p_txn_block P) env inst txns b = (AGENTD_STATUS_SUCCESS, b')"
    "contents b' = block_fields (p_txn_block P) (word_of_int (time_now env)) (canon_block_id inst) (previous_block_id inst)
       (previous_block_signature inst) (canon_block_height inst) (map canon_cert txns)"
    using certificate_builder.block_built [OF builder e(1)] by blast
  obtain b'' where s: "vccert_builder_sign (p_builder P) (key_id key) (sign_privkey key) b' = (AGENTD_STATUS_SUCCESS, b'')"
    "vccert_builder_emit (p_builder P) b'' = Some cert"
    using certificate_builder.sign_law [OF builder] unfolding c b(3) [symmetric] by blast
  obtain s' where w: "data_request (sendreq_old (p_ev P) (Inr req)) inst = (AGENTD_STATUS_SUCCESS, inst\<lparr>data_sock := s', data_cb := True\<rparr>)"
    "sent s' @ wbuf s' = (sent (data_sock inst) @ wbuf (data_sock inst)) @ framed req" using data_request_sent [OF ev p(1)] by blast
  then show ?thesis using l k b s e
    by (auto simp: canonizationservice_block_make_def dataservice_api_sendreq_block_make_old_def [abs_def] dataservice_encode_request_block_make_def
        request_buffer_def p(2))
qed

lemma first_asked:
  assumes ev: "ev_reliable (p_ev P) rbuf wbuf incoming sent" and env: "canon_env_ok env"
  obtains s where "canonizationservice_dataservice_sendreq_transaction_get_first (p_ev P) env inst =
      (AGENTD_STATUS_SUCCESS, inst\<lparr>canon_state := CANONIZATIONSERVICE_STATE_WAITRESP_PQ_TXN_FIRST_GET, data_sock := s, data_cb := True\<rparr>)"
    and "sent s @ wbuf s = (sent (data_sock inst) @ wbuf (data_sock inst)) @
      framed (net32 DATASERVICE_API_METHOD_APP_PQ_TRANSACTION_FIRST_READ @ net32 (data_child_context inst))"
proof -
  have "packet_ok (net32 DATASERVICE_API_METHOD_APP_PQ_TRANSACTION_FIRST_READ @ net32 (data_child_context inst))" by (simp add: packet_ok_def)
  from data_request_sent [OF ev this, of "inst\<lparr>canon_state := CANONIZATIONSERVICE_STATE_WAITRESP_PQ_TXN_FIRST_GET\<rparr>"] that env
  show thesis by (auto simp: canonizationservice_dataservice_sendreq_transaction_get_first_def dataservice_api_sendreq_transaction_get_first_old_def [abs_def]
      dataservice_encode_request_transaction_get_first_def request_buffer_def canon_env_ok_def)
qed

text \<open>
  C8. A round makes a block of the attested transactions at the head of the process
  queue, up to the first one that is not attested and to the configured maximum.  The service
  asks for the first transaction, and the data service answers each request the service
  writes: with the head of the queue, and then with the transaction of the key that is asked for.  The
  service follows the queue exactly as far as it has to, and then writes the request to
  make the block of its identifier with a certificate that holds, in this order, the
  version, the time, the suite, the type, the identifier of the block, that of the previous
  block and its signature, the height, and the certificates of these transactions in the order of the queue,
  signed with the key of the agent.  The queue is linked by distinct keys, no allocation, no call of the
  certificate builder and no write fails, and the request fits a packet.
\<close>

theorem round_makes_block_of_queue:
  assumes "ev_reliable (p_ev P) rbuf wbuf incoming sent" and "canon_env_ok env" and "certificate_builder (p_builder P) contents certificate"
    and "\<not> force_exit inst" and "transaction_list inst = Some []" and "private_key inst = Some key" and "queue_ok q"
    and "txns = block_of (block_max_transactions inst) q" and "txns \<noteq> []"
    and "cert = certificate (block_fields (p_txn_block P) (word_of_int (time_now env)) (canon_block_id inst) (previous_block_id inst)
        (previous_block_signature inst) (canon_block_height inst) (map canon_cert txns)) (key_id key) (sign_privkey key)"
    and "req = net32 DATASERVICE_API_METHOD_APP_BLOCK_WRITE @ net32 (data_child_context inst) @ canon_block_id inst @ cert" and "packet_ok req"
  shows "\<exists>asked inst' before. canonizationservice_dataservice_sendreq_transaction_get_first (p_ev P) env inst = (AGENTD_STATUS_SUCCESS, asked) \<and>
     serve_queue (length q + 1) P env (\<lambda>s. sent s @ wbuf s) q (sent (data_sock inst) @ wbuf (data_sock inst)) asked = Some inst' \<and>
     canon_state inst' = CANONIZATIONSERVICE_STATE_WAITRESP_BLOCK_MAKE \<and> transaction_list inst' = Some txns \<and>
     sent (data_sock inst') @ wbuf (data_sock inst') = before @ framed req"
proof -
  let ?first = "net32 DATASERVICE_API_METHOD_APP_PQ_TRANSACTION_FIRST_READ @ net32 (data_child_context inst)"
  obtain s where s: "canonizationservice_dataservice_sendreq_transaction_get_first (p_ev P) env inst =
      (AGENTD_STATUS_SUCCESS, inst\<lparr>canon_state := CANONIZATIONSERVICE_STATE_WAITRESP_PQ_TXN_FIRST_GET, data_sock := s, data_cb := True\<rparr>)"
    "sent s @ wbuf s = (sent (data_sock inst) @ wbuf (data_sock inst)) @ framed ?first"
    by (rule first_asked [OF assms(1,2)])
  let ?asked = "inst\<lparr>canon_state := CANONIZATIONSERVICE_STATE_WAITRESP_PQ_TXN_FIRST_GET, data_sock := s, data_cb := True\<rparr>"
  have mx: "unat (block_max_transactions inst) \<noteq> 0" if "block_max_transactions inst \<noteq> 0" using that by (simp add: unat_eq_0)
  have a: "queue_answer q (drop (length (sent (data_sock inst) @ wbuf (data_sock inst)) + 8) (sent (data_sock ?asked) @ wbuf (data_sock ?asked))) =
      head_answer DATASERVICE_API_METHOD_APP_PQ_TRANSACTION_FIRST_READ (data_child_context inst) q"
    using s(2) by (simp add: framed_dropped queue_answer_def Let_def slice_def head_answer_def split: list.splits)
  obtain s' b where q: "serve_queue (length q + 1) P env (\<lambda>s. sent s @ wbuf s) q (sent (data_sock inst) @ wbuf (data_sock inst)) ?asked =
     canonizationservice_block_make (p_builder P) (p_keys P) (p_txn_block P) (p_ev P) env (?asked\<lparr>data_sock := s', data_cb := b, transaction_list := Some txns\<rparr>)"
    using queue_read [OF assms(1,2,7) _ _ _ _ _ _ a, of "[]" "[]" "length q + 1"] assms(4,5,7,8) mx
    by (auto simp: block_of_def reading_queue_def queue_ok_def cong: if_cong)
  let ?full = "?asked\<lparr>data_sock := s', data_cb := b, transaction_list := Some txns\<rparr>"
  obtain sa where "canonizationservice_block_make (p_builder P) (p_keys P) (p_txn_block P) (p_ev P) env ?full =
       Some (?full\<lparr>data_sock := sa, data_cb := True, canon_state := CANONIZATIONSERVICE_STATE_WAITRESP_BLOCK_MAKE\<rparr>)"
    "sent sa @ wbuf sa = (sent (data_sock ?full) @ wbuf (data_sock ?full)) @ framed req"
    using block_make_request [OF assms(1-3) _ assms(9) _ _ assms(12), of ?full key cert] assms(6,10,11) by auto
  then show ?thesis using q s(1)
    by (rule_tac exI [of _ ?asked], rule_tac exI [of _ "?full\<lparr>data_sock := sa, data_cb := True, canon_state := CANONIZATIONSERVICE_STATE_WAITRESP_BLOCK_MAKE\<rparr>"],
        rule_tac exI [of _ "sent s' @ wbuf s'"]) (simp del: serve_queue.simps)
qed

text \<open>A builder that keeps the list of its fields, and writes them one after the other.\<close>

fun field_bytes :: "cert_field \<Rightarrow> bytes" where
  "field_bytes (Uint16 f v) = [ucast (drop_bit 8 v), ucast v]"
| "field_bytes (Uint32 f v) = net32 v"
| "field_bytes (Uint64 f v) = net64 v"
| "field_bytes (Buffer f v) = v"

definition list_certificate :: "cert_field list \<Rightarrow> bytes \<Rightarrow> bytes \<Rightarrow> bytes" where
  "list_certificate fs signer key = concat (map field_bytes fs) @ signer @ key"

definition list_builder :: "(cert_field list \<times> bytes) vccert_builder" where
  "list_builder = \<lparr> FIELD_TYPE_SIZE = 2, FIELD_SIZE_SIZE = 2, vccert_builder_init = \<lambda>n. Inr ([], []),
     vccert_builder_add_short_uint16 = \<lambda>f v (fs, c). (0, fs @ [Uint16 f v], c), vccert_builder_add_short_uint32 = \<lambda>f v (fs, c). (0, fs @ [Uint32 f v], c),
     vccert_builder_add_short_uint64 = \<lambda>f v (fs, c). (0, fs @ [Uint64 f v], c), vccert_builder_add_short_buffer = \<lambda>f v (fs, c). (0, fs @ [Buffer f v], c),
     vccert_builder_sign = \<lambda>i k (fs, c). (0, fs, list_certificate fs i k), vccert_builder_emit = \<lambda>(fs, c). Some c \<rparr>"

interpretation list_builder: certificate_builder list_builder fst list_certificate
  by unfold_locales (auto simp: list_builder_def)

definition list_params :: "(cert_field list \<times> bytes, mem_sock) canon_params" where
  "list_params = \<lparr> p_builder = list_builder, p_keys = p_keys sample_params, p_vccert = p_vccert sample_params,
     p_root_block = p_root_block sample_params, p_txn_block = p_txn_block sample_params, p_ev = mem_evsock \<rparr>"

text \<open>A queue of three transactions, the last not attested.\<close>

definition sample_txn :: "8 word \<Rightarrow> 32 word \<Rightarrow> bytes \<Rightarrow> canonizationservice_transaction" where
  "sample_txn n st nxt = \<lparr> canon_node = txn_node_zero\<lparr>node_key := replicate 16 n, node_prev := replicate 16 (n - 1), node_next := nxt,
     node_artifact_id := replicate 16 9, net_txn_cert_size := htonll 2, net_txn_state := htonl st\<rparr>, canon_cert = [n, n] \<rparr>"

definition sample_queue :: "canonizationservice_transaction list" where
  "sample_queue = [sample_txn 1 2 (replicate 16 2), sample_txn 2 2 (replicate 16 3), sample_txn 3 1 (replicate 16 0xff)]"

definition sample_reading :: "mem_sock canonizationservice_instance" where
  "sample_reading = (the (canonizationservice_instance_create True True True True True sample_sock sample_sock sample_sock))
     \<lparr>configured := True, running := True, block_max_transactions := 5, private_key := Some sample_key, transaction_list := Some [],
      canon_block_height := 1\<rparr>"

definition sample_block_cert :: bytes where
  "sample_block_cert = net32 0x10000 @ net64 7 @ [0, 1] @ replicate 16 2 @ replicate 16 0 @ replicate 16 0 @ replicate 64 0 @ net64 1 @
     [1, 1] @ [2, 2] @ replicate 16 3 @ [4]"

theorem round_makes_block_of_queue_witness:
  "\<exists>asked inst' before. canonizationservice_dataservice_sendreq_transaction_get_first mem_evsock sample_env sample_reading = (AGENTD_STATUS_SUCCESS, asked) \<and>
     serve_queue 4 list_params sample_env (\<lambda>s. m_sent s @ m_wbuf s) sample_queue [] asked = Some inst' \<and>
     canon_state inst' = CANONIZATIONSERVICE_STATE_WAITRESP_BLOCK_MAKE \<and>
     transaction_list inst' = Some [sample_txn 1 2 (replicate 16 2), sample_txn 2 2 (replicate 16 3)] \<and>
     m_sent (data_sock inst') @ m_wbuf (data_sock inst') = before @ framed (net32 21 @ net32 0 @ replicate 16 0 @ sample_block_cert)"
proof -
  note d = sample_queue_def sample_txn_def sample_reading_def sample_params_def sample_env_def sample_key_def list_params_def
  let ?txns = "[sample_txn 1 2 (replicate 16 2), sample_txn 2 2 (replicate 16 3)]"
  have ev: "ev_reliable (p_ev list_params) m_rbuf m_wbuf (\<lambda>s. concat (m_fragments s)) m_sent"
    using mem_ev.ev_reliable_axioms by (simp add: list_params_def)
  have bo: "certificate_builder (p_builder list_params) fst list_certificate"
    using list_builder.certificate_builder_axioms by (simp add: list_params_def)
  have h: "canon_env_ok sample_env" "\<not> force_exit sample_reading" "transaction_list sample_reading = Some []"
    "private_key sample_reading = Some sample_key" "data_child_context sample_reading = 0"
    "canon_block_id sample_reading = replicate 16 0" "m_sent (data_sock sample_reading) @ m_wbuf (data_sock sample_reading) = []"
    by (simp_all add: canon_env_ok_def d canonizationservice_instance_create_def sample_sock_def)
  have q: "queue_ok sample_queue"
    by (simp add: queue_ok_def d queue_entry_def txn_node_wf_def txn_node_zero_def dataservice_api_node_ref_is_end_def)
  have b: "?txns = block_of (block_max_transactions sample_reading) sample_queue"
    by (simp add: d block_of_def attested_def canonizationservice_instance_create_def)
  have c: "sample_block_cert = list_certificate (block_fields (p_txn_block list_params) (word_of_int (time_now sample_env)) (canon_block_id sample_reading)
      (previous_block_id sample_reading) (previous_block_signature sample_reading) (canon_block_height sample_reading) (map canon_cert ?txns))
      (key_id sample_key) (sign_privkey sample_key)"
    by (simp add: sample_block_cert_def list_certificate_def block_fields_def d canonizationservice_instance_create_def)
  have p: "packet_ok (net32 DATASERVICE_API_METHOD_APP_BLOCK_WRITE @ net32 0 @ replicate 16 0 @ sample_block_cert)"
    by (simp add: packet_ok_def sample_block_cert_def)
  have e: "net32 DATASERVICE_API_METHOD_APP_BLOCK_WRITE @ net32 0 @ replicate 16 0 @ sample_block_cert =
      net32 DATASERVICE_API_METHOD_APP_BLOCK_WRITE @ net32 (data_child_context sample_reading) @ canon_block_id sample_reading @ sample_block_cert"
    by (simp add: h)
  have n: "length sample_queue + 1 = 4" "p_ev list_params = mem_evsock" by (simp_all add: sample_queue_def list_params_def)
  show ?thesis using round_makes_block_of_queue [OF ev h(1) bo h(2-4) q b _ c e p] unfolding n h(7) by simp
qed

subsection \<open>Failures that go unnoticed\<close>

text \<open>
  Whatever status the data service returns for the block, the identifier is announced
  to the notification service as that of the latest block.
\<close>

lemma failed_block_announced:
  assumes "\<not> force_exit inst"
  shows "canon_handle P (Data env (response_packet DATASERVICE_API_METHOD_APP_BLOCK_WRITE i st None)) inst =
     Some (canonizationservice_notify_block_update (p_ev P) env inst)"
proof -
  have "of_net32 (slice 0 4 (response_packet DATASERVICE_API_METHOD_APP_BLOCK_WRITE i st None)) = DATASERVICE_API_METHOD_APP_BLOCK_WRITE"
    by (simp add: response_packet_def)
  then show ?thesis using assms by (simp add: canon_data_response_def canonizationservice_dataservice_response_block_write_def)
qed

text \<open>
  A previous block whose signature does not have 64 bytes is accepted, and the hash of
  the previous block keeps the value it had in the round before.
\<close>

lemma wrong_signature_accepted:
  assumes "vccert_parser_options_simple_init_ok vc" and "vccert_parser_init_ok vc cert"
    and "vccert_parser_find_short vc cert VCCERT_FIELD_TYPE_SIGNATURE = Some signature" and "length signature \<noteq> 64"
  shows "parse_block vc cert inst = (True, inst)"
  using assms by (simp add: parse_block_def)

end
