(* ===== verification/Config.thy ===== *)
theory Config
  imports Ipc Service_Status
begin

text \<open>
  The configuration (\<^verbatim>\<open>src/src/config\<close>): a process without privileges parses the
  configuration file and writes the result to a socket as a stream of typed fields
  (\<^verbatim>\<open>config_write_block.c\<close>), from which the supervisor reads it (\<^verbatim>\<open>config_read_block.c\<close>) and
  fills in defaults (\<^verbatim>\<open>config_set_defaults.c\<close>).  The lexer and the parser are generated
  by flex and bison and are not modelled.

  A pointer to a string is \<open>None\<close> for NULL, otherwise the bytes of the buffer with the
  terminating zero.  The results of the allocations are parameters, one record per
  field that is read.
\<close>

subsection \<open>IPv4 addresses\<close>

text \<open>
  \<^verbatim>\<open>inet_ntop\<close> and \<^verbatim>\<open>inet_pton\<close> for \<^verbatim>\<open>AF_INET\<close>: four decimal numbers below 256 without leading zeros,
  with dots between them.
\<close>

definition decimal_octet :: "8 word \<Rightarrow> bytes" where
  "decimal_octet w =
     (let n = unat w in
      (if n \<ge> 100 then [of_nat (48 + n div 100)] else []) @ (if n \<ge> 10 then [of_nat (48 + n div 10 mod 10)] else []) @
      [of_nat (48 + n mod 10)])"

fun dotted :: "bytes \<Rightarrow> bytes" where
  "dotted [] = []"
| "dotted [w] = decimal_octet w"
| "dotted (w # ws) = decimal_octet w @ 46 # dotted ws"

definition inet_ntop :: "bytes \<Rightarrow> bytes" where
  "inet_ntop addr = dotted addr"

text \<open>\<open>acc\<close> is the number read so far, \<open>None\<close> when no digit of it has been read; \<open>done\<close> are the numbers before it.\<close>

fun parse_octets :: "nat option \<Rightarrow> bytes \<Rightarrow> bytes \<Rightarrow> bytes option" where
  "parse_octets acc done [] =
     (case acc of None \<Rightarrow> None | Some n \<Rightarrow> if length done = 3 then Some (done @ [of_nat n]) else None)"
| "parse_octets acc done (c # cs) =
     (if 48 \<le> c \<and> c \<le> 57 then
        (let d = unat c - 48 in
         case acc of
           None \<Rightarrow> parse_octets (Some d) done cs
         | Some n \<Rightarrow> if n = 0 \<or> n * 10 + d > 255 then None else parse_octets (Some (n * 10 + d)) done cs)
      else if c = 46 then
        (case acc of None \<Rightarrow> None | Some n \<Rightarrow> if length done = 3 then None else parse_octets None (done @ [of_nat n]) cs)
      else None)"

definition inet_pton :: "bytes \<Rightarrow> bytes option" where
  "inet_pton s = parse_octets None [] (c_string s)"

subsection \<open>The configuration\<close>

record config_listen_address =
  listen_addr :: bytes
  listen_port :: "16 word"

text \<open>The pointer to the user and group may be left pointing to freed memory.\<close>

datatype config_user_group = Null_usergroup | Usergroup (conf_user: bytes) (conf_group: bytes) | Freed_usergroup

record agent_config =
  conf_logdir :: "bytes option"
  conf_loglevel_set :: bool
  conf_loglevel :: "64 word"
  conf_database_max_size_set :: bool
  conf_database_max_size :: "64 word"
  conf_max_milliseconds_set :: bool
  conf_max_milliseconds :: "64 word"
  conf_max_transactions_set :: bool
  conf_max_transactions :: "64 word"
  conf_secret :: "bytes option"
  conf_rootblock :: "bytes option"
  conf_datastore :: "bytes option"
  conf_listen :: "config_listen_address list"
  conf_chroot :: "bytes option"
  conf_usergroup :: config_user_group
  conf_private_key :: "bytes option"
  conf_endorser_key :: "bytes option"
  conf_public_keys :: "bytes list"

definition config_empty :: agent_config where
  "config_empty = \<lparr> conf_logdir = None, conf_loglevel_set = False, conf_loglevel = 0, conf_database_max_size_set = False,
     conf_database_max_size = 0, conf_max_milliseconds_set = False, conf_max_milliseconds = 0, conf_max_transactions_set = False,
     conf_max_transactions = 0, conf_secret = None, conf_rootblock = None, conf_datastore = None, conf_listen = [],
     conf_chroot = None, conf_usergroup = Null_usergroup, conf_private_key = None, conf_endorser_key = None, conf_public_keys = [] \<rparr>"

abbreviation (input) CONFIG_STREAM_TYPE_BOM :: "8 word" where "CONFIG_STREAM_TYPE_BOM \<equiv> 0x00"
abbreviation (input) CONFIG_STREAM_TYPE_LOGDIR :: "8 word" where "CONFIG_STREAM_TYPE_LOGDIR \<equiv> 0x01"
abbreviation (input) CONFIG_STREAM_TYPE_LOGLEVEL :: "8 word" where "CONFIG_STREAM_TYPE_LOGLEVEL \<equiv> 0x02"
abbreviation (input) CONFIG_STREAM_TYPE_SECRET :: "8 word" where "CONFIG_STREAM_TYPE_SECRET \<equiv> 0x03"
abbreviation (input) CONFIG_STREAM_TYPE_ROOTBLOCK :: "8 word" where "CONFIG_STREAM_TYPE_ROOTBLOCK \<equiv> 0x04"
abbreviation (input) CONFIG_STREAM_TYPE_DATASTORE :: "8 word" where "CONFIG_STREAM_TYPE_DATASTORE \<equiv> 0x05"
abbreviation (input) CONFIG_STREAM_TYPE_LISTEN_ADDR :: "8 word" where "CONFIG_STREAM_TYPE_LISTEN_ADDR \<equiv> 0x06"
abbreviation (input) CONFIG_STREAM_TYPE_CHROOT :: "8 word" where "CONFIG_STREAM_TYPE_CHROOT \<equiv> 0x07"
abbreviation (input) CONFIG_STREAM_TYPE_USERGROUP :: "8 word" where "CONFIG_STREAM_TYPE_USERGROUP \<equiv> 0x08"
abbreviation (input) CONFIG_STREAM_TYPE_BLOCK_MAX_MILLISECONDS :: "8 word" where "CONFIG_STREAM_TYPE_BLOCK_MAX_MILLISECONDS \<equiv> 0x09"
abbreviation (input) CONFIG_STREAM_TYPE_BLOCK_MAX_TRANSACTIONS :: "8 word" where "CONFIG_STREAM_TYPE_BLOCK_MAX_TRANSACTIONS \<equiv> 0x0A"
abbreviation (input) CONFIG_STREAM_TYPE_PRIVATE_KEY :: "8 word" where "CONFIG_STREAM_TYPE_PRIVATE_KEY \<equiv> 0x0B"
abbreviation (input) CONFIG_STREAM_TYPE_PUBLIC_KEY :: "8 word" where "CONFIG_STREAM_TYPE_PUBLIC_KEY \<equiv> 0x0C"
abbreviation (input) CONFIG_STREAM_TYPE_ENDORSER_KEY :: "8 word" where "CONFIG_STREAM_TYPE_ENDORSER_KEY \<equiv> 0x0D"
abbreviation (input) CONFIG_STREAM_TYPE_EOM :: "8 word" where "CONFIG_STREAM_TYPE_EOM \<equiv> 0x80"
abbreviation (input) BLOCK_MILLISECONDS_MAXIMUM :: int where "BLOCK_MILLISECONDS_MAXIMUM \<equiv> 43200000"
abbreviation (input) BLOCK_TRANSACTIONS_MAXIMUM :: int where "BLOCK_TRANSACTIONS_MAXIMUM \<equiv> 100000"

subsection \<open>Writing\<close>

text \<open>One write whose failure ends the function, and one function after another.\<close>

definition conf_write :: "(ipc_fd \<Rightarrow> status \<times> ipc_fd) \<Rightarrow> (ipc_fd \<Rightarrow> status \<times> ipc_fd) \<Rightarrow> ipc_fd \<Rightarrow> status \<times> ipc_fd" where
  "conf_write wr k s =
     (case wr s of (r, s) \<Rightarrow> if r \<noteq> AGENTD_STATUS_SUCCESS then (AGENTD_ERROR_CONFIG_IPC_WRITE_DATA_FAILURE, s) else k s)"

definition conf_then :: "(ipc_fd \<Rightarrow> status \<times> ipc_fd) \<Rightarrow> (ipc_fd \<Rightarrow> status \<times> ipc_fd) \<Rightarrow> ipc_fd \<Rightarrow> status \<times> ipc_fd" where
  "conf_then f k s = (case f s of (r, s) \<Rightarrow> if r \<noteq> AGENTD_STATUS_SUCCESS then (r, s) else k s)"

definition conf_ok :: "ipc_fd \<Rightarrow> status \<times> ipc_fd" where
  "conf_ok s = (AGENTD_STATUS_SUCCESS, s)"

definition write_string_field :: "8 word \<Rightarrow> bytes option \<Rightarrow> ipc_fd \<Rightarrow> status \<times> ipc_fd" where
  "write_string_field ty val =
     (case val of
        None \<Rightarrow> conf_ok
      | Some str \<Rightarrow> conf_write (ipc_write_uint8_block ty) (conf_write (ipc_write_string_block str) conf_ok))"

definition write_int_field :: "8 word \<Rightarrow> bool \<Rightarrow> 64 word \<Rightarrow> ipc_fd \<Rightarrow> status \<times> ipc_fd" where
  "write_int_field ty is_set val =
     (if is_set then conf_write (ipc_write_uint8_block ty) (conf_write (ipc_write_int64_block val) conf_ok) else conf_ok)"

definition config_write_logdir :: "agent_config \<Rightarrow> ipc_fd \<Rightarrow> status \<times> ipc_fd" where
  "config_write_logdir conf = write_string_field CONFIG_STREAM_TYPE_LOGDIR (conf_logdir conf)"

definition config_write_loglevel :: "agent_config \<Rightarrow> ipc_fd \<Rightarrow> status \<times> ipc_fd" where
  "config_write_loglevel conf = write_int_field CONFIG_STREAM_TYPE_LOGLEVEL (conf_loglevel_set conf) (conf_loglevel conf)"

definition config_write_block_max_milliseconds :: "agent_config \<Rightarrow> ipc_fd \<Rightarrow> status \<times> ipc_fd" where
  "config_write_block_max_milliseconds conf =
     write_int_field CONFIG_STREAM_TYPE_BLOCK_MAX_MILLISECONDS (conf_max_milliseconds_set conf) (conf_max_milliseconds conf)"

definition config_write_block_max_transactions :: "agent_config \<Rightarrow> ipc_fd \<Rightarrow> status \<times> ipc_fd" where
  "config_write_block_max_transactions conf =
     write_int_field CONFIG_STREAM_TYPE_BLOCK_MAX_TRANSACTIONS (conf_max_transactions_set conf) (conf_max_transactions conf)"

definition config_write_secret :: "agent_config \<Rightarrow> ipc_fd \<Rightarrow> status \<times> ipc_fd" where
  "config_write_secret conf = write_string_field CONFIG_STREAM_TYPE_SECRET (conf_secret conf)"

definition config_write_rootblock :: "agent_config \<Rightarrow> ipc_fd \<Rightarrow> status \<times> ipc_fd" where
  "config_write_rootblock conf = write_string_field CONFIG_STREAM_TYPE_ROOTBLOCK (conf_rootblock conf)"

definition config_write_datastore :: "agent_config \<Rightarrow> ipc_fd \<Rightarrow> status \<times> ipc_fd" where
  "config_write_datastore conf = write_string_field CONFIG_STREAM_TYPE_DATASTORE (conf_datastore conf)"

text \<open>\<^verbatim>\<open>inet_ntop\<close> does not fail for an IPv4 address and a buffer of 100 bytes.\<close>

fun write_listen_addrs :: "config_listen_address list \<Rightarrow> ipc_fd \<Rightarrow> status \<times> ipc_fd" where
  "write_listen_addrs [] = conf_ok"
| "write_listen_addrs (a # as) =
     conf_write (ipc_write_uint8_block CONFIG_STREAM_TYPE_LISTEN_ADDR)
       (conf_write (ipc_write_string_block (inet_ntop (listen_addr a) @ [0]))
         (conf_write (ipc_write_uint64_block (ucast (listen_port a))) (write_listen_addrs as)))"

definition config_write_listen_addr :: "agent_config \<Rightarrow> ipc_fd \<Rightarrow> status \<times> ipc_fd" where
  "config_write_listen_addr conf = write_listen_addrs (conf_listen conf)"

definition config_write_chroot :: "agent_config \<Rightarrow> ipc_fd \<Rightarrow> status \<times> ipc_fd" where
  "config_write_chroot conf = write_string_field CONFIG_STREAM_TYPE_CHROOT (conf_chroot conf)"

text \<open>The writer is not given a freed pointer: the parser makes the configuration.\<close>

definition config_write_usergroup :: "agent_config \<Rightarrow> ipc_fd \<Rightarrow> status \<times> ipc_fd" where
  "config_write_usergroup conf =
     (case conf_usergroup conf of
        Usergroup user grp \<Rightarrow>
          conf_write (ipc_write_uint8_block CONFIG_STREAM_TYPE_USERGROUP)
            (conf_write (ipc_write_string_block user) (conf_write (ipc_write_string_block grp) conf_ok))
      | _ \<Rightarrow> conf_ok)"

definition config_write_private_key :: "agent_config \<Rightarrow> ipc_fd \<Rightarrow> status \<times> ipc_fd" where
  "config_write_private_key conf = write_string_field CONFIG_STREAM_TYPE_PRIVATE_KEY (conf_private_key conf)"

definition config_write_endorser_key :: "agent_config \<Rightarrow> ipc_fd \<Rightarrow> status \<times> ipc_fd" where
  "config_write_endorser_key conf = write_string_field CONFIG_STREAM_TYPE_ENDORSER_KEY (conf_endorser_key conf)"

fun write_public_keys :: "bytes list \<Rightarrow> ipc_fd \<Rightarrow> status \<times> ipc_fd" where
  "write_public_keys [] = conf_ok"
| "write_public_keys (k # ks) =
     conf_write (ipc_write_uint8_block CONFIG_STREAM_TYPE_PUBLIC_KEY) (conf_write (ipc_write_string_block k) (write_public_keys ks))"

definition config_write_public_key :: "agent_config \<Rightarrow> ipc_fd \<Rightarrow> status \<times> ipc_fd" where
  "config_write_public_key conf = write_public_keys (conf_public_keys conf)"

definition config_write_block :: "agent_config \<Rightarrow> ipc_fd \<Rightarrow> status \<times> ipc_fd" where
  "config_write_block conf =
     conf_write (ipc_write_uint8_block CONFIG_STREAM_TYPE_BOM)
     (conf_then (config_write_logdir conf)
     (conf_then (config_write_loglevel conf)
     (conf_then (config_write_block_max_milliseconds conf)
     (conf_then (config_write_block_max_transactions conf)
     (conf_then (config_write_secret conf)
     (conf_then (config_write_rootblock conf)
     (conf_then (config_write_datastore conf)
     (conf_then (config_write_listen_addr conf)
     (conf_then (config_write_chroot conf)
     (conf_then (config_write_usergroup conf)
     (conf_then (config_write_private_key conf)
     (conf_then (config_write_endorser_key conf)
     (conf_then (config_write_public_key conf)
     (conf_write (ipc_write_uint8_block CONFIG_STREAM_TYPE_EOM) conf_ok))))))))))))))"

subsection \<open>Reading\<close>

record config_env =
  entry_malloc :: bool
  str_malloc :: bool
  str2_malloc :: bool
  addr_malloc :: bool

type_synonym config_result = "status \<times> agent_config \<times> ipc_fd"

text \<open>A string field that must not be set yet; \<open>put\<close> stores it.\<close>

definition read_string_field ::
  "bytes option \<Rightarrow> (bytes \<Rightarrow> agent_config \<Rightarrow> agent_config) \<Rightarrow> bool \<Rightarrow> agent_config \<Rightarrow> ipc_fd \<Rightarrow> config_result" where
  "read_string_field old put malloc_ok conf s =
     (if old \<noteq> None then (AGENTD_ERROR_CONFIG_INVALID_STREAM, conf, s) else
      case ipc_read_string_block malloc_ok s of
        (Inl e, s) \<Rightarrow> (AGENTD_ERROR_CONFIG_IPC_READ_DATA_FAILURE, conf, s)
      | (Inr str, s) \<Rightarrow> (AGENTD_STATUS_SUCCESS, put str conf, s))"

text \<open>A number that must not be set yet and has to lie between 0 and \<open>hi\<close>; it is stored even if it does not.\<close>

definition read_int_field ::
  "bool \<Rightarrow> int \<Rightarrow> (64 word \<Rightarrow> agent_config \<Rightarrow> agent_config) \<Rightarrow> (agent_config \<Rightarrow> agent_config) \<Rightarrow> agent_config \<Rightarrow> ipc_fd \<Rightarrow>
     config_result" where
  "read_int_field is_set hi put mark conf s =
     (if is_set then (AGENTD_ERROR_CONFIG_INVALID_STREAM, conf, s) else
      case ipc_read_int64_block s of
        (Inl e, s) \<Rightarrow> (AGENTD_ERROR_CONFIG_IPC_READ_DATA_FAILURE, conf, s)
      | (Inr n, s) \<Rightarrow>
          if sint n < 0 \<or> sint n > hi then (AGENTD_ERROR_CONFIG_INVALID_STREAM, put n conf, s)
          else (AGENTD_STATUS_SUCCESS, mark (put n conf), s))"

definition config_read_logdir :: "config_env \<Rightarrow> agent_config \<Rightarrow> ipc_fd \<Rightarrow> config_result" where
  "config_read_logdir env conf = read_string_field (conf_logdir conf) (\<lambda>x c. c\<lparr>conf_logdir := Some x\<rparr>) (str_malloc env) conf"

definition config_read_loglevel :: "agent_config \<Rightarrow> ipc_fd \<Rightarrow> config_result" where
  "config_read_loglevel conf = read_int_field (conf_loglevel_set conf) 9 (\<lambda>n c. c\<lparr>conf_loglevel := n\<rparr>)
     (\<lambda>c. c\<lparr>conf_loglevel_set := True\<rparr>) conf"

definition config_read_block_max_milliseconds :: "agent_config \<Rightarrow> ipc_fd \<Rightarrow> config_result" where
  "config_read_block_max_milliseconds conf = read_int_field (conf_max_milliseconds_set conf) BLOCK_MILLISECONDS_MAXIMUM
     (\<lambda>n c. c\<lparr>conf_max_milliseconds := n\<rparr>) (\<lambda>c. c\<lparr>conf_max_milliseconds_set := True\<rparr>) conf"

definition config_read_block_max_transactions :: "agent_config \<Rightarrow> ipc_fd \<Rightarrow> config_result" where
  "config_read_block_max_transactions conf = read_int_field (conf_max_transactions_set conf) BLOCK_TRANSACTIONS_MAXIMUM
     (\<lambda>n c. c\<lparr>conf_max_transactions := n\<rparr>) (\<lambda>c. c\<lparr>conf_max_transactions_set := True\<rparr>) conf"

definition config_read_secret :: "config_env \<Rightarrow> agent_config \<Rightarrow> ipc_fd \<Rightarrow> config_result" where
  "config_read_secret env conf = read_string_field (conf_secret conf) (\<lambda>x c. c\<lparr>conf_secret := Some x\<rparr>) (str_malloc env) conf"

definition config_read_rootblock :: "config_env \<Rightarrow> agent_config \<Rightarrow> ipc_fd \<Rightarrow> config_result" where
  "config_read_rootblock env conf = read_string_field (conf_rootblock conf) (\<lambda>x c. c\<lparr>conf_rootblock := Some x\<rparr>) (str_malloc env) conf"

definition config_read_datastore :: "config_env \<Rightarrow> agent_config \<Rightarrow> ipc_fd \<Rightarrow> config_result" where
  "config_read_datastore env conf = read_string_field (conf_datastore conf) (\<lambda>x c. c\<lparr>conf_datastore := Some x\<rparr>) (str_malloc env) conf"

definition config_read_chroot :: "config_env \<Rightarrow> agent_config \<Rightarrow> ipc_fd \<Rightarrow> config_result" where
  "config_read_chroot env conf = read_string_field (conf_chroot conf) (\<lambda>x c. c\<lparr>conf_chroot := Some x\<rparr>) (str_malloc env) conf"

definition config_read_usergroup :: "config_env \<Rightarrow> agent_config \<Rightarrow> ipc_fd \<Rightarrow> config_result" where
  "config_read_usergroup env conf s =
     (if conf_usergroup conf \<noteq> Null_usergroup then (AGENTD_ERROR_CONFIG_INVALID_STREAM, conf, s) else
      if \<not> entry_malloc env then (AGENTD_ERROR_GENERAL_OUT_OF_MEMORY, conf, s) else
      case ipc_read_string_block (str_malloc env) s of
        (Inl e, s) \<Rightarrow> (AGENTD_ERROR_CONFIG_IPC_READ_DATA_FAILURE, conf, s)
      | (Inr user, s) \<Rightarrow>
          (case ipc_read_string_block (str2_malloc env) s of
             (Inl e, s) \<Rightarrow> (AGENTD_ERROR_CONFIG_IPC_READ_DATA_FAILURE, conf, s)
           | (Inr grp, s) \<Rightarrow> (AGENTD_STATUS_SUCCESS, conf\<lparr>conf_usergroup := Usergroup user grp\<rparr>, s)))"

text \<open>An address is put at the head of the list; the port is truncated to 16 bits.\<close>

definition config_read_listen_addr :: "config_env \<Rightarrow> agent_config \<Rightarrow> ipc_fd \<Rightarrow> config_result" where
  "config_read_listen_addr env conf s =
     (if \<not> entry_malloc env then (AGENTD_ERROR_GENERAL_OUT_OF_MEMORY, conf, s) else
      case ipc_read_string_block (str_malloc env) s of
        (Inl e, s) \<Rightarrow> (AGENTD_ERROR_CONFIG_IPC_READ_DATA_FAILURE, conf, s)
      | (Inr paddr, s) \<Rightarrow>
          if \<not> addr_malloc env then (AGENTD_ERROR_GENERAL_OUT_OF_MEMORY, conf, s) else
          (case inet_pton paddr of
             None \<Rightarrow> (AGENTD_ERROR_CONFIG_INET_PTON_FAILURE, conf, s)
           | Some addr \<Rightarrow>
               (case ipc_read_uint64_block s of
                  (Inl e, s) \<Rightarrow> (AGENTD_ERROR_CONFIG_IPC_READ_DATA_FAILURE, conf, s)
                | (Inr port, s) \<Rightarrow>
                    (AGENTD_STATUS_SUCCESS, conf\<lparr>conf_listen := \<lparr> listen_addr = addr, listen_port = ucast port \<rparr> # conf_listen conf\<rparr>, s))))"

definition read_key_field ::
  "bytes option \<Rightarrow> (bytes \<Rightarrow> agent_config \<Rightarrow> agent_config) \<Rightarrow> config_env \<Rightarrow> agent_config \<Rightarrow> ipc_fd \<Rightarrow> config_result" where
  "read_key_field old put env conf s =
     (if old \<noteq> None then (AGENTD_ERROR_CONFIG_INVALID_STREAM, conf, s) else
      if \<not> entry_malloc env then (AGENTD_ERROR_GENERAL_OUT_OF_MEMORY, conf, s) else
      case ipc_read_string_block (str_malloc env) s of
        (Inl e, s) \<Rightarrow> (AGENTD_ERROR_CONFIG_IPC_READ_DATA_FAILURE, conf, s)
      | (Inr str, s) \<Rightarrow> (AGENTD_STATUS_SUCCESS, put str conf, s))"

definition config_read_private_key :: "config_env \<Rightarrow> agent_config \<Rightarrow> ipc_fd \<Rightarrow> config_result" where
  "config_read_private_key env conf = read_key_field (conf_private_key conf) (\<lambda>x c. c\<lparr>conf_private_key := Some x\<rparr>) env conf"

definition config_read_endorser_key :: "config_env \<Rightarrow> agent_config \<Rightarrow> ipc_fd \<Rightarrow> config_result" where
  "config_read_endorser_key env conf = read_key_field (conf_endorser_key conf) (\<lambda>x c. c\<lparr>conf_endorser_key := Some x\<rparr>) env conf"

definition config_read_public_key :: "config_env \<Rightarrow> agent_config \<Rightarrow> ipc_fd \<Rightarrow> config_result" where
  "config_read_public_key env conf = read_key_field None (\<lambda>x c. c\<lparr>conf_public_keys := x # conf_public_keys c\<rparr>) env conf"

definition config_read_field :: "8 word \<Rightarrow> config_env \<Rightarrow> agent_config \<Rightarrow> ipc_fd \<Rightarrow> config_result" where
  "config_read_field ty env conf s =
     (if ty = CONFIG_STREAM_TYPE_LOGDIR then config_read_logdir env conf s else
      if ty = CONFIG_STREAM_TYPE_LOGLEVEL then config_read_loglevel conf s else
      if ty = CONFIG_STREAM_TYPE_SECRET then config_read_secret env conf s else
      if ty = CONFIG_STREAM_TYPE_ROOTBLOCK then config_read_rootblock env conf s else
      if ty = CONFIG_STREAM_TYPE_DATASTORE then config_read_datastore env conf s else
      if ty = CONFIG_STREAM_TYPE_LISTEN_ADDR then config_read_listen_addr env conf s else
      if ty = CONFIG_STREAM_TYPE_CHROOT then config_read_chroot env conf s else
      if ty = CONFIG_STREAM_TYPE_USERGROUP then config_read_usergroup env conf s else
      if ty = CONFIG_STREAM_TYPE_BLOCK_MAX_MILLISECONDS then config_read_block_max_milliseconds conf s else
      if ty = CONFIG_STREAM_TYPE_BLOCK_MAX_TRANSACTIONS then config_read_block_max_transactions conf s else
      if ty = CONFIG_STREAM_TYPE_PRIVATE_KEY then config_read_private_key env conf s else
      if ty = CONFIG_STREAM_TYPE_ENDORSER_KEY then config_read_endorser_key env conf s else
      if ty = CONFIG_STREAM_TYPE_PUBLIC_KEY then config_read_public_key env conf s
      else (AGENTD_ERROR_CONFIG_INVALID_STREAM, conf, s))"

text \<open>Readers take bytes away from the front of the stream and never put any back.\<close>

lemma read_block_shorter:
  assumes "\<And>b fd1. length (rx fd1) \<le> length (rx fd) \<Longrightarrow> length (rx (snd (k b fd1))) \<le> length (rx fd)"
  shows "length (rx (snd (read_block n fd k))) \<le> length (rx fd)"
proof -
  obtain r b fd1 where s: "sys_read n fd = (r, b, fd1)" by (metis prod.collapse)
  then have "length (rx fd1) \<le> length (rx fd)" by (auto simp: sys_read_def split: list.splits option.splits)
  then show ?thesis using s assms by (simp add: read_block_def)
qed

lemma read_typed_shorter: "length (rx (snd (read_typed ty n f fd))) \<le> length (rx fd)"
  unfolding read_typed_def by (rule read_block_shorter) (auto intro!: le_trans [OF read_block_shorter])

lemma read_sized_shorter: "length (rx (snd (read_sized ty bad f fd))) \<le> length (rx fd)"
  unfolding read_sized_def
  by (rule read_block_shorter) (auto intro!: le_trans [OF read_block_shorter] le_trans [OF read_block_shorter] split: option.splits)

lemma read_typed_progress:
  assumes "read_typed ty n f fd = (Inr y, fd')"
  shows "length (rx fd) = 4 + n + length (rx fd')"
proof -
  obtain t fd1 where t: "rx fd = t @ rx fd1" "length t = 4"
    and k: "(if of_net32 t \<noteq> ty then (Inl AGENTD_ERROR_IPC_READ_UNEXPECTED_DATA_TYPE, fd1)
      else read_block n fd1 (\<lambda>val sock. (Inr (f val), sock))) = (Inr y, fd')"
    using assms unfolding read_typed_def by (rule read_block_sound)
  obtain v fd2 where "rx fd1 = v @ rx fd2" "length v = n" "(Inr (f v), fd2) = (Inr y, fd')"
    using k by (auto split: if_splits elim: read_block_sound)
  then show ?thesis using t by simp
qed

lemma read_string_shorter: "ipc_read_string_block m s = (r, s') \<Longrightarrow> length (rx s') \<le> length (rx s)"
  using read_sized_shorter unfolding sized_readers by (metis snd_conv)

lemma read_int_shorter:
  "ipc_read_int64_block s = (r, s') \<Longrightarrow> length (rx s') \<le> length (rx s)"
  "ipc_read_uint64_block s = (r', s') \<Longrightarrow> length (rx s') \<le> length (rx s)"
  using read_typed_shorter unfolding fixed_readers by (metis snd_conv)+

lemma read_field_shorter:
  "read_string_field old put m conf s = (r, conf', s') \<Longrightarrow> length (rx s') \<le> length (rx s)"
  "read_int_field b hi put' mark conf s = (r, conf', s') \<Longrightarrow> length (rx s') \<le> length (rx s)"
  "read_key_field old put env conf s = (r, conf', s') \<Longrightarrow> length (rx s') \<le> length (rx s)"
  "config_read_usergroup env conf s = (r, conf', s') \<Longrightarrow> length (rx s') \<le> length (rx s)"
  "config_read_listen_addr env conf s = (r, conf', s') \<Longrightarrow> length (rx s') \<le> length (rx s)"
  by (auto simp: read_string_field_def read_int_field_def read_key_field_def config_read_usergroup_def config_read_listen_addr_def
      dest!: read_string_shorter read_int_shorter split: if_splits prod.splits sum.splits option.splits)

lemmas config_readers = config_read_logdir_def config_read_loglevel_def config_read_secret_def config_read_rootblock_def
  config_read_datastore_def config_read_chroot_def config_read_block_max_milliseconds_def config_read_block_max_transactions_def
  config_read_private_key_def config_read_endorser_key_def config_read_public_key_def

lemma config_read_field_shorter:
  "config_read_field ty env conf s = (r, conf', s') \<Longrightarrow> length (rx s') \<le> length (rx s)"
  unfolding config_read_field_def config_readers by (auto dest: read_field_shorter split: if_splits)

text \<open>
  The loop over the fields; \<open>n\<close> counts them.  It ends because every field takes at least
  five bytes of the stream.
\<close>

function config_read_loop :: "(nat \<Rightarrow> config_env) \<Rightarrow> nat \<Rightarrow> agent_config \<Rightarrow> ipc_fd \<Rightarrow> config_result" where
  "config_read_loop envs n conf s =
     (case ipc_read_uint8_block s of
        (Inl e, s) \<Rightarrow> (AGENTD_ERROR_CONFIG_INVALID_STREAM, conf, s)
      | (Inr ty, s) \<Rightarrow>
          if ty = CONFIG_STREAM_TYPE_EOM then (AGENTD_STATUS_SUCCESS, conf, s) else
          (case config_read_field ty (envs n) conf s of (r, conf, s) \<Rightarrow>
           if r \<noteq> AGENTD_STATUS_SUCCESS then (r, conf, s) else config_read_loop envs (Suc n) conf s))"
  by pat_completeness auto

termination
  by (relation "measure (\<lambda>(envs, n, conf, s). length (rx s))")
    (auto simp: fixed_readers dest!: read_typed_progress [OF sym] config_read_field_shorter [OF sym])

declare config_read_loop.simps [simp del]

definition config_read_block :: "(nat \<Rightarrow> config_env) \<Rightarrow> ipc_fd \<Rightarrow> config_result" where
  "config_read_block envs s =
     (case ipc_read_uint8_block s of
        (Inl e, s) \<Rightarrow> (AGENTD_ERROR_CONFIG_IPC_READ_DATA_FAILURE, config_empty, s)
      | (Inr ty, s) \<Rightarrow>
          if ty \<noteq> CONFIG_STREAM_TYPE_BOM then (AGENTD_ERROR_CONFIG_INVALID_STREAM, config_empty, s)
          else config_read_loop envs 0 config_empty s)"

subsection \<open>Defaults\<close>

definition c_literal :: "char list \<Rightarrow> bytes" where
  "c_literal s = map of_char s @ [0]"

definition strdup :: "bool \<Rightarrow> bytes \<Rightarrow> bytes option" where
  "strdup malloc_ok s = (if malloc_ok then Some (c_string s @ [0]) else None)"

text \<open>
  Each step fails with its own code; \<open>alloc k\<close> is the result of the allocation whose
  failure is reported by the code \<open>k\<close>.  After the failures 10 and 11 the structure of
  the user and group has been freed, but the configuration still points to it.
\<close>

definition default_string ::
  "(nat \<Rightarrow> bool) \<Rightarrow> nat \<Rightarrow> (agent_config \<Rightarrow> bytes option) \<Rightarrow> (bytes option \<Rightarrow> agent_config \<Rightarrow> agent_config) \<Rightarrow> bytes \<Rightarrow>
     (agent_config \<Rightarrow> nat \<times> agent_config) \<Rightarrow> agent_config \<Rightarrow> nat \<times> agent_config" where
  "default_string alloc code get put val k conf =
     (if get conf \<noteq> None then k conf else
      if \<not> alloc code then (code, put None conf) else k (put (strdup True val) conf))"

definition default_loglevel :: "agent_config \<Rightarrow> agent_config" where
  "default_loglevel conf =
     (if \<not> conf_loglevel_set conf \<or> sint (conf_loglevel conf) < 0 \<or> sint (conf_loglevel conf) > 9
      then conf\<lparr>conf_loglevel := 4, conf_loglevel_set := True\<rparr> else conf)"

definition default_sizes :: "agent_config \<Rightarrow> agent_config" where
  "default_sizes conf =
     (let conf = (if \<not> conf_database_max_size_set conf
                  then conf\<lparr>conf_database_max_size := 16 * 1024 * 1024 * 1024 * 1024, conf_database_max_size_set := True\<rparr> else conf);
          conf = (if \<not> conf_max_milliseconds_set conf \<or> sint (conf_max_milliseconds conf) < 0 \<or>
                     sint (conf_max_milliseconds conf) > BLOCK_MILLISECONDS_MAXIMUM
                  then conf\<lparr>conf_max_milliseconds := 5000, conf_max_milliseconds_set := True\<rparr> else conf) in
      if \<not> conf_max_transactions_set conf \<or> sint (conf_max_transactions conf) < 0 \<or>
         sint (conf_max_transactions conf) > BLOCK_TRANSACTIONS_MAXIMUM
      then conf\<lparr>conf_max_transactions := 500, conf_max_transactions_set := True\<rparr> else conf)"

definition default_listen :: "(nat \<Rightarrow> bool) \<Rightarrow> (agent_config \<Rightarrow> nat \<times> agent_config) \<Rightarrow> agent_config \<Rightarrow> nat \<times> agent_config" where
  "default_listen alloc k conf =
     (if conf_listen conf \<noteq> [] then k conf else
      if \<not> alloc 5 then (5, conf) else
      if \<not> alloc 6 then (6, conf) else
      case inet_pton (c_literal ''0.0.0.0'') of
        None \<Rightarrow> (7, conf)
      | Some addr \<Rightarrow> k (conf\<lparr>conf_listen := [\<lparr> listen_addr = addr, listen_port = 4891 \<rparr>]\<rparr>))"

definition default_usergroup :: "(nat \<Rightarrow> bool) \<Rightarrow> agent_config \<Rightarrow> nat \<times> agent_config" where
  "default_usergroup alloc conf =
     (if conf_usergroup conf \<noteq> Null_usergroup then (0, conf) else
      if \<not> alloc 9 then (9, conf) else
      if \<not> alloc 10 then (10, conf\<lparr>conf_usergroup := Freed_usergroup\<rparr>) else
      if \<not> alloc 11 then (11, conf\<lparr>conf_usergroup := Freed_usergroup\<rparr>) else
      (0, conf\<lparr>conf_usergroup := Usergroup (c_literal ''veloagent'') (c_literal ''veloagent'')\<rparr>))"

definition config_set_defaults :: "(nat \<Rightarrow> bool) \<Rightarrow> bytes \<Rightarrow> agent_config \<Rightarrow> nat \<times> agent_config" where
  "config_set_defaults alloc prefix_dir conf =
     default_string alloc 1 conf_logdir (\<lambda>x c. c\<lparr>conf_logdir := x\<rparr>) (c_literal ''log'') (\<lambda>conf.
     default_string alloc 2 conf_secret (\<lambda>x c. c\<lparr>conf_secret := x\<rparr>) (c_literal ''root/secret.cert'') (
     default_string alloc 3 conf_rootblock (\<lambda>x c. c\<lparr>conf_rootblock := x\<rparr>) (c_literal ''root/root.cert'') (
     default_string alloc 4 conf_datastore (\<lambda>x c. c\<lparr>conf_datastore := x\<rparr>) (c_literal ''data'') (
     default_listen alloc (
     default_string alloc 8 conf_chroot (\<lambda>x c. c\<lparr>conf_chroot := x\<rparr>) prefix_dir (
     default_usergroup alloc))))) (default_sizes (default_loglevel conf))) conf"

text \<open>
  Releasing the configuration: the strings and lists are freed; following the pointer
  to a structure that has been freed is undefined.  The function stands in the
  grammar file.
\<close>

definition config_dispose :: "agent_config \<Rightarrow> unit option" where
  "config_dispose conf = (if conf_usergroup conf = Freed_usergroup then None else Some ())"

end
