(* ===== verification/Config_Correct.thy ===== *)
theory Config_Correct
  imports Config
begin

text \<open>
  The stream of the configuration: what is written is what is read, whatever is read is
  in range, and the defaults make it complete.
\<close>

subsection \<open>IPv4 addresses\<close>

lemma octet_parsed: "parse_octets None ds (decimal_octet w @ cs) = parse_octets (Some (unat w)) ds cs"
proof -
  have d: "48 \<le> (of_nat (48 + k) :: 8 word)" "(of_nat (48 + k) :: 8 word) \<le> 57" "unat (of_nat (48 + k) :: 8 word) = 48 + k" if "k < 10" for k
    using that by (simp_all add: word_le_nat_alt unat_of_nat del: of_nat_add)
  have lt: "unat w < 256" using unsigned_less [of w, where 'a = nat] by simp
  then have m: "unat w div 100 < 10" "unat w mod 10 < 10" "unat w div 10 mod 10 < 10" by simp_all
  consider "unat w < 10" | "10 \<le> unat w" "unat w < 100" | "100 \<le> unat w" by linarith
  then show ?thesis
  proof cases
    case 1
    then show ?thesis using d [OF m(2)] by (simp add: decimal_octet_def Let_def del: of_nat_add)
  next
    case 2
    then have "unat w div 10 mod 10 = unat w div 10" by simp
    moreover have "unat w div 10 * 10 + unat w mod 10 = unat w" "unat w div 10 \<noteq> 0" using 2 by simp_all
    ultimately have "unat w div 10 mod 10 * 10 + unat w mod 10 = unat w" "unat w div 10 mod 10 \<noteq> 0" by simp_all
    then show ?thesis using d [OF m(2)] d [OF m(3)] 2 lt by (simp add: decimal_octet_def Let_def del: of_nat_add)
  next
    case 3
    have "unat w div 100 = unat w div 10 div 10" by (simp flip: div_mult2_eq)
    then have t: "unat w div 100 * 10 + unat w div 10 mod 10 = unat w div 10" by simp
    then have "(unat w div 100 * 10 + unat w div 10 mod 10) * 10 + unat w mod 10 = unat w" by simp
    moreover have "unat w div 100 \<noteq> 0" using 3 by simp
    moreover have "unat w div 100 * 10 + unat w div 10 mod 10 \<le> 255" unfolding t using lt by simp
    ultimately have "(unat w div 100 * 10 + unat w div 10 mod 10) * 10 + unat w mod 10 = unat w" "unat w div 100 \<noteq> 0"
      "unat w div 100 * 10 + unat w div 10 mod 10 \<le> 255" by simp_all
    then show ?thesis using d [OF m(1)] d [OF m(2)] d [OF m(3)] 3 lt by (simp add: decimal_octet_def Let_def del: of_nat_add)
  qed
qed

lemma octet_no_zero: "c_string (decimal_octet w @ cs) = decimal_octet w @ c_string cs"
proof -
  have "(of_nat (48 + k) :: 8 word) \<noteq> 0" if "k < 10" for k
    using that by (simp add: word_unat_eq_iff unat_of_nat del: of_nat_add)
  moreover have "unat w < 256" using unsigned_less [of w, where 'a = nat] by simp
  ultimately show ?thesis by (simp add: decimal_octet_def Let_def del: of_nat_add)
qed

lemma pton_ntop: 
  assumes "length a = 4"
  shows "inet_pton (inet_ntop a @ [0]) = Some a"
proof -
  obtain w x y z where a: "a = [w, x, y, z]" using assms by (auto simp: numeral_eq_Suc length_Suc_conv)
  have n: "inet_ntop a @ [0] = decimal_octet w @ 46 # decimal_octet x @ 46 # decimal_octet y @ 46 # decimal_octet z @ [0]"
    by (simp add: a inet_ntop_def)
  show ?thesis unfolding inet_pton_def n using octet_parsed [of "[w, x, y]" z "[]"] by (simp add: octet_no_zero octet_parsed a)
qed

lemma ntop_string: 
  assumes "length a = 4"
  shows "string_ok (inet_ntop a)"
proof -
  have d: "0 \<notin> set (decimal_octet w) \<and> length (decimal_octet w) \<le> 3" for w
    using octet_no_zero [of w "[]"] by (auto simp: decimal_octet_def Let_def takeWhile_eq_all_conv simp del: of_nat_add)
  obtain w x y z where a: "a = [w, x, y, z]" using assms by (auto simp: numeral_eq_Suc length_Suc_conv)
  show ?thesis using d [of w] d [of x] d [of y] d [of z] by (simp add: a inet_ntop_def string_ok_def)
qed

subsection \<open>The stream as a list of items\<close>

datatype config_item =
    Text_item (item_type: "8 word") bytes
  | Int_item (item_type: "8 word") "64 word"
  | Listen_item config_listen_address
  | Usergroup_item bytes bytes

text \<open>A buffer with a string that the readers accept.\<close>

definition c_str_ok :: "bytes \<Rightarrow> bool" where
  "c_str_ok b \<longleftrightarrow> b \<noteq> [] \<and> last b = 0 \<and> string_ok (butlast b)"

abbreviation uint8_bytes :: "8 word \<Rightarrow> bytes" where
  "uint8_bytes x \<equiv> value_bytes (Uint8_val x)"

abbreviation text_bytes :: "bytes \<Rightarrow> bytes" where
  "text_bytes b \<equiv> value_bytes (String_val (butlast b))"

fun type_of_item :: "config_item \<Rightarrow> 8 word" where
  "type_of_item (Text_item ty _) = ty"
| "type_of_item (Int_item ty _) = ty"
| "type_of_item (Listen_item _) = CONFIG_STREAM_TYPE_LISTEN_ADDR"
| "type_of_item (Usergroup_item _ _) = CONFIG_STREAM_TYPE_USERGROUP"

fun payload_of_item :: "config_item \<Rightarrow> bytes" where
  "payload_of_item (Text_item _ b) = text_bytes b"
| "payload_of_item (Int_item _ n) = value_bytes (Int64_val n)"
| "payload_of_item (Listen_item a) = value_bytes (String_val (inet_ntop (listen_addr a))) @ value_bytes (Uint64_val (ucast (listen_port a)))"
| "payload_of_item (Usergroup_item u g) = text_bytes u @ text_bytes g"

definition item_bytes :: "config_item \<Rightarrow> bytes" where
  "item_bytes it = uint8_bytes (type_of_item it) @ payload_of_item it"

text \<open>Whether an item can be added to a configuration, and the result.\<close>

fun item_ok :: "config_item \<Rightarrow> agent_config \<Rightarrow> bool" where
  "item_ok (Text_item ty b) c \<longleftrightarrow> c_str_ok b \<and>
     (ty = CONFIG_STREAM_TYPE_LOGDIR \<and> conf_logdir c = None \<or> ty = CONFIG_STREAM_TYPE_SECRET \<and> conf_secret c = None \<or>
      ty = CONFIG_STREAM_TYPE_ROOTBLOCK \<and> conf_rootblock c = None \<or> ty = CONFIG_STREAM_TYPE_DATASTORE \<and> conf_datastore c = None \<or>
      ty = CONFIG_STREAM_TYPE_CHROOT \<and> conf_chroot c = None \<or> ty = CONFIG_STREAM_TYPE_PRIVATE_KEY \<and> conf_private_key c = None \<or>
      ty = CONFIG_STREAM_TYPE_ENDORSER_KEY \<and> conf_endorser_key c = None \<or> ty = CONFIG_STREAM_TYPE_PUBLIC_KEY)"
| "item_ok (Int_item ty n) c \<longleftrightarrow> 0 \<le> sint n \<and>
     (ty = CONFIG_STREAM_TYPE_LOGLEVEL \<and> sint n \<le> 9 \<and> \<not> conf_loglevel_set c \<or>
      ty = CONFIG_STREAM_TYPE_BLOCK_MAX_MILLISECONDS \<and> sint n \<le> BLOCK_MILLISECONDS_MAXIMUM \<and> \<not> conf_max_milliseconds_set c \<or>
      ty = CONFIG_STREAM_TYPE_BLOCK_MAX_TRANSACTIONS \<and> sint n \<le> BLOCK_TRANSACTIONS_MAXIMUM \<and> \<not> conf_max_transactions_set c)"
| "item_ok (Listen_item a) c \<longleftrightarrow> length (listen_addr a) = 4"
| "item_ok (Usergroup_item u g) c \<longleftrightarrow> c_str_ok u \<and> c_str_ok g \<and> conf_usergroup c = Null_usergroup"

fun item_apply :: "config_item \<Rightarrow> agent_config \<Rightarrow> agent_config" where
  "item_apply (Text_item ty b) c =
     (if ty = CONFIG_STREAM_TYPE_LOGDIR then c\<lparr>conf_logdir := Some b\<rparr> else
      if ty = CONFIG_STREAM_TYPE_SECRET then c\<lparr>conf_secret := Some b\<rparr> else
      if ty = CONFIG_STREAM_TYPE_ROOTBLOCK then c\<lparr>conf_rootblock := Some b\<rparr> else
      if ty = CONFIG_STREAM_TYPE_DATASTORE then c\<lparr>conf_datastore := Some b\<rparr> else
      if ty = CONFIG_STREAM_TYPE_CHROOT then c\<lparr>conf_chroot := Some b\<rparr> else
      if ty = CONFIG_STREAM_TYPE_PRIVATE_KEY then c\<lparr>conf_private_key := Some b\<rparr> else
      if ty = CONFIG_STREAM_TYPE_ENDORSER_KEY then c\<lparr>conf_endorser_key := Some b\<rparr> else
      c\<lparr>conf_public_keys := b # conf_public_keys c\<rparr>)"
| "item_apply (Int_item ty n) c =
     (if ty = CONFIG_STREAM_TYPE_LOGLEVEL then c\<lparr>conf_loglevel := n, conf_loglevel_set := True\<rparr> else
      if ty = CONFIG_STREAM_TYPE_BLOCK_MAX_MILLISECONDS then c\<lparr>conf_max_milliseconds := n, conf_max_milliseconds_set := True\<rparr> else
      c\<lparr>conf_max_transactions := n, conf_max_transactions_set := True\<rparr>)"
| "item_apply (Listen_item a) c = c\<lparr>conf_listen := a # conf_listen c\<rparr>"
| "item_apply (Usergroup_item u g) c = c\<lparr>conf_usergroup := Usergroup u g\<rparr>"

fun items_ok :: "config_item list \<Rightarrow> agent_config \<Rightarrow> bool" where
  "items_ok [] c \<longleftrightarrow> True"
| "items_ok (it # its) c \<longleftrightarrow> item_ok it c \<and> items_ok its (item_apply it c)"

lemma items_ok_append: "items_ok (xs @ ys) c \<longleftrightarrow> items_ok xs c \<and> items_ok ys (fold item_apply xs c)"
  by (induction xs arbitrary: c) simp_all

definition config_env_ok :: "config_env \<Rightarrow> bool" where
  "config_env_ok env \<longleftrightarrow> entry_malloc env \<and> str_malloc env \<and> str2_malloc env \<and> addr_malloc env"

lemma text_read:
  assumes "rd_limits s = []" and "c_str_ok b" and "rx s = text_bytes b @ rest"
  shows "ipc_read_string_block True s = (Inr b, s\<lparr>rx := rest\<rparr>)"
proof -
  have "butlast b @ [0] = b" using assms(2) by (metis append_butlast_last_id c_str_ok_def)
  then show ?thesis using string_codec.rd_ok [OF assms(1), of "butlast b" rest] assms(2,3) by (simp add: c_str_ok_def)
qed

lemma item_read:
  assumes "rd_limits s = []" and "config_env_ok env" and "item_ok it c" and "rx s = payload_of_item it @ rest"
  shows "config_read_field (type_of_item it) env c s = (AGENTD_STATUS_SUCCESS, item_apply it c, s\<lparr>rx := rest\<rparr>)"
proof (cases it)
  case (Text_item ty b)
  have r: "ipc_read_string_block True s = (Inr b, s\<lparr>rx := rest\<rparr>)" using text_read assms Text_item by simp
  show ?thesis using assms(3) unfolding Text_item item_ok.simps
    by (elim conjE disjE)
      (use assms(2) r in \<open>simp_all add: config_read_field_def config_readers read_string_field_def read_key_field_def config_env_ok_def\<close>)
next
  case (Int_item ty n)
  have r: "ipc_read_int64_block s = (Inr n, s\<lparr>rx := rest\<rparr>)" using int64_codec.rd_ok [OF assms(1), of n rest] assms(4) Int_item by simp
  show ?thesis using assms(3) unfolding Int_item item_ok.simps
    by (elim conjE disjE) (use r in \<open>simp_all add: config_read_field_def config_readers read_int_field_def\<close>)
next
  case (Listen_item a)
  let ?s1 = "s\<lparr>rx := value_bytes (Uint64_val (ucast (listen_port a))) @ rest\<rparr>"
  have l: "length (listen_addr a) = 4" using assms(3) Listen_item by simp
  have r: "ipc_read_string_block True s = (Inr (inet_ntop (listen_addr a) @ [0]), ?s1)"
    using string_codec.rd_ok [OF assms(1), of "inet_ntop (listen_addr a)"] ntop_string [OF l] assms(4) Listen_item by simp
  have p: "ipc_read_uint64_block ?s1 = (Inr (ucast (listen_port a)), s\<lparr>rx := rest\<rparr>)"
    using uint64_codec.rd_ok [of ?s1 "ucast (listen_port a)" rest] assms(1) by simp
  have u: "ucast (ucast (listen_port a) :: 64 word) = listen_port a"
    by (rule bit_word_eqI) (auto simp: bit_simps)
  show ?thesis using assms(2) r p pton_ntop [OF l] u unfolding Listen_item config_env_ok_def
    by (simp add: config_read_field_def config_read_listen_addr_def)
next
  case (Usergroup_item u g)
  let ?s1 = "s\<lparr>rx := text_bytes g @ rest\<rparr>"
  have r: "ipc_read_string_block True s = (Inr u, ?s1)" using text_read [of s u] assms Usergroup_item by simp
  have p: "ipc_read_string_block True ?s1 = (Inr g, s\<lparr>rx := rest\<rparr>)" using text_read [of ?s1 g rest] assms Usergroup_item by simp
  show ?thesis using assms(2,3) r p unfolding Usergroup_item config_env_ok_def
    by (simp add: config_read_field_def config_read_usergroup_def)
qed

lemma uint8_read: "rd_limits s = [] \<Longrightarrow> rx s = uint8_bytes ty @ rest \<Longrightarrow> ipc_read_uint8_block s = (Inr ty, s\<lparr>rx := rest\<rparr>)"
  using uint8_codec.rd_ok [of s ty rest] by simp

lemma items_read:
  assumes "rd_limits s = []" and "\<forall>n. config_env_ok (envs n)" and "items_ok its c"
    and "rx s = concat (map item_bytes its) @ uint8_bytes CONFIG_STREAM_TYPE_EOM @ rest"
  shows "config_read_loop envs n c s = (AGENTD_STATUS_SUCCESS, fold item_apply its c, s\<lparr>rx := rest\<rparr>)"
  using assms
proof (induction its arbitrary: n c s)
  case Nil
  then show ?case by (subst config_read_loop.simps) (simp add: uint8_read del: value_bytes.simps)
next
  case (Cons it its)
  let ?rest = "concat (map item_bytes its) @ uint8_bytes CONFIG_STREAM_TYPE_EOM @ rest"
  have r: "ipc_read_uint8_block s = (Inr (type_of_item it), s\<lparr>rx := payload_of_item it @ ?rest\<rparr>)"
    using uint8_read [OF Cons.prems(1)] Cons.prems(4) by (simp add: item_bytes_def [of it] del: value_bytes.simps)
  have f: "config_read_field (type_of_item it) (envs n) c (s\<lparr>rx := payload_of_item it @ ?rest\<rparr>) =
      (AGENTD_STATUS_SUCCESS, item_apply it c, s\<lparr>rx := ?rest\<rparr>)"
    using item_read [of "s\<lparr>rx := payload_of_item it @ ?rest\<rparr>" "envs n" it c ?rest] Cons.prems by simp
  have "type_of_item it \<noteq> CONFIG_STREAM_TYPE_EOM" using Cons.prems(3) by (cases it) auto
  then show ?case using r f Cons.IH [of "s\<lparr>rx := ?rest\<rparr>" "item_apply it c" "Suc n"] Cons.prems
    by (subst config_read_loop.simps) (simp del: value_bytes.simps)
qed

subsection \<open>Writing the items\<close>

definition sends :: "(ipc_fd \<Rightarrow> status \<times> ipc_fd) \<Rightarrow> bytes \<Rightarrow> bool" where
  "sends f b \<longleftrightarrow> (\<forall>s. wr_limits s = [] \<longrightarrow> f s = (AGENTD_STATUS_SUCCESS, s\<lparr>tx := tx s @ b\<rparr>))"

lemma sends_rules:
  "sends conf_ok []"
  "sends wr b \<Longrightarrow> sends k b' \<Longrightarrow> sends (conf_write wr k) (b @ b')"
  "sends f b \<Longrightarrow> sends k b' \<Longrightarrow> sends (conf_then f k) (b @ b')"
  "sends (ipc_write_uint8_block ty) (uint8_bytes ty)"
  "sends (ipc_write_int64_block n) (value_bytes (Int64_val n))"
  "sends (ipc_write_uint64_block n) (value_bytes (Uint64_val n))"
  by (simp_all add: sends_def conf_ok_def conf_write_def conf_then_def uint8_codec.wr_ok int64_codec.wr_ok uint64_codec.wr_ok)

lemma sends_string: "string_ok b \<Longrightarrow> sends (ipc_write_string_block (b @ [0])) (value_bytes (String_val b))"
proof -
  assume "string_ok b"
  moreover have "ipc_write_string_block (b @ [0]) s = ipc_write_string_block b s" for s
  proof -
    have "c_string (b @ [0]) = b @ c_string [0]" using \<open>string_ok b\<close> by (intro takeWhile_append2) (auto simp: string_ok_def)
    then have "c_string (b @ [0]) = c_string b" unfolding string_ok_simps(1) [OF \<open>string_ok b\<close>] by simp
    then show ?thesis unfolding ipc_write_string_block_def by simp
  qed
  ultimately show ?thesis by (simp add: sends_def string_codec.wr_ok)
qed

lemma sends_text: "c_str_ok b \<Longrightarrow> sends (ipc_write_string_block b) (text_bytes b)"
  using sends_string [of "butlast b"] by (metis append_butlast_last_id c_str_ok_def)

definition text_items :: "8 word \<Rightarrow> bytes option \<Rightarrow> config_item list" where
  "text_items ty v = (case v of None \<Rightarrow> [] | Some b \<Rightarrow> [Text_item ty b])"

definition int_items :: "8 word \<Rightarrow> bool \<Rightarrow> 64 word \<Rightarrow> config_item list" where
  "int_items ty is_set n = (if is_set then [Int_item ty n] else [])"

definition usergroup_items :: "config_user_group \<Rightarrow> config_item list" where
  "usergroup_items ug = (case ug of Usergroup u g \<Rightarrow> [Usergroup_item u g] | _ \<Rightarrow> [])"

abbreviation items_bytes :: "config_item list \<Rightarrow> bytes" where
  "items_bytes its \<equiv> concat (map item_bytes its)"

lemma sends_fields:
  "(\<forall>b. v = Some b \<longrightarrow> c_str_ok b) \<Longrightarrow> sends (write_string_field ty v) (items_bytes (text_items ty v))"
  "sends (write_int_field ty is_set n) (items_bytes (int_items ty is_set n))"
  "\<forall>a \<in> set as. length (listen_addr a) = 4 \<Longrightarrow> sends (write_listen_addrs as) (items_bytes (map Listen_item as))"
  "\<forall>k \<in> set ks. c_str_ok k \<Longrightarrow> sends (write_public_keys ks) (items_bytes (map (Text_item CONFIG_STREAM_TYPE_PUBLIC_KEY) ks))"
  "(\<forall>u g. conf_usergroup conf = Usergroup u g \<longrightarrow> c_str_ok u \<and> c_str_ok g) \<Longrightarrow>
     sends (config_write_usergroup conf) (items_bytes (usergroup_items (conf_usergroup conf)))"
proof -
  note r = sends_rules(2) [OF sends_rules(4)]
  note one = sends_rules(2) [OF _ sends_rules(1)]
  show "(\<forall>b. v = Some b \<longrightarrow> c_str_ok b) \<Longrightarrow> sends (write_string_field ty v) (items_bytes (text_items ty v))"
    using r [OF one [OF sends_text]] sends_rules(1)
    by (auto simp: write_string_field_def text_items_def item_bytes_def simp del: value_bytes.simps split: option.splits)
  show "sends (write_int_field ty is_set n) (items_bytes (int_items ty is_set n))"
    using r [OF one [OF sends_rules(5)]] sends_rules(1)
    by (auto simp: write_int_field_def int_items_def item_bytes_def simp del: value_bytes.simps)
  show "\<forall>a \<in> set as. length (listen_addr a) = 4 \<Longrightarrow> sends (write_listen_addrs as) (items_bytes (map Listen_item as))"
  proof (induction as)
    case (Cons a as)
    then have "sends (write_listen_addrs (a # as)) (uint8_bytes CONFIG_STREAM_TYPE_LISTEN_ADDR @
        value_bytes (String_val (inet_ntop (listen_addr a))) @ value_bytes (Uint64_val (ucast (listen_port a))) @ items_bytes (map Listen_item as))"
      unfolding write_listen_addrs.simps by (intro sends_rules sends_string ntop_string) simp_all
    then show ?case by (simp add: item_bytes_def [of "Listen_item a"] del: value_bytes.simps write_listen_addrs.simps)
  qed (simp add: sends_rules(1))
  show "\<forall>k \<in> set ks. c_str_ok k \<Longrightarrow> sends (write_public_keys ks) (items_bytes (map (Text_item CONFIG_STREAM_TYPE_PUBLIC_KEY) ks))"
  proof (induction ks)
    case (Cons k ks)
    then have "sends (write_public_keys (k # ks)) (uint8_bytes CONFIG_STREAM_TYPE_PUBLIC_KEY @ text_bytes k @
        items_bytes (map (Text_item CONFIG_STREAM_TYPE_PUBLIC_KEY) ks))"
      unfolding write_public_keys.simps by (intro sends_rules sends_text) simp_all
    then show ?case by (simp add: item_bytes_def [of "Text_item _ k"] del: value_bytes.simps write_public_keys.simps)
  qed (simp add: sends_rules(1))
  show "(\<forall>u g. conf_usergroup conf = Usergroup u g \<longrightarrow> c_str_ok u \<and> c_str_ok g) \<Longrightarrow>
     sends (config_write_usergroup conf) (items_bytes (usergroup_items (conf_usergroup conf)))"
    using r [OF sends_rules(2) [OF sends_text one [OF sends_text]]] sends_rules(1)
    by (auto simp: config_write_usergroup_def usergroup_items_def item_bytes_def simp del: value_bytes.simps split: config_user_group.splits)
qed

definition config_items :: "agent_config \<Rightarrow> config_item list" where
  "config_items conf =
     text_items CONFIG_STREAM_TYPE_LOGDIR (conf_logdir conf) @
     int_items CONFIG_STREAM_TYPE_LOGLEVEL (conf_loglevel_set conf) (conf_loglevel conf) @
     int_items CONFIG_STREAM_TYPE_BLOCK_MAX_MILLISECONDS (conf_max_milliseconds_set conf) (conf_max_milliseconds conf) @
     int_items CONFIG_STREAM_TYPE_BLOCK_MAX_TRANSACTIONS (conf_max_transactions_set conf) (conf_max_transactions conf) @
     text_items CONFIG_STREAM_TYPE_SECRET (conf_secret conf) @ text_items CONFIG_STREAM_TYPE_ROOTBLOCK (conf_rootblock conf) @
     text_items CONFIG_STREAM_TYPE_DATASTORE (conf_datastore conf) @ map Listen_item (conf_listen conf) @
     text_items CONFIG_STREAM_TYPE_CHROOT (conf_chroot conf) @ usergroup_items (conf_usergroup conf) @
     text_items CONFIG_STREAM_TYPE_PRIVATE_KEY (conf_private_key conf) @
     text_items CONFIG_STREAM_TYPE_ENDORSER_KEY (conf_endorser_key conf) @
     map (Text_item CONFIG_STREAM_TYPE_PUBLIC_KEY) (conf_public_keys conf)"

definition opt_str_ok :: "bytes option \<Rightarrow> bool" where
  "opt_str_ok v \<longleftrightarrow> (case v of None \<Rightarrow> True | Some b \<Rightarrow> c_str_ok b)"

definition in_range :: "bool \<Rightarrow> 64 word \<Rightarrow> int \<Rightarrow> bool" where
  "in_range is_set n hi \<longleftrightarrow> (if is_set then 0 \<le> sint n \<and> sint n \<le> hi else n = 0)"

definition config_ok :: "agent_config \<Rightarrow> bool" where
  "config_ok conf \<longleftrightarrow> opt_str_ok (conf_logdir conf) \<and> opt_str_ok (conf_secret conf) \<and> opt_str_ok (conf_rootblock conf) \<and>
     opt_str_ok (conf_datastore conf) \<and> opt_str_ok (conf_chroot conf) \<and> opt_str_ok (conf_private_key conf) \<and>
     opt_str_ok (conf_endorser_key conf) \<and> list_all c_str_ok (conf_public_keys conf) \<and>
     list_all (\<lambda>a. length (listen_addr a) = 4) (conf_listen conf) \<and>
     (case conf_usergroup conf of Usergroup u g \<Rightarrow> c_str_ok u \<and> c_str_ok g | Null_usergroup \<Rightarrow> True | Freed_usergroup \<Rightarrow> False) \<and>
     in_range (conf_loglevel_set conf) (conf_loglevel conf) 9 \<and>
     in_range (conf_max_milliseconds_set conf) (conf_max_milliseconds conf) BLOCK_MILLISECONDS_MAXIMUM \<and>
     in_range (conf_max_transactions_set conf) (conf_max_transactions conf) BLOCK_TRANSACTIONS_MAXIMUM"

lemma write_block_sends:
  assumes "config_ok conf"
  shows "sends (config_write_block conf)
    (uint8_bytes CONFIG_STREAM_TYPE_BOM @ items_bytes (config_items conf) @ uint8_bytes CONFIG_STREAM_TYPE_EOM)"
proof -
  have t: "\<forall>b. v = Some b \<longrightarrow> c_str_ok b" if "opt_str_ok v" for v using that by (auto simp: opt_str_ok_def)
  have u: "\<forall>u g. conf_usergroup conf = Usergroup u g \<longrightarrow> c_str_ok u \<and> c_str_ok g" using assms by (auto simp: config_ok_def)
  have "sends (config_write_block conf) (uint8_bytes CONFIG_STREAM_TYPE_BOM @
     items_bytes (text_items CONFIG_STREAM_TYPE_LOGDIR (conf_logdir conf)) @
     items_bytes (int_items CONFIG_STREAM_TYPE_LOGLEVEL (conf_loglevel_set conf) (conf_loglevel conf)) @
     items_bytes (int_items CONFIG_STREAM_TYPE_BLOCK_MAX_MILLISECONDS (conf_max_milliseconds_set conf) (conf_max_milliseconds conf)) @
     items_bytes (int_items CONFIG_STREAM_TYPE_BLOCK_MAX_TRANSACTIONS (conf_max_transactions_set conf) (conf_max_transactions conf)) @
     items_bytes (text_items CONFIG_STREAM_TYPE_SECRET (conf_secret conf)) @
     items_bytes (text_items CONFIG_STREAM_TYPE_ROOTBLOCK (conf_rootblock conf)) @
     items_bytes (text_items CONFIG_STREAM_TYPE_DATASTORE (conf_datastore conf)) @ items_bytes (map Listen_item (conf_listen conf)) @
     items_bytes (text_items CONFIG_STREAM_TYPE_CHROOT (conf_chroot conf)) @ items_bytes (usergroup_items (conf_usergroup conf)) @
     items_bytes (text_items CONFIG_STREAM_TYPE_PRIVATE_KEY (conf_private_key conf)) @
     items_bytes (text_items CONFIG_STREAM_TYPE_ENDORSER_KEY (conf_endorser_key conf)) @
     items_bytes (map (Text_item CONFIG_STREAM_TYPE_PUBLIC_KEY) (conf_public_keys conf)) @ uint8_bytes CONFIG_STREAM_TYPE_EOM @ [])"
    unfolding config_write_block_def config_write_logdir_def config_write_loglevel_def config_write_block_max_milliseconds_def
      config_write_block_max_transactions_def config_write_secret_def config_write_rootblock_def config_write_datastore_def
      config_write_listen_addr_def config_write_chroot_def config_write_private_key_def config_write_endorser_key_def config_write_public_key_def
    by (intro sends_rules sends_fields t u) (use assms in \<open>simp_all add: config_ok_def list_all_iff\<close>)
  then show ?thesis by (simp add: config_items_def del: value_bytes.simps)
qed

text \<open>
  What arrives: everything but the size of the database, which is not sent, with the
  two lists in reverse.
\<close>

definition config_received :: "agent_config \<Rightarrow> agent_config" where
  "config_received conf = conf\<lparr>conf_database_max_size_set := False, conf_database_max_size := 0,
     conf_listen := rev (conf_listen conf), conf_public_keys := rev (conf_public_keys conf)\<rparr>"

lemma fold_items:
  "conf_logdir c = None \<Longrightarrow> fold item_apply (text_items CONFIG_STREAM_TYPE_LOGDIR v) c = c\<lparr>conf_logdir := v\<rparr>"
  "conf_secret c = None \<Longrightarrow> fold item_apply (text_items CONFIG_STREAM_TYPE_SECRET v) c = c\<lparr>conf_secret := v\<rparr>"
  "conf_rootblock c = None \<Longrightarrow> fold item_apply (text_items CONFIG_STREAM_TYPE_ROOTBLOCK v) c = c\<lparr>conf_rootblock := v\<rparr>"
  "conf_datastore c = None \<Longrightarrow> fold item_apply (text_items CONFIG_STREAM_TYPE_DATASTORE v) c = c\<lparr>conf_datastore := v\<rparr>"
  "conf_chroot c = None \<Longrightarrow> fold item_apply (text_items CONFIG_STREAM_TYPE_CHROOT v) c = c\<lparr>conf_chroot := v\<rparr>"
  "conf_private_key c = None \<Longrightarrow> fold item_apply (text_items CONFIG_STREAM_TYPE_PRIVATE_KEY v) c = c\<lparr>conf_private_key := v\<rparr>"
  "conf_endorser_key c = None \<Longrightarrow> fold item_apply (text_items CONFIG_STREAM_TYPE_ENDORSER_KEY v) c = c\<lparr>conf_endorser_key := v\<rparr>"
  "\<not> conf_loglevel_set c \<Longrightarrow> conf_loglevel c = 0 \<Longrightarrow> in_range b n hi \<Longrightarrow>
     fold item_apply (int_items CONFIG_STREAM_TYPE_LOGLEVEL b n) c = c\<lparr>conf_loglevel := n, conf_loglevel_set := b\<rparr>"
  "\<not> conf_max_milliseconds_set c \<Longrightarrow> conf_max_milliseconds c = 0 \<Longrightarrow> in_range b n hi \<Longrightarrow>
     fold item_apply (int_items CONFIG_STREAM_TYPE_BLOCK_MAX_MILLISECONDS b n) c = c\<lparr>conf_max_milliseconds := n, conf_max_milliseconds_set := b\<rparr>"
  "\<not> conf_max_transactions_set c \<Longrightarrow> conf_max_transactions c = 0 \<Longrightarrow> in_range b n hi \<Longrightarrow>
     fold item_apply (int_items CONFIG_STREAM_TYPE_BLOCK_MAX_TRANSACTIONS b n) c = c\<lparr>conf_max_transactions := n, conf_max_transactions_set := b\<rparr>"
  "fold item_apply (map Listen_item as) c = c\<lparr>conf_listen := rev as @ conf_listen c\<rparr>"
  "fold item_apply (map (Text_item CONFIG_STREAM_TYPE_PUBLIC_KEY) ks) c = c\<lparr>conf_public_keys := rev ks @ conf_public_keys c\<rparr>"
  "conf_usergroup c = Null_usergroup \<Longrightarrow> ug \<noteq> Freed_usergroup \<Longrightarrow> fold item_apply (usergroup_items ug) c = c\<lparr>conf_usergroup := ug\<rparr>"
proof -
  show "fold item_apply (map Listen_item as) c = c\<lparr>conf_listen := rev as @ conf_listen c\<rparr>" by (induction as arbitrary: c) simp_all
  show "fold item_apply (map (Text_item CONFIG_STREAM_TYPE_PUBLIC_KEY) ks) c = c\<lparr>conf_public_keys := rev ks @ conf_public_keys c\<rparr>"
    by (induction ks arbitrary: c) simp_all
qed (simp_all add: text_items_def int_items_def usergroup_items_def in_range_def split: option.splits config_user_group.splits)

lemma ok_items:
  "opt_str_ok v \<Longrightarrow> conf_logdir c = None \<Longrightarrow> items_ok (text_items CONFIG_STREAM_TYPE_LOGDIR v) c"
  "opt_str_ok v \<Longrightarrow> conf_secret c = None \<Longrightarrow> items_ok (text_items CONFIG_STREAM_TYPE_SECRET v) c"
  "opt_str_ok v \<Longrightarrow> conf_rootblock c = None \<Longrightarrow> items_ok (text_items CONFIG_STREAM_TYPE_ROOTBLOCK v) c"
  "opt_str_ok v \<Longrightarrow> conf_datastore c = None \<Longrightarrow> items_ok (text_items CONFIG_STREAM_TYPE_DATASTORE v) c"
  "opt_str_ok v \<Longrightarrow> conf_chroot c = None \<Longrightarrow> items_ok (text_items CONFIG_STREAM_TYPE_CHROOT v) c"
  "opt_str_ok v \<Longrightarrow> conf_private_key c = None \<Longrightarrow> items_ok (text_items CONFIG_STREAM_TYPE_PRIVATE_KEY v) c"
  "opt_str_ok v \<Longrightarrow> conf_endorser_key c = None \<Longrightarrow> items_ok (text_items CONFIG_STREAM_TYPE_ENDORSER_KEY v) c"
  "\<not> conf_loglevel_set c \<Longrightarrow> in_range b n 9 \<Longrightarrow> items_ok (int_items CONFIG_STREAM_TYPE_LOGLEVEL b n) c"
  "\<not> conf_max_milliseconds_set c \<Longrightarrow> in_range b n BLOCK_MILLISECONDS_MAXIMUM \<Longrightarrow>
     items_ok (int_items CONFIG_STREAM_TYPE_BLOCK_MAX_MILLISECONDS b n) c"
  "\<not> conf_max_transactions_set c \<Longrightarrow> in_range b n BLOCK_TRANSACTIONS_MAXIMUM \<Longrightarrow>
     items_ok (int_items CONFIG_STREAM_TYPE_BLOCK_MAX_TRANSACTIONS b n) c"
  "list_all (\<lambda>a. length (listen_addr a) = 4) as \<Longrightarrow> items_ok (map Listen_item as) c"
  "list_all c_str_ok ks \<Longrightarrow> items_ok (map (Text_item CONFIG_STREAM_TYPE_PUBLIC_KEY) ks) c"
  "conf_usergroup c = Null_usergroup \<Longrightarrow> (case ug of Usergroup u g \<Rightarrow> c_str_ok u \<and> c_str_ok g | Null_usergroup \<Rightarrow> True | Freed_usergroup \<Rightarrow> False) \<Longrightarrow>
     items_ok (usergroup_items ug) c"
proof -
  show "list_all (\<lambda>a. length (listen_addr a) = 4) as \<Longrightarrow> items_ok (map Listen_item as) c" by (induction as arbitrary: c) simp_all
  show "list_all c_str_ok ks \<Longrightarrow> items_ok (map (Text_item CONFIG_STREAM_TYPE_PUBLIC_KEY) ks) c" by (induction ks arbitrary: c) simp_all
qed (simp_all add: text_items_def int_items_def usergroup_items_def in_range_def opt_str_ok_def split: option.splits config_user_group.splits)

lemma items_received:
  assumes "config_ok conf"
  shows "items_ok (config_items conf) config_empty \<and> fold item_apply (config_items conf) config_empty = config_received conf"
proof -
  have u: "conf_usergroup conf \<noteq> Freed_usergroup" using assms by (auto simp: config_ok_def)
  note c = assms [unfolded config_ok_def]
  note i = fold_items(8) [of _ "conf_loglevel_set conf" "conf_loglevel conf" 9]
    fold_items(9) [of _ "conf_max_milliseconds_set conf" "conf_max_milliseconds conf" BLOCK_MILLISECONDS_MAXIMUM]
    fold_items(10) [of _ "conf_max_transactions_set conf" "conf_max_transactions conf" BLOCK_TRANSACTIONS_MAXIMUM]
  show ?thesis using c u
    by (simp add: config_items_def items_ok_append fold_items(1-7,11-13) i ok_items config_empty_def config_received_def)
qed

text \<open>
  C36. The configuration survives the way from the process that parses it to the
  supervisor: every field is read back as it was written, byte for byte, and the stream
  behind it is left alone.  Two things do not arrive as they were: the size of the
  database is not sent at all, and the listen addresses and the public keys arrive in
  reverse order.
\<close>

theorem config_stream_roundtrip:
  assumes "config_ok conf" and "wr_limits out = []" and "tx out = []" and "rd_limits peer = []"
    and "rx peer = tx (snd (config_write_block conf out)) @ rest" and "\<forall>n. config_env_ok (envs n)"
  shows "fst (config_write_block conf out) = AGENTD_STATUS_SUCCESS \<and>
     config_read_block envs peer = (AGENTD_STATUS_SUCCESS, config_received conf, peer\<lparr>rx := rest\<rparr>)"
proof -
  let ?its = "items_bytes (config_items conf) @ uint8_bytes CONFIG_STREAM_TYPE_EOM"
  have w: "config_write_block conf out = (AGENTD_STATUS_SUCCESS, out\<lparr>tx := uint8_bytes CONFIG_STREAM_TYPE_BOM @ ?its\<rparr>)"
    using write_block_sends [OF assms(1)] assms(2,3) by (simp add: sends_def del: value_bytes.simps)
  have r: "ipc_read_uint8_block peer = (Inr CONFIG_STREAM_TYPE_BOM, peer\<lparr>rx := ?its @ rest\<rparr>)"
    using uint8_read [OF assms(4)] assms(5) w by (simp del: value_bytes.simps)
  have "config_read_loop envs 0 config_empty (peer\<lparr>rx := ?its @ rest\<rparr>) = (AGENTD_STATUS_SUCCESS, config_received conf, peer\<lparr>rx := rest\<rparr>)"
    using items_read [of "peer\<lparr>rx := ?its @ rest\<rparr>" envs "config_items conf" config_empty rest 0] items_received [OF assms(1)] assms(4,6)
    by (simp del: value_bytes.simps)
  then show ?thesis using w r by (simp add: config_read_block_def del: value_bytes.simps)
qed

definition sample_config :: agent_config where
  "sample_config = config_empty\<lparr>conf_logdir := Some [108, 0], conf_loglevel_set := True, conf_loglevel := 7,
     conf_database_max_size_set := True, conf_database_max_size := 99,
     conf_listen := [\<lparr> listen_addr = [10, 0, 0, 1], listen_port = 4931 \<rparr>, \<lparr> listen_addr = [127, 0, 0, 1], listen_port = 80 \<rparr>],
     conf_usergroup := Usergroup [117, 0] [103, 0], conf_public_keys := [[97, 0], [98, 0]]\<rparr>"

theorem config_stream_roundtrip_witness:
  "config_read_block (\<lambda>_. \<lparr> entry_malloc = True, str_malloc = True, str2_malloc = True, addr_malloc = True \<rparr>)
     \<lparr> rx = tx (snd (config_write_block sample_config \<lparr> rx = [], tx = [], rd_limits = [], wr_limits = [] \<rparr>)), tx = [],
       rd_limits = [], wr_limits = [] \<rparr> =
   (AGENTD_STATUS_SUCCESS, sample_config\<lparr>conf_database_max_size_set := False, conf_database_max_size := 0,
     conf_listen := [\<lparr> listen_addr = [127, 0, 0, 1], listen_port = 80 \<rparr>, \<lparr> listen_addr = [10, 0, 0, 1], listen_port = 4931 \<rparr>],
     conf_public_keys := [[98, 0], [97, 0]]\<rparr>, \<lparr> rx = [], tx = [], rd_limits = [], wr_limits = [] \<rparr>)"
proof -
  have "config_ok sample_config"
    by (simp add: sample_config_def config_empty_def config_ok_def opt_str_ok_def in_range_def c_str_ok_def string_ok_def)
  from config_stream_roundtrip [OF this, of "\<lparr> rx = [], tx = [], rd_limits = [], wr_limits = [] \<rparr>"
      "\<lparr> rx = tx (snd (config_write_block sample_config \<lparr> rx = [], tx = [], rd_limits = [], wr_limits = [] \<rparr>)), tx = [],
       rd_limits = [], wr_limits = [] \<rparr>" "[]" "\<lambda>_. \<lparr> entry_malloc = True, str_malloc = True, str2_malloc = True, addr_malloc = True \<rparr>"]
  show ?thesis by (simp add: config_env_ok_def config_received_def) (simp add: sample_config_def)
qed

subsection \<open>Whatever is read\<close>

text \<open>
  The process that parses the file is not trusted: whatever it sends, a configuration
  that is accepted has its numbers in range, and no pointer to freed memory.
\<close>

definition range_ok :: "agent_config \<Rightarrow> bool" where
  "range_ok c \<longleftrightarrow> (conf_loglevel_set c \<longrightarrow> 0 \<le> sint (conf_loglevel c) \<and> sint (conf_loglevel c) \<le> 9) \<and>
     (conf_max_milliseconds_set c \<longrightarrow> 0 \<le> sint (conf_max_milliseconds c) \<and> sint (conf_max_milliseconds c) \<le> BLOCK_MILLISECONDS_MAXIMUM) \<and>
     (conf_max_transactions_set c \<longrightarrow> 0 \<le> sint (conf_max_transactions c) \<and> sint (conf_max_transactions c) \<le> BLOCK_TRANSACTIONS_MAXIMUM) \<and>
     conf_usergroup c \<noteq> Freed_usergroup \<and> list_all (\<lambda>a. length (listen_addr a) = 4) (conf_listen c)"

lemma pton_length: "parse_octets acc ds cs = Some a \<Longrightarrow> length ds \<le> 3 \<Longrightarrow> length a = 4"
  by (induction acc ds cs rule: parse_octets.induct) (auto simp: Let_def split: option.splits if_splits)

lemma range_ok_fields [simp]:
  "range_ok (c\<lparr>conf_logdir := x\<rparr>) = range_ok c" "range_ok (c\<lparr>conf_secret := x\<rparr>) = range_ok c"
  "range_ok (c\<lparr>conf_rootblock := x\<rparr>) = range_ok c" "range_ok (c\<lparr>conf_datastore := x\<rparr>) = range_ok c"
  "range_ok (c\<lparr>conf_chroot := x\<rparr>) = range_ok c" "range_ok (c\<lparr>conf_private_key := x\<rparr>) = range_ok c"
  "range_ok (c\<lparr>conf_endorser_key := x\<rparr>) = range_ok c" "range_ok (c\<lparr>conf_public_keys := y\<rparr>) = range_ok c"
  by (simp_all add: range_ok_def)

lemma field_range:
  assumes "range_ok c" and "config_read_field ty env c s = (r, c', s')"
  shows "range_ok c'"
proof -
  have l: "length a = 4" if "inet_pton b = Some a" for a b using that pton_length unfolding inet_pton_def by fastforce
  have u: "range_ok c'" if "config_read_usergroup env c s = (r, c', s')"
    using that assms(1) by (auto simp: config_read_usergroup_def range_ok_def split: if_splits prod.splits sum.splits)
  have a: "range_ok c'" if "config_read_listen_addr env c s = (r, c', s')"
    using that assms(1) l by (auto simp: config_read_listen_addr_def range_ok_def split: if_splits prod.splits sum.splits option.splits)
  have t: "range_ok c'" if "read_string_field old put m c s = (r, c', s')" and "\<And>x. range_ok (put x c)" for old put m
    using that assms(1) by (auto simp: read_string_field_def split: if_splits prod.splits sum.splits)
  have k: "range_ok c'" if "read_key_field old put env c s = (r, c', s')" and "\<And>x. range_ok (put x c)" for old put
    using that assms(1) by (auto simp: read_key_field_def split: if_splits prod.splits sum.splits)
  have i: "range_ok c'" if "read_int_field b hi put mark c s = (r, c', s')" and "\<And>n. \<not> b \<Longrightarrow> range_ok (put n c)"
    and "\<And>n. 0 \<le> sint n \<Longrightarrow> sint n \<le> hi \<Longrightarrow> range_ok (mark (put n c))" for b hi put mark
    using that assms(1) by (auto simp: read_int_field_def split: if_splits prod.splits sum.splits)
  have n: "\<not> conf_loglevel_set c \<Longrightarrow> range_ok (c\<lparr>conf_loglevel := v\<rparr>)"
    "\<not> conf_max_milliseconds_set c \<Longrightarrow> range_ok (c\<lparr>conf_max_milliseconds := v\<rparr>)"
    "\<not> conf_max_transactions_set c \<Longrightarrow> range_ok (c\<lparr>conf_max_transactions := v\<rparr>)" for v
    using assms(1) by (simp_all add: range_ok_def)
  have m: "0 \<le> sint v \<Longrightarrow> sint v \<le> 9 \<Longrightarrow> range_ok (c\<lparr>conf_loglevel := v, conf_loglevel_set := True\<rparr>)"
    "0 \<le> sint v \<Longrightarrow> sint v \<le> BLOCK_MILLISECONDS_MAXIMUM \<Longrightarrow> range_ok (c\<lparr>conf_max_milliseconds := v, conf_max_milliseconds_set := True\<rparr>)"
    "0 \<le> sint v \<Longrightarrow> sint v \<le> BLOCK_TRANSACTIONS_MAXIMUM \<Longrightarrow> range_ok (c\<lparr>conf_max_transactions := v, conf_max_transactions_set := True\<rparr>)" for v
    using assms(1) by (simp_all add: range_ok_def)
  have keep: "range_ok c'" if "(AGENTD_ERROR_CONFIG_INVALID_STREAM, c, s) = (r, c', s')" using that assms(1) by simp
  show ?thesis using assms(2) unfolding config_read_field_def config_readers
    by (simp only: split: if_splits) (erule t k u a keep i; use assms(1) n m in simp)+
qed

lemma loop_range:
  assumes "range_ok c" and "config_read_loop envs n c s = (r, c', s')"
  shows "range_ok c'"
  using assms
proof (induction envs n c s rule: config_read_loop.induct)
  case (1 envs n c s)
  obtain x s1 where u: "ipc_read_uint8_block s = (x, s1)" by fastforce
  show ?case
  proof (cases x)
    case (Inl e)
    then show ?thesis using 1(2,3) u by (simp add: config_read_loop.simps [of envs n c s])
  next
    case (Inr ty)
    obtain r2 c2 s2 where f: "config_read_field ty (envs n) c s1 = (r2, c2, s2)" by (metis prod.collapse)
    have c2: "range_ok c2" by (rule field_range [OF 1(2) f])
    show ?thesis using 1(1) [OF u [symmetric] Inr _ f [symmetric] refl _ c2] 1(2,3) c2 u Inr f
      by (simp add: config_read_loop.simps [of envs n c s] split: if_splits)
  qed
qed

lemma read_range:
  assumes "config_read_block envs s = (r, c, s')"
  shows "range_ok c"
proof -
  have e: "range_ok config_empty" by (simp add: range_ok_def config_empty_def)
  show ?thesis using assms e loop_range [OF e] by (auto simp: config_read_block_def split: prod.splits sum.splits if_splits)
qed

subsection \<open>Defaults\<close>

definition config_complete :: "agent_config \<Rightarrow> bool" where
  "config_complete c \<longleftrightarrow> conf_logdir c \<noteq> None \<and> conf_secret c \<noteq> None \<and> conf_rootblock c \<noteq> None \<and> conf_datastore c \<noteq> None \<and>
     conf_chroot c \<noteq> None \<and> conf_listen c \<noteq> [] \<and> (\<exists>u g. conf_usergroup c = Usergroup u g) \<and> conf_database_max_size_set c \<and>
     conf_loglevel_set c \<and> conf_max_milliseconds_set c \<and> conf_max_transactions_set c \<and> range_ok c"

text \<open>What is set stays as it is.\<close>

definition config_extends :: "agent_config \<Rightarrow> agent_config \<Rightarrow> bool" where
  "config_extends c c' \<longleftrightarrow> (conf_logdir c \<noteq> None \<longrightarrow> conf_logdir c' = conf_logdir c) \<and> (conf_secret c \<noteq> None \<longrightarrow> conf_secret c' = conf_secret c) \<and>
     (conf_rootblock c \<noteq> None \<longrightarrow> conf_rootblock c' = conf_rootblock c) \<and> (conf_datastore c \<noteq> None \<longrightarrow> conf_datastore c' = conf_datastore c) \<and>
     (conf_chroot c \<noteq> None \<longrightarrow> conf_chroot c' = conf_chroot c) \<and> (conf_listen c \<noteq> [] \<longrightarrow> conf_listen c' = conf_listen c) \<and>
     (conf_usergroup c \<noteq> Null_usergroup \<longrightarrow> conf_usergroup c' = conf_usergroup c) \<and>
     (conf_loglevel_set c \<longrightarrow> conf_loglevel c' = conf_loglevel c) \<and>
     (conf_max_milliseconds_set c \<longrightarrow> conf_max_milliseconds c' = conf_max_milliseconds c) \<and>
     (conf_max_transactions_set c \<longrightarrow> conf_max_transactions c' = conf_max_transactions c) \<and>
     conf_private_key c' = conf_private_key c \<and> conf_endorser_key c' = conf_endorser_key c \<and> conf_public_keys c' = conf_public_keys c"

lemma any_address: "inet_pton (c_literal ''0.0.0.0'') = Some [0, 0, 0, 0]"
  by code_simp

text \<open>A string after its default has been filled in.\<close>

definition or_default :: "bytes option \<Rightarrow> bytes \<Rightarrow> bytes option" where
  "or_default v d = Some (case v of Some x \<Rightarrow> x | None \<Rightarrow> c_string d @ [0])"

lemma or_default_simps [simp]: "or_default (Some x) d = Some x" "\<exists>y. or_default v d = Some y"
  by (simp_all add: or_default_def)

lemma default_string_0:
  assumes "default_string alloc code get put v k c = (0, c')" and "code \<noteq> 0" and "\<And>x. get c = Some x \<Longrightarrow> put (Some x) c = c"
  shows "k (put (or_default (get c) v) c) = (0, c')"
  using assms by (auto simp: default_string_def strdup_def or_default_def split: if_splits option.splits)

lemma default_strings_0:
  "default_string alloc code conf_logdir (\<lambda>x c. c\<lparr>conf_logdir := x\<rparr>) v k c = (0, c') \<Longrightarrow> code \<noteq> 0 \<Longrightarrow>
     k (c\<lparr>conf_logdir := or_default (conf_logdir c) v\<rparr>) = (0, c')"
  "default_string alloc code conf_secret (\<lambda>x c. c\<lparr>conf_secret := x\<rparr>) v k c = (0, c') \<Longrightarrow> code \<noteq> 0 \<Longrightarrow>
     k (c\<lparr>conf_secret := or_default (conf_secret c) v\<rparr>) = (0, c')"
  "default_string alloc code conf_rootblock (\<lambda>x c. c\<lparr>conf_rootblock := x\<rparr>) v k c = (0, c') \<Longrightarrow> code \<noteq> 0 \<Longrightarrow>
     k (c\<lparr>conf_rootblock := or_default (conf_rootblock c) v\<rparr>) = (0, c')"
  "default_string alloc code conf_datastore (\<lambda>x c. c\<lparr>conf_datastore := x\<rparr>) v k c = (0, c') \<Longrightarrow> code \<noteq> 0 \<Longrightarrow>
     k (c\<lparr>conf_datastore := or_default (conf_datastore c) v\<rparr>) = (0, c')"
  "default_string alloc code conf_chroot (\<lambda>x c. c\<lparr>conf_chroot := x\<rparr>) v k c = (0, c') \<Longrightarrow> code \<noteq> 0 \<Longrightarrow>
     k (c\<lparr>conf_chroot := or_default (conf_chroot c) v\<rparr>) = (0, c')"
  by (drule default_string_0; simp)+

lemma default_listen_0:
  assumes "default_listen alloc k c = (0, c')"
  shows "k (c\<lparr>conf_listen := (if conf_listen c = [] then [\<lparr> listen_addr = [0, 0, 0, 0], listen_port = 4891 \<rparr>] else conf_listen c)\<rparr>) = (0, c')"
  using assms by (simp add: default_listen_def any_address split: if_splits)

lemma default_usergroup_0:
  assumes "default_usergroup alloc c = (0, c')"
  shows "c' = c\<lparr>conf_usergroup := (if conf_usergroup c = Null_usergroup then Usergroup (c_literal ''veloagent'') (c_literal ''veloagent'')
      else conf_usergroup c)\<rparr>"
  using assms by (auto simp: default_usergroup_def split: if_splits)

text \<open>The numbers; the other fields are not touched by their defaults.\<close>

lemma default_numbers:
  defines "d \<equiv> \<lambda>c. default_sizes (default_loglevel c)"
  shows "conf_loglevel_set (d c) \<and> conf_database_max_size_set (d c) \<and> conf_max_milliseconds_set (d c) \<and> conf_max_transactions_set (d c)"
    and "range_ok c \<Longrightarrow> range_ok (d c)"
    and "range_ok c \<Longrightarrow> conf_loglevel_set c \<Longrightarrow> conf_loglevel (d c) = conf_loglevel c"
    and "range_ok c \<Longrightarrow> conf_max_milliseconds_set c \<Longrightarrow> conf_max_milliseconds (d c) = conf_max_milliseconds c"
    and "range_ok c \<Longrightarrow> conf_max_transactions_set c \<Longrightarrow> conf_max_transactions (d c) = conf_max_transactions c"
    and "conf_logdir (d c) = conf_logdir c" "conf_secret (d c) = conf_secret c" "conf_rootblock (d c) = conf_rootblock c"
    and "conf_datastore (d c) = conf_datastore c" "conf_chroot (d c) = conf_chroot c" "conf_listen (d c) = conf_listen c"
    and "conf_usergroup (d c) = conf_usergroup c" "conf_private_key (d c) = conf_private_key c"
    and "conf_endorser_key (d c) = conf_endorser_key c" "conf_public_keys (d c) = conf_public_keys c"
  by (simp_all add: d_def default_sizes_def default_loglevel_def Let_def) (auto simp: range_ok_def)

lemma defaults_0:
  assumes "config_set_defaults alloc prefix_dir c = (0, c')"
  defines "c1 \<equiv> default_sizes (default_loglevel (c\<lparr>conf_logdir := or_default (conf_logdir c) (c_literal ''log'')\<rparr>))"
  shows "c' = c1\<lparr>conf_secret := or_default (conf_secret c) (c_literal ''root/secret.cert''),
     conf_rootblock := or_default (conf_rootblock c) (c_literal ''root/root.cert''),
     conf_datastore := or_default (conf_datastore c) (c_literal ''data''),
     conf_listen := (if conf_listen c = [] then [\<lparr> listen_addr = [0, 0, 0, 0], listen_port = 4891 \<rparr>] else conf_listen c),
     conf_chroot := or_default (conf_chroot c) prefix_dir,
     conf_usergroup := (if conf_usergroup c = Null_usergroup then Usergroup (c_literal ''veloagent'') (c_literal ''veloagent'')
       else conf_usergroup c)\<rparr>"
proof -
  have n: "(1 :: nat) \<noteq> 0" "(2 :: nat) \<noteq> 0" "(3 :: nat) \<noteq> 0" "(4 :: nat) \<noteq> 0" "(8 :: nat) \<noteq> 0" by simp_all
  note h = default_strings_0(1) [OF assms(1) [unfolded config_set_defaults_def] n(1)]
  note f = default_numbers [of "c\<lparr>conf_logdir := or_default (conf_logdir c) (c_literal ''log'')\<rparr>", folded c1_def]
  let ?chroot = "default_string alloc 8 conf_chroot (\<lambda>x c. c\<lparr>conf_chroot := x\<rparr>) prefix_dir (default_usergroup alloc)"
  let ?data = "default_string alloc 4 conf_datastore (\<lambda>x c. c\<lparr>conf_datastore := x\<rparr>) (c_literal ''data'') (default_listen alloc ?chroot)"
  let ?c2 = "c1\<lparr>conf_secret := or_default (conf_secret c) (c_literal ''root/secret.cert'')\<rparr>"
  let ?c3 = "?c2\<lparr>conf_rootblock := or_default (conf_rootblock c) (c_literal ''root/root.cert'')\<rparr>"
  let ?c4 = "?c3\<lparr>conf_datastore := or_default (conf_datastore c) (c_literal ''data'')\<rparr>"
  have "default_string alloc 3 conf_rootblock (\<lambda>x c. c\<lparr>conf_rootblock := x\<rparr>) (c_literal ''root/root.cert'') ?data ?c2 = (0, c')"
    using default_strings_0(2) [OF h [folded c1_def] n(2)] by (simp add: f)
  from default_strings_0(3) [OF this n(3)] have "?data ?c3 = (0, c')" by (simp add: f)
  from default_strings_0(4) [OF this n(4)] have "default_listen alloc ?chroot ?c4 = (0, c')" by (simp add: f)
  from default_listen_0 [OF this]
  have "?chroot (?c4\<lparr>conf_listen := (if conf_listen c = [] then [\<lparr> listen_addr = [0, 0, 0, 0], listen_port = 4891 \<rparr>] else conf_listen c)\<rparr>) = (0, c')"
    by (simp add: f cong: if_cong split del: if_split)
  from default_usergroup_0 [OF default_strings_0(5) [OF this n(5)]] show ?thesis by (simp add: f cong: if_cong split del: if_split)
qed

lemma defaults_succeed: "fst (config_set_defaults (\<lambda>_. True) prefix_dir c) = 0"
proof -
  have s: "fst (default_string (\<lambda>_. True) code get put v k c) = 0" if "\<And>c. fst (k c) = 0" for code get put v k c
    using that by (simp add: default_string_def)
  have l: "fst (default_listen (\<lambda>_. True) k c) = 0" if "\<And>c. fst (k c) = 0" for k c
    using that by (simp add: default_listen_def any_address)
  have u: "fst (default_usergroup (\<lambda>_. True) c) = 0" for c by (simp add: default_usergroup_def)
  show ?thesis unfolding config_set_defaults_def by (intro s l u)
qed

text \<open>
  C37. Whatever the process that parses the configuration file sends, a configuration
  that the supervisor accepts becomes complete when the defaults are filled in: every
  directory, file and address it needs is set, the log level is between 0 and 9, and
  the limits on a block are between 0 and their maximum.  Filling in the defaults
  succeeds when memory can be allocated and keeps everything that was configured.
\<close>

theorem accepted_config_complete:
  assumes "config_read_block envs s = (AGENTD_STATUS_SUCCESS, c, s')"
  shows "fst (config_set_defaults (\<lambda>_. True) prefix_dir c) = 0 \<and>
     (\<forall>alloc c'. config_set_defaults alloc prefix_dir c = (0, c') \<longrightarrow> config_complete c' \<and> config_extends c c')"
proof -
  have r: "range_ok c" by (rule read_range [OF assms])
  then have r1: "range_ok (c\<lparr>conf_logdir := v\<rparr>)" for v by simp
  have "config_complete c' \<and> config_extends c c'" if "config_set_defaults alloc prefix_dir c = (0, c')" for alloc c'
  proof -
    have d: "c' = (default_sizes (default_loglevel (c\<lparr>conf_logdir := or_default (conf_logdir c) (c_literal ''log'')\<rparr>)))
      \<lparr>conf_secret := or_default (conf_secret c) (c_literal ''root/secret.cert''),
       conf_rootblock := or_default (conf_rootblock c) (c_literal ''root/root.cert''),
       conf_datastore := or_default (conf_datastore c) (c_literal ''data''),
       conf_listen := (if conf_listen c = [] then [\<lparr> listen_addr = [0, 0, 0, 0], listen_port = 4891 \<rparr>] else conf_listen c),
       conf_chroot := or_default (conf_chroot c) prefix_dir,
       conf_usergroup := (if conf_usergroup c = Null_usergroup then Usergroup (c_literal ''veloagent'') (c_literal ''veloagent'')
         else conf_usergroup c)\<rparr>" by (rule defaults_0 [OF that])
    have u: "\<exists>u g. conf_usergroup c' = Usergroup u g" using r unfolding d by (cases "conf_usergroup c") (auto simp: range_ok_def)
    have "range_ok c'" using default_numbers(2) [OF r1] r unfolding d by (auto simp: range_ok_def)
    then have "config_complete c'" using u unfolding config_complete_def by (simp add: d default_numbers)
    moreover have "config_extends c c'" unfolding config_extends_def d by (auto simp: default_numbers r)
    ultimately show ?thesis ..
  qed
  then show ?thesis using defaults_succeed by blast
qed

theorem accepted_config_complete_witness:
  "\<exists>c c'. config_read_block (\<lambda>_. \<lparr> entry_malloc = True, str_malloc = True, str2_malloc = True, addr_malloc = True \<rparr>)
       \<lparr> rx = value_bytes (Uint8_val 0) @ value_bytes (Uint8_val 2) @ value_bytes (Int64_val 7) @ value_bytes (Uint8_val 0x80), tx = [],
         rd_limits = [], wr_limits = [] \<rparr> = (AGENTD_STATUS_SUCCESS, c, \<lparr> rx = [], tx = [], rd_limits = [], wr_limits = [] \<rparr>) \<and>
     config_set_defaults (\<lambda>_. True) (c_literal ''opt'') c = (0, c') \<and> config_complete c' \<and> conf_loglevel c' = 7"
proof -
  let ?env = "\<lambda>_ :: nat. \<lparr> entry_malloc = True, str_malloc = True, str2_malloc = True, addr_malloc = True \<rparr>"
  let ?s = "\<lparr> rx = value_bytes (Uint8_val 0) @ value_bytes (Uint8_val 2) @ value_bytes (Int64_val 7) @ value_bytes (Uint8_val 0x80), tx = [],
         rd_limits = [], wr_limits = [] \<rparr>"
  let ?c = "config_empty\<lparr>conf_loglevel := 7, conf_loglevel_set := True\<rparr>"
  have i: "items_ok [Int_item CONFIG_STREAM_TYPE_LOGLEVEL 7] config_empty" by (simp add: config_empty_def)
  have r: "config_read_block ?env ?s = (AGENTD_STATUS_SUCCESS, ?c, \<lparr> rx = [], tx = [], rd_limits = [], wr_limits = [] \<rparr>)"
    using items_read [OF _ _ i, of "?s\<lparr>rx := value_bytes (Uint8_val 2) @ value_bytes (Int64_val 7) @ value_bytes (Uint8_val 0x80)\<rparr>" ?env "[]" 0]
      uint8_read [of ?s 0 "value_bytes (Uint8_val 2) @ value_bytes (Int64_val 7) @ value_bytes (Uint8_val 0x80)"]
    by (simp add: config_read_block_def config_env_ok_def item_bytes_def del: value_bytes.simps)
  obtain c' where d: "config_set_defaults (\<lambda>_. True) (c_literal ''opt'') ?c = (0, c')"
    using accepted_config_complete [OF r, of "c_literal ''opt''"] by (metis prod.collapse)
  then have "config_complete c' \<and> config_extends ?c c'" using accepted_config_complete [OF r, of "c_literal ''opt''"] by blast
  then show ?thesis using r d by (auto simp: config_extends_def)
qed

text \<open>
  When the name of the default user cannot be allocated, the configuration keeps a
  pointer to freed memory, and releasing it, as the caller then does, is undefined.
\<close>

lemma failed_defaults_dispose_undefined:
  assumes "conf_usergroup c = Null_usergroup" and "\<forall>k. alloc k \<longleftrightarrow> k \<noteq> 10"
  shows "fst (default_usergroup alloc c) = 10 \<and> config_dispose (snd (default_usergroup alloc c)) = None"
  using assms by (simp add: default_usergroup_def config_dispose_def)

end
