(* ===== verification/Bootstrap.thy ===== *)
theory Bootstrap
  imports Config
begin

text \<open>
  Finding the program and parsing its command line: \<^verbatim>\<open>src/src/string/strcatv.c\<close>,
  \<^verbatim>\<open>src/src/path\<close>, \<^verbatim>\<open>src/src/bootstrap_config\<close> and \<^verbatim>\<open>src/src/commandline\<close>.  Strings are the
  bytes before the terminating zero.  The file system (\<^verbatim>\<open>realpath\<close>, \<^verbatim>\<open>access\<close>), the
  search path of the system and the results of allocations are parameters.
\<close>

subsection \<open>Strings\<close>

definition strcatv :: "bool \<Rightarrow> bytes list \<Rightarrow> bytes option" where
  "strcatv malloc_ok strs = (if malloc_ok then Some (concat strs) else None)"

text \<open>The pieces that \<^verbatim>\<open>strtok_r\<close> returns one after another: the non-empty ones.\<close>

fun strtok :: "8 word \<Rightarrow> bytes \<Rightarrow> bytes \<Rightarrow> bytes list" where
  "strtok sep tok [] = (if tok = [] then [] else [tok])"
| "strtok sep tok (c # cs) =
     (if c = sep then (if tok = [] then strtok sep [] cs else tok # strtok sep [] cs) else strtok sep (tok @ [c]) cs)"

abbreviation (input) SLASH :: "8 word" where "SLASH \<equiv> 47"
abbreviation (input) COLON :: "8 word" where "COLON \<equiv> 58"
abbreviation (input) DOT :: "8 word" where "DOT \<equiv> 46"

subsection \<open>Paths\<close>

text \<open>
  The default path is appended to the search path; the result of \<^verbatim>\<open>strdup\<close> is not
  checked for an empty path.
\<close>

definition path_append_default :: "bool \<Rightarrow> bytes \<Rightarrow> bytes \<Rightarrow> status \<times> bytes option" where
  "path_append_default malloc_ok defpath path =
     (if path = [] then (AGENTD_STATUS_SUCCESS, if malloc_ok then Some defpath else None) else
      case strcatv malloc_ok [path, [COLON], defpath] of
        None \<Rightarrow> (AGENTD_ERROR_GENERAL_OUT_OF_MEMORY, None)
      | Some out \<Rightarrow> (AGENTD_STATUS_SUCCESS, Some out))"

text \<open>
  The loop of \<^verbatim>\<open>path_dirname\<close> over the entries of the path.  \<open>dir\<close> is the result so far,
  \<open>rem\<close> the space left in it as the code computes it, \<open>prev\<close> the entry before and \<open>sep\<close>
  whether the separator has been set.
\<close>

definition strncat :: "bytes \<Rightarrow> bytes \<Rightarrow> nat \<Rightarrow> bytes" where
  "strncat dst src n = dst @ take n src"

fun dirname_loop :: "bool \<Rightarrow> bytes list \<Rightarrow> bytes \<Rightarrow> nat \<Rightarrow> bytes option \<Rightarrow> bool \<Rightarrow> bytes \<times> nat \<times> bool" where
  "dirname_loop absolute [] dir rem prev sep = (dir, rem, sep)"
| "dirname_loop absolute (ent # ents) dir rem prev sep =
     (case prev of
        None \<Rightarrow> dirname_loop absolute ents dir rem (Some ent) sep
      | Some dirpath \<Rightarrow>
          (let (dir, rem) = (if sep then (strncat dir [SLASH] rem, rem - 1)
                             else if absolute then (strncat dir [SLASH] rem, rem - 1) else (dir, rem)) in
           dirname_loop absolute ents (strncat dir dirpath rem) (rem - length dirpath) (Some ent) True))"

text \<open>A filename is \<open>None\<close> for NULL; the three flags are the results of the allocations.\<close>

definition path_dirname :: "bool \<Rightarrow> bool \<Rightarrow> bool \<Rightarrow> bytes option \<Rightarrow> status \<times> bytes option" where
  "path_dirname dot_ok dup_ok malloc_ok filename =
     (case filename of
        None \<Rightarrow> if dot_ok then (AGENTD_STATUS_SUCCESS, Some [DOT]) else (AGENTD_ERROR_GENERAL_OUT_OF_MEMORY, None)
      | Some name \<Rightarrow>
          if name = [] then (if dot_ok then (AGENTD_STATUS_SUCCESS, Some [DOT]) else (AGENTD_ERROR_GENERAL_OUT_OF_MEMORY, None)) else
          if \<not> dup_ok then (AGENTD_ERROR_GENERAL_OUT_OF_MEMORY, None) else
          if \<not> malloc_ok then (AGENTD_ERROR_GENERAL_OUT_OF_MEMORY, None) else
          case dirname_loop (hd name = SLASH) (strtok SLASH [] name) [] (length name) None False of (dir, rem, sep) \<Rightarrow>
          (AGENTD_STATUS_SUCCESS, Some (take (length name) (if sep then dir else take rem [DOT]))))"

text \<open>\<open>real name\<close> is the absolute path of a file, if it exists, and \<open>exec\<close> whether it may be executed.\<close>

definition valid_executable :: "(bytes \<Rightarrow> bytes option) \<Rightarrow> (bytes \<Rightarrow> bool) \<Rightarrow> bytes \<Rightarrow> status \<times> bytes option" where
  "valid_executable real exec filename =
     (case real filename of
        None \<Rightarrow> (AGENTD_ERROR_GENERAL_PATH_NOT_FOUND, None)
      | Some full \<Rightarrow> if \<not> exec full then (AGENTD_ERROR_GENERAL_PATH_NOT_FOUND, None) else (AGENTD_STATUS_SUCCESS, Some full))"

fun resolve_loop ::
  "(bytes \<Rightarrow> bytes option) \<Rightarrow> (bytes \<Rightarrow> bool) \<Rightarrow> (nat \<Rightarrow> bool) \<Rightarrow> nat \<Rightarrow> bytes \<Rightarrow> bytes list \<Rightarrow> status \<times> bytes option" where
  "resolve_loop real exec cat_ok n filename [] = (AGENTD_ERROR_GENERAL_PATH_NOT_FOUND, None)"
| "resolve_loop real exec cat_ok n filename (ent # ents) =
     (case strcatv (cat_ok n) [ent, [SLASH], filename] of
        None \<Rightarrow> (AGENTD_ERROR_GENERAL_OUT_OF_MEMORY, None)
      | Some fullpath \<Rightarrow>
          (case valid_executable real exec fullpath of (r, resolved) \<Rightarrow>
           if r = AGENTD_STATUS_SUCCESS then (r, resolved) else resolve_loop real exec cat_ok (Suc n) filename ents))"

definition path_resolve ::
  "(bytes \<Rightarrow> bytes option) \<Rightarrow> (bytes \<Rightarrow> bool) \<Rightarrow> bool \<Rightarrow> (nat \<Rightarrow> bool) \<Rightarrow> bytes \<Rightarrow> bytes \<Rightarrow> status \<times> bytes option" where
  "path_resolve real exec dup_ok cat_ok filename path =
     (case valid_executable real exec filename of (r, resolved) \<Rightarrow>
      if r = AGENTD_STATUS_SUCCESS then (AGENTD_STATUS_SUCCESS, resolved) else
      if \<not> dup_ok then (AGENTD_ERROR_GENERAL_OUT_OF_MEMORY, None)
      else resolve_loop real exec cat_ok 0 filename (strtok COLON [] path))"

subsection \<open>The bootstrap configuration\<close>

datatype command = command_error_usage | command_help | command_readconfig | command_start | command_version

datatype private_command =
    private_command_readconfig | private_command_read_public_entities | private_command_read_private_key | private_command_dataservice
  | private_command_listenservice | private_command_randomservice | private_command_supervisor | private_command_protocolservice
  | private_command_authservice | private_command_canonizationservice | private_command_attestationservice
  | private_command_notificationservice

record bootstrap_config =
  foreground :: bool
  init_mode :: bool
  version_request :: bool
  boot_command :: "command option"
  boot_private :: "private_command option"
  config_file :: "bytes option"
  config_file_override :: bool
  binary :: "bytes option"
  prefix_dir :: "bytes option"

definition bootstrap_config_init :: "bool \<Rightarrow> bootstrap_config" where
  "bootstrap_config_init dup_ok =
     \<lparr> foreground = False, init_mode = False, version_request = False, boot_command = None, boot_private = None,
       config_file = (if dup_ok then Some (map of_char ''/etc/agentd.conf'') else None), config_file_override = False,
       binary = None, prefix_dir = None \<rparr>"

definition bootstrap_config_set_foreground :: "bool \<Rightarrow> bootstrap_config \<Rightarrow> bootstrap_config" where
  "bootstrap_config_set_foreground b bconf = bconf\<lparr>foreground := b\<rparr>"

definition bootstrap_config_set_init_mode :: "bool \<Rightarrow> bootstrap_config \<Rightarrow> bootstrap_config" where
  "bootstrap_config_set_init_mode b bconf = bconf\<lparr>init_mode := b\<rparr>"

definition bootstrap_config_set_version_request :: "bool \<Rightarrow> bootstrap_config \<Rightarrow> bootstrap_config" where
  "bootstrap_config_set_version_request b bconf = bconf\<lparr>version_request := b\<rparr>"

definition bootstrap_config_set_command :: "command \<Rightarrow> bootstrap_config \<Rightarrow> bootstrap_config" where
  "bootstrap_config_set_command c bconf = bconf\<lparr>boot_command := Some c\<rparr>"

definition bootstrap_config_set_private_command :: "private_command \<Rightarrow> bootstrap_config \<Rightarrow> bootstrap_config" where
  "bootstrap_config_set_private_command c bconf = bconf\<lparr>boot_private := Some c\<rparr>"

definition bootstrap_config_set_config_file :: "bool \<Rightarrow> bytes \<Rightarrow> bootstrap_config \<Rightarrow> bootstrap_config" where
  "bootstrap_config_set_config_file dup_ok file bconf =
     bconf\<lparr>config_file := (if dup_ok then Some file else None), config_file_override := True\<rparr>"

text \<open>\<open>pathenv\<close> is the value of PATH.  A NULL path, which an unchecked allocation can leave, is undefined.\<close>

definition bootstrap_config_set_binary ::
  "(bytes \<Rightarrow> bytes option) \<Rightarrow> (bytes \<Rightarrow> bool) \<Rightarrow> bool \<Rightarrow> bool \<Rightarrow> (nat \<Rightarrow> bool) \<Rightarrow> bytes \<Rightarrow> bytes \<Rightarrow> bytes \<Rightarrow> bootstrap_config \<Rightarrow>
     (nat \<times> bootstrap_config) option" where
  "bootstrap_config_set_binary real exec malloc_ok dup_ok cat_ok defpath pathenv bname bconf =
     (case path_append_default malloc_ok defpath pathenv of (r, path) \<Rightarrow>
      if r \<noteq> 0 then Some (1, bconf) else
      case path of
        None \<Rightarrow> None
      | Some path \<Rightarrow>
          (case path_resolve real exec dup_ok cat_ok bname path of (r, resolved) \<Rightarrow>
           Some (if r \<noteq> 0 then 2 else 0, bconf\<lparr>binary := resolved\<rparr>)))"

text \<open>The flags are the results of the allocations in the two calls.\<close>

definition bootstrap_config_resolve_prefix_dir ::
  "(nat \<Rightarrow> bool) \<Rightarrow> bootstrap_config \<Rightarrow> status \<times> bootstrap_config" where
  "bootstrap_config_resolve_prefix_dir ok bconf =
     (case binary bconf of
        None \<Rightarrow> (1, bconf)
      | Some bin \<Rightarrow>
          (case path_dirname (ok 0) (ok 1) (ok 2) (Some bin) of (r, bindir) \<Rightarrow>
           if r \<noteq> 0 then (1, bconf) else
           case path_dirname (ok 3) (ok 4) (ok 5) bindir of (r, prefix) \<Rightarrow> (r, bconf\<lparr>prefix_dir := prefix\<rparr>)))"

subsection \<open>The command line\<close>

definition commandline_dispatch_command :: "char list list \<Rightarrow> bootstrap_config \<Rightarrow> bootstrap_config" where
  "commandline_dispatch_command argv bconf =
     (case argv of
        [] \<Rightarrow> bootstrap_config_set_command command_error_usage bconf
      | arg # _ \<Rightarrow>
          bootstrap_config_set_command
            (if arg = ''help'' then command_help else
             if arg = ''readconfig'' then command_readconfig else
             if arg = ''start'' then command_start else command_error_usage) bconf)"

definition private_commands :: "(char list \<times> private_command) list" where
  "private_commands =
     [(''readconfig'', private_command_readconfig), (''read_public_entities'', private_command_read_public_entities),
      (''read_private_key'', private_command_read_private_key), (''dataservice'', private_command_dataservice),
      (''listenservice'', private_command_listenservice), (''random'', private_command_randomservice),
      (''supervisor'', private_command_supervisor), (''protocol_service'', private_command_protocolservice),
      (''authservice'', private_command_authservice), (''canonization_service'', private_command_canonizationservice),
      (''attestation_service'', private_command_attestationservice), (''notification_service'', private_command_notificationservice)]"

definition commandline_dispatch_private_command :: "char list \<Rightarrow> bootstrap_config \<Rightarrow> bootstrap_config" where
  "commandline_dispatch_private_command cmd bconf =
     (case map_of private_commands cmd of
        Some c \<Rightarrow> bootstrap_config_set_private_command c bconf
      | None \<Rightarrow> bootstrap_config_set_command command_error_usage bconf)"

text \<open>
  \<open>opts\<close> are the results of \<^verbatim>\<open>getopt\<close> with their arguments and \<open>argv\<close> the arguments behind
  the options.  An unknown option ends the parsing without dispatching a command.
\<close>

fun parse_options :: "bool \<Rightarrow> (char \<times> char list) list \<Rightarrow> bootstrap_config \<Rightarrow> bool \<times> bootstrap_config" where
  "parse_options dup_ok [] bconf = (True, bconf)"
| "parse_options dup_ok ((ch, arg) # opts) bconf =
     (if ch = CHR ''F'' then parse_options dup_ok opts (bootstrap_config_set_foreground True bconf) else
      if ch = CHR ''I'' then parse_options dup_ok opts (bootstrap_config_set_init_mode True bconf) else
      if ch = CHR ''P'' then parse_options dup_ok opts (commandline_dispatch_private_command arg bconf) else
      if ch = CHR ''c'' then parse_options dup_ok opts (bootstrap_config_set_config_file dup_ok (map of_char arg) bconf) else
      if ch = CHR ''v'' then parse_options dup_ok opts
        (bootstrap_config_set_command command_version (bootstrap_config_set_version_request True bconf))
      else (False, bootstrap_config_set_command command_error_usage bconf))"

definition parse_commandline_options ::
  "bool \<Rightarrow> (char \<times> char list) list \<Rightarrow> char list list \<Rightarrow> bootstrap_config \<Rightarrow> bootstrap_config" where
  "parse_commandline_options dup_ok opts argv bconf =
     (case parse_options dup_ok opts bconf of (completed, bconf) \<Rightarrow>
      if completed \<and> boot_private bconf = None \<and> boot_command bconf = None
      then commandline_dispatch_command argv bconf else bconf)"

subsection \<open>Properties\<close>

fun join_path :: "bytes list \<Rightarrow> bytes" where
  "join_path [] = []"
| "join_path [x] = x"
| "join_path (x # xs) = x @ SLASH # join_path xs"

text \<open>
  The directory portion of the name of a file: the entries of its path but the last, from
  the root directory when the path is absolute, and else from the current directory.
\<close>

definition dirname_of :: "bytes \<Rightarrow> bytes" where
  "dirname_of name =
     (let ents = strtok SLASH [] name in
      if length ents < 2 then (if hd name = SLASH then [SLASH] else [DOT])
      else (if hd name = SLASH then [SLASH] else []) @ join_path (butlast ents))"

lemma join_path_Cons: "join_path (x # xs) = x @ concat (map (\<lambda>e. SLASH # e) xs)"
  by (induction xs arbitrary: x) simp_all

lemma join_path_tail: "length (concat (map (\<lambda>e. SLASH # e) xs)) \<le> Suc (length (join_path xs))"
  by (cases xs) (simp_all add: join_path_Cons)

lemma join_strtok: "length (join_path (strtok SLASH tok s)) \<le> length tok + length s"
proof (induction "SLASH" tok s rule: strtok.induct)
  case (2 tok c cs)
  then show ?case using join_path_tail [of "strtok SLASH [] cs"] by (auto simp: join_path_Cons)
qed simp

lemma dirname_loop_rest:
  assumes "length (concat (map (\<lambda>e. SLASH # e) (butlast (p # ents)))) \<le> rem"
  shows "\<exists>rem'. dirname_loop absolute ents dir rem (Some p) True =
     (dir @ concat (map (\<lambda>e. SLASH # e) (butlast (p # ents))), rem', True)"
  using assms
proof (induction ents arbitrary: p dir rem)
  case (Cons e ents)
  then show ?case using Cons.IH [of e "rem - 1 - length p" "dir @ SLASH # p"] by (auto simp: strncat_def split: if_splits)
qed simp

lemma join_butlast: "xs \<noteq> [] \<Longrightarrow> length (join_path (butlast xs)) \<le> length (join_path xs)"
proof (induction xs)
  case (Cons x xs)
  then show ?case using join_path_tail by (cases xs) (auto simp: join_path_Cons intro: le_trans)
qed simp

text \<open>
  C38. \<^verbatim>\<open>path_dirname\<close> computes the directory portion of the name of a file, unless the
  file is in the root directory itself, without ever cutting it short: the space it counts
  down is enough for all entries and separators.  For a file in the root directory it
  gives the current directory instead (dirname_of_root_file).
\<close>

theorem path_dirname_reference:
  assumes "name \<noteq> []" and "dirname_of name \<noteq> [SLASH]"
  shows "path_dirname dot_ok True True (Some name) = (AGENTD_STATUS_SUCCESS, Some (dirname_of name))"
proof -
  let ?ents = "strtok SLASH [] name" and ?abs = "hd name = SLASH"
  have j: "length (join_path ?ents) + (if ?abs then 1 else 0) \<le> length name"
    using join_strtok [of "[]" name] join_strtok [of "[]" "tl name"] assms(1) by (cases name) auto
  show ?thesis
  proof (cases "length ?ents < 2")
    case True
    then consider "?ents = []" | e where "?ents = [e]" by (cases ?ents) (auto simp: less_2_cases_iff)
    then show ?thesis using assms by cases (auto simp: path_dirname_def dirname_of_def Suc_le_eq split: if_splits)
  next
    case False
    then obtain e p ents where e: "?ents = e # p # ents" by (metis One_nat_def Suc_1 length_Cons lessI list.size(3) neq_Nil_conv zero_less_Suc)
    let ?pre = "(if ?abs then [SLASH] else []) @ e"
    have l: "length ?pre + length (concat (map (\<lambda>x. SLASH # x) (butlast (p # ents)))) \<le> length name"
      using j join_butlast [of ?ents] unfolding e by (auto simp: join_path_Cons)
    have diff_ge: "b \<le> n - a" if "a + b \<le> n" for a b n :: nat using that by simp
    obtain rem where r: "dirname_loop ?abs ents ?pre (length name - length ?pre) (Some p) True =
        (?pre @ concat (map (\<lambda>x. SLASH # x) (butlast (p # ents))), rem, True)"
      using dirname_loop_rest [of p ents "length name - length ?pre" ?abs ?pre, OF diff_ge [OF l]] by blast
    have "dirname_loop ?abs ?ents [] (length name) None False = dirname_loop ?abs ents ?pre (length name - length ?pre) (Some p) True"
      using l assms(1) unfolding e by (auto simp: strncat_def)
    then have "dirname_loop ?abs ?ents [] (length name) None False = (?pre @ concat (map (\<lambda>x. SLASH # x) (butlast (p # ents))), rem, True)"
      using r by simp
    moreover have "dirname_of name = ?pre @ concat (map (\<lambda>x. SLASH # x) (butlast (p # ents)))"
      unfolding dirname_of_def e by (simp add: join_path_Cons)
    ultimately show ?thesis using l assms(1) by (simp add: path_dirname_def del: butlast.simps)
  qed
qed

theorem path_dirname_reference_witness:
  "path_dirname True True True (Some (map of_char ''/opt//agentd/bin/agentd'')) = (AGENTD_STATUS_SUCCESS, Some (map of_char ''/opt/agentd/bin''))"
proof -
  have "dirname_of (map of_char ''/opt//agentd/bin/agentd'') = map of_char ''/opt/agentd/bin''" by code_simp
  moreover have "map of_char ''/opt/agentd/bin'' \<noteq> [SLASH]" by simp
  ultimately show ?thesis using path_dirname_reference [of "map of_char ''/opt//agentd/bin/agentd''" True] by simp
qed

text \<open>A file in the root directory is reported to be in the current directory.\<close>

lemma dirname_of_root_file:
  "path_dirname True True True (Some (map of_char ''/agentd'')) = (AGENTD_STATUS_SUCCESS, Some [DOT])"
  "dirname_of (map of_char ''/agentd'') = [SLASH]"
  by code_simp+

text \<open>
  \<^verbatim>\<open>path_resolve\<close> finds the first executable file: the name itself, or else the name
  below the entries of the search path, in their order.
\<close>

theorem path_resolve_first:
  "path_resolve real exec True (\<lambda>_. True) filename path =
     (case find (\<lambda>f. case real f of None \<Rightarrow> False | Some full \<Rightarrow> exec full)
             (filename # map (\<lambda>ent. ent @ SLASH # filename) (strtok COLON [] path)) of
        Some f \<Rightarrow> (AGENTD_STATUS_SUCCESS, real f)
      | None \<Rightarrow> (AGENTD_ERROR_GENERAL_PATH_NOT_FOUND, None))"
proof -
  have "resolve_loop real exec (\<lambda>_. True) n filename ents =
     (case find (\<lambda>f. case real f of None \<Rightarrow> False | Some full \<Rightarrow> exec full) (map (\<lambda>ent. ent @ SLASH # filename) ents) of
        Some f \<Rightarrow> (AGENTD_STATUS_SUCCESS, real f) | None \<Rightarrow> (AGENTD_ERROR_GENERAL_PATH_NOT_FOUND, None))" for n ents
    by (induction ents arbitrary: n) (auto simp: strcatv_def valid_executable_def split: option.splits)
  then show ?thesis by (auto simp: path_resolve_def valid_executable_def split: option.splits)
qed

end
