(* ===== verification/Proto.thy ===== *)
theory Proto
  imports Notify_Service "HOL-Library.List_Lexorder"
begin

text \<open>
  The data of the protocol service (\<^verbatim>\<open>src/src/protocolservice\<close>): the context that its
  fibers share, the context of a client connection, the messages the fibers exchange,
  and the entities that may connect, with their capabilities.

  A tree of the process runtime library holds pointers to resources under the key that
  a function of the code reads from the resource.  Its operations are the parameter
  \<open>resource_tree_ops\<close>: a key is the memory the key function points to, a resource is a
  value of \<open>ps_resource\<close>, with a constructor for every structure that is put into a
  tree.  An entity is reached from the tree and from the connections of its client, so
  it lives in a list, and its resource is its position there.
\<close>

subsection \<open>Trees of resources\<close>

datatype ps_resource =
    Entity_ref nat
  | Capability_key bytes
  | Api_entry bytes nat
  | Xlat_entry "64 word" "32 word" "64 word"
  | Mailbox_context "64 word" "32 word"
  | Notify_entry "64 word" "64 word" "64 word"

record 't resource_tree_ops =
  tree_empty :: 't
  tree_insert :: "bytes \<Rightarrow> ps_resource \<Rightarrow> 't \<Rightarrow> status \<times> 't"
  tree_find :: "bytes \<Rightarrow> 't \<Rightarrow> status + ps_resource"
  tree_delete :: "bytes \<Rightarrow> 't \<Rightarrow> status \<times> 't"

text \<open>
  What the code relies on: a tree is a partial map; inserting fails and changes nothing
  when the key is there (or memory is short), finding and deleting fail when it is not.
\<close>

locale resource_tree =
  fixes ops :: "'t resource_tree_ops" and lookup :: "'t \<Rightarrow> bytes \<rightharpoonup> ps_resource"
  assumes empty_law: "lookup (tree_empty ops) = Map.empty"
    and insert_law: "tree_insert ops k r t = (AGENTD_STATUS_SUCCESS, t') \<Longrightarrow> lookup t k = None \<and> lookup t' = (lookup t)(k \<mapsto> r)"
    and insert_kept: "tree_insert ops k r t = (st, t') \<Longrightarrow> st \<noteq> AGENTD_STATUS_SUCCESS \<Longrightarrow> t' = t"
    and find_law: "tree_find ops k t = Inr r \<longleftrightarrow> lookup t k = Some r"
    and delete_law: "tree_delete ops k t = (AGENTD_STATUS_SUCCESS, t') \<Longrightarrow> lookup t k \<noteq> None \<and> lookup t' = (lookup t)(k := None)"
    and delete_kept: "tree_delete ops k t = (st, t') \<Longrightarrow> st \<noteq> AGENTD_STATUS_SUCCESS \<Longrightarrow> t' = t"
begin

lemma find_cases:
  obtains r where "tree_find ops k t = Inr r" and "lookup t k = Some r"
  | st where "tree_find ops k t = Inl st" and "lookup t k = None"
proof (cases "tree_find ops k t")
  case (Inl st)
  then have "lookup t k = None" using find_law [of k t] by (cases "lookup t k") auto
  then show ?thesis using Inl that(2) by blast
next
  case (Inr r)
  then show ?thesis using find_law that(1) by blast
qed

lemma insert_result:
  "tree_insert ops k r t = (st, t') \<Longrightarrow>
     lookup t' = (if st = AGENTD_STATUS_SUCCESS then (lookup t)(k \<mapsto> r) else lookup t)"
  using insert_law insert_kept by (metis (full_types))

lemma delete_result:
  "tree_delete ops k t = (st, t') \<Longrightarrow>
     lookup t' = (if st = AGENTD_STATUS_SUCCESS then (lookup t)(k := None) else lookup t)"
  using delete_law delete_kept by (metis (full_types))

end

text \<open>Red-black trees of the library, with the two failures as statuses.\<close>

abbreviation (input) ERROR_TREE :: status where "ERROR_TREE \<equiv> 1"

definition rbt_ops :: "(bytes, ps_resource) rbt resource_tree_ops" where
  "rbt_ops =
     \<lparr> tree_empty = RBT.empty,
       tree_insert = (\<lambda>k r t. if RBT.lookup t k = None then (AGENTD_STATUS_SUCCESS, RBT.insert k r t) else (ERROR_TREE, t)),
       tree_find = (\<lambda>k t. case RBT.lookup t k of None \<Rightarrow> Inl ERROR_TREE | Some r \<Rightarrow> Inr r),
       tree_delete = (\<lambda>k t. if RBT.lookup t k = None then (ERROR_TREE, t) else (AGENTD_STATUS_SUCCESS, RBT.delete k t)) \<rparr>"

interpretation rbt_tree: resource_tree rbt_ops RBT.lookup
proof (unfold_locales, goal_cases)
  case 1 show ?case by (simp add: rbt_ops_def)
next
  case (2 k r t t') then show ?case by (auto simp: rbt_ops_def split: if_splits)
next
  case (3 k r t st t') then show ?case by (auto simp: rbt_ops_def split: if_splits)
next
  case (4 k t r) show ?case by (auto simp: rbt_ops_def split: option.splits)
next
  case (5 k t t') then show ?case by (auto simp: rbt_ops_def restrict_map_def fun_eq_iff split: if_splits)
next
  case (6 k t st t') then show ?case by (auto simp: rbt_ops_def split: if_splits)
qed

subsection \<open>Comparison of keys\<close>

text \<open>
  The comparison functions the trees are created with.  \<^verbatim>\<open>memcmp\<close> of memory of equal
  size is the lexicographic order of the bytes.
\<close>

datatype rcpr_comparison_result = RCPR_COMPARE_LT | RCPR_COMPARE_EQ | RCPR_COMPARE_GT

definition memcmp :: "bytes \<Rightarrow> bytes \<Rightarrow> int" where
  "memcmp l r = (if l < r then -1 else if l = r then 0 else 1)"

definition memcmp_compare :: "bytes \<Rightarrow> bytes \<Rightarrow> rcpr_comparison_result" where
  "memcmp_compare l r =
     (let result = memcmp l r in
      if result < 0 then RCPR_COMPARE_LT else if result > 0 then RCPR_COMPARE_GT else RCPR_COMPARE_EQ)"

definition word_compare :: "'a::len word \<Rightarrow> 'a word \<Rightarrow> rcpr_comparison_result" where
  "word_compare l r = (if l < r then RCPR_COMPARE_LT else if l > r then RCPR_COMPARE_GT else RCPR_COMPARE_EQ)"

definition protocolservice_authorized_entity_uuid_compare :: "bytes \<Rightarrow> bytes \<Rightarrow> rcpr_comparison_result" where
  "protocolservice_authorized_entity_uuid_compare lhs rhs = memcmp_compare lhs rhs"

definition protocolservice_authorized_entity_capabilities_compare :: "bytes \<Rightarrow> bytes \<Rightarrow> rcpr_comparison_result" where
  "protocolservice_authorized_entity_capabilities_compare lhs rhs = memcmp_compare lhs rhs"

definition protocolservice_extended_api_dict_compare :: "bytes \<Rightarrow> bytes \<Rightarrow> rcpr_comparison_result" where
  "protocolservice_extended_api_dict_compare lhs rhs = memcmp_compare lhs rhs"

definition protocolservice_extended_api_response_xlat_entry_compare :: "bytes \<Rightarrow> bytes \<Rightarrow> rcpr_comparison_result" where
  "protocolservice_extended_api_response_xlat_entry_compare lhs rhs = word_compare (of_mem64 lhs) (of_mem64 rhs)"

definition protocolservice_dataservice_endpoint_mailbox_context_tree_compare :: "bytes \<Rightarrow> bytes \<Rightarrow> rcpr_comparison_result" where
  "protocolservice_dataservice_endpoint_mailbox_context_tree_compare lhs rhs = word_compare (of_mem64 lhs) (of_mem64 rhs)"

definition protocolservice_dataservice_endpoint_context_mailbox_tree_compare :: "bytes \<Rightarrow> bytes \<Rightarrow> rcpr_comparison_result" where
  "protocolservice_dataservice_endpoint_context_mailbox_tree_compare lhs rhs = word_compare (of_mem32 lhs) (of_mem32 rhs)"

definition protocolservice_notificationservice_client_xlat_map_compare :: "bytes \<Rightarrow> bytes \<Rightarrow> rcpr_comparison_result" where
  "protocolservice_notificationservice_client_xlat_map_compare lhs rhs = word_compare (of_mem64 lhs) (of_mem64 rhs)"

definition protocolservice_notificationservice_server_xlat_map_compare :: "bytes \<Rightarrow> bytes \<Rightarrow> rcpr_comparison_result" where
  "protocolservice_notificationservice_server_xlat_map_compare lhs rhs = word_compare (of_mem64 lhs) (of_mem64 rhs)"

text \<open>
  A tree works when its comparison is a linear order on the keys that are used, keys of
  \<open>n\<close> bytes, and tells two keys equal only when their memory is.
\<close>

locale key_order =
  fixes n :: nat and compare :: "bytes \<Rightarrow> bytes \<Rightarrow> rcpr_comparison_result"
  assumes compare_eq: "length l = n \<Longrightarrow> length r = n \<Longrightarrow> compare l r = RCPR_COMPARE_EQ \<longleftrightarrow> l = r"
    and compare_swap: "length l = n \<Longrightarrow> length r = n \<Longrightarrow> compare l r = RCPR_COMPARE_LT \<longleftrightarrow> compare r l = RCPR_COMPARE_GT"
    and compare_trans: "length l = n \<Longrightarrow> length m = n \<Longrightarrow> length r = n \<Longrightarrow>
        compare l m = RCPR_COMPARE_LT \<Longrightarrow> compare m r = RCPR_COMPARE_LT \<Longrightarrow> compare l r = RCPR_COMPARE_LT"
begin

lemma compare_total:
  "length l = n \<Longrightarrow> length r = n \<Longrightarrow> l \<noteq> r \<Longrightarrow> compare l r = RCPR_COMPARE_LT \<or> compare r l = RCPR_COMPARE_LT"
  using compare_eq compare_swap by (cases "compare l r") metis+

end

lemma memcmp_order: "key_order n memcmp_compare"
  by unfold_locales (auto simp: memcmp_compare_def memcmp_def Let_def split: if_splits)

lemma word_order:
  assumes "\<And>l r. length l = n \<Longrightarrow> length r = n \<Longrightarrow> f l = f r \<longleftrightarrow> l = r"
  shows "key_order n (\<lambda>l r. word_compare (f l) (f r))"
  using assms by unfold_locales (auto simp: word_compare_def split: if_splits)

interpretation entity_order: key_order 16 protocolservice_authorized_entity_uuid_compare
  unfolding protocolservice_authorized_entity_uuid_compare_def [abs_def] by (rule memcmp_order)

interpretation capability_order: key_order 48 protocolservice_authorized_entity_capabilities_compare
  unfolding protocolservice_authorized_entity_capabilities_compare_def [abs_def] by (rule memcmp_order)

interpretation api_order: key_order 16 protocolservice_extended_api_dict_compare
  unfolding protocolservice_extended_api_dict_compare_def [abs_def] by (rule memcmp_order)

lemma of_mem_inject:
  "length l = 8 \<Longrightarrow> length r = 8 \<Longrightarrow> of_mem64 l = of_mem64 r \<longleftrightarrow> l = r"
  "length l = 4 \<Longrightarrow> length r = 4 \<Longrightarrow> of_mem32 l = of_mem32 r \<longleftrightarrow> l = r"
  by (metis mem64_of_mem64) (metis mem32_of_mem32)

interpretation xlat_order: key_order 8 protocolservice_extended_api_response_xlat_entry_compare
  unfolding protocolservice_extended_api_response_xlat_entry_compare_def [abs_def] by (rule word_order, rule of_mem_inject(1))

interpretation mailbox_order: key_order 8 protocolservice_dataservice_endpoint_mailbox_context_tree_compare
  unfolding protocolservice_dataservice_endpoint_mailbox_context_tree_compare_def [abs_def] by (rule word_order, rule of_mem_inject(1))

interpretation context_order: key_order 4 protocolservice_dataservice_endpoint_context_mailbox_tree_compare
  unfolding protocolservice_dataservice_endpoint_context_mailbox_tree_compare_def [abs_def] by (rule word_order, rule of_mem_inject(2))

interpretation client_order: key_order 8 protocolservice_notificationservice_client_xlat_map_compare
  unfolding protocolservice_notificationservice_client_xlat_map_compare_def [abs_def] by (rule word_order, rule of_mem_inject(1))

interpretation server_order: key_order 8 protocolservice_notificationservice_server_xlat_map_compare
  unfolding protocolservice_notificationservice_server_xlat_map_compare_def [abs_def] by (rule word_order, rule of_mem_inject(1))

subsection \<open>Requests and capabilities\<close>

text \<open>The requests of a client (\<^verbatim>\<open>src/include/agentd/protocolservice/api.h\<close>).\<close>

abbreviation (input) UNAUTH_PROTOCOL_REQ_ID_HANDSHAKE_INITIATE :: "32 word" where
  "UNAUTH_PROTOCOL_REQ_ID_HANDSHAKE_INITIATE \<equiv> 0x0"
abbreviation (input) UNAUTH_PROTOCOL_REQ_ID_HANDSHAKE_ACKNOWLEDGE :: "32 word" where
  "UNAUTH_PROTOCOL_REQ_ID_HANDSHAKE_ACKNOWLEDGE \<equiv> 0x1"
abbreviation (input) UNAUTH_PROTOCOL_REQ_ID_LATEST_BLOCK_ID_GET :: "32 word" where
  "UNAUTH_PROTOCOL_REQ_ID_LATEST_BLOCK_ID_GET \<equiv> 0x2"
abbreviation (input) UNAUTH_PROTOCOL_REQ_ID_TRANSACTION_SUBMIT :: "32 word" where
  "UNAUTH_PROTOCOL_REQ_ID_TRANSACTION_SUBMIT \<equiv> 0x3"
abbreviation (input) UNAUTH_PROTOCOL_REQ_ID_BLOCK_BY_ID_GET :: "32 word" where
  "UNAUTH_PROTOCOL_REQ_ID_BLOCK_BY_ID_GET \<equiv> 0x4"
abbreviation (input) UNAUTH_PROTOCOL_REQ_ID_BLOCK_ID_GET_NEXT :: "32 word" where
  "UNAUTH_PROTOCOL_REQ_ID_BLOCK_ID_GET_NEXT \<equiv> 0x5"
abbreviation (input) UNAUTH_PROTOCOL_REQ_ID_BLOCK_ID_GET_PREV :: "32 word" where
  "UNAUTH_PROTOCOL_REQ_ID_BLOCK_ID_GET_PREV \<equiv> 0x6"
abbreviation (input) UNAUTH_PROTOCOL_REQ_ID_BLOCK_ID_BY_HEIGHT_GET :: "32 word" where
  "UNAUTH_PROTOCOL_REQ_ID_BLOCK_ID_BY_HEIGHT_GET \<equiv> 0x7"
abbreviation (input) UNAUTH_PROTOCOL_REQ_ID_TRANSACTION_BY_ID_GET :: "32 word" where
  "UNAUTH_PROTOCOL_REQ_ID_TRANSACTION_BY_ID_GET \<equiv> 0x10"
abbreviation (input) UNAUTH_PROTOCOL_REQ_ID_TRANSACTION_ID_GET_NEXT :: "32 word" where
  "UNAUTH_PROTOCOL_REQ_ID_TRANSACTION_ID_GET_NEXT \<equiv> 0x11"
abbreviation (input) UNAUTH_PROTOCOL_REQ_ID_TRANSACTION_ID_GET_PREV :: "32 word" where
  "UNAUTH_PROTOCOL_REQ_ID_TRANSACTION_ID_GET_PREV \<equiv> 0x12"
abbreviation (input) UNAUTH_PROTOCOL_REQ_ID_TRANSACTION_ID_GET_BLOCK_ID :: "32 word" where
  "UNAUTH_PROTOCOL_REQ_ID_TRANSACTION_ID_GET_BLOCK_ID \<equiv> 0x13"
abbreviation (input) UNAUTH_PROTOCOL_REQ_ID_ARTIFACT_FIRST_TXN_BY_ID_GET :: "32 word" where
  "UNAUTH_PROTOCOL_REQ_ID_ARTIFACT_FIRST_TXN_BY_ID_GET \<equiv> 0x20"
abbreviation (input) UNAUTH_PROTOCOL_REQ_ID_ARTIFACT_LAST_TXN_BY_ID_GET :: "32 word" where
  "UNAUTH_PROTOCOL_REQ_ID_ARTIFACT_LAST_TXN_BY_ID_GET \<equiv> 0x21"
abbreviation (input) UNAUTH_PROTOCOL_REQ_ID_ASSERT_LATEST_BLOCK_ID :: "32 word" where
  "UNAUTH_PROTOCOL_REQ_ID_ASSERT_LATEST_BLOCK_ID \<equiv> 0x30"
abbreviation (input) UNAUTH_PROTOCOL_REQ_ID_ASSERT_LATEST_BLOCK_ID_CANCEL :: "32 word" where
  "UNAUTH_PROTOCOL_REQ_ID_ASSERT_LATEST_BLOCK_ID_CANCEL \<equiv> 0x31"
abbreviation (input) UNAUTH_PROTOCOL_REQ_ID_EXTENDED_API_ENABLE :: "32 word" where
  "UNAUTH_PROTOCOL_REQ_ID_EXTENDED_API_ENABLE \<equiv> 0x50"
abbreviation (input) UNAUTH_PROTOCOL_REQ_ID_EXTENDED_API_SENDRECV :: "32 word" where
  "UNAUTH_PROTOCOL_REQ_ID_EXTENDED_API_SENDRECV \<equiv> 0x51"
abbreviation (input) UNAUTH_PROTOCOL_REQ_ID_EXTENDED_API_CLIENTREQ :: "32 word" where
  "UNAUTH_PROTOCOL_REQ_ID_EXTENDED_API_CLIENTREQ \<equiv> 0x52"
abbreviation (input) UNAUTH_PROTOCOL_REQ_ID_EXTENDED_API_SENDRESP :: "32 word" where
  "UNAUTH_PROTOCOL_REQ_ID_EXTENDED_API_SENDRESP \<equiv> 0x53"
abbreviation (input) UNAUTH_PROTOCOL_REQ_ID_STATUS_GET :: "32 word" where
  "UNAUTH_PROTOCOL_REQ_ID_STATUS_GET \<equiv> 0xA000"
abbreviation (input) UNAUTH_PROTOCOL_REQ_ID_CLOSE :: "32 word" where
  "UNAUTH_PROTOCOL_REQ_ID_CLOSE \<equiv> 0xFFFF"

text \<open>The capabilities of \<^verbatim>\<open>protocolservice_capabilities.c\<close>.\<close>

definition PROTOCOLSERVICE_API_CAPABILITY_BLOCK_ID_LATEST_READ :: bytes where
  "PROTOCOLSERVICE_API_CAPABILITY_BLOCK_ID_LATEST_READ =
     [0xc5, 0xb0, 0xeb, 0x04, 0x6b, 0x24, 0x48, 0xbe,
      0xb7, 0xd9, 0xbf, 0x90, 0x83, 0xa4, 0xbe, 0x5d]"

definition PROTOCOLSERVICE_API_CAPABILITY_TRANSACTION_SUBMIT :: bytes where
  "PROTOCOLSERVICE_API_CAPABILITY_TRANSACTION_SUBMIT =
     [0xef, 0x56, 0x0d, 0x24, 0xee, 0xa6, 0x48, 0x47,
      0x90, 0x09, 0x46, 0x4b, 0x12, 0x7f, 0x24, 0x9b]"

definition PROTOCOLSERVICE_API_CAPABILITY_BLOCK_READ :: bytes where
  "PROTOCOLSERVICE_API_CAPABILITY_BLOCK_READ =
     [0xf3, 0x82, 0xe3, 0x65, 0x12, 0x24, 0x43, 0xb4,
      0x92, 0x4a, 0x1d, 0xe4, 0xd9, 0xf4, 0xcf, 0x25]"

definition PROTOCOLSERVICE_API_CAPABILITY_BLOCK_ID_BY_HEIGHT_READ :: bytes where
  "PROTOCOLSERVICE_API_CAPABILITY_BLOCK_ID_BY_HEIGHT_READ =
     [0x91, 0x5a, 0x5e, 0xf4, 0x8f, 0x96, 0x4e, 0xf5,
      0x95, 0x88, 0x0a, 0x75, 0xb1, 0xca, 0xe6, 0x8d]"

definition PROTOCOLSERVICE_API_CAPABILITY_TRANSACTION_READ :: bytes where
  "PROTOCOLSERVICE_API_CAPABILITY_TRANSACTION_READ =
     [0x7d, 0xf2, 0x10, 0xd6, 0xf0, 0x0b, 0x47, 0xc4,
      0xa6, 0x08, 0x6f, 0x3f, 0x1d, 0xf7, 0x51, 0x1a]"

definition PROTOCOLSERVICE_API_CAPABILITY_ARTIFACT_READ :: bytes where
  "PROTOCOLSERVICE_API_CAPABILITY_ARTIFACT_READ =
     [0xfc, 0x0e, 0x22, 0xea, 0x1e, 0x77, 0x4e, 0xa4,
      0xa2, 0xae, 0x08, 0xbe, 0x5f, 0xf7, 0x3c, 0xcc]"

definition PROTOCOLSERVICE_API_CAPABILITY_ASSERT_LATEST_BLOCK_ID :: bytes where
  "PROTOCOLSERVICE_API_CAPABILITY_ASSERT_LATEST_BLOCK_ID =
     [0x44, 0x76, 0x17, 0xb4, 0xa8, 0x47, 0x43, 0x7c,
      0xb6, 0x2b, 0x5b, 0xc6, 0xa9, 0x42, 0x06, 0xfa]"

definition PROTOCOLSERVICE_API_CAPABILITY_ASSERT_LATEST_BLOCK_ID_CANCEL :: bytes where
  "PROTOCOLSERVICE_API_CAPABILITY_ASSERT_LATEST_BLOCK_ID_CANCEL =
     [0xd8, 0x48, 0xb1, 0x18, 0x7c, 0x34, 0x46, 0xc5,
      0x80, 0xdb, 0xd4, 0xff, 0xd9, 0x21, 0xbb, 0x50]"

definition PROTOCOLSERVICE_API_CAPABILITY_EXTENDED_API_ENABLE :: bytes where
  "PROTOCOLSERVICE_API_CAPABILITY_EXTENDED_API_ENABLE =
     [0xc4, 0x1b, 0x05, 0x3c, 0x6b, 0x4a, 0x40, 0xa1,
      0x98, 0x1b, 0x88, 0x2b, 0xde, 0xff, 0xe9, 0x78]"

definition PROTOCOLSERVICE_API_CAPABILITY_EXTENDED_API_RESP :: bytes where
  "PROTOCOLSERVICE_API_CAPABILITY_EXTENDED_API_RESP =
     [0x25, 0x79, 0x5b, 0x47, 0xb0, 0xf0, 0x45, 0x6f,
      0xaa, 0xc4, 0x22, 0x13, 0x1f, 0x4e, 0xac, 0xe2]"

definition PROTOCOLSERVICE_API_CAPABILITY_EXTENDED_API_SENDRECV :: bytes where
  "PROTOCOLSERVICE_API_CAPABILITY_EXTENDED_API_SENDRECV =
     [0x51, 0xb9, 0xe4, 0x24, 0x0c, 0x45, 0x49, 0x1b,
      0x9b, 0xda, 0x69, 0x0e, 0x10, 0x87, 0x3c, 0x1c]"

lemmas protocol_capabilities =
  PROTOCOLSERVICE_API_CAPABILITY_BLOCK_ID_LATEST_READ_def
  PROTOCOLSERVICE_API_CAPABILITY_TRANSACTION_SUBMIT_def
  PROTOCOLSERVICE_API_CAPABILITY_BLOCK_READ_def
  PROTOCOLSERVICE_API_CAPABILITY_BLOCK_ID_BY_HEIGHT_READ_def
  PROTOCOLSERVICE_API_CAPABILITY_TRANSACTION_READ_def
  PROTOCOLSERVICE_API_CAPABILITY_ARTIFACT_READ_def
  PROTOCOLSERVICE_API_CAPABILITY_ASSERT_LATEST_BLOCK_ID_def
  PROTOCOLSERVICE_API_CAPABILITY_ASSERT_LATEST_BLOCK_ID_CANCEL_def
  PROTOCOLSERVICE_API_CAPABILITY_EXTENDED_API_ENABLE_def
  PROTOCOLSERVICE_API_CAPABILITY_EXTENDED_API_RESP_def
  PROTOCOLSERVICE_API_CAPABILITY_EXTENDED_API_SENDRECV_def

subsection \<open>Entities\<close>

record 't protocolservice_authorized_entity =
  entity_uuid :: bytes
  encryption_pubkey :: bytes
  signing_pubkey :: bytes
  capabilities :: 't

record protocolservice_authorized_entity_capability_key =
  subject_id :: bytes
  verb_id :: bytes
  object_id :: bytes

text \<open>The memory of a capability: its three identifiers.\<close>

definition capability_bytes :: "protocolservice_authorized_entity_capability_key \<Rightarrow> bytes" where
  "capability_bytes key = subject_id key @ verb_id key @ object_id key"

definition protocolservice_authorized_entity_key :: "'t protocolservice_authorized_entity \<Rightarrow> bytes" where
  "protocolservice_authorized_entity_key entity = entity_uuid entity"

definition protocolservice_authorized_entity_capabilities_key :: "protocolservice_authorized_entity_capability_key \<Rightarrow> bytes" where
  "protocolservice_authorized_entity_capabilities_key cap = capability_bytes cap"

definition protocolservice_authorized_entity_capability_create ::
  "status \<Rightarrow> bytes \<Rightarrow> bytes \<Rightarrow> bytes \<Rightarrow> status + protocolservice_authorized_entity_capability_key" where
  "protocolservice_authorized_entity_capability_create alloc_st subject verb object =
     (if alloc_st \<noteq> AGENTD_STATUS_SUCCESS then Inl alloc_st
      else Inr \<lparr> subject_id = subject, verb_id = verb, object_id = object \<rparr>)"

definition protocolservice_authorized_entity_capability_check ::
  "'t resource_tree_ops \<Rightarrow> 't protocolservice_authorized_entity \<Rightarrow> bytes \<Rightarrow> bytes \<Rightarrow> bytes \<Rightarrow> bool" where
  "protocolservice_authorized_entity_capability_check ops entity subject verb object =
     (let key = \<lparr> subject_id = subject, verb_id = verb, object_id = object \<rparr> in
      case tree_find ops (capability_bytes key) (capabilities entity) of Inl _ \<Rightarrow> False | Inr _ \<Rightarrow> True)"

subsection \<open>Messages\<close>

text \<open>
  The fibers exchange messages through mailboxes of the process runtime library.  A
  message has the address it goes to, the address for the reply and a payload.
\<close>

abbreviation (input) PROTOCOLSERVICE_DATASERVICE_ENDPOINT_REQ_CONTEXT_OPEN :: "32 word" where
  "PROTOCOLSERVICE_DATASERVICE_ENDPOINT_REQ_CONTEXT_OPEN \<equiv> 0"
abbreviation (input) PROTOCOLSERVICE_DATASERVICE_ENDPOINT_REQ_CONTEXT_CLOSE :: "32 word" where
  "PROTOCOLSERVICE_DATASERVICE_ENDPOINT_REQ_CONTEXT_CLOSE \<equiv> 1"
abbreviation (input) PROTOCOLSERVICE_DATASERVICE_ENDPOINT_REQ_DATASERVICE_REQ :: "32 word" where
  "PROTOCOLSERVICE_DATASERVICE_ENDPOINT_REQ_DATASERVICE_REQ \<equiv> 2"

abbreviation (input) PROTOCOLSERVICE_PROTOCOL_WRITE_ENDPOINT_MESSAGE_SHUTDOWN :: "32 word" where
  "PROTOCOLSERVICE_PROTOCOL_WRITE_ENDPOINT_MESSAGE_SHUTDOWN \<equiv> 0"
abbreviation (input) PROTOCOLSERVICE_PROTOCOL_WRITE_ENDPOINT_DATASERVICE_CONTEXT_CREATE_MSG :: "32 word" where
  "PROTOCOLSERVICE_PROTOCOL_WRITE_ENDPOINT_DATASERVICE_CONTEXT_CREATE_MSG \<equiv> 1"
abbreviation (input) PROTOCOLSERVICE_PROTOCOL_WRITE_ENDPOINT_DATASERVICE_MSG :: "32 word" where
  "PROTOCOLSERVICE_PROTOCOL_WRITE_ENDPOINT_DATASERVICE_MSG \<equiv> 2"
abbreviation (input) PROTOCOLSERVICE_PROTOCOL_WRITE_ENDPOINT_NOTIFICATION_MSG :: "32 word" where
  "PROTOCOLSERVICE_PROTOCOL_WRITE_ENDPOINT_NOTIFICATION_MSG \<equiv> 3"
abbreviation (input) PROTOCOLSERVICE_PROTOCOL_WRITE_ENDPOINT_PACKET :: "32 word" where
  "PROTOCOLSERVICE_PROTOCOL_WRITE_ENDPOINT_PACKET \<equiv> 4"
abbreviation (input) PROTOCOLSERVICE_PROTOCOL_WRITE_ENDPOINT_ERROR_MESSAGE :: "32 word" where
  "PROTOCOLSERVICE_PROTOCOL_WRITE_ENDPOINT_ERROR_MESSAGE \<equiv> 5"

record protocolservice_dataservice_request_message =
  dreq_protocol_request_id :: "32 word"
  dreq_request_id :: "32 word"
  dreq_offset :: "32 word"
  dreq_data :: "64 word"
  dreq_payload :: bytes

record protocolservice_protocol_write_endpoint_message =
  pwe_message_type :: "32 word"
  pwe_original_request_id :: "32 word"
  pwe_offset :: "32 word"
  pwe_payload :: bytes

record protocolservice_notificationservice_block_assertion_request =
  areq_offset :: "32 word"
  areq_block_id :: bytes
  areq_reply_addr :: "64 word"
  areq_cancel :: bool

record protocolservice_notificationservice_block_assertion_response =
  aresp_success :: bool
  aresp_offset :: "64 word"

datatype ps_payload =
    Data_request protocolservice_dataservice_request_message
  | Write_endpoint protocolservice_protocol_write_endpoint_message
  | Random_request nat
  | Random_response bytes
  | Assertion_request protocolservice_notificationservice_block_assertion_request
  | Assertion_response protocolservice_notificationservice_block_assertion_response

record ps_message =
  msg_to :: "64 word"
  msg_return :: "64 word"
  msg_payload :: ps_payload

subsection \<open>Contexts\<close>

text \<open>
  The context of a connection and the context all fibers share.  The connections are
  kept in a list; a pointer to one is its position, and one whose reference count has
  dropped to zero has been freed.  \<open>ps_messages\<close> are the messages
  that were sent and not yet received, in order.
\<close>

record ('t, 's) protocolservice_protocol_fiber_context =
  reference_count :: int
  req_shutdown :: bool
  shutdown :: bool
  extended_api_enabled :: bool
  extended_api_can_respond :: bool
  protosock :: 's
  client_key_nonce :: bytes
  client_challenge_nonce :: bytes
  server_key_nonce :: bytes
  server_challenge_nonce :: bytes
  shared_secret :: bytes
  client_iv :: "64 word"
  server_iv :: "64 word"
  fiber_entity_uuid :: bytes
  return_addr :: "64 word"
  fiber_addr :: "64 word"
  fiber_entity :: "nat option"
  dataservice_context_opened :: bool
  latest_block_id_assertion_set :: bool
  latest_block_id_assertion_client_offset :: "32 word"
  latest_block_id_assertion_server_offset :: "64 word"
  extended_api_offset :: "64 word"
  extended_api_offset_dict :: 't

record ('t, 's) protocolservice_context =
  data_endpoint_addr :: "64 word"
  random_endpoint_addr :: "64 word"
  notificationservice_endpoint_addr :: "64 word"
  authorized_entity_dict :: 't
  ps_entities :: "'t protocolservice_authorized_entity list"
  extended_api_dict :: 't
  agentd_uuid :: bytes
  agentd_enc_pubkey :: bytes
  agentd_enc_privkey :: bytes
  agentd_sign_pubkey :: bytes
  agentd_sign_privkey :: bytes
  private_key_set :: bool
  ps_quiesce :: bool
  ps_terminate :: bool
  ps_fibers :: "('t, 's) protocolservice_protocol_fiber_context list"
  ps_messages :: "ps_message list"

definition set_fiber ::
  "nat \<Rightarrow> ('t, 's) protocolservice_protocol_fiber_context \<Rightarrow> ('t, 's) protocolservice_context \<Rightarrow> ('t, 's) protocolservice_context" where
  "set_fiber i f ctx = ctx\<lparr>ps_fibers := (ps_fibers ctx)[i := f]\<rparr>"

text \<open>
  Creating and sending a message: on an error what has been created is released.  The
  results of the calls are those of \<open>send_env\<close>: \<open>payload_st\<close> the allocation of the
  payload, \<open>encode_st\<close> that of the buffer in it.
\<close>

definition send_message ::
  "send_env \<Rightarrow> 64 word \<Rightarrow> 64 word \<Rightarrow> ps_payload \<Rightarrow> ('t, 's) protocolservice_context \<Rightarrow> status \<times> ('t, 's) protocolservice_context" where
  "send_message env to ret p ctx =
     (if message_st env \<noteq> AGENTD_STATUS_SUCCESS then (released (release_st env) (message_st env), ctx) else
      if send_st env \<noteq> AGENTD_STATUS_SUCCESS then (released (release_st env) (send_st env), ctx) else
      (AGENTD_STATUS_SUCCESS,
       ctx\<lparr>ps_messages := ps_messages ctx @ [\<lparr> msg_to = to, msg_return = ret, msg_payload = p \<rparr>]\<rparr>))"

definition protocolservice_send_error_response_message ::
  "send_env \<Rightarrow> nat \<Rightarrow> 32 word \<Rightarrow> status \<Rightarrow> 32 word \<Rightarrow> ('t, 's) protocolservice_context \<Rightarrow> status \<times> ('t, 's) protocolservice_context" where
  "protocolservice_send_error_response_message env i request_id st offset ctx =
     (let response = net32 request_id @ net32 st @ net32 offset; addr = return_addr (ps_fibers ctx ! i) in
      if payload_st env \<noteq> AGENTD_STATUS_SUCCESS then (payload_st env, ctx) else
      if encode_st env \<noteq> AGENTD_STATUS_SUCCESS then (released (release_st env) (encode_st env), ctx) else
      send_message env addr addr
        (Write_endpoint \<lparr> pwe_message_type = PROTOCOLSERVICE_PROTOCOL_WRITE_ENDPOINT_PACKET,
                          pwe_original_request_id = 0, pwe_offset = 0, pwe_payload = response \<rparr>) ctx)"

definition protocolservice_dataservice_request_message_create ::
  "status \<Rightarrow> 32 word \<Rightarrow> 32 word \<Rightarrow> 32 word \<Rightarrow> 64 word \<Rightarrow> bytes \<Rightarrow> status + protocolservice_dataservice_request_message" where
  "protocolservice_dataservice_request_message_create alloc_st protocol_req_id request_id offset data payload =
     (if alloc_st \<noteq> AGENTD_STATUS_SUCCESS then Inl alloc_st
      else Inr \<lparr> dreq_protocol_request_id = protocol_req_id, dreq_request_id = request_id, dreq_offset = offset,
                 dreq_data = data, dreq_payload = payload \<rparr>)"

definition protocolservice_protocol_write_endpoint_message_create ::
  "send_env \<Rightarrow> 32 word \<Rightarrow> 32 word \<Rightarrow> 32 word \<Rightarrow> bytes option \<Rightarrow> status + protocolservice_protocol_write_endpoint_message" where
  "protocolservice_protocol_write_endpoint_message_create env message_type original_req_id offset payload =
     (if payload_st env \<noteq> AGENTD_STATUS_SUCCESS then Inl (payload_st env) else
      case payload of
        None \<Rightarrow> Inr \<lparr> pwe_message_type = message_type, pwe_original_request_id = original_req_id, pwe_offset = offset, pwe_payload = [] \<rparr>
      | Some b \<Rightarrow>
          if encode_st env \<noteq> AGENTD_STATUS_SUCCESS then Inl (released (release_st env) (encode_st env))
          else Inr \<lparr> pwe_message_type = message_type, pwe_original_request_id = original_req_id, pwe_offset = offset, pwe_payload = b \<rparr>)"

end
