(* ===== verification/Proto_Dispatch.thy ===== *)
theory Proto_Dispatch
  imports Proto Ds_Api
begin

text \<open>
  The requests of a client after the handshake (files \<^verbatim>\<open>protocolservice_protocol_dnd_*.c\<close>
  and those they call).  A request is decoded by the blockchain protocol library, which
  is third-party code and the parameter \<open>vcblockchain\<close>; it is turned into a request to
  the data service, which goes as a message to the fiber that owns the data socket, or
  into a message to the notification endpoint or to another client.  A handler does not
  write to the client: every response is a message to the write endpoint of the
  connection.

  A result \<open>None\<close> is undefined behaviour of the program.  Where a handler waits for a
  reply the other fibers run; \<open>wait\<close> is what they do to the shared context until the
  reply is there.
\<close>

record vcblockchain =
  decode_req_transaction_submit :: "bytes \<Rightarrow> status + 32 word \<times> bytes \<times> bytes \<times> bytes"
  decode_req_block_get :: "bytes \<Rightarrow> status + 32 word \<times> bytes"
  decode_req_block_next_id_get :: "bytes \<Rightarrow> status + 32 word \<times> bytes"
  decode_req_block_prev_id_get :: "bytes \<Rightarrow> status + 32 word \<times> bytes"
  decode_req_txn_get :: "bytes \<Rightarrow> status + 32 word \<times> bytes"
  decode_req_txn_next_id_get :: "bytes \<Rightarrow> status + 32 word \<times> bytes"
  decode_req_txn_prev_id_get :: "bytes \<Rightarrow> status + 32 word \<times> bytes"
  decode_req_txn_block_id_get :: "bytes \<Rightarrow> status + 32 word \<times> bytes"
  decode_req_artifact_first_txn_id_get :: "bytes \<Rightarrow> status + 32 word \<times> bytes"
  decode_req_artifact_last_txn_id_get :: "bytes \<Rightarrow> status + 32 word \<times> bytes"
  decode_req_block_id_by_height_get :: "bytes \<Rightarrow> status + 32 word \<times> 64 word"
  decode_req_assert_latest_block_id :: "bytes \<Rightarrow> status + 32 word \<times> bytes"
  decode_req_assert_latest_block_id_cancel :: "bytes \<Rightarrow> status + 32 word"
  decode_req_extended_api_enable :: "bytes \<Rightarrow> status + 32 word"
  decode_req_extended_api :: "bytes \<Rightarrow> status + 32 word \<times> bytes \<times> bytes \<times> bytes"
  decode_req_extended_api_response :: "bytes \<Rightarrow> status + 64 word \<times> 32 word \<times> bytes"
  decode_req_status_get :: "bytes \<Rightarrow> status + 32 word"
  encode_resp_extended_api :: "32 word \<Rightarrow> 32 word \<Rightarrow> bytes \<Rightarrow> status + bytes"
  encode_resp_extended_api_client_request :: "64 word \<Rightarrow> bytes \<Rightarrow> bytes \<Rightarrow> bytes \<Rightarrow> bytes \<Rightarrow> bytes \<Rightarrow> status + bytes"

text \<open>
  The results of the calls of one request: \<open>encode_req_st\<close> the buffer of the request to
  the data service, \<open>request_env\<close> the message the handler sends, \<open>response_env\<close> the status
  it sends to its own client, \<open>error_env\<close> the status the dispatcher sends, \<open>entry_st\<close> and
  \<open>entry_free_st\<close> the entry of a tree, \<open>reply_free_st\<close> the release of a reply,
  \<open>packet_free_st\<close> that of the packet.
\<close>

record dispatch_env =
  encode_req_st :: status
  request_env :: send_env
  response_env :: send_env
  error_env :: send_env
  entry_st :: status
  entry_free_st :: status
  reply_free_st :: status
  packet_free_st :: status

type_synonym ('t, 's) dispatch_result = "(status \<times> ('t, 's) protocolservice_context) option"

type_synonym ('t, 's) message_wait =
  "('t, 's) protocolservice_context \<Rightarrow> (status + protocolservice_notificationservice_block_assertion_response) \<times> ('t, 's) protocolservice_context"

subsection \<open>Requests for the data service\<close>

definition protocolservice_dataservice_send_request ::
  "send_env \<Rightarrow> nat \<Rightarrow> 32 word \<Rightarrow> 32 word \<Rightarrow> bytes \<Rightarrow> ('t, 's) protocolservice_context \<Rightarrow> status \<times> ('t, 's) protocolservice_context" where
  "protocolservice_dataservice_send_request env i protocol_req_id request_offset buf ctx =
     (case protocolservice_dataservice_request_message_create (payload_st env) protocol_req_id
             PROTOCOLSERVICE_DATASERVICE_ENDPOINT_REQ_DATASERVICE_REQ request_offset 0 buf of
        Inl st \<Rightarrow> (st, ctx)
      | Inr m \<Rightarrow> send_message env (data_endpoint_addr ctx) (return_addr (ps_fibers ctx ! i)) (Data_request m) ctx)"

text \<open>
  Most handlers throw the result of the encoder away (\<^verbatim>\<open>retval = 0;\<close> stands before the
  call), so that after a failure a buffer that was never initialised is sent.
\<close>

definition forward_unchecked ::
  "dispatch_env \<Rightarrow> nat \<Rightarrow> 32 word \<Rightarrow> 32 word \<Rightarrow> status + bytes \<Rightarrow> ('t, 's) protocolservice_context \<Rightarrow> ('t, 's) dispatch_result" where
  "forward_unchecked env i request_id request_offset reqbuf ctx =
     (case reqbuf of
        Inl _ \<Rightarrow> None
      | Inr b \<Rightarrow> Some (protocolservice_dataservice_send_request (request_env env) i request_id request_offset b ctx))"

definition forward_checked ::
  "dispatch_env \<Rightarrow> nat \<Rightarrow> 32 word \<Rightarrow> 32 word \<Rightarrow> status + bytes \<Rightarrow> ('t, 's) protocolservice_context \<Rightarrow> ('t, 's) dispatch_result" where
  "forward_checked env i request_id request_offset reqbuf ctx =
     (case reqbuf of
        Inl st \<Rightarrow> Some (st, ctx)
      | Inr b \<Rightarrow> Some (protocolservice_dataservice_send_request (request_env env) i request_id request_offset b ctx))"

definition protocolservice_protocol_dnd_latest_block_id_get ::
  "dispatch_env \<Rightarrow> nat \<Rightarrow> 32 word \<Rightarrow> ('t, 's) protocolservice_context \<Rightarrow> ('t, 's) dispatch_result" where
  "protocolservice_protocol_dnd_latest_block_id_get env i request_offset ctx =
     forward_checked env i UNAUTH_PROTOCOL_REQ_ID_LATEST_BLOCK_ID_GET request_offset
       (dataservice_encode_request_latest_block_id_get (encode_req_st env) 0) ctx"

definition MAX_TRANSACTION_CERTIFICATE_SIZE :: nat where
  "MAX_TRANSACTION_CERTIFICATE_SIZE = 32767"

definition protocolservice_protocol_dnd_transaction_submit ::
  "vcblockchain \<Rightarrow> dispatch_env \<Rightarrow> nat \<Rightarrow> 32 word \<Rightarrow> bytes \<Rightarrow> ('t, 's) protocolservice_context \<Rightarrow> ('t, 's) dispatch_result" where
  "protocolservice_protocol_dnd_transaction_submit vc env i request_offset payload ctx =
     (case decode_req_transaction_submit vc payload of
        Inl st \<Rightarrow> Some (st, ctx)
      | Inr (request_id, txn_id, artifact_id, cert) \<Rightarrow>
          if MAX_TRANSACTION_CERTIFICATE_SIZE < length cert
          then Some (AGENTD_ERROR_PROTOCOLSERVICE_TRANSACTION_VERIFICATION, ctx)
          else forward_unchecked env i request_id request_offset
                 (dataservice_encode_request_transaction_submit (encode_req_st env) 0 txn_id artifact_id cert) ctx)"

definition protocolservice_protocol_dnd_block_by_id_get ::
  "vcblockchain \<Rightarrow> dispatch_env \<Rightarrow> nat \<Rightarrow> 32 word \<Rightarrow> bytes \<Rightarrow> ('t, 's) protocolservice_context \<Rightarrow> ('t, 's) dispatch_result" where
  "protocolservice_protocol_dnd_block_by_id_get vc env i request_offset payload ctx =
     (case decode_req_block_get vc payload of
        Inl st \<Rightarrow> Some (st, ctx)
      | Inr (request_id, block_id) \<Rightarrow>
          forward_unchecked env i request_id request_offset
            (dataservice_encode_request_block_get (encode_req_st env) 0 block_id True) ctx)"

definition protocolservice_protocol_dnd_block_id_next_get ::
  "vcblockchain \<Rightarrow> dispatch_env \<Rightarrow> nat \<Rightarrow> 32 word \<Rightarrow> bytes \<Rightarrow> ('t, 's) protocolservice_context \<Rightarrow> ('t, 's) dispatch_result" where
  "protocolservice_protocol_dnd_block_id_next_get vc env i request_offset payload ctx =
     (case decode_req_block_next_id_get vc payload of
        Inl st \<Rightarrow> Some (st, ctx)
      | Inr (request_id, block_id) \<Rightarrow>
          forward_unchecked env i request_id request_offset
            (dataservice_encode_request_block_get (encode_req_st env) 0 block_id False) ctx)"

definition protocolservice_protocol_dnd_block_id_prev_get ::
  "vcblockchain \<Rightarrow> dispatch_env \<Rightarrow> nat \<Rightarrow> 32 word \<Rightarrow> bytes \<Rightarrow> ('t, 's) protocolservice_context \<Rightarrow> ('t, 's) dispatch_result" where
  "protocolservice_protocol_dnd_block_id_prev_get vc env i request_offset payload ctx =
     (case decode_req_block_prev_id_get vc payload of
        Inl st \<Rightarrow> Some (st, ctx)
      | Inr (request_id, block_id) \<Rightarrow>
          forward_unchecked env i request_id request_offset
            (dataservice_encode_request_block_get (encode_req_st env) 0 block_id False) ctx)"

definition protocolservice_protocol_dnd_transaction_by_id_get ::
  "vcblockchain \<Rightarrow> dispatch_env \<Rightarrow> nat \<Rightarrow> 32 word \<Rightarrow> bytes \<Rightarrow> ('t, 's) protocolservice_context \<Rightarrow> ('t, 's) dispatch_result" where
  "protocolservice_protocol_dnd_transaction_by_id_get vc env i request_offset payload ctx =
     (case decode_req_txn_get vc payload of
        Inl st \<Rightarrow> Some (st, ctx)
      | Inr (request_id, txn_id) \<Rightarrow>
          forward_unchecked env i request_id request_offset
            (dataservice_encode_request_canonized_transaction_get (encode_req_st env) 0 txn_id True) ctx)"

definition protocolservice_protocol_dnd_transaction_id_next_get ::
  "vcblockchain \<Rightarrow> dispatch_env \<Rightarrow> nat \<Rightarrow> 32 word \<Rightarrow> bytes \<Rightarrow> ('t, 's) protocolservice_context \<Rightarrow> ('t, 's) dispatch_result" where
  "protocolservice_protocol_dnd_transaction_id_next_get vc env i request_offset payload ctx =
     (case decode_req_txn_next_id_get vc payload of
        Inl st \<Rightarrow> Some (st, ctx)
      | Inr (request_id, txn_id) \<Rightarrow>
          forward_unchecked env i request_id request_offset
            (dataservice_encode_request_canonized_transaction_get (encode_req_st env) 0 txn_id False) ctx)"

definition protocolservice_protocol_dnd_transaction_id_prev_get ::
  "vcblockchain \<Rightarrow> dispatch_env \<Rightarrow> nat \<Rightarrow> 32 word \<Rightarrow> bytes \<Rightarrow> ('t, 's) protocolservice_context \<Rightarrow> ('t, 's) dispatch_result" where
  "protocolservice_protocol_dnd_transaction_id_prev_get vc env i request_offset payload ctx =
     (case decode_req_txn_prev_id_get vc payload of
        Inl st \<Rightarrow> Some (st, ctx)
      | Inr (request_id, txn_id) \<Rightarrow>
          forward_unchecked env i request_id request_offset
            (dataservice_encode_request_canonized_transaction_get (encode_req_st env) 0 txn_id False) ctx)"

definition protocolservice_protocol_dnd_transaction_block_id_get ::
  "vcblockchain \<Rightarrow> dispatch_env \<Rightarrow> nat \<Rightarrow> 32 word \<Rightarrow> bytes \<Rightarrow> ('t, 's) protocolservice_context \<Rightarrow> ('t, 's) dispatch_result" where
  "protocolservice_protocol_dnd_transaction_block_id_get vc env i request_offset payload ctx =
     (case decode_req_txn_block_id_get vc payload of
        Inl st \<Rightarrow> Some (st, ctx)
      | Inr (request_id, txn_id) \<Rightarrow>
          forward_unchecked env i request_id request_offset
            (dataservice_encode_request_canonized_transaction_get (encode_req_st env) 0 txn_id False) ctx)"

definition protocolservice_protocol_dnd_artifact_first_transaction_id_get ::
  "vcblockchain \<Rightarrow> dispatch_env \<Rightarrow> nat \<Rightarrow> 32 word \<Rightarrow> bytes \<Rightarrow> ('t, 's) protocolservice_context \<Rightarrow> ('t, 's) dispatch_result" where
  "protocolservice_protocol_dnd_artifact_first_transaction_id_get vc env i request_offset payload ctx =
     (case decode_req_artifact_first_txn_id_get vc payload of
        Inl st \<Rightarrow> Some (st, ctx)
      | Inr (request_id, artifact_id) \<Rightarrow>
          forward_unchecked env i request_id request_offset
            (dataservice_encode_request_artifact_get (encode_req_st env) 0 artifact_id) ctx)"

definition protocolservice_protocol_dnd_artifact_last_transaction_id_get ::
  "vcblockchain \<Rightarrow> dispatch_env \<Rightarrow> nat \<Rightarrow> 32 word \<Rightarrow> bytes \<Rightarrow> ('t, 's) protocolservice_context \<Rightarrow> ('t, 's) dispatch_result" where
  "protocolservice_protocol_dnd_artifact_last_transaction_id_get vc env i request_offset payload ctx =
     (case decode_req_artifact_last_txn_id_get vc payload of
        Inl st \<Rightarrow> Some (st, ctx)
      | Inr (request_id, artifact_id) \<Rightarrow>
          forward_unchecked env i request_id request_offset
            (dataservice_encode_request_artifact_get (encode_req_st env) 0 artifact_id) ctx)"

definition protocolservice_protocol_dnd_block_id_by_height_get ::
  "vcblockchain \<Rightarrow> dispatch_env \<Rightarrow> nat \<Rightarrow> 32 word \<Rightarrow> bytes \<Rightarrow> ('t, 's) protocolservice_context \<Rightarrow> ('t, 's) dispatch_result" where
  "protocolservice_protocol_dnd_block_id_by_height_get vc env i request_offset payload ctx =
     (case decode_req_block_id_by_height_get vc payload of
        Inl st \<Rightarrow> Some (st, ctx)
      | Inr (request_id, height) \<Rightarrow>
          forward_checked env i request_id request_offset
            (dataservice_encode_request_block_id_by_height_get (encode_req_st env) 0 height) ctx)"

subsection \<open>Status and end of a connection\<close>

definition protocolservice_protocol_dnd_status_get ::
  "vcblockchain \<Rightarrow> dispatch_env \<Rightarrow> nat \<Rightarrow> 32 word \<Rightarrow> bytes \<Rightarrow> ('t, 's) protocolservice_context \<Rightarrow> ('t, 's) dispatch_result" where
  "protocolservice_protocol_dnd_status_get vc env i request_offset payload ctx =
     (case decode_req_status_get vc payload of
        Inl st \<Rightarrow> Some (st, ctx)
      | Inr request_id \<Rightarrow>
          Some (protocolservice_send_error_response_message (response_env env) i request_id AGENTD_STATUS_SUCCESS request_offset ctx))"

definition protocolservice_protocol_dnd_close ::
  "dispatch_env \<Rightarrow> nat \<Rightarrow> 32 word \<Rightarrow> ('t, 's) protocolservice_context \<Rightarrow> ('t, 's) dispatch_result" where
  "protocolservice_protocol_dnd_close env i request_offset ctx =
     Some (protocolservice_send_error_response_message (response_env env) i UNAUTH_PROTOCOL_REQ_ID_CLOSE AGENTD_STATUS_SUCCESS request_offset
             (set_fiber i ((ps_fibers ctx ! i)\<lparr>req_shutdown := True\<rparr>) ctx))"

subsection \<open>Assertions about the latest block\<close>

text \<open>
  A capability of the entity of a connection: the subject is the entity, the object
  the agent unless the request names another.
\<close>

definition with_capability ::
  "'t resource_tree_ops \<Rightarrow> nat \<Rightarrow> bytes \<Rightarrow> bytes \<Rightarrow> ('t, 's) protocolservice_context \<Rightarrow> ('t, 's) dispatch_result \<Rightarrow> ('t, 's) dispatch_result" where
  "with_capability ops i verb object ctx k =
     (case fiber_entity (ps_fibers ctx ! i) of
        None \<Rightarrow> None
      | Some n \<Rightarrow>
          if protocolservice_authorized_entity_capability_check ops (ps_entities ctx ! n) (fiber_entity_uuid (ps_fibers ctx ! i)) verb object
          then k else Some (AGENTD_ERROR_PROTOCOLSERVICE_UNAUTHORIZED, ctx))"

definition protocolservice_notificationservice_block_assertion_request_create ::
  "status \<Rightarrow> 32 word \<Rightarrow> bytes \<Rightarrow> 64 word \<Rightarrow> status + protocolservice_notificationservice_block_assertion_request" where
  "protocolservice_notificationservice_block_assertion_request_create alloc_st req_offset block_id reply_addr =
     (if alloc_st \<noteq> AGENTD_STATUS_SUCCESS then Inl alloc_st
      else Inr \<lparr> areq_offset = req_offset, areq_block_id = block_id, areq_reply_addr = reply_addr, areq_cancel = False \<rparr>)"

definition protocolservice_notificationservice_handle_assert_block_request ::
  "('t, 's) message_wait \<Rightarrow> dispatch_env \<Rightarrow> nat \<Rightarrow> 32 word \<Rightarrow> bytes \<Rightarrow> ('t, 's) protocolservice_context \<Rightarrow>
     status \<times> ('t, 's) protocolservice_context" where
  "protocolservice_notificationservice_handle_assert_block_request wait env i req_offset block_id ctx =
     (let f = ps_fibers ctx ! i in
      case protocolservice_notificationservice_block_assertion_request_create (payload_st (request_env env)) req_offset block_id (return_addr f) of
        Inl st \<Rightarrow> (st, ctx)
      | Inr p \<Rightarrow>
      case send_message (request_env env) (notificationservice_endpoint_addr ctx) (fiber_addr f) (Assertion_request p) ctx of (retval, ctx) \<Rightarrow>
      if retval \<noteq> AGENTD_STATUS_SUCCESS then (retval, ctx) else
      case wait ctx of
        (Inl st, ctx) \<Rightarrow> (st, ctx)
      | (Inr resp, ctx) \<Rightarrow>
          (reply_free_st env,
           set_fiber i ((ps_fibers ctx ! i)\<lparr>latest_block_id_assertion_server_offset := aresp_offset resp\<rparr>) ctx))"

definition protocolservice_notificationservice_handle_assert_block_cancel_request ::
  "('t, 's) message_wait \<Rightarrow> dispatch_env \<Rightarrow> nat \<Rightarrow> 32 word \<Rightarrow> ('t, 's) protocolservice_context \<Rightarrow>
     status \<times> ('t, 's) protocolservice_context" where
  "protocolservice_notificationservice_handle_assert_block_cancel_request wait env i req_offset ctx =
     (let f = ps_fibers ctx ! i in
      case protocolservice_notificationservice_block_assertion_request_create (payload_st (request_env env)) req_offset (replicate 16 0) (return_addr f) of
        Inl st \<Rightarrow> (st, ctx)
      | Inr p \<Rightarrow>
      case send_message (request_env env) (notificationservice_endpoint_addr ctx) (fiber_addr f) (Assertion_request (p\<lparr>areq_cancel := True\<rparr>)) ctx
      of (retval, ctx) \<Rightarrow>
      if retval \<noteq> AGENTD_STATUS_SUCCESS then (retval, ctx) else
      case wait ctx of
        (Inl st, ctx) \<Rightarrow> (st, ctx)
      | (Inr resp, ctx) \<Rightarrow> (reply_free_st env, ctx))"

definition protocolservice_protocol_dnd_assert_latest_block_id ::
  "'t resource_tree_ops \<Rightarrow> vcblockchain \<Rightarrow> ('t, 's) message_wait \<Rightarrow> dispatch_env \<Rightarrow> nat \<Rightarrow> 32 word \<Rightarrow> bytes \<Rightarrow>
     ('t, 's) protocolservice_context \<Rightarrow> ('t, 's) dispatch_result" where
  "protocolservice_protocol_dnd_assert_latest_block_id ops vc wait env i request_offset payload ctx =
     with_capability ops i PROTOCOLSERVICE_API_CAPABILITY_ASSERT_LATEST_BLOCK_ID (agentd_uuid ctx) ctx
     (case decode_req_assert_latest_block_id vc payload of
        Inl st \<Rightarrow> Some (st, ctx)
      | Inr (offset, block_id) \<Rightarrow>
      if latest_block_id_assertion_set (ps_fibers ctx ! i)
      then Some (AGENTD_ERROR_PROTOCOLSERVICE_BLOCK_ASSERTION_ALREADY_SET, ctx) else
      case protocolservice_notificationservice_handle_assert_block_request wait env i offset block_id ctx of (retval, ctx) \<Rightarrow>
      if retval \<noteq> AGENTD_STATUS_SUCCESS then Some (retval, ctx) else
      Some (AGENTD_STATUS_SUCCESS,
            set_fiber i ((ps_fibers ctx ! i)\<lparr>latest_block_id_assertion_client_offset := request_offset,
                                             latest_block_id_assertion_set := True\<rparr>) ctx))"

definition protocolservice_protocol_dnd_assert_latest_block_id_cancel ::
  "'t resource_tree_ops \<Rightarrow> vcblockchain \<Rightarrow> ('t, 's) message_wait \<Rightarrow> dispatch_env \<Rightarrow> nat \<Rightarrow> 32 word \<Rightarrow> bytes \<Rightarrow>
     ('t, 's) protocolservice_context \<Rightarrow> ('t, 's) dispatch_result" where
  "protocolservice_protocol_dnd_assert_latest_block_id_cancel ops vc wait env i request_offset payload ctx =
     with_capability ops i PROTOCOLSERVICE_API_CAPABILITY_ASSERT_LATEST_BLOCK_ID_CANCEL (agentd_uuid ctx) ctx
     (case decode_req_assert_latest_block_id_cancel vc payload of
        Inl st \<Rightarrow> Some (st, ctx)
      | Inr _ \<Rightarrow>
      if \<not> latest_block_id_assertion_set (ps_fibers ctx ! i)
      then Some (AGENTD_ERROR_PROTOCOLSERVICE_BLOCK_ASSERTION_NOT_SET, ctx) else
      Some (protocolservice_notificationservice_handle_assert_block_cancel_request wait env i request_offset ctx))"

subsection \<open>Requests between clients\<close>

text \<open>
  A client may offer operations of its own: it enables the extended API and becomes the
  route of its entity.  A request of another client is passed on to it under an offset
  of its own, and the reply finds the way back by this offset.
\<close>

definition protocolservice_extended_api_dict_entry_create :: "status \<Rightarrow> bytes \<Rightarrow> nat \<Rightarrow> status + ps_resource" where
  "protocolservice_extended_api_dict_entry_create alloc_st entity_id i =
     (if alloc_st \<noteq> AGENTD_STATUS_SUCCESS then Inl alloc_st else Inr (Api_entry entity_id i))"

definition protocolservice_extended_api_dict_entry_key :: "ps_resource \<Rightarrow> bytes" where
  "protocolservice_extended_api_dict_entry_key r = (case r of Api_entry entity_id _ \<Rightarrow> entity_id | _ \<Rightarrow> [])"

definition protocolservice_protocol_route_extended_api_for_entity ::
  "'t resource_tree_ops \<Rightarrow> dispatch_env \<Rightarrow> nat \<Rightarrow> ('t, 's) protocolservice_context \<Rightarrow> status \<times> ('t, 's) protocolservice_context" where
  "protocolservice_protocol_route_extended_api_for_entity ops env i ctx =
     (let uuid = fiber_entity_uuid (ps_fibers ctx ! i) in
      case tree_find ops uuid (extended_api_dict ctx) of
        Inr _ \<Rightarrow> (AGENTD_ERROR_PROTOCOLSERVICE_EXTENDED_API_ALREADY_ENABLED, ctx)
      | Inl _ \<Rightarrow>
      case protocolservice_extended_api_dict_entry_create (entry_st env) uuid i of
        Inl st \<Rightarrow> (st, ctx)
      | Inr tmp \<Rightarrow>
      case tree_insert ops (protocolservice_extended_api_dict_entry_key tmp) tmp (extended_api_dict ctx) of (retval, dict) \<Rightarrow>
      (if retval \<noteq> AGENTD_STATUS_SUCCESS then released (entry_free_st env) retval else AGENTD_STATUS_SUCCESS,
       ctx\<lparr>extended_api_dict := dict\<rparr>))"

definition protocolservice_protocol_unroute_extended_api_for_entity ::
  "'t resource_tree_ops \<Rightarrow> nat \<Rightarrow> ('t, 's) protocolservice_context \<Rightarrow> status \<times> ('t, 's) protocolservice_context" where
  "protocolservice_protocol_unroute_extended_api_for_entity ops i ctx =
     (case tree_delete ops (fiber_entity_uuid (ps_fibers ctx ! i)) (extended_api_dict ctx) of (retval, dict) \<Rightarrow>
      (retval, ctx\<lparr>extended_api_dict := dict\<rparr>))"

definition protocolservice_protocol_dnd_extended_api_enable ::
  "'t resource_tree_ops \<Rightarrow> vcblockchain \<Rightarrow> dispatch_env \<Rightarrow> nat \<Rightarrow> 32 word \<Rightarrow> bytes \<Rightarrow>
     ('t, 's) protocolservice_context \<Rightarrow> ('t, 's) dispatch_result" where
  "protocolservice_protocol_dnd_extended_api_enable ops vc env i request_offset payload ctx =
     with_capability ops i PROTOCOLSERVICE_API_CAPABILITY_EXTENDED_API_ENABLE (agentd_uuid ctx) ctx
     (case decode_req_extended_api_enable vc payload of
        Inl st \<Rightarrow> Some (st, ctx)
      | Inr request_id \<Rightarrow>
      let f = ps_fibers ctx ! i; n = the (fiber_entity f);
          can_respond = protocolservice_authorized_entity_capability_check ops (ps_entities ctx ! n) (fiber_entity_uuid f)
                          PROTOCOLSERVICE_API_CAPABILITY_EXTENDED_API_RESP (agentd_uuid ctx);
          ctx = set_fiber i (f\<lparr>extended_api_can_respond := can_respond\<rparr>) ctx in
      case protocolservice_protocol_route_extended_api_for_entity ops env i ctx of (retval, ctx) \<Rightarrow>
      if retval \<noteq> AGENTD_STATUS_SUCCESS then Some (retval, ctx) else
      let ctx = set_fiber i ((ps_fibers ctx ! i)\<lparr>extended_api_enabled := True\<rparr>) ctx in
      Some (protocolservice_send_error_response_message (response_env env) i request_id AGENTD_STATUS_SUCCESS request_offset ctx))"

definition protocolservice_protocol_create_extended_api_clientreq_payload ::
  "vcblockchain \<Rightarrow> nat \<Rightarrow> nat \<Rightarrow> bytes \<Rightarrow> bytes \<Rightarrow> ('t, 's) protocolservice_context \<Rightarrow>
     (status + bytes) \<times> 64 word \<times> ('t, 's) protocolservice_context" where
  "protocolservice_protocol_create_extended_api_clientreq_payload vc i j verb body ctx =
     (let offset = extended_api_offset (ps_fibers ctx ! j) + 1;
          ctx = set_fiber j ((ps_fibers ctx ! j)\<lparr>extended_api_offset := offset\<rparr>) ctx;
          f = ps_fibers ctx ! i; entity = ps_entities ctx ! the (fiber_entity f) in
      (encode_resp_extended_api_client_request vc offset (fiber_entity_uuid f) verb
         (encryption_pubkey entity) (signing_pubkey entity) body, offset, ctx))"

definition protocolservice_extended_api_response_xlat_entry_key :: "ps_resource \<Rightarrow> bytes" where
  "protocolservice_extended_api_response_xlat_entry_key r = (case r of Xlat_entry server_offset _ _ \<Rightarrow> mem64 server_offset | _ \<Rightarrow> [])"

definition protocolservice_extended_api_response_xlat_entry_add ::
  "'t resource_tree_ops \<Rightarrow> dispatch_env \<Rightarrow> nat \<Rightarrow> 64 word \<Rightarrow> 32 word \<Rightarrow> 64 word \<Rightarrow> ('t, 's) protocolservice_context \<Rightarrow>
     status \<times> ('t, 's) protocolservice_context" where
  "protocolservice_extended_api_response_xlat_entry_add ops env j server_offset client_offset addr ctx =
     (if entry_st env \<noteq> AGENTD_STATUS_SUCCESS then (entry_st env, ctx) else
      let tmp = Xlat_entry server_offset client_offset addr; f = ps_fibers ctx ! j in
      case tree_insert ops (protocolservice_extended_api_response_xlat_entry_key tmp) tmp (extended_api_offset_dict f) of (retval, dict) \<Rightarrow>
      (if retval \<noteq> AGENTD_STATUS_SUCCESS then released (entry_free_st env) retval else AGENTD_STATUS_SUCCESS,
       set_fiber j (f\<lparr>extended_api_offset_dict := dict\<rparr>) ctx))"

definition protocolservice_protocol_extended_api_send_req ::
  "'t resource_tree_ops \<Rightarrow> vcblockchain \<Rightarrow> dispatch_env \<Rightarrow> nat \<Rightarrow> 32 word \<Rightarrow> bytes \<Rightarrow> bytes \<Rightarrow> bytes \<Rightarrow>
     ('t, 's) protocolservice_context \<Rightarrow> ('t, 's) dispatch_result" where
  "protocolservice_protocol_extended_api_send_req ops vc env i req_offset verb entity body ctx =
     with_capability ops i verb entity ctx
     (let e = request_env env in
      case tree_find ops entity (extended_api_dict ctx) of
        Inl _ \<Rightarrow> Some (AGENTD_ERROR_PROTOCOLSERVICE_EXTENDED_API_UNKNOWN_ENTITY, ctx)
      | Inr r \<Rightarrow>
      (case r of
        Api_entry _ j \<Rightarrow>
          if payload_st e \<noteq> AGENTD_STATUS_SUCCESS then Some (payload_st e, ctx) else
          (case protocolservice_protocol_create_extended_api_clientreq_payload vc i j verb body ctx of (p, clientreq_offset, ctx) \<Rightarrow>
           case p of
             Inl st \<Rightarrow> Some (released (release_st e) st, ctx)
           | Inr packet \<Rightarrow>
           if message_st e \<noteq> AGENTD_STATUS_SUCCESS then Some (released (release_st e) (message_st e), ctx) else
           let addr = return_addr (ps_fibers ctx ! i); can_respond = extended_api_can_respond (ps_fibers ctx ! j) in
           case (if can_respond
                 then protocolservice_extended_api_response_xlat_entry_add ops env j clientreq_offset req_offset addr ctx
                 else (AGENTD_STATUS_SUCCESS, ctx)) of (retval, ctx) \<Rightarrow>
           if retval \<noteq> AGENTD_STATUS_SUCCESS then Some (released (release_st e) retval, ctx) else
           case send_message e (return_addr (ps_fibers ctx ! j)) addr
                  (Write_endpoint \<lparr> pwe_message_type = PROTOCOLSERVICE_PROTOCOL_WRITE_ENDPOINT_PACKET, pwe_original_request_id = 0,
                                    pwe_offset = 0, pwe_payload = packet \<rparr>) ctx of (retval, ctx) \<Rightarrow>
           if retval \<noteq> AGENTD_STATUS_SUCCESS then Some (retval, ctx) else
           if can_respond then Some (AGENTD_STATUS_SUCCESS, ctx)
           else Some (protocolservice_send_error_response_message (response_env env) i UNAUTH_PROTOCOL_REQ_ID_EXTENDED_API_SENDRECV
                        AGENTD_STATUS_SUCCESS req_offset ctx))
      | _ \<Rightarrow> None))"

definition protocolservice_protocol_dnd_extended_api_sendrecv ::
  "'t resource_tree_ops \<Rightarrow> vcblockchain \<Rightarrow> dispatch_env \<Rightarrow> nat \<Rightarrow> bytes \<Rightarrow>
     ('t, 's) protocolservice_context \<Rightarrow> ('t, 's) dispatch_result" where
  "protocolservice_protocol_dnd_extended_api_sendrecv ops vc env i payload ctx =
     with_capability ops i PROTOCOLSERVICE_API_CAPABILITY_EXTENDED_API_SENDRECV (agentd_uuid ctx) ctx
     (case decode_req_extended_api vc payload of
        Inl st \<Rightarrow> Some (st, ctx)
      | Inr (offset, verb, entity, body) \<Rightarrow>
          protocolservice_protocol_extended_api_send_req ops vc env i offset verb entity body ctx)"

definition protocolservice_protocol_dnd_extended_api_sendresp ::
  "'t resource_tree_ops \<Rightarrow> vcblockchain \<Rightarrow> dispatch_env \<Rightarrow> nat \<Rightarrow> bytes \<Rightarrow>
     ('t, 's) protocolservice_context \<Rightarrow> ('t, 's) dispatch_result" where
  "protocolservice_protocol_dnd_extended_api_sendresp ops vc env i payload ctx =
     with_capability ops i PROTOCOLSERVICE_API_CAPABILITY_EXTENDED_API_RESP (agentd_uuid ctx) ctx
     (let e = request_env env in
      case decode_req_extended_api_response vc payload of
        Inl st \<Rightarrow> Some (st, ctx)
      | Inr (offset, st, body) \<Rightarrow>
      (case tree_find ops (mem64 offset) (extended_api_offset_dict (ps_fibers ctx ! i)) of
        Inl st \<Rightarrow> Some (st, ctx)
      | Inr r \<Rightarrow>
      (case r of
        Xlat_entry _ client_offset client_return_address \<Rightarrow>
          if payload_st e \<noteq> AGENTD_STATUS_SUCCESS then Some (payload_st e, ctx) else
          (case encode_resp_extended_api vc client_offset st body of
             Inl st \<Rightarrow> Some (released (release_st e) st, ctx)
           | Inr packet \<Rightarrow>
           case send_message e client_return_address (return_addr (ps_fibers ctx ! i))
                  (Write_endpoint \<lparr> pwe_message_type = PROTOCOLSERVICE_PROTOCOL_WRITE_ENDPOINT_PACKET, pwe_original_request_id = 0,
                                    pwe_offset = 0, pwe_payload = packet \<rparr>) ctx of (retval, ctx) \<Rightarrow>
           if retval \<noteq> AGENTD_STATUS_SUCCESS then Some (retval, ctx) else
           case tree_delete ops (mem64 offset) (extended_api_offset_dict (ps_fibers ctx ! i)) of (retval, dict) \<Rightarrow>
           let ctx = set_fiber i ((ps_fibers ctx ! i)\<lparr>extended_api_offset_dict := dict\<rparr>) ctx in
           if retval \<noteq> AGENTD_STATUS_SUCCESS then Some (retval, ctx) else
           Some (protocolservice_send_error_response_message (response_env env) i UNAUTH_PROTOCOL_REQ_ID_EXTENDED_API_SENDRESP
                   AGENTD_STATUS_SUCCESS (ucast offset) ctx))
      | _ \<Rightarrow> None)))"

subsection \<open>Dispatch\<close>

text \<open>
  An error of a handler is answered by a message to the client; when that can be sent
  the connection goes on.
\<close>

definition dispatch_request ::
  "'t resource_tree_ops \<Rightarrow> vcblockchain \<Rightarrow> ('t, 's) message_wait \<Rightarrow> dispatch_env \<Rightarrow> nat \<Rightarrow> 32 word \<Rightarrow> 32 word \<Rightarrow> bytes \<Rightarrow>
     ('t, 's) protocolservice_context \<Rightarrow> ('t, 's) dispatch_result" where
  "dispatch_request ops vc wait env i request_id request_offset payload ctx =
     (if request_id = UNAUTH_PROTOCOL_REQ_ID_LATEST_BLOCK_ID_GET
      then protocolservice_protocol_dnd_latest_block_id_get env i request_offset ctx else
      if request_id = UNAUTH_PROTOCOL_REQ_ID_TRANSACTION_SUBMIT
      then protocolservice_protocol_dnd_transaction_submit vc env i request_offset payload ctx else
      if request_id = UNAUTH_PROTOCOL_REQ_ID_BLOCK_BY_ID_GET
      then protocolservice_protocol_dnd_block_by_id_get vc env i request_offset payload ctx else
      if request_id = UNAUTH_PROTOCOL_REQ_ID_BLOCK_ID_GET_NEXT
      then protocolservice_protocol_dnd_block_id_next_get vc env i request_offset payload ctx else
      if request_id = UNAUTH_PROTOCOL_REQ_ID_BLOCK_ID_GET_PREV
      then protocolservice_protocol_dnd_block_id_prev_get vc env i request_offset payload ctx else
      if request_id = UNAUTH_PROTOCOL_REQ_ID_BLOCK_ID_BY_HEIGHT_GET
      then protocolservice_protocol_dnd_block_id_by_height_get vc env i request_offset payload ctx else
      if request_id = UNAUTH_PROTOCOL_REQ_ID_TRANSACTION_BY_ID_GET
      then protocolservice_protocol_dnd_transaction_by_id_get vc env i request_offset payload ctx else
      if request_id = UNAUTH_PROTOCOL_REQ_ID_TRANSACTION_ID_GET_NEXT
      then protocolservice_protocol_dnd_transaction_id_next_get vc env i request_offset payload ctx else
      if request_id = UNAUTH_PROTOCOL_REQ_ID_TRANSACTION_ID_GET_PREV
      then protocolservice_protocol_dnd_transaction_id_prev_get vc env i request_offset payload ctx else
      if request_id = UNAUTH_PROTOCOL_REQ_ID_TRANSACTION_ID_GET_BLOCK_ID
      then protocolservice_protocol_dnd_transaction_block_id_get vc env i request_offset payload ctx else
      if request_id = UNAUTH_PROTOCOL_REQ_ID_ARTIFACT_FIRST_TXN_BY_ID_GET
      then protocolservice_protocol_dnd_artifact_first_transaction_id_get vc env i request_offset payload ctx else
      if request_id = UNAUTH_PROTOCOL_REQ_ID_ARTIFACT_LAST_TXN_BY_ID_GET
      then protocolservice_protocol_dnd_artifact_last_transaction_id_get vc env i request_offset payload ctx else
      if request_id = UNAUTH_PROTOCOL_REQ_ID_ASSERT_LATEST_BLOCK_ID
      then protocolservice_protocol_dnd_assert_latest_block_id ops vc wait env i request_offset payload ctx else
      if request_id = UNAUTH_PROTOCOL_REQ_ID_ASSERT_LATEST_BLOCK_ID_CANCEL
      then protocolservice_protocol_dnd_assert_latest_block_id_cancel ops vc wait env i request_offset payload ctx else
      if request_id = UNAUTH_PROTOCOL_REQ_ID_EXTENDED_API_ENABLE
      then protocolservice_protocol_dnd_extended_api_enable ops vc env i request_offset payload ctx else
      if request_id = UNAUTH_PROTOCOL_REQ_ID_EXTENDED_API_SENDRECV
      then protocolservice_protocol_dnd_extended_api_sendrecv ops vc env i payload ctx else
      if request_id = UNAUTH_PROTOCOL_REQ_ID_EXTENDED_API_SENDRESP
      then protocolservice_protocol_dnd_extended_api_sendresp ops vc env i payload ctx else
      if request_id = UNAUTH_PROTOCOL_REQ_ID_STATUS_GET
      then protocolservice_protocol_dnd_status_get vc env i request_offset payload ctx else
      if request_id = UNAUTH_PROTOCOL_REQ_ID_CLOSE
      then protocolservice_protocol_dnd_close env i request_offset ctx else
      Some (AGENTD_ERROR_PROTOCOLSERVICE_INVALID_REQUEST_ID, ctx))"

definition protocolservice_protocol_decode_and_dispatch ::
  "'t resource_tree_ops \<Rightarrow> vcblockchain \<Rightarrow> ('t, 's) message_wait \<Rightarrow> dispatch_env \<Rightarrow> nat \<Rightarrow> 32 word \<Rightarrow> 32 word \<Rightarrow> bytes \<Rightarrow>
     ('t, 's) protocolservice_context \<Rightarrow> ('t, 's) dispatch_result" where
  "protocolservice_protocol_decode_and_dispatch ops vc wait env i request_id request_offset payload ctx =
     (case dispatch_request ops vc wait env i request_id request_offset payload ctx of
        None \<Rightarrow> None
      | Some (retval, ctx) \<Rightarrow>
          if retval = AGENTD_STATUS_SUCCESS then Some (retval, ctx)
          else Some (protocolservice_send_error_response_message (error_env env) i request_id retval request_offset ctx))"

text \<open>
  The authenticated packets of a client: the calls of the process runtime library take
  the initialization vector and the shared secret.
\<close>

record 's authed_psock_ops = "'s psock_ops" +
  psock_write_authed_data :: "64 word \<Rightarrow> bytes \<Rightarrow> bytes \<Rightarrow> 's \<Rightarrow> status \<times> 's"
  psock_read_authed_data :: "64 word \<Rightarrow> bytes \<Rightarrow> 's \<Rightarrow> (status + bytes) \<times> 's"

definition protocolservice_protocol_read_decode_and_dispatch_packet ::
  "'s authed_psock_ops \<Rightarrow> 't resource_tree_ops \<Rightarrow> vcblockchain \<Rightarrow> ('t, 's) message_wait \<Rightarrow> dispatch_env \<Rightarrow> nat \<Rightarrow>
     ('t, 's) protocolservice_context \<Rightarrow> ('t, 's) dispatch_result" where
  "protocolservice_protocol_read_decode_and_dispatch_packet ps ops vc wait env i ctx =
     (let f = ps_fibers ctx ! i;
          error = (\<lambda>st ctx. case protocolservice_send_error_response_message (error_env env) i 0 st 0 ctx of (release_retval, ctx) \<Rightarrow>
                              (released release_retval st, ctx)) in
      case psock_read_authed_data ps (client_iv f) (shared_secret f) (protosock f) of
        (Inl st, sock) \<Rightarrow> Some (error st (set_fiber i (f\<lparr>protosock := sock\<rparr>) ctx))
      | (Inr req, sock) \<Rightarrow>
          let ctx = set_fiber i (f\<lparr>protosock := sock, client_iv := client_iv f + 1\<rparr>) ctx in
          case (if length req < 8 then Some (error AGENTD_ERROR_PROTOCOLSERVICE_MALFORMED_REQUEST ctx)
                else protocolservice_protocol_decode_and_dispatch ops vc wait env i
                       (of_net32 (slice 0 4 req)) (of_net32 (slice 4 4 req)) req ctx) of
            None \<Rightarrow> None
          | Some (retval, ctx) \<Rightarrow> Some (released (packet_free_st env) retval, ctx))"

subsection \<open>The context in the data service\<close>

text \<open>
  Before its requests a connection gets a child context of the data service whose
  capabilities are those of its entity, and gives it back at its end.
\<close>

definition protocolservice_dataservice_map_user_capabilities ::
  "'t resource_tree_ops \<Rightarrow> status \<Rightarrow> nat \<Rightarrow> ('t, 's) protocolservice_context \<Rightarrow> status + bitcap" where
  "protocolservice_dataservice_map_user_capabilities ops buffer_st i ctx =
     (let uuid = fiber_entity_uuid (ps_fibers ctx ! i) in
      case tree_find ops uuid (authorized_entity_dict ctx) of
        Inl _ \<Rightarrow> Inl AGENTD_ERROR_PROTOCOLSERVICE_UNAUTHORIZED
      | Inr r \<Rightarrow>
      let entity = ps_entities ctx ! (case r of Entity_ref n \<Rightarrow> n | _ \<Rightarrow> length (ps_entities ctx));
          grant = (\<lambda>verb cap caps.
            if protocolservice_authorized_entity_capability_check ops entity uuid verb (agentd_uuid ctx) then BITCAP_SET_TRUE caps cap else caps);
          caps = BITCAP_INIT_FALSE (replicate (BITCAP_WORDS DATASERVICE_API_CAP_BITS_MAX) 0);
          caps = BITCAP_SET_TRUE caps DATASERVICE_API_CAP_LL_CHILD_CONTEXT_CLOSE;
          caps = grant PROTOCOLSERVICE_API_CAPABILITY_BLOCK_ID_LATEST_READ DATASERVICE_API_CAP_APP_BLOCK_ID_LATEST_READ caps;
          caps = grant PROTOCOLSERVICE_API_CAPABILITY_TRANSACTION_SUBMIT DATASERVICE_API_CAP_APP_PQ_TRANSACTION_SUBMIT caps;
          caps = grant PROTOCOLSERVICE_API_CAPABILITY_BLOCK_READ DATASERVICE_API_CAP_APP_BLOCK_READ caps;
          caps = grant PROTOCOLSERVICE_API_CAPABILITY_BLOCK_ID_BY_HEIGHT_READ DATASERVICE_API_CAP_APP_BLOCK_ID_BY_HEIGHT_READ caps;
          caps = grant PROTOCOLSERVICE_API_CAPABILITY_TRANSACTION_READ DATASERVICE_API_CAP_APP_TRANSACTION_READ caps;
          caps = grant PROTOCOLSERVICE_API_CAPABILITY_ARTIFACT_READ DATASERVICE_API_CAP_APP_ARTIFACT_READ caps in
      if buffer_st \<noteq> AGENTD_STATUS_SUCCESS then Inl AGENTD_ERROR_GENERAL_OUT_OF_MEMORY else Inr caps)"

text \<open>\<open>wait\<close> is the reception of the reply; its content is not looked at.\<close>

definition protocolservice_protocol_request_data_service_context ::
  "'t resource_tree_ops \<Rightarrow> (('t, 's) protocolservice_context \<Rightarrow> status \<times> ('t, 's) protocolservice_context) \<Rightarrow> send_env \<Rightarrow> status \<Rightarrow> nat \<Rightarrow>
     ('t, 's) protocolservice_context \<Rightarrow> status \<times> ('t, 's) protocolservice_context" where
  "protocolservice_protocol_request_data_service_context ops wait env reply_st i ctx =
     (let f = ps_fibers ctx ! i in
      case protocolservice_dataservice_request_message_create (payload_st env) 0
             PROTOCOLSERVICE_DATASERVICE_ENDPOINT_REQ_CONTEXT_OPEN 0 (return_addr f) [] of
        Inl st \<Rightarrow> (st, ctx)
      | Inr m \<Rightarrow>
      case protocolservice_dataservice_map_user_capabilities ops (encode_st env) i ctx of
        Inl st \<Rightarrow> (released (release_st env) st, ctx)
      | Inr caps \<Rightarrow>
      case send_message env (data_endpoint_addr ctx) (fiber_addr f) (Data_request (m\<lparr>dreq_payload := concat (map mem32 caps)\<rparr>)) ctx of (retval, ctx) \<Rightarrow>
      if retval \<noteq> AGENTD_STATUS_SUCCESS then (retval, ctx) else
      case wait ctx of (retval, ctx) \<Rightarrow>
      if retval \<noteq> AGENTD_STATUS_SUCCESS then (retval, ctx) else
      (released reply_st retval, set_fiber i ((ps_fibers ctx ! i)\<lparr>dataservice_context_opened := True\<rparr>) ctx))"

definition protocolservice_protocol_close_data_service_context ::
  "(('t, 's) protocolservice_context \<Rightarrow> status \<times> ('t, 's) protocolservice_context) \<Rightarrow> send_env \<Rightarrow> status \<Rightarrow> nat \<Rightarrow>
     ('t, 's) protocolservice_context \<Rightarrow> status \<times> ('t, 's) protocolservice_context" where
  "protocolservice_protocol_close_data_service_context wait env reply_st i ctx =
     (let f = ps_fibers ctx ! i in
      case protocolservice_dataservice_request_message_create (payload_st env) 0
             PROTOCOLSERVICE_DATASERVICE_ENDPOINT_REQ_CONTEXT_CLOSE 0 (return_addr f) [] of
        Inl st \<Rightarrow> (st, ctx)
      | Inr m \<Rightarrow>
      case send_message env (data_endpoint_addr ctx) (fiber_addr f) (Data_request m) ctx of (retval, ctx) \<Rightarrow>
      if retval \<noteq> AGENTD_STATUS_SUCCESS then (retval, ctx) else
      case wait ctx of (retval, ctx) \<Rightarrow>
      if retval \<noteq> AGENTD_STATUS_SUCCESS then (retval, ctx) else
      (released reply_st retval, set_fiber i ((ps_fibers ctx ! i)\<lparr>dataservice_context_opened := False\<rparr>) ctx))"

definition protocolservice_protocol_shutdown_write_endpoint ::
  "send_env \<Rightarrow> nat \<Rightarrow> ('t, 's) protocolservice_context \<Rightarrow> status \<times> ('t, 's) protocolservice_context" where
  "protocolservice_protocol_shutdown_write_endpoint env i ctx =
     (let addr = return_addr (ps_fibers ctx ! i) in
      if payload_st env \<noteq> AGENTD_STATUS_SUCCESS then (payload_st env, ctx) else
      send_message env addr addr
        (Write_endpoint \<lparr> pwe_message_type = PROTOCOLSERVICE_PROTOCOL_WRITE_ENDPOINT_MESSAGE_SHUTDOWN,
                          pwe_original_request_id = 0, pwe_offset = 0, pwe_payload = [] \<rparr>) ctx)"

end
