(* ===== verification/Proto_Endpoint.thy ===== *)
theory Proto_Endpoint
  imports Proto_Dispatch
begin

text \<open>
  The two fibers between a connection and the data service.  The data endpoint owns the
  socket of the data service; it keeps for every connection the child context that was
  opened for it and puts this context into the requests of the connection (files
  \<^verbatim>\<open>pde_*.c\<close> and \<^verbatim>\<open>protocolservice_dataservice_endpoint_*.c\<close>).  The write endpoint of a
  connection turns the responses into packets of the client protocol and writes them,
  each under the next initialization vector (files \<^verbatim>\<open>protocolservice_pwe_*.c\<close> and
  \<^verbatim>\<open>protocolservice_protocol_write_endpoint_*.c\<close>).
\<close>

subsection \<open>The data endpoint\<close>

record ('t, 'd) protocolservice_dataservice_endpoint_context =
  endpoint_addr :: "64 word"
  datasock :: 'd
  mailbox_context_tree :: 't
  context_mailbox_tree :: 't

record endpoint_env =
  mailbox_alloc_st :: status
  mailbox_free_st :: status
  sendreq_buffer_st :: status
  reply_env :: send_env
  request_free_st :: status

type_synonym ('t, 'd) endpoint_result =
  "status \<times> protocolservice_protocol_write_endpoint_message option \<times> ('t, 'd) protocolservice_dataservice_endpoint_context"

definition protocolservice_dataservice_endpoint_mailbox_context_tree_key :: "ps_resource \<Rightarrow> bytes" where
  "protocolservice_dataservice_endpoint_mailbox_context_tree_key r = (case r of Mailbox_context addr _ \<Rightarrow> mem64 addr | _ \<Rightarrow> [])"

definition protocolservice_dataservice_endpoint_context_mailbox_tree_key :: "ps_resource \<Rightarrow> bytes" where
  "protocolservice_dataservice_endpoint_context_mailbox_tree_key r = (case r of Mailbox_context _ child \<Rightarrow> mem32 child | _ \<Rightarrow> [])"

text \<open>The words of a capability set, as they lie in memory.\<close>

fun words_of :: "bytes \<Rightarrow> bitcap" where
  "words_of (a # b # c # d # bs) = of_mem32 [a, b, c, d] # words_of bs"
| "words_of _ = []"

text \<open>A handler returns a status and the payload of its reply, if it made one.\<close>

definition pde_decode_and_dispatch_req_context_open ::
  "'t resource_tree_ops \<Rightarrow> 'd psock_ops \<Rightarrow> endpoint_env \<Rightarrow> protocolservice_dataservice_request_message \<Rightarrow> 64 word \<Rightarrow>
     ('t, 'd) protocolservice_dataservice_endpoint_context \<Rightarrow> ('t, 'd) endpoint_result" where
  "pde_decode_and_dispatch_req_context_open ops ps env req return_address ep =
     (let fail = (\<lambda>st ep. (released (mailbox_free_st env) st, None, ep)) in
      if mailbox_alloc_st env \<noteq> AGENTD_STATUS_SUCCESS then (mailbox_alloc_st env, None, ep) else
      case dataservice_api_sendreq_child_context_create ps (sendreq_buffer_st env) (words_of (dreq_payload req)) (datasock ep) of (retval, sock) \<Rightarrow>
      let ep = ep\<lparr>datasock := sock\<rparr> in
      if retval \<noteq> AGENTD_STATUS_SUCCESS then fail retval ep else
      case dataservice_api_recvresp_child_context_create ps (datasock ep) of (res, sock) \<Rightarrow>
      let ep = ep\<lparr>datasock := sock\<rparr> in
      if api_retval res \<noteq> AGENTD_STATUS_SUCCESS then fail (api_retval res) ep else
      if snd (the (api_header res)) \<noteq> AGENTD_STATUS_SUCCESS then fail AGENTD_STATUS_SUCCESS ep else
      let child = the (api_payload res); tmp = Mailbox_context (dreq_data req) child in
      case tree_insert ops (protocolservice_dataservice_endpoint_mailbox_context_tree_key tmp) tmp (mailbox_context_tree ep) of (retval, t) \<Rightarrow>
      let ep = ep\<lparr>mailbox_context_tree := t\<rparr> in
      if retval \<noteq> AGENTD_STATUS_SUCCESS then fail retval ep else
      case tree_insert ops (protocolservice_dataservice_endpoint_context_mailbox_tree_key tmp) tmp (context_mailbox_tree ep) of (retval, t) \<Rightarrow>
      let ep = ep\<lparr>context_mailbox_tree := t\<rparr> in
      if retval \<noteq> AGENTD_STATUS_SUCCESS then
        (case tree_delete ops (mem64 return_address) (mailbox_context_tree ep) of (release_retval, t) \<Rightarrow>
         fail (released release_retval retval) (ep\<lparr>mailbox_context_tree := t\<rparr>))
      else
      case protocolservice_protocol_write_endpoint_message_create (reply_env env)
             PROTOCOLSERVICE_PROTOCOL_WRITE_ENDPOINT_DATASERVICE_CONTEXT_CREATE_MSG 0 0 None of
        Inr m \<Rightarrow> (AGENTD_STATUS_SUCCESS, Some m, ep)
      | Inl retval \<Rightarrow>
          case tree_delete ops (mem32 child) (context_mailbox_tree ep) of (release_retval, t) \<Rightarrow>
          let retval = released release_retval retval; ep = ep\<lparr>context_mailbox_tree := t\<rparr> in
          case tree_delete ops (mem64 return_address) (mailbox_context_tree ep) of (release_retval, t) \<Rightarrow>
          (released release_retval retval, None, ep\<lparr>mailbox_context_tree := t\<rparr>))"

text \<open>The errors of closing a context are not reported: the reply is always the same.\<close>

definition close_context ::
  "'t resource_tree_ops \<Rightarrow> 'd psock_ops \<Rightarrow> endpoint_env \<Rightarrow> 64 word \<Rightarrow>
     ('t, 'd) protocolservice_dataservice_endpoint_context \<Rightarrow> ('t, 'd) protocolservice_dataservice_endpoint_context" where
  "close_context ops ps env addr ep =
     (case tree_find ops (mem64 addr) (mailbox_context_tree ep) of
        Inl _ \<Rightarrow> ep
      | Inr entry \<Rightarrow>
      let child = (case entry of Mailbox_context _ child \<Rightarrow> child | _ \<Rightarrow> 0) in
      case dataservice_api_sendreq_child_context_close ps (sendreq_buffer_st env) child (datasock ep) of (retval, sock) \<Rightarrow>
      let ep = ep\<lparr>datasock := sock\<rparr> in
      if retval \<noteq> AGENTD_STATUS_SUCCESS then ep else
      case dataservice_api_recvresp_child_context_close ps (datasock ep) of (res, sock) \<Rightarrow>
      let ep = ep\<lparr>datasock := sock\<rparr> in
      if api_retval res \<noteq> AGENTD_STATUS_SUCCESS then ep else
      if snd (the (api_header res)) \<noteq> AGENTD_STATUS_SUCCESS then ep else
      case tree_delete ops (protocolservice_dataservice_endpoint_mailbox_context_tree_key entry) (mailbox_context_tree ep) of (retval, t) \<Rightarrow>
      let ep = ep\<lparr>mailbox_context_tree := t\<rparr> in
      if retval \<noteq> AGENTD_STATUS_SUCCESS then ep else
      case tree_delete ops (protocolservice_dataservice_endpoint_context_mailbox_tree_key entry) (context_mailbox_tree ep) of (retval, t) \<Rightarrow>
      ep\<lparr>context_mailbox_tree := t\<rparr>)"

definition pde_decode_and_dispatch_req_context_close ::
  "'t resource_tree_ops \<Rightarrow> 'd psock_ops \<Rightarrow> endpoint_env \<Rightarrow> protocolservice_dataservice_request_message \<Rightarrow>
     ('t, 'd) protocolservice_dataservice_endpoint_context \<Rightarrow> ('t, 'd) endpoint_result" where
  "pde_decode_and_dispatch_req_context_close ops ps env req ep =
     (let ep = close_context ops ps env (dreq_data req) ep in
      case protocolservice_protocol_write_endpoint_message_create (reply_env env)
             PROTOCOLSERVICE_PROTOCOL_WRITE_ENDPOINT_DATASERVICE_CONTEXT_CREATE_MSG 0 (dreq_offset req) None of
        Inl st \<Rightarrow> (st, None, ep)
      | Inr m \<Rightarrow> (AGENTD_STATUS_SUCCESS, Some m, ep))"

text \<open>The index of the child is stored into the request without a look at its size: past the end of a shorter one.\<close>

definition pde_decode_and_dispatch_req_dataservice_req ::
  "'t resource_tree_ops \<Rightarrow> 'd psock_ops \<Rightarrow> endpoint_env \<Rightarrow> protocolservice_dataservice_request_message \<Rightarrow> 64 word \<Rightarrow>
     ('t, 'd) protocolservice_dataservice_endpoint_context \<Rightarrow> ('t, 'd) endpoint_result option" where
  "pde_decode_and_dispatch_req_dataservice_req ops ps env req return_address ep =
     (case tree_find ops (mem64 return_address) (mailbox_context_tree ep) of
        Inl st \<Rightarrow> Some (st, None, ep)
      | Inr entry \<Rightarrow>
      if length (dreq_payload req) < 8 then None else Some (
      let child = (case entry of Mailbox_context _ child \<Rightarrow> child | _ \<Rightarrow> 0);
          breq = store_at 4 (net32 child) (dreq_payload req) in
      case psock_write_boxed_data ps breq (datasock ep) of (retval, sock) \<Rightarrow>
      let ep = ep\<lparr>datasock := sock\<rparr> in
      if retval \<noteq> AGENTD_STATUS_SUCCESS then (retval, None, ep) else
      case psock_read_boxed_data ps (datasock ep) of
        (Inl st, sock) \<Rightarrow> (st, None, ep\<lparr>datasock := sock\<rparr>)
      | (Inr reply_data, sock) \<Rightarrow>
      case rcpr_allocator_reclaim ps sock of (release_retval, sock) \<Rightarrow>
      let ep = ep\<lparr>datasock := sock\<rparr> in
      case protocolservice_protocol_write_endpoint_message_create (reply_env env)
             PROTOCOLSERVICE_PROTOCOL_WRITE_ENDPOINT_DATASERVICE_MSG (dreq_protocol_request_id req) (dreq_offset req) (Some reply_data) of
        Inl st \<Rightarrow> (released release_retval st, None, ep)
      | Inr m \<Rightarrow> (released release_retval AGENTD_STATUS_SUCCESS, Some m, ep)))"

text \<open>The type and the original request are swapped in this call.\<close>

definition pde_decode_and_dispatch_invalid_req ::
  "endpoint_env \<Rightarrow> protocolservice_dataservice_request_message \<Rightarrow>
     ('t, 'd) protocolservice_dataservice_endpoint_context \<Rightarrow> ('t, 'd) endpoint_result" where
  "pde_decode_and_dispatch_invalid_req env req ep =
     (case protocolservice_protocol_write_endpoint_message_create (reply_env env) 0
             PROTOCOLSERVICE_PROTOCOL_WRITE_ENDPOINT_ERROR_MESSAGE (dreq_offset req) None of
        Inl st \<Rightarrow> (st, None, ep)
      | Inr m \<Rightarrow> (AGENTD_STATUS_SUCCESS, Some m, ep))"

definition protocolservice_dataservice_endpoint_decode_and_dispatch ::
  "'t resource_tree_ops \<Rightarrow> 'd psock_ops \<Rightarrow> endpoint_env \<Rightarrow> protocolservice_dataservice_request_message \<Rightarrow> 64 word \<Rightarrow>
     ('t, 'd) protocolservice_dataservice_endpoint_context \<Rightarrow> ('t, 'd) endpoint_result option" where
  "protocolservice_dataservice_endpoint_decode_and_dispatch ops ps env req return_address ep =
     (if dreq_request_id req = PROTOCOLSERVICE_DATASERVICE_ENDPOINT_REQ_CONTEXT_OPEN
      then Some (pde_decode_and_dispatch_req_context_open ops ps env req return_address ep) else
      if dreq_request_id req = PROTOCOLSERVICE_DATASERVICE_ENDPOINT_REQ_CONTEXT_CLOSE
      then Some (pde_decode_and_dispatch_req_context_close ops ps env req ep) else
      if dreq_request_id req = PROTOCOLSERVICE_DATASERVICE_ENDPOINT_REQ_DATASERVICE_REQ
      then pde_decode_and_dispatch_req_dataservice_req ops ps env req return_address ep else
      Some (pde_decode_and_dispatch_invalid_req env req ep))"

text \<open>
  One turn of the loop of the fiber, for the message it received.  A status other than
  success ends the fiber.  A handler that returns success without a reply leaves the
  pointer to the reply unset, and the fiber uses it.
\<close>

definition dataservice_endpoint_step ::
  "'t resource_tree_ops \<Rightarrow> 'd psock_ops \<Rightarrow> endpoint_env \<Rightarrow> protocolservice_dataservice_request_message \<Rightarrow> 64 word \<Rightarrow>
     ('t, 'd) protocolservice_dataservice_endpoint_context \<times> ('t, 's) protocolservice_context \<Rightarrow>
     (status \<times> ('t, 'd) protocolservice_dataservice_endpoint_context \<times> ('t, 's) protocolservice_context) option" where
  "dataservice_endpoint_step ops ps env req return_address = (\<lambda>(ep, ctx).
     (case protocolservice_dataservice_endpoint_decode_and_dispatch ops ps env req return_address ep of
        None \<Rightarrow> None
      | Some (retval, reply, ep) \<Rightarrow>
      if retval \<noteq> AGENTD_STATUS_SUCCESS then Some (released (request_free_st env) retval, ep, ctx) else
      case reply of
        None \<Rightarrow> None
      | Some m \<Rightarrow>
      case send_message (reply_env env) return_address (endpoint_addr ep) (Write_endpoint m) ctx of (retval, ctx) \<Rightarrow>
      Some (released (request_free_st env) retval, ep, ctx)))"

subsection \<open>The write endpoint\<close>

text \<open>The encoders of the blockchain protocol library.\<close>

record vcblockchain_resp =
  encode_error_resp :: "32 word \<Rightarrow> 32 word \<Rightarrow> status \<Rightarrow> status + bytes"
  encode_resp_generic :: "32 word \<Rightarrow> 32 word \<Rightarrow> status \<Rightarrow> status + bytes"
  encode_resp_latest_block_id_get :: "32 word \<Rightarrow> status \<Rightarrow> bytes \<Rightarrow> status + bytes"
  encode_resp_block_id_by_height_get :: "32 word \<Rightarrow> status \<Rightarrow> bytes \<Rightarrow> status + bytes"
  encode_resp_transaction_submit :: "32 word \<Rightarrow> status \<Rightarrow> status + bytes"
  encode_resp_block_next_id_get :: "32 word \<Rightarrow> status \<Rightarrow> bytes \<Rightarrow> status + bytes"
  encode_resp_block_prev_id_get :: "32 word \<Rightarrow> status \<Rightarrow> bytes \<Rightarrow> status + bytes"
  encode_resp_block_get :: "32 word \<Rightarrow> status \<Rightarrow> bytes \<Rightarrow> bytes \<Rightarrow> bytes \<Rightarrow> bytes \<Rightarrow> 64 word \<Rightarrow> 64 word \<Rightarrow> bytes \<Rightarrow> status + bytes"
  encode_resp_txn_next_id_get :: "32 word \<Rightarrow> status \<Rightarrow> bytes \<Rightarrow> status + bytes"
  encode_resp_txn_prev_id_get :: "32 word \<Rightarrow> status \<Rightarrow> bytes \<Rightarrow> status + bytes"
  encode_resp_txn_block_id_get :: "32 word \<Rightarrow> status \<Rightarrow> bytes \<Rightarrow> status + bytes"
  encode_resp_txn_get :: "32 word \<Rightarrow> status \<Rightarrow> bytes \<Rightarrow> bytes \<Rightarrow> bytes \<Rightarrow> bytes \<Rightarrow> bytes \<Rightarrow> 64 word \<Rightarrow> bytes \<Rightarrow> 32 word \<Rightarrow> status + bytes"
  encode_resp_artifact_first_txn_id_get :: "32 word \<Rightarrow> status \<Rightarrow> bytes \<Rightarrow> status + bytes"
  encode_resp_artifact_last_txn_id_get :: "32 word \<Rightarrow> status \<Rightarrow> bytes \<Rightarrow> status + bytes"

type_synonym ('t, 's) fiber_result = "status \<times> ('t, 's) protocolservice_protocol_fiber_context"

definition protocolservice_protocol_write_endpoint_write_raw_packet ::
  "'s authed_psock_ops \<Rightarrow> bytes \<Rightarrow> ('t, 's) protocolservice_protocol_fiber_context \<Rightarrow> ('t, 's) fiber_result" where
  "protocolservice_protocol_write_endpoint_write_raw_packet ps msg f =
     (case psock_write_authed_data ps (server_iv f) msg (shared_secret f) (protosock f) of (retval, sock) \<Rightarrow>
      (retval, f\<lparr>protosock := sock, server_iv := server_iv f + 1\<rparr>))"

definition protocolservice_protocol_write_endpoint_write_packet ::
  "'s authed_psock_ops \<Rightarrow> protocolservice_protocol_write_endpoint_message \<Rightarrow> ('t, 's) protocolservice_protocol_fiber_context \<Rightarrow> ('t, 's) fiber_result" where
  "protocolservice_protocol_write_endpoint_write_packet ps msg f =
     (case psock_write_authed_data ps (server_iv f) (pwe_payload msg) (shared_secret f) (protosock f) of (retval, sock) \<Rightarrow>
      (retval, f\<lparr>protosock := sock, server_iv := server_iv f + 1\<rparr>))"

text \<open>The end of a handler: a packet that could be encoded is written.\<close>

definition write_encoded ::
  "'s authed_psock_ops \<Rightarrow> status + bytes \<Rightarrow> ('t, 's) protocolservice_protocol_fiber_context \<Rightarrow> ('t, 's) fiber_result" where
  "write_encoded ps respbuf f =
     (case respbuf of Inl st \<Rightarrow> (st, f) | Inr b \<Rightarrow> protocolservice_protocol_write_endpoint_write_raw_packet ps b f)"

definition protocolservice_pwe_dnd_dataservice_block_id_latest_get ::
  "vcblockchain_resp \<Rightarrow> 's authed_psock_ops \<Rightarrow> protocolservice_protocol_write_endpoint_message \<Rightarrow>
     ('t, 's) protocolservice_protocol_fiber_context \<Rightarrow> ('t, 's) fiber_result" where
  "protocolservice_pwe_dnd_dataservice_block_id_latest_get vc ps payload f =
     (case dataservice_decode_response_latest_block_id_get (pwe_payload payload) of
        Inl st \<Rightarrow> (st, f)
      | Inr (hdr, block_id) \<Rightarrow>
          write_encoded ps (encode_resp_latest_block_id_get vc (pwe_offset payload) (resp_status hdr)
            (case block_id of None \<Rightarrow> replicate 16 0 | Some b \<Rightarrow> b)) f)"

definition protocolservice_pwe_dnd_dataservice_block_id_by_height_get ::
  "vcblockchain_resp \<Rightarrow> 's authed_psock_ops \<Rightarrow> protocolservice_protocol_write_endpoint_message \<Rightarrow>
     ('t, 's) protocolservice_protocol_fiber_context \<Rightarrow> ('t, 's) fiber_result" where
  "protocolservice_pwe_dnd_dataservice_block_id_by_height_get vc ps payload f =
     (case dataservice_decode_response_block_id_by_height_get (pwe_payload payload) of
        Inl st \<Rightarrow> (st, f)
      | Inr (hdr, block_id) \<Rightarrow>
          write_encoded ps (encode_resp_block_id_by_height_get vc (pwe_offset payload) (resp_status hdr)
            (case block_id of None \<Rightarrow> replicate 16 0 | Some b \<Rightarrow> b)) f)"

definition protocolservice_pwe_dnd_dataservice_transaction_submit ::
  "vcblockchain_resp \<Rightarrow> 's authed_psock_ops \<Rightarrow> protocolservice_protocol_write_endpoint_message \<Rightarrow>
     ('t, 's) protocolservice_protocol_fiber_context \<Rightarrow> ('t, 's) fiber_result" where
  "protocolservice_pwe_dnd_dataservice_transaction_submit vc ps payload f =
     (case dataservice_decode_response_transaction_submit (pwe_payload payload) of
        Inl st \<Rightarrow> (st, f)
      | Inr hdr \<Rightarrow> write_encoded ps (encode_resp_transaction_submit vc (pwe_offset payload) (resp_status hdr)) f)"

definition protocolservice_pwe_dnd_encode_protocol_block_id_get_next ::
  "vcblockchain_resp \<Rightarrow> protocolservice_protocol_write_endpoint_message \<Rightarrow> status \<Rightarrow> data_block_node \<Rightarrow> status + bytes" where
  "protocolservice_pwe_dnd_encode_protocol_block_id_get_next vc payload st node =
     (if block_next node = ff_uuid
      then encode_error_resp vc (pwe_original_request_id payload) (pwe_offset payload) AGENTD_ERROR_DATASERVICE_NOT_FOUND
      else encode_resp_block_next_id_get vc (pwe_offset payload) st (block_next node))"

definition protocolservice_pwe_dnd_encode_protocol_block_id_get_prev ::
  "vcblockchain_resp \<Rightarrow> protocolservice_protocol_write_endpoint_message \<Rightarrow> status \<Rightarrow> data_block_node \<Rightarrow> status + bytes" where
  "protocolservice_pwe_dnd_encode_protocol_block_id_get_prev vc payload st node =
     (if block_prev node = zero_uuid
      then encode_error_resp vc (pwe_original_request_id payload) (pwe_offset payload) AGENTD_ERROR_DATASERVICE_NOT_FOUND
      else encode_resp_block_prev_id_get vc (pwe_offset payload) st (block_prev node))"

definition protocolservice_pwe_dnd_encode_protocol_block_get ::
  "vcblockchain_resp \<Rightarrow> protocolservice_protocol_write_endpoint_message \<Rightarrow> status \<Rightarrow> data_block_node \<Rightarrow> bytes \<Rightarrow> status + bytes" where
  "protocolservice_pwe_dnd_encode_protocol_block_get vc payload st node data =
     encode_resp_block_get vc (pwe_offset payload) st (block_key node) (block_prev node) (block_next node) (first_transaction_id node)
       (ntohll (net_block_height node)) (ntohll (net_block_cert_size node)) data"

definition protocolservice_pwe_dnd_dataservice_block_get ::
  "vcblockchain_resp \<Rightarrow> 's authed_psock_ops \<Rightarrow> protocolservice_protocol_write_endpoint_message \<Rightarrow>
     ('t, 's) protocolservice_protocol_fiber_context \<Rightarrow> ('t, 's) fiber_result" where
  "protocolservice_pwe_dnd_dataservice_block_get vc ps payload f =
     (case dataservice_decode_response_block_get (pwe_payload payload) of
        Inl st \<Rightarrow> (st, f)
      | Inr (hdr, None) \<Rightarrow>
          write_encoded ps (encode_error_resp vc (pwe_original_request_id payload) (pwe_offset payload) (resp_status hdr)) f
      | Inr (hdr, Some (node, data)) \<Rightarrow>
          write_encoded ps
            (if pwe_original_request_id payload = UNAUTH_PROTOCOL_REQ_ID_BLOCK_ID_GET_NEXT
             then protocolservice_pwe_dnd_encode_protocol_block_id_get_next vc payload (resp_status hdr) node
             else if pwe_original_request_id payload = UNAUTH_PROTOCOL_REQ_ID_BLOCK_ID_GET_PREV
             then protocolservice_pwe_dnd_encode_protocol_block_id_get_prev vc payload (resp_status hdr) node
             else protocolservice_pwe_dnd_encode_protocol_block_get vc payload (resp_status hdr) node data) f)"

definition protocolservice_pwe_dnd_encode_protocol_transaction_id_get_next ::
  "vcblockchain_resp \<Rightarrow> protocolservice_protocol_write_endpoint_message \<Rightarrow> status \<Rightarrow> data_transaction_node \<Rightarrow> status + bytes" where
  "protocolservice_pwe_dnd_encode_protocol_transaction_id_get_next vc payload st node =
     (if node_next node = ff_uuid
      then encode_error_resp vc (pwe_original_request_id payload) (pwe_offset payload) AGENTD_ERROR_DATASERVICE_NOT_FOUND
      else encode_resp_txn_next_id_get vc (pwe_offset payload) st (node_next node))"

definition protocolservice_pwe_dnd_encode_protocol_transaction_id_get_prev ::
  "vcblockchain_resp \<Rightarrow> protocolservice_protocol_write_endpoint_message \<Rightarrow> status \<Rightarrow> data_transaction_node \<Rightarrow> status + bytes" where
  "protocolservice_pwe_dnd_encode_protocol_transaction_id_get_prev vc payload st node =
     (if node_prev node = zero_uuid
      then encode_error_resp vc (pwe_original_request_id payload) (pwe_offset payload) AGENTD_ERROR_DATASERVICE_NOT_FOUND
      else encode_resp_txn_prev_id_get vc (pwe_offset payload) st (node_prev node))"

definition protocolservice_pwe_dnd_encode_protocol_transaction_block_id_get ::
  "vcblockchain_resp \<Rightarrow> protocolservice_protocol_write_endpoint_message \<Rightarrow> status \<Rightarrow> data_transaction_node \<Rightarrow> status + bytes" where
  "protocolservice_pwe_dnd_encode_protocol_transaction_block_id_get vc payload st node =
     encode_resp_txn_block_id_get vc (pwe_offset payload) st (node_block_id node)"

definition protocolservice_pwe_dnd_encode_protocol_transaction_get ::
  "vcblockchain_resp \<Rightarrow> protocolservice_protocol_write_endpoint_message \<Rightarrow> status \<Rightarrow> data_transaction_node \<Rightarrow> bytes \<Rightarrow> status + bytes" where
  "protocolservice_pwe_dnd_encode_protocol_transaction_get vc payload st node data =
     encode_resp_txn_get vc (pwe_offset payload) st (node_key node) (node_prev node) (node_next node) (node_artifact_id node)
       (node_block_id node) (ntohll (net_txn_cert_size node)) data (ntohl (net_txn_state node))"

definition protocolservice_pwe_dnd_dataservice_transaction_get ::
  "vcblockchain_resp \<Rightarrow> 's authed_psock_ops \<Rightarrow> protocolservice_protocol_write_endpoint_message \<Rightarrow>
     ('t, 's) protocolservice_protocol_fiber_context \<Rightarrow> ('t, 's) fiber_result" where
  "protocolservice_pwe_dnd_dataservice_transaction_get vc ps payload f =
     (case dataservice_decode_response_canonized_transaction_get (pwe_payload payload) of
        Inl st \<Rightarrow> (st, f)
      | Inr (hdr, None) \<Rightarrow>
          write_encoded ps (encode_error_resp vc (pwe_original_request_id payload) (pwe_offset payload) (resp_status hdr)) f
      | Inr (hdr, Some (node, data)) \<Rightarrow>
          write_encoded ps
            (if pwe_original_request_id payload = UNAUTH_PROTOCOL_REQ_ID_TRANSACTION_ID_GET_NEXT
             then protocolservice_pwe_dnd_encode_protocol_transaction_id_get_next vc payload (resp_status hdr) node
             else if pwe_original_request_id payload = UNAUTH_PROTOCOL_REQ_ID_TRANSACTION_ID_GET_PREV
             then protocolservice_pwe_dnd_encode_protocol_transaction_id_get_prev vc payload (resp_status hdr) node
             else if pwe_original_request_id payload = UNAUTH_PROTOCOL_REQ_ID_TRANSACTION_ID_GET_BLOCK_ID
             then protocolservice_pwe_dnd_encode_protocol_transaction_block_id_get vc payload (resp_status hdr) node
             else protocolservice_pwe_dnd_encode_protocol_transaction_get vc payload (resp_status hdr) node data) f)"

definition protocolservice_pwe_dnd_encode_protocol_artifact_first_txn_get ::
  "vcblockchain_resp \<Rightarrow> protocolservice_protocol_write_endpoint_message \<Rightarrow> status \<Rightarrow> data_artifact_record \<Rightarrow> status + bytes" where
  "protocolservice_pwe_dnd_encode_protocol_artifact_first_txn_get vc payload st r =
     encode_resp_artifact_first_txn_id_get vc (pwe_offset payload) st (txn_first r)"

definition protocolservice_pwe_dnd_encode_protocol_artifact_last_txn_get ::
  "vcblockchain_resp \<Rightarrow> protocolservice_protocol_write_endpoint_message \<Rightarrow> status \<Rightarrow> data_artifact_record \<Rightarrow> status + bytes" where
  "protocolservice_pwe_dnd_encode_protocol_artifact_last_txn_get vc payload st r =
     encode_resp_artifact_last_txn_id_get vc (pwe_offset payload) st (txn_latest r)"

definition protocolservice_pwe_dnd_dataservice_artifact_get ::
  "vcblockchain_resp \<Rightarrow> 's authed_psock_ops \<Rightarrow> protocolservice_protocol_write_endpoint_message \<Rightarrow>
     ('t, 's) protocolservice_protocol_fiber_context \<Rightarrow> ('t, 's) fiber_result" where
  "protocolservice_pwe_dnd_dataservice_artifact_get vc ps payload f =
     (case dataservice_decode_response_artifact_get (pwe_payload payload) of
        Inl st \<Rightarrow> (st, f)
      | Inr (hdr, None) \<Rightarrow>
          write_encoded ps (encode_error_resp vc (pwe_original_request_id payload) (pwe_offset payload) (resp_status hdr)) f
      | Inr (hdr, Some r) \<Rightarrow>
          write_encoded ps
            (if pwe_original_request_id payload = UNAUTH_PROTOCOL_REQ_ID_ARTIFACT_LAST_TXN_BY_ID_GET
             then protocolservice_pwe_dnd_encode_protocol_artifact_last_txn_get vc payload (resp_status hdr) r
             else protocolservice_pwe_dnd_encode_protocol_artifact_first_txn_get vc payload (resp_status hdr) r) f)"

text \<open>The method is read without looking at the size of the response.\<close>

definition protocolservice_pwe_dnd_dataservice_message ::
  "vcblockchain_resp \<Rightarrow> 's authed_psock_ops \<Rightarrow> protocolservice_protocol_write_endpoint_message \<Rightarrow>
     ('t, 's) protocolservice_protocol_fiber_context \<Rightarrow> ('t, 's) fiber_result option" where
  "protocolservice_pwe_dnd_dataservice_message vc ps payload f =
     (if length (pwe_payload payload) < 4 then None else
      let meth = of_net32 (take 4 (pwe_payload payload)) in Some (
      if meth = DATASERVICE_API_METHOD_APP_BLOCK_ID_LATEST_READ
      then protocolservice_pwe_dnd_dataservice_block_id_latest_get vc ps payload f else
      if meth = DATASERVICE_API_METHOD_APP_BLOCK_READ
      then protocolservice_pwe_dnd_dataservice_block_get vc ps payload f else
      if meth = DATASERVICE_API_METHOD_APP_TRANSACTION_READ
      then protocolservice_pwe_dnd_dataservice_transaction_get vc ps payload f else
      if meth = DATASERVICE_API_METHOD_APP_ARTIFACT_READ
      then protocolservice_pwe_dnd_dataservice_artifact_get vc ps payload f else
      if meth = DATASERVICE_API_METHOD_APP_PQ_TRANSACTION_SUBMIT
      then protocolservice_pwe_dnd_dataservice_transaction_submit vc ps payload f else
      if meth = DATASERVICE_API_METHOD_APP_BLOCK_ID_BY_HEIGHT_READ
      then protocolservice_pwe_dnd_dataservice_block_id_by_height_get vc ps payload f else
      (AGENTD_ERROR_PROTOCOLSERVICE_DATASERVICE_INVALID_RESPONSE_ID, f)))"

definition protocolservice_pwe_dnd_notificationservice_message ::
  "vcblockchain_resp \<Rightarrow> 's authed_psock_ops \<Rightarrow> protocolservice_protocol_write_endpoint_message \<Rightarrow>
     ('t, 's) protocolservice_protocol_fiber_context \<Rightarrow> ('t, 's) fiber_result" where
  "protocolservice_pwe_dnd_notificationservice_message vc ps payload f =
     (case encode_resp_generic vc (pwe_original_request_id payload) (pwe_offset payload) AGENTD_STATUS_SUCCESS of
        Inl st \<Rightarrow> (st, f)
      | Inr b \<Rightarrow>
      case protocolservice_protocol_write_endpoint_write_raw_packet ps b f of (retval, f) \<Rightarrow>
      if retval \<noteq> AGENTD_STATUS_SUCCESS then (retval, f)
      else (AGENTD_STATUS_SUCCESS, f\<lparr>latest_block_id_assertion_set := False\<rparr>))"

definition protocolservice_protocol_write_endpoint_decode_and_dispatch ::
  "vcblockchain_resp \<Rightarrow> 's authed_psock_ops \<Rightarrow> protocolservice_protocol_write_endpoint_message \<Rightarrow>
     ('t, 's) protocolservice_protocol_fiber_context \<Rightarrow> ('t, 's) fiber_result option" where
  "protocolservice_protocol_write_endpoint_decode_and_dispatch vc ps payload f =
     (if pwe_message_type payload = PROTOCOLSERVICE_PROTOCOL_WRITE_ENDPOINT_MESSAGE_SHUTDOWN
      then Some (AGENTD_STATUS_SUCCESS, f\<lparr>shutdown := True\<rparr>) else
      if pwe_message_type payload = PROTOCOLSERVICE_PROTOCOL_WRITE_ENDPOINT_DATASERVICE_MSG
      then protocolservice_pwe_dnd_dataservice_message vc ps payload f else
      if pwe_message_type payload = PROTOCOLSERVICE_PROTOCOL_WRITE_ENDPOINT_NOTIFICATION_MSG
      then Some (protocolservice_pwe_dnd_notificationservice_message vc ps payload f) else
      if pwe_message_type payload = PROTOCOLSERVICE_PROTOCOL_WRITE_ENDPOINT_PACKET
      then Some (protocolservice_protocol_write_endpoint_write_packet ps payload f) else
      Some (AGENTD_ERROR_PROTOCOLSERVICE_MALFORMED_RESPONSE, f))"

end
