(* ===== verification/Proto_Control.thy ===== *)
theory Proto_Control
  imports Proto
begin

text \<open>
  The control socket of the protocol service: the supervisor sends the private key of
  the agent, the entities that may connect and their capabilities, and then finalizes
  (files \<^verbatim>\<open>protocolservice_control_*.c\<close> and \<^verbatim>\<open>protocolservice_authorized_entity_*.c\<close>).
  The sizes of the keys are those of the crypto suite; the results of the allocations
  of a request are in \<open>control_env\<close>.
\<close>

record suite_sizes =
  enc_public_key_size :: nat
  enc_private_key_size :: nat
  sign_public_key_size :: nat
  sign_private_key_size :: nat

record control_env =
  resp_alloc_st :: status
  enc_buffer_st :: status
  sign_buffer_st :: status
  entity_alloc_st :: status
  tree_create_st :: status
  cap_alloc_st :: status
  ctl_release_st :: status

record 's protocolservice_control_fiber_context =
  should_exit :: bool
  controlsock :: 's

abbreviation (input) UNAUTH_PROTOCOL_CONTROL_REQ_ID_AUTH_ENTITY_ADD :: "32 word" where
  "UNAUTH_PROTOCOL_CONTROL_REQ_ID_AUTH_ENTITY_ADD \<equiv> 0"
abbreviation (input) UNAUTH_PROTOCOL_CONTROL_REQ_ID_AUTH_ENTITY_CAP_ADD :: "32 word" where
  "UNAUTH_PROTOCOL_CONTROL_REQ_ID_AUTH_ENTITY_CAP_ADD \<equiv> 1"
abbreviation (input) UNAUTH_PROTOCOL_CONTROL_REQ_ID_PRIVATE_KEY_SET :: "32 word" where
  "UNAUTH_PROTOCOL_CONTROL_REQ_ID_PRIVATE_KEY_SET \<equiv> 2"
abbreviation (input) UNAUTH_PROTOCOL_CONTROL_REQ_ID_FINALIZE :: "32 word" where
  "UNAUTH_PROTOCOL_CONTROL_REQ_ID_FINALIZE \<equiv> 3"

type_synonym ('t, 's, 'c) control_reply =
  "status \<times> 'c protocolservice_control_fiber_context \<times> ('t, 's) protocolservice_context"

subsection \<open>Creation of the context\<close>

record context_env =
  ctx_alloc_st :: status
  msgdisc_st :: status
  entity_tree_st :: status
  api_tree_st :: status
  suite_st :: status
  key_buffer_st :: "nat \<Rightarrow> status"
  ctx_release_st :: status

definition protocolservice_context_create ::
  "context_env \<Rightarrow> 't resource_tree_ops \<Rightarrow> suite_sizes \<Rightarrow> 64 word \<Rightarrow> 64 word \<Rightarrow> status + ('t, 's) protocolservice_context" where
  "protocolservice_context_create env ops suite random_addr data_addr =
     (let fail = (\<lambda>st. Inl (released (ctx_release_st env) st)) in
      if ctx_alloc_st env \<noteq> AGENTD_STATUS_SUCCESS then Inl (ctx_alloc_st env) else
      if msgdisc_st env \<noteq> AGENTD_STATUS_SUCCESS then fail (msgdisc_st env) else
      if entity_tree_st env \<noteq> AGENTD_STATUS_SUCCESS then fail (entity_tree_st env) else
      if api_tree_st env \<noteq> AGENTD_STATUS_SUCCESS then fail (api_tree_st env) else
      if suite_st env \<noteq> AGENTD_STATUS_SUCCESS then fail (suite_st env) else
      if key_buffer_st env 0 \<noteq> AGENTD_STATUS_SUCCESS then fail (key_buffer_st env 0) else
      if key_buffer_st env 1 \<noteq> AGENTD_STATUS_SUCCESS then fail (key_buffer_st env 1) else
      if key_buffer_st env 2 \<noteq> AGENTD_STATUS_SUCCESS then fail (key_buffer_st env 2) else
      if key_buffer_st env 3 \<noteq> AGENTD_STATUS_SUCCESS then fail (key_buffer_st env 3) else
      Inr \<lparr> data_endpoint_addr = data_addr, random_endpoint_addr = random_addr, notificationservice_endpoint_addr = 0,
            authorized_entity_dict = tree_empty ops, ps_entities = [], extended_api_dict = tree_empty ops,
            agentd_uuid = replicate 16 0,
            agentd_enc_pubkey = replicate (enc_public_key_size suite) 0,
            agentd_enc_privkey = replicate (enc_private_key_size suite) 0,
            agentd_sign_pubkey = replicate (sign_public_key_size suite) 0,
            agentd_sign_privkey = replicate (sign_private_key_size suite) 0,
            private_key_set = False, ps_quiesce = False, ps_terminate = False, ps_fibers = [], ps_messages = [] \<rparr>)"

subsection \<open>Handlers\<close>

definition protocolservice_control_write_response ::
  "'c psock_ops \<Rightarrow> status \<Rightarrow> 32 word \<Rightarrow> status \<Rightarrow> 'c protocolservice_control_fiber_context \<Rightarrow> status \<times> 'c protocolservice_control_fiber_context" where
  "protocolservice_control_write_response ps alloc_st request_id st cctx =
     (if alloc_st \<noteq> AGENTD_STATUS_SUCCESS then (AGENTD_ERROR_GENERAL_OUT_OF_MEMORY, cctx) else
      case psock_write_boxed_data ps (net32 request_id @ net32 0 @ net32 st) (controlsock cctx) of (retval, sock) \<Rightarrow>
      case rcpr_allocator_reclaim ps sock of (release_retval, sock) \<Rightarrow>
      (released release_retval
         (if retval \<noteq> AGENTD_STATUS_SUCCESS then AGENTD_ERROR_PROTOCOLSERVICE_IPC_WRITE_DATA_FAILURE else retval),
       cctx\<lparr>controlsock := sock\<rparr>))"

text \<open>An error is written and returned, unless writing it fails.\<close>

definition reject ::
  "'c psock_ops \<Rightarrow> control_env \<Rightarrow> 32 word \<Rightarrow> status \<Rightarrow> 'c protocolservice_control_fiber_context \<Rightarrow>
     ('t, 's) protocolservice_context \<Rightarrow> ('t, 's, 'c) control_reply" where
  "reject ps env request_id st cctx ctx =
     (case protocolservice_control_write_response ps (resp_alloc_st env) request_id st cctx of (retval, cctx) \<Rightarrow>
      (if retval = AGENTD_STATUS_SUCCESS then st else retval, cctx, ctx))"

definition protocolservice_authorized_entity_add ::
  "'t resource_tree_ops \<Rightarrow> control_env \<Rightarrow> bytes \<Rightarrow> bytes \<Rightarrow> bytes \<Rightarrow> ('t, 's) protocolservice_context \<Rightarrow>
     status \<times> ('t, 's) protocolservice_context" where
  "protocolservice_authorized_entity_add ops env uuid enc sign ctx =
     (if entity_alloc_st env \<noteq> AGENTD_STATUS_SUCCESS then (entity_alloc_st env, ctx) else
      if tree_create_st env \<noteq> AGENTD_STATUS_SUCCESS then (released (ctl_release_st env) (tree_create_st env), ctx) else
      let tmp = \<lparr> entity_uuid = uuid, encryption_pubkey = enc, signing_pubkey = sign, capabilities = tree_empty ops \<rparr> in
      case tree_insert ops (protocolservice_authorized_entity_key tmp) (Entity_ref (length (ps_entities ctx))) (authorized_entity_dict ctx)
      of (retval, dict) \<Rightarrow>
      if retval \<noteq> AGENTD_STATUS_SUCCESS
      then (released (ctl_release_st env) retval, ctx\<lparr>authorized_entity_dict := dict\<rparr>)
      else (AGENTD_STATUS_SUCCESS, ctx\<lparr>authorized_entity_dict := dict, ps_entities := ps_entities ctx @ [tmp]\<rparr>))"

definition protocolservice_control_dispatch_auth_entity_add ::
  "'t resource_tree_ops \<Rightarrow> 'c psock_ops \<Rightarrow> suite_sizes \<Rightarrow> control_env \<Rightarrow> bytes \<Rightarrow>
     'c protocolservice_control_fiber_context \<Rightarrow> ('t, 's) protocolservice_context \<Rightarrow> ('t, 's, 'c) control_reply" where
  "protocolservice_control_dispatch_auth_entity_add ops ps suite env payload cctx ctx =
     (let id = UNAUTH_PROTOCOL_CONTROL_REQ_ID_AUTH_ENTITY_ADD;
          bad_size = AGENTD_ERROR_PROTOCOLSERVICE_REQUEST_PACKET_INVALID_SIZE in
      if length payload < 12 then reject ps env id bad_size cctx ctx else
      let enc_pubkey_size = unat (of_net32 (slice 4 4 payload));
          sig_pubkey_size = unat (of_net32 (slice 8 4 payload)) in
      if enc_public_key_size suite \<noteq> enc_pubkey_size \<or> sign_public_key_size suite \<noteq> sig_pubkey_size
      then reject ps env id bad_size cctx ctx else
      if length payload - 12 < 16 + enc_pubkey_size + sig_pubkey_size then reject ps env id bad_size cctx ctx else
      let entity_id = slice 12 16 payload in
      if enc_buffer_st env \<noteq> AGENTD_STATUS_SUCCESS then reject ps env id AGENTD_ERROR_GENERAL_OUT_OF_MEMORY cctx ctx else
      let enc_pubkey = slice 28 enc_pubkey_size payload in
      if sign_buffer_st env \<noteq> AGENTD_STATUS_SUCCESS then reject ps env id AGENTD_ERROR_GENERAL_OUT_OF_MEMORY cctx ctx else
      let sign_pubkey = slice (28 + enc_pubkey_size) sig_pubkey_size payload in
      case protocolservice_authorized_entity_add ops env entity_id enc_pubkey sign_pubkey ctx of (retval, ctx) \<Rightarrow>
      if retval \<noteq> AGENTD_STATUS_SUCCESS then
        (case protocolservice_control_write_response ps (resp_alloc_st env) id retval cctx of (release_retval, cctx) \<Rightarrow>
         (if release_retval = AGENTD_STATUS_SUCCESS then release_retval else retval, cctx, ctx))
      else
        (case protocolservice_control_write_response ps (resp_alloc_st env) id AGENTD_STATUS_SUCCESS cctx of (retval, cctx) \<Rightarrow>
         (retval, cctx, ctx)))"

definition protocolservice_control_dispatch_auth_entity_capability_add ::
  "'t resource_tree_ops \<Rightarrow> 'c psock_ops \<Rightarrow> control_env \<Rightarrow> bytes \<Rightarrow>
     'c protocolservice_control_fiber_context \<Rightarrow> ('t, 's) protocolservice_context \<Rightarrow> ('t, 's, 'c) control_reply" where
  "protocolservice_control_dispatch_auth_entity_capability_add ops ps env payload cctx ctx =
     (let id = UNAUTH_PROTOCOL_CONTROL_REQ_ID_AUTH_ENTITY_CAP_ADD in
      if length payload < 4 + 4 * 16
      then reject ps env id AGENTD_ERROR_PROTOCOLSERVICE_REQUEST_PACKET_INVALID_SIZE cctx ctx else
      let entity_id = slice 4 16 payload; subject = slice 20 16 payload; verb = slice 36 16 payload; object = slice 52 16 payload in
      case tree_find ops entity_id (authorized_entity_dict ctx) of
        Inl _ \<Rightarrow> (AGENTD_ERROR_PROTOCOLSERVICE_CONTROL_ENTITY_NOT_FOUND, cctx, ctx)
      | Inr r \<Rightarrow>
      let n = (case r of Entity_ref n \<Rightarrow> n | _ \<Rightarrow> length (ps_entities ctx)); entity = ps_entities ctx ! n in
      case protocolservice_authorized_entity_capability_create (cap_alloc_st env) subject verb object of
        Inl st \<Rightarrow> (st, cctx, ctx)
      | Inr cap \<Rightarrow>
      case tree_insert ops (protocolservice_authorized_entity_capabilities_key cap) (Capability_key (capability_bytes cap)) (capabilities entity)
      of (retval, caps) \<Rightarrow>
      let ctx = ctx\<lparr>ps_entities := (ps_entities ctx)[n := entity\<lparr>capabilities := caps\<rparr>]\<rparr> in
      if retval \<noteq> AGENTD_STATUS_SUCCESS then (released (ctl_release_st env) retval, cctx, ctx) else
      case protocolservice_control_write_response ps (resp_alloc_st env) id AGENTD_STATUS_SUCCESS cctx of (retval, cctx) \<Rightarrow>
      (retval, cctx, ctx))"

definition protocolservice_control_dispatch_private_key_set ::
  "'c psock_ops \<Rightarrow> suite_sizes \<Rightarrow> control_env \<Rightarrow> bytes \<Rightarrow>
     'c protocolservice_control_fiber_context \<Rightarrow> ('t, 's) protocolservice_context \<Rightarrow> ('t, 's, 'c) control_reply" where
  "protocolservice_control_dispatch_private_key_set ps suite env payload cctx ctx =
     (let id = UNAUTH_PROTOCOL_CONTROL_REQ_ID_PRIVATE_KEY_SET;
          bad_size = AGENTD_ERROR_PROTOCOLSERVICE_REQUEST_PACKET_INVALID_SIZE in
      if length payload < 20 then reject ps env id bad_size cctx ctx else
      let a = unat (of_net32 (slice 4 4 payload)); b = unat (of_net32 (slice 8 4 payload));
          c = unat (of_net32 (slice 12 4 payload)); d = unat (of_net32 (slice 16 4 payload)) in
      if enc_public_key_size suite \<noteq> a \<or> enc_private_key_size suite \<noteq> b \<or>
         sign_public_key_size suite \<noteq> c \<or> sign_private_key_size suite \<noteq> d
      then reject ps env id bad_size cctx ctx else
      if length payload - 20 < 16 + a + b + c + d then reject ps env id bad_size cctx ctx else
      let ctx = ctx\<lparr>agentd_uuid := slice 20 16 payload,
                    agentd_enc_pubkey := slice 36 a payload,
                    agentd_enc_privkey := slice (36 + a) b payload,
                    agentd_sign_pubkey := slice (36 + a + b) c payload,
                    agentd_sign_privkey := slice (36 + a + b + c) d payload,
                    private_key_set := True\<rparr> in
      case protocolservice_control_write_response ps (resp_alloc_st env) id AGENTD_STATUS_SUCCESS cctx of (retval, cctx) \<Rightarrow>
      (retval, cctx, ctx))"

definition protocolservice_control_dispatch_finalize ::
  "'c psock_ops \<Rightarrow> control_env \<Rightarrow> 'c protocolservice_control_fiber_context \<Rightarrow> ('t, 's) protocolservice_context \<Rightarrow> ('t, 's, 'c) control_reply" where
  "protocolservice_control_dispatch_finalize ps env cctx ctx =
     (case protocolservice_control_write_response ps (resp_alloc_st env) UNAUTH_PROTOCOL_CONTROL_REQ_ID_FINALIZE
             AGENTD_STATUS_SUCCESS (cctx\<lparr>should_exit := True\<rparr>) of (retval, cctx) \<Rightarrow>
      (retval, cctx, ctx))"

definition protocolservice_control_decode_and_dispatch ::
  "'t resource_tree_ops \<Rightarrow> 'c psock_ops \<Rightarrow> suite_sizes \<Rightarrow> control_env \<Rightarrow> bytes \<Rightarrow>
     'c protocolservice_control_fiber_context \<Rightarrow> ('t, 's) protocolservice_context \<Rightarrow> ('t, 's, 'c) control_reply" where
  "protocolservice_control_decode_and_dispatch ops ps suite env req cctx ctx =
     (if length req < 4 then (AGENTD_ERROR_PROTOCOLSERVICE_REQUEST_PACKET_INVALID_SIZE, cctx, ctx) else
      let meth = of_net32 (take 4 req); payload = drop 4 req in
      if meth = UNAUTH_PROTOCOL_CONTROL_REQ_ID_AUTH_ENTITY_ADD
      then protocolservice_control_dispatch_auth_entity_add ops ps suite env payload cctx ctx else
      if meth = UNAUTH_PROTOCOL_CONTROL_REQ_ID_AUTH_ENTITY_CAP_ADD
      then protocolservice_control_dispatch_auth_entity_capability_add ops ps env payload cctx ctx else
      if meth = UNAUTH_PROTOCOL_CONTROL_REQ_ID_PRIVATE_KEY_SET
      then protocolservice_control_dispatch_private_key_set ps suite env payload cctx ctx else
      if meth = UNAUTH_PROTOCOL_CONTROL_REQ_ID_FINALIZE
      then protocolservice_control_dispatch_finalize ps env cctx ctx else
      reject ps env meth AGENTD_ERROR_PROTOCOLSERVICE_REQUEST_PACKET_BAD cctx ctx)"

subsection \<open>The control fiber\<close>

text \<open>
  The fiber reads requests until it is told to finalize or something fails; then the
  main fiber is told to terminate (\<open>force_st\<close> is the result of that call).  The loop
  may wait for ever, so it is a partial function; request \<open>k\<close> runs with \<open>env k\<close>.
\<close>

definition protocolservice_force_exit :: "status \<Rightarrow> status" where
  "protocolservice_force_exit terminate_st = terminate_st"

partial_function (option) control_fiber_loop ::
  "'t resource_tree_ops \<Rightarrow> 'c psock_ops \<Rightarrow> suite_sizes \<Rightarrow> (nat \<Rightarrow> control_env) \<Rightarrow> status \<Rightarrow> nat \<Rightarrow>
     'c protocolservice_control_fiber_context \<Rightarrow> ('t, 's) protocolservice_context \<Rightarrow> ('t, 's, 'c) control_reply option" where
  "control_fiber_loop ops ps suite env force_st k cctx ctx =
     (if should_exit cctx then Some (AGENTD_STATUS_SUCCESS, cctx, ctx) else
      case psock_read_boxed_data ps (controlsock cctx) of
        (Inl st, sock) \<Rightarrow> Some (released (protocolservice_force_exit force_st) st, cctx\<lparr>controlsock := sock\<rparr>, ctx)
      | (Inr req, sock) \<Rightarrow>
      case protocolservice_control_decode_and_dispatch ops ps suite (env k) req (cctx\<lparr>controlsock := sock\<rparr>) ctx of (retval, cctx, ctx) \<Rightarrow>
      case rcpr_allocator_reclaim ps (controlsock cctx) of (release_retval, sock) \<Rightarrow>
      let cctx = cctx\<lparr>controlsock := sock\<rparr> in
      if release_retval \<noteq> AGENTD_STATUS_SUCCESS \<or> retval \<noteq> AGENTD_STATUS_SUCCESS
      then Some (released (protocolservice_force_exit force_st) retval, cctx, ctx)
      else control_fiber_loop ops ps suite env force_st (Suc k) cctx ctx)"

definition protocolservice_control_fiber_entry ::
  "'t resource_tree_ops \<Rightarrow> 'c psock_ops \<Rightarrow> suite_sizes \<Rightarrow> (nat \<Rightarrow> control_env) \<Rightarrow> status \<Rightarrow> status \<Rightarrow>
     'c protocolservice_control_fiber_context \<Rightarrow> ('t, 's) protocolservice_context \<Rightarrow> ('t, 's, 'c) control_reply option" where
  "protocolservice_control_fiber_entry ops ps suite env force_st release_retval cctx ctx =
     (case control_fiber_loop ops ps suite env force_st 0 cctx ctx of
        None \<Rightarrow> None
      | Some (retval, cctx, ctx) \<Rightarrow> Some (released release_retval retval, cctx, ctx))"

subsection \<open>The calls of the supervisor\<close>

text \<open>
  The supervisor writes its requests to a blocking socket.  \<open>buffer_ok\<close> tells whether
  the buffer for the request can be allocated.
\<close>

definition entity_add_request :: "bytes \<Rightarrow> bytes \<Rightarrow> bytes \<Rightarrow> bytes" where
  "entity_add_request entity_id enc_pubkey sign_pubkey =
     net32 UNAUTH_PROTOCOL_CONTROL_REQ_ID_AUTH_ENTITY_ADD @ net32 0 @
     net32 (of_nat (length enc_pubkey)) @ net32 (of_nat (length sign_pubkey)) @
     take 16 entity_id @ enc_pubkey @ sign_pubkey"

definition protocolservice_control_api_sendreq_authorized_entity_add ::
  "bool \<Rightarrow> bytes \<Rightarrow> bytes \<Rightarrow> bytes \<Rightarrow> ipc_fd \<Rightarrow> status \<times> ipc_fd" where
  "protocolservice_control_api_sendreq_authorized_entity_add buffer_ok entity_id enc_pubkey sign_pubkey sock =
     (if \<not> buffer_ok then (AGENTD_ERROR_GENERAL_OUT_OF_MEMORY, sock)
      else ipc_write_data_block (entity_add_request entity_id enc_pubkey sign_pubkey) sock)"

definition capability_add_request :: "bytes \<Rightarrow> bytes \<Rightarrow> bytes \<Rightarrow> bytes \<Rightarrow> bytes" where
  "capability_add_request entity_id subject verb object =
     net32 UNAUTH_PROTOCOL_CONTROL_REQ_ID_AUTH_ENTITY_CAP_ADD @ net32 0 @
     take 16 entity_id @ take 16 subject @ take 16 verb @ take 16 object"

definition protocolservice_control_api_sendreq_authorized_entity_capability_add ::
  "bool \<Rightarrow> bytes \<Rightarrow> bytes \<Rightarrow> bytes \<Rightarrow> bytes \<Rightarrow> ipc_fd \<Rightarrow> status \<times> ipc_fd" where
  "protocolservice_control_api_sendreq_authorized_entity_capability_add buffer_ok entity_id subject verb object sock =
     (if \<not> buffer_ok then (AGENTD_ERROR_GENERAL_OUT_OF_MEMORY, sock)
      else ipc_write_data_block (capability_add_request entity_id subject verb object) sock)"

definition private_key_request :: "bytes \<Rightarrow> bytes \<Rightarrow> bytes \<Rightarrow> bytes \<Rightarrow> bytes \<Rightarrow> bytes" where
  "private_key_request entity_id enc_pubkey enc_privkey sign_pubkey sign_privkey =
     net32 UNAUTH_PROTOCOL_CONTROL_REQ_ID_PRIVATE_KEY_SET @ net32 0 @
     net32 (of_nat (length enc_pubkey)) @ net32 (of_nat (length enc_privkey)) @
     net32 (of_nat (length sign_pubkey)) @ net32 (of_nat (length sign_privkey)) @
     take 16 entity_id @ enc_pubkey @ enc_privkey @ sign_pubkey @ sign_privkey"

definition protocolservice_control_api_sendreq_private_key_set ::
  "bool \<Rightarrow> bytes \<Rightarrow> bytes \<Rightarrow> bytes \<Rightarrow> bytes \<Rightarrow> bytes \<Rightarrow> ipc_fd \<Rightarrow> status \<times> ipc_fd" where
  "protocolservice_control_api_sendreq_private_key_set buffer_ok entity_id enc_pubkey enc_privkey sign_pubkey sign_privkey sock =
     (if \<not> buffer_ok then (AGENTD_ERROR_GENERAL_OUT_OF_MEMORY, sock)
      else ipc_write_data_block (private_key_request entity_id enc_pubkey enc_privkey sign_pubkey sign_privkey) sock)"

text \<open>The responses have the same twelve bytes; the result is the offset and the status.\<close>

definition control_recvresp :: "32 word \<Rightarrow> bool \<Rightarrow> ipc_fd \<Rightarrow> (status + 32 word \<times> 32 word) \<times> ipc_fd" where
  "control_recvresp request_id malloc_ok sock =
     (case ipc_read_data_block malloc_ok sock of
        (Inl st, sock) \<Rightarrow> (Inl st, sock)
      | (Inr val, sock) \<Rightarrow>
          (if length val \<noteq> 12 then Inl AGENTD_ERROR_IPC_READ_UNEXPECTED_DATA_SIZE
           else if of_net32 (slice 0 4 val) \<noteq> request_id then Inl AGENTD_ERROR_IPC_READ_UNEXPECTED_DATA_TYPE
           else Inr (of_net32 (slice 4 4 val), of_net32 (slice 8 4 val)), sock))"

definition protocolservice_control_api_recvresp_authorized_entity_add ::
  "bool \<Rightarrow> ipc_fd \<Rightarrow> (status + 32 word \<times> 32 word) \<times> ipc_fd" where
  "protocolservice_control_api_recvresp_authorized_entity_add = control_recvresp UNAUTH_PROTOCOL_CONTROL_REQ_ID_AUTH_ENTITY_ADD"

definition protocolservice_control_api_recvresp_authorized_entity_capability_add ::
  "bool \<Rightarrow> ipc_fd \<Rightarrow> (status + 32 word \<times> 32 word) \<times> ipc_fd" where
  "protocolservice_control_api_recvresp_authorized_entity_capability_add =
     control_recvresp UNAUTH_PROTOCOL_CONTROL_REQ_ID_AUTH_ENTITY_CAP_ADD"

definition protocolservice_control_api_recvresp_private_key_set ::
  "bool \<Rightarrow> ipc_fd \<Rightarrow> (status + 32 word \<times> 32 word) \<times> ipc_fd" where
  "protocolservice_control_api_recvresp_private_key_set = control_recvresp UNAUTH_PROTOCOL_CONTROL_REQ_ID_PRIVATE_KEY_SET"

end
