(* ===== verification/Proto_Control_Correct.thy ===== *)
theory Proto_Control_Correct
  imports Proto_Control
begin

text \<open>
  The control socket refines a small specification: after any sequence of requests that
  the control fiber accepts, the entities that may connect and their capabilities are
  exactly those that the requests name.
\<close>

subsection \<open>What the requests mean\<close>

text \<open>
  The specification: who may connect, and which capabilities each has.  A request for a
  new entity adds it with no capability; a request for a capability adds it to an entity
  that is there; every other request, and every malformed one, changes nothing.
\<close>

type_synonym grants = "bytes \<rightharpoonup> bytes set"

definition entity_add_ok :: "suite_sizes \<Rightarrow> bytes \<Rightarrow> bool" where
  "entity_add_ok suite req \<longleftrightarrow> 16 \<le> length req \<and> of_net32 (take 4 req) = UNAUTH_PROTOCOL_CONTROL_REQ_ID_AUTH_ENTITY_ADD \<and>
     unat (of_net32 (slice 8 4 req)) = enc_public_key_size suite \<and> unat (of_net32 (slice 12 4 req)) = sign_public_key_size suite \<and>
     32 + enc_public_key_size suite + sign_public_key_size suite \<le> length req"

definition capability_add_ok :: "bytes \<Rightarrow> bool" where
  "capability_add_ok req \<longleftrightarrow> 72 \<le> length req \<and> of_net32 (take 4 req) = UNAUTH_PROTOCOL_CONTROL_REQ_ID_AUTH_ENTITY_CAP_ADD"

definition control_spec :: "suite_sizes \<Rightarrow> bytes \<Rightarrow> grants \<Rightarrow> grants" where
  "control_spec suite req g =
     (if entity_add_ok suite req \<and> g (slice 16 16 req) = None then g(slice 16 16 req \<mapsto> {})
      else if capability_add_ok req then
        (case g (slice 8 16 req) of None \<Rightarrow> g | Some ks \<Rightarrow> g(slice 8 16 req \<mapsto> insert (slice 24 48 req) ks))
      else g)"

locale resource_tree_live = resource_tree +
  assumes insert_new: "lookup t k = None \<Longrightarrow> fst (tree_insert ops k r t) = AGENTD_STATUS_SUCCESS"

interpretation rbt_tree: resource_tree_live rbt_ops RBT.lookup
  by unfold_locales (simp add: rbt_ops_def)

text \<open>
  The abstraction: an entity of the dictionary has the capabilities of its tree.  The
  invariant: the dictionary points to entities that exist, each under its own uuid.
\<close>

definition control_inv :: "('t \<Rightarrow> bytes \<rightharpoonup> ps_resource) \<Rightarrow> ('t, 's) protocolservice_context \<Rightarrow> bool" where
  "control_inv lookup ctx \<longleftrightarrow> (\<forall>e r. lookup (authorized_entity_dict ctx) e = Some r \<longrightarrow>
     (\<exists>n < length (ps_entities ctx). r = Entity_ref n \<and> entity_uuid (ps_entities ctx ! n) = e))"

definition granted :: "('t \<Rightarrow> bytes \<rightharpoonup> ps_resource) \<Rightarrow> ('t, 's) protocolservice_context \<Rightarrow> grants" where
  "granted lookup ctx e =
     (case lookup (authorized_entity_dict ctx) e of
        Some (Entity_ref n) \<Rightarrow> Some (dom (lookup (capabilities (ps_entities ctx ! n))))
      | _ \<Rightarrow> None)"

lemma released_success [simp]: "released r st = AGENTD_STATUS_SUCCESS \<longleftrightarrow> r = AGENTD_STATUS_SUCCESS \<and> st = AGENTD_STATUS_SUCCESS"
  by (simp add: released_def)

lemma granted_None: "control_inv lookup ctx \<Longrightarrow> granted lookup ctx e = None \<longleftrightarrow> lookup (authorized_entity_dict ctx) e = None"
  by (fastforce simp: control_inv_def granted_def split: option.splits ps_resource.splits)

lemma granted_cong:
  "authorized_entity_dict ctx' = authorized_entity_dict ctx \<Longrightarrow> ps_entities ctx' = ps_entities ctx \<Longrightarrow>
     granted lookup ctx' = granted lookup ctx \<and> control_inv lookup ctx' = control_inv lookup ctx"
  by (simp add: fun_eq_iff granted_def control_inv_def split: option.split ps_resource.split)

context resource_tree
begin

lemma entity_add_refines:
  assumes "control_inv lookup ctx" and "protocolservice_authorized_entity_add ops env uuid enc sign ctx = (st, ctx')"
  shows "control_inv lookup ctx' \<and>
    granted lookup ctx' = (if st = AGENTD_STATUS_SUCCESS then (granted lookup ctx)(uuid \<mapsto> {}) else granted lookup ctx) \<and>
    (st = AGENTD_STATUS_SUCCESS \<longrightarrow> granted lookup ctx uuid = None)"
proof -
  let ?e = "\<lparr> entity_uuid = uuid, encryption_pubkey = enc, signing_pubkey = sign, capabilities = tree_empty ops \<rparr>"
  obtain st' dict where i: "tree_insert ops uuid (Entity_ref (length (ps_entities ctx))) (authorized_entity_dict ctx) = (st', dict)" by fastforce
  show ?thesis
  proof (cases "entity_alloc_st env = 0 \<and> tree_create_st env = 0 \<and> st' = 0")
    case True
    then have c: "st = 0" "ctx' = ctx\<lparr>authorized_entity_dict := dict, ps_entities := ps_entities ctx @ [?e]\<rparr>"
      using assms(2) i by (auto simp: protocolservice_authorized_entity_add_def protocolservice_authorized_entity_key_def Let_def)
    have l: "lookup (authorized_entity_dict ctx) uuid = None" "lookup dict = (lookup (authorized_entity_dict ctx))(uuid \<mapsto> Entity_ref (length (ps_entities ctx)))"
      using insert_law i True by blast+
    have "control_inv lookup ctx'" using assms(1) l by (auto simp: c control_inv_def nth_append split: if_splits)
    moreover have "granted lookup ctx' = (granted lookup ctx)(uuid \<mapsto> {})"
      using assms(1) l by (auto simp: c granted_def fun_eq_iff control_inv_def nth_append empty_law split: option.splits ps_resource.splits)
    moreover have "granted lookup ctx uuid = None" using l by (simp add: granted_def)
    ultimately show ?thesis using c(1) by simp
  next
    case False
    then have "st \<noteq> 0 \<and> (ctx' = ctx \<or> ctx' = ctx\<lparr>authorized_entity_dict := dict\<rparr> \<and> dict = authorized_entity_dict ctx)"
      using assms(2) i insert_kept [OF i]
      by (auto simp: protocolservice_authorized_entity_add_def protocolservice_authorized_entity_key_def Let_def split: if_splits)
    then have "st \<noteq> 0 \<and> ctx' = ctx" by auto
    then show ?thesis using assms(1) by simp
  qed
qed

lemma capability_add_refines:
  assumes inv: "control_inv lookup ctx" and len: "68 \<le> length payload"
    and d: "protocolservice_control_dispatch_auth_entity_capability_add ops ps env payload cctx ctx = (st, cctx', ctx')"
  defines "e \<equiv> slice 4 16 payload" and "k \<equiv> slice 20 48 payload"
  shows "control_inv lookup ctx' \<and>
    (granted lookup ctx' = granted lookup ctx \<or> (\<exists>ks. granted lookup ctx e = Some ks \<and> granted lookup ctx' = (granted lookup ctx)(e \<mapsto> insert k ks))) \<and>
    (st = AGENTD_STATUS_SUCCESS \<longrightarrow> (\<exists>ks. granted lookup ctx e = Some ks \<and> granted lookup ctx' = (granted lookup ctx)(e \<mapsto> insert k ks)))"
proof (cases rule: find_cases [of e "authorized_entity_dict ctx"])
  case (2 st')
  then show ?thesis using d len inv
    by (simp add: e_def protocolservice_control_dispatch_auth_entity_capability_add_def Let_def)
next
  case (1 r)
  then obtain n where n: "r = Entity_ref n" "n < length (ps_entities ctx)" "entity_uuid (ps_entities ctx ! n) = e"
    using inv by (auto simp: control_inv_def)
  let ?en = "ps_entities ctx ! n"
  have key: "slice 20 16 payload @ slice 36 16 payload @ slice 52 16 payload = k"
    using slice_concat [of 20 16 payload 16] slice_concat [of 20 32 payload 16] by (simp add: k_def flip: append_assoc)
  have g: "granted lookup ctx e = Some (dom (lookup (capabilities ?en)))" using 1 n by (simp add: granted_def)
  show ?thesis
  proof (cases "cap_alloc_st env = 0")
    case False
    then show ?thesis using d len 1 n inv
      by (simp add: e_def protocolservice_control_dispatch_auth_entity_capability_add_def protocolservice_authorized_entity_capability_create_def Let_def)
  next
    case True
    obtain st' caps where i: "tree_insert ops k (Capability_key k) (capabilities ?en) = (st', caps)" by fastforce
    let ?ctx = "ctx\<lparr>ps_entities := (ps_entities ctx)[n := ?en\<lparr>capabilities := caps\<rparr>]\<rparr>"
    have c: "ctx' = ?ctx" "st = 0 \<Longrightarrow> st' = 0"
      using d len 1 n True i key
      by (auto simp: e_def protocolservice_control_dispatch_auth_entity_capability_add_def protocolservice_authorized_entity_capability_create_def
          protocolservice_authorized_entity_capabilities_key_def capability_bytes_def Let_def split: if_splits prod.splits)
    have "entity_uuid ((ps_entities ctx)[n := ?en\<lparr>capabilities := caps\<rparr>] ! m) = entity_uuid (ps_entities ctx ! m)" for m
      using n(2) by (cases "m = n") simp_all
    then have "control_inv lookup ?ctx" using inv by (simp add: control_inv_def)
    moreover have "granted lookup ?ctx = (granted lookup ctx)(e \<mapsto> dom (lookup caps))"
    proof
      fix e'
      show "granted lookup ?ctx e' = ((granted lookup ctx)(e \<mapsto> dom (lookup caps))) e'"
      proof (cases "e' = e")
        case True
        then show ?thesis using 1 n by (simp add: granted_def)
      next
        case False
        then have "lookup (authorized_entity_dict ctx) e' \<noteq> Some (Entity_ref n)" using inv n(3) by (auto simp: control_inv_def)
        then show ?thesis using False by (auto simp: granted_def split: option.splits ps_resource.splits)
      qed
    qed
    moreover have "st' = 0 \<Longrightarrow> dom (lookup caps) = insert k (dom (lookup (capabilities ?en)))" "st' \<noteq> 0 \<Longrightarrow> caps = capabilities ?en"
      using insert_law insert_kept i by fastforce+
    moreover have "(granted lookup ctx)(e \<mapsto> dom (lookup (capabilities ?en))) = granted lookup ctx" using g by (simp add: fun_upd_idem)
    ultimately show ?thesis using c g by (cases "st' = 0") auto
  qed
qed

lemma other_controls_kept:
  "protocolservice_control_dispatch_private_key_set ps suite env payload cctx ctx = (st, cctx', ctx') \<Longrightarrow>
     authorized_entity_dict ctx' = authorized_entity_dict ctx \<and> ps_entities ctx' = ps_entities ctx"
  "protocolservice_control_dispatch_finalize ps env cctx ctx = (st, cctx', ctx') \<Longrightarrow> ctx' = ctx"
  "reject ps env req_id err cctx ctx = (st, cctx', ctx') \<Longrightarrow> ctx' = ctx \<and> (err \<noteq> 0 \<longrightarrow> st \<noteq> 0)"
  by (auto simp: protocolservice_control_dispatch_private_key_set_def protocolservice_control_dispatch_finalize_def reject_def Let_def
      split: if_splits prod.splits)

lemma dispatch_refines:
  assumes inv: "control_inv lookup ctx"
    and d: "protocolservice_control_decode_and_dispatch ops ps suite env req cctx ctx = (st, cctx', ctx')"
  shows "control_inv lookup ctx' \<and> granted lookup ctx' \<in> {granted lookup ctx, control_spec suite req (granted lookup ctx)}"
proof (cases "length req < 4")
  case True
  then show ?thesis using d inv by (simp add: protocolservice_control_decode_and_dispatch_def)
next
  case False
  let ?m = "of_net32 (take 4 req)"
  have drop: "slice off n (drop 4 req) = slice (4 + off) n req" for off n by (simp add: slice_def add.commute)
  consider (add) "?m = 0" | (cap) "?m = 1" | (other) "?m \<noteq> 0" "?m \<noteq> 1" by blast
  then show ?thesis
  proof cases
    case add
    then have d: "protocolservice_control_dispatch_auth_entity_add ops ps suite env (drop 4 req) cctx ctx = (st, cctx', ctx')"
      using d False by (simp add: protocolservice_control_decode_and_dispatch_def)
    show ?thesis
    proof (cases "entity_add_ok suite req \<and> enc_buffer_st env = 0 \<and> sign_buffer_st env = 0")
      case True
      then obtain st1 enc sign where "protocolservice_authorized_entity_add ops env (slice 16 16 req) enc sign ctx = (st1, ctx')"
        using d by (auto simp: protocolservice_control_dispatch_auth_entity_add_def entity_add_ok_def Let_def drop split: prod.splits if_splits)
      then show ?thesis using entity_add_refines [OF inv] True by (fastforce simp: control_spec_def)
    next
      case no: False
      have "ctx' = ctx"
        using d no False add
        by (auto simp: protocolservice_control_dispatch_auth_entity_add_def entity_add_ok_def Let_def drop split: if_splits
            dest: other_controls_kept(3))
      then show ?thesis using inv by simp
    qed
  next
    case cap
    then have d: "protocolservice_control_dispatch_auth_entity_capability_add ops ps env (drop 4 req) cctx ctx = (st, cctx', ctx')"
      using d False by (simp add: protocolservice_control_decode_and_dispatch_def)
    show ?thesis
    proof (cases "72 \<le> length req")
      case True
      then have "68 \<le> length (drop 4 req)" by simp
      then show ?thesis using capability_add_refines [OF inv _ d] cap True
        by (auto simp: control_spec_def entity_add_ok_def capability_add_ok_def drop)
    next
      case False
      then have "ctx' = ctx" using d
        by (auto simp: protocolservice_control_dispatch_auth_entity_capability_add_def Let_def split: if_splits dest: other_controls_kept(3))
      then show ?thesis using inv by simp
    qed
  next
    case other
    then have "authorized_entity_dict ctx' = authorized_entity_dict ctx \<and> ps_entities ctx' = ps_entities ctx"
      using d False by (auto simp: protocolservice_control_decode_and_dispatch_def Let_def split: if_splits dest: other_controls_kept)
    then show ?thesis using granted_cong [of ctx' ctx lookup] inv by simp
  qed
qed

end

text \<open>
  The requests that a control fiber has served: it goes on as long as a request returns
  success.  An entity is only left out when memory is short, which the rule excludes.
\<close>

inductive control_run ::
  "'t resource_tree_ops \<Rightarrow> 'c psock_ops \<Rightarrow> suite_sizes \<Rightarrow> bytes list \<Rightarrow> 'c protocolservice_control_fiber_context \<Rightarrow> ('t, 's) protocolservice_context \<Rightarrow> bool"
  for ops ps suite where
  start: "protocolservice_context_create env ops suite random_addr data_addr = Inr ctx \<Longrightarrow>
    control_run ops ps suite [] \<lparr> should_exit = False, controlsock = s \<rparr> ctx"
| serve: "control_run ops ps suite reqs cctx ctx \<Longrightarrow> \<not> should_exit cctx \<Longrightarrow>
    entity_alloc_st env = AGENTD_STATUS_SUCCESS \<Longrightarrow> tree_create_st env = AGENTD_STATUS_SUCCESS \<Longrightarrow>
    protocolservice_control_decode_and_dispatch ops ps suite env req (cctx\<lparr>controlsock := s\<rparr>) ctx = (AGENTD_STATUS_SUCCESS, cctx', ctx') \<Longrightarrow>
    control_run ops ps suite (reqs @ [req]) cctx' ctx'"

context resource_tree_live
begin

lemma entity_add_new:
  assumes "entity_alloc_st env = AGENTD_STATUS_SUCCESS" and "tree_create_st env = AGENTD_STATUS_SUCCESS"
    and "lookup (authorized_entity_dict ctx) uuid = None"
    and "protocolservice_authorized_entity_add ops env uuid enc sign ctx = (st, ctx')"
  shows "st = AGENTD_STATUS_SUCCESS"
  using assms insert_new [of "authorized_entity_dict ctx" uuid "Entity_ref (length (ps_entities ctx))"]
  by (auto simp: protocolservice_authorized_entity_add_def protocolservice_authorized_entity_key_def Let_def split: prod.splits if_splits)

lemma dispatch_success_refines:
  assumes inv: "control_inv lookup ctx" and env: "entity_alloc_st env = AGENTD_STATUS_SUCCESS" "tree_create_st env = AGENTD_STATUS_SUCCESS"
    and d: "protocolservice_control_decode_and_dispatch ops ps suite env req cctx ctx = (AGENTD_STATUS_SUCCESS, cctx', ctx')"
  shows "granted lookup ctx' = control_spec suite req (granted lookup ctx)"
proof -
  have drop: "slice off n (drop 4 req) = slice (4 + off) n req" for off n by (simp add: slice_def add.commute)
  have len: "4 \<le> length req" using d by (auto simp: protocolservice_control_decode_and_dispatch_def not_less split: if_splits)
  consider (add) "entity_add_ok suite req" | (cap) "capability_add_ok req" "\<not> entity_add_ok suite req"
    | (neither) "\<not> entity_add_ok suite req" "\<not> capability_add_ok req" by blast
  then show ?thesis
  proof cases
    case add
    then have "protocolservice_control_dispatch_auth_entity_add ops ps suite env (drop 4 req) cctx ctx = (0, cctx', ctx')"
      using d len by (simp add: protocolservice_control_decode_and_dispatch_def entity_add_ok_def)
    then obtain st1 enc sign where a: "protocolservice_authorized_entity_add ops env (slice 16 16 req) enc sign ctx = (st1, ctx')"
      using add
      by (auto simp: protocolservice_control_dispatch_auth_entity_add_def entity_add_ok_def Let_def drop split: prod.splits if_splits
          dest: other_controls_kept(3))
    have "granted lookup ctx (slice 16 16 req) = None \<Longrightarrow> st1 = 0" using entity_add_new [OF env _ a] by (simp add: granted_None [OF inv])
    then show ?thesis using entity_add_refines [OF inv a] add by (auto simp: control_spec_def entity_add_ok_def capability_add_ok_def)
  next
    case cap
    then have c: "protocolservice_control_dispatch_auth_entity_capability_add ops ps env (drop 4 req) cctx ctx = (0, cctx', ctx')"
      using d len by (simp add: protocolservice_control_decode_and_dispatch_def capability_add_ok_def)
    have "68 \<le> length (drop 4 req)" using cap unfolding capability_add_ok_def by simp linarith
    from capability_add_refines [OF inv this c] show ?thesis using cap by (auto simp: control_spec_def capability_add_ok_def drop)
  next
    case neither
    then show ?thesis using dispatch_refines [OF inv d] by (simp add: control_spec_def)
  qed
qed

lemma run_refines:
  assumes "control_run ops ps suite reqs cctx ctx"
  shows "control_inv lookup ctx \<and> granted lookup ctx = fold (control_spec suite) reqs Map.empty"
  using assms
proof (induction rule: control_run.induct)
  case (start env random_addr data_addr ctx s)
  then have "lookup (authorized_entity_dict ctx) = Map.empty"
    by (auto simp: protocolservice_context_create_def empty_law Let_def split: if_splits)
  then show ?case by (simp add: control_inv_def granted_def fun_eq_iff)
next
  case (serve reqs cctx ctx env req s cctx' ctx')
  then have "control_inv lookup ctx" "granted lookup ctx = fold (control_spec suite) reqs Map.empty" by simp_all
  then show ?case using dispatch_refines [OF _ serve.hyps(5)] dispatch_success_refines [OF _ serve.hyps(3-5)] by simp
qed

end

subsection \<open>Properties\<close>

text \<open>
  C5. After the control fiber has accepted a sequence of requests, an entity is in the
  dictionary exactly when a request added it, and the check that guards every operation
  of a client succeeds for a subject, verb and object exactly when the requests gave
  this capability to the entity.  The tree library is any that behaves as a map.
\<close>

theorem capabilities_as_configured:
  assumes "resource_tree_live ops lookup"
    and "control_run ops ps suite reqs cctx ctx"
  defines "spec \<equiv> fold (control_spec suite) reqs Map.empty"
  shows "case tree_find ops e (authorized_entity_dict ctx) of
      Inl _ \<Rightarrow> spec e = None
    | Inr r \<Rightarrow> \<exists>n ks. r = Entity_ref n \<and> n < length (ps_entities ctx) \<and> entity_uuid (ps_entities ctx ! n) = e \<and> spec e = Some ks \<and>
        (\<forall>s v o'. protocolservice_authorized_entity_capability_check ops (ps_entities ctx ! n) s v o' = (s @ v @ o' \<in> ks))"
proof -
  note run = resource_tree_live.run_refines [OF assms(1,2)]
  have t: "resource_tree ops lookup" using assms(1) by (rule resource_tree_live.axioms)
  show ?thesis
  proof (cases rule: resource_tree.find_cases [OF t, of e "authorized_entity_dict ctx"])
    case (2 st)
    then show ?thesis using run granted_None [of lookup ctx e] by (simp add: spec_def)
  next
    case (1 r)
    then obtain n where n: "r = Entity_ref n" "n < length (ps_entities ctx)" "entity_uuid (ps_entities ctx ! n) = e"
      using run by (auto simp: control_inv_def)
    have "spec e = Some (dom (lookup (capabilities (ps_entities ctx ! n))))" 
      using run 1 n granted_def [of lookup ctx e] by (simp add: spec_def)
    moreover have "protocolservice_authorized_entity_capability_check ops (ps_entities ctx ! n) s v o' =
        (s @ v @ o' \<in> dom (lookup (capabilities (ps_entities ctx ! n))))" for s v o'
      by (cases rule: resource_tree.find_cases [OF t, of "s @ v @ o'" "capabilities (ps_entities ctx ! n)"])
        (auto simp: protocolservice_authorized_entity_capability_check_def capability_bytes_def)
    ultimately show ?thesis using 1 n by simp
  qed
qed

text \<open>
  A control socket that records what is written to it, and a configuration that names
  one entity and gives it one capability.
\<close>

definition log_psock :: "bytes list psock_ops" where
  "log_psock = \<lparr> psock_write_boxed_data = (\<lambda>b log. (AGENTD_STATUS_SUCCESS, log @ [b])),
                 psock_read_boxed_data = (\<lambda>log. (Inl 1, log)),
                 rcpr_allocator_reclaim = (\<lambda>log. (AGENTD_STATUS_SUCCESS, log)) \<rparr>"

definition control_env_ok :: control_env where
  "control_env_ok = \<lparr> resp_alloc_st = 0, enc_buffer_st = 0, sign_buffer_st = 0, entity_alloc_st = 0, tree_create_st = 0,
                      cap_alloc_st = 0, ctl_release_st = 0 \<rparr>"

definition context_env_ok :: context_env where
  "context_env_ok = \<lparr> ctx_alloc_st = 0, msgdisc_st = 0, entity_tree_st = 0, api_tree_st = 0, suite_st = 0,
                      key_buffer_st = (\<lambda>_. 0), ctx_release_st = 0 \<rparr>"

definition sample_suite :: suite_sizes where
  "sample_suite = \<lparr> enc_public_key_size = 2, enc_private_key_size = 2, sign_public_key_size = 2, sign_private_key_size = 2 \<rparr>"

definition sample_requests :: "bytes list" where
  "sample_requests =
     [entity_add_request (replicate 16 7) [1, 2] [3, 4],
      capability_add_request (replicate 16 7) (replicate 16 7) PROTOCOLSERVICE_API_CAPABILITY_BLOCK_READ (replicate 16 9)]"

fun serve_requests ::
  "bytes list \<Rightarrow> bytes list protocolservice_control_fiber_context \<Rightarrow> ((bytes, ps_resource) rbt, unit) protocolservice_context \<Rightarrow>
     status \<times> bytes list protocolservice_control_fiber_context \<times> ((bytes, ps_resource) rbt, unit) protocolservice_context" where
  "serve_requests [] cctx ctx = (0, cctx, ctx)"
| "serve_requests (r # rs) cctx ctx =
     (case protocolservice_control_decode_and_dispatch rbt_ops log_psock sample_suite control_env_ok r cctx ctx of (st, cctx, ctx) \<Rightarrow>
      if st \<noteq> 0 \<or> should_exit cctx then (st, cctx, ctx) else serve_requests rs cctx ctx)"

lemma serve_requests_run:
  assumes "control_run rbt_ops log_psock sample_suite done cctx ctx" and "\<not> should_exit cctx"
    and "serve_requests rs cctx ctx = (0, cctx', ctx')" and "\<not> should_exit cctx'"
  shows "control_run rbt_ops log_psock sample_suite (done @ rs) cctx' ctx'"
  using assms
proof (induction rs arbitrary: "done" cctx ctx)
  case (Cons r rs)
  obtain st c1 x1 where d: "protocolservice_control_decode_and_dispatch rbt_ops log_psock sample_suite control_env_ok r cctx ctx = (st, c1, x1)"
    using prod_cases3 by blast
  have st: "st = 0" "\<not> should_exit c1" using Cons.prems(3,4) d by (auto split: if_splits)
  have "protocolservice_control_decode_and_dispatch rbt_ops log_psock sample_suite control_env_ok r (cctx\<lparr>controlsock := controlsock cctx\<rparr>) ctx = (0, c1, x1)"
    using d st by simp
  then have "control_run rbt_ops log_psock sample_suite (done @ [r]) c1 x1"
    using control_run.serve [OF Cons.prems(1,2), of control_env_ok r "controlsock cctx" c1 x1] by (simp add: control_env_ok_def)
  then show ?case using Cons.IH [of "done @ [r]" c1 x1] Cons.prems st d by simp
qed simp

definition sample_ctx :: "((bytes, ps_resource) rbt, unit) protocolservice_context" where
  "sample_ctx = (case protocolservice_context_create context_env_ok rbt_ops sample_suite 1 2 of Inr c \<Rightarrow> c)"

definition sample_control :: "bytes list protocolservice_control_fiber_context" where
  "sample_control = \<lparr> should_exit = False, controlsock = [] \<rparr>"

definition sample_configured :: "((bytes, ps_resource) rbt, unit) protocolservice_context" where
  "sample_configured = snd (snd (serve_requests sample_requests sample_control sample_ctx))"

lemma sample_served:
  "fst (serve_requests sample_requests sample_control sample_ctx) = 0"
  "\<not> should_exit (fst (snd (serve_requests sample_requests sample_control sample_ctx)))"
  by code_simp+

lemma sample_run: "control_run rbt_ops log_psock sample_suite sample_requests (fst (snd (serve_requests sample_requests sample_control sample_ctx))) sample_configured"
proof -
  have "protocolservice_context_create context_env_ok rbt_ops sample_suite 1 2 = Inr sample_ctx"
    by (simp add: sample_ctx_def protocolservice_context_create_def context_env_ok_def)
  then have "control_run rbt_ops log_psock sample_suite [] sample_control sample_ctx"
    unfolding sample_control_def by (rule control_run.start)
  from serve_requests_run [OF this] show ?thesis
    using sample_served by (simp add: sample_configured_def sample_control_def prod_eq_iff)
qed

lemma sample_spec:
  "fold (control_spec sample_suite) sample_requests Map.empty (replicate 16 7) =
     Some {replicate 16 7 @ PROTOCOLSERVICE_API_CAPABILITY_BLOCK_READ @ replicate 16 9}"
  by code_simp

lemma sample_found: "tree_find rbt_ops (replicate 16 7) (authorized_entity_dict sample_configured) = Inr (Entity_ref 0)"
  by code_simp

theorem capabilities_as_configured_witness:
  "protocolservice_authorized_entity_capability_check rbt_ops (ps_entities sample_configured ! 0)
     (replicate 16 7) PROTOCOLSERVICE_API_CAPABILITY_BLOCK_READ (replicate 16 9) \<and>
   \<not> protocolservice_authorized_entity_capability_check rbt_ops (ps_entities sample_configured ! 0)
     (replicate 16 7) PROTOCOLSERVICE_API_CAPABILITY_TRANSACTION_SUBMIT (replicate 16 9)"
  using capabilities_as_configured [OF rbt_tree.resource_tree_live_axioms sample_run, of "replicate 16 7"]
  by (simp add: sample_found sample_spec protocol_capabilities)

text \<open>
  An entity that cannot be added is not reported to the fiber: the error is written to
  the supervisor, and when that works the handler returns success.
\<close>

lemma failed_entity_add_hidden:
  "fst (protocolservice_control_decode_and_dispatch rbt_ops log_psock sample_suite (control_env_ok\<lparr>entity_alloc_st := 5\<rparr>)
          (hd sample_requests) sample_control sample_ctx) = AGENTD_STATUS_SUCCESS"
  by code_simp

end
