(* ===== verification/Proto_Endpoint_Correct.thy ===== *)
theory Proto_Endpoint_Correct
  imports Proto_Endpoint Proto_Control_Correct Ds_Rpc Ds_Service
begin

text \<open>
  The protocol service and the data service together: what a connection may do in the
  data service is what its entity was granted.  The socket of the data endpoint leads to
  the model of the data service, which dispatches a packet when it is written and keeps
  the reply until it is read.
\<close>

subsection \<open>The data service behind the data endpoint\<close>

definition ds_psock ::
  "('e, 'x) lmdb \<Rightarrow> vccert \<Rightarrow> bytes \<Rightarrow> bool \<Rightarrow> ('e dataservice_instance \<times> bytes list) psock_ops" where
  "ds_psock lmdb vc root_block att =
     \<lparr> psock_write_boxed_data = (\<lambda>req (inst, out).
         case dataservice_decode_and_dispatch lmdb vc root_block att env_ok inst req of
           None \<Rightarrow> (AGENTD_ERROR_IPC_WRITE_BLOCK_FAILURE, inst, out)
         | Some (_, resp, inst') \<Rightarrow> (AGENTD_STATUS_SUCCESS, inst', out @ resp)),
       psock_read_boxed_data = (\<lambda>(inst, out). case out of [] \<Rightarrow> (Inl AGENTD_ERROR_IPC_READ_BLOCK_FAILURE, inst, []) | p # ps \<Rightarrow> (Inr p, inst, ps)),
       rcpr_allocator_reclaim = (\<lambda>s. (AGENTD_STATUS_SUCCESS, s)) \<rparr>"

lemma ds_psock_write:
  "psock_write_boxed_data (ds_psock lmdb vc root_block att) req (inst, out) = (AGENTD_STATUS_SUCCESS, s) \<longleftrightarrow>
     (\<exists>st resp inst'. dataservice_decode_and_dispatch lmdb vc root_block att env_ok inst req = Some (st, resp, inst') \<and> s = (inst', out @ resp))"
  by (auto simp: ds_psock_def split: option.splits prod.splits)

lemma ds_psock_read [simp]:
  "psock_read_boxed_data (ds_psock lmdb vc root_block att) (inst, p # ps) = (Inr p, inst, ps)"
  "psock_read_boxed_data (ds_psock lmdb vc root_block att) (inst, []) = (Inl AGENTD_ERROR_IPC_READ_BLOCK_FAILURE, inst, [])"
  "rcpr_allocator_reclaim (ds_psock lmdb vc root_block att) s = (AGENTD_STATUS_SUCCESS, s)"
  by (simp_all add: ds_psock_def)

subsection \<open>The capabilities of a connection\<close>

definition capability_verbs :: "(nat \<times> bytes) list" where
  "capability_verbs =
     [(DATASERVICE_API_CAP_APP_BLOCK_ID_LATEST_READ, PROTOCOLSERVICE_API_CAPABILITY_BLOCK_ID_LATEST_READ),
      (DATASERVICE_API_CAP_APP_PQ_TRANSACTION_SUBMIT, PROTOCOLSERVICE_API_CAPABILITY_TRANSACTION_SUBMIT),
      (DATASERVICE_API_CAP_APP_BLOCK_READ, PROTOCOLSERVICE_API_CAPABILITY_BLOCK_READ),
      (DATASERVICE_API_CAP_APP_BLOCK_ID_BY_HEIGHT_READ, PROTOCOLSERVICE_API_CAPABILITY_BLOCK_ID_BY_HEIGHT_READ),
      (DATASERVICE_API_CAP_APP_TRANSACTION_READ, PROTOCOLSERVICE_API_CAPABILITY_TRANSACTION_READ),
      (DATASERVICE_API_CAP_APP_ARTIFACT_READ, PROTOCOLSERVICE_API_CAPABILITY_ARTIFACT_READ)]"

text \<open>
  What an entity may do on the agent: closing its context is always allowed, every other
  operation needs the capability with the verb of the operation.
\<close>

definition entity_may ::
  "'t resource_tree_ops \<Rightarrow> 't protocolservice_authorized_entity \<Rightarrow> bytes \<Rightarrow> bytes \<Rightarrow> nat \<Rightarrow> bool" where
  "entity_may ops entity uuid agent b \<longleftrightarrow> b = DATASERVICE_API_CAP_LL_CHILD_CONTEXT_CLOSE \<or>
     (\<exists>(c, verb) \<in> set capability_verbs. c = b \<and> protocolservice_authorized_entity_capability_check ops entity uuid verb agent)"

lemma isset_granted:
  assumes "length caps = 1" and "c < 32"
  shows "BITCAP_ISSET (if p then BITCAP_SET_TRUE caps c else caps) b \<longleftrightarrow> p \<and> b = c \<or> BITCAP_ISSET caps b"
    and "length (if p then BITCAP_SET_TRUE caps c else caps) = 1"
  using assms by (auto simp: BITCAP_ISSET_SET_TRUE)

lemma mapped_capabilities:
  assumes "protocolservice_dataservice_map_user_capabilities ops st i ctx = Inr caps"
    and "tree_find ops (fiber_entity_uuid (ps_fibers ctx ! i)) (authorized_entity_dict ctx) = Inr (Entity_ref n)"
  shows "length caps = 1 \<and> (b < 32 \<longrightarrow> (BITCAP_ISSET caps b \<longleftrightarrow>
     entity_may ops (ps_entities ctx ! n) (fiber_entity_uuid (ps_fibers ctx ! i)) (agentd_uuid ctx) b))"
  using assms BITCAP_ISSET_INIT_FALSE [of b "[0]"]
  by (auto simp: protocolservice_dataservice_map_user_capabilities_def Let_def isset_granted BITCAP_ISSET_SET_TRUE
      entity_may_def capability_verbs_def split: if_split_asm)

lemma words_of_mem32 [simp]: "words_of (concat (map mem32 caps)) = caps"
proof (induction caps)
  case (Cons w caps)
  have "length (mem32 w) = Suc (Suc (Suc (Suc 0)))" by simp
  then obtain a b c d where m: "mem32 w = [a, b, c, d]" unfolding length_Suc_conv length_0_conv by blast
  have "of_mem32 [a, b, c, d] = w" using arg_cong [OF m, of of_mem32] by simp
  then show ?case using Cons m by simp
qed simp

subsection \<open>The child context of a connection\<close>

text \<open>A child context that has no more than the given capabilities.\<close>

definition child_within :: "'e dataservice_instance \<Rightarrow> 32 word \<Rightarrow> bitcap \<Rightarrow> bool" where
  "child_within inst c caps \<longleftrightarrow>
     (\<exists>child. dataservice_child_context_lookup inst c = Inr child \<and> (\<forall>b < 32. BITCAP_ISSET (childcaps child) b \<longrightarrow> BITCAP_ISSET caps b))"

lemma child_context_create_within:
  assumes "dataservice_child_context_create root child caps = (AGENTD_STATUS_SUCCESS, child')"
    and "length (apicaps root) = 1" and "length caps = 1" and "b < 32" and "BITCAP_ISSET (childcaps child') b"
  shows "BITCAP_ISSET caps b"
  using assms bitcap32.reduced_child [of "apicaps root" caps 2 b]
  by (auto simp: dataservice_child_context_create_def Let_def split: if_splits)

lemma child_created:
  assumes d: "dataservice_decode_and_dispatch_child_context_create env_ok inst (concat (map mem32 caps)) = Some (st, out, inst')"
    and ok: "slots_ok inst" and root: "length (apicaps (inst_ctx inst)) = 1" and caps: "length caps = 1"
  obtains st' where "out = [response_packet DATASERVICE_API_METHOD_LL_CHILD_CONTEXT_CREATE 0 st' None]" and "st' \<noteq> AGENTD_STATUS_SUCCESS"
      and "child_head inst = None \<or> \<not> BITCAP_ISSET (apicaps (inst_ctx inst)) DATASERVICE_API_CAP_LL_CHILD_CONTEXT_CREATE"
  | c where "out = [response_packet DATASERVICE_API_METHOD_LL_CHILD_CONTEXT_CREATE 0 AGENTD_STATUS_SUCCESS (Some (net32 c))]"
      and "child_within inst' c caps" and "unat c \<notin> opened_slots inst" and "unat c \<in> opened_slots inst'"
proof -
  have dec: "\<exists>r. dataservice_decode_request_child_context_create (concat (map mem32 caps)) = Inr r \<and> req_caps r = caps"
    using caps by (auto simp: dataservice_decode_request_child_context_create_def codec_defs length_Suc_conv)
  then obtain r where r: "dataservice_decode_request_child_context_create (concat (map mem32 caps)) = Inr r" "req_caps r = caps" by blast
  obtain s1 inst1 i where c: "dataservice_child_details_create inst = (s1, inst1, i)" by (metis prod.collapse)
  show thesis
  proof (cases "s1 = 0")
    case False
    then have full: "child_head inst = None" using c by (auto simp: dataservice_child_details_create_def split: option.splits)
    have "out = [response_packet 2 0 AGENTD_ERROR_DATASERVICE_CHILD_CONTEXT_MAX_REACHED None]"
      using False d r c by (auto simp: dataservice_decode_and_dispatch_child_context_create_def Let_def reply_with_packet)
    then show thesis by (rule that(1)) (simp_all add: full)
  next
    case True
    note cr = create_child_step [OF ok c [unfolded True]]
    let ?ctx = "child_context_zero\<lparr>childcaps := BITCAP_SET_TRUE (childcaps child_context_zero) 2\<rparr>"
    obtain s2 ctx where cc: "dataservice_child_context_create (inst_ctx inst1) ?ctx caps = (s2, ctx)" by fastforce
    show thesis
    proof (cases "s2 = 0")
      case False
      then have no: "\<not> BITCAP_ISSET (apicaps (inst_ctx inst)) 2"
        using cc cr(4) by (auto simp: dataservice_child_context_create_def Let_def child_context_zero_def
            BITCAP_ISSET_SET_TRUE split: if_splits)
      have "out = [response_packet 2 0 AGENTD_ERROR_DATASERVICE_CHILD_CONTEXT_CREATE_FAILURE None]"
        using False d r c True cr(7) cc by (auto simp: dataservice_decode_and_dispatch_child_context_create_def Let_def reply_with_packet)
      then show thesis by (rule that(1)) (simp_all add: no)
    next
      case s2: True
      have res: "out = [response_packet 2 0 0 (Some (net32 (of_nat i)))]" "inst' = set_child_ctx inst1 i ctx"
        using d r c True cr(7) cc s2
        by (auto simp: dataservice_decode_and_dispatch_child_context_create_def Let_def reply_with_packet
            dataservice_encode_response_child_context_create_def response_payload_def)
      have un: "unat (of_nat i :: 32 word) = i" using cr(6) by (simp add: unat_of_nat)
      have len: "i < length (children inst1)" using cr(6) slots_ok_length [OF cr(1)] by simp
      have "child_dispose (children inst1 ! i)" using cr(2) by (auto simp: opened_slots_def)
      then have "dataservice_child_context_lookup inst' (of_nat i) = Inr ctx"
        using cr(6) len by (simp add: dataservice_child_context_lookup_def un res(2) set_child_ctx_def)
      moreover have "BITCAP_ISSET (childcaps ctx) b \<longrightarrow> BITCAP_ISSET caps b" if "b < 32" for b
        using child_context_create_within [OF cc [unfolded s2] _ caps that] root cr(4) by simp
      ultimately have "child_within inst' (of_nat i) caps" by (auto simp: child_within_def)
      moreover have "i \<in> opened_slots inst'" using cr(2) slots_ok_set_child_ctx(2) [OF cr(1) len] res(2) by simp
      ultimately show thesis using that(2) [OF res(1)] cr(3) un by simp
    qed
  qed
qed

lemma dispatch_child_create:
  "dataservice_decode_and_dispatch lmdb vc root_block att env inst (net32 DATASERVICE_API_METHOD_LL_CHILD_CONTEXT_CREATE @ req) =
     dataservice_decode_and_dispatch_child_context_create env inst req"
  by (simp add: dataservice_decode_and_dispatch_def Let_def)

lemma refused_create_response:
  "st \<noteq> AGENTD_STATUS_SUCCESS \<Longrightarrow>
     dataservice_decode_response_child_context_create (response_packet DATASERVICE_API_METHOD_LL_CHILD_CONTEXT_CREATE i st None) =
     Inr (\<lparr> method_code = DATASERVICE_API_METHOD_LL_CHILD_CONTEXT_CREATE, resp_offset = i, resp_status = st \<rparr>, None)"
  by (simp add: dataservice_decode_response_child_context_create_def with_response_def Let_def)

lemmas open_calls = dataservice_api_sendreq_child_context_create_def dataservice_api_recvresp_child_context_create_def
  sendreq_psock_def recvresp_psock_def recv_value_def dataservice_encode_request_child_context_create_def request_buffer_def

context resource_tree
begin

text \<open>A context that was opened is the one the endpoint keeps for the connection.\<close>

lemma context_opened:
  assumes h: "pde_decode_and_dispatch_req_context_open ops (ds_psock lmdb vc root_block att) env req ret ep = (AGENTD_STATUS_SUCCESS, Some m, ep')"
    and sock: "datasock ep = (inst, [])" and payload: "dreq_payload req = concat (map mem32 caps)"
    and ok: "slots_ok inst" and root: "length (apicaps (inst_ctx inst)) = 1" and caps: "length caps = 1"
  shows "\<exists>inst' c. datasock ep' = (inst', []) \<and> child_within inst' c caps \<and>
     lookup (mailbox_context_tree ep') (mem64 (dreq_data req)) = Some (Mailbox_context (dreq_data req) c)"
proof -
  let ?ps = "ds_psock lmdb vc root_block att"
  obtain st out inst' where d: "dataservice_decode_and_dispatch_child_context_create env_ok inst (concat (map mem32 caps)) = Some (st, out, inst')"
    using child_create_returns [OF ok, of env_ok "concat (map mem32 caps)"] by (metis not_None_eq prod.exhaust)
  have w: "psock_write_boxed_data ?ps (net32 2 @ concat (map mem32 caps)) (inst, []) = (0, inst', out)"
    using d dispatch_child_create [of lmdb vc root_block att env_ok inst "concat (map mem32 caps)"] by (simp add: ds_psock_write)
  from d ok root caps show ?thesis
  proof (cases rule: child_created)
    case (1 st')
    then show ?thesis using h sock payload w
      by (simp add: pde_decode_and_dispatch_req_context_open_def open_calls refused_create_response Let_def split: if_splits prod.splits)
  next
    case (2 c)
    then show ?thesis using h sock payload w child_context_create_response
      by (auto simp: pde_decode_and_dispatch_req_context_open_def open_calls Let_def protocolservice_dataservice_endpoint_mailbox_context_tree_key_def
          dest: insert_result split: if_splits prod.splits sum.splits)
  qed
qed

text \<open>A request of the connection runs in that context, whatever child index it carries.\<close>

lemma request_confined:
  assumes t: "lookup (mailbox_context_tree ep) (mem64 addr) = Some (Mailbox_context addr c)"
    and sock: "datasock ep = (inst, [])" and within: "child_within inst c caps"
    and len: "8 \<le> length (dreq_payload req)" and m: "of_net32 (take 4 (dreq_payload req)) \<in> set child_methods"
    and no: "\<not> BITCAP_ISSET caps (unat (of_net32 (take 4 (dreq_payload req))))"
    and h: "pde_decode_and_dispatch_req_dataservice_req ops (ds_psock lmdb vc root_block att) env req addr ep = Some (st, reply, ep')"
  shows "ep' = ep \<and> (case reply of None \<Rightarrow> True | Some r \<Rightarrow>
     pwe_message_type r = PROTOCOLSERVICE_PROTOCOL_WRITE_ENDPOINT_DATASERVICE_MSG \<and> pwe_offset r = dreq_offset req \<and>
     (\<exists>offset err. err \<noteq> AGENTD_STATUS_SUCCESS \<and>
        pwe_payload r = response_packet (of_net32 (take 4 (dreq_payload req))) offset err None)) \<and>
     (payload_st (reply_env env) = AGENTD_STATUS_SUCCESS \<and> encode_st (reply_env env) = AGENTD_STATUS_SUCCESS \<longrightarrow>
        st = AGENTD_STATUS_SUCCESS \<and> reply \<noteq> None)"
proof -
  let ?b = "store_at 4 (net32 c) (dreq_payload req)" and ?meth = "of_net32 (take 4 (dreq_payload req))"
  obtain child where l: "dataservice_child_context_lookup inst c = Inr child"
    and sub: "\<forall>b < 32. BITCAP_ISSET (childcaps child) b \<longrightarrow> BITCAP_ISSET caps b"
    using within by (auto simp: child_within_def)
  have head: "take 4 ?b = take 4 (dreq_payload req)" using len by (simp add: store_at_def)
  have rc: "request_child ?b = c" using len by (simp add: request_child_def)
  have "unat ?meth < 32" using m by (auto simp: child_methods_def)
  then have "\<not> BITCAP_ISSET (childcaps child) (unat ?meth)" using no sub by blast
  then have "refused env_ok ?meth inst (dataservice_decode_and_dispatch lmdb vc root_block att env_ok inst ?b)"
    using dispatch_unauthorized [of ?b inst child env_ok lmdb vc root_block att] l m len by (simp add: head rc)
  then obtain offset err where err: "err \<noteq> AGENTD_STATUS_SUCCESS"
    and w: "psock_write_boxed_data (ds_psock lmdb vc root_block att) ?b (inst, []) =
      (AGENTD_STATUS_SUCCESS, inst, [response_packet ?meth offset err None])"
    by (auto simp: refused_def ds_psock_write reply_with_packet)
  have f: "tree_find ops (mem64 addr) (mailbox_context_tree ep) = Inr (Mailbox_context addr c)" using t find_law by blast
  have ep: "ep\<lparr>datasock := (inst, [])\<rparr> = ep" using sock by (cases ep) simp
  show ?thesis using h err
    by (auto simp: pde_decode_and_dispatch_req_dataservice_req_def f w sock ep Let_def released_def
        protocolservice_protocol_write_endpoint_message_create_def split: sum.splits if_splits) blast
qed

end

text \<open>A connection with a context that sends a request of less than eight bytes has the index stored past its end.\<close>

lemma short_request_undefined:
  "tree_find ops (mem64 addr) (mailbox_context_tree ep) = Inr entry \<Longrightarrow> length (dreq_payload req) < 8 \<Longrightarrow>
     pde_decode_and_dispatch_req_dataservice_req ops ps env req addr ep = None"
  by (simp add: pde_decode_and_dispatch_req_dataservice_req_def)

end
