(* ===== verification/Proto_Confined.thy ===== *)
theory Proto_Confined
  imports Proto_Endpoint_Correct
begin

text \<open>
  The data endpoint over any sequence of the messages it is sent.  The endpoint keeps one
  child context of the data service per connection; here: contexts of different connections
  are different, the requests, the opening and the closing of other connections leave the
  context of a connection alone, so that every later request of the connection is confined
  to the capabilities that its context was opened with.
\<close>

subsection \<open>Child contexts that stay\<close>

text \<open>The open child contexts stay open and as they are; others may have been opened.\<close>

definition children_kept :: "'e dataservice_instance \<Rightarrow> 'e dataservice_instance \<Rightarrow> bool" where
  "children_kept inst inst' \<longleftrightarrow> slots_ok inst' \<and> length (apicaps (inst_ctx inst')) = length (apicaps (inst_ctx inst)) \<and>
     (\<forall>i \<in> opened_slots inst. i \<in> opened_slots inst' \<and> child_ctx (children inst' ! i) = child_ctx (children inst ! i))"

lemma children_kept_refl: "slots_ok inst \<Longrightarrow> children_kept inst inst"
  by (simp add: children_kept_def)

lemma frame_kept: "db_frame inst inst' \<Longrightarrow> slots_ok inst \<Longrightarrow> children_kept inst inst'"
  using slots_cong [of inst' inst] by (auto simp: db_frame_def children_kept_def)

lemma lookup_opened:
  "slots_ok inst \<Longrightarrow> dataservice_child_context_lookup inst c = Inr child \<longleftrightarrow>
     unat c \<in> opened_slots inst \<and> child = child_ctx (children inst ! unat c)"
  using slots_ok_length [of inst] by (auto simp: dataservice_child_context_lookup_def opened_slots_def)

lemma within_kept:
  assumes "child_within inst c caps" and "slots_ok inst" and "slots_ok inst'" and "unat c \<in> opened_slots inst'"
    and "child_ctx (children inst' ! unat c) = child_ctx (children inst ! unat c)"
  shows "child_within inst' c caps"
  using assms by (auto simp: child_within_def lookup_opened)

lemma create_keeps:
  assumes h: "dataservice_decode_and_dispatch_child_context_create env inst req = Some (st, out, inst')" and ok: "slots_ok inst"
  shows "children_kept inst inst'"
proof (cases "dataservice_decode_request_child_context_create req")
  case (Inl st')
  then show ?thesis using h ok
    by (auto simp: dataservice_decode_and_dispatch_child_context_create_def Let_def children_kept_refl dest!: reply_with_Pair)
next
  case (Inr dreq)
  obtain s1 inst1 i where c: "dataservice_child_details_create inst = (s1, inst1, i)" by (metis prod.collapse)
  show ?thesis
  proof (cases "s1 = 0")
    case False
    then have "inst1 = inst" using c by (auto simp: dataservice_child_details_create_def split: option.splits)
    then show ?thesis using h ok False Inr c
      by (auto simp: dataservice_decode_and_dispatch_child_context_create_def Let_def children_kept_refl dest!: reply_with_Pair)
  next
    case True
    note cr = create_child_step [OF ok c [unfolded True]]
    have len: "i < length (children inst1)" using cr(6) slots_ok_length [OF cr(1)] by simp
    have other: "children (set_child_ctx inst1 i x) ! j = children inst ! j" if "j \<in> opened_slots inst" for j x
    proof -
      have "j \<noteq> i" using that cr(3) by blast
      then show ?thesis using cr(5) by (simp add: set_child_ctx_def)
    qed
    have kept: "children_kept inst (set_child_ctx inst1 i x)" for x
      using slots_ok_set_child_ctx [OF cr(1) len, of x] cr(2,4) other [of _ x] by (simp add: children_kept_def) (simp add: set_child_ctx_def)
    have deleted: "children_kept inst inst'" if "dataservice_child_details_delete (set_child_ctx inst1 i x) i = Some inst'" for x
    proof -
      note dl = delete_child_step [OF slots_ok_set_child_ctx(1) [OF cr(1) len] that]
      have "children inst' ! j = children (set_child_ctx inst1 i x) ! j" if "j \<in> opened_slots inst" for j
        using that dl(4) cr(3) by metis
      then show ?thesis using dl(1-3) kept [of x] cr(3) by (auto simp: children_kept_def)
    qed
    show ?thesis using h kept deleted Inr c True
      by (auto simp: dataservice_decode_and_dispatch_child_context_create_def Let_def
          dest!: reply_with_Pair split: if_splits sum.splits prod.splits)
  qed
qed

text \<open>Closing a context closes this one, or none when it is refused.\<close>

lemma close_effect:
  assumes h: "dataservice_decode_and_dispatch lmdb vc root_block att env_ok inst (net32 DATASERVICE_API_METHOD_LL_CHILD_CONTEXT_CLOSE @ net32 c) = Some (st, out, inst')"
    and ok: "slots_ok inst"
  obtains st' offset where "out = [response_packet DATASERVICE_API_METHOD_LL_CHILD_CONTEXT_CLOSE offset st' None]"
    and "if st' = AGENTD_STATUS_SUCCESS
         then slots_ok inst' \<and> inst_ctx inst' = inst_ctx inst \<and> opened_slots inst' = opened_slots inst - {unat c} \<and>
              (\<forall>j. j \<noteq> unat c \<longrightarrow> children inst' ! j = children inst ! j)
         else inst' = inst"
proof -
  have d: "dataservice_decode_and_dispatch lmdb vc root_block att env_ok inst (net32 3 @ net32 c) =
      dataservice_decode_and_dispatch_child_context_close env_ok inst (net32 c)"
    by (simp add: dataservice_decode_and_dispatch_def Let_def)
  have dec: "\<exists>r. dataservice_decode_request_child_context_close (net32 c) = Inr r \<and> child_index r = c"
    by (auto simp: dataservice_decode_request_child_context_close_def codec_defs)
  then obtain r where r: "dataservice_decode_request_child_context_close (net32 c) = Inr r" "child_index r = c" by blast
  show thesis
  proof (cases "dataservice_child_context_lookup inst c")
    case (Inl e)
    then have "out = [response_packet 3 c e None] \<and> inst' = inst"
      using h d r by (auto simp: dataservice_decode_and_dispatch_child_context_close_def run_request_def)
    moreover have "e \<noteq> 0" using Inl by (auto simp: dataservice_child_context_lookup_def split: if_splits)
    ultimately show thesis using that by auto
  next
    case (Inr child)
    then have c: "unat c \<in> opened_slots inst" "child = child_ctx (children inst ! unat c)" using lookup_opened [OF ok] by auto
    have len: "unat c < length (children inst)" using c(1) by (simp add: opened_slots_def)
    show thesis
    proof (cases "BITCAP_ISSET (childcaps child) 3")
      case False
      have "set_child_ctx inst (unat c) child = inst" using c len by (simp add: set_child_ctx_def)
      then have "out = [response_packet 3 c AGENTD_ERROR_DATASERVICE_CHILD_DETAILS_DELETE_FAILURE None] \<and> inst' = inst"
        using h d r Inr False
        by (auto simp: dataservice_decode_and_dispatch_child_context_close_def run_request_def dataservice_child_context_close_def)
      then show thesis using that [of c AGENTD_ERROR_DATASERVICE_CHILD_DETAILS_DELETE_FAILURE] by simp
    next
      case True
      let ?i = "set_child_ctx inst (unat c) child_context_zero"
      note sc = slots_ok_set_child_ctx [OF ok len, of child_context_zero]
      obtain dl where dl: "dataservice_child_details_delete ?i (unat c) = Some dl" "out = [response_packet 3 c 0 None]" "inst' = dl"
        using h d r Inr True
        by (auto simp: dataservice_decode_and_dispatch_child_context_close_def run_request_def dataservice_child_context_close_def
            split: option.splits)
      note del = delete_child_step [OF sc(1) dl(1)]
      show thesis using that [of c 0] dl del sc(2) by (auto simp: set_child_ctx_def)
    qed
  qed
qed

subsection \<open>The contexts of the connections\<close>

text \<open>
  The entries of the endpoint: each is of an open child context and stands under the
  mailbox it is of, and no child context is that of two mailboxes.
\<close>

definition entries_ok :: "(bytes \<rightharpoonup> ps_resource) \<Rightarrow> nat set \<Rightarrow> bool" where
  "entries_ok m opened \<longleftrightarrow>
     (\<forall>k r. m k = Some r \<longrightarrow> (\<exists>a c. r = Mailbox_context a c \<and> k = mem64 a \<and> unat c \<in> opened)) \<and>
     (\<forall>k k' a a' c. m k = Some (Mailbox_context a c) \<and> m k' = Some (Mailbox_context a' c) \<longrightarrow> k = k')"

type_synonym 'e ds_endpoint = "((bytes, ps_resource) rbt, 'e dataservice_instance \<times> bytes list) protocolservice_dataservice_endpoint_context"

definition endpoint_inv :: "'e ds_endpoint \<Rightarrow> bool" where
  "endpoint_inv ep \<longleftrightarrow> (\<exists>inst. datasock ep = (inst, []) \<and> slots_ok inst \<and> length (apicaps (inst_ctx inst)) = 1 \<and>
     entries_ok (RBT.lookup (mailbox_context_tree ep)) (opened_slots inst))"

text \<open>The connection with mailbox \<open>addr\<close> has a context with at most the capabilities \<open>caps\<close>.\<close>

definition has_context :: "64 word \<Rightarrow> bitcap \<Rightarrow> 'e ds_endpoint \<Rightarrow> bool" where
  "has_context addr caps ep \<longleftrightarrow> (\<exists>inst c. datasock ep = (inst, []) \<and> child_within inst c caps \<and>
     RBT.lookup (mailbox_context_tree ep) (mem64 addr) = Some (Mailbox_context addr c))"

lemma entries_fewer: "entries_ok m O1 \<Longrightarrow> O1 \<subseteq> O2 \<Longrightarrow> \<forall>k r. m' k = Some r \<longrightarrow> m k = Some r \<Longrightarrow> entries_ok m' O2"
  unfolding entries_ok_def by blast

lemma entries_more:
  "entries_ok m O1 \<Longrightarrow> O1 \<subseteq> O2 \<Longrightarrow> unat c \<notin> O1 \<Longrightarrow> unat c \<in> O2 \<Longrightarrow> entries_ok (m(mem64 a \<mapsto> Mailbox_context a c)) O2"
  unfolding entries_ok_def by (auto split: if_splits) blast+

text \<open>A message that keeps the context of mailbox \<open>addr\<close>: it does not close it, and a fiber that opens a context has another mailbox.\<close>

definition keeps_mailbox :: "64 word \<Rightarrow> protocolservice_dataservice_request_message \<Rightarrow> 64 word \<Rightarrow> bool" where
  "keeps_mailbox addr req return_address \<longleftrightarrow>
     \<not> (dreq_request_id req = PROTOCOLSERVICE_DATASERVICE_ENDPOINT_REQ_CONTEXT_CLOSE \<and> dreq_data req = addr) \<and>
     \<not> (dreq_request_id req = PROTOCOLSERVICE_DATASERVICE_ENDPOINT_REQ_CONTEXT_OPEN \<and> return_address = addr)"

text \<open>What one message may do to the endpoint.\<close>

definition endpoint_effect :: "protocolservice_dataservice_request_message \<Rightarrow> 64 word \<Rightarrow> 'e ds_endpoint \<Rightarrow> 'e ds_endpoint \<Rightarrow> bool" where
  "endpoint_effect req ret ep ep' \<longleftrightarrow> endpoint_inv ep' \<and>
     (\<forall>addr caps. keeps_mailbox addr req ret \<longrightarrow> has_context addr caps ep \<longrightarrow> has_context addr caps ep')"

lemma effect_kept:
  assumes "endpoint_inv ep" and "datasock ep = (inst, [])" and "datasock ep' = (inst', [])" and "children_kept inst inst'"
    and "\<forall>k r. RBT.lookup (mailbox_context_tree ep') k = Some r \<longrightarrow> RBT.lookup (mailbox_context_tree ep) k = Some r"
    and "\<And>addr. keeps_mailbox addr req ret \<Longrightarrow>
           RBT.lookup (mailbox_context_tree ep') (mem64 addr) = RBT.lookup (mailbox_context_tree ep) (mem64 addr)"
  shows "endpoint_effect req ret ep ep'"
proof -
  have ok: "slots_ok inst" "slots_ok inst'" "opened_slots inst \<subseteq> opened_slots inst'" using assms(1,2,4) by (auto simp: endpoint_inv_def children_kept_def)
  have "endpoint_inv ep'" using assms(1-5) ok entries_fewer [OF _ ok(3) assms(5)] by (auto simp: endpoint_inv_def children_kept_def)
  moreover have "child_within inst' c caps" if "child_within inst c caps" for c caps
    using that ok assms(4) by (auto simp: child_within_def lookup_opened children_kept_def)
  ultimately show ?thesis using assms(2,3,6) by (auto simp: endpoint_effect_def has_context_def)
qed

lemma effect_opened:
  assumes "endpoint_inv ep" and "datasock ep = (inst, [])" and "datasock ep' = (inst', [])" and "children_kept inst inst'"
    and "unat c \<notin> opened_slots inst" and "unat c \<in> opened_slots inst'" and "RBT.lookup (mailbox_context_tree ep) (mem64 a) = None"
    and "RBT.lookup (mailbox_context_tree ep') = (RBT.lookup (mailbox_context_tree ep))(mem64 a \<mapsto> Mailbox_context a c)"
  shows "endpoint_effect req ret ep ep'"
proof -
  have ok: "slots_ok inst" "slots_ok inst'" "opened_slots inst \<subseteq> opened_slots inst'" using assms(1,2,4) by (auto simp: endpoint_inv_def children_kept_def)
  have "entries_ok (RBT.lookup (mailbox_context_tree ep)) (opened_slots inst)" using assms(1,2) by (auto simp: endpoint_inv_def)
  from entries_more [OF this ok(3) assms(5,6)] have "endpoint_inv ep'"
    using assms(1-4,8) ok by (auto simp: endpoint_inv_def children_kept_def)
  moreover have "child_within inst' c caps" if "child_within inst c caps" for c caps
    using that ok assms(4) by (auto simp: child_within_def lookup_opened children_kept_def)
  ultimately show ?thesis using assms(2,3,7,8) by (auto simp: endpoint_effect_def has_context_def)
qed

lemma effect_trans_fewer:
  assumes "endpoint_effect req ret ep ep'" and "datasock ep'' = datasock ep'"
    and "\<forall>k r. RBT.lookup (mailbox_context_tree ep'') k = Some r \<longrightarrow> RBT.lookup (mailbox_context_tree ep') k = Some r"
    and "\<And>addr. keeps_mailbox addr req ret \<Longrightarrow>
           RBT.lookup (mailbox_context_tree ep'') (mem64 addr) = RBT.lookup (mailbox_context_tree ep') (mem64 addr)"
  shows "endpoint_effect req ret ep ep''"
proof -
  obtain inst where i: "datasock ep' = (inst, [])" "slots_ok inst" using assms(1) by (auto simp: endpoint_effect_def endpoint_inv_def)
  have inv: "endpoint_inv ep'" "datasock ep'' = (inst, [])" using assms(1,2) i(1) by (simp_all add: endpoint_effect_def)
  have "endpoint_effect req ret ep' ep''"
    by (rule effect_kept [OF inv(1) i(1) inv(2) children_kept_refl [OF i(2)] assms(3,4)])
  then show ?thesis using assms(1) by (auto simp: endpoint_effect_def)
qed

subsection \<open>The handlers\<close>

text \<open>
  The messages that the fibers of the connections send: to open a context, with the one word of
  capabilities, to close one, and requests that do not manage contexts, with room for the index of the context.
\<close>

definition contextless_request :: "bytes \<Rightarrow> bool" where
  "contextless_request b \<longleftrightarrow> 8 \<le> length b \<and> of_net32 (take 4 b) \<notin>
     {DATASERVICE_API_METHOD_LL_ROOT_CONTEXT_CREATE, DATASERVICE_API_METHOD_LL_ROOT_CONTEXT_REDUCE_CAPS,
      DATASERVICE_API_METHOD_LL_CHILD_CONTEXT_CREATE, DATASERVICE_API_METHOD_LL_CHILD_CONTEXT_CLOSE}"

definition connection_message :: "protocolservice_dataservice_request_message \<Rightarrow> bool" where
  "connection_message req \<longleftrightarrow>
     (dreq_request_id req = PROTOCOLSERVICE_DATASERVICE_ENDPOINT_REQ_CONTEXT_OPEN \<longrightarrow> length (dreq_payload req) = 4) \<and>
     (dreq_request_id req = PROTOCOLSERVICE_DATASERVICE_ENDPOINT_REQ_DATASERVICE_REQ \<longrightarrow> contextless_request (dreq_payload req))"

text \<open>The requests that the handlers of a connection encode are such requests.\<close>

lemma encoded_contextless_requests:
  "dataservice_encode_request_latest_block_id_get st child = Inr b \<Longrightarrow> contextless_request b"
  "dataservice_encode_request_transaction_submit st child txn_id artifact_id cert = Inr b \<Longrightarrow> contextless_request b"
  "dataservice_encode_request_block_get st child block_id read_cert = Inr b \<Longrightarrow> contextless_request b"
  "dataservice_encode_request_canonized_transaction_get st child txn_id read_cert = Inr b \<Longrightarrow> contextless_request b"
  "dataservice_encode_request_artifact_get st child artifact_id = Inr b \<Longrightarrow> contextless_request b"
  "dataservice_encode_request_block_id_by_height_get st child height = Inr b \<Longrightarrow> contextless_request b"
  by (auto simp: contextless_request_def dataservice_encode_request_latest_block_id_get_def dataservice_encode_request_transaction_submit_def
      dataservice_encode_request_block_get_def dataservice_encode_request_canonized_transaction_get_def
      dataservice_encode_request_artifact_get_def dataservice_encode_request_block_id_by_height_get_def request_buffer_def split: if_splits)

lemma contextless_frame:
  assumes d: "dataservice_decode_and_dispatch lmdb vc root_block att env inst req = Some (st, out, inst')" and m: "contextless_request req"
  shows "db_frame inst inst'"
  using d m unfolding dataservice_decode_and_dispatch_def Let_def of_net32_def [symmetric] contextless_request_def
  by (elim if_SomeE) (simp, simp, simp, simp, simp, (drule db_handler_frames, simp)+, simp)

lemma request_effect:
  assumes inv: "endpoint_inv ep" and m: "contextless_request (dreq_payload req)"
    and h: "pde_decode_and_dispatch_req_dataservice_req rbt_ops (ds_psock lmdb vc root_block att) env req ret ep = Some (st, reply, ep')"
  shows "endpoint_effect req ret ep ep'"
proof -
  obtain inst where i: "datasock ep = (inst, [])" "slots_ok inst" using inv by (auto simp: endpoint_inv_def)
  have same: "endpoint_effect req ret ep ep" by (rule effect_kept [OF inv i(1,1) children_kept_refl [OF i(2)]]) simp_all
  have kept: "endpoint_effect req ret ep (ep\<lparr>datasock := (inst', [])\<rparr>)"
    if "dataservice_decode_and_dispatch lmdb vc root_block att env_ok inst (store_at 4 (net32 c) (dreq_payload req)) = Some (st', out, inst')" for c st' out inst'
  proof -
    have "contextless_request (store_at 4 (net32 c) (dreq_payload req))" using m by (auto simp: contextless_request_def store_at_def)
    from contextless_frame [OF that this] have "children_kept inst inst'" using i(2) by (rule frame_kept)
    then show ?thesis using effect_kept [OF inv i(1), of "ep\<lparr>datasock := (inst', [])\<rparr>" inst'] by simp
  qed
  have one: "\<exists>p. out = [p]"
    if "dataservice_decode_and_dispatch lmdb vc root_block att env_ok inst (store_at 4 (net32 c) (dreq_payload req)) = Some (st', out, inst')" for c st' out inst'
    using dispatch_answered [OF that] m by (auto simp: contextless_request_def store_at_def)
  have ep: "ep\<lparr>datasock := (inst, [])\<rparr> = ep" using i(1) by (cases ep) simp
  show ?thesis
  proof (cases "tree_find rbt_ops (mem64 ret) (mailbox_context_tree ep)")
    case (Inl e)
    then show ?thesis using h same by (simp add: pde_decode_and_dispatch_req_dataservice_req_def)
  next
    case (Inr entry)
    let ?b = "store_at 4 (net32 (case entry of Mailbox_context _ child \<Rightarrow> child | _ \<Rightarrow> 0)) (dreq_payload req)"
    have len: "\<not> length (dreq_payload req) < 8" using m by (simp add: contextless_request_def)
    show ?thesis
    proof (cases "dataservice_decode_and_dispatch lmdb vc root_block att env_ok inst ?b")
      case None
      then show ?thesis using h same Inr ep i(1) len by (simp add: pde_decode_and_dispatch_req_dataservice_req_def Let_def ds_psock_def)
    next
      case (Some r)
      then obtain st' p inst' where d: "dataservice_decode_and_dispatch lmdb vc root_block att env_ok inst ?b = Some (st', [p], inst')"
        using one by (cases r) blast
      then show ?thesis using h kept [OF d] Inr i(1) len
        by (auto simp: pde_decode_and_dispatch_req_dataservice_req_def Let_def ds_psock_def split: sum.splits)
    qed
  qed
qed

lemma lookup_inserted:
  "tree_insert rbt_ops k r t = (st, t') \<Longrightarrow> RBT.lookup t' = (if st = AGENTD_STATUS_SUCCESS then (RBT.lookup t)(k \<mapsto> r) else RBT.lookup t) \<and>
     (st = AGENTD_STATUS_SUCCESS \<longrightarrow> RBT.lookup t k = None)"
  using rbt_tree.insert_result [of k r t st t'] rbt_tree.insert_law [of k r t t'] by blast

lemma lookup_deleted:
  "RBT.lookup (snd (tree_delete rbt_ops k t)) = (RBT.lookup t)(k := None)"
  by (auto simp: rbt_ops_def restrict_map_def fun_eq_iff)

text \<open>What follows the creation of the child: its entry is added, or the error path takes away that of the fiber that asked.\<close>

lemma open_effect:
  assumes inv: "endpoint_inv ep" and len: "length (dreq_payload req) = 4"
    and id: "dreq_request_id req = PROTOCOLSERVICE_DATASERVICE_ENDPOINT_REQ_CONTEXT_OPEN"
    and h: "pde_decode_and_dispatch_req_context_open rbt_ops (ds_psock lmdb vc root_block att) env req ret ep = (st, reply, ep')"
  shows "endpoint_effect req ret ep ep'"
proof -
  obtain inst where i: "datasock ep = (inst, [])" "slots_ok inst" "length (apicaps (inst_ctx inst)) = 1" using inv by (auto simp: endpoint_inv_def)
  have same: "endpoint_effect req ret ep ep" by (rule effect_kept [OF inv i(1,1) children_kept_refl [OF i(2)]]) simp_all
  have ep: "ep\<lparr>datasock := (inst, [])\<rparr> = ep" using i(1) by (cases ep) simp
  obtain w where w: "words_of (dreq_payload req) = [w]" using len by (auto simp: length_Suc_conv numeral_eq_Suc)
  obtain st' out inst' where d: "dataservice_decode_and_dispatch_child_context_create env_ok inst (mem32 w) = Some (st', out, inst')"
    using child_create_returns [OF i(2), of env_ok "mem32 w"] by (metis not_None_eq prod.exhaust)
  have wr: "psock_write_boxed_data (ds_psock lmdb vc root_block att) (net32 2 @ mem32 w) (inst, []) = (0, inst', out)"
    using d dispatch_child_create [of lmdb vc root_block att env_ok inst "mem32 w"] by (simp add: ds_psock_write)
  note kept = create_keeps [OF d i(2)]
  have created: "endpoint_effect req ret ep (ep\<lparr>datasock := (inst', [])\<rparr>)"
    using effect_kept [OF inv i(1), of "ep\<lparr>datasock := (inst', [])\<rparr>" inst'] kept by simp
  show ?thesis
  proof (cases "mailbox_alloc_st env = 0 \<and> sendreq_buffer_st env = 0")
    case False
    then show ?thesis using h same i(1) w
      by (auto simp: pde_decode_and_dispatch_req_context_open_def open_calls Let_def ep split: if_splits)
  next
    case alloc: True
    have "dataservice_decode_and_dispatch_child_context_create env_ok inst (concat (map mem32 [w])) = Some (st', out, inst')" "length [w] = 1"
      using d by simp_all
    from this(1) i(2,3) this(2) show ?thesis
    proof (cases rule: child_created)
      case (1 e)
      then show ?thesis using h created alloc i(1) w wr
        by (simp add: pde_decode_and_dispatch_req_context_open_def open_calls refused_create_response Let_def)
    next
      case (2 c)
      let ?a = "dreq_data req"
      obtain r t where t: "tree_insert rbt_ops (mem64 ?a) (Mailbox_context ?a c) (mailbox_context_tree ep) = (r, t)" by fastforce
      have base: "endpoint_effect req ret ep (ep\<lparr>datasock := (inst', []), mailbox_context_tree := t\<rparr>)"
        using lookup_inserted [OF t] 2(3,4) effect_opened [OF inv i(1) _ kept, where c = c and a = ?a] effect_trans_fewer [OF created]
        by (cases "r = 0") simp_all
      have fin: "datasock ep' = (inst', []) \<and> mailbox_context_tree ep' \<in> {t, snd (tree_delete rbt_ops (mem64 ret) t)}"
        using h alloc i(1) w wr 2(1) child_context_create_response t
        by (auto simp: pde_decode_and_dispatch_req_context_open_def open_calls Let_def protocolservice_dataservice_endpoint_mailbox_context_tree_key_def
            split: if_splits prod.splits sum.splits)
      then show ?thesis using id
        by (intro effect_trans_fewer [OF base]) (auto simp: lookup_deleted keeps_mailbox_def split: if_splits)
    qed
  qed
qed

text \<open>The context of a mailbox is closed in the data service and taken out.\<close>

lemma effect_closed:
  assumes inv: "endpoint_inv ep" and i: "datasock ep = (inst, [])" and i': "datasock ep' = (inst', [])"
    and e: "RBT.lookup (mailbox_context_tree ep) (mem64 a) = Some (Mailbox_context a c)"
    and t: "RBT.lookup (mailbox_context_tree ep') = (RBT.lookup (mailbox_context_tree ep))(mem64 a := None)"
    and closed: "slots_ok inst'" "inst_ctx inst' = inst_ctx inst" "opened_slots inst' = opened_slots inst - {unat c}"
      "\<And>j. j \<noteq> unat c \<Longrightarrow> children inst' ! j = children inst ! j"
    and req: "dreq_request_id req = PROTOCOLSERVICE_DATASERVICE_ENDPOINT_REQ_CONTEXT_CLOSE" "dreq_data req = a"
  shows "endpoint_effect req ret ep ep'"
proof -
  have ok: "slots_ok inst" "length (apicaps (inst_ctx inst)) = 1" and entries: "entries_ok (RBT.lookup (mailbox_context_tree ep)) (opened_slots inst)"
    using inv i by (auto simp: endpoint_inv_def)
  have other: "unat c' \<noteq> unat c" if "RBT.lookup (mailbox_context_tree ep) k = Some (Mailbox_context a' c')" "k \<noteq> mem64 a" for k a' c'
    using entries that e unfolding entries_ok_def by (metis word_unat_eq_iff)
  have "entries_ok (RBT.lookup (mailbox_context_tree ep')) (opened_slots inst')"
    using entries other unfolding t closed(3) entries_ok_def by (auto split: if_splits) blast+
  then have "endpoint_inv ep'" using i' closed(1,2) ok(2) by (simp add: endpoint_inv_def)
  moreover have "has_context addr caps ep'" if k: "keeps_mailbox addr req ret" and con: "has_context addr caps ep" for addr caps
  proof -
    have ne: "addr \<noteq> a" using k req by (auto simp: keeps_mailbox_def)
    obtain c' where c': "child_within inst c' caps" "RBT.lookup (mailbox_context_tree ep) (mem64 addr) = Some (Mailbox_context addr c')"
      using con i by (auto simp: has_context_def)
    have n: "unat c' \<noteq> unat c" using other [OF c'(2)] ne by simp
    moreover have "unat c' \<in> opened_slots inst" using c'(1) ok(1) by (auto simp: child_within_def lookup_opened)
    ultimately have "child_within inst' c' caps" using within_kept [OF c'(1) ok(1) closed(1)] closed(3,4) by simp
    then show ?thesis using i' c'(2) t ne by (auto simp: has_context_def)
  qed
  ultimately show ?thesis by (simp add: endpoint_effect_def)
qed

lemma close_response:
  "dataservice_decode_response_child_context_close (response_packet DATASERVICE_API_METHOD_LL_CHILD_CONTEXT_CLOSE offset st None) =
     Inr \<lparr> method_code = DATASERVICE_API_METHOD_LL_CHILD_CONTEXT_CLOSE, resp_offset = offset, resp_status = st \<rparr>"
  by (simp add: dataservice_decode_response_child_context_close_def with_response_def Let_def)

lemmas close_calls = dataservice_api_sendreq_child_context_close_def dataservice_api_recvresp_child_context_close_def
  sendreq_psock_def recvresp_psock_def recv_status_def dataservice_encode_request_child_context_close_def request_buffer_def

text \<open>Closing the context of a mailbox that has one: refused, or done and the entry taken out.\<close>

lemma close_context_result:
  assumes i: "datasock ep = (inst, [])" "slots_ok inst"
    and e: "RBT.lookup (mailbox_context_tree ep) (mem64 a) = Some (Mailbox_context a c)"
    and r: "r = close_context rbt_ops (ds_psock lmdb vc root_block att) env a ep"
  obtains "r = ep"
  | inst' where "datasock r = (inst', [])" and "RBT.lookup (mailbox_context_tree r) = (RBT.lookup (mailbox_context_tree ep))(mem64 a := None)"
      and "slots_ok inst'" and "inst_ctx inst' = inst_ctx inst" and "opened_slots inst' = opened_slots inst - {unat c}"
      and "\<And>j. j \<noteq> unat c \<Longrightarrow> children inst' ! j = children inst ! j"
proof -
  let ?ps = "ds_psock lmdb vc root_block att"
  have ep: "ep\<lparr>datasock := (inst, [])\<rparr> = ep" using i(1) by (cases ep) simp
  have f: "tree_find rbt_ops (mem64 a) (mailbox_context_tree ep) = Inr (Mailbox_context a c)" using e by (simp add: rbt_ops_def)
  let ?d = "dataservice_decode_and_dispatch lmdb vc root_block att env_ok inst (net32 3 @ net32 c)"
  show thesis
  proof (cases "sendreq_buffer_st env = 0 \<and> ?d \<noteq> None")
    case False
    have "sendreq_buffer_st env = 0 \<Longrightarrow> psock_write_boxed_data ?ps (net32 3 @ net32 c) (inst, []) = (AGENTD_ERROR_IPC_WRITE_BLOCK_FAILURE, inst, [])"
      using False by (auto simp: ds_psock_def split: option.splits)
    then have "r = ep" using False f i(1) by (cases "sendreq_buffer_st env = 0") (simp_all add: r close_context_def close_calls Let_def ep)
    then show thesis by (rule that(1))
  next
    case True
    then obtain st out inst' where d: "?d = Some (st, out, inst')" by auto
    show thesis
    proof (rule close_effect [OF d i(2)])
      fix st' offset
      assume out: "out = [response_packet 3 offset st' None]"
        and eff: "if st' = 0 then slots_ok inst' \<and> inst_ctx inst' = inst_ctx inst \<and> opened_slots inst' = opened_slots inst - {unat c} \<and>
            (\<forall>j. j \<noteq> unat c \<longrightarrow> children inst' ! j = children inst ! j) else inst' = inst"
      have wr: "psock_write_boxed_data ?ps (net32 3 @ net32 c) (inst, []) = (0, inst', [response_packet 3 offset st' None])"
        using d out by (simp add: ds_psock_write)
      note run = f i(1) wr close_response lookup_deleted [of "mem64 a" "mailbox_context_tree ep"]
      have no: "r = ep" if "st' \<noteq> 0" using that True run eff by (simp add: r close_context_def close_calls Let_def ep)
      have yes: "datasock r = (inst', []) \<and> RBT.lookup (mailbox_context_tree r) = (RBT.lookup (mailbox_context_tree ep))(mem64 a := None)" if "st' = 0"
        using that True run
        by (simp add: r close_context_def close_calls Let_def protocolservice_dataservice_endpoint_mailbox_context_tree_key_def case_prod_beta)
      show thesis using that(1) that(2) [of inst'] no yes eff by (cases "st' = 0") auto
    qed
  qed
qed

lemma context_close_effect:
  assumes inv: "endpoint_inv ep" and req: "dreq_request_id req = PROTOCOLSERVICE_DATASERVICE_ENDPOINT_REQ_CONTEXT_CLOSE"
  shows "endpoint_effect req ret ep (close_context rbt_ops (ds_psock lmdb vc root_block att) env (dreq_data req) ep)"
proof -
  obtain inst where i: "datasock ep = (inst, [])" "slots_ok inst" and entries: "entries_ok (RBT.lookup (mailbox_context_tree ep)) (opened_slots inst)"
    using inv by (auto simp: endpoint_inv_def)
  have same: "endpoint_effect req ret ep ep" by (rule effect_kept [OF inv i(1,1) children_kept_refl [OF i(2)]]) simp_all
  show ?thesis
  proof (cases "RBT.lookup (mailbox_context_tree ep) (mem64 (dreq_data req))")
    case None
    then show ?thesis using same by (simp add: close_context_def rbt_ops_def)
  next
    case (Some entry)
    then obtain c where e: "RBT.lookup (mailbox_context_tree ep) (mem64 (dreq_data req)) = Some (Mailbox_context (dreq_data req) c)"
      using entries unfolding entries_ok_def by (metis mem64_inject)
    show ?thesis
    proof (rule close_context_result [OF i e refl, of lmdb vc root_block att env])
      fix inst'
      let ?r = "close_context rbt_ops (ds_psock lmdb vc root_block att) env (dreq_data req) ep"
      assume "datasock ?r = (inst', [])" "RBT.lookup (mailbox_context_tree ?r) = (RBT.lookup (mailbox_context_tree ep))(mem64 (dreq_data req) := None)"
        "slots_ok inst'" "inst_ctx inst' = inst_ctx inst" "opened_slots inst' = opened_slots inst - {unat c}"
        "\<And>j. j \<noteq> unat c \<Longrightarrow> children inst' ! j = children inst ! j"
      then show ?thesis by (intro effect_closed [OF inv i(1) _ e _ _ _ _ _ req refl])
    qed (simp add: same)
  qed
qed

lemma endpoint_step:
  assumes inv: "endpoint_inv ep" and m: "connection_message req"
    and h: "protocolservice_dataservice_endpoint_decode_and_dispatch rbt_ops (ds_psock lmdb vc root_block att) env req ret ep = Some (st, reply, ep')"
  shows "endpoint_effect req ret ep ep'"
proof -
  obtain inst where i: "datasock ep = (inst, [])" "slots_ok inst" using inv by (auto simp: endpoint_inv_def)
  have same: "endpoint_effect req ret ep ep" by (rule effect_kept [OF inv i(1,1) children_kept_refl [OF i(2)]]) simp_all
  have invalid: "pde_decode_and_dispatch_invalid_req env req ep = (st, reply, ep') \<Longrightarrow> ep' = ep"
    by (auto simp: pde_decode_and_dispatch_invalid_req_def split: sum.splits)
  have close: "pde_decode_and_dispatch_req_context_close rbt_ops ps env req ep = (st, reply, ep') \<Longrightarrow> ep' = close_context rbt_ops ps env (dreq_data req) ep" for ps
    by (auto simp: pde_decode_and_dispatch_req_context_close_def Let_def split: sum.splits)
  consider "dreq_request_id req = 0" | "dreq_request_id req = 1" | "dreq_request_id req = 2" | "dreq_request_id req \<notin> {0, 1, 2}" by blast
  then show ?thesis
  proof cases
    case 2
    then show ?thesis using h close context_close_effect [OF inv 2, of ret lmdb vc root_block att env]
      by (auto simp: protocolservice_dataservice_endpoint_decode_and_dispatch_def)
  qed (use h m same invalid open_effect [OF inv] request_effect [OF inv] in
      \<open>auto simp: protocolservice_dataservice_endpoint_decode_and_dispatch_def connection_message_def\<close>)
qed

subsection \<open>Any sequence of messages\<close>

text \<open>The endpoint handles messages of connections, each of which satisfies \<open>P\<close>.\<close>

inductive endpoint_run ::
  "('e, 'x) lmdb \<Rightarrow> vccert \<Rightarrow> bytes \<Rightarrow> bool \<Rightarrow> (protocolservice_dataservice_request_message \<Rightarrow> 64 word \<Rightarrow> bool) \<Rightarrow>
     'e ds_endpoint \<Rightarrow> 'e ds_endpoint \<Rightarrow> bool"
  for lmdb vc root_block att P where
  run_none: "endpoint_run lmdb vc root_block att P ep ep"
| run_message: "endpoint_run lmdb vc root_block att P ep ep' \<Longrightarrow> connection_message req \<Longrightarrow> P req ret \<Longrightarrow>
    protocolservice_dataservice_endpoint_decode_and_dispatch rbt_ops (ds_psock lmdb vc root_block att) env req ret ep' = Some (st, reply, ep'') \<Longrightarrow>
    endpoint_run lmdb vc root_block att P ep ep''"

lemma run_endpoint_inv: "endpoint_run lmdb vc root_block att P ep ep' \<Longrightarrow> endpoint_inv ep \<Longrightarrow> endpoint_inv ep'"
  by (induction rule: endpoint_run.induct) (auto dest: endpoint_step simp: endpoint_effect_def)

lemma run_connected:
  "endpoint_run lmdb vc root_block att (keeps_mailbox addr) ep ep' \<Longrightarrow> endpoint_inv ep \<Longrightarrow> has_context addr caps ep \<Longrightarrow> has_context addr caps ep'"
proof (induction rule: endpoint_run.induct)
  case (run_message ep ep' req ret env st reply ep'')
  then show ?case using endpoint_step [OF run_endpoint_inv [OF run_message.hyps(1)] run_message.hyps(2,4)] by (simp add: endpoint_effect_def)
qed

lemma open_connects:
  assumes inv: "endpoint_inv ep" and payload: "dreq_payload req = concat (map mem32 caps)" and caps: "length caps = 1"
    and id: "dreq_request_id req = PROTOCOLSERVICE_DATASERVICE_ENDPOINT_REQ_CONTEXT_OPEN"
    and h: "protocolservice_dataservice_endpoint_decode_and_dispatch rbt_ops (ds_psock lmdb vc root_block att) env req ret ep =
      Some (AGENTD_STATUS_SUCCESS, Some m, ep')"
  shows "endpoint_inv ep' \<and> has_context (dreq_data req) caps ep'"
proof -
  obtain inst where i: "datasock ep = (inst, [])" "slots_ok inst" "length (apicaps (inst_ctx inst)) = 1" using inv by (auto simp: endpoint_inv_def)
  have o: "pde_decode_and_dispatch_req_context_open rbt_ops (ds_psock lmdb vc root_block att) env req ret ep = (AGENTD_STATUS_SUCCESS, Some m, ep')"
    using h id by (simp add: protocolservice_dataservice_endpoint_decode_and_dispatch_def)
  have "connection_message req" using id payload caps by (auto simp: connection_message_def length_Suc_conv)
  from endpoint_step [OF inv this h] have "endpoint_inv ep'" by (simp add: endpoint_effect_def)
  moreover have "has_context (dreq_data req) caps ep'" using rbt_tree.context_opened [OF o i(1) payload i(2,3) caps] by (auto simp: has_context_def)
  ultimately show ?thesis by simp
qed

lemma connected_confined:
  assumes con: "has_context addr caps ep" and len: "8 \<le> length (dreq_payload req)" and m: "of_net32 (take 4 (dreq_payload req)) \<in> set child_methods"
    and no: "\<not> BITCAP_ISSET caps (unat (of_net32 (take 4 (dreq_payload req))))"
    and id: "dreq_request_id req = PROTOCOLSERVICE_DATASERVICE_ENDPOINT_REQ_DATASERVICE_REQ"
    and h: "protocolservice_dataservice_endpoint_decode_and_dispatch rbt_ops (ds_psock lmdb vc root_block att) env req addr ep = Some (st, reply, ep')"
  shows "ep' = ep \<and> (case reply of None \<Rightarrow> True | Some r \<Rightarrow>
     pwe_message_type r = PROTOCOLSERVICE_PROTOCOL_WRITE_ENDPOINT_DATASERVICE_MSG \<and> pwe_offset r = dreq_offset req \<and>
     (\<exists>offset err. err \<noteq> AGENTD_STATUS_SUCCESS \<and>
        pwe_payload r = response_packet (of_net32 (take 4 (dreq_payload req))) offset err None)) \<and>
     (payload_st (reply_env env) = AGENTD_STATUS_SUCCESS \<and> encode_st (reply_env env) = AGENTD_STATUS_SUCCESS \<longrightarrow>
        st = AGENTD_STATUS_SUCCESS \<and> reply \<noteq> None)"
proof -
  obtain inst c where c: "RBT.lookup (mailbox_context_tree ep) (mem64 addr) = Some (Mailbox_context addr c)" "datasock ep = (inst, [])" "child_within inst c caps"
    using con by (auto simp: has_context_def)
  have "pde_decode_and_dispatch_req_dataservice_req rbt_ops (ds_psock lmdb vc root_block att) env req addr ep = Some (st, reply, ep')"
    using h id by (simp add: protocolservice_dataservice_endpoint_decode_and_dispatch_def)
  then show ?thesis by (rule rbt_tree.request_confined [OF c len m no])
qed

lemma fresh_endpoint:
  "datasock ep = (inst, []) \<Longrightarrow> mailbox_context_tree ep = RBT.empty \<Longrightarrow> slots_ok inst \<Longrightarrow> length (apicaps (inst_ctx inst)) = 1 \<Longrightarrow> endpoint_inv ep"
  by (simp add: endpoint_inv_def entries_ok_def)

text \<open>
  C3. A connection does in the data service no more than its entity may.  The
  capabilities of the entity are mapped to those of a child context, and the data endpoint,
  after any messages of other connections since its start, opens the context in the data service
  for the mailbox of the connection.  From then on, whatever contexts other connections open and close
  and whatever requests they and this connection make, until the context is closed, every
  request from this mailbox, whatever child index it carries, whose method the entity has
  no capability for is refused: neither the data service nor the endpoint changes, and the client is sent
  an error status without data.  The messages are as the fibers of the connections send them: an
  opening carries one word of capabilities and is sent from a mailbox other than that of a
  connection, and the requests do not create or close contexts themselves.
\<close>

theorem connection_confined:
  assumes "tree_find rbt_ops (fiber_entity_uuid (ps_fibers ctx ! i)) (authorized_entity_dict ctx) = Inr (Entity_ref n)"
    and "protocolservice_dataservice_map_user_capabilities rbt_ops buffer_st i ctx = Inr caps"
    and "datasock start = (inst, [])" and "mailbox_context_tree start = RBT.empty" and "slots_ok inst" and "length (apicaps (inst_ctx inst)) = 1"
    and "endpoint_run lmdb vc root_block att (\<lambda>_ _. True) start ep"
    and "dreq_request_id open_req = PROTOCOLSERVICE_DATASERVICE_ENDPOINT_REQ_CONTEXT_OPEN" and "dreq_payload open_req = concat (map mem32 caps)"
    and "protocolservice_dataservice_endpoint_decode_and_dispatch rbt_ops (ds_psock lmdb vc root_block att) env open_req ret ep =
           Some (AGENTD_STATUS_SUCCESS, Some opened, ep')"
    and "endpoint_run lmdb vc root_block att (keeps_mailbox (dreq_data open_req)) ep' later"
    and "dreq_request_id req = PROTOCOLSERVICE_DATASERVICE_ENDPOINT_REQ_DATASERVICE_REQ"
    and "8 \<le> length (dreq_payload req)" and "of_net32 (take 4 (dreq_payload req)) \<in> set child_methods"
    and "\<not> entity_may rbt_ops (ps_entities ctx ! n) (fiber_entity_uuid (ps_fibers ctx ! i)) (agentd_uuid ctx)
            (unat (of_net32 (take 4 (dreq_payload req))))"
    and "protocolservice_dataservice_endpoint_decode_and_dispatch rbt_ops (ds_psock lmdb vc root_block att) env' req (dreq_data open_req) later =
           Some (AGENTD_STATUS_SUCCESS, Some reply, ep'')"
  shows "ep'' = later \<and> pwe_offset reply = dreq_offset req \<and>
     (\<exists>offset err. err \<noteq> AGENTD_STATUS_SUCCESS \<and>
        pwe_payload reply = response_packet (of_net32 (take 4 (dreq_payload req))) offset err None)"
proof -
  let ?meth = "unat (of_net32 (take 4 (dreq_payload req)))"
  have "?meth < 32" using assms(14) by (auto simp: child_methods_def)
  then have caps: "length caps = 1" "\<not> BITCAP_ISSET caps ?meth"
    using mapped_capabilities [OF assms(2,1), of ?meth] assms(15) by simp_all
  have inv: "endpoint_inv ep" using run_endpoint_inv [OF assms(7)] fresh_endpoint [OF assms(3-6)] by blast
  from open_connects [OF this assms(9) caps(1) assms(8,10)]
  have "has_context (dreq_data open_req) caps later" using run_connected [OF assms(11)] by blast
  from connected_confined [OF this assms(13,14) caps(2) assms(12,16)] show ?thesis by simp
qed

text \<open>An instance: the entity of the sample configuration, which may read blocks and not submit transactions.\<close>

definition sample_fiber :: "((bytes, ps_resource) rbt, unit) protocolservice_protocol_fiber_context" where
  "sample_fiber = \<lparr> reference_count = 2, req_shutdown = False, shutdown = False, extended_api_enabled = False, extended_api_can_respond = False,
     protosock = (), client_key_nonce = [], client_challenge_nonce = [], server_key_nonce = [], server_challenge_nonce = [],
     shared_secret = [], client_iv = 1, server_iv = 0x8000000000000001, fiber_entity_uuid = replicate 16 7, return_addr = 40, fiber_addr = 41,
     fiber_entity = Some 0, dataservice_context_opened = False, latest_block_id_assertion_set = False,
     latest_block_id_assertion_client_offset = 0, latest_block_id_assertion_server_offset = 0, extended_api_offset = 0,
     extended_api_offset_dict = RBT.empty \<rparr>"

definition sample_connected :: "((bytes, ps_resource) rbt, unit) protocolservice_context" where
  "sample_connected = sample_configured\<lparr>ps_fibers := [sample_fiber], agentd_uuid := replicate 16 9\<rparr>"

definition endpoint_env_ok :: endpoint_env where
  "endpoint_env_ok = \<lparr> mailbox_alloc_st = 0, mailbox_free_st = 0, sendreq_buffer_st = 0,
     reply_env = \<lparr> encode_st = 0, payload_st = 0, message_st = 0, send_st = 0, release_st = 0 \<rparr>, request_free_st = 0 \<rparr>"

definition sample_open :: protocolservice_dataservice_request_message where
  "sample_open = \<lparr> dreq_protocol_request_id = 0, dreq_request_id = 0, dreq_offset = 0, dreq_data = 40, dreq_payload = mem32 0x2008 \<rparr>"

definition sample_submit :: protocolservice_dataservice_request_message where
  "sample_submit = \<lparr> dreq_protocol_request_id = 3, dreq_request_id = 2, dreq_offset = 17, dreq_data = 0, dreq_payload = net32 15 @ replicate 40 0 \<rparr>"

lemma sample_mapped:
  "protocolservice_dataservice_map_user_capabilities rbt_ops 0 0 sample_connected = Inr [0x2008]"
  "tree_find rbt_ops (fiber_entity_uuid (ps_fibers sample_connected ! 0)) (authorized_entity_dict sample_connected) = Inr (Entity_ref 0)"
  by code_simp+

text \<open>In a data service with a free slot whose root context may create children the context is opened.\<close>

lemma sample_opened:
  assumes "slots_ok inst" and "length (apicaps (inst_ctx inst)) = 1" and "child_head inst \<noteq> None"
    and "BITCAP_ISSET (apicaps (inst_ctx inst)) DATASERVICE_API_CAP_LL_CHILD_CONTEXT_CREATE"
  shows "\<exists>m inst' t1 t2. pde_decode_and_dispatch_req_context_open rbt_ops (ds_psock lmdb vc root_block att) endpoint_env_ok sample_open ret
     \<lparr> endpoint_addr = 1, datasock = (inst, []), mailbox_context_tree = RBT.empty, context_mailbox_tree = RBT.empty \<rparr> =
     (AGENTD_STATUS_SUCCESS, Some m, \<lparr> endpoint_addr = 1, datasock = (inst', []), mailbox_context_tree = t1, context_mailbox_tree = t2 \<rparr>)"
proof -
  let ?ps = "ds_psock lmdb vc root_block att"
  have words: "words_of (mem32 0x2008) = [0x2008]" using words_of_mem32 [of "[0x2008]"] by simp
  obtain st out inst' where d: "dataservice_decode_and_dispatch_child_context_create env_ok inst (mem32 0x2008) = Some (st, out, inst')"
    using child_create_returns [OF assms(1), of env_ok "mem32 0x2008"] by (metis not_None_eq prod.exhaust)
  then obtain c where out: "out = [response_packet 2 0 0 (Some (net32 c))]"
    using child_created [of inst "[0x2008]" st out inst'] assms by auto
  have w: "psock_write_boxed_data ?ps (net32 2 @ mem32 0x2008) (inst, []) = (0, inst', out)"
    using d dispatch_child_create [of lmdb vc root_block att env_ok inst "mem32 0x2008"] by (simp add: ds_psock_write)
  show ?thesis
    by (simp add: pde_decode_and_dispatch_req_context_open_def open_calls sample_open_def endpoint_env_ok_def words w out
        child_context_create_response Let_def rbt_ops_def protocolservice_protocol_write_endpoint_message_create_def)
qed

lemma sample_refused: "\<not> entity_may rbt_ops (ps_entities sample_connected ! 0) (replicate 16 7) (replicate 16 9) 15"
  unfolding entity_may_def by code_simp


text \<open>Meanwhile another connection, with mailbox 50, opens its context and closes it.\<close>

definition other_close :: protocolservice_dataservice_request_message where
  "other_close = sample_open\<lparr>dreq_request_id := PROTOCOLSERVICE_DATASERVICE_ENDPOINT_REQ_CONTEXT_CLOSE, dreq_data := 50\<rparr>"

lemma other_connection:
  "\<exists>ep1 later st1 st2 r1 r2 :: protocolservice_protocol_write_endpoint_message option.
     protocolservice_dataservice_endpoint_decode_and_dispatch rbt_ops (ds_psock lmdb vc root_block att) endpoint_env_ok (sample_open\<lparr>dreq_data := 50\<rparr>) 51 ep =
       Some (st1, r1, ep1) \<and>
     protocolservice_dataservice_endpoint_decode_and_dispatch rbt_ops (ds_psock lmdb vc root_block att) endpoint_env_ok other_close 51 ep1 = Some (st2, r2, later) \<and>
     endpoint_run lmdb vc root_block att (keeps_mailbox 40) ep later"
proof -
  let ?D = "protocolservice_dataservice_endpoint_decode_and_dispatch rbt_ops (ds_psock lmdb vc root_block att) endpoint_env_ok"
  have "?D (sample_open\<lparr>dreq_data := 50\<rparr>) 51 ep \<noteq> None"
    by (simp add: protocolservice_dataservice_endpoint_decode_and_dispatch_def sample_open_def)
  then obtain st1 r1 ep1 where one: "?D (sample_open\<lparr>dreq_data := 50\<rparr>) 51 ep = Some (st1, r1, ep1)" by auto
  have "?D other_close 51 ep1 \<noteq> None"
    by (simp add: protocolservice_dataservice_endpoint_decode_and_dispatch_def sample_open_def other_close_def)
  then obtain st2 r2 later where two: "?D other_close 51 ep1 = Some (st2, r2, later)" by auto
  have m: "connection_message (sample_open\<lparr>dreq_data := 50\<rparr>)" "keeps_mailbox 40 (sample_open\<lparr>dreq_data := 50\<rparr>) 51"
    "connection_message other_close" "keeps_mailbox 40 other_close 51"
    by (simp_all add: connection_message_def keeps_mailbox_def sample_open_def other_close_def)
  show "\<exists>ep1 later st1 st2 r1 r2. ?D (sample_open\<lparr>dreq_data := 50\<rparr>) 51 ep = Some (st1, r1, ep1) \<and> ?D other_close 51 ep1 = Some (st2, r2, later) \<and>
     endpoint_run lmdb vc root_block att (keeps_mailbox 40) ep later"
    using one two run_message [where P = "keeps_mailbox 40", OF run_message [where P = "keeps_mailbox 40", OF run_none m(1,2) one] m(3,4) two] by blast
qed

theorem connection_confined_witness:
  "\<exists>(ep :: mem_db ds_endpoint) later reply offset err.
     endpoint_run mem_lmdb no_vccert zero_uuid True (keeps_mailbox 40) ep later \<and>
     protocolservice_dataservice_endpoint_decode_and_dispatch rbt_ops (ds_psock mem_lmdb no_vccert zero_uuid True) endpoint_env_ok sample_submit 40 later =
       Some (AGENTD_STATUS_SUCCESS, Some reply, later) \<and>
     err \<noteq> AGENTD_STATUS_SUCCESS \<and> pwe_payload reply = response_packet 15 offset err None \<and> pwe_offset reply = 17"
proof -
  let ?ps = "ds_psock mem_lmdb no_vccert zero_uuid True"
  let ?D = "protocolservice_dataservice_endpoint_decode_and_dispatch rbt_ops ?ps endpoint_env_ok"
  obtain inst :: "mem_db dataservice_instance" where r: "ds_reachable mem_lmdb no_vccert zero_uuid True inst"
    and a: "apicaps (inst_ctx inst) = [0x8004]" and o: "opened_slots inst = {}"
    using demo_service [of no_vccert zero_uuid True] by metis
  have ok: "slots_ok inst" using r created_inv run_inv unfolding ds_reachable_def inst_inv_def by blast
  have head: "child_head inst \<noteq> None" using details_pool.acquire_None [OF ok] o lessThan_iff [of 0 "1024 :: nat"] by (auto simp: details_acquire_None_iff simp del: lessThan_iff)
  have create: "BITCAP_ISSET (apicaps (inst_ctx inst)) 2" "length (apicaps (inst_ctx inst)) = 1" by (simp_all add: a BITCAP_ISSET_def BITCAP_OFFSET_def BITCAP_SHIFT_def)
  define ep :: "mem_db ds_endpoint"
    where "ep = \<lparr> endpoint_addr = 1, datasock = (inst, []), mailbox_context_tree = RBT.empty, context_mailbox_tree = RBT.empty \<rparr>"
  have start: "datasock ep = (inst, [])" "mailbox_context_tree ep = RBT.empty" by (simp_all add: ep_def)
  have reqs: "dreq_request_id sample_open = 0" "dreq_payload sample_open = concat (map mem32 [0x2008])" "dreq_data sample_open = 40"
    "dreq_request_id sample_submit = 2" by (simp_all add: sample_open_def sample_submit_def)
  obtain m ep' where op: "?D sample_open 41 ep = Some (0, Some m, ep')"
    using sample_opened [OF ok create(2) head create(1), of mem_lmdb no_vccert zero_uuid True 41] reqs(1)
    unfolding ep_def protocolservice_dataservice_endpoint_decode_and_dispatch_def by auto
  obtain later where run: "endpoint_run mem_lmdb no_vccert zero_uuid True (keeps_mailbox 40) ep' later" using other_connection by blast
  have con: "has_context 40 [0x2008] later"
    using open_connects [OF fresh_endpoint [OF start ok create(2)] reqs(2) _ reqs(1) op] run_connected [OF run] reqs(3) by simp
  have meth: "of_net32 (take 4 (dreq_payload sample_submit)) = 15" "length (dreq_payload sample_submit) = 44" "dreq_offset sample_submit = 17"
    by (simp_all add: sample_submit_def)
  have no: "\<not> BITCAP_ISSET [0x2008] 15" by (simp add: BITCAP_ISSET_def BITCAP_OFFSET_def BITCAP_SHIFT_def)
  obtain c inst' where "RBT.lookup (mailbox_context_tree later) (mem64 40) = Some (Mailbox_context 40 c)" using con by (auto simp: has_context_def)
  then have "?D sample_submit 40 later \<noteq> None"
    by (simp add: protocolservice_dataservice_endpoint_decode_and_dispatch_def reqs pde_decode_and_dispatch_req_dataservice_req_def rbt_ops_def meth)
  then obtain st reply ep'' where d: "?D sample_submit 40 later = Some (st, reply, ep'')" by auto
  from connected_confined [OF con _ _ _ reqs(4) d] no obtain r where r: "st = 0" "reply = Some r"
    by (auto simp: meth child_methods_def endpoint_env_ok_def)
  have "ep'' = later \<and> pwe_offset r = dreq_offset sample_submit \<and>
     (\<exists>offset err. err \<noteq> 0 \<and> pwe_payload r = response_packet (of_net32 (take 4 (dreq_payload sample_submit))) offset err None)"
    using connection_confined [OF sample_mapped(2,1) start ok create(2) run_none reqs(1,2) op _ reqs(4), unfolded reqs(3), OF run _ _ _ d [unfolded r]]
      sample_refused by (simp add: meth child_methods_def sample_connected_def sample_fiber_def)
  then show ?thesis using run d r unfolding meth by metis
qed

end
