(* ===== verification/Ipc_Authed.thy ===== *)
theory Ipc_Authed
  imports Ipc_Noblock
begin

text \<open>
  Authenticated packets (\<^verbatim>\<open>src/src/ipc/ipc_*_authed_data_*.c\<close>).  Type and size are
  encrypted, then comes a message authentication code over everything that is
  encrypted, then the encrypted payload.  The sender and the receiver each count the
  packets of a direction, and the count is the initialization vector.

  The cryptography is that of the library vccrypt, a parameter: \<open>vccrypt\<close> holds what its
  stream cipher and its message authentication code compute, \<open>crypt_env\<close> which of the
  calls of one packet fail (the argument numbers the calls of the same kind).
\<close>

subsection \<open>The cryptographic library\<close>

text \<open>
  A stream cipher encrypts and decrypts from a position of its key stream, which is
  determined by the key and the initialization vector.
\<close>

record vccrypt =
  mac_short_size :: nat
  stream_encrypt :: "bytes \<Rightarrow> 64 word \<Rightarrow> nat \<Rightarrow> bytes \<Rightarrow> bytes"
  stream_decrypt :: "bytes \<Rightarrow> 64 word \<Rightarrow> nat \<Rightarrow> bytes \<Rightarrow> bytes"
  mac_short :: "bytes \<Rightarrow> bytes \<Rightarrow> bytes"

locale vccrypt_suite =
  fixes cr :: vccrypt
  assumes decrypt_encrypt: "stream_decrypt cr k iv p (stream_encrypt cr k iv p b) = b"
    and length_encrypt: "length (stream_encrypt cr k iv p b) = length b"
    and encrypt_append: "stream_encrypt cr k iv p (a @ b) = stream_encrypt cr k iv p a @ stream_encrypt cr k iv (p + length a) b"
    and length_mac: "length (mac_short cr k b) = mac_short_size cr"

record crypt_env =
  buffer_init_ok :: "nat \<Rightarrow> bool"
  stream_init_ok :: bool
  mac_init_ok :: bool
  continue_ok :: "nat \<Rightarrow> bool"
  stream_ok :: "nat \<Rightarrow> bool"
  mac_digest_ok :: "nat \<Rightarrow> bool"
  mac_finalize_ok :: bool
  val_malloc_ok :: bool

definition crypt_ok :: crypt_env where
  "crypt_ok = \<lparr> buffer_init_ok = \<lambda>_. True, stream_init_ok = True, mac_init_ok = True, continue_ok = \<lambda>_. True,
                stream_ok = \<lambda>_. True, mac_digest_ok = \<lambda>_. True, mac_finalize_ok = True, val_malloc_ok = True \<rparr>"

subsection \<open>Writing\<close>

text \<open>
  The packet, which both writers build in the same way.  The output of the third call
  goes behind the place of the digest; the key stream goes on.
\<close>

definition seal_packet :: "vccrypt \<Rightarrow> crypt_env \<Rightarrow> 64 word \<Rightarrow> bytes \<Rightarrow> bytes \<Rightarrow> status + bytes" where
  "seal_packet cr env iv val secret =
     (let size = of_nat (length val) :: 32 word in
      if \<not> buffer_init_ok env 0 then Inl AGENTD_ERROR_GENERAL_OUT_OF_MEMORY else
      if \<not> buffer_init_ok env 1 then Inl AGENTD_ERROR_GENERAL_OUT_OF_MEMORY else
      if \<not> stream_init_ok env then Inl AGENTD_ERROR_IPC_CRYPTO_FAILURE else
      if \<not> mac_init_ok env then Inl AGENTD_ERROR_IPC_CRYPTO_FAILURE else
      if \<not> continue_ok env 0 then Inl AGENTD_ERROR_IPC_CRYPTO_FAILURE else
      let etype = stream_encrypt cr secret iv 0 (net32 IPC_DATA_TYPE_AUTHED_PACKET) in
      if \<not> stream_ok env 0 then Inl AGENTD_ERROR_IPC_CRYPTO_FAILURE else
      let esize = stream_encrypt cr secret iv 4 (net32 size) in
      if \<not> stream_ok env 1 then Inl AGENTD_ERROR_IPC_CRYPTO_FAILURE else
      let payload = stream_encrypt cr secret iv 8 (take (unat size) val) in
      if \<not> stream_ok env 2 then Inl AGENTD_ERROR_IPC_CRYPTO_FAILURE else
      if \<not> mac_digest_ok env 0 \<or> \<not> mac_digest_ok env 1 then Inl AGENTD_ERROR_IPC_CRYPTO_FAILURE else
      let digest = mac_short cr secret (etype @ esize @ payload) in
      if \<not> mac_finalize_ok env then Inl AGENTD_ERROR_IPC_CRYPTO_FAILURE else
      Inr (etype @ esize @ digest @ payload))"

definition ipc_write_authed_data_block ::
  "vccrypt \<Rightarrow> crypt_env \<Rightarrow> 64 word \<Rightarrow> bytes \<Rightarrow> bytes \<Rightarrow> ipc_fd \<Rightarrow> status \<times> ipc_fd" where
  "ipc_write_authed_data_block cr env iv val secret sock =
     (case seal_packet cr env iv val secret of
        Inl st \<Rightarrow> (st, sock)
      | Inr packet \<Rightarrow> write_block packet sock (\<lambda>sock. (AGENTD_STATUS_SUCCESS, sock)))"

definition ipc_write_authed_data_noblock ::
  "'s evsock \<Rightarrow> vccrypt \<Rightarrow> crypt_env \<Rightarrow> 64 word \<Rightarrow> bytes \<Rightarrow> bytes \<Rightarrow> 's \<Rightarrow> status \<times> 's" where
  "ipc_write_authed_data_noblock ev cr env iv val secret sock =
     (case seal_packet cr env iv val secret of
        Inl st \<Rightarrow> (st, sock)
      | Inr packet \<Rightarrow> add_or ev AGENTD_ERROR_IPC_WRITE_BUFFER_PAYLOAD_ADD_FAILURE packet sock (\<lambda>sock. (AGENTD_STATUS_SUCCESS, sock)))"

subsection \<open>Reading\<close>

text \<open>The decrypted header: the type is checked, and the size is at most 10 MB.\<close>

definition open_header :: "vccrypt \<Rightarrow> crypt_env \<Rightarrow> 64 word \<Rightarrow> bytes \<Rightarrow> bytes \<Rightarrow> status + nat" where
  "open_header cr env iv secret header =
     (if \<not> stream_init_ok env then Inl AGENTD_ERROR_IPC_CRYPTO_FAILURE else
      if \<not> mac_init_ok env then Inl AGENTD_ERROR_IPC_CRYPTO_FAILURE else
      if \<not> continue_ok env 0 then Inl AGENTD_ERROR_IPC_CRYPTO_FAILURE else
      let dheader = stream_decrypt cr secret iv 0 (take 8 header) in
      if \<not> stream_ok env 0 then Inl AGENTD_ERROR_IPC_CRYPTO_FAILURE else
      if of_net32 (take 4 dheader) \<noteq> IPC_DATA_TYPE_AUTHED_PACKET then Inl AGENTD_ERROR_IPC_UNAUTHORIZED_PACKET else
      let size = unat (of_net32 (slice 4 4 dheader)) in
      if size > 10 * 1024 * 1024 then Inl AGENTD_ERROR_IPC_UNAUTHORIZED_PACKET else Inr size)"

text \<open>The code is checked before the payload is decrypted; \<open>digest_buffer\<close> numbers the buffer of the digest.\<close>

definition open_payload :: "vccrypt \<Rightarrow> crypt_env \<Rightarrow> nat \<Rightarrow> 64 word \<Rightarrow> bytes \<Rightarrow> bytes \<Rightarrow> bytes \<Rightarrow> status + bytes" where
  "open_payload cr env digest_buffer iv secret header payload =
     (if \<not> mac_digest_ok env 0 \<or> \<not> mac_digest_ok env 1 then Inl AGENTD_ERROR_IPC_CRYPTO_FAILURE else
      if \<not> buffer_init_ok env digest_buffer then Inl AGENTD_ERROR_GENERAL_OUT_OF_MEMORY else
      let digest = mac_short cr secret (take 8 header @ payload) in
      if \<not> mac_finalize_ok env then Inl AGENTD_ERROR_IPC_CRYPTO_FAILURE else
      if digest \<noteq> slice 8 (mac_short_size cr) header then Inl AGENTD_ERROR_IPC_UNAUTHORIZED_PACKET else
      if \<not> val_malloc_ok env then Inl AGENTD_ERROR_GENERAL_OUT_OF_MEMORY else
      if \<not> continue_ok env 1 then Inl AGENTD_ERROR_IPC_CRYPTO_FAILURE else
      if \<not> stream_ok env 1 then Inl AGENTD_ERROR_IPC_CRYPTO_FAILURE else
      Inr (stream_decrypt cr secret iv 8 payload))"

definition ipc_read_authed_data_block ::
  "vccrypt \<Rightarrow> crypt_env \<Rightarrow> 64 word \<Rightarrow> bytes \<Rightarrow> ipc_fd \<Rightarrow> (status + bytes) \<times> ipc_fd" where
  "ipc_read_authed_data_block cr env iv secret sock =
     (let header_size = 8 + mac_short_size cr in
      if \<not> buffer_init_ok env 0 then (Inl AGENTD_ERROR_GENERAL_OUT_OF_MEMORY, sock) else
      if \<not> buffer_init_ok env 1 then (Inl AGENTD_ERROR_GENERAL_OUT_OF_MEMORY, sock) else
      read_block header_size sock (\<lambda>header sock.
      case open_header cr env iv secret header of
        Inl st \<Rightarrow> (Inl st, sock)
      | Inr n \<Rightarrow>
      if \<not> buffer_init_ok env 2 then (Inl AGENTD_ERROR_GENERAL_OUT_OF_MEMORY, sock) else
      read_block n sock (\<lambda>payload sock. (open_payload cr env 3 iv secret header payload, sock))))"

text \<open>
  The non-blocking reader asks the socket for what is missing; here a call that would
  block is reported as a failure, and one that reads nothing as the end of the stream
  only for the header.
\<close>

definition fill_buffer ::
  "'s evsock \<Rightarrow> nat \<Rightarrow> bool \<Rightarrow> 's \<Rightarrow> ('s \<Rightarrow> (status + 'a) \<times> 's) \<Rightarrow> (status + 'a) \<times> 's" where
  "fill_buffer ev n eof sock k =
     (if evbuffer_get_length ev sock < n then
        (let needed = n - evbuffer_get_length ev sock in
         case evbuffer_read ev sock (Some needed) of ((r, _), sock) \<Rightarrow>
         if r < 0 then (Inl AGENTD_ERROR_IPC_EVBUFFER_READ_FAILURE, sock) else
         if eof \<and> r = 0 then (Inl AGENTD_ERROR_IPC_EVBUFFER_EOF, sock) else
         if r < int needed then (Inl AGENTD_ERROR_IPC_WOULD_BLOCK, sock) else k sock)
      else k sock)"

definition ipc_read_authed_data_noblock ::
  "'s evsock \<Rightarrow> vccrypt \<Rightarrow> crypt_env \<Rightarrow> 64 word \<Rightarrow> bytes \<Rightarrow> 's \<Rightarrow> (status + bytes) \<times> 's" where
  "ipc_read_authed_data_noblock ev cr env iv secret sock =
     (let header_sz = 8 + mac_short_size cr in
      fill_buffer ev header_sz True sock (\<lambda>sock.
      if \<not> buffer_init_ok env 0 then (Inl AGENTD_ERROR_GENERAL_OUT_OF_MEMORY, sock) else
      case evbuffer_pullup ev sock header_sz of
        None \<Rightarrow> (Inl AGENTD_ERROR_IPC_WOULD_BLOCK, sock)
      | Some header \<Rightarrow>
      case open_header cr env iv secret header of
        Inl st \<Rightarrow> (Inl st, sock)
      | Inr n \<Rightarrow>
      fill_buffer ev (header_sz + n) False sock (\<lambda>sock.
      case evbuffer_pullup ev sock (header_sz + n) of
        None \<Rightarrow> (Inl AGENTD_ERROR_IPC_WOULD_BLOCK, sock)
      | Some packet \<Rightarrow>
      case open_payload cr env 1 iv secret packet (drop header_sz packet) of
        Inl st \<Rightarrow> (Inl st, sock)
      | Inr val \<Rightarrow>
      case evbuffer_drain ev sock (header_sz + n) of (r, sock) \<Rightarrow>
      if r \<noteq> 0 then (Inl AGENTD_ERROR_IPC_READ_BUFFER_DRAIN_FAILURE, sock) else
      (Inr val, sock))))"

subsection \<open>Packets on the wire\<close>

text \<open>A sealed packet, and the size both sides accept.\<close>

definition sealed :: "vccrypt \<Rightarrow> 64 word \<Rightarrow> bytes \<Rightarrow> bytes \<Rightarrow> bytes" where
  "sealed cr iv secret val =
     (let header = stream_encrypt cr secret iv 0 (net32 IPC_DATA_TYPE_AUTHED_PACKET @ net32 (of_nat (length val)));
          payload = stream_encrypt cr secret iv 8 val in
      header @ mac_short cr secret (header @ payload) @ payload)"

definition authed_ok :: "bytes \<Rightarrow> bool" where
  "authed_ok val \<longleftrightarrow> length val \<le> 10 * 1024 * 1024"

lemma authed_ok_unat: "authed_ok val \<Longrightarrow> unat (of_nat (length val) :: 32 word) = length val"
  by (simp add: authed_ok_def unat_of_nat)

lemma crypt_ok_sel [simp]:
  "buffer_init_ok crypt_ok n" "stream_init_ok crypt_ok" "mac_init_ok crypt_ok" "continue_ok crypt_ok n" "stream_ok crypt_ok n"
  "mac_digest_ok crypt_ok n" "mac_finalize_ok crypt_ok" "val_malloc_ok crypt_ok"
  by (simp_all add: crypt_ok_def)

text \<open>Whatever fails, a reader that returns a value has checked the code of all it decrypted.\<close>

lemma open_header_Inr:
  "open_header cr env iv secret header = Inr n \<Longrightarrow>
     n \<le> 10 * 1024 * 1024 \<and>
     of_net32 (take 4 (stream_decrypt cr secret iv 0 (take 8 header))) = IPC_DATA_TYPE_AUTHED_PACKET \<and>
     n = unat (of_net32 (slice 4 4 (stream_decrypt cr secret iv 0 (take 8 header))))"
  by (auto simp: open_header_def Let_def split: if_splits)

lemma open_payload_Inr:
  "open_payload cr env j iv secret header payload = Inr val \<Longrightarrow>
     slice 8 (mac_short_size cr) header = mac_short cr secret (take 8 header @ payload) \<and> val = stream_decrypt cr secret iv 8 payload"
  by (auto simp: open_payload_def Let_def split: if_splits)

lemma read_authed_sound:
  assumes "ipc_read_authed_data_block cr env iv secret fd = (Inr val, fd')"
  obtains header payload where "rx fd = header @ payload @ rx fd'" and "length header = 8 + mac_short_size cr"
    and "open_header cr env iv secret header = Inr (length payload)" and "open_payload cr env 3 iv secret header payload = Inr val"
  using assms
  by (auto simp: ipc_read_authed_data_block_def Let_def split: if_splits sum.splits elim!: read_block_sound)

context vccrypt_suite
begin

lemma seal_packet_ok:
  assumes "authed_ok val"
  shows "seal_packet cr crypt_ok iv val secret = Inr (sealed cr iv secret val)"
  using encrypt_append [of secret iv 0 "net32 IPC_DATA_TYPE_AUTHED_PACKET" "net32 (of_nat (length val))"]
  by (simp add: seal_packet_def sealed_def Let_def authed_ok_unat [OF assms])

lemma open_sealed:
  assumes ok: "authed_ok val" and h: "header @ payload = sealed cr iv secret val" and l: "length header = 8 + mac_short_size cr"
  shows "open_header cr crypt_ok iv secret header = Inr (length val)"
    and "open_payload cr crypt_ok j iv secret (header @ rest) payload = Inr val"
    and "length payload = length val"
proof -
  define e where "e = stream_encrypt cr secret iv 0 (net32 IPC_DATA_TYPE_AUTHED_PACKET @ net32 (of_nat (length val)))"
  define p where "p = stream_encrypt cr secret iv 8 val"
  have len: "length e = 8" "length (mac_short cr secret (e @ p)) = mac_short_size cr"
    by (simp_all add: e_def length_encrypt length_mac)
  have "header @ payload = (e @ mac_short cr secret (e @ p)) @ p" using h by (simp add: sealed_def e_def p_def Let_def)
  then have x: "header = e @ mac_short cr secret (e @ p)" "payload = p" using l len append_same_length by (metis length_append)+
  have d: "stream_decrypt cr secret iv 0 e = net32 IPC_DATA_TYPE_AUTHED_PACKET @ net32 (of_nat (length val))"
    by (simp add: e_def decrypt_encrypt)
  show "open_header cr crypt_ok iv secret header = Inr (length val)"
    using ok authed_ok_unat [OF ok] len d by (simp add: open_header_def x Let_def slice_def authed_ok_def)
  show "open_payload cr crypt_ok j iv secret (header @ rest) payload = Inr val"
    using len by (simp add: open_payload_def x Let_def slice_def) (simp add: p_def decrypt_encrypt)
  show "length payload = length val" by (simp add: x p_def length_encrypt)
qed

lemma read_block_sealed:
  assumes rd: "rd_limits fd = []" and ok: "authed_ok val" and r: "rx fd = sealed cr iv secret val @ rest"
  shows "ipc_read_authed_data_block cr crypt_ok iv secret fd = (Inr val, fd\<lparr>rx := rest\<rparr>)"
proof -
  let ?n = "8 + mac_short_size cr"
  define h where "h = take ?n (sealed cr iv secret val)"
  define p where "p = drop ?n (sealed cr iv secret val)"
  have len: "?n \<le> length (sealed cr iv secret val)" by (simp add: sealed_def Let_def length_encrypt length_mac)
  have s: "sealed cr iv secret val = h @ p" "length h = ?n" using len by (simp_all add: h_def p_def)
  note o = open_sealed [OF ok s(1) [symmetric] s(2)]
  have "read_block ?n fd k = k h (fd\<lparr>rx := p @ rest\<rparr>)" for k :: "bytes \<Rightarrow> ipc_fd \<Rightarrow> (status + bytes) \<times> ipc_fd"
    using rd r s by (intro read_block_ok) simp_all
  moreover have "read_block (length val) (fd\<lparr>rx := p @ rest\<rparr>) k = k p (fd\<lparr>rx := rest\<rparr>)" for k :: "bytes \<Rightarrow> ipc_fd \<Rightarrow> (status + bytes) \<times> ipc_fd"
    using rd o(3) by (subst read_block_ok [where b = p and rest = rest]) simp_all
  ultimately show ?thesis using o(1) o(2) [of 3 "[]"] by (simp add: ipc_read_authed_data_block_def Let_def)
qed

lemma read_block_sealed_only:
  assumes ok: "authed_ok val" and r: "rx fd = sealed cr iv secret val @ rest"
    and h: "ipc_read_authed_data_block cr crypt_ok iv secret fd = (Inr y, fd')"
  shows "y = val \<and> rx fd' = rest"
proof -
  obtain h p where x: "rx fd = h @ p @ rx fd'" "length h = 8 + mac_short_size cr" "open_header cr crypt_ok iv secret h = Inr (length p)"
    "open_payload cr crypt_ok 3 iv secret h p = Inr y" using read_authed_sound [OF h] .
  define q where "q = drop (8 + mac_short_size cr) (sealed cr iv secret val)"
  have len: "8 + mac_short_size cr \<le> length (sealed cr iv secret val)" by (simp add: sealed_def Let_def length_encrypt length_mac)
  have e: "sealed cr iv secret val @ rest = h @ p @ rx fd'" using r x(1) by simp
  have "take (8 + mac_short_size cr) (sealed cr iv secret val) = h"
    using arg_cong [OF e, of "take (8 + mac_short_size cr)"] len x(2) by simp
  then have s1: "sealed cr iv secret val = h @ q" unfolding q_def by (metis append_take_drop_id)
  then have s: "sealed cr iv secret val = h @ q" "q @ rest = p @ rx fd'" using e by simp_all
  note o = open_sealed [OF ok s(1) [symmetric] x(2)]
  have "p = q" "rx fd' = rest" using s(2) o(1,3) x(3) append_same_length by (metis Inr_inject)+
  then show ?thesis using x(4) o(2) [of 3 "[]"] by simp
qed

lemma authed_codec:
  "ipc_codec (\<lambda>(iv, val). ipc_write_authed_data_block cr crypt_ok iv val secret) (\<lambda>iv. ipc_read_authed_data_block cr crypt_ok iv secret)
     fst (\<lambda>(iv, val). sealed cr iv secret val) snd (\<lambda>p. authed_ok (snd p))"
  by unfold_locales
    (auto simp: ipc_write_authed_data_block_def seal_packet_ok write_block_ok read_block_sealed dest: read_block_sealed_only)

end

subsection \<open>Properties\<close>

text \<open>
  C24. Authenticated packets arrive: what was written, in packets of at most 10 MB and with no
  call of the cryptography library or \<^verbatim>\<open>write\<close> failing, with a shared secret under a
  sequence of initialization vectors is read with the same secret and the same sequence,
  in order and complete, and what comes after it in the stream is left alone; when
  \<^verbatim>\<open>read\<close> fails or returns less than was asked for, the packets read before that are
  the first ones that were written.
\<close>

theorem authed_stream_delivered:
  assumes "vccrypt_suite cr" and "wr_limits out = []" and "tx out = []" and "\<forall>p \<in> set ps. authed_ok (snd p)"
    and "rx peer = tx (snd (write_all (\<lambda>(iv, val). ipc_write_authed_data_block cr crypt_ok iv val secret) out ps)) @ rest"
  shows "fst (write_all (\<lambda>(iv, val). ipc_write_authed_data_block cr crypt_ok iv val secret) out ps) = AGENTD_STATUS_SUCCESS \<and>
     (rd_limits peer = [] \<longrightarrow>
        read_all (\<lambda>iv. ipc_read_authed_data_block cr crypt_ok iv secret) peer (map fst ps) = (map snd ps, peer\<lparr>rx := rest\<rparr>)) \<and>
     (\<exists>n. fst (read_all (\<lambda>iv. ipc_read_authed_data_block cr crypt_ok iv secret) peer (map fst ps)) = take n (map snd ps))"
proof -
  note codec = vccrypt_suite.authed_codec [OF assms(1), of secret]
  let ?enc = "\<lambda>(iv, val). sealed cr iv secret val"
  have w: "write_all (\<lambda>(iv, val). ipc_write_authed_data_block cr crypt_ok iv val secret) out ps =
      (AGENTD_STATUS_SUCCESS, out\<lparr>tx := concat (map ?enc ps)\<rparr>)"
    using ipc_codec.write_all_ok [OF codec assms(2,4)] assms(3) by simp
  then have "rx peer = concat (map ?enc ps) @ rest" using assms(5) by simp
  then show ?thesis
    using w ipc_codec.read_all_ok [OF codec, of peer ps rest] ipc_codec.read_all_prefix [OF codec assms(4), of peer rest] assms(4)
    by simp
qed

text \<open>
  A cipher that adds a key stream and a code that sums, which have the laws and no
  strength.
\<close>

definition weak_stream :: "bytes \<Rightarrow> 64 word \<Rightarrow> nat \<Rightarrow> byte" where
  "weak_stream k iv p = sum_list k + ucast iv + of_nat p"

definition weak_crypt :: vccrypt where
  "weak_crypt =
     \<lparr> mac_short_size = 2,
       stream_encrypt = (\<lambda>k iv p b. map2 (\<lambda>j x. x + weak_stream k iv (p + j)) [0..<length b] b),
       stream_decrypt = (\<lambda>k iv p b. map2 (\<lambda>j x. x - weak_stream k iv (p + j)) [0..<length b] b),
       mac_short = (\<lambda>k b. [sum_list k + sum_list b, of_nat (length b)]) \<rparr>"

interpretation weak_suite: vccrypt_suite weak_crypt
proof
  show "stream_decrypt weak_crypt k iv p (stream_encrypt weak_crypt k iv p b) = b" for k iv p b
    by (intro nth_equalityI) (simp_all add: weak_crypt_def)
  show "length (stream_encrypt weak_crypt k iv p b) = length b" for k iv p b by (simp add: weak_crypt_def)
  show "stream_encrypt weak_crypt k iv p (a @ b) = stream_encrypt weak_crypt k iv p a @ stream_encrypt weak_crypt k iv (p + length a) b"
    for k iv p a b
    by (intro nth_equalityI) (auto simp: weak_crypt_def nth_append add.assoc)
  show "length (mac_short weak_crypt k b) = mac_short_size weak_crypt" for k b by (simp add: weak_crypt_def)
qed

definition idle_fd :: "bytes \<Rightarrow> ipc_fd" where
  "idle_fd b = \<lparr> rx = b, tx = [], rd_limits = [], wr_limits = [] \<rparr>"

theorem authed_stream_delivered_witness:
  "fst (read_all (\<lambda>iv. ipc_read_authed_data_block weak_crypt crypt_ok iv [5, 6])
     (idle_fd (tx (snd (write_all (\<lambda>(iv, val). ipc_write_authed_data_block weak_crypt crypt_ok iv val [5, 6]) (idle_fd [])
        [(1, [10, 11, 12]), (2, [13])])))) [1, 2]) = [[10, 11, 12], [13]]"
  using authed_stream_delivered [OF weak_suite.vccrypt_suite_axioms, of "idle_fd []" "[(1, [10, 11, 12]), (2, [13])]"
      "idle_fd (tx (snd (write_all (\<lambda>(iv, val). ipc_write_authed_data_block weak_crypt crypt_ok iv val [5, 6]) (idle_fd [])
        [(1, [10, 11, 12]), (2, [13])])))" "[5, 6]" "[]"]
  by (simp del: write_all.simps read_all.simps add: authed_ok_def) (simp add: idle_fd_def)

text \<open>
  C23. Only authentic packets are accepted, whatever the socket delivers and whatever
  fails: the bytes behind a value the reader returns are an encrypted header, the message
  authentication code of the header and the payload under the shared secret, and the
  payload, of the size the header tells and at most 10 MB, and the value is the
  decrypted payload.
\<close>

theorem authed_only_authentic:
  assumes "ipc_read_authed_data_block cr env iv secret fd = (Inr val, fd')"
  shows "\<exists>header payload. length header = 8 \<and> length payload \<le> 10 * 1024 * 1024 \<and>
     rx fd = header @ mac_short cr secret (header @ payload) @ payload @ rx fd' \<and>
     of_net32 (take 4 (stream_decrypt cr secret iv 0 header)) = IPC_DATA_TYPE_AUTHED_PACKET \<and>
     length payload = unat (of_net32 (slice 4 4 (stream_decrypt cr secret iv 0 header))) \<and>
     val = stream_decrypt cr secret iv 8 payload"
proof -
  obtain h p where x: "rx fd = h @ p @ rx fd'" "length h = 8 + mac_short_size cr" "open_header cr env iv secret h = Inr (length p)"
    "open_payload cr env 3 iv secret h p = Inr val" using read_authed_sound [OF assms] .
  note p = open_payload_Inr [OF x(4)] and h = open_header_Inr [OF x(3)]
  have d: "h = take 8 h @ slice 8 (mac_short_size cr) h" using x(2) by (simp add: slice_def)
  show ?thesis
  proof (intro exI conjI)
    show "length (take 8 h) = 8" using x(2) by simp
    show "rx fd = take 8 h @ mac_short cr secret (take 8 h @ p) @ p @ rx fd'" using x(1) d p by (metis append.assoc)
  qed (use p h in \<open>simp_all\<close>)
qed

theorem authed_only_authentic_witness:
  "\<exists>header payload. length header = 8 \<and>
     tx (snd (ipc_write_authed_data_block weak_crypt crypt_ok 1 [10, 11] [5, 6] (idle_fd []))) @ [7] =
       header @ mac_short weak_crypt [5, 6] (header @ payload) @ payload @ [7] \<and>
     stream_decrypt weak_crypt [5, 6] 1 8 payload = [10, 11]"
proof -
  have w: "tx (snd (ipc_write_authed_data_block weak_crypt crypt_ok 1 [10, 11] [5, 6] (idle_fd []))) = sealed weak_crypt 1 [5, 6] [10, 11]"
    by (simp add: ipc_write_authed_data_block_def weak_suite.seal_packet_ok authed_ok_def write_block_ok idle_fd_def)
  have r: "ipc_read_authed_data_block weak_crypt crypt_ok 1 [5, 6] (idle_fd (sealed weak_crypt 1 [5, 6] [10, 11] @ [7])) =
      (Inr [10, 11], (idle_fd (sealed weak_crypt 1 [5, 6] [10, 11] @ [7]))\<lparr>rx := [7]\<rparr>)"
    by (rule weak_suite.read_block_sealed) (simp_all add: idle_fd_def authed_ok_def)
  show ?thesis unfolding w using authed_only_authentic [OF r] by (simp add: idle_fd_def) metis
qed

subsection \<open>The non-blocking reader\<close>

context ev_socket
begin

lemma fill_buffer_Inr:
  assumes "fill_buffer ev n eof s k = (Inr y, s')"
  obtains s1 where "stream s1 = stream s" and "wbuf s1 = wbuf s" and "sent s1 = sent s" and "k s1 = (Inr y, s')"
  using assms by (auto simp: fill_buffer_def Let_def dest: read_stream split: if_splits prod.splits)

text \<open>It accepts what the blocking reader accepts, and takes exactly the packet from the stream.\<close>

lemma read_authed_noblock_sound:
  assumes "ipc_read_authed_data_noblock ev cr env iv secret s = (Inr val, s')"
  shows "\<exists>header payload. length header = 8 \<and> length payload \<le> 10 * 1024 * 1024 \<and>
     stream s = header @ mac_short cr secret (header @ payload) @ payload @ stream s' \<and>
     val = stream_decrypt cr secret iv 8 payload"
proof -
  let ?n = "8 + mac_short_size cr"
  obtain s1 h m where 1: "stream s1 = stream s" "evbuffer_pullup ev s1 ?n = Some h" "open_header cr env iv secret h = Inr m"
    and k: "fill_buffer ev (?n + m) False s1 (\<lambda>sock.
      case evbuffer_pullup ev sock (?n + m) of None \<Rightarrow> (Inl AGENTD_ERROR_IPC_WOULD_BLOCK, sock) | Some packet \<Rightarrow>
      case open_payload cr env 1 iv secret packet (drop ?n packet) of Inl st \<Rightarrow> (Inl st, sock) | Inr val \<Rightarrow>
      case evbuffer_drain ev sock (?n + m) of (r, sock) \<Rightarrow>
      if r \<noteq> 0 then (Inl AGENTD_ERROR_IPC_READ_BUFFER_DRAIN_FAILURE, sock) else (Inr val, sock)) = (Inr val, s')"
    using assms by (auto simp: ipc_read_authed_data_noblock_def Let_def elim!: fill_buffer_Inr split: if_splits option.splits sum.splits)
  obtain s2 p where 2: "stream s2 = stream s1" "evbuffer_pullup ev s2 (?n + m) = Some p"
    "open_payload cr env 1 iv secret p (drop ?n p) = Inr val" "evbuffer_drain ev s2 (?n + m) = (0, s')"
    using k by (auto elim!: fill_buffer_Inr split: if_splits option.splits sum.splits prod.splits)
  have p: "p = take (?n + m) (rbuf s2)" "?n + m \<le> length (rbuf s2)" using pullup_prefix [OF 2(2)] by auto
  have s': "stream s2 = p @ stream s'" using drain_ok [OF 2(4)] p by simp
  have x: "slice 8 (mac_short_size cr) p = mac_short cr secret (take 8 p @ drop ?n p)" "val = stream_decrypt cr secret iv 8 (drop ?n p)"
    using open_payload_Inr [OF 2(3)] by simp_all
  have "p = take 8 p @ slice 8 (mac_short_size cr) p @ drop ?n p"
    using append_take_drop_id [of 8 p] append_take_drop_id [of "mac_short_size cr" "drop 8 p"] by (simp add: slice_def add.commute)
  then have "stream s = take 8 p @ mac_short cr secret (take 8 p @ drop ?n p) @ drop ?n p @ stream s'"
    using s' 1(1) 2(1) x(1) by (metis append.assoc)
  moreover have "length (take 8 p) = 8" "length (drop ?n p) \<le> 10 * 1024 * 1024" using p open_header_Inr [OF 1(3)] by simp_all
  ultimately show ?thesis using x(2) by blast
qed

end

text \<open>
  Unlike the reader of plain packets it takes a socket that has nothing to read for a
  failed one.
\<close>

lemma authed_noblock_busy:
  "fst (ipc_read_authed_data_noblock mem_evsock weak_crypt crypt_ok 1 [5, 6] \<lparr> m_rbuf = [], m_wbuf = [], m_fragments = [], m_sent = [] \<rparr>) =
     Inl AGENTD_ERROR_IPC_EVBUFFER_READ_FAILURE"
  by (simp add: ipc_read_authed_data_noblock_def fill_buffer_def Let_def mem_evsock_def)

end
