(* ===== verification/Proto_Client.thy ===== *)
theory Proto_Client
  imports Proto Ipc_Authed Ds_Api
begin

text \<open>
  The calls of a client of the protocol service (\<^verbatim>\<open>protocolservice_api_sendreq_*.c\<close> and
  \<^verbatim>\<open>protocolservice_api_recvresp_*.c\<close>), over a blocking socket: the handshake, and the
  requests and responses in authenticated packets.  A call that sends takes and advances
  the initialization vector of the client, a call that receives that of the server.
\<close>

subsection \<open>The handshake\<close>

text \<open>
  What the handshake uses of the cryptographic library beyond packets: sizes, the number
  of the suite, the shared secret of a private key, a public key and the two nonces, and
  the code the client checks the response with.
\<close>

record vccrypt_handshake = vccrypt +
  VCCRYPT_SUITE_VELO_V1 :: "32 word"
  key_public_size :: nat
  key_nonce_size :: nat
  short_term_secret :: "bytes \<Rightarrow> bytes \<Rightarrow> bytes \<Rightarrow> bytes \<Rightarrow> bytes"
  mac_sha_512_256_size :: nat
  mac_sha_512_256 :: "bytes \<Rightarrow> bytes \<Rightarrow> bytes"

text \<open>
  Results of the calls of the library: \<open>prng\<close> the two reads of random bytes, \<open>client_st\<close>
  the statuses of the other calls in the order of the code.
\<close>

record client_env =
  prng :: "nat \<Rightarrow> status + bytes"
  client_st :: "nat \<Rightarrow> status"
  read_malloc :: bool
  authed_env :: crypt_env

definition protocolservice_api_sendreq_handshake_request_block ::
  "vccrypt_handshake \<Rightarrow> client_env \<Rightarrow> bytes \<Rightarrow> ipc_fd \<Rightarrow> (status + bytes \<times> bytes) \<times> ipc_fd" where
  "protocolservice_api_sendreq_handshake_request_block cr env entity_id sock =
     (if client_st env 0 \<noteq> AGENTD_STATUS_SUCCESS then (Inl (client_st env 0), sock) else
      if client_st env 1 \<noteq> AGENTD_STATUS_SUCCESS then (Inl (client_st env 1), sock) else
      case prng env 0 of
        Inl st \<Rightarrow> (Inl st, sock)
      | Inr key_nonce \<Rightarrow>
      if client_st env 2 \<noteq> AGENTD_STATUS_SUCCESS then (Inl (client_st env 2), sock) else
      case prng env 1 of
        Inl st \<Rightarrow> (Inl st, sock)
      | Inr challenge_nonce \<Rightarrow>
      if client_st env 3 \<noteq> AGENTD_STATUS_SUCCESS then (Inl (client_st env 3), sock) else
      let payload = net32 UNAUTH_PROTOCOL_REQ_ID_HANDSHAKE_INITIATE @ net32 0 @ net32 0x01 @ net32 (VCCRYPT_SUITE_VELO_V1 cr) @
                    entity_id @ key_nonce @ challenge_nonce in
      case ipc_write_data_block payload sock of (retval, sock) \<Rightarrow>
      if retval \<noteq> AGENTD_STATUS_SUCCESS then (Inl retval, sock) else (Inr (key_nonce, challenge_nonce), sock))"

text \<open>
  The response is taken apart at the fixed offsets of the sizes of the suite; with sizes
  that do not fit, memory behind the packet is read, which is \<open>None\<close>.  The outputs are
  set when the status of the result is success.
\<close>

record handshake_result =
  server_id :: bytes
  server_public_key :: bytes
  resp_challenge_nonce :: bytes
  resp_shared_secret :: bytes

definition protocolservice_api_recvresp_handshake_request_block ::
  "vccrypt_handshake \<Rightarrow> client_env \<Rightarrow> bytes \<Rightarrow> bytes \<Rightarrow> bytes \<Rightarrow> ipc_fd \<Rightarrow> (handshake_result api_result \<times> ipc_fd) option" where
  "protocolservice_api_recvresp_handshake_request_block cr env client_private_key key_nonce challenge_nonce sock =
     (case ipc_read_data_block (read_malloc env) sock of
        (Inl st, sock) \<Rightarrow> Some (api_error st, sock)
      | (Inr val, sock) \<Rightarrow>
      if length val < 12 then Some (api_error AGENTD_ERROR_PROTOCOLSERVICE_MALFORMED_RESPONSE, sock) else
      let st = of_net32 (slice 4 4 val); offset = of_net32 (slice 8 4 val);
          failed = (\<lambda>retval. Some (\<lparr> api_retval = retval, api_header = Some (offset, st), api_payload = None \<rparr>, sock));
          n = key_nonce_size cr in
      if st \<noteq> AGENTD_STATUS_SUCCESS then failed st else
      if client_st env 0 \<noteq> AGENTD_STATUS_SUCCESS then failed (client_st env 0) else
      let payload_size = 36 + key_public_size cr + n + n + mac_sha_512_256_size cr; signed = payload_size - mac_sha_512_256_size cr in
      if length val \<noteq> payload_size then failed AGENTD_ERROR_PROTOCOLSERVICE_MALFORMED_RESPONSE else
      if of_net32 (slice 12 4 val) \<noteq> 1 then failed AGENTD_ERROR_PROTOCOLSERVICE_MALFORMED_RESPONSE else
      if of_net32 (slice 16 4 val) \<noteq> VCCRYPT_SUITE_VELO_V1 cr then failed AGENTD_ERROR_PROTOCOLSERVICE_MALFORMED_RESPONSE else
      if client_st env 1 \<noteq> AGENTD_STATUS_SUCCESS then failed (client_st env 1) else
      if client_st env 2 \<noteq> AGENTD_STATUS_SUCCESS then failed (client_st env 2) else
      if client_st env 3 \<noteq> AGENTD_STATUS_SUCCESS then failed (client_st env 3) else
      if 68 + n > length val then None else
      let resp_key_nonce = slice 68 n val; public_key = slice 36 (key_public_size cr) val in
      if client_st env 4 \<noteq> AGENTD_STATUS_SUCCESS then failed (client_st env 4) else
      if 100 + n > length val then None else
      if client_st env 5 \<noteq> AGENTD_STATUS_SUCCESS then failed (client_st env 5) else
      if client_st env 6 \<noteq> AGENTD_STATUS_SUCCESS then failed (client_st env 6) else
      let secret = short_term_secret cr client_private_key public_key resp_key_nonce key_nonce in
      if client_st env 7 \<noteq> AGENTD_STATUS_SUCCESS then failed (client_st env 7) else
      if client_st env 8 \<noteq> AGENTD_STATUS_SUCCESS then failed (client_st env 8) else
      if client_st env 9 \<noteq> AGENTD_STATUS_SUCCESS then failed (client_st env 9) else
      if client_st env 10 \<noteq> AGENTD_STATUS_SUCCESS then failed (client_st env 10) else
      if client_st env 11 \<noteq> AGENTD_STATUS_SUCCESS then failed (client_st env 11) else
      if client_st env 12 \<noteq> AGENTD_STATUS_SUCCESS then failed (client_st env 12) else
      if mac_sha_512_256 cr secret (take signed val @ challenge_nonce) \<noteq> drop signed val
      then failed AGENTD_ERROR_PROTOCOLSERVICE_MALFORMED_RESPONSE else
      Some (\<lparr> api_retval = AGENTD_STATUS_SUCCESS, api_header = Some (offset, st),
              api_payload = Some \<lparr> server_id = slice 20 16 val, server_public_key = public_key,
                                   resp_challenge_nonce = slice 100 n val, resp_shared_secret = secret \<rparr> \<rparr>, sock))"

definition protocolservice_api_sendreq_handshake_ack_block ::
  "vccrypt_handshake \<Rightarrow> client_env \<Rightarrow> 64 word \<Rightarrow> bytes \<Rightarrow> bytes \<Rightarrow> ipc_fd \<Rightarrow> status \<times> 64 word \<times> ipc_fd" where
  "protocolservice_api_sendreq_handshake_ack_block cr env iv secret challenge_nonce sock =
     (if client_st env 0 \<noteq> AGENTD_STATUS_SUCCESS then (AGENTD_ERROR_GENERAL_OUT_OF_MEMORY, iv, sock) else
      if client_st env 1 \<noteq> AGENTD_STATUS_SUCCESS then (client_st env 1, iv, sock) else
      if client_st env 2 \<noteq> AGENTD_STATUS_SUCCESS then (client_st env 2, iv, sock) else
      if client_st env 3 \<noteq> AGENTD_STATUS_SUCCESS then (client_st env 3, iv, sock) else
      let digest = mac_short cr secret challenge_nonce; iv = 0x0000000000000001 in
      case ipc_write_authed_data_block (vccrypt.truncate cr) (authed_env env) iv digest secret sock of (retval, sock) \<Rightarrow>
      if retval \<noteq> AGENTD_STATUS_SUCCESS then (retval, iv, sock) else (AGENTD_STATUS_SUCCESS, iv + 1, sock))"

definition protocolservice_api_recvresp_handshake_ack_block ::
  "vccrypt \<Rightarrow> crypt_env \<Rightarrow> bytes \<Rightarrow> ipc_fd \<Rightarrow> unit api_result \<times> 64 word \<times> ipc_fd" where
  "protocolservice_api_recvresp_handshake_ack_block cr env secret sock =
     (let iv = 0x8000000000000001 in
      case ipc_read_authed_data_block cr env iv secret sock of
        (Inl st, sock) \<Rightarrow> (api_error st, iv, sock)
      | (Inr val, sock) \<Rightarrow>
          ((if length val \<noteq> 12 then api_error AGENTD_ERROR_IPC_READ_UNEXPECTED_DATA_SIZE else
            if of_net32 (slice 0 4 val) \<noteq> UNAUTH_PROTOCOL_REQ_ID_HANDSHAKE_ACKNOWLEDGE
            then api_error AGENTD_ERROR_IPC_READ_UNEXPECTED_DATA_TYPE else
            \<lparr> api_retval = AGENTD_STATUS_SUCCESS, api_header = Some (of_net32 (slice 8 4 val), of_net32 (slice 4 4 val)), api_payload = None \<rparr>),
           iv + 1, sock))"

subsection \<open>Requests\<close>

text \<open>
  A request is a buffer with the number of the request, the offset 0 and the arguments.
  The vector is only advanced when the packet was written.
\<close>

definition client_sendreq ::
  "vccrypt \<Rightarrow> crypt_env \<Rightarrow> bool \<Rightarrow> 64 word \<Rightarrow> bytes \<Rightarrow> bytes \<Rightarrow> ipc_fd \<Rightarrow> status \<times> 64 word \<times> ipc_fd" where
  "client_sendreq cr env req_ok iv secret req sock =
     (if \<not> req_ok then (AGENTD_ERROR_GENERAL_OUT_OF_MEMORY, iv, sock) else
      case ipc_write_authed_data_block cr env iv req secret sock of (retval, sock) \<Rightarrow>
      if retval \<noteq> AGENTD_STATUS_SUCCESS then (retval, iv, sock) else (AGENTD_STATUS_SUCCESS, iv + 1, sock))"

definition protocolservice_api_sendreq_latest_block_id_get_block ::
  "vccrypt \<Rightarrow> crypt_env \<Rightarrow> bool \<Rightarrow> 64 word \<Rightarrow> bytes \<Rightarrow> ipc_fd \<Rightarrow> status \<times> 64 word \<times> ipc_fd" where
  "protocolservice_api_sendreq_latest_block_id_get_block cr env req_ok iv secret sock =
     client_sendreq cr env req_ok iv secret (net32 UNAUTH_PROTOCOL_REQ_ID_LATEST_BLOCK_ID_GET @ net32 0) sock"

definition protocolservice_api_sendreq_transaction_submit ::
  "vccrypt \<Rightarrow> crypt_env \<Rightarrow> bool \<Rightarrow> 64 word \<Rightarrow> bytes \<Rightarrow> bytes \<Rightarrow> bytes \<Rightarrow> bytes \<Rightarrow> ipc_fd \<Rightarrow> status \<times> 64 word \<times> ipc_fd" where
  "protocolservice_api_sendreq_transaction_submit cr env req_ok iv secret txn_id artifact_id cert sock =
     client_sendreq cr env req_ok iv secret (net32 UNAUTH_PROTOCOL_REQ_ID_TRANSACTION_SUBMIT @ net32 0 @ txn_id @ artifact_id @ cert) sock"

definition protocolservice_api_sendreq_block_get ::
  "vccrypt \<Rightarrow> crypt_env \<Rightarrow> bool \<Rightarrow> 64 word \<Rightarrow> bytes \<Rightarrow> bytes \<Rightarrow> ipc_fd \<Rightarrow> status \<times> 64 word \<times> ipc_fd" where
  "protocolservice_api_sendreq_block_get cr env req_ok iv secret block_id sock =
     client_sendreq cr env req_ok iv secret (net32 UNAUTH_PROTOCOL_REQ_ID_BLOCK_BY_ID_GET @ net32 0 @ block_id) sock"

definition protocolservice_api_sendreq_block_next_id_get ::
  "vccrypt \<Rightarrow> crypt_env \<Rightarrow> bool \<Rightarrow> 64 word \<Rightarrow> bytes \<Rightarrow> bytes \<Rightarrow> ipc_fd \<Rightarrow> status \<times> 64 word \<times> ipc_fd" where
  "protocolservice_api_sendreq_block_next_id_get cr env req_ok iv secret block_id sock =
     client_sendreq cr env req_ok iv secret (net32 UNAUTH_PROTOCOL_REQ_ID_BLOCK_ID_GET_NEXT @ net32 0 @ block_id) sock"

definition protocolservice_api_sendreq_block_prev_id_get ::
  "vccrypt \<Rightarrow> crypt_env \<Rightarrow> bool \<Rightarrow> 64 word \<Rightarrow> bytes \<Rightarrow> bytes \<Rightarrow> ipc_fd \<Rightarrow> status \<times> 64 word \<times> ipc_fd" where
  "protocolservice_api_sendreq_block_prev_id_get cr env req_ok iv secret block_id sock =
     client_sendreq cr env req_ok iv secret (net32 UNAUTH_PROTOCOL_REQ_ID_BLOCK_ID_GET_PREV @ net32 0 @ block_id) sock"

definition protocolservice_api_sendreq_block_id_by_height_get_block ::
  "vccrypt \<Rightarrow> crypt_env \<Rightarrow> bool \<Rightarrow> 64 word \<Rightarrow> bytes \<Rightarrow> 64 word \<Rightarrow> ipc_fd \<Rightarrow> status \<times> 64 word \<times> ipc_fd" where
  "protocolservice_api_sendreq_block_id_by_height_get_block cr env req_ok iv secret height sock =
     client_sendreq cr env req_ok iv secret (net32 UNAUTH_PROTOCOL_REQ_ID_BLOCK_ID_BY_HEIGHT_GET @ net32 0 @ net64 height) sock"

definition protocolservice_api_sendreq_transaction_get ::
  "vccrypt \<Rightarrow> crypt_env \<Rightarrow> bool \<Rightarrow> 64 word \<Rightarrow> bytes \<Rightarrow> bytes \<Rightarrow> ipc_fd \<Rightarrow> status \<times> 64 word \<times> ipc_fd" where
  "protocolservice_api_sendreq_transaction_get cr env req_ok iv secret txn_id sock =
     client_sendreq cr env req_ok iv secret (net32 UNAUTH_PROTOCOL_REQ_ID_TRANSACTION_BY_ID_GET @ net32 0 @ txn_id) sock"

definition protocolservice_api_sendreq_transaction_next_id_get ::
  "vccrypt \<Rightarrow> crypt_env \<Rightarrow> bool \<Rightarrow> 64 word \<Rightarrow> bytes \<Rightarrow> bytes \<Rightarrow> ipc_fd \<Rightarrow> status \<times> 64 word \<times> ipc_fd" where
  "protocolservice_api_sendreq_transaction_next_id_get cr env req_ok iv secret txn_id sock =
     client_sendreq cr env req_ok iv secret (net32 UNAUTH_PROTOCOL_REQ_ID_TRANSACTION_ID_GET_NEXT @ net32 0 @ txn_id) sock"

definition protocolservice_api_sendreq_transaction_prev_id_get ::
  "vccrypt \<Rightarrow> crypt_env \<Rightarrow> bool \<Rightarrow> 64 word \<Rightarrow> bytes \<Rightarrow> bytes \<Rightarrow> ipc_fd \<Rightarrow> status \<times> 64 word \<times> ipc_fd" where
  "protocolservice_api_sendreq_transaction_prev_id_get cr env req_ok iv secret txn_id sock =
     client_sendreq cr env req_ok iv secret (net32 UNAUTH_PROTOCOL_REQ_ID_TRANSACTION_ID_GET_PREV @ net32 0 @ txn_id) sock"

definition protocolservice_api_sendreq_transaction_block_id_get ::
  "vccrypt \<Rightarrow> crypt_env \<Rightarrow> bool \<Rightarrow> 64 word \<Rightarrow> bytes \<Rightarrow> bytes \<Rightarrow> ipc_fd \<Rightarrow> status \<times> 64 word \<times> ipc_fd" where
  "protocolservice_api_sendreq_transaction_block_id_get cr env req_ok iv secret txn_id sock =
     client_sendreq cr env req_ok iv secret (net32 UNAUTH_PROTOCOL_REQ_ID_TRANSACTION_ID_GET_BLOCK_ID @ net32 0 @ txn_id) sock"

definition protocolservice_api_sendreq_artifact_first_txn_id_get ::
  "vccrypt \<Rightarrow> crypt_env \<Rightarrow> bool \<Rightarrow> 64 word \<Rightarrow> bytes \<Rightarrow> bytes \<Rightarrow> ipc_fd \<Rightarrow> status \<times> 64 word \<times> ipc_fd" where
  "protocolservice_api_sendreq_artifact_first_txn_id_get cr env req_ok iv secret artifact_id sock =
     client_sendreq cr env req_ok iv secret (net32 UNAUTH_PROTOCOL_REQ_ID_ARTIFACT_FIRST_TXN_BY_ID_GET @ net32 0 @ artifact_id) sock"

definition protocolservice_api_sendreq_artifact_last_txn_id_get ::
  "vccrypt \<Rightarrow> crypt_env \<Rightarrow> bool \<Rightarrow> 64 word \<Rightarrow> bytes \<Rightarrow> bytes \<Rightarrow> ipc_fd \<Rightarrow> status \<times> 64 word \<times> ipc_fd" where
  "protocolservice_api_sendreq_artifact_last_txn_id_get cr env req_ok iv secret artifact_id sock =
     client_sendreq cr env req_ok iv secret (net32 UNAUTH_PROTOCOL_REQ_ID_ARTIFACT_LAST_TXN_BY_ID_GET @ net32 0 @ artifact_id) sock"

definition protocolservice_api_sendreq_status_get ::
  "vccrypt \<Rightarrow> crypt_env \<Rightarrow> bool \<Rightarrow> 64 word \<Rightarrow> bytes \<Rightarrow> ipc_fd \<Rightarrow> status \<times> 64 word \<times> ipc_fd" where
  "protocolservice_api_sendreq_status_get cr env req_ok iv secret sock =
     client_sendreq cr env req_ok iv secret (net32 UNAUTH_PROTOCOL_REQ_ID_STATUS_GET @ net32 0) sock"

definition protocolservice_api_sendreq_close ::
  "vccrypt \<Rightarrow> crypt_env \<Rightarrow> bool \<Rightarrow> 64 word \<Rightarrow> bytes \<Rightarrow> ipc_fd \<Rightarrow> status \<times> 64 word \<times> ipc_fd" where
  "protocolservice_api_sendreq_close cr env req_ok iv secret sock =
     client_sendreq cr env req_ok iv secret (net32 UNAUTH_PROTOCOL_REQ_ID_CLOSE @ net32 0) sock"

subsection \<open>Responses\<close>

definition client_recvresp ::
  "vccrypt \<Rightarrow> crypt_env \<Rightarrow> 64 word \<Rightarrow> bytes \<Rightarrow> (bytes \<Rightarrow> 'p api_result) \<Rightarrow> ipc_fd \<Rightarrow> 'p api_result \<times> 64 word \<times> ipc_fd" where
  "client_recvresp cr env iv secret process sock =
     (case ipc_read_authed_data_block cr env iv secret sock of
        (Inl st, sock) \<Rightarrow> (api_error st, iv, sock)
      | (Inr val, sock) \<Rightarrow> (process val, iv + 1, sock))"

text \<open>The header of a response, and a response that carries a value when its status is success.\<close>

definition client_header :: "bool \<Rightarrow> 32 word \<Rightarrow> bytes \<Rightarrow> (32 word \<times> status \<Rightarrow> 'p api_result) \<Rightarrow> 'p api_result" where
  "client_header size_ok request_id val k =
     (if \<not> size_ok then api_error AGENTD_ERROR_IPC_READ_UNEXPECTED_DATA_SIZE else
      if of_net32 (slice 0 4 val) \<noteq> request_id then api_error AGENTD_ERROR_IPC_READ_UNEXPECTED_DATA_TYPE else
      k (of_net32 (slice 8 4 val), of_net32 (slice 4 4 val)))"

definition client_value :: "32 word \<Rightarrow> (bytes \<Rightarrow> status + 'p) \<Rightarrow> bytes \<Rightarrow> 'p api_result" where
  "client_value request_id decode val =
     client_header (12 \<le> length val) request_id val (\<lambda>(offset, st).
       if st \<noteq> AGENTD_STATUS_SUCCESS then \<lparr> api_retval = AGENTD_STATUS_SUCCESS, api_header = Some (offset, st), api_payload = None \<rparr> else
       case decode (drop 12 val) of
         Inl retval \<Rightarrow> \<lparr> api_retval = retval, api_header = Some (offset, st), api_payload = None \<rparr>
       | Inr p \<Rightarrow> \<lparr> api_retval = AGENTD_STATUS_SUCCESS, api_header = Some (offset, st), api_payload = Some p \<rparr>)"

definition client_status :: "bool \<Rightarrow> 32 word \<Rightarrow> bytes \<Rightarrow> unit api_result" where
  "client_status size_ok request_id val =
     client_header size_ok request_id val (\<lambda>header. \<lparr> api_retval = AGENTD_STATUS_SUCCESS, api_header = Some header, api_payload = None \<rparr>)"

text \<open>Values: an identifier, which some calls want to be all of the rest, and nodes with a certificate.\<close>

definition client_id :: "bytes \<Rightarrow> status + bytes" where
  "client_id data = (if length data < 16 then Inl AGENTD_ERROR_IPC_READ_UNEXPECTED_DATA_SIZE else Inr (take 16 data))"

definition client_exact_id :: "bytes \<Rightarrow> status + bytes" where
  "client_exact_id data = (if length data \<noteq> 16 then Inl AGENTD_ERROR_IPC_READ_UNEXPECTED_DATA_SIZE else Inr (take 16 data))"

definition client_block :: "bool \<Rightarrow> bytes \<Rightarrow> status + data_block_node \<times> bytes" where
  "client_block cert_malloc data =
     (if length data < 80 then Inl AGENTD_ERROR_IPC_READ_UNEXPECTED_DATA_SIZE else
      if \<not> cert_malloc then Inl AGENTD_ERROR_GENERAL_OUT_OF_MEMORY else
      Inr (\<lparr> block_key = slice 0 16 data, block_prev = slice 16 16 data, block_next = slice 32 16 data,
             first_transaction_id = slice 48 16 data, net_block_height = of_mem64 (slice 64 8 data),
             net_block_cert_size = of_mem64 (slice 72 8 data) \<rparr>, drop 80 data))"

text \<open>The padding of the caller's structure is not written.\<close>

definition client_transaction :: "bool \<Rightarrow> bytes \<Rightarrow> bytes \<Rightarrow> status + data_transaction_node \<times> bytes" where
  "client_transaction cert_malloc pad data =
     (if length data < 92 then Inl AGENTD_ERROR_IPC_READ_UNEXPECTED_DATA_SIZE else
      if \<not> cert_malloc then Inl AGENTD_ERROR_GENERAL_OUT_OF_MEMORY else
      Inr (\<lparr> node_key = slice 0 16 data, node_prev = slice 16 16 data, node_next = slice 32 16 data,
             node_artifact_id = slice 48 16 data, node_block_id = slice 64 16 data, net_txn_cert_size = of_mem64 (slice 80 8 data),
             net_txn_state = of_mem32 (slice 88 4 data), node_pad = pad \<rparr>, drop 92 data))"

definition protocolservice_api_recvresp_latest_block_id_get_block ::
  "vccrypt \<Rightarrow> crypt_env \<Rightarrow> bool \<Rightarrow> 64 word \<Rightarrow> bytes \<Rightarrow> ipc_fd \<Rightarrow> bytes api_result \<times> 64 word \<times> ipc_fd" where
  "protocolservice_api_recvresp_latest_block_id_get_block cr env id_ok iv secret sock =
     (if \<not> id_ok then (api_error AGENTD_ERROR_GENERAL_OUT_OF_MEMORY, iv, sock) else
      client_recvresp cr env iv secret (client_value UNAUTH_PROTOCOL_REQ_ID_LATEST_BLOCK_ID_GET client_exact_id) sock)"

definition protocolservice_api_recvresp_transaction_submit ::
  "vccrypt \<Rightarrow> crypt_env \<Rightarrow> 64 word \<Rightarrow> bytes \<Rightarrow> ipc_fd \<Rightarrow> unit api_result \<times> 64 word \<times> ipc_fd" where
  "protocolservice_api_recvresp_transaction_submit cr env iv secret sock =
     client_recvresp cr env iv secret (\<lambda>val. client_status (length val = 12) UNAUTH_PROTOCOL_REQ_ID_TRANSACTION_SUBMIT val) sock"

definition protocolservice_api_recvresp_block_get ::
  "vccrypt \<Rightarrow> crypt_env \<Rightarrow> bool \<Rightarrow> 64 word \<Rightarrow> bytes \<Rightarrow> ipc_fd \<Rightarrow> (data_block_node \<times> bytes) api_result \<times> 64 word \<times> ipc_fd" where
  "protocolservice_api_recvresp_block_get cr env cert_malloc iv secret sock =
     client_recvresp cr env iv secret (client_value UNAUTH_PROTOCOL_REQ_ID_BLOCK_BY_ID_GET (client_block cert_malloc)) sock"

definition protocolservice_api_recvresp_block_next_id_get ::
  "vccrypt \<Rightarrow> crypt_env \<Rightarrow> 64 word \<Rightarrow> bytes \<Rightarrow> ipc_fd \<Rightarrow> bytes api_result \<times> 64 word \<times> ipc_fd" where
  "protocolservice_api_recvresp_block_next_id_get cr env iv secret sock =
     client_recvresp cr env iv secret (client_value UNAUTH_PROTOCOL_REQ_ID_BLOCK_ID_GET_NEXT client_id) sock"

definition protocolservice_api_recvresp_block_prev_id_get ::
  "vccrypt \<Rightarrow> crypt_env \<Rightarrow> 64 word \<Rightarrow> bytes \<Rightarrow> ipc_fd \<Rightarrow> bytes api_result \<times> 64 word \<times> ipc_fd" where
  "protocolservice_api_recvresp_block_prev_id_get cr env iv secret sock =
     client_recvresp cr env iv secret (client_value UNAUTH_PROTOCOL_REQ_ID_BLOCK_ID_GET_PREV client_id) sock"

definition protocolservice_api_recvresp_block_id_by_height_get_block ::
  "vccrypt \<Rightarrow> crypt_env \<Rightarrow> bool \<Rightarrow> 64 word \<Rightarrow> bytes \<Rightarrow> ipc_fd \<Rightarrow> bytes api_result \<times> 64 word \<times> ipc_fd" where
  "protocolservice_api_recvresp_block_id_by_height_get_block cr env id_ok iv secret sock =
     (if \<not> id_ok then (api_error AGENTD_ERROR_GENERAL_OUT_OF_MEMORY, iv, sock) else
      client_recvresp cr env iv secret (client_value UNAUTH_PROTOCOL_REQ_ID_BLOCK_ID_BY_HEIGHT_GET client_exact_id) sock)"

definition protocolservice_api_recvresp_transaction_get ::
  "vccrypt \<Rightarrow> crypt_env \<Rightarrow> bool \<Rightarrow> bytes \<Rightarrow> 64 word \<Rightarrow> bytes \<Rightarrow> ipc_fd \<Rightarrow> (data_transaction_node \<times> bytes) api_result \<times> 64 word \<times> ipc_fd" where
  "protocolservice_api_recvresp_transaction_get cr env cert_malloc pad iv secret sock =
     client_recvresp cr env iv secret (client_value UNAUTH_PROTOCOL_REQ_ID_TRANSACTION_BY_ID_GET (client_transaction cert_malloc pad)) sock"

definition protocolservice_api_recvresp_transaction_next_id_get ::
  "vccrypt \<Rightarrow> crypt_env \<Rightarrow> 64 word \<Rightarrow> bytes \<Rightarrow> ipc_fd \<Rightarrow> bytes api_result \<times> 64 word \<times> ipc_fd" where
  "protocolservice_api_recvresp_transaction_next_id_get cr env iv secret sock =
     client_recvresp cr env iv secret (client_value UNAUTH_PROTOCOL_REQ_ID_TRANSACTION_ID_GET_NEXT client_id) sock"

definition protocolservice_api_recvresp_transaction_prev_id_get ::
  "vccrypt \<Rightarrow> crypt_env \<Rightarrow> 64 word \<Rightarrow> bytes \<Rightarrow> ipc_fd \<Rightarrow> bytes api_result \<times> 64 word \<times> ipc_fd" where
  "protocolservice_api_recvresp_transaction_prev_id_get cr env iv secret sock =
     client_recvresp cr env iv secret (client_value UNAUTH_PROTOCOL_REQ_ID_TRANSACTION_ID_GET_PREV client_id) sock"

definition protocolservice_api_recvresp_transaction_block_id_get ::
  "vccrypt \<Rightarrow> crypt_env \<Rightarrow> 64 word \<Rightarrow> bytes \<Rightarrow> ipc_fd \<Rightarrow> bytes api_result \<times> 64 word \<times> ipc_fd" where
  "protocolservice_api_recvresp_transaction_block_id_get cr env iv secret sock =
     client_recvresp cr env iv secret (client_value UNAUTH_PROTOCOL_REQ_ID_TRANSACTION_ID_GET_BLOCK_ID client_id) sock"

definition protocolservice_api_recvresp_artifact_first_txn_id_get ::
  "vccrypt \<Rightarrow> crypt_env \<Rightarrow> 64 word \<Rightarrow> bytes \<Rightarrow> ipc_fd \<Rightarrow> bytes api_result \<times> 64 word \<times> ipc_fd" where
  "protocolservice_api_recvresp_artifact_first_txn_id_get cr env iv secret sock =
     client_recvresp cr env iv secret (client_value UNAUTH_PROTOCOL_REQ_ID_ARTIFACT_FIRST_TXN_BY_ID_GET client_id) sock"

definition protocolservice_api_recvresp_artifact_last_txn_id_get ::
  "vccrypt \<Rightarrow> crypt_env \<Rightarrow> 64 word \<Rightarrow> bytes \<Rightarrow> ipc_fd \<Rightarrow> bytes api_result \<times> 64 word \<times> ipc_fd" where
  "protocolservice_api_recvresp_artifact_last_txn_id_get cr env iv secret sock =
     client_recvresp cr env iv secret (client_value UNAUTH_PROTOCOL_REQ_ID_ARTIFACT_LAST_TXN_BY_ID_GET client_id) sock"

definition protocolservice_api_recvresp_status_get ::
  "vccrypt \<Rightarrow> crypt_env \<Rightarrow> 64 word \<Rightarrow> bytes \<Rightarrow> ipc_fd \<Rightarrow> unit api_result \<times> 64 word \<times> ipc_fd" where
  "protocolservice_api_recvresp_status_get cr env iv secret sock =
     client_recvresp cr env iv secret (\<lambda>val. client_status (12 \<le> length val) UNAUTH_PROTOCOL_REQ_ID_STATUS_GET val) sock"

definition protocolservice_api_recvresp_close ::
  "vccrypt \<Rightarrow> crypt_env \<Rightarrow> 64 word \<Rightarrow> bytes \<Rightarrow> ipc_fd \<Rightarrow> unit api_result \<times> 64 word \<times> ipc_fd" where
  "protocolservice_api_recvresp_close cr env iv secret sock =
     client_recvresp cr env iv secret (\<lambda>val. client_header (12 \<le> length val) UNAUTH_PROTOCOL_REQ_ID_CLOSE val
       (\<lambda>_. \<lparr> api_retval = AGENTD_STATUS_SUCCESS, api_header = None, api_payload = None \<rparr>)) sock"

end
