(* ===== verification/Proto_Handshake.thy ===== *)
theory Proto_Handshake
  imports Proto_Endpoint Proto_Client
begin

text \<open>
  The life of a connection in the protocol service: its context is created when a
  client is accepted (\<^verbatim>\<open>protocolservice_protocol_fiber_add.c\<close>), the handshake
  authenticates both sides and agrees on a secret (\<^verbatim>\<open>protocolservice_protocol_*handshake*.c\<close>
  and the files they call), a second fiber for the responses is added, requests are served
  until one side ends, and the last of the two fibers releases the context.

  A call that reads from or writes to the socket of a connection is one step here: what other
  fibers do while it blocks is not interleaved with it (they run where a handler waits for a
  message, in \<open>wait\<close>).  A context that has been released keeps its place in \<open>ps_fibers\<close>, as positions
  stand for pointers, and is not used again.
\<close>

subsection \<open>The context of a connection\<close>

text \<open>
  The results of the calls: \<open>add_st\<close> those of \<^verbatim>\<open>protocolservice_protocol_fiber_add\<close> in the
  order of the code, \<open>return_mailbox\<close> and \<open>fiber_mailbox\<close> the two mailboxes,
  \<open>add_release_st\<close> the releases on the way out.
\<close>

record fiber_add_env =
  add_st :: "nat \<Rightarrow> status"
  return_mailbox :: "status + 64 word"
  fiber_mailbox :: "status + 64 word"
  add_release_st :: "nat \<Rightarrow> status"

definition protocolservice_protocol_fiber_add ::
  "'t resource_tree_ops \<Rightarrow> vccrypt_handshake \<Rightarrow> fiber_add_env \<Rightarrow> 's \<Rightarrow> ('t, 's) protocolservice_context \<Rightarrow>
     status \<times> ('t, 's) protocolservice_context" where
  "protocolservice_protocol_fiber_add ops cr env sock ctx =
     (let nonce = replicate (key_nonce_size cr) 0; cleanup = (\<lambda>st. (released (add_release_st env 0) st, ctx));
          cleanup_fiber = (\<lambda>st. (released (add_release_st env 0) (released (add_release_st env 1) st), ctx)) in
      if add_st env 0 \<noteq> AGENTD_STATUS_SUCCESS then (add_st env 0, ctx) else
      if add_st env 1 \<noteq> AGENTD_STATUS_SUCCESS then cleanup (add_st env 1) else
      if add_st env 2 \<noteq> AGENTD_STATUS_SUCCESS then cleanup (add_st env 2) else
      if add_st env 3 \<noteq> AGENTD_STATUS_SUCCESS then cleanup (add_st env 3) else
      if add_st env 4 \<noteq> AGENTD_STATUS_SUCCESS then cleanup (add_st env 4) else
      if add_st env 5 \<noteq> AGENTD_STATUS_SUCCESS then cleanup (add_st env 5) else
      case return_mailbox env of
        Inl st \<Rightarrow> cleanup st
      | Inr ret \<Rightarrow>
      case fiber_mailbox env of
        Inl st \<Rightarrow> cleanup st
      | Inr addr \<Rightarrow>
      if add_st env 6 \<noteq> AGENTD_STATUS_SUCCESS then cleanup (add_st env 6) else
      if add_st env 7 \<noteq> AGENTD_STATUS_SUCCESS then cleanup (add_st env 7) else
      if add_st env 8 \<noteq> AGENTD_STATUS_SUCCESS then cleanup_fiber (add_st env 8) else
      if add_st env 9 \<noteq> AGENTD_STATUS_SUCCESS then cleanup_fiber (add_st env 9) else
      if add_st env 10 \<noteq> AGENTD_STATUS_SUCCESS then cleanup_fiber (released (add_release_st env 2) (add_st env 10)) else
      if add_st env 11 \<noteq> AGENTD_STATUS_SUCCESS then cleanup_fiber (add_st env 11) else
      (AGENTD_STATUS_SUCCESS,
       ctx\<lparr>ps_fibers := ps_fibers ctx @ [
         \<lparr> reference_count = 1, req_shutdown = False, shutdown = False, extended_api_enabled = False, extended_api_can_respond = False,
           protosock = sock, client_key_nonce = nonce, client_challenge_nonce = nonce, server_key_nonce = nonce, server_challenge_nonce = nonce,
           shared_secret = [], client_iv = 0, server_iv = 0, fiber_entity_uuid = replicate 16 0, return_addr = ret, fiber_addr = addr,
           fiber_entity = None, dataservice_context_opened = False, latest_block_id_assertion_set = False,
           latest_block_id_assertion_client_offset = 0, latest_block_id_assertion_server_offset = 0, extended_api_offset = 0,
           extended_api_offset_dict = tree_empty ops \<rparr>]\<rparr>))"

text \<open>
  Releasing a reference; with the last one the routes and the data service context are
  given up and the context is freed.  Every step is taken whatever the earlier ones
  returned; the first status in a fixed order is reported.
\<close>

record fiber_release_env =
  close_env :: send_env
  close_reply_st :: status
  protosock_release_st :: status
  mailbox_close_st :: status
  fiber_mailbox_close_st :: status
  offset_dict_release_st :: status
  context_release_st :: status

fun first_error :: "status list \<Rightarrow> status" where
  "first_error [] = AGENTD_STATUS_SUCCESS"
| "first_error (st # sts) = (if st \<noteq> AGENTD_STATUS_SUCCESS then st else first_error sts)"

definition protocolservice_protocol_fiber_context_release ::
  "'t resource_tree_ops \<Rightarrow> (('t, 's) protocolservice_context \<Rightarrow> status \<times> ('t, 's) protocolservice_context) \<Rightarrow> fiber_release_env \<Rightarrow> nat \<Rightarrow>
     ('t, 's) protocolservice_context \<Rightarrow> status \<times> ('t, 's) protocolservice_context" where
  "protocolservice_protocol_fiber_context_release ops wait env i ctx =
     (let f = ps_fibers ctx ! i; f = f\<lparr>reference_count := reference_count f - 1\<rparr>; ctx = set_fiber i f ctx in
      if reference_count f > 0 then (AGENTD_STATUS_SUCCESS, ctx) else
      case (if extended_api_enabled f then protocolservice_protocol_unroute_extended_api_for_entity ops i ctx
            else (AGENTD_STATUS_SUCCESS, ctx)) of (extended_st, ctx) \<Rightarrow>
      case (if dataservice_context_opened f then protocolservice_protocol_close_data_service_context wait (close_env env) (close_reply_st env) i ctx
            else (AGENTD_STATUS_SUCCESS, ctx)) of (data_st, ctx) \<Rightarrow>
      (first_error [extended_st, data_st, protosock_release_st env,
         if return_addr f > 0 then mailbox_close_st env else AGENTD_STATUS_SUCCESS,
         if fiber_addr f > 0 then fiber_mailbox_close_st env else AGENTD_STATUS_SUCCESS,
         offset_dict_release_st env, context_release_st env], ctx))"

subsection \<open>The handshake\<close>

definition protocolservice_write_error_response ::
  "'s authed_psock_ops \<Rightarrow> 32 word \<Rightarrow> status \<Rightarrow> 32 word \<Rightarrow> bool \<Rightarrow> ('t, 's) protocolservice_protocol_fiber_context \<Rightarrow> ('t, 's) fiber_result" where
  "protocolservice_write_error_response ps request_id st offset encrypted f =
     (let payload = net32 request_id @ net32 st @ net32 offset in
      if encrypted
      then (case psock_write_authed_data ps (server_iv f) payload (shared_secret f) (protosock f) of (retval, sock) \<Rightarrow>
            (retval, f\<lparr>protosock := sock, server_iv := server_iv f + 1\<rparr>))
      else (case psock_write_boxed_data ps payload (protosock f) of (retval, sock) \<Rightarrow>
            (retval, f\<lparr>protosock := sock\<rparr>)))"

text \<open>A step of the handshake that fails tells the client, in clear, and returns its status.\<close>

definition refuse_handshake ::
  "'s authed_psock_ops \<Rightarrow> 32 word \<Rightarrow> status \<Rightarrow> ('t, 's) protocolservice_protocol_fiber_context \<Rightarrow> ('t, 's) fiber_result" where
  "refuse_handshake ps request_id st f =
     (case protocolservice_write_error_response ps request_id st 0 False f of (retval, f) \<Rightarrow>
      (if retval = AGENTD_STATUS_SUCCESS then st else retval, f))"

definition protocolservice_protocol_read_handshake_req ::
  "vccrypt_handshake \<Rightarrow> 's authed_psock_ops \<Rightarrow> ('t, 's) protocolservice_protocol_fiber_context \<Rightarrow> ('t, 's) fiber_result" where
  "protocolservice_protocol_read_handshake_req cr ps f =
     (case psock_read_boxed_data ps (protosock f) of
        (Inl _, sock) \<Rightarrow> (AGENTD_ERROR_PROTOCOLSERVICE_REQUEST_PACKET_BAD, f\<lparr>protosock := sock\<rparr>)
      | (Inr req, sock) \<Rightarrow>
      let f = f\<lparr>protosock := sock\<rparr>; n = length (client_key_nonce f); m = length (client_challenge_nonce f);
          bad = (\<lambda>request_id. refuse_handshake ps request_id AGENTD_ERROR_PROTOCOLSERVICE_MALFORMED_REQUEST f) in
      case (if length req \<noteq> 32 + n + m then bad 0 else
            if of_net32 (slice 0 4 req) \<noteq> UNAUTH_PROTOCOL_REQ_ID_HANDSHAKE_INITIATE then bad 0 else
            if of_net32 (slice 4 4 req) \<noteq> 0 then bad UNAUTH_PROTOCOL_REQ_ID_HANDSHAKE_INITIATE else
            if of_net32 (slice 8 4 req) \<noteq> 1 then bad UNAUTH_PROTOCOL_REQ_ID_HANDSHAKE_INITIATE else
            if of_net32 (slice 12 4 req) \<noteq> VCCRYPT_SUITE_VELO_V1 cr then bad UNAUTH_PROTOCOL_REQ_ID_HANDSHAKE_INITIATE else
            (AGENTD_STATUS_SUCCESS,
             f\<lparr>fiber_entity_uuid := slice 16 16 req, client_key_nonce := slice 32 n req, client_challenge_nonce := slice (32 + n) m req\<rparr>))
      of (retval, f) \<Rightarrow>
      case rcpr_allocator_reclaim ps (protosock f) of (release_retval, sock) \<Rightarrow>
      (released release_retval retval, f\<lparr>protosock := sock\<rparr>))"

text \<open>The steps that need the shared context, for the connection at position \<open>i\<close>.\<close>

definition on_fiber ::
  "nat \<Rightarrow> (('t, 's) protocolservice_protocol_fiber_context \<Rightarrow> ('t, 's) fiber_result) \<Rightarrow> ('t, 's) protocolservice_context \<Rightarrow>
     status \<times> ('t, 's) protocolservice_context" where
  "on_fiber i g ctx = (case g (ps_fibers ctx ! i) of (st, f) \<Rightarrow> (st, set_fiber i f ctx))"

definition protocolservice_authorized_entity_lookup ::
  "'t resource_tree_ops \<Rightarrow> 's authed_psock_ops \<Rightarrow> nat \<Rightarrow> ('t, 's) protocolservice_context \<Rightarrow> status \<times> ('t, 's) protocolservice_context" where
  "protocolservice_authorized_entity_lookup ops ps i ctx =
     on_fiber i (\<lambda>f. case tree_find ops (fiber_entity_uuid f) (authorized_entity_dict ctx) of
         Inl _ \<Rightarrow> refuse_handshake ps UNAUTH_PROTOCOL_REQ_ID_HANDSHAKE_INITIATE AGENTD_ERROR_PROTOCOLSERVICE_UNAUTHORIZED f
       | Inr r \<Rightarrow> (AGENTD_STATUS_SUCCESS, f\<lparr>fiber_entity := (case r of Entity_ref n \<Rightarrow> Some n | _ \<Rightarrow> None)\<rparr>)) ctx"

record handshake_env =
  random_env :: send_env
  random_free_st :: status
  agreement_init_st :: status
  secret_create_st :: status
  payload_buffer_st :: status
  hmac_init_st :: status
  hmac_buffer_st :: status
  hmac_digest_st :: "nat \<Rightarrow> status"
  hmac_finalize_st :: status
  ack_left :: bool

definition protocolservice_random_request_message_create :: "status \<Rightarrow> nat \<Rightarrow> status + ps_payload" where
  "protocolservice_random_request_message_create alloc_st n =
     (if alloc_st \<noteq> AGENTD_STATUS_SUCCESS then Inl alloc_st else Inr (Random_request n))"

text \<open>
  The random bytes come in a message; \<open>wait\<close> receives it.  The code takes as many bytes
  as the nonces need without looking at the size of the message: fewer are undefined.
\<close>

definition protocolservice_read_random_bytes ::
  "'s authed_psock_ops \<Rightarrow> (('t, 's) protocolservice_context \<Rightarrow> (status + bytes) \<times> ('t, 's) protocolservice_context) \<Rightarrow> handshake_env \<Rightarrow> nat \<Rightarrow>
     ('t, 's) protocolservice_context \<Rightarrow> (status \<times> ('t, 's) protocolservice_context) option" where
  "protocolservice_read_random_bytes ps wait env i ctx =
     (let f = ps_fibers ctx ! i; n = length (server_challenge_nonce f); m = length (server_key_nonce f);
          fail = (\<lambda>ctx. Some (on_fiber i (refuse_handshake ps UNAUTH_PROTOCOL_REQ_ID_HANDSHAKE_INITIATE
                                AGENTD_ERROR_PROTOCOLSERVICE_PRNG_REQUEST_FAILURE) ctx)) in
      case protocolservice_random_request_message_create (payload_st (random_env env)) (n + m) of
        Inl _ \<Rightarrow> fail ctx
      | Inr p \<Rightarrow>
      case send_message (random_env env) (random_endpoint_addr ctx) (return_addr f) p ctx of (retval, ctx) \<Rightarrow>
      if retval \<noteq> AGENTD_STATUS_SUCCESS then fail ctx else
      case wait ctx of
        (Inl _, ctx) \<Rightarrow> fail ctx
      | (Inr bdata, ctx) \<Rightarrow>
      if length bdata < n + m then None else
      let ctx = set_fiber i ((ps_fibers ctx ! i)\<lparr>server_challenge_nonce := take n bdata, server_key_nonce := slice n m bdata\<rparr>) ctx in
      if random_free_st env \<noteq> AGENTD_STATUS_SUCCESS then fail ctx else Some (AGENTD_STATUS_SUCCESS, ctx))"

definition protocolservice_compute_shared_secret ::
  "vccrypt_handshake \<Rightarrow> 's authed_psock_ops \<Rightarrow> handshake_env \<Rightarrow> nat \<Rightarrow> ('t, 's) protocolservice_context \<Rightarrow> status \<times> ('t, 's) protocolservice_context" where
  "protocolservice_compute_shared_secret cr ps env i ctx =
     on_fiber i (\<lambda>f. let fail = refuse_handshake ps UNAUTH_PROTOCOL_REQ_ID_HANDSHAKE_INITIATE AGENTD_ERROR_PROTOCOLSERVICE_UNAUTHORIZED in
       if agreement_init_st env \<noteq> AGENTD_STATUS_SUCCESS then fail f else
       if secret_create_st env \<noteq> AGENTD_STATUS_SUCCESS then fail f else
       (AGENTD_STATUS_SUCCESS,
        f\<lparr>shared_secret := short_term_secret cr (agentd_enc_privkey ctx) (encryption_pubkey (ps_entities ctx ! the (fiber_entity f)))
                            (server_key_nonce f) (client_key_nonce f),
          client_iv := 0x0000000000000001, server_iv := 0x8000000000000001\<rparr>)) ctx"

definition protocolservice_protocol_write_handshake_req_resp ::
  "vccrypt_handshake \<Rightarrow> 's authed_psock_ops \<Rightarrow> handshake_env \<Rightarrow> nat \<Rightarrow> ('t, 's) protocolservice_context \<Rightarrow> status \<times> ('t, 's) protocolservice_context" where
  "protocolservice_protocol_write_handshake_req_resp cr ps env i ctx =
     on_fiber i (\<lambda>f. let fail = refuse_handshake ps UNAUTH_PROTOCOL_REQ_ID_HANDSHAKE_INITIATE AGENTD_ERROR_PROTOCOLSERVICE_UNAUTHORIZED in
       if payload_buffer_st env \<noteq> AGENTD_STATUS_SUCCESS then fail f else
       if hmac_init_st env \<noteq> AGENTD_STATUS_SUCCESS then fail f else
       if hmac_buffer_st env \<noteq> AGENTD_STATUS_SUCCESS then fail f else
       let buf = net32 UNAUTH_PROTOCOL_REQ_ID_HANDSHAKE_INITIATE @ net32 AGENTD_STATUS_SUCCESS @ net32 0 @ net32 1 @
                 net32 (VCCRYPT_SUITE_VELO_V1 cr) @ agentd_uuid ctx @ agentd_enc_pubkey ctx @ server_key_nonce f @ server_challenge_nonce f in
       if hmac_digest_st env 0 \<noteq> AGENTD_STATUS_SUCCESS then fail f else
       if hmac_digest_st env 1 \<noteq> AGENTD_STATUS_SUCCESS then fail f else
       if hmac_finalize_st env \<noteq> AGENTD_STATUS_SUCCESS then fail f else
       let payload = buf @ mac_short cr (shared_secret f) (buf @ client_challenge_nonce f) in
       case psock_write_boxed_data ps payload (protosock f) of (retval, sock) \<Rightarrow>
       let f = f\<lparr>protosock := sock\<rparr> in
       if retval \<noteq> AGENTD_STATUS_SUCCESS then fail f else (AGENTD_STATUS_SUCCESS, f)) ctx"

text \<open>
  The content of the acknowledgement is not looked at: that it is authentic is enough.  At
  the end the buffer of the packet is reclaimed if there is one, and when the status is an error
  the status of this call takes its place: if the read has failed and has left a buffer (\<open>left\<close>), a
  successful reclamation turns the failure into success.
\<close>

definition protocolservice_protocol_read_handshake_ack_req ::
  "bool \<Rightarrow> 's authed_psock_ops \<Rightarrow> ('t, 's) protocolservice_protocol_fiber_context \<Rightarrow> ('t, 's) fiber_result" where
  "protocolservice_protocol_read_handshake_ack_req left ps f =
     (case psock_read_authed_data ps (client_iv f) (shared_secret f) (protosock f) of
        (Inl _, sock) \<Rightarrow>
          (let f = f\<lparr>protosock := sock\<rparr>; retval = AGENTD_ERROR_PROTOCOLSERVICE_MALFORMED_REQUEST in
           case protocolservice_write_error_response ps 0 retval 0 True f of (release_retval, f) \<Rightarrow>
           let retval = released release_retval retval in
           if \<not> left then (retval, f) else
           case rcpr_allocator_reclaim ps (protosock f) of (release_retval, sock) \<Rightarrow>
           (if retval \<noteq> AGENTD_STATUS_SUCCESS then release_retval else retval, f\<lparr>protosock := sock\<rparr>))
      | (Inr _, sock) \<Rightarrow>
          (case rcpr_allocator_reclaim ps sock of (_, sock) \<Rightarrow>
           (AGENTD_STATUS_SUCCESS, f\<lparr>protosock := sock, client_iv := client_iv f + 1\<rparr>)))"

text \<open>After a write that failed the error goes out under the same initialization vector.\<close>

definition protocolservice_protocol_write_handshake_ack_resp ::
  "'s authed_psock_ops \<Rightarrow> ('t, 's) protocolservice_protocol_fiber_context \<Rightarrow> ('t, 's) fiber_result" where
  "protocolservice_protocol_write_handshake_ack_resp ps f =
     (let payload = net32 UNAUTH_PROTOCOL_REQ_ID_HANDSHAKE_ACKNOWLEDGE @ net32 AGENTD_STATUS_SUCCESS @ net32 0 in
      case psock_write_authed_data ps (server_iv f) payload (shared_secret f) (protosock f) of (retval, sock) \<Rightarrow>
      let f = f\<lparr>protosock := sock\<rparr> in
      if retval \<noteq> AGENTD_STATUS_SUCCESS
      then (case protocolservice_write_error_response ps UNAUTH_PROTOCOL_REQ_ID_HANDSHAKE_ACKNOWLEDGE retval 0 True f of (release_retval, f) \<Rightarrow>
            (released release_retval retval, f))
      else (AGENTD_STATUS_SUCCESS, f\<lparr>server_iv := server_iv f + 1\<rparr>))"

definition protocolservice_protocol_handle_handshake ::
  "'t resource_tree_ops \<Rightarrow> vccrypt_handshake \<Rightarrow> 's authed_psock_ops \<Rightarrow> (('t, 's) protocolservice_context \<Rightarrow> (status + bytes) \<times> ('t, 's) protocolservice_context) \<Rightarrow>
     handshake_env \<Rightarrow> nat \<Rightarrow> ('t, 's) protocolservice_context \<Rightarrow> (status \<times> ('t, 's) protocolservice_context) option" where
  "protocolservice_protocol_handle_handshake ops cr ps wait env i ctx =
     (if \<not> private_key_set ctx then Some (AGENTD_ERROR_PROTOCOLSERVICE_MISSING_PRIVATE_KEY, ctx) else
      case on_fiber i (protocolservice_protocol_read_handshake_req cr ps) ctx of (retval, ctx) \<Rightarrow>
      if retval \<noteq> AGENTD_STATUS_SUCCESS then Some (retval, ctx) else
      case protocolservice_authorized_entity_lookup ops ps i ctx of (retval, ctx) \<Rightarrow>
      if retval \<noteq> AGENTD_STATUS_SUCCESS then Some (retval, ctx) else
      case protocolservice_read_random_bytes ps wait env i ctx of
        None \<Rightarrow> None
      | Some (retval, ctx) \<Rightarrow>
      if retval \<noteq> AGENTD_STATUS_SUCCESS then Some (retval, ctx) else
      case protocolservice_compute_shared_secret cr ps env i ctx of (retval, ctx) \<Rightarrow>
      if retval \<noteq> AGENTD_STATUS_SUCCESS then Some (retval, ctx) else
      case protocolservice_protocol_write_handshake_req_resp cr ps env i ctx of (retval, ctx) \<Rightarrow>
      if retval \<noteq> AGENTD_STATUS_SUCCESS then Some (retval, ctx) else
      case on_fiber i (protocolservice_protocol_read_handshake_ack_req (ack_left env) ps) ctx of (retval, ctx) \<Rightarrow>
      if retval \<noteq> AGENTD_STATUS_SUCCESS then Some (retval, ctx) else
      Some (on_fiber i (protocolservice_protocol_write_handshake_ack_resp ps) ctx))"

end
