(* ===== verification/Proto_Handshake_Correct.thy ===== *)
theory Proto_Handshake_Correct
  imports Proto_Handshake Proto_Control_Correct
begin

text \<open>
  The handshake between a client and the protocol service.  The socket of the connection
  leads to a client that runs the client calls of the library: when the service reads,
  the client takes its next step, which may read what the service has written.  The
  packets of the process runtime library are those of the \<^verbatim>\<open>ipc\<close> calls, which the client
  uses.
\<close>

subsection \<open>What a successful handshake means\<close>

text \<open>While the connection waits for random bytes the other fibers do not touch it, nor the keys.\<close>

definition wait_local ::
  "nat \<Rightarrow> (('t, 's) protocolservice_context \<Rightarrow> 'r \<times> ('t, 's) protocolservice_context) \<Rightarrow> bool" where
  "wait_local i wait \<longleftrightarrow> (\<forall>c r c'. wait c = (r, c') \<longrightarrow>
     length (ps_fibers c') = length (ps_fibers c) \<and> ps_fibers c' ! i = ps_fibers c ! i \<and> ps_entities c' = ps_entities c \<and>
     agentd_uuid c' = agentd_uuid c \<and> agentd_enc_pubkey c' = agentd_enc_pubkey c \<and> agentd_enc_privkey c' = agentd_enc_privkey c)"

lemma set_fiber_simps [simp]:
  "length (ps_fibers (set_fiber i f ctx)) = length (ps_fibers ctx)"
  "i < length (ps_fibers ctx) \<Longrightarrow> ps_fibers (set_fiber i f ctx) ! i = f"
  "ps_entities (set_fiber i f ctx) = ps_entities ctx" "authorized_entity_dict (set_fiber i f ctx) = authorized_entity_dict ctx"
  "agentd_uuid (set_fiber i f ctx) = agentd_uuid ctx" "agentd_enc_pubkey (set_fiber i f ctx) = agentd_enc_pubkey ctx"
  "agentd_enc_privkey (set_fiber i f ctx) = agentd_enc_privkey ctx" "random_endpoint_addr (set_fiber i f ctx) = random_endpoint_addr ctx"
  by (simp_all add: set_fiber_def)

lemma send_message_frame:
  assumes "send_message env to ret p ctx = (st, ctx')"
  shows "ps_fibers ctx' = ps_fibers ctx" "ps_entities ctx' = ps_entities ctx" "agentd_uuid ctx' = agentd_uuid ctx"
    "agentd_enc_pubkey ctx' = agentd_enc_pubkey ctx" "agentd_enc_privkey ctx' = agentd_enc_privkey ctx"
    "authorized_entity_dict ctx' = authorized_entity_dict ctx"
  using assms by (auto simp: send_message_def split: if_splits)

lemma on_fiber_split:
  assumes "on_fiber i g ctx = (st, ctx')"
  obtains f where "g (ps_fibers ctx ! i) = (st, f)" and "ctx' = set_fiber i f ctx"
  using assms by (auto simp: on_fiber_def split: prod.splits)

lemma refuse_failed: "refuse_handshake ps r st f = (AGENTD_STATUS_SUCCESS, f') \<Longrightarrow> st = AGENTD_STATUS_SUCCESS"
  by (auto simp: refuse_handshake_def split: prod.splits if_splits)

text \<open>The request of a client, for nonces of \<open>n\<close> and \<open>m\<close> bytes, and the part of its response that the service authenticates.\<close>

definition handshake_request :: "vccrypt_handshake \<Rightarrow> nat \<Rightarrow> nat \<Rightarrow> bytes \<Rightarrow> bytes \<Rightarrow> bytes \<Rightarrow> bytes \<Rightarrow> bool" where
  "handshake_request cr n m req uuid key_nonce challenge \<longleftrightarrow>
     req = net32 UNAUTH_PROTOCOL_REQ_ID_HANDSHAKE_INITIATE @ net32 0 @ net32 1 @ net32 (VCCRYPT_SUITE_VELO_V1 cr) @ uuid @ key_nonce @ challenge \<and>
     length uuid = 16 \<and> length key_nonce = n \<and> length challenge = m"

definition hello :: "vccrypt_handshake \<Rightarrow> bytes \<Rightarrow> bytes \<Rightarrow> bytes \<Rightarrow> bytes \<Rightarrow> bytes" where
  "hello cr uuid pub skn scn = net32 0 @ net32 0 @ net32 0 @ net32 1 @ net32 (VCCRYPT_SUITE_VELO_V1 cr) @ uuid @ pub @ skn @ scn"

lemma slice_split: "off + n \<le> length b \<Longrightarrow> drop off b = slice off n b @ drop (off + n) b"
  by (simp add: slice_def) (metis append_take_drop_id drop_drop add.commute)

lemma parsed_handshake_request:
  assumes "length req = 32 + n + m" and "of_net32 (slice 0 4 req) = 0" and "of_net32 (slice 4 4 req) = 0"
    and "of_net32 (slice 8 4 req) = 1" and "of_net32 (slice 12 4 req) = VCCRYPT_SUITE_VELO_V1 cr"
  shows "handshake_request cr n m req (slice 16 16 req) (slice 32 n req) (slice (32 + n) m req)"
proof -
  have word: "slice k 4 req = net32 w" if "of_net32 (slice k 4 req) = w" "k + 4 \<le> length req" for k w
    using that net32_of_net32 [of "slice k 4 req"] by (auto simp: slice_def)
  have "req = slice 0 4 req @ slice 4 4 req @ slice 8 4 req @ slice 12 4 req @ slice 16 16 req @ slice 32 n req @ slice (32 + n) m req"
    using assms(1) slice_split [of 0 4 req] slice_split [of 4 4 req] slice_split [of 8 4 req] slice_split [of 12 4 req]
      slice_split [of 16 16 req] slice_split [of 32 n req] slice_split [of "32 + n" m req] by simp
  then show ?thesis using assms word [of 0 0] word [of 4 0] word [of 8 1] word [of 12 "VCCRYPT_SUITE_VELO_V1 cr"]
    by (simp add: handshake_request_def slice_def)
qed

text \<open>Each step that succeeds: what it reads from or writes to the socket, and what it sets.\<close>

lemma read_handshake_req_sets:
  assumes "protocolservice_protocol_read_handshake_req cr ps f = (AGENTD_STATUS_SUCCESS, f')"
  obtains req s s' uuid kn cn where "psock_read_boxed_data ps (protosock f) = (Inr req, s)" and "rcpr_allocator_reclaim ps s = (AGENTD_STATUS_SUCCESS, s')"
    and "handshake_request cr (length (client_key_nonce f)) (length (client_challenge_nonce f)) req uuid kn cn"
    and "f' = f\<lparr>fiber_entity_uuid := uuid, client_key_nonce := kn, client_challenge_nonce := cn, protosock := s'\<rparr>"
proof -
  let ?n = "length (client_key_nonce f)" and ?m = "length (client_challenge_nonce f)"
  obtain req s s' where r: "psock_read_boxed_data ps (protosock f) = (Inr req, s)" "rcpr_allocator_reclaim ps s = (0, s')"
    "length req = 32 + ?n + ?m" "of_net32 (slice 0 4 req) = 0" "of_net32 (slice 4 4 req) = 0"
    "of_net32 (slice 8 4 req) = 1" "of_net32 (slice 12 4 req) = VCCRYPT_SUITE_VELO_V1 cr"
    "f' = f\<lparr>protosock := s, fiber_entity_uuid := slice 16 16 req, client_key_nonce := slice 32 ?n req,
       client_challenge_nonce := slice (32 + ?n) ?m req, protosock := s'\<rparr>"
    using assms by (auto simp: protocolservice_protocol_read_handshake_req_def Let_def released_def dest: refuse_failed split: sum.splits prod.splits if_splits)
  show thesis by (rule that [OF r(1,2) parsed_handshake_request [OF r(3-7)]]) (simp add: r(8))
qed

lemma entity_lookup_sets:
  assumes "protocolservice_authorized_entity_lookup ops ps i ctx = (AGENTD_STATUS_SUCCESS, ctx')"
  obtains r where "tree_find ops (fiber_entity_uuid (ps_fibers ctx ! i)) (authorized_entity_dict ctx) = Inr r"
    and "ctx' = set_fiber i ((ps_fibers ctx ! i)\<lparr>fiber_entity := (case r of Entity_ref n \<Rightarrow> Some n | _ \<Rightarrow> None)\<rparr>) ctx"
  using assms unfolding protocolservice_authorized_entity_lookup_def
  by (elim on_fiber_split) (auto dest: refuse_failed split: sum.splits)

lemma read_random_sets:
  assumes h: "protocolservice_read_random_bytes ps wait env i ctx = Some (AGENTD_STATUS_SUCCESS, ctx')"
    and i: "i < length (ps_fibers ctx)" and w: "wait_local i wait"
  obtains x b x' c k where "wait x = (Inr b, x')" and "c = take (length (server_challenge_nonce (ps_fibers ctx ! i))) b"
    and "k = slice (length (server_challenge_nonce (ps_fibers ctx ! i))) (length (server_key_nonce (ps_fibers ctx ! i))) b"
    and "length (ps_fibers ctx') = length (ps_fibers ctx)"
    and "ps_fibers ctx' ! i = (ps_fibers ctx ! i)\<lparr>server_challenge_nonce := c, server_key_nonce := k\<rparr>"
    and "ps_entities ctx' = ps_entities ctx" and "agentd_enc_privkey ctx' = agentd_enc_privkey ctx"
    and "agentd_uuid ctx' = agentd_uuid ctx" and "agentd_enc_pubkey ctx' = agentd_enc_pubkey ctx"
proof -
  have fail: "on_fiber i (refuse_handshake ps r AGENTD_ERROR_PROTOCOLSERVICE_PRNG_REQUEST_FAILURE) c \<noteq> (AGENTD_STATUS_SUCCESS, c')" for r c c'
    by (auto elim!: on_fiber_split dest: refuse_failed)
  obtain c1 where s: "send_message (random_env env) (random_endpoint_addr ctx) (return_addr (ps_fibers ctx ! i))
      (Random_request (length (server_challenge_nonce (ps_fibers ctx ! i)) + length (server_key_nonce (ps_fibers ctx ! i)))) ctx = (AGENTD_STATUS_SUCCESS, c1)"
    and rest: "\<exists>b c2. wait c1 = (Inr b, c2) \<and> ctx' = set_fiber i ((ps_fibers c2 ! i)
        \<lparr>server_challenge_nonce := take (length (server_challenge_nonce (ps_fibers ctx ! i))) b,
         server_key_nonce := slice (length (server_challenge_nonce (ps_fibers ctx ! i))) (length (server_key_nonce (ps_fibers ctx ! i))) b\<rparr>) c2"
    using h by (auto simp: protocolservice_read_random_bytes_def Let_def fail protocolservice_random_request_message_create_def
        split: if_splits sum.splits prod.splits)
  obtain b c2 where c2: "wait c1 = (Inr b, c2)" "ctx' = set_fiber i ((ps_fibers c2 ! i)
        \<lparr>server_challenge_nonce := take (length (server_challenge_nonce (ps_fibers ctx ! i))) b,
         server_key_nonce := slice (length (server_challenge_nonce (ps_fibers ctx ! i))) (length (server_key_nonce (ps_fibers ctx ! i))) b\<rparr>) c2"
    using rest by blast
  show thesis
    by (rule that [OF c2(1) refl refl]) (use c2 w i send_message_frame [OF s] in \<open>auto simp: wait_local_def\<close>)
qed

lemma compute_secret_sets:
  assumes "protocolservice_compute_shared_secret cr ps env i ctx = (AGENTD_STATUS_SUCCESS, ctx')"
  shows "ctx' = set_fiber i ((ps_fibers ctx ! i)\<lparr>shared_secret := short_term_secret cr (agentd_enc_privkey ctx)
      (encryption_pubkey (ps_entities ctx ! the (fiber_entity (ps_fibers ctx ! i)))) (server_key_nonce (ps_fibers ctx ! i))
      (client_key_nonce (ps_fibers ctx ! i)), client_iv := 1, server_iv := 0x8000000000000001\<rparr>) ctx"
  using assms unfolding protocolservice_compute_shared_secret_def
  by (elim on_fiber_split) (auto simp: Let_def dest: refuse_failed split: if_splits)

lemma write_response_sets:
  assumes "protocolservice_protocol_write_handshake_req_resp cr ps env i ctx = (AGENTD_STATUS_SUCCESS, ctx')"
  defines "f \<equiv> ps_fibers ctx ! i"
  defines "greeting \<equiv> hello cr (agentd_uuid ctx) (agentd_enc_pubkey ctx) (server_key_nonce f) (server_challenge_nonce f)"
  obtains sock where "ctx' = set_fiber i (f\<lparr>protosock := sock\<rparr>) ctx"
    and "psock_write_boxed_data ps (greeting @ mac_short cr (shared_secret f) (greeting @ client_challenge_nonce f)) (protosock f) = (AGENTD_STATUS_SUCCESS, sock)"
  using assms(1) unfolding protocolservice_protocol_write_handshake_req_resp_def
  by (elim on_fiber_split) (auto simp: Let_def greeting_def f_def hello_def dest: refuse_failed split: if_splits prod.splits)

lemma read_ack_sets:
  assumes "protocolservice_protocol_read_handshake_ack_req False ps f = (AGENTD_STATUS_SUCCESS, f')"
  obtains ack s st s' where "psock_read_authed_data ps (client_iv f) (shared_secret f) (protosock f) = (Inr ack, s)"
    and "rcpr_allocator_reclaim ps s = (st, s')" and "f' = f\<lparr>protosock := s', client_iv := client_iv f + 1\<rparr>"
  using assms by (auto simp: protocolservice_protocol_read_handshake_ack_req_def Let_def released_def split: sum.splits prod.splits if_splits)

lemma write_ack_sets:
  assumes "protocolservice_protocol_write_handshake_ack_resp ps f = (AGENTD_STATUS_SUCCESS, f')"
  obtains sock where "f' = f\<lparr>protosock := sock, server_iv := server_iv f + 1\<rparr>"
    and "psock_write_authed_data ps (server_iv f) (net32 UNAUTH_PROTOCOL_REQ_ID_HANDSHAKE_ACKNOWLEDGE @ net32 AGENTD_STATUS_SUCCESS @ net32 0)
           (shared_secret f) (protosock f) = (AGENTD_STATUS_SUCCESS, sock)"
  using assms by (auto simp: protocolservice_protocol_write_handshake_ack_resp_def Let_def released_def split: prod.splits if_splits)

lemma handshake_steps:
  assumes "protocolservice_protocol_handle_handshake ops cr ps wait env i ctx = Some (AGENTD_STATUS_SUCCESS, ctx')"
  obtains c1 c2 c3 c4 c5 c6 where "private_key_set ctx"
    and "on_fiber i (protocolservice_protocol_read_handshake_req cr ps) ctx = (AGENTD_STATUS_SUCCESS, c1)"
    and "protocolservice_authorized_entity_lookup ops ps i c1 = (AGENTD_STATUS_SUCCESS, c2)"
    and "protocolservice_read_random_bytes ps wait env i c2 = Some (AGENTD_STATUS_SUCCESS, c3)"
    and "protocolservice_compute_shared_secret cr ps env i c3 = (AGENTD_STATUS_SUCCESS, c4)"
    and "protocolservice_protocol_write_handshake_req_resp cr ps env i c4 = (AGENTD_STATUS_SUCCESS, c5)"
    and "on_fiber i (protocolservice_protocol_read_handshake_ack_req (ack_left env) ps) c5 = (AGENTD_STATUS_SUCCESS, c6)"
    and "on_fiber i (protocolservice_protocol_write_handshake_ack_resp ps) c6 = (AGENTD_STATUS_SUCCESS, ctx')"
  using assms by (auto simp: protocolservice_protocol_handle_handshake_def split: if_splits prod.splits option.splits)

text \<open>
  C4. A connection is only established with an entity the service knows, and the client has
  shown that it holds the secret.  When the handshake succeeds, the socket has carried exactly these packets:
  the client sent a request with the identifier of an authorized entity, a key nonce and a
  challenge, all kept for the connection; the service answered with its own nonces, taken from the random bytes it was given, under
  the code of the answer and the challenge; the client then sent an acknowledgement that is
  authentic under the secret of the connection and the first vector, and the service acknowledged.  The secret is
  the one derived from the key of the agent, the public key of this entity and both
  key nonces, and the counters of both directions stand behind the acknowledgements.  A failed read leaves no buffer
  behind: otherwise the code takes the failure for success (lemma \<open>failed_acknowledgement_accepted\<close>).
\<close>

theorem handshake_authenticates:
  assumes "protocolservice_protocol_handle_handshake ops cr ps wait env i ctx = Some (AGENTD_STATUS_SUCCESS, ctx')"
    and "i < length (ps_fibers ctx)" and "wait_local i wait" and "\<not> ack_left env"
    and "f = ps_fibers ctx ! i" and "f' = ps_fibers ctx' ! i"
    and "greeting = hello cr (agentd_uuid ctx) (agentd_enc_pubkey ctx) (server_key_nonce f') (server_challenge_nonce f')"
  shows "private_key_set ctx \<and>
     (\<exists>req s1 s2 s3 ack s4 st s5 r x b x'.
        psock_read_boxed_data ps (protosock f) = (Inr req, s1) \<and>
        handshake_request cr (length (client_key_nonce f)) (length (client_challenge_nonce f)) req
          (fiber_entity_uuid f') (client_key_nonce f') (client_challenge_nonce f') \<and>
        rcpr_allocator_reclaim ps s1 = (AGENTD_STATUS_SUCCESS, s2) \<and>
        tree_find ops (fiber_entity_uuid f') (authorized_entity_dict ctx) = Inr r \<and>
        fiber_entity f' = (case r of Entity_ref n \<Rightarrow> Some n | _ \<Rightarrow> None) \<and>
        wait x = (Inr b, x') \<and> server_challenge_nonce f' = take (length (server_challenge_nonce f)) b \<and>
        server_key_nonce f' = slice (length (server_challenge_nonce f)) (length (server_key_nonce f)) b \<and>
        shared_secret f' = short_term_secret cr (agentd_enc_privkey ctx) (encryption_pubkey (ps_entities ctx ! the (fiber_entity f')))
          (server_key_nonce f') (client_key_nonce f') \<and>
        psock_write_boxed_data ps (greeting @ mac_short cr (shared_secret f') (greeting @ client_challenge_nonce f')) s2 = (AGENTD_STATUS_SUCCESS, s3) \<and>
        psock_read_authed_data ps 1 (shared_secret f') s3 = (Inr ack, s4) \<and> rcpr_allocator_reclaim ps s4 = (st, s5) \<and>
        psock_write_authed_data ps 0x8000000000000001 (net32 UNAUTH_PROTOCOL_REQ_ID_HANDSHAKE_ACKNOWLEDGE @ net32 AGENTD_STATUS_SUCCESS @ net32 0)
          (shared_secret f') s5 = (AGENTD_STATUS_SUCCESS, protosock f')) \<and>
     client_iv f' = 2 \<and> server_iv f' = 0x8000000000000002"
proof -
  obtain c1 c2 c3 c4 c5 c6 where k: "private_key_set ctx"
    and 1: "on_fiber i (protocolservice_protocol_read_handshake_req cr ps) ctx = (0, c1)"
    and 2: "protocolservice_authorized_entity_lookup ops ps i c1 = (0, c2)"
    and 3: "protocolservice_read_random_bytes ps wait env i c2 = Some (0, c3)"
    and 4: "protocolservice_compute_shared_secret cr ps env i c3 = (0, c4)"
    and 5: "protocolservice_protocol_write_handshake_req_resp cr ps env i c4 = (0, c5)"
    and 6: "on_fiber i (protocolservice_protocol_read_handshake_ack_req (ack_left env) ps) c5 = (0, c6)"
    and 7: "on_fiber i (protocolservice_protocol_write_handshake_ack_resp ps) c6 = (0, ctx')"
    by (rule handshake_steps [OF assms(1)])
  obtain f1 where 11: "protocolservice_protocol_read_handshake_req cr ps f = (0, f1)" "c1 = set_fiber i f1 ctx" using 1 assms(5) by (auto elim: on_fiber_split)
  obtain req s1 s2 uuid kn cn where req: "psock_read_boxed_data ps (protosock f) = (Inr req, s1)" "rcpr_allocator_reclaim ps s1 = (0, s2)"
    "handshake_request cr (length (client_key_nonce f)) (length (client_challenge_nonce f)) req uuid kn cn"
    and f1: "f1 = f\<lparr>fiber_entity_uuid := uuid, client_key_nonce := kn, client_challenge_nonce := cn, protosock := s2\<rparr>"
    by (rule read_handshake_req_sets [OF 11(1)])
  obtain r where r: "tree_find ops uuid (authorized_entity_dict ctx) = Inr r"
    "c2 = set_fiber i (f1\<lparr>fiber_entity := (case r of Entity_ref n \<Rightarrow> Some n | _ \<Rightarrow> None)\<rparr>) c1"
    using 2 11(2) assms(2) f1 by (elim entity_lookup_sets) simp
  have i: "i < length (ps_fibers c2)" and g2: "ps_fibers c2 ! i = f1\<lparr>fiber_entity := (case r of Entity_ref n \<Rightarrow> Some n | _ \<Rightarrow> None)\<rparr>"
    using 11(2) r assms(2) by simp_all
  obtain x b x' c n where b: "wait x = (Inr b, x')" "c = take (length (server_challenge_nonce (ps_fibers c2 ! i))) b"
    "n = slice (length (server_challenge_nonce (ps_fibers c2 ! i))) (length (server_key_nonce (ps_fibers c2 ! i))) b"
    and f3: "ps_fibers c3 ! i = (ps_fibers c2 ! i)\<lparr>server_challenge_nonce := c, server_key_nonce := n\<rparr>"
    "length (ps_fibers c3) = length (ps_fibers c2)" "ps_entities c3 = ps_entities c2" "agentd_enc_privkey c3 = agentd_enc_privkey c2"
    "agentd_uuid c3 = agentd_uuid c2" "agentd_enc_pubkey c3 = agentd_enc_pubkey c2"
    by (rule read_random_sets [OF 3 i assms(3)])
  note f4 = compute_secret_sets [OF 4]
  have g4: "ps_fibers c4 ! i = (f1\<lparr>fiber_entity := (case r of Entity_ref n \<Rightarrow> Some n | _ \<Rightarrow> None), server_challenge_nonce := c,
      server_key_nonce := n, shared_secret := short_term_secret cr (agentd_enc_privkey ctx)
        (encryption_pubkey (ps_entities ctx ! the (case r of Entity_ref n \<Rightarrow> Some n | _ \<Rightarrow> None))) n kn,
      client_iv := 1, server_iv := 0x8000000000000001\<rparr>)" and l4: "i < length (ps_fibers c4)"
    and u4: "agentd_uuid c4 = agentd_uuid ctx" "agentd_enc_pubkey c4 = agentd_enc_pubkey ctx"
    using f4 f3 g2 r(2) 11(2) f1 assms(2) by simp_all
  obtain s3 where f5: "c5 = set_fiber i ((ps_fibers c4 ! i)\<lparr>protosock := s3\<rparr>) c4"
    and w: "psock_write_boxed_data ps (hello cr (agentd_uuid c4) (agentd_enc_pubkey c4) (server_key_nonce (ps_fibers c4 ! i)) (server_challenge_nonce (ps_fibers c4 ! i)) @
      mac_short cr (shared_secret (ps_fibers c4 ! i)) (hello cr (agentd_uuid c4) (agentd_enc_pubkey c4) (server_key_nonce (ps_fibers c4 ! i))
        (server_challenge_nonce (ps_fibers c4 ! i)) @ client_challenge_nonce (ps_fibers c4 ! i))) (protosock (ps_fibers c4 ! i)) = (0, s3)"
    by (rule write_response_sets [OF 5])
  have l5: "i < length (ps_fibers c5)" "ps_fibers c5 ! i = (ps_fibers c4 ! i)\<lparr>protosock := s3\<rparr>" using f5 l4 by simp_all
  obtain f6 where 66: "protocolservice_protocol_read_handshake_ack_req False ps (ps_fibers c5 ! i) = (0, f6)" "c6 = set_fiber i f6 c5"
    using 6 assms(4) by (auto elim: on_fiber_split)
  obtain ack s4 st s5 where a: "psock_read_authed_data ps (client_iv (ps_fibers c5 ! i)) (shared_secret (ps_fibers c5 ! i)) (protosock (ps_fibers c5 ! i)) = (Inr ack, s4)"
    "rcpr_allocator_reclaim ps s4 = (st, s5)" and f6: "f6 = (ps_fibers c5 ! i)\<lparr>protosock := s5, client_iv := client_iv (ps_fibers c5 ! i) + 1\<rparr>"
    by (rule read_ack_sets [OF 66(1)])
  obtain f7 where 77: "protocolservice_protocol_write_handshake_ack_resp ps f6 = (0, f7)" "ctx' = set_fiber i f7 c6"
    using 7 66(2) l5 by (elim on_fiber_split) simp
  obtain s7 where f7: "f7 = f6\<lparr>protosock := s7, server_iv := server_iv f6 + 1\<rparr>"
    and w7: "psock_write_authed_data ps (server_iv f6) (net32 1 @ net32 0 @ net32 0) (shared_secret f6) (protosock f6) = (0, s7)"
    by (rule write_ack_sets [OF 77(1)])
  have f': "f' = f7" using 77(2) 66(2) l5 assms(6) by simp
  show ?thesis unfolding f' assms(7)
    by (rule conjI [OF k conjI], rule exI [of _ req], rule exI [of _ s1], rule exI [of _ s2], rule exI [of _ s3], rule exI [of _ ack], rule exI [of _ s4],
        rule exI [of _ st], rule exI [of _ s5], rule exI [of _ r], rule exI [of _ x], rule exI [of _ b], rule exI [of _ x'])
      (use req r(1) b w w7 a u4 in \<open>simp_all add: f7 f6 l5(2) g4 g2 f1\<close>)
qed

subsection \<open>A client at the other end\<close>

datatype client_phase =
    Send_request
  | Await_response bytes bytes
  | Await_acknowledge handshake_result "64 word"
  | Connected bytes "64 word" "64 word"
  | Client_failed status

record duplex =
  phase :: client_phase
  to_server :: bytes
  to_client :: bytes

text \<open>The client: its entity, its private key and what the library returns to it.\<close>

record handshake_client =
  client_entity :: bytes
  client_privkey :: bytes
  client_envs :: "nat \<Rightarrow> client_env"

definition client_fd :: "duplex \<Rightarrow> ipc_fd" where
  "client_fd d = \<lparr> rx = to_client d, tx = [], rd_limits = [], wr_limits = [] \<rparr>"

definition client_moved :: "client_phase \<Rightarrow> ipc_fd \<Rightarrow> duplex \<Rightarrow> duplex" where
  "client_moved p fd d = \<lparr> phase = p, to_server = to_server d @ tx fd, to_client = rx fd \<rparr>"

definition client_step :: "vccrypt_handshake \<Rightarrow> handshake_client \<Rightarrow> duplex \<Rightarrow> duplex" where
  "client_step cr c d =
     (case phase d of
        Send_request \<Rightarrow>
          (case protocolservice_api_sendreq_handshake_request_block cr (client_envs c 0) (client_entity c) (client_fd d) of
             (Inl st, fd) \<Rightarrow> client_moved (Client_failed st) fd d
           | (Inr (kn, cn), fd) \<Rightarrow> client_moved (Await_response kn cn) fd d)
      | Await_response kn cn \<Rightarrow>
          (case protocolservice_api_recvresp_handshake_request_block cr (client_envs c 1) (client_privkey c) kn cn (client_fd d) of
             None \<Rightarrow> d\<lparr>phase := Client_failed AGENTD_ERROR_PROTOCOLSERVICE_MALFORMED_RESPONSE\<rparr>
           | Some (res, fd) \<Rightarrow>
           case api_payload res of
             None \<Rightarrow> client_moved (Client_failed (api_retval res)) fd d
           | Some r \<Rightarrow>
           case protocolservice_api_sendreq_handshake_ack_block cr (client_envs c 2) 0 (resp_shared_secret r) (resp_challenge_nonce r) fd of (st, iv, fd) \<Rightarrow>
           client_moved (if st \<noteq> AGENTD_STATUS_SUCCESS then Client_failed st else Await_acknowledge r iv) fd d)
      | Await_acknowledge r iv \<Rightarrow>
          (case protocolservice_api_recvresp_handshake_ack_block (vccrypt.truncate cr) (authed_env (client_envs c 3)) (resp_shared_secret r) (client_fd d) of
             (res, siv, fd) \<Rightarrow>
           client_moved (if api_retval res \<noteq> AGENTD_STATUS_SUCCESS then Client_failed (api_retval res) else
                         if api_header res \<noteq> Some (0, AGENTD_STATUS_SUCCESS) then Client_failed AGENTD_ERROR_PROTOCOLSERVICE_UNAUTHORIZED else
                         Connected (resp_shared_secret r) iv siv) fd d)
      | _ \<Rightarrow> d)"

definition server_fd :: "duplex \<Rightarrow> ipc_fd" where
  "server_fd d = \<lparr> rx = to_server d, tx = [], rd_limits = [], wr_limits = [] \<rparr>"

definition server_moved :: "ipc_fd \<Rightarrow> duplex \<Rightarrow> duplex" where
  "server_moved fd d = d\<lparr>to_server := rx fd, to_client := to_client d @ tx fd\<rparr>"

definition peer_psock :: "vccrypt_handshake \<Rightarrow> handshake_client \<Rightarrow> duplex authed_psock_ops" where
  "peer_psock cr c =
     \<lparr> psock_write_boxed_data = (\<lambda>b d. case ipc_write_data_block b (server_fd d) of (st, fd) \<Rightarrow> (st, server_moved fd d)),
       psock_read_boxed_data = (\<lambda>d. let d = client_step cr c d in
         case ipc_read_data_block True (server_fd d) of (r, fd) \<Rightarrow> (r, server_moved fd d)),
       rcpr_allocator_reclaim = (\<lambda>d. (AGENTD_STATUS_SUCCESS, d)),
       psock_write_authed_data = (\<lambda>iv b k d.
         case ipc_write_authed_data_block (vccrypt.truncate cr) crypt_ok iv b k (server_fd d) of (st, fd) \<Rightarrow> (st, server_moved fd d)),
       psock_read_authed_data = (\<lambda>iv k d. let d = client_step cr c d in
         case ipc_read_authed_data_block (vccrypt.truncate cr) crypt_ok iv k (server_fd d) of (r, fd) \<Rightarrow> (r, server_moved fd d)) \<rparr>"

subsection \<open>The laws of the suite\<close>

text \<open>A client for which every call succeeds, and the response of the service without its code.\<close>

definition honest_client :: "handshake_client \<Rightarrow> bytes \<Rightarrow> bytes \<Rightarrow> bool" where
  "honest_client c kn cn \<longleftrightarrow> prng (client_envs c 0) 0 = Inr kn \<and> prng (client_envs c 0) 1 = Inr cn \<and>
     (\<forall>j k. client_st (client_envs c j) k = AGENTD_STATUS_SUCCESS) \<and> (\<forall>j. read_malloc (client_envs c j)) \<and>
     (\<forall>j. authed_env (client_envs c j) = crypt_ok) \<and> length kn = 32 \<and> length cn = 32 \<and> length (client_entity c) = 16"

text \<open>
  Packets as before; keys and nonces of 32 bytes, the same code on both sides, and a
  secret that both sides compute from the keys of the other.
\<close>

locale handshake_suite =
  fixes cr :: vccrypt_handshake and keypair :: "bytes \<Rightarrow> bytes \<Rightarrow> bool"
  assumes packets: "vccrypt_suite (vccrypt.truncate cr)"
    and sizes: "key_public_size cr = 32" "key_nonce_size cr = 32" "mac_sha_512_256_size cr = mac_short_size cr" "0 < mac_short_size cr"
      "mac_short_size cr \<le> 1024"
    and same_mac: "mac_sha_512_256 cr = mac_short cr"
    and agreement: "keypair priv pub \<Longrightarrow> keypair priv' pub' \<Longrightarrow> short_term_secret cr priv pub' = short_term_secret cr priv' pub"
    and public_size: "keypair priv pub \<Longrightarrow> length pub = 32"

begin

lemma mac_length: "length (mac_short cr k b) = mac_short_size cr"
  using vccrypt_suite.length_mac [OF packets, of k b] by (simp add: vccrypt.truncate_def)

lemma client_first:
  assumes "honest_client c kn cn"
  shows "client_step cr c \<lparr> phase = Send_request, to_server = [], to_client = [] \<rparr> =
     \<lparr> phase = Await_response kn cn,
       to_server = framed (net32 0 @ net32 0 @ net32 1 @ net32 (VCCRYPT_SUITE_VELO_V1 cr) @ client_entity c @ kn @ cn), to_client = [] \<rparr>"
  using assms
  by (simp add: client_step_def protocolservice_api_sendreq_handshake_request_block_def honest_client_def client_fd_def client_moved_def Let_def
      data_codec.wr_ok sized_ok_def framed_def)

lemma client_second:
  assumes h: "honest_client c kn cn" and len: "length uuid = 16" "length pub = 32" "length skn = 32" "length scn = 32"
    and secret: "secret = short_term_secret cr (client_privkey c) pub skn kn"
  shows "client_step cr c \<lparr> phase = Await_response kn cn, to_server = [],
       to_client = framed (hello cr uuid pub skn scn @ mac_short cr secret (hello cr uuid pub skn scn @ cn)) \<rparr> =
     \<lparr> phase = Await_acknowledge \<lparr> server_id = uuid, server_public_key = pub, resp_challenge_nonce = scn, resp_shared_secret = secret \<rparr> 2,
       to_server = sealed (vccrypt.truncate cr) 1 secret (mac_short cr secret scn), to_client = [] \<rparr>"
proof -
  let ?h = "hello cr uuid pub skn scn" and ?m = "mac_short cr secret (hello cr uuid pub skn scn @ cn)"
  have lh: "length ?h = 132" using len by (simp add: hello_def)
  have sl: "slice 0 4 (?h @ ?m) = net32 0" "slice 4 4 (?h @ ?m) = net32 0" "slice 8 4 (?h @ ?m) = net32 0" "slice 12 4 (?h @ ?m) = net32 1"
    "slice 16 4 (?h @ ?m) = net32 (VCCRYPT_SUITE_VELO_V1 cr)" "slice 20 16 (?h @ ?m) = uuid" "slice 36 32 (?h @ ?m) = pub"
    "slice 68 32 (?h @ ?m) = skn" "slice 100 32 (?h @ ?m) = scn" "take 132 (?h @ ?m) = ?h" "drop 132 (?h @ ?m) = ?m"
    using len by (simp_all add: hello_def slice_def)
  have size: "36 + key_public_size cr + key_nonce_size cr + key_nonce_size cr + mac_sha_512_256_size cr - mac_sha_512_256_size cr = 132"
    "length (?h @ ?m) = 36 + key_public_size cr + key_nonce_size cr + key_nonce_size cr + mac_sha_512_256_size cr"
    using sizes by (simp_all add: lh mac_length)
  let ?d = "\<lparr> phase = Await_response kn cn, to_server = [], to_client = framed (?h @ ?m) \<rparr>"
  have rd: "ipc_read_data_block True (client_fd ?d) = (Inr (?h @ ?m), (client_fd ?d)\<lparr>rx := []\<rparr>)"
    using sizes(5) by (intro data_codec.rd_ok) (simp_all add: client_fd_def sized_ok_def lh mac_length framed_def)
  have r: "protocolservice_api_recvresp_handshake_request_block cr (client_envs c 1) (client_privkey c) kn cn (client_fd ?d) =
      Some (\<lparr> api_retval = 0, api_header = Some (0, 0), api_payload = Some \<lparr> server_id = uuid, server_public_key = pub,
        resp_challenge_nonce = scn, resp_shared_secret = secret \<rparr> \<rparr>, (client_fd ?d)\<lparr>rx := []\<rparr>)"
    using h rd size(2) unfolding protocolservice_api_recvresp_handshake_request_block_def honest_client_def Let_def
    by (simp add: sl size(1) sizes(1,2) same_mac secret [symmetric] lh mac_length)
  have w: "ipc_write_authed_data_block (vccrypt.truncate cr) crypt_ok 1 (mac_short cr secret scn) secret ((client_fd ?d)\<lparr>rx := []\<rparr>) =
      (0, (client_fd ?d)\<lparr>rx := [], tx := sealed (vccrypt.truncate cr) 1 secret (mac_short cr secret scn)\<rparr>)"
    using sizes(5) by (simp add: ipc_write_authed_data_block_def vccrypt_suite.seal_packet_ok [OF packets] authed_ok_def mac_length write_block_ok client_fd_def)
  show ?thesis using h r w
    by (simp add: client_step_def protocolservice_api_sendreq_handshake_ack_block_def honest_client_def client_moved_def Let_def client_fd_def)
qed

lemma client_third:
  assumes h: "honest_client c kn cn"
  shows "phase (client_step cr c \<lparr> phase = Await_acknowledge r iv, to_server = [],
       to_client = sealed (vccrypt.truncate cr) 0x8000000000000001 (resp_shared_secret r) (net32 1 @ net32 0 @ net32 0) \<rparr>) =
     Connected (resp_shared_secret r) iv 0x8000000000000002"
proof -
  let ?v = "net32 1 @ net32 0 @ net32 0"
  let ?d = "\<lparr> phase = Await_acknowledge r iv, to_server = [],
       to_client = sealed (vccrypt.truncate cr) 0x8000000000000001 (resp_shared_secret r) ?v \<rparr>"
  have rd: "ipc_read_authed_data_block (vccrypt.truncate cr) crypt_ok 0x8000000000000001 (resp_shared_secret r) (client_fd ?d) =
      (Inr ?v, (client_fd ?d)\<lparr>rx := []\<rparr>)"
    by (rule vccrypt_suite.read_block_sealed [OF packets]) (simp_all add: client_fd_def authed_ok_def)
  show ?thesis using h rd
    by (simp add: client_step_def protocolservice_api_recvresp_handshake_ack_block_def honest_client_def client_moved_def Let_def slice_def)
qed

text \<open>The steps of the service over the socket that leads to the client.\<close>

lemma peer_read:
  assumes "client_step cr c d = \<lparr> phase = p, to_server = framed b, to_client = t \<rparr>" and "sized_ok b"
  shows "psock_read_boxed_data (peer_psock cr c) d = (Inr b, \<lparr> phase = p, to_server = [], to_client = t \<rparr>)"
proof -
  let ?d = "\<lparr> phase = p, to_server = framed b, to_client = t \<rparr>"
  have "ipc_read_data_block True (server_fd ?d) = (Inr b, (server_fd ?d)\<lparr>rx := []\<rparr>)"
    using assms(2) by (intro data_codec.rd_ok) (simp_all add: server_fd_def framed_def)
  then show ?thesis using assms(1) by (simp add: peer_psock_def Let_def server_moved_def server_fd_def)
qed

lemma peer_write:
  "sized_ok b \<Longrightarrow> psock_write_boxed_data (peer_psock cr c) b \<lparr> phase = p, to_server = s, to_client = [] \<rparr> =
     (AGENTD_STATUS_SUCCESS, \<lparr> phase = p, to_server = s, to_client = framed b \<rparr>)"
  by (simp add: peer_psock_def server_fd_def data_codec.wr_ok server_moved_def framed_def)

lemma peer_read_authed:
  assumes "client_step cr c d = \<lparr> phase = p, to_server = sealed (vccrypt.truncate cr) iv k b, to_client = t \<rparr>" and "authed_ok b"
  shows "psock_read_authed_data (peer_psock cr c) iv k d = (Inr b, \<lparr> phase = p, to_server = [], to_client = t \<rparr>)"
proof -
  let ?d = "\<lparr> phase = p, to_server = sealed (vccrypt.truncate cr) iv k b, to_client = t \<rparr>"
  have "ipc_read_authed_data_block (vccrypt.truncate cr) crypt_ok iv k (server_fd ?d) = (Inr b, (server_fd ?d)\<lparr>rx := []\<rparr>)"
    using assms(2) by (intro vccrypt_suite.read_block_sealed [OF packets]) (simp_all add: server_fd_def)
  then show ?thesis using assms(1) by (simp add: peer_psock_def Let_def server_moved_def server_fd_def)
qed

lemma peer_write_authed:
  "authed_ok b \<Longrightarrow> psock_write_authed_data (peer_psock cr c) iv b k \<lparr> phase = p, to_server = s, to_client = [] \<rparr> =
     (AGENTD_STATUS_SUCCESS, \<lparr> phase = p, to_server = s, to_client = sealed (vccrypt.truncate cr) iv k b \<rparr>)"
  by (simp add: peer_psock_def server_fd_def ipc_write_authed_data_block_def vccrypt_suite.seal_packet_ok [OF packets] write_block_ok server_moved_def)

lemma peer_reclaim [simp]: "rcpr_allocator_reclaim (peer_psock cr c) d = (AGENTD_STATUS_SUCCESS, d)"
  by (simp add: peer_psock_def)

lemma server_reads_request:
  assumes h: "honest_client c kn cn" and f: "protosock f = \<lparr> phase = Send_request, to_server = [], to_client = [] \<rparr>"
    "length (client_key_nonce f) = 32" "length (client_challenge_nonce f) = 32"
  shows "protocolservice_protocol_read_handshake_req cr (peer_psock cr c) f =
     (AGENTD_STATUS_SUCCESS, f\<lparr>protosock := \<lparr> phase = Await_response kn cn, to_server = [], to_client = [] \<rparr>,
        fiber_entity_uuid := client_entity c, client_key_nonce := kn, client_challenge_nonce := cn\<rparr>)"
proof -
  let ?req = "net32 0 @ net32 0 @ net32 1 @ net32 (VCCRYPT_SUITE_VELO_V1 cr) @ client_entity c @ kn @ cn"
  have len: "length kn = 32" "length cn = 32" "length (client_entity c) = 16" using h by (simp_all add: honest_client_def)
  have rd: "psock_read_boxed_data (peer_psock cr c) (protosock f) = (Inr ?req, \<lparr> phase = Await_response kn cn, to_server = [], to_client = [] \<rparr>)"
    unfolding f(1) by (rule peer_read [OF client_first [OF h]]) (simp add: sized_ok_def len)
  show ?thesis using f(2,3) len
    by (simp add: protocolservice_protocol_read_handshake_req_def rd Let_def slice_def released_def)
qed

end

definition handshake_env_ok :: handshake_env where
  "handshake_env_ok = \<lparr> random_env = \<lparr> encode_st = 0, payload_st = 0, message_st = 0, send_st = 0, release_st = 0 \<rparr>, random_free_st = 0,
     agreement_init_st = 0, secret_create_st = 0, payload_buffer_st = 0, hmac_init_st = 0, hmac_buffer_st = 0, hmac_digest_st = (\<lambda>_. 0),
     hmac_finalize_st = 0, ack_left = False \<rparr>"

lemma handshake_env_ok_sel [simp]:
  "payload_st (random_env handshake_env_ok) = 0" "message_st (random_env handshake_env_ok) = 0" "send_st (random_env handshake_env_ok) = 0"
  "random_free_st handshake_env_ok = 0" "agreement_init_st handshake_env_ok = 0" "secret_create_st handshake_env_ok = 0"
  "payload_buffer_st handshake_env_ok = 0" "hmac_init_st handshake_env_ok = 0" "hmac_buffer_st handshake_env_ok = 0"
  "hmac_digest_st handshake_env_ok k = 0" "hmac_finalize_st handshake_env_ok = 0" "\<not> ack_left handshake_env_ok"
  by (simp_all add: handshake_env_ok_def)

lemma server_random:
  assumes i: "i < length (ps_fibers ctx)" and w: "wait_local i wait" and r: "\<forall>x. \<exists>b x'. wait x = (Inr b, x') \<and> length b = 64"
    and len: "length (server_challenge_nonce (ps_fibers ctx ! i)) = 32" "length (server_key_nonce (ps_fibers ctx ! i)) = 32"
  obtains ctx' c k where "protocolservice_read_random_bytes ps wait handshake_env_ok i ctx = Some (AGENTD_STATUS_SUCCESS, ctx')"
    and "length c = 32" and "length k = 32" and "length (ps_fibers ctx') = length (ps_fibers ctx)"
    and "ps_fibers ctx' ! i = (ps_fibers ctx ! i)\<lparr>server_challenge_nonce := c, server_key_nonce := k\<rparr>"
    and "ps_entities ctx' = ps_entities ctx" and "agentd_enc_privkey ctx' = agentd_enc_privkey ctx"
    and "agentd_uuid ctx' = agentd_uuid ctx" and "agentd_enc_pubkey ctx' = agentd_enc_pubkey ctx"
proof -
  obtain c1 where s: "send_message (random_env handshake_env_ok) (random_endpoint_addr ctx) (return_addr (ps_fibers ctx ! i)) (Random_request 64) ctx =
      (AGENTD_STATUS_SUCCESS, c1)"
    by (simp add: send_message_def)
  obtain b c2 where b: "wait c1 = (Inr b, c2)" "length b = 64" using r by blast
  let ?ctx = "set_fiber i ((ps_fibers c2 ! i)\<lparr>server_challenge_nonce := take 32 b, server_key_nonce := slice 32 32 b\<rparr>) c2"
  have x: "protocolservice_read_random_bytes ps wait handshake_env_ok i ctx = Some (AGENTD_STATUS_SUCCESS, ?ctx)"
    using len s b by (simp add: protocolservice_read_random_bytes_def protocolservice_random_request_message_create_def Let_def)
  show thesis
    by (rule that [OF x, where c = "take 32 b" and k = "slice 32 32 b"])
      (use b w i send_message_frame [OF s] in \<open>auto simp: wait_local_def slice_def\<close>)
qed

text \<open>The service until it has answered the request: the client and the service compute the same secret.\<close>

lemma handshake_answered:
  assumes suite: "handshake_suite cr keypair" and hc: "honest_client c kn cn" and i: "i < length (ps_fibers ctx)"
    and sock: "protosock (ps_fibers ctx ! i) = \<lparr> phase = Send_request, to_server = [], to_client = [] \<rparr>"
    and nonces: "length (client_key_nonce (ps_fibers ctx ! i)) = 32" "length (client_challenge_nonce (ps_fibers ctx ! i)) = 32"
      "length (server_key_nonce (ps_fibers ctx ! i)) = 32" "length (server_challenge_nonce (ps_fibers ctx ! i)) = 32"
    and known: "tree_find ops (client_entity c) (authorized_entity_dict ctx) = Inr (Entity_ref n)"
    and keys: "keypair (client_privkey c) (encryption_pubkey (ps_entities ctx ! n))" "keypair (agentd_enc_privkey ctx) (agentd_enc_pubkey ctx)"
    and uuid: "length (agentd_uuid ctx) = 16" and wait: "wait_local i wait" "\<forall>x. \<exists>b x'. wait x = (Inr b, x') \<and> length b = 64"
  obtains c1 c2 c3 c4 c5 sk ch secret where
    "on_fiber i (protocolservice_protocol_read_handshake_req cr (peer_psock cr c)) ctx = (AGENTD_STATUS_SUCCESS, c1)"
    and "protocolservice_authorized_entity_lookup ops (peer_psock cr c) i c1 = (AGENTD_STATUS_SUCCESS, c2)"
    and "protocolservice_read_random_bytes (peer_psock cr c) wait handshake_env_ok i c2 = Some (AGENTD_STATUS_SUCCESS, c3)"
    and "protocolservice_compute_shared_secret cr (peer_psock cr c) handshake_env_ok i c3 = (AGENTD_STATUS_SUCCESS, c4)"
    and "protocolservice_protocol_write_handshake_req_resp cr (peer_psock cr c) handshake_env_ok i c4 = (AGENTD_STATUS_SUCCESS, c5)"
    and "length sk = 32" and "length ch = 32" and "secret = short_term_secret cr (client_privkey c) (agentd_enc_pubkey ctx) sk kn"
    and "length (agentd_enc_pubkey ctx) = 32" and "i < length (ps_fibers c5)"
    and "protosock (ps_fibers c5 ! i) = \<lparr> phase = Await_response kn cn, to_server = [],
       to_client = framed (hello cr (agentd_uuid ctx) (agentd_enc_pubkey ctx) sk ch @
         mac_short cr secret (hello cr (agentd_uuid ctx) (agentd_enc_pubkey ctx) sk ch @ cn)) \<rparr>"
    and "shared_secret (ps_fibers c5 ! i) = secret" and "client_iv (ps_fibers c5 ! i) = 1" and "server_iv (ps_fibers c5 ! i) = 0x8000000000000001"
    and "fiber_entity (ps_fibers c5 ! i) = Some n" and "fiber_entity_uuid (ps_fibers c5 ! i) = client_entity c"
proof -
  let ?ps = "peer_psock cr c" and ?f = "ps_fibers ctx ! i"
  define f1 where "f1 = ?f\<lparr>protosock := \<lparr> phase = Await_response kn cn, to_server = [], to_client = [] \<rparr>,
      fiber_entity_uuid := client_entity c, client_key_nonce := kn, client_challenge_nonce := cn\<rparr>"
  have s1: "on_fiber i (protocolservice_protocol_read_handshake_req cr ?ps) ctx = (0, set_fiber i f1 ctx)"
    using handshake_suite.server_reads_request [OF suite hc sock nonces(1,2)] by (simp add: on_fiber_def f1_def)
  define c2 where "c2 = set_fiber i (f1\<lparr>fiber_entity := Some n\<rparr>) (set_fiber i f1 ctx)"
  have s2: "protocolservice_authorized_entity_lookup ops ?ps i (set_fiber i f1 ctx) = (0, c2)"
    using i known by (simp add: protocolservice_authorized_entity_lookup_def on_fiber_def c2_def f1_def)
  have g2: "ps_fibers c2 ! i = f1\<lparr>fiber_entity := Some n\<rparr>" "length (ps_fibers c2) = length (ps_fibers ctx)" "ps_entities c2 = ps_entities ctx"
    "agentd_enc_privkey c2 = agentd_enc_privkey ctx" "agentd_uuid c2 = agentd_uuid ctx" "agentd_enc_pubkey c2 = agentd_enc_pubkey ctx"
    using i by (simp_all add: c2_def)
  obtain c3 ch sk where s3: "protocolservice_read_random_bytes ?ps wait handshake_env_ok i c2 = Some (0, c3)" and len: "length ch = 32" "length sk = 32"
    and g3: "length (ps_fibers c3) = length (ps_fibers c2)" "ps_fibers c3 ! i = (ps_fibers c2 ! i)\<lparr>server_challenge_nonce := ch, server_key_nonce := sk\<rparr>"
      "ps_entities c3 = ps_entities c2" "agentd_enc_privkey c3 = agentd_enc_privkey c2" "agentd_uuid c3 = agentd_uuid c2" "agentd_enc_pubkey c3 = agentd_enc_pubkey c2"
    by (rule server_random [of i c2 wait ?ps]) (use i nonces(3,4) wait g2 in \<open>simp_all add: f1_def\<close>)
  define secret where "secret = short_term_secret cr (agentd_enc_privkey ctx) (encryption_pubkey (ps_entities ctx ! n)) sk kn"
  have agreed: "secret = short_term_secret cr (client_privkey c) (agentd_enc_pubkey ctx) sk kn"
    using handshake_suite.agreement [OF suite keys] by (simp add: secret_def)
  define f4 where "f4 = f1\<lparr>fiber_entity := Some n, server_challenge_nonce := ch, server_key_nonce := sk, shared_secret := secret,
      client_iv := 1, server_iv := 0x8000000000000001\<rparr>"
  have s4: "protocolservice_compute_shared_secret cr ?ps handshake_env_ok i c3 = (0, set_fiber i f4 c3)"
    using g2 g3 by (simp add: protocolservice_compute_shared_secret_def on_fiber_def Let_def f4_def f1_def secret_def)
  let ?h = "hello cr (agentd_uuid ctx) (agentd_enc_pubkey ctx) sk ch"
  have pub: "length (agentd_enc_pubkey ctx) = 32" using handshake_suite.public_size [OF suite keys(2)] .
  have so: "sized_ok (?h @ mac_short cr secret (?h @ cn))"
    using handshake_suite.sizes(5) [OF suite] handshake_suite.mac_length [OF suite] len uuid pub by (simp add: sized_ok_def hello_def)
  define f5 where "f5 = f4\<lparr>protosock := \<lparr> phase = Await_response kn cn, to_server = [], to_client = framed (?h @ mac_short cr secret (?h @ cn)) \<rparr>\<rparr>"
  have s5: "protocolservice_protocol_write_handshake_req_resp cr ?ps handshake_env_ok i (set_fiber i f4 c3) =
      (0, set_fiber i f5 (set_fiber i f4 c3))"
    using i g2 g3 handshake_suite.peer_write [OF suite so, of c "Await_response kn cn" "[]"]
    by (simp add: protocolservice_protocol_write_handshake_req_resp_def on_fiber_def Let_def f4_def f5_def f1_def hello_def)
  show thesis
    by (rule that [OF s1 s2 s3 s4 s5 len(2,1) agreed pub]) (use i g2 g3 in \<open>simp_all add: f5_def f4_def f1_def\<close>)
qed

text \<open>
  C16. A client and the service that know each other's public keys complete the
  handshake, and then agree: both hold the same secret, each side's counters are those
  the other expects, and the service has the entity of the client.
\<close>

theorem handshake_agrees:
  assumes "handshake_suite cr keypair" and "honest_client c kn cn" and "i < length (ps_fibers ctx)" and "private_key_set ctx"
    and "protosock (ps_fibers ctx ! i) = \<lparr> phase = Send_request, to_server = [], to_client = [] \<rparr>"
    and "length (client_key_nonce (ps_fibers ctx ! i)) = 32" and "length (client_challenge_nonce (ps_fibers ctx ! i)) = 32"
    and "length (server_key_nonce (ps_fibers ctx ! i)) = 32" and "length (server_challenge_nonce (ps_fibers ctx ! i)) = 32"
    and "tree_find ops (client_entity c) (authorized_entity_dict ctx) = Inr (Entity_ref n)"
    and "keypair (client_privkey c) (encryption_pubkey (ps_entities ctx ! n))"
    and "keypair (agentd_enc_privkey ctx) (agentd_enc_pubkey ctx)" and "length (agentd_uuid ctx) = 16"
    and "wait_local i wait" and "\<forall>x. \<exists>b x'. wait x = (Inr b, x') \<and> length b = 64"
  shows "\<exists>ctx' f. protocolservice_protocol_handle_handshake ops cr (peer_psock cr c) wait handshake_env_ok i ctx =
       Some (AGENTD_STATUS_SUCCESS, ctx') \<and> ps_fibers ctx' ! i = f \<and>
     phase (client_step cr c (protosock f)) = Connected (shared_secret f) (client_iv f) (server_iv f) \<and>
     fiber_entity f = Some n \<and> fiber_entity_uuid f = client_entity c"
proof -
  let ?ps = "peer_psock cr c"
  note suite = assms(1) and hc = assms(2)
  obtain c1 c2 c3 c4 c5 sk ch secret where s: "on_fiber i (protocolservice_protocol_read_handshake_req cr ?ps) ctx = (0, c1)"
    "protocolservice_authorized_entity_lookup ops ?ps i c1 = (0, c2)" "protocolservice_read_random_bytes ?ps wait handshake_env_ok i c2 = Some (0, c3)"
    "protocolservice_compute_shared_secret cr ?ps handshake_env_ok i c3 = (0, c4)"
    "protocolservice_protocol_write_handshake_req_resp cr ?ps handshake_env_ok i c4 = (0, c5)"
    and len: "length sk = 32" "length ch = 32" and agreed: "secret = short_term_secret cr (client_privkey c) (agentd_enc_pubkey ctx) sk kn"
    and pub: "length (agentd_enc_pubkey ctx) = 32" and i5: "i < length (ps_fibers c5)"
    and sock: "protosock (ps_fibers c5 ! i) = \<lparr> phase = Await_response kn cn, to_server = [],
       to_client = framed (hello cr (agentd_uuid ctx) (agentd_enc_pubkey ctx) sk ch @
         mac_short cr secret (hello cr (agentd_uuid ctx) (agentd_enc_pubkey ctx) sk ch @ cn)) \<rparr>"
    and f5: "shared_secret (ps_fibers c5 ! i) = secret" "client_iv (ps_fibers c5 ! i) = 1" "server_iv (ps_fibers c5 ! i) = 0x8000000000000001"
      "fiber_entity (ps_fibers c5 ! i) = Some n" "fiber_entity_uuid (ps_fibers c5 ! i) = client_entity c"
    by (rule handshake_answered [OF suite hc assms(3,5-15)])
  let ?r = "\<lparr> server_id = agentd_uuid ctx, server_public_key = agentd_enc_pubkey ctx, resp_challenge_nonce = ch, resp_shared_secret = secret \<rparr>"
  have ao: "authed_ok (mac_short cr secret ch)"
    using handshake_suite.sizes(5) [OF suite] handshake_suite.mac_length [OF suite] by (simp add: authed_ok_def)
  define f6 where "f6 = (ps_fibers c5 ! i)\<lparr>protosock := \<lparr> phase = Await_acknowledge ?r 2, to_server = [], to_client = [] \<rparr>, client_iv := 2\<rparr>"
  have "protocolservice_protocol_read_handshake_ack_req False ?ps (ps_fibers c5 ! i) = (0, f6)"
    using handshake_suite.peer_read_authed [OF suite handshake_suite.client_second [OF suite hc assms(13) pub len agreed] ao]
    by (simp add: protocolservice_protocol_read_handshake_ack_req_def f5 sock f6_def handshake_suite.peer_reclaim [OF suite])
  then have s6: "on_fiber i (protocolservice_protocol_read_handshake_ack_req False ?ps) c5 = (0, set_fiber i f6 c5)" by (simp add: on_fiber_def)
  define f7 where "f7 = f6\<lparr>protosock := \<lparr> phase = Await_acknowledge ?r 2, to_server = [],
      to_client = sealed (vccrypt.truncate cr) 0x8000000000000001 secret (net32 1 @ net32 0 @ net32 0) \<rparr>, server_iv := 0x8000000000000002\<rparr>"
  have "authed_ok (net32 1 @ net32 0 @ net32 0)" by (simp add: authed_ok_def)
  then have "protocolservice_protocol_write_handshake_ack_resp ?ps f6 = (0, f7)"
    using handshake_suite.peer_write_authed [OF suite, of "net32 1 @ net32 0 @ net32 0"]
    by (simp add: protocolservice_protocol_write_handshake_ack_resp_def f7_def f6_def f5 Let_def)
  then have s7: "on_fiber i (protocolservice_protocol_write_handshake_ack_resp ?ps) (set_fiber i f6 c5) = (0, set_fiber i f7 (set_fiber i f6 c5))"
    using i5 by (simp add: on_fiber_def)
  have run: "protocolservice_protocol_handle_handshake ops cr ?ps wait handshake_env_ok i ctx = Some (0, set_fiber i f7 (set_fiber i f6 c5))"
    using assms(4) by (simp add: protocolservice_protocol_handle_handshake_def s s6 s7)
  have "phase (client_step cr c (protosock f7)) = Connected (shared_secret f7) (client_iv f7) (server_iv f7)"
    using handshake_suite.client_third [OF suite hc, of ?r 2] by (simp add: f7_def f6_def f5)
  moreover have "fiber_entity f7 = Some n" "fiber_entity_uuid f7 = client_entity c" by (simp_all add: f7_def f6_def f5)
  ultimately show ?thesis using run i5 by auto
qed

text \<open>An instance: a suite with the laws, and a client that is known to the service.\<close>

definition weak_handshake :: vccrypt_handshake where
  "weak_handshake =
     \<lparr> mac_short_size = mac_short_size weak_crypt, stream_encrypt = stream_encrypt weak_crypt, stream_decrypt = stream_decrypt weak_crypt,
       mac_short = mac_short weak_crypt, VCCRYPT_SUITE_VELO_V1 = 1, key_public_size = 32, key_nonce_size = 32,
       short_term_secret = (\<lambda>priv pub sn cn. (hd priv + hd pub) # sn @ cn),
       mac_sha_512_256_size = 2, mac_sha_512_256 = mac_short weak_crypt \<rparr>"

interpretation weak_agreement: handshake_suite weak_handshake "\<lambda>priv pub. pub = replicate 32 (hd priv)"
proof (rule handshake_suite.intro)
  have t: "vccrypt.truncate weak_handshake = weak_crypt" by (simp add: weak_handshake_def vccrypt.defs)
  show "vccrypt_suite (vccrypt.truncate weak_handshake)" unfolding t by (rule weak_suite.vccrypt_suite_axioms)
qed (simp_all add: weak_handshake_def vccrypt.defs weak_crypt_def fun_eq_iff add.commute)

definition fiber_env_ok :: fiber_add_env where
  "fiber_env_ok = \<lparr> add_st = (\<lambda>_. 0), return_mailbox = Inr 40, fiber_mailbox = Inr 41, add_release_st = (\<lambda>_. 0) \<rparr>"

definition known_client :: handshake_client where
  "known_client = \<lparr> client_entity = replicate 16 7, client_privkey = [5],
     client_envs = (\<lambda>_. \<lparr> prng = (\<lambda>j. Inr (replicate 32 (of_nat j))), client_st = (\<lambda>_. 0), read_malloc = True, authed_env = crypt_ok \<rparr>) \<rparr>"

definition serving_ctx :: "((bytes, ps_resource) rbt, duplex) protocolservice_context" where
  "serving_ctx = snd (protocolservice_protocol_fiber_add rbt_ops weak_handshake fiber_env_ok
     \<lparr> phase = Send_request, to_server = [], to_client = [] \<rparr>
     ((case protocolservice_context_create context_env_ok rbt_ops sample_suite 1 2 of Inr c \<Rightarrow> c)
        \<lparr>authorized_entity_dict := RBT.insert (replicate 16 7) (Entity_ref 0) RBT.empty,
         ps_entities := [\<lparr> entity_uuid = replicate 16 7, encryption_pubkey = replicate 32 5, signing_pubkey = [], capabilities = RBT.empty \<rparr>],
         agentd_uuid := replicate 16 9, agentd_enc_pubkey := replicate 32 8, agentd_enc_privkey := [8], private_key_set := True\<rparr>))"

lemma serving_ctx_simps:
  "private_key_set serving_ctx" "length (ps_fibers serving_ctx) = 1" "length (agentd_uuid serving_ctx) = 16"
  "protosock (ps_fibers serving_ctx ! 0) = \<lparr> phase = Send_request, to_server = [], to_client = [] \<rparr>"
  "length (client_key_nonce (ps_fibers serving_ctx ! 0)) = 32" "length (client_challenge_nonce (ps_fibers serving_ctx ! 0)) = 32"
  "length (server_key_nonce (ps_fibers serving_ctx ! 0)) = 32" "length (server_challenge_nonce (ps_fibers serving_ctx ! 0)) = 32"
  "tree_find rbt_ops (replicate 16 7) (authorized_entity_dict serving_ctx) = Inr (Entity_ref 0)"
  "encryption_pubkey (ps_entities serving_ctx ! 0) = replicate 32 5" "agentd_enc_pubkey serving_ctx = replicate 32 8" "agentd_enc_privkey serving_ctx = [8]"
  by (simp_all add: serving_ctx_def protocolservice_protocol_fiber_add_def fiber_env_ok_def Let_def protocolservice_context_create_def context_env_ok_def
      weak_handshake_def vccrypt.defs rbt_ops_def)

theorem handshake_agrees_witness:
  "\<exists>ctx' f. protocolservice_protocol_handle_handshake rbt_ops weak_handshake (peer_psock weak_handshake known_client)
       (\<lambda>x. (Inr (replicate 64 3), x)) handshake_env_ok 0 serving_ctx = Some (AGENTD_STATUS_SUCCESS, ctx') \<and> ps_fibers ctx' ! 0 = f \<and>
     phase (client_step weak_handshake known_client (protosock f)) = Connected (shared_secret f) (client_iv f) (server_iv f) \<and>
     fiber_entity f = Some 0 \<and> fiber_entity_uuid f = client_entity known_client"
  using handshake_agrees [OF weak_agreement.handshake_suite_axioms, of known_client "replicate 32 0" "replicate 32 1" 0 serving_ctx rbt_ops 0
      "\<lambda>x. (Inr (replicate 64 3), x)"]
  by (simp add: serving_ctx_simps known_client_def honest_client_def wait_local_def)

text \<open>A peer that sends a request and an authentic acknowledgement.\<close>

definition script_psock :: "duplex authed_psock_ops" where
  "script_psock =
     \<lparr> psock_write_boxed_data = (\<lambda>b d. (AGENTD_STATUS_SUCCESS, d)),
       psock_read_boxed_data = (\<lambda>d. (Inr (net32 0 @ net32 0 @ net32 1 @ net32 1 @ replicate 16 7 @ replicate 64 2), d)),
       rcpr_allocator_reclaim = (\<lambda>d. (AGENTD_STATUS_SUCCESS, d)),
       psock_write_authed_data = (\<lambda>iv b k d. (AGENTD_STATUS_SUCCESS, d)),
       psock_read_authed_data = (\<lambda>iv k d. (Inr [], d)) \<rparr>"

lemma script_run:
  "\<exists>ctx'. protocolservice_protocol_handle_handshake rbt_ops weak_handshake script_psock (\<lambda>x. (Inr (replicate 64 3), x)) handshake_env_ok 0 serving_ctx =
     Some (AGENTD_STATUS_SUCCESS, ctx') \<and> fiber_entity_uuid (ps_fibers ctx' ! 0) = replicate 16 7"
  using serving_ctx_simps
  by (simp add: protocolservice_protocol_handle_handshake_def on_fiber_def protocolservice_protocol_read_handshake_req_def script_psock_def Let_def
      slice_def weak_handshake_def protocolservice_authorized_entity_lookup_def protocolservice_read_random_bytes_def released_def
      protocolservice_random_request_message_create_def send_message_def protocolservice_compute_shared_secret_def
      protocolservice_protocol_write_handshake_req_resp_def protocolservice_protocol_read_handshake_ack_req_def
      protocolservice_protocol_write_handshake_ack_resp_def set_fiber_def)

theorem handshake_authenticates_witness:
  "\<exists>ctx'. protocolservice_protocol_handle_handshake rbt_ops weak_handshake script_psock (\<lambda>x. (Inr (replicate 64 3), x)) handshake_env_ok 0 serving_ctx =
     Some (AGENTD_STATUS_SUCCESS, ctx') \<and> fiber_entity (ps_fibers ctx' ! 0) = Some 0 \<and> client_iv (ps_fibers ctx' ! 0) = 2 \<and>
     shared_secret (ps_fibers ctx' ! 0) = short_term_secret weak_handshake [8] (replicate 32 5)
       (server_key_nonce (ps_fibers ctx' ! 0)) (client_key_nonce (ps_fibers ctx' ! 0))"
proof -
  obtain ctx' where r: "protocolservice_protocol_handle_handshake rbt_ops weak_handshake script_psock (\<lambda>x. (Inr (replicate 64 3), x)) handshake_env_ok 0 serving_ctx =
     Some (AGENTD_STATUS_SUCCESS, ctx')" and u: "fiber_entity_uuid (ps_fibers ctx' ! 0) = replicate 16 7" using script_run by blast
  have "wait_local 0 (\<lambda>x. (Inr (replicate 64 3), x))" by (simp add: wait_local_def)
  have h: "0 < length (ps_fibers serving_ctx)" "\<not> ack_left handshake_env_ok" by (simp_all add: serving_ctx_simps)
  from handshake_authenticates [OF r h(1) \<open>wait_local 0 _\<close> h(2) refl refl refl]
  have "\<exists>e. tree_find rbt_ops (fiber_entity_uuid (ps_fibers ctx' ! 0)) (authorized_entity_dict serving_ctx) = Inr e \<and>
     fiber_entity (ps_fibers ctx' ! 0) = (case e of Entity_ref n \<Rightarrow> Some n | _ \<Rightarrow> None) \<and> client_iv (ps_fibers ctx' ! 0) = 2 \<and>
     shared_secret (ps_fibers ctx' ! 0) = short_term_secret weak_handshake (agentd_enc_privkey serving_ctx)
       (encryption_pubkey (ps_entities serving_ctx ! the (fiber_entity (ps_fibers ctx' ! 0))))
       (server_key_nonce (ps_fibers ctx' ! 0)) (client_key_nonce (ps_fibers ctx' ! 0))"
    by blast
  then show ?thesis using r u by (auto simp: serving_ctx_simps)
qed

text \<open>
  A failed read of the acknowledgement that leaves a buffer: the connection is established although the
  client has shown nothing.
\<close>

lemma failed_acknowledgement_accepted:
  assumes "psock_read_authed_data ps (client_iv f) (shared_secret f) (protosock f) = (Inl e, s)"
    and "\<And>s. fst (rcpr_allocator_reclaim ps s) = AGENTD_STATUS_SUCCESS"
  shows "fst (protocolservice_protocol_read_handshake_ack_req True ps f) = AGENTD_STATUS_SUCCESS"
  using assms by (simp add: protocolservice_protocol_read_handshake_ack_req_def Let_def case_prod_beta)

end
