(* ===== verification/Proto_Connection.thy ===== *)
theory Proto_Connection
  imports Proto_Handshake
begin

text \<open>
  The two fibers of a connection after the handshake
  (\<^verbatim>\<open>protocolservice_protocol_fiber_entry.c\<close>, \<^verbatim>\<open>protocolservice_protocol_write_endpoint_add.c\<close>,
  \<^verbatim>\<open>protocolservice_protocol_write_endpoint_entry.c\<close>): one reads requests, one writes
  responses.  They share the context of the connection, and each holds a reference to it.

  The results of receiving a message, of releasing it and of the calls of a request are
  functions of the number of the turn.  Between turns the other fibers run, which is part
  of receiving and of \<open>wait\<close>.  A loop that does not end is \<open>None\<close>, as is undefined behaviour.
\<close>

record endpoint_add_env =
  fiber_create_st :: status
  callback_add_st :: status
  scheduler_add_st :: status
  fiber_release_st :: status

definition protocolservice_protocol_write_endpoint_add ::
  "'t resource_tree_ops \<Rightarrow> (('t, 's) protocolservice_context \<Rightarrow> status \<times> ('t, 's) protocolservice_context) \<Rightarrow> fiber_release_env \<Rightarrow>
     endpoint_add_env \<Rightarrow> nat \<Rightarrow> ('t, 's) protocolservice_context \<Rightarrow> status \<times> ('t, 's) protocolservice_context" where
  "protocolservice_protocol_write_endpoint_add ops wait renv env i ctx =
     (let f = ps_fibers ctx ! i; ctx = set_fiber i (f\<lparr>reference_count := reference_count f + 1\<rparr>) ctx;
          cleanup_context = (\<lambda>st. case protocolservice_protocol_fiber_context_release ops wait renv i ctx of (release_retval, ctx) \<Rightarrow>
                                    (released release_retval st, ctx)) in
      if fiber_create_st env \<noteq> AGENTD_STATUS_SUCCESS then cleanup_context (fiber_create_st env) else
      if callback_add_st env \<noteq> AGENTD_STATUS_SUCCESS then cleanup_context (released (fiber_release_st env) (callback_add_st env)) else
      if scheduler_add_st env \<noteq> AGENTD_STATUS_SUCCESS then cleanup_context (released (fiber_release_st env) (scheduler_add_st env)) else
      (AGENTD_STATUS_SUCCESS, ctx))"

partial_function (option) write_endpoint_loop ::
  "vcblockchain_resp \<Rightarrow> 's authed_psock_ops \<Rightarrow>
     (nat \<Rightarrow> ('t, 's) protocolservice_context \<Rightarrow> (status + protocolservice_protocol_write_endpoint_message) \<times> ('t, 's) protocolservice_context) \<Rightarrow>
     (nat \<Rightarrow> status) \<Rightarrow> nat \<Rightarrow> nat \<Rightarrow> ('t, 's) protocolservice_context \<Rightarrow> (status \<times> ('t, 's) protocolservice_context) option" where
  "write_endpoint_loop vc ps recv free k i ctx =
     (if ps_quiesce ctx \<or> shutdown (ps_fibers ctx ! i) then Some (AGENTD_STATUS_SUCCESS, ctx) else
      case recv k ctx of
        (Inl st, ctx) \<Rightarrow> Some (st, ctx)
      | (Inr m, ctx) \<Rightarrow>
      case protocolservice_protocol_write_endpoint_decode_and_dispatch vc ps m (ps_fibers ctx ! i) of
        None \<Rightarrow> None
      | Some (retval, f) \<Rightarrow>
      let ctx = set_fiber i f ctx in
      if retval \<noteq> AGENTD_STATUS_SUCCESS then Some (released (free k) retval, ctx) else
      if free k \<noteq> AGENTD_STATUS_SUCCESS then Some (free k, ctx) else
      write_endpoint_loop vc ps recv free (k + 1) i ctx)"

definition protocolservice_protocol_write_endpoint_entry ::
  "'t resource_tree_ops \<Rightarrow> vcblockchain_resp \<Rightarrow> 's authed_psock_ops \<Rightarrow>
     (nat \<Rightarrow> ('t, 's) protocolservice_context \<Rightarrow> (status + protocolservice_protocol_write_endpoint_message) \<times> ('t, 's) protocolservice_context) \<Rightarrow>
     (nat \<Rightarrow> status) \<Rightarrow> (('t, 's) protocolservice_context \<Rightarrow> status \<times> ('t, 's) protocolservice_context) \<Rightarrow> fiber_release_env \<Rightarrow> nat \<Rightarrow>
     ('t, 's) protocolservice_context \<Rightarrow> (status \<times> ('t, 's) protocolservice_context) option" where
  "protocolservice_protocol_write_endpoint_entry ops vc ps recv free wait renv i ctx =
     (case write_endpoint_loop vc ps recv free 0 i ctx of
        None \<Rightarrow> None
      | Some (retval, ctx) \<Rightarrow>
      case protocolservice_protocol_fiber_context_release ops wait renv i ctx of (release_retval, ctx) \<Rightarrow>
      Some (released release_retval retval, ctx))"

partial_function (option) protocol_fiber_loop ::
  "'s authed_psock_ops \<Rightarrow> 't resource_tree_ops \<Rightarrow> vcblockchain \<Rightarrow> (nat \<Rightarrow> ('t, 's) message_wait) \<Rightarrow> (nat \<Rightarrow> dispatch_env) \<Rightarrow> nat \<Rightarrow> nat \<Rightarrow>
     ('t, 's) protocolservice_context \<Rightarrow> (status \<times> ('t, 's) protocolservice_context) option" where
  "protocol_fiber_loop ps ops vc wait envs k i ctx =
     (if ps_quiesce ctx \<or> shutdown (ps_fibers ctx ! i) \<or> req_shutdown (ps_fibers ctx ! i) then Some (AGENTD_STATUS_SUCCESS, ctx) else
      case protocolservice_protocol_read_decode_and_dispatch_packet ps ops vc (wait k) (envs k) i ctx of
        None \<Rightarrow> None
      | Some (retval, ctx) \<Rightarrow>
      if retval \<noteq> AGENTD_STATUS_SUCCESS then Some (retval, ctx) else protocol_fiber_loop ps ops vc wait envs (k + 1) i ctx)"

text \<open>
  The results of the calls of the whole fiber: its waits for random bytes, for the data
  endpoint and for the notification endpoint, and the environments of its steps.
\<close>

record ('t, 's) fiber_env =
  random_wait :: "('t, 's) protocolservice_context \<Rightarrow> (status + bytes) \<times> ('t, 's) protocolservice_context"
  context_wait :: "('t, 's) protocolservice_context \<Rightarrow> status \<times> ('t, 's) protocolservice_context"
  request_wait :: "nat \<Rightarrow> ('t, 's) message_wait"
  hs_env :: handshake_env
  context_env :: send_env
  context_reply_st :: status
  writer_env :: endpoint_add_env
  request_envs :: "nat \<Rightarrow> dispatch_env"
  shutdown_env :: send_env
  release_env :: fiber_release_env

definition protocolservice_protocol_fiber_entry ::
  "'s authed_psock_ops \<Rightarrow> 't resource_tree_ops \<Rightarrow> vccrypt_handshake \<Rightarrow> vcblockchain \<Rightarrow> ('t, 's) fiber_env \<Rightarrow> nat \<Rightarrow>
     ('t, 's) protocolservice_context \<Rightarrow> (status \<times> ('t, 's) protocolservice_context) option" where
  "protocolservice_protocol_fiber_entry ps ops cr vc env i ctx =
     (let cleanup_context = (\<lambda>retval ctx.
            case protocolservice_protocol_fiber_context_release ops (context_wait env) (release_env env) i ctx of (release_retval, ctx) \<Rightarrow>
            Some (released release_retval retval, ctx)) in
      case protocolservice_protocol_handle_handshake ops cr ps (random_wait env) (hs_env env) i ctx of
        None \<Rightarrow> None
      | Some (retval, ctx) \<Rightarrow>
      if retval \<noteq> AGENTD_STATUS_SUCCESS then cleanup_context retval ctx else
      case protocolservice_protocol_request_data_service_context ops (context_wait env) (context_env env) (context_reply_st env) i ctx of (retval, ctx) \<Rightarrow>
      if retval \<noteq> AGENTD_STATUS_SUCCESS then cleanup_context retval ctx else
      case protocolservice_protocol_write_endpoint_add ops (context_wait env) (release_env env) (writer_env env) i ctx of (retval, ctx) \<Rightarrow>
      if retval \<noteq> AGENTD_STATUS_SUCCESS then cleanup_context retval ctx else
      case protocol_fiber_loop ps ops vc (request_wait env) (request_envs env) 0 i ctx of
        None \<Rightarrow> None
      | Some (retval, ctx) \<Rightarrow>
      case protocolservice_protocol_shutdown_write_endpoint (shutdown_env env) i ctx of (release_retval, ctx) \<Rightarrow>
      cleanup_context (released release_retval retval) ctx)"

end
