(* ===== verification/Proto_Connection_Correct.thy ===== *)
theory Proto_Connection_Correct
  imports Proto_Connection
begin

text \<open>
  Properties of a connection: the writer never uses an initialization vector twice, and
  requests between clients are answered to the client that asked, once.
\<close>

subsection \<open>Initialization vectors\<close>

text \<open>A socket that also records the vector and the key of every authenticated packet written to it.\<close>

definition logged_psock :: "'s authed_psock_ops \<Rightarrow> ('s \<times> (64 word \<times> bytes) list) authed_psock_ops" where
  "logged_psock ps =
     \<lparr> psock_write_boxed_data = (\<lambda>b (s, log). case psock_write_boxed_data ps b s of (st, s) \<Rightarrow> (st, s, log)),
       psock_read_boxed_data = (\<lambda>(s, log). case psock_read_boxed_data ps s of (r, s) \<Rightarrow> (r, s, log)),
       rcpr_allocator_reclaim = (\<lambda>(s, log). case rcpr_allocator_reclaim ps s of (st, s) \<Rightarrow> (st, s, log)),
       psock_write_authed_data = (\<lambda>iv b key (s, log). case psock_write_authed_data ps iv b key s of (st, s) \<Rightarrow> (st, s, log @ [(iv, key)])),
       psock_read_authed_data = (\<lambda>iv key (s, log). case psock_read_authed_data ps iv key s of (r, s) \<Rightarrow> (r, s, log)) \<rparr>"

abbreviation iv_log :: "('t, 's \<times> (64 word \<times> bytes) list) protocolservice_protocol_fiber_context \<Rightarrow> (64 word \<times> bytes) list" where
  "iv_log f \<equiv> snd (protosock f)"

text \<open>A handler writes at most one packet, under the vector of the context, which it then advances.\<close>

definition one_packet ::
  "('t, 's \<times> (64 word \<times> bytes) list) protocolservice_protocol_fiber_context \<Rightarrow>
   ('t, 's \<times> (64 word \<times> bytes) list) protocolservice_protocol_fiber_context \<Rightarrow> bool" where
  "one_packet f f' \<longleftrightarrow> shared_secret f' = shared_secret f \<and>
     (iv_log f' = iv_log f \<and> server_iv f' = server_iv f \<or>
      iv_log f' = iv_log f @ [(server_iv f, shared_secret f)] \<and> server_iv f' = server_iv f + 1)"

lemma one_packet_refl [simp]: "one_packet f f"
  by (simp add: one_packet_def)

lemma write_raw_packet_one:
  "protocolservice_protocol_write_endpoint_write_raw_packet (logged_psock ps) b f = (st, f') \<Longrightarrow> one_packet f f'"
  "protocolservice_protocol_write_endpoint_write_packet (logged_psock ps) m f = (st, f') \<Longrightarrow> one_packet f f'"
  by (auto simp: protocolservice_protocol_write_endpoint_write_raw_packet_def protocolservice_protocol_write_endpoint_write_packet_def
      logged_psock_def one_packet_def split: prod.splits)

lemma write_encoded_one: "write_encoded (logged_psock ps) r f = (st, f') \<Longrightarrow> one_packet f f'"
  by (auto simp: write_encoded_def dest: write_raw_packet_one split: sum.splits)

lemmas pwe_handlers =
  protocolservice_pwe_dnd_dataservice_block_id_latest_get_def protocolservice_pwe_dnd_dataservice_block_id_by_height_get_def
  protocolservice_pwe_dnd_dataservice_transaction_submit_def protocolservice_pwe_dnd_dataservice_block_get_def
  protocolservice_pwe_dnd_dataservice_transaction_get_def protocolservice_pwe_dnd_dataservice_artifact_get_def

lemma pwe_dataservice_one:
  "protocolservice_pwe_dnd_dataservice_block_id_latest_get vc (logged_psock ps) m f = (st, f') \<Longrightarrow> one_packet f f'"
  "protocolservice_pwe_dnd_dataservice_block_id_by_height_get vc (logged_psock ps) m f = (st, f') \<Longrightarrow> one_packet f f'"
  "protocolservice_pwe_dnd_dataservice_transaction_submit vc (logged_psock ps) m f = (st, f') \<Longrightarrow> one_packet f f'"
  "protocolservice_pwe_dnd_dataservice_block_get vc (logged_psock ps) m f = (st, f') \<Longrightarrow> one_packet f f'"
  "protocolservice_pwe_dnd_dataservice_transaction_get vc (logged_psock ps) m f = (st, f') \<Longrightarrow> one_packet f f'"
  "protocolservice_pwe_dnd_dataservice_artifact_get vc (logged_psock ps) m f = (st, f') \<Longrightarrow> one_packet f f'"
  unfolding pwe_handlers by (auto dest: write_encoded_one split: sum.splits prod.splits option.splits)

lemma pwe_notification_one:
  "protocolservice_pwe_dnd_notificationservice_message vc (logged_psock ps) m f = (st, f') \<Longrightarrow> one_packet f f'"
  by (auto simp: protocolservice_pwe_dnd_notificationservice_message_def one_packet_def dest: write_raw_packet_one [unfolded one_packet_def]
      split: sum.splits prod.splits if_splits)

lemma dispatch_one_packet:
  assumes "protocolservice_protocol_write_endpoint_decode_and_dispatch vc (logged_psock ps) m f = Some (st, f')"
  shows "one_packet f f'"
  using assms
  by (auto simp: protocolservice_protocol_write_endpoint_decode_and_dispatch_def protocolservice_pwe_dnd_dataservice_message_def Let_def
      dest: write_raw_packet_one pwe_dataservice_one pwe_notification_one split: if_splits) (simp add: one_packet_def)

definition vectors :: "64 word \<Rightarrow> bytes \<Rightarrow> nat \<Rightarrow> (64 word \<times> bytes) list" where
  "vectors iv key n = map (\<lambda>j. (iv + of_nat j, key)) [0..<n]"

lemma vectors_0 [simp]: "vectors iv key 0 = []"
  by (simp add: vectors_def)

lemma vectors_Suc: "vectors iv key (Suc n) = (iv, key) # vectors (iv + 1) key n"
  by (simp add: vectors_def upt_conv_Cons map_Suc_upt [symmetric] del: upt_Suc)

lemma distinct_vectors: "n \<le> 2 ^ 64 \<Longrightarrow> distinct (vectors iv key n)"
  by (auto simp: vectors_def distinct_map inj_on_def word_of_nat_eq_iff take_bit_nat_eq_self)

text \<open>Two contexts that agree on what the writer of a connection uses.\<close>

definition same_stream ::
  "('t, 's \<times> (64 word \<times> bytes) list) protocolservice_protocol_fiber_context \<Rightarrow>
   ('t, 's \<times> (64 word \<times> bytes) list) protocolservice_protocol_fiber_context \<Rightarrow> bool" where
  "same_stream f f' \<longleftrightarrow> shared_secret f' = shared_secret f \<and> iv_log f' = iv_log f \<and> server_iv f' = server_iv f"

definition stream_extended ::
  "('t, 's \<times> (64 word \<times> bytes) list) protocolservice_protocol_fiber_context \<Rightarrow> nat \<Rightarrow>
   ('t, 's \<times> (64 word \<times> bytes) list) protocolservice_protocol_fiber_context \<Rightarrow> bool" where
  "stream_extended f n f' \<longleftrightarrow> iv_log f' = iv_log f @ vectors (server_iv f) (shared_secret f) n \<and>
     server_iv f' = server_iv f + of_nat n \<and> shared_secret f' = shared_secret f"

lemma stream_extended_step:
  assumes "same_stream f g" and "one_packet g h" and "stream_extended h n k"
  shows "\<exists>n. stream_extended f n k"
  using assms by (auto simp: same_stream_def one_packet_def stream_extended_def)
    (metis append_assoc append_Cons append_Nil vectors_Suc add.assoc of_nat_Suc)+

lemma write_loop_stream:
  assumes "write_endpoint_loop vc (logged_psock ps) recv free k i ctx = Some r" and "i < length (ps_fibers ctx)"
    and "\<And>k c. length (ps_fibers (snd (recv k c))) = length (ps_fibers c) \<and> same_stream (ps_fibers c ! i) (ps_fibers (snd (recv k c)) ! i)"
  shows "\<exists>n. stream_extended (ps_fibers ctx ! i) n (ps_fibers (snd r) ! i)"
  using assms
proof (induction vc "logged_psock ps" recv free k i ctx r rule: write_endpoint_loop.raw_induct [rotated, consumes 1])
  case (1 loop vc recv free k i ctx r)
  have stop: "stream_extended f 0 g" if "same_stream f g" for f g :: "('a, 'b \<times> (64 word \<times> bytes) list) protocolservice_protocol_fiber_context"
    using that by (simp add: same_stream_def stream_extended_def)
  show ?case
  proof (cases "ps_quiesce ctx \<or> shutdown (ps_fibers ctx ! i)")
    case True
    then show ?thesis using 1(2) stop [of "ps_fibers ctx ! i" "ps_fibers ctx ! i"] by (auto simp: same_stream_def)
  next
    case False
    note body = 1(2) [unfolded if_not_P [OF False]]
    obtain v c where recv: "recv k ctx = (v, c)" by fastforce
    have kept: "length (ps_fibers c) = length (ps_fibers ctx)" "same_stream (ps_fibers ctx ! i) (ps_fibers c ! i)"
      using 1(4) [of k ctx] recv by auto
    show ?thesis
    proof (cases v)
      case (Inl st)
      then show ?thesis using body recv stop [OF kept(2)] by auto
    next
      case (Inr m)
      then obtain st f where d: "protocolservice_protocol_write_endpoint_decode_and_dispatch vc (logged_psock ps) m (ps_fibers c ! i) = Some (st, f)"
        using body recv by (auto split: option.splits)
      let ?c = "set_fiber i f c"
      have i: "i < length (ps_fibers c)" using kept 1(3) by simp
      have "\<exists>n. stream_extended f n (ps_fibers (snd r) ! i)"
        using body recv Inr d i stop [of f f] 1(1) [of vc recv free "k + 1" i ?c r] 1(4)
        by (auto simp: Let_def set_fiber_def same_stream_def split: if_splits)
      then show ?thesis using stream_extended_step kept dispatch_one_packet [OF d] by blast
    qed
  qed
qed

text \<open>
  C21. Over the whole life of the loop that writes to a client, the packets are encrypted
  under consecutive initialization vectors, starting at the one the context holds, all under
  the session key; so no vector is used twice under that key until 2^64 packets have been written.
  Receiving a message lets other fibers run, which leave the stream of this connection alone.
\<close>

theorem server_vectors_fresh:
  assumes "write_endpoint_loop vc (logged_psock ps) recv free 0 i ctx = Some (st, ctx')"
    and "i < length (ps_fibers ctx)"
    and "\<And>k c. length (ps_fibers (snd (recv k c))) = length (ps_fibers c) \<and> same_stream (ps_fibers c ! i) (ps_fibers (snd (recv k c)) ! i)"
  shows "\<exists>used. iv_log (ps_fibers ctx' ! i) = iv_log (ps_fibers ctx ! i) @ used \<and>
           used = vectors (server_iv (ps_fibers ctx ! i)) (shared_secret (ps_fibers ctx ! i)) (length used) \<and>
           (length used \<le> 2 ^ 64 \<longrightarrow> distinct used)"
proof -
  obtain n where n: "stream_extended (ps_fibers ctx ! i) n (ps_fibers ctx' ! i)"
    using write_loop_stream [OF assms] by auto
  have "length (vectors iv key n) = n" for iv key by (simp add: vectors_def)
  then show ?thesis using n distinct_vectors by (auto simp: stream_extended_def)
qed

text \<open>A connection whose writer is handed two packets and then fails to receive.\<close>

definition idle_psock :: "unit authed_psock_ops" where
  "idle_psock = \<lparr> psock_write_boxed_data = (\<lambda>b s. (0, s)), psock_read_boxed_data = (\<lambda>s. (Inl 1, s)), rcpr_allocator_reclaim = (\<lambda>s. (0, s)),
     psock_write_authed_data = (\<lambda>iv b key s. (0, s)), psock_read_authed_data = (\<lambda>iv key s. (Inl 1, s)) \<rparr>"

definition two_packets ::
  "nat \<Rightarrow> ('t, 's) protocolservice_context \<Rightarrow> (status + protocolservice_protocol_write_endpoint_message) \<times> ('t, 's) protocolservice_context" where
  "two_packets k c = (if k < 2 then Inr \<lparr> pwe_message_type = PROTOCOLSERVICE_PROTOCOL_WRITE_ENDPOINT_PACKET,
       pwe_original_request_id = 0, pwe_offset = 0, pwe_payload = [1, 2, 3] \<rparr> else Inl 5, c)"

definition logged_fiber :: "((bytes, ps_resource) rbt, unit \<times> (64 word \<times> bytes) list) protocolservice_protocol_fiber_context" where
  "logged_fiber = \<lparr> reference_count = 2, req_shutdown = False, shutdown = False, extended_api_enabled = False, extended_api_can_respond = False,
     protosock = ((), []), client_key_nonce = [], client_challenge_nonce = [], server_key_nonce = [], server_challenge_nonce = [],
     shared_secret = [7, 7], client_iv = 1, server_iv = 0x8000000000000001, fiber_entity_uuid = replicate 16 7, return_addr = 40, fiber_addr = 41,
     fiber_entity = Some 0, dataservice_context_opened = False, latest_block_id_assertion_set = False,
     latest_block_id_assertion_client_offset = 0, latest_block_id_assertion_server_offset = 0, extended_api_offset = 0,
     extended_api_offset_dict = RBT.empty \<rparr>"

definition logged_ctx :: "((bytes, ps_resource) rbt, unit \<times> (64 word \<times> bytes) list) protocolservice_context" where
  "logged_ctx = \<lparr> data_endpoint_addr = 1, random_endpoint_addr = 2, notificationservice_endpoint_addr = 3, authorized_entity_dict = RBT.empty,
     ps_entities = [], extended_api_dict = RBT.empty, agentd_uuid = [], agentd_enc_pubkey = [], agentd_enc_privkey = [], agentd_sign_pubkey = [],
     agentd_sign_privkey = [], private_key_set = False, ps_quiesce = False, ps_terminate = False, ps_fibers = [logged_fiber], ps_messages = [] \<rparr>"

lemma two_packets_written:
  "write_endpoint_loop vc (logged_psock idle_psock) two_packets (\<lambda>_. 0) 0 0 logged_ctx =
     Some (5, set_fiber 0 (logged_fiber\<lparr>server_iv := 0x8000000000000003, protosock := ((), [(0x8000000000000001, [7, 7]), (0x8000000000000002, [7, 7])])\<rparr>) logged_ctx)"
proof -
  let ?loop = "write_endpoint_loop vc (logged_psock idle_psock) two_packets (\<lambda>_. 0)"
  have go: "?loop k 0 c = ?loop (k + 1) 0 (set_fiber 0 (f\<lparr>protosock := ((), log @ [(server_iv f, shared_secret f)]), server_iv := server_iv f + 1\<rparr>) c)"
    if "protosock f = ((), log)" "k < 2" "\<not> ps_quiesce c" "\<not> shutdown f" "ps_fibers c ! 0 = f" for k f c log
    using that by (subst write_endpoint_loop.simps) (simp add: two_packets_def protocolservice_protocol_write_endpoint_decode_and_dispatch_def
        protocolservice_protocol_write_endpoint_write_packet_def logged_psock_def idle_psock_def)
  have stop: "?loop 2 0 c = Some (5, c)" if "\<not> ps_quiesce c" "\<not> shutdown (ps_fibers c ! 0)" for c
    using that by (subst write_endpoint_loop.simps) (simp add: two_packets_def)
  let ?f1 = "logged_fiber\<lparr>protosock := ((), [(0x8000000000000001, [7, 7])]), server_iv := 0x8000000000000002\<rparr>"
  let ?f2 = "logged_fiber\<lparr>server_iv := 0x8000000000000003, protosock := ((), [(0x8000000000000001, [7, 7]), (0x8000000000000002, [7, 7])])\<rparr>"
  have "?loop 0 0 logged_ctx = ?loop 1 0 (set_fiber 0 ?f1 logged_ctx)"
    using go [of logged_fiber "[]" 0 logged_ctx] by (simp add: logged_ctx_def logged_fiber_def)
  also have "\<dots> = ?loop 2 0 (set_fiber 0 ?f2 logged_ctx)"
    using go [of ?f1 "[(0x8000000000000001, [7, 7])]" 1 "set_fiber 0 ?f1 logged_ctx"] by (simp add: logged_ctx_def logged_fiber_def set_fiber_def numeral_2_eq_2)
  also have "\<dots> = Some (5, set_fiber 0 ?f2 logged_ctx)"
    by (rule stop) (simp_all add: logged_ctx_def logged_fiber_def set_fiber_def)
  finally show ?thesis .
qed

theorem server_vectors_fresh_witness:
  "\<exists>used. [(0x8000000000000001, [7, 7]), (0x8000000000000002, [7, 7])] = used \<and>
     used = vectors 0x8000000000000001 [7, 7] (length used) \<and> distinct used"
proof -
  have "iv_log (ps_fibers logged_ctx ! 0) = []" "server_iv (ps_fibers logged_ctx ! 0) = 0x8000000000000001"
    "shared_secret (ps_fibers logged_ctx ! 0) = [7, 7]" "0 < length (ps_fibers logged_ctx)"
    by (simp_all add: logged_ctx_def logged_fiber_def)
  then show ?thesis
    using server_vectors_fresh [OF two_packets_written]
    by (simp add: two_packets_def same_stream_def logged_ctx_def set_fiber_def)
      (simp add: vectors_def)
qed

subsection \<open>Requests between clients\<close>

abbreviation packet_to :: "64 word \<Rightarrow> 64 word \<Rightarrow> bytes \<Rightarrow> ps_message" where
  "packet_to to ret packet \<equiv> \<lparr> msg_to = to, msg_return = ret, msg_payload =
     Write_endpoint \<lparr> pwe_message_type = PROTOCOLSERVICE_PROTOCOL_WRITE_ENDPOINT_PACKET, pwe_original_request_id = 0,
                      pwe_offset = 0, pwe_payload = packet \<rparr> \<rparr>"

lemma send_message_result:
  "send_message env to ret p ctx = (st, ctx') \<Longrightarrow>
     ctx' = (if st = AGENTD_STATUS_SUCCESS then ctx\<lparr>ps_messages := ps_messages ctx @ [\<lparr> msg_to = to, msg_return = ret, msg_payload = p \<rparr>]\<rparr> else ctx)"
  by (auto simp: send_message_def released_def split: if_splits)

lemma error_response_result:
  "protocolservice_send_error_response_message env i req st offset ctx = (AGENTD_STATUS_SUCCESS, ctx') \<Longrightarrow>
     ctx' = ctx\<lparr>ps_messages := ps_messages ctx @
       [packet_to (return_addr (ps_fibers ctx ! i)) (return_addr (ps_fibers ctx ! i)) (net32 req @ net32 st @ net32 offset)]\<rparr>"
  by (auto simp: protocolservice_send_error_response_message_def Let_def released_def dest: send_message_result split: if_splits)

text \<open>An encoder that fails says so: its status is not that of success.\<close>

definition encoders_honest :: "vcblockchain \<Rightarrow> bool" where
  "encoders_honest vc \<longleftrightarrow> (\<forall>o1 st b. encode_resp_extended_api vc o1 st b \<noteq> Inl AGENTD_STATUS_SUCCESS) \<and>
     (\<forall>o1 e v k1 k2 b. encode_resp_extended_api_client_request vc o1 e v k1 k2 b \<noteq> Inl AGENTD_STATUS_SUCCESS)"

context resource_tree
begin

lemma request_pending:
  assumes "encoders_honest vc"
    and "protocolservice_protocol_extended_api_send_req ops vc env i req_offset verb entity body ctx = Some (AGENTD_STATUS_SUCCESS, ctx')"
    and "lookup (extended_api_dict ctx) entity = Some (Api_entry e j)" and "extended_api_can_respond (ps_fibers ctx ! j)" and "j < length (ps_fibers ctx)"
  defines "offset \<equiv> extended_api_offset (ps_fibers ctx ! j) + 1"
  shows "lookup (extended_api_offset_dict (ps_fibers ctx' ! j)) (mem64 offset) = Some (Xlat_entry offset req_offset (return_addr (ps_fibers ctx ! i)))"
    and "\<exists>packet. ps_messages ctx' = ps_messages ctx @ [packet_to (return_addr (ps_fibers ctx ! j)) (return_addr (ps_fibers ctx ! i)) packet]"
    and "return_addr (ps_fibers ctx' ! j) = return_addr (ps_fibers ctx ! j)"
    and "length (ps_fibers ctx') = length (ps_fibers ctx)"
proof -
  have r: "return_addr ((ps_fibers ctx)[j := (ps_fibers ctx ! j)\<lparr>extended_api_offset := x\<rparr>] ! i) = return_addr (ps_fibers ctx ! i)" for x
    using assms(5) by (cases "i = j") auto
  show "lookup (extended_api_offset_dict (ps_fibers ctx' ! j)) (mem64 offset) = Some (Xlat_entry offset req_offset (return_addr (ps_fibers ctx ! i)))"
    using assms
    by (auto simp: encoders_honest_def protocolservice_protocol_extended_api_send_req_def with_capability_def Let_def find_law r set_fiber_def
        protocolservice_protocol_create_extended_api_clientreq_payload_def protocolservice_extended_api_response_xlat_entry_add_def
        protocolservice_extended_api_response_xlat_entry_key_def released_def
        dest!: send_message_result insert_law split: option.splits sum.splits prod.splits if_splits)
  show "\<exists>packet. ps_messages ctx' = ps_messages ctx @ [packet_to (return_addr (ps_fibers ctx ! j)) (return_addr (ps_fibers ctx ! i)) packet]"
    using assms
    by (auto simp: encoders_honest_def protocolservice_protocol_extended_api_send_req_def with_capability_def Let_def find_law r set_fiber_def
        protocolservice_protocol_create_extended_api_clientreq_payload_def protocolservice_extended_api_response_xlat_entry_add_def
        protocolservice_extended_api_response_xlat_entry_key_def released_def
        dest!: send_message_result insert_law split: option.splits sum.splits prod.splits if_splits)
  show "return_addr (ps_fibers ctx' ! j) = return_addr (ps_fibers ctx ! j)"
    using assms
    by (auto simp: encoders_honest_def protocolservice_protocol_extended_api_send_req_def with_capability_def Let_def find_law r set_fiber_def
        protocolservice_protocol_create_extended_api_clientreq_payload_def protocolservice_extended_api_response_xlat_entry_add_def
        protocolservice_extended_api_response_xlat_entry_key_def released_def
        dest!: send_message_result insert_law split: option.splits sum.splits prod.splits if_splits)
  show "length (ps_fibers ctx') = length (ps_fibers ctx)"
    using assms
    by (auto simp: encoders_honest_def protocolservice_protocol_extended_api_send_req_def with_capability_def Let_def find_law r set_fiber_def
        protocolservice_protocol_create_extended_api_clientreq_payload_def protocolservice_extended_api_response_xlat_entry_add_def
        protocolservice_extended_api_response_xlat_entry_key_def released_def
        dest!: send_message_result insert_law split: option.splits sum.splits prod.splits if_splits)
qed

lemma response_answers:
  assumes "encoders_honest vc"
    and "protocolservice_protocol_dnd_extended_api_sendresp ops vc env j payload ctx = Some (AGENTD_STATUS_SUCCESS, ctx')"
    and "decode_req_extended_api_response vc payload = Inr (offset, st, body)" and "j < length (ps_fibers ctx)"
    and "lookup (extended_api_offset_dict (ps_fibers ctx ! j)) (mem64 offset) = Some (Xlat_entry so client_offset addr)"
  shows "\<exists>packet. encode_resp_extended_api vc client_offset st body = Inr packet \<and>
           ps_messages ctx' = ps_messages ctx @ [packet_to addr (return_addr (ps_fibers ctx ! j)) packet,
             packet_to (return_addr (ps_fibers ctx ! j)) (return_addr (ps_fibers ctx ! j))
               (net32 UNAUTH_PROTOCOL_REQ_ID_EXTENDED_API_SENDRESP @ net32 AGENTD_STATUS_SUCCESS @ net32 (ucast offset))]"
    and "lookup (extended_api_offset_dict (ps_fibers ctx' ! j)) (mem64 offset) = None"
    and "\<exists>n. fiber_entity (ps_fibers ctx' ! j) = Some n"
proof -
  have f: "tree_find ops (mem64 offset) (extended_api_offset_dict (ps_fibers ctx ! j)) = Inr (Xlat_entry so client_offset addr)"
    using assms(5) by (simp add: find_law)
  obtain packet c dict where steps: "encode_resp_extended_api vc client_offset st body = Inr packet"
    "send_message (request_env env) addr (return_addr (ps_fibers ctx ! j)) (Write_endpoint \<lparr> pwe_message_type = PROTOCOLSERVICE_PROTOCOL_WRITE_ENDPOINT_PACKET,
       pwe_original_request_id = 0, pwe_offset = 0, pwe_payload = packet \<rparr>) ctx = (AGENTD_STATUS_SUCCESS, c)"
    "tree_delete ops (mem64 offset) (extended_api_offset_dict (ps_fibers c ! j)) = (AGENTD_STATUS_SUCCESS, dict)"
    "protocolservice_send_error_response_message (response_env env) j UNAUTH_PROTOCOL_REQ_ID_EXTENDED_API_SENDRESP AGENTD_STATUS_SUCCESS (ucast offset)
       (set_fiber j ((ps_fibers c ! j)\<lparr>extended_api_offset_dict := dict\<rparr>) c) = (AGENTD_STATUS_SUCCESS, ctx')"
    using assms(1-3) f
    by (auto simp: encoders_honest_def protocolservice_protocol_dnd_extended_api_sendresp_def with_capability_def Let_def released_def
        split: option.splits sum.splits prod.splits if_splits)
  note send = send_message_result [OF steps(2)]
  show "\<exists>packet. encode_resp_extended_api vc client_offset st body = Inr packet \<and>
           ps_messages ctx' = ps_messages ctx @ [packet_to addr (return_addr (ps_fibers ctx ! j)) packet,
             packet_to (return_addr (ps_fibers ctx ! j)) (return_addr (ps_fibers ctx ! j))
               (net32 UNAUTH_PROTOCOL_REQ_ID_EXTENDED_API_SENDRESP @ net32 AGENTD_STATUS_SUCCESS @ net32 (ucast offset))]"
    using steps(1) send error_response_result [OF steps(4)] assms(4) by (simp add: set_fiber_def)
  show "lookup (extended_api_offset_dict (ps_fibers ctx' ! j)) (mem64 offset) = None"
    using send error_response_result [OF steps(4)] assms(4) delete_law [OF steps(3)] by (simp add: set_fiber_def)
  show "\<exists>n. fiber_entity (ps_fibers ctx' ! j) = Some n"
    using send error_response_result [OF steps(4)] assms(2,4)
    by (auto simp: set_fiber_def protocolservice_protocol_dnd_extended_api_sendresp_def with_capability_def split: option.splits)
qed

lemma response_refused:
  assumes "decode_req_extended_api_response vc payload = Inr (offset, st, body)"
    and "lookup (extended_api_offset_dict (ps_fibers ctx ! j)) (mem64 offset) = None" and "fiber_entity (ps_fibers ctx ! j) = Some n"
  shows "\<exists>st. protocolservice_protocol_dnd_extended_api_sendresp ops vc env j payload ctx = Some (st, ctx)"
proof -
  obtain e where "tree_find ops (mem64 offset) (extended_api_offset_dict (ps_fibers ctx ! j)) = Inl e"
    using assms(2) by (rule_tac find_cases [of "mem64 offset" "extended_api_offset_dict (ps_fibers ctx ! j)"]) auto
  then show ?thesis using assms(1,3)
    by (simp add: protocolservice_protocol_dnd_extended_api_sendresp_def with_capability_def Let_def)
qed

end

text \<open>Two clients: the second offers an operation that the first may call.\<close>

definition sample_vc :: vcblockchain where
  "sample_vc = \<lparr> decode_req_transaction_submit = (\<lambda>_. Inl 1), decode_req_block_get = (\<lambda>_. Inl 1), decode_req_block_next_id_get = (\<lambda>_. Inl 1),
     decode_req_block_prev_id_get = (\<lambda>_. Inl 1), decode_req_txn_get = (\<lambda>_. Inl 1), decode_req_txn_next_id_get = (\<lambda>_. Inl 1),
     decode_req_txn_prev_id_get = (\<lambda>_. Inl 1), decode_req_txn_block_id_get = (\<lambda>_. Inl 1), decode_req_artifact_first_txn_id_get = (\<lambda>_. Inl 1),
     decode_req_artifact_last_txn_id_get = (\<lambda>_. Inl 1), decode_req_block_id_by_height_get = (\<lambda>_. Inl 1),
     decode_req_assert_latest_block_id = (\<lambda>_. Inl 1), decode_req_assert_latest_block_id_cancel = (\<lambda>_. Inl 1),
     decode_req_extended_api_enable = (\<lambda>_. Inl 1), decode_req_extended_api = (\<lambda>_. Inl 1),
     decode_req_extended_api_response = (\<lambda>b. Inr (1, 0, b)), decode_req_status_get = (\<lambda>_. Inl 1),
     encode_resp_extended_api = (\<lambda>client_offset st b. Inr (net32 client_offset @ net32 st @ b)),
     encode_resp_extended_api_client_request = (\<lambda>server_offset e v k1 k2 b. Inr (net64 server_offset @ b)) \<rparr>"

definition sample_capability :: "bytes \<Rightarrow> bytes \<Rightarrow> bytes \<Rightarrow> (bytes, ps_resource) rbt" where
  "sample_capability s v obj = (let k = capability_bytes \<lparr> subject_id = s, verb_id = v, object_id = obj \<rparr> in RBT.insert k (Capability_key k) RBT.empty)"

definition switchboard :: "((bytes, ps_resource) rbt, unit \<times> (64 word \<times> bytes) list) protocolservice_context" where
  "switchboard = logged_ctx\<lparr>agentd_uuid := replicate 16 9,
     ps_entities :=
       [\<lparr> entity_uuid = replicate 16 7, encryption_pubkey = [1], signing_pubkey = [2],
          capabilities = sample_capability (replicate 16 7) (replicate 16 3) (replicate 16 8) \<rparr>,
        \<lparr> entity_uuid = replicate 16 8, encryption_pubkey = [3], signing_pubkey = [4],
          capabilities = sample_capability (replicate 16 8) PROTOCOLSERVICE_API_CAPABILITY_EXTENDED_API_RESP (replicate 16 9) \<rparr>],
     extended_api_dict := RBT.insert (replicate 16 8) (Api_entry (replicate 16 8) 1) RBT.empty,
     ps_fibers := [logged_fiber,
       logged_fiber\<lparr>return_addr := 50, fiber_entity := Some 1, fiber_entity_uuid := replicate 16 8, extended_api_can_respond := True\<rparr>]\<rparr>"

definition dispatch_ok :: dispatch_env where
  "dispatch_ok = (let e = \<lparr> encode_st = 0, payload_st = 0, message_st = 0, send_st = 0, release_st = 0 \<rparr> in
     \<lparr> encode_req_st = 0, request_env = e, response_env = e, error_env = e, entry_st = 0, entry_free_st = 0, reply_free_st = 0, packet_free_st = 0 \<rparr>)"

end
