(* ===== verification/Proto_Typed.thy ===== *)
theory Proto_Typed
  imports Proto_Connection_Correct
begin

text \<open>
  Type safety of the protocol service.  The trees of the process runtime library hold
  untyped pointers, and a handler casts what it finds to the structure it expects.  Here:
  the trees of a context hold only what their readers expect, so that serving a packet,
  whatever it contains, has no undefined behaviour.
\<close>

definition fiber_typed :: "('t \<Rightarrow> bytes \<rightharpoonup> ps_resource) \<Rightarrow> nat \<Rightarrow> ('t, 's) protocolservice_protocol_fiber_context \<Rightarrow> bool" where
  "fiber_typed lookup entities f \<longleftrightarrow>
     (\<forall>k r. lookup (extended_api_offset_dict f) k = Some r \<longrightarrow> (\<exists>so client_offset addr. r = Xlat_entry so client_offset addr \<and> k = mem64 so)) \<and>
     (\<forall>n. fiber_entity f = Some n \<longrightarrow> n < entities)"

definition ps_typed :: "('t \<Rightarrow> bytes \<rightharpoonup> ps_resource) \<Rightarrow> ('t, 's) protocolservice_context \<Rightarrow> bool" where
  "ps_typed lookup ctx \<longleftrightarrow>
     (\<forall>k r. lookup (extended_api_dict ctx) k = Some r \<longrightarrow> (\<exists>j < length (ps_fibers ctx). r = Api_entry k j)) \<and>
     (\<forall>f \<in> set (ps_fibers ctx). fiber_typed lookup (length (ps_entities ctx)) f)"

text \<open>Connection \<open>i\<close> has done its handshake.\<close>

definition ready :: "('t \<Rightarrow> bytes \<rightharpoonup> ps_resource) \<Rightarrow> nat \<Rightarrow> ('t, 's) protocolservice_context \<Rightarrow> bool" where
  "ready lookup i ctx \<longleftrightarrow> ps_typed lookup ctx \<and> i < length (ps_fibers ctx) \<and> fiber_entity (ps_fibers ctx ! i) \<noteq> None"

text \<open>The same, with a bound on what is left to read on the socket of the connection, counted by \<open>left\<close>.\<close>

definition ready_left :: "('t \<Rightarrow> bytes \<rightharpoonup> ps_resource) \<Rightarrow> ('s \<Rightarrow> nat) \<Rightarrow> nat \<Rightarrow> nat \<Rightarrow> ('t, 's) protocolservice_context \<Rightarrow> bool" where
  "ready_left lookup left m i ctx \<longleftrightarrow> ready lookup i ctx \<and> left (protosock (ps_fibers ctx ! i)) \<le> m"

definition served_left :: "('t \<Rightarrow> bytes \<rightharpoonup> ps_resource) \<Rightarrow> ('s \<Rightarrow> nat) \<Rightarrow> nat \<Rightarrow> nat \<Rightarrow> ('t, 's) dispatch_result \<Rightarrow> bool" where
  "served_left lookup left m i r \<longleftrightarrow> (case r of None \<Rightarrow> False | Some (st, ctx) \<Rightarrow> ready_left lookup left m i ctx)"

lemma served_left_Some [simp]: "served_left lookup left m i (Some (st, ctx)) \<longleftrightarrow> ready_left lookup left m i ctx"
  by (simp add: served_left_def)

named_theorems typed

lemma ready_messages [simp]: "ready_left lookup left m i (ctx\<lparr>ps_messages := ms\<rparr>) \<longleftrightarrow> ready_left lookup left m i ctx"
  by (simp add: ready_left_def ready_def ps_typed_def)

lemma ready_send [typed]: "ready_left lookup left m i ctx \<Longrightarrow> ready_left lookup left m i (snd (send_message env to ret p ctx))"
  by (simp add: send_message_def)

lemma ready_set:
  "ready_left lookup left m i ctx \<Longrightarrow> fiber_typed lookup (length (ps_entities ctx)) f \<Longrightarrow> (fiber_entity f \<noteq> None \<and> left (protosock f) \<le> m) \<or> j \<noteq> i \<Longrightarrow> ready_left lookup left m i (set_fiber j f ctx)"
  by (cases "i = j") (auto simp: ready_left_def ready_def ps_typed_def set_fiber_def dest!: set_update_subset_insert [THEN subsetD])

lemma ready_fiber: "ready_left lookup left m i ctx \<Longrightarrow> j < length (ps_fibers ctx) \<Longrightarrow> fiber_typed lookup (length (ps_entities ctx)) (ps_fibers ctx ! j)"
  by (simp add: ready_left_def ready_def ps_typed_def)

text \<open>A change of a connection that leaves its dictionary and its entity alone.\<close>

lemma ready_field:
  assumes "ready_left lookup left m i ctx" and "j < length (ps_fibers ctx)"
    and "extended_api_offset_dict f = extended_api_offset_dict (ps_fibers ctx ! j)" and "fiber_entity f = fiber_entity (ps_fibers ctx ! j)"
    and "protosock f = protosock (ps_fibers ctx ! j)"
  shows "ready_left lookup left m i (set_fiber j f ctx)"
  using assms ready_fiber [OF assms(1,2)] by (intro ready_set) (auto simp: fiber_typed_def ready_left_def ready_def)

lemma ready_dict:
  assumes "ready_left lookup left m i ctx" and "fiber_typed lookup (length (ps_entities ctx)) ((ps_fibers ctx ! j)\<lparr>extended_api_offset_dict := dict\<rparr>)"
  shows "ready_left lookup left m i (set_fiber j ((ps_fibers ctx ! j)\<lparr>extended_api_offset_dict := dict\<rparr>) ctx)"
  using assms by (rule ready_set) (use assms(1) in \<open>auto simp: ready_left_def ready_def\<close>)

text \<open>Reading from the socket.\<close>

lemma ready_read:
  assumes "ready_left lookup left m i ctx" and "extended_api_offset_dict f = extended_api_offset_dict (ps_fibers ctx ! i)"
    and "fiber_entity f = fiber_entity (ps_fibers ctx ! i)" and "left (protosock f) \<le> n"
  shows "ready_left lookup left n i (set_fiber i f ctx)"
proof -
  have "i < length (ps_fibers ctx)" using assms(1) by (simp add: ready_left_def ready_def)
  note typed = ready_fiber [OF assms(1) this]
  have "ready_left lookup left (max m n) i ctx" using assms(1) by (auto simp: ready_left_def ready_def)
  then have "ready_left lookup left (max m n) i (set_fiber i f ctx)"
    using typed assms by (intro ready_set) (auto simp: fiber_typed_def ready_left_def ready_def)
  then show ?thesis using assms(4) \<open>i < length (ps_fibers ctx)\<close> by (simp add: ready_left_def ready_def set_fiber_def)
qed

lemma ready_index: "ready_left lookup left m i ctx \<Longrightarrow> i < length (ps_fibers ctx)"
  by (simp add: ready_left_def ready_def)

lemma ready_error [typed]: "ready_left lookup left m i ctx \<Longrightarrow> ready_left lookup left m i (snd (protocolservice_send_error_response_message env k req st offset ctx))"
  by (auto simp: protocolservice_send_error_response_message_def Let_def intro: typed)

lemma ready_send_request [typed]: "ready_left lookup left m i ctx \<Longrightarrow> ready_left lookup left m i (snd (protocolservice_dataservice_send_request env k req offset b ctx))"
  by (auto simp: protocolservice_dataservice_send_request_def intro: typed split: sum.splits)

lemma served_pair [simp]: "served_left lookup left m i (Some p) \<longleftrightarrow> ready_left lookup left m i (snd p)"
  by (cases p) simp

lemma with_capability_typed:
  "ready_left lookup left m i ctx \<Longrightarrow> served_left lookup left m i k \<Longrightarrow> served_left lookup left m i (with_capability ops i verb object ctx k)"
  by (auto simp: with_capability_def ready_left_def ready_def split: option.splits)

lemma forward_typed [typed]:
  "ready_left lookup left m i ctx \<Longrightarrow> served_left lookup left m i (forward_unchecked env i req offset (Inr b) ctx)"
  "ready_left lookup left m i ctx \<Longrightarrow> served_left lookup left m i (forward_checked env i req offset r ctx)"
  by (auto simp: forward_unchecked_def forward_checked_def intro: typed split: sum.splits)

lemmas forwarding_handlers =
  protocolservice_protocol_dnd_latest_block_id_get_def protocolservice_protocol_dnd_transaction_submit_def
  protocolservice_protocol_dnd_block_by_id_get_def protocolservice_protocol_dnd_block_id_next_get_def
  protocolservice_protocol_dnd_block_id_prev_get_def protocolservice_protocol_dnd_transaction_by_id_get_def
  protocolservice_protocol_dnd_transaction_id_next_get_def protocolservice_protocol_dnd_transaction_id_prev_get_def
  protocolservice_protocol_dnd_transaction_block_id_get_def protocolservice_protocol_dnd_artifact_first_transaction_id_get_def
  protocolservice_protocol_dnd_artifact_last_transaction_id_get_def protocolservice_protocol_dnd_block_id_by_height_get_def
  protocolservice_protocol_dnd_status_get_def

lemmas request_encoders =
  dataservice_encode_request_transaction_submit_def dataservice_encode_request_block_get_def
  dataservice_encode_request_canonized_transaction_get_def dataservice_encode_request_artifact_get_def request_buffer_def

lemma forwarding_typed:
  assumes "ready_left lookup left m i ctx" and "encode_req_st env = AGENTD_STATUS_SUCCESS"
  shows "served_left lookup left m i (protocolservice_protocol_dnd_latest_block_id_get env i offset ctx)"
    "served_left lookup left m i (protocolservice_protocol_dnd_transaction_submit vc env i offset payload ctx)"
    "served_left lookup left m i (protocolservice_protocol_dnd_block_by_id_get vc env i offset payload ctx)"
    "served_left lookup left m i (protocolservice_protocol_dnd_block_id_next_get vc env i offset payload ctx)"
    "served_left lookup left m i (protocolservice_protocol_dnd_block_id_prev_get vc env i offset payload ctx)"
    "served_left lookup left m i (protocolservice_protocol_dnd_transaction_by_id_get vc env i offset payload ctx)"
    "served_left lookup left m i (protocolservice_protocol_dnd_transaction_id_next_get vc env i offset payload ctx)"
    "served_left lookup left m i (protocolservice_protocol_dnd_transaction_id_prev_get vc env i offset payload ctx)"
    "served_left lookup left m i (protocolservice_protocol_dnd_transaction_block_id_get vc env i offset payload ctx)"
    "served_left lookup left m i (protocolservice_protocol_dnd_artifact_first_transaction_id_get vc env i offset payload ctx)"
    "served_left lookup left m i (protocolservice_protocol_dnd_artifact_last_transaction_id_get vc env i offset payload ctx)"
    "served_left lookup left m i (protocolservice_protocol_dnd_block_id_by_height_get vc env i offset payload ctx)"
    "served_left lookup left m i (protocolservice_protocol_dnd_status_get vc env i offset payload ctx)"
  using assms by (auto simp: forwarding_handlers request_encoders intro: typed split: sum.splits)

lemma close_typed: "ready_left lookup left m i ctx \<Longrightarrow> served_left lookup left m i (protocolservice_protocol_dnd_close env i offset ctx)"
  by (auto simp: protocolservice_protocol_dnd_close_def intro!: typed ready_field ready_index)

text \<open>What the other fibers do while a handler waits keeps the types and the connection, and adds nothing to what is left to read.\<close>

definition wait_left :: "('t \<Rightarrow> bytes \<rightharpoonup> ps_resource) \<Rightarrow> ('s \<Rightarrow> nat) \<Rightarrow> nat \<Rightarrow> ('t, 's) message_wait \<Rightarrow> bool" where
  "wait_left lookup left i wait \<longleftrightarrow> (\<forall>m ctx. ready_left lookup left m i ctx \<longrightarrow> ready_left lookup left m i (snd (wait ctx)))"

lemma assertion_typed:
  assumes "ready_left lookup left m i ctx" and "wait_left lookup left i wait"
  shows "served_left lookup left m i (protocolservice_protocol_dnd_assert_latest_block_id ops vc wait env i offset payload ctx)"
    "served_left lookup left m i (protocolservice_protocol_dnd_assert_latest_block_id_cancel ops vc wait env i offset payload ctx)"
proof -
  have sent: "ready_left lookup left m i c'" "ready_left lookup left m i c''"
    if "send_message e to ret p ctx = (st, c')" "wait c' = (r, c'')" for e to ret p st c' r c''
    using that assms ready_send [OF assms(1), of e to ret p] by (auto simp: wait_left_def) (metis snd_conv)
  show "served_left lookup left m i (protocolservice_protocol_dnd_assert_latest_block_id_cancel ops vc wait env i offset payload ctx)"
    using assms(1)
    by (auto simp: protocolservice_protocol_dnd_assert_latest_block_id_cancel_def protocolservice_notificationservice_handle_assert_block_cancel_request_def
        Let_def intro!: with_capability_typed intro: sent split: sum.splits prod.splits)
  have "ready_left lookup left m i (snd (protocolservice_notificationservice_handle_assert_block_request wait env i o1 b ctx))" for o1 b
    using assms(1)
    by (auto simp: protocolservice_notificationservice_handle_assert_block_request_def Let_def intro!: ready_field
        intro: sent ready_index split: sum.splits prod.splits)
  then show "served_left lookup left m i (protocolservice_protocol_dnd_assert_latest_block_id ops vc wait env i offset payload ctx)"
    using assms(1) unfolding protocolservice_protocol_dnd_assert_latest_block_id_def
    by (intro with_capability_typed) (auto simp: case_prod_beta intro!: ready_field intro: ready_index split: sum.splits)
qed

context resource_tree
begin

lemma api_entry_typed:
  assumes "ready_left lookup left m i ctx" and "tree_insert ops k (Api_entry k j) (extended_api_dict ctx) = (st, dict)" and "j < length (ps_fibers ctx)"
  shows "ready_left lookup left m i (ctx\<lparr>extended_api_dict := dict\<rparr>)"
  using assms(1,3) insert_result [OF assms(2)] by (auto simp: ready_left_def ready_def ps_typed_def split: if_splits)

lemma route_typed:
  "ready_left lookup left m i ctx \<Longrightarrow> ready_left lookup left m i (snd (protocolservice_protocol_route_extended_api_for_entity ops env i ctx))"
  by (auto simp: protocolservice_protocol_route_extended_api_for_entity_def protocolservice_extended_api_dict_entry_create_def
      protocolservice_extended_api_dict_entry_key_def Let_def intro: api_entry_typed ready_index split: sum.splits prod.splits)

lemma enable_typed:
  assumes "ready_left lookup left m i ctx"
  shows "served_left lookup left m i (protocolservice_protocol_dnd_extended_api_enable ops vc env i offset payload ctx)"
proof -
  have "ready_left lookup left m i (snd (protocolservice_protocol_route_extended_api_for_entity ops env i
          (set_fiber i ((ps_fibers ctx ! i)\<lparr>extended_api_can_respond := b\<rparr>) ctx)))" for b
    using assms by (intro route_typed ready_field ready_index) simp_all
  then show ?thesis using assms unfolding protocolservice_protocol_dnd_extended_api_enable_def Let_def
    by (intro with_capability_typed) (auto simp: case_prod_beta intro!: ready_error ready_field intro: ready_index split: sum.splits)
qed

lemma xlat_entry_typed:
  assumes "ready_left lookup left m i ctx" and "j < length (ps_fibers ctx)"
  shows "ready_left lookup left m i (snd (protocolservice_extended_api_response_xlat_entry_add ops env j so co addr ctx))"
proof -
  obtain st dict where i: "tree_insert ops (mem64 so) (Xlat_entry so co addr) (extended_api_offset_dict (ps_fibers ctx ! j)) = (st, dict)" by fastforce
  have "fiber_typed lookup (length (ps_entities ctx)) ((ps_fibers ctx ! j)\<lparr>extended_api_offset_dict := dict\<rparr>)"
    using ready_fiber [OF assms] insert_result [OF i] by (auto simp: fiber_typed_def split: if_splits)
  then have "ready_left lookup left m i (set_fiber j ((ps_fibers ctx ! j)\<lparr>extended_api_offset_dict := dict\<rparr>) ctx)"
    by (rule ready_dict [OF assms(1)])
  then show ?thesis using assms(1) i
    by (simp add: protocolservice_extended_api_response_xlat_entry_add_def protocolservice_extended_api_response_xlat_entry_key_def Let_def)
qed

lemma send_req_typed:
  assumes "ready_left lookup left m i ctx"
  shows "served_left lookup left m i (protocolservice_protocol_extended_api_send_req ops vc env i offset verb entity body ctx)"
proof (cases "tree_find ops entity (extended_api_dict ctx)")
  case (Inl st)
  then show ?thesis using assms unfolding protocolservice_protocol_extended_api_send_req_def by (intro with_capability_typed) (simp_all add: Let_def)
next
  case (Inr r)
  then obtain e j where r: "r = Api_entry e j" and j: "j < length (ps_fibers ctx)"
    using assms unfolding find_law ready_left_def ready_def ps_typed_def by blast
  let ?c = "set_fiber j ((ps_fibers ctx ! j)\<lparr>extended_api_offset := extended_api_offset (ps_fibers ctx ! j) + 1\<rparr>) ctx"
  have c: "ready_left lookup left m i ?c" using assms j by (intro ready_field) simp_all
  have x: "ready_left lookup left m i (snd (protocolservice_extended_api_response_xlat_entry_add ops env j so co addr ?c))" for so co addr
    using j by (intro xlat_entry_typed [OF c]) (simp add: set_fiber_def)
  show ?thesis using assms Inr r c x unfolding protocolservice_protocol_extended_api_send_req_def
    by (intro with_capability_typed)
      (auto simp: Let_def case_prod_beta protocolservice_protocol_create_extended_api_clientreq_payload_def intro!: ready_send ready_error split: sum.splits)
qed

lemma sendrecv_typed:
  "ready_left lookup left m i ctx \<Longrightarrow> served_left lookup left m i (protocolservice_protocol_dnd_extended_api_sendrecv ops vc env i payload ctx)"
  unfolding protocolservice_protocol_dnd_extended_api_sendrecv_def
  by (intro with_capability_typed) (auto intro: send_req_typed split: sum.splits)

lemma xlat_removed_typed:
  assumes "ready_left lookup left m i ctx" and "j < length (ps_fibers ctx)"
  shows "ready_left lookup left m i (set_fiber j ((ps_fibers ctx ! j)\<lparr>extended_api_offset_dict := snd (tree_delete ops k (extended_api_offset_dict (ps_fibers ctx ! j)))\<rparr>) ctx)"
proof -
  obtain st dict where d: "tree_delete ops k (extended_api_offset_dict (ps_fibers ctx ! j)) = (st, dict)" by fastforce
  have "fiber_typed lookup (length (ps_entities ctx)) ((ps_fibers ctx ! j)\<lparr>extended_api_offset_dict := dict\<rparr>)"
    using ready_fiber [OF assms] delete_result [OF d] by (auto simp: fiber_typed_def split: if_splits)
  then show ?thesis using d by (simp add: ready_dict [OF assms(1)])
qed

lemma sendresp_typed:
  assumes "ready_left lookup left m i ctx"
  shows "served_left lookup left m i (protocolservice_protocol_dnd_extended_api_sendresp ops vc env i payload ctx)"
proof -
  have found: "\<exists>so co addr. r = Xlat_entry so co addr"
    if "tree_find ops k (extended_api_offset_dict (ps_fibers ctx ! i)) = Inr r" for k r
    using that ready_fiber [OF assms ready_index [OF assms]] unfolding find_law fiber_typed_def by blast
  have sent: "ready_left lookup left m i (snd (send_message e to ret p ctx))" for e to ret p by (rule ready_send [OF assms])
  note removed = xlat_removed_typed [OF sent ready_index [OF sent]]
  show ?thesis using assms sent unfolding protocolservice_protocol_dnd_extended_api_sendresp_def
    by (intro with_capability_typed)
      (auto simp: Let_def case_prod_beta intro!: ready_error removed dest!: found split: sum.splits)
qed

text \<open>Every request of a connection that has done its handshake.\<close>

lemma dispatch_typed:
  assumes "ready_left lookup left m i ctx" and "wait_left lookup left i wait" and "encode_req_st env = AGENTD_STATUS_SUCCESS"
  shows "served_left lookup left m i (protocolservice_protocol_decode_and_dispatch ops vc wait env i req offset payload ctx)"
proof -
  have "served_left lookup left m i (dispatch_request ops vc wait env i req offset payload ctx)"
    using assms forwarding_typed [OF assms(1,3)] unfolding dispatch_request_def
    by (simp add: close_typed assertion_typed enable_typed sendrecv_typed sendresp_typed)
  then show ?thesis unfolding protocolservice_protocol_decode_and_dispatch_def
    by (cases "dispatch_request ops vc wait env i req offset payload ctx") (auto simp: served_left_def [of _ _ _ _ None] case_prod_beta intro: ready_error)
qed

lemma packet_typed:
  assumes "ready_left lookup left m i ctx" and "wait_left lookup left i wait" and "encode_req_st env = AGENTD_STATUS_SUCCESS"
    and "psock_read_authed_data ps (client_iv (ps_fibers ctx ! i)) (shared_secret (ps_fibers ctx ! i)) (protosock (ps_fibers ctx ! i)) = (r, sock)"
    and "left sock \<le> n"
  shows "served_left lookup left n i (protocolservice_protocol_read_decode_and_dispatch_packet ps ops vc wait env i ctx)"
proof -
  have sock: "ready_left lookup left n i (set_fiber i ((ps_fibers ctx ! i)\<lparr>protosock := sock\<rparr>) ctx)"
    "ready_left lookup left n i (set_fiber i ((ps_fibers ctx ! i)\<lparr>protosock := sock, client_iv := iv\<rparr>) ctx)" for iv
    using assms(1,5) by (simp_all add: ready_read)
  note served = dispatch_typed [OF sock(2) assms(2,3)]
  have wrap: "served_left lookup left n i (case r of None \<Rightarrow> None | Some (retval, c) \<Rightarrow> Some (released st retval, c))" if "served_left lookup left n i r"
    for r st
    using that by (cases r) (auto simp: served_left_def)
  show ?thesis unfolding protocolservice_protocol_read_decode_and_dispatch_packet_def Let_def assms(4)
    by (auto simp: case_prod_beta intro!: wrap served ready_error sock split: sum.splits)
qed

end

text \<open>
  C18. Serving a packet of a client never runs into undefined behaviour: whatever the packet
  contains, what a handler finds in a tree is of the structure it casts it to, entities and
  connections it refers to exist, and this typing is kept, for the next packet of this and
  of every other connection.  The requests to the data service are allocated (the handlers do
  not look at the result of the encoder), and the fibers that run meanwhile keep the typing.
\<close>

theorem packets_type_safe:
  assumes "resource_tree ops lookup" and "ready lookup i ctx" and "wait_left lookup (\<lambda>_. 0) i wait"
    and "encode_req_st env = AGENTD_STATUS_SUCCESS"
  shows "\<exists>st ctx'. protocolservice_protocol_read_decode_and_dispatch_packet ps ops vc wait env i ctx = Some (st, ctx') \<and>
           ready lookup i ctx'"
proof -
  have "ready_left lookup (\<lambda>_. 0) 0 i ctx" using assms(2) by (simp add: ready_left_def)
  then have "served_left lookup (\<lambda>_. 0) 0 i (protocolservice_protocol_read_decode_and_dispatch_packet ps ops vc wait env i ctx)"
    by (rule resource_tree.packet_typed [OF assms(1) _ assms(3,4) surjective_pairing]) simp
  then show ?thesis by (auto simp: served_left_def ready_left_def split: option.splits)
qed

definition packet_psock :: "bytes \<Rightarrow> (unit \<times> (64 word \<times> bytes) list) authed_psock_ops" where
  "packet_psock p = (logged_psock idle_psock)\<lparr>psock_read_authed_data := (\<lambda>iv key s. (Inr p, s))\<rparr>"

lemma switchboard_ready: "ready RBT.lookup 1 switchboard"
  by (auto simp: ready_def ps_typed_def fiber_typed_def switchboard_def logged_ctx_def logged_fiber_def split: if_splits)

theorem packets_type_safe_witness:
  "\<exists>st ctx'. protocolservice_protocol_read_decode_and_dispatch_packet (packet_psock (net32 0x53 @ net32 5 @ [6, 6])) rbt_ops sample_vc
     (\<lambda>c. (Inl 1, c)) dispatch_ok 1 switchboard = Some (st, ctx') \<and> ready RBT.lookup 1 ctx'"
proof -
  have "wait_left RBT.lookup (\<lambda>_. 0) 1 (\<lambda>c :: ((bytes, ps_resource) rbt, unit \<times> (64 word \<times> bytes) list) protocolservice_context. (Inl 1, c))"
    by (simp add: wait_left_def)
  then show ?thesis by (intro packets_type_safe [OF rbt_tree.resource_tree_axioms switchboard_ready]) (simp_all add: dispatch_ok_def Let_def)
qed

subsection \<open>Termination\<close>

context resource_tree
begin

lemma fiber_loop_ends:
  assumes "ready_left lookup left m i ctx" and "\<And>k. wait_left lookup left i (wait k)" and "\<And>k. encode_req_st (envs k) = AGENTD_STATUS_SUCCESS"
    and "\<And>iv key s r s'. psock_read_authed_data ps iv key s = (Inr r, s') \<Longrightarrow> left s' < left s"
    and "\<And>iv key s s'. psock_read_authed_data ps iv key s \<noteq> (Inl AGENTD_STATUS_SUCCESS, s')"
  shows "\<exists>st ctx'. protocol_fiber_loop ps ops vc wait envs k i ctx = Some (st, ctx')"
  using assms(1)
proof (induction m arbitrary: k ctx rule: less_induct)
  case (less m)
  let ?f = "ps_fibers ctx ! i"
  let ?packet = "protocolservice_protocol_read_decode_and_dispatch_packet ps ops vc (wait k) (envs k) i ctx"
  obtain r sock where read: "psock_read_authed_data ps (client_iv ?f) (shared_secret ?f) (protosock ?f) = (r, sock)" by fastforce
  have "\<exists>st ctx'. (case ?packet of None \<Rightarrow> None
      | Some (retval, ctx) \<Rightarrow> if retval \<noteq> AGENTD_STATUS_SUCCESS then Some (retval, ctx) else protocol_fiber_loop ps ops vc wait envs (k + 1) i ctx) = Some (st, ctx')"
  proof (cases r)
    case (Inl st)
    then have "st \<noteq> AGENTD_STATUS_SUCCESS" using assms(5) read by metis
    then show ?thesis using Inl read
      by (simp add: protocolservice_protocol_read_decode_and_dispatch_packet_def Let_def released_def split: prod.splits)
  next
    case (Inr p)
    then have "left sock < m" using assms(4) [of "client_iv ?f"] read less.prems by (fastforce simp: ready_left_def)
    then show ?thesis using packet_typed [OF less.prems assms(2) [of k] assms(3) [of k] read order.refl, of vc] less.IH
      by (auto simp: served_left_def split: option.splits)
  qed
  then show ?case by (subst protocol_fiber_loop.simps) auto
qed

end

text \<open>
  C19. Every connection ends.  The loop that serves the packets of a client terminates, without
  undefined behaviour and whatever the packets contain, once the client sends no more: a
  read takes something from what is left to read, and a read that fails ends the loop.
\<close>

theorem connection_loop_terminates:
  assumes "resource_tree ops lookup" and "ready lookup i ctx"
    and "\<And>k. wait_left lookup left i (wait k)" and "\<And>k. encode_req_st (envs k) = AGENTD_STATUS_SUCCESS"
    and "\<And>iv key s r s'. psock_read_authed_data ps iv key s = (Inr r, s') \<Longrightarrow> left s' < left s"
    and "\<And>iv key s s'. psock_read_authed_data ps iv key s \<noteq> (Inl AGENTD_STATUS_SUCCESS, s')"
  shows "\<exists>st ctx'. protocol_fiber_loop ps ops vc wait envs 0 i ctx = Some (st, ctx')"
proof -
  have "ready_left lookup left (left (protosock (ps_fibers ctx ! i))) i ctx" using assms(2) by (simp add: ready_left_def)
  then show ?thesis by (rule resource_tree.fiber_loop_ends [OF assms(1)]) (use assms(3-6) in blast)+
qed

text \<open>A client that sends the packets it has and hangs up; they are kept where the log of vectors was.\<close>

definition queue_psock :: "(unit \<times> (64 word \<times> bytes) list) authed_psock_ops" where
  "queue_psock = (logged_psock idle_psock)\<lparr>psock_read_authed_data :=
     (\<lambda>iv key (u, q). case q of [] \<Rightarrow> (Inl 1, (u, [])) | (_, p) # q \<Rightarrow> (Inr p, (u, q)))\<rparr>"

theorem connection_loop_terminates_witness:
  "\<exists>st ctx'. protocol_fiber_loop queue_psock rbt_ops sample_vc (\<lambda>k c. (Inl 1, c)) (\<lambda>_. dispatch_ok) 0 1
     (set_fiber 1 ((ps_fibers switchboard ! 1)\<lparr>protosock := ((), [(0, net32 0x53 @ net32 5 @ [6, 6]), (0, [1]), (0, net32 0xA000 @ net32 6)])\<rparr>) switchboard) =
     Some (st, ctx')"
proof (rule connection_loop_terminates [OF rbt_tree.resource_tree_axioms, where left = "\<lambda>s. length (snd s)"])
  show "ready RBT.lookup 1 (set_fiber 1 ((ps_fibers switchboard ! 1)\<lparr>protosock := ((), [(0, net32 0x53 @ net32 5 @ [6, 6]), (0, [1]), (0, net32 0xA000 @ net32 6)])\<rparr>) switchboard)"
    using switchboard_ready by (auto simp: ready_def ps_typed_def fiber_typed_def set_fiber_def switchboard_def logged_ctx_def logged_fiber_def split: if_splits)
qed (auto simp: wait_left_def dispatch_ok_def Let_def queue_psock_def split: list.splits)

end
