(* ===== verification/Proto_Route.thy ===== *)
theory Proto_Route
  imports Proto_Typed
begin

text \<open>
  Requests between clients over whole runs of the protocol service.  Between the request of
  a client and the answer of the client that serves it, the fibers of both connections and
  of all others go on: packets are read and served, responses are written, messages are
  received, connections come and go.  Here: the entry that leads the answer back survives all
  of it, so that the answer reaches the client that asked, under its own offset, once.
\<close>

subsection \<open>Runs\<close>

text \<open>The next packet of connection \<open>j\<close> answers the request it was sent under \<open>offset\<close>.\<close>

definition answers_next ::
  "'s authed_psock_ops \<Rightarrow> vcblockchain \<Rightarrow> nat \<Rightarrow> 64 word \<Rightarrow> ('t, 's) protocolservice_context \<Rightarrow> bool" where
  "answers_next ps vc j offset ctx \<longleftrightarrow>
     (let f = ps_fibers ctx ! j in
      case fst (psock_read_authed_data ps (client_iv f) (shared_secret f) (protosock f)) of
        Inl _ \<Rightarrow> False
      | Inr req \<Rightarrow> of_net32 (slice 0 4 req) = UNAUTH_PROTOCOL_REQ_ID_EXTENDED_API_SENDRESP \<and>
          (case decode_req_extended_api_response vc req of Inl _ \<Rightarrow> False | Inr (o', _, _) \<Rightarrow> o' = offset))"

text \<open>
  The steps of the service while connection \<open>j\<close> owes the answer to \<open>offset\<close>: any connection,
  \<open>j\<close> included, reads and serves a packet that is not this answer (while a handler waits for the
  notification service the fibers take such steps too), or writes what it was sent; messages are
  received and sent by the endpoints; and what leaves the context of \<open>j\<close> alone, such as
  the start, the handshake and the end of another connection.
\<close>

inductive fibers_run ::
  "'s authed_psock_ops \<Rightarrow> 't resource_tree_ops \<Rightarrow> vcblockchain \<Rightarrow> vcblockchain_resp \<Rightarrow> nat \<Rightarrow> 64 word \<Rightarrow>
     ('t, 's) protocolservice_context \<Rightarrow> ('t, 's) protocolservice_context \<Rightarrow> bool"
  for ps ops vc vcr j offset where
  run_stays: "fibers_run ps ops vc vcr j offset ctx ctx"
| run_packet: "fibers_run ps ops vc vcr j offset ctx c \<Longrightarrow> \<forall>x. fibers_run ps ops vc vcr j offset x (snd (wait x)) \<Longrightarrow>
    \<not> (i = j \<and> answers_next ps vc j offset c) \<Longrightarrow>
    protocolservice_protocol_read_decode_and_dispatch_packet ps ops vc wait env i c = Some (st, c') \<Longrightarrow>
    fibers_run ps ops vc vcr j offset ctx c'"
| run_write: "fibers_run ps ops vc vcr j offset ctx c \<Longrightarrow>
    protocolservice_protocol_write_endpoint_decode_and_dispatch vcr ps m (ps_fibers c ! i) = Some (st, f) \<Longrightarrow>
    fibers_run ps ops vc vcr j offset ctx (set_fiber i f c)"
| run_messages: "fibers_run ps ops vc vcr j offset ctx c \<Longrightarrow> fibers_run ps ops vc vcr j offset ctx (c\<lparr>ps_messages := ms\<rparr>)"
| run_elsewhere: "fibers_run ps ops vc vcr j offset ctx c \<Longrightarrow> length (ps_fibers c) \<le> length (ps_fibers c') \<Longrightarrow>
    ps_fibers c' ! j = ps_fibers c ! j \<Longrightarrow> fibers_run ps ops vc vcr j offset ctx c'"

subsection \<open>A pending request stays pending\<close>

definition entry_pending ::
  "('t \<Rightarrow> bytes \<rightharpoonup> ps_resource) \<Rightarrow> nat \<Rightarrow> bytes \<Rightarrow> ps_resource \<Rightarrow> 64 word \<Rightarrow> ('t, 's) protocolservice_context \<Rightarrow> bool" where
  "entry_pending lookup j k r addr ctx \<longleftrightarrow> j < length (ps_fibers ctx) \<and>
     lookup (extended_api_offset_dict (ps_fibers ctx ! j)) k = Some r \<and> return_addr (ps_fibers ctx ! j) = addr"

definition kept_by :: "(('t, 's) protocolservice_context \<Rightarrow> bool) \<Rightarrow> ('t, 's) dispatch_result \<Rightarrow> bool" where
  "kept_by P r \<longleftrightarrow> (case r of None \<Rightarrow> True | Some p \<Rightarrow> P (snd p))"

lemma kept_by_simps [simp]: "kept_by P None" "kept_by P (Some p) \<longleftrightarrow> P (snd p)"
  by (simp_all add: kept_by_def)

named_theorems pending_intros

lemma pending_messages [simp]: "entry_pending lookup j k r addr (ctx\<lparr>ps_messages := ms\<rparr>) \<longleftrightarrow> entry_pending lookup j k r addr ctx"
  and pending_api [simp]: "entry_pending lookup j k r addr (ctx\<lparr>extended_api_dict := d\<rparr>) \<longleftrightarrow> entry_pending lookup j k r addr ctx"
  by (simp_all add: entry_pending_def)

lemma pending_set:
  "entry_pending lookup j k r addr ctx \<Longrightarrow>
     (i = j \<Longrightarrow> lookup (extended_api_offset_dict f) k = Some r \<and> return_addr f = addr) \<Longrightarrow> entry_pending lookup j k r addr (set_fiber i f ctx)"
  by (cases "i = j") (auto simp: entry_pending_def set_fiber_def)

lemma pending_field [pending_intros]:
  "entry_pending lookup j k r addr ctx \<Longrightarrow> extended_api_offset_dict f = extended_api_offset_dict (ps_fibers ctx ! i) \<Longrightarrow>
     return_addr f = return_addr (ps_fibers ctx ! i) \<Longrightarrow> entry_pending lookup j k r addr (set_fiber i f ctx)"
  by (rule pending_set) (auto simp: entry_pending_def)

lemma pending_send [pending_intros]:
  "entry_pending lookup j k r addr ctx \<Longrightarrow> entry_pending lookup j k r addr (snd (send_message env to ret p ctx))"
  by (simp add: send_message_def)

lemma pending_error [pending_intros]:
  "entry_pending lookup j k r addr ctx \<Longrightarrow> entry_pending lookup j k r addr (snd (protocolservice_send_error_response_message env i req st offset ctx))"
  by (auto simp: protocolservice_send_error_response_message_def Let_def intro: pending_intros)

lemma pending_send_request [pending_intros]:
  "entry_pending lookup j k r addr ctx \<Longrightarrow> entry_pending lookup j k r addr (snd (protocolservice_dataservice_send_request env i req offset b ctx))"
  by (auto simp: protocolservice_dataservice_send_request_def intro: pending_intros split: sum.splits)

lemma with_capability_pending:
  "entry_pending lookup j k r addr ctx \<Longrightarrow> kept_by (entry_pending lookup j k r addr) res \<Longrightarrow>
     kept_by (entry_pending lookup j k r addr) (with_capability ops i verb object ctx res)"
  by (auto simp: with_capability_def split: option.splits)

lemma forwarding_pending:
  assumes "entry_pending lookup j k r addr ctx"
  shows "kept_by (entry_pending lookup j k r addr) (protocolservice_protocol_dnd_latest_block_id_get env i offset ctx)"
    "kept_by (entry_pending lookup j k r addr) (protocolservice_protocol_dnd_transaction_submit vc env i offset payload ctx)"
    "kept_by (entry_pending lookup j k r addr) (protocolservice_protocol_dnd_block_by_id_get vc env i offset payload ctx)"
    "kept_by (entry_pending lookup j k r addr) (protocolservice_protocol_dnd_block_id_next_get vc env i offset payload ctx)"
    "kept_by (entry_pending lookup j k r addr) (protocolservice_protocol_dnd_block_id_prev_get vc env i offset payload ctx)"
    "kept_by (entry_pending lookup j k r addr) (protocolservice_protocol_dnd_transaction_by_id_get vc env i offset payload ctx)"
    "kept_by (entry_pending lookup j k r addr) (protocolservice_protocol_dnd_transaction_id_next_get vc env i offset payload ctx)"
    "kept_by (entry_pending lookup j k r addr) (protocolservice_protocol_dnd_transaction_id_prev_get vc env i offset payload ctx)"
    "kept_by (entry_pending lookup j k r addr) (protocolservice_protocol_dnd_transaction_block_id_get vc env i offset payload ctx)"
    "kept_by (entry_pending lookup j k r addr) (protocolservice_protocol_dnd_artifact_first_transaction_id_get vc env i offset payload ctx)"
    "kept_by (entry_pending lookup j k r addr) (protocolservice_protocol_dnd_artifact_last_transaction_id_get vc env i offset payload ctx)"
    "kept_by (entry_pending lookup j k r addr) (protocolservice_protocol_dnd_block_id_by_height_get vc env i offset payload ctx)"
    "kept_by (entry_pending lookup j k r addr) (protocolservice_protocol_dnd_status_get vc env i offset payload ctx)"
    "kept_by (entry_pending lookup j k r addr) (protocolservice_protocol_dnd_close env i offset ctx)"
  using assms
  by (auto simp: forwarding_handlers protocolservice_protocol_dnd_close_def forward_unchecked_def forward_checked_def
      intro!: pending_intros split: sum.splits)

lemma assertion_pending:
  assumes "entry_pending lookup j k r addr ctx" and "\<And>c. entry_pending lookup j k r addr c \<Longrightarrow> entry_pending lookup j k r addr (snd (wait c))"
  shows "kept_by (entry_pending lookup j k r addr) (protocolservice_protocol_dnd_assert_latest_block_id ops vc wait env i offset payload ctx)"
    "kept_by (entry_pending lookup j k r addr) (protocolservice_protocol_dnd_assert_latest_block_id_cancel ops vc wait env i offset payload ctx)"
proof -
  have sent: "entry_pending lookup j k r addr c'" "entry_pending lookup j k r addr c''"
    if "send_message e to ret p ctx = (st, c')" "wait c' = (w, c'')" for e to ret p st c' w c''
    using that assms(2) [of c'] pending_send [OF assms(1), of e to ret p] by simp_all
  show "kept_by (entry_pending lookup j k r addr) (protocolservice_protocol_dnd_assert_latest_block_id_cancel ops vc wait env i offset payload ctx)"
    using assms(1)
    by (auto simp: protocolservice_protocol_dnd_assert_latest_block_id_cancel_def protocolservice_notificationservice_handle_assert_block_cancel_request_def
        Let_def intro!: with_capability_pending intro: sent split: sum.splits prod.splits)
  have "entry_pending lookup j k r addr (snd (protocolservice_notificationservice_handle_assert_block_request wait env i o1 b ctx))" for o1 b
    using assms(1)
    by (auto simp: protocolservice_notificationservice_handle_assert_block_request_def Let_def intro!: pending_field
        intro: sent split: sum.splits prod.splits)
  then show "kept_by (entry_pending lookup j k r addr) (protocolservice_protocol_dnd_assert_latest_block_id ops vc wait env i offset payload ctx)"
    using assms(1) unfolding protocolservice_protocol_dnd_assert_latest_block_id_def
    by (intro with_capability_pending) (auto simp: case_prod_beta intro!: pending_field split: sum.splits)
qed

text \<open>Writing a packet changes the socket and the vector of the connection, not what it owes.\<close>

lemma write_packet_keeps:
  "protocolservice_protocol_write_endpoint_write_raw_packet ps b f = (st, f') \<Longrightarrow> extended_api_offset_dict f' = extended_api_offset_dict f \<and> return_addr f' = return_addr f"
  "protocolservice_protocol_write_endpoint_write_packet ps m f = (st, f') \<Longrightarrow> extended_api_offset_dict f' = extended_api_offset_dict f \<and> return_addr f' = return_addr f"
  "write_encoded ps r f = (st, f') \<Longrightarrow> extended_api_offset_dict f' = extended_api_offset_dict f \<and> return_addr f' = return_addr f"
  by (auto simp: protocolservice_protocol_write_endpoint_write_raw_packet_def protocolservice_protocol_write_endpoint_write_packet_def
      write_encoded_def split: prod.splits sum.splits if_splits)

lemma write_dispatch_keeps:
  assumes "protocolservice_protocol_write_endpoint_decode_and_dispatch vc ps m f = Some (st, f')"
  shows "extended_api_offset_dict f' = extended_api_offset_dict f \<and> return_addr f' = return_addr f"
proof -
  have data: "protocolservice_pwe_dnd_dataservice_message vc ps m f = Some (st, f') \<Longrightarrow> ?thesis"
    by (auto simp: protocolservice_pwe_dnd_dataservice_message_def Let_def pwe_handlers dest: write_packet_keeps
        split: if_splits sum.splits prod.splits option.splits)
  have notice: "protocolservice_pwe_dnd_notificationservice_message vc ps m f = (st, f') \<Longrightarrow> ?thesis"
    by (auto simp: protocolservice_pwe_dnd_notificationservice_message_def dest: write_packet_keeps split: sum.splits prod.splits if_splits)
  show ?thesis using assms data notice
    by (auto simp: protocolservice_protocol_write_endpoint_decode_and_dispatch_def Let_def dest: write_packet_keeps split: if_splits)
qed

context resource_tree
begin

lemma enable_pending:
  assumes "entry_pending lookup j k r addr ctx"
  shows "kept_by (entry_pending lookup j k r addr) (protocolservice_protocol_dnd_extended_api_enable ops vc env i offset payload ctx)"
proof -
  have route: "entry_pending lookup j k r addr c \<Longrightarrow> entry_pending lookup j k r addr (snd (protocolservice_protocol_route_extended_api_for_entity ops env i c))" for c
    by (auto simp: protocolservice_protocol_route_extended_api_for_entity_def Let_def split: sum.splits prod.splits)
  show ?thesis using assms unfolding protocolservice_protocol_dnd_extended_api_enable_def Let_def
    by (intro with_capability_pending) (auto simp: case_prod_beta intro!: pending_intros route split: sum.splits)
qed

text \<open>A new entry never takes the place of one that is there.\<close>

lemma xlat_entry_pending:
  assumes "entry_pending lookup j k r addr ctx"
  shows "entry_pending lookup j k r addr (snd (protocolservice_extended_api_response_xlat_entry_add ops env j' so co a ctx))"
proof -
  let ?d = "extended_api_offset_dict (ps_fibers ctx ! j')"
  obtain st dict where ins: "tree_insert ops (mem64 so) (Xlat_entry so co a) ?d = (st, dict)" by fastforce
  have "lookup dict k = Some r" if "lookup ?d k = Some r"
    using that ins insert_law [of "mem64 so" "Xlat_entry so co a" ?d dict] insert_kept [OF ins] by (cases "st = AGENTD_STATUS_SUCCESS") auto
  then have "entry_pending lookup j k r addr (set_fiber j' ((ps_fibers ctx ! j')\<lparr>extended_api_offset_dict := dict\<rparr>) ctx)"
    using assms by (intro pending_set) (auto simp: entry_pending_def)
  then show ?thesis using assms ins
    by (simp add: protocolservice_extended_api_response_xlat_entry_add_def protocolservice_extended_api_response_xlat_entry_key_def Let_def)
qed

lemma send_req_pending:
  assumes "entry_pending lookup j k r addr ctx"
  shows "kept_by (entry_pending lookup j k r addr) (protocolservice_protocol_extended_api_send_req ops vc env i offset verb entity body ctx)"
proof -
  have c: "entry_pending lookup j k r addr (set_fiber n ((ps_fibers ctx ! n)\<lparr>extended_api_offset := x\<rparr>) ctx)" for n x
    using assms by (rule pending_field) simp_all
  show ?thesis using assms unfolding protocolservice_protocol_extended_api_send_req_def
    by (intro with_capability_pending)
      (auto simp: Let_def case_prod_beta protocolservice_protocol_create_extended_api_clientreq_payload_def
        intro!: pending_error pending_send xlat_entry_pending c split: sum.splits ps_resource.splits)
qed

lemma sendrecv_pending:
  "entry_pending lookup j k r addr ctx \<Longrightarrow>
     kept_by (entry_pending lookup j k r addr) (protocolservice_protocol_dnd_extended_api_sendrecv ops vc env i payload ctx)"
  unfolding protocolservice_protocol_dnd_extended_api_sendrecv_def
  by (intro with_capability_pending) (auto intro: send_req_pending split: sum.splits)

lemma other_entry_removed:
  assumes "entry_pending lookup j k r addr ctx" and "i = j \<Longrightarrow> k' \<noteq> k"
  shows "entry_pending lookup j k r addr
     (set_fiber i ((ps_fibers ctx ! i)\<lparr>extended_api_offset_dict := snd (tree_delete ops k' (extended_api_offset_dict (ps_fibers ctx ! i)))\<rparr>) ctx)"
proof -
  obtain st dict where d: "tree_delete ops k' (extended_api_offset_dict (ps_fibers ctx ! i)) = (st, dict)" by fastforce
  show ?thesis using assms delete_result [OF d] d by (intro pending_set) (auto simp: entry_pending_def)
qed

lemma sendresp_pending:
  assumes "entry_pending lookup j k r addr ctx"
    and "\<And>off st body. i = j \<Longrightarrow> decode_req_extended_api_response vc payload = Inr (off, st, body) \<Longrightarrow> mem64 off \<noteq> k"
  shows "kept_by (entry_pending lookup j k r addr) (protocolservice_protocol_dnd_extended_api_sendresp ops vc env i payload ctx)"
proof -
  have sent: "entry_pending lookup j k r addr (snd (send_message e to ret p ctx))" for e to ret p by (rule pending_send [OF assms(1)])
  show ?thesis using assms sent unfolding protocolservice_protocol_dnd_extended_api_sendresp_def
    by (intro with_capability_pending)
      (auto simp: Let_def case_prod_beta intro!: pending_error other_entry_removed split: sum.splits ps_resource.splits)
qed

lemma dispatch_pending:
  assumes "entry_pending lookup j k r addr ctx" and "\<And>c. entry_pending lookup j k r addr c \<Longrightarrow> entry_pending lookup j k r addr (snd (wait c))"
    and "\<And>off st body. i = j \<Longrightarrow> req = UNAUTH_PROTOCOL_REQ_ID_EXTENDED_API_SENDRESP \<Longrightarrow>
           decode_req_extended_api_response vc payload = Inr (off, st, body) \<Longrightarrow> mem64 off \<noteq> k"
  shows "kept_by (entry_pending lookup j k r addr) (protocolservice_protocol_decode_and_dispatch ops vc wait env i req offset payload ctx)"
proof -
  have "kept_by (entry_pending lookup j k r addr) (dispatch_request ops vc wait env i req offset payload ctx)"
    using assms(1) forwarding_pending [OF assms(1)] assertion_pending [OF assms(1,2)] sendresp_pending [OF assms(1), of i vc payload] assms(3)
    unfolding dispatch_request_def by (simp add: enable_pending sendrecv_pending)
  then show ?thesis unfolding protocolservice_protocol_decode_and_dispatch_def
    by (cases "dispatch_request ops vc wait env i req offset payload ctx") (auto simp: case_prod_beta intro: pending_error)
qed

lemma packet_pending:
  assumes "entry_pending lookup j (mem64 off) r addr ctx"
    and "\<And>c. entry_pending lookup j (mem64 off) r addr c \<Longrightarrow> entry_pending lookup j (mem64 off) r addr (snd (wait c))"
    and "\<not> (i = j \<and> answers_next ps vc j off ctx)"
  shows "kept_by (entry_pending lookup j (mem64 off) r addr) (protocolservice_protocol_read_decode_and_dispatch_packet ps ops vc wait env i ctx)"
proof -
  let ?P = "entry_pending lookup j (mem64 off) r addr" and ?f = "ps_fibers ctx ! i"
  obtain p sock where read: "psock_read_authed_data ps (client_iv ?f) (shared_secret ?f) (protosock ?f) = (p, sock)" by fastforce
  have sock: "?P (set_fiber i (?f\<lparr>protosock := sock\<rparr>) ctx)" "?P (set_fiber i (?f\<lparr>protosock := sock, client_iv := iv\<rparr>) ctx)" for iv
    using assms(1) by (auto intro: pending_field)
  have served: "kept_by ?P (protocolservice_protocol_decode_and_dispatch ops vc wait env i (of_net32 (slice 0 4 req)) o1 req
      (set_fiber i (?f\<lparr>protosock := sock, client_iv := iv\<rparr>) ctx))" if "p = Inr req" for req o1 iv
    using that assms(3) read by (intro dispatch_pending sock assms(2)) (auto simp: answers_next_def Let_def)
  have wrap: "kept_by ?P (case res of None \<Rightarrow> None | Some (retval, c) \<Rightarrow> Some (released st retval, c))" if "kept_by ?P res" for res st
    using that by (cases res) auto
  show ?thesis unfolding protocolservice_protocol_read_decode_and_dispatch_packet_def Let_def read
    by (auto simp: case_prod_beta intro!: wrap served pending_error sock split: sum.splits)
qed

lemma run_pending:
  assumes "fibers_run ps ops vc vcr j off ctx ctx'" and "entry_pending lookup j (mem64 off) r addr ctx"
  shows "entry_pending lookup j (mem64 off) r addr ctx'"
  using assms
proof (induction rule: fibers_run.induct)
  case (run_packet ctx c wait i env st c')
  then show ?case using packet_pending [of j off r addr c wait i ps vc env] by auto
next
  case (run_write ctx c m i st f)
  then show ?case using write_dispatch_keeps [OF run_write.hyps(2)] by (intro pending_field) auto
next
  case (run_elsewhere ctx c c')
  then show ?case by (auto simp: entry_pending_def)
qed simp_all

end


text \<open>The second client is written the request before it answers.\<close>

definition asked_ctx :: "((bytes, ps_resource) rbt, unit \<times> (64 word \<times> bytes) list) protocolservice_context" where
  "asked_ctx = snd (the (protocolservice_protocol_extended_api_send_req rbt_ops sample_vc dispatch_ok 0 17 (replicate 16 3) (replicate 16 8) [5, 5] switchboard))"

definition delivered_ctx :: "((bytes, ps_resource) rbt, unit \<times> (64 word \<times> bytes) list) protocolservice_context" where
  "delivered_ctx = (let f = ps_fibers asked_ctx ! 1 in
     set_fiber 1 (f\<lparr>protosock := ((), snd (protosock f) @ [(server_iv f, shared_secret f)]), server_iv := server_iv f + 1\<rparr>)
       (asked_ctx\<lparr>ps_messages := []\<rparr>))"

definition served_ctx :: "((bytes, ps_resource) rbt, unit \<times> (64 word \<times> bytes) list) protocolservice_context" where
  "served_ctx = snd (the (protocolservice_protocol_dnd_extended_api_sendresp rbt_ops sample_vc dispatch_ok 1 [6, 6] delivered_ctx))"

lemma sample_exchange:
  "protocolservice_protocol_extended_api_send_req rbt_ops sample_vc dispatch_ok 0 17 (replicate 16 3) (replicate 16 8) [5, 5] switchboard =
     Some (AGENTD_STATUS_SUCCESS, asked_ctx)"
  "protocolservice_protocol_dnd_extended_api_sendresp rbt_ops sample_vc dispatch_ok 1 [6, 6] delivered_ctx = Some (AGENTD_STATUS_SUCCESS, served_ctx)"
proof -
  have some: "r = Some (c, snd (the r))" if "case r of None \<Rightarrow> False | Some (st, _) \<Rightarrow> st = c" for r :: "('x \<times> 'y) option" and c
    using that by (auto split: option.splits)
  show "protocolservice_protocol_extended_api_send_req rbt_ops sample_vc dispatch_ok 0 17 (replicate 16 3) (replicate 16 8) [5, 5] switchboard =
     Some (AGENTD_STATUS_SUCCESS, asked_ctx)"
    unfolding asked_ctx_def by (rule some) code_simp
  show "protocolservice_protocol_dnd_extended_api_sendresp rbt_ops sample_vc dispatch_ok 1 [6, 6] delivered_ctx = Some (AGENTD_STATUS_SUCCESS, served_ctx)"
    unfolding served_ctx_def by (rule some) code_simp
qed

lemma sample_delivery: "fibers_run (logged_psock idle_psock) rbt_ops sample_vc vcr 1 1 asked_ctx delivered_ctx"
proof -
  let ?c = "asked_ctx\<lparr>ps_messages := []\<rparr>" and ?f = "ps_fibers asked_ctx ! 1"
  let ?m = "\<lparr> pwe_message_type = PROTOCOLSERVICE_PROTOCOL_WRITE_ENDPOINT_PACKET, pwe_original_request_id = 0, pwe_offset = 0,
     pwe_payload = net64 1 @ [5, 5] \<rparr>"
  have "protocolservice_protocol_write_endpoint_decode_and_dispatch vcr (logged_psock idle_psock) ?m f =
      Some (0, f\<lparr>protosock := ((), snd (protosock f) @ [(server_iv f, shared_secret f)]), server_iv := server_iv f + 1\<rparr>)"
    for f :: "('t, unit \<times> (64 word \<times> bytes) list) protocolservice_protocol_fiber_context"
    by (cases "protosock f") (simp add: protocolservice_protocol_write_endpoint_decode_and_dispatch_def
        protocolservice_protocol_write_endpoint_write_packet_def logged_psock_def idle_psock_def)
  then have wr: "protocolservice_protocol_write_endpoint_decode_and_dispatch vcr (logged_psock idle_psock) ?m (ps_fibers ?c ! 1) =
      Some (0, ?f\<lparr>protosock := ((), snd (protosock ?f) @ [(server_iv ?f, shared_secret ?f)]), server_iv := server_iv ?f + 1\<rparr>)"
    by simp
  have "fibers_run (logged_psock idle_psock) rbt_ops sample_vc vcr 1 1 asked_ctx ?c" by (rule run_messages [OF run_stays])
  then show ?thesis unfolding delivered_ctx_def Let_def using wr by (rule run_write)
qed


end
