(* ===== verification/Proto_Notify.thy ===== *)
theory Proto_Notify
  imports Proto_Connection
begin

text \<open>
  The notification endpoint of the protocol service
  (\<^verbatim>\<open>protocolservice_notificationservice_*.c\<close>): two fibers that share a context and the socket of
  the notification service.  One takes the assertions of the connections, gives each an
  offset of its own and passes it on; the other reads the responses and sends each to
  the connection that asserted.  Two trees translate between the address of a client and
  the offset of its assertion; an entry is in both, and its reference count is the number of
  trees that hold it.  The results of the calls that are not modelled are parts of environments.
\<close>

record ('t, 'n) protocolservice_notificationservice_fiber_context =
  notify_addr :: "64 word"
  notifysock :: 'n
  client_xlat_map :: 't
  server_xlat_map :: 't
  notify_reference_count :: int
  request_offset_counter :: "64 word"

definition protocolservice_notificationservice_client_xlat_map_key :: "ps_resource \<Rightarrow> bytes" where
  "protocolservice_notificationservice_client_xlat_map_key r = (case r of Notify_entry client_addr _ _ \<Rightarrow> mem64 client_addr | _ \<Rightarrow> [])"

definition protocolservice_notificationservice_server_xlat_map_key :: "ps_resource \<Rightarrow> bytes" where
  "protocolservice_notificationservice_server_xlat_map_key r = (case r of Notify_entry _ server_offset _ \<Rightarrow> mem64 server_offset | _ \<Rightarrow> [])"

subsection \<open>Assertions\<close>

record notify_endpoint_env =
  xlat_alloc_st :: status
  xlat_free_st :: status
  notify_sendreq_st :: status
  notify_reply_env :: send_env
  assertion_free_st :: status

definition protocolservice_notificationservice_xlat_map_add ::
  "'t resource_tree_ops \<Rightarrow> notify_endpoint_env \<Rightarrow> 64 word \<Rightarrow> 64 word \<Rightarrow> 32 word \<Rightarrow>
     ('t, 'n) protocolservice_notificationservice_fiber_context \<Rightarrow> status \<times> ('t, 'n) protocolservice_notificationservice_fiber_context" where
  "protocolservice_notificationservice_xlat_map_add ops env msg_offset client_addr req_offset n =
     (if xlat_alloc_st env \<noteq> AGENTD_STATUS_SUCCESS then (xlat_alloc_st env, n) else
      let tmp = Notify_entry client_addr msg_offset (ucast req_offset) in
      case tree_insert ops (protocolservice_notificationservice_client_xlat_map_key tmp) tmp (client_xlat_map n) of (retval, t) \<Rightarrow>
      let n = n\<lparr>client_xlat_map := t\<rparr> in
      if retval \<noteq> AGENTD_STATUS_SUCCESS then (released (xlat_free_st env) retval, n) else
      case tree_insert ops (protocolservice_notificationservice_server_xlat_map_key tmp) tmp (server_xlat_map n) of (retval, t) \<Rightarrow>
      (retval, n\<lparr>server_xlat_map := t\<rparr>))"

definition protocolservice_notificationservice_block_assertion_response_create ::
  "status \<Rightarrow> 64 word \<Rightarrow> bool \<Rightarrow> status + protocolservice_notificationservice_block_assertion_response" where
  "protocolservice_notificationservice_block_assertion_response_create alloc_st offset success =
     (if alloc_st \<noteq> AGENTD_STATUS_SUCCESS then Inl alloc_st else Inr \<lparr> aresp_success = success, aresp_offset = offset \<rparr>)"

definition protocolservice_notificationservice_endpoint_send_request_response ::
  "send_env \<Rightarrow> 64 word \<Rightarrow> 64 word \<Rightarrow> bool \<Rightarrow> ('t, 'n) protocolservice_notificationservice_fiber_context \<Rightarrow>
     ('t, 's) protocolservice_context \<Rightarrow> status \<times> ('t, 's) protocolservice_context" where
  "protocolservice_notificationservice_endpoint_send_request_response env reply_addr msg_offset success n ctx =
     (case protocolservice_notificationservice_block_assertion_response_create (payload_st env) msg_offset success of
        Inl st \<Rightarrow> (st, ctx)
      | Inr tmp \<Rightarrow> send_message env reply_addr (notify_addr n) (Assertion_response tmp) ctx)"

text \<open>One turn of the loop; the fiber ends unless the status is success.\<close>

definition notify_endpoint_step ::
  "'t resource_tree_ops \<Rightarrow> 'n psock_ops \<Rightarrow> notify_endpoint_env \<Rightarrow> protocolservice_notificationservice_block_assertion_request \<Rightarrow> 64 word \<Rightarrow>
     ('t, 'n) protocolservice_notificationservice_fiber_context \<times> ('t, 's) protocolservice_context \<Rightarrow>
     status \<times> ('t, 'n) protocolservice_notificationservice_fiber_context \<times> ('t, 's) protocolservice_context" where
  "notify_endpoint_step ops ps env req return_address = (\<lambda>(n, ctx).
     let cleanup = (\<lambda>retval n ctx. (released (assertion_free_st env) retval, n, ctx));
         reply_error = (\<lambda>retval n ctx.
           case protocolservice_notificationservice_endpoint_send_request_response (notify_reply_env env) return_address 0 False n ctx
           of (release_retval, ctx) \<Rightarrow> cleanup (released release_retval retval) n ctx);
         reply = (\<lambda>msg_offset n ctx.
           case protocolservice_notificationservice_endpoint_send_request_response (notify_reply_env env) return_address msg_offset True n ctx
           of (retval, ctx) \<Rightarrow> cleanup retval n ctx) in
     if \<not> areq_cancel req then
       (let msg_offset = request_offset_counter n + 1; n = n\<lparr>request_offset_counter := msg_offset\<rparr> in
        case protocolservice_notificationservice_xlat_map_add ops env msg_offset (areq_reply_addr req) (areq_offset req) n of (retval, n) \<Rightarrow>
        if retval \<noteq> AGENTD_STATUS_SUCCESS then cleanup retval n ctx else
        case notificationservice_api_sendreq_block_assertion ps (notify_sendreq_st env) msg_offset (areq_block_id req) (notifysock n) of (retval, sock) \<Rightarrow>
        let n = n\<lparr>notifysock := sock\<rparr> in
        if retval \<noteq> AGENTD_STATUS_SUCCESS then reply_error retval n ctx else reply msg_offset n ctx)
     else
       (case tree_find ops (mem64 (areq_reply_addr req)) (client_xlat_map n) of
          Inl retval \<Rightarrow> reply_error retval n ctx
        | Inr entry \<Rightarrow>
        let msg_offset = (case entry of Notify_entry _ server_offset _ \<Rightarrow> server_offset | _ \<Rightarrow> 0) in
        case notificationservice_api_sendreq_assertion_cancel ps (notify_sendreq_st env) msg_offset (notifysock n) of (retval, sock) \<Rightarrow>
        let n = n\<lparr>notifysock := sock\<rparr> in
        if retval \<noteq> AGENTD_STATUS_SUCCESS then reply_error retval n ctx else reply msg_offset n ctx))"

subsection \<open>Responses\<close>

text \<open>
  The failures of the two deletions are not looked at.  The entry is in both trees, so that it
  is still there when its address is read for the second.
\<close>

definition protocolservice_notificationservice_lookup_return_address_from_offset ::
  "'t resource_tree_ops \<Rightarrow> 64 word \<Rightarrow> ('t, 'n) protocolservice_notificationservice_fiber_context \<Rightarrow>
     (status + 64 word \<times> 32 word) \<times> ('t, 'n) protocolservice_notificationservice_fiber_context" where
  "protocolservice_notificationservice_lookup_return_address_from_offset ops offset n =
     (case tree_find ops (mem64 offset) (server_xlat_map n) of
        Inl st \<Rightarrow> (Inl st, n)
      | Inr entry \<Rightarrow>
      case entry of
        Notify_entry client_addr server_offset client_offset \<Rightarrow>
          (let n = n\<lparr>server_xlat_map := snd (tree_delete ops (mem64 server_offset) (server_xlat_map n))\<rparr>;
               n = n\<lparr>client_xlat_map := snd (tree_delete ops (mem64 client_addr) (client_xlat_map n))\<rparr> in
           (Inr (client_addr, ucast client_offset), n))
      | _ \<Rightarrow> (Inl 0, n))"

definition notify_write_step ::
  "'t resource_tree_ops \<Rightarrow> 'n psock_ops \<Rightarrow> send_env \<Rightarrow>
     ('t, 'n) protocolservice_notificationservice_fiber_context \<times> ('t, 's) protocolservice_context \<Rightarrow>
     status \<times> ('t, 'n) protocolservice_notificationservice_fiber_context \<times> ('t, 's) protocolservice_context" where
  "notify_write_step ops ps env = (\<lambda>(n, ctx).
     case notificationservice_api_recvresp ps (notifysock n) of
       (Inl st, sock) \<Rightarrow> (st, n\<lparr>notifysock := sock\<rparr>, ctx)
     | (Inr buf, sock) \<Rightarrow>
     let n = n\<lparr>notifysock := sock\<rparr>;
         cleanup_buf = (\<lambda>retval n ctx. case rcpr_allocator_reclaim ps (notifysock n) of (release_retval, sock) \<Rightarrow>
                                         (released release_retval retval, n\<lparr>notifysock := sock\<rparr>, ctx)) in
     case notificationservice_api_decode_response buf of
       Inl st \<Rightarrow> cleanup_buf st n ctx
     | Inr (method_id, status_code, offset, payload) \<Rightarrow>
     case protocolservice_notificationservice_lookup_return_address_from_offset ops offset n of (found, n) \<Rightarrow>
     let return_method_id = (if method_id = AGENTD_NOTIFICATIONSERVICE_API_METHOD_ID_BLOCK_ASSERTION_CANCEL
                             then UNAUTH_PROTOCOL_REQ_ID_ASSERT_LATEST_BLOCK_ID_CANCEL else UNAUTH_PROTOCOL_REQ_ID_ASSERT_LATEST_BLOCK_ID) in
     case found of
       Inl _ \<Rightarrow> cleanup_buf AGENTD_STATUS_SUCCESS n ctx
     | Inr (return_address, return_offset) \<Rightarrow>
     case protocolservice_protocol_write_endpoint_message_create env
            PROTOCOLSERVICE_PROTOCOL_WRITE_ENDPOINT_NOTIFICATION_MSG return_method_id return_offset None of
       Inl st \<Rightarrow> cleanup_buf st n ctx
     | Inr m \<Rightarrow>
     case send_message env return_address (notify_addr n) (Write_endpoint m) ctx of (retval, ctx) \<Rightarrow>
     cleanup_buf retval n ctx)"

subsection \<open>The fibers\<close>

text \<open>
  Receiving a message and reading from the socket let the other fibers run, which may
  change both contexts: \<open>recv k\<close> and \<open>others k\<close> of turn \<open>k\<close>.
\<close>

record notify_release_env =
  notify_addr_close_st :: status
  notifysock_release_st :: status
  client_map_release_st :: status
  server_map_release_st :: status
  notify_reclaim_st :: status

definition protocolservice_notificationservice_fiber_context_release ::
  "notify_release_env \<Rightarrow> ('t, 'n) protocolservice_notificationservice_fiber_context \<Rightarrow>
     status \<times> ('t, 'n) protocolservice_notificationservice_fiber_context" where
  "protocolservice_notificationservice_fiber_context_release env n =
     (let n = n\<lparr>notify_reference_count := notify_reference_count n - 1\<rparr> in
      if notify_reference_count n > 0 then (AGENTD_STATUS_SUCCESS, n) else
      (first_error [if notify_addr n > 0 then notify_addr_close_st env else AGENTD_STATUS_SUCCESS,
                    notifysock_release_st env, client_map_release_st env, server_map_release_st env, notify_reclaim_st env], n))"

partial_function (option) notify_endpoint_loop ::
  "'t resource_tree_ops \<Rightarrow> 'n psock_ops \<Rightarrow>
     (nat \<Rightarrow> ('t, 'n) protocolservice_notificationservice_fiber_context \<times> ('t, 's) protocolservice_context \<Rightarrow>
       (status + protocolservice_notificationservice_block_assertion_request \<times> 64 word) \<times>
       ('t, 'n) protocolservice_notificationservice_fiber_context \<times> ('t, 's) protocolservice_context) \<Rightarrow>
     (nat \<Rightarrow> notify_endpoint_env) \<Rightarrow> nat \<Rightarrow> ('t, 'n) protocolservice_notificationservice_fiber_context \<times> ('t, 's) protocolservice_context \<Rightarrow>
     (status \<times> ('t, 'n) protocolservice_notificationservice_fiber_context \<times> ('t, 's) protocolservice_context) option" where
  "notify_endpoint_loop ops ps recv envs k s =
     (case recv k s of
        (Inl st, s) \<Rightarrow> Some (st, s)
      | (Inr (req, return_address), s) \<Rightarrow>
      case notify_endpoint_step ops ps (envs k) req return_address s of (retval, s) \<Rightarrow>
      if retval \<noteq> AGENTD_STATUS_SUCCESS then Some (retval, s) else notify_endpoint_loop ops ps recv envs (k + 1) s)"

definition protocolservice_notificationservice_endpoint_fiber_entry ::
  "'t resource_tree_ops \<Rightarrow> 'n psock_ops \<Rightarrow>
     (nat \<Rightarrow> ('t, 'n) protocolservice_notificationservice_fiber_context \<times> ('t, 's) protocolservice_context \<Rightarrow>
       (status + protocolservice_notificationservice_block_assertion_request \<times> 64 word) \<times>
       ('t, 'n) protocolservice_notificationservice_fiber_context \<times> ('t, 's) protocolservice_context) \<Rightarrow>
     (nat \<Rightarrow> notify_endpoint_env) \<Rightarrow> notify_release_env \<Rightarrow>
     ('t, 'n) protocolservice_notificationservice_fiber_context \<times> ('t, 's) protocolservice_context \<Rightarrow>
     (status \<times> ('t, 'n) protocolservice_notificationservice_fiber_context \<times> ('t, 's) protocolservice_context) option" where
  "protocolservice_notificationservice_endpoint_fiber_entry ops ps recv envs renv s =
     (case notify_endpoint_loop ops ps recv envs 0 s of
        None \<Rightarrow> None
      | Some (retval, n, ctx) \<Rightarrow>
      case protocolservice_notificationservice_fiber_context_release renv n of (release_retval, n) \<Rightarrow>
      Some (released release_retval retval, n, ctx))"

text \<open>
  When the service quiesces the loop of the writer falls into the cleanup of its errors,
  which releases the buffer of the last response a second time, or one that was never read:
  undefined behaviour.
\<close>

partial_function (option) notify_write_loop ::
  "'t resource_tree_ops \<Rightarrow> 'n psock_ops \<Rightarrow>
     (nat \<Rightarrow> ('t, 'n) protocolservice_notificationservice_fiber_context \<times> ('t, 's) protocolservice_context \<Rightarrow>
       ('t, 'n) protocolservice_notificationservice_fiber_context \<times> ('t, 's) protocolservice_context) \<Rightarrow>
     (nat \<Rightarrow> send_env) \<Rightarrow> nat \<Rightarrow> ('t, 'n) protocolservice_notificationservice_fiber_context \<times> ('t, 's) protocolservice_context \<Rightarrow>
     (status \<times> ('t, 'n) protocolservice_notificationservice_fiber_context \<times> ('t, 's) protocolservice_context) option" where
  "notify_write_loop ops ps others envs k s =
     (if ps_quiesce (snd s) then None else
      case notify_write_step ops ps (envs k) (others k s) of (retval, s) \<Rightarrow>
      if retval \<noteq> AGENTD_STATUS_SUCCESS then Some (retval, s) else notify_write_loop ops ps others envs (k + 1) s)"

definition protocolservice_notificationservice_write_endpoint_fiber_entry ::
  "'t resource_tree_ops \<Rightarrow> 'n psock_ops \<Rightarrow>
     (nat \<Rightarrow> ('t, 'n) protocolservice_notificationservice_fiber_context \<times> ('t, 's) protocolservice_context \<Rightarrow>
       ('t, 'n) protocolservice_notificationservice_fiber_context \<times> ('t, 's) protocolservice_context) \<Rightarrow>
     (nat \<Rightarrow> send_env) \<Rightarrow> notify_release_env \<Rightarrow>
     ('t, 'n) protocolservice_notificationservice_fiber_context \<times> ('t, 's) protocolservice_context \<Rightarrow>
     (status \<times> ('t, 'n) protocolservice_notificationservice_fiber_context \<times> ('t, 's) protocolservice_context) option" where
  "protocolservice_notificationservice_write_endpoint_fiber_entry ops ps others envs renv s =
     (case notify_write_loop ops ps others envs 0 s of
        None \<Rightarrow> None
      | Some (retval, n, ctx) \<Rightarrow>
      case protocolservice_notificationservice_fiber_context_release renv n of (release_retval, n) \<Rightarrow>
      Some (released release_retval retval, n, ctx))"

text \<open>
  Creation of the context and of both fibers.  The statuses of the calls are numbered in the order
  of the code.  When the second fiber cannot be created the context is freed although
  the first one, which uses it, is in the scheduler already: the result is \<open>None\<close>.
\<close>

record notify_add_env =
  notify_add_st :: "nat \<Rightarrow> status"
  notify_mailbox :: "status + 64 word"
  notify_add_release_st :: "nat \<Rightarrow> status"

definition protocolservice_notificationservice_endpoint_add ::
  "'t resource_tree_ops \<Rightarrow> notify_add_env \<Rightarrow> 'n \<Rightarrow> (status + ('t, 'n) protocolservice_notificationservice_fiber_context) option" where
  "protocolservice_notificationservice_endpoint_add ops env sock =
     (let st = notify_add_st env;
          cleanup_context = (\<lambda>retval. Some (Inl (released (notify_add_release_st env 0) retval)));
          cleanup_fiber = (\<lambda>retval. cleanup_context (released (notify_add_release_st env 1) retval));
          cleanup_inner = (\<lambda>retval. cleanup_fiber (released (notify_add_release_st env 2) retval));
          cleanup_writer = (\<lambda>retval. Some (Inl (released (notify_add_release_st env 3) retval))) in
      if st 0 \<noteq> AGENTD_STATUS_SUCCESS then Some (Inl (st 0)) else
      case notify_mailbox env of
        Inl retval \<Rightarrow> cleanup_context retval
      | Inr addr \<Rightarrow>
      if st 1 \<noteq> AGENTD_STATUS_SUCCESS then cleanup_context (st 1) else
      if st 2 \<noteq> AGENTD_STATUS_SUCCESS then cleanup_fiber (st 2) else
      if st 3 \<noteq> AGENTD_STATUS_SUCCESS then cleanup_fiber (st 3) else
      if st 4 \<noteq> AGENTD_STATUS_SUCCESS then cleanup_inner (st 4) else
      if st 5 \<noteq> AGENTD_STATUS_SUCCESS then cleanup_fiber (st 5) else
      if st 6 \<noteq> AGENTD_STATUS_SUCCESS then cleanup_fiber (st 6) else
      if st 7 \<noteq> AGENTD_STATUS_SUCCESS then cleanup_fiber (st 7) else
      if st 8 \<noteq> AGENTD_STATUS_SUCCESS then None else
      if st 9 \<noteq> AGENTD_STATUS_SUCCESS then cleanup_writer (st 9) else
      if st 10 \<noteq> AGENTD_STATUS_SUCCESS then cleanup_writer (st 10) else
      Some (Inr \<lparr> notify_addr = addr, notifysock = sock, client_xlat_map = tree_empty ops, server_xlat_map = tree_empty ops,
                  notify_reference_count = 2, request_offset_counter = 0 \<rparr>))"

end
