(* ===== verification/Proto_Notify_Correct.thy ===== *)
theory Proto_Notify_Correct
  imports Proto_Notify "HOL-Library.Multiset"
begin

text \<open>
  What the notification endpoint promises: a response of the notification service is sent on to
  the connection that made the assertion, under the offset of its request, and an
  assertion is answered at most once.
\<close>

text \<open>Deleting a key that is there succeeds; the code relies on it without a test.\<close>

locale deleting_tree = resource_tree +
  assumes delete_ok: "lookup t k \<noteq> None \<Longrightarrow> fst (tree_delete ops k t) = AGENTD_STATUS_SUCCESS"
begin

lemma delete_present: "lookup t k \<noteq> None \<Longrightarrow> lookup (snd (tree_delete ops k t)) = (lookup t)(k := None)"
  using delete_ok [of t k] delete_law [of k t "snd (tree_delete ops k t)"] by (metis prod.collapse)

end

interpretation rbt_deletes: deleting_tree rbt_ops RBT.lookup
  by unfold_locales (auto simp: rbt_ops_def)

subsection \<open>Pending assertions\<close>

definition pending :: "('t \<Rightarrow> bytes \<rightharpoonup> ps_resource) \<Rightarrow> ('t, 'n) protocolservice_notificationservice_fiber_context \<Rightarrow> 64 word \<rightharpoonup> 64 word \<times> 32 word" where
  "pending lookup n offset =
     (case lookup (server_xlat_map n) (mem64 offset) of
        Some (Notify_entry client_addr _ client_offset) \<Rightarrow> Some (client_addr, ucast client_offset)
      | _ \<Rightarrow> None)"

definition offsets_issued :: "('t \<Rightarrow> bytes \<rightharpoonup> ps_resource) \<Rightarrow> ('t, 'n) protocolservice_notificationservice_fiber_context \<Rightarrow> bool" where
  "offsets_issued lookup n \<longleftrightarrow>
     (\<forall>k r. lookup (server_xlat_map n) k = Some r \<longrightarrow>
        (\<exists>a offset o'. r = Notify_entry a offset o' \<and> k = mem64 offset \<and> offset \<le> request_offset_counter n))"

lemma pending_sock [simp]: "pending lookup (n\<lparr>notifysock := s\<rparr>) = pending lookup n" "offsets_issued lookup (n\<lparr>notifysock := s\<rparr>) = offsets_issued lookup n"
  by (simp_all add: pending_def offsets_issued_def fun_eq_iff)

lemma pending_issued: "offsets_issued lookup n \<Longrightarrow> pending lookup n offset \<noteq> None \<Longrightarrow> offset \<le> request_offset_counter n"
  by (auto simp: offsets_issued_def pending_def split: option.splits ps_resource.splits) (metis mem64_inject option.inject ps_resource.inject(6))

context deleting_tree
begin

lemma xlat_add_pending:
  assumes "protocolservice_notificationservice_xlat_map_add ops env offset a o' n = (st, n')"
  shows "pending lookup n' = (pending lookup n)(offset \<mapsto> (a, o')) \<or> pending lookup n' = pending lookup n"
    and "offsets_issued lookup n \<Longrightarrow> offset \<le> request_offset_counter n \<Longrightarrow> offsets_issued lookup n'"
    and "request_offset_counter n' = request_offset_counter n"
proof -
  let ?e = "Notify_entry a offset (ucast o')"
  have cast: "ucast (ucast o' :: 64 word) = (o' :: 32 word)" by (simp add: unsigned_ucast_eq take_bit_word_eq_self)
  obtain c t st' where n': "n' = n \<or> n' = n\<lparr>client_xlat_map := c\<rparr> \<or>
      n' = n\<lparr>client_xlat_map := c, server_xlat_map := t\<rparr> \<and> tree_insert ops (mem64 offset) ?e (server_xlat_map n) = (st', t)"
    using assms by (auto simp: protocolservice_notificationservice_xlat_map_add_def Let_def protocolservice_notificationservice_server_xlat_map_key_def
        split: if_splits prod.splits)
  have t: "lookup t = (if st' = AGENTD_STATUS_SUCCESS then (lookup (server_xlat_map n))(mem64 offset \<mapsto> ?e) else lookup (server_xlat_map n))"
    if "tree_insert ops (mem64 offset) ?e (server_xlat_map n) = (st', t)" using insert_result [OF that] .
  show "pending lookup n' = (pending lookup n)(offset \<mapsto> (a, o')) \<or> pending lookup n' = pending lookup n"
    using n' t cast by (auto simp: pending_def fun_eq_iff)
  show "offsets_issued lookup n \<Longrightarrow> offset \<le> request_offset_counter n \<Longrightarrow> offsets_issued lookup n'"
    using n' t by (auto simp: offsets_issued_def split: if_splits)
  show "request_offset_counter n' = request_offset_counter n" using n' by auto
qed

lemma lookup_pending:
  assumes "protocolservice_notificationservice_lookup_return_address_from_offset ops offset n = (found, n')" and "offsets_issued lookup n"
  shows "case found of Inr x \<Rightarrow> pending lookup n offset = Some x \<and> pending lookup n' = (pending lookup n)(offset := None)
                     | Inl _ \<Rightarrow> pending lookup n offset = None \<and> n' = n"
    and "offsets_issued lookup n'" and "request_offset_counter n' = request_offset_counter n" and "notifysock n' = notifysock n"
proof -
  show "case found of Inr x \<Rightarrow> pending lookup n offset = Some x \<and> pending lookup n' = (pending lookup n)(offset := None)
                     | Inl _ \<Rightarrow> pending lookup n offset = None \<and> n' = n"
  proof (cases "lookup (server_xlat_map n) (mem64 offset)")
    case None
    then obtain st where "tree_find ops (mem64 offset) (server_xlat_map n) = Inl st"
      by (rule_tac find_cases [of "mem64 offset" "server_xlat_map n"]) auto
    then show ?thesis using assms(1) None
      by (auto simp: protocolservice_notificationservice_lookup_return_address_from_offset_def pending_def)
  next
    case (Some r)
    then obtain a o' where "r = Notify_entry a offset o'" using assms(2) unfolding offsets_issued_def by fastforce
    then show ?thesis using assms(1) Some find_law [of "mem64 offset" "server_xlat_map n" r] delete_present [of "server_xlat_map n" "mem64 offset"]
      by (auto simp: protocolservice_notificationservice_lookup_return_address_from_offset_def pending_def fun_eq_iff Let_def)
  qed
  show "request_offset_counter n' = request_offset_counter n" "notifysock n' = notifysock n"
    using assms(1) by (auto simp: protocolservice_notificationservice_lookup_return_address_from_offset_def Let_def split: sum.splits ps_resource.splits)
  show "offsets_issued lookup n'"
    using assms delete_result [OF surjective_pairing]
    by (auto simp: protocolservice_notificationservice_lookup_return_address_from_offset_def offsets_issued_def Let_def split: sum.splits ps_resource.splits if_splits)
qed

text \<open>An assertion, and a response.\<close>

lemma endpoint_pending:
  assumes "notify_endpoint_step ops ps env req ret (n, ctx) = (st, n', ctx')" and "offsets_issued lookup n"
  shows "areq_cancel req \<Longrightarrow> pending lookup n' = pending lookup n \<and> request_offset_counter n' = request_offset_counter n \<and> offsets_issued lookup n'"
    and "\<not> areq_cancel req \<Longrightarrow> request_offset_counter n < request_offset_counter n + 1 \<Longrightarrow>
      (pending lookup n' = (pending lookup n)(request_offset_counter n + 1 \<mapsto> (areq_reply_addr req, areq_offset req)) \<or> pending lookup n' = pending lookup n) \<and>
      request_offset_counter n' = request_offset_counter n + 1 \<and> offsets_issued lookup n'"
proof -
  show "areq_cancel req \<Longrightarrow> pending lookup n' = pending lookup n \<and> request_offset_counter n' = request_offset_counter n \<and> offsets_issued lookup n'"
    using assms by (auto simp: notify_endpoint_step_def Let_def split: sum.splits prod.splits if_splits)
  assume "\<not> areq_cancel req" and less: "request_offset_counter n < request_offset_counter n + 1"
  let ?n = "n\<lparr>request_offset_counter := request_offset_counter n + 1\<rparr>"
  obtain st1 n1 s where add: "protocolservice_notificationservice_xlat_map_add ops env (request_offset_counter n + 1) (areq_reply_addr req) (areq_offset req) ?n = (st1, n1)"
    and n': "n' = n1 \<or> n' = n1\<lparr>notifysock := s\<rparr>"
    using assms(1) \<open>\<not> areq_cancel req\<close> by (auto simp: notify_endpoint_step_def Let_def split: prod.splits if_splits)
  have "offsets_issued lookup ?n" using assms(2) less by (fastforce simp: offsets_issued_def)
  moreover have "pending lookup ?n = pending lookup n" by (simp add: pending_def fun_eq_iff)
  ultimately show "(pending lookup n' = (pending lookup n)(request_offset_counter n + 1 \<mapsto> (areq_reply_addr req, areq_offset req)) \<or> pending lookup n' = pending lookup n) \<and>
      request_offset_counter n' = request_offset_counter n + 1 \<and> offsets_issued lookup n'"
    using xlat_add_pending [OF add] n' by auto
qed

end

text \<open>The notices among the messages: where they go and the offset they carry.\<close>

definition notices :: "ps_message list \<Rightarrow> (64 word \<times> 32 word) list" where
  "notices ms = concat (map (\<lambda>m. case msg_payload m of Write_endpoint p \<Rightarrow> [(msg_to m, pwe_offset p)] | _ \<Rightarrow> []) ms)"

context deleting_tree
begin

lemma write_pending:
  assumes "notify_write_step ops ps env (n, ctx) = (st, n', ctx')" and "offsets_issued lookup n"
  shows "\<exists>ms. ps_messages ctx' = ps_messages ctx @ ms \<and>
      (notices ms = [] \<and> pending lookup n' = pending lookup n \<or>
       (\<exists>offset x. pending lookup n offset = Some x \<and> (notices ms = [x] \<or> notices ms = []) \<and> pending lookup n' = (pending lookup n)(offset := None)))"
      (is "?notice n' ctx'")
    and "offsets_issued lookup n'" and "request_offset_counter n' = request_offset_counter n"
proof -
  obtain r s where read: "notificationservice_api_recvresp ps (notifysock n) = (r, s)" by fastforce
  let ?n = "n\<lparr>notifysock := s\<rparr>"
  have kept: "?notice (n\<lparr>notifysock := s'\<rparr>) ctx" for s' by (rule exI [of _ "[]"]) (simp add: notices_def)
  have "?notice n' ctx' \<and> offsets_issued lookup n' \<and> request_offset_counter n' = request_offset_counter n"
  proof (cases "\<exists>buf x. r = Inr buf \<and> notificationservice_api_decode_response buf = Inr x")
    case False
    then obtain s' where "n' = n\<lparr>notifysock := s'\<rparr>" "ctx' = ctx"
      using assms(1) read by (auto simp: notify_write_step_def Let_def split: sum.splits prod.splits)
    then show ?thesis using kept assms(2) by auto
  next
    case True
    then obtain buf m c offset pl where d: "r = Inr buf" "notificationservice_api_decode_response buf = Inr (m, c, offset, pl)" by (metis prod.exhaust)
    obtain found n1 where l: "protocolservice_notificationservice_lookup_return_address_from_offset ops offset ?n = (found, n1)" by fastforce
    note p = lookup_pending [OF l, unfolded pending_sock, OF assms(2)]
    have "\<exists>ms s'. ps_messages ctx' = ps_messages ctx @ ms \<and> n' = n1\<lparr>notifysock := s'\<rparr> \<and>
        (case found of Inl _ \<Rightarrow> notices ms = [] | Inr x \<Rightarrow> notices ms = [x] \<or> notices ms = [])"
      using assms(1) read d l
      by (auto simp: notify_write_step_def Let_def protocolservice_protocol_write_endpoint_message_create_def send_message_def notices_def
          split: sum.splits prod.splits if_splits)
    then show ?thesis using p by (fastforce split: sum.splits)
  qed
  then show "?notice n' ctx'" "offsets_issued lookup n'" "request_offset_counter n' = request_offset_counter n" by blast+
qed

end

subsection \<open>Runs of the endpoint\<close>

text \<open>
  The two fibers of an endpoint in any order: the assertions that were taken and
  the notices that were sent.  A step may fail; other fibers may use the socket.
\<close>

inductive notify_run ::
  "'t resource_tree_ops \<Rightarrow> 'n psock_ops \<Rightarrow> ('t, 'n) protocolservice_notificationservice_fiber_context \<Rightarrow> ('t, 's) protocolservice_context \<Rightarrow>
     (64 word \<times> 32 word) list \<Rightarrow> (64 word \<times> 32 word) list \<Rightarrow> bool"
  for ops :: "'t resource_tree_ops" and ps :: "'n psock_ops" where
  added: "protocolservice_notificationservice_endpoint_add ops env sock = Some (Inr n) \<Longrightarrow> notify_run ops ps n ctx [] []"
| asserted: "notify_run ops ps n ctx as ns \<Longrightarrow> notify_endpoint_step ops ps env req ret (n, ctx) = (st, n', ctx') \<Longrightarrow> \<not> areq_cancel req \<Longrightarrow>
    notify_run ops ps n' ctx' (as @ [(areq_reply_addr req, areq_offset req)]) ns"
| cancelled: "notify_run ops ps n ctx as ns \<Longrightarrow> notify_endpoint_step ops ps env req ret (n, ctx) = (st, n', ctx') \<Longrightarrow> areq_cancel req \<Longrightarrow>
    notify_run ops ps n' ctx' as ns"
| notified: "notify_run ops ps n ctx as ns \<Longrightarrow> notify_write_step ops ps env (n, ctx) = (st, n', ctx') \<Longrightarrow> ps_messages ctx' = ps_messages ctx @ ms \<Longrightarrow>
    notify_run ops ps n' ctx' as (ns @ notices ms)"
| other: "notify_run ops ps n ctx as ns \<Longrightarrow> notify_run ops ps (n\<lparr>notifysock := s\<rparr>) ctx' as ns"

definition pending_mset :: "('t \<Rightarrow> bytes \<rightharpoonup> ps_resource) \<Rightarrow> ('t, 'n) protocolservice_notificationservice_fiber_context \<Rightarrow> (64 word \<times> 32 word) multiset" where
  "pending_mset lookup n = image_mset (\<lambda>offset. the (pending lookup n offset)) (mset_set (dom (pending lookup n)))"

lemma map_mset_upd:
  fixes m :: "'a::finite \<rightharpoonup> 'b"
  assumes "m k = None"
  shows "image_mset (\<lambda>x. the ((m(k \<mapsto> v)) x)) (mset_set (dom (m(k \<mapsto> v)))) = add_mset v (image_mset (\<lambda>x. the (m x)) (mset_set (dom m)))"
proof -
  have "k \<notin> dom m" using assms by auto
  moreover have "image_mset (\<lambda>x. the ((m(k \<mapsto> v)) x)) (mset_set (dom m)) = image_mset (\<lambda>x. the (m x)) (mset_set (dom m))"
    by (rule image_mset_cong) (use \<open>k \<notin> dom m\<close> in auto)
  ultimately show ?thesis by simp
qed

lemma map_mset_del:
  fixes m :: "'a::finite \<rightharpoonup> 'b"
  assumes "m k = Some v"
  shows "image_mset (\<lambda>x. the (m x)) (mset_set (dom m)) = add_mset v (image_mset (\<lambda>x. the ((m(k := None)) x)) (mset_set (dom (m(k := None)))))"
  using map_mset_upd [of "m(k := None)" k v] assms by (simp add: fun_upd_idem)

context deleting_tree
begin

lemma run_accounts:
  assumes "notify_run ops ps n ctx as ns" and "length as < 2 ^ 64"
  shows "mset ns + pending_mset lookup n \<subseteq># mset as \<and> offsets_issued lookup n \<and> unat (request_offset_counter n) = length as"
  using assms
proof (induction rule: notify_run.induct)
  case (added env sock n ctx)
  then have "n = \<lparr> notify_addr = notify_addr n, notifysock = sock, client_xlat_map = tree_empty ops, server_xlat_map = tree_empty ops,
      notify_reference_count = 2, request_offset_counter = 0 \<rparr>"
    by (auto simp: protocolservice_notificationservice_endpoint_add_def Let_def split: sum.splits if_splits)
  then have e: "server_xlat_map n = tree_empty ops" "request_offset_counter n = 0" by (metis (no_types) protocolservice_notificationservice_fiber_context.select_convs)+
  then have "pending lookup n = Map.empty" by (simp add: pending_def empty_law fun_eq_iff)
  then show ?case using e by (simp add: pending_mset_def offsets_issued_def empty_law)
next
  case (asserted n ctx as ns env req ret st n' ctx')
  let ?k = "request_offset_counter n + 1" and ?x = "(areq_reply_addr req, areq_offset req)"
  have IH: "mset ns + pending_mset lookup n \<subseteq># mset as" "offsets_issued lookup n" "unat (request_offset_counter n) = length as"
    using asserted.IH asserted.prems by simp_all
  have k: "unat ?k = Suc (length as)" using IH(3) asserted.prems by (simp add: unat_word_ariths(1))
  then have less: "request_offset_counter n < ?k" using IH(3) by (simp add: word_less_nat_alt)
  then have "pending lookup n ?k = None" using pending_issued [OF IH(2), of ?k] by (meson linorder_not_le)
  note add = map_mset_upd [of "pending lookup n" ?k ?x, OF this]
  note step = endpoint_pending(2) [OF asserted.hyps(2) IH(2) asserted.hyps(3) less]
  have "pending_mset lookup n' = add_mset ?x (pending_mset lookup n) \<or> pending_mset lookup n' = pending_mset lookup n"
    using step add by (auto simp: pending_mset_def)
  moreover have "mset as \<subseteq># mset (as @ [?x])" by simp
  ultimately have "mset ns + pending_mset lookup n' \<subseteq># mset (as @ [?x])"
    using IH(1) subset_mset.order_trans by fastforce
  then show ?case using step k by simp
next
  case (cancelled n ctx as ns env req ret st n' ctx')
  then show ?case using endpoint_pending(1) by (fastforce simp: pending_mset_def)
next
  case (notified n ctx as ns env st n' ctx' ms)
  then have IH: "mset ns + pending_mset lookup n \<subseteq># mset as" "offsets_issued lookup n" "unat (request_offset_counter n) = length as" by simp_all
  note w = write_pending [OF notified.hyps(2) IH(2)]
  consider "notices ms = []" "pending lookup n' = pending lookup n"
    | k x where "pending lookup n k = Some x" "notices ms = [x] \<or> notices ms = []" "pending lookup n' = (pending lookup n)(k := None)"
    using w(1) notified.hyps(3) by auto
  then have "mset (ns @ notices ms) + pending_mset lookup n' \<subseteq># mset ns + pending_mset lookup n"
  proof cases
    case 1
    then show ?thesis by (simp add: pending_mset_def)
  next
    case (2 k x)
    then show ?thesis using map_mset_del [of "pending lookup n" k x] by (auto simp: pending_mset_def)
  qed
  from subset_mset.order_trans [OF this IH(1)] show ?case using IH(3) w(2,3) by simp
next
  case (other n ctx as ns s ctx')
  then show ?case by (simp add: pending_mset_def)
qed

end

text \<open>
  C20. The notification endpoint answers an assertion at most once, and to the right client.
  In any interleaving of its two fibers, with failing calls, cancellations and responses
  of the notification service in any order, repeated or invented, the notices sent, each with its
  address and its offset, are among the assertions taken, counted with their number; and the
  assertions that are pending are taken and not yet answered.  There are fewer than 2^64
  assertions, so that the offsets do not wrap around.
\<close>

theorem notices_answer_assertions:
  assumes "deleting_tree ops lookup" and "notify_run ops ps n ctx as ns" and "length as < 2 ^ 64"
  shows "mset ns + pending_mset lookup n \<subseteq># mset as"
  using deleting_tree.run_accounts [OF assms] by simp

text \<open>
  A run: connection 40 asserts under its offset 17, the notification service answers twice.
  The socket is a list of packets to read.
\<close>

definition answer_psock :: "bytes list psock_ops" where
  "answer_psock = \<lparr> psock_write_boxed_data = (\<lambda>b s. (0, s)),
     psock_read_boxed_data = (\<lambda>s. case s of [] \<Rightarrow> (Inl 1, []) | b # bs \<Rightarrow> (Inr b, bs)), rcpr_allocator_reclaim = (\<lambda>s. (0, s)) \<rparr>"

definition notify_add_ok :: notify_add_env where
  "notify_add_ok = \<lparr> notify_add_st = (\<lambda>_. 0), notify_mailbox = Inr 60, notify_add_release_st = (\<lambda>_. 0) \<rparr>"

definition send_ok :: send_env where
  "send_ok = \<lparr> encode_st = 0, payload_st = 0, message_st = 0, send_st = 0, release_st = 0 \<rparr>"

definition notify_env_ok :: notify_endpoint_env where
  "notify_env_ok = \<lparr> xlat_alloc_st = 0, xlat_free_st = 0, notify_sendreq_st = 0, notify_reply_env = send_ok, assertion_free_st = 0 \<rparr>"

definition idle_ctx :: "((bytes, ps_resource) rbt, unit) protocolservice_context" where
  "idle_ctx = \<lparr> data_endpoint_addr = 1, random_endpoint_addr = 2, notificationservice_endpoint_addr = 60, authorized_entity_dict = RBT.empty,
     ps_entities = [], extended_api_dict = RBT.empty, agentd_uuid = [], agentd_enc_pubkey = [], agentd_enc_privkey = [], agentd_sign_pubkey = [],
     agentd_sign_privkey = [], private_key_set = False, ps_quiesce = False, ps_terminate = False, ps_fibers = [], ps_messages = [] \<rparr>"

definition notify_created :: "((bytes, ps_resource) rbt, bytes list) protocolservice_notificationservice_fiber_context" where
  "notify_created = \<lparr> notify_addr = 60, notifysock = replicate 2 (net32 2 @ net64 1 @ net32 0), client_xlat_map = RBT.empty, server_xlat_map = RBT.empty,
     notify_reference_count = 2, request_offset_counter = 0 \<rparr>"

definition sample_assertion :: protocolservice_notificationservice_block_assertion_request where
  "sample_assertion = \<lparr> areq_offset = 17, areq_block_id = replicate 16 9, areq_reply_addr = 40, areq_cancel = False \<rparr>"

definition notify_asserted :: "((bytes, ps_resource) rbt, bytes list) protocolservice_notificationservice_fiber_context \<times> ((bytes, ps_resource) rbt, unit) protocolservice_context" where
  "notify_asserted = snd (notify_endpoint_step rbt_ops answer_psock notify_env_ok sample_assertion 41 (notify_created, idle_ctx))"

definition notify_answered :: "((bytes, ps_resource) rbt, bytes list) protocolservice_notificationservice_fiber_context \<times> ((bytes, ps_resource) rbt, unit) protocolservice_context" where
  "notify_answered = snd (notify_write_step rbt_ops answer_psock send_ok notify_asserted)"

lemma sample_notices:
  "ps_messages (snd notify_answered) = ps_messages (snd notify_asserted) @ [\<lparr> msg_to = 40, msg_return = 60, msg_payload =
     Write_endpoint \<lparr> pwe_message_type = 3, pwe_original_request_id = 0x30, pwe_offset = 17, pwe_payload = [] \<rparr> \<rparr>]"
  "ps_messages (snd (snd (notify_write_step rbt_ops answer_psock send_ok notify_answered))) = ps_messages (snd notify_answered) @ []"
  by code_simp+

lemma sample_notify_run:
  "notify_run rbt_ops answer_psock (fst (snd (notify_write_step rbt_ops answer_psock send_ok notify_answered)))
     (snd (snd (notify_write_step rbt_ops answer_psock send_ok notify_answered))) [(40, 17)] [(40, 17)]"
proof -
  have "protocolservice_notificationservice_endpoint_add rbt_ops notify_add_ok (notifysock notify_created) = Some (Inr notify_created)"
    by (simp add: protocolservice_notificationservice_endpoint_add_def notify_add_ok_def notify_created_def rbt_ops_def)
  then have "notify_run rbt_ops answer_psock notify_created idle_ctx [] []" by (rule notify_run.added)
  from notify_run.asserted [OF this, of notify_env_ok sample_assertion 41 _ "fst notify_asserted" "snd notify_asserted"]
  have "notify_run rbt_ops answer_psock (fst notify_asserted) (snd notify_asserted) [(40, 17)] []"
    by (simp add: notify_asserted_def sample_assertion_def prod_eq_iff)
  from notify_run.notified [OF this, of send_ok _ "fst notify_answered" "snd notify_answered", OF _ sample_notices(1)]
  have "notify_run rbt_ops answer_psock (fst notify_answered) (snd notify_answered) [(40, 17)] [(40, 17)]"
    by (simp add: notify_answered_def notices_def prod_eq_iff)
  from notify_run.notified [OF this _ sample_notices(2)] show ?thesis by (simp add: notices_def prod_eq_iff)
qed

theorem notices_answer_assertions_witness:
  "\<exists>n. mset [(40, 17)] + pending_mset RBT.lookup (n :: ((bytes, ps_resource) rbt, bytes list) protocolservice_notificationservice_fiber_context) \<subseteq># mset [(40, 17)]"
  by (rule exI, rule notices_answer_assertions [OF rbt_deletes.deleting_tree_axioms sample_notify_run]) simp

end
