(* ===== verification/Proto_Service.thy ===== *)
theory Proto_Service
  imports Proto_Notify Proto_Control Random_Service
begin

text \<open>
  The remaining fibers of the protocol service: the endpoints of the random and
  of the data service, the fiber that accepts connections and the
  creation of the fibers.  The calls of the process runtime library, their failures and what
  other fibers do between turns are environments, as in the theories before.
\<close>

subsection \<open>The random endpoint\<close>

record 'r protocolservice_random_endpoint_context =
  random_addr :: "64 word"
  randomsock :: 'r

definition protocolservice_random_response_message_create :: "status \<Rightarrow> status + bytes" where
  "protocolservice_random_response_message_create alloc_st = (if alloc_st \<noteq> AGENTD_STATUS_SUCCESS then Inl alloc_st else Inr [])"

record random_endpoint_env =
  random_reply_env :: send_env
  random_malloc :: bool
  random_reply_free_st :: status
  random_request_free_st :: status

text \<open>One turn: a request for \<open>size\<close> bytes of the fiber at \<open>return_address\<close>.\<close>

definition random_endpoint_step ::
  "'r psock_ops \<Rightarrow> random_endpoint_env \<Rightarrow> nat \<Rightarrow> 64 word \<Rightarrow> 'r protocolservice_random_endpoint_context \<times> ('t, 's) protocolservice_context \<Rightarrow>
     status \<times> 'r protocolservice_random_endpoint_context \<times> ('t, 's) protocolservice_context" where
  "random_endpoint_step ps env req_size return_address = (\<lambda>(r, ctx).
     let cleanup_req_msg = (\<lambda>retval r ctx. (released (random_request_free_st env) retval, r, ctx));
         cleanup_reply_payload = (\<lambda>retval r ctx. cleanup_req_msg (released (random_reply_free_st env) retval) r ctx) in
     case protocolservice_random_response_message_create (payload_st (random_reply_env env)) of
       Inl st \<Rightarrow> cleanup_req_msg st r ctx
     | Inr _ \<Rightarrow>
     case random_service_api_sendreq_random_bytes_get ps 0 (of_nat req_size) (randomsock r) of (retval, sock) \<Rightarrow>
     let r = r\<lparr>randomsock := sock\<rparr> in
     if retval \<noteq> AGENTD_STATUS_SUCCESS then cleanup_reply_payload retval r ctx else
     case random_service_api_recvresp_random_bytes_get ps (random_malloc env) (randomsock r) of (res, sock) \<Rightarrow>
     let r = r\<lparr>randomsock := sock\<rparr> in
     if api_retval res \<noteq> AGENTD_STATUS_SUCCESS then cleanup_reply_payload (api_retval res) r ctx else
     let reply = (case api_payload res of Some (_, Some b) \<Rightarrow> b | _ \<Rightarrow> []) in
     case send_message (random_reply_env env) return_address (random_addr r) (Random_response reply) ctx of (retval, ctx) \<Rightarrow>
     cleanup_req_msg retval r ctx)"

partial_function (option) random_endpoint_loop ::
  "'r psock_ops \<Rightarrow>
     (nat \<Rightarrow> 'r protocolservice_random_endpoint_context \<times> ('t, 's) protocolservice_context \<Rightarrow>
       (status + nat \<times> 64 word) \<times> 'r protocolservice_random_endpoint_context \<times> ('t, 's) protocolservice_context) \<Rightarrow>
     (nat \<Rightarrow> random_endpoint_env) \<Rightarrow> nat \<Rightarrow> 'r protocolservice_random_endpoint_context \<times> ('t, 's) protocolservice_context \<Rightarrow>
     (status \<times> 'r protocolservice_random_endpoint_context \<times> ('t, 's) protocolservice_context) option" where
  "random_endpoint_loop ps recv envs k s =
     (case recv k s of
        (Inl st, s) \<Rightarrow> Some (st, s)
      | (Inr (req_size, return_address), s) \<Rightarrow>
      case random_endpoint_step ps (envs k) req_size return_address s of (retval, s) \<Rightarrow>
      if retval \<noteq> AGENTD_STATUS_SUCCESS then Some (retval, s) else random_endpoint_loop ps recv envs (k + 1) s)"

record random_release_env =
  random_mailbox_close_st :: status
  randomsock_release_st :: status
  random_reclaim_st :: status

definition protocolservice_random_endpoint_context_release :: "random_release_env \<Rightarrow> 'r protocolservice_random_endpoint_context \<Rightarrow> status" where
  "protocolservice_random_endpoint_context_release env r =
     first_error [if random_addr r > 0 then random_mailbox_close_st env else AGENTD_STATUS_SUCCESS, randomsock_release_st env, random_reclaim_st env]"

definition protocolservice_random_endpoint_fiber_entry ::
  "'r psock_ops \<Rightarrow>
     (nat \<Rightarrow> 'r protocolservice_random_endpoint_context \<times> ('t, 's) protocolservice_context \<Rightarrow>
       (status + nat \<times> 64 word) \<times> 'r protocolservice_random_endpoint_context \<times> ('t, 's) protocolservice_context) \<Rightarrow>
     (nat \<Rightarrow> random_endpoint_env) \<Rightarrow> random_release_env \<Rightarrow> 'r protocolservice_random_endpoint_context \<times> ('t, 's) protocolservice_context \<Rightarrow>
     (status \<times> ('t, 's) protocolservice_context) option" where
  "protocolservice_random_endpoint_fiber_entry ps recv envs renv s =
     (case random_endpoint_loop ps recv envs 0 s of
        None \<Rightarrow> None
      | Some (retval, r, ctx) \<Rightarrow> Some (released (protocolservice_random_endpoint_context_release renv r) retval, ctx))"

text \<open>
  The fibers are created alike: \<open>service_st\<close> numbers the calls in the order of the code, with
  the mailbox where there is one, and \<open>service_release_st\<close> the releases of the context, of the fiber and
  of the inner socket.
\<close>

record service_add_env =
  service_st :: "nat \<Rightarrow> status"
  service_mailbox :: "status + 64 word"
  service_release_st :: "nat \<Rightarrow> status"

definition protocolservice_randomservice_endpoint_add :: "service_add_env \<Rightarrow> 'r \<Rightarrow> status + 'r protocolservice_random_endpoint_context" where
  "protocolservice_randomservice_endpoint_add env sock =
     (let st = service_st env;
          cleanup_context = (\<lambda>retval. Inl (released (service_release_st env 0) retval));
          cleanup_fiber = (\<lambda>retval. cleanup_context (released (service_release_st env 1) retval)) in
      if st 0 \<noteq> AGENTD_STATUS_SUCCESS then Inl (st 0) else
      if st 1 \<noteq> AGENTD_STATUS_SUCCESS then cleanup_context (st 1) else
      if st 2 \<noteq> AGENTD_STATUS_SUCCESS then cleanup_fiber (st 2) else
      if st 3 \<noteq> AGENTD_STATUS_SUCCESS then cleanup_fiber (st 3) else
      if st 4 \<noteq> AGENTD_STATUS_SUCCESS then cleanup_fiber (released (service_release_st env 2) (st 4)) else
      if st 5 \<noteq> AGENTD_STATUS_SUCCESS then cleanup_fiber (st 5) else
      case service_mailbox env of
        Inl retval \<Rightarrow> cleanup_fiber retval
      | Inr addr \<Rightarrow>
      if st 6 \<noteq> AGENTD_STATUS_SUCCESS then cleanup_fiber (st 6) else
      Inr \<lparr> random_addr = addr, randomsock = sock \<rparr>)"

subsection \<open>The data endpoint\<close>

definition protocolservice_dataservice_endpoint_add ::
  "'t resource_tree_ops \<Rightarrow> service_add_env \<Rightarrow> 'd \<Rightarrow> status + ('t, 'd) protocolservice_dataservice_endpoint_context" where
  "protocolservice_dataservice_endpoint_add ops env sock =
     (let st = service_st env;
          cleanup_context = (\<lambda>retval. Inl (released (service_release_st env 0) retval));
          cleanup_fiber = (\<lambda>retval. cleanup_context (released (service_release_st env 1) retval)) in
      if st 0 \<noteq> AGENTD_STATUS_SUCCESS then Inl (st 0) else
      if st 1 \<noteq> AGENTD_STATUS_SUCCESS then cleanup_context (st 1) else
      if st 2 \<noteq> AGENTD_STATUS_SUCCESS then cleanup_fiber (st 2) else
      if st 3 \<noteq> AGENTD_STATUS_SUCCESS then cleanup_fiber (st 3) else
      if st 4 \<noteq> AGENTD_STATUS_SUCCESS then cleanup_fiber (released (service_release_st env 2) (st 4)) else
      if st 5 \<noteq> AGENTD_STATUS_SUCCESS then cleanup_fiber (st 5) else
      case service_mailbox env of
        Inl retval \<Rightarrow> cleanup_fiber retval
      | Inr addr \<Rightarrow>
      if st 6 \<noteq> AGENTD_STATUS_SUCCESS then cleanup_fiber (st 6) else
      if st 7 \<noteq> AGENTD_STATUS_SUCCESS then cleanup_fiber (st 7) else
      if st 8 \<noteq> AGENTD_STATUS_SUCCESS then cleanup_fiber (st 8) else
      Inr \<lparr> endpoint_addr = addr, datasock = sock, mailbox_context_tree = tree_empty ops, context_mailbox_tree = tree_empty ops \<rparr>)"

record data_release_env =
  data_mailbox_close_st :: status
  datasock_release_st :: status
  mailbox_tree_release_st :: status
  context_tree_release_st :: status
  data_reclaim_st :: status

definition protocolservice_dataservice_endpoint_context_release ::
  "data_release_env \<Rightarrow> ('t, 'd) protocolservice_dataservice_endpoint_context \<Rightarrow> status" where
  "protocolservice_dataservice_endpoint_context_release env ep =
     first_error [if endpoint_addr ep > 0 then data_mailbox_close_st env else AGENTD_STATUS_SUCCESS, datasock_release_st env,
                  mailbox_tree_release_st env, context_tree_release_st env, data_reclaim_st env]"

partial_function (option) dataservice_endpoint_loop ::
  "'t resource_tree_ops \<Rightarrow> 'd psock_ops \<Rightarrow>
     (nat \<Rightarrow> ('t, 'd) protocolservice_dataservice_endpoint_context \<times> ('t, 's) protocolservice_context \<Rightarrow>
       (status + protocolservice_dataservice_request_message \<times> 64 word) \<times>
       ('t, 'd) protocolservice_dataservice_endpoint_context \<times> ('t, 's) protocolservice_context) \<Rightarrow>
     (nat \<Rightarrow> endpoint_env) \<Rightarrow> nat \<Rightarrow> ('t, 'd) protocolservice_dataservice_endpoint_context \<times> ('t, 's) protocolservice_context \<Rightarrow>
     (status \<times> ('t, 'd) protocolservice_dataservice_endpoint_context \<times> ('t, 's) protocolservice_context) option" where
  "dataservice_endpoint_loop ops ps recv envs k s =
     (case recv k s of
        (Inl st, s) \<Rightarrow> Some (st, s)
      | (Inr (req, return_address), s) \<Rightarrow>
      case dataservice_endpoint_step ops ps (envs k) req return_address s of
        None \<Rightarrow> None
      | Some (retval, s) \<Rightarrow>
      if retval \<noteq> AGENTD_STATUS_SUCCESS then Some (retval, s) else dataservice_endpoint_loop ops ps recv envs (k + 1) s)"

definition protocolservice_dataservice_endpoint_fiber_entry ::
  "'t resource_tree_ops \<Rightarrow> 'd psock_ops \<Rightarrow>
     (nat \<Rightarrow> ('t, 'd) protocolservice_dataservice_endpoint_context \<times> ('t, 's) protocolservice_context \<Rightarrow>
       (status + protocolservice_dataservice_request_message \<times> 64 word) \<times>
       ('t, 'd) protocolservice_dataservice_endpoint_context \<times> ('t, 's) protocolservice_context) \<Rightarrow>
     (nat \<Rightarrow> endpoint_env) \<Rightarrow> data_release_env \<Rightarrow> ('t, 'd) protocolservice_dataservice_endpoint_context \<times> ('t, 's) protocolservice_context \<Rightarrow>
     (status \<times> ('t, 's) protocolservice_context) option" where
  "protocolservice_dataservice_endpoint_fiber_entry ops ps recv envs renv s =
     (case dataservice_endpoint_loop ops ps recv envs 0 s of
        None \<Rightarrow> None
      | Some (retval, ep, ctx) \<Rightarrow> Some (released (protocolservice_dataservice_endpoint_context_release renv ep) retval, ctx))"

subsection \<open>Accepting connections\<close>

record 'a protocolservice_accept_endpoint_context =
  acceptsock :: 'a

text \<open>
  \<open>read_descriptor\<close> receives the socket of a new connection; when its fiber cannot be added the
  descriptor is closed and the loop goes on.
\<close>

partial_function (option) accept_loop ::
  "'t resource_tree_ops \<Rightarrow> vccrypt_handshake \<Rightarrow>
     (nat \<Rightarrow> 'a protocolservice_accept_endpoint_context \<times> ('t, 's) protocolservice_context \<Rightarrow>
       (status + 's) \<times> 'a protocolservice_accept_endpoint_context \<times> ('t, 's) protocolservice_context) \<Rightarrow>
     (nat \<Rightarrow> fiber_add_env) \<Rightarrow> nat \<Rightarrow> 'a protocolservice_accept_endpoint_context \<times> ('t, 's) protocolservice_context \<Rightarrow>
     (status \<times> 'a protocolservice_accept_endpoint_context \<times> ('t, 's) protocolservice_context) option" where
  "accept_loop ops cr read_descriptor envs k s =
     (if ps_quiesce (snd s) then Some (AGENTD_STATUS_SUCCESS, s) else
      case read_descriptor k s of
        (Inl st, s) \<Rightarrow> Some (st, s)
      | (Inr sock, a, ctx) \<Rightarrow>
      case protocolservice_protocol_fiber_add ops cr (envs k) sock ctx of (_, ctx) \<Rightarrow>
      accept_loop ops cr read_descriptor envs (k + 1) (a, ctx))"

definition protocolservice_accept_endpoint_context_release :: "status \<Rightarrow> status \<Rightarrow> status" where
  "protocolservice_accept_endpoint_context_release acceptsock_release_retval context_release_retval =
     first_error [acceptsock_release_retval, context_release_retval]"

definition protocolservice_accept_endpoint_fiber_entry ::
  "'t resource_tree_ops \<Rightarrow> vccrypt_handshake \<Rightarrow>
     (nat \<Rightarrow> 'a protocolservice_accept_endpoint_context \<times> ('t, 's) protocolservice_context \<Rightarrow>
       (status + 's) \<times> 'a protocolservice_accept_endpoint_context \<times> ('t, 's) protocolservice_context) \<Rightarrow>
     (nat \<Rightarrow> fiber_add_env) \<Rightarrow> status \<Rightarrow> status \<Rightarrow> 'a protocolservice_accept_endpoint_context \<times> ('t, 's) protocolservice_context \<Rightarrow>
     (status \<times> ('t, 's) protocolservice_context) option" where
  "protocolservice_accept_endpoint_fiber_entry ops cr read_descriptor envs sock_st context_st s =
     (case accept_loop ops cr read_descriptor envs 0 s of
        None \<Rightarrow> None
      | Some (retval, a, ctx) \<Rightarrow> Some (released (protocolservice_accept_endpoint_context_release sock_st context_st) retval, ctx))"

definition protocolservice_accept_fiber_add :: "service_add_env \<Rightarrow> 'a \<Rightarrow> status + 'a protocolservice_accept_endpoint_context" where
  "protocolservice_accept_fiber_add env sock =
     (let st = service_st env;
          cleanup_context = (\<lambda>retval. Inl (released (service_release_st env 0) retval));
          cleanup_fiber = (\<lambda>retval. cleanup_context (released (service_release_st env 1) retval)) in
      if st 0 \<noteq> AGENTD_STATUS_SUCCESS then Inl (st 0) else
      if st 1 \<noteq> AGENTD_STATUS_SUCCESS then cleanup_context (st 1) else
      if st 2 \<noteq> AGENTD_STATUS_SUCCESS then cleanup_fiber (st 2) else
      if st 3 \<noteq> AGENTD_STATUS_SUCCESS then cleanup_fiber (st 3) else
      if st 4 \<noteq> AGENTD_STATUS_SUCCESS then cleanup_fiber (released (service_release_st env 2) (st 4)) else
      if st 5 \<noteq> AGENTD_STATUS_SUCCESS then cleanup_fiber (st 5) else
      Inr \<lparr> acceptsock = sock \<rparr>)"

subsection \<open>The control fiber and unexpected events\<close>

definition protocolservice_control_fiber_context_release :: "status \<Rightarrow> status \<Rightarrow> status" where
  "protocolservice_control_fiber_context_release controlsock_release_retval context_release_retval =
     first_error [controlsock_release_retval, context_release_retval]"

definition protocolservice_control_fiber_add :: "service_add_env \<Rightarrow> 'c \<Rightarrow> status + 'c protocolservice_control_fiber_context" where
  "protocolservice_control_fiber_add env sock =
     (let st = service_st env;
          cleanup_context = (\<lambda>retval. Inl (released (service_release_st env 0) retval));
          cleanup_fiber = (\<lambda>retval. cleanup_context (released (service_release_st env 1) retval)) in
      if st 0 \<noteq> AGENTD_STATUS_SUCCESS then Inl (st 0) else
      if st 1 \<noteq> AGENTD_STATUS_SUCCESS then cleanup_context (st 1) else
      if st 2 \<noteq> AGENTD_STATUS_SUCCESS then cleanup_fiber (st 2) else
      if st 3 \<noteq> AGENTD_STATUS_SUCCESS then cleanup_fiber (st 3) else
      if st 4 \<noteq> AGENTD_STATUS_SUCCESS then cleanup_fiber (released (service_release_st env 2) (st 4)) else
      if st 5 \<noteq> AGENTD_STATUS_SUCCESS then cleanup_fiber (st 5) else
      Inr \<lparr> should_exit = False, controlsock = sock \<rparr>)"

text \<open>
  The handler of an event that a fiber does not expect, given whether it is the request to
  quiesce; the status of an invalid state is that of the process runtime library, and the context is NULL for
  the endpoints of the data and of the random service.
\<close>

definition protocolservice_fiber_unexpected_handler ::
  "status \<Rightarrow> bool \<Rightarrow> ('t, 's) protocolservice_context option \<Rightarrow> status \<times> ('t, 's) protocolservice_context option" where
  "protocolservice_fiber_unexpected_handler invalid_state quiesce_request ctx =
     (if quiesce_request then (AGENTD_STATUS_SUCCESS, map_option (\<lambda>c. c\<lparr>ps_quiesce := True\<rparr>) ctx)
      else (invalid_state, ctx))"

end
