(* ===== verification/Process_Status.thy ===== *)
theory Process_Status
  imports Service_Status
begin

text \<open>
  The status codes of the code that starts processes
  (\<^verbatim>\<open>src/include/agentd/status_codes\<close>), checked against the error macro by
  \<open>process_status_codes_from_macro\<close>.
\<close>

abbreviation (input) AGENTD_SERVICE_READER :: "32 word" where "AGENTD_SERVICE_READER \<equiv> 0x0D"
abbreviation (input) AGENTD_SERVICE_LISTEN :: "32 word" where "AGENTD_SERVICE_LISTEN \<equiv> 0x0B"
abbreviation (input) AGENTD_SERVICE_PROCESS :: "32 word" where "AGENTD_SERVICE_PROCESS \<equiv> 0x09"

abbreviation (input) AGENTD_ERROR_CANONIZATIONSERVICE_PROC_RUNSECURE_ROOT_USER_REQUIRED :: status where
  "AGENTD_ERROR_CANONIZATIONSERVICE_PROC_RUNSECURE_ROOT_USER_REQUIRED \<equiv> 0x8070001"
abbreviation (input) AGENTD_ERROR_CANONIZATIONSERVICE_FORK_FAILURE :: status where
  "AGENTD_ERROR_CANONIZATIONSERVICE_FORK_FAILURE \<equiv> 0x8070002"
abbreviation (input) AGENTD_ERROR_CANONIZATIONSERVICE_PRIVSEP_LOOKUP_USERGROUP_FAILURE :: status where
  "AGENTD_ERROR_CANONIZATIONSERVICE_PRIVSEP_LOOKUP_USERGROUP_FAILURE \<equiv> 0x8070003"
abbreviation (input) AGENTD_ERROR_CANONIZATIONSERVICE_PRIVSEP_CHROOT_FAILURE :: status where
  "AGENTD_ERROR_CANONIZATIONSERVICE_PRIVSEP_CHROOT_FAILURE \<equiv> 0x8070004"
abbreviation (input) AGENTD_ERROR_CANONIZATIONSERVICE_PRIVSEP_DROP_PRIVILEGES_FAILURE :: status where
  "AGENTD_ERROR_CANONIZATIONSERVICE_PRIVSEP_DROP_PRIVILEGES_FAILURE \<equiv> 0x8070005"
abbreviation (input) AGENTD_ERROR_CANONIZATIONSERVICE_PRIVSEP_SETFDS_FAILURE :: status where
  "AGENTD_ERROR_CANONIZATIONSERVICE_PRIVSEP_SETFDS_FAILURE \<equiv> 0x8070006"
abbreviation (input) AGENTD_ERROR_CANONIZATIONSERVICE_PRIVSEP_EXEC_PRIVATE_FAILURE :: status where
  "AGENTD_ERROR_CANONIZATIONSERVICE_PRIVSEP_EXEC_PRIVATE_FAILURE \<equiv> 0x8070007"
abbreviation (input) AGENTD_ERROR_CANONIZATIONSERVICE_PRIVSEP_EXEC_SURVIVAL_WEIRDNESS :: status where
  "AGENTD_ERROR_CANONIZATIONSERVICE_PRIVSEP_EXEC_SURVIVAL_WEIRDNESS \<equiv> 0x8070008"
abbreviation (input) AGENTD_ERROR_CANONIZATIONSERVICE_PRIVSEP_CLOSE_OTHER_FDS :: status where
  "AGENTD_ERROR_CANONIZATIONSERVICE_PRIVSEP_CLOSE_OTHER_FDS \<equiv> 0x8070018"
abbreviation (input) AGENTD_ERROR_NOTIFICATIONSERVICE_PROC_RUNSECURE_ROOT_USER_REQUIRED :: status where
  "AGENTD_ERROR_NOTIFICATIONSERVICE_PROC_RUNSECURE_ROOT_USER_REQUIRED \<equiv> 0x80F0001"
abbreviation (input) AGENTD_ERROR_NOTIFICATIONSERVICE_FORK_FAILURE :: status where
  "AGENTD_ERROR_NOTIFICATIONSERVICE_FORK_FAILURE \<equiv> 0x80F0002"
abbreviation (input) AGENTD_ERROR_NOTIFICATIONSERVICE_PRIVSEP_LOOKUP_USERGROUP_FAILURE :: status where
  "AGENTD_ERROR_NOTIFICATIONSERVICE_PRIVSEP_LOOKUP_USERGROUP_FAILURE \<equiv> 0x80F0003"
abbreviation (input) AGENTD_ERROR_NOTIFICATIONSERVICE_PRIVSEP_CHROOT_FAILURE :: status where
  "AGENTD_ERROR_NOTIFICATIONSERVICE_PRIVSEP_CHROOT_FAILURE \<equiv> 0x80F0004"
abbreviation (input) AGENTD_ERROR_NOTIFICATIONSERVICE_PRIVSEP_DROP_PRIVILEGES_FAILURE :: status where
  "AGENTD_ERROR_NOTIFICATIONSERVICE_PRIVSEP_DROP_PRIVILEGES_FAILURE \<equiv> 0x80F0005"
abbreviation (input) AGENTD_ERROR_NOTIFICATIONSERVICE_PRIVSEP_SETFDS_FAILURE :: status where
  "AGENTD_ERROR_NOTIFICATIONSERVICE_PRIVSEP_SETFDS_FAILURE \<equiv> 0x80F0006"
abbreviation (input) AGENTD_ERROR_NOTIFICATIONSERVICE_PRIVSEP_EXEC_PRIVATE_FAILURE :: status where
  "AGENTD_ERROR_NOTIFICATIONSERVICE_PRIVSEP_EXEC_PRIVATE_FAILURE \<equiv> 0x80F0007"
abbreviation (input) AGENTD_ERROR_NOTIFICATIONSERVICE_PRIVSEP_EXEC_SURVIVAL_WEIRDNESS :: status where
  "AGENTD_ERROR_NOTIFICATIONSERVICE_PRIVSEP_EXEC_SURVIVAL_WEIRDNESS \<equiv> 0x80F0008"
abbreviation (input) AGENTD_ERROR_NOTIFICATIONSERVICE_PRIVSEP_CLOSE_OTHER_FDS :: status where
  "AGENTD_ERROR_NOTIFICATIONSERVICE_PRIVSEP_CLOSE_OTHER_FDS \<equiv> 0x80F0009"
abbreviation (input) AGENTD_ERROR_READER_IPC_WRITE_DATA_FAILURE :: status where
  "AGENTD_ERROR_READER_IPC_WRITE_DATA_FAILURE \<equiv> 0x80D0000"
abbreviation (input) AGENTD_ERROR_READER_IPC_READ_DATA_FAILURE :: status where
  "AGENTD_ERROR_READER_IPC_READ_DATA_FAILURE \<equiv> 0x80D0001"
abbreviation (input) AGENTD_ERROR_READER_PROC_RUNSECURE_ROOT_USER_REQUIRED :: status where
  "AGENTD_ERROR_READER_PROC_RUNSECURE_ROOT_USER_REQUIRED \<equiv> 0x80D0004"
abbreviation (input) AGENTD_ERROR_READER_IPC_SOCKETPAIR_FAILURE :: status where
  "AGENTD_ERROR_READER_IPC_SOCKETPAIR_FAILURE \<equiv> 0x80D0005"
abbreviation (input) AGENTD_ERROR_READER_FORK_FAILURE :: status where
  "AGENTD_ERROR_READER_FORK_FAILURE \<equiv> 0x80D0006"
abbreviation (input) AGENTD_ERROR_READER_PRIVSEP_LOOKUP_USERGROUP_FAILURE :: status where
  "AGENTD_ERROR_READER_PRIVSEP_LOOKUP_USERGROUP_FAILURE \<equiv> 0x80D0007"
abbreviation (input) AGENTD_ERROR_READER_PRIVSEP_CHROOT_FAILURE :: status where
  "AGENTD_ERROR_READER_PRIVSEP_CHROOT_FAILURE \<equiv> 0x80D0008"
abbreviation (input) AGENTD_ERROR_READER_PRIVSEP_DROP_PRIVILEGES_FAILURE :: status where
  "AGENTD_ERROR_READER_PRIVSEP_DROP_PRIVILEGES_FAILURE \<equiv> 0x80D0009"
abbreviation (input) AGENTD_ERROR_READER_PRIVSEP_SETFDS_FAILURE :: status where
  "AGENTD_ERROR_READER_PRIVSEP_SETFDS_FAILURE \<equiv> 0x80D000A"
abbreviation (input) AGENTD_ERROR_READER_PRIVSEP_EXEC_PRIVATE_FAILURE :: status where
  "AGENTD_ERROR_READER_PRIVSEP_EXEC_PRIVATE_FAILURE \<equiv> 0x80D000B"
abbreviation (input) AGENTD_ERROR_READER_PRIVSEP_EXEC_SURVIVAL_WEIRDNESS :: status where
  "AGENTD_ERROR_READER_PRIVSEP_EXEC_SURVIVAL_WEIRDNESS \<equiv> 0x80D000C"
abbreviation (input) AGENTD_ERROR_READER_PROC_EXIT_FAILURE :: status where
  "AGENTD_ERROR_READER_PROC_EXIT_FAILURE \<equiv> 0x80D000D"
abbreviation (input) AGENTD_ERROR_READER_INVALID_STREAM :: status where
  "AGENTD_ERROR_READER_INVALID_STREAM \<equiv> 0x80D000E"
abbreviation (input) AGENTD_ERROR_READER_PRIVSEP_CLOSE_OTHER_FDS :: status where
  "AGENTD_ERROR_READER_PRIVSEP_CLOSE_OTHER_FDS \<equiv> 0x80D000F"
abbreviation (input) AGENTD_ERROR_READER_FILE_OPEN :: status where
  "AGENTD_ERROR_READER_FILE_OPEN \<equiv> 0x80D0010"
abbreviation (input) AGENTD_ERROR_READER_FILE_STAT :: status where
  "AGENTD_ERROR_READER_FILE_STAT \<equiv> 0x80D0011"
abbreviation (input) AGENTD_ERROR_READER_FILE_READ :: status where
  "AGENTD_ERROR_READER_FILE_READ \<equiv> 0x80D0012"
abbreviation (input) AGENTD_ERROR_GENERAL_CHDIR_FAILURE :: status where
  "AGENTD_ERROR_GENERAL_CHDIR_FAILURE \<equiv> 0x8000003"
abbreviation (input) AGENTD_ERROR_GENERAL_CHROOT_FAILURE :: status where
  "AGENTD_ERROR_GENERAL_CHROOT_FAILURE \<equiv> 0x8000004"
abbreviation (input) AGENTD_ERROR_GENERAL_GETPWNAM_FAILURE :: status where
  "AGENTD_ERROR_GENERAL_GETPWNAM_FAILURE \<equiv> 0x8000005"
abbreviation (input) AGENTD_ERROR_GENERAL_GETGRNAM_FAILURE :: status where
  "AGENTD_ERROR_GENERAL_GETGRNAM_FAILURE \<equiv> 0x8000006"
abbreviation (input) AGENTD_ERROR_GENERAL_PRIVSEP_SETFDS_DUP2_FAILURE :: status where
  "AGENTD_ERROR_GENERAL_PRIVSEP_SETFDS_DUP2_FAILURE \<equiv> 0x800000A"
abbreviation (input) AGENTD_ERROR_GENERAL_PRIVSEP_SETFDS_BAD_ARGUMENT :: status where
  "AGENTD_ERROR_GENERAL_PRIVSEP_SETFDS_BAD_ARGUMENT \<equiv> 0x800000B"
abbreviation (input) AGENTD_ERROR_GENERAL_PRIVSEP_DROP_PRIVILEGES_SETEGID_FAILURE :: status where
  "AGENTD_ERROR_GENERAL_PRIVSEP_DROP_PRIVILEGES_SETEGID_FAILURE \<equiv> 0x800000C"
abbreviation (input) AGENTD_ERROR_GENERAL_PRIVSEP_DROP_PRIVILEGES_SETEUID_FAILURE :: status where
  "AGENTD_ERROR_GENERAL_PRIVSEP_DROP_PRIVILEGES_SETEUID_FAILURE \<equiv> 0x800000D"
abbreviation (input) AGENTD_ERROR_GENERAL_PRIVSEP_DROP_PRIVILEGES_SETGID_FAILURE :: status where
  "AGENTD_ERROR_GENERAL_PRIVSEP_DROP_PRIVILEGES_SETGID_FAILURE \<equiv> 0x800000E"
abbreviation (input) AGENTD_ERROR_GENERAL_PRIVSEP_DROP_PRIVILEGES_SETUID_FAILURE :: status where
  "AGENTD_ERROR_GENERAL_PRIVSEP_DROP_PRIVILEGES_SETUID_FAILURE \<equiv> 0x800000F"
abbreviation (input) AGENTD_ERROR_GENERAL_PRIVSEP_EXEC_PRIVATE_SETENV_FAILURE :: status where
  "AGENTD_ERROR_GENERAL_PRIVSEP_EXEC_PRIVATE_SETENV_FAILURE \<equiv> 0x8000010"
abbreviation (input) AGENTD_ERROR_GENERAL_PRIVSEP_EXEC_PRIVATE_EXECL_FAILURE :: status where
  "AGENTD_ERROR_GENERAL_PRIVSEP_EXEC_PRIVATE_EXECL_FAILURE \<equiv> 0x8000011"
abbreviation (input) AGENTD_ERROR_IPC_SOCKETPAIR_FAILURE :: status where
  "AGENTD_ERROR_IPC_SOCKETPAIR_FAILURE \<equiv> 0x8010017"
abbreviation (input) AGENTD_ERROR_LISTENSERVICE_PROC_RUNSECURE_ROOT_USER_REQUIRED :: status where
  "AGENTD_ERROR_LISTENSERVICE_PROC_RUNSECURE_ROOT_USER_REQUIRED \<equiv> 0x80B0005"
abbreviation (input) AGENTD_ERROR_LISTENSERVICE_FORK_FAILURE :: status where
  "AGENTD_ERROR_LISTENSERVICE_FORK_FAILURE \<equiv> 0x80B0007"
abbreviation (input) AGENTD_ERROR_LISTENSERVICE_PRIVSEP_LOOKUP_USERGROUP_FAILURE :: status where
  "AGENTD_ERROR_LISTENSERVICE_PRIVSEP_LOOKUP_USERGROUP_FAILURE \<equiv> 0x80B0008"
abbreviation (input) AGENTD_ERROR_LISTENSERVICE_PRIVSEP_CHROOT_FAILURE :: status where
  "AGENTD_ERROR_LISTENSERVICE_PRIVSEP_CHROOT_FAILURE \<equiv> 0x80B0009"
abbreviation (input) AGENTD_ERROR_LISTENSERVICE_PRIVSEP_DROP_PRIVILEGES_FAILURE :: status where
  "AGENTD_ERROR_LISTENSERVICE_PRIVSEP_DROP_PRIVILEGES_FAILURE \<equiv> 0x80B000A"
abbreviation (input) AGENTD_ERROR_LISTENSERVICE_PRIVSEP_SETFDS_FAILURE :: status where
  "AGENTD_ERROR_LISTENSERVICE_PRIVSEP_SETFDS_FAILURE \<equiv> 0x80B000B"
abbreviation (input) AGENTD_ERROR_LISTENSERVICE_PRIVSEP_EXEC_PRIVATE_FAILURE :: status where
  "AGENTD_ERROR_LISTENSERVICE_PRIVSEP_EXEC_PRIVATE_FAILURE \<equiv> 0x80B000C"
abbreviation (input) AGENTD_ERROR_LISTENSERVICE_PRIVSEP_EXEC_SURVIVAL_WEIRDNESS :: status where
  "AGENTD_ERROR_LISTENSERVICE_PRIVSEP_EXEC_SURVIVAL_WEIRDNESS \<equiv> 0x80B000D"
abbreviation (input) AGENTD_ERROR_LISTENSERVICE_LISTENSOCKET_OPEN_FAILURE :: status where
  "AGENTD_ERROR_LISTENSERVICE_LISTENSOCKET_OPEN_FAILURE \<equiv> 0x80B000E"
abbreviation (input) AGENTD_ERROR_LISTENSERVICE_PRIVSEP_CLOSE_OTHER_FDS :: status where
  "AGENTD_ERROR_LISTENSERVICE_PRIVSEP_CLOSE_OTHER_FDS \<equiv> 0x80B000F"
abbreviation (input) AGENTD_ERROR_RANDOMSERVICE_PROC_RUNSECURE_ROOT_USER_REQUIRED :: status where
  "AGENTD_ERROR_RANDOMSERVICE_PROC_RUNSECURE_ROOT_USER_REQUIRED \<equiv> 0x80C000C"
abbreviation (input) AGENTD_ERROR_RANDOMSERVICE_FORK_FAILURE :: status where
  "AGENTD_ERROR_RANDOMSERVICE_FORK_FAILURE \<equiv> 0x80C000D"
abbreviation (input) AGENTD_ERROR_RANDOMSERVICE_RANDOM_DEVICE_OPEN_FAILURE :: status where
  "AGENTD_ERROR_RANDOMSERVICE_RANDOM_DEVICE_OPEN_FAILURE \<equiv> 0x80C000E"
abbreviation (input) AGENTD_ERROR_RANDOMSERVICE_PRIVSEP_LOOKUP_USERGROUP_FAILURE :: status where
  "AGENTD_ERROR_RANDOMSERVICE_PRIVSEP_LOOKUP_USERGROUP_FAILURE \<equiv> 0x80C000F"
abbreviation (input) AGENTD_ERROR_RANDOMSERVICE_PRIVSEP_CHROOT_FAILURE :: status where
  "AGENTD_ERROR_RANDOMSERVICE_PRIVSEP_CHROOT_FAILURE \<equiv> 0x80C0010"
abbreviation (input) AGENTD_ERROR_RANDOMSERVICE_PRIVSEP_DROP_PRIVILEGES_FAILURE :: status where
  "AGENTD_ERROR_RANDOMSERVICE_PRIVSEP_DROP_PRIVILEGES_FAILURE \<equiv> 0x80C0011"
abbreviation (input) AGENTD_ERROR_RANDOMSERVICE_IPC_SOCKETPAIR_FAILURE :: status where
  "AGENTD_ERROR_RANDOMSERVICE_IPC_SOCKETPAIR_FAILURE \<equiv> 0x80C0012"
abbreviation (input) AGENTD_ERROR_RANDOMSERVICE_PRIVSEP_SETFDS_FAILURE :: status where
  "AGENTD_ERROR_RANDOMSERVICE_PRIVSEP_SETFDS_FAILURE \<equiv> 0x80C0013"
abbreviation (input) AGENTD_ERROR_RANDOMSERVICE_PRIVSEP_EXEC_PRIVATE_FAILURE :: status where
  "AGENTD_ERROR_RANDOMSERVICE_PRIVSEP_EXEC_PRIVATE_FAILURE \<equiv> 0x80C0014"
abbreviation (input) AGENTD_ERROR_RANDOMSERVICE_PRIVSEP_EXEC_SURVIVAL_WEIRDNESS :: status where
  "AGENTD_ERROR_RANDOMSERVICE_PRIVSEP_EXEC_SURVIVAL_WEIRDNESS \<equiv> 0x80C0015"
abbreviation (input) AGENTD_ERROR_RANDOMSERVICE_PRIVSEP_CLOSE_OTHER_FDS :: status where
  "AGENTD_ERROR_RANDOMSERVICE_PRIVSEP_CLOSE_OTHER_FDS \<equiv> 0x80C0016"
abbreviation (input) AGENTD_ERROR_DATASERVICE_PROC_RUNSECURE_ROOT_USER_REQUIRED :: status where
  "AGENTD_ERROR_DATASERVICE_PROC_RUNSECURE_ROOT_USER_REQUIRED \<equiv> 0x8030015"
abbreviation (input) AGENTD_ERROR_DATASERVICE_IPC_SOCKETPAIR_FAILURE :: status where
  "AGENTD_ERROR_DATASERVICE_IPC_SOCKETPAIR_FAILURE \<equiv> 0x8030016"
abbreviation (input) AGENTD_ERROR_DATASERVICE_FORK_FAILURE :: status where
  "AGENTD_ERROR_DATASERVICE_FORK_FAILURE \<equiv> 0x8030017"
abbreviation (input) AGENTD_ERROR_DATASERVICE_PRIVSEP_LOOKUP_USERGROUP_FAILURE :: status where
  "AGENTD_ERROR_DATASERVICE_PRIVSEP_LOOKUP_USERGROUP_FAILURE \<equiv> 0x8030018"
abbreviation (input) AGENTD_ERROR_DATASERVICE_PRIVSEP_CHROOT_FAILURE :: status where
  "AGENTD_ERROR_DATASERVICE_PRIVSEP_CHROOT_FAILURE \<equiv> 0x8030019"
abbreviation (input) AGENTD_ERROR_DATASERVICE_PRIVSEP_DROP_PRIVILEGES_FAILURE :: status where
  "AGENTD_ERROR_DATASERVICE_PRIVSEP_DROP_PRIVILEGES_FAILURE \<equiv> 0x803001A"
abbreviation (input) AGENTD_ERROR_DATASERVICE_PRIVSEP_SETFDS_FAILURE :: status where
  "AGENTD_ERROR_DATASERVICE_PRIVSEP_SETFDS_FAILURE \<equiv> 0x803001B"
abbreviation (input) AGENTD_ERROR_DATASERVICE_PRIVSEP_EXEC_PRIVATE_FAILURE :: status where
  "AGENTD_ERROR_DATASERVICE_PRIVSEP_EXEC_PRIVATE_FAILURE \<equiv> 0x803001C"
abbreviation (input) AGENTD_ERROR_DATASERVICE_PRIVSEP_EXEC_SURVIVAL_WEIRDNESS :: status where
  "AGENTD_ERROR_DATASERVICE_PRIVSEP_EXEC_SURVIVAL_WEIRDNESS \<equiv> 0x803001D"
abbreviation (input) AGENTD_ERROR_DATASERVICE_PRIVSEP_CLOSE_OTHER_FDS :: status where
  "AGENTD_ERROR_DATASERVICE_PRIVSEP_CLOSE_OTHER_FDS \<equiv> 0x8030044"
abbreviation (input) AGENTD_ERROR_PROCESS_ALREADY_SPAWNED :: status where
  "AGENTD_ERROR_PROCESS_ALREADY_SPAWNED \<equiv> 0x8090001"
abbreviation (input) AGENTD_ERROR_PROCESS_NOT_ACTIVE :: status where
  "AGENTD_ERROR_PROCESS_NOT_ACTIVE \<equiv> 0x8090002"
abbreviation (input) AGENTD_ERROR_AUTHSERVICE_PROC_RUNSECURE_ROOT_USER_REQUIRED :: status where
  "AGENTD_ERROR_AUTHSERVICE_PROC_RUNSECURE_ROOT_USER_REQUIRED \<equiv> 0x8050009"
abbreviation (input) AGENTD_ERROR_AUTHSERVICE_IPC_SOCKETPAIR_FAILURE :: status where
  "AGENTD_ERROR_AUTHSERVICE_IPC_SOCKETPAIR_FAILURE \<equiv> 0x805000A"
abbreviation (input) AGENTD_ERROR_AUTHSERVICE_FORK_FAILURE :: status where
  "AGENTD_ERROR_AUTHSERVICE_FORK_FAILURE \<equiv> 0x805000B"
abbreviation (input) AGENTD_ERROR_AUTHSERVICE_PRIVSEP_LOOKUP_USERGROUP_FAILURE :: status where
  "AGENTD_ERROR_AUTHSERVICE_PRIVSEP_LOOKUP_USERGROUP_FAILURE \<equiv> 0x805000C"
abbreviation (input) AGENTD_ERROR_AUTHSERVICE_PRIVSEP_CHROOT_FAILURE :: status where
  "AGENTD_ERROR_AUTHSERVICE_PRIVSEP_CHROOT_FAILURE \<equiv> 0x805000D"
abbreviation (input) AGENTD_ERROR_AUTHSERVICE_PRIVSEP_DROP_PRIVILEGES_FAILURE :: status where
  "AGENTD_ERROR_AUTHSERVICE_PRIVSEP_DROP_PRIVILEGES_FAILURE \<equiv> 0x805000E"
abbreviation (input) AGENTD_ERROR_AUTHSERVICE_PRIVSEP_SETFDS_FAILURE :: status where
  "AGENTD_ERROR_AUTHSERVICE_PRIVSEP_SETFDS_FAILURE \<equiv> 0x805000F"
abbreviation (input) AGENTD_ERROR_AUTHSERVICE_PRIVSEP_EXEC_PRIVATE_FAILURE :: status where
  "AGENTD_ERROR_AUTHSERVICE_PRIVSEP_EXEC_PRIVATE_FAILURE \<equiv> 0x8050010"
abbreviation (input) AGENTD_ERROR_AUTHSERVICE_PRIVSEP_EXEC_SURVIVAL_WEIRDNESS :: status where
  "AGENTD_ERROR_AUTHSERVICE_PRIVSEP_EXEC_SURVIVAL_WEIRDNESS \<equiv> 0x8050011"
abbreviation (input) AGENTD_ERROR_AUTHSERVICE_PRIVSEP_CLOSE_OTHER_FDS :: status where
  "AGENTD_ERROR_AUTHSERVICE_PRIVSEP_CLOSE_OTHER_FDS \<equiv> 0x8050016"
abbreviation (input) AGENTD_ERROR_CONFIG_PROC_RUNSECURE_ROOT_USER_REQUIRED :: status where
  "AGENTD_ERROR_CONFIG_PROC_RUNSECURE_ROOT_USER_REQUIRED \<equiv> 0x8040004"
abbreviation (input) AGENTD_ERROR_CONFIG_IPC_SOCKETPAIR_FAILURE :: status where
  "AGENTD_ERROR_CONFIG_IPC_SOCKETPAIR_FAILURE \<equiv> 0x8040005"
abbreviation (input) AGENTD_ERROR_CONFIG_FORK_FAILURE :: status where
  "AGENTD_ERROR_CONFIG_FORK_FAILURE \<equiv> 0x8040006"
abbreviation (input) AGENTD_ERROR_CONFIG_PRIVSEP_LOOKUP_USERGROUP_FAILURE :: status where
  "AGENTD_ERROR_CONFIG_PRIVSEP_LOOKUP_USERGROUP_FAILURE \<equiv> 0x8040007"
abbreviation (input) AGENTD_ERROR_CONFIG_PRIVSEP_CHROOT_FAILURE :: status where
  "AGENTD_ERROR_CONFIG_PRIVSEP_CHROOT_FAILURE \<equiv> 0x8040008"
abbreviation (input) AGENTD_ERROR_CONFIG_PRIVSEP_DROP_PRIVILEGES_FAILURE :: status where
  "AGENTD_ERROR_CONFIG_PRIVSEP_DROP_PRIVILEGES_FAILURE \<equiv> 0x8040009"
abbreviation (input) AGENTD_ERROR_CONFIG_PRIVSEP_SETFDS_FAILURE :: status where
  "AGENTD_ERROR_CONFIG_PRIVSEP_SETFDS_FAILURE \<equiv> 0x804000A"
abbreviation (input) AGENTD_ERROR_CONFIG_PRIVSEP_EXEC_PRIVATE_FAILURE :: status where
  "AGENTD_ERROR_CONFIG_PRIVSEP_EXEC_PRIVATE_FAILURE \<equiv> 0x804000B"
abbreviation (input) AGENTD_ERROR_CONFIG_PRIVSEP_EXEC_SURVIVAL_WEIRDNESS :: status where
  "AGENTD_ERROR_CONFIG_PRIVSEP_EXEC_SURVIVAL_WEIRDNESS \<equiv> 0x804000C"
abbreviation (input) AGENTD_ERROR_CONFIG_OPEN_CONFIG_FILE_FAILURE :: status where
  "AGENTD_ERROR_CONFIG_OPEN_CONFIG_FILE_FAILURE \<equiv> 0x804000D"
abbreviation (input) AGENTD_ERROR_CONFIG_PROC_EXIT_FAILURE :: status where
  "AGENTD_ERROR_CONFIG_PROC_EXIT_FAILURE \<equiv> 0x804000E"
abbreviation (input) AGENTD_ERROR_CONFIG_DEFAULTS_SET_FAILURE :: status where
  "AGENTD_ERROR_CONFIG_DEFAULTS_SET_FAILURE \<equiv> 0x804000F"
abbreviation (input) AGENTD_ERROR_CONFIG_PRIVSEP_CLOSE_OTHER_FDS :: status where
  "AGENTD_ERROR_CONFIG_PRIVSEP_CLOSE_OTHER_FDS \<equiv> 0x8040011"

lemma process_status_codes_from_macro:
  "AGENTD_STATUS_ERROR_MACRO AGENTD_SERVICE_CANONIZATION 0x0001 = AGENTD_ERROR_CANONIZATIONSERVICE_PROC_RUNSECURE_ROOT_USER_REQUIRED"
  "AGENTD_STATUS_ERROR_MACRO AGENTD_SERVICE_CANONIZATION 0x0002 = AGENTD_ERROR_CANONIZATIONSERVICE_FORK_FAILURE"
  "AGENTD_STATUS_ERROR_MACRO AGENTD_SERVICE_CANONIZATION 0x0003 = AGENTD_ERROR_CANONIZATIONSERVICE_PRIVSEP_LOOKUP_USERGROUP_FAILURE"
  "AGENTD_STATUS_ERROR_MACRO AGENTD_SERVICE_CANONIZATION 0x0004 = AGENTD_ERROR_CANONIZATIONSERVICE_PRIVSEP_CHROOT_FAILURE"
  "AGENTD_STATUS_ERROR_MACRO AGENTD_SERVICE_CANONIZATION 0x0005 = AGENTD_ERROR_CANONIZATIONSERVICE_PRIVSEP_DROP_PRIVILEGES_FAILURE"
  "AGENTD_STATUS_ERROR_MACRO AGENTD_SERVICE_CANONIZATION 0x0006 = AGENTD_ERROR_CANONIZATIONSERVICE_PRIVSEP_SETFDS_FAILURE"
  "AGENTD_STATUS_ERROR_MACRO AGENTD_SERVICE_CANONIZATION 0x0007 = AGENTD_ERROR_CANONIZATIONSERVICE_PRIVSEP_EXEC_PRIVATE_FAILURE"
  "AGENTD_STATUS_ERROR_MACRO AGENTD_SERVICE_CANONIZATION 0x0008 = AGENTD_ERROR_CANONIZATIONSERVICE_PRIVSEP_EXEC_SURVIVAL_WEIRDNESS"
  "AGENTD_STATUS_ERROR_MACRO AGENTD_SERVICE_CANONIZATION 0x0018 = AGENTD_ERROR_CANONIZATIONSERVICE_PRIVSEP_CLOSE_OTHER_FDS"
  "AGENTD_STATUS_ERROR_MACRO AGENTD_SERVICE_NOTIFICATION 0x0001 = AGENTD_ERROR_NOTIFICATIONSERVICE_PROC_RUNSECURE_ROOT_USER_REQUIRED"
  "AGENTD_STATUS_ERROR_MACRO AGENTD_SERVICE_NOTIFICATION 0x0002 = AGENTD_ERROR_NOTIFICATIONSERVICE_FORK_FAILURE"
  "AGENTD_STATUS_ERROR_MACRO AGENTD_SERVICE_NOTIFICATION 0x0003 = AGENTD_ERROR_NOTIFICATIONSERVICE_PRIVSEP_LOOKUP_USERGROUP_FAILURE"
  "AGENTD_STATUS_ERROR_MACRO AGENTD_SERVICE_NOTIFICATION 0x0004 = AGENTD_ERROR_NOTIFICATIONSERVICE_PRIVSEP_CHROOT_FAILURE"
  "AGENTD_STATUS_ERROR_MACRO AGENTD_SERVICE_NOTIFICATION 0x0005 = AGENTD_ERROR_NOTIFICATIONSERVICE_PRIVSEP_DROP_PRIVILEGES_FAILURE"
  "AGENTD_STATUS_ERROR_MACRO AGENTD_SERVICE_NOTIFICATION 0x0006 = AGENTD_ERROR_NOTIFICATIONSERVICE_PRIVSEP_SETFDS_FAILURE"
  "AGENTD_STATUS_ERROR_MACRO AGENTD_SERVICE_NOTIFICATION 0x0007 = AGENTD_ERROR_NOTIFICATIONSERVICE_PRIVSEP_EXEC_PRIVATE_FAILURE"
  "AGENTD_STATUS_ERROR_MACRO AGENTD_SERVICE_NOTIFICATION 0x0008 = AGENTD_ERROR_NOTIFICATIONSERVICE_PRIVSEP_EXEC_SURVIVAL_WEIRDNESS"
  "AGENTD_STATUS_ERROR_MACRO AGENTD_SERVICE_NOTIFICATION 0x0009 = AGENTD_ERROR_NOTIFICATIONSERVICE_PRIVSEP_CLOSE_OTHER_FDS"
  "AGENTD_STATUS_ERROR_MACRO AGENTD_SERVICE_READER 0x0000 = AGENTD_ERROR_READER_IPC_WRITE_DATA_FAILURE"
  "AGENTD_STATUS_ERROR_MACRO AGENTD_SERVICE_READER 0x0001 = AGENTD_ERROR_READER_IPC_READ_DATA_FAILURE"
  "AGENTD_STATUS_ERROR_MACRO AGENTD_SERVICE_READER 0x0004 = AGENTD_ERROR_READER_PROC_RUNSECURE_ROOT_USER_REQUIRED"
  "AGENTD_STATUS_ERROR_MACRO AGENTD_SERVICE_READER 0x0005 = AGENTD_ERROR_READER_IPC_SOCKETPAIR_FAILURE"
  "AGENTD_STATUS_ERROR_MACRO AGENTD_SERVICE_READER 0x0006 = AGENTD_ERROR_READER_FORK_FAILURE"
  "AGENTD_STATUS_ERROR_MACRO AGENTD_SERVICE_READER 0x0007 = AGENTD_ERROR_READER_PRIVSEP_LOOKUP_USERGROUP_FAILURE"
  "AGENTD_STATUS_ERROR_MACRO AGENTD_SERVICE_READER 0x0008 = AGENTD_ERROR_READER_PRIVSEP_CHROOT_FAILURE"
  "AGENTD_STATUS_ERROR_MACRO AGENTD_SERVICE_READER 0x0009 = AGENTD_ERROR_READER_PRIVSEP_DROP_PRIVILEGES_FAILURE"
  "AGENTD_STATUS_ERROR_MACRO AGENTD_SERVICE_READER 0x000A = AGENTD_ERROR_READER_PRIVSEP_SETFDS_FAILURE"
  "AGENTD_STATUS_ERROR_MACRO AGENTD_SERVICE_READER 0x000B = AGENTD_ERROR_READER_PRIVSEP_EXEC_PRIVATE_FAILURE"
  "AGENTD_STATUS_ERROR_MACRO AGENTD_SERVICE_READER 0x000C = AGENTD_ERROR_READER_PRIVSEP_EXEC_SURVIVAL_WEIRDNESS"
  "AGENTD_STATUS_ERROR_MACRO AGENTD_SERVICE_READER 0x000D = AGENTD_ERROR_READER_PROC_EXIT_FAILURE"
  "AGENTD_STATUS_ERROR_MACRO AGENTD_SERVICE_READER 0x000E = AGENTD_ERROR_READER_INVALID_STREAM"
  "AGENTD_STATUS_ERROR_MACRO AGENTD_SERVICE_READER 0x000F = AGENTD_ERROR_READER_PRIVSEP_CLOSE_OTHER_FDS"
  "AGENTD_STATUS_ERROR_MACRO AGENTD_SERVICE_READER 0x0010 = AGENTD_ERROR_READER_FILE_OPEN"
  "AGENTD_STATUS_ERROR_MACRO AGENTD_SERVICE_READER 0x0011 = AGENTD_ERROR_READER_FILE_STAT"
  "AGENTD_STATUS_ERROR_MACRO AGENTD_SERVICE_READER 0x0012 = AGENTD_ERROR_READER_FILE_READ"
  "AGENTD_STATUS_ERROR_MACRO AGENTD_SERVICE_GENERAL 0x0003 = AGENTD_ERROR_GENERAL_CHDIR_FAILURE"
  "AGENTD_STATUS_ERROR_MACRO AGENTD_SERVICE_GENERAL 0x0004 = AGENTD_ERROR_GENERAL_CHROOT_FAILURE"
  "AGENTD_STATUS_ERROR_MACRO AGENTD_SERVICE_GENERAL 0x0005 = AGENTD_ERROR_GENERAL_GETPWNAM_FAILURE"
  "AGENTD_STATUS_ERROR_MACRO AGENTD_SERVICE_GENERAL 0x0006 = AGENTD_ERROR_GENERAL_GETGRNAM_FAILURE"
  "AGENTD_STATUS_ERROR_MACRO AGENTD_SERVICE_GENERAL 0x000A = AGENTD_ERROR_GENERAL_PRIVSEP_SETFDS_DUP2_FAILURE"
  "AGENTD_STATUS_ERROR_MACRO AGENTD_SERVICE_GENERAL 0x000B = AGENTD_ERROR_GENERAL_PRIVSEP_SETFDS_BAD_ARGUMENT"
  "AGENTD_STATUS_ERROR_MACRO AGENTD_SERVICE_GENERAL 0x000C = AGENTD_ERROR_GENERAL_PRIVSEP_DROP_PRIVILEGES_SETEGID_FAILURE"
  "AGENTD_STATUS_ERROR_MACRO AGENTD_SERVICE_GENERAL 0x000D = AGENTD_ERROR_GENERAL_PRIVSEP_DROP_PRIVILEGES_SETEUID_FAILURE"
  "AGENTD_STATUS_ERROR_MACRO AGENTD_SERVICE_GENERAL 0x000E = AGENTD_ERROR_GENERAL_PRIVSEP_DROP_PRIVILEGES_SETGID_FAILURE"
  "AGENTD_STATUS_ERROR_MACRO AGENTD_SERVICE_GENERAL 0x000F = AGENTD_ERROR_GENERAL_PRIVSEP_DROP_PRIVILEGES_SETUID_FAILURE"
  "AGENTD_STATUS_ERROR_MACRO AGENTD_SERVICE_GENERAL 0x0010 = AGENTD_ERROR_GENERAL_PRIVSEP_EXEC_PRIVATE_SETENV_FAILURE"
  "AGENTD_STATUS_ERROR_MACRO AGENTD_SERVICE_GENERAL 0x0011 = AGENTD_ERROR_GENERAL_PRIVSEP_EXEC_PRIVATE_EXECL_FAILURE"
  "AGENTD_STATUS_ERROR_MACRO AGENTD_SERVICE_IPC 0x0017 = AGENTD_ERROR_IPC_SOCKETPAIR_FAILURE"
  "AGENTD_STATUS_ERROR_MACRO AGENTD_SERVICE_LISTEN 0x0005 = AGENTD_ERROR_LISTENSERVICE_PROC_RUNSECURE_ROOT_USER_REQUIRED"
  "AGENTD_STATUS_ERROR_MACRO AGENTD_SERVICE_LISTEN 0x0007 = AGENTD_ERROR_LISTENSERVICE_FORK_FAILURE"
  "AGENTD_STATUS_ERROR_MACRO AGENTD_SERVICE_LISTEN 0x0008 = AGENTD_ERROR_LISTENSERVICE_PRIVSEP_LOOKUP_USERGROUP_FAILURE"
  "AGENTD_STATUS_ERROR_MACRO AGENTD_SERVICE_LISTEN 0x0009 = AGENTD_ERROR_LISTENSERVICE_PRIVSEP_CHROOT_FAILURE"
  "AGENTD_STATUS_ERROR_MACRO AGENTD_SERVICE_LISTEN 0x000A = AGENTD_ERROR_LISTENSERVICE_PRIVSEP_DROP_PRIVILEGES_FAILURE"
  "AGENTD_STATUS_ERROR_MACRO AGENTD_SERVICE_LISTEN 0x000B = AGENTD_ERROR_LISTENSERVICE_PRIVSEP_SETFDS_FAILURE"
  "AGENTD_STATUS_ERROR_MACRO AGENTD_SERVICE_LISTEN 0x000C = AGENTD_ERROR_LISTENSERVICE_PRIVSEP_EXEC_PRIVATE_FAILURE"
  "AGENTD_STATUS_ERROR_MACRO AGENTD_SERVICE_LISTEN 0x000D = AGENTD_ERROR_LISTENSERVICE_PRIVSEP_EXEC_SURVIVAL_WEIRDNESS"
  "AGENTD_STATUS_ERROR_MACRO AGENTD_SERVICE_LISTEN 0x000E = AGENTD_ERROR_LISTENSERVICE_LISTENSOCKET_OPEN_FAILURE"
  "AGENTD_STATUS_ERROR_MACRO AGENTD_SERVICE_LISTEN 0x000F = AGENTD_ERROR_LISTENSERVICE_PRIVSEP_CLOSE_OTHER_FDS"
  "AGENTD_STATUS_ERROR_MACRO AGENTD_SERVICE_RANDOM 0x000C = AGENTD_ERROR_RANDOMSERVICE_PROC_RUNSECURE_ROOT_USER_REQUIRED"
  "AGENTD_STATUS_ERROR_MACRO AGENTD_SERVICE_RANDOM 0x000D = AGENTD_ERROR_RANDOMSERVICE_FORK_FAILURE"
  "AGENTD_STATUS_ERROR_MACRO AGENTD_SERVICE_RANDOM 0x000E = AGENTD_ERROR_RANDOMSERVICE_RANDOM_DEVICE_OPEN_FAILURE"
  "AGENTD_STATUS_ERROR_MACRO AGENTD_SERVICE_RANDOM 0x000F = AGENTD_ERROR_RANDOMSERVICE_PRIVSEP_LOOKUP_USERGROUP_FAILURE"
  "AGENTD_STATUS_ERROR_MACRO AGENTD_SERVICE_RANDOM 0x0010 = AGENTD_ERROR_RANDOMSERVICE_PRIVSEP_CHROOT_FAILURE"
  "AGENTD_STATUS_ERROR_MACRO AGENTD_SERVICE_RANDOM 0x0011 = AGENTD_ERROR_RANDOMSERVICE_PRIVSEP_DROP_PRIVILEGES_FAILURE"
  "AGENTD_STATUS_ERROR_MACRO AGENTD_SERVICE_RANDOM 0x0012 = AGENTD_ERROR_RANDOMSERVICE_IPC_SOCKETPAIR_FAILURE"
  "AGENTD_STATUS_ERROR_MACRO AGENTD_SERVICE_RANDOM 0x0013 = AGENTD_ERROR_RANDOMSERVICE_PRIVSEP_SETFDS_FAILURE"
  "AGENTD_STATUS_ERROR_MACRO AGENTD_SERVICE_RANDOM 0x0014 = AGENTD_ERROR_RANDOMSERVICE_PRIVSEP_EXEC_PRIVATE_FAILURE"
  "AGENTD_STATUS_ERROR_MACRO AGENTD_SERVICE_RANDOM 0x0015 = AGENTD_ERROR_RANDOMSERVICE_PRIVSEP_EXEC_SURVIVAL_WEIRDNESS"
  "AGENTD_STATUS_ERROR_MACRO AGENTD_SERVICE_RANDOM 0x0016 = AGENTD_ERROR_RANDOMSERVICE_PRIVSEP_CLOSE_OTHER_FDS"
  "AGENTD_STATUS_ERROR_MACRO AGENTD_SERVICE_DATASERVICE 0x0015 = AGENTD_ERROR_DATASERVICE_PROC_RUNSECURE_ROOT_USER_REQUIRED"
  "AGENTD_STATUS_ERROR_MACRO AGENTD_SERVICE_DATASERVICE 0x0016 = AGENTD_ERROR_DATASERVICE_IPC_SOCKETPAIR_FAILURE"
  "AGENTD_STATUS_ERROR_MACRO AGENTD_SERVICE_DATASERVICE 0x0017 = AGENTD_ERROR_DATASERVICE_FORK_FAILURE"
  "AGENTD_STATUS_ERROR_MACRO AGENTD_SERVICE_DATASERVICE 0x0018 = AGENTD_ERROR_DATASERVICE_PRIVSEP_LOOKUP_USERGROUP_FAILURE"
  "AGENTD_STATUS_ERROR_MACRO AGENTD_SERVICE_DATASERVICE 0x0019 = AGENTD_ERROR_DATASERVICE_PRIVSEP_CHROOT_FAILURE"
  "AGENTD_STATUS_ERROR_MACRO AGENTD_SERVICE_DATASERVICE 0x001A = AGENTD_ERROR_DATASERVICE_PRIVSEP_DROP_PRIVILEGES_FAILURE"
  "AGENTD_STATUS_ERROR_MACRO AGENTD_SERVICE_DATASERVICE 0x001B = AGENTD_ERROR_DATASERVICE_PRIVSEP_SETFDS_FAILURE"
  "AGENTD_STATUS_ERROR_MACRO AGENTD_SERVICE_DATASERVICE 0x001C = AGENTD_ERROR_DATASERVICE_PRIVSEP_EXEC_PRIVATE_FAILURE"
  "AGENTD_STATUS_ERROR_MACRO AGENTD_SERVICE_DATASERVICE 0x001D = AGENTD_ERROR_DATASERVICE_PRIVSEP_EXEC_SURVIVAL_WEIRDNESS"
  "AGENTD_STATUS_ERROR_MACRO AGENTD_SERVICE_DATASERVICE 0x0044 = AGENTD_ERROR_DATASERVICE_PRIVSEP_CLOSE_OTHER_FDS"
  "AGENTD_STATUS_ERROR_MACRO AGENTD_SERVICE_PROCESS 0x0001 = AGENTD_ERROR_PROCESS_ALREADY_SPAWNED"
  "AGENTD_STATUS_ERROR_MACRO AGENTD_SERVICE_PROCESS 0x0002 = AGENTD_ERROR_PROCESS_NOT_ACTIVE"
  "AGENTD_STATUS_ERROR_MACRO AGENTD_SERVICE_AUTHSERVICE 0x0009 = AGENTD_ERROR_AUTHSERVICE_PROC_RUNSECURE_ROOT_USER_REQUIRED"
  "AGENTD_STATUS_ERROR_MACRO AGENTD_SERVICE_AUTHSERVICE 0x000A = AGENTD_ERROR_AUTHSERVICE_IPC_SOCKETPAIR_FAILURE"
  "AGENTD_STATUS_ERROR_MACRO AGENTD_SERVICE_AUTHSERVICE 0x000B = AGENTD_ERROR_AUTHSERVICE_FORK_FAILURE"
  "AGENTD_STATUS_ERROR_MACRO AGENTD_SERVICE_AUTHSERVICE 0x000C = AGENTD_ERROR_AUTHSERVICE_PRIVSEP_LOOKUP_USERGROUP_FAILURE"
  "AGENTD_STATUS_ERROR_MACRO AGENTD_SERVICE_AUTHSERVICE 0x000D = AGENTD_ERROR_AUTHSERVICE_PRIVSEP_CHROOT_FAILURE"
  "AGENTD_STATUS_ERROR_MACRO AGENTD_SERVICE_AUTHSERVICE 0x000E = AGENTD_ERROR_AUTHSERVICE_PRIVSEP_DROP_PRIVILEGES_FAILURE"
  "AGENTD_STATUS_ERROR_MACRO AGENTD_SERVICE_AUTHSERVICE 0x000F = AGENTD_ERROR_AUTHSERVICE_PRIVSEP_SETFDS_FAILURE"
  "AGENTD_STATUS_ERROR_MACRO AGENTD_SERVICE_AUTHSERVICE 0x0010 = AGENTD_ERROR_AUTHSERVICE_PRIVSEP_EXEC_PRIVATE_FAILURE"
  "AGENTD_STATUS_ERROR_MACRO AGENTD_SERVICE_AUTHSERVICE 0x0011 = AGENTD_ERROR_AUTHSERVICE_PRIVSEP_EXEC_SURVIVAL_WEIRDNESS"
  "AGENTD_STATUS_ERROR_MACRO AGENTD_SERVICE_AUTHSERVICE 0x0016 = AGENTD_ERROR_AUTHSERVICE_PRIVSEP_CLOSE_OTHER_FDS"
  "AGENTD_STATUS_ERROR_MACRO AGENTD_SERVICE_CONFIG 0x0004 = AGENTD_ERROR_CONFIG_PROC_RUNSECURE_ROOT_USER_REQUIRED"
  "AGENTD_STATUS_ERROR_MACRO AGENTD_SERVICE_CONFIG 0x0005 = AGENTD_ERROR_CONFIG_IPC_SOCKETPAIR_FAILURE"
  "AGENTD_STATUS_ERROR_MACRO AGENTD_SERVICE_CONFIG 0x0006 = AGENTD_ERROR_CONFIG_FORK_FAILURE"
  "AGENTD_STATUS_ERROR_MACRO AGENTD_SERVICE_CONFIG 0x0007 = AGENTD_ERROR_CONFIG_PRIVSEP_LOOKUP_USERGROUP_FAILURE"
  "AGENTD_STATUS_ERROR_MACRO AGENTD_SERVICE_CONFIG 0x0008 = AGENTD_ERROR_CONFIG_PRIVSEP_CHROOT_FAILURE"
  "AGENTD_STATUS_ERROR_MACRO AGENTD_SERVICE_CONFIG 0x0009 = AGENTD_ERROR_CONFIG_PRIVSEP_DROP_PRIVILEGES_FAILURE"
  "AGENTD_STATUS_ERROR_MACRO AGENTD_SERVICE_CONFIG 0x000A = AGENTD_ERROR_CONFIG_PRIVSEP_SETFDS_FAILURE"
  "AGENTD_STATUS_ERROR_MACRO AGENTD_SERVICE_CONFIG 0x000B = AGENTD_ERROR_CONFIG_PRIVSEP_EXEC_PRIVATE_FAILURE"
  "AGENTD_STATUS_ERROR_MACRO AGENTD_SERVICE_CONFIG 0x000C = AGENTD_ERROR_CONFIG_PRIVSEP_EXEC_SURVIVAL_WEIRDNESS"
  "AGENTD_STATUS_ERROR_MACRO AGENTD_SERVICE_CONFIG 0x000D = AGENTD_ERROR_CONFIG_OPEN_CONFIG_FILE_FAILURE"
  "AGENTD_STATUS_ERROR_MACRO AGENTD_SERVICE_CONFIG 0x000E = AGENTD_ERROR_CONFIG_PROC_EXIT_FAILURE"
  "AGENTD_STATUS_ERROR_MACRO AGENTD_SERVICE_CONFIG 0x000F = AGENTD_ERROR_CONFIG_DEFAULTS_SET_FAILURE"
  "AGENTD_STATUS_ERROR_MACRO AGENTD_SERVICE_CONFIG 0x0011 = AGENTD_ERROR_CONFIG_PRIVSEP_CLOSE_OTHER_FDS"
  by (simp_all add: AGENTD_STATUS_ERROR_MACRO_def)

end
