(* ===== verification/Attestation.thy ===== *)
theory Attestation
  imports Process_Status Ds_Api
begin

text \<open>
  The attestation service (\<^verbatim>\<open>src/src/attestationservice\<close>, built with \<^verbatim>\<open>ATTESTATION == 1\<close>): every five
  seconds it walks the process queue of the data service, checks each transaction
  that was submitted, and promotes or drops it.  Also its helper
  threads: one turns a signal into requests to quiesce and to terminate, one sleeps.

  Trees and allocators are code of the process runtime library: the trees are
  parameters, with references to records as values, and what the allocators answer is
  an environment.
\<close>

subsection \<open>Data\<close>

record 't att_tree_ops =
  att_insert :: "bytes \<Rightarrow> nat \<Rightarrow> 't \<Rightarrow> status \<times> 't"
  att_find :: "bytes \<Rightarrow> 't \<Rightarrow> status + nat"
  att_clear :: "'t \<Rightarrow> status \<times> 't"
  att_not_found :: status

text \<open>The records the trees refer to are kept in lists; a reference is an index.\<close>

record ('t, 's) attestationservice_instance =
  att_data_sock :: 's
  att_transaction_tree :: 't
  att_artifact_tree :: 't
  att_transactions :: "data_transaction_node list"
  att_artifacts :: "data_artifact_record list"

text \<open>What the allocator answers while one transaction is handled.\<close>

record att_env =
  drop_buf_st :: status
  promote_buf_st :: status
  artifact_buf_st :: status
  get_buf_st :: status
  get_malloc :: bool
  txn_alloc_st :: status
  artifact_alloc_st :: status
  artifact_release_st :: status
  txn_release_st :: status
  txn_reclaim_st :: status

abbreviation (input) END_OF_TRANSACTION_KEY :: bytes where "END_OF_TRANSACTION_KEY \<equiv> ff_uuid"

text \<open>\<^verbatim>\<open>CLEANUP_OR_FALLTHROUGH\<close>: the status of a failed release replaces the status.\<close>

definition after_release :: "status \<Rightarrow> status \<Rightarrow> status" where
  "after_release release_retval retval = (if release_retval \<noteq> AGENTD_STATUS_SUCCESS then release_retval else retval)"

subsection \<open>Calls of the data service\<close>

definition attestationservice_dataservice_child_context_create ::
  "'s psock_ops \<Rightarrow> status \<Rightarrow> 's \<Rightarrow> status \<times> 32 word option \<times> 's" where
  "attestationservice_dataservice_child_context_create ps buf_st sock =
     (let caps = BITCAP_INIT_TRUE (replicate (BITCAP_WORDS DATASERVICE_API_CAP_BITS_MAX) 0) in
      case dataservice_api_sendreq_child_context_create ps buf_st caps sock of (retval, sock) \<Rightarrow>
      if retval \<noteq> AGENTD_STATUS_SUCCESS then (retval, None, sock) else
      case dataservice_api_recvresp_child_context_create ps sock of (r, sock) \<Rightarrow>
      if api_retval r \<noteq> AGENTD_STATUS_SUCCESS then (api_retval r, None, sock) else
      (case api_header r of
         None \<Rightarrow> (AGENTD_STATUS_SUCCESS, None, sock)
       | Some (offset, st) \<Rightarrow> (st, api_payload r, sock)))"

text \<open>
  The status is the one of the response; a node that the response does not carry is left as it was
  (\<open>None\<close>).
\<close>

definition query_result :: "(data_transaction_node option \<times> bytes option) api_result \<Rightarrow> status \<times> (data_transaction_node \<times> bytes) option" where
  "query_result r =
     (if api_retval r \<noteq> AGENTD_STATUS_SUCCESS then (api_retval r, None) else
      (case api_header r of None \<Rightarrow> AGENTD_STATUS_SUCCESS | Some (offset, st) \<Rightarrow> st,
       case api_payload r of Some (Some node, Some data) \<Rightarrow> Some (node, data) | _ \<Rightarrow> None))"

definition attestationservice_dataservice_query_first_pending_txn ::
  "'s psock_ops \<Rightarrow> status \<Rightarrow> bool \<Rightarrow> 32 word \<Rightarrow> 's \<Rightarrow> status \<times> (data_transaction_node \<times> bytes) option \<times> 's" where
  "attestationservice_dataservice_query_first_pending_txn ps buf_st malloc_ok child_context sock =
     (case dataservice_api_sendreq_transaction_get_first ps buf_st child_context sock of (retval, sock) \<Rightarrow>
      if retval \<noteq> AGENTD_STATUS_SUCCESS then (retval, None, sock) else
      case dataservice_api_recvresp_transaction_get_first ps True malloc_ok sock of (r, sock) \<Rightarrow>
      case query_result r of (retval, txn) \<Rightarrow> (retval, txn, sock))"

definition attestationservice_dataservice_query_pending_txn ::
  "'s psock_ops \<Rightarrow> status \<Rightarrow> bool \<Rightarrow> 32 word \<Rightarrow> bytes \<Rightarrow> 's \<Rightarrow> status \<times> (data_transaction_node \<times> bytes) option \<times> 's" where
  "attestationservice_dataservice_query_pending_txn ps buf_st malloc_ok child_context txn_id sock =
     (case dataservice_api_sendreq_transaction_get ps buf_st child_context txn_id sock of (retval, sock) \<Rightarrow>
      if retval \<noteq> AGENTD_STATUS_SUCCESS then (retval, None, sock) else
      case dataservice_api_recvresp_transaction_get ps True malloc_ok sock of (r, sock) \<Rightarrow>
      case query_result r of (retval, txn) \<Rightarrow> (retval, txn, sock))"

definition attestationservice_dataservice_query_pending_transaction ::
  "'s psock_ops \<Rightarrow> status \<Rightarrow> bool \<Rightarrow> 32 word \<Rightarrow> bytes option \<Rightarrow> 's \<Rightarrow> status \<times> (data_transaction_node \<times> bytes) option \<times> 's" where
  "attestationservice_dataservice_query_pending_transaction ps buf_st malloc_ok child_context txn_id sock =
     (case txn_id of
        None \<Rightarrow> attestationservice_dataservice_query_first_pending_txn ps buf_st malloc_ok child_context sock
      | Some txn_id \<Rightarrow> attestationservice_dataservice_query_pending_txn ps buf_st malloc_ok child_context txn_id sock)"

subsection \<open>Verification\<close>

text \<open>The three checks are still to be written; they refuse every transaction.\<close>

definition attestationservice_verify_txn_has_valid_fields :: "data_transaction_node \<Rightarrow> bytes \<Rightarrow> status" where
  "attestationservice_verify_txn_has_valid_fields txn_node txn_data = - 1"

definition attestationservice_verify_txn_is_in_correct_sequence :: "32 word \<Rightarrow> data_transaction_node \<Rightarrow> bytes \<Rightarrow> status" where
  "attestationservice_verify_txn_is_in_correct_sequence child_context txn_node txn_data = - 1"

definition attestationservice_verify_txn_is_unique :: "32 word \<Rightarrow> data_transaction_node \<Rightarrow> bytes \<Rightarrow> status" where
  "attestationservice_verify_txn_is_unique child_context txn_node txn_data = - 1"

subsection \<open>The trees of transactions and artifacts\<close>

definition attestationservice_transaction_record_value_create ::
  "att_env \<Rightarrow> data_transaction_node \<Rightarrow> ('t, 's) attestationservice_instance \<Rightarrow> (status + nat) \<times> ('t, 's) attestationservice_instance" where
  "attestationservice_transaction_record_value_create env txn_node inst =
     (if txn_alloc_st env \<noteq> AGENTD_STATUS_SUCCESS then (Inl (txn_alloc_st env), inst)
      else (Inr (length (att_transactions inst)), inst\<lparr>att_transactions := att_transactions inst @ [txn_node]\<rparr>))"

definition attestationservice_artifact_record_value_create ::
  "att_env \<Rightarrow> data_transaction_node \<Rightarrow> status + data_artifact_record" where
  "attestationservice_artifact_record_value_create env txn_node =
     (if artifact_alloc_st env \<noteq> AGENTD_STATUS_SUCCESS then Inl (artifact_alloc_st env)
      else Inr \<lparr> artifact_key = node_artifact_id txn_node, txn_first = node_key txn_node, txn_latest = node_key txn_node,
                 net_height_first = 0, net_height_latest = 0, net_state_latest = net_txn_state txn_node, artifact_pad = replicate 4 0 \<rparr>)"

definition attestationservice_artifact_record_value_create_from_artifact ::
  "att_env \<Rightarrow> data_artifact_record \<Rightarrow> status + data_artifact_record" where
  "attestationservice_artifact_record_value_create_from_artifact env artifact_node =
     (if artifact_alloc_st env \<noteq> AGENTD_STATUS_SUCCESS then Inl (artifact_alloc_st env) else Inr artifact_node)"

text \<open>
  An error of the search other than not found is taken for success: the record it should
  have found is then undefined (\<open>None\<close>).
\<close>

definition attestationservice_get_or_query_artifact ::
  "'s psock_ops \<Rightarrow> 't att_tree_ops \<Rightarrow> att_env \<Rightarrow> 32 word \<Rightarrow> bytes \<Rightarrow> ('t, 's) attestationservice_instance \<Rightarrow>
   ((status + data_artifact_record) \<times> ('t, 's) attestationservice_instance) option" where
  "attestationservice_get_or_query_artifact ps ops env child_context artifact_id inst =
     (case att_find ops artifact_id (att_artifact_tree inst) of
        Inr found \<Rightarrow> Some (attestationservice_artifact_record_value_create_from_artifact env (att_artifacts inst ! found), inst)
      | Inl retval \<Rightarrow>
          if retval \<noteq> att_not_found ops then None else
          case dataservice_api_sendreq_artifact_get ps (artifact_buf_st env) child_context artifact_id (att_data_sock inst) of (retval, sock) \<Rightarrow>
          let inst = inst\<lparr>att_data_sock := sock\<rparr> in
          if retval \<noteq> AGENTD_STATUS_SUCCESS then Some (Inl retval, inst) else
          case dataservice_api_recvresp_artifact_get ps sock of (r, sock) \<Rightarrow>
          let inst = inst\<lparr>att_data_sock := sock\<rparr> in
          if api_retval r \<noteq> AGENTD_STATUS_SUCCESS then Some (Inl (api_retval r), inst) else
          case api_header r of
            None \<Rightarrow> None
          | Some (offset, st) \<Rightarrow>
              if st \<noteq> AGENTD_STATUS_SUCCESS then Some (Inl st, inst) else
              case api_payload r of
                None \<Rightarrow> None
              | Some artifact_rec \<Rightarrow> Some (attestationservice_artifact_record_value_create_from_artifact env artifact_rec, inst))"

definition attestationservice_update_or_insert_artifact ::
  "'t att_tree_ops \<Rightarrow> att_env \<Rightarrow> data_artifact_record \<Rightarrow> ('t, 's) attestationservice_instance \<Rightarrow>
   status \<times> ('t, 's) attestationservice_instance" where
  "attestationservice_update_or_insert_artifact ops env artifact inst =
     (case att_find ops (artifact_key artifact) (att_artifact_tree inst) of
        Inl retval \<Rightarrow>
          if retval \<noteq> att_not_found ops then (retval, inst) else
          (case att_insert ops (artifact_key artifact) (length (att_artifacts inst)) (att_artifact_tree inst) of (retval, tree) \<Rightarrow>
           if retval \<noteq> AGENTD_STATUS_SUCCESS then (retval, inst\<lparr>att_artifact_tree := tree\<rparr>)
           else (AGENTD_STATUS_SUCCESS, inst\<lparr>att_artifact_tree := tree, att_artifacts := att_artifacts inst @ [artifact]\<rparr>))
      | Inr found \<Rightarrow>
          let rec = (att_artifacts inst ! found)\<lparr>txn_latest := txn_latest artifact, net_state_latest := net_state_latest artifact\<rparr> in
          (artifact_release_st env, inst\<lparr>att_artifacts := (att_artifacts inst)[found := rec]\<rparr>))"

text \<open>After a failed update the artifact is released; a record that failed to be inserted too.\<close>

definition attestationservice_transaction_tree_insert ::
  "'s psock_ops \<Rightarrow> 't att_tree_ops \<Rightarrow> att_env \<Rightarrow> 32 word \<Rightarrow> data_transaction_node \<Rightarrow> ('t, 's) attestationservice_instance \<Rightarrow>
   (status \<times> ('t, 's) attestationservice_instance) option" where
  "attestationservice_transaction_tree_insert ps ops env child_context txn_node inst =
     (case attestationservice_transaction_record_value_create env txn_node inst of
        (Inl retval, inst) \<Rightarrow> Some (retval, inst)
      | (Inr txn, inst) \<Rightarrow>
      case att_insert ops (node_key txn_node) txn (att_transaction_tree inst) of (retval, tree) \<Rightarrow>
      let inst = inst\<lparr>att_transaction_tree := tree\<rparr>;
          store = (\<lambda>artifact inst. case attestationservice_update_or_insert_artifact ops env artifact inst of (retval, inst) \<Rightarrow>
                     if retval \<noteq> AGENTD_STATUS_SUCCESS then Some (after_release (artifact_release_st env) retval, inst)
                     else Some (AGENTD_STATUS_SUCCESS, inst)) in
      if retval \<noteq> AGENTD_STATUS_SUCCESS then Some (after_release (txn_release_st env) retval, inst)
      else if node_prev txn_node = zero_uuid then
        (case attestationservice_artifact_record_value_create env txn_node of
           Inl retval \<Rightarrow> Some (retval, inst)
         | Inr artifact \<Rightarrow> store artifact inst)
      else
        (case attestationservice_get_or_query_artifact ps ops env child_context (node_artifact_id txn_node) inst of
           None \<Rightarrow> None
         | Some (Inl retval, inst) \<Rightarrow> Some (retval, inst)
         | Some (Inr artifact, inst) \<Rightarrow>
             store (artifact\<lparr>txn_latest := node_key txn_node, net_state_latest := net_txn_state txn_node\<rparr>) inst))"

definition attestationservice_dataservice_transaction_promote ::
  "'s psock_ops \<Rightarrow> 't att_tree_ops \<Rightarrow> att_env \<Rightarrow> 32 word \<Rightarrow> data_transaction_node \<Rightarrow> ('t, 's) attestationservice_instance \<Rightarrow>
   (status \<times> ('t, 's) attestationservice_instance) option" where
  "attestationservice_dataservice_transaction_promote ps ops env child_context txn_node inst =
     (case dataservice_api_sendreq_transaction_promote ps (promote_buf_st env) child_context (node_key txn_node) (att_data_sock inst) of
        (retval, sock) \<Rightarrow>
      let inst = inst\<lparr>att_data_sock := sock\<rparr> in
      if retval \<noteq> AGENTD_STATUS_SUCCESS then Some (retval, inst) else
      case dataservice_api_recvresp_transaction_promote ps sock of (r, sock) \<Rightarrow>
      let inst = inst\<lparr>att_data_sock := sock\<rparr> in
      if api_retval r \<noteq> AGENTD_STATUS_SUCCESS then Some (api_retval r, inst) else
      case api_header r of
        None \<Rightarrow> None
      | Some (offset, st) \<Rightarrow>
          if st \<noteq> AGENTD_STATUS_SUCCESS then Some (st, inst)
          else attestationservice_transaction_tree_insert ps ops env child_context txn_node inst)"

subsection \<open>One round\<close>

datatype ('t, 's) att_step =
  Att_undefined
| Att_return status "('t, 's) attestationservice_instance"
| Att_next data_transaction_node bytes "('t, 's) attestationservice_instance"

text \<open>The label \<^verbatim>\<open>drop_txn\<close>; the status in the response is not looked at.\<close>

definition drop_transaction ::
  "'s psock_ops \<Rightarrow> att_env \<Rightarrow> 32 word \<Rightarrow> data_transaction_node \<Rightarrow> ('t, 's) attestationservice_instance \<Rightarrow>
   status \<times> ('t, 's) attestationservice_instance" where
  "drop_transaction ps env child_context txn_node inst =
     (case dataservice_api_sendreq_transaction_drop ps (drop_buf_st env) child_context (node_key txn_node) (att_data_sock inst) of (retval, sock) \<Rightarrow>
      if retval \<noteq> AGENTD_STATUS_SUCCESS then (retval, inst\<lparr>att_data_sock := sock\<rparr>) else
      case dataservice_api_recvresp_transaction_drop ps sock of (r, sock) \<Rightarrow>
        (api_retval r, inst\<lparr>att_data_sock := sock\<rparr>))"

text \<open>Verify, then promote or drop.\<close>

definition judge_transaction ::
  "'s psock_ops \<Rightarrow> 't att_tree_ops \<Rightarrow> att_env \<Rightarrow> 32 word \<Rightarrow> data_transaction_node \<Rightarrow> bytes \<Rightarrow> ('t, 's) attestationservice_instance \<Rightarrow>
   (status \<times> ('t, 's) attestationservice_instance) option" where
  "judge_transaction ps ops env child_context txn_node txn_data inst =
     (if attestationservice_verify_txn_has_valid_fields txn_node txn_data \<noteq> AGENTD_STATUS_SUCCESS \<or>
         attestationservice_verify_txn_is_in_correct_sequence child_context txn_node txn_data \<noteq> AGENTD_STATUS_SUCCESS \<or>
         attestationservice_verify_txn_is_unique child_context txn_node txn_data \<noteq> AGENTD_STATUS_SUCCESS
      then Some (drop_transaction ps env child_context txn_node inst)
      else attestationservice_dataservice_transaction_promote ps ops env child_context txn_node inst)"

text \<open>The body of the loop, with the query for the next transaction at its end.\<close>

definition attestation_step ::
  "'s psock_ops \<Rightarrow> 't att_tree_ops \<Rightarrow> att_env \<Rightarrow> 32 word \<Rightarrow> data_transaction_node \<Rightarrow> bytes \<Rightarrow> ('t, 's) attestationservice_instance \<Rightarrow>
   ('t, 's) att_step" where
  "attestation_step ps ops env child_context txn_node txn_data inst =
     (case judge_transaction ps ops env child_context txn_node txn_data inst of
        None \<Rightarrow> Att_undefined
      | Some (retval, inst) \<Rightarrow>
          if retval \<noteq> AGENTD_STATUS_SUCCESS then Att_return retval inst
          else if node_next txn_node = END_OF_TRANSACTION_KEY then Att_return (after_release (txn_reclaim_st env) retval) inst
          else
            (case attestationservice_dataservice_query_pending_transaction ps (get_buf_st env) (get_malloc env) child_context
                    (Some (node_next txn_node)) (att_data_sock inst) of
               (retval, txn, sock) \<Rightarrow>
               let inst = inst\<lparr>att_data_sock := sock\<rparr> in
               if retval \<noteq> AGENTD_STATUS_SUCCESS then Att_return retval inst else
               case txn of None \<Rightarrow> Att_undefined | Some (txn_node, txn_data) \<Rightarrow> Att_next txn_node txn_data inst))"

text \<open>
  The state of the first transaction decides for all: \<^verbatim>\<open>txn_state\<close> is not read again.  The loop need not end, since the
  other end of the socket may always name a next transaction.
\<close>

partial_function (option) attestation_loop ::
  "'s psock_ops \<Rightarrow> 't att_tree_ops \<Rightarrow> (nat \<Rightarrow> att_env) \<Rightarrow> 32 word \<Rightarrow> nat \<Rightarrow> data_transaction_node \<Rightarrow> bytes \<Rightarrow>
   ('t, 's) attestationservice_instance \<Rightarrow> (status \<times> ('t, 's) attestationservice_instance) option" where
  "attestation_loop ps ops envs child_context k txn_node txn_data inst =
     (case attestation_step ps ops (envs k) child_context txn_node txn_data inst of
        Att_undefined \<Rightarrow> None
      | Att_return retval inst \<Rightarrow> Some (retval, inst)
      | Att_next txn_node txn_data inst \<Rightarrow> attestation_loop ps ops envs child_context (Suc k) txn_node txn_data inst)"

definition attestationservice_do_attestation ::
  "'s psock_ops \<Rightarrow> 't att_tree_ops \<Rightarrow> (nat \<Rightarrow> att_env) \<Rightarrow> status \<Rightarrow> bool \<Rightarrow> 32 word \<Rightarrow> ('t, 's) attestationservice_instance \<Rightarrow>
   (status \<times> ('t, 's) attestationservice_instance) option" where
  "attestationservice_do_attestation ps ops envs buf_st malloc_ok child_context inst =
     (case attestationservice_dataservice_query_pending_transaction ps buf_st malloc_ok child_context None (att_data_sock inst) of
        (retval, txn, sock) \<Rightarrow>
      let inst = inst\<lparr>att_data_sock := sock\<rparr> in
      if retval = AGENTD_ERROR_DATASERVICE_NOT_FOUND then Some (AGENTD_STATUS_SUCCESS, inst)
      else if retval \<noteq> AGENTD_STATUS_SUCCESS then Some (retval, inst) else
      case txn of
        None \<Rightarrow> None
      | Some (txn_node, txn_data) \<Rightarrow>
          let txn_state = ntohl (net_txn_state txn_node) in
          if txn_state = DATASERVICE_TRANSACTION_NODE_STATE_SUBMITTED
          then attestation_loop ps ops envs child_context 0 txn_node txn_data inst
          else Some (AGENTD_STATUS_SUCCESS, inst))"

subsection \<open>The event loop\<close>

text \<open>What the allocators and the sleep thread answer in one round.\<close>

record att_round_env =
  sleep_write_st :: status
  sleep_read_st :: status
  first_buf_st :: status
  first_malloc :: bool
  txn_envs :: "nat \<Rightarrow> att_env"

definition attestationservice_sleep :: "status \<Rightarrow> status \<Rightarrow> status" where
  "attestationservice_sleep write_st read_st = (if write_st \<noteq> AGENTD_STATUS_SUCCESS then write_st else read_st)"

partial_function (option) event_loop_rounds ::
  "'s psock_ops \<Rightarrow> 't att_tree_ops \<Rightarrow> (nat \<Rightarrow> att_round_env) \<Rightarrow> 32 word \<Rightarrow> nat \<Rightarrow> ('t, 's) attestationservice_instance \<Rightarrow>
   (status \<times> ('t, 's) attestationservice_instance) option" where
  "event_loop_rounds ps ops rounds child_context k inst =
     (let retval = attestationservice_sleep (sleep_write_st (rounds k)) (sleep_read_st (rounds k)) in
      if retval \<noteq> AGENTD_STATUS_SUCCESS then Some (retval, inst) else
      case attestationservice_do_attestation ps ops (txn_envs (rounds k)) (first_buf_st (rounds k)) (first_malloc (rounds k))
             child_context inst of
        None \<Rightarrow> None
      | Some (retval, inst) \<Rightarrow>
          if retval \<noteq> AGENTD_STATUS_SUCCESS then Some (retval, inst) else
          case att_clear ops (att_transaction_tree inst) of (retval, tree) \<Rightarrow>
          let inst = inst\<lparr>att_transaction_tree := tree, att_transactions := []\<rparr> in
          if retval \<noteq> AGENTD_STATUS_SUCCESS then Some (retval, inst) else
          case att_clear ops (att_artifact_tree inst) of (retval, tree) \<Rightarrow>
          let inst = inst\<lparr>att_artifact_tree := tree, att_artifacts := []\<rparr> in
          if retval \<noteq> AGENTD_STATUS_SUCCESS then Some (retval, inst)
          else event_loop_rounds ps ops rounds child_context (Suc k) inst)"

text \<open>The release of the instance reports the first failure.\<close>

record att_release_env =
  sleep_sock_st :: status
  data_sock_st :: status
  log_sock_st :: status
  transaction_rbtree_st :: status
  artifact_rbtree_st :: status
  inst_reclaim_st :: status

definition attestationservice_instance_resource_release :: "att_release_env \<Rightarrow> status" where
  "attestationservice_instance_resource_release env =
     (if sleep_sock_st env \<noteq> AGENTD_STATUS_SUCCESS then sleep_sock_st env
      else if data_sock_st env \<noteq> AGENTD_STATUS_SUCCESS then data_sock_st env
      else if log_sock_st env \<noteq> AGENTD_STATUS_SUCCESS then log_sock_st env
      else if transaction_rbtree_st env \<noteq> AGENTD_STATUS_SUCCESS then transaction_rbtree_st env
      else if artifact_rbtree_st env \<noteq> AGENTD_STATUS_SUCCESS then artifact_rbtree_st env
      else inst_reclaim_st env)"

definition attestationservice_event_loop ::
  "'s psock_ops \<Rightarrow> 't att_tree_ops \<Rightarrow> (nat \<Rightarrow> att_round_env) \<Rightarrow> status \<Rightarrow> att_release_env \<Rightarrow> ('t, 's) attestationservice_instance \<Rightarrow> status option" where
  "attestationservice_event_loop ps ops rounds buf_st release_env inst =
     (let release = (\<lambda>retval. after_release (attestationservice_instance_resource_release release_env) retval) in
      case attestationservice_dataservice_child_context_create ps buf_st (att_data_sock inst) of (retval, child_context, sock) \<Rightarrow>
      if retval \<noteq> AGENTD_STATUS_SUCCESS then Some (release retval) else
      case child_context of
        None \<Rightarrow> None
      | Some child_context \<Rightarrow>
          (case event_loop_rounds ps ops rounds child_context 0 (inst\<lparr>att_data_sock := sock\<rparr>) of
             None \<Rightarrow> None
           | Some (retval, inst) \<Rightarrow> Some (release retval)))"

subsection \<open>Signals\<close>

abbreviation (input) SIGNAL_STATE_QUIESCE :: "64 word" where "SIGNAL_STATE_QUIESCE \<equiv> 0"
abbreviation (input) SIGNAL_STATE_TERMINATE :: "64 word" where "SIGNAL_STATE_TERMINATE \<equiv> 1"

text \<open>
  The thread that waits for a signal, then writes two messages; \<open>write_st\<close> are the results of the
  writes.  The messages written are returned with the status.
\<close>

definition signal_thread_entry :: "(nat \<Rightarrow> status) \<Rightarrow> status \<Rightarrow> status \<times> (64 word) list" where
  "signal_thread_entry write_st release_st =
     (if write_st 0 \<noteq> AGENTD_STATUS_SUCCESS then (after_release release_st (write_st 0), [])
      else if write_st 1 \<noteq> AGENTD_STATUS_SUCCESS then (after_release release_st (write_st 1), [SIGNAL_STATE_QUIESCE])
      else (after_release release_st AGENTD_STATUS_SUCCESS, [SIGNAL_STATE_QUIESCE, SIGNAL_STATE_TERMINATE]))"

datatype scheduler_request = Quiesce_all | Terminate_all

text \<open>The fiber that turns these messages into requests to all fibers; it stops when the socket is closed.\<close>

fun reaper_fiber_loop :: "(nat \<Rightarrow> status) \<Rightarrow> status \<Rightarrow> nat \<Rightarrow> (64 word) list \<Rightarrow> status \<times> scheduler_request list" where
  "reaper_fiber_loop send_st read_st k [] = (read_st, [])"
| "reaper_fiber_loop send_st read_st k (msg # msgs) =
     (if msg = SIGNAL_STATE_QUIESCE then
        if send_st k \<noteq> AGENTD_STATUS_SUCCESS then (send_st k, [])
        else (case reaper_fiber_loop send_st read_st (Suc k) msgs of (retval, rs) \<Rightarrow> (retval, Quiesce_all # rs))
      else if msg = SIGNAL_STATE_TERMINATE then
        if send_st k \<noteq> AGENTD_STATUS_SUCCESS then (send_st k, []) else (AGENTD_STATUS_SUCCESS, [Terminate_all])
      else (AGENTD_STATUS_SUCCESS, []))"

definition reaper_fiber_entry :: "(nat \<Rightarrow> status) \<Rightarrow> status \<Rightarrow> status \<Rightarrow> (64 word) list \<Rightarrow> status \<times> scheduler_request list" where
  "reaper_fiber_entry send_st read_st release_st msgs =
     (case reaper_fiber_loop send_st read_st 0 msgs of (retval, rs) \<Rightarrow> (after_release release_st retval, rs))"

end
