(* ===== verification/Attestation_Correct.thy ===== *)
theory Attestation_Correct
  imports Attestation Ds_Rpc
begin

text \<open>
  The attestation service against the data service: what a round does to the process
  queue.
\<close>

subsection \<open>The data service at the other end of the socket\<close>

definition ds_psock :: "('e, 't) lmdb \<Rightarrow> vccert \<Rightarrow> bytes \<Rightarrow> bool \<Rightarrow> ('e dataservice_instance \<times> bytes list) psock_ops" where
  "ds_psock ops vc root_block att =
     \<lparr> psock_write_boxed_data = (\<lambda>req (inst, inbox).
         case dataservice_decode_and_dispatch ops vc root_block att env_ok inst req of
           None \<Rightarrow> (1, (inst, inbox))
         | Some (st, resps, inst) \<Rightarrow> (AGENTD_STATUS_SUCCESS, (inst, inbox @ resps))),
       psock_read_boxed_data = (\<lambda>(inst, inbox). case inbox of [] \<Rightarrow> (Inl 1, (inst, inbox)) | resp # inbox \<Rightarrow> (Inr resp, (inst, inbox))),
       rcpr_allocator_reclaim = (\<lambda>s. (AGENTD_STATUS_SUCCESS, s)) \<rparr>"

lemma ds_psock_send:
  assumes "dataservice_decode_and_dispatch ops vc root_block att env_ok inst req = Some (st, [resp], inst')"
  shows "sendreq_psock (ds_psock ops vc root_block att) (Inr req) (inst, []) = (AGENTD_STATUS_SUCCESS, (inst', [resp]))"
    "sendreq_psock_nonblocking (ds_psock ops vc root_block att) (Inr req) (inst, []) = (AGENTD_STATUS_SUCCESS, (inst', [resp]))"
  using assms by (simp_all add: sendreq_psock_def sendreq_psock_nonblocking_def ds_psock_def)

lemma ds_psock_recv [simp]:
  "recvresp_psock (ds_psock ops vc root_block att) process (inst, [resp]) = (process resp, (inst, []))"
  by (simp add: recvresp_psock_def ds_psock_def)

subsection \<open>Nodes of the queue over the wire\<close>

lemma node_response:
  assumes "txn_node_wf n" "length cert < 2 ^ 32"
  shows "\<exists>n'. decode_response_txn_node m (response_packet m i AGENTD_STATUS_SUCCESS
      (Some (node_key n @ node_prev n @ node_next n @ node_artifact_id n @ mem32 (net_txn_state n) @ cert))) =
     Inr (\<lparr> method_code = m, resp_offset = i, resp_status = AGENTD_STATUS_SUCCESS \<rparr>, Some (n', cert)) \<and>
     node_key n' = node_key n \<and> node_next n' = node_next n \<and> net_txn_state n' = net_txn_state n"
proof -
  let ?p = "node_key n @ node_prev n @ node_next n @ node_artifact_id n @ mem32 (net_txn_state n) @ cert"
  have "length ?p = 68 + length cert" using assms(1) by (simp add: txn_node_wf_def)
  then have "dat_size (12 + 68) (response_packet m i st (Some ?p)) = of_nat (length cert)" for m st
    by (rule dat_size_packet)
  then show ?thesis using assms
    by (simp add: decode_response_txn_node_def with_response_def Let_def unat_of_nat32 txn_node_wf_def)
qed

lemma dispatch_get:
  "dataservice_decode_and_dispatch ops vc root_block att env inst (net32 18 @ b) =
     dataservice_decode_and_dispatch_transaction_get ops env inst b"
  by (simp add: dataservice_decode_and_dispatch_def Let_def)

text \<open>What a client sees of a node: key, next key and state.\<close>

definition sees_node :: "kv \<Rightarrow> bytes \<Rightarrow> data_transaction_node \<Rightarrow> bool" where
  "sees_node v k n \<longleftrightarrow> node_key n = k \<and> node_next n = node_next (node_at v k) \<and> net_txn_state n = net_txn_state (node_at v k)"

context wire_client
begin

lemma get_handler:
  assumes look: "dataservice_child_context_lookup inst index = Inr child" and e: "details (inst_ctx inst) = Some e" and len: "length k = 16"
    and cap: "BITCAP_ISSET (childcaps child) DATASERVICE_API_CAP_APP_PQ_TRANSACTION_READ"
    and g: "dataservice_transaction_get ops True child e None k = ((st, e', p'), r)"
  shows "dataservice_decode_and_dispatch ops vc root_block att env_ok inst (net32 18 @ net32 index @ k) =
    Some (AGENTD_STATUS_SUCCESS, [response_packet 18 index st (map_option (\<lambda>(n, c).
      node_key n @ node_prev n @ node_next n @ node_artifact_id n @ mem32 (net_txn_state n) @ c) r)], set_details inst e')"
proof -
  have dec: "dataservice_decode_request_transaction_get (net32 index @ k) = Inr \<lparr> child_index = index, req_txn_id = k \<rparr>"
    using len by (simp add: dataservice_decode_request_transaction_get_def codec_defs)
  show ?thesis
    unfolding dispatch_get dataservice_decode_and_dispatch_transaction_get_def dec
    by (subst run_details_Some [where ctx = child and e = e and e' = e' and p' = p' and st = st])
      (use look e g cap in \<open>auto simp: encode_found_def dataservice_encode_response_transaction_get_def
        response_payload_def split: option.splits\<close>)
qed

lemma node_seen:
  assumes "pq_holds v q" "x \<in> set q" "length (snd (snd x)) < 2 ^ 32"
  shows "\<exists>n'. decode_response_txn_node m (response_packet m i AGENTD_STATUS_SUCCESS (Some (node_key (node_at v (fst x)) @
      node_prev (node_at v (fst x)) @ node_next (node_at v (fst x)) @ node_artifact_id (node_at v (fst x)) @
      mem32 (net_txn_state (node_at v (fst x))) @ snd (snd x)))) =
     Inr (\<lparr> method_code = m, resp_offset = i, resp_status = AGENTD_STATUS_SUCCESS \<rparr>, Some (n', snd (snd x))) \<and> sees_node v (fst x) n'"
proof -
  have "pq_rep v (map fst q)" using assms(1) by (simp add: pq_holds_def)
  then have ok: "entry_ok v (fst x)" using assms(2) by (auto intro: pq_rep_entry [of _ _ "fst x"])
  then show ?thesis using node_response [OF _ assms(3), of "node_at v (fst x)" m i] entry_okD [OF ok] by (auto simp: sees_node_def)
qed

lemma pq_next:
  assumes "pq_holds v (x # q)"
  shows "node_next (node_at v (fst x)) = hd (map fst q @ [ff_uuid])" "\<forall>y\<in>set q. fst y \<noteq> ff_uuid"
proof -
  have r: "pq_rep v (fst x # map fst q)" using assms by (simp add: pq_holds_def)
  then show "node_next (node_at v (fst x)) = hd (map fst q @ [ff_uuid])" by (cases q) (auto simp: pq_rep_def chain_def)
  show "\<forall>y\<in>set q. fst y \<noteq> ff_uuid" 
  proof -
    have "ff_uuid \<notin> fst ` set q" using r by (auto simp: pq_rep_def)
    then show ?thesis by (metis imageI)
  qed
qed

lemma query_first:
  assumes h: "wire_holds ev child index inst (x # q)" and e: "details (inst_ctx inst) = Some e"
  shows "\<exists>e' n. attestationservice_dataservice_query_pending_transaction (ds_psock ops vc root_block att) 0 True index None (inst, []) =
      (AGENTD_STATUS_SUCCESS, Some (n, snd (snd x)), (set_details inst e', [])) \<and>
     node_key n = fst x \<and> node_next n = hd (map fst q @ [ff_uuid]) \<and> net_txn_state n = net_txn_state (node_at (ev e pq_db) (fst x)) \<and>
     wire_holds ev child index (set_details inst e') (x # q)"
proof -
  let ?v = "ev e pq_db"
  have p: "pq_holds ?v (x # q)" and look: "dataservice_child_context_lookup inst index = Inr child" and l: "length (snd (snd x)) < 2 ^ 32"
    using h e by (auto simp: wire_holds_def)
  have rep: "pq_rep (view e None pq_db) (fst x # map fst q)" and c: "content ?v (fst x) = snd x" "snd (snd x) \<noteq> []"
    using p by (simp_all add: pq_holds_def)
  obtain e' p' where g: "dataservice_transaction_get_first ops True child e None =
      ((AGENTD_STATUS_SUCCESS, e', p'), Some (node_at ?v (fst x), snd (snd x)))"
    using get_first_reliable [OF rep, of child] c caps by (auto simp: pq_caps_def)
  have ev: "ev e' = ev e" using get_first_unchanged [of e None True child] unfolding g by (cases p') simp_all
  obtain n where n: "dataservice_decode_response_transaction_get_first (response_packet 17 index 0 (Some (node_key (node_at ?v (fst x)) @
      node_prev (node_at ?v (fst x)) @ node_next (node_at ?v (fst x)) @ node_artifact_id (node_at ?v (fst x)) @
      mem32 (net_txn_state (node_at ?v (fst x))) @ snd (snd x)))) =
     Inr (\<lparr> method_code = 17, resp_offset = index, resp_status = AGENTD_STATUS_SUCCESS \<rparr>, Some (n, snd (snd x)))" "sees_node ?v (fst x) n"
    using node_seen [OF p _ l, of 17 index] by (auto simp: dataservice_decode_response_transaction_get_first_def)
  have "wire_holds ev child index (set_details inst e') (x # q)" using h e ev by (simp add: wire_holds_def)
  moreover have "attestationservice_dataservice_query_pending_transaction (ds_psock ops vc root_block att) 0 True index None (inst, []) =
      (AGENTD_STATUS_SUCCESS, Some (copy_txn_node n, snd (snd x)), (set_details inst e', []))"
    using ds_psock_send(2) [OF first_handler [OF look e g]] n(1)
    by (simp add: attestationservice_dataservice_query_pending_transaction_def attestationservice_dataservice_query_first_pending_txn_def
      dataservice_api_sendreq_transaction_get_first_def dataservice_encode_request_transaction_get_first_def request_buffer_def
      dataservice_api_recvresp_transaction_get_first_def recv_node_def query_result_def Let_def)
  ultimately show ?thesis using n(2) pq_next(1) [OF p] by (auto simp: sees_node_def copy_txn_node_def)
qed

lemma query_head:
  assumes h: "wire_holds ev child index inst (x # q)" and cap: "BITCAP_ISSET (childcaps child) DATASERVICE_API_CAP_APP_PQ_TRANSACTION_READ"
  shows "\<exists>inst' n. attestationservice_dataservice_query_pending_transaction (ds_psock ops vc root_block att) 0 True index (Some (fst x)) (inst, []) =
      (AGENTD_STATUS_SUCCESS, Some (n, snd (snd x)), (inst', [])) \<and>
     node_key n = fst x \<and> node_next n = hd (map fst q @ [ff_uuid]) \<and> wire_holds ev child index inst' (x # q)"
proof -
  obtain e where e: "details (inst_ctx inst) = Some e" using h by (auto simp: wire_holds_def)
  let ?v = "ev e pq_db"
  have p: "pq_holds ?v (x # q)" and look: "dataservice_child_context_lookup inst index = Inr child" and l: "length (snd (snd x)) < 2 ^ 32"
    using h e by (auto simp: wire_holds_def)
  have rep: "pq_rep (view e None pq_db) (fst x # map fst q)" and c: "content ?v (fst x) = snd x" "snd (snd x) \<noteq> []"
    using p by (simp_all add: pq_holds_def)
  obtain e' p' where g: "dataservice_transaction_get ops True child e None (fst x) =
      ((AGENTD_STATUS_SUCCESS, e', p'), Some (node_at ?v (fst x), snd (snd x)))"
    using get_reliable [OF rep, of "fst x" child] c cap by auto
  have ev: "ev e' = ev e" using get_unchanged [of e None True child "fst x"] unfolding g by (cases p') simp_all
  have len: "length (fst x) = 16" using pq_rep_entry [OF rep, of "fst x"] entry_ok_length by auto
  obtain n where n: "dataservice_decode_response_transaction_get (response_packet 18 index 0 (Some (node_key (node_at ?v (fst x)) @
      node_prev (node_at ?v (fst x)) @ node_next (node_at ?v (fst x)) @ node_artifact_id (node_at ?v (fst x)) @
      mem32 (net_txn_state (node_at ?v (fst x))) @ snd (snd x)))) =
     Inr (\<lparr> method_code = 18, resp_offset = index, resp_status = AGENTD_STATUS_SUCCESS \<rparr>, Some (n, snd (snd x)))" "sees_node ?v (fst x) n"
    using node_seen [OF p _ l, of 18 index] by (auto simp: dataservice_decode_response_transaction_get_def)
  have "wire_holds ev child index (set_details inst e') (x # q)" using h e ev by (simp add: wire_holds_def)
  moreover have "attestationservice_dataservice_query_pending_transaction (ds_psock ops vc root_block att) 0 True index (Some (fst x)) (inst, []) =
      (AGENTD_STATUS_SUCCESS, Some (copy_txn_node n, snd (snd x)), (set_details inst e', []))"
    using ds_psock_send(1) [OF get_handler [OF look e len cap g]] n(1)
    by (simp add: attestationservice_dataservice_query_pending_transaction_def attestationservice_dataservice_query_pending_txn_def
      dataservice_api_sendreq_transaction_get_def dataservice_encode_request_transaction_get_def request_buffer_def
      dataservice_api_recvresp_transaction_get_def recv_node_def query_result_def Let_def)
  ultimately show ?thesis using n(2) pq_next(1) [OF p] by (auto simp: sees_node_def copy_txn_node_def)
qed

lemma drop_head:
  assumes h: "wire_holds ev child index inst (x # q)" and "att_data_sock i = (inst, [])" "node_key n = fst x" "drop_buf_st env = 0"
  shows "\<exists>inst'. drop_transaction (ds_psock ops vc root_block att) env index n i = (AGENTD_STATUS_SUCCESS, i\<lparr>att_data_sock := (inst', [])\<rparr>) \<and>
     wire_holds ev child index inst' q"
proof -
  obtain e' where d: "dataservice_decode_and_dispatch ops vc root_block att env_ok inst (net32 19 @ net32 index @ fst x) =
      Some (AGENTD_STATUS_SUCCESS, [response_packet 19 index AGENTD_STATUS_SUCCESS None], set_details inst e')"
    "wire_holds ev child index (set_details inst e') q" using drop_reply [OF h, of x] by auto
  then show ?thesis using ds_psock_send(1) [OF d(1)] assms(2-)
    by (auto simp: drop_transaction_def dataservice_api_sendreq_transaction_drop_def dataservice_encode_request_transaction_drop_def
      request_buffer_def dataservice_api_recvresp_transaction_drop_def recv_status_def status_responses)
qed

lemma loop_drops:
  assumes ok: "\<forall>k. drop_buf_st (envs k) = 0 \<and> get_buf_st (envs k) = 0 \<and> get_malloc (envs k) \<and> txn_reclaim_st (envs k) = 0"
    and cap: "BITCAP_ISSET (childcaps child) DATASERVICE_API_CAP_APP_PQ_TRANSACTION_READ"
    and "wire_holds ev child index inst (x # q)" "att_data_sock i = (inst, [])" "node_key n = fst x" "node_next n = hd (map fst q @ [ff_uuid])"
  shows "\<exists>inst'. attestation_loop (ds_psock ops vc root_block att) tops envs index k n data i =
      Some (AGENTD_STATUS_SUCCESS, i\<lparr>att_data_sock := (inst', [])\<rparr>) \<and> wire_holds ev child index inst' []"
  using assms(3-)
proof (induction q arbitrary: x inst i n data k)
  case Nil
  obtain inst' where d: "drop_transaction (ds_psock ops vc root_block att) (envs k) index n i = (AGENTD_STATUS_SUCCESS, i\<lparr>att_data_sock := (inst', [])\<rparr>)"
    "wire_holds ev child index inst' []" using drop_head [OF Nil(1-3)] ok by blast
  then show ?case using ok Nil(4)
    by (subst attestation_loop.simps) (auto simp: attestation_step_def judge_transaction_def attestationservice_verify_txn_has_valid_fields_def
      after_release_def)
next
  case (Cons y q)
  obtain inst1 where d: "drop_transaction (ds_psock ops vc root_block att) (envs k) index n i = (AGENTD_STATUS_SUCCESS, i\<lparr>att_data_sock := (inst1, [])\<rparr>)"
    and w: "wire_holds ev child index inst1 (y # q)" using drop_head [OF Cons.prems(1-3)] ok by blast
  obtain inst2 n2 where g: "attestationservice_dataservice_query_pending_transaction (ds_psock ops vc root_block att) 0 True index (Some (fst y)) (inst1, []) =
      (AGENTD_STATUS_SUCCESS, Some (n2, snd (snd y)), (inst2, []))" "node_key n2 = fst y" "node_next n2 = hd (map fst q @ [ff_uuid])"
    "wire_holds ev child index inst2 (y # q)" using query_head [OF w cap] by blast
  obtain e where "pq_holds (ev e pq_db) (x # y # q)" using Cons.prems(1) by (auto simp: wire_holds_def)
  from pq_next(2) [OF this] have "fst y \<noteq> ff_uuid" by simp
  then have "attestation_step (ds_psock ops vc root_block att) tops (envs k) index n data i =
      Att_next n2 (snd (snd y)) (i\<lparr>att_data_sock := (inst2, [])\<rparr>)"
    using ok Cons.prems(4) by (auto simp: attestation_step_def judge_transaction_def attestationservice_verify_txn_has_valid_fields_def d g(1))
  moreover obtain inst3 where "attestation_loop (ds_psock ops vc root_block att) tops envs index (Suc k) n2 (snd (snd y)) (i\<lparr>att_data_sock := (inst2, [])\<rparr>) =
      Some (AGENTD_STATUS_SUCCESS, i\<lparr>att_data_sock := (inst3, [])\<rparr>)" "wire_holds ev child index inst3 []"
    using Cons.IH [OF g(4) _ g(2,3), of "i\<lparr>att_data_sock := (inst2, [])\<rparr>" "Suc k" "snd (snd y)"] by auto
  ultimately show ?case by (subst attestation_loop.simps) auto
qed

lemma round_drops:
  assumes ok: "\<forall>k. drop_buf_st (envs k) = 0 \<and> get_buf_st (envs k) = 0 \<and> get_malloc (envs k) \<and> txn_reclaim_st (envs k) = 0"
    and cap: "BITCAP_ISSET (childcaps child) DATASERVICE_API_CAP_APP_PQ_TRANSACTION_READ"
    and h: "wire_holds ev child index inst (x # q)" "att_data_sock i = (inst, [])"
    and e: "details (inst_ctx inst) = Some e" "ntohl (net_txn_state (node_at (ev e pq_db) (fst x))) = DATASERVICE_TRANSACTION_NODE_STATE_SUBMITTED"
  shows "\<exists>inst'. attestationservice_do_attestation (ds_psock ops vc root_block att) tops envs 0 True index i =
      Some (AGENTD_STATUS_SUCCESS, i\<lparr>att_data_sock := (inst', [])\<rparr>) \<and> wire_holds ev child index inst' []"
proof -
  obtain e' n where g: "attestationservice_dataservice_query_pending_transaction (ds_psock ops vc root_block att) 0 True index None (inst, []) =
      (AGENTD_STATUS_SUCCESS, Some (n, snd (snd x)), (set_details inst e', []))" "node_key n = fst x" "node_next n = hd (map fst q @ [ff_uuid])"
    "net_txn_state n = net_txn_state (node_at (ev e pq_db) (fst x))" "wire_holds ev child index (set_details inst e') (x # q)"
    using query_first [OF h(1) e(1)] by blast
  obtain inst' where "attestation_loop (ds_psock ops vc root_block att) tops envs index 0 n (snd (snd x)) (i\<lparr>att_data_sock := (set_details inst e', [])\<rparr>) =
      Some (AGENTD_STATUS_SUCCESS, i\<lparr>att_data_sock := (inst', [])\<rparr>)" "wire_holds ev child index inst' []"
    using loop_drops [OF ok cap g(5) _ g(2,3), of "i\<lparr>att_data_sock := (set_details inst e', [])\<rparr>" tops 0 "snd (snd x)"] by auto
  then show ?thesis using g h(2) e(2) by (auto simp: attestationservice_do_attestation_def)
qed

end

text \<open>
  C15. A round of the attestation service ends, and it empties the process queue: when the first
  transaction of the queue of the data service is not attested yet, the service walks
  the whole queue, asks for every transaction by the key the one before it names, and has every one
  dropped, whatever it is, because the three checks refuse every transaction and
  the state is read of the first one only.
\<close>

theorem attestation_round_empties_queue:
  assumes "lmdb_reliable ops ev tv" "pq_caps child" "BITCAP_ISSET (childcaps child) DATASERVICE_API_CAP_APP_PQ_TRANSACTION_READ"
    and "wire_holds ev child index inst (x # q)" "att_data_sock i = (inst, [])"
    and "details (inst_ctx inst) = Some e" "ntohl (net_txn_state (node_at (ev e pq_db) (fst x))) = DATASERVICE_TRANSACTION_NODE_STATE_SUBMITTED"
    and "\<forall>k. drop_buf_st (envs k) = 0 \<and> get_buf_st (envs k) = 0 \<and> get_malloc (envs k) \<and> txn_reclaim_st (envs k) = 0"
  shows "\<exists>inst'. attestationservice_do_attestation (ds_psock ops vc root_block att) tops envs 0 True index i =
      Some (AGENTD_STATUS_SUCCESS, i\<lparr>att_data_sock := (inst', [])\<rparr>) \<and> wire_holds ev child index inst' []"
proof -
  have "wire_client ops ev tv child" using assms(1,2) by (simp add: wire_client_def pq_client_def pq_client_axioms_def)
  from wire_client.round_drops [OF this assms(8,3-7)] show ?thesis .
qed


definition att_env_ok :: att_env where
  "att_env_ok = \<lparr> drop_buf_st = 0, promote_buf_st = 0, artifact_buf_st = 0, get_buf_st = 0, get_malloc = True, txn_alloc_st = 0,
     artifact_alloc_st = 0, artifact_release_st = 0, txn_release_st = 0, txn_reclaim_st = 0 \<rparr>"

definition map_tree_ops :: "(bytes \<times> nat) list att_tree_ops" where
  "map_tree_ops = \<lparr> att_insert = (\<lambda>k r t. if map_of t k = None then (0, (k, r) # t) else (2, t)),
     att_find = (\<lambda>k t. case map_of t k of None \<Rightarrow> Inl 1 | Some r \<Rightarrow> Inr r), att_clear = (\<lambda>t. (0, [])), att_not_found = 1 \<rparr>"

text \<open>A queue of one transaction, submitted to an empty data service.\<close>

definition submitted_instance :: "mem_db dataservice_instance" where
  "submitted_instance = set_details ((demo_instance True)\<lparr>children := replicate 1024 (child_details_zero\<lparr>child_dispose := True, child_ctx := full_child\<rparr>)\<rparr>)
     (empty_db(pq_db := demo_queue))"

lemma submitted_instance_holds: "wire_holds (\<lambda>e. e) full_child 0 submitted_instance [(demo_id 1, demo_id 2, [7])]"
  using demo_queue_holds
  by (simp add: submitted_instance_def wire_holds_def dataservice_child_context_lookup_def demo_instance_def
    dataservice_root_context_init_def dataservice_database_open_def Let_def BITCAP_ISSET_def BITCAP_OFFSET_def BITCAP_SHIFT_def)

lemma submitted_state: "ntohl (net_txn_state (node_at demo_queue (demo_id 1))) = DATASERVICE_TRANSACTION_NODE_STATE_SUBMITTED"
  by code_simp

theorem attestation_round_empties_queue_witness:
  "\<exists>inst'. attestationservice_do_attestation (ds_psock mem_lmdb no_vccert (demo_id 4) True) map_tree_ops (\<lambda>_. att_env_ok) 0 True 0
       \<lparr> att_data_sock = (submitted_instance, []), att_transaction_tree = [], att_artifact_tree = [], att_transactions = [], att_artifacts = [] \<rparr> =
     Some (AGENTD_STATUS_SUCCESS, \<lparr> att_data_sock = (inst', []), att_transaction_tree = [], att_artifact_tree = [],
       att_transactions = [], att_artifacts = [] \<rparr>) \<and> wire_holds (\<lambda>e. e) full_child 0 inst' []"
proof -
  let ?i = "\<lparr> att_data_sock = (submitted_instance, []), att_transaction_tree = [], att_artifact_tree = [], att_transactions = [], att_artifacts = [] \<rparr>"
  have "pq_caps full_child" "BITCAP_ISSET (childcaps full_child) 18" by (simp_all add: pq_caps_def full_child_caps)
  moreover have "details (inst_ctx submitted_instance) = Some (empty_db(pq_db := demo_queue))" by (simp add: submitted_instance_def)
  ultimately show ?thesis
    using attestation_round_empties_queue [OF mem.lmdb_reliable_axioms, of full_child 0 submitted_instance "(demo_id 1, demo_id 2, [7])" "[]" ?i
      "empty_db(pq_db := demo_queue)" "\<lambda>_. att_env_ok" no_vccert "demo_id 4" True map_tree_ops] submitted_instance_holds submitted_state
    by (simp add: att_env_ok_def)
qed

text \<open>A signal makes the fiber ask all fibers to quiesce, then to terminate, unless a call fails.\<close>

lemma signal_quiesces_then_terminates:
  assumes "\<forall>k. write_st k = 0" "\<forall>k. send_st k = 0"
  shows "snd (reaper_fiber_entry send_st read_st release_st (snd (signal_thread_entry write_st thread_st))) = [Quiesce_all, Terminate_all]"
  using assms by (simp add: reaper_fiber_entry_def signal_thread_entry_def)

end
