(* ===== verification/Privsep.thy ===== *)
theory Privsep
  imports Process_Status Bootstrap Config
begin

text \<open>
  The process that runs the code, as far as privilege separation changes it
  (\<^verbatim>\<open>src/src/privsep\<close>): descriptors, root and working directory, user and group ids and
  environment, with the calls of the operating system that \<^verbatim>\<open>privsep\<close> makes; the
  life of a child process (\<^verbatim>\<open>src/src/process\<close>) and \<^verbatim>\<open>ipc_socketpair\<close>.

  What the operating system decides (whether a call fails, the password file, what
  \<^verbatim>\<open>fork\<close> returns) is the environment \<open>os\<close>; what a call that succeeds does to the
  process is written out.  The flag \<open>os_openbsd\<close> says whether the daemon is built for and
  runs on OpenBSD, where \<^verbatim>\<open>privsep_drop_privileges\<close> sets the effective ids first.  Messages to \<^verbatim>\<open>stderr\<close> are left out.
\<close>

subsection \<open>Processes\<close>

text \<open>Open files: those the process was given, the two ends of a socket pair, files opened by name, and sockets.\<close>

datatype open_file = Given_file nat | Pair_left | Pair_right | Opened_file bytes | Inet_socket
  | Bound_socket bytes "16 word" | Listening_socket bytes "16 word"

record process =
  descriptors :: "int \<rightharpoonup> open_file"
  root_dirs :: "bytes list"
  working_dir :: "bytes option"
  real_uid :: nat
  effective_uid :: nat
  saved_uid :: nat
  real_gid :: nat
  effective_gid :: nat
  saved_gid :: nat
  supplementary_groups :: "nat list"
  environ :: "bytes \<rightharpoonup> bytes"

record os_env =
  os_nofile :: nat
  os_passwd :: "bytes \<rightharpoonup> nat"
  os_group :: "bytes \<rightharpoonup> nat"
  os_chdir :: "bytes \<Rightarrow> bool"
  os_chroot :: "bytes \<Rightarrow> bool"
  os_openbsd :: bool
  os_setegid :: bool
  os_seteuid :: bool
  os_setgid :: bool
  os_setuid :: bool
  os_setenv :: "bytes \<Rightarrow> bool"
  os_dup2 :: "int \<Rightarrow> int \<Rightarrow> bool"
  os_socketpair :: bool
  os_fork :: int
  os_open :: "bytes \<Rightarrow> bool"
  os_socket :: "config_listen_address \<Rightarrow> bool"
  os_bind :: "config_listen_address \<Rightarrow> bool"
  os_listen :: "config_listen_address \<Rightarrow> bool"
  os_exec :: "bytes \<Rightarrow> bool"

text \<open>
  A function of the daemon returns to its caller with its result, or its process runs
  another program.  Following a pointer that is null or freed is \<open>Undefined\<close>.
\<close>

datatype 'a outcome = Undefined | Returned 'a process | Executed bytes "bytes list" process

abbreviation (input) cstr :: "string \<Rightarrow> bytes" where "cstr s \<equiv> map of_char s"

subsection \<open>Calls of the operating system\<close>

definition close_fd :: "int \<Rightarrow> process \<Rightarrow> process" where
  "close_fd fd p = p\<lparr>descriptors := (descriptors p)(fd := None)\<rparr>"

definition dup2 :: "os_env \<Rightarrow> int \<Rightarrow> int \<Rightarrow> process \<Rightarrow> process option" where
  "dup2 os old new p =
     (if descriptors p old = None \<or> new < 0 \<or> int (os_nofile os) \<le> new \<or> \<not> os_dup2 os old new then None
      else Some (p\<lparr>descriptors := (descriptors p)(new := descriptors p old)\<rparr>))"

text \<open>A new descriptor is the lowest that is free.\<close>

definition new_fd :: "os_env \<Rightarrow> open_file \<Rightarrow> process \<Rightarrow> (int \<times> process) option" where
  "new_fd os f p =
     (case find (\<lambda>i. descriptors p (int i) = None) [0 ..< os_nofile os] of
        None \<Rightarrow> None
      | Some i \<Rightarrow> Some (int i, p\<lparr>descriptors := (descriptors p)(int i \<mapsto> f)\<rparr>))"

definition socketpair :: "os_env \<Rightarrow> process \<Rightarrow> (int \<times> int \<times> process) option" where
  "socketpair os p =
     (if \<not> os_socketpair os then None else
      case new_fd os Pair_left p of None \<Rightarrow> None | Some (l, p) \<Rightarrow>
      case new_fd os Pair_right p of None \<Rightarrow> None | Some (r, p) \<Rightarrow> Some (l, r, p))"

definition open_read :: "os_env \<Rightarrow> bytes \<Rightarrow> process \<Rightarrow> (int \<times> process) option" where
  "open_read os path p = (if \<not> os_open os path then None else new_fd os (Opened_file path) p)"

definition chdir :: "os_env \<Rightarrow> bytes option \<Rightarrow> process \<Rightarrow> process option" where
  "chdir os dir p =
     (case dir of None \<Rightarrow> None | Some d \<Rightarrow> if os_chdir os d then Some (p\<lparr>working_dir := dir\<rparr>) else None)"

definition chroot :: "os_env \<Rightarrow> bytes option \<Rightarrow> process \<Rightarrow> process option" where
  "chroot os dir p =
     (case dir of None \<Rightarrow> None | Some d \<Rightarrow> if os_chroot os d then Some (p\<lparr>root_dirs := d # root_dirs p\<rparr>) else None)"

definition setegid :: "os_env \<Rightarrow> nat \<Rightarrow> process \<Rightarrow> process option" where
  "setegid os g p = (if os_setegid os then Some (p\<lparr>effective_gid := g\<rparr>) else None)"

definition seteuid :: "os_env \<Rightarrow> nat \<Rightarrow> process \<Rightarrow> process option" where
  "seteuid os u p = (if os_seteuid os then Some (p\<lparr>effective_uid := u\<rparr>) else None)"

text \<open>
  Only the superuser changes all three ids; on OpenBSD also a process whose effective id
  already is the one it asks for (its manual page setuid(2)).
\<close>

definition setgid :: "os_env \<Rightarrow> nat \<Rightarrow> process \<Rightarrow> process option" where
  "setgid os g p =
     (if \<not> os_setgid os then None
      else if effective_uid p = 0 \<or> (os_openbsd os \<and> effective_gid p = g)
      then Some (p\<lparr>real_gid := g, effective_gid := g, saved_gid := g\<rparr>)
      else Some (p\<lparr>effective_gid := g\<rparr>))"

definition setuid :: "os_env \<Rightarrow> nat \<Rightarrow> process \<Rightarrow> process option" where
  "setuid os u p =
     (if \<not> os_setuid os then None
      else if effective_uid p = 0 \<or> (os_openbsd os \<and> effective_uid p = u)
      then Some (p\<lparr>real_uid := u, effective_uid := u, saved_uid := u\<rparr>)
      else Some (p\<lparr>effective_uid := u\<rparr>))"

definition setenv :: "os_env \<Rightarrow> bytes \<Rightarrow> bytes \<Rightarrow> process \<Rightarrow> process option" where
  "setenv os name val p =
     (if os_setenv os name then Some (p\<lparr>environ := (environ p)(name \<mapsto> val)\<rparr>) else None)"

subsection \<open>Privilege separation\<close>

definition privsep_lookup_usergroup :: "os_env \<Rightarrow> bytes \<Rightarrow> bytes \<Rightarrow> status + nat \<times> nat" where
  "privsep_lookup_usergroup os user grp =
     (case os_passwd os user of None \<Rightarrow> Inl AGENTD_ERROR_GENERAL_GETPWNAM_FAILURE | Some uid \<Rightarrow>
      case os_group os grp of None \<Rightarrow> Inl AGENTD_ERROR_GENERAL_GETGRNAM_FAILURE | Some gid \<Rightarrow> Inr (uid, gid))"

definition privsep_chroot :: "os_env \<Rightarrow> bytes option \<Rightarrow> process \<Rightarrow> status \<times> process" where
  "privsep_chroot os dir p =
     (case chdir os dir p of None \<Rightarrow> (AGENTD_ERROR_GENERAL_CHDIR_FAILURE, p) | Some p \<Rightarrow>
      case chroot os dir p of None \<Rightarrow> (AGENTD_ERROR_GENERAL_CHROOT_FAILURE, p) | Some p \<Rightarrow>
        (AGENTD_STATUS_SUCCESS, p))"

definition privsep_drop_privileges :: "os_env \<Rightarrow> nat \<Rightarrow> nat \<Rightarrow> process \<Rightarrow> status \<times> process" where
  "privsep_drop_privileges os uid gid p =
     (case if os_openbsd os then setegid os gid p else Some p of
        None \<Rightarrow> (AGENTD_ERROR_GENERAL_PRIVSEP_DROP_PRIVILEGES_SETEGID_FAILURE, p) | Some p \<Rightarrow>
      case if os_openbsd os then seteuid os uid p else Some p of
        None \<Rightarrow> (AGENTD_ERROR_GENERAL_PRIVSEP_DROP_PRIVILEGES_SETEUID_FAILURE, p) | Some p \<Rightarrow>
      case setgid os gid p of None \<Rightarrow> (AGENTD_ERROR_GENERAL_PRIVSEP_DROP_PRIVILEGES_SETGID_FAILURE, p) | Some p \<Rightarrow>
      case setuid os uid p of None \<Rightarrow> (AGENTD_ERROR_GENERAL_PRIVSEP_DROP_PRIVILEGES_SETUID_FAILURE, p) | Some p \<Rightarrow>
        (AGENTD_STATUS_SUCCESS, p))"

text \<open>The descriptors are moved to 500 and up; their new numbers replace the old ones.\<close>

fun protect_from :: "os_env \<Rightarrow> int \<Rightarrow> int list \<Rightarrow> process \<Rightarrow> status \<times> int list \<times> process" where
  "protect_from os high_desc [] p = (AGENTD_STATUS_SUCCESS, [], p)"
| "protect_from os high_desc (desc # fd_list) p =
     (case dup2 os desc high_desc p of
        None \<Rightarrow> (AGENTD_ERROR_GENERAL_PRIVSEP_SETFDS_DUP2_FAILURE, desc # fd_list, p)
      | Some p \<Rightarrow>
          (case protect_from os (high_desc + 1) fd_list (close_fd desc p) of
             (retval, fd_list, p) \<Rightarrow> (retval, high_desc # fd_list, p)))"

definition privsep_protect_descriptors :: "os_env \<Rightarrow> int list \<Rightarrow> process \<Rightarrow> status \<times> int list \<times> process" where
  "privsep_protect_descriptors os = protect_from os 500"

definition privsep_close_standard_fds :: "process \<Rightarrow> status \<times> process" where
  "privsep_close_standard_fds p = (AGENTD_STATUS_SUCCESS, close_fd 2 (close_fd 1 (close_fd 0 p)))"

text \<open>
  The pairs of a descriptor and the number it gets; the list stands for the variable
  arguments with their final \<open>-1\<close>.  The first pair is not checked.
\<close>

fun setfds_pair :: "os_env \<Rightarrow> int \<Rightarrow> int \<Rightarrow> (int \<times> int) list \<Rightarrow> process \<Rightarrow> status \<times> process" where
  "setfds_pair os cur mapped [] p =
     (case dup2 os cur mapped p of
        None \<Rightarrow> (AGENTD_ERROR_GENERAL_PRIVSEP_SETFDS_DUP2_FAILURE, p)
      | Some p \<Rightarrow> (AGENTD_STATUS_SUCCESS, close_fd cur p))"
| "setfds_pair os cur mapped ((next_cur, next_mapped) # fd_list) p =
     (case dup2 os cur mapped p of
        None \<Rightarrow> (AGENTD_ERROR_GENERAL_PRIVSEP_SETFDS_DUP2_FAILURE, p)
      | Some p \<Rightarrow>
          let p = close_fd cur p in
          if next_cur < 0 then (AGENTD_STATUS_SUCCESS, p)
          else if next_mapped < 0 then (AGENTD_ERROR_GENERAL_PRIVSEP_SETFDS_BAD_ARGUMENT, p)
          else setfds_pair os next_cur next_mapped fd_list p)"

definition privsep_setfds :: "os_env \<Rightarrow> (int \<times> int) list \<Rightarrow> process \<Rightarrow> status \<times> process" where
  "privsep_setfds os fd_list p =
     (case fd_list of [] \<Rightarrow> (AGENTD_STATUS_SUCCESS, p) | (cur, mapped) # fd_list \<Rightarrow> setfds_pair os cur mapped fd_list p)"

abbreviation (input) FD_SETSIZE :: int where "FD_SETSIZE \<equiv> 1024"

definition privsep_close_other_fds :: "int \<Rightarrow> process \<Rightarrow> status \<times> process" where
  "privsep_close_other_fds fd p = (AGENTD_STATUS_SUCCESS, fold close_fd [fd + 1 .. FD_SETSIZE - 1] p)"

text \<open>The arguments of a program end at the first null pointer.\<close>

definition exec_args :: "bytes option list \<Rightarrow> bytes list" where
  "exec_args as = map the (takeWhile (\<lambda>a. a \<noteq> None) as)"

definition privsep_exec_private :: "os_env \<Rightarrow> bootstrap_config \<Rightarrow> bytes \<Rightarrow> process \<Rightarrow> status outcome" where
  "privsep_exec_private os bconf command p =
     (case setenv os (cstr ''PATH'') (cstr ''/bin'') p of
        None \<Rightarrow> Returned AGENTD_ERROR_GENERAL_PRIVSEP_EXEC_PRIVATE_SETENV_FAILURE p
      | Some p \<Rightarrow>
      case setenv os (cstr ''LD_LIBRARY_PATH'') (cstr ''/lib:/usr/libexec'') p of
        None \<Rightarrow> Returned AGENTD_ERROR_GENERAL_PRIVSEP_EXEC_PRIVATE_SETENV_FAILURE p
      | Some p \<Rightarrow>
          let args = (if config_file_override bconf
                      then [Some (cstr ''agentd''), Some (cstr ''-c''), config_file bconf, Some (cstr ''-P''), Some command]
                      else [Some (cstr ''agentd''), Some (cstr ''-P''), Some command]) in
          if os_exec os (cstr ''/bin/agentd'') then Executed (cstr ''/bin/agentd'') (exec_args args) p
          else Returned AGENTD_ERROR_GENERAL_PRIVSEP_EXEC_PRIVATE_EXECL_FAILURE p)"

definition ipc_socketpair :: "os_env \<Rightarrow> process \<Rightarrow> status + int \<times> int \<times> process" where
  "ipc_socketpair os p =
     (case socketpair os p of None \<Rightarrow> Inl AGENTD_ERROR_IPC_SOCKETPAIR_FAILURE | Some x \<Rightarrow> Inr x)"

subsection \<open>Child processes\<close>

text \<open>
  \<^verbatim>\<open>process_t\<close> with the process ids that run; its start function returns a status and the process
  id it stored.
\<close>

record process_t =
  process_id :: int
  running :: bool

definition process_start :: "(process_t \<Rightarrow> status \<times> process_t) \<Rightarrow> process_t \<Rightarrow> status \<times> process_t" where
  "process_start init_method prc =
     (if running prc then (AGENTD_ERROR_PROCESS_ALREADY_SPAWNED, prc) else
      case init_method prc of (retval, prc) \<Rightarrow>
        if retval \<noteq> AGENTD_STATUS_SUCCESS then (retval, prc) else (AGENTD_STATUS_SUCCESS, prc\<lparr>running := True\<rparr>))"

datatype signal_sent = SIGTERM int | SIGKILL int

definition process_stop_ex :: "nat \<Rightarrow> process_t \<Rightarrow> status \<times> signal_sent list \<times> process_t" where
  "process_stop_ex options prc =
     (if \<not> running prc then (AGENTD_ERROR_PROCESS_NOT_ACTIVE, [], prc)
      else (AGENTD_STATUS_SUCCESS, [SIGTERM (process_id prc)], if options = 0 then prc\<lparr>running := False\<rparr> else prc))"

definition process_stop :: "process_t \<Rightarrow> status \<times> signal_sent list \<times> process_t" where
  "process_stop = process_stop_ex 0"

definition process_kill :: "process_t \<Rightarrow> status \<times> signal_sent list \<times> process_t" where
  "process_kill prc =
     (if \<not> running prc then (AGENTD_ERROR_PROCESS_NOT_ACTIVE, [], prc)
      else (AGENTD_STATUS_SUCCESS, [SIGKILL (process_id prc)], prc\<lparr>running := False\<rparr>))"

end
