(* ===== verification/Process_Start.thy ===== *)
theory Process_Start
  imports Privsep
begin

text \<open>
  The functions that start the processes of the daemon (\<^verbatim>\<open>*_proc.c\<close>): each forks,
  and the child restricts itself, gets its descriptors at the fixed numbers of \<^verbatim>\<open>fds.h\<close> and
  executes the daemon again with a private command.

  A function is described as the process sees it that returns from \<^verbatim>\<open>fork\<close>: \<open>os_fork\<close> is 0
  in the child and the id of the child in the parent.  The result holds the values of the
  output parameters.
\<close>

subsection \<open>Descriptor numbers\<close>

abbreviation (input) AGENTD_FD_CONFIG_IN :: int where "AGENTD_FD_CONFIG_IN \<equiv> 0"
abbreviation (input) AGENTD_FD_CONFIG_OUT :: int where "AGENTD_FD_CONFIG_OUT \<equiv> 1"
abbreviation (input) AGENTD_FD_DATASERVICE_SOCK :: int where "AGENTD_FD_DATASERVICE_SOCK \<equiv> 0"
abbreviation (input) AGENTD_FD_DATASERVICE_LOG :: int where "AGENTD_FD_DATASERVICE_LOG \<equiv> 1"
abbreviation (input) AGENTD_FD_LISTENSERVICE_LOG :: int where "AGENTD_FD_LISTENSERVICE_LOG \<equiv> 0"
abbreviation (input) AGENTD_FD_LISTENSERVICE_ACCEPT :: int where "AGENTD_FD_LISTENSERVICE_ACCEPT \<equiv> 1"
abbreviation (input) AGENTD_FD_LISTENSERVICE_SOCK_START :: int where "AGENTD_FD_LISTENSERVICE_SOCK_START \<equiv> 2"
abbreviation (input) AGENTD_FD_PID :: int where "AGENTD_FD_PID \<equiv> 2"
abbreviation (input) AGENTD_FD_AUTHSERVICE_SOCK :: int where "AGENTD_FD_AUTHSERVICE_SOCK \<equiv> 0"
abbreviation (input) AGENTD_FD_AUTHSERVICE_LOG :: int where "AGENTD_FD_AUTHSERVICE_LOG \<equiv> 1"
abbreviation (input) AGENTD_FD_UNAUTHORIZED_PROTOSVC_ACCEPT :: int where "AGENTD_FD_UNAUTHORIZED_PROTOSVC_ACCEPT \<equiv> 0"
abbreviation (input) AGENTD_FD_UNAUTHORIZED_PROTOSVC_LOG :: int where "AGENTD_FD_UNAUTHORIZED_PROTOSVC_LOG \<equiv> 1"
abbreviation (input) AGENTD_FD_UNAUTHORIZED_PROTOSVC_DATA :: int where "AGENTD_FD_UNAUTHORIZED_PROTOSVC_DATA \<equiv> 2"
abbreviation (input) AGENTD_FD_UNAUTHORIZED_PROTOSVC_RANDOM :: int where "AGENTD_FD_UNAUTHORIZED_PROTOSVC_RANDOM \<equiv> 3"
abbreviation (input) AGENTD_FD_UNAUTHORIZED_PROTOSVC_CONTROL :: int where "AGENTD_FD_UNAUTHORIZED_PROTOSVC_CONTROL \<equiv> 4"
abbreviation (input) AGENTD_FD_UNAUTHORIZED_PROTOSVC_NOTIFY :: int where "AGENTD_FD_UNAUTHORIZED_PROTOSVC_NOTIFY \<equiv> 5"
abbreviation (input) AGENTD_FD_RANDOM_SERVICE_RANDOM_DEVICE :: int where "AGENTD_FD_RANDOM_SERVICE_RANDOM_DEVICE \<equiv> 0"
abbreviation (input) AGENTD_FD_RANDOM_SERVICE_PROTOCOL_SERVICE :: int where "AGENTD_FD_RANDOM_SERVICE_PROTOCOL_SERVICE \<equiv> 1"
abbreviation (input) AGENTD_FD_RANDOM_SERVICE_LOG_SOCKET :: int where "AGENTD_FD_RANDOM_SERVICE_LOG_SOCKET \<equiv> 2"
abbreviation (input) AGENTD_FD_CANONIZATION_SVC_LOG :: int where "AGENTD_FD_CANONIZATION_SVC_LOG \<equiv> 0"
abbreviation (input) AGENTD_FD_CANONIZATION_SVC_DATA :: int where "AGENTD_FD_CANONIZATION_SVC_DATA \<equiv> 1"
abbreviation (input) AGENTD_FD_CANONIZATION_SVC_RANDOM :: int where "AGENTD_FD_CANONIZATION_SVC_RANDOM \<equiv> 2"
abbreviation (input) AGENTD_FD_CANONIZATION_SVC_CONTROL :: int where "AGENTD_FD_CANONIZATION_SVC_CONTROL \<equiv> 3"
abbreviation (input) AGENTD_FD_CANONIZATION_SVC_NOTIFICATION :: int where "AGENTD_FD_CANONIZATION_SVC_NOTIFICATION \<equiv> 4"
abbreviation (input) AGENTD_FD_ATTESTATION_SVC_LOG :: int where "AGENTD_FD_ATTESTATION_SVC_LOG \<equiv> 0"
abbreviation (input) AGENTD_FD_ATTESTATION_SVC_DATA :: int where "AGENTD_FD_ATTESTATION_SVC_DATA \<equiv> 1"
abbreviation (input) AGENTD_FD_ATTESTATION_SVC_CONTROL :: int where "AGENTD_FD_ATTESTATION_SVC_CONTROL \<equiv> 2"
abbreviation (input) AGENTD_FD_NOTIFICATION_SVC_LOG :: int where "AGENTD_FD_NOTIFICATION_SVC_LOG \<equiv> 0"
abbreviation (input) AGENTD_FD_NOTIFICATION_SVC_CLIENT1 :: int where "AGENTD_FD_NOTIFICATION_SVC_CLIENT1 \<equiv> 1"
abbreviation (input) AGENTD_FD_NOTIFICATION_SVC_CLIENT2 :: int where "AGENTD_FD_NOTIFICATION_SVC_CLIENT2 \<equiv> 2"

subsection \<open>What the children do\<close>

text \<open>The status codes by which a function reports where its child failed.\<close>

record child_codes =
  lookup_st :: status
  chroot_st :: status
  drop_st :: status
  protect_st :: status
  setfds_st :: status
  other_st :: status
  exec_st :: status
  survival_st :: status

definition become_user :: "os_env \<Rightarrow> child_codes \<Rightarrow> bootstrap_config \<Rightarrow> status + nat \<times> nat \<Rightarrow> process \<Rightarrow> status \<times> process" where
  "become_user os codes bconf ids p =
     (case ids of Inl _ \<Rightarrow> (lookup_st codes, p) | Inr (uid, gid) \<Rightarrow>
      case privsep_chroot os (prefix_dir bconf) p of (retval, p) \<Rightarrow>
      if retval \<noteq> AGENTD_STATUS_SUCCESS then (chroot_st codes, p) else
      case privsep_drop_privileges os uid gid p of (retval, p) \<Rightarrow>
      if retval \<noteq> AGENTD_STATUS_SUCCESS then (drop_st codes, p) else (AGENTD_STATUS_SUCCESS, p))"

definition restrict_child ::
  "os_env \<Rightarrow> child_codes \<Rightarrow> bootstrap_config \<Rightarrow> agent_config \<Rightarrow> bool \<Rightarrow> process \<Rightarrow> (status \<times> process) option" where
  "restrict_child os codes bconf conf runsecure p =
     (if \<not> runsecure then Some (AGENTD_STATUS_SUCCESS, p) else
      case conf_usergroup conf of
        Usergroup user grp \<Rightarrow> Some (become_user os codes bconf (privsep_lookup_usergroup os user grp) p)
      | _ \<Rightarrow> None)"

definition pass_descriptors ::
  "os_env \<Rightarrow> child_codes \<Rightarrow> int list \<Rightarrow> int list \<Rightarrow> int \<Rightarrow> process \<Rightarrow> status \<times> int list \<times> process" where
  "pass_descriptors os codes fds mapped last_fd p =
     (case privsep_protect_descriptors os fds p of (retval, fds, p) \<Rightarrow>
      if retval \<noteq> AGENTD_STATUS_SUCCESS then (protect_st codes, fds, p) else
      case privsep_close_standard_fds p of (retval, p) \<Rightarrow>
      if retval \<noteq> AGENTD_STATUS_SUCCESS then (setfds_st codes, fds, p) else
      case privsep_setfds os (zip fds mapped) p of (retval, p) \<Rightarrow>
      if retval \<noteq> AGENTD_STATUS_SUCCESS then (setfds_st codes, fds, p) else
      case privsep_close_other_fds last_fd p of (retval, p) \<Rightarrow>
      if retval \<noteq> AGENTD_STATUS_SUCCESS then (other_st codes, fds, p) else (AGENTD_STATUS_SUCCESS, fds, p))"

definition exec_service ::
  "os_env \<Rightarrow> child_codes \<Rightarrow> bootstrap_config \<Rightarrow> bytes \<Rightarrow> bool \<Rightarrow> process \<Rightarrow> status outcome" where
  "exec_service os codes bconf command runsecure p =
     (case (if runsecure then privsep_exec_private os bconf command p
            else if os_exec os (cstr ''agentd'')
            then Executed (cstr ''agentd'') [cstr ''agentd'', cstr ''-P'', command] p
            else Returned (- 1) p) of
        Returned retval p \<Rightarrow> Returned (if retval \<noteq> AGENTD_STATUS_SUCCESS then exec_st codes else survival_st codes) p
      | Executed path args p \<Rightarrow> Executed path args p
      | Undefined \<Rightarrow> Undefined)"

text \<open>The common order; the descriptors are returned with the numbers they have when the child fails.\<close>

definition service_child ::
  "os_env \<Rightarrow> child_codes \<Rightarrow> bootstrap_config \<Rightarrow> agent_config \<Rightarrow> bytes \<Rightarrow> bool \<Rightarrow> int list \<Rightarrow> int list \<Rightarrow> int \<Rightarrow> process \<Rightarrow>
   (status \<times> int list) outcome" where
  "service_child os codes bconf conf command runsecure fds mapped last_fd p =
     (case restrict_child os codes bconf conf runsecure p of None \<Rightarrow> Undefined | Some (retval, p) \<Rightarrow>
      if retval \<noteq> AGENTD_STATUS_SUCCESS then Returned (retval, fds) p else
      case pass_descriptors os codes fds mapped last_fd p of (retval, fds, p) \<Rightarrow>
      if retval \<noteq> AGENTD_STATUS_SUCCESS then Returned (retval, fds) p else
      case exec_service os codes bconf command runsecure p of
        Returned retval p \<Rightarrow> Returned (retval, fds) p
      | Executed path args p \<Rightarrow> Executed path args p
      | Undefined \<Rightarrow> Undefined)"

definition close_open :: "int \<Rightarrow> process \<Rightarrow> process" where
  "close_open fd p = (if fd \<ge> 0 then close_fd fd p else p)"

subsection \<open>Services that own one end of a socket pair\<close>

definition dataservice_codes :: child_codes where
  "dataservice_codes = \<lparr> lookup_st = AGENTD_ERROR_DATASERVICE_PRIVSEP_LOOKUP_USERGROUP_FAILURE,
     chroot_st = AGENTD_ERROR_DATASERVICE_PRIVSEP_CHROOT_FAILURE,
     drop_st = AGENTD_ERROR_DATASERVICE_PRIVSEP_DROP_PRIVILEGES_FAILURE,
     protect_st = AGENTD_ERROR_DATASERVICE_PRIVSEP_SETFDS_FAILURE,
     setfds_st = AGENTD_ERROR_DATASERVICE_PRIVSEP_SETFDS_FAILURE,
     other_st = AGENTD_ERROR_DATASERVICE_PRIVSEP_CLOSE_OTHER_FDS,
     exec_st = AGENTD_ERROR_DATASERVICE_PRIVSEP_EXEC_PRIVATE_FAILURE,
     survival_st = AGENTD_ERROR_DATASERVICE_PRIVSEP_EXEC_SURVIVAL_WEIRDNESS \<rparr>"

definition dataservice_proc ::
  "os_env \<Rightarrow> bootstrap_config \<Rightarrow> agent_config \<Rightarrow> int \<Rightarrow> int \<Rightarrow> bool \<Rightarrow> process \<Rightarrow> (status \<times> int \<times> int \<times> int) outcome" where
  "dataservice_proc os bconf conf logsock datapid runsecure p =
     (if runsecure \<and> effective_uid p \<noteq> 0
      then Returned (AGENTD_ERROR_DATASERVICE_PROC_RUNSECURE_ROOT_USER_REQUIRED, logsock, - 1, datapid) p else
      case ipc_socketpair os p of
        Inl _ \<Rightarrow> Returned (AGENTD_ERROR_DATASERVICE_IPC_SOCKETPAIR_FAILURE, logsock, - 1, datapid) p
      | Inr (datasock, serversock, p) \<Rightarrow>
          let datapid = os_fork os in
          if datapid < 0 then
            Returned (AGENTD_ERROR_DATASERVICE_FORK_FAILURE, logsock, datasock, datapid) (close_open datasock (close_open serversock p))
          else if datapid = 0 then
            (case service_child os dataservice_codes bconf conf (cstr ''dataservice'') runsecure [serversock, logsock]
                    [AGENTD_FD_DATASERVICE_SOCK, AGENTD_FD_DATASERVICE_LOG] AGENTD_FD_DATASERVICE_LOG (close_fd datasock p) of
               Returned (retval, fds) p \<Rightarrow> Returned (retval, fds ! 1, - 1, datapid) (close_open (fds ! 0) p)
             | Executed path args p \<Rightarrow> Executed path args p
             | Undefined \<Rightarrow> Undefined)
          else Returned (AGENTD_STATUS_SUCCESS, - 1, datasock, datapid) (close_fd logsock (close_fd serversock p)))"

definition authservice_codes :: child_codes where
  "authservice_codes = \<lparr> lookup_st = AGENTD_ERROR_AUTHSERVICE_PRIVSEP_LOOKUP_USERGROUP_FAILURE,
     chroot_st = AGENTD_ERROR_AUTHSERVICE_PRIVSEP_CHROOT_FAILURE,
     drop_st = AGENTD_ERROR_AUTHSERVICE_PRIVSEP_DROP_PRIVILEGES_FAILURE,
     protect_st = AGENTD_ERROR_AUTHSERVICE_PRIVSEP_SETFDS_FAILURE,
     setfds_st = AGENTD_ERROR_AUTHSERVICE_PRIVSEP_SETFDS_FAILURE,
     other_st = AGENTD_ERROR_AUTHSERVICE_PRIVSEP_CLOSE_OTHER_FDS,
     exec_st = AGENTD_ERROR_AUTHSERVICE_PRIVSEP_EXEC_PRIVATE_FAILURE,
     survival_st = AGENTD_ERROR_AUTHSERVICE_PRIVSEP_EXEC_SURVIVAL_WEIRDNESS \<rparr>"

definition auth_service_proc ::
  "os_env \<Rightarrow> bootstrap_config \<Rightarrow> agent_config \<Rightarrow> int \<Rightarrow> int \<Rightarrow> bool \<Rightarrow> process \<Rightarrow> (status \<times> int \<times> int \<times> int) outcome" where
  "auth_service_proc os bconf conf logsock authpid runsecure p =
     (if runsecure \<and> effective_uid p \<noteq> 0
      then Returned (AGENTD_ERROR_AUTHSERVICE_PROC_RUNSECURE_ROOT_USER_REQUIRED, logsock, - 1, authpid) p else
      case ipc_socketpair os p of
        Inl _ \<Rightarrow> Returned (AGENTD_ERROR_AUTHSERVICE_IPC_SOCKETPAIR_FAILURE, logsock, - 1, authpid) p
      | Inr (authsock, serversock, p) \<Rightarrow>
          let authpid = os_fork os in
          if authpid < 0 then
            Returned (AGENTD_ERROR_AUTHSERVICE_FORK_FAILURE, logsock, authsock, authpid) (close_open authsock (close_open serversock p))
          else if authpid = 0 then
            (case service_child os authservice_codes bconf conf (cstr ''authservice'') runsecure [serversock, logsock]
                    [AGENTD_FD_AUTHSERVICE_SOCK, AGENTD_FD_AUTHSERVICE_LOG] AGENTD_FD_AUTHSERVICE_LOG (close_fd authsock p) of
               Returned (retval, fds) p \<Rightarrow> Returned (retval, fds ! 1, - 1, authpid) (close_open (fds ! 0) p)
             | Executed path args p \<Rightarrow> Executed path args p
             | Undefined \<Rightarrow> Undefined)
          else Returned (AGENTD_STATUS_SUCCESS, - 1, authsock, authpid) (close_fd logsock (close_fd serversock p)))"

text \<open>The random service also opens the random device before it is restricted; its socket pair is not closed on failure.\<close>

definition randomservice_codes :: child_codes where
  "randomservice_codes = \<lparr> lookup_st = AGENTD_ERROR_RANDOMSERVICE_PRIVSEP_LOOKUP_USERGROUP_FAILURE,
     chroot_st = AGENTD_ERROR_RANDOMSERVICE_PRIVSEP_CHROOT_FAILURE,
     drop_st = AGENTD_ERROR_RANDOMSERVICE_PRIVSEP_DROP_PRIVILEGES_FAILURE,
     protect_st = AGENTD_ERROR_CONFIG_PRIVSEP_SETFDS_FAILURE,
     setfds_st = AGENTD_ERROR_RANDOMSERVICE_PRIVSEP_SETFDS_FAILURE,
     other_st = AGENTD_ERROR_RANDOMSERVICE_PRIVSEP_CLOSE_OTHER_FDS,
     exec_st = AGENTD_ERROR_RANDOMSERVICE_PRIVSEP_EXEC_PRIVATE_FAILURE,
     survival_st = AGENTD_ERROR_RANDOMSERVICE_PRIVSEP_EXEC_SURVIVAL_WEIRDNESS \<rparr>"

definition randomservice_proc ::
  "os_env \<Rightarrow> bootstrap_config \<Rightarrow> agent_config \<Rightarrow> int \<Rightarrow> int \<Rightarrow> int \<Rightarrow> bool \<Rightarrow> process \<Rightarrow> (status \<times> int \<times> int \<times> int) outcome" where
  "randomservice_proc os bconf conf logsock protosock randompid runsecure p =
     (if runsecure \<and> effective_uid p \<noteq> 0
      then Returned (AGENTD_ERROR_RANDOMSERVICE_PROC_RUNSECURE_ROOT_USER_REQUIRED, logsock, protosock, randompid) p else
      case ipc_socketpair os p of
        Inl _ \<Rightarrow> Returned (AGENTD_ERROR_RANDOMSERVICE_IPC_SOCKETPAIR_FAILURE, logsock, protosock, randompid) p
      | Inr (protosock, random_proto, p) \<Rightarrow>
          let randompid = os_fork os in
          if randompid < 0 then Returned (AGENTD_ERROR_RANDOMSERVICE_FORK_FAILURE, logsock, protosock, randompid) p
          else if randompid = 0 then
            (case open_read os (cstr ''/dev/urandom'') p of
               None \<Rightarrow> Returned (AGENTD_ERROR_RANDOMSERVICE_RANDOM_DEVICE_OPEN_FAILURE, logsock, protosock, randompid) p
             | Some (random, p) \<Rightarrow>
            case service_child os randomservice_codes bconf conf (cstr ''random'') runsecure [random, random_proto, logsock]
                   [AGENTD_FD_RANDOM_SERVICE_RANDOM_DEVICE, AGENTD_FD_RANDOM_SERVICE_PROTOCOL_SERVICE, AGENTD_FD_RANDOM_SERVICE_LOG_SOCKET]
                   AGENTD_FD_RANDOM_SERVICE_LOG_SOCKET p of
               Returned (retval, fds) p \<Rightarrow> Returned (retval, fds ! 2, protosock, randompid) p
             | Executed path args p \<Rightarrow> Executed path args p
             | Undefined \<Rightarrow> Undefined)
          else Returned (AGENTD_STATUS_SUCCESS, - 1, protosock, randompid) (close_fd random_proto (close_fd logsock p)))"

subsection \<open>Services whose sockets the supervisor makes\<close>

definition canonizationservice_codes :: child_codes where
  "canonizationservice_codes = \<lparr> lookup_st = AGENTD_ERROR_CANONIZATIONSERVICE_PRIVSEP_LOOKUP_USERGROUP_FAILURE,
     chroot_st = AGENTD_ERROR_CANONIZATIONSERVICE_PRIVSEP_CHROOT_FAILURE,
     drop_st = AGENTD_ERROR_CANONIZATIONSERVICE_PRIVSEP_DROP_PRIVILEGES_FAILURE,
     protect_st = AGENTD_ERROR_CONFIG_PRIVSEP_SETFDS_FAILURE,
     setfds_st = AGENTD_ERROR_CANONIZATIONSERVICE_PRIVSEP_SETFDS_FAILURE,
     other_st = AGENTD_ERROR_CANONIZATIONSERVICE_PRIVSEP_CLOSE_OTHER_FDS,
     exec_st = AGENTD_ERROR_CANONIZATIONSERVICE_PRIVSEP_EXEC_PRIVATE_FAILURE,
     survival_st = AGENTD_ERROR_CANONIZATIONSERVICE_PRIVSEP_EXEC_SURVIVAL_WEIRDNESS \<rparr>"

definition start_canonization_proc ::
  "os_env \<Rightarrow> bootstrap_config \<Rightarrow> agent_config \<Rightarrow> int \<Rightarrow> int \<Rightarrow> int \<Rightarrow> int \<Rightarrow> int \<Rightarrow> int \<Rightarrow> bool \<Rightarrow> process \<Rightarrow> (status \<times> int \<times> int \<times> int \<times> int \<times> int) outcome" where
  "start_canonization_proc os bconf conf logsock datasock randomsock controlsock notifysock canonizationpid runsecure p =
     (if runsecure \<and> effective_uid p \<noteq> 0
      then Returned (AGENTD_ERROR_CANONIZATIONSERVICE_PROC_RUNSECURE_ROOT_USER_REQUIRED, logsock, datasock, randomsock, controlsock, canonizationpid) p else
      let canonizationpid = os_fork os in
      if canonizationpid < 0 then Returned (AGENTD_ERROR_CANONIZATIONSERVICE_FORK_FAILURE, logsock, datasock, randomsock, controlsock, canonizationpid) p
      else if canonizationpid = 0 then
        (case service_child os canonizationservice_codes bconf conf (cstr ''canonization_service'') runsecure [logsock, datasock, randomsock, controlsock, notifysock]
               [AGENTD_FD_CANONIZATION_SVC_LOG,
                AGENTD_FD_CANONIZATION_SVC_DATA,
                AGENTD_FD_CANONIZATION_SVC_RANDOM,
                AGENTD_FD_CANONIZATION_SVC_CONTROL,
                AGENTD_FD_CANONIZATION_SVC_NOTIFICATION]
               AGENTD_FD_CANONIZATION_SVC_NOTIFICATION p of
           Returned (retval, fds) p \<Rightarrow> Returned (retval, fds ! 0, fds ! 1, fds ! 2, fds ! 3, canonizationpid) p
         | Executed path args p \<Rightarrow> Executed path args p
         | Undefined \<Rightarrow> Undefined)
      else Returned (AGENTD_STATUS_SUCCESS, - 1, - 1, - 1, - 1, canonizationpid) (close_fd notifysock (close_fd controlsock (close_fd randomsock (close_fd datasock (close_fd logsock p))))))"

definition attestationservice_codes :: child_codes where
  "attestationservice_codes = \<lparr> lookup_st = AGENTD_ERROR_ATTESTATIONSERVICE_PRIVSEP_LOOKUP_USERGROUP_FAILURE,
     chroot_st = AGENTD_ERROR_ATTESTATIONSERVICE_PRIVSEP_CHROOT_FAILURE,
     drop_st = AGENTD_ERROR_ATTESTATIONSERVICE_PRIVSEP_DROP_PRIVILEGES_FAILURE,
     protect_st = AGENTD_ERROR_CONFIG_PRIVSEP_SETFDS_FAILURE,
     setfds_st = AGENTD_ERROR_ATTESTATIONSERVICE_PRIVSEP_SETFDS_FAILURE,
     other_st = AGENTD_ERROR_ATTESTATIONSERVICE_PRIVSEP_CLOSE_OTHER_FDS,
     exec_st = AGENTD_ERROR_ATTESTATIONSERVICE_PRIVSEP_EXEC_PRIVATE_FAILURE,
     survival_st = AGENTD_ERROR_ATTESTATIONSERVICE_PRIVSEP_EXEC_SURVIVAL_WEIRDNESS \<rparr>"

definition start_attestationservice_proc ::
  "os_env \<Rightarrow> bootstrap_config \<Rightarrow> agent_config \<Rightarrow> int \<Rightarrow> int \<Rightarrow> int \<Rightarrow> int \<Rightarrow> bool \<Rightarrow> process \<Rightarrow> (status \<times> int \<times> int \<times> int \<times> int) outcome" where
  "start_attestationservice_proc os bconf conf logsock datasock controlsock attestationpid runsecure p =
     (if runsecure \<and> effective_uid p \<noteq> 0
      then Returned (AGENTD_ERROR_ATTESTATIONSERVICE_PROC_RUNSECURE_ROOT_USER_REQUIRED, logsock, datasock, controlsock, attestationpid) p else
      let attestationpid = os_fork os in
      if attestationpid < 0 then Returned (AGENTD_ERROR_ATTESTATIONSERVICE_FORK_FAILURE, logsock, datasock, controlsock, attestationpid) p
      else if attestationpid = 0 then
        (case service_child os attestationservice_codes bconf conf (cstr ''attestation_service'') runsecure [logsock, datasock, controlsock]
               [AGENTD_FD_ATTESTATION_SVC_LOG,
                AGENTD_FD_ATTESTATION_SVC_DATA,
                AGENTD_FD_ATTESTATION_SVC_CONTROL]
               AGENTD_FD_ATTESTATION_SVC_CONTROL p of
           Returned (retval, fds) p \<Rightarrow> Returned (retval, fds ! 0, fds ! 1, fds ! 2, attestationpid) p
         | Executed path args p \<Rightarrow> Executed path args p
         | Undefined \<Rightarrow> Undefined)
      else Returned (AGENTD_STATUS_SUCCESS, - 1, - 1, - 1, attestationpid) (close_fd controlsock (close_fd datasock (close_fd logsock p))))"

definition notificationservice_codes :: child_codes where
  "notificationservice_codes = \<lparr> lookup_st = AGENTD_ERROR_NOTIFICATIONSERVICE_PRIVSEP_LOOKUP_USERGROUP_FAILURE,
     chroot_st = AGENTD_ERROR_NOTIFICATIONSERVICE_PRIVSEP_CHROOT_FAILURE,
     drop_st = AGENTD_ERROR_NOTIFICATIONSERVICE_PRIVSEP_DROP_PRIVILEGES_FAILURE,
     protect_st = AGENTD_ERROR_CONFIG_PRIVSEP_SETFDS_FAILURE,
     setfds_st = AGENTD_ERROR_NOTIFICATIONSERVICE_PRIVSEP_SETFDS_FAILURE,
     other_st = AGENTD_ERROR_NOTIFICATIONSERVICE_PRIVSEP_CLOSE_OTHER_FDS,
     exec_st = AGENTD_ERROR_NOTIFICATIONSERVICE_PRIVSEP_EXEC_PRIVATE_FAILURE,
     survival_st = AGENTD_ERROR_NOTIFICATIONSERVICE_PRIVSEP_EXEC_SURVIVAL_WEIRDNESS \<rparr>"

definition notificationservice_proc ::
  "os_env \<Rightarrow> bootstrap_config \<Rightarrow> agent_config \<Rightarrow> int \<Rightarrow> int \<Rightarrow> int \<Rightarrow> int \<Rightarrow> bool \<Rightarrow> process \<Rightarrow> (status \<times> int) outcome" where
  "notificationservice_proc os bconf conf logsock consensussock protocolsock pid runsecure p =
     (if runsecure \<and> effective_uid p \<noteq> 0
      then Returned (AGENTD_ERROR_NOTIFICATIONSERVICE_PROC_RUNSECURE_ROOT_USER_REQUIRED, pid) p else
      let pid = os_fork os in
      if pid < 0 then Returned (AGENTD_ERROR_NOTIFICATIONSERVICE_FORK_FAILURE, pid) p
      else if pid = 0 then
        (case service_child os notificationservice_codes bconf conf (cstr ''notification_service'') runsecure [logsock, consensussock, protocolsock]
               [AGENTD_FD_NOTIFICATION_SVC_LOG,
                AGENTD_FD_NOTIFICATION_SVC_CLIENT1,
                AGENTD_FD_NOTIFICATION_SVC_CLIENT2]
               AGENTD_FD_NOTIFICATION_SVC_CLIENT2 p of
           Returned (retval, fds) p \<Rightarrow> Returned (retval, pid) p
         | Executed path args p \<Rightarrow> Executed path args p
         | Undefined \<Rightarrow> Undefined)
      else Returned (AGENTD_STATUS_SUCCESS, pid) p)"

definition protocolservice_codes :: child_codes where
  "protocolservice_codes = \<lparr> lookup_st = AGENTD_ERROR_PROTOCOLSERVICE_PRIVSEP_LOOKUP_USERGROUP_FAILURE,
     chroot_st = AGENTD_ERROR_PROTOCOLSERVICE_PRIVSEP_CHROOT_FAILURE,
     drop_st = AGENTD_ERROR_PROTOCOLSERVICE_PRIVSEP_DROP_PRIVILEGES_FAILURE,
     protect_st = AGENTD_ERROR_CONFIG_PRIVSEP_SETFDS_FAILURE,
     setfds_st = AGENTD_ERROR_PROTOCOLSERVICE_PRIVSEP_SETFDS_FAILURE,
     other_st = AGENTD_ERROR_PROTOCOLSERVICE_PRIVSEP_CLOSE_OTHER_FDS,
     exec_st = AGENTD_ERROR_PROTOCOLSERVICE_PRIVSEP_EXEC_PRIVATE_FAILURE,
     survival_st = AGENTD_ERROR_PROTOCOLSERVICE_PRIVSEP_EXEC_SURVIVAL_WEIRDNESS \<rparr>"

definition protocolservice_proc ::
  "os_env \<Rightarrow> bootstrap_config \<Rightarrow> agent_config \<Rightarrow> int \<Rightarrow> int \<Rightarrow> int \<Rightarrow> int \<Rightarrow> int \<Rightarrow> int \<Rightarrow> int \<Rightarrow> bool \<Rightarrow> process \<Rightarrow> (status \<times> int) outcome" where
  "protocolservice_proc os bconf conf randomsock logsock acceptsock controlsock datasock notifysock protopid runsecure p =
     (if runsecure \<and> effective_uid p \<noteq> 0
      then Returned (AGENTD_ERROR_PROTOCOLSERVICE_PROC_RUNSECURE_ROOT_USER_REQUIRED, protopid) p else
      let protopid = os_fork os in
      if protopid < 0 then Returned (AGENTD_ERROR_PROTOCOLSERVICE_FORK_FAILURE, protopid) p
      else if protopid = 0 then
        (case service_child os protocolservice_codes bconf conf (cstr ''protocol_service'') runsecure [randomsock, acceptsock, controlsock, logsock, datasock, notifysock]
               [AGENTD_FD_UNAUTHORIZED_PROTOSVC_RANDOM,
                AGENTD_FD_UNAUTHORIZED_PROTOSVC_ACCEPT,
                AGENTD_FD_UNAUTHORIZED_PROTOSVC_CONTROL,
                AGENTD_FD_UNAUTHORIZED_PROTOSVC_LOG,
                AGENTD_FD_UNAUTHORIZED_PROTOSVC_DATA,
                AGENTD_FD_UNAUTHORIZED_PROTOSVC_NOTIFY]
               AGENTD_FD_UNAUTHORIZED_PROTOSVC_NOTIFY p of
           Returned (retval, fds) p \<Rightarrow> Returned (retval, protopid) p
         | Executed path args p \<Rightarrow> Executed path args p
         | Undefined \<Rightarrow> Undefined)
      else Returned (AGENTD_STATUS_SUCCESS, protopid) p)"

subsection \<open>The listen service\<close>

text \<open>Its sockets are bound before the process gives up its privileges.\<close>

fun open_listen_sockets :: "os_env \<Rightarrow> int \<Rightarrow> config_listen_address list \<Rightarrow> process \<Rightarrow> status \<times> process" where
  "open_listen_sockets os setsock [] p = (AGENTD_STATUS_SUCCESS, p)"
| "open_listen_sockets os setsock (a # listen_head) p =
     (if \<not> os_socket os a then (AGENTD_ERROR_LISTENSERVICE_LISTENSOCKET_OPEN_FAILURE, p) else
      case new_fd os Inet_socket p of
        None \<Rightarrow> (AGENTD_ERROR_LISTENSERVICE_LISTENSOCKET_OPEN_FAILURE, p)
      | Some (sock, p) \<Rightarrow>
      if \<not> os_bind os a then (AGENTD_ERROR_LISTENSERVICE_LISTENSOCKET_OPEN_FAILURE, p) else
      let p = p\<lparr>descriptors := (descriptors p)(sock \<mapsto> Bound_socket (listen_addr a) (listen_port a))\<rparr> in
      if \<not> os_listen os a then (AGENTD_ERROR_LISTENSERVICE_LISTENSOCKET_OPEN_FAILURE, p) else
      let p = p\<lparr>descriptors := (descriptors p)(sock \<mapsto> Listening_socket (listen_addr a) (listen_port a))\<rparr> in
      if sock \<noteq> setsock then
        (case dup2 os sock setsock p of
           None \<Rightarrow> (AGENTD_ERROR_LISTENSERVICE_LISTENSOCKET_OPEN_FAILURE, p)
         | Some p \<Rightarrow> open_listen_sockets os (setsock + 1) listen_head (close_fd sock p))
      else open_listen_sockets os (setsock + 1) listen_head p)"

definition listenservice_proc_open_listen_sockets :: "os_env \<Rightarrow> agent_config \<Rightarrow> process \<Rightarrow> status \<times> process" where
  "listenservice_proc_open_listen_sockets os conf =
     open_listen_sockets os AGENTD_FD_LISTENSERVICE_SOCK_START (conf_listen conf)"

definition listenservice_codes :: child_codes where
  "listenservice_codes = \<lparr> lookup_st = AGENTD_ERROR_LISTENSERVICE_PRIVSEP_LOOKUP_USERGROUP_FAILURE,
     chroot_st = AGENTD_ERROR_LISTENSERVICE_PRIVSEP_CHROOT_FAILURE,
     drop_st = AGENTD_ERROR_LISTENSERVICE_PRIVSEP_DROP_PRIVILEGES_FAILURE,
     protect_st = AGENTD_ERROR_LISTENSERVICE_PRIVSEP_SETFDS_FAILURE,
     setfds_st = AGENTD_ERROR_LISTENSERVICE_PRIVSEP_SETFDS_FAILURE,
     other_st = AGENTD_ERROR_LISTENSERVICE_PRIVSEP_CLOSE_OTHER_FDS,
     exec_st = AGENTD_ERROR_LISTENSERVICE_PRIVSEP_EXEC_PRIVATE_FAILURE,
     survival_st = AGENTD_ERROR_LISTENSERVICE_PRIVSEP_EXEC_SURVIVAL_WEIRDNESS \<rparr>"

definition listenservice_child ::
  "os_env \<Rightarrow> bootstrap_config \<Rightarrow> agent_config \<Rightarrow> bool \<Rightarrow> int list \<Rightarrow> process \<Rightarrow> (status \<times> int list) outcome" where
  "listenservice_child os bconf conf runsecure fds p =
     (case pass_descriptors os listenservice_codes fds
             [AGENTD_FD_LISTENSERVICE_LOG, AGENTD_FD_LISTENSERVICE_ACCEPT] AGENTD_FD_LISTENSERVICE_ACCEPT p of (retval, fds, p) \<Rightarrow>
      if retval \<noteq> AGENTD_STATUS_SUCCESS then Returned (retval, fds) p else
      case listenservice_proc_open_listen_sockets os conf p of (retval, p) \<Rightarrow>
      if retval \<noteq> AGENTD_STATUS_SUCCESS then Returned (AGENTD_ERROR_LISTENSERVICE_LISTENSOCKET_OPEN_FAILURE, fds) p else
      case restrict_child os listenservice_codes bconf conf runsecure p of None \<Rightarrow> Undefined | Some (retval, p) \<Rightarrow>
      if retval \<noteq> AGENTD_STATUS_SUCCESS then Returned (retval, fds) p else
      case exec_service os listenservice_codes bconf (cstr ''listenservice'') runsecure p of
        Returned retval p \<Rightarrow> Returned (retval, fds) p
      | Executed path args p \<Rightarrow> Executed path args p
      | Undefined \<Rightarrow> Undefined)"

definition listenservice_proc ::
  "os_env \<Rightarrow> bootstrap_config \<Rightarrow> agent_config \<Rightarrow> int \<Rightarrow> int \<Rightarrow> int \<Rightarrow> bool \<Rightarrow> process \<Rightarrow> (status \<times> int \<times> int \<times> int) outcome" where
  "listenservice_proc os bconf conf acceptsock logsock listenpid runsecure p =
     (if runsecure \<and> effective_uid p \<noteq> 0
      then Returned (AGENTD_ERROR_LISTENSERVICE_PROC_RUNSECURE_ROOT_USER_REQUIRED, acceptsock, logsock, listenpid) p else
      let listenpid = os_fork os in
      if listenpid < 0 then Returned (AGENTD_ERROR_LISTENSERVICE_FORK_FAILURE, acceptsock, logsock, listenpid) p
      else if listenpid = 0 then
        (case listenservice_child os bconf conf runsecure [logsock, acceptsock] p of
           Returned (retval, fds) p \<Rightarrow> Returned (retval, fds ! 1, fds ! 0, listenpid) p
         | Executed path args p \<Rightarrow> Executed path args p
         | Undefined \<Rightarrow> Undefined)
      else Returned (AGENTD_STATUS_SUCCESS, - 1, - 1, listenpid) (close_fd logsock (close_fd acceptsock p)))"

subsection \<open>Reading the configuration\<close>

text \<open>
  The parent reads the configuration from the child: \<open>stream\<close> is what it receives, \<open>exit_status\<close> the
  status with which the child ends (\<open>None\<close> when it is killed).
\<close>

definition config_codes :: child_codes where
  "config_codes = \<lparr> lookup_st = AGENTD_ERROR_CONFIG_PRIVSEP_LOOKUP_USERGROUP_FAILURE,
     chroot_st = AGENTD_ERROR_CONFIG_PRIVSEP_CHROOT_FAILURE,
     drop_st = AGENTD_ERROR_CONFIG_PRIVSEP_DROP_PRIVILEGES_FAILURE,
     protect_st = AGENTD_ERROR_CONFIG_PRIVSEP_SETFDS_FAILURE,
     setfds_st = AGENTD_ERROR_CONFIG_PRIVSEP_SETFDS_FAILURE,
     other_st = AGENTD_ERROR_CONFIG_PRIVSEP_CLOSE_OTHER_FDS,
     exec_st = AGENTD_ERROR_CONFIG_PRIVSEP_EXEC_PRIVATE_FAILURE,
     survival_st = AGENTD_ERROR_CONFIG_PRIVSEP_EXEC_SURVIVAL_WEIRDNESS \<rparr>"

definition lookup_nobody :: "os_env \<Rightarrow> status + nat \<times> nat" where
  "lookup_nobody os =
     (let retval = privsep_lookup_usergroup os (cstr ''nobody'') (cstr ''nogroup'') in
      if retval = Inl AGENTD_ERROR_GENERAL_GETGRNAM_FAILURE
      then privsep_lookup_usergroup os (cstr ''nobody'') (cstr ''nobody'') else retval)"

definition config_child :: "os_env \<Rightarrow> bootstrap_config \<Rightarrow> int \<Rightarrow> process \<Rightarrow> (status \<times> int) outcome" where
  "config_child os bconf serversock p =
     (case become_user os config_codes bconf (lookup_nobody os) p of (retval, p) \<Rightarrow>
      if retval \<noteq> AGENTD_STATUS_SUCCESS then Returned (retval, serversock) p else
      let path = (case config_file bconf of None \<Rightarrow> cstr ''/etc/agentd.conf'' | Some path \<Rightarrow> path) in
      case open_read os path p of None \<Rightarrow> Returned (AGENTD_ERROR_CONFIG_OPEN_CONFIG_FILE_FAILURE, serversock) p
      | Some (config_fd, p) \<Rightarrow>
      case pass_descriptors os config_codes [config_fd, serversock] [AGENTD_FD_CONFIG_IN, AGENTD_FD_CONFIG_OUT]
             AGENTD_FD_CONFIG_OUT p of (retval, fds, p) \<Rightarrow>
      if retval \<noteq> AGENTD_STATUS_SUCCESS then Returned (retval, fds ! 1) p else
      case exec_service os config_codes bconf (cstr ''readconfig'') True p of
        Returned retval p \<Rightarrow> Returned (retval, fds ! 1) p
      | Executed path args p \<Rightarrow> Executed path args p
      | Undefined \<Rightarrow> Undefined)"

definition config_parent ::
  "(nat \<Rightarrow> config_env) \<Rightarrow> (nat \<Rightarrow> bool) \<Rightarrow> ipc_fd \<Rightarrow> nat option \<Rightarrow> bytes \<Rightarrow> (status \<times> agent_config) option" where
  "config_parent envs alloc stream exit_status prefix =
     (case config_read_block envs stream of (retval, conf, stream) \<Rightarrow>
      if retval \<noteq> AGENTD_STATUS_SUCCESS then Some (AGENTD_ERROR_CONFIG_IPC_READ_DATA_FAILURE, conf) else
      let retval = (if exit_status = Some 0 then AGENTD_STATUS_SUCCESS else AGENTD_ERROR_CONFIG_PROC_EXIT_FAILURE) in
      case config_set_defaults alloc prefix conf of (n, conf) \<Rightarrow>
      if n \<noteq> 0 then (case config_dispose conf of None \<Rightarrow> None | Some _ \<Rightarrow> Some (AGENTD_ERROR_CONFIG_DEFAULTS_SET_FAILURE, conf))
      else Some (retval, conf))"

definition config_read_proc ::
  "os_env \<Rightarrow> (nat \<Rightarrow> config_env) \<Rightarrow> (nat \<Rightarrow> bool) \<Rightarrow> ipc_fd \<Rightarrow> nat option \<Rightarrow> bootstrap_config \<Rightarrow> agent_config \<Rightarrow> process \<Rightarrow>
   (status \<times> agent_config) outcome" where
  "config_read_proc os envs alloc stream exit_status bconf conf p =
     (if effective_uid p \<noteq> 0 then Returned (AGENTD_ERROR_CONFIG_PROC_RUNSECURE_ROOT_USER_REQUIRED, conf) p else
      case ipc_socketpair os p of
        Inl _ \<Rightarrow> Returned (AGENTD_ERROR_CONFIG_IPC_SOCKETPAIR_FAILURE, conf) p
      | Inr (clientsock, serversock, p) \<Rightarrow>
          if os_fork os < 0 then
            Returned (AGENTD_ERROR_CONFIG_FORK_FAILURE, conf) (close_open serversock (close_open clientsock p))
          else if os_fork os = 0 then
            (case config_child os bconf serversock (close_fd clientsock p) of
               Returned (retval, serversock) p \<Rightarrow> Returned (retval, conf) (close_open serversock p)
             | Executed path args p \<Rightarrow> Executed path args p
             | Undefined \<Rightarrow> Undefined)
          else
            (case prefix_dir bconf of None \<Rightarrow> Undefined | Some prefix \<Rightarrow>
             case config_parent envs alloc stream exit_status prefix of
               None \<Rightarrow> Undefined
             | Some r \<Rightarrow> Returned r (close_open clientsock (close_fd serversock p))))"

subsection \<open>The supervisor\<close>

record supervisor_env =
  pid_flock :: bool
  pid_fdopen :: bool
  supervisor_exit :: "nat option"

definition supervisor_proc :: "os_env \<Rightarrow> supervisor_env \<Rightarrow> bootstrap_config \<Rightarrow> int \<Rightarrow> process \<Rightarrow> status outcome" where
  "supervisor_proc os env bconf pid_fd p =
     (if effective_uid p \<noteq> 0 then Returned 1 p else
      let pid = (if init_mode bconf then 0 else os_fork os) in
      if pid < 0 then Returned (word_of_int pid) p
      else if pid = 0 then
        (case chdir os (prefix_dir bconf) p of None \<Rightarrow> Returned (- 1) p | Some p \<Rightarrow>
         if \<not> pid_flock env then Returned 2 p
         else if \<not> pid_fdopen env then Returned 0 (close_fd pid_fd p) else
         case privsep_close_standard_fds p of (retval, p) \<Rightarrow>
         if retval \<noteq> AGENTD_STATUS_SUCCESS then Returned retval p else
         case privsep_setfds os [(pid_fd, AGENTD_FD_PID)] p of (retval, p) \<Rightarrow>
         if retval \<noteq> AGENTD_STATUS_SUCCESS then Returned retval p else
         case binary bconf of
           None \<Rightarrow> Returned (- 1) p
         | Some path \<Rightarrow>
             if os_exec os path then Executed path [path, cstr ''-P'', cstr ''supervisor''] p else Returned (- 1) p)
      else if foreground bconf then
        Returned (case supervisor_exit env of Some n \<Rightarrow> of_nat n | None \<Rightarrow> 1) p
      else Returned 0 p)"

end
