(* ===== verification/Supervisor.thy ===== *)
theory Supervisor
  imports Process_Start Ds_Api
begin

text \<open>
  The data services of the supervisor (\<^verbatim>\<open>src/src/supervisor\<close>): one for the protocol
  service, one for canonization and one for attestation, each started with the
  capabilities its client needs.

  Between a request and its response the data service runs: \<open>peer\<close> says what it does with the
  bytes on the socket, \<open>w\<close> is its state.
\<close>

abbreviation (input) DATASERVICE_API_CAP_APP_BLOCK_ID_NEXT_READ :: nat where
  "DATASERVICE_API_CAP_APP_BLOCK_ID_NEXT_READ \<equiv> 10"
abbreviation (input) DATASERVICE_API_CAP_APP_BLOCK_ID_PREV_READ :: nat where
  "DATASERVICE_API_CAP_APP_BLOCK_ID_PREV_READ \<equiv> 11"
abbreviation (input) DATASERVICE_API_CAP_APP_BLOCK_ID_WITH_TRANSACTION_READ :: nat where
  "DATASERVICE_API_CAP_APP_BLOCK_ID_WITH_TRANSACTION_READ \<equiv> 12"

record dataservice_process =
  dsp_hdr :: process_t
  supervisor_data_socket :: int
  dsp_log_socket :: int
  reducedcaps :: bitcap

definition process_zero :: process_t where
  "process_zero = \<lparr> process_id = 0, running = False \<rparr>"

definition set_capabilities :: "nat list \<Rightarrow> bitcap" where
  "set_capabilities bits =
     fold (\<lambda>b caps. BITCAP_SET_TRUE caps b) bits (BITCAP_INIT_FALSE (replicate (BITCAP_WORDS DATASERVICE_API_CAP_BITS_MAX) 0))"

definition create_data_service :: "nat list \<Rightarrow> bool \<Rightarrow> int \<Rightarrow> int \<Rightarrow> status + dataservice_process" where
  "create_data_service bits malloc_ok data_socket log_socket =
     (if \<not> malloc_ok then Inl AGENTD_ERROR_GENERAL_OUT_OF_MEMORY
      else Inr \<lparr> dsp_hdr = process_zero, supervisor_data_socket = data_socket, dsp_log_socket = log_socket,
                 reducedcaps = set_capabilities bits \<rparr>)"

definition supervisor_create_data_service_for_auth_protocol_service :: "bool \<Rightarrow> int \<Rightarrow> int \<Rightarrow> status + dataservice_process" where
  "supervisor_create_data_service_for_auth_protocol_service = create_data_service
     [DATASERVICE_API_CAP_LL_CHILD_CONTEXT_CREATE, DATASERVICE_API_CAP_LL_CHILD_CONTEXT_CLOSE,
      DATASERVICE_API_CAP_APP_BLOCK_ID_LATEST_READ, DATASERVICE_API_CAP_APP_BLOCK_ID_NEXT_READ,
      DATASERVICE_API_CAP_APP_BLOCK_ID_PREV_READ, DATASERVICE_API_CAP_APP_BLOCK_ID_WITH_TRANSACTION_READ,
      DATASERVICE_API_CAP_APP_BLOCK_READ, DATASERVICE_API_CAP_APP_TRANSACTION_READ,
      DATASERVICE_API_CAP_APP_PQ_TRANSACTION_SUBMIT, DATASERVICE_API_CAP_APP_ARTIFACT_READ,
      DATASERVICE_API_CAP_APP_BLOCK_ID_BY_HEIGHT_READ]"

definition supervisor_create_data_service_for_canonizationservice :: "bool \<Rightarrow> int \<Rightarrow> int \<Rightarrow> status + dataservice_process" where
  "supervisor_create_data_service_for_canonizationservice = create_data_service
     [DATASERVICE_API_CAP_LL_CHILD_CONTEXT_CREATE, DATASERVICE_API_CAP_LL_CHILD_CONTEXT_CLOSE,
      DATASERVICE_API_CAP_APP_BLOCK_ID_LATEST_READ, DATASERVICE_API_CAP_APP_BLOCK_ID_NEXT_READ,
      DATASERVICE_API_CAP_APP_BLOCK_ID_PREV_READ, DATASERVICE_API_CAP_APP_BLOCK_ID_WITH_TRANSACTION_READ,
      DATASERVICE_API_CAP_APP_BLOCK_READ, DATASERVICE_API_CAP_APP_TRANSACTION_READ,
      DATASERVICE_API_CAP_APP_PQ_TRANSACTION_SUBMIT, DATASERVICE_API_CAP_APP_PQ_TRANSACTION_FIRST_READ,
      DATASERVICE_API_CAP_APP_PQ_TRANSACTION_READ, DATASERVICE_API_CAP_APP_PQ_TRANSACTION_DROP,
      DATASERVICE_API_CAP_APP_ARTIFACT_READ, DATASERVICE_API_CAP_APP_BLOCK_WRITE,
      DATASERVICE_API_CAP_APP_BLOCK_ID_BY_HEIGHT_READ]"

definition supervisor_create_data_service_for_attestationservice :: "bool \<Rightarrow> int \<Rightarrow> int \<Rightarrow> status + dataservice_process" where
  "supervisor_create_data_service_for_attestationservice = create_data_service
     [DATASERVICE_API_CAP_LL_CHILD_CONTEXT_CREATE, DATASERVICE_API_CAP_LL_CHILD_CONTEXT_CLOSE,
      DATASERVICE_API_CAP_APP_BLOCK_READ, DATASERVICE_API_CAP_APP_TRANSACTION_READ,
      DATASERVICE_API_CAP_APP_PQ_TRANSACTION_PROMOTE, DATASERVICE_API_CAP_APP_PQ_TRANSACTION_FIRST_READ,
      DATASERVICE_API_CAP_APP_PQ_TRANSACTION_READ, DATASERVICE_API_CAP_APP_PQ_TRANSACTION_DROP,
      DATASERVICE_API_CAP_APP_ARTIFACT_READ]"

subsection \<open>Starting and stopping\<close>

record start_env =
  init_buf_st :: status
  init_malloc :: bool
  reduce_buf_st :: status
  reduce_malloc :: bool

text \<open>The status of a response, or of the call that did not get one.\<close>

definition response_status :: "unit api_result \<Rightarrow> status" where
  "response_status r =
     (if api_retval r \<noteq> AGENTD_STATUS_SUCCESS then api_retval r
      else case api_header r of None \<Rightarrow> AGENTD_STATUS_SUCCESS | Some (offset, st) \<Rightarrow> st)"

text \<open>Create the root context, then reduce its capabilities.\<close>

definition configure_data_service ::
  "(ipc_fd \<Rightarrow> 'w \<Rightarrow> ipc_fd \<times> 'w) \<Rightarrow> start_env \<Rightarrow> 64 word \<Rightarrow> bytes option \<Rightarrow> bitcap \<Rightarrow> ipc_fd \<Rightarrow> 'w \<Rightarrow> status \<times> ipc_fd \<times> 'w" where
  "configure_data_service peer env max_size datastore caps fd w =
     (case datastore of None \<Rightarrow> (AGENTD_ERROR_DATASERVICE_INVALID_PARAMETER, fd, w) | Some datadir \<Rightarrow>
      case dataservice_api_sendreq_root_context_init_block (init_buf_st env) max_size (takeWhile (\<lambda>b. b \<noteq> 0) datadir) fd of (retval, fd) \<Rightarrow>
      if retval \<noteq> AGENTD_STATUS_SUCCESS then (retval, fd, w) else
      case peer fd w of (fd, w) \<Rightarrow>
      case dataservice_api_recvresp_root_context_init_block (init_malloc env) fd of (r, fd) \<Rightarrow>
      if response_status r \<noteq> AGENTD_STATUS_SUCCESS then (response_status r, fd, w) else
      case dataservice_api_sendreq_root_context_reduce_caps_block (reduce_buf_st env) caps fd of (retval, fd) \<Rightarrow>
      if retval \<noteq> AGENTD_STATUS_SUCCESS then (retval, fd, w) else
      case peer fd w of (fd, w) \<Rightarrow>
      case dataservice_api_recvresp_root_context_reduce_caps_block (reduce_malloc env) fd of (r, fd) \<Rightarrow>
        (response_status r, fd, w))"

text \<open>Ask a process to stop, then kill it; what is sent to it.\<close>

definition stop_then_kill :: "process_t \<Rightarrow> signal_sent list \<times> process_t" where
  "stop_then_kill prc =
     (case process_stop prc of (_, sent, prc) \<Rightarrow>
      case process_kill prc of (_, sent', prc) \<Rightarrow> (sent @ sent', prc))"

definition supervisor_start_data_service ::
  "os_env \<Rightarrow> (ipc_fd \<Rightarrow> 'w \<Rightarrow> ipc_fd \<times> 'w) \<Rightarrow> start_env \<Rightarrow> bootstrap_config \<Rightarrow> agent_config \<Rightarrow> ipc_fd \<Rightarrow> 'w \<Rightarrow>
   dataservice_process \<Rightarrow> process \<Rightarrow> (status \<times> signal_sent list \<times> dataservice_process \<times> ipc_fd \<times> 'w) outcome" where
  "supervisor_start_data_service os peer env bconf conf fd w data_proc p =
     (case dataservice_proc os bconf conf (dsp_log_socket data_proc) (process_id (dsp_hdr data_proc)) True p of
        Undefined \<Rightarrow> Undefined
      | Executed path args p \<Rightarrow> Executed path args p
      | Returned (retval, logsock, datasock, pid) p \<Rightarrow>
          let data_proc = data_proc\<lparr>dsp_log_socket := logsock, supervisor_data_socket := datasock,
                                    dsp_hdr := (dsp_hdr data_proc)\<lparr>process_id := pid\<rparr>\<rparr> in
          if retval \<noteq> AGENTD_STATUS_SUCCESS then Returned (retval, [], data_proc, fd, w) p else
          case configure_data_service peer env (conf_database_max_size conf) (conf_datastore conf) (reducedcaps data_proc) fd w of
            (retval, fd, w) \<Rightarrow>
          if retval \<noteq> AGENTD_STATUS_SUCCESS then
            (case stop_then_kill ((dsp_hdr data_proc)\<lparr>running := True\<rparr>) of (sent, hdr) \<Rightarrow>
             Returned (retval, sent, data_proc\<lparr>dsp_hdr := hdr\<rparr>, fd, w) p)
          else Returned (AGENTD_STATUS_SUCCESS, [], data_proc, fd, w) p)"

text \<open>Descriptor 0 of the log is taken for closed.\<close>

definition supervisor_dispose_data_service :: "dataservice_process \<Rightarrow> process \<Rightarrow> signal_sent list \<times> dataservice_process \<times> process" where
  "supervisor_dispose_data_service data_proc p =
     (let p = close_fd (supervisor_data_socket data_proc) p;
          data_proc = data_proc\<lparr>supervisor_data_socket := - 1\<rparr>;
          log = dsp_log_socket data_proc;
          (data_proc, p) = (if log > 0 then (data_proc\<lparr>dsp_log_socket := - 1\<rparr>, close_fd log p) else (data_proc, p)) in
      if running (dsp_hdr data_proc) then
        (case stop_then_kill (dsp_hdr data_proc) of (sent, hdr) \<Rightarrow> (sent, data_proc\<lparr>dsp_hdr := hdr\<rparr>, p))
      else ([], data_proc, p))"

end
