(* ===== verification/Readers.thy ===== *)
theory Readers
  imports Process_Start
begin

text \<open>
  The processes that read certificate files for the supervisor
  (\<^verbatim>\<open>src/src/readers\<close> and the commands \<^verbatim>\<open>read_private_key\<close> and
  \<^verbatim>\<open>read_public_entities\<close> of \<^verbatim>\<open>src/src/command\<close>).  The supervisor sends the names of
  files; a child without privileges reads and parses them and sends back keys and, when an
  endorser is configured, the capabilities its endorsement gives.

  The certificate library is a parameter: \<open>cert_values\<close> are the values of a field in the order in
  which \<^verbatim>\<open>vccert_parser_find_short\<close> and \<^verbatim>\<open>vccert_parser_find_next\<close> find them.  So is the file
  system.
\<close>

subsection \<open>Data\<close>

record config_public_entity_capability_node =
  cap_subject :: bytes
  cap_verb :: bytes
  cap_object :: bytes

record config_public_entity_node =
  pub_id :: bytes
  pub_enc_pubkey :: bytes
  pub_sign_pubkey :: bytes
  cap_head :: "config_public_entity_capability_node list"

record config_private_key =
  key_found :: bool
  key_id :: bytes
  key_enc_pubkey :: bytes
  key_enc_privkey :: bytes
  key_sign_pubkey :: bytes
  key_sign_privkey :: bytes

definition private_key_zero :: config_private_key where
  "private_key_zero = \<lparr> key_found = False, key_id = replicate 16 0, key_enc_pubkey = [], key_enc_privkey = [],
     key_sign_pubkey = [], key_sign_privkey = [] \<rparr>"

datatype key_field = Artifact_id | Public_encryption_key | Private_encryption_key | Public_signing_key | Private_signing_key
  | Velo_endorsement

type_synonym key_resolver = "bytes \<Rightarrow> nat \<Rightarrow> nat \<Rightarrow> (bytes \<times> bytes) option"

record cert_lib =
  cert_init_st :: "bytes \<Rightarrow> status"
  cert_attest_st :: "key_resolver \<Rightarrow> bytes \<Rightarrow> status"
  cert_values :: "bytes \<Rightarrow> key_field \<Rightarrow> bytes list"
  cert_missing_st :: status
  cert_size_st :: status
  enc_key_size :: nat
  sign_key_size :: nat

record file_system =
  file_open :: "bytes \<Rightarrow> bool"
  file_stat :: "bytes \<Rightarrow> nat option"
  file_read :: "bytes \<Rightarrow> bytes option"

subsection \<open>The child: certificates\<close>

record reader_env =
  name_malloc :: bool
  cert_buffer_st :: "nat \<Rightarrow> status"
  enc_store_st :: status
  sign_store_st :: status
  enc_copy_st :: status
  sign_copy_st :: status

definition read_certificate :: "file_system \<Rightarrow> reader_env \<Rightarrow> bytes \<Rightarrow> status + bytes" where
  "read_certificate fs env filename =
     (let path = c_string filename in
      if \<not> file_open fs path then Inl AGENTD_ERROR_READER_FILE_OPEN else
      case file_stat fs path of None \<Rightarrow> Inl AGENTD_ERROR_READER_FILE_STAT | Some st_size \<Rightarrow>
      if cert_buffer_st env st_size \<noteq> AGENTD_STATUS_SUCCESS then Inl (cert_buffer_st env st_size) else
      case file_read fs path of None \<Rightarrow> Inl AGENTD_ERROR_READER_FILE_READ | Some data \<Rightarrow>
      if length (take st_size data) < st_size then Inl AGENTD_ERROR_READER_FILE_READ else Inr (take st_size data))"

definition find_short :: "cert_lib \<Rightarrow> bytes \<Rightarrow> key_field \<Rightarrow> status + bytes" where
  "find_short lib cert f = (case cert_values lib cert f of [] \<Rightarrow> Inl (cert_missing_st lib) | x # _ \<Rightarrow> Inr x)"

definition find_exact :: "cert_lib \<Rightarrow> bytes \<Rightarrow> key_field \<Rightarrow> nat \<Rightarrow> status + bytes" where
  "find_exact lib cert f n =
     (case find_short lib cert f of Inl st \<Rightarrow> Inl st | Inr x \<Rightarrow> if length x \<noteq> n then Inl (cert_size_st lib) else Inr x)"

subsection \<open>The child: public entities\<close>

record parser_callback_context =
  endorser_set :: bool
  endorser_id :: bytes
  endorser_cipher_key :: bytes
  endorser_signing_key :: bytes

definition parser_callback_context_create :: "cert_lib \<Rightarrow> parser_callback_context" where
  "parser_callback_context_create lib =
     \<lparr> endorser_set = False, endorser_id = replicate 16 0, endorser_cipher_key = replicate (enc_key_size lib) 0,
       endorser_signing_key = replicate (sign_key_size lib) 0 \<rparr>"

text \<open>The only keys an attestation can use are those of the endorser.\<close>

definition endorser_key_resolver :: "reader_env \<Rightarrow> parser_callback_context \<Rightarrow> key_resolver" where
  "endorser_key_resolver env ctx entity_id pubenckey_size pubsignkey_size =
     (if \<not> endorser_set ctx then None
      else if take 16 entity_id \<noteq> endorser_id ctx then None
      else if pubenckey_size \<noteq> length (endorser_cipher_key ctx) \<or> pubsignkey_size \<noteq> length (endorser_signing_key ctx) then None
      else if enc_copy_st env \<noteq> AGENTD_STATUS_SUCCESS then None
      else if sign_copy_st env \<noteq> AGENTD_STATUS_SUCCESS then None
      else Some (endorser_cipher_key ctx, endorser_signing_key ctx))"

definition entity_get_capabilities_count :: "cert_lib \<Rightarrow> bytes \<Rightarrow> nat" where
  "entity_get_capabilities_count lib cert = length (cert_values lib cert Velo_endorsement)"

text \<open>The current endorsement, and the ones the parser finds after it.\<close>

fun write_endorsements :: "cert_lib \<Rightarrow> nat \<Rightarrow> bytes \<Rightarrow> bytes list \<Rightarrow> ipc_fd \<Rightarrow> status \<times> ipc_fd" where
  "write_endorsements lib 0 endorsebuf later controlfd = (AGENTD_STATUS_SUCCESS, controlfd)"
| "write_endorsements lib (Suc count) endorsebuf later controlfd =
     (case write_all ipc_write_value controlfd
         [Uint8_val CONFIG_STREAM_TYPE_BOM, Data_val (slice 0 16 endorsebuf), Data_val (slice 16 16 endorsebuf),
          Data_val (slice 32 16 endorsebuf), Uint8_val CONFIG_STREAM_TYPE_EOM] of (retval, controlfd) \<Rightarrow>
      if retval \<noteq> AGENTD_STATUS_SUCCESS then (retval, controlfd) else
      case later of
        [] \<Rightarrow> if count \<noteq> 0 then (cert_missing_st lib, controlfd) else (AGENTD_STATUS_SUCCESS, controlfd)
      | endorsebuf # later \<Rightarrow>
          if length endorsebuf < 48 then (cert_size_st lib, controlfd)
          else write_endorsements lib count endorsebuf later controlfd)"

definition write_capabilities :: "cert_lib \<Rightarrow> bytes \<Rightarrow> ipc_fd \<Rightarrow> status \<times> ipc_fd" where
  "write_capabilities lib cert controlfd =
     (let count = entity_get_capabilities_count lib cert in
      case ipc_write_uint64_block (of_nat count) controlfd of (retval, controlfd) \<Rightarrow>
      if retval \<noteq> AGENTD_STATUS_SUCCESS then (retval, controlfd) else
      case cert_values lib cert Velo_endorsement of
        [] \<Rightarrow> if count \<noteq> 0 then (cert_missing_st lib, controlfd) else (AGENTD_STATUS_SUCCESS, controlfd)
      | endorsebuf # later \<Rightarrow>
          if length endorsebuf < 48 then (cert_size_st lib, controlfd)
          else write_endorsements lib count endorsebuf later controlfd)"

definition write_entity ::
  "cert_lib \<Rightarrow> bytes \<Rightarrow> bytes \<Rightarrow> bytes \<Rightarrow> bytes \<Rightarrow> bool \<Rightarrow> ipc_fd \<Rightarrow> status \<times> ipc_fd" where
  "write_entity lib cert artifact_id enc_pubkey sign_pubkey with_caps controlfd =
     (case write_all ipc_write_value controlfd
         [Uint8_val CONFIG_STREAM_TYPE_BOM, Data_val artifact_id, Data_val enc_pubkey, Data_val sign_pubkey] of (retval, controlfd) \<Rightarrow>
      if retval \<noteq> AGENTD_STATUS_SUCCESS then (retval, controlfd) else
      case (if with_caps then write_capabilities lib cert controlfd else (AGENTD_STATUS_SUCCESS, controlfd)) of (retval, controlfd) \<Rightarrow>
      if retval \<noteq> AGENTD_STATUS_SUCCESS then (retval, controlfd)
      else ipc_write_uint8_block CONFIG_STREAM_TYPE_EOM controlfd)"

definition set_endorser ::
  "reader_env \<Rightarrow> bytes \<Rightarrow> bytes \<Rightarrow> bytes \<Rightarrow> parser_callback_context \<Rightarrow> status \<times> parser_callback_context" where
  "set_endorser env artifact_id enc_pubkey sign_pubkey ctx =
     (if enc_store_st env \<noteq> AGENTD_STATUS_SUCCESS then (enc_store_st env, ctx) else
      let ctx = ctx\<lparr>endorser_cipher_key := enc_pubkey\<rparr> in
      if sign_store_st env \<noteq> AGENTD_STATUS_SUCCESS then (sign_store_st env, ctx)
      else (AGENTD_STATUS_SUCCESS, ctx\<lparr>endorser_signing_key := sign_pubkey, endorser_set := True, endorser_id := artifact_id\<rparr>))"

definition read_public_entity ::
  "cert_lib \<Rightarrow> file_system \<Rightarrow> reader_env \<Rightarrow> bytes \<Rightarrow> parser_callback_context \<Rightarrow> bool \<Rightarrow> ipc_fd \<Rightarrow>
   status \<times> parser_callback_context \<times> ipc_fd" where
  "read_public_entity lib fs env filename ctx is_endorser controlfd =
     (case read_certificate fs env filename of Inl st \<Rightarrow> (st, ctx, controlfd) | Inr cert \<Rightarrow>
      if cert_init_st lib cert \<noteq> AGENTD_STATUS_SUCCESS then (cert_init_st lib cert, ctx, controlfd) else
      let attested = cert_attest_st lib (endorser_key_resolver env ctx) cert in
      if endorser_set ctx \<and> attested \<noteq> AGENTD_STATUS_SUCCESS then (attested, ctx, controlfd) else
      case find_exact lib cert Artifact_id 16 of Inl st \<Rightarrow> (st, ctx, controlfd) | Inr artifact_id \<Rightarrow>
      case find_exact lib cert Public_encryption_key (enc_key_size lib) of Inl st \<Rightarrow> (st, ctx, controlfd) | Inr enc_pubkey \<Rightarrow>
      case find_exact lib cert Public_signing_key (sign_key_size lib) of Inl st \<Rightarrow> (st, ctx, controlfd) | Inr sign_pubkey \<Rightarrow>
      case (if is_endorser then set_endorser env artifact_id enc_pubkey sign_pubkey ctx else (AGENTD_STATUS_SUCCESS, ctx)) of
        (retval, ctx) \<Rightarrow>
      if retval \<noteq> AGENTD_STATUS_SUCCESS then (retval, ctx, controlfd) else
      case write_entity lib cert artifact_id enc_pubkey sign_pubkey (endorser_set ctx \<and> \<not> is_endorser) controlfd of
        (retval, controlfd) \<Rightarrow> (retval, ctx, controlfd))"

text \<open>One file: its name is read and the entity is written; \<open>False\<close> when the stream is no longer okay.\<close>

definition entities_step ::
  "cert_lib \<Rightarrow> file_system \<Rightarrow> reader_env \<Rightarrow> parser_callback_context \<Rightarrow> bool \<Rightarrow> ipc_fd \<Rightarrow> bool \<times> parser_callback_context \<times> ipc_fd" where
  "entities_step lib fs env ctx is_endorser controlfd =
     (case ipc_read_string_block (name_malloc env) controlfd of
        (Inl _, controlfd) \<Rightarrow> (False, ctx, controlfd)
      | (Inr filename, controlfd) \<Rightarrow>
          (case read_public_entity lib fs env filename ctx is_endorser controlfd of
             (retval, ctx, controlfd) \<Rightarrow> (retval = AGENTD_STATUS_SUCCESS, ctx, controlfd)))"

lemma write_block_rx: "(\<And>fd1. rx (snd (k fd1)) = rx fd1) \<Longrightarrow> rx (snd (write_block b fd k)) = rx fd"
  by (simp add: write_block_def sys_write_def split: list.splits option.splits)

lemma write_value_rx: "ipc_write_value v fd = (st, fd') \<Longrightarrow> rx fd' = rx fd"
proof -
  have "rx (snd (ipc_write_value v fd)) = rx fd"
    by (cases v) (simp_all add: ipc_write_int64_block_def ipc_write_uint64_block_def ipc_write_int8_block_def ipc_write_uint8_block_def
      ipc_write_string_block_def ipc_write_data_block_def Let_def write_block_rx)
  then show "ipc_write_value v fd = (st, fd') \<Longrightarrow> rx fd' = rx fd" by simp
qed

lemma write_all_rx: "write_all ipc_write_value fd vs = (st, fd') \<Longrightarrow> rx fd' = rx fd"
  by (induction vs arbitrary: fd) (auto split: prod.splits if_splits dest: write_value_rx)

lemmas write_uint8_rx = write_value_rx [of "Uint8_val _", simplified]
lemmas write_uint64_rx = write_value_rx [of "Uint64_val _", simplified]

lemma write_endorsements_rx: "write_endorsements lib count e later fd = (st, fd') \<Longrightarrow> rx fd' = rx fd"
proof (induction count arbitrary: e later fd)
  case (Suc count)
  obtain r fd1 where w: "write_all ipc_write_value fd [Uint8_val CONFIG_STREAM_TYPE_BOM, Data_val (slice 0 16 e), Data_val (slice 16 16 e),
      Data_val (slice 32 16 e), Uint8_val CONFIG_STREAM_TYPE_EOM] = (r, fd1)" by fastforce
  have "rx fd' = rx fd1" using Suc.prems Suc.IH unfolding write_endorsements.simps w by (auto split: if_splits list.splits)
  then show ?case using write_all_rx [OF w] by simp
qed simp

lemma write_entity_rx: "write_entity lib cert i e s c fd = (st, fd') \<Longrightarrow> rx fd' = rx fd"
  by (auto simp: write_entity_def write_capabilities_def Let_def split: prod.splits if_splits list.splits simp del: write_all.simps
    dest!: write_all_rx write_uint8_rx write_uint64_rx write_endorsements_rx)

lemma read_public_entity_rx: "read_public_entity lib fs env name ctx is_endorser fd = (st, ctx', fd') \<Longrightarrow> rx fd' = rx fd"
  by (auto simp: read_public_entity_def Let_def split: sum.splits if_splits prod.splits dest: write_entity_rx)

lemma read_sized_progress:
  assumes "read_sized ty bad f fd = (Inr y, fd')"
  shows "length (rx fd') < length (rx fd)"
proof -
  obtain t fd1 where t: "rx fd = t @ rx fd1" "length t = 4"
    and k: "(if of_net32 t \<noteq> ty then (Inl AGENTD_ERROR_IPC_READ_UNEXPECTED_DATA_TYPE, fd1)
      else read_block 4 fd1 (\<lambda>nsize sock. case bad (of_net32 nsize) of Some st \<Rightarrow> (Inl st, sock)
        | None \<Rightarrow> read_block (unat (of_net32 nsize)) sock (\<lambda>val sock. (Inr (f val), sock)))) = (Inr y, fd')"
    using assms unfolding read_sized_def by (rule read_block_sound)
  obtain v fd2 where "rx fd1 = v @ rx fd2" and k2: "(case bad (of_net32 v) of Some st \<Rightarrow> (Inl st, fd2)
        | None \<Rightarrow> read_block (unat (of_net32 v)) fd2 (\<lambda>val sock. (Inr (f val), sock))) = (Inr y, fd')"
    using k by (auto split: if_splits elim: read_block_sound)
  moreover obtain w where "rx fd2 = w @ rx fd'" using k2 by (auto split: option.splits elim: read_block_sound)
  ultimately show ?thesis using t by simp
qed

lemma read_string_progress: "ipc_read_string_block m fd = (Inr y, fd') \<Longrightarrow> length (rx fd') < length (rx fd)"
  unfolding sized_readers by (rule read_sized_progress)

lemma entities_step_shorter: "entities_step lib fs env ctx is_endorser fd = (True, ctx', fd') \<Longrightarrow> length (rx fd') < length (rx fd)"
  by (auto simp: entities_step_def split: prod.splits sum.splits dest!: read_string_progress read_public_entity_rx)

text \<open>The loop over the names; the length of what is left to read falls.\<close>

function entities_loop ::
  "cert_lib \<Rightarrow> file_system \<Rightarrow> (nat \<Rightarrow> reader_env) \<Rightarrow> nat \<Rightarrow> parser_callback_context \<Rightarrow> bool \<Rightarrow> ipc_fd \<Rightarrow> parser_callback_context \<times> ipc_fd" where
  "entities_loop lib fs envs n ctx is_endorser controlfd =
     (case entities_step lib fs (envs n) ctx is_endorser controlfd of (stream_okay, ctx, controlfd) \<Rightarrow>
      if stream_okay then entities_loop lib fs envs (Suc n) ctx False controlfd else (ctx, controlfd))"
  by pat_completeness auto

termination
  by (relation "measure (\<lambda>(lib, fs, envs, n, ctx, is_endorser, fd). length (rx fd))") (auto dest!: entities_step_shorter [OF sym])

declare entities_loop.simps [simp del]

definition read_public_entities ::
  "cert_lib \<Rightarrow> file_system \<Rightarrow> (nat \<Rightarrow> reader_env) \<Rightarrow> parser_callback_context \<Rightarrow> ipc_fd \<Rightarrow> parser_callback_context \<times> ipc_fd" where
  "read_public_entities lib fs envs ctx controlfd =
     (case ipc_read_uint8_block controlfd of
        (Inl _, controlfd) \<Rightarrow> (ctx, controlfd)
      | (Inr is_endorser, controlfd) \<Rightarrow> entities_loop lib fs envs 0 ctx (is_endorser \<noteq> 0) controlfd)"

subsection \<open>The child: the private key\<close>

definition write_private_key :: "cert_lib \<Rightarrow> bytes \<Rightarrow> ipc_fd \<Rightarrow> status \<times> ipc_fd" where
  "write_private_key lib cert controlfd =
     (case find_short lib cert Artifact_id of Inl st \<Rightarrow> (st, controlfd) | Inr artifact_id \<Rightarrow>
      case find_short lib cert Public_encryption_key of Inl st \<Rightarrow> (st, controlfd) | Inr enc_pubkey \<Rightarrow>
      case find_short lib cert Private_encryption_key of Inl st \<Rightarrow> (st, controlfd) | Inr enc_privkey \<Rightarrow>
      case find_short lib cert Public_signing_key of Inl st \<Rightarrow> (st, controlfd) | Inr sign_pubkey \<Rightarrow>
      case find_short lib cert Private_signing_key of Inl st \<Rightarrow> (st, controlfd) | Inr sign_privkey \<Rightarrow>
        write_all ipc_write_value controlfd
          [Uint8_val CONFIG_STREAM_TYPE_BOM, Data_val artifact_id, Data_val enc_pubkey, Data_val enc_privkey,
           Data_val sign_pubkey, Data_val sign_privkey, Uint8_val CONFIG_STREAM_TYPE_EOM])"

definition read_private_key :: "cert_lib \<Rightarrow> file_system \<Rightarrow> reader_env \<Rightarrow> ipc_fd \<Rightarrow> status \<times> ipc_fd" where
  "read_private_key lib fs env controlfd =
     (case ipc_read_string_block (name_malloc env) controlfd of
        (Inl st, controlfd) \<Rightarrow> (st, controlfd)
      | (Inr filename, controlfd) \<Rightarrow>
          (case read_certificate fs env filename of Inl st \<Rightarrow> (st, controlfd) | Inr cert \<Rightarrow>
           if cert_init_st lib cert \<noteq> AGENTD_STATUS_SUCCESS then (cert_init_st lib cert, controlfd)
           else write_private_key lib cert controlfd))"

subsection \<open>The supervisor: an entity\<close>

record entity_env =
  uuid_malloc :: bool
  enc_malloc :: bool
  sign_malloc :: bool
  caps_malloc :: "nat \<Rightarrow> nat \<Rightarrow> bool"
  node_malloc :: bool
  enc_init_st :: status
  sign_init_st :: status

text \<open>
  An identifier of the wrong size ends the list without an error.  \<open>i\<close> is the number of the capability, and
  \<open>caps_malloc i\<close> are the results of its four allocations.
\<close>

fun read_capability_nodes ::
  "(nat \<Rightarrow> nat \<Rightarrow> bool) \<Rightarrow> nat \<Rightarrow> nat \<Rightarrow> config_public_entity_capability_node list \<Rightarrow> ipc_fd \<Rightarrow>
   status \<times> config_public_entity_capability_node list \<times> ipc_fd" where
  "read_capability_nodes alloc 0 i caps clientsock = (AGENTD_STATUS_SUCCESS, caps, clientsock)"
| "read_capability_nodes alloc (Suc count) i caps clientsock =
     (case ipc_read_uint8_block clientsock of (Inl st, clientsock) \<Rightarrow> (st, caps, clientsock) | (Inr type, clientsock) \<Rightarrow>
      if type \<noteq> CONFIG_STREAM_TYPE_BOM then (AGENTD_ERROR_READER_INVALID_STREAM, caps, clientsock) else
      case ipc_read_data_block (alloc i 0) clientsock of (Inl st, clientsock) \<Rightarrow> (st, caps, clientsock) | (Inr subject_id, clientsock) \<Rightarrow>
      if length subject_id \<noteq> 16 then (AGENTD_STATUS_SUCCESS, caps, clientsock) else
      case ipc_read_data_block (alloc i 1) clientsock of (Inl st, clientsock) \<Rightarrow> (st, caps, clientsock) | (Inr verb_id, clientsock) \<Rightarrow>
      if length verb_id \<noteq> 16 then (AGENTD_STATUS_SUCCESS, caps, clientsock) else
      case ipc_read_data_block (alloc i 2) clientsock of (Inl st, clientsock) \<Rightarrow> (st, caps, clientsock) | (Inr object_id, clientsock) \<Rightarrow>
      if length object_id \<noteq> 16 then (AGENTD_STATUS_SUCCESS, caps, clientsock) else
      case ipc_read_uint8_block clientsock of (Inl st, clientsock) \<Rightarrow> (st, caps, clientsock) | (Inr type, clientsock) \<Rightarrow>
      if type \<noteq> CONFIG_STREAM_TYPE_EOM then (AGENTD_ERROR_READER_INVALID_STREAM, caps, clientsock)
      else if \<not> alloc i 3 then (AGENTD_ERROR_GENERAL_OUT_OF_MEMORY, caps, clientsock)
      else read_capability_nodes alloc count (Suc i) (\<lparr> cap_subject = subject_id, cap_verb = verb_id, cap_object = object_id \<rparr> # caps) clientsock)"

text \<open>With no capability the function frees three pointers it never set.\<close>

definition config_entity_read_capabilities ::
  "(nat \<Rightarrow> nat \<Rightarrow> bool) \<Rightarrow> ipc_fd \<Rightarrow> (status \<times> config_public_entity_capability_node list \<times> ipc_fd) option" where
  "config_entity_read_capabilities alloc clientsock =
     (case ipc_read_uint64_block clientsock of
        (Inl st, clientsock) \<Rightarrow> Some (st, [], clientsock)
      | (Inr count, clientsock) \<Rightarrow> if count = 0 then None else Some (read_capability_nodes alloc (unat count) 0 [] clientsock))"

definition config_entity_finish ::
  "entity_env \<Rightarrow> bytes \<Rightarrow> bytes \<Rightarrow> bytes \<Rightarrow> config_public_entity_capability_node list \<Rightarrow> ipc_fd \<Rightarrow> (status + config_public_entity_node) \<times> ipc_fd" where
  "config_entity_finish env uuid_data enc_data sign_data caps clientsock =
     (case ipc_read_uint8_block clientsock of (Inl st, clientsock) \<Rightarrow> (Inl st, clientsock) | (Inr type, clientsock) \<Rightarrow>
      (if type \<noteq> CONFIG_STREAM_TYPE_EOM then Inl AGENTD_ERROR_READER_INVALID_STREAM
       else if length uuid_data \<noteq> 16 then Inl AGENTD_ERROR_CONFIG_INVALID_STREAM
       else if \<not> node_malloc env then Inl AGENTD_ERROR_GENERAL_OUT_OF_MEMORY
       else if enc_init_st env \<noteq> AGENTD_STATUS_SUCCESS then Inl (enc_init_st env)
       else if sign_init_st env \<noteq> AGENTD_STATUS_SUCCESS then Inl (sign_init_st env)
       else Inr \<lparr> pub_id = uuid_data, pub_enc_pubkey = enc_data, pub_sign_pubkey = sign_data, cap_head = caps \<rparr>, clientsock))"

definition config_entity_read ::
  "entity_env \<Rightarrow> agent_config \<Rightarrow> bool \<Rightarrow> ipc_fd \<Rightarrow> ((status + config_public_entity_node) \<times> ipc_fd) option" where
  "config_entity_read env conf is_endorser clientsock =
     (case ipc_read_uint8_block clientsock of (Inl st, clientsock) \<Rightarrow> Some (Inl st, clientsock) | (Inr type, clientsock) \<Rightarrow>
      if type \<noteq> CONFIG_STREAM_TYPE_BOM then Some (Inl AGENTD_ERROR_READER_INVALID_STREAM, clientsock) else
      case ipc_read_data_block (uuid_malloc env) clientsock of (Inl st, clientsock) \<Rightarrow> Some (Inl st, clientsock) | (Inr uuid_data, clientsock) \<Rightarrow>
      case ipc_read_data_block (enc_malloc env) clientsock of (Inl st, clientsock) \<Rightarrow> Some (Inl st, clientsock) | (Inr enc_data, clientsock) \<Rightarrow>
      case ipc_read_data_block (sign_malloc env) clientsock of (Inl st, clientsock) \<Rightarrow> Some (Inl st, clientsock) | (Inr sign_data, clientsock) \<Rightarrow>
      case (if conf_endorser_key conf \<noteq> None \<and> \<not> is_endorser then config_entity_read_capabilities (caps_malloc env) clientsock
            else Some (AGENTD_STATUS_SUCCESS, [], clientsock)) of
        None \<Rightarrow> None
      | Some (retval, caps, clientsock) \<Rightarrow>
          if retval \<noteq> AGENTD_STATUS_SUCCESS then Some (Inl retval, clientsock)
          else Some (config_entity_finish env uuid_data enc_data sign_data caps clientsock))"

subsection \<open>The supervisor: public entities\<close>

text \<open>
  Between a name that is sent and the entity that is read the child runs: \<open>peer\<close> says what it does with the
  socket, \<open>w\<close> is its state.  The list of entities is the reverse of the list of names.
\<close>

definition entity_exchange ::
  "entity_env \<Rightarrow> (ipc_fd \<Rightarrow> 'w \<Rightarrow> ipc_fd \<times> 'w) \<Rightarrow> agent_config \<Rightarrow> bool \<Rightarrow> bytes \<Rightarrow> ipc_fd \<Rightarrow> 'w \<Rightarrow>
   ((status + config_public_entity_node) \<times> ipc_fd \<times> 'w) option" where
  "entity_exchange env peer conf is_endorser filename clientsock w =
     (case ipc_write_string_block filename clientsock of (retval, clientsock) \<Rightarrow>
      if retval \<noteq> AGENTD_STATUS_SUCCESS then Some (Inl AGENTD_ERROR_READER_IPC_WRITE_DATA_FAILURE, clientsock, w) else
      case peer clientsock w of (clientsock, w) \<Rightarrow>
      case config_entity_read env conf is_endorser clientsock of
        None \<Rightarrow> None
      | Some (Inl _, clientsock) \<Rightarrow> Some (Inl AGENTD_ERROR_READER_IPC_READ_DATA_FAILURE, clientsock, w)
      | Some (Inr entry, clientsock) \<Rightarrow> Some (Inr entry, clientsock, w))"

fun entity_exchanges ::
  "(nat \<Rightarrow> entity_env) \<Rightarrow> (ipc_fd \<Rightarrow> 'w \<Rightarrow> ipc_fd \<times> 'w) \<Rightarrow> agent_config \<Rightarrow> nat \<Rightarrow> bytes list \<Rightarrow> config_public_entity_node list \<Rightarrow>
   ipc_fd \<Rightarrow> 'w \<Rightarrow> (status \<times> config_public_entity_node list \<times> ipc_fd \<times> 'w) option" where
  "entity_exchanges envs peer conf n [] entities clientsock w = Some (AGENTD_STATUS_SUCCESS, entities, clientsock, w)"
| "entity_exchanges envs peer conf n (filename # public_keys) entities clientsock w =
     (case entity_exchange (envs n) peer conf False filename clientsock w of
        None \<Rightarrow> None
      | Some (Inl st, clientsock, w) \<Rightarrow> Some (st, entities, clientsock, w)
      | Some (Inr entry, clientsock, w) \<Rightarrow> entity_exchanges envs peer conf (Suc n) public_keys (entry # entities) clientsock w)"

definition endorser_exchange ::
  "entity_env \<Rightarrow> (ipc_fd \<Rightarrow> 'w \<Rightarrow> ipc_fd \<times> 'w) \<Rightarrow> agent_config \<Rightarrow> ipc_fd \<Rightarrow> 'w \<Rightarrow>
   ((status + config_public_entity_node option) \<times> ipc_fd \<times> 'w) option" where
  "endorser_exchange env peer conf clientsock w =
     (case ipc_write_uint8_block (if conf_endorser_key conf \<noteq> None then 1 else 0) clientsock of (retval, clientsock) \<Rightarrow>
      if retval \<noteq> AGENTD_STATUS_SUCCESS then Some (Inl AGENTD_ERROR_READER_IPC_WRITE_DATA_FAILURE, clientsock, w) else
      case conf_endorser_key conf of
        None \<Rightarrow> Some (Inr None, clientsock, w)
      | Some filename \<Rightarrow>
          (case entity_exchange env peer conf True filename clientsock w of
             None \<Rightarrow> None
           | Some (Inl st, clientsock, w) \<Rightarrow> Some (Inl st, clientsock, w)
           | Some (Inr entry, clientsock, w) \<Rightarrow> Some (Inr (Some entry), clientsock, w)))"

type_synonym entities_result = "status \<times> config_public_entity_node option \<times> config_public_entity_node list"

definition public_entities_parent ::
  "entity_env \<Rightarrow> (nat \<Rightarrow> entity_env) \<Rightarrow> (ipc_fd \<Rightarrow> 'w \<Rightarrow> ipc_fd \<times> 'w) \<Rightarrow> agent_config \<Rightarrow> nat option \<Rightarrow> ipc_fd \<Rightarrow> 'w \<Rightarrow>
   (entities_result \<times> ipc_fd \<times> 'w) option" where
  "public_entities_parent env envs peer conf exit_status clientsock w =
     (case endorser_exchange env peer conf clientsock w of
        None \<Rightarrow> None
      | Some (Inl st, clientsock, w) \<Rightarrow> Some ((st, None, []), clientsock, w)
      | Some (Inr endorser, clientsock, w) \<Rightarrow>
      case entity_exchanges envs peer conf 0 (conf_public_keys conf) [] clientsock w of
        None \<Rightarrow> None
      | Some (retval, entities, clientsock, w) \<Rightarrow>
          if retval \<noteq> AGENTD_STATUS_SUCCESS then Some ((retval, None, []), clientsock, w) else
          case ipc_write_uint8_block CONFIG_STREAM_TYPE_EOM clientsock of (_, clientsock) \<Rightarrow>
          case peer clientsock w of (clientsock, w) \<Rightarrow>
          if exit_status \<noteq> Some 0 then Some ((AGENTD_ERROR_READER_PROC_EXIT_FAILURE, None, []), clientsock, w)
          else Some ((AGENTD_STATUS_SUCCESS, endorser, entities), clientsock, w))"

definition reader_codes :: child_codes where
  "reader_codes = \<lparr> lookup_st = AGENTD_ERROR_READER_PRIVSEP_LOOKUP_USERGROUP_FAILURE,
     chroot_st = AGENTD_ERROR_READER_PRIVSEP_CHROOT_FAILURE,
     drop_st = AGENTD_ERROR_READER_PRIVSEP_DROP_PRIVILEGES_FAILURE,
     protect_st = AGENTD_ERROR_READER_PRIVSEP_SETFDS_FAILURE,
     setfds_st = AGENTD_ERROR_READER_PRIVSEP_SETFDS_FAILURE,
     other_st = AGENTD_ERROR_READER_PRIVSEP_CLOSE_OTHER_FDS,
     exec_st = AGENTD_ERROR_READER_PRIVSEP_EXEC_PRIVATE_FAILURE,
     survival_st = AGENTD_ERROR_READER_PRIVSEP_EXEC_SURVIVAL_WEIRDNESS \<rparr>"

abbreviation (input) AGENTD_FD_READER_CONTROL :: int where "AGENTD_FD_READER_CONTROL \<equiv> 0"

text \<open>Both sides of the fork; \<open>parent\<close> is what the supervisor does, \<open>init\<close> the result where it does nothing.\<close>

definition reader_proc ::
  "os_env \<Rightarrow> bootstrap_config \<Rightarrow> agent_config \<Rightarrow> string \<Rightarrow> ('w \<Rightarrow> ((status \<times> 'a) \<times> 'w) option) \<Rightarrow> 'a \<Rightarrow> 'w \<Rightarrow> process \<Rightarrow>
   (status \<times> 'a \<times> 'w) outcome" where
  "reader_proc os bconf conf command parent init w p =
     (if effective_uid p \<noteq> 0 then Returned (AGENTD_ERROR_READER_PROC_RUNSECURE_ROOT_USER_REQUIRED, init, w) p else
      case ipc_socketpair os p of
        Inl _ \<Rightarrow> Returned (AGENTD_ERROR_READER_IPC_SOCKETPAIR_FAILURE, init, w) p
      | Inr (clientsock, serversock, p) \<Rightarrow>
          if os_fork os < 0 then
            Returned (AGENTD_ERROR_READER_FORK_FAILURE, init, w) (close_open serversock (close_open clientsock p))
          else if os_fork os = 0 then
            (case service_child os reader_codes bconf conf (cstr command) True [serversock] [AGENTD_FD_READER_CONTROL]
                    AGENTD_FD_READER_CONTROL (close_fd clientsock p) of
               Returned (retval, fds) p \<Rightarrow> Returned (retval, init, w) (close_open (fds ! 0) p)
             | Executed path args p \<Rightarrow> Executed path args p
             | Undefined \<Rightarrow> Undefined)
          else
            (case parent w of
               None \<Rightarrow> Undefined
             | Some ((retval, a), w) \<Rightarrow> Returned (retval, a, w) (close_open clientsock (close_fd serversock p))))"

definition config_read_public_entities_proc ::
  "os_env \<Rightarrow> entity_env \<Rightarrow> (nat \<Rightarrow> entity_env) \<Rightarrow> (ipc_fd \<Rightarrow> 'w \<Rightarrow> ipc_fd \<times> 'w) \<Rightarrow> nat option \<Rightarrow> bootstrap_config \<Rightarrow> agent_config \<Rightarrow>
   config_public_entity_node option \<times> config_public_entity_node list \<Rightarrow> ipc_fd \<times> 'w \<Rightarrow> process \<Rightarrow>
   (status \<times> (config_public_entity_node option \<times> config_public_entity_node list) \<times> ipc_fd \<times> 'w) outcome" where
  "config_read_public_entities_proc os env envs peer exit_status bconf conf init fw p =
     reader_proc os bconf conf ''read_public_entities''
       (\<lambda>(clientsock, w). public_entities_parent env envs peer conf exit_status clientsock w) init fw p"

subsection \<open>The supervisor: the private key\<close>

record key_env =
  pkey_malloc :: "nat \<Rightarrow> bool"
  pkey_init_st :: "nat \<Rightarrow> status"

definition config_private_key_read ::
  "key_env \<Rightarrow> config_private_key \<Rightarrow> ipc_fd \<Rightarrow> status \<times> config_private_key \<times> ipc_fd" where
  "config_private_key_read env entry clientsock =
     (case ipc_read_uint8_block clientsock of (Inl st, clientsock) \<Rightarrow> (st, entry, clientsock) | (Inr type, clientsock) \<Rightarrow>
      if type \<noteq> CONFIG_STREAM_TYPE_BOM then (AGENTD_ERROR_READER_INVALID_STREAM, entry, clientsock) else
      case ipc_read_data_block (pkey_malloc env 0) clientsock of (Inl st, clientsock) \<Rightarrow> (st, entry, clientsock) | (Inr uuid_data, clientsock) \<Rightarrow>
      case ipc_read_data_block (pkey_malloc env 1) clientsock of (Inl st, clientsock) \<Rightarrow> (st, entry, clientsock) | (Inr enc_pubdata, clientsock) \<Rightarrow>
      case ipc_read_data_block (pkey_malloc env 2) clientsock of (Inl st, clientsock) \<Rightarrow> (st, entry, clientsock) | (Inr enc_privdata, clientsock) \<Rightarrow>
      case ipc_read_data_block (pkey_malloc env 3) clientsock of (Inl st, clientsock) \<Rightarrow> (st, entry, clientsock) | (Inr sign_pubdata, clientsock) \<Rightarrow>
      case ipc_read_data_block (pkey_malloc env 4) clientsock of (Inl st, clientsock) \<Rightarrow> (st, entry, clientsock) | (Inr sign_privdata, clientsock) \<Rightarrow>
      case ipc_read_uint8_block clientsock of (Inl st, clientsock) \<Rightarrow> (st, entry, clientsock) | (Inr type, clientsock) \<Rightarrow>
      if type \<noteq> CONFIG_STREAM_TYPE_EOM then (AGENTD_ERROR_READER_INVALID_STREAM, entry, clientsock)
      else if length uuid_data \<noteq> 16 then (AGENTD_ERROR_CONFIG_INVALID_STREAM, entry, clientsock)
      else (case find (\<lambda>k. pkey_init_st env k \<noteq> AGENTD_STATUS_SUCCESS) [0 ..< 4] of
              Some k \<Rightarrow> (pkey_init_st env k, private_key_zero, clientsock)
            | None \<Rightarrow> (AGENTD_STATUS_SUCCESS,
                \<lparr> key_found = True, key_id = uuid_data, key_enc_pubkey = enc_pubdata, key_enc_privkey = enc_privdata,
                  key_sign_pubkey = sign_pubdata, key_sign_privkey = sign_privdata \<rparr>, clientsock)))"

definition private_key_parent ::
  "key_env \<Rightarrow> (ipc_fd \<Rightarrow> 'w \<Rightarrow> ipc_fd \<times> 'w) \<Rightarrow> bytes \<Rightarrow> nat option \<Rightarrow> config_private_key \<Rightarrow> ipc_fd \<Rightarrow> 'w \<Rightarrow>
   (status \<times> config_private_key) \<times> ipc_fd \<times> 'w" where
  "private_key_parent env peer filename exit_status private_key clientsock w =
     (case ipc_write_string_block filename clientsock of (retval, clientsock) \<Rightarrow>
      if retval \<noteq> AGENTD_STATUS_SUCCESS then ((AGENTD_ERROR_READER_IPC_WRITE_DATA_FAILURE, private_key), clientsock, w) else
      case peer clientsock w of (clientsock, w) \<Rightarrow>
      case config_private_key_read env private_key clientsock of (retval, private_key, clientsock) \<Rightarrow>
      if retval \<noteq> AGENTD_STATUS_SUCCESS then ((AGENTD_ERROR_READER_IPC_READ_DATA_FAILURE, private_key), clientsock, w)
      else if exit_status \<noteq> Some 0 then ((AGENTD_ERROR_READER_PROC_EXIT_FAILURE, private_key_zero), clientsock, w)
      else ((AGENTD_STATUS_SUCCESS, private_key), clientsock, w))"

definition config_read_private_key_proc ::
  "os_env \<Rightarrow> key_env \<Rightarrow> (ipc_fd \<Rightarrow> 'w \<Rightarrow> ipc_fd \<times> 'w) \<Rightarrow> nat option \<Rightarrow> bootstrap_config \<Rightarrow> agent_config \<Rightarrow> config_private_key \<Rightarrow>
   ipc_fd \<times> 'w \<Rightarrow> process \<Rightarrow> (status \<times> config_private_key \<times> ipc_fd \<times> 'w) outcome" where
  "config_read_private_key_proc os env peer exit_status bconf conf private_key fw p =
     (case conf_private_key conf of
        None \<Rightarrow> Returned (AGENTD_STATUS_SUCCESS, private_key_zero, fw) p
      | Some filename \<Rightarrow>
          reader_proc os bconf conf ''read_private_key''
            (\<lambda>(clientsock, w). Some (private_key_parent env peer filename exit_status private_key clientsock w)) private_key fw p)"

end
