(* ===== verification/Process_Start_Correct.thy ===== *)
theory Process_Start_Correct
  imports Process_Start
begin

text \<open>
  What the processes of the daemon are when they run: whatever the operating system
  answers, a child that executes the daemon has given up its privileges and holds exactly
  the descriptors meant for it.
\<close>

subsection \<open>Descriptors\<close>

lemma close_fd_fields [simp]:
  "descriptors (close_fd fd p) = (descriptors p)(fd := None)"
  "root_dirs (close_fd fd p) = root_dirs p"
  "effective_uid (close_fd fd p) = effective_uid p"
  by (simp_all add: close_fd_def)

lemma dup2_Some:
  "dup2 os old new p = Some p' \<longleftrightarrow>
     descriptors p old \<noteq> None \<and> 0 \<le> new \<and> new < int (os_nofile os) \<and> os_dup2 os old new \<and>
     p' = p\<lparr>descriptors := (descriptors p)(new := descriptors p old)\<rparr>"
  by (auto simp: dup2_def)

lemma close_all: "fold close_fd is p = p\<lparr>descriptors := (\<lambda>i. if i \<in> set is then None else descriptors p i)\<rparr>"
proof (induction "is" arbitrary: p)
  case (Cons j js)
  then show ?case by (auto simp: close_fd_def fun_eq_iff)
qed simp

text \<open>Where the descriptors are once they are protected.\<close>

definition protected_at :: "int \<Rightarrow> int list \<Rightarrow> (int \<rightharpoonup> open_file) \<Rightarrow> int \<rightharpoonup> open_file" where
  "protected_at high fds D =
     (\<lambda>i. if high \<le> i \<and> i < high + int (length fds) then D (fds ! nat (i - high))
          else if i \<in> set fds then None else D i)"

lemma protected_at_Cons:
  assumes "fd < high" "\<forall>d\<in>set fds. d < high" "fd \<notin> set fds"
  shows "protected_at (high + 1) fds ((D(high := D fd))(fd := None)) = protected_at high (fd # fds) D"
proof
  fix i
  consider "i = high" | "high + 1 \<le> i" "i < high + 1 + int (length fds)" | "i < high" | "high + 1 + int (length fds) \<le> i"
    by linarith
  then show "protected_at (high + 1) fds ((D(high := D fd))(fd := None)) i = protected_at high (fd # fds) D i"
  proof cases
    case 2
    then have n: "nat (i - high) = Suc (nat (i - (high + 1)))" by simp
    have "fds ! nat (i - (high + 1)) \<in> set fds" using 2 by (intro nth_mem) linarith
    then have "fds ! nat (i - (high + 1)) < high" "fds ! nat (i - (high + 1)) \<noteq> fd" using assms by auto
    with 2 show ?thesis by (simp add: protected_at_def n)
  qed (use assms in \<open>auto simp: protected_at_def\<close>)
qed

lemma protect_from_success:
  assumes "protect_from os high fds p = (AGENTD_STATUS_SUCCESS, fds', p')" "distinct fds" "\<forall>d\<in>set fds. d < high"
  shows "fds' = map (\<lambda>k. high + int k) [0 ..< length fds] \<and> p' = p\<lparr>descriptors := protected_at high fds (descriptors p)\<rparr> \<and>
     (\<forall>d\<in>set fds. descriptors p d \<noteq> None)"
  using assms
proof (induction fds arbitrary: high p fds' p')
  case Nil
  have "protected_at high [] D = D" for D by (auto simp: protected_at_def fun_eq_iff)
  with Nil show ?case by simp
next
  case (Cons fd fds)
  from Cons.prems(1) obtain p1 where d: "dup2 os fd high p = Some p1" by (auto split: option.splits)
  define p2 where "p2 = close_fd fd p1"
  from Cons.prems(1) d obtain ds where r: "protect_from os (high + 1) fds p2 = (AGENTD_STATUS_SUCCESS, ds, p')" "fds' = high # ds"
    by (auto simp: p2_def split: prod.splits)
  have D: "descriptors p2 = ((descriptors p)(high := descriptors p fd))(fd := None)" "p2 = p\<lparr>descriptors := descriptors p2\<rparr>"
    using d by (auto simp: p2_def dup2_Some close_fd_def)
  have lt: "\<forall>d\<in>set fds. d < high + 1" using Cons.prems(3) by fastforce
  from Cons.IH [OF r(1)] Cons.prems(2) lt
  have IH: "ds = map (\<lambda>k. high + 1 + int k) [0 ..< length fds]" "p' = p2\<lparr>descriptors := protected_at (high + 1) fds (descriptors p2)\<rparr>"
    "\<forall>d\<in>set fds. descriptors p2 d \<noteq> None" by auto
  have "fds' = map (\<lambda>k. high + int k) [0 ..< length (fd # fds)]"
    using r(2) IH(1) by (simp add: map_upt_Suc add.assoc del: upt_Suc)
  moreover have "protected_at (high + 1) fds (descriptors p2) = protected_at high (fd # fds) (descriptors p)"
    unfolding D(1) using Cons.prems by (intro protected_at_Cons) auto
  moreover have "\<forall>d\<in>set (fd # fds). descriptors p d \<noteq> None"
    using IH(3) d Cons.prems(2,3) by (auto simp: D(1) dup2_Some split: if_splits)
  ultimately show ?case using IH(2) D(2) by (metis process.surjective process.update_convs(1))
qed

text \<open>Where they are once they have got their numbers.\<close>

definition mapped_to :: "(int \<times> int) list \<Rightarrow> (int \<rightharpoonup> open_file) \<Rightarrow> int \<rightharpoonup> open_file" where
  "mapped_to ps D =
     (\<lambda>i. case map_of (map prod.swap ps) i of Some cur \<Rightarrow> D cur | None \<Rightarrow> if i \<in> fst ` set ps then None else D i)"

lemma mapped_to_Cons:
  assumes "\<forall>(c, m)\<in>set ((cur, m0) # ps). m < 500 \<and> 500 \<le> c" "m0 \<notin> snd ` set ps" "cur \<notin> fst ` set ps"
  shows "mapped_to ps ((D(m0 := D cur))(cur := None)) = mapped_to ((cur, m0) # ps) D"
proof
  fix i
  have c: "c \<noteq> m0" "c \<noteq> cur" if "map_of (map prod.swap ps) i = Some c" for c
    using map_of_SomeD [OF that] assms by force+
  have n: "map_of (map prod.swap ps) m0 = None" using assms(2) by (force simp: map_of_eq_None_iff)
  have "m0 \<noteq> cur" "m0 \<notin> fst ` set ps" using assms(1) by force+
  then show "mapped_to ps ((D(m0 := D cur))(cur := None)) i = mapped_to ((cur, m0) # ps) D i"
    using c n assms(1) by (auto simp: mapped_to_def split: option.splits)
qed

lemma setfds_success:
  assumes "setfds_pair os cur m0 ps p = (AGENTD_STATUS_SUCCESS, p')"
    "\<forall>(c, m)\<in>set ((cur, m0) # ps). 0 \<le> m \<and> m < 500 \<and> 500 \<le> c" "distinct (m0 # map snd ps)" "distinct (cur # map fst ps)"
  shows "p' = p\<lparr>descriptors := mapped_to ((cur, m0) # ps) (descriptors p)\<rparr>"
  using assms
proof (induction ps arbitrary: cur m0 p)
  case Nil
  have "mapped_to [] D = D" for D by (simp add: mapped_to_def)
  with mapped_to_Cons [of cur m0 "[]" "descriptors p"] Nil
  show ?case by (auto simp: dup2_Some close_fd_def split: option.splits)
next
  case (Cons q ps)
  obtain c m where q: "q = (c, m)" by fastforce
  from Cons.prems(1) obtain p1 where d: "dup2 os cur m0 p = Some p1" by (auto simp: q split: option.splits)
  define p2 where "p2 = close_fd cur p1"
  have r: "setfds_pair os c m ps p2 = (AGENTD_STATUS_SUCCESS, p')"
    using Cons.prems(1,2) d by (auto simp: q p2_def split: if_splits)
  have D: "p2 = p\<lparr>descriptors := ((descriptors p)(m0 := descriptors p cur))(cur := None)\<rparr>"
    using d by (auto simp: p2_def dup2_Some close_fd_def)
  have "p' = p2\<lparr>descriptors := mapped_to (q # ps) (descriptors p2)\<rparr>"
    unfolding q by (rule Cons.IH [OF r]) (use Cons.prems in \<open>auto simp: q\<close>)
  also have "mapped_to (q # ps) (descriptors p2) = mapped_to ((cur, m0) # q # ps) (descriptors p)"
    unfolding D using Cons.prems by (simp, intro mapped_to_Cons) auto
  finally show ?case by (simp add: D)
qed


text \<open>The descriptors of a child: number and file.\<close>

definition wired :: "process \<Rightarrow> int list \<Rightarrow> int list \<Rightarrow> (int \<times> open_file) list" where
  "wired p fds mapped = zip mapped (map (\<lambda>d. the (descriptors p d)) fds)"

lemma high_nth: "map (\<lambda>k. (500::int) + int k) [0 ..< n] ! j = 500 + int j" if "j < n"
  using that by simp

lemma mapped_lookup:
  assumes "length cs = length ms" "distinct ms" "j < length ms"
  shows "map_of (map prod.swap (zip cs ms)) (ms ! j) = Some (cs ! j)"
proof -
  have "map prod.swap (zip cs ms) = zip ms cs" by (subst zip_commute) (simp add: comp_def split_def)
  then show ?thesis using assms by (simp add: map_of_zip_nth)
qed

lemma wired_final:
  assumes "length mapped = length fds" "distinct mapped" "set mapped = {0 ..< int (length fds)}" "length fds \<le> 500"
    "\<forall>d\<in>set fds. descriptors p d \<noteq> None \<and> d < 500" "dom (descriptors p) \<subseteq> {0 ..< FD_SETSIZE}"
  defines "D1 \<equiv> protected_at 500 fds (descriptors p)"
  defines "D2 \<equiv> ((D1(0 := None))(1 := None))(2 := None)"
  defines "ps \<equiv> zip (map (\<lambda>k. 500 + int k) [0 ..< length fds]) mapped"
  shows "(\<lambda>i. if i \<in> set [int (length fds) .. FD_SETSIZE - 1] then None else mapped_to ps D2 i) = map_of (wired p fds mapped)"
proof
  fix i :: int
  have pr: "D2 (500 + int j) = descriptors p (fds ! j)" if "j < length fds" for j
    using that by (simp add: D2_def D1_def protected_at_def)
  show "(if i \<in> set [int (length fds) .. FD_SETSIZE - 1] then None else mapped_to ps D2 i) = map_of (wired p fds mapped) i"
  proof (cases "i \<in> set mapped")
    case True
    then obtain j where j: "j < length mapped" "i = mapped ! j" by (metis in_set_conv_nth)
    have "mapped_to ps D2 i = D2 (500 + int j)"
      using mapped_lookup [of "map (\<lambda>k. 500 + int k) [0 ..< length fds]" mapped j] assms(1,2) j
      by (simp add: mapped_to_def ps_def)
    also have "\<dots> = descriptors p (fds ! j)" using j assms(1) pr by simp
    also have "\<dots> = Some (the (descriptors p (fds ! j)))" using assms(1,5) j by simp
    also have "\<dots> = map_of (wired p fds mapped) i" using assms(1,2) j by (simp add: wired_def map_of_zip_nth)
    finally show ?thesis using True assms(3) by simp
  next
    case False
    have "fst ` set ps \<subseteq> {500 ..< 1000}" using assms(1,4) by (auto simp: ps_def dest!: set_zip_leftD)
    moreover have "map_of (map prod.swap ps) i = None" using False by (auto simp: map_of_eq_None_iff ps_def dest: set_zip_rightD)
    moreover have "D2 i = None" if "i < 0 \<or> 1024 \<le> i"
      using that assms(4,6) by (auto simp: D2_def D1_def protected_at_def)
    moreover have "map_of (wired p fds mapped) i = None" using False by (auto simp: map_of_eq_None_iff wired_def dest: set_zip_leftD)
    ultimately show ?thesis using False assms(3) by (auto simp: mapped_to_def)
  qed
qed

lemma pass_descriptors_success:
  assumes "pass_descriptors os codes fds mapped last_fd p = (AGENTD_STATUS_SUCCESS, fds', p')"
    "protect_st codes \<noteq> AGENTD_STATUS_SUCCESS" "setfds_st codes \<noteq> AGENTD_STATUS_SUCCESS" "fds \<noteq> []"
    and m: "length mapped = length fds" "distinct mapped" "set mapped = {0 ..< int (length fds)}" "length fds \<le> 500"
    and d: "distinct fds" "\<forall>d\<in>set fds. d < 500" "dom (descriptors p) \<subseteq> {0 ..< FD_SETSIZE}" and l: "last_fd + 1 = int (length fds)"
  shows "p' = p\<lparr>descriptors := map_of (wired p fds mapped)\<rparr>"
proof -
  let ?D = "protected_at 500 fds (descriptors p)"
  from assms(1,2) obtain fds1 p1 where p1: "protect_from os 500 fds p = (AGENTD_STATUS_SUCCESS, fds1, p1)"
    by (auto simp: pass_descriptors_def privsep_protect_descriptors_def split: prod.splits if_splits)
  from protect_from_success [OF p1 d(1,2)]
  have f1: "fds1 = map (\<lambda>k. 500 + int k) [0 ..< length fds]" "p1 = p\<lparr>descriptors := ?D\<rparr>" "\<forall>d\<in>set fds. descriptors p d \<noteq> None" by auto
  define p2 where "p2 = close_fd 2 (close_fd 1 (close_fd 0 p1))"
  define ps where "ps = zip fds1 mapped"
  obtain c m0 qs where ps: "ps = (c, m0) # qs" using m(1) assms(4) f1(1) by (cases ps) (auto simp: ps_def zip_eq_Nil_iff)
  from assms(1,3) p1 obtain p3 where p3: "privsep_setfds os ps p2 = (AGENTD_STATUS_SUCCESS, p3)"
    and p': "p' = fold close_fd [last_fd + 1 .. FD_SETSIZE - 1] p3"
    by (auto simp: pass_descriptors_def privsep_protect_descriptors_def privsep_close_standard_fds_def p2_def ps_def
      privsep_close_other_fds_def split: prod.splits if_splits)
  have "\<forall>(c, m)\<in>set ps. 0 \<le> m \<and> m < 500 \<and> 500 \<le> c"
  proof (intro ballI, clarify)
    fix c m assume "(c, m) \<in> set ps"
    then have "c \<in> set fds1" "m \<in> set mapped" by (auto simp: ps_def dest: set_zip_leftD set_zip_rightD)
    then show "0 \<le> m \<and> m < 500 \<and> 500 \<le> c" using m(3,4) by (auto simp: f1(1))
  qed
  moreover have "map fst ps = fds1" "map snd ps = mapped" using m(1) f1(1) by (auto simp: ps_def)
  moreover have "distinct fds1" by (simp add: f1(1) distinct_map inj_on_def)
  ultimately have "p3 = p2\<lparr>descriptors := mapped_to ps (descriptors p2)\<rparr>"
    using setfds_success [of os c m0 qs p2 p3] p3 m(2) by (auto simp: ps privsep_setfds_def)
  then have "p' = p\<lparr>descriptors := (\<lambda>i. if i \<in> set [int (length fds) .. FD_SETSIZE - 1] then None
      else mapped_to ps (((?D(0 := None))(1 := None))(2 := None)) i)\<rparr>"
    by (simp add: p' close_all p2_def f1(2) l close_fd_def cong: if_cong)
  also have "\<dots> = p\<lparr>descriptors := map_of (wired p fds mapped)\<rparr>"
    using wired_final [OF m, of p] f1(3) d(2,3) by (simp add: ps_def f1(1) cong: if_cong)
  finally show ?thesis .
qed


subsection \<open>Privileges\<close>

text \<open>
  The ids of user \<open>user\<close> and group \<open>grp\<close> and only those, and the directory \<open>dir\<close> as root and
  working directory.
\<close>

definition jailed :: "os_env \<Rightarrow> bytes \<Rightarrow> bytes \<Rightarrow> bytes \<Rightarrow> process \<Rightarrow> process \<Rightarrow> bool" where
  "jailed os user grp dir p p' \<longleftrightarrow>
     os_passwd os user = Some (real_uid p') \<and> effective_uid p' = real_uid p' \<and> saved_uid p' = real_uid p' \<and>
     os_group os grp = Some (real_gid p') \<and> effective_gid p' = real_gid p' \<and> saved_gid p' = real_gid p' \<and>
     root_dirs p' = dir # root_dirs p \<and> working_dir p' = Some dir"

lemma jailed_frame [simp]:
  "jailed os user grp dir p (p'\<lparr>descriptors := D\<rparr>) = jailed os user grp dir p p'"
  "jailed os user grp dir p (p'\<lparr>environ := E\<rparr>) = jailed os user grp dir p p'"
  "jailed os user grp dir (p\<lparr>descriptors := D\<rparr>) p' = jailed os user grp dir p p'"
  by (simp_all add: jailed_def)

lemma become_user_success:
  assumes "become_user os codes bconf (privsep_lookup_usergroup os user grp) p = (AGENTD_STATUS_SUCCESS, p')" "effective_uid p = 0"
    "lookup_st codes \<noteq> AGENTD_STATUS_SUCCESS" "chroot_st codes \<noteq> AGENTD_STATUS_SUCCESS" "drop_st codes \<noteq> AGENTD_STATUS_SUCCESS"
  obtains dir where "prefix_dir bconf = Some dir" "jailed os user grp dir p p'" "descriptors p' = descriptors p"
    "supplementary_groups p' = supplementary_groups p"
  using assms
  by (auto simp: become_user_def privsep_lookup_usergroup_def privsep_chroot_def privsep_drop_privileges_def chdir_def
    chroot_def setegid_def seteuid_def setgid_def setuid_def jailed_def split: option.splits if_splits)

lemma exec_secure:
  assumes "exec_service os codes bconf command True p = Executed path args p'"
  shows "path = cstr ''/bin/agentd'' \<and>
     args = exec_args ((if config_file_override bconf then [Some (cstr ''agentd''), Some (cstr ''-c''), config_file bconf]
              else [Some (cstr ''agentd'')]) @ [Some (cstr ''-P''), Some command]) \<and>
     p' = p\<lparr>environ := (environ p)(cstr ''PATH'' \<mapsto> cstr ''/bin'', cstr ''LD_LIBRARY_PATH'' \<mapsto> cstr ''/lib:/usr/libexec'')\<rparr>"
  using assms
  by (auto simp: exec_service_def privsep_exec_private_def setenv_def Let_def split: option.splits if_splits outcome.splits)

text \<open>What a program is that a child of the daemon executes.\<close>

definition sandboxed ::
  "os_env \<Rightarrow> bootstrap_config \<Rightarrow> process \<Rightarrow> string \<Rightarrow> bytes \<Rightarrow> bytes \<Rightarrow> (int \<times> open_file) list \<Rightarrow> bytes \<times> bytes list \<times> process \<Rightarrow> bool" where
  "sandboxed os bconf p command user grp files x =
     (case x of (path, args, p') \<Rightarrow>
        path = cstr ''/bin/agentd'' \<and>
        args = exec_args ((if config_file_override bconf then [Some (cstr ''agentd''), Some (cstr ''-c''), config_file bconf]
              else [Some (cstr ''agentd'')]) @ [Some (cstr ''-P''), Some (cstr command)]) \<and>
        environ p' (cstr ''PATH'') = Some (cstr ''/bin'') \<and>
        descriptors p' = map_of files \<and>
        (\<exists>dir. prefix_dir bconf = Some dir \<and> jailed os user grp dir p p'))"

text \<open>Status codes of a service, and numbers that are given to \<open>n\<close> descriptors.\<close>

definition failure_codes :: "child_codes \<Rightarrow> bool" where
  "failure_codes codes \<longleftrightarrow> 0 \<notin> {lookup_st codes, chroot_st codes, drop_st codes, protect_st codes, setfds_st codes}"

definition numbering :: "int list \<Rightarrow> int \<Rightarrow> bool" where
  "numbering mapped last_fd \<longleftrightarrow> mapped \<noteq> [] \<and> length mapped \<le> 500 \<and> distinct mapped \<and>
     set mapped = {0 ..< int (length mapped)} \<and> last_fd + 1 = int (length mapped)"

definition passable :: "process \<Rightarrow> int list \<Rightarrow> bool" where
  "passable p fds \<longleftrightarrow> distinct fds \<and> (\<forall>d\<in>set fds. d < 500) \<and> dom (descriptors p) \<subseteq> {0 ..< FD_SETSIZE}"

lemma service_child_sandboxed:
  assumes "service_child os codes bconf conf (cstr command) True fds mapped last_fd p = Executed path args p'"
    "failure_codes codes" "numbering mapped last_fd" "length fds = length mapped" "passable p fds" "effective_uid p = 0"
    "conf_usergroup conf = Usergroup user grp"
  shows "sandboxed os bconf p command user grp (wired p fds mapped) (path, args, p')"
proof -
  from assms(1,7) obtain p1 fds2 p2 where
    p1: "become_user os codes bconf (privsep_lookup_usergroup os user grp) p = (AGENTD_STATUS_SUCCESS, p1)" and
    p2: "pass_descriptors os codes fds mapped last_fd p1 = (AGENTD_STATUS_SUCCESS, fds2, p2)" and
    p3: "exec_service os codes bconf (cstr command) True p2 = Executed path args p'"
    by (auto simp: service_child_def restrict_child_def split: prod.splits if_splits outcome.splits)
  obtain dir where dir: "prefix_dir bconf = Some dir" "jailed os user grp dir p p1" "descriptors p1 = descriptors p"
    using become_user_success [OF p1 assms(6)] assms(2) by (auto simp: failure_codes_def)
  have "p2 = p1\<lparr>descriptors := map_of (wired p1 fds mapped)\<rparr>"
    by (rule pass_descriptors_success [OF p2]) (use assms dir(3) in \<open>auto simp: failure_codes_def numbering_def passable_def\<close>)
  moreover have "wired p1 fds mapped = wired p fds mapped" by (simp add: wired_def dir(3))
  ultimately show ?thesis using exec_secure [OF p3] dir by (auto simp: sandboxed_def)
qed


subsection \<open>New descriptors\<close>

lemma new_fd_Some:
  assumes "new_fd os f p = Some (i, p')" "dom (descriptors p) \<subseteq> {0 ..< n}" "0 \<le> n"
  shows "0 \<le> i \<and> i \<le> n \<and> descriptors p i = None \<and> p' = p\<lparr>descriptors := (descriptors p)(i \<mapsto> f)\<rparr>"
proof -
  from assms(1) obtain k where k: "i = int k" "descriptors p i = None" "p' = p\<lparr>descriptors := (descriptors p)(i \<mapsto> f)\<rparr>"
    "\<forall>j<k. descriptors p (int j) \<noteq> None"
    by (auto simp: new_fd_def find_Some_iff split: option.splits)
  have "descriptors p (int (nat n)) = None" using assms(2,3) by auto
  with k(4) have "k \<le> nat n" using not_le by blast
  then have "i \<le> n" using k(1) assms(3) by linarith
  with k show ?thesis by simp
qed

lemma ipc_socketpair_Inr:
  assumes "ipc_socketpair os p = Inr (l, r, p')" "dom (descriptors p) \<subseteq> {0 ..< n}" "0 \<le> n"
  shows "0 \<le> l \<and> l \<le> n \<and> 0 \<le> r \<and> r \<le> n + 1 \<and> l \<noteq> r \<and> descriptors p l = None \<and> descriptors p r = None \<and>
     p' = p\<lparr>descriptors := (descriptors p)(l \<mapsto> Pair_left, r \<mapsto> Pair_right)\<rparr>"
proof -
  from assms(1) obtain p1 where p1: "new_fd os Pair_left p = Some (l, p1)" "new_fd os Pair_right p1 = Some (r, p')"
    by (auto simp: ipc_socketpair_def socketpair_def split: option.splits if_splits)
  note l = new_fd_Some [OF p1(1) assms(2,3)]
  then have "dom (descriptors p1) \<subseteq> {0 ..< n + 1}" using assms(2,3) by auto
  from new_fd_Some [OF p1(2) this] assms(3) l show ?thesis by (auto split: if_splits)
qed

lemma map_add_fresh: "s \<notin> dom M \<Longrightarrow> D(s \<mapsto> f) ++ M = (D ++ M)(s \<mapsto> f)"
  by (auto simp: map_add_def fun_eq_iff split: option.splits)

lemma listen_sockets_opened:
  assumes "open_listen_sockets os s addrs p = (AGENTD_STATUS_SUCCESS, p')" "dom (descriptors p) = {0 ..< s}" "0 \<le> s"
  shows "p' = p\<lparr>descriptors := descriptors p ++
     map_of (zip (map (\<lambda>k. s + int k) [0 ..< length addrs]) (map (\<lambda>a. Listening_socket (listen_addr a) (listen_port a)) addrs))\<rparr>"
  using assms
proof (induction addrs arbitrary: s p)
  case (Cons a addrs)
  from Cons.prems(1) obtain i p1 where i: "new_fd os Inet_socket p = Some (i, p1)"
    by (auto split: if_splits option.splits prod.splits)
  from new_fd_Some [OF i, of s] Cons.prems(2,3)
  have n: "0 \<le> i" "i \<le> s" "descriptors p i = None" "p1 = p\<lparr>descriptors := (descriptors p)(i \<mapsto> Inet_socket)\<rparr>" by auto
  have "i \<notin> {0 ..< s}" unfolding Cons.prems(2) [symmetric] by (simp add: domIff n(3))
  then have "i = s" using n(1,2) by simp
  with n(4) have p1: "i = s" "p1 = p\<lparr>descriptors := (descriptors p)(s \<mapsto> Inet_socket)\<rparr>" by simp_all
  define p2 where "p2 = p\<lparr>descriptors := (descriptors p)(s \<mapsto> Listening_socket (listen_addr a) (listen_port a))\<rparr>"
  have r: "open_listen_sockets os (s + 1) addrs p2 = (AGENTD_STATUS_SUCCESS, p')"
    using Cons.prems(1) i p1 by (auto simp: p2_def Let_def split: if_splits)
  have "dom (descriptors p2) = {0 ..< s + 1}" using Cons.prems(2,3) by (auto simp: p2_def)
  from Cons.IH [OF r this] Cons.prems(3)
  have "p' = p2\<lparr>descriptors := descriptors p2 ++
     map_of (zip (map (\<lambda>k. s + 1 + int k) [0 ..< length addrs]) (map (\<lambda>a. Listening_socket (listen_addr a) (listen_port a)) addrs))\<rparr>"
    by simp
  moreover have "map (\<lambda>k. s + int k) [0 ..< length (a # addrs)] = s # map (\<lambda>k. s + 1 + int k) [0 ..< length addrs]"
    by (simp add: map_upt_Suc add.assoc del: upt_Suc)
  moreover have "D(s \<mapsto> f) ++ map_of (zip (map (\<lambda>k. s + 1 + int k) [0 ..< length addrs]) fs) =
      (D ++ map_of (zip (map (\<lambda>k. s + 1 + int k) [0 ..< length addrs]) fs))(s \<mapsto> f)" for D f and fs :: "open_file list"
    by (rule map_add_fresh) (auto simp: dom_map_of_conv_image_fst dest!: set_zip_leftD)
  ultimately show ?case by (simp add: p2_def del: upt_Suc fun_upd_apply)
qed simp


subsection \<open>The processes of the daemon\<close>

text \<open>
  The programs that run as children of process \<open>p\<close>: the private command, the user and group it is meant
  to have, and the files it is meant to have at which descriptors.
\<close>

inductive child_program ::
  "os_env \<Rightarrow> bootstrap_config \<Rightarrow> agent_config \<Rightarrow> process \<Rightarrow> string \<Rightarrow> bytes \<Rightarrow> bytes \<Rightarrow> (int \<times> open_file) list \<Rightarrow>
   bytes \<times> bytes list \<times> process \<Rightarrow> bool" for os bconf conf p where
  data_program:
    "dataservice_proc os bconf conf logsock pid True p = Executed path args p' \<Longrightarrow>
     descriptors p logsock = Some log \<Longrightarrow> conf_usergroup conf = Usergroup user grp \<Longrightarrow>
     child_program os bconf conf p ''dataservice'' user grp
       [(AGENTD_FD_DATASERVICE_SOCK, Pair_right), (AGENTD_FD_DATASERVICE_LOG, log)] (path, args, p')"
| auth_program:
    "auth_service_proc os bconf conf logsock pid True p = Executed path args p' \<Longrightarrow>
     descriptors p logsock = Some log \<Longrightarrow> conf_usergroup conf = Usergroup user grp \<Longrightarrow>
     child_program os bconf conf p ''authservice'' user grp
       [(AGENTD_FD_AUTHSERVICE_SOCK, Pair_right), (AGENTD_FD_AUTHSERVICE_LOG, log)] (path, args, p')"
| random_program:
    "randomservice_proc os bconf conf logsock protosock pid True p = Executed path args p' \<Longrightarrow>
     descriptors p logsock = Some log \<Longrightarrow> conf_usergroup conf = Usergroup user grp \<Longrightarrow>
     child_program os bconf conf p ''random'' user grp
       [(AGENTD_FD_RANDOM_SERVICE_RANDOM_DEVICE, Opened_file (cstr ''/dev/urandom'')),
        (AGENTD_FD_RANDOM_SERVICE_PROTOCOL_SERVICE, Pair_right), (AGENTD_FD_RANDOM_SERVICE_LOG_SOCKET, log)] (path, args, p')"
| canonization_program:
    "start_canonization_proc os bconf conf logsock datasock randomsock controlsock notifysock pid True p = Executed path args p' \<Longrightarrow>
     distinct [logsock, datasock, randomsock, controlsock, notifysock] \<Longrightarrow>
     map (descriptors p) [logsock, datasock, randomsock, controlsock, notifysock] = map Some [log, data, random, control, notify] \<Longrightarrow>
     conf_usergroup conf = Usergroup user grp \<Longrightarrow>
     child_program os bconf conf p ''canonization_service'' user grp
       [(AGENTD_FD_CANONIZATION_SVC_LOG, log), (AGENTD_FD_CANONIZATION_SVC_DATA, data), (AGENTD_FD_CANONIZATION_SVC_RANDOM, random),
        (AGENTD_FD_CANONIZATION_SVC_CONTROL, control), (AGENTD_FD_CANONIZATION_SVC_NOTIFICATION, notify)] (path, args, p')"
| attestation_program:
    "start_attestationservice_proc os bconf conf logsock datasock controlsock pid True p = Executed path args p' \<Longrightarrow>
     distinct [logsock, datasock, controlsock] \<Longrightarrow>
     map (descriptors p) [logsock, datasock, controlsock] = map Some [log, data, control] \<Longrightarrow>
     conf_usergroup conf = Usergroup user grp \<Longrightarrow>
     child_program os bconf conf p ''attestation_service'' user grp
       [(AGENTD_FD_ATTESTATION_SVC_LOG, log), (AGENTD_FD_ATTESTATION_SVC_DATA, data), (AGENTD_FD_ATTESTATION_SVC_CONTROL, control)]
       (path, args, p')"
| notification_program:
    "notificationservice_proc os bconf conf logsock consensussock protocolsock pid True p = Executed path args p' \<Longrightarrow>
     distinct [logsock, consensussock, protocolsock] \<Longrightarrow>
     map (descriptors p) [logsock, consensussock, protocolsock] = map Some [log, consensus, protocol] \<Longrightarrow>
     conf_usergroup conf = Usergroup user grp \<Longrightarrow>
     child_program os bconf conf p ''notification_service'' user grp
       [(AGENTD_FD_NOTIFICATION_SVC_LOG, log), (AGENTD_FD_NOTIFICATION_SVC_CLIENT1, consensus), (AGENTD_FD_NOTIFICATION_SVC_CLIENT2, protocol)]
       (path, args, p')"
| protocol_program:
    "protocolservice_proc os bconf conf randomsock logsock acceptsock controlsock datasock notifysock pid True p = Executed path args p' \<Longrightarrow>
     distinct [randomsock, logsock, acceptsock, controlsock, datasock, notifysock] \<Longrightarrow>
     map (descriptors p) [randomsock, logsock, acceptsock, controlsock, datasock, notifysock] =
       map Some [random, log, accept, control, data, notify] \<Longrightarrow>
     conf_usergroup conf = Usergroup user grp \<Longrightarrow>
     child_program os bconf conf p ''protocol_service'' user grp
       [(AGENTD_FD_UNAUTHORIZED_PROTOSVC_RANDOM, random), (AGENTD_FD_UNAUTHORIZED_PROTOSVC_ACCEPT, accept),
        (AGENTD_FD_UNAUTHORIZED_PROTOSVC_CONTROL, control), (AGENTD_FD_UNAUTHORIZED_PROTOSVC_LOG, log),
        (AGENTD_FD_UNAUTHORIZED_PROTOSVC_DATA, data), (AGENTD_FD_UNAUTHORIZED_PROTOSVC_NOTIFY, notify)] (path, args, p')"
| listen_program:
    "listenservice_proc os bconf conf acceptsock logsock pid True p = Executed path args p' \<Longrightarrow>
     acceptsock \<noteq> logsock \<Longrightarrow> descriptors p acceptsock = Some accept \<Longrightarrow> descriptors p logsock = Some log \<Longrightarrow>
     conf_usergroup conf = Usergroup user grp \<Longrightarrow>
     child_program os bconf conf p ''listenservice'' user grp
       ([(AGENTD_FD_LISTENSERVICE_LOG, log), (AGENTD_FD_LISTENSERVICE_ACCEPT, accept)] @
        zip (map (\<lambda>k. AGENTD_FD_LISTENSERVICE_SOCK_START + int k) [0 ..< length (conf_listen conf)])
          (map (\<lambda>a. Listening_socket (listen_addr a) (listen_port a)) (conf_listen conf))) (path, args, p')"
| config_program:
    "config_read_proc os envs alloc stream exit_status bconf c p = Executed path args p' \<Longrightarrow>
     grp = (if os_group os (cstr ''nogroup'') = None then cstr ''nobody'' else cstr ''nogroup'') \<Longrightarrow>
     file = (case config_file bconf of None \<Rightarrow> cstr ''/etc/agentd.conf'' | Some f \<Rightarrow> f) \<Longrightarrow>
     child_program os bconf conf p ''readconfig'' (cstr ''nobody'') grp
       [(AGENTD_FD_CONFIG_IN, Opened_file file), (AGENTD_FD_CONFIG_OUT, Pair_right)] (path, args, p')"

lemma numberings:
  "numbering [0, 1] 1" "numbering [0, 1, 2] 2" "numbering [0, 1, 2, 3, 4] 4" "numbering [3, 0, 4, 1, 2, 5] 5"
  by (auto simp: numbering_def)

lemma service_codes_fail:
  "failure_codes dataservice_codes" "failure_codes authservice_codes" "failure_codes randomservice_codes"
  "failure_codes canonizationservice_codes" "failure_codes attestationservice_codes" "failure_codes notificationservice_codes"
  "failure_codes protocolservice_codes" "failure_codes listenservice_codes" "failure_codes config_codes"
  by (simp_all add: failure_codes_def dataservice_codes_def authservice_codes_def randomservice_codes_def canonizationservice_codes_def
    attestationservice_codes_def notificationservice_codes_def protocolservice_codes_def listenservice_codes_def config_codes_def)

text \<open>The sandbox of a child is judged against its parent, whose ids and directories it has before.\<close>

lemma sandboxed_parent:
  assumes "sandboxed os bconf q command user grp files x" "q = p\<lparr>descriptors := D\<rparr>"
  shows "sandboxed os bconf p command user grp files x"
  using assms by (auto simp: sandboxed_def)

lemma plain_sandboxed:
  assumes "service_child os codes bconf conf (cstr command) True fds mapped last_fd p = Executed path args p'"
    "failure_codes codes" "numbering mapped last_fd" "length fds = length mapped" "effective_uid p = 0"
    "conf_usergroup conf = Usergroup user grp" "distinct fds" "map (descriptors p) fds = map Some files" "dom (descriptors p) \<subseteq> {0 ..< 256}"
  shows "sandboxed os bconf p command user grp (zip mapped files) (path, args, p')"
proof -
  have "\<forall>d\<in>set fds. d \<in> dom (descriptors p)"
  proof
    fix d assume "d \<in> set fds"
    then have "descriptors p d \<in> set (map Some files)" by (auto simp flip: assms(8))
    then show "d \<in> dom (descriptors p)" by auto
  qed
  then have "passable p fds" using assms(7,9) by (fastforce simp: passable_def)
  from service_child_sandboxed [OF assms(1-4) this assms(5,6)]
  have "sandboxed os bconf p command user grp (wired p fds mapped) (path, args, p')" .
  moreover have "map (\<lambda>d. the (descriptors p d)) fds = files"
    using arg_cong [OF assms(8), of "map the"] by (simp add: comp_def)
  ultimately show ?thesis by (simp add: wired_def)
qed


text \<open>The children of a process that has made a socket pair for them.\<close>

lemma pair_sandboxed:
  assumes "ipc_socketpair os p = Inr (l, r, q)" "dom (descriptors p) \<subseteq> {0 ..< 256}" "descriptors p logsock = Some log"
    and "service_child os codes bconf conf (cstr command) True [r, logsock] [0, 1] 1 (close_fd l q) = Executed path args p'"
    "failure_codes codes" "effective_uid p = 0" "conf_usergroup conf = Usergroup user grp"
  shows "sandboxed os bconf p command user grp [(0, Pair_right), (1, log)] (path, args, p')"
proof -
  from ipc_socketpair_Inr [OF assms(1,2)]
  have q: "q = p\<lparr>descriptors := (descriptors p)(l \<mapsto> Pair_left, r \<mapsto> Pair_right)\<rparr>" "l \<noteq> r" "0 \<le> r" "r \<le> 257" "0 \<le> l" "l \<le> 256"
    "descriptors p l = None" "descriptors p r = None" by auto
  have "logsock < 256" "logsock \<noteq> r" "logsock \<noteq> l" using assms(2,3) q by auto
  moreover have "dom (descriptors q) \<subseteq> {0 ..< FD_SETSIZE}" using assms(2) q by fastforce
  ultimately have pa: "passable (close_fd l q) [r, logsock]" using q by (auto simp: passable_def)
  have "sandboxed os bconf (close_fd l q) command user grp (wired (close_fd l q) [r, logsock] [0, 1]) (path, args, p')"
    by (rule service_child_sandboxed [OF assms(4,5) numberings(1) _ pa _ assms(7)]) (simp_all add: q assms(6))
  moreover have "wired (close_fd l q) [r, logsock] [0, 1] = [(0, Pair_right), (1, log)]"
    using q \<open>logsock \<noteq> r\<close> \<open>logsock \<noteq> l\<close> assms(3) by (simp add: wired_def)
  ultimately show ?thesis by (auto intro: sandboxed_parent simp: q close_fd_def)
qed

lemma random_sandboxed:
  assumes "randomservice_proc os bconf conf logsock protosock pid True p = Executed path args p'" "dom (descriptors p) \<subseteq> {0 ..< 256}"
    "descriptors p logsock = Some log" "conf_usergroup conf = Usergroup user grp"
  shows "sandboxed os bconf p ''random'' user grp [(0, Opened_file (cstr ''/dev/urandom'')), (1, Pair_right), (2, log)] (path, args, p')"
proof -
  from assms(1) obtain l r q d q2 where s: "ipc_socketpair os p = Inr (l, r, q)" and d: "open_read os (cstr ''/dev/urandom'') q = Some (d, q2)"
    and e: "service_child os randomservice_codes bconf conf (cstr ''random'') True [d, r, logsock] [0, 1, 2] 2 q2 = Executed path args p'"
    and u: "effective_uid p = 0"
    by (auto simp: randomservice_proc_def Let_def split: sum.splits if_splits option.splits outcome.splits)
  from ipc_socketpair_Inr [OF s assms(2)]
  have q: "q = p\<lparr>descriptors := (descriptors p)(l \<mapsto> Pair_left, r \<mapsto> Pair_right)\<rparr>" "l \<noteq> r" "0 \<le> r" "r \<le> 257" "0 \<le> l" "l \<le> 256"
    "descriptors p l = None" "descriptors p r = None" by auto
  have "dom (descriptors q) \<subseteq> {0 ..< 258}" using assms(2) q by fastforce
  with d new_fd_Some [of os "Opened_file (cstr ''/dev/urandom'')" q d q2 258]
  have q2: "q2 = q\<lparr>descriptors := (descriptors q)(d \<mapsto> Opened_file (cstr ''/dev/urandom''))\<rparr>" "0 \<le> d" "d \<le> 258" "descriptors q d = None"
    by (auto simp: open_read_def split: if_splits)
  have n: "logsock < 256" "logsock \<noteq> r" "logsock \<noteq> l" "logsock \<noteq> d" "d \<noteq> r" using assms(2,3) q q2 by (auto split: if_splits)
  have "dom (descriptors q2) \<subseteq> {0 ..< FD_SETSIZE}" using \<open>dom (descriptors q) \<subseteq> {0 ..< 258}\<close> q2 by fastforce
  then have pa: "passable q2 [d, r, logsock]" using n q q2 by (auto simp: passable_def)
  have "sandboxed os bconf q2 ''random'' user grp (wired q2 [d, r, logsock] [0, 1, 2]) (path, args, p')"
    by (rule service_child_sandboxed [OF e service_codes_fail(3) numberings(2) _ pa _ assms(4)]) (simp_all add: q q2 u)
  moreover have "wired q2 [d, r, logsock] [0, 1, 2] = [(0, Opened_file (cstr ''/dev/urandom'')), (1, Pair_right), (2, log)]"
    using q q2 n assms(3) by (simp add: wired_def)
  ultimately show ?thesis by (auto intro: sandboxed_parent simp: q q2)
qed


lemma listen_sandboxed:
  assumes "listenservice_proc os bconf conf acceptsock logsock pid True p = Executed path args p'" "dom (descriptors p) \<subseteq> {0 ..< 256}"
    "acceptsock \<noteq> logsock" "descriptors p acceptsock = Some accept" "descriptors p logsock = Some log" "conf_usergroup conf = Usergroup user grp"
  shows "sandboxed os bconf p ''listenservice'' user grp ([(0, log), (1, accept)] @
     zip (map (\<lambda>k. 2 + int k) [0 ..< length (conf_listen conf)])
       (map (\<lambda>a. Listening_socket (listen_addr a) (listen_port a)) (conf_listen conf))) (path, args, p')"
proof -
  let ?Z = "zip (map (\<lambda>k. 2 + int k) [0 ..< length (conf_listen conf)])
       (map (\<lambda>a. Listening_socket (listen_addr a) (listen_port a)) (conf_listen conf))"
  from assms(1,6) obtain fds p1 p2 p3 where u: "effective_uid p = 0"
    and p1: "pass_descriptors os listenservice_codes [logsock, acceptsock] [0, 1] 1 p = (AGENTD_STATUS_SUCCESS, fds, p1)"
    and p2: "open_listen_sockets os 2 (conf_listen conf) p1 = (AGENTD_STATUS_SUCCESS, p2)"
    and p3: "become_user os listenservice_codes bconf (privsep_lookup_usergroup os user grp) p2 = (AGENTD_STATUS_SUCCESS, p3)"
    and e: "exec_service os listenservice_codes bconf (cstr ''listenservice'') True p3 = Executed path args p'"
    by (auto simp: listenservice_proc_def listenservice_child_def listenservice_proc_open_listen_sockets_def restrict_child_def Let_def
      split: if_splits prod.splits outcome.splits)
  have l: "logsock < 500" "acceptsock < 500" using assms(2,4,5) by fastforce+
  have "p1 = p\<lparr>descriptors := map_of (wired p [logsock, acceptsock] [0, 1])\<rparr>"
    by (rule pass_descriptors_success [OF p1]) (use assms(2,3) l service_codes_fail(8) in \<open>auto simp: failure_codes_def\<close>)
  then have w: "p1 = p\<lparr>descriptors := map_of [(0, log), (1, accept)]\<rparr>" by (simp add: wired_def assms(4,5))
  have "p2 = p1\<lparr>descriptors := descriptors p1 ++ map_of ?Z\<rparr>" by (rule listen_sockets_opened [OF p2]) (auto simp: w split: if_splits)
  moreover have "map_of [(0, log), (1, accept)] ++ map_of ?Z = map_of ([(0, log), (1, accept)] @ ?Z)"
  proof -
    have "dom (map_of ?Z) \<inter> dom (map_of [(0, log), (1, accept)]) = {}"
      by (auto simp: dom_map_of_conv_image_fst dest!: set_zip_leftD split: if_splits)
    from map_add_comm [OF this] show ?thesis by (simp only: map_of_append)
  qed
  ultimately have p2': "p2 = p\<lparr>descriptors := map_of ([(0, log), (1, accept)] @ ?Z)\<rparr>" by (simp add: w)
  obtain dir where "prefix_dir bconf = Some dir" "jailed os user grp dir p2 p3" "descriptors p3 = descriptors p2"
    using become_user_success [OF p3] service_codes_fail(8) u by (auto simp: failure_codes_def p2')
  then show ?thesis using exec_secure [OF e] by (simp add: sandboxed_def p2')
qed

lemma lookup_nobody_group:
  "lookup_nobody os = privsep_lookup_usergroup os (cstr ''nobody'')
     (if os_passwd os (cstr ''nobody'') \<noteq> None \<and> os_group os (cstr ''nogroup'') = None then cstr ''nobody'' else cstr ''nogroup'')"
  by (auto simp: lookup_nobody_def privsep_lookup_usergroup_def split: option.splits)

lemma config_sandboxed:
  assumes "config_read_proc os envs alloc stream exit_status bconf c p = Executed path args p'" "dom (descriptors p) \<subseteq> {0 ..< 256}"
    "grp = (if os_group os (cstr ''nogroup'') = None then cstr ''nobody'' else cstr ''nogroup'')"
    "file = (case config_file bconf of None \<Rightarrow> cstr ''/etc/agentd.conf'' | Some f \<Rightarrow> f)"
  shows "sandboxed os bconf p ''readconfig'' (cstr ''nobody'') grp [(0, Opened_file file), (1, Pair_right)] (path, args, p')"
proof -
  from assms(1) obtain l r q where u: "effective_uid p = 0" and s: "ipc_socketpair os p = Inr (l, r, q)"
    and c: "config_child os bconf r (close_fd l q) = Executed path args p'"
    by (auto simp: config_read_proc_def split: if_splits sum.splits outcome.splits option.splits)
  from c assms(4) obtain p1 d p2 fds p3 where
    p1: "become_user os config_codes bconf (lookup_nobody os) (close_fd l q) = (AGENTD_STATUS_SUCCESS, p1)"
    and p2: "open_read os file p1 = Some (d, p2)"
    and p3: "pass_descriptors os config_codes [d, r] [0, 1] 1 p2 = (AGENTD_STATUS_SUCCESS, fds, p3)"
    and e: "exec_service os config_codes bconf (cstr ''readconfig'') True p3 = Executed path args p'"
    by (auto simp: config_child_def Let_def split: if_splits prod.splits outcome.splits option.splits)
  from ipc_socketpair_Inr [OF s assms(2)]
  have q: "q = p\<lparr>descriptors := (descriptors p)(l \<mapsto> Pair_left, r \<mapsto> Pair_right)\<rparr>" "l \<noteq> r" "0 \<le> r" "r \<le> 257" "0 \<le> l" "l \<le> 256" by auto
  let ?g = "if os_passwd os (cstr ''nobody'') \<noteq> None \<and> os_group os (cstr ''nogroup'') = None then cstr ''nobody'' else cstr ''nogroup''"
  obtain dir where dir: "prefix_dir bconf = Some dir" "jailed os (cstr ''nobody'') ?g dir (close_fd l q) p1"
    "descriptors p1 = descriptors (close_fd l q)"
    using become_user_success [OF p1 [unfolded lookup_nobody_group]] service_codes_fail(9) u q by (auto simp: failure_codes_def)
  have "?g = grp" using dir(2) assms(3) by (auto simp: jailed_def)
  have dom: "dom (descriptors p1) \<subseteq> {0 ..< 258}" using assms(2) q dir(3) by fastforce
  with p2 new_fd_Some [of os "Opened_file file" p1 d p2 258]
  have p2': "p2 = p1\<lparr>descriptors := (descriptors p1)(d \<mapsto> Opened_file file)\<rparr>" "0 \<le> d" "d \<le> 258" "descriptors p1 d = None"
    by (auto simp: open_read_def split: if_splits)
  have r: "descriptors p1 r = Some Pair_right" "d \<noteq> r" using q dir(3) p2'(4) by auto
  have "dom (descriptors p2) \<subseteq> {0 ..< FD_SETSIZE}" using dom p2' by fastforce
  then have "p3 = p2\<lparr>descriptors := map_of (wired p2 [d, r] [0, 1])\<rparr>"
    using p2' q r service_codes_fail(9) by (intro pass_descriptors_success [OF p3]) (auto simp: failure_codes_def)
  then have "p3 = p1\<lparr>descriptors := map_of [(0, Opened_file file), (1, Pair_right)]\<rparr>" using r by (simp add: wired_def p2')
  moreover have "jailed os (cstr ''nobody'') grp dir p p1"
    using dir(2) \<open>?g = grp\<close> by (simp add: q close_fd_def)
  ultimately show ?thesis using exec_secure [OF e] dir(1) by (simp add: sandboxed_def)
qed

text \<open>What the children do when the function that starts them ends in another program.\<close>

lemma paired_children:
  "dataservice_proc os bconf conf logsock pid True p = Executed path args p' \<Longrightarrow>
     \<exists>l r q. ipc_socketpair os p = Inr (l, r, q) \<and> effective_uid p = 0 \<and>
       service_child os dataservice_codes bconf conf (cstr ''dataservice'') True [r, logsock] [0, 1] 1 (close_fd l q) = Executed path args p'"
  "auth_service_proc os bconf conf logsock pid True p = Executed path args p' \<Longrightarrow>
     \<exists>l r q. ipc_socketpair os p = Inr (l, r, q) \<and> effective_uid p = 0 \<and>
       service_child os authservice_codes bconf conf (cstr ''authservice'') True [r, logsock] [0, 1] 1 (close_fd l q) = Executed path args p'"
  by (auto simp: dataservice_proc_def auth_service_proc_def Let_def split: sum.splits if_splits outcome.splits)

lemma canonization_child:
  "start_canonization_proc os bconf conf logsock datasock randomsock controlsock notifysock pid True p = Executed path args p' \<Longrightarrow>
     service_child os canonizationservice_codes bconf conf (cstr ''canonization_service'') True
       [logsock, datasock, randomsock, controlsock, notifysock] [0, 1, 2, 3, 4] 4 p = Executed path args p' \<and> effective_uid p = 0"
  by (auto simp: start_canonization_proc_def Let_def split: if_splits outcome.splits)

lemma attestation_child:
  "start_attestationservice_proc os bconf conf logsock datasock controlsock pid True p = Executed path args p' \<Longrightarrow>
     service_child os attestationservice_codes bconf conf (cstr ''attestation_service'') True
       [logsock, datasock, controlsock] [0, 1, 2] 2 p = Executed path args p' \<and> effective_uid p = 0"
  by (auto simp: start_attestationservice_proc_def Let_def split: if_splits outcome.splits)

lemma notification_child:
  "notificationservice_proc os bconf conf logsock consensussock protocolsock pid True p = Executed path args p' \<Longrightarrow>
     service_child os notificationservice_codes bconf conf (cstr ''notification_service'') True
       [logsock, consensussock, protocolsock] [0, 1, 2] 2 p = Executed path args p' \<and> effective_uid p = 0"
  by (auto simp: notificationservice_proc_def Let_def split: if_splits outcome.splits)

lemma protocol_child:
  "protocolservice_proc os bconf conf randomsock logsock acceptsock controlsock datasock notifysock pid True p = Executed path args p' \<Longrightarrow>
     service_child os protocolservice_codes bconf conf (cstr ''protocol_service'') True
       [randomsock, acceptsock, controlsock, logsock, datasock, notifysock] [3, 0, 4, 1, 2, 5] 5 p = Executed path args p' \<and>
     effective_uid p = 0"
  by (auto simp: protocolservice_proc_def Let_def split: if_splits outcome.splits)

text \<open>The loop that closes the other descriptors ends at \<^verbatim>\<open>FD_SETSIZE\<close>.\<close>

lemma high_descriptors_leak:
  "FD_SETSIZE \<le> d \<Longrightarrow> descriptors (snd (privsep_close_other_fds fd p)) d = descriptors p d"
proof -
  have "d \<notin> set fds \<Longrightarrow> descriptors (fold close_fd fds p) d = descriptors p d" for fds
    by (induction fds arbitrary: p) (simp_all add: close_fd_def)
  then show "FD_SETSIZE \<le> d \<Longrightarrow> ?thesis" by (simp add: privsep_close_other_fds_def)
qed

text \<open>
  C13. When all descriptors of the supervisor are below 256, then whatever the operating
  system (OpenBSD or another) answers, a process of the daemon that executes a
  service in secure mode, with open and distinct sockets, executes \<^verbatim>\<open>/bin/agentd\<close> with the private command of the service and, before
  that, has taken the user and group configured (those of nobody for the reader of the
  configuration) as its real, effective and saved ids, has made the prefix
  directory its root and working directory, and has exactly the descriptors meant for the
  service, at the numbers of \<^verbatim>\<open>fds.h\<close>: no other descriptor of the supervisor reaches it.
  The bound on the descriptors is needed: one at or above \<^verbatim>\<open>FD_SETSIZE\<close> would be left open
  (high_descriptors_leak).
\<close>

theorem children_sandboxed:
  assumes "child_program os bconf conf p command user grp files x" "dom (descriptors p) \<subseteq> {0 ..< 256}"
  shows "sandboxed os bconf p command user grp files x"
  using assms
proof (induction rule: child_program.induct)
  case (data_program logsock pid path args p')
  then show ?case using pair_sandboxed paired_children(1) [OF data_program.hyps(1)] service_codes_fail(1) by blast
next
  case (auth_program logsock pid path args p')
  then show ?case using pair_sandboxed paired_children(2) [OF auth_program.hyps(1)] service_codes_fail(2) by blast
next
  case random_program
  then show ?case by (intro random_sandboxed)
next
  case canonization_program
  note c = canonization_child [OF canonization_program.hyps(1)]
  from plain_sandboxed [OF conjunct1 [OF c] service_codes_fail(4) numberings(3) _ conjunct2 [OF c] canonization_program.hyps(4,2,3)
      canonization_program.prems] show ?case by simp
next
  case attestation_program
  note c = attestation_child [OF attestation_program.hyps(1)]
  from plain_sandboxed [OF conjunct1 [OF c] service_codes_fail(5) numberings(2) _ conjunct2 [OF c] attestation_program.hyps(4,2,3)
      attestation_program.prems] show ?case by simp
next
  case notification_program
  note c = notification_child [OF notification_program.hyps(1)]
  from plain_sandboxed [OF conjunct1 [OF c] service_codes_fail(6) numberings(2) _ conjunct2 [OF c] notification_program.hyps(4,2,3)
      notification_program.prems] show ?case by simp
next
  case (protocol_program randomsock logsock acceptsock controlsock datasock notifysock pid path args p' random log accept control data notify)
  note c = protocol_child [OF protocol_program.hyps(1)]
  from plain_sandboxed [OF conjunct1 [OF c] service_codes_fail(7) numberings(4) _ conjunct2 [OF c] protocol_program.hyps(4) _ _
      protocol_program.prems, of "[random, accept, control, log, data, notify]"] protocol_program.hyps(2,3) show ?case by auto
next
  case listen_program
  then show ?case by (intro listen_sandboxed)
next
  case config_program
  then show ?case by (intro config_sandboxed)
qed


subsection \<open>The services start\<close>

text \<open>An operating system that grants every call and is in the child.\<close>

definition grants :: "os_env \<Rightarrow> bytes \<Rightarrow> bytes \<Rightarrow> bytes \<Rightarrow> bool" where
  "grants os user grp dir \<longleftrightarrow>
     FD_SETSIZE \<le> int (os_nofile os) \<and> os_passwd os user \<noteq> None \<and> os_group os grp \<noteq> None \<and> os_chdir os dir \<and> os_chroot os dir \<and>
     os_setegid os \<and> os_seteuid os \<and> os_setgid os \<and> os_setuid os \<and> os_setenv os = (\<lambda>_. True) \<and> os_dup2 os = (\<lambda>_ _. True) \<and> os_socketpair os \<and> os_fork os = 0 \<and>
     os_open os = (\<lambda>_. True) \<and> os_socket os = (\<lambda>_. True) \<and> os_bind os = (\<lambda>_. True) \<and> os_listen os = (\<lambda>_. True) \<and>
     os_exec os (cstr ''/bin/agentd'')"

lemma protect_from_granted:
  assumes "os_dup2 os = (\<lambda>_ _. True)" "0 \<le> high" "high + int (length fds) \<le> int (os_nofile os)" "distinct fds"
    "\<forall>d\<in>set fds. d < high \<and> descriptors p d \<noteq> None"
  shows "fst (protect_from os high fds p) = AGENTD_STATUS_SUCCESS"
  using assms(2-)
proof (induction fds arbitrary: high p)
  case (Cons fd fds)
  define p1 where "p1 = close_fd fd (p\<lparr>descriptors := (descriptors p)(high := descriptors p fd)\<rparr>)"
  have "\<forall>d\<in>set fds. d < high + 1 \<and> descriptors p1 d \<noteq> None" using Cons.prems(3,4) by (fastforce simp: p1_def)
  then have "fst (protect_from os (high + 1) fds p1) = AGENTD_STATUS_SUCCESS" using Cons.prems by (intro Cons.IH) auto
  moreover have "dup2 os fd high p = Some (p\<lparr>descriptors := (descriptors p)(high := descriptors p fd)\<rparr>)"
    using Cons.prems assms(1) by (auto simp: dup2_Some)
  ultimately show ?case by (simp add: p1_def case_prod_beta)
qed simp

lemma setfds_granted:
  assumes "os_dup2 os = (\<lambda>_ _. True)" "distinct (map fst ((cur, m0) # ps))"
    "\<forall>(c, m)\<in>set ((cur, m0) # ps). 0 \<le> m \<and> m < 500 \<and> m < int (os_nofile os) \<and> 500 \<le> c \<and> descriptors p c \<noteq> None"
  shows "fst (setfds_pair os cur m0 ps p) = AGENTD_STATUS_SUCCESS"
  using assms(2-)
proof (induction ps arbitrary: cur m0 p)
  case Nil
  then show ?case using assms(1) by (auto simp: dup2_def)
next
  case (Cons q ps)
  obtain c m where q: "q = (c, m)" by fastforce
  define p1 where "p1 = close_fd cur (p\<lparr>descriptors := (descriptors p)(m0 := descriptors p cur)\<rparr>)"
  have "c \<noteq> cur \<and> c \<noteq> m0" if "(c, m) \<in> set (q # ps)" for c m using that Cons.prems by force
  then have "\<forall>(c, m)\<in>set (q # ps). 0 \<le> m \<and> m < 500 \<and> m < int (os_nofile os) \<and> 500 \<le> c \<and> descriptors p1 c \<noteq> None"
    using Cons.prems(2) by (fastforce simp: p1_def)
  then have "fst (setfds_pair os c m ps p1) = AGENTD_STATUS_SUCCESS"
    using Cons.prems(1) by (intro Cons.IH) (auto simp: q)
  moreover have "dup2 os cur m0 p = Some (p\<lparr>descriptors := (descriptors p)(m0 := descriptors p cur)\<rparr>)"
    using Cons.prems assms(1) by (auto simp: dup2_Some)
  ultimately show ?case using Cons.prems(2) by (auto simp: q p1_def Let_def)
qed

lemma pass_descriptors_granted:
  assumes "os_dup2 os = (\<lambda>_ _. True)" "FD_SETSIZE \<le> int (os_nofile os)" "numbering mapped last_fd" "length fds = length mapped"
    "passable p fds" "\<forall>d\<in>set fds. descriptors p d \<noteq> None"
  shows "fst (pass_descriptors os codes fds mapped last_fd p) = AGENTD_STATUS_SUCCESS"
proof -
  have d: "distinct fds" "\<forall>d\<in>set fds. d < 500" using assms(5) by (auto simp: passable_def)
  have "fst (protect_from os 500 fds p) = AGENTD_STATUS_SUCCESS"
    using assms d by (intro protect_from_granted) (auto simp: numbering_def)
  then obtain fds1 p1 where p1: "protect_from os 500 fds p = (AGENTD_STATUS_SUCCESS, fds1, p1)" by (metis prod.collapse)
  from protect_from_success [OF p1 d]
  have f1: "fds1 = map (\<lambda>k. 500 + int k) [0 ..< length fds]" "p1 = p\<lparr>descriptors := protected_at 500 fds (descriptors p)\<rparr>" by auto
  define p2 where "p2 = close_fd 2 (close_fd 1 (close_fd 0 p1))"
  obtain c m0 ps where ps: "zip fds1 mapped = (c, m0) # ps"
    using assms(3,4) f1(1) by (cases "zip fds1 mapped") (auto simp: numbering_def zip_eq_Nil_iff)
  have "fst (setfds_pair os c m0 ps p2) = AGENTD_STATUS_SUCCESS"
  proof (rule setfds_granted [OF assms(1)])
    show "distinct (map fst ((c, m0) # ps))" using assms(4) f1(1) by (simp flip: ps add: distinct_map inj_on_def)
    show "\<forall>(c, m)\<in>set ((c, m0) # ps). 0 \<le> m \<and> m < 500 \<and> m < int (os_nofile os) \<and> 500 \<le> c \<and> descriptors p2 c \<noteq> None"
    proof (clarify)
      fix c' m assume "(c', m) \<in> set ((c, m0) # ps)"
      then have "c' \<in> set fds1" "m \<in> set mapped" by (auto simp flip: ps dest: set_zip_leftD set_zip_rightD)
      moreover from this obtain j where "j < length fds" "c' = 500 + int j" by (auto simp: f1(1))
      ultimately show "0 \<le> m \<and> m < 500 \<and> m < int (os_nofile os) \<and> 500 \<le> c' \<and> descriptors p2 c' \<noteq> None"
        using assms(2,3,6) by (auto simp: numbering_def p2_def f1(2) protected_at_def)
    qed
  qed
  then show ?thesis using p1
    by (simp add: pass_descriptors_def privsep_protect_descriptors_def privsep_close_standard_fds_def privsep_setfds_def
      privsep_close_other_fds_def ps case_prod_beta p2_def)
qed


lemma become_user_granted:
  assumes "grants os user grp dir" "prefix_dir bconf = Some dir"
  obtains p' where "become_user os codes bconf (privsep_lookup_usergroup os user grp) p = (AGENTD_STATUS_SUCCESS, p')"
    "descriptors p' = descriptors p"
proof -
  have "fst (become_user os codes bconf (privsep_lookup_usergroup os user grp) p) = AGENTD_STATUS_SUCCESS \<and>
      descriptors (snd (become_user os codes bconf (privsep_lookup_usergroup os user grp) p)) = descriptors p"
    using assms by (auto simp: grants_def become_user_def privsep_lookup_usergroup_def privsep_chroot_def privsep_drop_privileges_def
      chdir_def chroot_def setegid_def seteuid_def setgid_def setuid_def)
  then show thesis using that by (metis prod.collapse)
qed

lemma exec_granted:
  assumes "grants os user grp dir"
  obtains path args p' where "exec_service os codes bconf command True p = Executed path args p'"
  using assms by (auto simp: grants_def exec_service_def privsep_exec_private_def setenv_def Let_def)

lemma service_child_granted:
  assumes g: "grants os user grp dir" "prefix_dir bconf = Some dir" "conf_usergroup conf = Usergroup user grp"
    and "numbering mapped last_fd" "length fds = length mapped" "passable p fds" "\<forall>d\<in>set fds. descriptors p d \<noteq> None"
  shows "\<exists>path args p'. service_child os codes bconf conf command True fds mapped last_fd p = Executed path args p'"
proof -
  obtain p1 where p1: "become_user os codes bconf (privsep_lookup_usergroup os user grp) p = (AGENTD_STATUS_SUCCESS, p1)"
    "descriptors p1 = descriptors p" by (rule become_user_granted [OF g(1,2)])
  have "fst (pass_descriptors os codes fds mapped last_fd p1) = AGENTD_STATUS_SUCCESS"
    using assms p1(2) by (intro pass_descriptors_granted) (auto simp: grants_def passable_def)
  then obtain fds2 p2 where p2: "pass_descriptors os codes fds mapped last_fd p1 = (AGENTD_STATUS_SUCCESS, fds2, p2)" by (metis prod.collapse)
  obtain path args p3 where "exec_service os codes bconf command True p2 = Executed path args p3" by (rule exec_granted [OF g(1)])
  then have "service_child os codes bconf conf command True fds mapped last_fd p = Executed path args p3"
    by (simp add: service_child_def restrict_child_def g(3) p1 p2)
  then show ?thesis by blast
qed

lemma new_fd_granted:
  assumes "dom (descriptors p) \<subseteq> {0 ..< n}" "0 \<le> n" "n < int (os_nofile os)"
  obtains i where "new_fd os f p = Some (i, p\<lparr>descriptors := (descriptors p)(i \<mapsto> f)\<rparr>)" "0 \<le> i" "i \<le> n" "descriptors p i = None"
proof -
  have "descriptors p (int (nat n)) = None" using assms(1,2) by auto
  then have "find (\<lambda>i. descriptors p (int i) = None) [0 ..< os_nofile os] \<noteq> None"
    using assms(2,3) by (auto simp: find_None_iff Bex_def intro!: exI [of _ "nat n"])
  then obtain i where "new_fd os f p = Some (i, p\<lparr>descriptors := (descriptors p)(i \<mapsto> f)\<rparr>)" by (auto simp: new_fd_def)
  with new_fd_Some [OF this assms(1,2)] show thesis using that by blast
qed

lemma socketpair_granted:
  assumes "grants os user grp dir" "dom (descriptors p) \<subseteq> {0 ..< 256}"
  obtains l r where "ipc_socketpair os p = Inr (l, r, p\<lparr>descriptors := (descriptors p)(l \<mapsto> Pair_left, r \<mapsto> Pair_right)\<rparr>)"
    "0 \<le> l" "l \<le> 256" "0 \<le> r" "r \<le> 257" "l \<noteq> r" "descriptors p l = None" "descriptors p r = None"
proof -
  have n: "256 < int (os_nofile os)" "257 < int (os_nofile os)" using assms(1) by (auto simp: grants_def)
  obtain l where l: "new_fd os Pair_left p = Some (l, p\<lparr>descriptors := (descriptors p)(l \<mapsto> Pair_left)\<rparr>)" "0 \<le> l" "l \<le> 256"
    by (rule new_fd_granted [OF assms(2) _ n(1)]) auto
  have "dom (descriptors (p\<lparr>descriptors := (descriptors p)(l \<mapsto> Pair_left)\<rparr>)) \<subseteq> {0 ..< 257}" using assms(2) l by fastforce
  then obtain r q where "new_fd os Pair_right (p\<lparr>descriptors := (descriptors p)(l \<mapsto> Pair_left)\<rparr>) = Some (r, q)"
    by (rule new_fd_granted [OF _ _ n(2)]) auto
  with l assms(1) have s: "ipc_socketpair os p = Inr (l, r, q)" by (simp add: ipc_socketpair_def socketpair_def grants_def)
  from ipc_socketpair_Inr [OF this assms(2)] s show thesis using that by auto
qed

lemma listen_sockets_granted:
  assumes "grants os user grp dir" "dom (descriptors p) = {0 ..< s}" "0 \<le> s" "s + int (length addrs) \<le> int (os_nofile os)"
  shows "fst (open_listen_sockets os s addrs p) = AGENTD_STATUS_SUCCESS"
  using assms(2-)
proof (induction addrs arbitrary: s p)
  case (Cons a addrs)
  obtain i where i: "new_fd os Inet_socket p = Some (i, p\<lparr>descriptors := (descriptors p)(i \<mapsto> Inet_socket)\<rparr>)" "0 \<le> i" "i \<le> s"
    "descriptors p i = None"
    by (rule new_fd_granted [of p s os]) (use Cons.prems in auto)
  have "i \<notin> {0 ..< s}" unfolding Cons.prems(1) [symmetric] by (simp add: domIff i(4))
  then have s: "i = s" using i by simp
  define p1 where "p1 = p\<lparr>descriptors := (descriptors p)(s \<mapsto> Listening_socket (listen_addr a) (listen_port a))\<rparr>"
  have "dom (descriptors p1) = {0 ..< s + 1}" using Cons.prems by (auto simp: p1_def)
  from Cons.IH [OF this] Cons.prems have "fst (open_listen_sockets os (s + 1) addrs p1) = AGENTD_STATUS_SUCCESS" by simp
  with i(1) s assms(1) show ?case by (simp add: grants_def p1_def)
qed simp


lemma passable_open:
  assumes "dom (descriptors p) \<subseteq> {0 ..< 256}" "distinct fds" "map (descriptors p) fds = map Some files"
  shows "passable p fds" "\<forall>d\<in>set fds. descriptors p d \<noteq> None"
proof -
  have "descriptors p d \<in> set (map Some files)" if "d \<in> set fds" for d using that by (auto simp flip: assms(3))
  then show o: "\<forall>d\<in>set fds. descriptors p d \<noteq> None" by auto
  then show "passable p fds" using assms(1,2) by (fastforce simp: passable_def)
qed

lemma pair_starts:
  assumes "grants os user grp dir" "prefix_dir bconf = Some dir" "conf_usergroup conf = Usergroup user grp" "effective_uid p = 0"
    "dom (descriptors p) \<subseteq> {0 ..< 256}" "descriptors p logsock = Some log"
  shows "\<exists>path args p'. dataservice_proc os bconf conf logsock pid True p = Executed path args p'"
    "\<exists>path args p'. auth_service_proc os bconf conf logsock pid True p = Executed path args p'"
proof -
  obtain l r where s: "ipc_socketpair os p = Inr (l, r, p\<lparr>descriptors := (descriptors p)(l \<mapsto> Pair_left, r \<mapsto> Pair_right)\<rparr>)" and
    lr: "0 \<le> l" "l \<le> 256" "0 \<le> r" "r \<le> 257" "l \<noteq> r" "descriptors p l = None" "descriptors p r = None"
    by (rule socketpair_granted [OF assms(1,5)])
  let ?p = "close_fd l (p\<lparr>descriptors := (descriptors p)(l \<mapsto> Pair_left, r \<mapsto> Pair_right)\<rparr>)"
  have "logsock < 256" "logsock \<noteq> r" "logsock \<noteq> l" using assms(5,6) lr by auto
  moreover from this have "passable ?p [r, logsock]" using lr assms(5) by (fastforce simp: passable_def)
  ultimately have "\<exists>path args p'. service_child os codes bconf conf command True [r, logsock] [0, 1] 1 ?p = Executed path args p'" for codes command
    using assms(6) lr by (intro service_child_granted [OF assms(1-3) numberings(1)]) auto
  from this [of dataservice_codes "cstr ''dataservice''"] this [of authservice_codes "cstr ''authservice''"]
  show "\<exists>path args p'. dataservice_proc os bconf conf logsock pid True p = Executed path args p'"
    "\<exists>path args p'. auth_service_proc os bconf conf logsock pid True p = Executed path args p'"
    using assms(1,4) by (auto simp: dataservice_proc_def auth_service_proc_def s grants_def)
qed

lemma random_starts:
  assumes "grants os user grp dir" "prefix_dir bconf = Some dir" "conf_usergroup conf = Usergroup user grp" "effective_uid p = 0"
    "dom (descriptors p) \<subseteq> {0 ..< 256}" "descriptors p logsock = Some log"
  shows "\<exists>path args p'. randomservice_proc os bconf conf logsock protosock pid True p = Executed path args p'"
proof -
  obtain l r where s: "ipc_socketpair os p = Inr (l, r, p\<lparr>descriptors := (descriptors p)(l \<mapsto> Pair_left, r \<mapsto> Pair_right)\<rparr>)" and
    lr: "0 \<le> l" "l \<le> 256" "0 \<le> r" "r \<le> 257" "l \<noteq> r" "descriptors p l = None" "descriptors p r = None"
    by (rule socketpair_granted [OF assms(1,5)])
  let ?p = "p\<lparr>descriptors := (descriptors p)(l \<mapsto> Pair_left, r \<mapsto> Pair_right)\<rparr>"
  have dom: "dom (descriptors ?p) \<subseteq> {0 ..< 258}" and n: "258 < int (os_nofile os)" using assms(1,5) lr by (fastforce simp: grants_def)+
  obtain d where d: "new_fd os (Opened_file (cstr ''/dev/urandom'')) ?p =
      Some (d, ?p\<lparr>descriptors := (descriptors ?p)(d \<mapsto> Opened_file (cstr ''/dev/urandom''))\<rparr>)" "0 \<le> d" "d \<le> 258" "descriptors ?p d = None"
    by (rule new_fd_granted [OF dom _ n]) auto
  let ?q = "?p\<lparr>descriptors := (descriptors ?p)(d \<mapsto> Opened_file (cstr ''/dev/urandom''))\<rparr>"
  have "logsock < 256" "logsock \<noteq> r" "logsock \<noteq> d" "d \<noteq> r" using assms(5,6) lr d(4) by (auto split: if_splits)
  moreover have "dom (descriptors ?q) \<subseteq> {0 ..< FD_SETSIZE}" using dom d(2,3) by fastforce
  ultimately have "passable ?q [d, r, logsock]" using lr d(2,3) by (auto simp: passable_def)
  moreover have "\<forall>f\<in>set [d, r, logsock]. descriptors ?q f \<noteq> None" using assms(6) by simp
  ultimately have "\<exists>path args p'. service_child os randomservice_codes bconf conf (cstr ''random'') True [d, r, logsock] [0, 1, 2] 2 ?q =
      Executed path args p'" by (intro service_child_granted [OF assms(1-3) numberings(2)]) simp_all
  then show ?thesis using assms(1,4) d(1) by (auto simp: randomservice_proc_def s grants_def open_read_def)
qed

lemma plain_starts:
  assumes "grants os user grp dir" "prefix_dir bconf = Some dir" "conf_usergroup conf = Usergroup user grp"
    "dom (descriptors p) \<subseteq> {0 ..< 256}" "distinct fds" "map (descriptors p) fds = map Some files"
    "numbering mapped last_fd" "length fds = length mapped"
  shows "\<exists>path args p'. service_child os codes bconf conf command True fds mapped last_fd p = Executed path args p'"
  by (rule service_child_granted [OF assms(1-3,7,8) passable_open [OF assms(4-6)]])

lemma listen_starts:
  assumes "grants os user grp dir" "prefix_dir bconf = Some dir" "conf_usergroup conf = Usergroup user grp" "effective_uid p = 0"
    "dom (descriptors p) \<subseteq> {0 ..< 256}" "distinct [logsock, acceptsock]" "map (descriptors p) [logsock, acceptsock] = map Some [log, accept]"
    "length (conf_listen conf) \<le> 1000"
  shows "\<exists>path args p'. listenservice_proc os bconf conf acceptsock logsock pid True p = Executed path args p'"
proof -
  note o = passable_open [OF assms(5-7)]
  have "fst (pass_descriptors os listenservice_codes [logsock, acceptsock] [0, 1] 1 p) = AGENTD_STATUS_SUCCESS"
    using assms(1) by (intro pass_descriptors_granted numberings o) (auto simp: grants_def)
  then obtain fds p1 where p1: "pass_descriptors os listenservice_codes [logsock, acceptsock] [0, 1] 1 p = (AGENTD_STATUS_SUCCESS, fds, p1)"
    by (metis prod.collapse)
  have "p1 = p\<lparr>descriptors := map_of (wired p [logsock, acceptsock] [0, 1])\<rparr>"
    by (rule pass_descriptors_success [OF p1]) (use assms(6) o service_codes_fail(8) in \<open>auto simp: failure_codes_def passable_def\<close>)
  then have "dom (descriptors p1) = {0 ..< 2}" by (auto simp: wired_def split: if_splits)
  then have "fst (open_listen_sockets os 2 (conf_listen conf) p1) = AGENTD_STATUS_SUCCESS"
    using assms(1,8) by (intro listen_sockets_granted [OF assms(1)]) (auto simp: grants_def)
  then obtain p2 where p2: "open_listen_sockets os 2 (conf_listen conf) p1 = (AGENTD_STATUS_SUCCESS, p2)" by (metis prod.collapse)
  obtain p3 where p3: "become_user os listenservice_codes bconf (privsep_lookup_usergroup os user grp) p2 = (AGENTD_STATUS_SUCCESS, p3)"
    by (rule become_user_granted [OF assms(1,2)])
  obtain path args p4 where "exec_service os listenservice_codes bconf (cstr ''listenservice'') True p3 = Executed path args p4"
    by (rule exec_granted [OF assms(1)])
  then show ?thesis using assms(1,4)
    by (simp add: listenservice_proc_def listenservice_child_def listenservice_proc_open_listen_sockets_def restrict_child_def assms(3)
      p1 p2 p3 grants_def)
qed


lemma programs_start:
  assumes "grants os user grp dir" "prefix_dir bconf = Some dir" "conf_usergroup conf = Usergroup user grp"
    "length (conf_listen conf) \<le> 1000" "effective_uid p = 0" "dom (descriptors p) \<subseteq> {0 ..< 256}"
    "distinct [logsock, datasock, randomsock, controlsock, acceptsock, notifysock]"
    "map (descriptors p) [logsock, datasock, randomsock, controlsock, acceptsock, notifysock] = map Some [log, data, random, control, accept, notify]"
  shows "\<exists>x. child_program os bconf conf p ''dataservice'' user grp [(0, Pair_right), (1, log)] x"
    and "\<exists>x. child_program os bconf conf p ''authservice'' user grp [(0, Pair_right), (1, log)] x"
    and "\<exists>x. child_program os bconf conf p ''random'' user grp [(0, Opened_file (cstr ''/dev/urandom'')), (1, Pair_right), (2, log)] x"
    and "\<exists>x. child_program os bconf conf p ''canonization_service'' user grp [(0, log), (1, data), (2, random), (3, control), (4, notify)] x"
    and "\<exists>x. child_program os bconf conf p ''attestation_service'' user grp [(0, log), (1, data), (2, control)] x"
    and "\<exists>x. child_program os bconf conf p ''notification_service'' user grp [(0, log), (1, accept), (2, notify)] x"
    and "\<exists>x. child_program os bconf conf p ''protocol_service'' user grp
           [(3, random), (0, accept), (4, control), (1, log), (2, data), (5, notify)] x"
    and "\<exists>x. child_program os bconf conf p ''listenservice'' user grp ([(0, log), (1, accept)] @
           zip (map (\<lambda>k. 2 + int k) [0 ..< length (conf_listen conf)])
             (map (\<lambda>a. Listening_socket (listen_addr a) (listen_port a)) (conf_listen conf))) x"
proof -
  note g = assms(1-3)
  have f: "os_fork os = 0" using assms(1) by (simp add: grants_def)
  have l: "descriptors p logsock = Some log" using assms(8) by simp
  note st = plain_starts [OF g assms(6)]
  show "\<exists>x. child_program os bconf conf p ''dataservice'' user grp [(0, Pair_right), (1, log)] x"
    using pair_starts(1) [OF g assms(5,6) l] data_program l assms(3) by blast
  show "\<exists>x. child_program os bconf conf p ''authservice'' user grp [(0, Pair_right), (1, log)] x"
    using pair_starts(2) [OF g assms(5,6) l] auth_program l assms(3) by blast
  show "\<exists>x. child_program os bconf conf p ''random'' user grp [(0, Opened_file (cstr ''/dev/urandom'')), (1, Pair_right), (2, log)] x"
    using random_starts [OF g assms(5,6) l] random_program l assms(3) by blast
  have "\<exists>path args p'. start_canonization_proc os bconf conf logsock datasock randomsock controlsock notifysock 0 True p = Executed path args p'"
    using st [of "[logsock, datasock, randomsock, controlsock, notifysock]" "[log, data, random, control, notify]" "[0, 1, 2, 3, 4]" 4
      canonizationservice_codes "cstr ''canonization_service''"] numberings(3) assms(5,7,8) by (auto simp: start_canonization_proc_def f)
  then show "\<exists>x. child_program os bconf conf p ''canonization_service'' user grp [(0, log), (1, data), (2, random), (3, control), (4, notify)] x"
    using assms(3,7,8) by (elim exE) (intro exI, rule canonization_program, assumption, auto)
  have "\<exists>path args p'. start_attestationservice_proc os bconf conf logsock datasock controlsock 0 True p = Executed path args p'"
    using st [of "[logsock, datasock, controlsock]" "[log, data, control]" "[0, 1, 2]" 2 attestationservice_codes "cstr ''attestation_service''"]
      numberings(2) assms(5,7,8) by (auto simp: start_attestationservice_proc_def f)
  then show "\<exists>x. child_program os bconf conf p ''attestation_service'' user grp [(0, log), (1, data), (2, control)] x"
    using assms(3,7,8) by (elim exE) (intro exI, rule attestation_program, assumption, auto)
  have "\<exists>path args p'. notificationservice_proc os bconf conf logsock acceptsock notifysock 0 True p = Executed path args p'"
    using st [of "[logsock, acceptsock, notifysock]" "[log, accept, notify]" "[0, 1, 2]" 2 notificationservice_codes "cstr ''notification_service''"]
      numberings(2) assms(5,7,8) by (auto simp: notificationservice_proc_def f)
  then show "\<exists>x. child_program os bconf conf p ''notification_service'' user grp [(0, log), (1, accept), (2, notify)] x"
    using assms(3,7,8) by (elim exE) (intro exI, rule notification_program, assumption, auto)
  have "\<exists>path args p'. protocolservice_proc os bconf conf randomsock logsock acceptsock controlsock datasock notifysock 0 True p = Executed path args p'"
    using st [of "[randomsock, acceptsock, controlsock, logsock, datasock, notifysock]" "[random, accept, control, log, data, notify]"
      "[3, 0, 4, 1, 2, 5]" 5 protocolservice_codes "cstr ''protocol_service''"] numberings(4) assms(5,7,8) by (auto simp: protocolservice_proc_def f)
  then show "\<exists>x. child_program os bconf conf p ''protocol_service'' user grp
      [(3, random), (0, accept), (4, control), (1, log), (2, data), (5, notify)] x"
    using assms(3,7,8) by (elim exE) (intro exI, rule protocol_program, assumption, auto)
  have "\<exists>path args p'. listenservice_proc os bconf conf acceptsock logsock 0 True p = Executed path args p'"
    by (rule listen_starts [OF g assms(5,6)]) (use assms(4,7,8) in auto)
  then show "\<exists>x. child_program os bconf conf p ''listenservice'' user grp ([(0, log), (1, accept)] @
      zip (map (\<lambda>k. 2 + int k) [0 ..< length (conf_listen conf)])
        (map (\<lambda>a. Listening_socket (listen_addr a) (listen_port a)) (conf_listen conf))) x"
    using assms(3,7,8) by (elim exE) (intro exI, rule listen_program, assumption, auto)
qed


text \<open>The services with the files they are meant to have at their descriptors.\<close>

definition service_files ::
  "open_file \<Rightarrow> open_file \<Rightarrow> open_file \<Rightarrow> open_file \<Rightarrow> open_file \<Rightarrow> open_file \<Rightarrow> config_listen_address list \<Rightarrow> (string \<times> (int \<times> open_file) list) list" where
  "service_files log data random control accept notify addrs =
     [(''dataservice'', [(0, Pair_right), (1, log)]),
      (''authservice'', [(0, Pair_right), (1, log)]),
      (''random'', [(0, Opened_file (cstr ''/dev/urandom'')), (1, Pair_right), (2, log)]),
      (''canonization_service'', [(0, log), (1, data), (2, random), (3, control), (4, notify)]),
      (''attestation_service'', [(0, log), (1, data), (2, control)]),
      (''notification_service'', [(0, log), (1, accept), (2, notify)]),
      (''protocol_service'', [(3, random), (0, accept), (4, control), (1, log), (2, data), (5, notify)]),
      (''listenservice'', [(0, log), (1, accept)] @
         zip (map (\<lambda>k. 2 + int k) [0 ..< length addrs]) (map (\<lambda>a. Listening_socket (listen_addr a) (listen_port a)) addrs))]"

text \<open>
  C17. When the operating system grants what is asked of it, every service comes up: each of
  the eight functions that start a service, run as the superuser with open and
  distinct sockets, all descriptors below 256 and at most 1000 addresses to listen on, ends in the child by executing the daemon.  With the confinement of
  the children this says which program runs with which descriptors.
\<close>

theorem services_start:
  assumes "grants os user grp dir" "prefix_dir bconf = Some dir" "conf_usergroup conf = Usergroup user grp"
    "length (conf_listen conf) \<le> 1000" "effective_uid p = 0" "dom (descriptors p) \<subseteq> {0 ..< 256}"
    "distinct [logsock, datasock, randomsock, controlsock, acceptsock, notifysock]"
    "map (descriptors p) [logsock, datasock, randomsock, controlsock, acceptsock, notifysock] = map Some [log, data, random, control, accept, notify]"
    "(command, files) \<in> set (service_files log data random control accept notify (conf_listen conf))"
  shows "\<exists>x. child_program os bconf conf p command user grp files x"
  using assms(9) programs_start [OF assms(1-8)] by (auto simp only: service_files_def list.set insert_iff empty_iff prod.inject)

subsection \<open>A sample\<close>

definition sample_os :: os_env where
  "sample_os = \<lparr> os_nofile = 1024, os_passwd = (\<lambda>_. Some 1001), os_group = (\<lambda>_. Some 1002), os_chdir = (\<lambda>_. True), os_chroot = (\<lambda>_. True),
     os_openbsd = False, os_setegid = True, os_seteuid = True, os_setgid = True, os_setuid = True, os_setenv = (\<lambda>_. True), os_dup2 = (\<lambda>_ _. True), os_socketpair = True, os_fork = 0,
     os_open = (\<lambda>_. True), os_socket = (\<lambda>_. True), os_bind = (\<lambda>_. True), os_listen = (\<lambda>_. True), os_exec = (\<lambda>_. True) \<rparr>"

definition sample_bconf :: bootstrap_config where
  "sample_bconf = (bootstrap_config_init True)\<lparr>prefix_dir := Some (cstr ''/opt/agentd'')\<rparr>"

definition sample_conf :: agent_config where
  "sample_conf = config_empty\<lparr>conf_usergroup := Usergroup (cstr ''veloagent'') (cstr ''veloagent''),
     conf_listen := [\<lparr> listen_addr = [0, 0, 0, 0], listen_port = 4891 \<rparr>]\<rparr>"

definition sample_supervisor :: process where
  "sample_supervisor = \<lparr> descriptors = map_of (map (\<lambda>k. (int k, Given_file k)) [0 ..< 9]), root_dirs = [], working_dir = None, real_uid = 0,
     effective_uid = 0, saved_uid = 0, real_gid = 0, effective_gid = 0, saved_gid = 0, supplementary_groups = [0], environ = (\<lambda>_. None) \<rparr>"

lemma sample_grants: "grants sample_os (cstr ''veloagent'') (cstr ''veloagent'') (cstr ''/opt/agentd'')"
  by (simp add: grants_def sample_os_def)

lemma sample_facts:
  "prefix_dir sample_bconf = Some (cstr ''/opt/agentd'')"
  "conf_usergroup sample_conf = Usergroup (cstr ''veloagent'') (cstr ''veloagent'')"
  "length (conf_listen sample_conf) \<le> 1000" "effective_uid sample_supervisor = 0" "dom (descriptors sample_supervisor) \<subseteq> {0 ..< 256}"
  "distinct [3, 4, 5, 6, 7, 8 :: int]"
  "map (descriptors sample_supervisor) [3, 4, 5, 6, 7, 8] =
     map Some [Given_file 3, Given_file 4, Given_file 5, Given_file 6, Given_file 7, Given_file 8]"
  by (auto simp: sample_bconf_def sample_conf_def sample_supervisor_def upt_rec split: if_splits)

theorem services_start_witness:
  "\<exists>x. child_program sample_os sample_bconf sample_conf sample_supervisor ''protocol_service'' (cstr ''veloagent'') (cstr ''veloagent'')
     [(3, Given_file 5), (0, Given_file 7), (4, Given_file 6), (1, Given_file 3), (2, Given_file 4), (5, Given_file 8)] x"
  by (rule services_start [OF sample_grants sample_facts]) (simp add: service_files_def)

theorem children_sandboxed_witness:
  "\<exists>x. child_program sample_os sample_bconf sample_conf sample_supervisor ''attestation_service'' (cstr ''veloagent'') (cstr ''veloagent'')
       [(0, Given_file 3), (1, Given_file 4), (2, Given_file 6)] x \<and>
     sandboxed sample_os sample_bconf sample_supervisor ''attestation_service'' (cstr ''veloagent'') (cstr ''veloagent'')
       [(0, Given_file 3), (1, Given_file 4), (2, Given_file 6)] x"
  using programs_start(5) [OF sample_grants sample_facts] children_sandboxed [OF _ sample_facts(5)] by blast

end
