(* ===== verification/Readers_Correct.thy ===== *)
theory Readers_Correct
  imports Readers Process_Start_Correct
begin

text \<open>
  What the supervisor gets from the process that reads public entities: the keys and capabilities
  in certificates that the endorser has signed, and nothing else.
\<close>

subsection \<open>The two ends of the socket\<close>

definition idle_socket :: ipc_fd where
  "idle_socket = \<lparr> rx = [], tx = [], rd_limits = [], wr_limits = [] \<rparr>"

definition wire :: "ipc_value list \<Rightarrow> bytes" where
  "wire vs = concat (map value_bytes vs)"

lemma wire_simps: "wire [] = []" "wire (v # vs) = value_bytes v @ wire vs" "wire (vs @ ws) = wire vs @ wire ws"
  by (simp_all add: wire_def)

lemma wire_written:
  "wr_limits fd = [] \<Longrightarrow> \<forall>v\<in>set vs. value_ok v \<Longrightarrow> write_all ipc_write_value fd vs = (AGENTD_STATUS_SUCCESS, fd\<lparr>tx := tx fd @ wire vs\<rparr>)"
  unfolding wire_def by (rule value_codec.write_all_ok)

lemma wire_uint8_read: "rd_limits fd = [] \<Longrightarrow> ipc_read_uint8_block (fd\<lparr>rx := wire (Uint8_val x # vs) @ rest\<rparr>) = (Inr x, fd\<lparr>rx := wire vs @ rest\<rparr>)"
  using uint8_codec.rd_ok [of "fd\<lparr>rx := wire (Uint8_val x # vs) @ rest\<rparr>" x "wire vs @ rest"] by (simp add: wire_simps)

lemma uint64_read: "rd_limits fd = [] \<Longrightarrow> ipc_read_uint64_block (fd\<lparr>rx := wire (Uint64_val x # vs) @ rest\<rparr>) = (Inr x, fd\<lparr>rx := wire vs @ rest\<rparr>)"
  using uint64_codec.rd_ok [of "fd\<lparr>rx := wire (Uint64_val x # vs) @ rest\<rparr>" x "wire vs @ rest"] by (simp add: wire_simps)

lemma data_read:
  assumes "rd_limits fd = []" "sized_ok b"
  shows "ipc_read_data_block m (fd\<lparr>rx := wire (Data_val b # vs) @ rest\<rparr>) =
     (if m then (Inr b, fd\<lparr>rx := wire vs @ rest\<rparr>) else (Inl AGENTD_ERROR_GENERAL_OUT_OF_MEMORY, fd\<lparr>rx := b @ wire vs @ rest\<rparr>))"
proof (cases m)
  case True
  then show ?thesis using data_codec.rd_ok [of "fd\<lparr>rx := wire (Data_val b # vs) @ rest\<rparr>" b "wire vs @ rest"] assms by (simp add: wire_simps)
next
  case False
  then show ?thesis using assms by (simp add: wire_simps sized_readers read_sized_def read_block_ok)
qed

lemmas wire_read = wire_uint8_read uint64_read data_read

lemma nothing_read: "rd_limits fd = [] \<Longrightarrow> rx fd = [] \<Longrightarrow> \<exists>st fd'. ipc_read_uint8_block fd = (Inl st, fd') \<and> st \<noteq> AGENTD_STATUS_SUCCESS"
  by (simp add: ipc_read_uint8_block_def read_block_def sys_read_def)

subsection \<open>Capabilities\<close>

definition node_of :: "bytes \<Rightarrow> config_public_entity_capability_node" where
  "node_of e = \<lparr> cap_subject = slice 0 16 e, cap_verb = slice 16 16 e, cap_object = slice 32 16 e \<rparr>"

definition node_values :: "bytes \<Rightarrow> ipc_value list" where
  "node_values e = [Uint8_val CONFIG_STREAM_TYPE_BOM, Data_val (slice 0 16 e), Data_val (slice 16 16 e), Data_val (slice 32 16 e),
     Uint8_val CONFIG_STREAM_TYPE_EOM]"

lemma node_values_ok: "v \<in> set (node_values e) \<Longrightarrow> value_ok v"
  by (auto simp: node_values_def sized_ok_def slice_def)

text \<open>One node of the list is read, or an allocation fails.\<close>

lemma node_read:
  assumes "rd_limits fd = []" "48 \<le> length e"
  shows "read_capability_nodes alloc (Suc n) i caps (fd\<lparr>rx := wire (node_values e @ vs) @ rest\<rparr>) =
     (if alloc i 0 \<and> alloc i 1 \<and> alloc i 2 \<and> alloc i 3
      then read_capability_nodes alloc n (Suc i) (node_of e # caps) (fd\<lparr>rx := wire vs @ rest\<rparr>)
      else (AGENTD_ERROR_GENERAL_OUT_OF_MEMORY, caps, fd\<lparr>rx :=
        (if \<not> alloc i 0 then slice 0 16 e @ wire (drop 2 (node_values e) @ vs) @ rest
         else if \<not> alloc i 1 then slice 16 16 e @ wire (drop 3 (node_values e) @ vs) @ rest
         else if \<not> alloc i 2 then slice 32 16 e @ wire (drop 4 (node_values e) @ vs) @ rest else wire vs @ rest)\<rparr>))"
proof -
  have "length (slice 0 16 e) = 16" "length (slice 16 16 e) = 16" "length (slice 32 16 e) = 16" "\<And>k. sized_ok (slice k 16 e)"
    using assms(2) by (auto simp: slice_def sized_ok_def)
  then show ?thesis using assms(1) by (simp add: wire_read node_of_def node_values_def del: length_slice)
qed

declare read_capability_nodes.simps(2) [simp del]

lemma nodes_read:
  assumes "rd_limits fd = []" "\<forall>e\<in>set es. 48 \<le> length e"
    and "read_capability_nodes alloc (length es + n) i caps (fd\<lparr>rx := wire (concat (map node_values es) @ vs) @ rest\<rparr>) =
      (AGENTD_STATUS_SUCCESS, caps', fd')"
  shows "read_capability_nodes alloc n (i + length es) (rev (map node_of es) @ caps) (fd\<lparr>rx := wire vs @ rest\<rparr>) =
      (AGENTD_STATUS_SUCCESS, caps', fd')"
  using assms(2,3)
proof (induction es arbitrary: i caps)
  case (Cons e es)
  then have "read_capability_nodes alloc (length es + n) (Suc i) (node_of e # caps)
      (fd\<lparr>rx := wire (concat (map node_values es) @ vs) @ rest\<rparr>) = (AGENTD_STATUS_SUCCESS, caps', fd')"
    by (simp add: node_read [OF assms(1)] split: if_splits)
  from Cons.IH [OF _ this] show ?case using Cons.prems(1) by simp
qed simp

lemma nodes_read_ok:
  assumes "rd_limits fd = []" "\<forall>e\<in>set es. 48 \<le> length e" "\<And>j k. alloc j k"
  shows "read_capability_nodes alloc (length es) i caps (fd\<lparr>rx := wire (concat (map node_values es) @ vs) @ rest\<rparr>) =
      (AGENTD_STATUS_SUCCESS, rev (map node_of es) @ caps, fd\<lparr>rx := wire vs @ rest\<rparr>)"
  using assms(2) by (induction es arbitrary: i caps) (simp_all add: node_read [OF assms(1)] assms(3))

subsection \<open>Reading an entity\<close>

definition entity_values :: "bytes \<Rightarrow> bytes \<Rightarrow> bytes \<Rightarrow> ipc_value list" where
  "entity_values i e s = [Uint8_val CONFIG_STREAM_TYPE_BOM, Data_val i, Data_val e, Data_val s]"

definition caps_values :: "nat \<Rightarrow> bytes list \<Rightarrow> ipc_value list" where
  "caps_values count es = Uint64_val (of_nat count) # concat (map node_values es)"

lemma entity_header_read:
  assumes "rd_limits fd = []" "sized_ok i" "sized_ok e" "sized_ok s"
    and "config_entity_read env conf is_endorser (fd\<lparr>rx := wire (entity_values i e s @ vs) @ rest\<rparr>) = Some (Inr entry, fd')"
  obtains caps fd1 where
    "(if conf_endorser_key conf \<noteq> None \<and> \<not> is_endorser then config_entity_read_capabilities (caps_malloc env) (fd\<lparr>rx := wire vs @ rest\<rparr>)
      else Some (AGENTD_STATUS_SUCCESS, [], fd\<lparr>rx := wire vs @ rest\<rparr>)) = Some (AGENTD_STATUS_SUCCESS, caps, fd1)"
    "config_entity_finish env i e s caps fd1 = (Inr entry, fd')"
proof -
  have "config_entity_read env conf is_endorser (fd\<lparr>rx := wire (entity_values i e s @ vs) @ rest\<rparr>) =
     (if uuid_malloc env \<and> enc_malloc env \<and> sign_malloc env then
       (case (if conf_endorser_key conf \<noteq> None \<and> \<not> is_endorser then config_entity_read_capabilities (caps_malloc env) (fd\<lparr>rx := wire vs @ rest\<rparr>)
              else Some (AGENTD_STATUS_SUCCESS, [], fd\<lparr>rx := wire vs @ rest\<rparr>)) of None \<Rightarrow> None
        | Some (retval, caps, clientsock) \<Rightarrow>
          if retval \<noteq> AGENTD_STATUS_SUCCESS then Some (Inl retval, clientsock)
          else Some (config_entity_finish env i e s caps clientsock))
      else config_entity_read env conf is_endorser (fd\<lparr>rx := wire (entity_values i e s @ vs) @ rest\<rparr>))"
    using assms(1-4) by (simp add: config_entity_read_def entity_values_def wire_read)
  moreover have "uuid_malloc env \<and> enc_malloc env \<and> sign_malloc env"
    using assms by (auto simp: config_entity_read_def entity_values_def wire_read split: if_splits)
  ultimately show thesis using assms(5) that by (auto split: option.splits if_splits prod.splits)
qed

lemma finish_read:
  assumes "rd_limits fd = []" "config_entity_finish env i e s caps (fd\<lparr>rx := wire [Uint8_val CONFIG_STREAM_TYPE_EOM] @ rest\<rparr>) = (Inr entry, fd')"
  shows "entry = \<lparr> pub_id = i, pub_enc_pubkey = e, pub_sign_pubkey = s, cap_head = caps \<rparr> \<and> fd' = fd\<lparr>rx := rest\<rparr>"
  using assms(2) by (auto simp: config_entity_finish_def wire_read [OF assms(1)] wire_simps(1) split: if_splits)

text \<open>What is read of an entity that was sent whole, without and with capabilities.\<close>

lemma plain_entity_read:
  assumes "rd_limits fd = []" "sized_ok i" "sized_ok e" "sized_ok s" "conf_endorser_key conf = None \<or> is_endorser"
    and "config_entity_read env conf is_endorser (fd\<lparr>rx := wire (entity_values i e s @ [Uint8_val CONFIG_STREAM_TYPE_EOM]) @ rest\<rparr>) =
      Some (Inr entry, fd')"
  shows "entry = \<lparr> pub_id = i, pub_enc_pubkey = e, pub_sign_pubkey = s, cap_head = [] \<rparr> \<and> fd' = fd\<lparr>rx := rest\<rparr>"
proof -
  obtain caps fd1 where "(AGENTD_STATUS_SUCCESS, [], fd\<lparr>rx := wire [Uint8_val CONFIG_STREAM_TYPE_EOM] @ rest\<rparr>) = (AGENTD_STATUS_SUCCESS, caps, fd1)"
    "config_entity_finish env i e s caps fd1 = (Inr entry, fd')"
    by (rule entity_header_read [OF assms(1-4,6)]) (use assms(5) in auto)
  then show ?thesis by (intro finish_read [OF assms(1)]) auto
qed

lemma caps_entity_read:
  assumes "rd_limits fd = []" "sized_ok i" "sized_ok e" "sized_ok s" "conf_endorser_key conf \<noteq> None" "\<not> is_endorser"
    and es: "\<forall>e\<in>set es. 48 \<le> length e" "length es < 2 ^ 64"
    and "config_entity_read env conf is_endorser
      (fd\<lparr>rx := wire (entity_values i e s @ caps_values (length es) es @ [Uint8_val CONFIG_STREAM_TYPE_EOM]) @ rest\<rparr>) = Some (Inr entry, fd')"
  shows "entry = \<lparr> pub_id = i, pub_enc_pubkey = e, pub_sign_pubkey = s, cap_head = rev (map node_of es) \<rparr> \<and> fd' = fd\<lparr>rx := rest\<rparr>"
proof -
  have n: "unat (of_nat (length es) :: 64 word) = length es" using es(2) by (simp add: unat_of_nat take_bit_nat_eq_self)
  obtain caps fd1 where c: "config_entity_read_capabilities (caps_malloc env)
      (fd\<lparr>rx := wire (caps_values (length es) es @ [Uint8_val CONFIG_STREAM_TYPE_EOM]) @ rest\<rparr>) = Some (AGENTD_STATUS_SUCCESS, caps, fd1)"
    and f: "config_entity_finish env i e s caps fd1 = (Inr entry, fd')"
    by (rule entity_header_read [OF assms(1-4,9)]) (use assms(5,6) in simp)
  have "read_capability_nodes (caps_malloc env) (length es + 0) 0 []
      (fd\<lparr>rx := wire (concat (map node_values es) @ [Uint8_val CONFIG_STREAM_TYPE_EOM]) @ rest\<rparr>) = (AGENTD_STATUS_SUCCESS, caps, fd1)"
    using c n by (simp add: config_entity_read_capabilities_def caps_values_def wire_read [OF assms(1)] split: if_splits)
  from nodes_read [OF assms(1) es(1) this] have "caps = rev (map node_of es)" "fd1 = fd\<lparr>rx := wire [Uint8_val CONFIG_STREAM_TYPE_EOM] @ rest\<rparr>"
    by simp_all
  then show ?thesis using finish_read [OF assms(1)] f by simp
qed

text \<open>An entity that was not sent whole is never accepted.\<close>

lemma cut_entity_refused:
  assumes "rd_limits fd = []" "sized_ok i" "sized_ok e" "sized_ok s" "conf_endorser_key conf \<noteq> None" "\<not> is_endorser"
    and es: "\<forall>e\<in>set es. 48 \<le> length e" "length es < count" "count < 2 ^ 64"
  shows "config_entity_read env conf is_endorser (fd\<lparr>rx := wire (entity_values i e s @ caps_values count es)\<rparr>) \<noteq> Some (Inr entry, fd')"
proof
  assume "config_entity_read env conf is_endorser (fd\<lparr>rx := wire (entity_values i e s @ caps_values count es)\<rparr>) = Some (Inr entry, fd')"
  then have a: "config_entity_read env conf is_endorser (fd\<lparr>rx := wire (entity_values i e s @ caps_values count es) @ []\<rparr>) = Some (Inr entry, fd')"
    by simp
  obtain caps fd1 where c: "config_entity_read_capabilities (caps_malloc env) (fd\<lparr>rx := wire (caps_values count es) @ []\<rparr>) =
      Some (AGENTD_STATUS_SUCCESS, caps, fd1)"
    by (rule entity_header_read [OF assms(1-4) a]) (use assms(5,6) in simp)
  obtain m where m: "count = length es + Suc m" using es(2) less_iff_Suc_add by auto
  have n: "unat (of_nat count :: 64 word) = count" using es(3) by (simp add: unat_of_nat take_bit_nat_eq_self)
  have "read_capability_nodes (caps_malloc env) (length es + Suc m) 0 [] (fd\<lparr>rx := wire (concat (map node_values es) @ []) @ []\<rparr>) =
      (AGENTD_STATUS_SUCCESS, caps, fd1)"
    using c n unfolding config_entity_read_capabilities_def caps_values_def wire_read(2) [OF assms(1)]
    by (auto simp: m split: if_splits)
  from nodes_read [OF assms(1) es(1) this] nothing_read [of "fd\<lparr>rx := []\<rparr>"] assms(1)
  show False by (auto simp: read_capability_nodes.simps wire_simps(1))
qed

lemma no_entity_read: "rd_limits fd = [] \<Longrightarrow> rx fd = [] \<Longrightarrow> config_entity_read env conf is_endorser fd \<noteq> Some (Inr entry, fd')"
  using nothing_read [of fd] by (auto simp: config_entity_read_def)

subsection \<open>What the child sends\<close>

text \<open>The sizes and error codes of the library are what its documentation says.\<close>

definition lib_ok :: "cert_lib \<Rightarrow> bool" where
  "lib_ok lib \<longleftrightarrow> cert_size_st lib \<noteq> 0 \<and> cert_missing_st lib \<noteq> 0 \<and> enc_key_size lib < 2 ^ 32 \<and> sign_key_size lib < 2 ^ 32 \<and>
     (\<forall>cert. length (cert_values lib cert Velo_endorsement) < 2 ^ 64)"

lemma endorsements_sent:
  assumes "lib_ok lib" "wr_limits fd = []" "48 \<le> length e" "write_endorsements lib (Suc (length later)) e later fd = (st, fd')"
  shows "(st = AGENTD_STATUS_SUCCESS \<and> (\<forall>x\<in>set later. 48 \<le> length x) \<and> fd' = fd\<lparr>tx := tx fd @ wire (concat (map node_values (e # later)))\<rparr>) \<or>
     (st \<noteq> AGENTD_STATUS_SUCCESS \<and> (\<exists>k \<le> length later. (\<forall>x\<in>set (take k (e # later)). 48 \<le> length x) \<and>
        fd' = fd\<lparr>tx := tx fd @ wire (concat (map node_values (take k (e # later))))\<rparr>))"
  using assms(2-)
proof (induction later arbitrary: e fd)
  case Nil
  note w = wire_written [of fd "node_values e", OF Nil(1)]
  show ?case using Nil node_values_ok [of _ e] w by (simp add: node_values_def)
next
  case (Cons e' later)
  let ?fd = "fd\<lparr>tx := tx fd @ wire (node_values e)\<rparr>"
  have w: "write_all ipc_write_value fd (node_values e) = (AGENTD_STATUS_SUCCESS, ?fd)"
    using wire_written [of fd "node_values e"] node_values_ok Cons.prems(1) by blast
  have r: "(if length e' < 48 then (cert_size_st lib, ?fd) else write_endorsements lib (Suc (length later)) e' later ?fd) = (st, fd')"
    using Cons.prems(3) unfolding list.size add_0_right add_Suc_right write_endorsements.simps node_values_def [symmetric] w by simp
  show ?case
  proof (cases "length e' < 48")
    case True
    then show ?thesis using r assms(1) Cons.prems(2) by (intro disjI2) (auto simp: lib_ok_def intro!: exI [of _ 1])
  next
    case False
    with r Cons.prems(1) have ih: "wr_limits ?fd = []" "48 \<le> length e'" "write_endorsements lib (Suc (length later)) e' later ?fd = (st, fd')" by auto
    from Cons.IH [OF ih] show ?thesis
    proof (elim disjE conjE exE)
      fix k assume "st \<noteq> AGENTD_STATUS_SUCCESS" "k \<le> length later" "\<forall>x\<in>set (take k (e' # later)). 48 \<le> length x"
        "fd' = ?fd\<lparr>tx := tx ?fd @ wire (concat (map node_values (take k (e' # later))))\<rparr>"
      then show ?thesis using Cons.prems(2) by (intro disjI2) (auto simp: wire_simps intro!: exI [of _ "Suc k"])
    qed (use ih(2) in \<open>simp add: wire_simps\<close>)
  qed
qed

definition eom_value :: ipc_value where
  "eom_value = Uint8_val CONFIG_STREAM_TYPE_EOM"

lemma capabilities_sent:
  assumes lib: "lib_ok lib" and fd: "wr_limits fd = []" and w: "write_capabilities lib cert fd = (st, fd')"
  defines "es \<equiv> cert_values lib cert Velo_endorsement"
  shows "(st = AGENTD_STATUS_SUCCESS \<and> (\<forall>x\<in>set es. 48 \<le> length x) \<and> fd' = fd\<lparr>tx := tx fd @ wire (caps_values (length es) es)\<rparr>) \<or>
     (st \<noteq> AGENTD_STATUS_SUCCESS \<and> (\<exists>k < length es. (\<forall>x\<in>set (take k es). 48 \<le> length x) \<and>
        fd' = fd\<lparr>tx := tx fd @ wire (caps_values (length es) (take k es))\<rparr>))"
proof -
  let ?fd2 = "fd\<lparr>tx := tx fd @ wire [Uint64_val (of_nat (length es))]\<rparr>"
  have c: "ipc_write_uint64_block (of_nat (length es)) fd = (AGENTD_STATUS_SUCCESS, ?fd2)"
    using value_codec.wr_ok [of fd "Uint64_val (of_nat (length es))"] fd by (simp add: wire_def)
  have r: "(case es of [] \<Rightarrow> (AGENTD_STATUS_SUCCESS, ?fd2)
    | x # later \<Rightarrow> if length x < 48 then (cert_size_st lib, ?fd2) else write_endorsements lib (length es) x later ?fd2) = (st, fd')"
    using c w by (cases es) (simp_all add: write_capabilities_def entity_get_capabilities_count_def Let_def es_def [symmetric]
      del: write_endorsements.simps split: if_splits)
  show ?thesis
  proof (cases es)
    case Nil
    then show ?thesis using r by (simp add: caps_values_def)
  next
    case (Cons x later)
    show ?thesis
    proof (cases "length x < 48")
      case True
      then show ?thesis using Cons r lib by (auto simp: lib_ok_def caps_values_def intro!: exI [of _ 0])
    next
      case False
      with Cons r fd have e: "wr_limits ?fd2 = []" "48 \<le> length x" "write_endorsements lib (Suc (length later)) x later ?fd2 = (st, fd')"
        by (auto simp del: write_endorsements.simps)
      from endorsements_sent [OF lib e] show ?thesis
      proof (elim disjE conjE exE)
        fix k assume "st \<noteq> AGENTD_STATUS_SUCCESS" "k \<le> length later" "\<forall>y\<in>set (take k (x # later)). 48 \<le> length y"
          "fd' = ?fd2\<lparr>tx := tx ?fd2 @ wire (concat (map node_values (take k (x # later))))\<rparr>"
        then show ?thesis using Cons by (intro disjI2) (auto simp: caps_values_def wire_simps intro!: exI [of _ k])
      qed (use Cons e(2) in \<open>simp add: caps_values_def wire_simps\<close>)
    qed
  qed
qed

text \<open>The child sends a whole entity, or it reports an error after some of its capabilities.\<close>

lemma entity_sent:
  assumes lib: "lib_ok lib" and fd: "wr_limits fd = []" and sz: "sized_ok i" "sized_ok e" "sized_ok s"
    and w: "write_entity lib cert i e s wc fd = (st, fd')"
  defines "es \<equiv> cert_values lib cert Velo_endorsement"
  shows "\<exists>vs. fd' = fd\<lparr>tx := tx fd @ wire (entity_values i e s @ vs)\<rparr> \<and>
     (if \<not> wc then st = AGENTD_STATUS_SUCCESS \<and> vs = [eom_value]
      else if st = AGENTD_STATUS_SUCCESS then (\<forall>x\<in>set es. 48 \<le> length x) \<and> vs = caps_values (length es) es @ [eom_value]
      else (\<exists>k < length es. (\<forall>x\<in>set (take k es). 48 \<le> length x) \<and> vs = caps_values (length es) (take k es)))"
proof -
  let ?fd = "fd\<lparr>tx := tx fd @ wire (entity_values i e s)\<rparr>"
  have h: "write_all ipc_write_value fd (entity_values i e s) = (AGENTD_STATUS_SUCCESS, ?fd)"
    using sz by (intro wire_written [OF fd]) (auto simp: entity_values_def)
  have eom: "ipc_write_uint8_block CONFIG_STREAM_TYPE_EOM fd1 = (AGENTD_STATUS_SUCCESS, fd1\<lparr>tx := tx fd1 @ wire [eom_value]\<rparr>)"
    if "wr_limits fd1 = []" for fd1 using value_codec.wr_ok [of fd1 eom_value] that by (simp add: eom_value_def wire_def)
  have w1: "(case (if wc then write_capabilities lib cert ?fd else (AGENTD_STATUS_SUCCESS, ?fd)) of (retval, controlfd) \<Rightarrow>
      if retval \<noteq> AGENTD_STATUS_SUCCESS then (retval, controlfd) else ipc_write_uint8_block CONFIG_STREAM_TYPE_EOM controlfd) = (st, fd')"
    using w unfolding write_entity_def entity_values_def [symmetric] h by simp
  show ?thesis
  proof (cases wc)
    case False
    then show ?thesis using w1 eom [of ?fd] fd by (simp add: wire_simps)
  next
    case True
    obtain st1 fd1 where c: "write_capabilities lib cert ?fd = (st1, fd1)" by fastforce
    have "wr_limits ?fd = []" using fd by simp
    from capabilities_sent [OF lib this c, folded es_def] show ?thesis
    proof (elim disjE conjE exE)
      fix k assume "st1 \<noteq> AGENTD_STATUS_SUCCESS" "k < length es" "\<forall>x\<in>set (take k es). 48 \<le> length x"
        "fd1 = ?fd\<lparr>tx := tx ?fd @ wire (caps_values (length es) (take k es))\<rparr>"
      then show ?thesis using True w1 c by (intro exI [of _ "caps_values (length es) (take k es)"]) (auto simp: wire_simps)
    qed (use True w1 c eom [of fd1] fd in \<open>simp add: wire_simps\<close>)
  qed
qed

subsection \<open>What an entity is worth\<close>

definition file_holds :: "file_system \<Rightarrow> bytes \<Rightarrow> bytes \<Rightarrow> bool" where
  "file_holds fs name cert \<longleftrightarrow> (\<exists>n data. file_open fs (c_string name) \<and> file_stat fs (c_string name) = Some n \<and>
     file_read fs (c_string name) = Some data \<and> n \<le> length data \<and> cert = take n data)"

definition entity_of :: "cert_lib \<Rightarrow> bytes \<Rightarrow> config_public_entity_node \<Rightarrow> bool" where
  "entity_of lib cert e \<longleftrightarrow> find_exact lib cert Artifact_id 16 = Inr (pub_id e) \<and>
     find_exact lib cert Public_encryption_key (enc_key_size lib) = Inr (pub_enc_pubkey e) \<and>
     find_exact lib cert Public_signing_key (sign_key_size lib) = Inr (pub_sign_pubkey e)"

text \<open>The library has attested the certificate, and the only keys it could use are those of \<open>endorser\<close>.\<close>

definition endorsed :: "cert_lib \<Rightarrow> config_public_entity_node \<Rightarrow> bytes \<Rightarrow> bool" where
  "endorsed lib endorser cert \<longleftrightarrow> (\<exists>resolver. cert_attest_st lib resolver cert = AGENTD_STATUS_SUCCESS \<and>
     (\<forall>i m n. resolver i m n \<noteq> None \<longrightarrow>
        take 16 i = pub_id endorser \<and> resolver i m n = Some (pub_enc_pubkey endorser, pub_sign_pubkey endorser)))"

definition entity_granted ::
  "cert_lib \<Rightarrow> file_system \<Rightarrow> config_public_entity_node option \<Rightarrow> bytes \<Rightarrow> config_public_entity_node \<Rightarrow> bool" where
  "entity_granted lib fs endorser name e \<longleftrightarrow> (\<exists>cert. file_holds fs name cert \<and> entity_of lib cert e \<and>
     (case endorser of
        None \<Rightarrow> cap_head e = []
      | Some en \<Rightarrow> endorsed lib en cert \<and> cap_head e = rev (map node_of (cert_values lib cert Velo_endorsement))))"

definition ctx_for :: "parser_callback_context \<Rightarrow> config_public_entity_node option \<Rightarrow> bool" where
  "ctx_for ctx endorser \<longleftrightarrow>
     (case endorser of
        None \<Rightarrow> \<not> endorser_set ctx
      | Some en \<Rightarrow> endorser_set ctx \<and> endorser_id ctx = pub_id en \<and> endorser_cipher_key ctx = pub_enc_pubkey en \<and>
          endorser_signing_key ctx = pub_sign_pubkey en)"

lemma resolver_endorses:
  assumes "ctx_for ctx (Some en)" "cert_attest_st lib (endorser_key_resolver env ctx) cert = AGENTD_STATUS_SUCCESS"
  shows "endorsed lib en cert"
  unfolding endorsed_def
  by (rule exI [of _ "endorser_key_resolver env ctx"]) (use assms in \<open>auto simp: endorser_key_resolver_def ctx_for_def split: if_splits\<close>)

lemma certificate_file: "read_certificate fs env name = Inr cert \<Longrightarrow> file_holds fs name cert"
  by (auto simp: read_certificate_def file_holds_def Let_def split: if_splits option.splits)

lemma find_exact_length: "find_exact lib cert f n = Inr x \<Longrightarrow> length x = n"
  by (auto simp: find_exact_def split: sum.splits if_splits)

lemma entity_sized: "lib_ok lib \<Longrightarrow> entity_of lib cert e \<Longrightarrow> sized_ok (pub_id e) \<and> sized_ok (pub_enc_pubkey e) \<and> sized_ok (pub_sign_pubkey e)"
  using find_exact_length by (fastforce simp: entity_of_def sized_ok_def lib_ok_def)

text \<open>The child writes nothing, or it has a certificate and writes its entity.\<close>

lemma read_public_entity_cases:
  assumes "read_public_entity lib fs env name ctx is_endorser fd = (st, ctx', fd')"
  obtains "fd' = fd"
  | cert en where "file_holds fs name cert" "entity_of lib cert en"
      "endorser_set ctx \<longrightarrow> cert_attest_st lib (endorser_key_resolver env ctx) cert = AGENTD_STATUS_SUCCESS"
      "if is_endorser then ctx_for ctx' (Some en) else ctx' = ctx"
      "write_entity lib cert (pub_id en) (pub_enc_pubkey en) (pub_sign_pubkey en) (endorser_set ctx' \<and> \<not> is_endorser) fd = (st, fd')"
proof -
  show thesis
  proof (cases "fd' = fd")
    case False
    obtain cert where cert: "read_certificate fs env name = Inr cert" using assms False by (auto simp: read_public_entity_def split: sum.splits)
    obtain i e s where f: "find_exact lib cert Artifact_id 16 = Inr i" "find_exact lib cert Public_encryption_key (enc_key_size lib) = Inr e"
      "find_exact lib cert Public_signing_key (sign_key_size lib) = Inr s"
      using assms False by (auto simp: read_public_entity_def cert Let_def split: sum.splits if_splits)
    let ?en = "\<lparr> pub_id = i, pub_enc_pubkey = e, pub_sign_pubkey = s, cap_head = [] \<rparr>"
    show thesis
    proof (rule that(2) [of cert ?en])
      show "file_holds fs name cert" using cert by (rule certificate_file)
      show "entity_of lib cert ?en" using f by (simp add: entity_of_def)
      show "endorser_set ctx \<longrightarrow> cert_attest_st lib (endorser_key_resolver env ctx) cert = AGENTD_STATUS_SUCCESS"
        using assms False by (auto simp: read_public_entity_def cert Let_def split: if_splits)
      show "if is_endorser then ctx_for ctx' (Some ?en) else ctx' = ctx"
        using assms False f by (auto simp: read_public_entity_def cert Let_def set_endorser_def ctx_for_def split: if_splits prod.splits)
      show "write_entity lib cert (pub_id ?en) (pub_enc_pubkey ?en) (pub_sign_pubkey ?en) (endorser_set ctx' \<and> \<not> is_endorser) fd = (st, fd')"
        using assms False f by (auto simp: read_public_entity_def cert Let_def set_endorser_def split: if_splits prod.splits)
    qed
  qed (use that(1) in blast)
qed

subsection \<open>The supervisor and its reader\<close>

datatype reader_state = Starting | Serving bool | Ended

text \<open>
  The child blocks until there is something to read: first the flag of the endorser, then one
  name at a time.
\<close>

definition entities_peer ::
  "cert_lib \<Rightarrow> file_system \<Rightarrow> (nat \<Rightarrow> reader_env) \<Rightarrow> ipc_fd \<Rightarrow> reader_state \<times> nat \<times> parser_callback_context \<Rightarrow>
   ipc_fd \<times> reader_state \<times> nat \<times> parser_callback_context" where
  "entities_peer lib fs cenvs fd w =
     (case w of (st, n, ctx) \<Rightarrow>
      let controlfd = idle_socket\<lparr>rx := tx fd\<rparr> in
      case (case st of Ended \<Rightarrow> None | Serving b \<Rightarrow> Some (b, controlfd)
            | Starting \<Rightarrow> (case ipc_read_uint8_block controlfd of (Inl _, _) \<Rightarrow> None | (Inr flag, controlfd) \<Rightarrow> Some (flag \<noteq> 0, controlfd))) of
        None \<Rightarrow> (fd, Ended, n, ctx)
      | Some (b, controlfd) \<Rightarrow>
          (case entities_step lib fs (cenvs n) ctx b controlfd of (stream_okay, ctx, controlfd) \<Rightarrow>
             (fd\<lparr>tx := rx controlfd, rx := rx fd @ tx controlfd\<rparr>, if stream_okay then Serving False else Ended, Suc n, ctx)))"

text \<open>The child waits for a name, the flag read or not.\<close>

definition awaiting ::
  "ipc_fd \<Rightarrow> reader_state \<times> nat \<times> parser_callback_context \<Rightarrow> bool \<Rightarrow> nat \<Rightarrow> parser_callback_context \<Rightarrow> bool" where
  "awaiting fd w b n ctx \<longleftrightarrow> (fd = idle_socket \<and> w = (Serving b, n, ctx)) \<or>
     (\<exists>flag. (flag \<noteq> 0) = b \<and> fd = idle_socket\<lparr>tx := wire [Uint8_val flag]\<rparr> \<and> w = (Starting, n, ctx))"

definition name_bytes :: "bytes \<Rightarrow> bytes" where
  "name_bytes name = value_bytes (String_val (c_string name))"

lemma c_string_idem: "c_string (c_string b) = c_string b" "0 \<notin> set (c_string b)" "c_string (c_string b @ [0]) = c_string b"
  by (auto simp: takeWhile_append dest: set_takeWhileD)

lemma name_sent:
  assumes "wr_limits fd = []" "string_ok (c_string name)"
  shows "ipc_write_string_block name fd = (AGENTD_STATUS_SUCCESS, fd\<lparr>tx := tx fd @ name_bytes name\<rparr>)"
proof -
  have "ipc_write_string_block name fd = ipc_write_string_block (c_string name) fd"
    by (simp add: ipc_write_string_block_def c_string_idem)
  then show ?thesis using value_codec.wr_ok [of fd "String_val (c_string name)"] assms by (simp add: name_bytes_def del: value_bytes.simps)
qed

lemma name_read:
  assumes "string_ok (c_string name)" "m"
  shows "ipc_read_string_block m (idle_socket\<lparr>rx := name_bytes name\<rparr>) = (Inr (c_string name @ [0]), idle_socket)"
  using string_codec.rd_ok [of "idle_socket\<lparr>rx := name_bytes name\<rparr>" "c_string name" "[]"] assms by (simp add: name_bytes_def idle_socket_def)

lemma idle_limits [simp]: "rd_limits idle_socket = []" "wr_limits idle_socket = []" "rx idle_socket = []" "tx idle_socket = []"
  by (simp_all add: idle_socket_def)

lemma peer_named:
  assumes "awaiting fd w b n ctx"
  shows "entities_peer lib fs cenvs (fd\<lparr>tx := tx fd @ name_bytes name\<rparr>) w =
     (case entities_step lib fs (cenvs n) ctx b (idle_socket\<lparr>rx := name_bytes name\<rparr>) of (stream_okay, ctx, controlfd) \<Rightarrow>
       (idle_socket\<lparr>tx := rx controlfd, rx := tx controlfd\<rparr>, if stream_okay then Serving False else Ended, Suc n, ctx))"
proof -
  have "ipc_read_uint8_block (idle_socket\<lparr>rx := wire [Uint8_val flag] @ name_bytes name\<rparr>) = (Inr flag, idle_socket\<lparr>rx := name_bytes name\<rparr>)" for flag
    using wire_uint8_read [of idle_socket flag "[]" "name_bytes name"] by (simp add: wire_simps(1))
  then show ?thesis using assms by (auto simp: awaiting_def entities_peer_def Let_def split: prod.splits)
qed

lemma file_holds_c_string: "file_holds fs (c_string name @ [0]) cert \<longleftrightarrow> file_holds fs name cert"
  by (simp add: file_holds_def c_string_idem)

text \<open>What the child is asked to write, and what is read of it.\<close>

lemma entity_received:
  assumes lib: "lib_ok lib" and cert: "entity_of lib cert en"
    and caps: "\<not> is_endorser \<longrightarrow> endorser_set ctx = (conf_endorser_key conf \<noteq> None)"
    and w: "write_entity lib cert (pub_id en) (pub_enc_pubkey en) (pub_sign_pubkey en) (endorser_set ctx \<and> \<not> is_endorser) idle_socket = (st, fd)"
    and r: "config_entity_read env conf is_endorser (idle_socket\<lparr>rx := tx fd\<rparr>) = Some (Inr entry, fd')"
  shows "st = AGENTD_STATUS_SUCCESS \<and> fd' = idle_socket \<and> entry = en\<lparr>cap_head :=
     (if endorser_set ctx \<and> \<not> is_endorser then rev (map node_of (cert_values lib cert Velo_endorsement)) else [])\<rparr>"
proof -
  let ?es = "cert_values lib cert Velo_endorsement"
  have sz: "sized_ok (pub_id en)" "sized_ok (pub_enc_pubkey en)" "sized_ok (pub_sign_pubkey en)" using entity_sized [OF lib cert] by auto
  have len: "length ?es < 2 ^ 64" using lib by (simp add: lib_ok_def)
  obtain vs where fd: "fd = idle_socket\<lparr>tx := wire (entity_values (pub_id en) (pub_enc_pubkey en) (pub_sign_pubkey en) @ vs)\<rparr>"
    and vs: "if \<not> (endorser_set ctx \<and> \<not> is_endorser) then st = AGENTD_STATUS_SUCCESS \<and> vs = [eom_value]
      else if st = AGENTD_STATUS_SUCCESS then (\<forall>x\<in>set ?es. 48 \<le> length x) \<and> vs = caps_values (length ?es) ?es @ [eom_value]
      else (\<exists>k < length ?es. (\<forall>x\<in>set (take k ?es). 48 \<le> length x) \<and> vs = caps_values (length ?es) (take k ?es))"
    using entity_sent [OF lib idle_limits(2) sz w] by auto
  have r1: "config_entity_read env conf is_endorser
      (idle_socket\<lparr>rx := wire (entity_values (pub_id en) (pub_enc_pubkey en) (pub_sign_pubkey en) @ vs) @ []\<rparr>) = Some (Inr entry, fd')"
    using r fd by (simp add: idle_socket_def)
  have idle: "idle_socket\<lparr>rx := []\<rparr> = idle_socket" by (simp add: idle_socket_def)
  show ?thesis
  proof (cases "endorser_set ctx \<and> \<not> is_endorser")
    case False
    then have v: "vs = [Uint8_val CONFIG_STREAM_TYPE_EOM]" "st = AGENTD_STATUS_SUCCESS" using vs unfolding eom_value_def by auto
    have "conf_endorser_key conf = None \<or> is_endorser" using False caps by auto
    from plain_entity_read [OF idle_limits(1) sz this r1 [unfolded v(1)]] show ?thesis using v(2) False idle by (cases en) auto
  next
    case True
    then have c: "conf_endorser_key conf \<noteq> None" "\<not> is_endorser" using caps by auto
    show ?thesis
    proof (cases "st = AGENTD_STATUS_SUCCESS")
      case st: True
      with True vs have v: "\<forall>x\<in>set ?es. 48 \<le> length x" "vs = caps_values (length ?es) ?es @ [Uint8_val CONFIG_STREAM_TYPE_EOM]"
        unfolding eom_value_def by auto
      from caps_entity_read [OF idle_limits(1) sz c v(1) len r1 [unfolded v(2)]] show ?thesis using True st idle by (cases en) auto
    next
      case False
      then obtain k where "k < length ?es" "\<forall>x\<in>set (take k ?es). 48 \<le> length x" "vs = caps_values (length ?es) (take k ?es)"
        using vs True by auto
      then show ?thesis using cut_entity_refused [OF idle_limits(1) sz c, of "take k ?es" "length ?es"] r1 len by auto
    qed
  qed
qed

lemma name_unread:
  "\<exists>st t. ipc_read_string_block False (idle_socket\<lparr>rx := name_bytes name\<rparr>) = (Inl st, idle_socket\<lparr>rx := t\<rparr>)"
  by (auto simp: name_bytes_def sized_readers read_sized_def read_block_ok)

lemma entity_exchange_failure: "entity_exchange env peer conf is_endorser name fd w = Some (Inl st, fd', w') \<Longrightarrow> st \<noteq> AGENTD_STATUS_SUCCESS"
  by (auto simp: entity_exchange_def split: prod.splits if_splits option.splits sum.splits)

lemma endorser_exchange_failure: "endorser_exchange env peer conf fd w = Some (Inl st, fd', w') \<Longrightarrow> st \<noteq> AGENTD_STATUS_SUCCESS"
  using entity_exchange_failure by (fastforce simp: endorser_exchange_def split: prod.splits if_splits option.splits sum.splits)

text \<open>A name that is answered by an entity: where the entity comes from, and that the child waits for the next name.\<close>

lemma exchange_sound:
  assumes lib: "lib_ok lib" and name: "string_ok (c_string name)" and aw: "awaiting fd w is_endorser n ctx"
    and caps: "\<not> is_endorser \<longrightarrow> endorser_set ctx = (conf_endorser_key conf \<noteq> None)"
    and x: "entity_exchange env (entities_peer lib fs cenvs) conf is_endorser name fd w = Some (Inr entry, fd', w')"
  shows "\<exists>cert ctx'. file_holds fs name cert \<and> entity_of lib cert entry \<and>
     (endorser_set ctx \<longrightarrow> cert_attest_st lib (endorser_key_resolver (cenvs n) ctx) cert = AGENTD_STATUS_SUCCESS) \<and>
     fd' = idle_socket \<and> w' = (Serving False, Suc n, ctx') \<and>
     (if is_endorser then ctx_for ctx' (Some entry)
      else ctx' = ctx \<and> cap_head entry = (if endorser_set ctx then rev (map node_of (cert_values lib cert Velo_endorsement)) else []))"
proof -
  have fd: "wr_limits fd = []" using aw by (auto simp: awaiting_def)
  obtain ok ctx1 c where step: "entities_step lib fs (cenvs n) ctx is_endorser (idle_socket\<lparr>rx := name_bytes name\<rparr>) = (ok, ctx1, c)"
    by (metis prod_cases3)
  have r: "config_entity_read env conf is_endorser (idle_socket\<lparr>tx := rx c, rx := tx c\<rparr>) = Some (Inr entry, fd')"
    and w': "w' = (if ok then Serving False else Ended, Suc n, ctx1)"
    using x by (auto simp: entity_exchange_def name_sent [OF fd name] peer_named [OF aw] step split: option.splits prod.splits sum.splits)
  have tx: "tx c \<noteq> []" using r no_entity_read [of "idle_socket\<lparr>tx := rx c, rx := []\<rparr>"] by auto
  have m: "name_malloc (cenvs n)"
    using step tx name_unread [of name] by (cases "name_malloc (cenvs n)") (auto simp: entities_step_def)
  obtain st where e: "read_public_entity lib fs (cenvs n) (c_string name @ [0]) ctx is_endorser idle_socket = (st, ctx1, c)"
    and ok: "ok = (st = AGENTD_STATUS_SUCCESS)"
    using step name_read [OF name m] by (auto simp: entities_step_def split: prod.splits)
  have idle: "idle_socket\<lparr>tx := rx c, rx := tx c\<rparr> = idle_socket\<lparr>rx := tx c\<rparr>"
    using read_public_entity_rx [OF e] by (simp add: idle_socket_def)
  from e show ?thesis
  proof (rule read_public_entity_cases)
    fix cert en
    assume c: "file_holds fs (c_string name @ [0]) cert" "entity_of lib cert en"
      "endorser_set ctx \<longrightarrow> cert_attest_st lib (endorser_key_resolver (cenvs n) ctx) cert = AGENTD_STATUS_SUCCESS"
      "if is_endorser then ctx_for ctx1 (Some en) else ctx1 = ctx"
      and w: "write_entity lib cert (pub_id en) (pub_enc_pubkey en) (pub_sign_pubkey en) (endorser_set ctx1 \<and> \<not> is_endorser) idle_socket = (st, c)"
    have "\<not> is_endorser \<longrightarrow> endorser_set ctx1 = (conf_endorser_key conf \<noteq> None)" using caps c(4) by auto
    from entity_received [OF lib c(2) this w r [unfolded idle]] show ?thesis
      using c w' ok by (intro exI [of _ cert] exI [of _ ctx1]) (auto simp: file_holds_c_string entity_of_def ctx_for_def)
  qed (use tx in simp)
qed

lemma exchanges_sound:
  assumes lib: "lib_ok lib" and names: "\<forall>name\<in>set names. string_ok (c_string name)" and aw: "awaiting fd w False n ctx"
    and ctx: "ctx_for ctx endorser" "endorser_set ctx = (conf_endorser_key conf \<noteq> None)"
    and x: "entity_exchanges envs (entities_peer lib fs cenvs) conf k names done fd w = Some (AGENTD_STATUS_SUCCESS, entities, fd', w')"
  shows "\<exists>new. entities = rev new @ done \<and> list_all2 (entity_granted lib fs endorser) names new"
  using names aw x
proof (induction names arbitrary: k n "done" fd w)
  case (Cons name names)
  obtain entry fd1 w1 where x1: "entity_exchange (envs k) (entities_peer lib fs cenvs) conf False name fd w = Some (Inr entry, fd1, w1)"
    and x2: "entity_exchanges envs (entities_peer lib fs cenvs) conf (Suc k) names (entry # done) fd1 w1 = Some (AGENTD_STATUS_SUCCESS, entities, fd', w')"
    using Cons.prems(3) entity_exchange_failure by (fastforce split: option.splits sum.splits prod.splits)
  from exchange_sound [OF lib _ Cons.prems(2) _ x1] Cons.prems(1) ctx(2) obtain cert where
    g: "file_holds fs name cert" "entity_of lib cert entry"
      "endorser_set ctx \<longrightarrow> cert_attest_st lib (endorser_key_resolver (cenvs n) ctx) cert = AGENTD_STATUS_SUCCESS"
      "cap_head entry = (if endorser_set ctx then rev (map node_of (cert_values lib cert Velo_endorsement)) else [])"
    and s: "fd1 = idle_socket" "w1 = (Serving False, Suc n, ctx)" by auto
  have "entity_granted lib fs endorser name entry"
    using g ctx(1) resolver_endorses by (cases endorser) (auto simp: entity_granted_def ctx_for_def)
  moreover obtain new where "entities = rev new @ entry # done" "list_all2 (entity_granted lib fs endorser) names new"
    using Cons.IH [OF _ _ x2, of "Suc n"] Cons.prems(1) s by (auto simp: awaiting_def)
  ultimately show ?case by (intro exI [of _ "entry # new"]) simp
qed simp

lemma flag_sent: "ipc_write_uint8_block flag idle_socket = (AGENTD_STATUS_SUCCESS, idle_socket\<lparr>tx := wire [Uint8_val flag]\<rparr>)"
  using value_codec.wr_ok [of idle_socket "Uint8_val flag"] by (simp add: wire_def)

lemma endorser_sound:
  assumes lib: "lib_ok lib" and names: "\<forall>name. conf_endorser_key conf = Some name \<longrightarrow> string_ok (c_string name)" and ctx: "\<not> endorser_set ctx"
    and x: "endorser_exchange env (entities_peer lib fs cenvs) conf idle_socket (Starting, 0, ctx) = Some (Inr endorser, fd', w')"
  shows "\<exists>n ctx'. awaiting fd' w' False n ctx' \<and> ctx_for ctx' endorser \<and> endorser_set ctx' = (conf_endorser_key conf \<noteq> None) \<and>
     (case endorser of None \<Rightarrow> conf_endorser_key conf = None
      | Some en \<Rightarrow> \<exists>name cert. conf_endorser_key conf = Some name \<and> file_holds fs name cert \<and> entity_of lib cert en)"
proof (cases "conf_endorser_key conf")
  case None
  then show ?thesis using x ctx
    by (auto simp: endorser_exchange_def flag_sent awaiting_def ctx_for_def intro!: exI [of _ 0])
next
  case (Some name)
  let ?fd = "idle_socket\<lparr>tx := wire [Uint8_val 1]\<rparr>"
  obtain en where x1: "entity_exchange env (entities_peer lib fs cenvs) conf True name ?fd (Starting, 0, ctx) = Some (Inr en, fd', w')"
    and en: "endorser = Some en"
    using x Some by (auto simp: endorser_exchange_def flag_sent split: option.splits sum.splits)
  have "awaiting ?fd (Starting, 0, ctx) True 0 ctx" by (auto simp: awaiting_def intro!: exI [of _ 1])
  from exchange_sound [OF lib _ this _ x1] names Some obtain cert ctx' where
    "file_holds fs name cert" "entity_of lib cert en" "fd' = idle_socket" "w' = (Serving False, Suc 0, ctx')" "ctx_for ctx' (Some en)" by auto
  then show ?thesis using en Some
    by (intro exI [of _ "Suc 0"] exI [of _ ctx']) (auto simp: awaiting_def ctx_for_def)
qed

definition entities_granted ::
  "cert_lib \<Rightarrow> file_system \<Rightarrow> agent_config \<Rightarrow> config_public_entity_node option \<Rightarrow> config_public_entity_node list \<Rightarrow> bool" where
  "entities_granted lib fs conf endorser entities \<longleftrightarrow>
     (case endorser of None \<Rightarrow> conf_endorser_key conf = None
      | Some en \<Rightarrow> \<exists>name cert. conf_endorser_key conf = Some name \<and> file_holds fs name cert \<and> entity_of lib cert en) \<and>
     list_all2 (entity_granted lib fs endorser) (rev (conf_public_keys conf)) entities"

lemma parent_sound:
  assumes lib: "lib_ok lib" and names: "\<forall>name \<in> set_option (conf_endorser_key conf) \<union> set (conf_public_keys conf). string_ok (c_string name)"
    and x: "public_entities_parent env envs (entities_peer lib fs cenvs) conf exit_status idle_socket (Starting, 0, parser_callback_context_create lib) =
      Some ((AGENTD_STATUS_SUCCESS, endorser, entities), fd, w)"
  shows "entities_granted lib fs conf endorser entities"
proof -
  obtain fd1 w1 fd2 w2 where
    x1: "endorser_exchange env (entities_peer lib fs cenvs) conf idle_socket (Starting, 0, parser_callback_context_create lib) = Some (Inr endorser, fd1, w1)"
    and x2: "entity_exchanges envs (entities_peer lib fs cenvs) conf 0 (conf_public_keys conf) [] fd1 w1 = Some (AGENTD_STATUS_SUCCESS, entities, fd2, w2)"
    using x endorser_exchange_failure by (fastforce simp: public_entities_parent_def split: option.splits sum.splits prod.splits if_splits)
  have "\<forall>name. conf_endorser_key conf = Some name \<longrightarrow> string_ok (c_string name)" "\<not> endorser_set (parser_callback_context_create lib)"
    using names by (auto simp: parser_callback_context_create_def)
  from endorser_sound [OF lib this x1] obtain n ctx where
    e: "awaiting fd1 w1 False n ctx" "ctx_for ctx endorser" "endorser_set ctx = (conf_endorser_key conf \<noteq> None)"
      "case endorser of None \<Rightarrow> conf_endorser_key conf = None
       | Some en \<Rightarrow> \<exists>name cert. conf_endorser_key conf = Some name \<and> file_holds fs name cert \<and> entity_of lib cert en" by blast
  from exchanges_sound [OF lib _ e(1,2,3) x2] names have "list_all2 (entity_granted lib fs endorser) (conf_public_keys conf) (rev entities)" by auto
  then show ?thesis using e(4) list_all2_rev [of "entity_granted lib fs endorser" "rev (conf_public_keys conf)" entities]
    by (simp add: entities_granted_def)
qed

lemma reader_child_fails:
  "service_child os reader_codes bconf conf command True fds mapped last_fd p = Returned (retval, fds') p' \<Longrightarrow> retval \<noteq> AGENTD_STATUS_SUCCESS"
  by (auto simp: service_child_def restrict_child_def become_user_def pass_descriptors_def exec_service_def reader_codes_def
    split: if_splits option.splits prod.splits outcome.splits sum.splits config_user_group.splits)

text \<open>
  C14. When the supervisor has read the public entities, each of them is what the certificate in its
  file says, in the order the protocol service is told of them.  Without an endorser no entity has a
  capability.  With one, every certificate has been attested by the library with no other
  key than the keys in the certificate of the endorser, and the capabilities of the entity are exactly
  the endorsements of its certificate.  This holds whichever calls fail in the two processes.
\<close>

theorem entities_as_endorsed:
  assumes "lib_ok lib" and "\<forall>name \<in> set_option (conf_endorser_key conf) \<union> set (conf_public_keys conf). string_ok (c_string name)"
    and "config_read_public_entities_proc os env envs (entities_peer lib fs cenvs) exit_status bconf conf init
        (idle_socket, Starting, 0, parser_callback_context_create lib) p =
      Returned (AGENTD_STATUS_SUCCESS, (endorser, entities), fw) p'"
  shows "entities_granted lib fs conf endorser entities"
proof -
  obtain fd w where "public_entities_parent env envs (entities_peer lib fs cenvs) conf exit_status idle_socket
      (Starting, 0, parser_callback_context_create lib) = Some ((AGENTD_STATUS_SUCCESS, endorser, entities), fd, w)"
    using assms(3) reader_child_fails
    by (fastforce simp: config_read_public_entities_proc_def reader_proc_def split: if_splits sum.splits outcome.splits option.splits)
  then show ?thesis using parent_sound [OF assms(1,2)] by blast
qed

subsection \<open>Entities that are read\<close>

definition reader_env_ok :: reader_env where
  "reader_env_ok = \<lparr> name_malloc = True, cert_buffer_st = (\<lambda>_. 0), enc_store_st = 0, sign_store_st = 0, enc_copy_st = 0, sign_copy_st = 0 \<rparr>"

definition entity_env_ok :: entity_env where
  "entity_env_ok = \<lparr> uuid_malloc = True, enc_malloc = True, sign_malloc = True, caps_malloc = (\<lambda>_ _. True), node_malloc = True,
     enc_init_st = 0, sign_init_st = 0 \<rparr>"

lemma endorsements_sent_ok:
  "wr_limits fd = [] \<Longrightarrow> \<forall>x\<in>set (e # later). 48 \<le> length x \<Longrightarrow>
     write_endorsements lib (Suc (length later)) e later fd = (AGENTD_STATUS_SUCCESS, fd\<lparr>tx := tx fd @ wire (concat (map node_values (e # later)))\<rparr>)"
proof (induction later arbitrary: e fd)
  case Nil
  then show ?case using wire_written [of fd "node_values e"] node_values_ok [of _ e] by (simp add: node_values_def)
next
  case (Cons e' later)
  let ?fd = "fd\<lparr>tx := tx fd @ wire (node_values e)\<rparr>"
  have w: "write_all ipc_write_value fd (node_values e) = (AGENTD_STATUS_SUCCESS, ?fd)"
    using wire_written [of fd "node_values e"] node_values_ok Cons.prems(1) by blast
  have "write_endorsements lib (Suc (length later)) e' later ?fd =
      (AGENTD_STATUS_SUCCESS, ?fd\<lparr>tx := tx ?fd @ wire (concat (map node_values (e' # later)))\<rparr>)"
    using Cons.IH [of ?fd e'] Cons.prems by simp
  then show ?case using Cons.prems unfolding list.size add_0_right add_Suc_right write_endorsements.simps(2) [of _ "Suc _"] node_values_def [symmetric] w
    by (simp add: wire_simps del: write_endorsements.simps)
qed

lemma entity_sent_ok:
  assumes "wr_limits fd = []" "sized_ok i" "sized_ok e" "sized_ok s"
    and "wc \<longrightarrow> (\<forall>x\<in>set (cert_values lib cert Velo_endorsement). 48 \<le> length x)"
  defines "es \<equiv> cert_values lib cert Velo_endorsement"
  shows "write_entity lib cert i e s wc fd =
     (AGENTD_STATUS_SUCCESS, fd\<lparr>tx := tx fd @ wire (entity_values i e s @ (if wc then caps_values (length es) es else []) @ [eom_value])\<rparr>)"
proof -
  let ?fd = "fd\<lparr>tx := tx fd @ wire (entity_values i e s)\<rparr>"
  have h: "write_all ipc_write_value fd (entity_values i e s) = (AGENTD_STATUS_SUCCESS, ?fd)"
    using assms(2-4) by (intro wire_written [OF assms(1)]) (auto simp: entity_values_def)
  have eom: "ipc_write_uint8_block CONFIG_STREAM_TYPE_EOM fd1 = (AGENTD_STATUS_SUCCESS, fd1\<lparr>tx := tx fd1 @ wire [eom_value]\<rparr>)"
    if "wr_limits fd1 = []" for fd1 using value_codec.wr_ok [of fd1 eom_value] that by (simp add: eom_value_def wire_def)
  have c: "ipc_write_uint64_block (of_nat (length es)) ?fd = (AGENTD_STATUS_SUCCESS, ?fd\<lparr>tx := tx ?fd @ wire [Uint64_val (of_nat (length es))]\<rparr>)"
    using value_codec.wr_ok [of ?fd "Uint64_val (of_nat (length es))"] assms(1) by (simp add: wire_def)
  have "write_capabilities lib cert ?fd = (AGENTD_STATUS_SUCCESS, ?fd\<lparr>tx := tx ?fd @ wire (caps_values (length es) es)\<rparr>)" if "wc"
  proof (cases es)
    case (Cons x later)
    then show ?thesis using endorsements_sent_ok [of "?fd\<lparr>tx := tx ?fd @ wire [Uint64_val (of_nat (length es))]\<rparr>" x later lib] assms(1,5) that c
      by (simp add: write_capabilities_def entity_get_capabilities_count_def es_def [symmetric] caps_values_def wire_simps Let_def
        del: write_endorsements.simps)
  qed (use c in \<open>simp add: write_capabilities_def entity_get_capabilities_count_def es_def [symmetric] caps_values_def\<close>)
  then show ?thesis using eom assms(1) unfolding write_entity_def entity_values_def [symmetric] h by (simp add: wire_simps)
qed

lemma entity_read_ok:
  assumes "sized_ok i" "sized_ok e" "sized_ok s" "length i = 16" "wc \<longleftrightarrow> conf_endorser_key conf \<noteq> None \<and> \<not> is_endorser"
    and "wc \<longrightarrow> es \<noteq> [] \<and> (\<forall>x\<in>set es. 48 \<le> length x) \<and> length es < 2 ^ 64"
  shows "\<exists>entry fd. config_entity_read entity_env_ok conf is_endorser
     (idle_socket\<lparr>rx := wire (entity_values i e s @ (if wc then caps_values (length es) es else []) @ [eom_value]) @ []\<rparr>) = Some (Inr entry, fd)"
proof -
  have n: "wc \<Longrightarrow> unat (of_nat (length es) :: 64 word) = length es" using assms(6) by (simp add: unat_of_nat take_bit_nat_eq_self)
  have f: "\<exists>entry fd. config_entity_finish entity_env_ok i e s caps (idle_socket\<lparr>rx := wire [eom_value] @ []\<rparr>) = (Inr entry, fd)" for caps
    using assms(4) wire_read(1) [of idle_socket CONFIG_STREAM_TYPE_EOM "[]" "[]"]
    by (simp add: config_entity_finish_def eom_value_def entity_env_ok_def)
  have "wc \<Longrightarrow> config_entity_read_capabilities (\<lambda>_ _. True) (idle_socket\<lparr>rx := wire (caps_values (length es) es @ [eom_value]) @ []\<rparr>) =
      Some (AGENTD_STATUS_SUCCESS, rev (map node_of es), idle_socket\<lparr>rx := wire [eom_value] @ []\<rparr>)"
    using nodes_read_ok [OF idle_limits(1), of es "\<lambda>_ _. True" 0 "[]" "[eom_value]" "[]"] n assms(6)
      wire_read(2) [of idle_socket "of_nat (length es)" "concat (map node_values es) @ [eom_value]" "[]"]
    by (auto simp: config_entity_read_capabilities_def caps_values_def)
  then show ?thesis using assms(1-5) f
    by (auto simp: config_entity_read_def entity_values_def wire_read entity_env_ok_def simp del: append_Nil2)
qed

definition certificate_good :: "cert_lib \<Rightarrow> file_system \<Rightarrow> bytes \<Rightarrow> bytes \<Rightarrow> bool" where
  "certificate_good lib fs name cert \<longleftrightarrow> string_ok (c_string name) \<and> file_holds fs name cert \<and>
     cert_init_st lib cert = AGENTD_STATUS_SUCCESS \<and> (\<exists>en. entity_of lib cert en)"

lemma certificate_read: "file_holds fs name cert \<Longrightarrow> read_certificate fs reader_env_ok name = Inr cert"
  by (auto simp: read_certificate_def file_holds_def reader_env_ok_def Let_def)

text \<open>A good certificate is read, written and received when no call fails; an entity must have an endorsement.\<close>

lemma exchange_succeeds:
  assumes lib: "lib_ok lib" and good: "certificate_good lib fs name cert" and aw: "awaiting fd w is_endorser n ctx"
    and att: "endorser_set ctx \<longrightarrow> cert_attest_st lib (endorser_key_resolver reader_env_ok ctx) cert = AGENTD_STATUS_SUCCESS"
    and caps: "\<not> is_endorser \<longrightarrow> endorser_set ctx = (conf_endorser_key conf \<noteq> None)"
    and es: "endorser_set ctx \<and> \<not> is_endorser \<longrightarrow> cert_values lib cert Velo_endorsement \<noteq> [] \<and>
      (\<forall>x\<in>set (cert_values lib cert Velo_endorsement). 48 \<le> length x)"
  shows "\<exists>entry fd' w'. entity_exchange entity_env_ok (entities_peer lib fs (\<lambda>_. reader_env_ok)) conf is_endorser name fd w = Some (Inr entry, fd', w')"
proof -
  let ?es = "cert_values lib cert Velo_endorsement" and ?wc = "endorser_set ctx \<and> \<not> is_endorser"
  obtain en where en: "entity_of lib cert en" and name: "string_ok (c_string name)" and cert: "file_holds fs name cert"
    "cert_init_st lib cert = AGENTD_STATUS_SUCCESS" using good by (auto simp: certificate_good_def)
  have sz: "sized_ok (pub_id en)" "sized_ok (pub_enc_pubkey en)" "sized_ok (pub_sign_pubkey en)" using entity_sized [OF lib en] by auto
  have fd: "wr_limits fd = []" using aw by (auto simp: awaiting_def)
  have len: "length (pub_id en) = 16" "length ?es < 2 ^ 64" using en lib find_exact_length by (auto simp: entity_of_def lib_ok_def)
  let ?c = "idle_socket\<lparr>tx := wire (entity_values (pub_id en) (pub_enc_pubkey en) (pub_sign_pubkey en) @
      (if ?wc then caps_values (length ?es) ?es else []) @ [eom_value])\<rparr>"
  have w: "write_entity lib cert (pub_id en) (pub_enc_pubkey en) (pub_sign_pubkey en) ?wc idle_socket = (AGENTD_STATUS_SUCCESS, ?c)"
    using entity_sent_ok [OF idle_limits(2) sz, of ?wc lib cert] es by auto
  have "\<exists>ctx1. read_public_entity lib fs reader_env_ok (c_string name @ [0]) ctx is_endorser idle_socket = (AGENTD_STATUS_SUCCESS, ctx1, ?c)"
    using w cert en att certificate_read [of fs "c_string name @ [0]" cert]
    by (auto simp: read_public_entity_def file_holds_c_string entity_of_def set_endorser_def reader_env_ok_def Let_def)
  then obtain ctx1 where "entities_step lib fs reader_env_ok ctx is_endorser (idle_socket\<lparr>rx := name_bytes name\<rparr>) = (True, ctx1, ?c)"
    using name_read [OF name, of True] by (auto simp: entities_step_def reader_env_ok_def)
  moreover have "\<exists>entry fd'. config_entity_read entity_env_ok conf is_endorser (idle_socket\<lparr>rx := tx ?c @ []\<rparr>) = Some (Inr entry, fd')"
    using entity_read_ok [OF sz len(1), of ?wc conf is_endorser ?es] caps es len(2) by auto
  ultimately show ?thesis
    by (auto simp: entity_exchange_def name_sent [OF fd name] peer_named [OF aw] idle_socket_def)
qed

text \<open>An entity without an endorsement makes the supervisor free pointers it never set.\<close>

lemma no_endorsement_undefined:
  assumes "sized_ok i" "sized_ok e" "sized_ok s" "conf_endorser_key conf \<noteq> None"
  shows "config_entity_read entity_env_ok conf False (idle_socket\<lparr>rx := wire (entity_values i e s @ caps_values 0 [] @ [eom_value]) @ []\<rparr>) = None"
  using assms by (simp add: config_entity_read_def entity_values_def caps_values_def config_entity_read_capabilities_def wire_read
    entity_env_ok_def del: append_Nil2)

subsection \<open>A supervisor that reads an entity\<close>

text \<open>Files that hold their names; the certificate \<open>[k]\<close> has \<open>k\<close> in its fields and one endorsement, signed by \<open>[97]\<close>.\<close>

definition sample_lib :: cert_lib where
  "sample_lib = \<lparr> cert_init_st = (\<lambda>_. 0),
     cert_attest_st = (\<lambda>resolver cert. if resolver (replicate 16 97) 1 1 = Some ([97], [97]) then 0 else 1),
     cert_values = (\<lambda>cert f. case f of Artifact_id \<Rightarrow> [replicate 16 (hd cert)] | Velo_endorsement \<Rightarrow> [replicate 48 (hd cert)] | _ \<Rightarrow> [take 1 cert]),
     cert_missing_st = 1, cert_size_st = 2, enc_key_size = 1, sign_key_size = 1 \<rparr>"

definition sample_fs :: file_system where
  "sample_fs = \<lparr> file_open = (\<lambda>_. True), file_stat = (\<lambda>_. Some 1), file_read = (\<lambda>path. Some path) \<rparr>"

definition endorsed_conf :: agent_config where
  "endorsed_conf = sample_conf\<lparr>conf_endorser_key := Some [97], conf_public_keys := [[98]]\<rparr>"

definition parent_os :: os_env where
  "parent_os = sample_os\<lparr>os_fork := 4711\<rparr>"

lemma parent_pair: "\<exists>l r q. ipc_socketpair parent_os sample_supervisor = Inr (l, r, q)"
proof -
  have "new_fd parent_os = new_fd sample_os" by (intro ext) (simp add: new_fd_def parent_os_def)
  then have "ipc_socketpair parent_os sample_supervisor = ipc_socketpair sample_os sample_supervisor"
    unfolding ipc_socketpair_def socketpair_def by (simp only:) (simp add: parent_os_def)
  then show ?thesis using socketpair_granted [OF sample_grants sample_facts(5)] by metis
qed

lemma sample_certificates: "lib_ok sample_lib" "certificate_good sample_lib sample_fs [97] [97]" "certificate_good sample_lib sample_fs [98] [98]"
  by (auto simp: lib_ok_def sample_lib_def certificate_good_def string_ok_def file_holds_def sample_fs_def entity_of_def find_exact_def
    find_short_def intro!: exI [of _ "\<lparr> pub_id = replicate 16 _, pub_enc_pubkey = [_], pub_sign_pubkey = [_], cap_head = [] \<rparr>"])

lemma sample_entities:
  "\<exists>endorser entities fd w. public_entities_parent entity_env_ok (\<lambda>_. entity_env_ok) (entities_peer sample_lib sample_fs (\<lambda>_. reader_env_ok))
     endorsed_conf (Some 0) idle_socket (Starting, 0, parser_callback_context_create sample_lib) =
     Some ((AGENTD_STATUS_SUCCESS, endorser, entities), fd, w)"
proof -
  let ?ctx = "parser_callback_context_create sample_lib" and ?peer = "entities_peer sample_lib sample_fs (\<lambda>_. reader_env_ok)"
  let ?fd = "idle_socket\<lparr>tx := wire [Uint8_val 1]\<rparr>"
  have aw: "awaiting ?fd (Starting, 0, ?ctx) True 0 ?ctx" by (auto simp: awaiting_def intro!: exI [of _ 1])
  have unset: "\<not> endorser_set ?ctx" by (simp add: parser_callback_context_create_def)
  obtain en fd1 w1 where x1: "entity_exchange entity_env_ok ?peer endorsed_conf True [97] ?fd (Starting, 0, ?ctx) = Some (Inr en, fd1, w1)"
    using exchange_succeeds [OF sample_certificates(1,2) aw, of endorsed_conf] unset by auto
  from exchange_sound [OF sample_certificates(1) _ aw _ x1] obtain cert ctx1 where c: "file_holds sample_fs [97] cert" "entity_of sample_lib cert en"
    "fd1 = idle_socket" "w1 = (Serving False, Suc 0, ctx1)" "ctx_for ctx1 (Some en)" by (auto simp: string_ok_def)
  have en: "pub_id en = replicate 16 97" "pub_enc_pubkey en = [97]" "pub_sign_pubkey en = [97]"
    using c(1,2) by (auto simp: file_holds_def sample_fs_def entity_of_def find_exact_def find_short_def sample_lib_def split: if_splits)
  have aw1: "awaiting fd1 w1 False (Suc 0) ctx1" using c by (simp add: awaiting_def)
  have "cert_attest_st sample_lib (endorser_key_resolver reader_env_ok ctx1) [98] = AGENTD_STATUS_SUCCESS"
    using c(5) en by (simp add: sample_lib_def endorser_key_resolver_def ctx_for_def reader_env_ok_def)
  then obtain e fd2 w2 where x2: "entity_exchange entity_env_ok ?peer endorsed_conf False [98] fd1 w1 = Some (Inr e, fd2, w2)"
    using exchange_succeeds [OF sample_certificates(1,3) aw1, of endorsed_conf] c(5)
    by (auto simp: ctx_for_def endorsed_conf_def sample_lib_def)
  show ?thesis using x1 x2 by (auto simp: public_entities_parent_def endorser_exchange_def flag_sent endorsed_conf_def split: prod.splits)
    (metis prod_cases4)
qed

theorem entities_as_endorsed_witness:
  "\<exists>endorser entities fw p'. config_read_public_entities_proc parent_os entity_env_ok (\<lambda>_. entity_env_ok)
       (entities_peer sample_lib sample_fs (\<lambda>_. reader_env_ok)) (Some 0) sample_bconf endorsed_conf (None, [])
       (idle_socket, Starting, 0, parser_callback_context_create sample_lib) sample_supervisor =
     Returned (AGENTD_STATUS_SUCCESS, (endorser, entities), fw) p' \<and> entities_granted sample_lib sample_fs endorsed_conf endorser entities"
proof -
  obtain l r q where pair: "ipc_socketpair parent_os sample_supervisor = Inr (l, r, q)" using parent_pair by blast
  have fork: "os_fork parent_os = 4711" by (simp add: parent_os_def)
  have names: "\<forall>name \<in> set_option (conf_endorser_key endorsed_conf) \<union> set (conf_public_keys endorsed_conf). string_ok (c_string name)"
    by (simp add: endorsed_conf_def string_ok_def)
  obtain endorser entities fw p' where "config_read_public_entities_proc parent_os entity_env_ok (\<lambda>_. entity_env_ok)
       (entities_peer sample_lib sample_fs (\<lambda>_. reader_env_ok)) (Some 0) sample_bconf endorsed_conf (None, [])
       (idle_socket, Starting, 0, parser_callback_context_create sample_lib) sample_supervisor =
     Returned (AGENTD_STATUS_SUCCESS, (endorser, entities), fw) p'"
    using sample_entities pair sample_facts(4) fork by (auto simp: config_read_public_entities_proc_def reader_proc_def)
  from this entities_as_endorsed [OF sample_certificates(1) names this] show ?thesis by blast
qed

end
