(* ===== verification/Supervisor_Correct.thy ===== *)
theory Supervisor_Correct
  imports Supervisor Readers_Correct Ds_Loop
begin

text \<open>
  The data services the supervisor starts are confined: no request ever gives them
  a capability their client was not meant to have.
\<close>

subsection \<open>The data service at the other end\<close>

definition boxed :: "bytes \<Rightarrow> bytes" where
  "boxed b = net32 IPC_DATA_TYPE_DATA_PACKET @ net32 (of_nat (length b)) @ b"

text \<open>The service reads one request and writes its responses; any of its calls may fail (\<open>env\<close>).\<close>

definition ds_peer ::
  "('e, 't) lmdb \<Rightarrow> vccert \<Rightarrow> bytes \<Rightarrow> bool \<Rightarrow> request_env \<Rightarrow> ipc_fd \<Rightarrow> 'e dataservice_instance \<Rightarrow> ipc_fd \<times> 'e dataservice_instance" where
  "ds_peer ops vc root_block att env fd inst =
     (case ipc_read_data_block True (idle_socket\<lparr>rx := tx fd\<rparr>) of
        (Inl _, _) \<Rightarrow> (fd, inst)
      | (Inr req, rest) \<Rightarrow>
          (case dataservice_decode_and_dispatch ops vc root_block att env inst req of
             None \<Rightarrow> (fd, inst)
           | Some (st, out, inst) \<Rightarrow> (fd\<lparr>tx := rx rest, rx := rx fd @ concat (map boxed out)\<rparr>, inst)))"

lemma boxed_write: "sized_ok b \<Longrightarrow> ipc_write_data_block b idle_socket = (AGENTD_STATUS_SUCCESS, idle_socket\<lparr>tx := boxed b\<rparr>)"
  using data_codec.wr_ok [of idle_socket b] by (simp add: idle_socket_def boxed_def)

lemma boxed_read: "sized_ok b \<Longrightarrow> ipc_read_data_block True (idle_socket\<lparr>rx := boxed b\<rparr>) = (Inr b, idle_socket)"
  using data_codec.rd_ok [of "idle_socket\<lparr>rx := boxed b\<rparr>" b "[]"] by (simp add: idle_socket_def boxed_def)

lemma read_idle: "ipc_read_data_block m (idle_socket\<lparr>tx := t\<rparr>) = (Inl AGENTD_ERROR_IPC_READ_BLOCK_FAILURE, idle_socket\<lparr>tx := t\<rparr>)"
  by (simp add: ipc_read_data_block_def read_block_def idle_socket_def)

lemma read_no_memory: "sized_ok b \<Longrightarrow> \<exists>st fd. ipc_read_data_block False (idle_socket\<lparr>rx := boxed b\<rparr>) = (Inl st, fd)"
  by (simp add: ipc_read_data_block_def boxed_def read_block_ok [where b = "net32 IPC_DATA_TYPE_DATA_PACKET"]
    read_block_ok [where b = "net32 (of_nat (length b))"] idle_socket_def)

text \<open>A call that succeeds got the response of the service, a status.\<close>

lemma peer_call:
  assumes "sized_ok req" "ds_peer ops vc root_block att env (idle_socket\<lparr>tx := boxed req\<rparr>) inst = (fd, inst')"
    and d: "dataservice_decode_and_dispatch ops vc root_block att env inst req = Some (reply_with env n 0 s None inst1)"
    and r: "recvresp_block m (recv_status dec) fd = (r, fd')" "response_status r = AGENTD_STATUS_SUCCESS"
    and dec: "dec (response_packet n 0 s None) = Inr \<lparr> method_code = n, resp_offset = 0, resp_status = s \<rparr>"
  shows "inst' = inst1 \<and> s = AGENTD_STATUS_SUCCESS \<and> fd' = idle_socket"
proof -
  have i: "inst' = inst1" and fd: "fd = idle_socket \<or> fd = idle_socket\<lparr>rx := boxed (response_packet n 0 s None)\<rparr>"
    using assms(2) boxed_read [OF assms(1)] d
    by (auto simp: ds_peer_def reply_with_def dataservice_decode_and_dispatch_write_status_def Let_def idle_socket_def split: if_splits)
  have sz: "sized_ok (response_packet n 0 s None)" by (simp add: sized_ok_def)
  from fd show ?thesis
  proof
    assume "fd = idle_socket"
    then show ?thesis using r read_idle [of m "[]"] by (auto simp: recvresp_block_def response_status_def api_error_def idle_socket_def)
  next
    assume f: "fd = idle_socket\<lparr>rx := boxed (response_packet n 0 s None)\<rparr>"
    then have "m" using r read_no_memory [OF sz] by (cases m) (auto simp: recvresp_block_def response_status_def api_error_def)
    then show ?thesis using r f boxed_read [OF sz] dec i by (auto simp: recvresp_block_def response_status_def recv_status_def)
  qed
qed

subsection \<open>The requests of the supervisor\<close>

lemma dispatch_root_requests:
  "dataservice_decode_and_dispatch ops vc root_block att env inst (net32 0 @ b) =
     dataservice_decode_and_dispatch_root_context_create ops env inst b"
  "dataservice_decode_and_dispatch ops vc root_block att env inst (net32 1 @ b) =
     dataservice_decode_and_dispatch_root_context_reduce_caps env inst b"
  by (simp_all add: dataservice_decode_and_dispatch_def Let_def)

lemma reduce_dispatched:
  assumes "length caps = 1"
  shows "dataservice_decode_and_dispatch_root_context_reduce_caps env inst (concat (map mem32 caps)) =
     (case dataservice_root_context_reduce_capabilities (inst_ctx inst) caps of (st, ctx) \<Rightarrow>
      Some (reply_with env 1 0 st None (inst\<lparr>inst_ctx := ctx\<rparr>)))"
proof -
  have "dataservice_decode_request_root_context_reduce_caps (concat (map mem32 caps)) = Inr \<lparr> child_index = 0, req_caps = caps \<rparr>"
    using assms by (simp add: dataservice_decode_request_root_context_reduce_caps_def codec_defs caps_bytes)
  then show ?thesis by (simp add: dataservice_decode_and_dispatch_root_context_reduce_caps_def)
qed

lemma root_status_responses:
  "dataservice_decode_response_root_context_init (response_packet 0 i st None) = Inr \<lparr> method_code = 0, resp_offset = i, resp_status = st \<rparr>"
  "dataservice_decode_response_root_context_reduce_caps (response_packet 1 i st None) =
     Inr \<lparr> method_code = 1, resp_offset = i, resp_status = st \<rparr>"
  by (simp_all add: dataservice_decode_response_root_context_init_def dataservice_decode_response_root_context_reduce_caps_def
      with_response_def Let_def)


lemma peer_silent:
  assumes "sized_ok req" "ds_peer ops vc root_block att env (idle_socket\<lparr>tx := boxed req\<rparr>) inst = (fd, inst')"
    and "dataservice_decode_and_dispatch ops vc root_block att env inst req = Some (st, [], inst1)"
    and "recvresp_block m process fd = (r, fd')"
  shows "response_status r \<noteq> AGENTD_STATUS_SUCCESS"
  using assms boxed_read [OF assms(1)] read_idle [of m "[]"]
  by (auto simp: ds_peer_def recvresp_block_def response_status_def api_error_def idle_socket_def)

text \<open>Creating the root context changes the context only.\<close>

lemma init_call:
  assumes "sized_ok (net32 0 @ b)" "ds_peer ops vc root_block att env (idle_socket\<lparr>tx := boxed (net32 0 @ b)\<rparr>) inst = (fd, inst')"
    and "dataservice_api_recvresp_root_context_init_block m fd = (r, fd')" "response_status r = AGENTD_STATUS_SUCCESS"
  shows "fd' = idle_socket \<and> (\<exists>ctx st. inst' = inst\<lparr>inst_ctx := ctx\<rparr> \<and>
     (\<exists>out. dataservice_decode_and_dispatch ops vc root_block att env inst (net32 0 @ b) = Some (st, out, inst')))"
proof (cases "dataservice_decode_request_root_context_init (payload_malloc env) b")
  case (Inl st)
  then have "dataservice_decode_and_dispatch ops vc root_block att env inst (net32 0 @ b) = Some (st, [], inst)"
    by (simp add: dispatch_root_requests dataservice_decode_and_dispatch_root_context_create_def)
  from peer_silent [OF assms(1,2) this] assms(3,4) show ?thesis
    by (simp add: dataservice_api_recvresp_root_context_init_block_def)
next
  case (Inr dreq)
  obtain s ctx where c: "dataservice_root_context_init ops (op_malloc env) (inst_ctx inst) (req_max_database_size dreq)
      (takeWhile (\<lambda>b. b \<noteq> 0) (req_datadir dreq)) = (s, ctx)" by fastforce
  then have d: "dataservice_decode_and_dispatch ops vc root_block att env inst (net32 0 @ b) =
      Some (reply_with env 0 0 s None (inst\<lparr>inst_ctx := ctx\<rparr>))"
    by (simp add: dispatch_root_requests dataservice_decode_and_dispatch_root_context_create_def Inr)
  from peer_call [OF assms(1,2) d assms(3) [unfolded dataservice_api_recvresp_root_context_init_block_def] assms(4) root_status_responses(1)]
  have "inst' = inst\<lparr>inst_ctx := ctx\<rparr>" "fd' = idle_socket" by simp_all
  then show ?thesis using d by (auto simp: reply_with_def split: prod.splits)
qed

lemma reduce_call:
  assumes "length caps = 1" "ds_peer ops vc root_block att env (idle_socket\<lparr>tx := boxed (net32 1 @ concat (map mem32 caps))\<rparr>) inst = (fd, inst')"
    and "dataservice_api_recvresp_root_context_reduce_caps_block m fd = (r, fd')" "response_status r = AGENTD_STATUS_SUCCESS"
  shows "inst' = inst\<lparr>inst_ctx := (inst_ctx inst)\<lparr>apicaps := BITCAP_INTERSECT (apicaps (inst_ctx inst)) caps\<rparr>\<rparr> \<and>
     (\<exists>st out. dataservice_decode_and_dispatch ops vc root_block att env inst (net32 1 @ concat (map mem32 caps)) = Some (st, out, inst'))"
proof -
  obtain s ctx where c: "dataservice_root_context_reduce_capabilities (inst_ctx inst) caps = (s, ctx)" by fastforce
  then have d: "dataservice_decode_and_dispatch ops vc root_block att env inst (net32 1 @ concat (map mem32 caps)) =
      Some (reply_with env 1 0 s None (inst\<lparr>inst_ctx := ctx\<rparr>))"
    by (simp add: dispatch_root_requests reduce_dispatched [OF assms(1)])
  have sz: "sized_ok (net32 1 @ concat (map mem32 caps))" using assms(1) by (simp add: sized_ok_def caps_bytes)
  from peer_call [OF sz assms(2) d assms(3) [unfolded dataservice_api_recvresp_root_context_reduce_caps_block_def] assms(4) root_status_responses(2)]
  have i: "inst' = inst\<lparr>inst_ctx := ctx\<rparr>" "s = 0" by simp_all
  then show ?thesis using c d by (auto simp: dataservice_root_context_reduce_capabilities_def reply_with_def split: if_splits prod.splits)
qed

lemma configure_success:
  assumes "configure_data_service (ds_peer ops vc root_block att env) senv max_size datastore caps idle_socket inst = (AGENTD_STATUS_SUCCESS, fd, inst')"
    "length caps = 1" "\<forall>d. datastore = Some d \<longrightarrow> length d < 2 ^ 31"
  shows "\<exists>ctx. ds_run ops vc root_block att inst (inst\<lparr>inst_ctx := ctx\<rparr>) \<and> ds_run ops vc root_block att inst inst' \<and>
     inst' = inst\<lparr>inst_ctx := ctx\<lparr>apicaps := BITCAP_INTERSECT (apicaps ctx) caps\<rparr>\<rparr>"
proof -
  obtain dir where dir: "datastore = Some dir" using assms(1) by (auto simp: configure_data_service_def split: option.splits)
  let ?b = "net64 max_size @ takeWhile (\<lambda>b. b \<noteq> 0) dir"
  have "length (takeWhile (\<lambda>b. b \<noteq> 0) dir) \<le> length dir" by (rule length_takeWhile_le)
  then have sz: "sized_ok (net32 0 @ ?b)" using assms(3) dir by (simp add: sized_ok_def)
  have sz2: "sized_ok (net32 1 @ concat (map mem32 caps))" using assms(2) by (simp add: sized_ok_def caps_bytes)
  have w: "dataservice_api_sendreq_root_context_init_block 0 max_size (takeWhile (\<lambda>b. b \<noteq> 0) dir) idle_socket = (0, idle_socket\<lparr>tx := boxed (net32 0 @ ?b)\<rparr>)"
    using boxed_write [OF sz] by (simp add: dataservice_api_sendreq_root_context_init_block_def dataservice_encode_request_root_context_init_def
      request_buffer_def sendreq_block_def)
  have w2: "dataservice_api_sendreq_root_context_reduce_caps_block 0 caps idle_socket = (0, idle_socket\<lparr>tx := boxed (net32 1 @ concat (map mem32 caps))\<rparr>)"
    using boxed_write [OF sz2] by (simp add: dataservice_api_sendreq_root_context_reduce_caps_block_def
      dataservice_encode_request_root_context_reduce_caps_def request_buffer_def sendreq_block_def)
  have buf: "init_buf_st senv = 0" using assms(1)
    by (auto simp: configure_data_service_def dir dataservice_api_sendreq_root_context_init_block_def
      dataservice_encode_request_root_context_init_def request_buffer_def sendreq_block_def split: if_splits)
  obtain fd1 inst1 where p1: "ds_peer ops vc root_block att env (idle_socket\<lparr>tx := boxed (net32 0 @ ?b)\<rparr>) inst = (fd1, inst1)" by fastforce
  obtain r1 fd2 where r1: "dataservice_api_recvresp_root_context_init_block (init_malloc senv) fd1 = (r1, fd2)" by fastforce
  have s1: "response_status r1 = 0" using assms(1) by (auto simp: configure_data_service_def dir buf w p1 r1 split: if_splits)
  from init_call [OF sz p1 r1 s1] obtain ctx st out where i1: "fd2 = idle_socket" "inst1 = inst\<lparr>inst_ctx := ctx\<rparr>"
    "dataservice_decode_and_dispatch ops vc root_block att env inst (net32 0 @ ?b) = Some (st, out, inst1)" by auto
  have buf2: "reduce_buf_st senv = 0" using assms(1)
    by (auto simp: configure_data_service_def dir buf w p1 r1 s1 dataservice_api_sendreq_root_context_reduce_caps_block_def
      dataservice_encode_request_root_context_reduce_caps_def request_buffer_def sendreq_block_def split: if_splits)
  obtain fd3 inst2 where p2: "ds_peer ops vc root_block att env (idle_socket\<lparr>tx := boxed (net32 1 @ concat (map mem32 caps))\<rparr>) inst1 = (fd3, inst2)"
    by fastforce
  obtain r2 fd4 where r2: "dataservice_api_recvresp_root_context_reduce_caps_block (reduce_malloc senv) fd3 = (r2, fd4)" by fastforce
  have s2: "response_status r2 = 0" "inst' = inst2"
    using assms(1) by (auto simp: configure_data_service_def dir buf w p1 r1 s1 buf2 i1(1) w2 p2 r2)
  from reduce_call [OF assms(2) p2 r2 s2(1)] obtain st2 out2 where
    i2: "inst2 = inst1\<lparr>inst_ctx := (inst_ctx inst1)\<lparr>apicaps := BITCAP_INTERSECT (apicaps (inst_ctx inst1)) caps\<rparr>\<rparr>"
    "dataservice_decode_and_dispatch ops vc root_block att env inst1 (net32 1 @ concat (map mem32 caps)) = Some (st2, out2, inst2)" by blast
  have run: "ds_run ops vc root_block att inst inst1" by (rule run_step [OF run_refl i1(3)])
  then have "ds_run ops vc root_block att inst inst2" by (rule run_step [OF _ i2(2)])
  then show ?thesis using i1(2) i2(1) s2(2) run by (intro exI [of _ ctx]) simp
qed

lemma set_capabilities_bits:
  assumes "\<forall>b\<in>set bits. b < 32" "c < 32"
  shows "length (set_capabilities bits) = 1" "BITCAP_ISSET (set_capabilities bits) c \<longleftrightarrow> c \<in> set bits"
proof -
  have "length (fold (\<lambda>b caps. BITCAP_SET_TRUE caps b) bits caps) = 1 \<and>
      (BITCAP_ISSET (fold (\<lambda>b caps. BITCAP_SET_TRUE caps b) bits caps) c \<longleftrightarrow> c \<in> set bits \<or> BITCAP_ISSET caps c)"
    if "length caps = 1" for caps
    using assms(1) that
  proof (induction bits arbitrary: caps)
    case (Cons b bits)
    then show ?case using bitcap32.isset_grant [of caps b c] bitcap32.valid_grant [of caps b] by auto
  qed simp
  from this [of "BITCAP_INIT_FALSE (replicate (BITCAP_WORDS DATASERVICE_API_CAP_BITS_MAX) 0)"]
  show "length (set_capabilities bits) = 1" "BITCAP_ISSET (set_capabilities bits) c \<longleftrightarrow> c \<in> set bits"
    using assms(2) by (simp_all add: set_capabilities_def BITCAP_INIT_FALSE_def BITCAP_ISSET_bit)
qed

lemma created_no_children:
  assumes "dataservice_instance_create True = Some (inst :: 'e dataservice_instance)"
  shows "opened_slots inst = {}"
proof -
  obtain inst0 :: "'e dataservice_instance" where c: "dataservice_instance_create True = Some inst0"
    and s: "slots_inv inst0 (rev [0..<1024])" by (rule dataservice_instance_create_Some)
  have "opened_slots inst0 = {}" by (simp only: opened_slots_free [OF s] set_rev set_upt atLeast0LessThan Diff_cancel)
  then show ?thesis using assms c by simp
qed

text \<open>What the supervisor configured holds the capabilities asked for at most, and for good.\<close>

lemma configured_confined:
  assumes "configure_data_service (ds_peer ops vc root_block att env) senv max_size datastore (set_capabilities bits) idle_socket inst0 =
      (AGENTD_STATUS_SUCCESS, fd, inst)"
    and "dataservice_instance_create True = Some inst0" "\<forall>d. datastore = Some d \<longrightarrow> length d < 2 ^ 31"
    and bits: "\<forall>b\<in>set bits. b < 32" "0 \<notin> set bits" and run: "ds_run ops vc root_block att inst inst'" and b: "b < 32" "b \<notin> set bits"
  shows "confined b inst'"
proof -
  from configure_success [OF assms(1) set_capabilities_bits(1) [OF bits(1) b(1)] assms(3)] obtain ctx where
    r: "ds_run ops vc root_block att inst0 (inst0\<lparr>inst_ctx := ctx\<rparr>)" "ds_run ops vc root_block att inst0 inst" and
    i: "inst = inst0\<lparr>inst_ctx := ctx\<lparr>apicaps := BITCAP_INTERSECT (apicaps ctx) (set_capabilities bits)\<rparr>\<rparr>" by blast
  have inv: "inst_inv inst" "inst_inv (inst0\<lparr>inst_ctx := ctx\<rparr>)" using r run_inv created_inv [OF assms(2)] by blast+
  have len: "length (apicaps ctx) = 1" using inv(2) by (simp add: inst_inv_def)
  have c: "confined c inst" if "c < 32" "c \<notin> set bits" for c
    using created_no_children [OF assms(2)] set_capabilities_bits [OF bits(1) that(1)] that len
    by (auto simp: confined_def i opened_slots_def bitcap32.isset_meet)
  show ?thesis using run_confined [OF run inv(1) b(1) c [OF b]] c [OF _ bits(2)] by simp
qed

text \<open>A start that reports success configured the service.\<close>

lemma start_configured:
  assumes "supervisor_start_data_service os peer senv bconf conf fd w dp p = Returned (AGENTD_STATUS_SUCCESS, sent, dp', fd', w') p'"
  shows "configure_data_service peer senv (conf_database_max_size conf) (conf_datastore conf) (reducedcaps dp) fd w = (AGENTD_STATUS_SUCCESS, fd', w')"
  using assms by (auto simp: supervisor_start_data_service_def Let_def split: outcome.splits prod.splits if_splits)

lemma stop_then_kill_terminates: "stop_then_kill prc = (if running prc then [SIGTERM (process_id prc)] else [], prc\<lparr>running := False\<rparr>)"
  by (cases prc) (simp add: stop_then_kill_def process_stop_def process_stop_ex_def process_kill_def)

subsection \<open>What each service is denied\<close>

text \<open>
  Only the root of the supervisor makes and reduces the root context and writes settings.  Blocks are
  written for canonization only; attestation promotes transactions, and submits none.
\<close>

definition denied ::
  "((bool \<Rightarrow> int \<Rightarrow> int \<Rightarrow> status + dataservice_process) \<times> nat list) list" where
  "denied =
     [(supervisor_create_data_service_for_auth_protocol_service,
       [DATASERVICE_API_CAP_LL_ROOT_CONTEXT_CREATE, DATASERVICE_API_CAP_LL_ROOT_CONTEXT_REDUCE_CAPS,
        DATASERVICE_API_CAP_APP_GLOBAL_SETTING_WRITE, DATASERVICE_API_CAP_APP_PQ_TRANSACTION_PROMOTE,
        DATASERVICE_API_CAP_APP_PQ_TRANSACTION_FIRST_READ, DATASERVICE_API_CAP_APP_PQ_TRANSACTION_READ,
        DATASERVICE_API_CAP_APP_PQ_TRANSACTION_DROP, DATASERVICE_API_CAP_APP_BLOCK_WRITE]),
      (supervisor_create_data_service_for_canonizationservice,
       [DATASERVICE_API_CAP_LL_ROOT_CONTEXT_CREATE, DATASERVICE_API_CAP_LL_ROOT_CONTEXT_REDUCE_CAPS,
        DATASERVICE_API_CAP_APP_GLOBAL_SETTING_WRITE, DATASERVICE_API_CAP_APP_PQ_TRANSACTION_PROMOTE]),
      (supervisor_create_data_service_for_attestationservice,
       [DATASERVICE_API_CAP_LL_ROOT_CONTEXT_CREATE, DATASERVICE_API_CAP_LL_ROOT_CONTEXT_REDUCE_CAPS,
        DATASERVICE_API_CAP_APP_GLOBAL_SETTING_WRITE, DATASERVICE_API_CAP_APP_PQ_TRANSACTION_SUBMIT,
        DATASERVICE_API_CAP_APP_BLOCK_WRITE])]"

lemma denied_bits:
  assumes "(create, bs) \<in> set denied" "create malloc_ok s l = Inr dp"
  obtains bits where "reducedcaps dp = set_capabilities bits" "\<forall>b\<in>set bits. b < 32" "0 \<notin> set bits" "\<forall>b\<in>set bs. b < 32 \<and> b \<notin> set bits"
  using assms by (auto simp: denied_def create_data_service_def supervisor_create_data_service_for_auth_protocol_service_def
      supervisor_create_data_service_for_canonizationservice_def supervisor_create_data_service_for_attestationservice_def
      split: if_splits)

text \<open>
  C12. The supervisor starts a data service for the protocol service, for canonization and for
  attestation.  When the start succeeds, no sequence of requests to that service, whatever they are
  and whatever allocations and writes fail, gives its root context or an open child context a
  capability that client is denied: writing blocks is for canonization only, promoting
  transactions for attestation only, writing settings and making a root context for none.
\<close>

theorem data_services_confined:
  assumes "(create, bs) \<in> set denied" and "create malloc_ok s l = Inr dp"
    and "dataservice_instance_create True = Some inst0" and "\<forall>d. conf_datastore conf = Some d \<longrightarrow> length d < 2 ^ 31"
    and "supervisor_start_data_service os (ds_peer ops vc root_block att env) senv bconf conf idle_socket inst0 dp p =
           Returned (AGENTD_STATUS_SUCCESS, sent, dp', fd, inst) p'"
    and "ds_run ops vc root_block att inst inst'" and "b \<in> set bs"
  shows "confined b inst'"
proof -
  obtain bits where bits: "reducedcaps dp = set_capabilities bits" "\<forall>b\<in>set bits. b < 32" "0 \<notin> set bits"
    "\<forall>b\<in>set bs. b < 32 \<and> b \<notin> set bits" using denied_bits [OF assms(1,2)] .
  note conf = start_configured [OF assms(5), unfolded bits(1)]
  show ?thesis using configured_confined [OF conf assms(3,4) bits(2,3) assms(6)] bits(4) assms(7) by blast
qed

subsection \<open>A data service started\<close>

lemma peer_reply:
  assumes "sized_ok req" "sized_ok out" "dataservice_decode_and_dispatch ops vc root_block att env inst req = Some (st, [out], inst')"
  shows "ds_peer ops vc root_block att env (idle_socket\<lparr>tx := boxed req\<rparr>) inst = (idle_socket\<lparr>rx := boxed out\<rparr>, inst')"
  using boxed_read [OF assms(1)] assms(3) by (simp add: ds_peer_def idle_socket_def)

definition stored_conf :: agent_config where
  "stored_conf = sample_conf\<lparr>conf_datastore := Some (cstr ''/''), conf_database_max_size := 4096\<rparr>"

definition senv_ok :: start_env where
  "senv_ok = \<lparr> init_buf_st = AGENTD_STATUS_SUCCESS, init_malloc = True, reduce_buf_st = AGENTD_STATUS_SUCCESS, reduce_malloc = True \<rparr>"

lemma attestation_bits:
  "supervisor_create_data_service_for_attestationservice True 3 4 =
     Inr \<lparr> dsp_hdr = process_zero, supervisor_data_socket = 3, dsp_log_socket = 4, reducedcaps = [0x1F600C] \<rparr>"
  by (simp add: supervisor_create_data_service_for_attestationservice_def create_data_service_def set_capabilities_def BITCAP_WORDS_def
      BITCAP_INIT_FALSE_def BITCAP_SET_TRUE_def BITCAP_OFFSET_def BITCAP_SHIFT_def)

text \<open>The two requests over the executable store.\<close>

lemma attestation_configured:
  assumes "dataservice_instance_create True = Some (inst0 :: mem_db dataservice_instance)"
  shows "\<exists>inst. configure_data_service (ds_peer mem_lmdb vc root_block att env_ok) senv_ok 4096 (Some (cstr ''/'')) [0x1F600C] idle_socket inst0 =
    (AGENTD_STATUS_SUCCESS, idle_socket, inst)"
proof -
  have x: "inst_ctx inst0 = root_context_zero\<lparr>apicaps := [1]\<rparr>"
    using assms dataservice_instance_create_Some by (metis option.inject)
  let ?D = "dataservice_decode_and_dispatch mem_lmdb vc root_block att env_ok"
  define c1 :: "mem_db dataservice_root_context" where
    "c1 = \<lparr> root_dispose = True, apicaps = [0xFFFFFFFE], details = Some (\<lambda>_. Map.empty) \<rparr>"
  let ?b1 = "net32 0 @ net64 4096 @ [47]" and ?b2 = "net32 1 @ mem32 0x1F600C"
  have d1: "?D inst0 ?b1 = Some (0, [response_packet 0 0 0 None], inst0\<lparr>inst_ctx := c1\<rparr>)"
    by (simp add: dispatch_context_methods dataservice_decode_and_dispatch_root_context_create_def
        dataservice_decode_request_root_context_init_def dataservice_root_context_init_def x Let_def
        BITCAP_ISSET_def BITCAP_OFFSET_def BITCAP_SHIFT_def BITCAP_INIT_TRUE_def BITCAP_SET_FALSE_def
        dataservice_database_open_def root_context_zero_def c1_def)
  have d2: "?D (inst0\<lparr>inst_ctx := c1\<rparr>) ?b2 = Some (0, [response_packet 1 0 0 None], inst0\<lparr>inst_ctx := c1\<lparr>apicaps := [0x1F600C]\<rparr>\<rparr>)"
    by (simp add: dispatch_context_methods dataservice_decode_and_dispatch_root_context_reduce_caps_def
        dataservice_decode_request_root_context_reduce_caps_def codec_defs dataservice_root_context_reduce_capabilities_def
        BITCAP_ISSET_def BITCAP_OFFSET_def BITCAP_SHIFT_def BITCAP_INTERSECT_def c1_def)
  have sz: "sized_ok ?b1" "sized_ok ?b2" "sized_ok (response_packet n 0 0 None)" for n by (simp_all add: sized_ok_def)
  note p = peer_reply [OF sz(1) sz(3) d1] peer_reply [OF sz(2) sz(3) d2] and w = boxed_write [OF sz(1)] boxed_write [OF sz(2)]
  show ?thesis
    using p w by (simp add: configure_data_service_def senv_ok_def dataservice_api_sendreq_root_context_init_block_def
      dataservice_encode_request_root_context_init_def dataservice_api_sendreq_root_context_reduce_caps_block_def
      dataservice_encode_request_root_context_reduce_caps_def request_buffer_def sendreq_block_def
      dataservice_api_recvresp_root_context_init_block_def dataservice_api_recvresp_root_context_reduce_caps_block_def
      recvresp_block_def boxed_read [OF sz(3)] recv_status_def root_status_responses response_status_def)
qed

theorem data_services_confined_witness:
  "\<exists>dp inst0 dp' fd inst p'.
     supervisor_create_data_service_for_attestationservice True 3 4 = Inr dp \<and>
     dataservice_instance_create True = Some (inst0 :: mem_db dataservice_instance) \<and>
     supervisor_start_data_service parent_os (ds_peer mem_lmdb no_vccert zero_uuid True env_ok) senv_ok sample_bconf stored_conf
       idle_socket inst0 dp sample_supervisor = Returned (AGENTD_STATUS_SUCCESS, [], dp', fd, inst) p' \<and>
     confined DATASERVICE_API_CAP_APP_BLOCK_WRITE inst"
proof -
  obtain inst0 :: "mem_db dataservice_instance" where c: "dataservice_instance_create True = Some inst0"
    by (rule dataservice_instance_create_Some)
  obtain inst where conf: "configure_data_service (ds_peer mem_lmdb no_vccert zero_uuid True env_ok) senv_ok 4096 (Some (cstr ''/''))
      [0x1F600C] idle_socket inst0 = (AGENTD_STATUS_SUCCESS, idle_socket, inst)" using attestation_configured [OF c] by blast
  obtain l r q where pair: "ipc_socketpair (sample_os\<lparr>os_fork := 4711\<rparr>) sample_supervisor = Inr (l, r, q)"
    using parent_pair unfolding parent_os_def by blast
  obtain dp' p' where st: "supervisor_start_data_service parent_os (ds_peer mem_lmdb no_vccert zero_uuid True env_ok) senv_ok sample_bconf
      stored_conf idle_socket inst0 \<lparr> dsp_hdr = process_zero, supervisor_data_socket = 3, dsp_log_socket = 4, reducedcaps = [0x1F600C] \<rparr>
      sample_supervisor = Returned (AGENTD_STATUS_SUCCESS, [], dp', idle_socket, inst) p'"
    using conf pair by (simp add: supervisor_start_data_service_def dataservice_proc_def parent_os_def
      stored_conf_def sample_facts(4) Let_def)
  have "confined 21 inst"
    by (rule data_services_confined [where create = supervisor_create_data_service_for_attestationservice and bs = "[0, 1, 8, 15, 21]",
          OF _ attestation_bits c _ st run_refl])
       (simp_all add: denied_def stored_conf_def)
  then show ?thesis using attestation_bits c st by blast
qed

end
