(* ===== verification/Spec2Isabelle.thy ===== *)
theory Spec2Isabelle
  imports Ds_Service Ds_Rpc Random_Service Auth_Service Notify_Correct Canon_Round
    Config_Correct Bootstrap Proto_Confined Proto_Handshake_Correct Proto_Route
    Proto_Notify_Correct Proto_Service Attestation_Correct Supervisor_Correct
begin

text \<open>
  A verification development for the agent daemon \<^verbatim>\<open>v-c-agentd\<close>, the node of a
  blockchain that takes transactions from clients, attests them and makes them
  into blocks.  The daemon is a set of processes joined by sockets.  The data service
  owns the database: clients hold capabilities in it through child contexts, submit
  transactions to its process queue, promote and drop them, and have blocks made from
  them; everything else reaches the database by writing request packets to it and
  reading its responses.

  \<^bold>\<open>The parts modelled, and where.\<close>  All files are below \<^verbatim>\<open>src/src\<close>; each theory opens with
  the functions it models.

  \<^item> \<^verbatim>\<open>Prelude\<close>: bytes, byte order (\<^verbatim>\<open>inet/htonll.c\<close>), memory images of words and
    slices of buffers.  \<^verbatim>\<open>Status\<close>: status codes.  \<^verbatim>\<open>Bitcap\<close>: the capability sets of
    \<^verbatim>\<open>bitcap.h\<close>.
  \<^item> \<^verbatim>\<open>Lmdb\<close>: the key/value store, which is third-party code.  The record \<open>lmdb\<close> holds
    its calls; the locales \<open>lmdb_store\<close> and \<open>lmdb_reliable\<close> state what its documentation
    promises (transactions see their own writes, an abort changes nothing, a commit
    makes the writes visible), the second adding that calls do not fail.  \<open>mem_lmdb\<close> is
    an instance in memory, on which witnesses run.
  \<^item> \<^verbatim>\<open>Ds_Data\<close>: the stored records and their byte layout.  \<^verbatim>\<open>Ds_Context\<close>: the instance
    with its 1024 child slots, root and child contexts, opening and closing the
    database.  \<^verbatim>\<open>Ds_Txn\<close>: data transactions and the helpers that begin, commit and abort.
  \<^item> \<^verbatim>\<open>Ds_Queue\<close>: submit, drop, promote, get and get_first on the doubly linked process
    queue; \<^verbatim>\<open>Ds_Queue_Rep\<close> relates the stored nodes to a list of identifiers,
    \<^verbatim>\<open>Ds_Queue_Correct\<close> proves each operation against the list under every failure of the
    store, and \<^verbatim>\<open>Ds_Queue_Fifo\<close> shows that a reliable store makes it a FIFO queue (locale
    \<open>fifo_queue\<close>).
  \<^item> \<^verbatim>\<open>Ds_Read\<close>: artifacts, blocks, heights, canonized transactions and settings.
    \<^verbatim>\<open>Ds_Block\<close>: making a block from its certificate, with the certificate parser
    (third-party) as the parameter \<open>vccert\<close>; \<^verbatim>\<open>Ds_Block_Rep\<close>, \<^verbatim>\<open>Ds_Block_Correct\<close> and
    \<^verbatim>\<open>Ds_Block_Live\<close> relate the databases to a chain of block identifiers and prove
    that a block that is made extends it by one, atomically.
  \<^item> \<^verbatim>\<open>Ds_Protocol\<close>, \<^verbatim>\<open>Ds_Response\<close>, \<^verbatim>\<open>Ds_Codec\<close>: the encoders and decoders of the seventeen
    requests and their responses, with their round trips.  \<^verbatim>\<open>Ds_Dispatch\<close>: the dispatcher
    and its handlers; \<^verbatim>\<open>Ds_Dispatch_Correct\<close>: what a request can change, which requests
    are refused, invariants of all reachable instances (the step relation \<open>ds_run\<close>).
    \<^verbatim>\<open>Ds_Wire\<close> and \<^verbatim>\<open>Ds_Service\<close>: encoder, dispatcher and decoder together, and any
    sequence of requests.
  \<^item> \<^verbatim>\<open>Ipc\<close> and \<^verbatim>\<open>Ipc_Noblock\<close>: typed packets over blocking descriptors and over the
    buffers of libevent, which are the parameter \<open>evsock\<close> with the locales \<open>ev_socket\<close>
    and \<open>ev_reliable\<close>.  \<^verbatim>\<open>Service_Loop\<close>: the read and write callbacks that the services
    share; \<^verbatim>\<open>Connection\<close>: a client and a service at the two ends of a connection;
    \<^verbatim>\<open>Service_Status\<close>: status codes of the other services.
  \<^item> \<^verbatim>\<open>Ds_Loop\<close>: the callbacks of the data service.  \<^verbatim>\<open>Ds_Api\<close>: the eighty client calls.
    \<^verbatim>\<open>Ds_Rpc\<close>: a client of the data service at the other end of a connection.
  \<^item> \<^verbatim>\<open>Random_Service\<close> and \<^verbatim>\<open>Auth_Service\<close>: the random service (the random device is a
    parameter) and the key service: instance, dispatcher, callbacks and client calls.
  \<^item> \<^verbatim>\<open>Notify_Codec\<close>, \<^verbatim>\<open>Notify_Service\<close>, \<^verbatim>\<open>Notify_Correct\<close>: the notification service, which tells
    clients when a block they take for the latest one no longer is: its codec, client
    calls, instances, handlers and fibers, and an abstract specification that it
    refines, with the capabilities its interface documents.  Its trees come from the process runtime library (locale \<open>rbtree_container\<close>).
  \<^item> \<^verbatim>\<open>Canon\<close>, \<^verbatim>\<open>Canon_Control\<close>: the canonization service, a state machine that collects
    attested transactions into a block, with the builder of certificates as a
    parameter; \<^verbatim>\<open>Canon_Correct\<close>: its reachable states and their invariant;
    \<^verbatim>\<open>Canon_Round\<close>: which transactions of the process queue a round makes into a block, field by
    field of the certificate, when a data service answers the keys it is asked for.
  \<^item> \<^verbatim>\<open>Attestation\<close>, \<^verbatim>\<open>Attestation_Correct\<close>: the attestation service: its rounds over the process
    queue, the checks of a transaction, the caches, the release of the instance, the signal
    thread and the fiber that ends the service.
  \<^item> \<^verbatim>\<open>Ipc_Authed\<close>: encrypted and authenticated packets; cipher and authentication code
    are the parameter \<open>vccrypt\<close>.
  \<^item> The protocol service, which clients of the daemon talk to.  \<^verbatim>\<open>Proto\<close>: contexts,
    messages, trees and capabilities.  \<^verbatim>\<open>Proto_Control\<close>: the fiber by which the supervisor configures
    entities, capabilities and the private key.  \<^verbatim>\<open>Proto_Handshake\<close>: the handshake of a
    connection.  \<^verbatim>\<open>Proto_Dispatch\<close>: the authenticated requests of a connection and their
    nineteen handlers.  \<^verbatim>\<open>Proto_Endpoint\<close>: the fiber that owns the socket of the data service and the
    encoding of responses.  \<^verbatim>\<open>Proto_Connection\<close>: the reading and the writing fiber of a
    connection.  \<^verbatim>\<open>Proto_Notify\<close> and \<^verbatim>\<open>Proto_Service\<close>: the fibers of the notification service and of the
    random service, of accepting connections and the release of their contexts.
    \<^verbatim>\<open>Proto_Client\<close>: the calls of a client.  The theories with the ending \<^verbatim>\<open>_Correct\<close> and \<^verbatim>\<open>Proto_Typed\<close>
    hold the properties: what configuration grants, what a handshake proves of the client,
    fresh vectors, type safety of the messages.  \<^verbatim>\<open>Proto_Confined\<close>: that a connection
    stays within what was granted to its entity, over every run of the endpoint in which other
    connections open, use and close their contexts; \<^verbatim>\<open>Proto_Route\<close>: the routing of replies
    between clients, over every run of the fibers between request and reply.
  \<^item> \<^verbatim>\<open>Config\<close>, \<^verbatim>\<open>Config_Correct\<close>: the configuration, the stream that carries it between processes and
    its defaults.  \<^verbatim>\<open>Bootstrap\<close>: command line, bootstrap configuration, paths and strings.
  \<^item> \<^verbatim>\<open>Process_Status\<close>: status codes.  \<^verbatim>\<open>Privsep\<close>: privilege separation and child processes over a
    model of the operating system, in which a process has descriptors, ids, a root directory
    and an environment and any call may fail, built for OpenBSD or not.  \<^verbatim>\<open>Process_Start\<close>: the functions that fork the services;
    \<^verbatim>\<open>Process_Start_Correct\<close>: what a child is when it executes its program.  \<^verbatim>\<open>Supervisor\<close>,
    \<^verbatim>\<open>Supervisor_Correct\<close>: the three data services that the supervisor starts, with the
    capabilities each gets.  \<^verbatim>\<open>Readers\<close>, \<^verbatim>\<open>Readers_Correct\<close>: the processes that read certificate files
    for the supervisor, with the certificate library and the file system as parameters, and what
    the entities they deliver are worth.

  \<^bold>\<open>How code becomes definitions.\<close>  A C structure is a record, an operation a function with
  the name of the C function.  Out-parameters are part of the result; errors are values
  of a sum type or status codes.  Undefined behaviour (a NULL or freed pointer) is
  \<open>None\<close>, so a theorem whose conclusion is \<open>Some\<close> says that it does not occur.  The
  results of allocations are Boolean parameters.  Machine integers are words of their
  width, sizes computed in 32 bits wrap around as in the code.  Asserts of the model
  checker (\<^verbatim>\<open>MODEL_ASSERT\<close>) state what the callers provide and have no run-time effect.
  Loops over a finite structure or stream are recursive functions with a termination
  proof.  The loops that need not end, those of the read callback, of the fibers and of the
  attestation service, are \<^theory_text>\<open>partial_function\<close>s with an option, so that not ending is
  \<open>None\<close>; \<open>all_requests_served\<close>, \<open>connection_loop_terminates\<close> and \<open>attestation_round_empties_queue\<close> prove
  that theirs end.

  \<^bold>\<open>What is shown.\<close>  C1 and C2 span the components: whatever requests a client sends and
  whichever calls fail, the database holds a well-formed chain that only grows, and a
  client at the other end of a socket sees a FIFO queue.
  Then the protocol service: a connection never gets more of the data service
  than its entity was configured with, whatever other connections do in between, a handshake
  that succeeds authenticates the client, with every packet of it pinned, and capabilities are what the supervisor configured.  Next are the services around it:
  random bytes and keys reach the client over the socket, a round of the
  canonization service makes a block of the attested prefix of the queue and never leaves its
  invariant, the notification service refines its specification and answers every
  assertion once.  The data services are started with restricted capabilities, and children run
  without privileges and with their own descriptors only; the entities the daemon serves have
  the capabilities the endorser signed.  Then come liveness, type safety and termination of
  the protocol service, authenticated packets, and atomicity, functional correctness and capability
  safety of the operations of the data service, the liveness of its event loop, round
  trips of the codecs and of the packets, bounds and error behaviour.  Lemmas that describe
  defects, what the code does where its comments promise something else, stand beside the
  component they belong to (for example \<open>failed_entity_add_hidden\<close>, \<open>stop_then_kill_terminates\<close>,
  \<open>failed_acknowledgement_accepted\<close>, \<open>cancel_capability_ignored\<close>, \<open>high_descriptors_leak\<close>,
  \<open>dirname_of_root_file\<close>, \<open>short_request_undefined\<close>).

  \<^bold>\<open>Conditions and bounds.\<close>  C1 assumes that commits do not fail, since the code ignores their
  result (\<open>failed_commit_reported_as_success\<close>), that the reserved all-zero and all-one
  identifiers are not submitted (\<open>reserved_submit_lost\<close>), that the certificate parser can be
  initialized (\<open>block_make_parser_failure_undefined\<close>), and fewer than \<open>2 ^ 64\<close> blocks.
  A value read from the store keeps the contents it was read with until the transaction
  ends; the code keeps pointers into the memory map across later updates of the same transaction,
  which the documentation of LMDB does not allow.
  Packets of the non-blocking sockets are below 1 GB, the limit of the reader.  The locale
  \<open>ev_reliable\<close> idealizes them further: writing a buffer to its socket does not fail, and
  what was written arrives, in arbitrary fragments; the properties over non-blocking sockets
  rest on it, or on its instance in memory.
  A read or write of a fiber of the protocol service is atomic, no other fiber runs during
  it, and the context of a connection that was released keeps its place in the table of
  fibers.  The theorem on the handshake excludes one run, in which the read of the
  acknowledgement fails with its buffer allocated, which the code takes for a success (\<open>ack_left\<close>).
  The confinement of the children needs the descriptors of the supervisor to be below 256.
  An instance of the notification service that cancels assertions must hold the capability to
  assert as well, which the code checks in place of the documented one.

  \<^bold>\<open>Not modelled.\<close>  The registration of callbacks with libevent and of fibers with the
  process runtime, with the entry points of the services that do nothing else
  (\<^verbatim>\<open>protocolservice_run\<close>, the event loops, the management fibers), and signal handlers.  The accept loop of
  the listen service, which passes descriptors on.  Of the supervisor, the creation of the other
  services and the order in which they start.  The lexer and the parser
  of the configuration file are generated by flex and bison from grammars.
\<close>

subsection \<open>The data service as a whole\<close>

text \<open>
  C1. Once the root context exists, any sequence of requests, well-formed or not, that
  submits no transaction with a reserved identifier (all zero or all one bits) is served
  without undefined behaviour, whichever allocations, writes and calls of the store other
  than a commit fail, as long as the certificate parser can be initialized: the database
  always holds a well-formed chain of blocks, process queue and artifacts, and the chain
  is only ever extended, by at most one block per request.  The conditions are needed: a
  reserved identifier is lost in the queue (reserved_submit_lost), a parser that was
  not initialized is disposed (block_make_parser_failure_undefined), the result of a commit
  is ignored (failed_commit_reported_as_success), and heights have 64 bits: blocks and
  requests are fewer than 2 to the 64, a request is below 2 to the 63 bytes.  A value read
  from the store is taken as it was read.
\<close>

theorem requests_extend_chain:
  assumes "lmdb_store ops ev tv" and "\<forall>e t. fst (mdb_txn_commit ops e None t) = 0"
    and "vccert_slices vc" and "\<forall>cert. vccert_parser_init_ok vc cert"
    and "ds_reachable ops vc root att inst" and "\<not> root_has inst DATASERVICE_API_CAP_LL_ROOT_CONTEXT_CREATE"
    and "details (inst_ctx inst) = Some e" and "chain_state root (ev e) ids q"
    and "\<forall>r \<in> set rs. request_ok (snd r)" and "length ids + length rs < 2 ^ 64"
  shows "\<exists>inst' e' more q'. serve_all ops vc root att inst rs = Some inst' \<and> details (inst_ctx inst') = Some e' \<and>
     chain_state root (ev e') (ids @ more) q' \<and> length more \<le> length rs"
proof -
  have srv: "ds_server ops ev tv vc" using assms(1-4) by (simp add: ds_server_def ds_server_axioms_def)
  have inv: "inst_inv inst" using assms(5) created_inv run_inv unfolding ds_reachable_def by blast
  show ?thesis by (rule ds_server.serve_all_serving [OF srv assms(7,8) inv assms(6,9,10)])
qed

theorem requests_extend_chain_witness:
  "\<exists>inst inst' :: mem_db dataservice_instance. \<exists>e' more q'. ds_reachable mem_lmdb demo_vccert (demo_id 4) True inst \<and>
     serve_all mem_lmdb demo_vccert (demo_id 4) True inst
       [(env_ok, net32 2 @ mem32 0xFFFFFFFF), (env_ok, net32 15 @ net32 1023 @ demo_id 1 @ demo_id 2 @ [7]), (env_ok, [])] = Some inst' \<and>
     details (inst_ctx inst') = Some e' \<and> chain_state (demo_id 4) e' more q' \<and> length more \<le> 3"
proof -
  obtain inst :: "mem_db dataservice_instance" where r: "ds_reachable mem_lmdb demo_vccert (demo_id 4) True inst"
    and d: "details (inst_ctx inst) = Some (\<lambda>_. Map.empty)" and a: "apicaps (inst_ctx inst) = [0x8004]"
    using demo_service [of demo_vccert "demo_id 4" True] by metis
  have live: "\<not> root_has inst DATASERVICE_API_CAP_LL_ROOT_CONTEXT_CREATE"
    using a by (simp add: BITCAP_ISSET_def BITCAP_OFFSET_def BITCAP_SHIFT_def)
  have c: "chain_state (demo_id 4) (\<lambda>_. Map.empty) [] []"
    by (auto simp: chain_state_def block_rep_def height_index_def artifacts_ok_def txns_ok_def pq_rep_def)
  let ?rs = "[(env_ok, net32 2 @ mem32 0xFFFFFFFF), (env_ok, net32 15 @ net32 1023 @ demo_id 1 @ demo_id 2 @ [7]), (env_ok, [])]"
  have ok: "\<forall>r \<in> set ?rs. request_ok (snd r)"
    by (simp add: request_ok_def submits_reserved_def slice_def)
  have vc: "\<forall>cert. vccert_parser_init_ok demo_vccert cert" by (simp add: demo_vccert_def)
  have "\<forall>e t. fst (mdb_txn_commit mem_lmdb e None t) = 0" using mem.commit_ok by blast
  from requests_extend_chain [where ev = "\<lambda>e. e", OF mem.lmdb_store_axioms this demo_slices vc r live d c ok]
  show ?thesis using r by fastforce
qed



end
